(* ===== verification/GoPrelude.thy ===== *)
theory GoPrelude
  imports Main "HOL-Library.Word"
begin

text \<open>
  The vocabulary every component of the development shares: the outcome of a Go call (a value, an
  error, or a panic), the parts of \<open>math/big\<close>, \<open>strings\<close> and \<open>encoding/hex\<close> the SDK uses,
  and the round-trip lemmas about them. Go strings are byte strings, so they are \<open>string\<close>
  (one \<open>char\<close> per byte); \<open>[]byte\<close> is a list of 8-bit words; \<open>*big.Int\<close> is \<open>int\<close>, with
  \<open>option\<close> where the pointer may be nil.
\<close>

named_theorems res_simps \<open>rules that take an outcome apart\<close>
named_theorems returns_intros \<open>introduction rules for steps that do not panic\<close>

type_synonym bytes = "8 word list"
type_synonym u64 = "64 word"

subsection \<open>Outcomes\<close>

text \<open>
  A Go call returns a value or an \<open>error\<close>, or panics. A \<open>continue\<close> on \<open>err != nil\<close>
  swallows an error but not a panic, so the two stay apart.
\<close>

datatype go_error =
    ErrMsg string
  | ErrWrap string go_error
  | ErrJoin go_error go_error
  | ErrStealthMismatch nat nat
  | ErrWithAmount string string
  | ErrFeesOver int string
  | ErrRelayer string string

datatype 'a res = Ok 'a | Err go_error | Panic string

fun andThen :: "'a res \<Rightarrow> ('a \<Rightarrow> 'b res) \<Rightarrow> 'b res" where
  "andThen (Ok x) f = f x"
| "andThen (Err e) f = Err e"
| "andThen (Panic p) f = Panic p"

lemma andThen_eq_Ok [res_simps]:
  "andThen m f = Ok y \<longleftrightarrow> (\<exists>x. m = Ok x \<and> f x = Ok y)"
  by (cases m) auto

lemma andThen_eq_Err [res_simps]:
  "andThen m f = Err e \<longleftrightarrow> m = Err e \<or> (\<exists>x. m = Ok x \<and> f x = Err e)"
  by (cases m) auto

lemma andThen_assoc: "andThen (andThen m f) g = andThen m (\<lambda>x. andThen (f x) g)"
  by (cases m) auto

fun wrapErr :: "string \<Rightarrow> 'a res \<Rightarrow> 'a res" where
  "wrapErr msg (Ok x) = Ok x"
| "wrapErr msg (Err e) = Err (ErrWrap msg e)"
| "wrapErr msg (Panic p) = Panic p"

lemma wrapErr_eq_Ok [res_simps]: "wrapErr msg m = Ok x \<longleftrightarrow> m = Ok x"
  by (cases m) auto

fun isOk :: "'a res \<Rightarrow> bool" where
  "isOk (Ok x) = True"
| "isOk (Err e) = False"
| "isOk (Panic p) = False"

lemma isOk_iff: "isOk m \<longleftrightarrow> (\<exists>x. m = Ok x)"
  by (cases m) auto

text \<open>Reading through a nil pointer panics.\<close>

fun deref :: "'a option \<Rightarrow> 'a res" where
  "deref None = Panic ''nil pointer dereference''"
| "deref (Some x) = Ok x"

lemma deref_eq_Ok [res_simps]: "deref p = Ok x \<longleftrightarrow> p = Some x"
  by (cases p) auto

lemma deref_not_Err [simp]: "deref p \<noteq> Err e"
  by (cases p) auto

text \<open>A loop that fills a slice and stops at the first failure.\<close>

fun mapRes :: "('a \<Rightarrow> 'b res) \<Rightarrow> 'a list \<Rightarrow> 'b list res" where
  "mapRes f [] = Ok []"
| "mapRes f (x # xs) = andThen (f x) (\<lambda>y. andThen (mapRes f xs) (\<lambda>ys. Ok (y # ys)))"

lemma mapRes_Ok_iff:
  "mapRes f xs = Ok ys \<longleftrightarrow> list_all2 (\<lambda>x y. f x = Ok y) xs ys"
proof (induction xs arbitrary: ys)
  case Nil
  then show ?case by auto
next
  case (Cons x xs)
  show ?case
    by (cases ys) (auto simp: res_simps Cons.IH)
qed

lemma mapRes_length: "mapRes f xs = Ok ys \<Longrightarrow> length ys = length xs"
  by (simp add: mapRes_Ok_iff list_all2_lengthD)

lemma mapRes_all_Ok: "(\<And>x. x \<in> set xs \<Longrightarrow> f x = Ok (g x)) \<Longrightarrow> mapRes f xs = Ok (map g xs)"
  by (induction xs) auto

text \<open>A loop that skips the items that failed.\<close>

fun okList :: "'a res list \<Rightarrow> 'a list" where
  "okList [] = []"
| "okList (Ok x # rs) = x # okList rs"
| "okList (Err e # rs) = okList rs"
| "okList (Panic p # rs) = okList rs"

lemma okList_append [simp]: "okList (xs @ ys) = okList xs @ okList ys"
  by (induction xs rule: okList.induct) simp_all

lemma okList_member: "x \<in> set (okList rs) \<longleftrightarrow> Ok x \<in> set rs"
  by (induction rs rule: okList.induct) auto

text \<open>
  A loop that does not end has no outcome; where it is a step of a longer call it is treated like a
  panic, which does not return either.
\<close>

fun returned :: "'a res option \<Rightarrow> 'a res" where
  "returned None = Panic ''does not return''"
| "returned (Some r) = r"

text \<open>Methods with a pointer receiver return the receiver's new state beside their outcome.\<close>

type_synonym ('s, 'a) action = "'s \<Rightarrow> 'a res \<times> 's"

definition bindA :: "('s, 'a) action \<Rightarrow> ('a \<Rightarrow> ('s, 'b) action) \<Rightarrow> ('s, 'b) action" where
  "bindA m f s = (case m s of
      (Ok x, s') \<Rightarrow> f x s'
    | (Err e, s') \<Rightarrow> (Err e, s')
    | (Panic p, s') \<Rightarrow> (Panic p, s'))"

definition liftA :: "'a res \<Rightarrow> ('s, 'a) action" where
  "liftA r s = (r, s)"

lemma bindA_Ok: "m s = (Ok x, s') \<Longrightarrow> bindA m f s = f x s'"
  by (simp add: bindA_def)

lemma bindA_liftA_Ok [simp]: "bindA (liftA (Ok x)) f s = f x s"
  by (simp add: bindA_def liftA_def)

lemma bindA_eq_Ok [res_simps]:
  "bindA m f s = (Ok y, s2) \<longleftrightarrow> (\<exists>x s1. m s = (Ok x, s1) \<and> f x s1 = (Ok y, s2))"
  by (auto simp: bindA_def split: prod.splits res.splits)

lemma liftA_eq [res_simps]: "liftA r s = (r', s') \<longleftrightarrow> r = r' \<and> s = s'"
  by (simp add: liftA_def)

text \<open>A step that does not panic; its errors are outcomes like any other.\<close>

definition returns :: "('s, 'a) action \<Rightarrow> 's \<Rightarrow> bool" where
  "returns m s \<longleftrightarrow> (\<forall>p. fst (m s) \<noteq> Panic p)"

lemma returns_bind [returns_intros]:
  "returns m s \<Longrightarrow> (\<And>x s'. m s = (Ok x, s') \<Longrightarrow> returns (f x) s') \<Longrightarrow> returns (bindA m f) s"
  by (auto simp: returns_def bindA_def split: res.splits prod.splits)

lemma returns_lift [returns_intros]: "(\<And>p. r \<noteq> Panic p) \<Longrightarrow> returns (liftA r) s"
  by (simp add: returns_def liftA_def)

subsection \<open>Digits and decimal or hexadecimal text (math/big)\<close>

definition digitChar :: "nat \<Rightarrow> char" where
  "digitChar d = ''0123456789abcdef'' ! d"

definition digitVal :: "char \<Rightarrow> nat option" where
  "digitVal c = (let u = (of_char c :: nat) in
     if 48 \<le> u \<and> u \<le> 57 then Some (u - 48)
     else if 97 \<le> u \<and> u \<le> 102 then Some (u - 87)
     else if 65 \<le> u \<and> u \<le> 70 then Some (u - 55)
     else None)"

lemma less_16_cases:
  "(d::nat) < 16 \<Longrightarrow> d \<in> {0,1,2,3,4,5,6,7,8,9,10,11,12,13,14,15}"
  by (simp, arith)

lemma digitVal_digitChar [simp]: "d < 16 \<Longrightarrow> digitVal (digitChar d) = Some d"
  by (drule less_16_cases) (auto simp: digitChar_def digitVal_def)

lemma digitChar_not_special:
  "d < 16 \<Longrightarrow> digitChar d \<notin> {CHR ''x'', CHR ''X'', CHR ''-'', CHR ''+'', CHR '' '', CHR '','', CHR ''.'', CHR 0x22}"
  by (drule less_16_cases) (auto simp: digitChar_def)

lemma digitChar_inject [simp]: "d < 16 \<Longrightarrow> e < 16 \<Longrightarrow> digitChar d = digitChar e \<longleftrightarrow> d = e"
  by (metis digitVal_digitChar option.inject)

function natText :: "nat \<Rightarrow> nat \<Rightarrow> string" where
  "natText b n = (if n < b \<or> b < 2 then [digitChar n] else natText b (n div b) @ [digitChar (n mod b)])"
  by pat_completeness auto
termination
  by (relation "measure (\<lambda>(b, n). n)") auto

declare natText.simps [simp del]

fun scanDigits :: "nat \<Rightarrow> nat \<Rightarrow> string \<Rightarrow> nat option" where
  "scanDigits b acc [] = Some acc"
| "scanDigits b acc (c # cs) =
     (case digitVal c of None \<Rightarrow> None
      | Some d \<Rightarrow> if d < b then scanDigits b (acc * b + d) cs else None)"

definition scanNat :: "nat \<Rightarrow> string \<Rightarrow> nat option" where
  "scanNat b s = (if s = [] then None else scanDigits b 0 s)"

text \<open>\<open>big.Int.String\<close> and \<open>big.Int.Text\<close>; \<open>big.Int.SetString\<close> with a base of 10 or 16.\<close>

definition bigText :: "nat \<Rightarrow> int \<Rightarrow> string" where
  "bigText b n = (if n < 0 then CHR ''-'' # natText b (nat (- n)) else natText b (nat n))"

abbreviation bigString :: "int \<Rightarrow> string" where
  "bigString \<equiv> bigText 10"

fun setString :: "nat \<Rightarrow> string \<Rightarrow> int option" where
  "setString b [] = None"
| "setString b (c # cs) =
     (if c = CHR ''-'' then map_option (\<lambda>n. - int n) (scanNat b cs)
      else if c = CHR ''+'' then map_option int (scanNat b cs)
      else map_option int (scanNat b (c # cs)))"

lemma scanDigits_append:
  "scanDigits b acc (s @ t) = (case scanDigits b acc s of None \<Rightarrow> None | Some a \<Rightarrow> scanDigits b a t)"
  by (induction b acc s rule: scanDigits.induct) (auto split: option.splits)

lemma natText_nonempty [simp]: "natText b n \<noteq> []"
  by (subst natText.simps) simp

lemma scanDigits_natText:
  "2 \<le> b \<Longrightarrow> b \<le> 16 \<Longrightarrow> scanDigits b 0 (natText b n) = Some n"
proof (induction b n rule: natText.induct)
  case (1 b n)
  show ?case
  proof (cases "n < b")
    case True
    with "1.prems" show ?thesis by (subst natText.simps) simp
  next
    case False
    with 1 have "scanDigits b 0 (natText b (n div b)) = Some (n div b)" by simp
    moreover have "n mod b < b" using "1.prems" by simp
    moreover have "n mod b < 16" using "1.prems" by (meson less_le_trans \<open>n mod b < b\<close>)
    moreover have "\<not> (n < b \<or> b < 2)" using False "1.prems" by simp
    ultimately show ?thesis
      by (subst natText.simps) (simp add: scanDigits_append)
  qed
qed

lemma natText_digits: "2 \<le> b \<Longrightarrow> b \<le> 16 \<Longrightarrow> set (natText b n) \<subseteq> digitChar ` {..<b}"
proof (induction b n rule: natText.induct)
  case (1 b n)
  have "\<not> (n < b \<or> b < 2) \<Longrightarrow> set (natText b (n div b)) \<subseteq> digitChar ` {..<b}"
    using 1 by simp
  moreover have "n mod b < b" using "1.prems" by simp
  ultimately show ?case using "1.prems" by (subst natText.simps) auto
qed

lemma natText_no_special:
  assumes "2 \<le> b" "b \<le> 16"
  shows "set (natText b n) \<inter> {CHR ''x'', CHR ''X'', CHR ''-'', CHR ''+'', CHR '' '', CHR '','', CHR ''.'', CHR 0x22} = {}"
proof -
  have "set (natText b n) \<subseteq> digitChar ` {..<16}"
    using natText_digits[OF assms, of n] assms(2) by auto
  then show ?thesis using digitChar_not_special by fastforce
qed

lemma setString_natText:
  assumes "2 \<le> b" "b \<le> 16"
  shows "setString b (natText b n) = Some (int n)"
proof (cases "natText b n")
  case (Cons c cs)
  then have "c \<in> set (natText b n)" by simp
  then have "c \<noteq> CHR ''-''" "c \<noteq> CHR ''+''"
    using natText_no_special[OF assms, of n] by auto
  then show ?thesis
    using scanDigits_natText[OF assms, of n] Cons by (simp add: scanNat_def)
qed simp

lemma setString_bigText [simp]:
  assumes "2 \<le> b" "b \<le> 16"
  shows "setString b (bigText b n) = Some n"
  using assms
  by (auto simp: bigText_def setString_natText scanNat_def scanDigits_natText)

lemma bigText_inject [simp]:
  "2 \<le> b \<Longrightarrow> b \<le> 16 \<Longrightarrow> bigText b m = bigText b n \<longleftrightarrow> m = n"
  by (metis setString_bigText option.inject)

lemma bigText_nonempty [simp]: "bigText b n \<noteq> []"
  by (simp add: bigText_def)

subsection \<open>Byte strings: hexadecimal text and big-endian integers\<close>

definition hexEncode :: "bytes \<Rightarrow> string" where
  "hexEncode bs = concat (map (\<lambda>b. [digitChar (unat b div 16), digitChar (unat b mod 16)]) bs)"

fun hexDecode :: "string \<Rightarrow> bytes res" where
  "hexDecode [] = Ok []"
| "hexDecode [c] = Err (ErrMsg ''encoding/hex: odd length hex string'')"
| "hexDecode (c # d # cs) =
     (case (digitVal c, digitVal d) of
        (Some h, Some l) \<Rightarrow> andThen (hexDecode cs) (\<lambda>bs. Ok (of_nat (h * 16 + l) # bs))
      | _ \<Rightarrow> Err (ErrMsg ''encoding/hex: invalid byte''))"

lemma hexEncode_simps [simp]:
  "hexEncode [] = []"
  "hexEncode (b # bs) = digitChar (unat b div 16) # digitChar (unat b mod 16) # hexEncode bs"
  "hexEncode (as @ bs) = hexEncode as @ hexEncode bs"
  by (simp_all add: hexEncode_def)

lemma unat_byte_less: "unat (b :: 8 word) < 256"
  using unsigned_less [of b] by simp

lemma byte_digits [simp]:
  "unat (b :: 8 word) div 16 < 16" "unat b mod 16 < 16"
  using unat_byte_less [of b] by auto

lemma hexDecode_hexEncode [simp]: "hexDecode (hexEncode bs) = Ok bs"
proof (induction bs)
  case (Cons b bs)
  have "unat b div 16 * 16 + unat b mod 16 = unat b" by simp
  then show ?case using Cons by simp
qed simp

lemma length_hexEncode [simp]: "length (hexEncode bs) = 2 * length bs"
  by (induction bs) auto

lemma hexEncode_digits: "set (hexEncode bs) \<subseteq> digitChar ` {..<16}"
proof (induction bs)
  case (Cons b bs)
  have "digitChar (unat b div 16) \<in> digitChar ` {..<16}" "digitChar (unat b mod 16) \<in> digitChar ` {..<16}"
    using byte_digits [of b] by (simp_all only: imageI lessThan_iff)
  then show ?case using Cons by simp
qed simp

lemma hexEncode_no_x: "CHR ''x'' \<notin> set (hexEncode bs)"
proof
  assume "CHR ''x'' \<in> set (hexEncode bs)"
  then have "CHR ''x'' \<in> digitChar ` {..<16}" by (rule subsetD [OF hexEncode_digits])
  then obtain d where "d < 16" "digitChar d = CHR ''x''" by (elim imageE) simp
  then show False using digitChar_not_special [of d] by simp
qed

definition bytesOfString :: "string \<Rightarrow> bytes" where
  "bytesOfString s = map (\<lambda>c. of_nat (of_char c)) s"

definition stringOfBytes :: "bytes \<Rightarrow> string" where
  "stringOfBytes bs = map (\<lambda>b. char_of (unat b)) bs"

lemma stringOfBytes_bytesOfString [simp]: "stringOfBytes (bytesOfString s) = s"
proof -
  have "char_of (unat (of_nat (of_char c) :: 8 word)) = c" for c
  proof -
    have "(of_char c :: nat) < 256"
      by (metis of_char_mod_256 mod_less_divisor zero_less_numeral)
    then have "unat (of_nat (of_char c) :: 8 word) = of_char c"
      by (simp add: unat_of_nat)
    then show ?thesis by simp
  qed
  then show ?thesis by (simp add: stringOfBytes_def bytesOfString_def map_idI)
qed

lemma bytesOfString_append [simp]: "bytesOfString (s @ t) = bytesOfString s @ bytesOfString t"
  by (simp add: bytesOfString_def)

lemma length_bytesOfString [simp]: "length (bytesOfString s) = length s"
  by (simp add: bytesOfString_def)

text \<open>\<open>big.Int.SetBytes\<close>, and \<open>big.Int.FillBytes\<close>, which panics when the value does not fit.\<close>

definition setBytes :: "bytes \<Rightarrow> int" where
  "setBytes bs = foldl (\<lambda>a b. a * 256 + uint b) 0 bs"

primrec natToBE :: "nat \<Rightarrow> nat \<Rightarrow> bytes" where
  "natToBE 0 n = []"
| "natToBE (Suc k) n = natToBE k (n div 256) @ [of_nat (n mod 256)]"

definition fillBytes :: "int \<Rightarrow> nat \<Rightarrow> bytes res" where
  "fillBytes v len =
     (if nat \<bar>v\<bar> < 256 ^ len then Ok (natToBE len (nat \<bar>v\<bar>))
      else Panic ''math/big: buffer too small to fit value'')"

lemma length_natToBE [simp]: "length (natToBE k n) = k"
  by (induction k arbitrary: n) auto

lemma setBytes_snoc: "setBytes (bs @ [b]) = setBytes bs * 256 + uint b"
  by (simp add: setBytes_def)

lemma setBytes_Nil [simp]: "setBytes [] = 0"
  by (simp add: setBytes_def)

lemma setBytes_natToBE: "n < 256 ^ k \<Longrightarrow> setBytes (natToBE k n) = int n"
proof (induction k arbitrary: n)
  case (Suc k)
  have "n div 256 < 256 ^ k" using Suc.prems by (simp add: less_mult_imp_div_less mult.commute)
  then have IH: "setBytes (natToBE k (n div 256)) = int (n div 256)" by (rule Suc.IH)
  have "uint (of_nat (n mod 256) :: 8 word) = int (n mod 256)"
    by (simp add: uint_nat unat_of_nat)
  then show ?case using IH
    by (simp add: setBytes_snoc zdiv_int zmod_int)
qed simp

lemma setBytes_bounds: "0 \<le> setBytes bs \<and> setBytes bs < 256 ^ length bs"
proof (induction bs rule: rev_induct)
  case (snoc b bs)
  have "0 \<le> uint b" "uint b < 256" using uint_bounded [of b] by auto
  then show ?case using snoc by (auto simp: setBytes_snoc)
qed simp

lemma natToBE_setBytes: "length bs = k \<Longrightarrow> natToBE k (nat (setBytes bs)) = bs"
proof (induction bs arbitrary: k rule: rev_induct)
  case (snoc b bs)
  have b: "0 \<le> uint b" "uint b < 256" using uint_bounded [of b] by auto
  have "0 \<le> setBytes bs" using setBytes_bounds by blast
  then have "nat (setBytes bs * 256 + uint b) = nat (setBytes bs) * 256 + nat (uint b)"
    using b by (simp add: nat_add_distrib nat_mult_distrib)
  moreover have "nat (uint b) < 256" using unat_byte_less [of b] by simp
  moreover have "of_nat (nat (uint b)) = b" by simp
  ultimately show ?case using snoc by (auto simp: setBytes_snoc)
qed simp

lemma fillBytes_setBytes: "fillBytes (setBytes bs) (length bs) = Ok bs"
proof -
  have "0 \<le> setBytes bs" "setBytes bs < 256 ^ length bs" using setBytes_bounds by auto
  then have "nat (setBytes bs) < 256 ^ length bs" by (simp add: nat_less_iff)
  then show ?thesis using \<open>0 \<le> setBytes bs\<close> by (simp add: fillBytes_def natToBE_setBytes)
qed

lemma fillBytes_Ok_length: "fillBytes v k = Ok bs \<Longrightarrow> length bs = k"
  by (auto simp: fillBytes_def split: if_splits)

lemma setBytes_fillBytes: "fillBytes v k = Ok bs \<Longrightarrow> setBytes bs = \<bar>v\<bar>"
  by (auto simp: fillBytes_def setBytes_natToBE split: if_splits)

text \<open>\<open>big.Int.BitLen\<close> of the absolute value.\<close>

fun natBitLen :: "nat \<Rightarrow> nat" where
  "natBitLen n = (if n = 0 then 0 else Suc (natBitLen (n div 2)))"

declare natBitLen.simps [simp del]

definition bitLen :: "int \<Rightarrow> nat" where
  "bitLen v = natBitLen (nat \<bar>v\<bar>)"

lemma natBitLen_le_iff: "natBitLen n \<le> k \<longleftrightarrow> n < 2 ^ k"
proof (induction n arbitrary: k rule: natBitLen.induct)
  case (1 n)
  show ?case
  proof (cases "n = 0")
    case True
    then show ?thesis by (simp add: natBitLen.simps)
  next
    case False
    show ?thesis
    proof (cases k)
      case 0
      then show ?thesis using False by (simp add: natBitLen.simps [of n])
    next
      case (Suc j)
      have "natBitLen (n div 2) \<le> j \<longleftrightarrow> n div 2 < 2 ^ j" using 1 False by simp
      also have "\<dots> \<longleftrightarrow> n < 2 ^ k" using Suc by auto
      finally show ?thesis using False Suc by (simp add: natBitLen.simps [of n])
    qed
  qed
qed

text \<open>\<open>big.Int.Quo\<close> truncates towards zero.\<close>

definition quo :: "int \<Rightarrow> int \<Rightarrow> int" where
  "quo a b = sgn a * sgn b * (\<bar>a\<bar> div \<bar>b\<bar>)"

lemma quo_nonneg: "0 \<le> a \<Longrightarrow> 0 < b \<Longrightarrow> quo a b = a div b"
  by (cases "a = 0") (auto simp: quo_def)

subsection \<open>The strings package\<close>

text \<open>
  The case mappings and \<open>TrimSpace\<close> are the ASCII part of the Go functions; addresses, symbols
  and numbers are ASCII in this code.
\<close>

definition hasPrefix :: "string \<Rightarrow> string \<Rightarrow> bool" where
  "hasPrefix s pre = (take (length pre) s = pre)"

definition trimPrefix :: "string \<Rightarrow> string \<Rightarrow> string" where
  "trimPrefix s pre = (if hasPrefix s pre then drop (length pre) s else s)"

fun containsStr :: "string \<Rightarrow> string \<Rightarrow> bool" where
  "containsStr [] sub = (sub = [])"
| "containsStr (c # cs) sub = (hasPrefix (c # cs) sub \<or> containsStr cs sub)"

definition lowerChar :: "char \<Rightarrow> char" where
  "lowerChar c = (let u = (of_char c :: nat) in if 65 \<le> u \<and> u \<le> 90 then char_of (u + 32) else c)"

definition toLower :: "string \<Rightarrow> string" where
  "toLower s = map lowerChar s"

definition equalFold :: "string \<Rightarrow> string \<Rightarrow> bool" where
  "equalFold s t = (toLower s = toLower t)"

definition isSpace :: "char \<Rightarrow> bool" where
  "isSpace c = (let u = (of_char c :: nat) in u = 32 \<or> (9 \<le> u \<and> u \<le> 13))"

definition trimSpace :: "string \<Rightarrow> string" where
  "trimSpace s = rev (dropWhile isSpace (rev (dropWhile isSpace s)))"

text \<open>\<open>strings.Split\<close> with a non-empty separator: the scan takes the leftmost match each time.\<close>

function splitFrom :: "string \<Rightarrow> string \<Rightarrow> string \<Rightarrow> string list" where
  "splitFrom sep cur [] = [rev cur]"
| "splitFrom sep cur (c # cs) =
     (if sep \<noteq> [] \<and> hasPrefix (c # cs) sep then rev cur # splitFrom sep [] (drop (length sep) (c # cs))
      else splitFrom sep (c # cur) cs)"
  by pat_completeness auto
termination
  by (relation "measure (\<lambda>(sep, cur, s). length s)") (auto simp: neq_Nil_conv)

definition splitStr :: "string \<Rightarrow> string \<Rightarrow> string list" where
  "splitStr s sep = splitFrom sep [] s"

fun joinStr :: "string list \<Rightarrow> string \<Rightarrow> string" where
  "joinStr [] sep = []"
| "joinStr [s] sep = s"
| "joinStr (s # t # ss) sep = s @ sep @ joinStr (t # ss) sep"

lemma equalFold_refl [simp]: "equalFold s s"
  by (simp add: equalFold_def)

lemma equalFold_sym: "equalFold s t \<longleftrightarrow> equalFold t s"
  by (auto simp: equalFold_def)

lemma equalFold_trans: "equalFold s t \<Longrightarrow> equalFold t u \<Longrightarrow> equalFold s u"
  by (simp add: equalFold_def)

lemma hasPrefix_append [simp]: "hasPrefix (p @ s) p"
  by (simp add: hasPrefix_def)

lemma trimSpace_id: "(\<And>c. c \<in> set s \<Longrightarrow> \<not> isSpace c) \<Longrightarrow> trimSpace s = s"
proof -
  assume a: "\<And>c. c \<in> set s \<Longrightarrow> \<not> isSpace c"
  have "dropWhile isSpace t = t" if "set t \<subseteq> set s" for t
    using a that by (cases t) auto
  then show ?thesis by (simp add: trimSpace_def)
qed

lemma digitChar_not_space: "d < 16 \<Longrightarrow> \<not> isSpace (digitChar d)"
  by (drule less_16_cases) (auto simp: digitChar_def isSpace_def)

end
