(* ===== verification/MerkleTree.thy ===== *)
theory MerkleTree
  imports GoPrelude "HOL-Library.AList"
begin

text \<open>
  The incremental Merkle tree of \<open>data-structures/merkletree/impl.go\<close>. Nodes are numbered as in a
  binary heap: 1 is the root, the leaves start at \<open>2 ^ (levels - 1)\<close>. The Go maps are keyed by the
  decimal text of the node number (or of the leaf value, for \<open>reverseTree\<close>); a Go map is an
  association list here, so that its entries can be iterated over.
  An operation that may panic returns \<open>res\<close>. The two verification-path loops shift an index to
  the right until it is 0, which never happens for a negative index: they are
  \<open>partial_function (option)\<close>, and \<open>None\<close> is the loop that does not end.
\<close>

record merkleTree =
  hashFn :: "int \<Rightarrow> int \<Rightarrow> int"
  levels :: nat
  defaultValue :: int
  tree :: "(string \<times> int) list"
  reverseTree :: "(string \<times> int) list"
  mtCount :: int
  mtIndex :: int

record merkleTreeJSON =
  jsonTree :: "(string \<times> string) list"
  jsonReverseTree :: "(string \<times> string) list option"
  jsonCount :: string
  jsonIndex :: string

definition MerkleLevels :: nat where
  "MerkleLevels = 200"

definition CircomMerkleLength :: nat where
  "CircomMerkleLength = 25"

definition startIdx :: "nat \<Rightarrow> int" where
  "startIdx lvls = 2 ^ (lvls - 1)"

definition logarithm2 :: "int \<Rightarrow> nat" where
  "logarithm2 n = (if n \<le> 0 then 0 else bitLen (n - 1))"

definition NewTree :: "(int \<Rightarrow> int \<Rightarrow> int) \<Rightarrow> int \<Rightarrow> nat \<Rightarrow> merkleTree" where
  "NewTree h d lvls0 =
     (let lvls = (if lvls0 = 0 then MerkleLevels else lvls0)
      in \<lparr>hashFn = h, levels = lvls, defaultValue = d, tree = [], reverseTree = [],
          mtCount = 0, mtIndex = startIdx lvls\<rparr>)"

definition GetStartIndex :: "merkleTree \<Rightarrow> int" where
  "GetStartIndex m = startIdx (levels m)"

definition GetValue :: "merkleTree \<Rightarrow> int \<Rightarrow> int option" where
  "GetValue m i = map_of (tree m) (bigString i)"

text \<open>A missing child reads as the default value.\<close>

definition nodeOr :: "merkleTree \<Rightarrow> int \<Rightarrow> int" where
  "nodeOr m i = (case map_of (tree m) (bigString i) of None \<Rightarrow> defaultValue m | Some v \<Rightarrow> v)"

fun rehashUp :: "nat \<Rightarrow> int \<Rightarrow> merkleTree \<Rightarrow> merkleTree" where
  "rehashUp 0 cur0 m = m"
| "rehashUp (Suc k) cur0 m =
     (let cur = cur0 div 2; left = 2 * cur; right = left + 1
      in rehashUp k cur
           (m\<lparr>tree := AList.update (bigString cur) (hashFn m (nodeOr m left) (nodeOr m right)) (tree m)\<rparr>))"

definition forceInsert :: "int \<Rightarrow> int \<Rightarrow> merkleTree \<Rightarrow> merkleTree res" where
  "forceInsert v nodeIndex m =
     (let si = GetStartIndex m in
      if nodeIndex < si then Panic ''nodeIndex below startIndex''
      else
        (let m1 = m\<lparr>tree := AList.update (bigString nodeIndex) v (tree m),
                    reverseTree := AList.update (bigString v) nodeIndex (reverseTree m)\<rparr>;
             twoPower = logarithm2 (mtIndex m - si)
         in Ok (rehashUp twoPower nodeIndex m1)))"

definition countAndIndex :: "int \<Rightarrow> merkleTree \<Rightarrow> merkleTree" where
  "countAndIndex nodeIndex m =
     (let m1 = (if map_of (tree m) (bigString nodeIndex) = None
                then m\<lparr>mtCount := mtCount m + 1\<rparr> else m);
          nxt = nodeIndex + 1
      in if nxt > mtIndex m then m1\<lparr>mtIndex := nxt\<rparr> else m1)"

definition InsertLeaf :: "int \<Rightarrow> int \<Rightarrow> merkleTree \<Rightarrow> merkleTree res" where
  "InsertLeaf v nodeIndex m = forceInsert v nodeIndex (countAndIndex nodeIndex m)"

definition RemoveLeaf :: "int \<Rightarrow> merkleTree \<Rightarrow> merkleTree res" where
  "RemoveLeaf nodeIndex m = forceInsert (defaultValue m) nodeIndex m"

function lastLeavesLoop :: "merkleTree \<Rightarrow> int \<Rightarrow> int \<Rightarrow> int list" where
  "lastLeavesLoop m limit i =
     (if i < limit \<and> i < mtCount m then
        (case GetValue m (GetStartIndex m + mtCount m - (1 + i)) of
           Some v \<Rightarrow> if v \<noteq> 0 then v # lastLeavesLoop m limit (i + 1) else lastLeavesLoop m limit (i + 1)
         | None \<Rightarrow> lastLeavesLoop m limit (i + 1))
      else [])"
  by pat_completeness auto
termination
  by (relation "measure (\<lambda>(m, limit, i). nat (limit - i))") auto

declare lastLeavesLoop.simps [simp del]

definition LastLeaves :: "merkleTree \<Rightarrow> int \<Rightarrow> int list res" where
  "LastLeaves m limit =
     (if mtCount m = 0 then Ok []
      else if limit < 0 then Panic ''makeslice: cap out of range''
      else Ok (lastLeavesLoop m limit 0))"

definition completenessCheck :: "merkleTree \<Rightarrow> unit res" where
  "completenessCheck m =
     (if mtCount m \<noteq> mtIndex m - GetStartIndex m then Err (ErrMsg ''merkle tree is incomplete'')
      else Ok ())"

function rootScan :: "merkleTree \<Rightarrow> int \<Rightarrow> int \<Rightarrow> int" where
  "rootScan m limit i =
     (if 0 < i \<and> i < limit then
        (case map_of (tree m) (bigString i) of
           Some v \<Rightarrow> if v \<noteq> 0 then v else rootScan m limit (2 * i)
         | None \<Rightarrow> rootScan m limit (2 * i))
      else defaultValue m)"
  by pat_completeness auto
termination
  by (relation "measure (\<lambda>(m, limit, i). nat (limit - i))") auto

declare rootScan.simps [simp del]

definition GetRootHash :: "merkleTree \<Rightarrow> int res" where
  "GetRootHash m =
     (if mtCount m \<noteq> mtIndex m - GetStartIndex m then Err (ErrMsg ''merkle tree is incomplete'')
      else Ok (rootScan m (2 ^ levels m) 1))"

definition getSiblingIndex :: "int \<Rightarrow> int" where
  "getSiblingIndex i = (if i = 1 then 1 else if odd i then i - 1 else i + 1)"

definition zeroSlice :: "nat \<Rightarrow> int list" where
  "zeroSlice n = replicate n 0"

definition sliceFirst :: "'a list \<Rightarrow> nat \<Rightarrow> 'a list" where
  "sliceFirst values n = (if length values \<le> n then values else take n values)"

partial_function (option) siblingLoop :: "merkleTree \<Rightarrow> int \<Rightarrow> int list \<Rightarrow> int list option" where
  "siblingLoop m i acc =
     (if i = 0 then Some acc
      else siblingLoop m (i div 2) (acc @ [nodeOr m (getSiblingIndex i)]))"

declare siblingLoop.simps [code]

definition GetSiblingHashesForVerification :: "merkleTree \<Rightarrow> int \<Rightarrow> int list res option" where
  "GetSiblingHashesForVerification m item =
     (case completenessCheck m of
        Err e \<Rightarrow> Some (Err e)
      | Panic p \<Rightarrow> Some (Panic p)
      | Ok _ \<Rightarrow>
          (case map_of (reverseTree m) (bigString item) of
             None \<Rightarrow> Some (Ok (zeroSlice CircomMerkleLength))
           | Some idx \<Rightarrow>
               map_option (\<lambda>hs. Ok (sliceFirst hs CircomMerkleLength)) (siblingLoop m idx [])))"

partial_function (option) sideLoop :: "int \<Rightarrow> int list \<Rightarrow> int list option" where
  "sideLoop i acc =
     (if i = 0 then Some acc
      else sideLoop (i div 2) (acc @ [if even i then 0 else 1]))"

declare sideLoop.simps [code]

definition GetSiblingSides :: "merkleTree \<Rightarrow> int \<Rightarrow> int list res option" where
  "GetSiblingSides m item =
     (case completenessCheck m of
        Err e \<Rightarrow> Some (Err e)
      | Panic p \<Rightarrow> Some (Panic p)
      | Ok _ \<Rightarrow>
          (case map_of (reverseTree m) (bigString item) of
             None \<Rightarrow> Some (Ok (zeroSlice CircomMerkleLength))
           | Some idx \<Rightarrow>
               map_option (\<lambda>ss. Ok (sliceFirst ss CircomMerkleLength)) (sideLoop idx [])))"

subsection \<open>Serialisation\<close>

definition ToJSON :: "merkleTree \<Rightarrow> merkleTreeJSON" where
  "ToJSON m =
     \<lparr>jsonTree = map (\<lambda>(k, v). (k, bigString v)) (tree m),
      jsonReverseTree = Some (map (\<lambda>(k, v). (k, bigString v)) (reverseTree m)),
      jsonCount = bigString (mtCount m), jsonIndex = bigString (mtIndex m)\<rparr>"

definition ToJSONLite :: "merkleTree \<Rightarrow> merkleTreeJSON" where
  "ToJSONLite m =
     \<lparr>jsonTree = map (\<lambda>(k, v). (k, bigString v)) (tree m), jsonReverseTree = None,
      jsonCount = bigString (mtCount m), jsonIndex = bigString (mtIndex m)\<rparr>"

definition parseStringMap :: "(string \<times> string) list \<Rightarrow> (string \<times> int) list res" where
  "parseStringMap m =
     mapRes (\<lambda>(k, v). case setString 10 v of
                         Some n \<Rightarrow> Ok (k, n)
                       | None \<Rightarrow> Err (ErrMsg ''cannot parse value as big.Int'')) m"

function buildReverseLoop :: "merkleTree \<Rightarrow> int \<Rightarrow> int \<Rightarrow> (string \<times> int) list \<Rightarrow> (string \<times> int) list" where
  "buildReverseLoop m i stop rt =
     (if i < stop then
        buildReverseLoop m (i + 1) stop
          (case map_of (tree m) (bigString i) of
             Some v \<Rightarrow> AList.update (bigString v) i rt
           | None \<Rightarrow> rt)
      else rt)"
  by pat_completeness auto
termination
  by (relation "measure (\<lambda>(m, i, stop, rt). nat (stop - i))") auto

declare buildReverseLoop.simps [simp del]

definition buildReverseTree :: "merkleTree \<Rightarrow> (string \<times> int) list" where
  "buildReverseTree m =
     buildReverseLoop m (GetStartIndex m) (GetStartIndex m + mtCount m) []"

definition FromJSON :: "merkleTreeJSON \<Rightarrow> (int \<Rightarrow> int \<Rightarrow> int) \<Rightarrow> int \<Rightarrow> merkleTree res" where
  "FromJSON j h d =
     andThen (wrapErr ''parse tree'' (parseStringMap (jsonTree j))) (\<lambda>t.
     andThen (case jsonReverseTree j of
                None \<Rightarrow> Ok None
              | Some r \<Rightarrow> andThen (wrapErr ''parse reverseTree'' (parseStringMap r)) (\<lambda>rt. Ok (Some rt))) (\<lambda>rt.
     (case setString 10 (jsonCount j) of
        None \<Rightarrow> Err (ErrMsg ''invalid count'')
      | Some c \<Rightarrow>
          (case setString 10 (jsonIndex j) of
             None \<Rightarrow> Err (ErrMsg ''invalid index'')
           | Some ix \<Rightarrow>
               (let m = \<lparr>hashFn = h, levels = MerkleLevels, defaultValue = d, tree = t,
                         reverseTree = [], mtCount = c, mtIndex = ix\<rparr>
                in Ok (m\<lparr>reverseTree := (case rt of Some r \<Rightarrow> r | None \<Rightarrow> buildReverseTree m)\<rparr>))))))"

definition Clone :: "merkleTree \<Rightarrow> merkleTree" where
  "Clone m =
     \<lparr>hashFn = hashFn m, levels = levels m, defaultValue = defaultValue m,
      tree = map (\<lambda>(k, v). (k, v)) (tree m), reverseTree = map (\<lambda>(k, v). (k, v)) (reverseTree m),
      mtCount = mtCount m, mtIndex = mtIndex m\<rparr>"

end
