(* ===== verification/MerkleInvariant.thy ===== *)
theory MerkleInvariant
  imports MerkleTree
begin

text \<open>
  The data invariant of the Merkle tree and its preservation by \<open>InsertLeaf\<close> and
  \<open>RemoveLeaf\<close>. Only the first \<open>logarithm2 (index - start)\<close> ancestors of a written leaf are
  rehashed, so a tree with gaps may hold inner nodes that are missing; the invariant says which
  ones are there, and it is enough to make a tree without gaps correct everywhere. Its weaker part,
  without what the count and the index say, is kept by every write below the capacity.
\<close>

subsection \<open>Nodes by number\<close>

definition node :: "merkleTree \<Rightarrow> int \<Rightarrow> int option" where
  "node m i = map_of (tree m) (bigString i)"

lemma nodeOr_node: "nodeOr m i = (case node m i of None \<Rightarrow> defaultValue m | Some v \<Rightarrow> v)"
  by (simp add: nodeOr_def node_def)

lemma node_update [simp]:
  "node (m\<lparr>tree := AList.update (bigString i) v (tree m)\<rparr>) j = (if j = i then Some v else node m j)"
  by (simp add: node_def update_conv')

lemma node_other_fields [simp]:
  "node (m\<lparr>reverseTree := r\<rparr>) j = node m j"
  "node (m\<lparr>mtCount := c\<rparr>) j = node m j"
  "node (m\<lparr>mtIndex := x\<rparr>) j = node m j"
  by (simp_all add: node_def)

lemma nodeOr_cong:
  "node m i = node m' i \<Longrightarrow> defaultValue m = defaultValue m' \<Longrightarrow> nodeOr m i = nodeOr m' i"
  by (simp add: nodeOr_node split: option.split)

subsection \<open>Levels of the binary heap numbering\<close>

lemma logarithm2_le_iff: "logarithm2 n \<le> k \<longleftrightarrow> n \<le> 2 ^ k"
proof (cases "n \<le> 0")
  case True
  then have "n \<le> 2 ^ k" by (meson order_trans zero_le_numeral zero_le_power)
  with True show ?thesis by (simp add: logarithm2_def)
next
  case False
  have "n - 1 < 2 ^ k \<longleftrightarrow> n \<le> 2 ^ k" by (intro iffI) linarith+
  then have "nat (n - 1) < 2 ^ k \<longleftrightarrow> n \<le> 2 ^ k"
    using False by (simp add: nat_less_iff)
  then show ?thesis using False by (simp add: logarithm2_def bitLen_def natBitLen_le_iff)
qed

lemma logarithm2_mono: "a \<le> b \<Longrightarrow> logarithm2 a \<le> logarithm2 b"
  using logarithm2_le_iff [of a "logarithm2 b"] logarithm2_le_iff [of b "logarithm2 b"] by simp

lemma int_div_less:
  fixes i :: int
  assumes "0 < b" "i < c * b"
  shows "i div b < c"
proof (rule ccontr)
  assume "\<not> i div b < c"
  then have "c * b \<le> i div b * b" using assms(1) by (simp add: mult_right_mono)
  also have "\<dots> = i - i mod b" by (simp add: minus_mod_eq_div_mult)
  also have "\<dots> \<le> i" using assms(1) by simp
  finally show False using assms(2) by simp
qed

lemma level_bounds:
  fixes i :: int
  assumes "2 ^ D \<le> i" "i < 2 * 2 ^ D" "t \<le> D"
  shows "2 ^ (D - t) \<le> i div 2 ^ t" and "i div 2 ^ t < 2 * 2 ^ (D - t)"
proof -
  have p: "(2::int) ^ D = 2 ^ (D - t) * 2 ^ t"
    using assms(3) by (simp flip: power_add)
  have "2 ^ (D - t) = (2::int) ^ D div 2 ^ t" by (simp add: p)
  also have "\<dots> \<le> i div 2 ^ t" using assms(1) by (rule zdiv_mono1) simp
  finally show "2 ^ (D - t) \<le> i div 2 ^ t" .
  show "i div 2 ^ t < 2 * 2 ^ (D - t)"
    using assms(2) by (intro int_div_less) (simp_all add: p mult.assoc)
qed

text \<open>Two nodes on the path above leaves are equal only on the same level.\<close>

lemma level_unique:
  fixes i j :: int
  assumes "2 ^ D \<le> i" "i < 2 * 2 ^ D" "s \<le> D" "2 ^ D \<le> j" "j < 2 * 2 ^ D" "t \<le> D"
    and "i div 2 ^ s = j div 2 ^ t"
  shows "s = t"
proof -
  have "2 ^ (D - s) < (2::int) * 2 ^ (D - t)" "2 ^ (D - t) < (2::int) * 2 ^ (D - s)"
    using level_bounds [OF assms(1-3)] level_bounds [OF assms(4-6)] assms(7) by linarith+
  then have "(2::int) ^ (D - s) < 2 ^ Suc (D - t)" "(2::int) ^ (D - t) < 2 ^ Suc (D - s)"
    by simp_all
  then have "D - s < Suc (D - t)" "D - t < Suc (D - s)"
    by (metis one_less_numeral_iff power_less_imp_less_exp semiring_norm(76))+
  then show ?thesis using assms(3,6) by simp
qed

lemma div_power_Suc: "(i :: int) div 2 ^ Suc t = i div 2 div 2 ^ t"
  by (simp add: zdiv_zmult2_eq)

lemma div_power_Suc': "(i :: int) div 2 ^ Suc t = i div 2 ^ t div 2"
  by (simp add: zdiv_zmult2_eq mult.commute [of 2])

subsection \<open>Rehashing a path\<close>

lemma rehashUp_fields [simp]:
  "hashFn (rehashUp k c m) = hashFn m" "levels (rehashUp k c m) = levels m"
  "defaultValue (rehashUp k c m) = defaultValue m" "reverseTree (rehashUp k c m) = reverseTree m"
  "mtCount (rehashUp k c m) = mtCount m" "mtIndex (rehashUp k c m) = mtIndex m"
  by (induction k c m rule: rehashUp.induct) (auto simp: Let_def)

lemma rehashUp_off_path:
  "(\<And>t. 1 \<le> t \<Longrightarrow> t \<le> k \<Longrightarrow> v \<noteq> c div 2 ^ t) \<Longrightarrow> node (rehashUp k c m) v = node m v"
proof (induction k c m rule: rehashUp.induct)
  case (2 k c m)
  have "v \<noteq> c div 2" using "2.prems" [of 1] by simp
  moreover have "v \<noteq> c div 2 div 2 ^ t" if "1 \<le> t" "t \<le> k" for t
    using "2.prems" [of "Suc t"] that by (simp add: div_power_Suc del: power_Suc)
  ultimately show ?case using "2.IH" by (simp add: Let_def)
qed simp

lemma div_power_less:
  fixes c :: int
  assumes "1 \<le> c" "1 \<le> t"
  shows "c div 2 ^ t < c"
proof (rule int_div_less)
  have "(1::int) < 2 ^ t" using assms(2) by simp
  then show "c < c * 2 ^ t" using assms(1) by (simp add: mult_less_cancel_left1)
qed simp

lemma rehashUp_on_path:
  assumes "1 \<le> c div 2 ^ k" "1 \<le> t" "t \<le> k"
  shows "node (rehashUp k c m) (c div 2 ^ t) =
     Some (hashFn m (nodeOr (rehashUp k c m) (2 * (c div 2 ^ t)))
                    (nodeOr (rehashUp k c m) (2 * (c div 2 ^ t) + 1)))"
  using assms
proof (induction k c m arbitrary: t rule: rehashUp.induct)
  case (2 k c m)
  let ?c = "c div 2"
  let ?m1 = "m\<lparr>tree := AList.update (bigString ?c)
      (hashFn m (nodeOr m (2 * ?c)) (nodeOr m (2 * ?c + 1))) (tree m)\<rparr>"
  have step: "rehashUp (Suc k) c m = rehashUp k ?c ?m1" by (simp add: Let_def)
  have top: "1 \<le> ?c div 2 ^ k" using "2.prems"(1) by (simp add: div_power_Suc del: power_Suc)
  have c1: "1 \<le> ?c"
  proof (rule ccontr)
    assume "\<not> 1 \<le> ?c"
    then have "?c div 2 ^ k \<le> 0 div 2 ^ k" by (intro zdiv_mono1) simp_all
    with top show False by simp
  qed
  show ?case
  proof (cases "t = 1")
    case True
    have off: "v \<noteq> ?c div 2 ^ s" if "v \<ge> ?c" "1 \<le> s" for v s
      using div_power_less [OF c1 that(2)] that(1) by linarith
    have same: "node (rehashUp k ?c ?m1) v = node ?m1 v" if "v \<ge> ?c" for v
      using that by (intro rehashUp_off_path) (auto dest: off)
    have kids: "nodeOr (rehashUp k ?c ?m1) v = nodeOr m v" if "v > ?c" for v
      using same [of v] that by (intro nodeOr_cong) simp_all
    show ?thesis
      using True c1 by (simp add: step same kids del: rehashUp.simps)
  next
    case False
    then obtain s where s: "t = Suc s" "1 \<le> s" "s \<le> k"
      using "2.prems" by (cases t) auto
    have "c div 2 ^ t = ?c div 2 ^ s" using s(1) by (simp add: div_power_Suc del: power_Suc)
    then show ?thesis
      using "2.IH" [OF refl refl refl top s(2,3)] by (simp add: step del: rehashUp.simps)
  qed
qed simp

lemma rehashUp_keeps:
  assumes "1 \<le> c div 2 ^ k" "node m v \<noteq> None"
  shows "node (rehashUp k c m) v \<noteq> None"
proof (cases "\<exists>t. 1 \<le> t \<and> t \<le> k \<and> v = c div 2 ^ t")
  case True
  then show ?thesis using rehashUp_on_path [OF assms(1)] by auto
next
  case False
  then show ?thesis using assms(2) rehashUp_off_path [of k v c m] by auto
qed

subsection \<open>The invariant\<close>

definition leafSet :: "merkleTree \<Rightarrow> int set" where
  "leafSet m = {i. GetStartIndex m \<le> i \<and> node m i \<noteq> None}"

text \<open>
  The leaves lie below \<open>mtIndex\<close> and are counted by \<open>mtCount\<close>; an inner node that is stored is
  the hash of its children; it lies above a stored leaf, on a level that has been reached; and the
  ancestors of the \<open>k\<close>-th leaf are stored up to the level at which \<open>k + 1\<close> leaves fit.
\<close>

definition treeDepth :: "merkleTree \<Rightarrow> nat" where
  "treeDepth m = logarithm2 (mtIndex m - GetStartIndex m)"

definition innerHashes :: "merkleTree \<Rightarrow> bool" where
  "innerHashes m \<longleftrightarrow> (\<forall>v x. 1 \<le> v \<longrightarrow> v < GetStartIndex m \<longrightarrow> node m v = Some x \<longrightarrow>
     x = hashFn m (nodeOr m (2 * v)) (nodeOr m (2 * v + 1)))"

definition innerReached :: "merkleTree \<Rightarrow> bool" where
  "innerReached m \<longleftrightarrow> (\<forall>v. 1 \<le> v \<longrightarrow> v < GetStartIndex m \<longrightarrow> node m v \<noteq> None \<longrightarrow>
     (\<exists>i \<in> leafSet m. \<exists>t \<le> treeDepth m. v = i div 2 ^ t))"

definition ancestorsStored :: "merkleTree \<Rightarrow> bool" where
  "ancestorsStored m \<longleftrightarrow> (\<forall>i \<in> leafSet m. \<forall>t \<le> logarithm2 (i - GetStartIndex m + 1).
     node m (i div 2 ^ t) \<noteq> None)"

definition merkleInv :: "merkleTree \<Rightarrow> bool" where
  "merkleInv m \<longleftrightarrow> 1 \<le> levels m \<and> GetStartIndex m \<le> mtIndex m \<and> mtIndex m \<le> 2 * GetStartIndex m \<and>
     (\<forall>i \<in> leafSet m. i < mtIndex m) \<and> mtCount m = int (card (leafSet m)) \<and>
     innerHashes m \<and> innerReached m \<and> ancestorsStored m"

lemma GetStartIndex_power: "GetStartIndex m = 2 ^ (levels m - 1)"
  by (simp add: GetStartIndex_def startIdx_def)

lemma GetStartIndex_pos: "1 \<le> GetStartIndex m"
  by (simp add: GetStartIndex_power)

lemma finite_leafSet: "merkleInv m \<Longrightarrow> finite (leafSet m)"
  by (rule finite_subset [of _ "{GetStartIndex m..mtIndex m}"])
     (auto simp: merkleInv_def leafSet_def)

lemma leaf_range: "merkleInv m \<Longrightarrow> i \<in> leafSet m \<Longrightarrow>
    2 ^ (levels m - 1) \<le> i \<and> i < 2 * 2 ^ (levels m - 1)"
  unfolding merkleInv_def by (fastforce simp: leafSet_def GetStartIndex_power)

lemma reached_depth: "merkleInv m \<Longrightarrow> treeDepth m \<le> levels m - 1"
  by (simp add: treeDepth_def merkleInv_def logarithm2_le_iff GetStartIndex_power)

lemma merkleInv_NewTree: "merkleInv (NewTree h d lvls)"
  by (auto simp: merkleInv_def NewTree_def Let_def leafSet_def node_def innerHashes_def
      innerReached_def ancestorsStored_def GetStartIndex_def MerkleLevels_def startIdx_def)

lemma countAndIndex_fields [simp]:
  "hashFn (countAndIndex j m) = hashFn m" "levels (countAndIndex j m) = levels m"
  "defaultValue (countAndIndex j m) = defaultValue m" "tree (countAndIndex j m) = tree m"
  "reverseTree (countAndIndex j m) = reverseTree m"
  "GetStartIndex (countAndIndex j m) = GetStartIndex m"
  by (auto simp: countAndIndex_def Let_def GetStartIndex_def)

lemma countAndIndex_index: "mtIndex (countAndIndex j m) = max (mtIndex m) (j + 1)"
  by (auto simp: countAndIndex_def Let_def)

lemma countAndIndex_count:
  "mtCount (countAndIndex j m) = (if node m j = None then mtCount m + 1 else mtCount m)"
  by (auto simp: countAndIndex_def Let_def node_def)

lemma countAndIndex_present:
  assumes "merkleInv m" "j \<in> leafSet m"
  shows "countAndIndex j m = m"
proof -
  have "j + 1 \<le> mtIndex m" "map_of (tree m) (bigString j) \<noteq> None"
    using assms by (auto simp: merkleInv_def leafSet_def node_def)
  then show ?thesis by (simp add: countAndIndex_def Let_def)
qed

text \<open>Removing a stored leaf is writing the default value over it.\<close>

lemma RemoveLeaf_InsertLeaf:
  "merkleInv m \<Longrightarrow> j \<in> leafSet m \<Longrightarrow> RemoveLeaf j m = InsertLeaf (defaultValue m) j m"
  by (simp add: RemoveLeaf_def InsertLeaf_def countAndIndex_present)

subsection \<open>Every insertion keeps the invariant\<close>

lemma InsertLeaf_Ok_iff: "(\<exists>m'. InsertLeaf v j m = Ok m') \<longleftrightarrow> GetStartIndex m \<le> j"
  by (simp add: InsertLeaf_def forceInsert_def Let_def)

text \<open>The state after a successful write, as the leaf update followed by the rehashing.\<close>

definition leafWritten :: "int \<Rightarrow> int \<Rightarrow> merkleTree \<Rightarrow> merkleTree" where
  "leafWritten v j m = (countAndIndex j m)\<lparr>tree := AList.update (bigString j) v (tree m),
     reverseTree := AList.update (bigString v) j (reverseTree m)\<rparr>"

lemma InsertLeaf_eq:
  "InsertLeaf v j m = Ok m' \<Longrightarrow>
     GetStartIndex m \<le> j \<and>
     m' = rehashUp (logarithm2 (mtIndex (countAndIndex j m) - GetStartIndex m)) j (leafWritten v j m)"
  by (auto simp: InsertLeaf_def forceInsert_def leafWritten_def Let_def split: if_splits)

lemma leafWritten_fields [simp]:
  "hashFn (leafWritten v j m) = hashFn m" "levels (leafWritten v j m) = levels m"
  "defaultValue (leafWritten v j m) = defaultValue m"
  "mtIndex (leafWritten v j m) = mtIndex (countAndIndex j m)"
  "mtCount (leafWritten v j m) = mtCount (countAndIndex j m)"
  by (simp_all add: leafWritten_def)

lemma node_leafWritten [simp]: "node (leafWritten v j m) i = (if i = j then Some v else node m i)"
  by (simp add: leafWritten_def node_def update_conv')

text \<open>
  A write of a leaf position in range, be it an insertion or a removal: the leaf is stored and its
  ancestors are hashed again up to the level the tree has reached. A removal does not count the leaf
  and does not move \<open>mtIndex\<close>, so of the invariant only the part about the inner hashes can be
  kept when the removed leaf was absent.
\<close>

definition merkleWeak :: "merkleTree \<Rightarrow> bool" where
  "merkleWeak m \<longleftrightarrow> 1 \<le> levels m \<and> GetStartIndex m \<le> mtIndex m \<and> mtIndex m \<le> 2 * GetStartIndex m \<and>
     (\<forall>i \<in> leafSet m. i < 2 * GetStartIndex m) \<and> innerHashes m \<and> innerReached m"

lemma merkleInv_weak: "merkleInv m \<Longrightarrow> merkleWeak m"
  by (auto simp: merkleInv_def merkleWeak_def)

definition writeStep :: "merkleTree \<Rightarrow> int \<Rightarrow> int \<Rightarrow> merkleTree \<Rightarrow> bool" where
  "writeStep m v j m' \<longleftrightarrow> merkleWeak m \<and> GetStartIndex m \<le> j \<and> j < 2 * GetStartIndex m \<and>
     levels m' = levels m \<and> hashFn m' = hashFn m \<and> defaultValue m' = defaultValue m \<and>
     mtIndex m \<le> mtIndex m' \<and> mtIndex m' \<le> 2 * GetStartIndex m \<and>
     (\<exists>m1. (\<forall>i. node m1 i = (if i = j then Some v else node m i)) \<and> m' = rehashUp (treeDepth m') j m1)"

lemma write_fields:
  assumes "writeStep m v j m'"
  shows "hashFn m' = hashFn m" "levels m' = levels m" "defaultValue m' = defaultValue m"
    "GetStartIndex m' = GetStartIndex m" "GetStartIndex m \<le> j" "merkleWeak m" "mtIndex m \<le> mtIndex m'"
  using assms by (simp_all add: writeStep_def GetStartIndex_def)

lemma write_eq:
  assumes "writeStep m v j m'"
  obtains m1 where "\<And>i. node m1 i = (if i = j then Some v else node m i)"
    "m' = rehashUp (treeDepth m') j m1"
  using assms by (auto simp: writeStep_def)

lemma weak_depth: "merkleWeak m \<Longrightarrow> treeDepth m \<le> levels m - 1"
  by (simp add: treeDepth_def merkleWeak_def logarithm2_le_iff GetStartIndex_power)

lemma weak_range: "merkleWeak m \<Longrightarrow> i \<in> leafSet m \<Longrightarrow>
    2 ^ (levels m - 1) \<le> i \<and> i < 2 * 2 ^ (levels m - 1)"
  unfolding merkleWeak_def by (fastforce simp: leafSet_def GetStartIndex_power)

lemma write_range:
  assumes "writeStep m v j m'"
  shows "treeDepth m' \<le> levels m - 1" "2 ^ (levels m - 1) \<le> j" "j < 2 * 2 ^ (levels m - 1)"
  using assms by (auto simp: writeStep_def treeDepth_def logarithm2_le_iff GetStartIndex_power
      GetStartIndex_def startIdx_def)

lemma write_top:
  assumes "writeStep m v j m'"
  shows "1 \<le> j div 2 ^ treeDepth m'"
proof -
  have "(1::int) \<le> 2 ^ (levels m - 1 - treeDepth m')" by simp
  also have "\<dots> \<le> j div 2 ^ treeDepth m'"
    using write_range [OF assms] by (intro level_bounds(1))
  finally show ?thesis .
qed

lemma write_depth_grows: "writeStep m v j m' \<Longrightarrow> treeDepth m \<le> treeDepth m'"
  unfolding treeDepth_def by (rule logarithm2_mono) (simp add: write_fields)

lemma inner_level:
  assumes "2 ^ D \<le> j" "j < 2 * 2 ^ D" "1 \<le> t" "t \<le> D"
  shows "(j :: int) div 2 ^ t < 2 ^ D"
proof -
  have "j div 2 ^ t < 2 * 2 ^ (D - t)" by (rule level_bounds(2)) fact+
  also have "\<dots> = 2 ^ Suc (D - t)" by simp
  also have "\<dots> \<le> 2 ^ D" using assms(3,4) by (intro power_increasing) auto
  finally show ?thesis .
qed

lemma write_path_inner:
  assumes "writeStep m v j m'" "1 \<le> t" "t \<le> treeDepth m'"
  shows "j div 2 ^ t < GetStartIndex m"
  unfolding GetStartIndex_power
  using write_range [OF assms(1)] assms(2,3) by (intro inner_level) auto

lemma write_off_path:
  assumes "writeStep m v j m'" "\<And>t. t \<le> treeDepth m' \<Longrightarrow> i \<noteq> j div 2 ^ t"
  shows "node m' i = node m i"
proof -
  obtain m1 where m1: "\<And>i. node m1 i = (if i = j then Some v else node m i)"
    and eq: "m' = rehashUp (treeDepth m') j m1" using write_eq [OF assms(1)] by metis
  have "node (rehashUp (treeDepth m') j m1) i = node m1 i"
    using assms(2) by (intro rehashUp_off_path) simp
  then show ?thesis using assms(2) [of 0] m1 [of i] by (simp flip: eq)
qed

lemma write_on_path:
  assumes "writeStep m v j m'" "1 \<le> t" "t \<le> treeDepth m'"
  shows "node m' (j div 2 ^ t) =
    Some (hashFn m' (nodeOr m' (2 * (j div 2 ^ t))) (nodeOr m' (2 * (j div 2 ^ t) + 1)))"
proof -
  obtain m1 where eq: "m' = rehashUp (treeDepth m') j m1" by (rule write_eq [OF assms(1)])
  have h: "hashFn m1 = hashFn m'" by (subst eq) simp
  show ?thesis
    using rehashUp_on_path [OF write_top [OF assms(1)] assms(2,3), of m1] by (simp add: h flip: eq)
qed

lemma write_leaf_level:
  assumes "writeStep m v j m'" "GetStartIndex m \<le> i"
  shows "node m' i = (if i = j then Some v else node m i)"
proof -
  obtain m1 where m1: "\<And>i. node m1 i = (if i = j then Some v else node m i)"
    and eq: "m' = rehashUp (treeDepth m') j m1" using write_eq [OF assms(1)] by metis
  have "node (rehashUp (treeDepth m') j m1) i = node m1 i"
    using write_path_inner [OF assms(1)] assms(2) by (intro rehashUp_off_path) fastforce
  then show ?thesis using m1 by (simp flip: eq)
qed

lemma write_keeps:
  assumes "writeStep m v j m'" "node m i \<noteq> None"
  shows "node m' i \<noteq> None"
proof -
  obtain m1 where m1: "\<And>i. node m1 i = (if i = j then Some v else node m i)"
    and eq: "m' = rehashUp (treeDepth m') j m1" using write_eq [OF assms(1)] by metis
  have "node m1 i \<noteq> None" using assms(2) m1 [of i] by simp
  then show ?thesis using rehashUp_keeps [OF write_top [OF assms(1)], of m1 i] by (simp flip: eq)
qed

lemma write_leafSet: "writeStep m v j m' \<Longrightarrow> leafSet m' = insert j (leafSet m)"
  using write_leaf_level write_fields(4,5) by (auto simp: leafSet_def split: if_splits)

text \<open>No stored node lies above the last rehashed one.\<close>

lemma write_nothing_above:
  assumes st: "writeStep m v j m'" and pos: "1 \<le> j div 2 ^ Suc (treeDepth m')"
  shows "node m (j div 2 ^ Suc (treeDepth m')) = None"
proof (rule ccontr)
  let ?w = "j div 2 ^ Suc (treeDepth m')"
  assume w: "node m ?w \<noteq> None"
  have inv: "merkleWeak m" by (rule write_fields(6) [OF st])
  note r = write_range [OF st]
  have SP: "Suc (treeDepth m') \<le> levels m - 1"
  proof (rule ccontr)
    assume "\<not> Suc (treeDepth m') \<le> levels m - 1"
    then have "treeDepth m' = levels m - 1" using r(1) by simp
    then have "?w = 0" using r by (intro div_pos_pos_trivial) (auto intro: order_trans [of _ "2 ^ (levels m - 1)"])
    then show False using pos by simp
  qed
  have "?w < GetStartIndex m"
    unfolding GetStartIndex_power using r SP by (intro inner_level) auto
  then obtain i t where i: "i \<in> leafSet m" "t \<le> treeDepth m" "?w = i div 2 ^ t"
    using inv w pos unfolding merkleWeak_def innerReached_def by blast
  have "Suc (treeDepth m') = t"
    using level_unique [OF r(2,3) SP, of i t] weak_range [OF inv i(1)] weak_depth [OF inv] i(2,3)
    by simp
  then show False using i(2) write_depth_grows [OF st] by simp
qed

lemma write_innerHashes:
  assumes st: "writeStep m v j m'"
  shows "innerHashes m'"
  unfolding innerHashes_def
proof (intro allI impI)
  let ?P = "treeDepth m'"
  fix u x assume u: "1 \<le> u" "u < GetStartIndex m'" "node m' u = Some x"
  have "innerHashes m" using write_fields(6) [OF st] by (simp add: merkleWeak_def)
  show "x = hashFn m' (nodeOr m' (2 * u)) (nodeOr m' (2 * u + 1))"
  proof (cases "\<exists>t. 1 \<le> t \<and> t \<le> ?P \<and> u = j div 2 ^ t")
    case True
    then show ?thesis using write_on_path [OF st] u(3) by auto
  next
    case False
    have "u \<noteq> j" using u(2) write_fields(4,5) [OF st] by simp
    then have off: "u \<noteq> j div 2 ^ t" if "t \<le> ?P" for t using False that by (cases "t = 0") auto
    then have same: "node m u = Some x" using write_off_path [OF st] u(3) by metis
    have offS: "u \<noteq> j div 2 ^ Suc t" if "t \<le> ?P" for t
    proof (cases "t = ?P")
      case True
      then show ?thesis using write_nothing_above [OF st] u(1) same by auto
    next
      case False
      then show ?thesis using off [of "Suc t"] that by simp
    qed
    have "nodeOr m' w = nodeOr m w" if "w div 2 = u" for w
    proof (rule nodeOr_cong)
      have "w \<noteq> j div 2 ^ t" if "t \<le> ?P" for t
        using offS [OF that] \<open>w div 2 = u\<close> by (auto simp: div_power_Suc' simp del: power_Suc)
      then show "node m' w = node m w" by (rule write_off_path [OF st])
    qed (simp add: write_fields [OF st])
    then have "nodeOr m' (2 * u) = nodeOr m (2 * u)" "nodeOr m' (2 * u + 1) = nodeOr m (2 * u + 1)"
      by simp_all
    moreover have "x = hashFn m (nodeOr m (2 * u)) (nodeOr m (2 * u + 1))"
      using \<open>innerHashes m\<close> u(1,2) same unfolding innerHashes_def write_fields(4) [OF st] by blast
    ultimately show ?thesis by (simp add: write_fields [OF st])
  qed
qed

lemma write_innerReached:
  assumes st: "writeStep m v j m'"
  shows "innerReached m'"
  unfolding innerReached_def
proof (intro allI impI)
  fix u assume u: "1 \<le> u" "u < GetStartIndex m'" "node m' u \<noteq> None"
  have old: "innerReached m" using write_fields(6) [OF st] by (simp add: merkleWeak_def)
  show "\<exists>i \<in> leafSet m'. \<exists>t \<le> treeDepth m'. u = i div 2 ^ t"
  proof (cases "\<exists>t \<le> treeDepth m'. u = j div 2 ^ t")
    case True
    then show ?thesis by (auto simp: write_leafSet [OF st])
  next
    case False
    then have "node m u \<noteq> None" using write_off_path [OF st, of u] u(3) by auto
    then obtain i t where "i \<in> leafSet m" "t \<le> treeDepth m" "u = i div 2 ^ t"
      using old u(1,2) unfolding innerReached_def write_fields(4) [OF st] by blast
    moreover have "leafSet m \<subseteq> leafSet m'" using write_leafSet [OF st] by blast
    ultimately show ?thesis using write_depth_grows [OF st] order_trans by blast
  qed
qed

lemma write_weak:
  assumes st: "writeStep m v j m'"
  shows "merkleWeak m'"
proof -
  have "i < 2 * GetStartIndex m" if "i \<in> leafSet m'" for i
    using that st by (auto simp: write_leafSet [OF st] writeStep_def merkleWeak_def)
  then show ?thesis
    using st write_innerHashes [OF st] write_innerReached [OF st]
    by (auto simp: merkleWeak_def writeStep_def GetStartIndex_def)
qed

text \<open>What one insertion at a leaf position does to the nodes.\<close>

definition insertStep :: "merkleTree \<Rightarrow> int \<Rightarrow> int \<Rightarrow> merkleTree \<Rightarrow> bool" where
  "insertStep m v j m' \<longleftrightarrow> merkleInv m \<and> InsertLeaf v j m = Ok m' \<and> j < 2 * GetStartIndex m"

lemma step_fields:
  assumes "insertStep m v j m'"
  shows "hashFn m' = hashFn m" "levels m' = levels m" "defaultValue m' = defaultValue m"
    "GetStartIndex m' = GetStartIndex m" "mtIndex m' = max (mtIndex m) (j + 1)"
    "mtCount m' = mtCount (countAndIndex j m)" "GetStartIndex m \<le> j"
proof -
  from assms have "GetStartIndex m \<le> j"
    "m' = rehashUp (logarithm2 (mtIndex (countAndIndex j m) - GetStartIndex m)) j (leafWritten v j m)"
    unfolding insertStep_def by (blast dest: InsertLeaf_eq)+
  then show "hashFn m' = hashFn m" "levels m' = levels m" "defaultValue m' = defaultValue m"
    "GetStartIndex m' = GetStartIndex m" "mtIndex m' = max (mtIndex m) (j + 1)"
    "mtCount m' = mtCount (countAndIndex j m)" "GetStartIndex m \<le> j"
    by (simp_all add: GetStartIndex_def countAndIndex_index)
qed

lemma step_eq:
  assumes "insertStep m v j m'"
  shows "m' = rehashUp (treeDepth m') j (leafWritten v j m)"
proof -
  from assms have eq:
    "m' = rehashUp (logarithm2 (mtIndex (countAndIndex j m) - GetStartIndex m)) j (leafWritten v j m)"
    unfolding insertStep_def by (blast dest: InsertLeaf_eq)
  have "treeDepth m' = logarithm2 (mtIndex (countAndIndex j m) - GetStartIndex m)"
    by (simp add: treeDepth_def step_fields [OF assms] countAndIndex_index)
  with eq show ?thesis by simp
qed

subsection \<open>An insertion is a write\<close>

lemma insert_write:
  assumes "merkleWeak m" "InsertLeaf v j m = Ok m'" "j < 2 * GetStartIndex m"
  shows "writeStep m v j m'" "mtIndex m' = max (mtIndex m) (j + 1)"
    "mtCount m' = mtCount (countAndIndex j m)"
proof -
  have eq: "GetStartIndex m \<le> j"
    "m' = rehashUp (logarithm2 (mtIndex (countAndIndex j m) - GetStartIndex m)) j (leafWritten v j m)"
    using InsertLeaf_eq [OF assms(2)] by auto
  then show ix: "mtIndex m' = max (mtIndex m) (j + 1)" and "mtCount m' = mtCount (countAndIndex j m)"
    by (simp_all add: countAndIndex_index)
  have f: "hashFn m' = hashFn m" "levels m' = levels m" "defaultValue m' = defaultValue m"
    using eq by simp_all
  then have "treeDepth m' = logarithm2 (mtIndex (countAndIndex j m) - GetStartIndex m)"
    by (simp add: treeDepth_def ix countAndIndex_index GetStartIndex_def)
  then have "m' = rehashUp (treeDepth m') j (leafWritten v j m)" using eq(2) by simp
  then have "\<exists>m1. (\<forall>i. node m1 i = (if i = j then Some v else node m i)) \<and> m' = rehashUp (treeDepth m') j m1"
    by (intro exI [of _ "leafWritten v j m"]) simp
  then show "writeStep m v j m'"
    using assms eq(1) f ix by (simp add: writeStep_def merkleWeak_def)
qed

lemma insertStep_write: "insertStep m v j m' \<Longrightarrow> writeStep m v j m'"
  unfolding insertStep_def by (blast intro: insert_write(1) merkleInv_weak)

lemmas step_path_inner = write_path_inner [OF insertStep_write]
  and step_on_path = write_on_path [OF insertStep_write]
  and step_leaf_level = write_leaf_level [OF insertStep_write]
  and step_keeps = write_keeps [OF insertStep_write]
  and step_leafSet = write_leafSet [OF insertStep_write]
  and step_innerHashes = write_innerHashes [OF insertStep_write]
  and step_innerReached = write_innerReached [OF insertStep_write]

lemma step_leaf_depth: "insertStep m v j m' \<Longrightarrow> logarithm2 (j - GetStartIndex m + 1) \<le> treeDepth m'"
  unfolding treeDepth_def by (rule logarithm2_mono) (simp add: step_fields)

text \<open>So is a removal, of a leaf that is there or not.\<close>

lemma remove_write:
  assumes "merkleWeak m" "RemoveLeaf j m = Ok m'" "j < 2 * GetStartIndex m"
  shows "writeStep m (defaultValue m) j m'" "mtIndex m' = mtIndex m" "mtCount m' = mtCount m"
proof -
  let ?m1 = "m\<lparr>tree := AList.update (bigString j) (defaultValue m) (tree m),
     reverseTree := AList.update (bigString (defaultValue m)) j (reverseTree m)\<rparr>"
  have eq: "GetStartIndex m \<le> j" "m' = rehashUp (treeDepth m) j ?m1"
    using assms(2) by (auto simp: RemoveLeaf_def forceInsert_def treeDepth_def Let_def split: if_splits)
  then show ix: "mtIndex m' = mtIndex m" and "mtCount m' = mtCount m" by simp_all
  have f: "hashFn m' = hashFn m" "levels m' = levels m" "defaultValue m' = defaultValue m"
    using eq(2) by simp_all
  then have "m' = rehashUp (treeDepth m') j ?m1"
    using eq(2) by (simp add: treeDepth_def ix GetStartIndex_def)
  moreover have "\<forall>i. node ?m1 i = (if i = j then Some (defaultValue m) else node m i)"
    by (simp add: node_def update_conv')
  ultimately have "\<exists>m1. (\<forall>i. node m1 i = (if i = j then Some (defaultValue m) else node m i)) \<and>
      m' = rehashUp (treeDepth m') j m1" by blast
  then show "writeStep m (defaultValue m) j m'"
    using assms(1,3) eq(1) f ix by (simp add: writeStep_def merkleWeak_def)
qed

lemma RemoveLeaf_Ok_iff: "(\<exists>m'. RemoveLeaf j m = Ok m') \<longleftrightarrow> GetStartIndex m \<le> j"
  by (simp add: RemoveLeaf_def forceInsert_def Let_def)

lemma step_counted:
  assumes "insertStep m v j m'"
  shows "mtCount m' = int (card (leafSet m'))"
proof (cases "j \<in> leafSet m")
  case True
  have inv: "merkleInv m" using assms by (simp add: insertStep_def)
  have "leafSet m' = leafSet m" using True step_leafSet [OF assms] by (simp add: insert_absorb)
  moreover have "mtCount m' = mtCount m"
    using step_fields(6) [OF assms] countAndIndex_present [OF inv True] by simp
  ultimately show ?thesis using inv by (simp add: merkleInv_def)
next
  case False
  then have "node m j = None" using step_fields(7) [OF assms] by (simp add: leafSet_def)
  moreover have "merkleInv m" using assms by (simp add: insertStep_def)
  ultimately show ?thesis using False finite_leafSet [of m] step_leafSet [OF assms]
      step_fields(6) [OF assms] by (simp add: countAndIndex_count merkleInv_def)
qed

lemma step_ancestors:
  assumes st: "insertStep m v j m'"
  shows "ancestorsStored m'"
  unfolding ancestorsStored_def
proof (intro ballI allI impI)
  fix i t assume i: "i \<in> leafSet m'" and t: "t \<le> logarithm2 (i - GetStartIndex m' + 1)"
  have old: "ancestorsStored m" using st by (simp add: insertStep_def merkleInv_def)
  show "node m' (i div 2 ^ t) \<noteq> None"
  proof (cases "i = j")
    case True
    then have "t \<le> treeDepth m'" using t step_leaf_depth [OF st] by (simp add: step_fields(4) [OF st])
    then show ?thesis using i True step_on_path [OF st, of t] by (cases "t = 0") (auto simp: leafSet_def)
  next
    case False
    then have "i \<in> leafSet m" using i by (simp add: step_leafSet [OF st])
    then have "node m (i div 2 ^ t) \<noteq> None"
      using old t unfolding ancestorsStored_def step_fields(4) [OF st] by blast
    then show ?thesis by (rule step_keeps [OF st])
  qed
qed

lemma step_merkleInv:
  assumes st: "insertStep m v j m'"
  shows "merkleInv m'"
proof -
  have inv: "merkleInv m" and j: "j < 2 * GetStartIndex m" using st by (simp_all add: insertStep_def)
  have "i < mtIndex m'" if "i \<in> leafSet m'" for i
    using that inv by (auto simp: step_leafSet [OF st] step_fields [OF st] merkleInv_def)
  then show ?thesis
    using inv j step_innerHashes [OF st] step_innerReached [OF st] step_ancestors [OF st]
      step_counted [OF st] by (auto simp: merkleInv_def step_fields [OF st])
qed

end
