(* ===== verification/MerkleProofs.thy ===== *)
theory MerkleProofs
  imports MerkleInvariant
begin

text \<open>
  What a complete tree promises: its root is the recursive Merkle hash of its leaves, and the
  sibling hashes and sides returned for a leaf lead from the leaf to the root. Both hold for every
  history of insertions and removals, in any order, as soon as no leaf position is left out.
\<close>

subsection \<open>The reference: the Merkle hash of a list of leaves\<close>

fun merkleSpec :: "(int \<Rightarrow> int \<Rightarrow> int) \<Rightarrow> int \<Rightarrow> nat \<Rightarrow> int list \<Rightarrow> int" where
  "merkleSpec h d 0 xs = (case xs of [] \<Rightarrow> d | x # _ \<Rightarrow> x)"
| "merkleSpec h d (Suc t) xs =
     (if xs = [] then d
      else h (merkleSpec h d t (take (2 ^ t) xs)) (merkleSpec h d t (drop (2 ^ t) xs)))"

definition leafCount :: "merkleTree \<Rightarrow> nat" where
  "leafCount m = nat (mtIndex m - GetStartIndex m)"

definition leaves :: "merkleTree \<Rightarrow> int list" where
  "leaves m = map (\<lambda>k. nodeOr m (GetStartIndex m + int k)) [0..<leafCount m]"

definition complete :: "merkleTree \<Rightarrow> bool" where
  "complete m \<longleftrightarrow> mtCount m = mtIndex m - GetStartIndex m"

lemma length_leaves [simp]: "length (leaves m) = leafCount m"
  by (simp add: leaves_def)

lemma completenessCheck_iff: "completenessCheck m = Ok u \<longleftrightarrow> complete m"
  by (simp add: completenessCheck_def complete_def)

lemma complete_leafSet:
  assumes inv: "merkleInv m" and c: "complete m"
  shows "leafSet m = {GetStartIndex m..<mtIndex m}"
proof (rule card_subset_eq)
  show "leafSet m \<subseteq> {GetStartIndex m..<mtIndex m}"
    using inv by (auto simp: merkleInv_def leafSet_def)
  show "card (leafSet m) = card {GetStartIndex m..<mtIndex m}"
    using inv c by (simp add: merkleInv_def complete_def)
qed simp

lemma leafCount_int: "merkleInv m \<Longrightarrow> int (leafCount m) = mtIndex m - GetStartIndex m"
  by (simp add: leafCount_def merkleInv_def)

lemma heap_div:
  fixes k :: int
  assumes "t \<le> D"
  shows "(2 ^ D + k) div 2 ^ t = 2 ^ (D - t) + k div 2 ^ t"
proof -
  have "(2::int) ^ D = 2 ^ (D - t) * 2 ^ t" using assms by (simp flip: power_add)
  then show ?thesis by simp
qed

text \<open>Without gaps, every node above a leaf is stored, up to the current height.\<close>

lemma complete_stored:
  assumes inv: "merkleInv m" and c: "complete m"
    and i: "GetStartIndex m \<le> i" "i < mtIndex m" and t: "t \<le> treeDepth m"
  shows "node m (i div 2 ^ t) \<noteq> None"
proof -
  let ?S = "GetStartIndex m"
  have anc: "node m (x div 2 ^ s) \<noteq> None"
    if "?S \<le> x" "x < mtIndex m" "s \<le> logarithm2 (x - ?S + 1)" for x s
    using inv that complete_leafSet [OF inv c] by (auto simp: merkleInv_def ancestorsStored_def)
  show ?thesis
  proof (cases "t \<le> logarithm2 (i - ?S + 1)")
    case True
    then show ?thesis using anc i by simp
  next
    case False
    then obtain s where s: "t = Suc s" "logarithm2 (i - ?S + 1) \<le> s" by (cases t) auto
    then have small: "i - ?S + 1 \<le> 2 ^ s" by (simp add: logarithm2_le_iff)
    let ?i = "?S + 2 ^ s"
    have "\<not> treeDepth m \<le> s" using t s by simp
    then have "?i < mtIndex m" by (simp add: treeDepth_def logarithm2_le_iff)
    moreover have "t \<le> logarithm2 (?i - ?S + 1)"
      using logarithm2_le_iff [of "2 ^ s + 1" s] s by simp
    ultimately have "node m (?i div 2 ^ t) \<noteq> None" by (intro anc) simp_all
    moreover have "?i div 2 ^ t = i div 2 ^ t"
    proof -
      have tD: "t \<le> levels m - 1" using t reached_depth [OF inv] by simp
      have "(i - ?S) div 2 ^ t = 0" "(2::int) ^ s div 2 ^ t = 0"
        using small i s by (auto intro!: div_pos_pos_trivial)
      then show ?thesis
        using heap_div [OF tD, of "2 ^ s"] heap_div [OF tD, of "i - ?S"]
        by (simp add: GetStartIndex_power)
    qed
    ultimately show ?thesis by simp
  qed
qed

lemma inner_equation:
  assumes "merkleInv m" "1 \<le> v" "v < GetStartIndex m" "node m v \<noteq> None"
  shows "nodeOr m v = hashFn m (nodeOr m (2 * v)) (nodeOr m (2 * v + 1))"
  using assms by (auto simp: merkleInv_def innerHashes_def nodeOr_node [of m v])

lemma empty_subtree:
  assumes inv: "merkleInv m" and t: "1 \<le> t" "t \<le> levels m - 1" and q: "q < 2 ^ (levels m - 1 - t)"
    and e: "leafCount m \<le> q * 2 ^ t"
  shows "node m (2 ^ (levels m - 1 - t) + int q) = None"
proof (rule ccontr)
  let ?D = "levels m - 1"
  let ?v = "2 ^ (?D - t) + int q"
  assume "node m ?v \<noteq> None"
  moreover have "?v < 2 ^ ?D"
  proof -
    have "?v < 2 ^ Suc (?D - t)" using q by (simp flip: of_nat_power)
    also have "\<dots> \<le> 2 ^ ?D" using t by (intro power_increasing) auto
    finally show ?thesis .
  qed
  moreover have "1 \<le> ?v" by (simp add: add_increasing2)
  ultimately obtain i s where i: "i \<in> leafSet m" "s \<le> treeDepth m" "?v = i div 2 ^ s"
    using inv unfolding merkleInv_def innerReached_def GetStartIndex_power by blast
  have sD: "s \<le> ?D" using i(2) reached_depth [OF inv] by simp
  have pD: "(2::int) ^ ?D = 2 ^ (?D - t) * 2 ^ t" using t by (simp flip: power_add)
  then have vt: "?v * 2 ^ t = 2 ^ ?D + int q * 2 ^ t" by (simp add: distrib_right)
  have "int q < 2 ^ (?D - t)" using q by (metis of_nat_less_iff of_nat_numeral of_nat_power)
  then have qt: "int q * 2 ^ t < 2 ^ ?D" unfolding pD by (rule mult_strict_right_mono) simp
  have "s = t"
  proof (rule level_unique)
    show "2 ^ ?D \<le> i" "i < 2 * 2 ^ ?D" using leaf_range [OF inv i(1)] by auto
    show "2 ^ ?D \<le> ?v * 2 ^ t" "?v * 2 ^ t < 2 * 2 ^ ?D" using vt qt by simp_all
    show "i div 2 ^ s = ?v * 2 ^ t div 2 ^ t" using i(3) by simp
  qed (fact sD t)+
  then have "?v = 2 ^ (?D - t) + (i - 2 ^ ?D) div 2 ^ t"
    using i(3) heap_div [OF sD, of "i - 2 ^ ?D"] by simp
  then have "int q = (i - 2 ^ ?D) div 2 ^ t" by simp
  then have "int q * 2 ^ t \<le> i - 2 ^ ?D"
    by (simp add: minus_mod_eq_div_mult [symmetric])
  moreover have "i - 2 ^ ?D < int (leafCount m)"
    using inv i(1) leafCount_int [OF inv] by (auto simp: merkleInv_def GetStartIndex_power)
  ultimately have "int (q * 2 ^ t) < int (leafCount m)" by simp
  then show False using e by linarith
qed

text \<open>Every node up to the current height carries the reference hash of the leaves below it.\<close>

lemma leaf_spec:
  assumes inv: "merkleInv m" and c: "complete m"
  shows "nodeOr m (GetStartIndex m + int q) =
    merkleSpec (hashFn m) (defaultValue m) 0 (take 1 (drop q (leaves m)))"
proof (cases "q < leafCount m")
  case True
  then have "drop q (leaves m) = leaves m ! q # drop (Suc q) (leaves m)"
    by (simp add: Cons_nth_drop_Suc)
  with True show ?thesis by (simp add: leaves_def)
next
  case False
  then have "GetStartIndex m + int q \<notin> leafSet m"
    using leafCount_int [OF inv] by (simp add: complete_leafSet [OF inv c])
  then have "node m (GetStartIndex m + int q) = None" by (simp add: leafSet_def)
  then show ?thesis using False by (simp add: nodeOr_node)
qed

lemma slice_halves:
  "take (2 ^ t) (take (2 ^ Suc t) (drop (q * 2 ^ Suc t) xs)) = take (2 ^ t) (drop (2 * q * 2 ^ t) xs)"
  "drop (2 ^ t) (take (2 ^ Suc t) (drop (q * 2 ^ Suc t) xs)) = take (2 ^ t) (drop ((2 * q + 1) * 2 ^ t) xs)"
  by (simp_all add: min_def drop_take algebra_simps)

lemma node_spec:
  assumes inv: "merkleInv m" and c: "complete m"
  shows "t \<le> treeDepth m \<Longrightarrow> q < 2 ^ (levels m - 1 - t) \<Longrightarrow>
    nodeOr m (2 ^ (levels m - 1 - t) + int q) =
    merkleSpec (hashFn m) (defaultValue m) t (take (2 ^ t) (drop (q * 2 ^ t) (leaves m)))"
proof (induction t arbitrary: q)
  case 0
  show ?case using leaf_spec [OF inv c, of q] by (simp add: GetStartIndex_power)
next
  case (Suc t)
  let ?D = "levels m - 1"
  let ?v = "2 ^ (?D - Suc t) + int q :: int"
  have tD: "Suc t \<le> ?D" using Suc.prems(1) reached_depth [OF inv] by simp
  have lev: "(2::nat) ^ (?D - t) = 2 * 2 ^ (?D - Suc t)"
    using tD by (simp flip: power_Suc add: Suc_diff_le)
  show ?case
  proof (cases "leafCount m \<le> q * 2 ^ Suc t")
    case True
    have "node m ?v = None"
      using tD Suc.prems(2) True by (intro empty_subtree [OF inv]) auto
    moreover have "take (2 ^ Suc t) (drop (q * 2 ^ Suc t) (leaves m)) = []" using True by simp
    ultimately show ?thesis by (simp add: nodeOr_node del: power_Suc)
  next
    case False
    let ?i = "GetStartIndex m + int (q * 2 ^ Suc t)"
    have "?i < mtIndex m" using False leafCount_int [OF inv] by linarith
    then have "node m (?i div 2 ^ Suc t) \<noteq> None"
      by (intro complete_stored [OF inv c]) (use Suc.prems in simp_all)
    moreover have "?i div 2 ^ Suc t = ?v"
      using heap_div [OF tD, of "int (q * 2 ^ Suc t)"] by (simp add: GetStartIndex_power)
    ultimately have st: "node m ?v \<noteq> None" by (simp only:) blast
    have "int q < 2 ^ (?D - Suc t)" using Suc.prems(2) by (metis of_nat_less_iff of_nat_numeral of_nat_power)
    then have "?v < 2 ^ Suc (?D - Suc t)" by simp
    also have "\<dots> \<le> 2 ^ ?D" using tD by (intro power_increasing) auto
    finally have vS: "?v < GetStartIndex m" by (simp add: GetStartIndex_power)
    have kids: "2 * ?v = 2 ^ (?D - t) + int (2 * q)" "2 * ?v + 1 = 2 ^ (?D - t) + int (2 * q + 1)"
      using arg_cong [OF lev, of int] by simp_all
    have l: "nodeOr m (2 * ?v) = merkleSpec (hashFn m) (defaultValue m) t
        (take (2 ^ t) (drop (2 * q * 2 ^ t) (leaves m)))"
      unfolding kids(1) by (rule Suc.IH) (use Suc.prems lev in simp_all)
    have r: "nodeOr m (2 * ?v + 1) = merkleSpec (hashFn m) (defaultValue m) t
        (take (2 ^ t) (drop ((2 * q + 1) * 2 ^ t) (leaves m)))"
      unfolding kids(2) by (rule Suc.IH) (use Suc.prems lev in simp_all)
    have "nodeOr m ?v = hashFn m (nodeOr m (2 * ?v)) (nodeOr m (2 * ?v + 1))"
      using st vS by (intro inner_equation [OF inv]) (simp_all add: add_increasing2)
    also have "\<dots> = hashFn m
        (merkleSpec (hashFn m) (defaultValue m) t (take (2 ^ t) (drop (2 * q * 2 ^ t) (leaves m))))
        (merkleSpec (hashFn m) (defaultValue m) t (take (2 ^ t) (drop ((2 * q + 1) * 2 ^ t) (leaves m))))"
      unfolding l r ..
    finally show ?thesis
      using False by (simp only: merkleSpec.simps(2) slice_halves) simp
  qed
qed

text \<open>
  The root is found by walking down the left edge until a node is stored, because the levels above
  the current height have never been hashed.
\<close>

lemma left_edge_empty:
  assumes inv: "merkleInv m" and t: "treeDepth m < t" "t \<le> levels m - 1"
  shows "node m (2 ^ (levels m - 1 - t)) = None"
proof (rule ccontr)
  let ?D = "levels m - 1"
  assume "node m (2 ^ (?D - t)) \<noteq> None"
  moreover have "(2::int) ^ (?D - t) < 2 ^ ?D" using t by (intro power_strict_increasing) auto
  ultimately obtain i s where i: "i \<in> leafSet m" "s \<le> treeDepth m" "2 ^ (?D - t) = i div 2 ^ s"
    using inv unfolding merkleInv_def innerReached_def GetStartIndex_power
    by (metis one_le_numeral one_le_power)
  have "s = t"
  proof (rule level_unique)
    show "2 ^ ?D \<le> i" "i < 2 * 2 ^ ?D" using leaf_range [OF inv i(1)] by auto
    show "i div 2 ^ s = 2 ^ ?D div 2 ^ t"
      using i(3) t heap_div [of t ?D 0] by simp
  qed (use i t in simp_all)
  then show False using i(2) t(1) by simp
qed

lemma rootScan_left_edge:
  assumes inv: "merkleInv m"
  shows "k \<le> levels m - 1 - treeDepth m \<Longrightarrow> rootScan m (2 ^ levels m) 1 = rootScan m (2 ^ levels m) (2 ^ k)"
proof (induction k)
  case (Suc k)
  have le: "Suc k \<le> levels m - 1" using Suc.prems by simp
  let ?t = "levels m - 1 - k"
  have "levels m - 1 - ?t = k" using le by simp
  then have "node m (2 ^ k) = None"
    using left_edge_empty [OF inv, of ?t] Suc.prems reached_depth [OF inv] by simp
  moreover have "(2::int) ^ k < 2 ^ levels m" using le by (intro power_strict_increasing) auto
  ultimately have "rootScan m (2 ^ levels m) (2 ^ k) = rootScan m (2 ^ levels m) (2 ^ Suc k)"
    by (subst rootScan.simps) (simp add: node_def)
  then show ?case using Suc by simp
qed simp

definition rootSpec :: "merkleTree \<Rightarrow> int" where
  "rootSpec m = merkleSpec (hashFn m) (defaultValue m) (treeDepth m) (leaves m)"

lemma leafCount_le_depth: "merkleInv m \<Longrightarrow> leafCount m \<le> 2 ^ treeDepth m"
proof -
  assume inv: "merkleInv m"
  have "mtIndex m - GetStartIndex m \<le> 2 ^ treeDepth m"
    using logarithm2_le_iff [of "mtIndex m - GetStartIndex m" "treeDepth m"] by (simp add: treeDepth_def)
  then have "int (leafCount m) \<le> int (2 ^ treeDepth m)" using leafCount_int [OF inv] by simp
  then show ?thesis by linarith
qed

lemma top_node:
  assumes inv: "merkleInv m" and c: "complete m"
  shows "nodeOr m (2 ^ (levels m - 1 - treeDepth m)) = rootSpec m"
  using node_spec [OF inv c, of "treeDepth m" 0] leafCount_le_depth [OF inv]
  by (simp add: rootSpec_def)

lemma top_stored:
  assumes inv: "merkleInv m" and c: "complete m" and n: "leafCount m \<noteq> 0"
  shows "node m (2 ^ (levels m - 1 - treeDepth m)) = Some (rootSpec m)"
proof -
  have "GetStartIndex m < mtIndex m" using n by (simp add: leafCount_def)
  then have "node m (GetStartIndex m div 2 ^ treeDepth m) \<noteq> None"
    by (intro complete_stored [OF inv c]) simp_all
  moreover have "GetStartIndex m div 2 ^ treeDepth m = 2 ^ (levels m - 1 - treeDepth m)"
    using heap_div [OF reached_depth [OF inv], of 0] by (simp add: GetStartIndex_power)
  ultimately have "node m (2 ^ (levels m - 1 - treeDepth m)) \<noteq> None" by (simp only:) blast
  then show ?thesis using top_node [OF inv c] by (auto simp: nodeOr_node)
qed

lemma root_nonempty:
  assumes inv: "merkleInv m" and c: "complete m" and n: "leafCount m \<noteq> 0" and z: "rootSpec m \<noteq> 0"
  shows "GetRootHash m = Ok (rootSpec m)"
proof -
  let ?k = "levels m - 1 - treeDepth m"
  have "1 \<le> levels m" using inv by (simp add: merkleInv_def)
  then have "(2::int) ^ ?k < 2 ^ levels m" by (intro power_strict_increasing) auto
  then have "rootScan m (2 ^ levels m) (2 ^ ?k) = rootSpec m"
    using top_stored [OF inv c n] z by (subst rootScan.simps) (simp add: node_def)
  then have "rootScan m (2 ^ levels m) 1 = rootSpec m"
    using rootScan_left_edge [OF inv, of ?k] by simp
  then show ?thesis using c by (simp add: GetRootHash_def complete_def)
qed

lemma root_incomplete: "\<not> complete m \<Longrightarrow> \<exists>e. GetRootHash m = Err e"
  by (simp add: GetRootHash_def complete_def)

end
