(* ===== verification/MerklePaths.thy ===== *)
theory MerklePaths
  imports MerkleProofs
begin

text \<open>
  Verification paths, reachable trees, histories of operations and serialisation of the Merkle tree,
  and the properties of the component: what the root is, where the sibling path of a leaf leads, what
  any history of inserts and removes leaves behind, and that a tree survives
  \<open>ToJSON\<close> and \<open>FromJSON\<close>.
\<close>

subsection \<open>The path loops as lists\<close>

definition halvings :: "int \<Rightarrow> int list" where
  "halvings i = map (\<lambda>t. i div 2 ^ t) [0..<bitLen i]"

lemma halvings_0 [simp]: "halvings 0 = []"
  by (simp add: halvings_def bitLen_def natBitLen.simps)

lemma halvings_step:
  assumes "0 < i"
  shows "halvings i = i # halvings (i div 2)"
proof -
  have "nat i div 2 = nat (i div 2)" using assms by (simp add: nat_div_distrib)
  then have b: "bitLen i = Suc (bitLen (i div 2))"
    using assms by (simp add: bitLen_def natBitLen.simps [of "nat i"] abs_of_nonneg pos_imp_zdiv_nonneg_iff)
  show ?thesis
    unfolding halvings_def b
    by (simp add: upt_conv_Cons div_power_Suc del: upt_Suc power_Suc flip: map_Suc_upt)
qed

lemma half_less: "0 < (i::int) \<Longrightarrow> nat (i div 2) < nat i"
  by simp

lemma siblingLoop_eq:
  "0 \<le> i \<Longrightarrow> siblingLoop m i acc = Some (acc @ map (\<lambda>c. nodeOr m (getSiblingIndex c)) (halvings i))"
proof (induction "nat i" arbitrary: i acc rule: less_induct)
  case less
  show ?case
  proof (cases "i = 0")
    case True
    then show ?thesis by (subst siblingLoop.simps) simp
  next
    case False
    with less.prems have "0 < i" by simp
    then have "siblingLoop m (i div 2) (acc @ [nodeOr m (getSiblingIndex i)])
       = Some ((acc @ [nodeOr m (getSiblingIndex i)]) @ map (\<lambda>c. nodeOr m (getSiblingIndex c)) (halvings (i div 2)))"
      by (intro less.hyps half_less) simp_all
    then show ?thesis using \<open>0 < i\<close> by (subst siblingLoop.simps) (simp add: halvings_step)
  qed
qed

lemma sideLoop_eq:
  "0 \<le> i \<Longrightarrow> sideLoop i acc = Some (acc @ map (\<lambda>c. if even c then 0 else 1) (halvings i))"
proof (induction "nat i" arbitrary: i acc rule: less_induct)
  case less
  show ?case
  proof (cases "i = 0")
    case True
    then show ?thesis by (subst sideLoop.simps) simp
  next
    case False
    with less.prems have "0 < i" by simp
    then have "sideLoop (i div 2) (acc @ [if even i then 0 else 1])
       = Some ((acc @ [if even i then 0 else 1]) @ map (\<lambda>c. if even c then 0 else 1) (halvings (i div 2)))"
      by (intro less.hyps half_less) simp_all
    then show ?thesis using \<open>0 < i\<close> by (subst sideLoop.simps) (simp add: halvings_step)
  qed
qed

lemma sliceFirst_take: "sliceFirst xs n = take n xs"
  by (simp add: sliceFirst_def)

text \<open>What the circuit does with a path: side 0 puts the current value on the left.\<close>

fun pathFold :: "(int \<Rightarrow> int \<Rightarrow> int) \<Rightarrow> int \<Rightarrow> (int \<times> int) list \<Rightarrow> int" where
  "pathFold h acc [] = acc"
| "pathFold h acc ((s, side) # ps) = pathFold h (if side = 0 then h acc s else h s acc) ps"

lemma pathFold_append: "pathFold h acc (xs @ ys) = pathFold h (pathFold h acc xs) ys"
  by (induction h acc xs rule: pathFold.induct) auto

definition pathOf :: "merkleTree \<Rightarrow> int \<Rightarrow> (int \<times> int) list" where
  "pathOf m i = map (\<lambda>c. (nodeOr m (getSiblingIndex c), if even c then 0 else 1)) (halvings i)"

lemma path_step:
  assumes inv: "merkleInv m" and c: "complete m"
    and i: "GetStartIndex m \<le> i" "i < mtIndex m" and s: "Suc s \<le> treeDepth m"
  shows "nodeOr m (i div 2 ^ Suc s) =
    (if even (i div 2 ^ s) then hashFn m (nodeOr m (i div 2 ^ s)) (nodeOr m (getSiblingIndex (i div 2 ^ s)))
     else hashFn m (nodeOr m (getSiblingIndex (i div 2 ^ s))) (nodeOr m (i div 2 ^ s)))"
proof -
  let ?c = "i div 2 ^ s" and ?v = "i div 2 ^ Suc s"
  have sD: "Suc s \<le> levels m - 1" using s reached_depth [OF inv] by simp
  have r: "2 ^ (levels m - 1) \<le> i" "i < 2 * 2 ^ (levels m - 1)"
    using i inv by (auto simp: merkleInv_def GetStartIndex_power)
  have v: "?v = ?c div 2" by (rule div_power_Suc')
  have "(1::int) \<le> 2 ^ (levels m - 1 - Suc s)" by simp
  then have v1: "1 \<le> ?v" using level_bounds(1) [OF r sD] by linarith
  have "?v < GetStartIndex m" unfolding GetStartIndex_power by (rule inner_level [OF r _ sD]) simp
  then have eq: "nodeOr m ?v = hashFn m (nodeOr m (2 * ?v)) (nodeOr m (2 * ?v + 1))"
    using v1 complete_stored [OF inv c i s] by (intro inner_equation [OF inv])
  show ?thesis
  proof (cases "even ?c")
    case True
    then have "2 * ?v = ?c" "getSiblingIndex ?c = 2 * ?v + 1" using v v1 by (auto simp: getSiblingIndex_def)
    then show ?thesis using eq True by simp
  next
    case False
    then have k: "2 * ?v + 1 = ?c" using v by simp
    then have "getSiblingIndex ?c = 2 * ?v" using v1 False by (simp add: getSiblingIndex_def)
    then show ?thesis using eq False k by (simp del: power_Suc)
  qed
qed

lemma path_to_ancestor:
  assumes inv: "merkleInv m" and c: "complete m" and i: "GetStartIndex m \<le> i" "i < mtIndex m"
  shows "s \<le> treeDepth m \<Longrightarrow> pathFold (hashFn m) (nodeOr m i) (take s (pathOf m i)) = nodeOr m (i div 2 ^ s)"
proof (induction s)
  case (Suc s)
  let ?c = "i div 2 ^ s"
  have "s < bitLen i"
  proof (rule ccontr)
    assume "\<not> s < bitLen i"
    then have "natBitLen (nat \<bar>i\<bar>) \<le> s" by (simp add: bitLen_def)
    then have "nat \<bar>i\<bar> < 2 ^ s" by (simp add: natBitLen_le_iff)
    then have "\<bar>i\<bar> < 2 ^ s" by (simp add: nat_less_iff)
    moreover have "(2::int) ^ s \<le> 2 ^ (levels m - 1)"
      using Suc.prems reached_depth [OF inv] by (intro power_increasing) auto
    ultimately show False using i(1) unfolding GetStartIndex_power by linarith
  qed
  then have "take (Suc s) (pathOf m i) =
      take s (pathOf m i) @ [(nodeOr m (getSiblingIndex ?c), if even ?c then 0 else 1)]"
    by (simp add: take_Suc_conv_app_nth pathOf_def halvings_def)
  then show ?case
    using Suc path_step [OF inv c i Suc.prems] by (simp add: pathFold_append)
qed simp

lemma path_to_root:
  assumes inv: "merkleInv m" and c: "complete m" and i: "GetStartIndex m \<le> i" "i < mtIndex m"
  shows "pathFold (hashFn m) (nodeOr m i) (take (treeDepth m) (pathOf m i)) = rootSpec m"
proof -
  let ?D = "levels m - 1" and ?P = "treeDepth m"
  have sp: "mtIndex m - GetStartIndex m \<le> 2 ^ ?P"
    using logarithm2_le_iff [of "mtIndex m - GetStartIndex m" ?P] by (simp add: treeDepth_def)
  have "(i - 2 ^ ?D) div 2 ^ ?P = 0"
    using i sp by (intro div_pos_pos_trivial) (auto simp: GetStartIndex_power)
  then have "i div 2 ^ ?P = 2 ^ (?D - ?P)"
    using heap_div [OF reached_depth [OF inv], of "i - 2 ^ ?D"] by simp
  then show ?thesis using path_to_ancestor [OF inv c i order_refl] top_node [OF inv c] by simp
qed

subsection \<open>Reachable trees\<close>

text \<open>The trees of the histories in which positions stay below the capacity and only leaves that are there are removed; the
  code checks neither, and the section on histories below says what holds without the second.\<close>

inductive merkleReach :: "(int \<Rightarrow> int \<Rightarrow> int) \<Rightarrow> int \<Rightarrow> nat \<Rightarrow> merkleTree \<Rightarrow> bool"
  for h d lvls where
  merkle_new: "merkleReach h d lvls (NewTree h d lvls)"
| merkle_insert: "merkleReach h d lvls m \<Longrightarrow> j < 2 * GetStartIndex m \<Longrightarrow> InsertLeaf v j m = Ok m' \<Longrightarrow>
    merkleReach h d lvls m'"
| merkle_remove: "merkleReach h d lvls m \<Longrightarrow> GetValue m j \<noteq> None \<Longrightarrow> RemoveLeaf j m = Ok m' \<Longrightarrow>
    merkleReach h d lvls m'"

lemma RemoveLeaf_Ok_range: "RemoveLeaf j m = Ok m' \<Longrightarrow> GetStartIndex m \<le> j"
  by (auto simp: RemoveLeaf_def forceInsert_def Let_def split: if_splits)

lemma remove_step:
  assumes inv: "merkleInv m" and g: "GetValue m j \<noteq> None" and r: "RemoveLeaf j m = Ok m'"
  shows "insertStep m (defaultValue m) j m'"
proof -
  have j: "j \<in> leafSet m"
    using g RemoveLeaf_Ok_range [OF r] by (simp add: leafSet_def GetValue_def node_def)
  then have "j < 2 * GetStartIndex m" using inv by (auto simp: merkleInv_def)
  moreover have "InsertLeaf (defaultValue m) j m = Ok m'" using r RemoveLeaf_InsertLeaf [OF inv j] by simp
  ultimately show ?thesis using inv by (simp add: insertStep_def)
qed

lemma reach_invariant:
  "merkleReach h d lvls m \<Longrightarrow> merkleInv m \<and> hashFn m = h \<and> defaultValue m = d"
proof (induction rule: merkleReach.induct)
  case merkle_new
  then show ?case using merkleInv_NewTree by (simp add: NewTree_def Let_def)
next
  case (merkle_insert m j v m')
  then have "insertStep m v j m'" by (simp add: insertStep_def)
  then show ?case using merkle_insert.IH by (simp add: step_merkleInv step_fields)
next
  case (merkle_remove m j m')
  then have "insertStep m (defaultValue m) j m'" by (intro remove_step) auto
  then show ?case using merkle_remove.IH by (simp add: step_merkleInv step_fields)
qed

subsection \<open>The tree as a map from leaf positions to values\<close>

definition leafMap :: "merkleTree \<Rightarrow> int \<Rightarrow> int option" where
  "leafMap m i = (if GetStartIndex m \<le> i then GetValue m i else None)"

lemma leafMap_node: "leafMap m i = (if GetStartIndex m \<le> i then node m i else None)"
  by (simp add: leafMap_def GetValue_def node_def)

lemma step_leafMap: "insertStep m v j m' \<Longrightarrow> leafMap m' = (leafMap m)(j \<mapsto> v)"
  by (rule ext) (auto simp: leafMap_node step_leaf_level step_fields)

lemma step_reverse:
  assumes "insertStep m v j m'"
  shows "map_of (reverseTree m') (bigString w) =
    (if w = v then Some j else map_of (reverseTree m) (bigString w))"
proof -
  have "reverseTree m' = AList.update (bigString v) j (reverseTree m)"
    by (subst step_eq [OF assms]) (simp add: leafWritten_def)
  then show ?thesis by (simp add: update_conv')
qed

lemma complete_append:
  assumes st: "insertStep m v (mtIndex m) m'" and c: "complete m"
  shows "complete m'" "leaves m' = leaves m @ [v]"
proof -
  have inv: "merkleInv m" using st by (simp add: insertStep_def)
  have "mtIndex m \<notin> leafSet m" using inv by (auto simp: merkleInv_def)
  then have fresh: "node m (mtIndex m) = None" using step_fields(7) [OF st] by (simp add: leafSet_def)
  note f = step_fields [OF st]
  show "complete m'"
    using c fresh by (simp add: complete_def f countAndIndex_count)
  have n: "leafCount m' = Suc (leafCount m)"
    using f(7) by (simp add: leafCount_def f Suc_nat_eq_nat_zadd1 algebra_simps)
  have "nodeOr m' (GetStartIndex m + int k) = nodeOr m (GetStartIndex m + int k)" if "k < leafCount m" for k
    using that leafCount_int [OF inv]
    by (intro nodeOr_cong) (simp_all add: f step_leaf_level [OF st])
  moreover have "nodeOr m' (GetStartIndex m + int (leafCount m)) = v"
    using leafCount_int [OF inv] f(7) by (simp add: nodeOr_node step_leaf_level [OF st])
  ultimately show "leaves m' = leaves m @ [v]" by (simp add: leaves_def n f)
qed

fun appendAll :: "int list \<Rightarrow> merkleTree \<Rightarrow> merkleTree res" where
  "appendAll [] m = Ok m"
| "appendAll (x # xs) m = andThen (InsertLeaf x (mtIndex m) m) (appendAll xs)"

lemma appendAll_spec:
  "merkleReach h d lvls m \<Longrightarrow> complete m \<Longrightarrow> mtIndex m + int (length xs) \<le> 2 * GetStartIndex m \<Longrightarrow>
   \<exists>m'. appendAll xs m = Ok m' \<and> merkleReach h d lvls m' \<and> complete m' \<and> leaves m' = leaves m @ xs"
proof (induction xs arbitrary: m)
  case (Cons x xs)
  have inv: "merkleInv m" using reach_invariant [OF Cons.prems(1)] by simp
  then have "GetStartIndex m \<le> mtIndex m" by (simp add: merkleInv_def)
  then obtain m1 where m1: "InsertLeaf x (mtIndex m) m = Ok m1" using InsertLeaf_Ok_iff by blast
  then have st: "insertStep m x (mtIndex m) m1" using inv Cons.prems(3) by (simp add: insertStep_def)
  have r: "merkleReach h d lvls m1"
    using Cons.prems m1 by (intro merkle_insert [OF Cons.prems(1) _ m1]) simp
  show ?case
    using Cons.IH [OF r complete_append(1) [OF st Cons.prems(2)]] Cons.prems(3)
      complete_append(2) [OF st Cons.prems(2)] m1 by (simp add: step_fields [OF st])
qed simp

lemma complete_NewTree: "complete (NewTree h d lvls)" "leaves (NewTree h d lvls) = []"
  by (simp_all add: complete_def leaves_def leafCount_def NewTree_def Let_def GetStartIndex_def)

lemma treeDepth_leaves: "merkleInv m \<Longrightarrow> treeDepth m = logarithm2 (int (length (leaves m)))"
  by (simp add: treeDepth_def leafCount_int)

subsection \<open>Histories of operations\<close>

text \<open>
  A history is any list of insertions and removals, with no condition on the order or on what is
  removed. \<open>opsMap\<close> says what it writes, \<open>opsIndex\<close> where the inserted positions end, and \<open>counted\<close>
  which positions \<open>Insert\<close> counts: those whose first operation is an insertion, because \<open>Remove\<close>
  stores the default value of an absent leaf without counting it.
\<close>

datatype merkleOp = OpInsert int int | OpRemove int

fun opPos :: "merkleOp \<Rightarrow> int" where
  "opPos (OpInsert v j) = j"
| "opPos (OpRemove j) = j"

fun runOp :: "merkleOp \<Rightarrow> merkleTree \<Rightarrow> merkleTree res" where
  "runOp (OpInsert v j) m = InsertLeaf v j m"
| "runOp (OpRemove j) m = RemoveLeaf j m"

fun runOps :: "merkleOp list \<Rightarrow> merkleTree \<Rightarrow> merkleTree res" where
  "runOps [] m = Ok m"
| "runOps (p # ps) m = andThen (runOp p m) (runOps ps)"

fun opsMap :: "int \<Rightarrow> merkleOp list \<Rightarrow> (int \<Rightarrow> int option) \<Rightarrow> int \<Rightarrow> int option" where
  "opsMap d [] f = f"
| "opsMap d (OpInsert v j # ps) f = opsMap d ps (f(j \<mapsto> v))"
| "opsMap d (OpRemove j # ps) f = opsMap d ps (f(j \<mapsto> d))"

fun opsIndex :: "merkleOp list \<Rightarrow> int \<Rightarrow> int" where
  "opsIndex [] i = i"
| "opsIndex (OpInsert v j # ps) i = opsIndex ps (max i (j + 1))"
| "opsIndex (OpRemove j # ps) i = opsIndex ps i"

fun counted :: "merkleOp list \<Rightarrow> int set" where
  "counted [] = {}"
| "counted (OpInsert v j # ps) = insert j (counted ps)"
| "counted (OpRemove j # ps) = counted ps - {j}"

fun removesStored :: "merkleOp list \<Rightarrow> int set \<Rightarrow> bool" where
  "removesStored [] w = True"
| "removesStored (OpInsert v j # ps) w = removesStored ps (insert j w)"
| "removesStored (OpRemove j # ps) w = (j \<in> w \<and> removesStored ps w)"

lemma finite_counted [simp]: "finite (counted ps)"
  by (induction ps rule: counted.induct) auto

lemma write_leafMap: "writeStep m v j m' \<Longrightarrow> leafMap m' = (leafMap m)(j \<mapsto> v)"
  by (rule ext) (auto simp: leafMap_node write_leaf_level write_fields)

lemma dom_leafMap: "dom (leafMap m) = leafSet m"
  by (auto simp: leafMap_node leafSet_def split: if_splits)

lemma runOp_Ok_iff: "(\<exists>m'. runOp p m = Ok m') \<longleftrightarrow> GetStartIndex m \<le> opPos p"
  by (cases p) (auto simp: InsertLeaf_Ok_iff RemoveLeaf_Ok_iff)

lemma runOp_panics: "opPos p < GetStartIndex m \<Longrightarrow> \<exists>e. runOp p m = Panic e"
  by (cases p) (auto simp: InsertLeaf_def RemoveLeaf_def forceInsert_def Let_def)

lemma runOp_write:
  assumes "merkleWeak m" "runOp p m = Ok m'" "opPos p < 2 * GetStartIndex m"
  shows "\<exists>v. writeStep m v (opPos p) m'"
proof (cases p)
  case (OpInsert v j)
  then show ?thesis using assms by (auto dest!: insert_write(1))
next
  case (OpRemove j)
  then show ?thesis using assms by (auto dest!: remove_write(1))
qed

text \<open>What a history does to a tree whose inner hashes are right.\<close>

definition historyResult :: "merkleOp list \<Rightarrow> merkleTree \<Rightarrow> merkleTree \<Rightarrow> bool" where
  "historyResult ps m m' \<longleftrightarrow> merkleWeak m' \<and> hashFn m' = hashFn m \<and>
     GetStartIndex m' = GetStartIndex m \<and> defaultValue m' = defaultValue m \<and>
     leafMap m' = opsMap (defaultValue m) ps (leafMap m) \<and> mtIndex m' = opsIndex ps (mtIndex m) \<and>
     mtCount m' = mtCount m + int (card (counted ps - dom (leafMap m)))"

lemma counted_insert:
  "int (card (counted (OpInsert v j # ps) - w)) =
     (if j \<in> w then 0 else 1) + int (card (counted ps - insert j w))"
proof (cases "j \<in> w")
  case True
  then have "counted (OpInsert v j # ps) - w = counted ps - insert j w" unfolding counted.simps by blast
  then show ?thesis using True by (simp only: if_True add_0)
next
  case False
  then have "counted (OpInsert v j # ps) - w = insert j (counted ps - insert j w)"
    unfolding counted.simps by blast
  moreover have "card (insert j (counted ps - insert j w)) = Suc (card (counted ps - insert j w))"
    by (intro card_insert_disjoint) simp_all
  ultimately show ?thesis using False by simp
qed

lemma counted_remove: "counted (OpRemove j # ps) - w = counted ps - insert j w"
  by auto

lemma history_insert:
  assumes "merkleWeak m" "InsertLeaf v j m = Ok m1" "j < 2 * GetStartIndex m" "historyResult ps m1 m'"
  shows "historyResult (OpInsert v j # ps) m m'"
proof -
  note w = insert_write [OF assms(1-3)]
  note f = write_fields [OF w(1)] write_leafMap [OF w(1)]
  have "node m j = None \<longleftrightarrow> j \<notin> dom (leafMap m)" using f(5) by (simp add: leafMap_node domIff)
  then have "mtCount m1 = mtCount m + (if j \<in> dom (leafMap m) then 0 else 1)"
    using w(3) by (simp add: countAndIndex_count)
  then show ?thesis
    using assms(4) unfolding historyResult_def counted_insert by (simp add: f w(2))
qed

lemma history_remove:
  assumes "merkleWeak m" "RemoveLeaf j m = Ok m1" "j < 2 * GetStartIndex m" "historyResult ps m1 m'"
  shows "historyResult (OpRemove j # ps) m m'"
proof -
  note w = remove_write [OF assms(1-3)]
  note f = write_fields [OF w(1)] write_leafMap [OF w(1)]
  show ?thesis
    using assms(4) unfolding historyResult_def counted_remove by (simp add: f w(2,3))
qed

lemma runOps_result:
  "merkleWeak m \<Longrightarrow> \<forall>p \<in> set ps. opPos p < 2 * GetStartIndex m \<Longrightarrow> runOps ps m = Ok m' \<Longrightarrow>
   historyResult ps m m'"
proof (induction ps arbitrary: m)
  case Nil
  then show ?case by (simp add: historyResult_def)
next
  case (Cons p ps)
  then obtain m1 where m1: "runOp p m = Ok m1" "runOps ps m1 = Ok m'" by (cases "runOp p m") auto
  then obtain v where w: "writeStep m v (opPos p) m1" using runOp_write Cons.prems by fastforce
  have "historyResult ps m1 m'"
    using Cons.IH [OF write_weak [OF w]] Cons.prems(2) m1(2) by (simp add: write_fields [OF w])
  then show ?case
    using Cons.prems(1,2) m1(1) by (cases p) (auto intro: history_insert history_remove)
qed

lemma runOps_Ok_iff:
  "merkleWeak m \<Longrightarrow> \<forall>p \<in> set ps. opPos p < 2 * GetStartIndex m \<Longrightarrow>
   (case runOps ps m of Ok m' \<Rightarrow> \<forall>p \<in> set ps. GetStartIndex m \<le> opPos p | Err e \<Rightarrow> False
     | Panic e \<Rightarrow> \<exists>p \<in> set ps. opPos p < GetStartIndex m)"
proof (induction ps arbitrary: m)
  case (Cons p ps)
  show ?case
  proof (cases "GetStartIndex m \<le> opPos p")
    case True
    then obtain m1 where m1: "runOp p m = Ok m1" using runOp_Ok_iff by blast
    then obtain v where w: "writeStep m v (opPos p) m1" using runOp_write Cons.prems by fastforce
    have "case runOps ps m1 of Ok m' \<Rightarrow> \<forall>p \<in> set ps. GetStartIndex m \<le> opPos p | Err e \<Rightarrow> False
     | Panic e \<Rightarrow> \<exists>p \<in> set ps. opPos p < GetStartIndex m"
      using Cons.IH [OF write_weak [OF w]] Cons.prems(2) unfolding write_fields(4) [OF w] by simp
    then show ?thesis using True m1 by (auto split: res.splits)
  next
    case False
    then show ?thesis using runOp_panics [of p m] by auto
  qed
qed simp

lemma runOps_reach:
  "merkleReach h d lvls m \<Longrightarrow> \<forall>p \<in> set ps. opPos p < 2 * GetStartIndex m \<Longrightarrow>
   removesStored ps (leafSet m) \<Longrightarrow> runOps ps m = Ok m' \<Longrightarrow> merkleReach h d lvls m'"
proof (induction ps arbitrary: m)
  case (Cons p ps)
  have inv: "merkleWeak m" using reach_invariant [OF Cons.prems(1)] merkleInv_weak by blast
  obtain m1 where m1: "runOp p m = Ok m1" "runOps ps m1 = Ok m'"
    using Cons.prems(4) by (cases "runOp p m") auto
  then obtain v where w: "writeStep m v (opPos p) m1" using runOp_write inv Cons.prems(2) by fastforce
  have r: "merkleReach h d lvls m1 \<and> removesStored ps (leafSet m1)"
  proof (cases p)
    case (OpInsert v j)
    then show ?thesis
      using merkle_insert [OF Cons.prems(1), of j v m1] m1(1) Cons.prems(2,3) write_leafSet [OF w] by simp
  next
    case (OpRemove j)
    then have "j \<in> leafSet m" using Cons.prems(3) by simp
    then have "GetValue m j \<noteq> None" "leafSet m1 = leafSet m"
      using write_leafSet [OF w] OpRemove by (auto simp: leafSet_def GetValue_def node_def)
    then show ?thesis using merkle_remove [OF Cons.prems(1)] OpRemove m1(1) Cons.prems(3) by simp
  qed
  have "\<forall>q \<in> set ps. opPos q < 2 * GetStartIndex m1"
    using Cons.prems(2) by (simp add: write_fields [OF w])
  then show ?case using Cons.IH r m1(2) by blast
qed simp

subsection \<open>Serialised trees\<close>

lemma parseStringMap_strings:
  "parseStringMap (map (\<lambda>(k, v). (k, bigString v)) t) = Ok t"
proof -
  have "parseStringMap (map (\<lambda>(k, v). (k, bigString v)) t) =
      Ok (map (\<lambda>(k, v). (k, the (setString 10 v))) (map (\<lambda>(k, v). (k, bigString v)) t))"
    unfolding parseStringMap_def by (rule mapRes_all_Ok) auto
  then show ?thesis by (simp add: comp_def case_prod_unfold)
qed

lemma buildReverseLoop_lookup:
  "map_of (buildReverseLoop m i stop rt) (bigString v) = Some k \<longleftrightarrow>
    (i \<le> k \<and> k < stop \<and> node m k = Some v \<and> (\<forall>j. k < j \<and> j < stop \<longrightarrow> node m j \<noteq> Some v)) \<or>
    ((\<forall>j. i \<le> j \<and> j < stop \<longrightarrow> node m j \<noteq> Some v) \<and> map_of rt (bigString v) = Some k)"
proof (induction m i stop rt rule: buildReverseLoop.induct)
  case (1 m i stop rt)
  show ?case
  proof (cases "i < stop")
    case False
    then show ?thesis by (subst buildReverseLoop.simps) auto
  next
    case True
    let ?rt = "case map_of (tree m) (bigString i) of Some w \<Rightarrow> AList.update (bigString w) i rt | None \<Rightarrow> rt"
    have rt: "map_of ?rt (bigString v) = (if node m i = Some v then Some i else map_of rt (bigString v))"
      by (auto simp: node_def update_conv' split: option.split)
    have from_i: "(\<forall>j. i \<le> j \<and> j < stop \<longrightarrow> node m j \<noteq> Some v) \<longleftrightarrow>
        node m i \<noteq> Some v \<and> (\<forall>j. i + 1 \<le> j \<and> j < stop \<longrightarrow> node m j \<noteq> Some v)"
      using True by (metis add1_zle_eq order_le_less order_refl)
    have "buildReverseLoop m i stop rt = buildReverseLoop m (i + 1) stop ?rt"
      using True by (subst buildReverseLoop.simps) simp
    moreover have "(\<forall>j. i < j \<and> j < stop \<longrightarrow> node m j \<noteq> Some v) \<longleftrightarrow>
        (\<forall>j. i + 1 \<le> j \<and> j < stop \<longrightarrow> node m j \<noteq> Some v)" by (simp add: add1_zle_eq)
    moreover have "i \<le> k \<longleftrightarrow> k = i \<or> i + 1 \<le> k" "\<not> i + 1 \<le> i" "i = k \<longleftrightarrow> k = i" by linarith+
    ultimately show ?thesis
      using 1 [OF True] True unfolding from_i rt
      by (cases "k = i"; cases "node m i = Some v") (simp_all only: if_True if_False simp_thms option.inject)
  qed
qed

lemma FromJSON_ToJSON:
  assumes "levels m = MerkleLevels"
  shows "FromJSON (ToJSON m) (hashFn m) (defaultValue m) = Ok m"
    and "FromJSON (ToJSONLite m) (hashFn m) (defaultValue m) = Ok (m\<lparr>reverseTree := buildReverseTree m\<rparr>)"
proof -
  have "buildReverseLoop (m\<lparr>reverseTree := []\<rparr>) i stop rt = buildReverseLoop m i stop rt" for i stop rt
    by (induction m i stop rt rule: buildReverseLoop.induct) (subst (1 2) buildReverseLoop.simps, auto split: option.split)
  then show "FromJSON (ToJSON m) (hashFn m) (defaultValue m) = Ok m"
    "FromJSON (ToJSONLite m) (hashFn m) (defaultValue m) = Ok (m\<lparr>reverseTree := buildReverseTree m\<rparr>)"
    using assms by (cases m, simp add: FromJSON_def ToJSON_def ToJSONLite_def parseStringMap_strings
      buildReverseTree_def GetStartIndex_def Let_def)+
qed

lemma appended_root_core:
  assumes "int (length xs) \<le> 2 ^ (lvls - 1)" "0 < lvls" "xs \<noteq> []"
    and "merkleSpec h d (logarithm2 (int (length xs))) xs \<noteq> 0"
  shows "\<exists>m. appendAll xs (NewTree h d lvls) = Ok m \<and> leaves m = xs \<and>
     GetRootHash m = Ok (merkleSpec h d (logarithm2 (int (length xs))) xs)"
proof -
  have "mtIndex (NewTree h d lvls) + int (length xs) \<le> 2 * GetStartIndex (NewTree h d lvls)"
    using assms(1,2) by (simp add: NewTree_def Let_def GetStartIndex_def startIdx_def)
  then obtain m where m: "appendAll xs (NewTree h d lvls) = Ok m" "merkleReach h d lvls m"
      "complete m" "leaves m = xs"
    using appendAll_spec [OF merkle_new complete_NewTree(1)] complete_NewTree(2) by fastforce
  have inv: "merkleInv m" "hashFn m = h" "defaultValue m = d" using reach_invariant [OF m(2)] by auto
  have spec: "rootSpec m = merkleSpec h d (logarithm2 (int (length xs))) xs"
    by (simp add: rootSpec_def inv(2,3) m(4) treeDepth_leaves [OF inv(1)])
  have "leafCount m \<noteq> 0" using assms(3) m(4) by (metis length_0_conv length_leaves)
  then show ?thesis using m root_nonempty [OF inv(1) m(3)] assms(4) by (simp add: spec)
qed

subsection \<open>Properties\<close>

text \<open>C1: appending leaves to a new tree one after the other succeeds as long as they fit, stores
  them in order, and \<open>GetRootHash\<close> is then the recursive Merkle hash of the list of leaves, padded
  with default subtrees to the next power of two.\<close>

theorem appended_root:
  assumes "int (length xs) \<le> 2 ^ (lvls - 1)" "0 < lvls" "xs \<noteq> []"
    and "merkleSpec h d (logarithm2 (int (length xs))) xs \<noteq> 0"
  shows "\<exists>m. appendAll xs (NewTree h d lvls) = Ok m \<and> leaves m = xs \<and>
     GetRootHash m = Ok (merkleSpec h d (logarithm2 (int (length xs))) xs)"
  using appended_root_core [OF assms] .

lemma appended_root_witness:
  "\<exists>m. appendAll [5, 7, 9 :: int] (NewTree (\<lambda>a b. 31 * a + b) 0 4) = Ok m \<and> leaves m = [5, 7, 9] \<and>
     GetRootHash m = Ok (merkleSpec (\<lambda>a b. 31 * a + b) 0 (logarithm2 (int (length [5, 7, 9 :: int]))) [5, 7, 9])"
proof (rule appended_root)
  show "merkleSpec (\<lambda>a b. 31 * a + b) 0 (logarithm2 (int (length [5, 7, 9 :: int]))) [5, 7, 9] \<noteq> (0::int)"
    by code_simp
qed simp_all

lemma merkle_root_core:
  assumes "merkleReach h d lvls m" "mtCount m = mtIndex m - GetStartIndex m" "0 < mtCount m"
    and "merkleSpec h d (treeDepth m) (leaves m) \<noteq> 0"
  shows "GetRootHash m = Ok (merkleSpec h d (treeDepth m) (leaves m))"
proof -
  have inv: "merkleInv m" "hashFn m = h" "defaultValue m = d" using reach_invariant [OF assms(1)] by auto
  have "rootSpec m = merkleSpec h d (treeDepth m) (leaves m)" by (simp add: rootSpec_def inv)
  moreover have "leafCount m \<noteq> 0" using assms(2,3) by (simp add: leafCount_def)
  ultimately show ?thesis using root_nonempty [OF inv(1)] assms(2,4) by (simp add: complete_def)
qed

text \<open>C2: whatever the history of insertions (in any order, below the capacity) and of removals of leaves
  that are there, a tree without gaps whose root is not zero returns as its root the Merkle hash of its leaves.\<close>

theorem reachable_root:
  assumes "merkleReach h d lvls m" "mtCount m = mtIndex m - GetStartIndex m" "0 < mtCount m"
    and "merkleSpec h d (treeDepth m) (leaves m) \<noteq> 0"
  shows "GetRootHash m = Ok (merkleSpec h d (treeDepth m) (leaves m))"
  using assms by (rule merkle_root_core)

definition exampleHash :: "int \<Rightarrow> int \<Rightarrow> int" where
  "exampleHash a b = 31 * a + b"

definition okTree :: "merkleTree res \<Rightarrow> merkleTree" where
  "okTree r = (case r of Ok m \<Rightarrow> m | _ \<Rightarrow> NewTree exampleHash 0 4)"

text \<open>Two leaves written out of order.\<close>

definition exampleTree :: merkleTree where
  "exampleTree = okTree (andThen (InsertLeaf 7 9 (NewTree exampleHash 0 4)) (InsertLeaf 5 8))"

lemma exampleTree_reach: "merkleReach exampleHash 0 4 exampleTree"
proof -
  let ?m0 = "NewTree exampleHash 0 4"
  have g: "GetStartIndex ?m0 = 8" by (simp add: NewTree_def GetStartIndex_def startIdx_def)
  then obtain m1 where m1: "InsertLeaf 7 9 ?m0 = Ok m1" using InsertLeaf_Ok_iff [of 7 9 ?m0] by auto
  have "insertStep ?m0 7 9 m1" using m1 g merkleInv_NewTree by (simp add: insertStep_def)
  then have g1: "GetStartIndex m1 = 8" using g step_fields(4) by simp
  then obtain m2 where m2: "InsertLeaf 5 8 m1 = Ok m2" using InsertLeaf_Ok_iff [of 5 8 m1] by auto
  have r1: "merkleReach exampleHash 0 4 m1" by (rule merkle_insert [OF merkle_new _ m1]) (simp add: g)
  have "merkleReach exampleHash 0 4 m2" by (rule merkle_insert [OF r1 _ m2]) (simp add: g1)
  then show ?thesis by (simp add: exampleTree_def okTree_def m1 m2)
qed

lemma reachable_root_witness: "GetRootHash exampleTree = Ok (merkleSpec exampleHash 0 1 [5, 7])"
proof -
  have v: "treeDepth exampleTree = 1" "leaves exampleTree = [5, 7]"
    "mtCount exampleTree = 2" "mtIndex exampleTree - GetStartIndex exampleTree = 2" by code_simp+
  have "merkleSpec exampleHash 0 1 [5, 7] \<noteq> 0" by code_simp
  then show ?thesis using reachable_root [OF exampleTree_reach] v by simp
qed

lemma sibling_path_core:
  assumes "merkleReach h d lvls m" "mtCount m = mtIndex m - GetStartIndex m"
    and "treeDepth m \<le> CircomMerkleLength"
    and "leafMap m i = Some v" "map_of (reverseTree m) (bigString v) = Some i"
  shows "\<exists>hs ss. GetSiblingHashesForVerification m v = Some (Ok hs) \<and>
     GetSiblingSides m v = Some (Ok ss) \<and>
     pathFold h v (take (treeDepth m) (zip hs ss)) = merkleSpec h d (treeDepth m) (leaves m)"
proof -
  have inv: "merkleInv m" "hashFn m = h" "defaultValue m = d" using reach_invariant [OF assms(1)] by auto
  have c: "complete m" using assms(2) by (simp add: complete_def)
  have i: "GetStartIndex m \<le> i" "node m i = Some v"
    using assms(4) by (auto simp: leafMap_node split: if_splits)
  then have "i \<in> leafSet m" by (simp add: leafSet_def)
  then have i2: "i < mtIndex m" using inv by (auto simp: merkleInv_def)
  have "0 \<le> i" using i(1) GetStartIndex_pos [of m] by simp
  then have paths: "GetSiblingHashesForVerification m v =
      Some (Ok (take CircomMerkleLength (map (\<lambda>c. nodeOr m (getSiblingIndex c)) (halvings i))))"
    "GetSiblingSides m v = Some (Ok (take CircomMerkleLength (map (\<lambda>c. if even c then 0 else 1) (halvings i))))"
    using assms(2,5) by (simp_all add: GetSiblingHashesForVerification_def GetSiblingSides_def
        completenessCheck_def siblingLoop_eq sideLoop_eq sliceFirst_take)
  have zip: "zip (take n (map f (halvings i))) (take n (map g (halvings i))) =
      take n (map (\<lambda>c. (f c, g c)) (halvings i))" for n and f :: "int \<Rightarrow> int" and g :: "int \<Rightarrow> int"
    by (simp add: take_zip [symmetric] zip_map_map) (simp add: zip_same_conv_map comp_def)
  have "pathFold h v (take (treeDepth m) (take CircomMerkleLength (pathOf m i))) = rootSpec m"
    using path_to_root [OF inv(1) c i(1) i2] i(2) assms(3) by (simp add: inv(2) nodeOr_node)
  then have "pathFold h v (take (treeDepth m)
      (zip (take CircomMerkleLength (map (\<lambda>c. nodeOr m (getSiblingIndex c)) (halvings i)))
           (take CircomMerkleLength (map (\<lambda>c. if even c then 0 else 1) (halvings i))))) =
      merkleSpec h d (treeDepth m) (leaves m)"
    unfolding zip pathOf_def [symmetric] by (simp add: rootSpec_def inv)
  with paths show ?thesis by blast
qed

text \<open>C9: for a leaf of a tree without gaps whose latest write of its value is at its own position, the
  sibling hashes and sides returned for it, cut to the height of the tree, hash the leaf up to the
  Merkle hash of all leaves; the loops that compute them end.\<close>

theorem sibling_path_to_root:
  assumes "merkleReach h d lvls m" "mtCount m = mtIndex m - GetStartIndex m"
    and "treeDepth m \<le> CircomMerkleLength"
    and "leafMap m i = Some v" "map_of (reverseTree m) (bigString v) = Some i"
  shows "\<exists>hs ss. GetSiblingHashesForVerification m v = Some (Ok hs) \<and>
     GetSiblingSides m v = Some (Ok ss) \<and>
     pathFold h v (take (treeDepth m) (zip hs ss)) = merkleSpec h d (treeDepth m) (leaves m)"
  using assms by (rule sibling_path_core)

lemma sibling_path_to_root_witness:
  "\<exists>hs ss. GetSiblingHashesForVerification exampleTree 7 = Some (Ok hs) \<and>
     GetSiblingSides exampleTree 7 = Some (Ok ss) \<and>
     pathFold exampleHash 7 (take 1 (zip hs ss)) = merkleSpec exampleHash 0 1 [5, 7]"
proof -
  have v: "treeDepth exampleTree = 1" "leaves exampleTree = [5, 7]"
    "mtCount exampleTree = 2" "mtIndex exampleTree - GetStartIndex exampleTree = 2"
    "leafMap exampleTree 9 = Some 7" "map_of (reverseTree exampleTree) (bigString 7) = Some 9"
    by code_simp+
  show ?thesis
    using sibling_path_to_root [OF exampleTree_reach, of 9 7] v by (simp add: CircomMerkleLength_def)
qed

text \<open>C10: as a store, the tree is a map from leaf positions to values: an insertion succeeds exactly at
  a position from \<open>GetStartIndex\<close> on (it panics below), it updates that position and no other, and
  the value can be looked up in reverse at its new position.\<close>

theorem insert_refines_map:
  assumes "merkleReach h d lvls m" "j < 2 * GetStartIndex m"
  shows "case InsertLeaf v j m of
       Ok m' \<Rightarrow> GetStartIndex m \<le> j \<and> leafMap m' = (leafMap m)(j \<mapsto> v) \<and>
         map_of (reverseTree m') (bigString v) = Some j \<and>
         mtCount m' = mtCount m + (if leafMap m j = None then 1 else 0) \<and> mtIndex m' = max (mtIndex m) (j + 1)
     | Err e \<Rightarrow> False
     | Panic p \<Rightarrow> j < GetStartIndex m"
proof (cases "GetStartIndex m \<le> j")
  case True
  then obtain m' where m': "InsertLeaf v j m = Ok m'" using InsertLeaf_Ok_iff by blast
  then have st: "insertStep m v j m'" using reach_invariant [OF assms(1)] assms(2) by (simp add: insertStep_def)
  have "mtCount m' = mtCount m + (if leafMap m j = None then 1 else 0)"
    using True by (simp add: step_fields [OF st] countAndIndex_count leafMap_node)
  then show ?thesis
    using True m' step_leafMap [OF st] step_reverse [OF st] by (simp add: step_fields [OF st])
next
  case False
  then show ?thesis by (simp add: InsertLeaf_def forceInsert_def Let_def)
qed

lemma insert_refines_map_witness:
  "\<exists>m'. InsertLeaf 3 11 exampleTree = Ok m' \<and> leafMap m' = (leafMap exampleTree)(11 \<mapsto> 3)"
proof -
  have "GetStartIndex exampleTree = 8" by code_simp
  then show ?thesis using insert_refines_map [OF exampleTree_reach, of 11 3] by (auto split: res.splits)
qed

lemma history_of_new_tree:
  assumes m0: "m0 = NewTree h d lvls" and cap: "\<forall>p \<in> set ps. opPos p < 2 * GetStartIndex m0"
    and ok: "runOps ps m0 = Ok m"
  shows "historyResult ps m0 m" "merkleWeak m0" "leafMap m0 = (\<lambda>_. None)" "hashFn m0 = h" "defaultValue m0 = d"
    "mtCount m0 = 0" "mtIndex m0 = GetStartIndex m0"
    "removesStored ps {} \<Longrightarrow> merkleInv m \<and> mtCount m = int (card (dom (leafMap m)))"
proof -
  show w: "merkleWeak m0" and f: "leafMap m0 = (\<lambda>_. None)" "hashFn m0 = h" "defaultValue m0 = d"
    "mtCount m0 = 0" "mtIndex m0 = GetStartIndex m0"
    using merkleInv_weak [OF merkleInv_NewTree, of h d lvls]
    by (auto simp: m0 NewTree_def Let_def leafMap_def GetValue_def GetStartIndex_def)
  show "historyResult ps m0 m" by (rule runOps_result [OF w cap ok])
  assume r: "removesStored ps {}"
  have "leafSet m0 = {}" using f(1) by (simp flip: dom_leafMap)
  then have "merkleReach h d lvls m"
    using runOps_reach [of h d lvls m0 ps m] merkle_new r ok cap by (simp add: m0)
  then show "merkleInv m \<and> mtCount m = int (card (dom (leafMap m)))"
    using reach_invariant [of h d lvls m] unfolding dom_leafMap by (simp add: merkleInv_def)
qed

text \<open>C11: whatever is inserted and removed, in any order and whether the removed leaves are there or
  not, as long as the positions are below the capacity of the tree (impl.go does not check it): the
  run panics exactly at a position below \<open>GetStartIndex\<close>; the leaves are the last values written
  (the default value where the last operation removed); every stored inner node is the hash of its
  two children; \<open>mtIndex\<close> is one past the last inserted position; and \<open>mtCount\<close> is the number of
  positions whose first operation was an insertion, which is the number of stored leaves (and the
  whole invariant holds) when only leaves that were written before are removed.\<close>

theorem histories_keep_hashes:
  assumes "m0 = NewTree h d lvls" "\<forall>p \<in> set ps. opPos p < 2 * GetStartIndex m0"
  shows "case runOps ps m0 of
      Ok m \<Rightarrow> (\<forall>p \<in> set ps. GetStartIndex m0 \<le> opPos p) \<and>
        leafMap m = opsMap d ps (\<lambda>_. None) \<and>
        (\<forall>i x. 1 \<le> i \<longrightarrow> i < GetStartIndex m \<longrightarrow> GetValue m i = Some x \<longrightarrow>
           x = h (nodeOr m (2 * i)) (nodeOr m (2 * i + 1))) \<and>
        mtIndex m = opsIndex ps (GetStartIndex m0) \<and>
        mtCount m = int (card (counted ps)) \<and>
        (removesStored ps {} \<longrightarrow> merkleInv m \<and> mtCount m = int (card (dom (leafMap m))))
    | Err e \<Rightarrow> False
    | Panic e \<Rightarrow> \<exists>p \<in> set ps. opPos p < GetStartIndex m0"
proof -
  have "merkleWeak m0" unfolding assms(1) by (rule merkleInv_weak [OF merkleInv_NewTree])
  note run = runOps_Ok_iff [OF this assms(2)]
  show ?thesis
  proof (cases "runOps ps m0")
    case (Ok m)
    note new = history_of_new_tree [OF assms Ok]
    have inner: "x = h (nodeOr m (2 * i)) (nodeOr m (2 * i + 1))"
      if "1 \<le> i" "i < GetStartIndex m" "GetValue m i = Some x" for i x
    proof -
      have "innerHashes m" "hashFn m = h" using new(1,4) by (simp_all add: historyResult_def merkleWeak_def)
      then show ?thesis using that by (simp add: innerHashes_def GetValue_def node_def)
    qed
    have fields: "leafMap m = opsMap d ps (\<lambda>_. None)" "mtIndex m = opsIndex ps (GetStartIndex m0)"
      "mtCount m = int (card (counted ps))"
      using new by (simp_all add: historyResult_def)
    have low: "\<forall>p \<in> set ps. GetStartIndex m0 \<le> opPos p" using run by (simp add: Ok)
    show ?thesis unfolding Ok res.case using new(8) inner fields low by blast
  qed (use run in \<open>simp_all\<close>)
qed

text \<open>A removal of an absent leaf: both leaves are written afterwards, but only one is counted.\<close>

lemma histories_keep_hashes_witness:
  "\<exists>m. runOps [OpRemove 9, OpInsert 5 8, OpInsert 7 9] (NewTree exampleHash 0 4) = Ok m \<and>
     leafMap m = [8 \<mapsto> 5, 9 \<mapsto> 7] \<and> mtCount m = 1 \<and> mtIndex m = 10 \<and>
     (\<forall>x. GetValue m 4 = Some x \<longrightarrow> x = exampleHash (nodeOr m 8) (nodeOr m 9))"
proof -
  let ?ps = "[OpRemove 9, OpInsert 5 8, OpInsert 7 9]"
  have g: "GetStartIndex (NewTree exampleHash 0 4) = 8" by code_simp
  have c: "card (counted ?ps) = 1" by simp
  note h = histories_keep_hashes [OF refl, of ?ps exampleHash 0 4]
  show ?thesis
  proof (cases "runOps ?ps (NewTree exampleHash 0 4)")
    case (Ok m)
    have "GetStartIndex m = 8"
      using history_of_new_tree(1) [OF refl _ Ok] g by (simp add: historyResult_def)
    with h have "leafMap m = [9 \<mapsto> 0, 8 \<mapsto> 5, 9 \<mapsto> 7]" "mtIndex m = 10" "mtCount m = int (card (counted ?ps))"
      and inner: "\<And>i x. 1 \<le> i \<Longrightarrow> i < 8 \<Longrightarrow> GetValue m i = Some x \<Longrightarrow>
        x = exampleHash (nodeOr m (2 * i)) (nodeOr m (2 * i + 1))"
      unfolding Ok by (simp_all add: g)
    moreover have "\<forall>x. GetValue m 4 = Some x \<longrightarrow> x = exampleHash (nodeOr m 8) (nodeOr m 9)"
      using inner [of 4] by simp
    ultimately show ?thesis using Ok c by auto
  qed (use h in \<open>auto simp: g\<close>)
qed

text \<open>So \<open>GetRootHash\<close> refuses that tree as incomplete although all its leaves were inserted.\<close>

lemma removed_absent_leaf_breaks_root:
  "andThen (runOps [OpRemove 9, OpInsert 5 8, OpInsert 7 9] (NewTree exampleHash 0 4)) GetRootHash =
     Err (ErrMsg ''merkle tree is incomplete'')"
  by code_simp

text \<open>An insertion past the capacity is not refused: its rehashing writes over leaf 8.\<close>

lemma insert_past_capacity_overwrites:
  "andThen (runOps [OpInsert 5 8, OpInsert 7 16] (NewTree exampleHash 0 4)) (\<lambda>m. Ok (GetValue m 8)) =
     Ok (Some (exampleHash 7 0))"
  by code_simp

text \<open>Writing a tree of the default height as JSON and reading it back gives the same tree, and a
  snapshot without the reverse index gives the tree back with a rebuilt one.\<close>

theorem json_roundtrip:
  assumes "levels m = MerkleLevels"
  shows "FromJSON (ToJSON m) (hashFn m) (defaultValue m) = Ok m \<and>
    FromJSON (ToJSONLite m) (hashFn m) (defaultValue m) = Ok (m\<lparr>reverseTree := buildReverseTree m\<rparr>)"
  using FromJSON_ToJSON [OF assms] by simp

lemma json_roundtrip_witness:
  "FromJSON (ToJSON (NewTree exampleHash 7 0)) exampleHash 7 = Ok (NewTree exampleHash 7 0)"
  using json_roundtrip [of "NewTree exampleHash 7 0"] by (simp add: NewTree_def Let_def)

text \<open>In a tree without gaps, the rebuilt reverse index sends a value to the last position that
  holds it, and knows exactly the values of the leaves.\<close>

theorem rebuilt_reverse_index:
  assumes "merkleReach h d lvls m" "mtCount m = mtIndex m - GetStartIndex m"
  shows "map_of (buildReverseTree m) (bigString v) = Some i \<longleftrightarrow>
    leafMap m i = Some v \<and> (\<forall>j > i. leafMap m j \<noteq> Some v)"
proof -
  have inv: "merkleInv m" using reach_invariant [OF assms(1)] by simp
  have ends: "GetStartIndex m + mtCount m = mtIndex m" using assms(2) by simp
  have inside: "leafMap m k = Some v \<longleftrightarrow> GetStartIndex m \<le> k \<and> k < mtIndex m \<and> node m k = Some v" for k
    using inv unfolding leafMap_node merkleInv_def leafSet_def by auto
  show ?thesis
    unfolding buildReverseTree_def ends buildReverseLoop_lookup inside by auto
qed

lemma rebuilt_reverse_index_witness: "map_of (buildReverseTree exampleTree) (bigString 5) = Some 8"
proof -
  have v: "mtCount exampleTree = mtIndex exampleTree - GetStartIndex exampleTree"
    "leafMap exampleTree 8 = Some 5" "leafMap exampleTree 9 \<noteq> Some 5" "mtIndex exampleTree = 10"
    by code_simp+
  have "leafMap exampleTree j \<noteq> Some 5" if "8 < j" for j
  proof
    assume *: "leafMap exampleTree j = Some 5"
    then have "j \<in> leafSet exampleTree" by (auto simp: leafMap_node leafSet_def split: if_splits)
    then have "j < 10" using reach_invariant [OF exampleTree_reach] v(4) by (auto simp: merkleInv_def)
    then have "j = 9" using that by simp
    then show False using * v(3) by simp
  qed
  then show ?thesis using rebuilt_reverse_index [OF exampleTree_reach v(1)] v(2) by simp
qed

end
