(* ===== verification/Amounts.thy ===== *)
theory Amounts
  imports GoPrelude
begin

unbundle bit_operations_syntax

text \<open>
  Numbers and amounts: \<open>internal/functions/utils/bigint.go\<close>, \<open>decimals.go\<close>, \<open>amounts.go\<close>,
  \<open>bit_operations.go\<close>, and the token amounts of \<open>internal/functions/web3/ether.go\<close>. The random
  bytes and the text of a float are arguments. The main results are the round trips: a value
  survives \<open>ToBeHex\<close>/\<open>ParseBigInt\<close>, and \<open>FormatUnits\<close>/\<open>ParseUnits\<close> at any precision that can
  hold it.
\<close>

subsection \<open>bigint.go\<close>

definition orElse :: "'a option \<Rightarrow> 'a option \<Rightarrow> 'a option" where
  "orElse a b = (case a of Some x \<Rightarrow> Some x | None \<Rightarrow> b)"

definition ParseBigInt :: "string \<Rightarrow> int res" where
  "ParseBigInt s0 =
     (let s = trimSpace s0;
          hexed = (if hasPrefix s ''0x'' \<or> hasPrefix s ''0X'' then setString 16 (drop 2 s) else None)
      in case orElse hexed (setString 10 s) of
           Some n \<Rightarrow> Ok n
         | None \<Rightarrow> Err (ErrMsg ''cannot parse as big.Int''))"

definition RandomBigInt :: "(nat \<Rightarrow> bytes res) \<Rightarrow> int \<Rightarrow> int res" where
  "RandomBigInt rand numBytes =
     (if numBytes < 0 then Panic ''makeslice: len out of range''
      else andThen (rand (nat numBytes)) (\<lambda>buf. Ok (setBytes buf)))"

definition ToBeHex :: "int option \<Rightarrow> string" where
  "ToBeHex n0 =
     (let n = (case n0 of None \<Rightarrow> 0 | Some n \<Rightarrow> n);
          s = bigText 16 n
      in ''0x'' @ (if length s mod 2 = 1 then ''0'' @ s else s))"

subsection \<open>amounts.go\<close>

fun bigintMaxLoop :: "int \<Rightarrow> int option list \<Rightarrow> int res" where
  "bigintMaxLoop largest [] = Ok largest"
| "bigintMaxLoop largest (v # vs) =
     andThen (deref v) (\<lambda>x. bigintMaxLoop (if x > largest then x else largest) vs)"

text \<open>The result is nil without arguments, and the single argument itself (nil or not) with one.\<close>

fun BigintMax :: "int option list \<Rightarrow> int option res" where
  "BigintMax [] = Ok None"
| "BigintMax [v] = Ok v"
| "BigintMax (v # w # vs) =
     andThen (deref w) (\<lambda>y. andThen (deref v) (\<lambda>x.
       andThen (bigintMaxLoop (if y > x then y else x) vs) (\<lambda>r. Ok (Some r))))"

fun indexByte :: "string \<Rightarrow> char \<Rightarrow> nat option" where
  "indexByte [] c = None"
| "indexByte (x # xs) c = (if x = c then Some 0 else map_option Suc (indexByte xs c))"

definition GetValueFirstNDigit :: "('f \<Rightarrow> string) \<Rightarrow> 'f \<Rightarrow> int \<Rightarrow> string res" where
  "GetValueFirstNDigit formatFloat num numberOfDigits =
     (let numStr = formatFloat num in
      case indexByte numStr CHR ''.'' of
        None \<Rightarrow> Ok numStr
      | Some idx \<Rightarrow>
          (let e0 = int idx + numberOfDigits + 1;
               e = (if e0 > int (length numStr) then int (length numStr) else e0)
           in if e < 0 then Panic ''slice bounds out of range'' else Ok (take (nat e) numStr)))"

subsection \<open>bit_operations.go\<close>

definition bit255 :: int where
  "bit255 = push_bit 255 1"

definition bit255Mask :: int where
  "bit255Mask = push_bit 255 1 - 1"

definition AddHighestBitToNumber :: "int \<Rightarrow> int" where
  "AddHighestBitToNumber v = v OR bit255"

definition TakeOffHighestBit :: "int \<Rightarrow> int" where
  "TakeOffHighestBit v = v AND bit255Mask"

definition ExtractHighestBit :: "int \<Rightarrow> int" where
  "ExtractHighestBit v = drop_bit 255 v AND 1"

definition IntMatrixToByteMatrix :: "int list list \<Rightarrow> bytes list" where
  "IntMatrixToByteMatrix rows = map (map word_of_int) rows"

subsection \<open>decimals.go\<close>

definition trimRight0 :: "string \<Rightarrow> string" where
  "trimRight0 s = rev (dropWhile (\<lambda>c. c = CHR ''0'') (rev s))"

definition FormatUnits :: "int option \<Rightarrow> int \<Rightarrow> string res" where
  "FormatUnits value0 decimals =
     (let value = (case value0 of None \<Rightarrow> 0 | Some v \<Rightarrow> v);
          neg = value < 0;
          digits0 = bigString \<bar>value\<bar>
      in if decimals = 0 then Ok (if neg then ''-'' @ digits0 else digits0)
         else
           (let digits = (if int (length digits0) \<le> decimals
                          then replicate (nat decimals + 1 - length digits0) CHR ''0'' @ digits0
                          else digits0)
            in if decimals < 0 then Panic ''slice bounds out of range''
               else
                 (let cut = length digits - nat decimals;
                      intPart = take cut digits;
                      frac0 = trimRight0 (drop cut digits);
                      fracPart = (if frac0 = [] then ''0'' else frac0);
                      result = intPart @ ''.'' @ fracPart
                  in Ok (if neg then ''-'' @ result else result))))"

definition ParseUnits :: "string \<Rightarrow> int \<Rightarrow> int res" where
  "ParseUnits value0 decimals =
     (let value1 = trimSpace value0;
          neg = hasPrefix value1 ''-'';
          value = (if neg then drop 1 value1 else value1);
          parts = splitStr value ''.''
      in if length parts > 2 then Err (ErrMsg ''invalid decimal value'')
         else
           (let intPart = hd parts;
                fracPart = (if length parts = 2 then parts ! 1 else [])
            in if int (length fracPart) > decimals then Err (ErrMsg ''too many decimals'')
               else
                 (let combined0 = intPart @ fracPart @ replicate (nat decimals - length fracPart) CHR ''0'';
                      combined = (if combined0 = [] then ''0'' else combined0)
                  in case setString 10 combined of
                       None \<Rightarrow> Err (ErrMsg ''cannot parse as decimal'')
                     | Some n \<Rightarrow> Ok (if neg then - n else n))))"

subsection \<open>web3/ether.go\<close>

text \<open>\<open>big.Int.Exp\<close> without a modulus is 1 for a negative exponent.\<close>

definition expBig :: "int \<Rightarrow> int \<Rightarrow> int" where
  "expBig b e = (if e \<le> 0 then 1 else b ^ nat e)"

definition GetAmountInToken :: "int \<Rightarrow> int option \<Rightarrow> string res" where
  "GetAmountInToken decimals amount = FormatUnits amount decimals"

definition GetAmountInWei :: "int \<Rightarrow> string \<Rightarrow> int res" where
  "GetAmountInWei decimals amount =
     (case ParseUnits amount 18 of
        Ok parsed \<Rightarrow> Ok (quo parsed (expBig 10 (18 - decimals)))
      | Err e \<Rightarrow> Err (ErrMsg ''number of decimals exceed maximum'')
      | Panic p \<Rightarrow> Panic p)"

definition GetAmountWithPrecision :: "int option \<Rightarrow> int \<Rightarrow> int \<Rightarrow> string res" where
  "GetAmountWithPrecision balance decimals precision =
     andThen (FormatUnits balance decimals) (\<lambda>amount.
       (case ParseUnits amount 18 of
          Ok parsed \<Rightarrow> FormatUnits (Some (quo parsed (expBig 10 (18 - precision)))) precision
        | Err e \<Rightarrow> Err (ErrMsg ''number of decimals exceed maximum'')
        | Panic p \<Rightarrow> Panic p))"

subsection \<open>Decimal text with leading and trailing zeros\<close>

lemma scanDigits_zeros: "1 \<le> b \<Longrightarrow> scanDigits b 0 (replicate k CHR ''0'') = Some 0"
  by (induction k) (auto simp: digitVal_def)

lemma scanNat_padded:
  assumes "2 \<le> b" "b \<le> 16"
  shows "scanNat b (replicate k CHR ''0'' @ natText b n) = Some n"
proof -
  have "1 \<le> b" using assms by simp
  then show ?thesis
    using assms by (simp add: scanNat_def scanDigits_append scanDigits_zeros scanDigits_natText)
qed

lemma padded_head:
  assumes "2 \<le> b" "b \<le> 16"
  shows "set (replicate k CHR ''0'' @ natText b n) \<inter>
    {CHR ''x'', CHR ''X'', CHR ''-'', CHR ''+'', CHR '' '', CHR '','', CHR ''.'', CHR 0x22} = {}"
  using natText_no_special [OF assms, of n] by auto

lemma setString_plain:
  assumes "s \<noteq> []" "hd s \<noteq> CHR ''-''" "hd s \<noteq> CHR ''+''"
  shows "setString b s = map_option int (scanNat b s)"
  using assms by (cases s) auto

lemma setString_padded:
  assumes "2 \<le> b" "b \<le> 16"
  shows "setString b (replicate k CHR ''0'' @ natText b n) = Some (int n)"
proof -
  let ?s = "replicate k CHR ''0'' @ natText b n"
  have ne: "?s \<noteq> []" by simp
  then have "hd ?s \<in> set ?s" by (rule hd_in_set)
  then have "hd ?s \<noteq> CHR ''-''" "hd ?s \<noteq> CHR ''+''" using padded_head [OF assms, of k n] by blast+
  then show ?thesis using setString_plain [OF ne] scanNat_padded [OF assms] by simp
qed

lemma scanDigits_zeros_after:
  "1 \<le> b \<Longrightarrow> scanDigits b a (replicate k CHR ''0'') = Some (a * b ^ k)"
  by (induction k arbitrary: a) (auto simp: digitVal_def)

lemma natText_not_space:
  assumes "2 \<le> b" "b \<le> 16" "c \<in> set (natText b n)"
  shows "\<not> isSpace c"
proof -
  have "c \<in> digitChar ` {..<b}" using natText_digits [OF assms(1,2)] assms(3) by blast
  then show ?thesis using assms(2) digitChar_not_space by force
qed

lemma zero_not_space: "\<not> isSpace CHR ''0''" "\<not> isSpace CHR ''x''" "\<not> isSpace CHR ''.''" "\<not> isSpace CHR ''-''"
  by (simp_all add: isSpace_def)

lemma splitFrom_none: "c \<notin> set s \<Longrightarrow> splitFrom [c] cur s = [rev cur @ s]"
  by (induction s arbitrary: cur) (auto simp: hasPrefix_def)

lemma splitFrom_one: "c \<notin> set s \<Longrightarrow> splitFrom [c] cur (s @ c # t) = (rev cur @ s) # splitFrom [c] [] t"
  by (induction s arbitrary: cur) (auto simp: hasPrefix_def)

lemma splitStr_two: "c \<notin> set s \<Longrightarrow> c \<notin> set t \<Longrightarrow> splitStr (s @ c # t) [c] = [s, t]"
  by (simp add: splitStr_def splitFrom_one splitFrom_none)

lemma splitStr_none: "c \<notin> set s \<Longrightarrow> splitStr s [c] = [s]"
  by (simp add: splitStr_def splitFrom_none)

subsection \<open>Round trips\<close>

lemma ToBeHex_shape:
  assumes "0 \<le> n"
  obtains k where "ToBeHex (Some n) = ''0x'' @ replicate k CHR ''0'' @ natText 16 (nat n)"
    "even (k + length (natText 16 (nat n)))"
proof (cases "even (length (natText 16 (nat n)))")
  case True
  then show ?thesis using assms by (intro that [of 0]) (simp_all add: ToBeHex_def Let_def bigText_def)
next
  case False
  then show ?thesis using assms
    by (intro that [of 1]) (auto simp: ToBeHex_def Let_def bigText_def odd_iff_mod_2_eq_one)
qed

lemma ToBeHex_nonempty [simp]: "ToBeHex n \<noteq> []"
  by (simp add: ToBeHex_def Let_def)

lemma ParseBigInt_ToBeHex [simp]:
  assumes "0 \<le> n"
  shows "ParseBigInt (ToBeHex (Some n)) = Ok n"
proof -
  let ?t = "natText 16 (nat n)"
  obtain k where k: "ToBeHex (Some n) = ''0x'' @ replicate k CHR ''0'' @ ?t"
    using ToBeHex_shape [OF assms] by blast
  have "trimSpace (ToBeHex (Some n)) = ToBeHex (Some n)"
    by (rule trimSpace_id) (auto simp: k zero_not_space dest: natText_not_space [of 16, simplified])
  moreover have "setString 16 (replicate k CHR ''0'' @ ?t) = Some n"
    using setString_padded [of 16 k "nat n"] assms by simp
  ultimately show ?thesis by (simp add: ParseBigInt_def Let_def k hasPrefix_def orElse_def)
qed

lemma ParseBigInt_bigString [simp]: "ParseBigInt (bigString n) = Ok n"
proof -
  have plain: "CHR ''x'' \<notin> set (natText 10 k)" "CHR ''X'' \<notin> set (natText 10 k)" for k
    using natText_no_special [of 10 k] by auto
  have "trimSpace (bigString n) = bigString n"
    by (rule trimSpace_id) (auto simp: bigText_def zero_not_space split: if_splits dest: natText_not_space [of 10, simplified])
  moreover have "\<not> hasPrefix (bigString n) ''0x'' \<and> \<not> hasPrefix (bigString n) ''0X''"
  proof -
    have "CHR ''x'' \<notin> set (bigString n)" "CHR ''X'' \<notin> set (bigString n)"
      using plain by (auto simp: bigText_def)
    moreover have "c \<in> set s" if "hasPrefix s [d, c]" for s c and d :: char
      using that unfolding hasPrefix_def by (metis in_set_takeD list.set_intros)
    ultimately show ?thesis by blast
  qed
  ultimately show ?thesis by (simp add: ParseBigInt_def Let_def orElse_def)
qed

lemma bigString_inj: "bigString m = bigString n \<longleftrightarrow> m = n"
  by (metis ParseBigInt_bigString res.inject(1))

text \<open>\<open>ParseBigInt\<close> reads back what \<open>ToBeHex\<close> writes, for every non-negative number; a nil
  pointer is written as zero, and the text always has an even number of digits.\<close>

theorem hex_roundtrip:
  assumes "0 \<le> n"
  shows "ParseBigInt (ToBeHex (Some n)) = Ok n \<and> ToBeHex None = ToBeHex (Some 0) \<and>
    even (length (ToBeHex (Some n)))"
  using assms ToBeHex_shape [OF assms] by (fastforce simp: ToBeHex_def [of None] ToBeHex_def [of "Some 0"])

lemma hex_roundtrip_witness: "ParseBigInt (ToBeHex (Some 4095)) = Ok 4095"
  using hex_roundtrip [of 4095] by simp

text \<open>The text \<open>FormatUnits\<close> writes, for a non-negative value.\<close>

lemma trimRight0_zeros: "\<exists>k. s = trimRight0 s @ replicate k CHR ''0''"
proof -
  let ?P = "\<lambda>c. c = CHR ''0''"
  have "takeWhile ?P (rev s) = replicate (length (takeWhile ?P (rev s))) CHR ''0''"
    by (metis (full_types) replicate_eqI set_takeWhileD)
  then have "rev s = replicate (length (takeWhile ?P (rev s))) CHR ''0'' @ dropWhile ?P (rev s)"
    by (metis takeWhile_dropWhile_id)
  then show ?thesis unfolding trimRight0_def by (metis rev_append rev_replicate rev_rev_ident)
qed

lemma nonempty_text_shape:
  fixes v :: nat and d :: nat
  obtains k cut where "k + length (natText 10 v) = cut + d" "0 < cut"
    "(if length (natText 10 v) \<le> d then replicate (d + 1 - length (natText 10 v)) CHR ''0'' @ natText 10 v
      else natText 10 v) = replicate k CHR ''0'' @ natText 10 v"
proof (cases "length (natText 10 v) \<le> d")
  case True
  then show ?thesis by (intro that [of "d + 1 - length (natText 10 v)" 1]) auto
next
  case False
  then show ?thesis by (intro that [of 0 "length (natText 10 v) - d"]) auto
qed

definition plainChars :: "string \<Rightarrow> bool" where
  "plainChars s \<longleftrightarrow> CHR ''.'' \<notin> set s \<and> CHR ''-'' \<notin> set s \<and> CHR ''+'' \<notin> set s \<and> (\<forall>c \<in> set s. \<not> isSpace c)"

lemma plainChars_append [simp]: "plainChars (s @ t) \<longleftrightarrow> plainChars s \<and> plainChars t"
  by (auto simp: plainChars_def)

lemma plainChars_zeros [simp]: "plainChars (replicate k CHR ''0'')" "plainChars ''0''" "plainChars []"
  by (auto simp: plainChars_def zero_not_space)

lemma plainChars_natText [simp]: "plainChars (natText 10 n)"
  using natText_no_special [of 10 n] by (auto simp: plainChars_def dest: natText_not_space [of 10, simplified])

lemma setString_zeros_around:
  "setString 10 (replicate k CHR ''0'' @ natText 10 n @ replicate j CHR ''0'') = Some (int n * 10 ^ j)"
proof -
  let ?s = "replicate k CHR ''0'' @ natText 10 n @ replicate j CHR ''0''"
  have ne: "?s \<noteq> []" by simp
  have "plainChars ?s" by simp
  then have "hd ?s \<noteq> CHR ''-''" "hd ?s \<noteq> CHR ''+''"
    using hd_in_set [OF ne] unfolding plainChars_def by metis+
  moreover have "scanNat 10 ?s = Some (n * 10 ^ j)"
    by (simp add: scanNat_def scanDigits_append scanDigits_zeros scanDigits_natText scanDigits_zeros_after)
  ultimately show ?thesis using setString_plain [OF ne] by simp
qed

lemma ParseUnits_shape:
  assumes "plainChars ip" "plainChars fp" "ip \<noteq> []" "length fp \<le> D"
    and "setString 10 (ip @ fp @ replicate (D - length fp) CHR ''0'') = Some n"
  shows "ParseUnits (ip @ CHR ''.'' # fp) (int D) = Ok n"
    and "ParseUnits (CHR ''-'' # ip @ CHR ''.'' # fp) (int D) = Ok (- n)"
proof -
  let ?s = "ip @ CHR ''.'' # fp"
  have sp: "trimSpace ?s = ?s" "trimSpace (CHR ''-'' # ?s) = CHR ''-'' # ?s"
    using assms(1,2) by (auto intro!: trimSpace_id simp: plainChars_def zero_not_space)
  have two: "splitStr ?s ''.'' = [ip, fp]"
    using assms(1,2) by (intro splitStr_two) (simp_all add: plainChars_def)
  have "\<not> hasPrefix ?s ''-''"
    using assms(1,3) by (cases ip) (auto simp: hasPrefix_def plainChars_def)
  then show "ParseUnits ?s (int D) = Ok n"
    using assms(3-5) by (simp add: ParseUnits_def sp(1) two Let_def)
  show "ParseUnits (CHR ''-'' # ?s) (int D) = Ok (- n)"
    using assms(3-5) by (simp add: ParseUnits_def sp(2) two Let_def hasPrefix_def)
qed

lemma ParseUnits_whole:
  assumes "plainChars ip" "ip \<noteq> []" "setString 10 (ip @ replicate D CHR ''0'') = Some n"
  shows "ParseUnits ip (int D) = Ok n" and "ParseUnits (CHR ''-'' # ip) (int D) = Ok (- n)"
proof -
  have sp: "trimSpace ip = ip" "trimSpace (CHR ''-'' # ip) = CHR ''-'' # ip"
    using assms(1) by (auto intro!: trimSpace_id simp: plainChars_def zero_not_space)
  have one: "splitStr ip ''.'' = [ip]"
    using assms(1) by (intro splitStr_none) (simp add: plainChars_def)
  have "\<not> hasPrefix ip ''-''"
    using assms(1,2) by (cases ip) (auto simp: hasPrefix_def plainChars_def)
  then show "ParseUnits ip (int D) = Ok n"
    using assms(2,3) by (simp add: ParseUnits_def sp(1) one Let_def)
  show "ParseUnits (CHR ''-'' # ip) (int D) = Ok (- n)"
    using assms(2,3) by (simp add: ParseUnits_def sp(2) one Let_def hasPrefix_def)
qed

lemma FormatUnits_shape:
  fixes v :: int and d :: nat
  assumes "0 < d"
  obtains ip fp k where "plainChars ip" "plainChars fp" "ip \<noteq> []" "length fp \<le> d"
    "ip @ fp @ replicate (d - length fp) CHR ''0'' = replicate k CHR ''0'' @ natText 10 (nat \<bar>v\<bar>)"
    "FormatUnits (Some v) (int d) = Ok ((if v < 0 then ''-'' else []) @ ip @ CHR ''.'' # fp)"
proof -
  let ?n = "natText 10 (nat \<bar>v\<bar>)"
  obtain k cut where k: "k + length ?n = cut + d" "0 < cut"
    and pad: "(if length ?n \<le> d then replicate (d + 1 - length ?n) CHR ''0'' @ ?n else ?n) = replicate k CHR ''0'' @ ?n"
    by (rule nonempty_text_shape)
  let ?t = "replicate k CHR ''0'' @ ?n"
  have len: "length ?t = cut + d" using k by simp
  define fr where "fr = trimRight0 (drop cut ?t)"
  obtain z where z: "drop cut ?t = fr @ replicate z CHR ''0''"
    using trimRight0_zeros [of "drop cut ?t"] unfolding fr_def by blast
  define fp where "fp = (if fr = [] then ''0'' else fr)"
  have "length (drop cut ?t) = d" using len by (simp only: length_drop)
  then have dz: "length fr + z = d" unfolding z by (simp only: length_append length_replicate)
  have fp: "fp @ replicate (d - length fp) CHR ''0'' = drop cut ?t" "length fp \<le> d"
    using dz assms z by (cases d; auto simp: fp_def)+
  have "take cut ?t @ fp @ replicate (d - length fp) CHR ''0'' = ?t" by (simp only: fp(1) append_take_drop_id)
  moreover have "plainChars ?t" by simp
  ultimately have pl: "plainChars (take cut ?t)" "plainChars fp" by (metis plainChars_append)+
  have cutn: "take cut ?t \<noteq> []" using k(2) len by (metis length_0_conv length_take min_less_iff_conj not_gr0 add_gr_0)
  have digits: "(if int (length ?n) \<le> int d then replicate (nat (int d) + 1 - length ?n) CHR ''0'' @ ?n else ?n) = ?t"
    using pad by (simp only: of_nat_le_iff nat_int)
  have "FormatUnits (Some v) (int d) = Ok ((if v < 0 then ''-'' else []) @ take cut ?t @ CHR ''.'' # fp)"
  proof -
    have big: "bigString \<bar>v\<bar> = ?n" by (simp add: bigText_def)
    have cut: "length ?t - nat (int d) = cut" using len by (simp only: nat_int)
    have "int d \<noteq> 0" "\<not> int d < 0" using assms by simp_all
    then show ?thesis
      unfolding FormatUnits_def Let_def option.case big digits cut fr_def [symmetric] fp_def [symmetric] by simp
  qed
  then show ?thesis
    using that [OF pl cutn fp(2)] \<open>take cut ?t @ _ = ?t\<close> by blast
qed

lemma format_parse_nat:
  fixes v :: int and d D :: nat
  assumes "d \<le> D"
  shows "\<exists>s. FormatUnits (Some v) (int d) = Ok s \<and> ParseUnits s (int D) = Ok (v * 10 ^ (D - d))"
proof (cases "d = 0")
  case True
  let ?n = "natText 10 (nat \<bar>v\<bar>)"
  have "setString 10 (?n @ replicate D CHR ''0'') = Some (\<bar>v\<bar> * 10 ^ D)"
    using setString_zeros_around [of 0 "nat \<bar>v\<bar>" D] by simp
  then have "ParseUnits ?n (int D) = Ok (\<bar>v\<bar> * 10 ^ D)" "ParseUnits (CHR ''-'' # ?n) (int D) = Ok (- (\<bar>v\<bar> * 10 ^ D))"
    by (intro ParseUnits_whole; simp)+
  moreover have "FormatUnits (Some v) (int d) = Ok ((if v < 0 then ''-'' else []) @ ?n)"
    by (simp add: FormatUnits_def True bigText_def)
  ultimately show ?thesis using True by (cases "v < 0") simp_all
next
  case False
  then have "0 < d" by simp
  then obtain ip fp k where sh: "plainChars ip" "plainChars fp" "ip \<noteq> []" "length fp \<le> d"
    "ip @ fp @ replicate (d - length fp) CHR ''0'' = replicate k CHR ''0'' @ natText 10 (nat \<bar>v\<bar>)"
    "FormatUnits (Some v) (int d) = Ok ((if v < 0 then ''-'' else []) @ ip @ CHR ''.'' # fp)"
    by (rule FormatUnits_shape)
  have "D - length fp = (d - length fp) + (D - d)" using sh(4) assms by simp
  then have "ip @ fp @ replicate (D - length fp) CHR ''0'' =
      replicate k CHR ''0'' @ natText 10 (nat \<bar>v\<bar>) @ replicate (D - d) CHR ''0''"
    using arg_cong [OF sh(5), of "\<lambda>t. t @ replicate (D - d) CHR ''0''"] by (simp add: replicate_add)
  then have val: "setString 10 (ip @ fp @ replicate (D - length fp) CHR ''0'') = Some (\<bar>v\<bar> * 10 ^ (D - d))"
    using setString_zeros_around [of k "nat \<bar>v\<bar>" "D - d"] by (simp only:) simp
  have "length fp \<le> D" using sh(4) assms by simp
  from ParseUnits_shape [OF sh(1,2,3) this val] show ?thesis
    using sh(6) by (cases "v < 0") simp_all
qed

text \<open>\<open>ParseUnits\<close> at \<open>D\<close> decimals reads the text \<open>FormatUnits\<close> writes at \<open>d \<le> D\<close> decimals as the
  value scaled by \<open>10 ^ (D - d)\<close>, for negative values too; at the same precision nothing is lost.\<close>

theorem units_roundtrip:
  assumes "0 \<le> d" "d \<le> D"
  shows "\<exists>s. FormatUnits (Some v) d = Ok s \<and> ParseUnits s D = Ok (v * 10 ^ nat (D - d))"
  using format_parse_nat [of "nat d" "nat D" v] assms by (simp add: nat_diff_distrib)

lemma units_roundtrip_witness:
  "\<exists>s. FormatUnits (Some (-1250)) 3 = Ok s \<and> ParseUnits s 5 = Ok (-1250 * 10 ^ nat (5 - 3))"
  by (rule units_roundtrip) simp_all

lemma units_scaled:
  assumes "0 \<le> decimals" "decimals \<le> 18"
  shows "\<exists>s. FormatUnits (Some v) decimals = Ok s \<and> ParseUnits s 18 = Ok (v * 10 ^ nat (18 - decimals))"
proof -
  have "nat (18 - decimals) = 18 - nat decimals" using assms by linarith
  then show ?thesis using format_parse_nat [of "nat decimals" 18 v] assms by simp
qed

lemma quo_exact: "0 < b \<Longrightarrow> quo (a * b) b = a"
  by (simp add: quo_def abs_mult sgn_mult sgn_mult_abs)

text \<open>For a token of at most 18 decimals, \<open>GetAmountInWei\<close> recovers the amount from the text
  \<open>GetAmountInToken\<close> shows.\<close>

theorem token_amount_roundtrip:
  assumes "0 \<le> decimals" "decimals \<le> 18"
  shows "\<exists>s. GetAmountInToken decimals (Some v) = Ok s \<and> GetAmountInWei decimals s = Ok v"
proof -
  obtain s where s: "FormatUnits (Some v) decimals = Ok s" "ParseUnits s 18 = Ok (v * 10 ^ nat (18 - decimals))"
    using units_scaled [OF assms] by blast
  have "expBig 10 (18 - decimals) = 10 ^ nat (18 - decimals)" using assms by (simp add: expBig_def)
  then show ?thesis using s by (simp add: GetAmountInToken_def GetAmountInWei_def quo_exact)
qed

lemma token_amount_roundtrip_witness:
  "\<exists>s. GetAmountInToken 6 (Some 1500000) = Ok s \<and> GetAmountInWei 6 s = Ok 1500000"
  by (rule token_amount_roundtrip) simp_all

text \<open>The text of a whole number of tokens is scaled by \<open>10 ^ decimals\<close> up to 18 decimals and
  by \<open>10 ^ 18\<close> beyond, so tokens of more than 18 decimals get the wrong scale.\<close>

theorem whole_amount_scale:
  assumes "0 \<le> decimals"
  shows "\<exists>s. FormatUnits (Some v) 0 = Ok s \<and> GetAmountInWei decimals s = Ok (v * 10 ^ nat (min decimals 18))"
proof -
  obtain s where s: "FormatUnits (Some v) 0 = Ok s" "ParseUnits s 18 = Ok (v * 10 ^ 18)"
    using format_parse_nat [of 0 18 v] by auto
  show ?thesis
  proof (cases "decimals \<le> 18")
    case True
    have "(10::int) ^ 18 = 10 ^ (nat decimals + nat (18 - decimals))"
      using True assms by (simp flip: nat_add_distrib)
    then have "v * 10 ^ 18 = v * 10 ^ nat decimals * 10 ^ nat (18 - decimals)"
      by (simp only: power_add mult.assoc)
    then have "quo (v * 10 ^ 18) (10 ^ nat (18 - decimals)) = v * 10 ^ nat decimals"
      by (simp only: quo_exact zero_less_power zero_less_numeral)
    moreover have "expBig 10 (18 - decimals) = 10 ^ nat (18 - decimals)" using True by (simp add: expBig_def)
    ultimately show ?thesis
      using s True by (simp add: GetAmountInWei_def)
  next
    case False
    then have "expBig 10 (18 - decimals) = 1" by (simp add: expBig_def)
    then show ?thesis using s False quo_exact [of 1 "v * 10 ^ 18"] by (simp add: GetAmountInWei_def)
  qed
qed

lemma whole_amount_scale_witness:
  "\<exists>s. FormatUnits (Some 3) 0 = Ok s \<and> GetAmountInWei 24 s = Ok (3 * 10 ^ nat (min 24 18))"
  by (rule whole_amount_scale) simp

subsection \<open>The flag bit\<close>

lemma bit255_bit: "bit bit255 n \<longleftrightarrow> n = 255"
  by (simp add: bit255_def bit_push_bit_iff bit_1_iff del: push_bit_of_1 push_bit_numeral) arith

lemma bit255Mask_mask: "bit255Mask = mask 255"
  by (simp add: bit255Mask_def mask_eq_exp_minus_1)

text \<open>For a field element below \<open>2 ^ 255\<close>, setting the highest bit loses nothing: the flag reads
  back as 1 (0 if it was not set) and the number reads back unchanged.\<close>

theorem highest_bit_roundtrip:
  assumes "0 \<le> v" "v < 2 ^ 255"
  shows "TakeOffHighestBit (AddHighestBitToNumber v) = v \<and> ExtractHighestBit (AddHighestBitToNumber v) = 1 \<and>
    TakeOffHighestBit v = v \<and> ExtractHighestBit v = 0 \<and> AddHighestBitToNumber v = v + 2 ^ 255"
proof -
  have small: "take_bit 255 v = v" using assms by (simp add: take_bit_int_eq_self)
  have high: "drop_bit 255 v = 0" using assms by (simp add: drop_bit_eq_div)
  have none: "bit255 AND v = 0"
  proof (rule bit_eqI)
    fix n
    have "\<not> bit v 255" using small by (metis bit_take_bit_iff less_irrefl)
    then show "bit (bit255 AND v) n \<longleftrightarrow> bit (0::int) n" by (auto simp: bit_and_iff bit255_bit)
  qed
  have "TakeOffHighestBit (AddHighestBitToNumber v) = v"
  proof (rule bit_eqI)
    fix n
    have "bit v n \<longleftrightarrow> n < 255 \<and> bit v n" using small by (metis bit_take_bit_iff)
    then show "bit (TakeOffHighestBit (AddHighestBitToNumber v)) n = bit v n"
      by (auto simp: TakeOffHighestBit_def AddHighestBitToNumber_def bit255Mask_mask bit_and_iff bit_or_iff
          bit_mask_iff bit255_bit)
  qed
  moreover have "ExtractHighestBit (AddHighestBitToNumber v) = 1"
    by (simp add: ExtractHighestBit_def AddHighestBitToNumber_def drop_bit_or high bit255_def
        and_one_eq drop_bit_push_bit del: push_bit_of_1)
  moreover have "AddHighestBitToNumber v = v + 2 ^ 255"
    using plus_and_or [of v bit255] none by (simp add: AddHighestBitToNumber_def and.commute bit255_def)
  ultimately show ?thesis
    using small high by (simp add: TakeOffHighestBit_def ExtractHighestBit_def bit255Mask_mask flip: take_bit_eq_mask)
qed

lemma highest_bit_roundtrip_witness: "ExtractHighestBit (AddHighestBitToNumber 77) = 1"
  by (rule highest_bit_roundtrip [THEN conjunct2, THEN conjunct1]) simp_all

end
