(* ===== verification/Addresses.thy ===== *)
theory Addresses
  imports Amounts
begin

text \<open>
  Address and byte-array text: \<open>internal/functions/utils/tron.go\<close>, \<open>solana.go\<close>, \<open>addresses.go\<close>
  and \<open>mnemonics.go\<close>. The hash functions, the base58 codec and the JSON decoder are arguments; what
  the round trips need of the base58 codec is named \<open>base58Codec\<close>.
\<close>

subsection \<open>addresses.go, mnemonics.go\<close>

definition HashEthereumAddress :: "(bytes \<Rightarrow> bytes) \<Rightarrow> string \<Rightarrow> string" where
  "HashEthereumAddress keccak addr = ''0x'' @ hexEncode (keccak (bytesOfString (toLower addr)))"

definition GenerateHashFromSeedPhrases :: "(bytes \<Rightarrow> bytes) \<Rightarrow> string list \<Rightarrow> string" where
  "GenerateHashFromSeedPhrases keccak phrases =
     ''0x'' @ hexEncode (keccak (bytesOfString (joinStr phrases '' '')))"

subsection \<open>tron.go\<close>

definition tronAddressPrefix :: "8 word" where
  "tronAddressPrefix = 0x41"

definition tronPayloadFromPrefixedHex :: "string \<Rightarrow> bytes res" where
  "tronPayloadFromPrefixedHex addr =
     andThen (wrapErr ''invalid Tron hex address'' (hexDecode addr)) (\<lambda>bs.
       if length bs \<noteq> 21 then Err (ErrMsg ''invalid Tron prefixed hex address length'')
       else if bs ! 0 \<noteq> tronAddressPrefix then Err (ErrMsg ''invalid Tron hex address prefix'')
       else Ok bs)"

definition tronPayloadFromHex :: "string \<Rightarrow> bytes res" where
  "tronPayloadFromHex addr =
     (let hexAddr = trimPrefix (trimPrefix addr ''0x'') ''0X'' in
      andThen (wrapErr ''invalid Tron hex address'' (hexDecode hexAddr)) (\<lambda>bs.
        if length bs = 20 then Ok (tronAddressPrefix # bs)
        else if length bs = 21 then
          (if bs ! 0 \<noteq> tronAddressPrefix then Err (ErrMsg ''invalid Tron hex address prefix'') else Ok bs)
        else Err (ErrMsg ''invalid Tron hex address length'')))"

definition tronChecksum :: "(bytes \<Rightarrow> bytes) \<Rightarrow> bytes \<Rightarrow> bytes" where
  "tronChecksum sha256 payload = take 4 (sha256 (sha256 payload))"

fun sameBytesFrom :: "bytes \<Rightarrow> bytes \<Rightarrow> bool" where
  "sameBytesFrom (a # as) (b # bs) = (if a \<noteq> b then False else sameBytesFrom as bs)"
| "sameBytesFrom as bs = True"

definition sameBytes :: "bytes \<Rightarrow> bytes \<Rightarrow> bool" where
  "sameBytes a b = (if length a \<noteq> length b then False else sameBytesFrom a b)"

definition encodeTronBase58Check :: "(bytes \<Rightarrow> bytes) \<Rightarrow> (bytes \<Rightarrow> string) \<Rightarrow> bytes \<Rightarrow> string" where
  "encodeTronBase58Check sha256 b58enc payload = b58enc (payload @ tronChecksum sha256 payload)"

definition decodeTronBase58Check :: "(bytes \<Rightarrow> bytes) \<Rightarrow> (string \<Rightarrow> bytes res) \<Rightarrow> string \<Rightarrow> bytes res" where
  "decodeTronBase58Check sha256 b58dec addr =
     andThen (wrapErr ''invalid Tron base58 address'' (b58dec addr)) (\<lambda>decoded.
       if length decoded \<noteq> 25 then Err (ErrMsg ''invalid Tron base58 address length'')
       else
         (let payload = take 21 decoded in
          if payload ! 0 \<noteq> tronAddressPrefix then Err (ErrMsg ''invalid Tron base58 address prefix'')
          else if \<not> sameBytes (drop 21 decoded) (tronChecksum sha256 payload)
            then Err (ErrMsg ''invalid Tron base58 address checksum'')
          else Ok payload))"

definition EVMHexToTronBase58Address ::
  "(bytes \<Rightarrow> bytes) \<Rightarrow> (bytes \<Rightarrow> string) \<Rightarrow> string \<Rightarrow> string res" where
  "EVMHexToTronBase58Address sha256 b58enc addr =
     (if hasPrefix addr ''T'' then Ok addr
      else andThen (tronPayloadFromHex addr) (\<lambda>payload. Ok (encodeTronBase58Check sha256 b58enc payload)))"

definition ToTronBase58IfHex :: "(bytes \<Rightarrow> bytes) \<Rightarrow> (bytes \<Rightarrow> string) \<Rightarrow> string \<Rightarrow> string res" where
  "ToTronBase58IfHex sha256 b58enc addr =
     (if hasPrefix addr ''0x'' \<or> hasPrefix addr ''0X'' then EVMHexToTronBase58Address sha256 b58enc addr
      else Ok addr)"

definition AddressToHexFormat ::
  "(bytes \<Rightarrow> bytes) \<Rightarrow> (string \<Rightarrow> bytes res) \<Rightarrow> string \<Rightarrow> string res" where
  "AddressToHexFormat sha256 b58dec addr =
     (if hasPrefix addr ''0x'' \<or> hasPrefix addr ''0X'' then Ok addr
      else if hasPrefix addr ''41'' then
        andThen (tronPayloadFromPrefixedHex addr) (\<lambda>payload. Ok (''0x'' @ hexEncode (drop 1 payload)))
      else if hasPrefix addr ''T'' then
        andThen (decodeTronBase58Check sha256 b58dec addr) (\<lambda>payload. Ok (''0x'' @ hexEncode (drop 1 payload)))
      else Err (ErrMsg ''failed to convert address to hex format''))"

definition NormalizeTronAddr ::
  "(bytes \<Rightarrow> bytes) \<Rightarrow> (string \<Rightarrow> bytes res) \<Rightarrow> string \<Rightarrow> string res" where
  "NormalizeTronAddr sha256 b58dec addr =
     (if hasPrefix addr ''T'' then AddressToHexFormat sha256 b58dec addr else Ok addr)"

subsection \<open>solana.go\<close>

text \<open>\<open>jsonInts\<close> and \<open>jsonIntRows\<close> stand for \<open>json.Unmarshal\<close> into \<open>[]int\<close> and \<open>[][]int\<close>.\<close>

definition tryParseByteArray :: "(string \<Rightarrow> int list option) \<Rightarrow> string \<Rightarrow> bytes option" where
  "tryParseByteArray jsonInts arg = map_option (map word_of_int) (jsonInts arg)"

definition AdvancedToBigInt :: "(string \<Rightarrow> int list option) \<Rightarrow> string \<Rightarrow> int res" where
  "AdvancedToBigInt jsonInts arg =
     (case tryParseByteArray jsonInts arg of
        Some bs \<Rightarrow> if length bs \<noteq> 32 then Err (ErrMsg ''advancedToBigInt: expected 32 bytes'')
                   else Ok (setBytes bs)
      | None \<Rightarrow> ParseBigInt arg)"

definition ParseByteArray :: "(string \<Rightarrow> int list option) \<Rightarrow> string \<Rightarrow> bytes res" where
  "ParseByteArray jsonInts arg =
     (case tryParseByteArray jsonInts arg of
        None \<Rightarrow> Err (ErrMsg ''cannot parse as byte array'')
      | Some bs \<Rightarrow> Ok bs)"

definition ParseByteMatrix :: "(string \<Rightarrow> int list list option) \<Rightarrow> string \<Rightarrow> bytes list res" where
  "ParseByteMatrix jsonIntRows arg =
     (case jsonIntRows arg of
        None \<Rightarrow> Err (ErrMsg ''cannot parse as byte matrix'')
      | Some rows \<Rightarrow> Ok (map (map word_of_int) rows))"

definition solanaOnChainUtxoPrefix :: string where
  "solanaOnChainUtxoPrefix = ''solana-on-chain-utxo:''"

definition solanaOnChainFields :: nat where
  "solanaOnChainFields = 8"

fun encodeFields :: "bytes list \<Rightarrow> string res" where
  "encodeFields [] = Ok []"
| "encodeFields (f # fs) =
     (if length f \<noteq> 32 then Err (ErrMsg ''expected bytes32 length 32'')
      else andThen (encodeFields fs) (\<lambda>s. Ok (hexEncode f @ s)))"

definition EncodeSolanaOnChainUtxo :: "bytes list \<Rightarrow> string res" where
  "EncodeSolanaOnChainUtxo onChainData =
     (if length onChainData \<noteq> solanaOnChainFields then Err (ErrMsg ''expected 8 on-chain fields'')
      else andThen (encodeFields onChainData) (\<lambda>s. Ok (solanaOnChainUtxoPrefix @ ''0x'' @ s)))"

definition IsSolanaOnChainUtxo :: "string \<Rightarrow> bool" where
  "IsSolanaOnChainUtxo encodedOutput = hasPrefix encodedOutput solanaOnChainUtxoPrefix"

subsection \<open>Properties of Tron addresses\<close>

text \<open>
  What the addresses rely on of base58: decoding inverts encoding, and 25 bytes that start with the
  Tron prefix are written with a leading T.
\<close>

definition base58Codec :: "(bytes \<Rightarrow> string) \<Rightarrow> (string \<Rightarrow> bytes res) \<Rightarrow> bool" where
  "base58Codec b58enc b58dec \<longleftrightarrow> (\<forall>bs. b58dec (b58enc bs) = Ok bs) \<and>
     (\<forall>bs. length bs = 25 \<longrightarrow> bs ! 0 = tronAddressPrefix \<longrightarrow> hasPrefix (b58enc bs) ''T'')"

lemma sameBytes_iff [simp]: "sameBytes a b \<longleftrightarrow> a = b"
proof -
  have "length a = length b \<Longrightarrow> sameBytesFrom a b \<longleftrightarrow> a = b"
    by (induction a b rule: sameBytesFrom.induct) auto
  then show ?thesis by (auto simp: sameBytes_def)
qed

lemma decode_encode_tron:
  assumes "base58Codec b58enc b58dec" "\<And>bs. length (sha256 bs) = 32"
    and "length payload = 21" "payload ! 0 = tronAddressPrefix"
  shows "decodeTronBase58Check sha256 b58dec (encodeTronBase58Check sha256 b58enc payload) = Ok payload"
    and "hasPrefix (encodeTronBase58Check sha256 b58enc payload) ''T''"
proof -
  have len: "length (payload @ tronChecksum sha256 payload) = 25"
    using assms(2,3) by (simp add: tronChecksum_def)
  then show "decodeTronBase58Check sha256 b58dec (encodeTronBase58Check sha256 b58enc payload) = Ok payload"
    using assms(1,3,4) by (simp add: decodeTronBase58Check_def encodeTronBase58Check_def base58Codec_def)
  have "(payload @ tronChecksum sha256 payload) ! 0 = tronAddressPrefix"
    using assms(3,4) by (simp add: nth_append)
  then show "hasPrefix (encodeTronBase58Check sha256 b58enc payload) ''T''"
    using assms(1) len by (simp add: encodeTronBase58Check_def base58Codec_def)
qed

lemma hasPrefix_T_not_hex:
  assumes "hasPrefix a ''T''"
  shows "\<not> hasPrefix a ''0x''" "\<not> hasPrefix a ''0X''" "\<not> hasPrefix a ''41''"
  using assms by (cases a; auto simp: hasPrefix_def)+

lemma tronPayloadFromHex_20:
  assumes "length b = 20"
  shows "tronPayloadFromHex (''0x'' @ hexEncode b) = Ok (tronAddressPrefix # b)"
proof -
  have "CHR ''X'' \<notin> set (hexEncode b)"
  proof
    assume "CHR ''X'' \<in> set (hexEncode b)"
    then have "CHR ''X'' \<in> digitChar ` {..<16}" by (rule subsetD [OF hexEncode_digits])
    then obtain d where "d < 16" "digitChar d = CHR ''X''" by (elim imageE) simp
    then show False using digitChar_not_special [of d] by simp
  qed
  then have "\<not> hasPrefix (hexEncode b) ''0X''"
    by (cases "hexEncode b"; cases "tl (hexEncode b)") (auto simp: hasPrefix_def)
  then have "trimPrefix (trimPrefix (''0x'' @ hexEncode b) ''0x'') ''0X'' = hexEncode b"
    by (simp add: trimPrefix_def hasPrefix_def)
  then show ?thesis using assms unfolding tronPayloadFromHex_def by simp
qed

text \<open>An EVM address converted to a Tron address and back is the same address, and conversion
  is idempotent.\<close>

theorem tron_address_roundtrip:
  assumes "base58Codec b58enc b58dec" "\<And>bs. length (sha256 bs) = 32" "length b = 20"
  shows "\<exists>a. EVMHexToTronBase58Address sha256 b58enc (''0x'' @ hexEncode b) = Ok a \<and>
     AddressToHexFormat sha256 b58dec a = Ok (''0x'' @ hexEncode b) \<and>
     NormalizeTronAddr sha256 b58dec a = Ok (''0x'' @ hexEncode b) \<and>
     EVMHexToTronBase58Address sha256 b58enc a = Ok a \<and> ToTronBase58IfHex sha256 b58enc a = Ok a"
proof -
  let ?p = "tronAddressPrefix # b"
  let ?a = "encodeTronBase58Check sha256 b58enc ?p"
  have dec: "decodeTronBase58Check sha256 b58dec ?a = Ok ?p" "hasPrefix ?a ''T''"
    using decode_encode_tron [OF assms(1,2), of ?p] assms(3) by simp_all
  have "\<not> hasPrefix (''0x'' @ hexEncode b) ''T''" by (simp add: hasPrefix_def)
  then have "EVMHexToTronBase58Address sha256 b58enc (''0x'' @ hexEncode b) = Ok ?a"
    unfolding EVMHexToTronBase58Address_def tronPayloadFromHex_20 [OF assms(3)] by simp
  moreover have "AddressToHexFormat sha256 b58dec ?a = Ok (''0x'' @ hexEncode b)"
    using dec hasPrefix_T_not_hex [OF dec(2)] by (simp add: AddressToHexFormat_def)
  ultimately show ?thesis
    using dec(2) hasPrefix_T_not_hex [OF dec(2)]
    by (simp add: NormalizeTronAddr_def EVMHexToTronBase58Address_def ToTronBase58IfHex_def)
qed

definition toyBase58 :: "bytes \<Rightarrow> string" where
  "toyBase58 bs = CHR ''T'' # hexEncode bs"

definition toyBase58Dec :: "string \<Rightarrow> bytes res" where
  "toyBase58Dec s = hexDecode (drop 1 s)"

lemma toyBase58_codec: "base58Codec toyBase58 toyBase58Dec"
  by (simp add: base58Codec_def toyBase58_def toyBase58Dec_def hasPrefix_def)

lemma tron_address_roundtrip_witness:
  "\<exists>a. EVMHexToTronBase58Address (\<lambda>bs. replicate 32 7) toyBase58 (''0x'' @ hexEncode (replicate 20 1)) = Ok a \<and>
     AddressToHexFormat (\<lambda>bs. replicate 32 7) toyBase58Dec a = Ok (''0x'' @ hexEncode (replicate 20 1))"
  using tron_address_roundtrip [OF toyBase58_codec, of "\<lambda>bs. replicate 32 7" "replicate 20 1"] by auto

text \<open>An address in base58 is accepted only with the Tron prefix and the right checksum, so a
  decoded address re-encodes to the same 25 bytes.\<close>

theorem tron_checksum_checked:
  assumes "decodeTronBase58Check sha256 b58dec addr = Ok payload"
  shows "length payload = 21 \<and> payload ! 0 = tronAddressPrefix \<and>
    b58dec addr = Ok (payload @ tronChecksum sha256 payload)"
proof -
  obtain decoded where d: "b58dec addr = Ok decoded" "length decoded = 25"
    "take 21 decoded ! 0 = tronAddressPrefix" "drop 21 decoded = tronChecksum sha256 (take 21 decoded)"
    "payload = take 21 decoded"
    using assms by (auto simp: decodeTronBase58Check_def res_simps Let_def split: if_splits)
  then have "decoded = payload @ tronChecksum sha256 payload" by (metis append_take_drop_id)
  then show ?thesis using d by simp
qed

lemma tron_checksum_checked_witness:
  "length (tronAddressPrefix # replicate 20 1) = 21 \<and> (tronAddressPrefix # replicate 20 1) ! 0 = tronAddressPrefix \<and>
    toyBase58Dec (encodeTronBase58Check (\<lambda>bs. replicate 32 7) toyBase58 (tronAddressPrefix # replicate 20 1)) =
    Ok ((tronAddressPrefix # replicate 20 1) @ tronChecksum (\<lambda>bs. replicate 32 7) (tronAddressPrefix # replicate 20 1))"
  by (rule tron_checksum_checked, rule decode_encode_tron(1) [OF toyBase58_codec]) simp_all

lemma encodeFields_Ok: "(\<forall>f \<in> set fs. length f = 32) \<Longrightarrow> encodeFields fs = Ok (hexEncode (concat fs))"
  by (induction fs) auto

lemma encodeFields_bad: "\<not> (\<forall>f \<in> set fs. length f = 32) \<Longrightarrow> \<exists>e. encodeFields fs = Err e"
proof (induction fs)
  case (Cons f fs)
  show ?case
  proof (cases "length f = 32")
    case True
    then obtain e where "encodeFields fs = Err e" using Cons by auto
    then show ?thesis using True by simp
  qed simp
qed simp

text \<open>Eight 32-byte fields encode to a text that is recognised as a Solana on-chain UTXO and
  whose hexadecimal part decodes to the fields in order; any other shape is refused.\<close>

theorem solana_utxo_text:
  "case EncodeSolanaOnChainUtxo fs of
     Ok s \<Rightarrow> length fs = 8 \<and> (\<forall>f \<in> set fs. length f = 32) \<and> IsSolanaOnChainUtxo s \<and>
       hexDecode (drop (length solanaOnChainUtxoPrefix + 2) s) = Ok (concat fs)
   | Err e \<Rightarrow> length fs \<noteq> 8 \<or> (\<exists>f \<in> set fs. length f \<noteq> 32)
   | Panic p \<Rightarrow> False"
proof (cases "length fs = 8 \<and> (\<forall>f \<in> set fs. length f = 32)")
  case True
  then have "EncodeSolanaOnChainUtxo fs = Ok (solanaOnChainUtxoPrefix @ ''0x'' @ hexEncode (concat fs))"
    by (simp add: EncodeSolanaOnChainUtxo_def solanaOnChainFields_def encodeFields_Ok)
  then show ?thesis using True by (simp add: IsSolanaOnChainUtxo_def)
next
  case False
  show ?thesis
  proof (cases "length fs = 8")
    case True
    with False obtain e where "encodeFields fs = Err e" using encodeFields_bad by blast
    then show ?thesis using True False by (simp add: EncodeSolanaOnChainUtxo_def solanaOnChainFields_def)
  qed (simp add: EncodeSolanaOnChainUtxo_def solanaOnChainFields_def)
qed

lemma solana_utxo_text_witness:
  "\<exists>s. EncodeSolanaOnChainUtxo (replicate 8 (replicate 32 1)) = Ok s \<and> IsSolanaOnChainUtxo s"
  using solana_utxo_text [of "replicate 8 (replicate 32 1)"] by (auto split: res.splits)

end
