(* ===== verification/CryptoKeys.thy ===== *)
theory CryptoKeys
  imports Addresses
begin

text \<open>
  Key derivation, stealth addresses and sealed boxes: \<open>internal/crypto/poseidon.go\<close>,
  \<open>internal/crypto/eddsa.go\<close>, \<open>cryptokeys/keyutils.go\<close>, \<open>cryptokeys/keys.go\<close> and
  \<open>cryptokeys/ecdh.go\<close>. The cryptographic primitives live in third-party packages: they are the
  fields of \<open>cryptoLib\<close>, an argument of every definition that uses one. A \<open>UserKeys\<close> method returns
  the object's new state beside its outcome, because the shielded private key is cached on first use.
\<close>

type_synonym jubPoint = "int \<times> int"

record cryptoLib =
  poseidonHash :: "int list \<Rightarrow> int res"          \<comment> \<open>go-iden3-crypto poseidon.Hash\<close>
  fieldP :: int                                   \<comment> \<open>gnark-crypto fr.Modulus\<close>
  keccak256 :: "bytes \<Rightarrow> bytes"                   \<comment> \<open>go-ethereum crypto.Keccak256\<close>
  fromHex :: "string \<Rightarrow> bytes"                    \<comment> \<open>go-ethereum common.FromHex\<close>
  bjjMul :: "int \<Rightarrow> jubPoint \<Rightarrow> jubPoint"         \<comment> \<open>babyjub Point.Mul\<close>
  bjjB8 :: jubPoint
  subOrder :: int
  blake512 :: "bytes \<Rightarrow> bytes"
  fromLE :: "bytes \<Rightarrow> int"                        \<comment> \<open>SetBigIntFromLEBytes\<close>
  toLE32 :: "int \<Rightarrow> bytes"                        \<comment> \<open>BigIntLEBytes\<close>
  sha256sum :: "bytes \<Rightarrow> bytes"
  sha512sum :: "bytes \<Rightarrow> bytes"
  x25519Base :: "bytes \<Rightarrow> bytes res"              \<comment> \<open>curve25519.X25519 with the base point\<close>
  ed25519FromSeed :: "bytes \<Rightarrow> bytes"
  ed25519Verify :: "bytes \<Rightarrow> bytes \<Rightarrow> bytes \<Rightarrow> bool"
  ecdsaAddress :: "string \<Rightarrow> string res"          \<comment> \<open>HexToECDSA, then the address of the public key\<close>
  recoverAddress :: "bytes \<Rightarrow> bytes \<Rightarrow> string res" \<comment> \<open>SigToPub, then the address of the public key\<close>
  textHash :: "bytes \<Rightarrow> bytes"                    \<comment> \<open>accounts.TextHash\<close>
  addressHex :: "bytes \<Rightarrow> string"               \<comment> \<open>common.BytesToAddress, then Hex\<close>
  hexToAddress :: "string \<Rightarrow> string"            \<comment> \<open>common.HexToAddress, then Hex\<close>
  b58Encode :: "bytes \<Rightarrow> string"
  b58Decode :: "string \<Rightarrow> bytes res"
  boxOpen :: "bytes \<Rightarrow> bytes \<Rightarrow> bytes \<Rightarrow> bytes option"        \<comment> \<open>box.OpenAnonymous: ciphertext, pk, sk\<close>
  boxSeal :: "nat \<Rightarrow> bytes \<Rightarrow> bytes \<Rightarrow> bytes res"            \<comment> \<open>box.SealAnonymous: randomness, message, pk\<close>
  secretSeal :: "bytes \<Rightarrow> bytes \<Rightarrow> bytes \<Rightarrow> bytes"            \<comment> \<open>secretbox.Seal: message, nonce, key\<close>
  secretOpen :: "bytes \<Rightarrow> bytes \<Rightarrow> bytes \<Rightarrow> bytes option"     \<comment> \<open>secretbox.Open: ciphertext, nonce, key\<close>

subsection \<open>internal/crypto\<close>

definition PoseidonHash :: "cryptoLib \<Rightarrow> int \<Rightarrow> int \<Rightarrow> int res" where
  "PoseidonHash C a b =
     (case poseidonHash C [a, b] of
        Ok h \<Rightarrow> Ok h
      | Err e \<Rightarrow> Panic ''poseidon hash failed''
      | Panic p \<Rightarrow> Panic p)"

definition PoseidonBig :: "cryptoLib \<Rightarrow> int option list \<Rightarrow> int res" where
  "PoseidonBig C inputs =
     andThen (mapRes (\<lambda>i. andThen (deref i) (\<lambda>n. Ok (n mod fieldP C))) inputs) (poseidonHash C)"

definition eddsaPruneBuffer :: "bytes \<Rightarrow> bytes" where
  "eddsaPruneBuffer buf =
     (let b1 = buf[0 := buf ! 0 AND 0xF8];
          b2 = b1[31 := b1 ! 31 AND 0x7F]
      in b2[31 := b2 ! 31 OR 0x40])"

definition eddsaScalar :: "cryptoLib \<Rightarrow> bytes \<Rightarrow> int" where
  "eddsaScalar C prv = fromLE C (eddsaPruneBuffer (take 32 (blake512 C prv)))"

definition EddsaPrv2Pub :: "cryptoLib \<Rightarrow> bytes \<Rightarrow> jubPoint" where
  "EddsaPrv2Pub C prv = bjjMul C (drop_bit 3 (eddsaScalar C prv)) (bjjB8 C)"

definition EddsaSignPoseidon :: "cryptoLib \<Rightarrow> bytes \<Rightarrow> int \<Rightarrow> (jubPoint \<times> int) res" where
  "EddsaSignPoseidon C prv msg =
     (let a = EddsaPrv2Pub C prv;
          s = drop_bit 3 (eddsaScalar C prv);
          h1 = blake512 C prv;
          rBuf = blake512 C (drop 32 h1 @ toLE32 C msg);
          r = fromLE C rBuf mod subOrder C;
          r8 = bjjMul C r (bjjB8 C)
      in andThen (PoseidonBig C [Some (fst r8), Some (snd r8), Some (fst a), Some (snd a), Some msg]) (\<lambda>hm.
           Ok (r8, (r + hm * push_bit 3 s) mod subOrder C)))"

subsection \<open>keyutils.go\<close>

definition circomP :: "cryptoLib \<Rightarrow> int" where
  "circomP C = fieldP C"

definition circomPHalf :: "cryptoLib \<Rightarrow> int" where
  "circomPHalf C = fieldP C div 2"

definition two255 :: int where
  "two255 = push_bit 255 1"

definition two253 :: int where
  "two253 = push_bit 253 1"

definition isCircomNegative :: "cryptoLib \<Rightarrow> int \<Rightarrow> bool" where
  "isCircomNegative C n = (n > circomPHalf C)"

definition getCircomSign :: "cryptoLib \<Rightarrow> int \<Rightarrow> int" where
  "getCircomSign C n = (if isCircomNegative C n then 1 else 0)"

definition adjustedPrivateKey :: "cryptoLib \<Rightarrow> string \<Rightarrow> int res" where
  "adjustedPrivateKey C privateKey = andThen (ParseBigInt privateKey) (\<lambda>pk. Ok (pk mod circomP C))"

definition poseidonHashHex :: "cryptoLib \<Rightarrow> string list \<Rightarrow> string res" where
  "poseidonHashHex C inputs =
     andThen (mapRes ParseBigInt inputs) (\<lambda>bigs.
     andThen (PoseidonBig C (map Some bigs)) (\<lambda>h. Ok (ToBeHex (Some h))))"

definition keccak256Utf8 :: "cryptoLib \<Rightarrow> string \<Rightarrow> string" where
  "keccak256Utf8 C s = ''0x'' @ hexEncode (keccak256 C (bytesOfString s))"

definition recoverableSignature :: "cryptoLib \<Rightarrow> string \<Rightarrow> bytes res" where
  "recoverableSignature C signature =
     (let sig = fromHex C signature in
      if length sig \<noteq> 65 then Err (ErrMsg ''cryptokeys: signature must be 65 bytes'')
      else Ok (if sig ! 64 \<ge> 27 then sig[64 := sig ! 64 - 27] else sig))"

subsection \<open>keys.go: the user's keys\<close>

record userKeys =
  ukSignature :: string
  ukNullifyingKey :: string

definition prefixForSpendingPair :: string where
  "prefixForSpendingPair = ''1''"

definition shieldedKeyScope :: string where
  "shieldedKeyScope = ''hinkal-offchain-shielded-key''"

definition claimableSignatureScope :: string where
  "claimableSignatureScope = ''hinkal-claimable-utxo-signature''"

definition NewUserKeys :: "string \<Rightarrow> userKeys" where
  "NewUserKeys sig = \<lparr>ukSignature = sig, ukNullifyingKey = []\<rparr>"

definition NewUserKeysWithSignatureAndNullifyingKey :: "string \<Rightarrow> string \<Rightarrow> userKeys" where
  "NewUserKeysWithSignatureAndNullifyingKey sig nk = \<lparr>ukSignature = sig, ukNullifyingKey = nk\<rparr>"

definition NewUserKeysFromNullifyingKey :: "string \<Rightarrow> userKeys" where
  "NewUserKeysFromNullifyingKey nk = \<lparr>ukSignature = [], ukNullifyingKey = nk\<rparr>"

definition requireSignature :: "(userKeys, unit) action" where
  "requireSignature u =
     (if ukSignature u = [] then (Err (ErrMsg ''cryptokeys: no signature provided''), u) else (Ok (), u))"

definition requireKeyMaterial :: "(userKeys, unit) action" where
  "requireKeyMaterial u =
     (if ukSignature u = [] \<and> ukNullifyingKey u = []
      then (Err (ErrMsg ''cryptokeys: no signature or private key provided''), u) else (Ok (), u))"

definition GetSignature :: "(userKeys, string) action" where
  "GetSignature = bindA requireSignature (\<lambda>_ u. (Ok (ukSignature u), u))"

definition SetSignature :: "string \<Rightarrow> userKeys \<Rightarrow> userKeys" where
  "SetSignature sig u = u\<lparr>ukSignature := sig\<rparr>"

definition GetShieldedPrivateKey :: "cryptoLib \<Rightarrow> (userKeys, string) action" where
  "GetShieldedPrivateKey C u =
     (if ukNullifyingKey u \<noteq> [] then (Ok (ukNullifyingKey u), u)
      else bindA requireKeyMaterial (\<lambda>_ u.
             (let nk = ''0x'' @ hexEncode (keccak256 C (fromHex C (ukSignature u)))
              in (Ok nk, u\<lparr>ukNullifyingKey := nk\<rparr>))) u)"

definition GetShieldedPublicKey :: "cryptoLib \<Rightarrow> (userKeys, string) action" where
  "GetShieldedPublicKey C =
     bindA (GetShieldedPrivateKey C) (\<lambda>spk.
     bindA (liftA (ParseBigInt spk)) (\<lambda>n.
     bindA (liftA (PoseidonBig C [Some n])) (\<lambda>h.
     liftA (Ok (ToBeHex (Some h))))))"

definition GetSpendingKeyPair :: "cryptoLib \<Rightarrow> (userKeys, string \<times> jubPoint) action" where
  "GetSpendingKeyPair C =
     bindA requireSignature (\<lambda>_.
     bindA GetSignature (\<lambda>signature.
     (case setString 10 prefixForSpendingPair of
        None \<Rightarrow> liftA (Err (ErrMsg ''cryptokeys: invalid spending prefix''))
      | Some prefix \<Rightarrow>
          bindA (liftA (ParseBigInt signature)) (\<lambda>sigBig.
          bindA (liftA (PoseidonBig C [Some prefix, Some sigBig])) (\<lambda>privSpendingBig.
          (let privSpendingKey = ToBeHex (Some privSpendingBig)
           in liftA (Ok (privSpendingKey, EddsaPrv2Pub C (fromHex C privSpendingKey)))))))))"

definition SignEddsa :: "cryptoLib \<Rightarrow> int \<Rightarrow> (userKeys, jubPoint \<times> int) action" where
  "SignEddsa C message =
     bindA requireSignature (\<lambda>_.
     bindA (GetSpendingKeyPair C) (\<lambda>pair.
     liftA (EddsaSignPoseidon C (fromHex C (fst pair)) (message mod fieldP C))))"

definition poseidonSeed :: "cryptoLib \<Rightarrow> int \<Rightarrow> (userKeys, string) action" where
  "poseidonSeed C nonce =
     bindA (GetShieldedPrivateKey C) (\<lambda>priv.
     bindA (GetShieldedPublicKey C) (\<lambda>pub.
     bindA (liftA (ParseBigInt priv)) (\<lambda>privBig.
     bindA (liftA (ParseBigInt pub)) (\<lambda>pubBig.
     bindA (liftA (PoseidonBig C [Some nonce, Some privBig, Some pubBig])) (\<lambda>seed.
     liftA (Ok (ToBeHex (Some seed))))))))"

definition derivedKeyFromNonce :: "cryptoLib \<Rightarrow> int \<Rightarrow> string \<Rightarrow> (userKeys, string) action" where
  "derivedKeyFromNonce C nonce scope =
     bindA requireKeyMaterial (\<lambda>_.
     bindA (poseidonSeed C nonce) (\<lambda>seed.
     liftA (Ok (keccak256Utf8 C (scope @ '':'' @ seed)))))"

definition GetShieldedPrivateKeyFromNonce :: "cryptoLib \<Rightarrow> int \<Rightarrow> (userKeys, string) action" where
  "GetShieldedPrivateKeyFromNonce C nonce = derivedKeyFromNonce C nonce shieldedKeyScope"

definition GetClaimableSignatureFromNonce :: "cryptoLib \<Rightarrow> int \<Rightarrow> (userKeys, string) action" where
  "GetClaimableSignatureFromNonce C nonce = derivedKeyFromNonce C nonce claimableSignatureScope"

definition GetSignerPrivateKeyFromNonce :: "cryptoLib \<Rightarrow> int \<Rightarrow> (userKeys, string) action" where
  "GetSignerPrivateKeyFromNonce C walletNonce =
     bindA requireKeyMaterial (\<lambda>_.
     bindA (poseidonSeed C walletNonce) (\<lambda>seed.
     liftA (Ok (keccak256Utf8 C seed))))"

definition GetSignerSolanaPrivateKeyFromNonce :: "cryptoLib \<Rightarrow> int \<Rightarrow> (userKeys, string) action" where
  "GetSignerSolanaPrivateKeyFromNonce C walletNonce =
     bindA (GetSignerPrivateKeyFromNonce C walletNonce) (\<lambda>privateKey.
       (let seed = fromHex C privateKey in
        if length seed \<noteq> 32 then liftA (Err (ErrMsg ''cryptokeys: signer private key is not a 32-byte seed''))
        else liftA (Ok (b58Encode C (ed25519FromSeed C seed)))))"

definition GetDerivedEthereumAddress :: "cryptoLib \<Rightarrow> (userKeys, string) action" where
  "GetDerivedEthereumAddress C =
     bindA (GetShieldedPrivateKey C) (\<lambda>priv. liftA (ecdsaAddress C (trimPrefix priv ''0x'')))"

definition derivedSolanaKeypair :: "cryptoLib \<Rightarrow> (userKeys, bytes) action" where
  "derivedSolanaKeypair C =
     bindA requireKeyMaterial (\<lambda>_.
     bindA (GetShieldedPrivateKey C) (\<lambda>priv.
       (let seed = fromHex C priv in
        if length seed \<noteq> 32 then liftA (Err (ErrMsg ''cryptokeys: shielded private key is not a 32-byte seed''))
        else liftA (Ok (ed25519FromSeed C seed)))))"

definition GetDerivedSolanaPublicKey :: "cryptoLib \<Rightarrow> (userKeys, string) action" where
  "GetDerivedSolanaPublicKey C =
     bindA (derivedSolanaKeypair C) (\<lambda>keypair. liftA (Ok (b58Encode C (drop 32 keypair))))"

definition GetNearIntentsAccountID :: "cryptoLib \<Rightarrow> (userKeys, string) action" where
  "GetNearIntentsAccountID C =
     bindA (derivedSolanaKeypair C) (\<lambda>keypair. liftA (Ok (hexEncode (drop 32 keypair))))"

definition GetNearIntentsKeyPairString :: "cryptoLib \<Rightarrow> (userKeys, string) action" where
  "GetNearIntentsKeyPairString C =
     bindA (derivedSolanaKeypair C) (\<lambda>keypair. liftA (Ok (''ed25519:'' @ b58Encode C keypair)))"

definition VerifyMessage :: "cryptoLib \<Rightarrow> string \<Rightarrow> (userKeys, string) action" where
  "VerifyMessage C signingMessage =
     bindA requireSignature (\<lambda>_ u.
       bindA (liftA (recoverableSignature C (ukSignature u))) (\<lambda>sig.
       liftA (recoverAddress C (textHash C (bytesOfString signingMessage)) sig)) u)"

definition VerifySolanaMessage :: "cryptoLib \<Rightarrow> string \<Rightarrow> string \<Rightarrow> (userKeys, bool) action" where
  "VerifySolanaMessage C signingMessage signerPublicKey =
     bindA requireSignature (\<lambda>_ u.
       bindA (liftA (b58Decode C signerPublicKey)) (\<lambda>pubBytes.
         if length pubBytes \<noteq> 32 then liftA (Err (ErrMsg ''cryptokeys: invalid solana public key length''))
         else liftA (Ok (ed25519Verify C pubBytes (bytesOfString signingMessage) (fromHex C (ukSignature u))))) u)"

definition tronMessagePrefix :: string where
  "tronMessagePrefix = CHR 0x19 # ''TRON Signed Message:'' @ [CHR 0x0A]"

definition VerifyTronMessage :: "cryptoLib \<Rightarrow> string \<Rightarrow> string \<Rightarrow> (userKeys, bool) action" where
  "VerifyTronMessage C signingMessage signerAddress =
     bindA requireSignature (\<lambda>_ u.
       bindA (liftA (recoverableSignature C (ukSignature u))) (\<lambda>sig.
       (let msg = bytesOfString signingMessage;
            prefix = tronMessagePrefix @ natText 10 (length msg);
            hash = keccak256 C (bytesOfString prefix @ msg)
        in bindA (liftA (recoverAddress C hash sig)) (\<lambda>addr.
           bindA (liftA (EVMHexToTronBase58Address (sha256sum C) (b58Encode C) addr)) (\<lambda>recoveredTron.
           bindA (liftA (ToTronBase58IfHex (sha256sum C) (b58Encode C) signerAddress)) (\<lambda>expectedTron.
           liftA (Ok (recoveredTron = expectedTron))))))) u)"

definition GetAccessKey :: "cryptoLib \<Rightarrow> (userKeys, string) action" where
  "GetAccessKey C =
     bindA requireKeyMaterial (\<lambda>_.
     bindA (GetShieldedPrivateKey C) (\<lambda>priv.
     bindA (GetShieldedPublicKey C) (\<lambda>pub.
     liftA (poseidonHashHex C [priv, pub]))))"

definition GetBackendToken :: "cryptoLib \<Rightarrow> (userKeys, string) action" where
  "GetBackendToken C =
     bindA requireKeyMaterial (\<lambda>_.
     bindA (GetAccessKey C) (\<lambda>accessKey.
     bindA (GetShieldedPublicKey C) (\<lambda>pub.
     liftA (poseidonHashHex C [accessKey, pub]))))"

subsection \<open>keys.go: stealth addresses\<close>

definition GetRandomizedStealthPairOld :: "cryptoLib \<Rightarrow> int \<Rightarrow> string \<Rightarrow> (jubPoint \<times> jubPoint) res" where
  "GetRandomizedStealthPairOld C s privateKey =
     andThen (adjustedPrivateKey C privateKey) (\<lambda>pk.
       (let multiplier = (s * pk) mod circomP C
        in Ok (bjjMul C s (bjjB8 C), bjjMul C multiplier (bjjB8 C))))"

definition GetRandomizedStealthPair :: "cryptoLib \<Rightarrow> int \<Rightarrow> string \<Rightarrow> (jubPoint \<times> jubPoint) res" where
  "GetRandomizedStealthPair C s privateKey =
     andThen (adjustedPrivateKey C privateKey) (\<lambda>pk.
       (let h0 = bjjMul C s (bjjB8 C) in Ok (h0, bjjMul C pk h0)))"

definition GetStealthAddressCompressedPoints :: "cryptoLib \<Rightarrow> int \<Rightarrow> string \<Rightarrow> (int \<times> int) res" where
  "GetStealthAddressCompressedPoints C s privateKey =
     andThen (GetRandomizedStealthPairOld C s privateKey) (\<lambda>(H0, H1).
       Ok (snd H0 + two255 * getCircomSign C (fst H0), snd H1 + two255 * getCircomSign C (fst H1)))"

definition CheckSignature :: "cryptoLib \<Rightarrow> int \<Rightarrow> int \<Rightarrow> int \<Rightarrow> string \<Rightarrow> bool res" where
  "CheckSignature C s sH0 sH1 privateKey =
     andThen (GetStealthAddressCompressedPoints C s privateKey) (\<lambda>(h0, h1). Ok (sH0 = h0 \<and> sH1 = h1))"

definition GetStealthAddress :: "cryptoLib \<Rightarrow> int \<Rightarrow> string \<Rightarrow> string res" where
  "GetStealthAddress C s privateKey =
     andThen (GetRandomizedStealthPairOld C s privateKey) (\<lambda>(H0, H1).
     (let signs = 2 * getCircomSign C (fst H0) + getCircomSign C (fst H1)
      in andThen (PoseidonBig C [Some signs, Some (snd H0), Some (snd H1)]) (\<lambda>h. Ok (ToBeHex (Some h)))))"

definition GetH1FromH0 :: "cryptoLib \<Rightarrow> jubPoint \<Rightarrow> string \<Rightarrow> jubPoint res" where
  "GetH1FromH0 C h0 privateKey = andThen (adjustedPrivateKey C privateKey) (\<lambda>pk. Ok (bjjMul C pk h0))"

definition VerifyStealthPair :: "cryptoLib \<Rightarrow> jubPoint \<Rightarrow> jubPoint \<Rightarrow> string \<Rightarrow> bool \<Rightarrow> bool res" where
  "VerifyStealthPair C h0 h1 privateKey onlyYCheck =
     andThen (GetH1FromH0 C h0 privateKey) (\<lambda>candidate.
       if onlyYCheck then Ok (snd candidate = snd h1)
       else Ok (fst candidate = fst h1 \<and> snd candidate = snd h1))"

definition GetStealthAddressNewStyle :: "cryptoLib \<Rightarrow> jubPoint \<Rightarrow> string \<Rightarrow> int list \<Rightarrow> string res" where
  "GetStealthAddressNewStyle C h0 nullifyingPrivateKey spendingPublicKey =
     (if length spendingPublicKey \<noteq> 2
      then Err (ErrMsg ''cryptokeys: spending public key must be an array of 2 elements'')
      else andThen (GetH1FromH0 C h0 nullifyingPrivateKey) (\<lambda>h1.
           andThen (ParseBigInt nullifyingPrivateKey) (\<lambda>nullifyingBig.
           (let signs = 2 * getCircomSign C (fst h0) + getCircomSign C (fst h1)
            in andThen (PoseidonBig C [Some signs, Some (snd h0), Some (snd h1), Some (spendingPublicKey ! 0),
                                       Some (spendingPublicKey ! 1), Some nullifyingBig]) (\<lambda>h.
               Ok (ToBeHex (Some h)))))))"

partial_function (option) randomizationLoop :: "cryptoLib \<Rightarrow> int \<Rightarrow> int \<Rightarrow> nat \<Rightarrow> int option" where
  "randomizationLoop C initial pk i =
     (let s = (initial * 10 ^ i) mod circomP C;
          sPk = (s * pk) mod circomP C
      in if sPk < two253 \<and> s < two253 then Some s else randomizationLoop C initial pk (i + 1))"

declare randomizationLoop.simps [code]

definition FindCorrectRandomization :: "cryptoLib \<Rightarrow> int \<Rightarrow> string \<Rightarrow> int res" where
  "FindCorrectRandomization C initialRandomization privateKey =
     andThen (adjustedPrivateKey C privateKey) (\<lambda>pk.
       returned (map_option Ok (randomizationLoop C initialRandomization pk 0)))"

definition GetH0FromRandomization :: "cryptoLib \<Rightarrow> int \<Rightarrow> jubPoint" where
  "GetH0FromRandomization C r = bjjMul C r (bjjB8 C)"

definition FindH0 :: "cryptoLib \<Rightarrow> int \<Rightarrow> string \<Rightarrow> jubPoint option res" where
  "FindH0 C r privateKey =
     (if privateKey = [] then Ok None
      else andThen (GetRandomizedStealthPair C r privateKey) (\<lambda>(h0, h1). Ok (Some h0)))"

definition EncryptionKeyPair :: "cryptoLib \<Rightarrow> string \<Rightarrow> (bytes \<times> bytes) res" where
  "EncryptionKeyPair C seedHex =
     (let sk = take 32 (sha512sum C (fromHex C seedHex))
      in andThen (x25519Base C sk) (\<lambda>pk. Ok (sk, pk)))"

definition GetEncryptionKeyPair :: "cryptoLib \<Rightarrow> string \<Rightarrow> (string \<times> string) res" where
  "GetEncryptionKeyPair C privateKey =
     andThen (EncryptionKeyPair C privateKey) (\<lambda>(sk, pk). Ok (''0x'' @ hexEncode sk, ''0x'' @ hexEncode pk))"

subsection \<open>ecdh.go: sealed keys\<close>

definition sealBytes :: nat where "sealBytes = 48"

definition secretKeyBytes :: nat where "secretKeyBytes = 32"

definition secretNonceBytes :: nat where "secretNonceBytes = 24"

definition sealedKeyLen :: nat where "sealedKeyLen = sealBytes + secretKeyBytes"

definition DecryptBoxSeal :: "cryptoLib \<Rightarrow> bytes \<Rightarrow> bytes \<Rightarrow> bytes \<Rightarrow> bytes res" where
  "DecryptBoxSeal C ciphertext pk sk =
     (case boxOpen C ciphertext pk sk of
        None \<Rightarrow> Err (ErrMsg ''cryptokeys: box seal open failed'')
      | Some msg \<Rightarrow> Ok msg)"

definition DecryptSealedKeys :: "cryptoLib \<Rightarrow> bytes \<Rightarrow> bytes \<Rightarrow> bytes \<Rightarrow> int \<Rightarrow> bytes res" where
  "DecryptSealedKeys C packed pk sk recipientIndex =
     (if length packed < 1 + secretNonceBytes then Err (ErrMsg ''cryptokeys: sealed keys too short'')
      else
        (let count = unat (packed ! 0);
             nonce = take secretNonceBytes (drop 1 packed);
             off = 1 + secretNonceBytes
         in if recipientIndex < 0 \<or> recipientIndex \<ge> int count
            then Err (ErrMsg ''cryptokeys: recipient index out of range'')
            else if length packed < off + count * sealedKeyLen
            then Err (ErrMsg ''cryptokeys: sealed keys truncated'')
            else
              (let sealedKey = take sealedKeyLen (drop (off + nat recipientIndex * sealedKeyLen) packed);
                   ciphertext = drop (off + count * sealedKeyLen) packed
               in case boxOpen C sealedKey pk sk of
                    None \<Rightarrow> Err (ErrMsg ''cryptokeys: sealed content key open failed'')
                  | Some contentKey \<Rightarrow>
                      if length contentKey \<noteq> secretKeyBytes
                      then Err (ErrMsg ''cryptokeys: sealed content key open failed'')
                      else (case secretOpen C ciphertext nonce contentKey of
                              None \<Rightarrow> Err (ErrMsg ''cryptokeys: secretbox open failed'')
                            | Some msg \<Rightarrow> Ok msg))))"

text \<open>
  \<open>rand.Read\<close> supplies the content key, then the nonce; \<open>boxSeal\<close> draws its own randomness for each
  recipient, numbered here.
\<close>

fun sealForAll :: "cryptoLib \<Rightarrow> bytes \<Rightarrow> nat \<Rightarrow> bytes list \<Rightarrow> bytes res" where
  "sealForAll C contentKey r [] = Ok []"
| "sealForAll C contentKey r (pk # pks) =
     andThen (boxSeal C r contentKey pk) (\<lambda>sealed.
     andThen (sealForAll C contentKey (r + 1) pks) (\<lambda>rest. Ok (sealed @ rest)))"

definition EncryptSealedKeys ::
  "cryptoLib \<Rightarrow> (nat \<Rightarrow> nat \<Rightarrow> bytes res) \<Rightarrow> bytes \<Rightarrow> bytes list \<Rightarrow> bytes res" where
  "EncryptSealedKeys C randRead msg recipientPubKeys =
     andThen (randRead 0 32) (\<lambda>contentKey.
     andThen (randRead 1 secretNonceBytes) (\<lambda>nonce.
       (let ciphertext = secretSeal C msg nonce contentKey
        in andThen (sealForAll C contentKey 0 recipientPubKeys) (\<lambda>sealed.
             Ok (of_nat (length recipientPubKeys) # nonce @ sealed @ ciphertext)))))"

end
