(* ===== verification/CryptoKeysProps.thy ===== *)
theory CryptoKeysProps
  imports CryptoKeys
begin

text \<open>
  Properties of the keys component: the shielded key cache cannot be observed, the randomization loop
  ends exactly when some power of ten fits, and every recipient opens a sealed message.
\<close>

subsection \<open>The key cache\<close>

definition warmKeys :: "cryptoLib \<Rightarrow> userKeys \<Rightarrow> userKeys" where
  "warmKeys C u = snd (GetShieldedPrivateKey C u)"

lemma GetShieldedPrivateKey_cases:
  obtains (cached) k where "GetShieldedPrivateKey C u = (Ok k, warmKeys C u)" "k \<noteq> []"
      "ukNullifyingKey (warmKeys C u) = k" "requireKeyMaterial u = (Ok (), u)"
  | (none) e where "GetShieldedPrivateKey C u = (Err e, u)" "warmKeys C u = u"
  by (cases "ukNullifyingKey u = []"; cases "ukSignature u = []")
     (auto simp: GetShieldedPrivateKey_def warmKeys_def requireKeyMaterial_def bindA_def Let_def)

lemma GetShieldedPrivateKey_warm: "GetShieldedPrivateKey C (warmKeys C u) = GetShieldedPrivateKey C u"
proof (cases rule: GetShieldedPrivateKey_cases [of C u])
  case (cached k)
  then show ?thesis by (subst GetShieldedPrivateKey_def) simp
qed simp

lemma bind_warm: "bindA (GetShieldedPrivateKey C) f (warmKeys C u) = bindA (GetShieldedPrivateKey C) f u"
  by (simp add: bindA_def GetShieldedPrivateKey_warm)

lemma require_bind_warm:
  assumes "\<And>u. g (warmKeys C u) = g u"
  shows "bindA requireKeyMaterial (\<lambda>_. g) (warmKeys C u) = bindA requireKeyMaterial (\<lambda>_. g) u"
proof (cases rule: GetShieldedPrivateKey_cases [of C u])
  case (cached k)
  then have "requireKeyMaterial (warmKeys C u) = (Ok (), warmKeys C u)"
    by (simp add: requireKeyMaterial_def)
  then show ?thesis using cached(4) assms [of u] by (simp add: bindA_def)
qed simp

lemma bind_left_warm:
  assumes "\<And>u. m (warmKeys C u) = m u"
  shows "bindA m f (warmKeys C u) = bindA m f u"
  by (simp add: bindA_def assms)

lemmas warm_rules = bind_warm require_bind_warm bind_left_warm

text \<open>Deriving the shielded private key first never changes what a later call returns or the state
  it leaves: the cached key is the one every method would derive itself.\<close>

theorem key_cache_transparent:
  "GetShieldedPublicKey C (warmKeys C u) = GetShieldedPublicKey C u \<and>
   GetAccessKey C (warmKeys C u) = GetAccessKey C u \<and>
   GetBackendToken C (warmKeys C u) = GetBackendToken C u \<and>
   GetSignerPrivateKeyFromNonce C n (warmKeys C u) = GetSignerPrivateKeyFromNonce C n u \<and>
   GetShieldedPrivateKeyFromNonce C n (warmKeys C u) = GetShieldedPrivateKeyFromNonce C n u \<and>
   GetClaimableSignatureFromNonce C n (warmKeys C u) = GetClaimableSignatureFromNonce C n u \<and>
   GetDerivedEthereumAddress C (warmKeys C u) = GetDerivedEthereumAddress C u \<and>
   GetDerivedSolanaPublicKey C (warmKeys C u) = GetDerivedSolanaPublicKey C u \<and>
   GetNearIntentsAccountID C (warmKeys C u) = GetNearIntentsAccountID C u"
proof -
  have pub: "GetShieldedPublicKey C (warmKeys C v) = GetShieldedPublicKey C v" for v
    unfolding GetShieldedPublicKey_def by (rule bind_warm)
  have acc: "GetAccessKey C (warmKeys C v) = GetAccessKey C v" for v
    unfolding GetAccessKey_def by (intro require_bind_warm bind_warm)
  have seed: "poseidonSeed C n (warmKeys C v) = poseidonSeed C n v" for v
    unfolding poseidonSeed_def by (rule bind_warm)
  have derived: "derivedKeyFromNonce C n scope (warmKeys C v) = derivedKeyFromNonce C n scope v" for v scope
    unfolding derivedKeyFromNonce_def by (intro require_bind_warm bind_left_warm seed)
  have sol: "derivedSolanaKeypair C (warmKeys C v) = derivedSolanaKeypair C v" for v
    unfolding derivedSolanaKeypair_def by (intro require_bind_warm bind_warm)
  show ?thesis
    unfolding GetBackendToken_def GetSignerPrivateKeyFromNonce_def GetShieldedPrivateKeyFromNonce_def
      GetClaimableSignatureFromNonce_def GetDerivedEthereumAddress_def GetDerivedSolanaPublicKey_def
      GetNearIntentsAccountID_def
    by (intro conjI pub acc derived require_bind_warm bind_left_warm bind_warm seed sol)
qed

subsection \<open>Finding a randomization\<close>

definition randomizationAt :: "cryptoLib \<Rightarrow> int \<Rightarrow> nat \<Rightarrow> int" where
  "randomizationAt C initial i = (initial * 10 ^ i) mod circomP C"

definition randomizationFits :: "cryptoLib \<Rightarrow> int \<Rightarrow> int \<Rightarrow> nat \<Rightarrow> bool" where
  "randomizationFits C initial pk i \<longleftrightarrow> randomizationAt C initial i < two253 \<and>
     (randomizationAt C initial i * pk) mod circomP C < two253"

lemma randomizationLoop_step:
  "randomizationLoop C initial pk i =
     (if randomizationFits C initial pk i then Some (randomizationAt C initial i)
      else randomizationLoop C initial pk (i + 1))"
  by (subst randomizationLoop.simps) (auto simp: randomizationFits_def randomizationAt_def Let_def)

lemma randomizationLoop_first:
  "randomizationFits C initial pk (i + k) \<Longrightarrow> (\<And>j. j < k \<Longrightarrow> \<not> randomizationFits C initial pk (i + j)) \<Longrightarrow>
     randomizationLoop C initial pk i = Some (randomizationAt C initial (i + k))"
proof (induction k arbitrary: i)
  case 0
  then show ?case by (subst randomizationLoop_step) simp
next
  case (Suc k)
  have "\<not> randomizationFits C initial pk i" using Suc.prems(2) [of 0] by simp
  moreover have "randomizationLoop C initial pk (i + 1) = Some (randomizationAt C initial (i + 1 + k))"
  proof (rule Suc.IH)
    show "randomizationFits C initial pk (i + 1 + k)" using Suc.prems(1) by simp
    show "\<not> randomizationFits C initial pk (i + 1 + j)" if "j < k" for j
      using Suc.prems(2) [of "Suc j"] that by simp
  qed
  ultimately show ?case by (subst randomizationLoop_step) simp
qed

lemma randomizationLoop_result:
  "randomizationLoop C initial pk i = Some s \<Longrightarrow>
     \<exists>k. s = randomizationAt C initial k \<and> randomizationFits C initial pk k"
proof (erule randomizationLoop.raw_induct [rotated])
  fix loop and C :: cryptoLib and initial pk i s
  assume IH: "\<And>C initial pk i s. loop C initial pk i = Some s \<Longrightarrow>
      \<exists>k. s = randomizationAt C initial k \<and> randomizationFits C initial pk k"
    and "(let t = initial * 10 ^ i mod circomP C; tPk = t * pk mod circomP C
          in if tPk < two253 \<and> t < two253 then Some t else loop C initial pk (i + 1)) = Some s"
  then have "s = randomizationAt C initial i \<and> randomizationFits C initial pk i \<or> loop C initial pk (i + 1) = Some s"
    by (auto simp: Let_def randomizationFits_def randomizationAt_def split: if_splits)
  then show "\<exists>k. s = randomizationAt C initial k \<and> randomizationFits C initial pk k" using IH by blast
qed

text \<open>\<open>FindCorrectRandomization\<close> returns exactly when some power of ten makes both products fit in
  253 bits, and then it returns the product with the least such power; otherwise it does not return.\<close>

theorem randomization_found:
  assumes "adjustedPrivateKey C privateKey = Ok pk"
  shows "FindCorrectRandomization C initial privateKey =
    (if \<exists>i. randomizationFits C initial pk i
     then Ok (randomizationAt C initial (LEAST i. randomizationFits C initial pk i))
     else Panic ''does not return'')"
proof (cases "\<exists>i. randomizationFits C initial pk i")
  case True
  then obtain i where i: "randomizationFits C initial pk i" by blast
  let ?n = "LEAST i. randomizationFits C initial pk i"
  have "randomizationLoop C initial pk 0 = Some (randomizationAt C initial (0 + ?n))"
  proof (rule randomizationLoop_first)
    show "randomizationFits C initial pk (0 + ?n)" using i by (simp add: LeastI)
    show "\<not> randomizationFits C initial pk (0 + j)" if "j < ?n" for j
      using not_less_Least [OF that] by simp
  qed
  then show ?thesis using True by (simp add: FindCorrectRandomization_def assms)
next
  case False
  then have "randomizationLoop C initial pk 0 = None"
    using randomizationLoop_result [of C initial pk 0] by (cases "randomizationLoop C initial pk 0") auto
  then show ?thesis using False by (simp add: FindCorrectRandomization_def assms)
qed

text \<open>A small instance of the third-party package, for the witnesses: numbers are their own hashes
  modulo 97, points are multiplied coordinate by coordinate, and boxes keep their message in clear
  behind a tag of the right length.\<close>

definition toyCrypto :: cryptoLib where
  "toyCrypto = \<lparr>poseidonHash = (\<lambda>xs. Ok (fold (\<lambda>x a. (5 * a + x + 1) mod 97) xs 0)), fieldP = 97,
     keccak256 = (\<lambda>bs. take 32 (bs @ replicate 32 0)), fromHex = (\<lambda>s. case hexDecode (trimPrefix s ''0x'') of Ok bs \<Rightarrow> bs | _ \<Rightarrow> []),
     bjjMul = (\<lambda>k (x, y). (k * x mod 97, k * y mod 97)), bjjB8 = (2, 3), subOrder = 13,
     blake512 = (\<lambda>bs. replicate 64 5), fromLE = setBytes, toLE32 = (\<lambda>n. natToBE 32 (nat n)),
     sha256sum = (\<lambda>bs. replicate 32 7), sha512sum = (\<lambda>bs. replicate 64 9),
     x25519Base = (\<lambda>sk. Ok sk), ed25519FromSeed = (\<lambda>s. s @ s), ed25519Verify = (\<lambda>pk m sig. pk = sig),
     ecdsaAddress = (\<lambda>s. Ok s), recoverAddress = (\<lambda>h sig. Ok (hexEncode h)), textHash = (\<lambda>bs. bs),
     addressHex = (\<lambda>bs. ''0x'' @ hexEncode bs), hexToAddress = toLower,
     b58Encode = toyBase58, b58Decode = toyBase58Dec,
     boxOpen = (\<lambda>c pk sk. if pk = sk then Some (drop 48 c) else None),
     boxSeal = (\<lambda>r m pk. Ok (replicate 48 0 @ m)),
     secretSeal = (\<lambda>m n k. m), secretOpen = (\<lambda>c n k. Some c)\<rparr>"

lemma randomization_found_witness: "FindCorrectRandomization toyCrypto 50 (ToBeHex (Some 11)) = Ok 50"
proof -
  have pk: "adjustedPrivateKey toyCrypto (ToBeHex (Some 11)) = Ok 11"
    by (simp add: adjustedPrivateKey_def circomP_def toyCrypto_def)
  have fits: "randomizationFits toyCrypto 50 11 0"
    by (simp add: randomizationFits_def randomizationAt_def circomP_def toyCrypto_def two253_def)
  then have "(LEAST i. randomizationFits toyCrypto 50 11 i) = 0" by (simp add: Least_eq_0)
  moreover have "randomizationAt toyCrypto 50 0 = 50"
    by (simp add: randomizationAt_def circomP_def toyCrypto_def)
  ultimately show ?thesis using randomization_found [OF pk, of 50] fits by auto
qed

subsection \<open>Sealed keys\<close>

text \<open>
  What the sealed format relies on of NaCl: sealing adds \<open>sealBytes\<close> bytes and the key pair of the
  recipient opens it; a secret box opens under its own nonce and key; random reads have the length
  asked for.
\<close>

definition boxLaws :: "cryptoLib \<Rightarrow> bool" where
  "boxLaws C \<longleftrightarrow> (\<forall>r m pk c. boxSeal C r m pk = Ok c \<longrightarrow> length c = length m + sealBytes) \<and>
     (\<forall>m n k. secretOpen C (secretSeal C m n k) n k = Some m)"

definition boxPair :: "cryptoLib \<Rightarrow> bytes \<Rightarrow> bytes \<Rightarrow> bool" where
  "boxPair C pk sk \<longleftrightarrow> (\<forall>r m c. boxSeal C r m pk = Ok c \<longrightarrow> boxOpen C c pk sk = Some m)"

definition randLaw :: "(nat \<Rightarrow> nat \<Rightarrow> bytes res) \<Rightarrow> bool" where
  "randLaw randRead \<longleftrightarrow> (\<forall>i n bs. randRead i n = Ok bs \<longrightarrow> length bs = n)"

lemma sealed_length:
  "boxLaws C \<Longrightarrow> boxSeal C r m pk = Ok c \<Longrightarrow> length c = length m + sealBytes"
  by (auto simp: boxLaws_def)

lemma sealed_key_length:
  "boxLaws C \<Longrightarrow> length ck = secretKeyBytes \<Longrightarrow> boxSeal C r ck pk = Ok c \<Longrightarrow> length c = sealedKeyLen"
  by (simp add: sealed_length sealedKeyLen_def)

lemma sealForAll_length:
  "boxLaws C \<Longrightarrow> length ck = secretKeyBytes \<Longrightarrow> sealForAll C ck r pks = Ok s \<Longrightarrow> length s = length pks * sealedKeyLen"
  by (induction pks arbitrary: r s) (auto simp: res_simps dest: sealed_key_length)

lemma sealForAll_slot:
  assumes "boxLaws C" "length ck = secretKeyBytes"
  shows "sealForAll C ck r pks = Ok s \<Longrightarrow> i < length pks \<Longrightarrow>
    \<exists>k. boxSeal C k ck (pks ! i) = Ok (take sealedKeyLen (drop (i * sealedKeyLen) s))"
proof (induction pks arbitrary: r s i)
  case (Cons pk pks)
  obtain c s' where s: "boxSeal C r ck pk = Ok c" "sealForAll C ck (r + 1) pks = Ok s'" "s = c @ s'"
    using Cons.prems(1) by (auto simp: res_simps)
  have len: "length c = sealedKeyLen"
    by (rule sealed_key_length [OF assms s(1)])
  show ?case
  proof (cases i)
    case 0
    then show ?thesis using s len by auto
  next
    case (Suc j)
    then have "drop (i * sealedKeyLen) s = drop (j * sealedKeyLen) s'" using s(3) len by simp
    then show ?thesis using Cons.IH [OF s(2), of j] Cons.prems(2) Suc by simp
  qed
qed simp

lemma sealed_keys_open:
  assumes "boxLaws C" "randLaw randRead" "length pks < 256" "boxPair C (pks ! i) sk" "i < length pks"
    and "EncryptSealedKeys C randRead msg pks = Ok packed"
  shows "DecryptSealedKeys C packed (pks ! i) sk (int i) = Ok msg \<and>
    (j < 0 \<or> j \<ge> int (length pks) \<longrightarrow> (\<exists>e. DecryptSealedKeys C packed (pks ! i) sk j = Err e))"
proof -
  obtain ck nonce s where p: "randRead 0 32 = Ok ck" "randRead 1 secretNonceBytes = Ok nonce"
    "sealForAll C ck 0 pks = Ok s"
    "packed = of_nat (length pks) # nonce @ s @ secretSeal C msg nonce ck"
    using assms(6) by (auto simp: EncryptSealedKeys_def res_simps Let_def)
  have len: "length ck = secretKeyBytes" "length nonce = secretNonceBytes"
    using assms(2) p by (auto simp: randLaw_def secretKeyBytes_def)
  have ls: "length s = length pks * sealedKeyLen" by (rule sealForAll_length [OF assms(1) len(1) p(3)])
  have count: "unat (packed ! 0) = length pks" using assms(3) by (simp add: p(4) unat_of_nat)
  have parts: "take secretNonceBytes (drop 1 packed) = nonce"
    "drop (1 + secretNonceBytes + length pks * sealedKeyLen) packed = secretSeal C msg nonce ck"
    "drop (1 + secretNonceBytes + i * sealedKeyLen) packed = drop (i * sealedKeyLen) s @ secretSeal C msg nonce ck"
    using len ls assms(5) by (simp_all add: p(4))
  have "i * sealedKeyLen + sealedKeyLen \<le> length s"
    using assms(5) ls by (metis add.commute mult_Suc mult_le_mono1 Suc_leI)
  then have slot: "take sealedKeyLen (drop (1 + secretNonceBytes + i * sealedKeyLen) packed) =
      take sealedKeyLen (drop (i * sealedKeyLen) s)" unfolding parts(3) by simp
  obtain k where "boxSeal C k ck (pks ! i) = Ok (take sealedKeyLen (drop (i * sealedKeyLen) s))"
    using sealForAll_slot [OF assms(1) len(1) p(3) assms(5)] by blast
  then have opened: "boxOpen C (take sealedKeyLen (drop (i * sealedKeyLen) s)) (pks ! i) sk = Some ck"
    using assms(4) by (simp add: boxPair_def)
  have opens: "secretOpen C (secretSeal C msg nonce ck) nonce ck = Some msg"
    using assms(1) by (simp add: boxLaws_def)
  have size: "\<not> length packed < 1 + secretNonceBytes"
    "\<not> length packed < 1 + secretNonceBytes + length pks * sealedKeyLen"
    using len ls by (simp_all add: p(4))
  have "DecryptSealedKeys C packed (pks ! i) sk (int i) = Ok msg"
    unfolding DecryptSealedKeys_def Let_def count nat_int slot parts(1,2) opened
    using size assms(5) len(1) opens by simp
  moreover have "\<exists>e. DecryptSealedKeys C packed (pks ! i) sk j = Err e" if "j < 0 \<or> j \<ge> int (length pks)" for j
    unfolding DecryptSealedKeys_def Let_def count using size that by auto
  ultimately show ?thesis by blast
qed

text \<open>A message sealed for at most 255 recipients is opened by every one of them at its own index,
  and an index outside the list is refused.\<close>

theorem sealed_keys_roundtrip:
  assumes "boxLaws C" "randLaw randRead" "length pks < 256" "boxPair C (pks ! i) sk" "i < length pks"
    and "EncryptSealedKeys C randRead msg pks = Ok packed"
  shows "DecryptSealedKeys C packed (pks ! i) sk (int i) = Ok msg \<and>
    (j < 0 \<or> j \<ge> int (length pks) \<longrightarrow> (\<exists>e. DecryptSealedKeys C packed (pks ! i) sk j = Err e))"
  using assms by (rule sealed_keys_open)

lemma sealed_keys_roundtrip_witness:
  "\<exists>packed. EncryptSealedKeys toyCrypto (\<lambda>i n. Ok (replicate n 1)) [1, 2, 3] [[7], [8]] = Ok packed \<and>
     DecryptSealedKeys toyCrypto packed [8] [8] 1 = Ok [1, 2, 3]"
proof -
  have laws: "boxLaws toyCrypto" "boxPair toyCrypto ([[7], [8]] ! 1) [8]" "randLaw (\<lambda>i n. Ok (replicate n 1))"
    by (simp_all add: boxLaws_def boxPair_def randLaw_def toyCrypto_def sealBytes_def)
  obtain packed where p: "EncryptSealedKeys toyCrypto (\<lambda>i n. Ok (replicate n 1)) [1, 2, 3] [[7], [8]] = Ok packed"
    by (simp add: EncryptSealedKeys_def toyCrypto_def)
  show ?thesis using sealed_keys_roundtrip [OF laws(1,3) _ laws(2) _ p] p by simp
qed

end
