(* ===== verification/Chains.thy ===== *)
theory Chains
  imports GoPrelude
begin

text \<open>
  The chain tables of \<open>constants/\<close>: \<open>chains.go\<close>, \<open>rpc.go\<close>, \<open>near_intents.go\<close>, \<open>lifi.go\<close>,
  \<open>uniswap.go\<close>, \<open>server.go\<close>, \<open>fees.go\<close>, \<open>protocol.go\<close>, \<open>token_registry.go\<close> and
  \<open>network_registry.go\<close>. A Go map literal is an association list. The two API keys read from the
  process environment, and the files embedded in the binary together with their JSON decoding, are
  arguments.
\<close>

subsection \<open>chains.go\<close>

text \<open>The fields of \<open>ChainIDs\<close>.\<close>

definition idPolygon :: int where "idPolygon = 137"

definition idArbMainnet :: int where "idArbMainnet = 42161"

definition idEthMainnet :: int where "idEthMainnet = 1"

definition idOptimism :: int where "idOptimism = 10"

definition idBase :: int where "idBase = 8453"

definition idLocalhost :: int where "idLocalhost = 31337"

definition idArcTestnet :: int where "idArcTestnet = 5042002"

definition idSepoliaTestnet :: int where "idSepoliaTestnet = 11155111"

definition idSolanaMainnet :: int where "idSolanaMainnet = 501"

definition idSolanaLocalnet :: int where "idSolanaLocalnet = 102"

definition idTronNile :: int where "idTronNile = 3448148188"

definition idTronLocalnet :: int where "idTronLocalnet = 103"

definition idTronMainnet :: int where "idTronMainnet = 728126428"

definition idTempo :: int where "idTempo = 4217"

definition idBNBMainnet :: int where "idBNBMainnet = 56"

definition idAvalanche :: int where "idAvalanche = 43114"

definition idCronos :: int where "idCronos = 25"

definition idMonad :: int where "idMonad = 143"

definition idPlasma :: int where "idPlasma = 9745"

definition idInk :: int where "idInk = 57073"

definition idHyperEVM :: int where "idHyperEVM = 999"

record chainEnv =
  alchemyKeyVar :: string
  heliusKeyVar :: string

record ethereumNetwork =
  netName :: string
  netChainID :: int
  netRPCURL :: string
  netFetchRPCURL :: string
  netWsRPCURL :: string
  netSupported :: bool
  netPriority :: int
  netMaxPageSize :: int

definition LocalhostNetwork :: int where
  "LocalhostNetwork = idEthMainnet"

definition IsLocalNetwork :: "int \<Rightarrow> bool" where
  "IsLocalNetwork chainID = (chainID = idLocalhost)"

definition GetNonLocalhostChainID :: "int \<Rightarrow> int" where
  "GetNonLocalhostChainID chainID =
     (if chainID \<noteq> 0 then (if IsLocalNetwork chainID then LocalhostNetwork else chainID) else LocalhostNetwork)"

definition AlchemyAPIKey :: "chainEnv \<Rightarrow> string" where
  "AlchemyAPIKey env = (if alchemyKeyVar env \<noteq> [] then alchemyKeyVar env else [])"

definition heliusURL :: "chainEnv \<Rightarrow> string" where
  "heliusURL env = (if heliusKeyVar env \<noteq> []
     then ''https://mainnet.helius-rpc.com/?api-key='' @ heliusKeyVar env else [])"

definition alchemyURL :: "chainEnv \<Rightarrow> string \<Rightarrow> string" where
  "alchemyURL env subdomain = ''https://'' @ subdomain @ ''.g.alchemy.com/v2/'' @ AlchemyAPIKey env"

definition alchemyWS :: "chainEnv \<Rightarrow> string \<Rightarrow> string" where
  "alchemyWS env subdomain = ''wss://'' @ subdomain @ ''.g.alchemy.com/v2/'' @ AlchemyAPIKey env"

definition EthereumNetworkRegistry :: "chainEnv \<Rightarrow> (int \<times> ethereumNetwork) list" where
  "EthereumNetworkRegistry env = [
     (idEthMainnet, \<lparr>netName = ''Ethereum'', netChainID = idEthMainnet, netRPCURL = ''https://rpc.ankr.com/eth'', netFetchRPCURL = alchemyURL env ''eth-mainnet'',
       netWsRPCURL = alchemyWS env ''eth-mainnet'', netSupported = True, netPriority = 1, netMaxPageSize = 900000\<rparr>),
     (idArbMainnet, \<lparr>netName = ''Arbitrum'', netChainID = idArbMainnet, netRPCURL = ''https://endpoints.omniatech.io/v1/arbitrum/one/public'', netFetchRPCURL = alchemyURL env ''arb-mainnet'',
       netWsRPCURL = alchemyWS env ''arb-mainnet'', netSupported = True, netPriority = 2, netMaxPageSize = 500000\<rparr>),
     (idOptimism, \<lparr>netName = ''Optimism'', netChainID = idOptimism, netRPCURL = ''https://optimism-mainnet.infura.io/v3/c26b99456bb6464bb498926ff5162903'', netFetchRPCURL = alchemyURL env ''opt-mainnet'',
       netWsRPCURL = alchemyWS env ''opt-mainnet'', netSupported = True, netPriority = 3, netMaxPageSize = 900000\<rparr>),
     (idPolygon, \<lparr>netName = ''Polygon'', netChainID = idPolygon, netRPCURL = ''https://polygon-rpc.com'', netFetchRPCURL = alchemyURL env ''polygon-mainnet'',
       netWsRPCURL = alchemyWS env ''polygon-mainnet'', netSupported = True, netPriority = 4, netMaxPageSize = 900000\<rparr>),
     (idBase, \<lparr>netName = ''Base'', netChainID = idBase, netRPCURL = ''https://mainnet.base.org/'', netFetchRPCURL = alchemyURL env ''base-mainnet'',
       netWsRPCURL = alchemyWS env ''base-mainnet'', netSupported = True, netPriority = 7, netMaxPageSize = 500000\<rparr>),
     (idArcTestnet, \<lparr>netName = ''Arc Testnet'', netChainID = idArcTestnet, netRPCURL = alchemyURL env ''arc-testnet'', netFetchRPCURL = alchemyURL env ''arc-testnet'',
       netWsRPCURL = alchemyWS env ''arc-testnet'', netSupported = True, netPriority = 8, netMaxPageSize = 9999\<rparr>),
     (idSolanaMainnet, \<lparr>netName = ''Solana'', netChainID = idSolanaMainnet, netRPCURL = ''https://api.mainnet-beta.solana.com'', netFetchRPCURL = heliusURL env,
       netWsRPCURL = [], netSupported = True, netPriority = 8, netMaxPageSize = 0\<rparr>),
     (idSolanaLocalnet, \<lparr>netName = ''Solana Localnet'', netChainID = idSolanaLocalnet, netRPCURL = ''http://127.0.0.1:8899'', netFetchRPCURL = ''http://127.0.0.1:8899'',
       netWsRPCURL = [], netSupported = True, netPriority = 9, netMaxPageSize = 0\<rparr>),
     (idTronNile, \<lparr>netName = ''Tron Nile'', netChainID = idTronNile, netRPCURL = alchemyURL env ''tron-testnet'', netFetchRPCURL = alchemyURL env ''tron-testnet'',
       netWsRPCURL = [], netSupported = True, netPriority = 9, netMaxPageSize = 500000\<rparr>),
     (idTronMainnet, \<lparr>netName = ''Tron'', netChainID = idTronMainnet, netRPCURL = alchemyURL env ''tron-mainnet'', netFetchRPCURL = alchemyURL env ''tron-mainnet'',
       netWsRPCURL = [], netSupported = True, netPriority = 10, netMaxPageSize = 500000\<rparr>),
     (idSepoliaTestnet, \<lparr>netName = ''Sepolia Testnet'', netChainID = idSepoliaTestnet, netRPCURL = alchemyURL env ''eth-sepolia'', netFetchRPCURL = alchemyURL env ''eth-sepolia'',
       netWsRPCURL = [], netSupported = True, netPriority = 11, netMaxPageSize = 900000\<rparr>),
     (idTempo, \<lparr>netName = ''Tempo'', netChainID = idTempo, netRPCURL = ''https://rpc.tempo.xyz'', netFetchRPCURL = ''https://rpc.tempo.xyz'',
       netWsRPCURL = [], netSupported = True, netPriority = 12, netMaxPageSize = 9999\<rparr>),
     (idBNBMainnet, \<lparr>netName = ''BNB Chain'', netChainID = idBNBMainnet, netRPCURL = ''https://bsc-dataseed.binance.org'', netFetchRPCURL = alchemyURL env ''bnb-mainnet'',
       netWsRPCURL = alchemyWS env ''bnb-mainnet'', netSupported = True, netPriority = 13, netMaxPageSize = 0\<rparr>),
     (idAvalanche, \<lparr>netName = ''Avalanche'', netChainID = idAvalanche, netRPCURL = ''https://api.avax.network/ext/bc/C/rpc'', netFetchRPCURL = ''https://api.avax.network/ext/bc/C/rpc'',
       netWsRPCURL = [], netSupported = False, netPriority = 14, netMaxPageSize = 0\<rparr>),
     (idCronos, \<lparr>netName = ''Cronos'', netChainID = idCronos, netRPCURL = ''https://evm.cronos.org'', netFetchRPCURL = ''https://evm.cronos.org'',
       netWsRPCURL = [], netSupported = False, netPriority = 15, netMaxPageSize = 0\<rparr>),
     (idMonad, \<lparr>netName = ''Monad'', netChainID = idMonad, netRPCURL = ''https://rpc.monad.xyz'', netFetchRPCURL = ''https://rpc.monad.xyz'',
       netWsRPCURL = [], netSupported = False, netPriority = 16, netMaxPageSize = 0\<rparr>),
     (idPlasma, \<lparr>netName = ''Plasma'', netChainID = idPlasma, netRPCURL = ''https://rpc.plasma.to'', netFetchRPCURL = ''https://rpc.plasma.to'',
       netWsRPCURL = [], netSupported = False, netPriority = 17, netMaxPageSize = 0\<rparr>),
     (idInk, \<lparr>netName = ''Ink'', netChainID = idInk, netRPCURL = ''https://rpc-gel.inkonchain.com'', netFetchRPCURL = ''https://rpc-gel.inkonchain.com'',
       netWsRPCURL = [], netSupported = False, netPriority = 18, netMaxPageSize = 0\<rparr>),
     (idHyperEVM, \<lparr>netName = ''HyperEVM'', netChainID = idHyperEVM, netRPCURL = ''https://rpc.hyperliquid.xyz/evm'', netFetchRPCURL = ''https://rpc.hyperliquid.xyz/evm'',
       netWsRPCURL = [], netSupported = False, netPriority = 19, netMaxPageSize = 0\<rparr>)]"

fun containsInt :: "int list \<Rightarrow> int \<Rightarrow> bool" where
  "containsInt [] val = False"
| "containsInt (v # vs) val = (if v = val then True else containsInt vs val)"

definition TronChainIDs :: "int list" where
  "TronChainIDs = [idTronNile, idTronMainnet, idTronLocalnet]"

definition SolanaChainIDs :: "int list" where
  "SolanaChainIDs = [idSolanaMainnet, idSolanaLocalnet]"

definition HinkalSupportedChains :: "int list" where
  "HinkalSupportedChains = [idEthMainnet, idOptimism, idBase, idPolygon, idArbMainnet, idArcTestnet, idSolanaMainnet, idSepoliaTestnet, idTronMainnet, idTronNile, idTempo]"

definition IsOptimismLike :: "int \<Rightarrow> bool" where
  "IsOptimismLike chainID = (chainID = idOptimism \<or> chainID = idBase)"

definition IsSolanaLike :: "int \<Rightarrow> bool" where
  "IsSolanaLike chainID = containsInt SolanaChainIDs chainID"

definition IsTronLike :: "int \<Rightarrow> bool" where
  "IsTronLike chainID = containsInt TronChainIDs chainID"

definition UsesNearIntentsBridge :: "int \<Rightarrow> bool" where
  "UsesNearIntentsBridge chainID = (IsSolanaLike chainID \<or> IsTronLike chainID)"

definition IsSepoliaTestnet :: "int \<Rightarrow> bool" where
  "IsSepoliaTestnet chainID = (chainID = idSepoliaTestnet)"

definition IsTempo :: "int \<Rightarrow> bool" where
  "IsTempo chainID = (chainID = idTempo)"

definition EVMChainIDs :: "int list" where
  "EVMChainIDs = filter (\<lambda>c. \<not> IsSolanaLike c \<and> \<not> IsTronLike c) HinkalSupportedChains"

definition IsEvmChain :: "int \<Rightarrow> bool" where
  "IsEvmChain chainID = containsInt EVMChainIDs chainID"

datatype deploymentMode = Production | Staging

definition CurrentTronChainID :: "deploymentMode \<Rightarrow> int" where
  "CurrentTronChainID m = (if m \<noteq> Production then idTronNile else idTronMainnet)"

definition WalletSupportedChains :: "int list" where
  "WalletSupportedChains =
     filter (\<lambda>c. \<not> IsTronLike c \<and> \<not> IsSepoliaTestnet c \<and> \<not> IsTempo c) HinkalSupportedChains"

definition BridgeSupportedChains :: "int list" where
  "BridgeSupportedChains =
     filter (\<lambda>c. c \<noteq> idArcTestnet \<and> \<not> IsSepoliaTestnet c \<and> \<not> (IsTronLike c \<and> c \<noteq> idTronMainnet))
       HinkalSupportedChains"

definition BridgeDestinationOnlyChains :: "int list" where
  "BridgeDestinationOnlyChains = [idBNBMainnet, idAvalanche, idCronos, idMonad, idPlasma, idInk, idHyperEVM]"

definition BridgeDestinationChains :: "int list" where
  "BridgeDestinationChains = BridgeSupportedChains @ BridgeDestinationOnlyChains"

definition IsHinkalSupportedChain :: "int \<Rightarrow> bool" where
  "IsHinkalSupportedChain chainID = containsInt HinkalSupportedChains chainID"

definition IsBridgeSupportedChain :: "int \<Rightarrow> bool" where
  "IsBridgeSupportedChain chainID = containsInt BridgeSupportedChains chainID"

definition IsBridgeDestinationOnlyChain :: "int \<Rightarrow> bool" where
  "IsBridgeDestinationOnlyChain chainID = containsInt BridgeDestinationOnlyChains chainID"

definition IsBridgeDestinationChain :: "int \<Rightarrow> bool" where
  "IsBridgeDestinationChain chainID = containsInt BridgeDestinationChains chainID"

definition SaveDepths :: "(int \<times> u64) list" where
  "SaveDepths = [(idEthMainnet, 1000), (idBNBMainnet, 1000), (idPolygon, 4000), (idArbMainnet, 8000), (idOptimism, 6000), (idBase, 6000), (idArcTestnet, 8000), (idSepoliaTestnet, 1000), (idTempo, 4000), (idLocalhost, 1), (idSolanaMainnet, 1000), (idSolanaLocalnet, 100), (idTronNile, 1000), (idTronMainnet, 1000), (idTronLocalnet, 100)]"

definition BlockReorgDepths :: "(int \<times> u64) list" where
  "BlockReorgDepths = [(idEthMainnet, 300), (idBNBMainnet, 1000), (idPolygon, 1000), (idArbMainnet, 1000), (idOptimism, 1000), (idBase, 1000), (idArcTestnet, 30), (idSepoliaTestnet, 300), (idTempo, 1000), (idTronNile, 19), (idTronMainnet, 19), (idTronLocalnet, 1), (idLocalhost, 1)]"

definition TronGrpcURLFor :: "int \<Rightarrow> string res" where
  "TronGrpcURLFor chainID =
     (case map_of [(idTronMainnet, ''grpc.trongrid.io:50051''), (idTronNile, ''grpc.nile.trongrid.io:50051'')] chainID of
        None \<Rightarrow> Err (ErrMsg ''no Tron gRPC URL configured for chain'')
      | Some url \<Rightarrow> Ok url)"

definition GetSaveDepth :: "int \<Rightarrow> u64 res" where
  "GetSaveDepth chainID = (case map_of SaveDepths chainID of
     Some d \<Rightarrow> Ok d | None \<Rightarrow> Err (ErrMsg ''no save depth configured for chain''))"

definition GetReorgDepth :: "int \<Rightarrow> u64 res" where
  "GetReorgDepth chainID = (case map_of BlockReorgDepths chainID of
     Some d \<Rightarrow> Ok d | None \<Rightarrow> Err (ErrMsg ''no reorg depth configured for chain''))"

subsection \<open>near_intents.go, lifi.go, rpc.go, uniswap.go\<close>

definition NearIntentsBlockchainByChainID :: "(int \<times> string) list" where
  "NearIntentsBlockchainByChainID = [(idSolanaMainnet, ''sol''), (idEthMainnet, ''eth''), (idBase, ''base''), (idArbMainnet, ''arb''), (idOptimism, ''op''), (idPolygon, ''pol''), (idTronMainnet, ''tron''), (idBNBMainnet, ''bsc''), (idAvalanche, ''avax''), (idMonad, ''monad''), (idPlasma, ''plasma'')]"

definition NearIntentsChainIDByBlockchain :: "(string \<times> int) list" where
  "NearIntentsChainIDByBlockchain = map (\<lambda>(c, b). (b, c)) NearIntentsBlockchainByChainID"

definition NearIntentsBlockchain :: "int \<Rightarrow> string option" where
  "NearIntentsBlockchain chainID = map_of NearIntentsBlockchainByChainID chainID"

definition IsNearBridgeSupportedChain :: "int \<Rightarrow> bool" where
  "IsNearBridgeSupportedChain chainID = (NearIntentsBlockchain chainID \<noteq> None)"

definition NearUnsupportedBridgeDestinations :: "int list" where
  "NearUnsupportedBridgeDestinations =
     filter (\<lambda>c. \<not> IsNearBridgeSupportedChain c) BridgeDestinationChains"

definition GetBridgeDestinationChains :: "int list \<Rightarrow> int list" where
  "GetBridgeDestinationChains sourceChainID =
     (case sourceChainID of
        [] \<Rightarrow> BridgeDestinationChains
      | c # _ \<Rightarrow> if UsesNearIntentsBridge c then filter IsNearBridgeSupportedChain BridgeDestinationChains
                 else BridgeDestinationChains)"

definition LifiSolanaChainID :: int where
  "LifiSolanaChainID = 1151111081099710"

definition GetLifiChainID :: "int \<Rightarrow> int" where
  "GetLifiChainID chainID =
     (if chainID = idSolanaMainnet \<or> chainID = idSolanaLocalnet then LifiSolanaChainID else chainID)"

definition LifiRouterAddress :: "int \<Rightarrow> string res" where
  "LifiRouterAddress c =
     (if c \<in> {idEthMainnet, idPolygon, idOptimism, idArbMainnet, idBNBMainnet, idBase}
      then Ok ''0x1231DEB6f5749EF6cE6943a275A1D3E7486F4EaE''
      else if c = idTempo then Ok ''0x2cAcAE8e22418E65dcf7651c67aEbe6288EB8243''
      else if c = idSolanaMainnet \<or> c = idSolanaLocalnet
      then Ok ''3i5JeuZuUxeKtVysUnwQNGerJP2bSMX9fTFfS4Nxe3Br''
      else Err (ErrMsg ''constants: Lifi router address not set for chain''))"

definition FetchRPCURL :: "chainEnv \<Rightarrow> int \<Rightarrow> string res" where
  "FetchRPCURL env chainID =
     (case map_of (EthereumNetworkRegistry env) chainID of
        None \<Rightarrow> Err (ErrMsg ''no fetch rpc url configured for chain'')
      | Some net \<Rightarrow> if netFetchRPCURL net = [] then Err (ErrMsg ''no fetch rpc url configured for chain'')
                    else Ok (netFetchRPCURL net))"

record uniswapV3Addresses =
  quoterV2Address :: string
  uniswapV3FactoryAddress :: string

definition uniswapV3ByChain :: "(int \<times> uniswapV3Addresses) list" where
  "uniswapV3ByChain = [
     (idEthMainnet, \<lparr>quoterV2Address = ''0x61fFE014bA17989E743c5F6cB21bF9697530B21e'', uniswapV3FactoryAddress = ''0x1F98431c8aD98523631AE4a59f267346ea31F984''\<rparr>),
     (idArbMainnet, \<lparr>quoterV2Address = ''0x61fFE014bA17989E743c5F6cB21bF9697530B21e'', uniswapV3FactoryAddress = ''0x1F98431c8aD98523631AE4a59f267346ea31F984''\<rparr>),
     (idOptimism, \<lparr>quoterV2Address = ''0x61fFE014bA17989E743c5F6cB21bF9697530B21e'', uniswapV3FactoryAddress = ''0x1F98431c8aD98523631AE4a59f267346ea31F984''\<rparr>),
     (idPolygon, \<lparr>quoterV2Address = ''0x61fFE014bA17989E743c5F6cB21bF9697530B21e'', uniswapV3FactoryAddress = ''0x1F98431c8aD98523631AE4a59f267346ea31F984''\<rparr>),
     (idBase, \<lparr>quoterV2Address = ''0x3d4e44Eb1374240CE5F1B871ab261CD16335B76a'', uniswapV3FactoryAddress = ''0x33128a8fC17869897dcE68Ed026d694621f6FDfD''\<rparr>),
     (idSepoliaTestnet, \<lparr>quoterV2Address = ''0xEd1f6473345F45b75F8179591dd5bA1888cf2FB3'', uniswapV3FactoryAddress = ''0x0227628f3F023bb0B980b67D528571c95c6DaC1c''\<rparr>),
     (idTempo, \<lparr>quoterV2Address = ''0x53ab5d7a69db158f621b43ee70423da1e1403c2a'', uniswapV3FactoryAddress = ''0x24a3d4757e330890a8b8978028c9e58e04611fd6''\<rparr>)]"

definition GetUniswapV3Addresses :: "int \<Rightarrow> uniswapV3Addresses res" where
  "GetUniswapV3Addresses chainID0 =
     (let chainID = (if chainID0 = idLocalhost then LocalhostNetwork else chainID0)
      in case map_of uniswapV3ByChain chainID of
           None \<Rightarrow> Err (ErrMsg ''no Uniswap V3 addresses configured for chain'')
         | Some a \<Rightarrow> Ok a)"

subsection \<open>fees.go, protocol.go, server.go\<close>

definition ZeroAddress :: string where
  "ZeroAddress = ''0x0000000000000000000000000000000000000000''"

definition SolanaNativeAddress :: string where
  "SolanaNativeAddress = ''11111111111111111111111111111111''"

definition OneInchZeroAddress :: string where
  "OneInchZeroAddress = ''0xeeeeeeeeeeeeeeeeeeeeeeeeeeeeeeeeeeeeeeee''"

definition HinkalSwapVariableRate :: int where "HinkalSwapVariableRate = 35"

definition HinkalPrivateSendVariableRate :: int where "HinkalPrivateSendVariableRate = 5"

definition PaySendVariableRate :: int where "PaySendVariableRate = 10"

definition TronFeePaddingBps :: int where "TronFeePaddingBps = 2000"

definition TwentyPercentBPS :: int where "TwentyPercentBPS = 2000"

definition BPSDenominator :: int where "BPSDenominator = 10000"

definition NonNativeGasCostTokenSymbolOptions :: "int \<Rightarrow> string list" where
  "NonNativeGasCostTokenSymbolOptions chainID =
     (if IsTronLike chainID then [''USDT'']
      else if IsTempo chainID then [''pathUSD'', ''USDT0'', ''USDC.e'']
      else [''USDC'', ''USDT'', ''DAI''])"

definition baseURL :: "deploymentMode \<Rightarrow> string" where
  "baseURL m = (if m = Staging then ''https://wallet-staging.hinkal.io'' else ''https://wallet-prodv12.hinkal.io'')"

definition GetSnapshotServerURL :: "deploymentMode \<Rightarrow> string" where
  "GetSnapshotServerURL m = baseURL m @ ''/snapshot-server''"

definition GetServerURL :: "deploymentMode \<Rightarrow> string" where
  "GetServerURL m = baseURL m @ ''/server''"

definition GetRelayerURL :: "deploymentMode \<Rightarrow> string" where
  "GetRelayerURL m = baseURL m @ ''/relayer''"

definition GetEnclaveURL :: "deploymentMode \<Rightarrow> string" where
  "GetEnclaveURL m = (if m = Staging then ''https://enclave-staging-v2.hinkal.io''
     else ''https://enclave-server.hinkal.io'')"

subsection \<open>token_registry.go\<close>

record erc20Token =
  tkChainID :: int
  tkAddress :: string
  tkWrapped :: string
  tkName :: string
  tkSymbol :: string
  tkDecimals :: int
  tkIsVolatile :: bool
  tkIsAave :: bool
  tkAllowanceOffset :: "int option"
  tkBalanceOffset :: "int option"
  tkIs2022Program :: bool

definition tokenRegistryFileByChain :: "(int \<times> string) list" where
  "tokenRegistryFileByChain = [
     (idPolygon, ''polygonRegistry.json''),
     (idArbMainnet, ''arbMainnetRegistry.json''),
     (idEthMainnet, ''ethMainnetRegistry.json''),
     (idOptimism, ''optimismRegistry.json''),
     (idBase, ''baseRegistry.json''),
     (idArcTestnet, ''arcTestnetRegistry.json''),
     (idSepoliaTestnet, ''sepoliaTestnetRegistry.json''),
     (idTempo, ''tempoRegistry.json''),
     (idSolanaMainnet, ''solanaMainnetRegistry.json''),
     (idSolanaLocalnet, ''solanaLocalnetRegistry.json''),
     (idTronNile, ''tronNileRegistry.json''),
     (idTronMainnet, ''tronMainnetRegistry.json''),
     (idBNBMainnet, ''bnbMainnetRegistry.json''),
     (idAvalanche, ''avalancheRegistry.json''),
     (idCronos, ''cronosRegistry.json''),
     (idMonad, ''monadRegistry.json''),
     (idPlasma, ''plasmaRegistry.json''),
     (idInk, ''inkRegistry.json''),
     (idHyperEVM, ''hyperEvmRegistry.json'')]"

text \<open>
  \<open>readTokens\<close> reads an embedded file and decodes it, \<open>None\<close> when either fails; the cache is keyed by
  file and remembers failures as an empty list.
\<close>

definition loadTokenRegistry ::
  "(string \<Rightarrow> erc20Token list option) \<Rightarrow> string \<Rightarrow> (string \<rightharpoonup> erc20Token list) \<Rightarrow>
   erc20Token list \<times> (string \<rightharpoonup> erc20Token list)" where
  "loadTokenRegistry readTokens file cache =
     (case cache file of
        Some cached \<Rightarrow> (cached, cache)
      | None \<Rightarrow>
          (case readTokens file of
             None \<Rightarrow> ([], cache(file \<mapsto> []))
           | Some tokens \<Rightarrow> (tokens, cache(file \<mapsto> tokens))))"

definition GetERC20Registry ::
  "(string \<Rightarrow> erc20Token list option) \<Rightarrow> int \<Rightarrow> (string \<rightharpoonup> erc20Token list) \<Rightarrow>
   erc20Token list \<times> (string \<rightharpoonup> erc20Token list)" where
  "GetERC20Registry readTokens chainID cache =
     (case map_of tokenRegistryFileByChain chainID of
        None \<Rightarrow> loadTokenRegistry readTokens ''localhostRegistry.json'' cache
      | Some file \<Rightarrow> loadTokenRegistry readTokens file cache)"

fun findToken :: "string \<Rightarrow> erc20Token list \<Rightarrow> erc20Token option" where
  "findToken address [] = None"
| "findToken address (t # ts) = (if equalFold (tkAddress t) address then Some t else findToken address ts)"

definition GetERC20Token ::
  "(string \<Rightarrow> erc20Token list option) \<Rightarrow> string \<Rightarrow> int \<Rightarrow> (string \<rightharpoonup> erc20Token list) \<Rightarrow>
   erc20Token option \<times> (string \<rightharpoonup> erc20Token list)" where
  "GetERC20Token readTokens address chainID cache =
     (if address = [] then (None, cache)
      else (let (tokens, cache') = GetERC20Registry readTokens chainID cache
            in (findToken address tokens, cache')))"

subsection \<open>network_registry.go\<close>

record deployData =
  ddHinkalAddress :: string
  ddHinkalHelperAddress :: string
  ddEmporiumAddress :: string
  ddHinkalWalletAddress :: string
  ddHinkalWrapperAddress :: string
  ddUniswapExternalActionAddress :: string
  ddOdosExternalActionInstanceAddress :: string
  ddOneInchExternalActionInstanceAddress :: string
  ddDepositOnChainUtxosExternalActionAddress :: string
  ddOriginalDeployer :: string
  ddHinkalABI :: string

definition deployDataFileByChain :: "(int \<times> string) list" where
  "deployDataFileByChain = [
     (idEthMainnet, ''deploy-data-ethMainnet.json''),
     (idArbMainnet, ''deploy-data-arbMainnet.json''),
     (idOptimism, ''deploy-data-optimism.json''),
     (idPolygon, ''deploy-data-polygon.json''),
     (idBase, ''deploy-data-base.json''),
     (idArcTestnet, ''deploy-data-arcTestnet.json''),
     (idSepoliaTestnet, ''deploy-data-sepoliaTestnet.json''),
     (idTempo, ''deploy-data-tempo.json''),
     (idSolanaMainnet, ''deploy-data-solana.json''),
     (idSolanaLocalnet, ''deploy-data-solana.json''),
     (idTronNile, ''deploy-data-tronNile.json''),
     (idTronMainnet, ''deploy-data-tronMainnet.json''),
     (idLocalhost, ''deploy-data-localhost.json'')]"

definition sharedDeployFileByChain :: "(int \<times> string) list" where
  "sharedDeployFileByChain = [
     (idEthMainnet, ''shared-deploy-data-evm.json''),
     (idArbMainnet, ''shared-deploy-data-evm.json''),
     (idOptimism, ''shared-deploy-data-evm.json''),
     (idPolygon, ''shared-deploy-data-evm.json''),
     (idBase, ''shared-deploy-data-evm.json''),
     (idArcTestnet, ''shared-deploy-data-evm.json''),
     (idSepoliaTestnet, ''shared-deploy-data-evm.json''),
     (idTempo, ''shared-deploy-data-evm.json''),
     (idLocalhost, ''shared-deploy-data-evm.json''),
     (idTronNile, ''shared-deploy-data-tron.json''),
     (idTronMainnet, ''shared-deploy-data-tron.json'')]"

text \<open>
  The embedded file system and the decoder: reading may fail, and decoding what was read may fail.
  The cache maps a chain to its data, or to nil after a failed read; a decoding failure is not
  remembered.
\<close>

record deployFiles =
  readDeploy :: "string \<Rightarrow> string res"
  decodeDeploy :: "string \<Rightarrow> deployData res"

type_synonym deployCache = "int \<rightharpoonup> deployData option"

definition noContractData :: go_error where
  "noContractData = ErrMsg ''no contract data for chain''"

definition loadDeployData :: "deployFiles \<Rightarrow> int \<Rightarrow> (deployCache, deployData) action" where
  "loadDeployData fs chainID cache =
     (case cache chainID of
        Some None \<Rightarrow> (Err noContractData, cache)
      | Some (Some d) \<Rightarrow> (Ok d, cache)
      | None \<Rightarrow>
        (case map_of deployDataFileByChain chainID of
           None \<Rightarrow> (Err noContractData, cache(chainID \<mapsto> None))
         | Some file \<Rightarrow>
           (case readDeploy fs (''deploy-data/'' @ file) of
              Ok raw \<Rightarrow>
                (case wrapErr ''parse'' (decodeDeploy fs raw) of
                   Ok parsed \<Rightarrow>
                     (case (if ddHinkalABI parsed = [] then map_of sharedDeployFileByChain chainID else None) of
                        None \<Rightarrow> (Ok parsed, cache(chainID \<mapsto> Some parsed))
                      | Some shared \<Rightarrow>
                          (case readDeploy fs (''deploy-data/'' @ shared) of
                             Ok sharedRaw \<Rightarrow>
                               (case wrapErr ''parse'' (decodeDeploy fs sharedRaw) of
                                  Ok sharedData \<Rightarrow>
                                    (let p = parsed\<lparr>ddHinkalABI := ddHinkalABI sharedData\<rparr>
                                     in (Ok p, cache(chainID \<mapsto> Some p)))
                                | Err e \<Rightarrow> (Err e, cache)
                                | Panic p \<Rightarrow> (Panic p, cache))
                           | Err e \<Rightarrow> (Err e, cache(chainID \<mapsto> None))
                           | Panic p \<Rightarrow> (Panic p, cache)))
                 | Err e \<Rightarrow> (Err e, cache)
                 | Panic p \<Rightarrow> (Panic p, cache))
            | Err e \<Rightarrow> (Err e, cache(chainID \<mapsto> None))
            | Panic p \<Rightarrow> (Panic p, cache))))"

text \<open>\<open>ContractData\<close> is the decoded file without its ABI.\<close>

definition GetContractData :: "deployFiles \<Rightarrow> int \<Rightarrow> (deployCache, deployData) action" where
  "GetContractData fs chainID =
     bindA (loadDeployData fs chainID) (\<lambda>d. liftA (Ok (d\<lparr>ddHinkalABI := []\<rparr>)))"

definition HinkalAddress :: "deployFiles \<Rightarrow> int \<Rightarrow> (deployCache, string) action" where
  "HinkalAddress fs chainID = bindA (GetContractData fs chainID) (\<lambda>d. liftA (Ok (ddHinkalAddress d)))"

definition OriginalDeployer :: "deployFiles \<Rightarrow> int \<Rightarrow> (deployCache, string) action" where
  "OriginalDeployer fs chainID = bindA (GetContractData fs chainID) (\<lambda>d. liftA (Ok (ddOriginalDeployer d)))"

definition HinkalABIJSON :: "deployFiles \<Rightarrow> int \<Rightarrow> (deployCache, string) action" where
  "HinkalABIJSON fs chainID =
     bindA (loadDeployData fs chainID) (\<lambda>d.
       liftA (if ddHinkalABI d = [] then Err (ErrMsg ''no hinkal ABI for chain'') else Ok (ddHinkalABI d)))"

section \<open>Properties\<close>

text \<open>
  Properties of the chain tables: the classification of chains is sound and the tables the event
  emitters index cover every supported chain; the caches of embedded data cannot be observed.
\<close>

lemma containsInt_iff [simp]: "containsInt xs v \<longleftrightarrow> v \<in> set xs"
  by (induction xs) auto

lemmas chain_ids = idPolygon_def idArbMainnet_def idEthMainnet_def idOptimism_def idBase_def
  idLocalhost_def idArcTestnet_def idSepoliaTestnet_def idSolanaMainnet_def idSolanaLocalnet_def
  idTronNile_def idTronLocalnet_def idTronMainnet_def idTempo_def idBNBMainnet_def idAvalanche_def
  idCronos_def idMonad_def idPlasma_def idInk_def idHyperEVM_def

lemmas chain_classes = IsEvmChain_def IsSolanaLike_def IsTronLike_def EVMChainIDs_def SolanaChainIDs_def
  TronChainIDs_def HinkalSupportedChains_def

lemma supported_class:
  "c \<in> set HinkalSupportedChains \<Longrightarrow>
     (if IsSolanaLike c then \<not> IsEvmChain c \<and> \<not> IsTronLike c
      else if IsTronLike c then \<not> IsEvmChain c else IsEvmChain c)"
  by (auto simp: chain_classes chain_ids)

lemma supported_depths:
  "c \<in> set HinkalSupportedChains \<Longrightarrow>
     (\<exists>s. GetSaveDepth c = Ok s \<and> (\<not> IsSolanaLike c \<longrightarrow> (\<exists>r. GetReorgDepth c = Ok r \<and> r \<le> s)))"
  by (auto simp: chain_classes chain_ids GetSaveDepth_def GetReorgDepth_def SaveDepths_def BlockReorgDepths_def)

lemma supported_registered:
  "c \<in> set HinkalSupportedChains \<Longrightarrow>
     \<exists>n. map_of (EthereumNetworkRegistry env) c = Some n \<and> netChainID n = c \<and> netSupported n"
  by (auto simp: HinkalSupportedChains_def EthereumNetworkRegistry_def chain_ids)

text \<open>Every chain the SDK supports is exactly one of EVM, Solana and Tron; it has a registry entry
  under its own id that is marked supported; and the emitters find a save depth for it, and on EVM and
  Tron chains a reorg depth that is not larger.\<close>

theorem supported_chain_tables:
  assumes "IsHinkalSupportedChain c"
  shows "(IsEvmChain c \<or> IsSolanaLike c \<or> IsTronLike c) \<and> \<not> (IsEvmChain c \<and> IsSolanaLike c) \<and>
    \<not> (IsEvmChain c \<and> IsTronLike c) \<and> \<not> (IsSolanaLike c \<and> IsTronLike c) \<and>
    (\<exists>n. map_of (EthereumNetworkRegistry env) c = Some n \<and> netChainID n = c \<and> netSupported n) \<and>
    (\<exists>s. GetSaveDepth c = Ok s \<and> (\<not> IsSolanaLike c \<longrightarrow> (\<exists>r. GetReorgDepth c = Ok r \<and> r \<le> s)))"
proof -
  have c: "c \<in> set HinkalSupportedChains" using assms by (simp add: IsHinkalSupportedChain_def)
  show ?thesis
    using supported_class [OF c] supported_depths [OF c] supported_registered [OF c, of env]
    by (simp split: if_splits)
qed

lemma supported_chain_tables_witness: "\<exists>s. GetSaveDepth idTempo = Ok s"
proof -
  have "IsHinkalSupportedChain idTempo"
    by (simp add: IsHinkalSupportedChain_def HinkalSupportedChains_def)
  from supported_chain_tables [OF this, of "\<lparr>alchemyKeyVar = [], heliusKeyVar = []\<rparr>"]
  show ?thesis by blast
qed

subsection \<open>Caches\<close>

definition deployCacheOk :: "deployFiles \<Rightarrow> deployCache \<Rightarrow> bool" where
  "deployCacheOk fs cache \<longleftrightarrow>
     (\<forall>c d. cache c = Some (Some d) \<longrightarrow> fst (loadDeployData fs c Map.empty) = Ok d) \<and>
     (\<forall>c. cache c = Some None \<longrightarrow> (\<exists>e. fst (loadDeployData fs c Map.empty) = Err e))"

lemma deployCacheOk_empty: "deployCacheOk fs Map.empty"
  by (simp add: deployCacheOk_def)

lemma load_miss:
  assumes "cache c = None"
  shows "fst (loadDeployData fs c cache) = fst (loadDeployData fs c Map.empty)"
  using assms by (simp add: loadDeployData_def Let_def split: option.split res.split)

lemma load_store:
  "snd (loadDeployData fs c cache) = cache \<or>
   (\<exists>d. snd (loadDeployData fs c cache) = cache(c \<mapsto> Some d) \<and> fst (loadDeployData fs c cache) = Ok d) \<or>
   (\<exists>e. snd (loadDeployData fs c cache) = cache(c \<mapsto> None) \<and> fst (loadDeployData fs c cache) = Err e)"
  by (simp add: loadDeployData_def Let_def split: option.split res.split)

text \<open>The deploy-data cache is transparent: as long as it only holds what earlier loads stored, a
  load succeeds exactly when an uncached load does, with the same data, and the cache stays so.\<close>

theorem deploy_cache_transparent:
  assumes "deployCacheOk fs cache"
  shows "deployCacheOk fs (snd (loadDeployData fs c cache)) \<and>
    (case fst (loadDeployData fs c Map.empty) of
       Ok d \<Rightarrow> fst (loadDeployData fs c cache) = Ok d
     | Err e \<Rightarrow> (\<exists>e'. fst (loadDeployData fs c cache) = Err e')
     | Panic p \<Rightarrow> fst (loadDeployData fs c cache) = Panic p)"
proof (cases "cache c")
  case None
  then have same: "fst (loadDeployData fs c cache) = fst (loadDeployData fs c Map.empty)" by (rule load_miss)
  then have "deployCacheOk fs (snd (loadDeployData fs c cache))"
    using load_store [of fs c cache] assms by (auto simp: deployCacheOk_def split: if_splits)
  then show ?thesis using same by (simp split: res.split)
next
  case (Some entry)
  then have hit: "loadDeployData fs c cache = ((case entry of None \<Rightarrow> Err noContractData | Some d \<Rightarrow> Ok d), cache)"
    by (simp add: loadDeployData_def split: option.split)
  show ?thesis
  proof (cases entry)
    case None
    then obtain e where "fst (loadDeployData fs c Map.empty) = Err e"
      using assms Some by (auto simp: deployCacheOk_def)
    then show ?thesis using assms hit None by simp
  next
    case (Some d)
    then have "fst (loadDeployData fs c Map.empty) = Ok d"
      using assms \<open>cache c = Some entry\<close> by (auto simp: deployCacheOk_def)
    then show ?thesis using assms hit Some by simp
  qed
qed

lemma deploy_cache_transparent_witness:
  "\<exists>e. fst (loadDeployData \<lparr>readDeploy = Ok, decodeDeploy = (\<lambda>s. Err (ErrMsg s))\<rparr> idInk Map.empty) = Err e"
proof -
  let ?fs = "\<lparr>readDeploy = Ok, decodeDeploy = (\<lambda>s. Err (ErrMsg s))\<rparr>"
  have "fst (loadDeployData ?fs idInk Map.empty) = Err noContractData"
    by (simp add: loadDeployData_def deployDataFileByChain_def chain_ids)
  then show ?thesis
    using deploy_cache_transparent [OF deployCacheOk_empty, of ?fs idInk] by simp
qed

end
