(* ===== verification/SolanaData.thy ===== *)
theory SolanaData
  imports CryptoKeys
begin

text \<open>
  Solana data: the program's events (\<open>internal/data-structures/solana/events.go\<close>), its Merkle account
  (\<open>merkle.go\<close>), program addresses (\<open>pda.go\<close>), and mint addresses and the calldata hash of
  \<open>internal/functions/solana/solana.go\<close>. Base64, base58, SHA-256 and the curve test are arguments.
\<close>

subsection \<open>events.go\<close>

datatype eventArg = ArgInts "int list" | ArgRows "int list list"

record decodedEvent =
  deName :: string
  deArgs :: "(string \<times> eventArg) list"

definition discNewCommitment :: bytes where
  "discNewCommitment = [78, 21, 75, 243, 5, 132, 204, 67]"

definition discNullified :: bytes where
  "discNullified = [124, 69, 200, 64, 75, 203, 121, 17]"

definition discBlockedUtxosCreated :: bytes where
  "discBlockedUtxosCreated = [64, 214, 216, 215, 75, 156, 106, 107]"

definition toIntSlice :: "bytes \<Rightarrow> int list" where
  "toIntSlice b = map uint b"

definition uint32LE :: "bytes \<Rightarrow> nat" where
  "uint32LE b = unat (b ! 0) + 256 * unat (b ! 1) + 256 ^ 2 * unat (b ! 2) + 256 ^ 3 * unat (b ! 3)"

definition slice :: "'a list \<Rightarrow> nat \<Rightarrow> nat \<Rightarrow> 'a list" where
  "slice b i j = take (j - i) (drop i b)"

definition decodeNewCommitment :: "bytes \<Rightarrow> decodedEvent option" where
  "decodeNewCommitment b =
     (if length b < 32 + 32 + 4 then None
      else
        (let encLen = uint32LE (slice b 64 68) in
         if length b < 68 + encLen + 8 * 32 then None
         else
           (let off = 68 + encLen;
                onChain = map (\<lambda>i. toIntSlice (slice b (off + 32 * i) (off + 32 * i + 32))) [0..<8]
            in Some \<lparr>deName = ''NewCommitment'',
                 deArgs = [(''commitment'', ArgInts (toIntSlice (slice b 0 32))),
                           (''index'', ArgInts (toIntSlice (slice b 32 64))),
                           (''encrypted_output'', ArgInts (toIntSlice (slice b 68 (68 + encLen)))),
                           (''on_chain_data'', ArgRows onChain)]\<rparr>)))"

definition decodeNullified :: "bytes \<Rightarrow> decodedEvent option" where
  "decodeNullified b =
     (if length b < 32 then None
      else Some \<lparr>deName = ''Nullified'', deArgs = [(''nullifier'', ArgInts (toIntSlice (slice b 0 32)))]\<rparr>)"

definition decodeEventData :: "bytes \<Rightarrow> decodedEvent option" where
  "decodeEventData full =
     (if length full < 8 then None
      else
        (let disc = take 8 full; fields = drop 8 full in
         if disc = discNewCommitment then decodeNewCommitment fields
         else if disc = discNullified then decodeNullified fields
         else if disc = discBlockedUtxosCreated
         then Some \<lparr>deName = ''BlockedUtxosCreated'', deArgs = []\<rparr>
         else None))"

definition programDataPrefix :: string where
  "programDataPrefix = ''Program data: ''"

fun ParseLogsForEvents :: "(string \<Rightarrow> bytes option) \<Rightarrow> string list \<Rightarrow> decodedEvent list" where
  "ParseLogsForEvents base64 [] = []"
| "ParseLogsForEvents base64 (line # logs) =
     (if \<not> hasPrefix line programDataPrefix then ParseLogsForEvents base64 logs
      else
        (case base64 (trimSpace (drop (length programDataPrefix) line)) of
           None \<Rightarrow> ParseLogsForEvents base64 logs
         | Some raw \<Rightarrow>
             (case decodeEventData raw of
                None \<Rightarrow> ParseLogsForEvents base64 logs
              | Some ev \<Rightarrow> ev # ParseLogsForEvents base64 logs)))"

fun ParseCpiForEvents :: "(string \<Rightarrow> bytes res) \<Rightarrow> string list \<Rightarrow> decodedEvent list" where
  "ParseCpiForEvents base58 [] = []"
| "ParseCpiForEvents base58 (data # rest) =
     (case base58 data of
        Ok raw \<Rightarrow>
          (if length raw \<le> 8 then ParseCpiForEvents base58 rest
           else
             (case decodeEventData (drop 8 raw) of
                None \<Rightarrow> ParseCpiForEvents base58 rest
              | Some ev \<Rightarrow> ev # ParseCpiForEvents base58 rest))
      | _ \<Rightarrow> ParseCpiForEvents base58 rest)"

subsection \<open>solana_emitter.go: the events of a transaction\<close>

text \<open>
  Log events and inner-instruction events are merged, and an event seen before is dropped. \<open>argsJSON\<close>
  is the JSON text of the arguments, empty when it cannot be written.
\<close>

fun dedupEvents :: "(decodedEvent \<Rightarrow> string) \<Rightarrow> string set \<Rightarrow> decodedEvent list \<Rightarrow> decodedEvent list" where
  "dedupEvents argsJSON seen [] = []"
| "dedupEvents argsJSON seen (ev # evs) =
     (let key = deName ev @ '':'' @ argsJSON ev in
      if key \<in> seen then dedupEvents argsJSON seen evs
      else ev # dedupEvents argsJSON (insert key seen) evs)"

definition parseSolanaTransaction ::
  "(string \<Rightarrow> bytes option) \<Rightarrow> (string \<Rightarrow> bytes res) \<Rightarrow> (decodedEvent \<Rightarrow> string) \<Rightarrow>
   string list \<Rightarrow> string list list \<Rightarrow> decodedEvent list" where
  "parseSolanaTransaction base64 base58 argsJSON logMessages innerInstructions =
     (let cpiData = concat (map (filter (\<lambda>d. d \<noteq> [])) innerInstructions);
          merged = ParseLogsForEvents base64 logMessages @ ParseCpiForEvents base58 cpiData
      in if merged = [] then [] else dedupEvents argsJSON {} merged)"

subsection \<open>merkle.go\<close>

definition merkleAccountDiscriminator :: bytes where
  "merkleAccountDiscriminator = [55, 52, 102, 252, 195, 69, 204, 210]"

definition merkleDiscriminatorLen :: int where "merkleDiscriminatorLen = 8"

definition merkleVersionLen :: int where "merkleVersionLen = 1"

definition merkleEntryLen :: int where "merkleEntryLen = 32"

definition merkleTreeLevelsCount :: int where "merkleTreeLevelsCount = 200"

definition merkleRootsCount :: int where "merkleRootsCount = 100"

definition merkleRootsOffset :: int where
  "merkleRootsOffset = merkleDiscriminatorLen + merkleVersionLen + merkleTreeLevelsCount * merkleEntryLen"

definition merkleRootIndexOffset :: int where
  "merkleRootIndexOffset = merkleRootsOffset + merkleRootsCount * merkleEntryLen + merkleEntryLen"

text \<open>A slice expression panics when its bounds are negative, out of order or past the end.\<close>

definition sliceOrPanic :: "'a list \<Rightarrow> int \<Rightarrow> int \<Rightarrow> 'a list res" where
  "sliceOrPanic b i j =
     (if i < 0 \<or> j < i \<or> j > int (length b) then Panic ''slice bounds out of range''
      else Ok (slice b (nat i) (nat j)))"

definition ParseMerkleRootHash :: "bytes \<Rightarrow> int res" where
  "ParseMerkleRootHash data =
     (let minLen = merkleRootIndexOffset + merkleEntryLen in
      if int (length data) < minLen then Err (ErrMsg ''merkle account too short'')
      else
        andThen (sliceOrPanic data 0 merkleDiscriminatorLen) (\<lambda>disc.
          if disc \<noteq> merkleAccountDiscriminator then Err (ErrMsg ''merkle account: unexpected discriminator'')
          else
            andThen (sliceOrPanic data merkleRootIndexOffset (merkleRootIndexOffset + merkleEntryLen)) (\<lambda>ix.
              (let rootIndex = setBytes ix in
               if rootIndex > merkleRootsCount then Err (ErrMsg ''merkle account: root index out of range'')
               else
                 (let idx0 = rootIndex - 1;
                      idx = (if idx0 < 0 then idx0 + merkleRootsCount else idx0);
                      start = merkleRootsOffset + idx * merkleEntryLen
                  in andThen (sliceOrPanic data start (start + merkleEntryLen)) (\<lambda>rootBytes.
                       Ok (setBytes rootBytes)))))))"

subsection \<open>pda.go\<close>

definition pdaMarker :: string where
  "pdaMarker = ''ProgramDerivedAddress''"

definition IsOnCurve :: "(bytes \<Rightarrow> bool) \<Rightarrow> bytes \<Rightarrow> bool" where
  "IsOnCurve validPoint point = (if length point \<noteq> 32 then False else validPoint point)"

text \<open>\<open>bump\<close> runs from 255 down to 0; the argument is one more than the bump to try next.\<close>

fun bumpLoop :: "(bytes \<Rightarrow> bytes) \<Rightarrow> (bytes \<Rightarrow> bool) \<Rightarrow> bytes list \<Rightarrow> bytes \<Rightarrow> nat \<Rightarrow> (bytes \<times> 8 word) res" where
  "bumpLoop sha256 validPoint seeds programID 0 =
     Err (ErrMsg ''solana: unable to find a viable program address bump seed'')"
| "bumpLoop sha256 validPoint seeds programID (Suc bump) =
     (let candidate = sha256 (concat seeds @ [of_nat bump] @ programID @ bytesOfString pdaMarker)
      in if \<not> IsOnCurve validPoint candidate then Ok (candidate, of_nat bump)
         else bumpLoop sha256 validPoint seeds programID bump)"

definition findProgramAddress ::
  "(bytes \<Rightarrow> bytes) \<Rightarrow> (bytes \<Rightarrow> bool) \<Rightarrow> bytes list \<Rightarrow> bytes \<Rightarrow> (bytes \<times> 8 word) res" where
  "findProgramAddress sha256 validPoint seeds programID = bumpLoop sha256 validPoint seeds programID 256"

definition GetMerkleAccountPublicKey :: "cryptoLib \<Rightarrow> (bytes \<Rightarrow> bool) \<Rightarrow> string \<Rightarrow> string \<Rightarrow> string res" where
  "GetMerkleAccountPublicKey C validPoint programID originalDeployer =
     andThen (b58Decode C programID) (\<lambda>programIDBytes.
     andThen (b58Decode C originalDeployer) (\<lambda>originalDeployerBytes.
     andThen (findProgramAddress (sha256sum C) validPoint
                [bytesOfString ''hinkal_merkle'', originalDeployerBytes] programIDBytes) (\<lambda>(account, bump).
     Ok (b58Encode C account))))"

definition FetchMerkleTreeRootHash ::
  "cryptoLib \<Rightarrow> (bytes \<Rightarrow> bool) \<Rightarrow> (string \<Rightarrow> bytes res) \<Rightarrow> string \<Rightarrow> string \<Rightarrow> int res" where
  "FetchMerkleTreeRootHash C validPoint getAccountInfo programID originalDeployer =
     andThen (GetMerkleAccountPublicKey C validPoint programID originalDeployer) (\<lambda>merkleAccount.
     andThen (getAccountInfo merkleAccount) ParseMerkleRootHash)"

subsection \<open>functions/solana/solana.go\<close>

record formattedMint =
  fmPart1 :: int
  fmPart2 :: int
  fmCompressed :: string

record hinkalInstruction =
  hiAccountIndexes :: bytes
  hiData :: bytes
  hiProgramIndex :: int

definition EncodeToByte32Array :: "int option \<Rightarrow> bytes res" where
  "EncodeToByte32Array v = (case v of None \<Rightarrow> Ok (replicate 32 0) | Some n \<Rightarrow> fillBytes n 32)"

definition bigToBE :: "int option \<Rightarrow> nat \<Rightarrow> bytes res" where
  "bigToBE v len = (case v of None \<Rightarrow> Ok (replicate len 0) | Some n \<Rightarrow> fillBytes n len)"

definition appendBE :: "bytes \<Rightarrow> int \<Rightarrow> nat \<Rightarrow> bytes res" where
  "appendBE dst v len = andThen (fillBytes v len) (\<lambda>b. Ok (dst @ b))"

definition FormatMintAddress :: "cryptoLib \<Rightarrow> string \<Rightarrow> formattedMint res" where
  "FormatMintAddress C mint =
     andThen (wrapErr ''formatMintAddress: decode'' (b58Decode C mint)) (\<lambda>keyBytes.
       (let mintBigInt = setBytes keyBytes;
            divisor = push_bit 128 1;
            part1 = mintBigInt div divisor;
            part2 = mintBigInt mod divisor
        in andThen (PoseidonBig C [Some part1, Some part2]) (\<lambda>compressed.
             Ok \<lparr>fmPart1 = part1, fmPart2 = part2, fmCompressed = ToBeHex (Some compressed)\<rparr>)))"

fun appendOutputs :: "bytes \<Rightarrow> bytes list \<Rightarrow> bytes res" where
  "appendOutputs dst [] = Ok dst"
| "appendOutputs dst (cur # outs) =
     andThen (appendBE dst (int (length cur)) 8) (\<lambda>d. appendOutputs (d @ cur) outs)"

fun appendInstructions :: "bytes \<Rightarrow> hinkalInstruction list \<Rightarrow> bytes res" where
  "appendInstructions dst [] = Ok dst"
| "appendInstructions dst (ins # rest) =
     andThen (appendBE dst (hiProgramIndex ins) 1) (\<lambda>d1.
     andThen (appendBE d1 (int (length (hiAccountIndexes ins))) 8) (\<lambda>d2.
     andThen (appendBE (d2 @ hiAccountIndexes ins) (int (length (hiData ins))) 8) (\<lambda>d3.
     appendInstructions (d3 @ hiData ins) rest)))"

definition appendAccounts :: "bytes \<Rightarrow> (bool \<times> bytes) list \<Rightarrow> bytes" where
  "appendAccounts dst accs = dst @ concat (map (\<lambda>(writable, key). (if writable then 1 else 0) # key) accs)"

definition solanaCalldataBytes ::
  "nat \<times> nat \<times> nat \<Rightarrow> bytes \<Rightarrow> bytes \<Rightarrow> bytes list \<Rightarrow> int option \<Rightarrow> int option \<Rightarrow>
   hinkalInstruction list \<Rightarrow> (bool \<times> bytes) list \<Rightarrow> bytes res" where
  "solanaCalldataBytes dims recipient signer outs relayerFee variableRate instructions accs =
     (case dims of (tokenNumber, nullifierAmount, outputAmount) \<Rightarrow>
      andThen (appendOutputs ([of_nat tokenNumber, of_nat nullifierAmount, of_nat outputAmount] @ recipient @ signer) outs) (\<lambda>b1.
      andThen (bigToBE relayerFee 8) (\<lambda>fee.
      andThen (bigToBE variableRate 8) (\<lambda>rate.
      andThen (appendInstructions (b1 @ fee @ rate) instructions) (\<lambda>b2.
      Ok (appendAccounts b2 accs))))))"

definition GetSolanaCalldataHash ::
  "cryptoLib \<Rightarrow> nat \<times> nat \<times> nat \<Rightarrow> bytes \<Rightarrow> bytes \<Rightarrow> bytes list \<Rightarrow> int option \<Rightarrow> int option \<Rightarrow>
   hinkalInstruction list \<Rightarrow> (bool \<times> bytes) list \<Rightarrow> int res" where
  "GetSolanaCalldataHash C dims recipient signer outs relayerFee variableRate instructions accs =
     andThen (solanaCalldataBytes dims recipient signer outs relayerFee variableRate instructions accs) (\<lambda>bs.
       Ok (setBytes (sha256sum C bs) mod fieldP C))"

end
