(* ===== verification/SolanaDataProps.thy ===== *)
theory SolanaDataProps
  imports SolanaData CryptoKeysProps
begin

text \<open>
  Properties of the Solana data formats: events decode what the program wrote, the Merkle account
  is never read out of bounds, and the bytes that are hashed for a transaction determine it.
\<close>

lemmas merkle_layout = merkleRootIndexOffset_def merkleRootsOffset_def merkleDiscriminatorLen_def
  merkleVersionLen_def merkleEntryLen_def merkleTreeLevelsCount_def merkleRootsCount_def

lemma sliceOrPanic_in: "0 \<le> i \<Longrightarrow> i \<le> j \<Longrightarrow> j \<le> int (length b) \<Longrightarrow> sliceOrPanic b i j = Ok (slice b (nat i) (nat j))"
  by (simp add: sliceOrPanic_def)

text \<open>Reading the root of the Merkle account never panics; it fails exactly when the account is too
  short, carries another discriminator, or names a root beyond the last slot, and otherwise returns
  the root in the slot before the next one to be written (slot 0 wraps to the last).\<close>

theorem merkle_root_read:
  "ParseMerkleRootHash data =
     (let r = setBytes (slice data 9641 9673) in
      if length data < 9673 then Err (ErrMsg ''merkle account too short'')
      else if take 8 data \<noteq> merkleAccountDiscriminator then Err (ErrMsg ''merkle account: unexpected discriminator'')
      else if r > 100 then Err (ErrMsg ''merkle account: root index out of range'')
      else Ok (setBytes (slice data (nat (6409 + (r + 99) mod 100 * 32)) (nat (6441 + (r + 99) mod 100 * 32)))))"
proof (cases "length data < 9673")
  case True
  then show ?thesis by (simp add: ParseMerkleRootHash_def merkle_layout Let_def)
next
  case False
  define r where "r = setBytes (slice data 9641 9673)"
  have r0: "0 \<le> r" using setBytes_bounds unfolding r_def by blast
  have parts: "sliceOrPanic data 0 8 = Ok (take 8 data)" "sliceOrPanic data 9641 9673 = Ok (slice data 9641 9673)"
    using False by (simp_all add: sliceOrPanic_in) (simp add: slice_def)
  have slot: "r \<le> 100 \<Longrightarrow> (if r - 1 < 0 then r - 1 + 100 else r - 1) = (r + 99) mod 100"
  proof -
    assume "r \<le> 100"
    show ?thesis
    proof (cases "r = 0")
      case False
      have "(r + 99) mod 100 = (r - 1 + 100) mod 100" by (rule arg_cong [of _ _ "\<lambda>x. x mod 100"]) simp
      also have "\<dots> = (r - 1) mod 100" by (rule mod_add_self2)
      also have "\<dots> = r - 1" using False r0 \<open>r \<le> 100\<close> by (intro mod_pos_pos_trivial) simp_all
      finally show ?thesis using False r0 by simp
    qed simp
  qed
  have pos: "0 \<le> (r + 99) mod 100" "(r + 99) mod 100 < 100" by simp_all
  have read: "sliceOrPanic data (6409 + (r + 99) mod 100 * 32) (6409 + (r + 99) mod 100 * 32 + 32) =
      Ok (slice data (nat (6409 + (r + 99) mod 100 * 32)) (nat (6441 + (r + 99) mod 100 * 32)))"
    using False pos by (subst sliceOrPanic_in) (simp_all add: algebra_simps)
  have len: "\<not> int (length data) < 9641 + 32" using False by simp
  show ?thesis
  proof (cases "take 8 data \<noteq> merkleAccountDiscriminator \<or> r > 100")
    case True
    then show ?thesis
      using False parts len by (auto simp: ParseMerkleRootHash_def merkle_layout Let_def r_def)
  next
    case ok: False
    then have r100: "r \<le> 100" by simp
    let ?good = "Ok (setBytes (slice data (nat (6409 + (r + 99) mod 100 * 32)) (nat (6441 + (r + 99) mod 100 * 32))))"
    have "ParseMerkleRootHash data = ?good"
    proof (cases "r < 1")
      case True
      then have "(r + 99) mod 100 = 99" using r0 by simp
      then show ?thesis
        using ok parts len True r0 read
        by (simp add: ParseMerkleRootHash_def merkle_layout Let_def flip: r_def)
    next
      case pos: False
      then have e: "(r + 99) mod 100 = r - 1" using slot [OF r100] by simp
      show ?thesis
        using ok parts len pos read [unfolded e]
        by (simp add: ParseMerkleRootHash_def merkle_layout Let_def e algebra_simps flip: r_def)
    qed
    then show ?thesis using ok False by (simp add: Let_def flip: r_def)
  qed
qed

subsection \<open>Events\<close>

lemma slice_parts:
  "length a = i \<Longrightarrow> length b = j - i \<Longrightarrow> i \<le> j \<Longrightarrow> slice (a @ b @ c) i j = b"
  by (simp add: slice_def)

lemma onchain_rows:
  assumes "\<forall>r \<in> set rows. length r = 32" "length rows = 8" "length pre = off"
  shows "map (\<lambda>i. toIntSlice (slice (pre @ concat rows @ rest) (off + 32 * i) (off + 32 * i + 32))) [0..<8] =
    map toIntSlice rows"
proof -
  have row: "take 32 (drop (32 * i) (concat rows @ rest)) = rows ! i" if "i < length rows" for i
    using assms(1) that
  proof (induction rows arbitrary: i)
    case (Cons r rows)
    then show ?case by (cases i) simp_all
  qed simp
  have "map (\<lambda>i. toIntSlice (slice (pre @ concat rows @ rest) (off + 32 * i) (off + 32 * i + 32))) [0..<8] =
      map (\<lambda>i. toIntSlice (rows ! i)) [0..<length rows]"
    using assms(2,3) row by (intro map_cong) (simp_all add: slice_def)
  also have "\<dots> = map toIntSlice rows" by (metis map_map map_nth comp_apply map_cong)
  finally show ?thesis .
qed

definition le32 :: "nat \<Rightarrow> bytes" where
  "le32 n = [of_nat (n mod 256), of_nat (n div 256 mod 256), of_nat (n div 256 ^ 2 mod 256), of_nat (n div 256 ^ 3 mod 256)]"

lemma uint32LE_le32:
  assumes "n < 256 ^ 4"
  shows "uint32LE (le32 n) = n"
proof -
  have d: "n div 65536 div 256 = n div 16777216" by (simp add: div_mult2_eq [symmetric])
  have d2: "n div 256 div 256 = n div 65536" by (simp add: div_mult2_eq [symmetric])
  have "n div 16777216 < 256" using assms by (simp add: less_mult_imp_div_less)
  then have top: "n div 16777216 mod 256 = n div 16777216" by simp
  have "n = 256 * (n div 256) + n mod 256" "n div 256 = 256 * (n div 65536) + n div 256 mod 256"
    "n div 65536 = 256 * (n div 16777216) + n div 65536 mod 256"
    unfolding d [symmetric] d2 [symmetric] by simp_all
  then have "n mod 256 + 256 * (n div 256 mod 256) + 65536 * (n div 65536 mod 256) +
      16777216 * (n div 16777216 mod 256) = n" unfolding top by linarith
  then show ?thesis using top by (simp add: uint32LE_def le32_def unat_of_nat)
qed

text \<open>A commitment event decodes to the commitment, index, encrypted output and eight rows the
  program wrote, whatever follows them; shorter data is refused, never read past its end.\<close>

theorem commitment_event_decoded:
  assumes "length c = 32" "length ix = 32" "length enc < 256 ^ 4" "length rows = 8"
    and "\<forall>r \<in> set rows. length r = 32"
  shows "decodeEventData (discNewCommitment @ c @ ix @ le32 (length enc) @ enc @ concat rows @ rest) =
    Some \<lparr>deName = ''NewCommitment'',
      deArgs = [(''commitment'', ArgInts (toIntSlice c)), (''index'', ArgInts (toIntSlice ix)),
        (''encrypted_output'', ArgInts (toIntSlice enc)), (''on_chain_data'', ArgRows (map toIntSlice rows))]\<rparr>"
proof -
  let ?b = "c @ ix @ le32 (length enc) @ enc @ concat rows @ rest"
  have l4: "length (le32 (length enc)) = 4" by (simp add: le32_def)
  have "\<forall>r \<in> set rows. length r = 32 \<Longrightarrow> length (concat rows) = 32 * length rows"
    by (induction rows) simp_all
  then have lr: "length (concat rows) = 256" using assms(4,5) by simp
  have s1: "slice ?b 0 32 = c" "slice ?b 32 64 = ix"
    using assms(1,2) by (simp_all add: slice_def)
  have s2: "slice ?b 64 68 = le32 (length enc)" "slice ?b 68 (68 + length enc) = enc"
    using assms(1,2) l4 by (simp_all add: slice_def)
  have rows: "map (\<lambda>i. toIntSlice (slice ?b (68 + length enc + 32 * i) (68 + length enc + 32 * i + 32))) [0..<8] =
      map toIntSlice rows"
    using onchain_rows [OF assms(5,4), of "c @ ix @ le32 (length enc) @ enc" "68 + length enc" rest] assms(1,2) l4 by simp
  have len: "\<not> length ?b < 32 + 32 + 4" "\<not> length ?b < 68 + length enc + 8 * 32"
    using assms(1,2) l4 lr by simp_all
  have dec: "decodeNewCommitment ?b = Some \<lparr>deName = ''NewCommitment'',
      deArgs = [(''commitment'', ArgInts (toIntSlice c)), (''index'', ArgInts (toIntSlice ix)),
        (''encrypted_output'', ArgInts (toIntSlice enc)), (''on_chain_data'', ArgRows (map toIntSlice rows))]\<rparr>"
    unfolding decodeNewCommitment_def Let_def s1 s2 uint32LE_le32 [OF assms(3)] rows
      if_not_P [OF len(1)] if_not_P [OF len(2)] ..
  have "length discNewCommitment = 8" by (simp add: discNewCommitment_def)
  then have d: "take 8 (discNewCommitment @ ?b) = discNewCommitment" "drop 8 (discNewCommitment @ ?b) = ?b"
    "\<not> length (discNewCommitment @ ?b) < 8" by simp_all
  show ?thesis unfolding decodeEventData_def Let_def d if_not_P [OF d(3)] dec by simp
qed

lemma commitment_event_decoded_witness:
  "\<exists>ev. decodeEventData (discNewCommitment @ replicate 32 1 @ replicate 32 2 @ le32 (length [7, 8, 9 :: 8 word]) @ [7, 8, 9] @
     concat (replicate 8 (replicate 32 4)) @ []) = Some ev \<and> deName ev = ''NewCommitment''"
proof (intro exI conjI)
  show "decodeEventData (discNewCommitment @ replicate 32 1 @ replicate 32 2 @ le32 (length [7, 8, 9 :: 8 word]) @
      [7, 8, 9] @ concat (replicate 8 (replicate 32 4)) @ []) = Some \<lparr>deName = ''NewCommitment'',
      deArgs = [(''commitment'', ArgInts (toIntSlice (replicate 32 1))), (''index'', ArgInts (toIntSlice (replicate 32 2))),
        (''encrypted_output'', ArgInts (toIntSlice [7, 8, 9])),
        (''on_chain_data'', ArgRows (map toIntSlice (replicate 8 (replicate 32 4))))]\<rparr>"
    by (rule commitment_event_decoded) simp_all
qed simp

subsection \<open>Program addresses\<close>

definition bumpCandidate :: "(bytes \<Rightarrow> bytes) \<Rightarrow> bytes list \<Rightarrow> bytes \<Rightarrow> nat \<Rightarrow> bytes" where
  "bumpCandidate sha256 seeds programID bump =
     sha256 (concat seeds @ [of_nat bump] @ programID @ bytesOfString pdaMarker)"

lemma bump_search:
  fixes f :: "nat \<Rightarrow> bytes"
  assumes f: "\<And>bump. f bump = sha256 (concat seeds @ [of_nat bump] @ programID @ bytesOfString pdaMarker)"
  shows "(\<exists>bump < n. \<not> IsOnCurve onCurve (f bump)) \<Longrightarrow>
   \<exists>bump < n. \<not> IsOnCurve onCurve (f bump) \<and> (\<forall>b. bump < b \<and> b < n \<longrightarrow> IsOnCurve onCurve (f b)) \<and>
     bumpLoop sha256 onCurve seeds programID n = Ok (f bump, of_nat bump)"
proof (induction n)
  case (Suc n)
  show ?case
  proof (cases "IsOnCurve onCurve (f n)")
    case True
    then have "\<exists>bump < n. \<not> IsOnCurve onCurve (f bump)"
      using Suc.prems less_Suc_eq by metis
    from Suc.IH [OF this] obtain bump where b: "bump < n" "\<not> IsOnCurve onCurve (f bump)"
      "\<forall>b. bump < b \<and> b < n \<longrightarrow> IsOnCurve onCurve (f b)" "bumpLoop sha256 onCurve seeds programID n = Ok (f bump, of_nat bump)"
      by blast
    have "\<forall>b. bump < b \<and> b < Suc n \<longrightarrow> IsOnCurve onCurve (f b)" using b(3) True less_Suc_eq by metis
    moreover have "bumpLoop sha256 onCurve seeds programID (Suc n) = Ok (f bump, of_nat bump)"
      using True b(4) by (simp add: Let_def f)
    ultimately show ?thesis using b less_SucI by blast
  next
    case False
    have "bumpLoop sha256 onCurve seeds programID (Suc n) = Ok (f n, of_nat n)"
      using False by (simp add: Let_def f)
    moreover have "\<forall>b. n < b \<and> b < Suc n \<longrightarrow> IsOnCurve onCurve (f b)" by (intro allI impI) linarith
    ultimately show ?thesis using False lessI by blast
  qed
qed simp

lemma bump_exhausted:
  "(\<And>bump. bump < n \<Longrightarrow> IsOnCurve onCurve (sha256 (concat seeds @ [of_nat bump] @ programID @ bytesOfString pdaMarker))) \<Longrightarrow>
   bumpLoop sha256 onCurve seeds programID n = Err (ErrMsg ''solana: unable to find a viable program address bump seed'')"
  by (induction n) (simp_all add: Let_def)

text \<open>The program address found is the candidate of the highest bump that lies off the curve, as the
  runtime derives it; the search fails only when all 256 candidates are on the curve.\<close>

theorem program_address_bump:
  "if \<exists>bump < 256. \<not> IsOnCurve onCurve (bumpCandidate sha256 seeds programID bump)
   then \<exists>bump < 256. \<not> IsOnCurve onCurve (bumpCandidate sha256 seeds programID bump) \<and>
          (\<forall>b \<in> {bump<..<256}. IsOnCurve onCurve (bumpCandidate sha256 seeds programID b)) \<and>
          findProgramAddress sha256 onCurve seeds programID =
            Ok (bumpCandidate sha256 seeds programID bump, of_nat bump)
   else findProgramAddress sha256 onCurve seeds programID =
          Err (ErrMsg ''solana: unable to find a viable program address bump seed'')"
proof (cases "\<exists>bump < 256. \<not> IsOnCurve onCurve (bumpCandidate sha256 seeds programID bump)")
  case True
  from bump_search [OF bumpCandidate_def this] obtain bump where b: "bump < 256"
    "\<not> IsOnCurve onCurve (bumpCandidate sha256 seeds programID bump)"
    "\<forall>b. bump < b \<and> b < 256 \<longrightarrow> IsOnCurve onCurve (bumpCandidate sha256 seeds programID b)"
    "bumpLoop sha256 onCurve seeds programID 256 = Ok (bumpCandidate sha256 seeds programID bump, of_nat bump)"
    by blast
  have "\<forall>b \<in> {bump<..<256}. IsOnCurve onCurve (bumpCandidate sha256 seeds programID b)" using b(3) by simp
  then show ?thesis unfolding if_P [OF True] findProgramAddress_def using b by blast
next
  case False
  then have "findProgramAddress sha256 onCurve seeds programID =
           Err (ErrMsg ''solana: unable to find a viable program address bump seed'')"
    unfolding findProgramAddress_def by (intro bump_exhausted) (auto simp: bumpCandidate_def)
  then show ?thesis unfolding if_not_P [OF False] .
qed

lemma program_address_bump_witness:
  "findProgramAddress (\<lambda>_. [1]) (\<lambda>_. True) [] [] = Ok ([1], 255)"
proof -
  have "\<exists>bump < 256. \<not> IsOnCurve (\<lambda>_. True) (bumpCandidate (\<lambda>_. [1]) [] [] bump)"
    by (intro exI [of _ 0]) (simp add: IsOnCurve_def bumpCandidate_def)
  with program_address_bump [of "\<lambda>_. True" "\<lambda>_. [1]" "[]" "[]"] obtain bump :: nat where
    b: "bump < 256" "\<forall>b \<in> {bump<..<256}. IsOnCurve (\<lambda>_. True) (bumpCandidate (\<lambda>_. [1]) [] [] b)"
    "findProgramAddress (\<lambda>_. [1]) (\<lambda>_. True) [] [] = Ok (bumpCandidate (\<lambda>_. [1]) [] [] bump, of_nat bump)"
    by auto
  have "\<not> bump < 255"
  proof
    assume "bump < 255"
    then have "IsOnCurve (\<lambda>_. True) (bumpCandidate (\<lambda>_. [1]) [] [] 255)" using b(2) by simp
    then show False by (simp add: IsOnCurve_def bumpCandidate_def)
  qed
  then have "bump = 255" using b(1) by simp
  then show ?thesis using b(3) by (simp add: bumpCandidate_def)
qed

subsection \<open>The calldata hash\<close>

definition outputFrames :: "bytes list \<Rightarrow> bytes" where
  "outputFrames outs = concat (map (\<lambda>b. natToBE 8 (length b) @ b) outs)"

definition instructionFrames :: "hinkalInstruction list \<Rightarrow> bytes" where
  "instructionFrames ins = concat (map (\<lambda>i. natToBE 1 (nat \<bar>hiProgramIndex i\<bar>) @ natToBE 8 (length (hiAccountIndexes i)) @
     hiAccountIndexes i @ natToBE 8 (length (hiData i)) @ hiData i) ins)"

definition framable :: "bytes \<Rightarrow> bool" where
  "framable b \<longleftrightarrow> length b < 256 ^ 8"

lemma natToBE_inject: "m < 256 ^ k \<Longrightarrow> n < 256 ^ k \<Longrightarrow> natToBE k m = natToBE k n \<Longrightarrow> m = n"
  by (metis setBytes_natToBE of_nat_eq_iff)

lemma appendBE_Ok: "appendBE dst v k = Ok r \<longleftrightarrow> nat \<bar>v\<bar> < 256 ^ k \<and> r = dst @ natToBE k (nat \<bar>v\<bar>)"
  by (auto simp: appendBE_def fillBytes_def res_simps)

lemma appendOutputs_Ok:
  "appendOutputs dst outs = Ok r \<Longrightarrow> r = dst @ outputFrames outs \<and> (\<forall>b \<in> set outs. framable b)"
proof (induction dst outs arbitrary: r rule: appendOutputs.induct)
  case (2 dst cur outs)
  from "2.prems" obtain d where d: "appendBE dst (int (length cur)) 8 = Ok d" "appendOutputs (d @ cur) outs = Ok r"
    by (auto simp: res_simps)
  from "2.IH" [OF d(2)] d(1) show ?case by (auto simp: appendBE_Ok outputFrames_def framable_def)
qed (simp add: outputFrames_def)

definition framableInstruction :: "hinkalInstruction \<Rightarrow> bool" where
  "framableInstruction i \<longleftrightarrow> nat \<bar>hiProgramIndex i\<bar> < 256 \<and> framable (hiAccountIndexes i) \<and> framable (hiData i)"

lemma appendInstructions_Ok:
  "appendInstructions dst ins = Ok r \<Longrightarrow> r = dst @ instructionFrames ins \<and> (\<forall>i \<in> set ins. framableInstruction i)"
proof (induction dst ins arbitrary: r rule: appendInstructions.induct)
  case (2 dst i ins)
  from "2.prems" obtain d1 d2 d3 where d: "appendBE dst (hiProgramIndex i) 1 = Ok d1"
    "appendBE d1 (int (length (hiAccountIndexes i))) 8 = Ok d2"
    "appendBE (d2 @ hiAccountIndexes i) (int (length (hiData i))) 8 = Ok d3"
    "appendInstructions (d3 @ hiData i) ins = Ok r"
    by (auto simp: res_simps)
  from "2.IH" [OF d(4)] d(1-3) show ?case
    by (auto simp: appendBE_Ok instructionFrames_def framable_def framableInstruction_def simp del: natToBE.simps)
qed (simp add: instructionFrames_def)

lemma frame_inject:
  assumes "framable a" "framable b" "natToBE 8 (length a) @ a @ r = natToBE 8 (length b) @ b @ r'"
  shows "a = b \<and> r = r'"
proof -
  have "natToBE 8 (length a) = natToBE 8 (length b)" "a @ r = b @ r'"
    using assms(3) by (simp_all add: append_eq_append_conv del: natToBE.simps)
  then show ?thesis using natToBE_inject [of "length a" 8 "length b"] assms(1,2)
    by (simp add: framable_def append_eq_append_conv)
qed

lemma outputFrames_inject:
  "length outs = length outs' \<Longrightarrow> \<forall>b \<in> set outs \<union> set outs'. framable b \<Longrightarrow>
   outputFrames outs @ r = outputFrames outs' @ r' \<Longrightarrow> outs = outs' \<and> r = r'"
proof (induction outs outs' rule: list_induct2)
  case (Cons a as b bs)
  from Cons.prems(2) have "natToBE 8 (length a) @ a @ (outputFrames as @ r) = natToBE 8 (length b) @ b @ (outputFrames bs @ r')"
    by (simp add: outputFrames_def del: natToBE.simps)
  then have "a = b" "outputFrames as @ r = outputFrames bs @ r'"
    using frame_inject [of a b "outputFrames as @ r" "outputFrames bs @ r'"] Cons.prems(1) by simp_all
  then show ?case using Cons.IH Cons.prems(1) by simp
qed (simp add: outputFrames_def)

definition sameUpToSign :: "hinkalInstruction list \<Rightarrow> hinkalInstruction list \<Rightarrow> bool" where
  "sameUpToSign = list_all2 (\<lambda>i j. \<bar>hiProgramIndex i\<bar> = \<bar>hiProgramIndex j\<bar> \<and> hiAccountIndexes i = hiAccountIndexes j \<and> hiData i = hiData j)"

lemma instructionFrames_inject:
  "length is = length js \<Longrightarrow> \<forall>i \<in> set is \<union> set js. framableInstruction i \<Longrightarrow>
   instructionFrames is @ r = instructionFrames js @ r' \<Longrightarrow> sameUpToSign is js \<and> r = r'"
proof (induction "is" js rule: list_induct2)
  case (Cons i ins j jns)
  let ?r = "instructionFrames ins @ r" and ?r' = "instructionFrames jns @ r'"
  from Cons.prems(1) have f: "framableInstruction i" "framableInstruction j" by simp_all
  from Cons.prems(2) have whole: "natToBE 1 (nat \<bar>hiProgramIndex i\<bar>) @ (natToBE 8 (length (hiAccountIndexes i)) @
      hiAccountIndexes i @ natToBE 8 (length (hiData i)) @ hiData i @ ?r) = natToBE 1 (nat \<bar>hiProgramIndex j\<bar>) @
      (natToBE 8 (length (hiAccountIndexes j)) @ hiAccountIndexes j @ natToBE 8 (length (hiData j)) @ hiData j @ ?r')"
    by (simp add: instructionFrames_def del: natToBE.simps)
  have ix: "natToBE 1 (nat \<bar>hiProgramIndex i\<bar>) = natToBE 1 (nat \<bar>hiProgramIndex j\<bar>)"
    and rest: "natToBE 8 (length (hiAccountIndexes i)) @ hiAccountIndexes i @ natToBE 8 (length (hiData i)) @ hiData i @ ?r =
      natToBE 8 (length (hiAccountIndexes j)) @ hiAccountIndexes j @ natToBE 8 (length (hiData j)) @ hiData j @ ?r'"
    using whole append_eq_append_conv [of "natToBE 1 (nat \<bar>hiProgramIndex i\<bar>)" "natToBE 1 (nat \<bar>hiProgramIndex j\<bar>)"]
    by (simp_all del: natToBE.simps append_assoc)
  from ix have "nat \<bar>hiProgramIndex i\<bar> = nat \<bar>hiProgramIndex j\<bar>"
    using f by (intro natToBE_inject [of _ 1]) (simp_all add: framableInstruction_def)
  moreover from frame_inject [OF _ _ rest] f have acc: "hiAccountIndexes i = hiAccountIndexes j"
    and rest2: "natToBE 8 (length (hiData i)) @ hiData i @ ?r = natToBE 8 (length (hiData j)) @ hiData j @ ?r'"
    by (simp_all add: framableInstruction_def)
  moreover from frame_inject [OF _ _ rest2] f have "hiData i = hiData j" "?r = ?r'"
    by (simp_all add: framableInstruction_def)
  ultimately show ?case using Cons.IH Cons.prems(1) by (simp add: sameUpToSign_def)
qed (simp_all add: instructionFrames_def sameUpToSign_def)

lemma accounts_inject:
  "length xs = length ys \<Longrightarrow> \<forall>(w, k) \<in> set xs \<union> set ys. length k = 32 \<Longrightarrow>
   appendAccounts [] xs = appendAccounts [] ys \<Longrightarrow> xs = ys"
proof (induction xs ys rule: list_induct2)
  case (Cons x xs y ys)
  obtain w k v l where xy: "x = (w, k)" "y = (v, l)" by (cases x, cases y) auto
  have "k @ appendAccounts [] xs = l @ appendAccounts [] ys" "w = v"
    using Cons.prems(2) xy by (auto simp: appendAccounts_def split: if_splits)
  then show ?case using Cons xy by (auto simp: append_eq_append_conv)
qed simp

text \<open>The hashed bytes bind the transaction: with the numbers of outputs and instructions fixed, equal
  bytes mean the same dimensions, recipient, signer, outputs, fees and instructions, and the same
  accounts when there are as many of them. Program indexes are bound up to their sign.\<close>

theorem solana_calldata_binding:
  assumes a: "solanaCalldataBytes (t, n, q) recipient signer outs fee rate ins accs = Ok bs"
    and b: "solanaCalldataBytes (t', n', q') recipient' signer' outs' fee' rate' ins' accs' = Ok bs"
    and counts: "length outs = length outs'" "length ins = length ins'" "length accs = length accs'"
    and keys: "length recipient = 32" "length recipient' = 32" "length signer = 32" "length signer' = 32"
      "\<forall>(w, k) \<in> set accs \<union> set accs'. length k = 32"
  shows "[of_nat t, of_nat n, of_nat q] = ([of_nat t', of_nat n', of_nat q'] :: bytes) \<and>
     recipient = recipient' \<and> signer = signer' \<and> outs = outs' \<and> bigToBE fee 8 = bigToBE fee' 8 \<and>
     bigToBE rate 8 = bigToBE rate' 8 \<and> sameUpToSign ins ins' \<and> accs = accs'"
proof -
  let ?d = "[of_nat t, of_nat n, of_nat q] :: bytes" and ?d' = "[of_nat t', of_nat n', of_nat q'] :: bytes"
  from a obtain f r where A: "bigToBE fee 8 = Ok f" "bigToBE rate 8 = Ok r"
    "bs = (?d @ recipient @ signer) @ outputFrames outs @ f @ r @ instructionFrames ins @ appendAccounts [] accs"
    "\<forall>b \<in> set outs. framable b" "\<forall>i \<in> set ins. framableInstruction i"
    unfolding solanaCalldataBytes_def prod.case andThen_eq_Ok
    by (auto dest!: appendOutputs_Ok appendInstructions_Ok simp: appendAccounts_def)
  from b obtain f' r' where B: "bigToBE fee' 8 = Ok f'" "bigToBE rate' 8 = Ok r'"
    "bs = (?d' @ recipient' @ signer') @ outputFrames outs' @ f' @ r' @ instructionFrames ins' @ appendAccounts [] accs'"
    "\<forall>b \<in> set outs'. framable b" "\<forall>i \<in> set ins'. framableInstruction i"
    unfolding solanaCalldataBytes_def prod.case andThen_eq_Ok
    by (auto dest!: appendOutputs_Ok appendInstructions_Ok simp: appendAccounts_def)
  have len8: "bigToBE v 8 = Ok x \<Longrightarrow> length x = 8" for v x
    by (auto simp: bigToBE_def fillBytes_def split: option.splits if_splits simp del: natToBE.simps)
  have fr: "length f = length f'" "length r = length r'" using len8 A(1,2) B(1,2) by metis+
  have h: "?d @ recipient @ signer = ?d' @ recipient' @ signer'"
    "outputFrames outs @ (f @ r @ instructionFrames ins @ appendAccounts [] accs) =
     outputFrames outs' @ (f' @ r' @ instructionFrames ins' @ appendAccounts [] accs')"
    using A(3) B(3) keys append_eq_append_conv [of "?d @ recipient @ signer" "?d' @ recipient' @ signer'"] by simp_all
  from h(1) keys have "?d = ?d'" "recipient = recipient'" "signer = signer'" by simp_all
  moreover from outputFrames_inject [OF counts(1) _ h(2)] A(4) B(4)
  have "outs = outs'" and tl: "f @ r @ instructionFrames ins @ appendAccounts [] accs =
     f' @ r' @ instructionFrames ins' @ appendAccounts [] accs'" by auto
  moreover from tl fr have "f = f'" "r = r'" and it: "instructionFrames ins @ appendAccounts [] accs =
     instructionFrames ins' @ appendAccounts [] accs'" by simp_all
  moreover from instructionFrames_inject [OF counts(2) _ it] A(5) B(5)
  have "sameUpToSign ins ins'" and at: "appendAccounts [] accs = appendAccounts [] accs'" by auto
  moreover from accounts_inject [OF counts(3) keys(5) at] have "accs = accs'" .
  ultimately show ?thesis using A(1,2) B(1,2) by simp
qed

lemma solana_calldata_binding_witness:
  "solanaCalldataBytes (1, 2, 3) (replicate 32 1) (replicate 32 2) [[7]] (Some 5) None [] [(True, replicate 32 3)] \<noteq>
   solanaCalldataBytes (1, 2, 3) (replicate 32 1) (replicate 32 2) [[8]] (Some 5) None [] [(True, replicate 32 3)]"
proof
  assume eq: "solanaCalldataBytes (1, 2, 3) (replicate 32 1) (replicate 32 2) [[7]] (Some 5) None [] [(True, replicate 32 3)] =
    solanaCalldataBytes (1, 2, 3) (replicate 32 1) (replicate 32 2) [[8]] (Some 5) None [] [(True, replicate 32 3)]"
  obtain bs where bs: "solanaCalldataBytes (1, 2, 3) (replicate 32 1) (replicate 32 2) [[7]] (Some 5) None []
      [(True, replicate 32 3)] = Ok bs"
    by (simp add: solanaCalldataBytes_def appendBE_def bigToBE_def fillBytes_def)
  from solana_calldata_binding [OF bs bs [unfolded eq]] show False by simp
qed

end
