(* ===== verification/ChainEvents.thy ===== *)
theory ChainEvents
  imports CryptoKeys
begin

text \<open>
  A chain event and its texts (\<open>internal/data-structures/blockchainevent/blockchainevent.go\<close>). JSON values
  are a datatype; their syntax (\<open>encoding/json\<close>) is a pair of arguments, \<open>jParse\<close> and \<open>jText\<close>, with \<open>jFloat\<close>
  the text of a number after it went through a \<open>float64\<close>. The ABI decoder of go-ethereum is the
  argument \<open>abiLib\<close>.
\<close>

subsection \<open>JSON values\<close>

datatype json = JNull | JBool bool | JNum string | JStr string | JArr "json list" | JObj "(string \<times> json) list"

record jsonLib =
  jParse :: "string \<Rightarrow> json option"
  jText :: "json \<Rightarrow> string res"
  jFloat :: "string \<Rightarrow> string option"

text \<open>Unmarshalling into \<open>any\<close>: every number becomes a \<open>float64\<close>, and one out of its range is an error.\<close>

primrec asAny :: "jsonLib \<Rightarrow> json \<Rightarrow> json res" where
  "asAny J JNull = Ok JNull"
| "asAny J (JBool b) = Ok (JBool b)"
| "asAny J (JNum t) = (case jFloat J t of None \<Rightarrow> Err (ErrMsg ''json: cannot unmarshal number'') | Some u \<Rightarrow> Ok (JNum u))"
| "asAny J (JStr s) = Ok (JStr s)"
| "asAny J (JArr vs) = (case mapRes id (map (asAny J) vs) of Ok ws \<Rightarrow> Ok (JArr ws) | Err e \<Rightarrow> Err e | Panic p \<Rightarrow> Panic p)"
| "asAny J (JObj kvs) =
     (case mapRes (\<lambda>kv. andThen (snd kv) (\<lambda>w. Ok (fst kv, w))) (map (map_prod id (asAny J)) kvs) of
        Ok ws \<Rightarrow> Ok (JObj ws) | Err e \<Rightarrow> Err e | Panic p \<Rightarrow> Panic p)"

text \<open>
  The fields of a struct: keys are matched without regard to case and a later entry overwrites an
  earlier one; \<open>null\<close> leaves a string or a number as it is and clears an \<open>any\<close>.
\<close>

fun stringField :: "string \<Rightarrow> string \<Rightarrow> (string \<times> json) list \<Rightarrow> string res" where
  "stringField name cur [] = Ok cur"
| "stringField name cur ((k, v) # kvs) =
     (if equalFold k name
      then (case v of JStr s \<Rightarrow> stringField name s kvs
            | JNull \<Rightarrow> stringField name cur kvs
            | _ \<Rightarrow> Err (ErrMsg ''json: cannot unmarshal into string''))
      else stringField name cur kvs)"

definition uint64OfText :: "string \<Rightarrow> u64 option" where
  "uint64OfText t = (case scanNat 10 t of
     None \<Rightarrow> None
   | Some n \<Rightarrow> if n < 2 ^ 64 then Some (of_nat n) else None)"

fun uint64Field :: "string \<Rightarrow> u64 \<Rightarrow> (string \<times> json) list \<Rightarrow> u64 res" where
  "uint64Field name cur [] = Ok cur"
| "uint64Field name cur ((k, v) # kvs) =
     (if equalFold k name
      then (case v of
              JNum t \<Rightarrow> (case uint64OfText t of
                 None \<Rightarrow> Err (ErrMsg ''json: cannot unmarshal number into uint64'')
               | Some n \<Rightarrow> uint64Field name n kvs)
            | JNull \<Rightarrow> uint64Field name cur kvs
            | _ \<Rightarrow> Err (ErrMsg ''json: cannot unmarshal into uint64''))
      else uint64Field name cur kvs)"

fun anyField :: "jsonLib \<Rightarrow> string \<Rightarrow> json \<Rightarrow> (string \<times> json) list \<Rightarrow> json res" where
  "anyField J name cur [] = Ok cur"
| "anyField J name cur ((k, v) # kvs) =
     (if equalFold k name then andThen (asAny J v) (\<lambda>w. anyField J name w kvs) else anyField J name cur kvs)"

subsection \<open>Events\<close>

record blockchainEvent =
  evName :: string
  evTxHash :: string
  evBlock :: u64
  evArgs :: string

datatype abiValue =
    AbiBig "int option"
  | AbiAddress bytes
  | AbiBytes bytes
  | AbiBytes32 bytes
  | AbiOther json

record abiInput =
  inName :: string
  inIndexed :: bool

record abiEvent =
  aeName :: string
  aeInputs :: "abiInput list"

record abiLib =
  eventByID :: "bytes \<Rightarrow> abiEvent res"
  unpackArgs :: "abiInput list \<Rightarrow> bytes \<Rightarrow> abiValue list res"
  parseTopics :: "abiInput list \<Rightarrow> bytes list \<Rightarrow> (string \<times> abiValue) list res"
  hashHex :: "bytes \<Rightarrow> string"
  addrHex :: "bytes \<Rightarrow> string"

record ethLog =
  lgTopics :: "bytes list"
  lgData :: bytes
  lgTxHash :: bytes
  lgBlock :: u64

fun normalizeABIValue :: "abiLib \<Rightarrow> abiValue \<Rightarrow> json" where
  "normalizeABIValue A (AbiBig None) = JStr ''0''"
| "normalizeABIValue A (AbiBig (Some n)) = JStr (bigString n)"
| "normalizeABIValue A (AbiAddress a) = JStr (addrHex A a)"
| "normalizeABIValue A (AbiBytes b) = JStr (''0x'' @ hexEncode b)"
| "normalizeABIValue A (AbiBytes32 b) = JStr (''0x'' @ hexEncode b)"
| "normalizeABIValue A (AbiOther v) = v"

text \<open>A Go map with string keys, as the list of its entries; a write replaces the entry of its key.\<close>

definition putArg :: "string \<Rightarrow> json \<Rightarrow> (string \<times> json) list \<Rightarrow> (string \<times> json) list" where
  "putArg k v m = (k, v) # filter (\<lambda>kv. fst kv \<noteq> k) m"

text \<open>The loop over the inputs: each unpacked value is stored under its position and under its name.\<close>

fun nonIndexedLoop :: "abiLib \<Rightarrow> nat \<Rightarrow> abiInput list \<Rightarrow> abiValue list \<Rightarrow> (string \<times> json) list \<Rightarrow> (string \<times> json) list" where
  "nonIndexedLoop A i [] vals m = m"
| "nonIndexedLoop A i (input # inputs) vals m =
     (if inIndexed input then nonIndexedLoop A (Suc i) inputs vals m
      else (case vals of
              [] \<Rightarrow> nonIndexedLoop A (Suc i) inputs [] m
            | v # vs \<Rightarrow> nonIndexedLoop A (Suc i) inputs vs
                 (putArg (inName input) (normalizeABIValue A v)
                   (putArg (natText 10 i) (normalizeABIValue A v) m))))"

fun indexedLoop :: "abiLib \<Rightarrow> (string \<Rightarrow> abiValue) \<Rightarrow> nat \<Rightarrow> abiInput list \<Rightarrow> (string \<times> json) list \<Rightarrow> (string \<times> json) list" where
  "indexedLoop A vals i [] m = m"
| "indexedLoop A vals i (input # inputs) m =
     (if \<not> inIndexed input then indexedLoop A vals (Suc i) inputs m
      else indexedLoop A vals (Suc i) inputs
             (putArg (inName input) (normalizeABIValue A (vals (inName input)))
               (putArg (natText 10 i) (normalizeABIValue A (vals (inName input))) m)))"

definition logArgs :: "abiLib \<Rightarrow> ethLog \<Rightarrow> abiEvent \<Rightarrow> (string \<times> json) list res" where
  "logArgs A log event =
     (let nonIndexed = filter (\<lambda>i. \<not> inIndexed i) (aeInputs event);
          indexedInputs = filter inIndexed (aeInputs event)
      in andThen (if lgData log \<noteq> [] \<and> nonIndexed \<noteq> []
                  then andThen (wrapErr ''unpack log data'' (unpackArgs A nonIndexed (lgData log)))
                         (\<lambda>vals. Ok (nonIndexedLoop A 0 (aeInputs event) vals []))
                  else Ok []) (\<lambda>m1.
         if indexedInputs \<noteq> [] \<and> length (lgTopics log) > 1
         then andThen (wrapErr ''parse indexed topics'' (parseTopics A indexedInputs (tl (lgTopics log)))) (\<lambda>kvs.
                Ok (indexedLoop A (\<lambda>k. case map_of kvs k of None \<Rightarrow> AbiOther JNull | Some v \<Rightarrow> v) 0 (aeInputs event) m1))
         else Ok m1))"

definition NewFromLog :: "jsonLib \<Rightarrow> abiLib \<Rightarrow> ethLog \<Rightarrow> blockchainEvent res" where
  "NewFromLog J A log =
     (if lgTopics log = [] then Err (ErrMsg ''log has no topics'')
      else
        andThen (wrapErr ''unknown event topic'' (eventByID A (hd (lgTopics log)))) (\<lambda>event.
        andThen (logArgs A log event) (\<lambda>m.
        andThen (jText J (JObj m)) (\<lambda>b.
          Ok \<lparr>evName = aeName event, evTxHash = hashHex A (lgTxHash log), evBlock = lgBlock log, evArgs = b\<rparr>))))"

definition NewFromSerialized :: "jsonLib \<Rightarrow> string \<Rightarrow> blockchainEvent res" where
  "NewFromSerialized J serialized =
     (case jParse J serialized of
        None \<Rightarrow> Err (ErrMsg ''invalid JSON'')
      | Some v \<Rightarrow>
          andThen (case v of JObj kvs \<Rightarrow> Ok kvs | JNull \<Rightarrow> Ok [] | _ \<Rightarrow> Err (ErrMsg ''json: cannot unmarshal into struct'')) (\<lambda>kvs.
          andThen (stringField ''eventName'' [] kvs) (\<lambda>name.
          andThen (stringField ''transactionHash'' [] kvs) (\<lambda>txHash.
          andThen (uint64Field ''blockNumber'' 0 kvs) (\<lambda>block.
          andThen (anyField J ''args'' JNull kvs) (\<lambda>args.
          andThen (case args of JStr a \<Rightarrow> Ok a | _ \<Rightarrow> jText J args) (\<lambda>argsStr.
            Ok \<lparr>evName = name, evTxHash = txHash, evBlock = block, evArgs = argsStr\<rparr>)))))))"

definition GetArg :: "jsonLib \<Rightarrow> blockchainEvent \<Rightarrow> string \<Rightarrow> string res" where
  "GetArg J e key =
     (case jParse J (evArgs e) of
        None \<Rightarrow> Err (ErrMsg ''invalid JSON'')
      | Some w \<Rightarrow>
          andThen (asAny J w) (\<lambda>v.
          andThen (case v of JObj kvs \<Rightarrow> Ok kvs | JNull \<Rightarrow> Ok [] | _ \<Rightarrow> Err (ErrMsg ''json: cannot unmarshal into map'')) (\<lambda>kvs.
          (case map_of (rev kvs) key of
             None \<Rightarrow> Err (ErrMsg (''arg '' @ [CHR 0x22] @ key @ [CHR 0x22] @ '' not found in event '' @ evName e))
           | Some (JStr s) \<Rightarrow> Ok s
           | Some u \<Rightarrow> jText J u))))"

definition Serialize :: "jsonLib \<Rightarrow> blockchainEvent \<Rightarrow> string res" where
  "Serialize J e = jText J (JObj
     [(''args'', JStr (evArgs e)), (''blockNumber'', JNum (natText 10 (unat (evBlock e)))),
      (''eventName'', JStr (evName e)), (''transactionHash'', JStr (evTxHash e))])"

subsection \<open>Properties\<close>

definition serializedFields :: "blockchainEvent \<Rightarrow> json" where
  "serializedFields e = JObj
     [(''args'', JStr (evArgs e)), (''blockNumber'', JNum (natText 10 (unat (evBlock e)))),
      (''eventName'', JStr (evName e)), (''transactionHash'', JStr (evTxHash e))]"

lemma uint64OfText_natText: "n < 2 ^ 64 \<Longrightarrow> uint64OfText (natText 10 n) = Some (of_nat n)"
  by (simp add: uint64OfText_def scanNat_def scanDigits_natText)

lemma struct_key_case: "\<not> equalFold ''args'' ''blockNumber''" "\<not> equalFold ''args'' ''eventName''"
  "\<not> equalFold ''args'' ''transactionHash''" "\<not> equalFold ''blockNumber'' ''args''"
  "\<not> equalFold ''blockNumber'' ''eventName''" "\<not> equalFold ''blockNumber'' ''transactionHash''"
  "\<not> equalFold ''eventName'' ''args''" "\<not> equalFold ''eventName'' ''blockNumber''"
  "\<not> equalFold ''eventName'' ''transactionHash''" "\<not> equalFold ''transactionHash'' ''args''"
  "\<not> equalFold ''transactionHash'' ''blockNumber''" "\<not> equalFold ''transactionHash'' ''eventName''"
  by code_simp+

text \<open>An event written by Serialize is read back by NewFromSerialized unchanged, for every name, hash,
  64-bit block number and argument text, provided the JSON text of the object parses back to it.\<close>

theorem event_serialize_roundtrip:
  assumes "jText J (serializedFields e) = Ok t" "jParse J t = Some (serializedFields e)"
  shows "andThen (Serialize J e) (NewFromSerialized J) = Ok e"
proof -
  have n: "uint64OfText (natText 10 (unat (evBlock e))) = Some (evBlock e)"
    using uint64OfText_natText [of "unat (evBlock e)"] unsigned_less [of "evBlock e"] by simp
  have "Serialize J e = Ok t" using assms(1) by (simp add: Serialize_def serializedFields_def)
  then show ?thesis
    using assms(2) by (simp add: NewFromSerialized_def serializedFields_def struct_key_case n)
qed

definition toyEvent :: blockchainEvent where
  "toyEvent = \<lparr>evName = ''Nullified'', evTxHash = ''0xab'', evBlock = 12345, evArgs = ''{}''\<rparr>"

definition toyJson :: jsonLib where
  "toyJson = \<lparr>jParse = (\<lambda>t. if t = ''t'' then Some (serializedFields toyEvent) else None),
     jText = (\<lambda>v. if v = serializedFields toyEvent then Ok ''t'' else Err (ErrMsg ''not here'')), jFloat = Some\<rparr>"

lemma event_serialize_roundtrip_witness:
  "andThen (Serialize toyJson toyEvent) (NewFromSerialized toyJson) = Ok toyEvent"
  by (rule event_serialize_roundtrip [where t = "''t''"]) (simp_all add: toyJson_def)

text \<open>What a map holds after writes.\<close>

lemma map_of_putArg [simp]: "map_of (putArg k v m) k' = (if k' = k then Some v else map_of m k')"
proof (cases "k' = k")
  case False
  have "map_of (filter (\<lambda>kv. fst kv \<noteq> k) m) k' = map_of m k'"
    using False by (induction m) auto
  then show ?thesis using False by (simp add: putArg_def)
qed (simp add: putArg_def)

lemma distinct_putArg: "distinct (map fst m) \<Longrightarrow> distinct (map fst (putArg k v m))"
  by (induction m) (auto simp: putArg_def)

lemma map_of_rev: "distinct (map fst m) \<Longrightarrow> map_of (rev m) = map_of m"
  by (subst map_of_inject_set) (simp_all add: rev_map [symmetric])

definition textKeys :: "abiInput list \<Rightarrow> bool" where
  "textKeys inputs \<longleftrightarrow> distinct (map inName inputs) \<and> (\<forall>i n. i \<in> set inputs \<longrightarrow> inName i \<noteq> natText 10 n)"

lemma distinct_nonIndexedLoop:
  "distinct (map fst m) \<Longrightarrow> distinct (map fst (nonIndexedLoop A i inputs vals m))"
  by (induction A i inputs vals m rule: nonIndexedLoop.induct) (auto simp: distinct_putArg split: list.splits)

lemma nonIndexedLoop_other:
  "k \<notin> inName ` set inputs \<Longrightarrow> (\<And>n. k \<noteq> natText 10 n) \<Longrightarrow>
   map_of (nonIndexedLoop A i inputs vals m) k = map_of m k"
  by (induction A i inputs vals m rule: nonIndexedLoop.induct) (auto split: list.splits)

lemma nonIndexedLoop_named:
  assumes "textKeys inputs" "\<forall>i \<in> set inputs. \<not> inIndexed i" "length vals = length inputs" "n < length inputs"
  shows "map_of (nonIndexedLoop A i inputs vals m) (inName (inputs ! n)) = Some (normalizeABIValue A (vals ! n))"
  using assms
proof (induction inputs arbitrary: i vals m n)
  case (Cons x xs)
  obtain v vs where vals: "vals = v # vs" using Cons.prems(3) by (cases vals) auto
  have tk: "textKeys xs" using Cons.prems(1) by (simp add: textKeys_def)
  show ?case
  proof (cases n)
    case 0
    have "inName x \<notin> inName ` set xs" "\<And>n. inName x \<noteq> natText 10 n"
      using Cons.prems(1) by (auto simp: textKeys_def)
    then show ?thesis using 0 Cons.prems(2) by (simp add: vals nonIndexedLoop_other)
  next
    case (Suc k)
    then show ?thesis using Cons.IH [OF tk, of vs k] Cons.prems by (simp add: vals)
  qed
qed simp

lemma asAny_strings: "\<forall>kv \<in> set m. \<exists>s. snd kv = JStr s \<Longrightarrow> asAny J (JObj m) = Ok (JObj m)"
proof -
  assume a: "\<forall>kv \<in> set m. \<exists>s. snd kv = JStr s"
  have "mapRes (\<lambda>kv. andThen (snd kv) (\<lambda>w. Ok (fst kv, w))) (map (map_prod id (asAny J)) m) = Ok m"
    using a by (induction m) auto
  then show ?thesis by simp
qed

text \<open>An argument of an event taken from a log is read back by name as its normalised value: a number
  as its decimal text, bytes as hexadecimal text. The inputs are all in the data, with distinct names
  that are not numerals, and the JSON text of the arguments parses back.\<close>

theorem log_argument_by_name:
  assumes log: "lgTopics log = [topic]" "lgData log \<noteq> []"
    and event: "eventByID A topic = Ok event" "unpackArgs A (aeInputs event) (lgData log) = Ok vals"
    and inputs: "textKeys (aeInputs event)" "\<forall>i \<in> set (aeInputs event). \<not> inIndexed i"
      "length vals = length (aeInputs event)" "n < length vals"
    and json: "jText J (JObj (nonIndexedLoop A 0 (aeInputs event) vals [])) = Ok t"
      "jParse J t = Some (JObj (nonIndexedLoop A 0 (aeInputs event) vals []))"
      "asAny J (JObj (nonIndexedLoop A 0 (aeInputs event) vals [])) = Ok (JObj (nonIndexedLoop A 0 (aeInputs event) vals []))"
    and strVal: "normalizeABIValue A (vals ! n) = JStr s"
  shows "\<exists>e. NewFromLog J A log = Ok e \<and> evName e = aeName event \<and> evBlock e = lgBlock log \<and>
    GetArg J e (inName (aeInputs event ! n)) = Ok s"
proof -
  let ?m = "nonIndexedLoop A 0 (aeInputs event) vals []"
  have f: "filter (\<lambda>i. \<not> inIndexed i) (aeInputs event) = aeInputs event" "filter inIndexed (aeInputs event) = []"
    using inputs(2) by auto
  have "aeInputs event \<noteq> []" using inputs(3,4) by auto
  then have args: "logArgs A log event = Ok ?m" by (simp add: logArgs_def f log event)
  have new: "NewFromLog J A log = Ok \<lparr>evName = aeName event, evTxHash = hashHex A (lgTxHash log),
      evBlock = lgBlock log, evArgs = t\<rparr>"
    using args by (simp add: NewFromLog_def log event json(1) del: asAny.simps)
  have "map_of (rev ?m) (inName (aeInputs event ! n)) = Some (JStr s)"
    using nonIndexedLoop_named [OF inputs(1,2), of vals n A 0 "[]"] inputs(3,4) strVal
    by (simp add: map_of_rev distinct_nonIndexedLoop)
  then have "GetArg J \<lparr>evName = aeName event, evTxHash = hashHex A (lgTxHash log),
      evBlock = lgBlock log, evArgs = t\<rparr> (inName (aeInputs event ! n)) = Ok s"
    by (simp add: GetArg_def json(2,3) del: asAny.simps)
  with new show ?thesis by (intro exI conjI) simp_all
qed

definition toyAbi :: abiLib where
  "toyAbi = \<lparr>eventByID = (\<lambda>_. Ok \<lparr>aeName = ''Nullified'', aeInputs = [\<lparr>inName = ''nullifier'', inIndexed = False\<rparr>]\<rparr>),
     unpackArgs = (\<lambda>_ d. Ok [AbiBig (Some (setBytes d))]), parseTopics = (\<lambda>_ _. Ok []),
     hashHex = hexEncode, addrHex = hexEncode\<rparr>"

definition toyLogJson :: jsonLib where
  "toyLogJson = \<lparr>jParse = (\<lambda>t. Some (JObj [(''nullifier'', JStr t), (natText 10 0, JStr t)])),
     jText = (\<lambda>v. case v of JObj ((k, JStr t) # kvs) \<Rightarrow> Ok t | _ \<Rightarrow> Err (ErrMsg ''not here'')), jFloat = Some\<rparr>"

lemma log_argument_by_name_witness:
  "\<exists>e. NewFromLog toyLogJson toyAbi \<lparr>lgTopics = [[1]], lgData = [2, 5], lgTxHash = [3], lgBlock = 9\<rparr> = Ok e \<and>
     evName e = ''Nullified'' \<and> evBlock e = 9 \<and> GetArg toyLogJson e ''nullifier'' = Ok (bigString 517)"
proof -
  let ?ev = "\<lparr>aeName = ''Nullified'', aeInputs = [\<lparr>inName = ''nullifier'', inIndexed = False\<rparr>]\<rparr>"
  let ?log = "\<lparr>lgTopics = [[1]], lgData = [2, 5], lgTxHash = [3], lgBlock = 9\<rparr> :: ethLog"
  have nt: "''nullifier'' \<noteq> natText 10 n" for n
  proof
    assume "''nullifier'' = natText 10 n"
    then have "setString 10 ''nullifier'' = Some (int n)" using setString_natText [of 10 n] by simp
    then show False by (simp add: scanNat_def digitVal_def)
  qed
  have bytes: "setBytes [2, 5 :: 8 word] = 517" by (simp add: setBytes_def)
  let ?m = "nonIndexedLoop toyAbi 0 (aeInputs ?ev) [AbiBig (Some 517)] []"
  have m: "?m = [(''nullifier'', JStr (bigString 517)), (natText 10 0, JStr (bigString 517))]"
    using nt [of 0] by (auto simp: putArg_def)
  have "\<exists>e. NewFromLog toyLogJson toyAbi ?log = Ok e \<and> evName e = aeName ?ev \<and> evBlock e = lgBlock ?log \<and>
    GetArg toyLogJson e (inName (aeInputs ?ev ! 0)) = Ok (bigString 517)"
  proof (rule log_argument_by_name [where event = ?ev and vals = "[AbiBig (Some 517)]" and topic = "[1]"
        and t = "bigString 517"])
    show "unpackArgs toyAbi (aeInputs ?ev) (lgData ?log) = Ok [AbiBig (Some 517)]"
      by (simp add: toyAbi_def bytes)
    show "textKeys (aeInputs ?ev)" using nt by (simp add: textKeys_def)
    show "asAny toyLogJson (JObj ?m) = Ok (JObj ?m)" unfolding m by (rule asAny_strings) simp
    show "jText toyLogJson (JObj ?m) = Ok (bigString 517)" "jParse toyLogJson (bigString 517) = Some (JObj ?m)"
      unfolding m by (simp_all add: toyLogJson_def)
  qed (simp_all add: toyAbi_def)
  then show ?thesis by simp
qed

end
