(* ===== verification/Emitter.thy ===== *)
theory Emitter
  imports ChainEvents Chains "HOL-Library.Monad_Syntax"
begin

text \<open>
  The event emitter of an EVM chain (\<open>internal/data-structures/eventservice/emitter.go\<close>) with its polling and
  client listeners (\<open>polling.go\<close>, \<open>client.go\<close>, \<open>evm_client.go\<close>). A method holds the emitter's mutex for
  its whole length, so it is one step. The state behind the processors is a type parameter \<open>'s\<close>: a
  processor reads the chain and the latest block of the emitter it was added to, and changes \<open>'s\<close>.
  The node is the argument \<open>rpc\<close>. Block numbers are 64-bit words and wrap around.
\<close>

type_synonym 's processor = "int \<Rightarrow> u64 \<Rightarrow> blockchainEvent list \<Rightarrow> u64 \<Rightarrow> ('s, nat) action"

text \<open>The delegate: \<open>noopEmitterDelegate\<close>, or a listener and whether its \<open>cancel\<close> is set.\<close>

datatype listener =
    NoListener
  | PollingListener bool bool
  | ClientListener string bool "u64 option"

record 's emitter =
  emChainID :: int
  emAddr :: string
  emDepositAddr :: "string option"
  emInitial :: u64
  emLatest :: "u64 option"
  emMaxPage :: "u64 option"
  emIsServer :: bool
  emIsReady :: bool
  emInProgress :: bool
  emProcs :: "'s processor list"
  emOnProcessed :: "(nat \<Rightarrow> 's \<Rightarrow> 's) option"
  emDelegate :: listener

record rpcClient =
  rpcBlockNumber :: "u64 res"
  rpcFilterLogs :: "string \<Rightarrow> u64 \<Rightarrow> u64 \<Rightarrow> ethLog list res"

definition retryMinPageSize :: u64 where "retryMinPageSize = 100"

definition maxRetries :: nat where "maxRetries = 20"

definition NewEmitter ::
  "int \<Rightarrow> string \<Rightarrow> u64 \<Rightarrow> bool \<Rightarrow> listener \<Rightarrow> u64 option \<Rightarrow> string option \<Rightarrow> 's emitter" where
  "NewEmitter chainID addr initial isServer delegate maxPage depositAddr =
     \<lparr>emChainID = chainID, emAddr = addr, emDepositAddr = depositAddr, emInitial = initial, emLatest = None,
      emMaxPage = maxPage, emIsServer = isServer, emIsReady = False, emInProgress = False, emProcs = [],
      emOnProcessed = None, emDelegate = delegate\<rparr>"

definition LatestBlockNumber :: "'s emitter \<Rightarrow> u64" where
  "LatestBlockNumber e = (case emLatest e of None \<Rightarrow> emInitial e | Some n \<Rightarrow> n)"

definition AdvanceLatestBlockNumber :: "u64 \<Rightarrow> 's emitter \<Rightarrow> 's emitter" where
  "AdvanceLatestBlockNumber n e =
     (if (case emLatest e of None \<Rightarrow> True | Some l \<Rightarrow> n > l) then e\<lparr>emLatest := Some n\<rparr> else e)"

definition SyncFromAtMost :: "u64 \<Rightarrow> 's emitter \<Rightarrow> 's emitter" where
  "SyncFromAtMost n e =
     (if (case emLatest e of None \<Rightarrow> True | Some l \<Rightarrow> n < l) then e\<lparr>emLatest := Some n\<rparr> else e)"

definition AddEventProcessorFunction :: "'s processor \<Rightarrow> 's emitter \<Rightarrow> 's emitter res" where
  "AddEventProcessorFunction fn e =
     (if emIsReady e then Panic ''cannot add processor after Init''
      else Ok (e\<lparr>emProcs := emProcs e @ [fn]\<rparr>))"

text \<open>\<open>Clear\<close> of the delegates cancels a running listener and forgets its \<open>cancel\<close>.\<close>

fun clearListener :: "listener \<Rightarrow> listener" where
  "clearListener NoListener = NoListener"
| "clearListener (PollingListener srv running) = PollingListener srv False"
| "clearListener (ClientListener cat running from) = ClientListener cat False None"

fun StartUpdateListener :: "listener \<Rightarrow> u64 \<Rightarrow> listener" where
  "StartUpdateListener NoListener latest = NoListener"
| "StartUpdateListener (PollingListener srv running) latest = PollingListener srv True"
| "StartUpdateListener (ClientListener cat running from) latest = ClientListener cat True (Some (latest + 1))"

definition IntervalClear :: "'s emitter \<Rightarrow> 's emitter" where
  "IntervalClear e = e\<lparr>emIsReady := False, emProcs := [], emDelegate := clearListener (emDelegate e)\<rparr>"

subsection \<open>Pages and logs\<close>

partial_function (option) pageLoop :: "u64 \<Rightarrow> u64 \<Rightarrow> u64 \<Rightarrow> (u64 \<times> u64) list option" where
  "pageLoop maxPage cur to =
     (if cur \<le> to
      then do {
        pages \<leftarrow> pageLoop maxPage (cur + maxPage) to;
        Some ((cur, min (cur + maxPage - 1) to) # pages)
      }
      else Some [])"

declare pageLoop.simps [code]

definition buildPages :: "u64 \<Rightarrow> u64 \<Rightarrow> u64 option \<Rightarrow> (u64 \<times> u64) list option" where
  "buildPages from to maxPage =
     (case maxPage of
        None \<Rightarrow> Some [(from, to)]
      | Some m \<Rightarrow> if m = 0 then Some [(from, to)] else pageLoop m from to)"

text \<open>A range the node refuses is split in two, at most \<open>maxRetries\<close> times deep.\<close>

function getEventsForSingleContract ::
  "jsonLib \<Rightarrow> abiLib \<Rightarrow> rpcClient \<Rightarrow> string \<Rightarrow> u64 \<Rightarrow> u64 \<Rightarrow> nat \<Rightarrow> blockchainEvent list res" where
  "getEventsForSingleContract J A rpc addr from to retry =
     (case rpcFilterLogs rpc addr from to of
        Ok logs \<Rightarrow> Ok (okList (map (NewFromLog J A) logs))
      | Panic p \<Rightarrow> Panic p
      | Err err \<Rightarrow>
          if retry < maxRetries \<and> to - from > retryMinPageSize
          then
            (let mid = (from + to) div 2 in
             andThen (getEventsForSingleContract J A rpc addr from mid (retry + 1)) (\<lambda>a.
             andThen (getEventsForSingleContract J A rpc addr (mid + 1) to (retry + 1)) (\<lambda>b.
               Ok (a @ b))))
          else Err err)"
  by pat_completeness auto
termination
  by (relation "measure (\<lambda>(J, A, rpc, addr, from, to, retry). maxRetries - retry)") auto

declare getEventsForSingleContract.simps [simp del]

fun eventsOfPages ::
  "jsonLib \<Rightarrow> abiLib \<Rightarrow> rpcClient \<Rightarrow> string \<Rightarrow> (u64 \<times> u64) list \<Rightarrow> blockchainEvent list res" where
  "eventsOfPages J A rpc addr [] = Ok []"
| "eventsOfPages J A rpc addr ((a, b) # pages) =
     andThen (getEventsForSingleContract J A rpc addr a b 0) (\<lambda>evs.
     andThen (eventsOfPages J A rpc addr pages) (\<lambda>rest. Ok (evs @ rest)))"

definition GetEventsInRange ::
  "jsonLib \<Rightarrow> abiLib \<Rightarrow> rpcClient \<Rightarrow> 's emitter \<Rightarrow> u64 \<Rightarrow> u64 \<Rightarrow> blockchainEvent list res" where
  "GetEventsInRange J A rpc e from to =
     andThen (returned (map_option Ok (buildPages from to (emMaxPage e)))) (\<lambda>pages.
     andThen (eventsOfPages J A rpc (emAddr e) pages) (\<lambda>evs.
       (case emDepositAddr e of
          None \<Rightarrow> Ok evs
        | Some dep \<Rightarrow> andThen (eventsOfPages J A rpc dep pages) (\<lambda>more. Ok (evs @ more)))))"

definition GetLastBlockNumberForEventRequest :: "rpcClient \<Rightarrow> 's emitter \<Rightarrow> u64 res" where
  "GetLastBlockNumberForEventRequest rpc e =
     andThen (rpcBlockNumber rpc) (\<lambda>latest.
       if \<not> emIsServer e then Ok latest
       else
         andThen (GetReorgDepth (emChainID e)) (\<lambda>reorgDepth.
           (let safe = latest - reorgDepth + 1; cur = LatestBlockNumber e
            in Ok (if cur > safe then cur else safe))))"

subsection \<open>Processing\<close>

fun runProcessors :: "'s processor list \<Rightarrow> int \<Rightarrow> u64 \<Rightarrow> blockchainEvent list \<Rightarrow> u64 \<Rightarrow> nat \<Rightarrow> ('s, nat) action" where
  "runProcessors [] chain latest events scanned acc = liftA (Ok acc)"
| "runProcessors (proc # procs) chain latest events scanned acc =
     bindA (proc chain latest events scanned) (\<lambda>n. runProcessors procs chain latest events scanned (acc + n))"

definition processEvents :: "'s emitter \<Rightarrow> blockchainEvent list \<Rightarrow> u64 \<Rightarrow> ('s, unit) action" where
  "processEvents e events scannedTo =
     bindA (runProcessors (emProcs e) (emChainID e) (LatestBlockNumber e) events scannedTo 0) (\<lambda>n s.
       (Ok (), case emOnProcessed e of None \<Rightarrow> s | Some f \<Rightarrow> f n s))"

definition ProcessExternalEvents :: "blockchainEvent list \<Rightarrow> u64 \<Rightarrow> ('s emitter \<times> 's, unit) action" where
  "ProcessExternalEvents events latestBlock es =
     (case es of (e, s) \<Rightarrow>
        (case processEvents e events latestBlock s of
           (Ok _, s') \<Rightarrow> (Ok (), AdvanceLatestBlockNumber latestBlock e, s')
         | (r, s') \<Rightarrow> (r, e, s')))"

text \<open>The deferred reset of \<open>inProgress\<close> runs on every way out, a panic included.\<close>

definition RetrieveEvents ::
  "jsonLib \<Rightarrow> abiLib \<Rightarrow> rpcClient \<Rightarrow> u64 \<Rightarrow> bool \<Rightarrow> ('s emitter \<times> 's, unit) action" where
  "RetrieveEvents J A rpc fromBlock force es =
     (case es of (e0, s) \<Rightarrow>
        if emInProgress e0 \<and> \<not> force then (Ok (), e0, s)
        else
          (let e = e0\<lparr>emInProgress := True\<rparr>; done = e0\<lparr>emInProgress := False\<rparr> in
           (case wrapErr ''get last block'' (GetLastBlockNumberForEventRequest rpc e) of
              Err err \<Rightarrow> (Err err, done, s)
            | Panic p \<Rightarrow> (Panic p, done, s)
            | Ok lastBlock \<Rightarrow>
                if lastBlock < fromBlock then (Ok (), done, s)
                else
                  (case wrapErr ''get events in range'' (GetEventsInRange J A rpc e fromBlock lastBlock) of
                     Err err \<Rightarrow> (Err err, done, s)
                   | Panic p \<Rightarrow> (Panic p, done, s)
                   | Ok events \<Rightarrow>
                       (case processEvents e events lastBlock s of
                          (Ok _, s') \<Rightarrow> (Ok (), done\<lparr>emLatest := Some lastBlock\<rparr>, s')
                        | (r, s') \<Rightarrow> (r, done, s'))))))"

definition InitEmitter :: "jsonLib \<Rightarrow> abiLib \<Rightarrow> rpcClient \<Rightarrow> ('s emitter \<times> 's, unit) action" where
  "InitEmitter J A rpc es =
     (case es of (e, s) \<Rightarrow>
        if emIsReady e then (Err (ErrMsg ''already initialized''), e, s)
        else
          (case RetrieveEvents J A rpc (LatestBlockNumber e + 1) False (e\<lparr>emIsReady := True\<rparr>, s) of
             (Ok _, e', s') \<Rightarrow> (Ok (), e'\<lparr>emDelegate := StartUpdateListener (emDelegate e') (LatestBlockNumber e')\<rparr>, s')
           | r \<Rightarrow> r))"

subsection \<open>Listeners: one tick of their timers\<close>

definition pollTick :: "jsonLib \<Rightarrow> abiLib \<Rightarrow> rpcClient \<Rightarrow> 's emitter \<times> 's \<Rightarrow> 's emitter \<times> 's" where
  "pollTick J A rpc es = snd (RetrieveEvents J A rpc (LatestBlockNumber (fst es)) False es)"

record eventsResponse =
  respEvents :: "string list"
  respLatest :: u64

text \<open>
  The client's tick. \<open>fetchFrom\<close> is the listener's own variable; an answer that could not be processed
  leaves it where it was.
\<close>

definition clientTick ::
  "jsonLib \<Rightarrow> (u64 \<Rightarrow> eventsResponse res) \<Rightarrow> u64 \<times> 's emitter \<times> 's \<Rightarrow> u64 \<times> 's emitter \<times> 's" where
  "clientTick J server st =
     (case st of (fetchFrom, e, s) \<Rightarrow>
        (case server fetchFrom of
           Ok resp \<Rightarrow>
             (let (r, e', s') =
                (if respEvents resp \<noteq> []
                 then ProcessExternalEvents (okList (map (NewFromSerialized J) (respEvents resp))) (respLatest resp) (e, s)
                 else (Ok (), e, s))
              in if isOk r \<and> respLatest resp \<ge> fetchFrom
                 then (respLatest resp + 1, AdvanceLatestBlockNumber (respLatest resp) e', s')
                 else (fetchFrom, e', s'))
         | _ \<Rightarrow> (fetchFrom, e, s)))"

subsection \<open>evm_client.go, contractabi/abi.go\<close>

text \<open>The parsed ABI of each chain is kept; the cache of the deploy data it is read from is beside it.\<close>

definition Hinkal ::
  "(string \<Rightarrow> 'abi res) \<Rightarrow> deployFiles \<Rightarrow> int \<Rightarrow> (deployCache \<times> (int \<rightharpoonup> 'abi), 'abi) action" where
  "Hinkal parseABI fs chainID st =
     (case st of (dc, abis) \<Rightarrow>
        (case abis chainID of
           Some cached \<Rightarrow> (Ok cached, dc, abis)
         | None \<Rightarrow>
             (case HinkalABIJSON fs chainID dc of
                (Ok raw, dc') \<Rightarrow>
                  (case parseABI raw of
                     Ok parsed \<Rightarrow> (Ok parsed, dc', abis(chainID \<mapsto> parsed))
                   | Err e \<Rightarrow> (Err e, dc', abis)
                   | Panic p \<Rightarrow> (Panic p, dc', abis))
              | (Err e, dc') \<Rightarrow> (Err e, dc', abis)
              | (Panic p, dc') \<Rightarrow> (Panic p, dc', abis))))"

definition NewEVMEmitter ::
  "(string \<Rightarrow> unit res) \<Rightarrow> (string \<Rightarrow> 'abi res) \<Rightarrow> deployFiles \<Rightarrow> int \<Rightarrow> string \<Rightarrow> string \<Rightarrow> u64 \<Rightarrow>
   (deployCache \<times> (int \<rightharpoonup> 'abi), 'abi \<times> 's emitter) action" where
  "NewEVMEmitter dial parseABI fs chainID rpcURL contractAddress initialBlock =
     bindA (liftA (wrapErr ''dial rpc'' (dial rpcURL))) (\<lambda>_.
     bindA (\<lambda>st. apfst (wrapErr ''load abi'') (Hinkal parseABI fs chainID st)) (\<lambda>parsedABI.
     bindA (\<lambda>(dc, abis). (case GetContractData fs chainID dc of
              (r, dc') \<Rightarrow> (wrapErr ''load contract data'' r, dc', abis))) (\<lambda>contractData.
       liftA (Ok (parsedABI, NewEmitter chainID contractAddress initialBlock False NoListener None
         (if ddDepositOnChainUtxosExternalActionAddress contractData \<noteq> []
          then Some (ddDepositOnChainUtxosExternalActionAddress contractData) else None))))))"

end
