(* ===== verification/EmitterProps.thy ===== *)
theory EmitterProps
  imports Emitter
begin

text \<open>
  What the emitter promises its processors: pages cover a range exactly, splitting refused ranges
  loses nothing, the latest block moves only over blocks whose events were delivered, and no history of
  failed and successful calls skips an event.
\<close>

subsection \<open>Pages\<close>

fun chained :: "nat \<Rightarrow> nat \<Rightarrow> (u64 \<times> u64) list \<Rightarrow> bool" where
  "chained from to [] = (to < from)"
| "chained from to ((a, b) # pages) = (unat a = from \<and> a \<le> b \<and> unat b \<le> to \<and> chained (Suc (unat b)) to pages)"

lemma pageLoop_stop: "\<not> cur \<le> to \<Longrightarrow> pageLoop m cur to = Some []"
  by (subst pageLoop.simps) simp

lemma pageLoop_step:
  "cur \<le> to \<Longrightarrow> pageLoop m cur to =
     map_option (\<lambda>pages. (cur, min (cur + m - 1) to) # pages) (pageLoop m (cur + m) to)"
  by (subst pageLoop.simps, cases "pageLoop m (cur + m) to") simp_all

lemma unat_plus_small: "unat (a :: u64) + unat b < 2 ^ 64 \<Longrightarrow> unat (a + b) = unat a + unat b"
  by (simp add: unat_word_ariths)

lemma chained_above: "to < from \<Longrightarrow> chained from to pages \<Longrightarrow> pages = []"
  by (cases "(from, to, pages)" rule: chained.cases) (auto simp: word_le_nat_alt)

lemma pageLoop_chained:
  assumes "m \<noteq> 0" "unat to + unat m < 2 ^ 64"
  shows "unat cur \<le> unat to + unat m \<Longrightarrow> \<exists>pages. pageLoop m cur to = Some pages \<and>
    chained (min (unat cur) (Suc (unat to))) (unat to) pages \<and> (\<forall>(a, b) \<in> set pages. unat b - unat a < unat m)"
proof (induction "Suc (unat to + unat m) - unat cur" arbitrary: cur rule: less_induct)
  case less
  have m0: "0 < unat m" using assms(1) by (simp add: unat_gt_0)
  show ?case
  proof (cases "cur \<le> to")
    case False
    then have "unat to < unat cur" by (simp add: word_le_nat_alt)
    then show ?thesis using False by (simp add: pageLoop_stop min_def)
  next
    case True
    then have le: "unat cur \<le> unat to" by (simp add: word_le_nat_alt)
    have nxt: "unat (cur + m) = unat cur + unat m" using le assms(2) by (intro unat_plus_small) linarith
    have pred: "unat (cur + m - 1) = unat cur + unat m - 1"
      using nxt m0 by (simp add: unat_sub word_le_nat_alt)
    have "Suc (unat to + unat m) - unat (cur + m) < Suc (unat to + unat m) - unat cur" using nxt m0 le by linarith
    from less.hyps [OF this] nxt le obtain pages where
      p: "pageLoop m (cur + m) to = Some pages" "chained (min (unat (cur + m)) (Suc (unat to))) (unat to) pages"
        "\<forall>(a, b) \<in> set pages. unat b - unat a < unat m" by auto
    let ?e = "min (cur + m - 1) to"
    have e: "unat ?e = min (unat cur + unat m - 1) (unat to)" using pred by (simp add: min_def word_le_nat_alt)
    have "Suc (unat ?e) = min (unat (cur + m)) (Suc (unat to))" using e nxt m0 by simp
    moreover have "cur \<le> ?e" using e le m0 by (simp add: word_le_nat_alt)
    ultimately have "chained (unat cur) (unat to) ((cur, ?e) # pages)" using p(2) e by simp
    moreover have "unat ?e - unat cur < unat m" using e m0 by linarith
    ultimately show ?thesis using p(1,3) True le by (simp add: pageLoop_step min_def)
  qed
qed

lemma chained_ranges:
  "chained from to pages \<Longrightarrow> concat (map (\<lambda>(a, b). [unat a..<Suc (unat b)]) pages) = [from..<Suc to]"
proof (induction "from" to pages rule: chained.induct)
  case (2 "from" to a b pages)
  then have "concat (map (\<lambda>(a, b). [unat a..<Suc (unat b)]) ((a, b) # pages)) =
      [from..<Suc (unat b)] @ [Suc (unat b)..<Suc to]" by simp
  also have "\<dots> = [from..<Suc to]"
    using 2 upt_add_eq_append [of "from" "Suc (unat b)" "to - unat b"] by (simp add: word_le_nat_alt)
  finally show ?case .
qed simp

lemma buildPages_chained:
  assumes "case maxPage of None \<Rightarrow> True | Some m \<Rightarrow> unat to + unat m < 2 ^ 64" "from \<le> to"
  shows "\<exists>pages. buildPages from to maxPage = Some pages \<and> chained (unat from) (unat to) pages"
proof (cases maxPage)
  case None
  then show ?thesis using assms(2) by (simp add: buildPages_def)
next
  case (Some m)
  have le: "unat from \<le> unat to" using assms(2) by (simp add: word_le_nat_alt)
  show ?thesis
  proof (cases "m = 0")
    case True
    then show ?thesis using assms(2) Some by (simp add: buildPages_def)
  next
    case False
    have "\<exists>pages. pageLoop m from to = Some pages \<and> chained (min (unat from) (Suc (unat to))) (unat to) pages \<and>
      (\<forall>(a, b) \<in> set pages. unat b - unat a < unat m)"
      using pageLoop_chained [OF False, of to "from"] assms(1) Some le by simp
    then show ?thesis using Some False le by (auto simp: buildPages_def min_def)
  qed
qed

text \<open>When the end of the range plus a page fits in 64 bits, the loop that cuts a range into pages ends; the
  pages, in order, are exactly the blocks of the range, each once, and none is longer than a page.\<close>

theorem pages_partition:
  assumes "m \<noteq> 0" "unat to + unat m < 2 ^ 64" "from \<le> to"
  shows "\<exists>pages. buildPages from to (Some m) = Some pages \<and>
     concat (map (\<lambda>(a, b). [unat a..<Suc (unat b)]) pages) = [unat from..<Suc (unat to)] \<and>
     (\<forall>(a, b) \<in> set pages. unat b - unat a < unat m)"
proof -
  have le: "unat from \<le> unat to" using assms(3) by (simp add: word_le_nat_alt)
  then obtain pages where p: "pageLoop m from to = Some pages"
    "chained (min (unat from) (Suc (unat to))) (unat to) pages" "\<forall>(a, b) \<in> set pages. unat b - unat a < unat m"
    using pageLoop_chained [OF assms(1,2), of "from"] by auto
  then have "chained (unat from) (unat to) pages" using le by (simp add: min_def)
  then have "concat (map (\<lambda>(a, b). [unat a..<Suc (unat b)]) pages) = [unat from..<Suc (unat to)]"
    by (rule chained_ranges)
  then show ?thesis using p assms(1) by (simp add: buildPages_def)
qed

lemma pages_partition_witness:
  "\<exists>pages. buildPages 10 25 (Some 6) = Some pages \<and>
     concat (map (\<lambda>(a, b). [unat a..<Suc (unat b)]) pages) = [unat (10 :: u64)..<Suc (unat (25 :: u64))] \<and>
     (\<forall>(a, b) \<in> set pages. unat b - unat a < unat (6 :: u64))"
  by (rule pages_partition) simp_all

text \<open>The loop has no end when the range reaches the largest block number: the counter wraps around and is never
  above it.\<close>

theorem pages_endless:
  assumes "m \<noteq> 0"
  shows "buildPages from (- 1) (Some m) = None"
proof -
  have "pageLoop m cur (- 1) \<noteq> Some pages" for cur pages
  proof (induction pages arbitrary: cur)
    case Nil
    have le: "cur \<le> - 1" by (rule word_n1_ge)
    show ?case unfolding pageLoop_step [OF le] by (cases "pageLoop m (cur + m) (- 1)") simp_all
  next
    case (Cons p pages)
    have le: "cur \<le> - 1" by (rule word_n1_ge)
    show ?case unfolding pageLoop_step [OF le] using Cons [of "cur + m"] by (cases "pageLoop m (cur + m) (- 1)") simp_all
  qed
  then show ?thesis using assms by (cases "pageLoop m from (- 1)") (simp_all add: buildPages_def)
qed

lemma pages_endless_witness: "buildPages 7 (- 1) (Some 1000) = None"
  by (rule pages_endless) simp

subsection \<open>Splitting refused ranges\<close>

definition inBlocks :: "nat \<Rightarrow> nat \<Rightarrow> ethLog \<Rightarrow> bool" where
  "inBlocks from to l \<longleftrightarrow> from \<le> unat (lgBlock l) \<and> unat (lgBlock l) \<le> to"

text \<open>A node answers a query up to its head with exactly the logs of the chain in the range, or refuses it.\<close>

definition honestNode :: "(string \<Rightarrow> ethLog list) \<Rightarrow> rpcClient \<Rightarrow> u64 \<Rightarrow> bool" where
  "honestNode chain rpc head \<longleftrightarrow>
     (\<forall>addr from to logs. to \<le> head \<longrightarrow> rpcFilterLogs rpc addr from to = Ok logs \<longrightarrow>
        logs = filter (inBlocks (unat from) (unat to)) (chain addr))"

definition blockOrdered :: "ethLog list \<Rightarrow> bool" where
  "blockOrdered logs \<longleftrightarrow> sorted (map (\<lambda>l. unat (lgBlock l)) logs)"

definition eventsIn :: "jsonLib \<Rightarrow> abiLib \<Rightarrow> ethLog list \<Rightarrow> nat \<Rightarrow> nat \<Rightarrow> blockchainEvent list" where
  "eventsIn J A logs from to = okList (map (NewFromLog J A) (filter (inBlocks from to) logs))"

lemma filter_blocks_append:
  "blockOrdered logs \<Longrightarrow> from \<le> Suc mid \<Longrightarrow> mid \<le> to \<Longrightarrow>
   filter (inBlocks from mid) logs @ filter (inBlocks (Suc mid) to) logs = filter (inBlocks from to) logs"
proof (induction logs)
  case (Cons l logs)
  have rest: "filter (inBlocks from mid) logs @ filter (inBlocks (Suc mid) to) logs = filter (inBlocks from to) logs"
    using Cons by (simp add: blockOrdered_def)
  show ?case
  proof (cases "inBlocks (Suc mid) to l")
    case True
    have "\<not> inBlocks from mid k" if "k \<in> set logs" for k
      using True Cons.prems(1) that by (auto simp: inBlocks_def blockOrdered_def)
    then have none: "filter (inBlocks from mid) logs = []" by (simp add: filter_empty_conv)
    have "inBlocks from to l" "\<not> inBlocks from mid l" using True Cons.prems by (auto simp: inBlocks_def)
    then show ?thesis using rest none True by simp
  next
    case False
    then have "inBlocks from mid l \<longleftrightarrow> inBlocks from to l" using Cons.prems by (auto simp: inBlocks_def)
    then show ?thesis using rest False by simp
  qed
qed simp

lemma eventsIn_append:
  "blockOrdered logs \<Longrightarrow> from \<le> Suc mid \<Longrightarrow> mid \<le> to \<Longrightarrow>
   eventsIn J A logs from mid @ eventsIn J A logs (Suc mid) to = eventsIn J A logs from to"
  unfolding eventsIn_def filter_blocks_append [symmetric] by simp

lemma eventsIn_empty: "to < from \<Longrightarrow> eventsIn J A logs from to = []"
  by (auto simp: eventsIn_def inBlocks_def filter_empty_conv)

lemma midpoint:
  assumes "from \<le> to" "unat (to :: u64) < 2 ^ 63" "to - from > retryMinPageSize"
  shows "unat ((from + to) div 2) = (unat from + unat to) div 2"
    "unat ((from + to) div 2 + 1) = Suc ((unat from + unat to) div 2)"
    "(unat from + unat to) div 2 < unat to" "unat from \<le> (unat from + unat to) div 2"
proof -
  have le: "unat from \<le> unat to" using assms(1) by (simp add: word_le_nat_alt)
  have "unat (to - from) = unat to - unat from" using assms(1) by (simp add: unat_sub)
  then have gap: "unat to - unat from > 100" using assms(3) by (simp add: retryMinPageSize_def word_less_nat_alt)
  have "unat from + unat to < 2 ^ 64" using le assms(2) by simp
  then have sum: "unat (from + to) = unat from + unat to" by (rule unat_plus_small)
  show m: "unat ((from + to) div 2) = (unat from + unat to) div 2" using sum by (simp add: unat_div)
  show lt: "(unat from + unat to) div 2 < unat to" using gap by linarith
  show "unat from \<le> (unat from + unat to) div 2" using le by linarith
  have "unat ((from + to) div 2) + unat (1 :: u64) < 2 ^ 64" using m lt assms(2) by simp
  then show "unat ((from + to) div 2 + 1) = Suc ((unat from + unat to) div 2)" using m by (simp add: unat_plus_small)
qed

lemma single_contract_complete:
  "getEventsForSingleContract J A rpc addr from to retry = Ok evs \<Longrightarrow> honestNode chain rpc head \<Longrightarrow>
   blockOrdered (chain addr) \<Longrightarrow> from \<le> to \<Longrightarrow> to \<le> head \<Longrightarrow> unat to < 2 ^ 63 \<Longrightarrow>
   evs = eventsIn J A (chain addr) (unat from) (unat to)"
proof (induction J A rpc addr "from" to retry arbitrary: evs rule: getEventsForSingleContract.induct)
  case (1 J A rpc addr "from" to retry)
  show ?case
  proof (cases "rpcFilterLogs rpc addr from to")
    case (Ok logs)
    then have "logs = filter (inBlocks (unat from) (unat to)) (chain addr)"
      using "1.prems"(2,5) by (simp add: honestNode_def)
    then show ?thesis
      using "1.prems"(1) Ok by (subst (asm) getEventsForSingleContract.simps) (simp add: eventsIn_def)
  next
    case (Panic p)
    then show ?thesis using "1.prems"(1) by (subst (asm) getEventsForSingleContract.simps) simp
  next
    case (Err err)
    let ?mid = "(from + to) div 2"
    have split: "retry < maxRetries \<and> to - from > retryMinPageSize"
      using "1.prems"(1) Err by (subst (asm) getEventsForSingleContract.simps) (simp split: if_splits)
    from "1.prems"(1) Err split obtain a b where
      a: "getEventsForSingleContract J A rpc addr from ?mid (retry + 1) = Ok a" and
      b: "getEventsForSingleContract J A rpc addr (?mid + 1) to (retry + 1) = Ok b" and evs: "evs = a @ b"
      by (subst (asm) getEventsForSingleContract.simps) (auto simp: res_simps Let_def)
    note mid = midpoint [OF "1.prems"(4,6) conjunct2 [OF split]]
    have "evs = eventsIn J A (chain addr) (unat from) (unat ?mid) @ eventsIn J A (chain addr) (unat (?mid + 1)) (unat to)"
    proof -
      have "a = eventsIn J A (chain addr) (unat from) (unat ?mid)"
        using "1.IH"(1) [OF Err split refl a "1.prems"(2,3)] mid "1.prems"(5,6) by (simp add: word_le_nat_alt)
      moreover have "b = eventsIn J A (chain addr) (unat (?mid + 1)) (unat to)"
        using "1.IH"(2) [OF Err split refl b "1.prems"(2,3)] mid "1.prems"(5,6) by (simp add: word_le_nat_alt)
      ultimately show ?thesis using evs by simp
    qed
    also have "\<dots> = eventsIn J A (chain addr) (unat from) (unat to)"
      unfolding mid(1,2) using mid(3,4) by (intro eventsIn_append "1.prems"(3)) simp_all
    finally show ?thesis .
  qed
qed

lemma pages_complete:
  "eventsOfPages J A rpc addr pages = Ok evs \<Longrightarrow> honestNode chain rpc head \<Longrightarrow> blockOrdered (chain addr) \<Longrightarrow>
   chained from (unat to) pages \<Longrightarrow> from \<le> Suc (unat to) \<Longrightarrow> to \<le> head \<Longrightarrow> unat to < 2 ^ 63 \<Longrightarrow>
   evs = eventsIn J A (chain addr) from (unat to)"
proof (induction pages arbitrary: evs "from")
  case Nil
  then show ?case by (simp add: eventsIn_empty)
next
  case (Cons p pages)
  obtain a b where p: "p = (a, b)" by (cases p)
  from Cons.prems(1) p obtain e1 e2 where
    e: "getEventsForSingleContract J A rpc addr a b 0 = Ok e1" "eventsOfPages J A rpc addr pages = Ok e2" "evs = e1 @ e2"
    by (auto simp: res_simps)
  have c: "unat a = from" "a \<le> b" "unat b \<le> unat to" "chained (Suc (unat b)) (unat to) pages"
    using Cons.prems(4) p by simp_all
  have "b \<le> head" using c(3) Cons.prems(6) by (simp add: word_le_nat_alt)
  then have "e1 = eventsIn J A (chain addr) from (unat b)"
    using single_contract_complete [OF e(1) Cons.prems(2,3) c(2)] c(1,3) Cons.prems(7) by simp
  moreover have "e2 = eventsIn J A (chain addr) (Suc (unat b)) (unat to)"
    using Cons.IH [OF e(2) Cons.prems(2,3) c(4)] c(3) Cons.prems(6,7) by simp
  moreover have "from \<le> Suc (unat b)" using c(1,2) by (simp add: word_le_nat_alt)
  ultimately show ?case using eventsIn_append [OF Cons.prems(3), of "from" "unat b" "unat to" J A] c(3) e(3) by simp
qed

text \<open>The logs an emitter asks for: its contract's, then those of the deposit action when there is one.\<close>

definition wantedEvents ::
  "jsonLib \<Rightarrow> abiLib \<Rightarrow> (string \<Rightarrow> ethLog list) \<Rightarrow> 's emitter \<Rightarrow> nat \<Rightarrow> nat \<Rightarrow> blockchainEvent list" where
  "wantedEvents J A chain e from to =
     eventsIn J A (chain (emAddr e)) from to @
     (case emDepositAddr e of None \<Rightarrow> [] | Some dep \<Rightarrow> eventsIn J A (chain dep) from to)"

definition pageFits :: "'s emitter \<Rightarrow> u64 \<Rightarrow> bool" where
  "pageFits e to = (case emMaxPage e of None \<Rightarrow> True | Some m \<Rightarrow> unat to + unat m < 2 ^ 64)"

lemma range_complete:
  assumes "GetEventsInRange J A rpc e from to = Ok evs"
    and "honestNode chain rpc head" "\<And>addr. blockOrdered (chain addr)"
    and "from \<le> to" "to \<le> head" "unat to < 2 ^ 63" "pageFits e to"
  shows "evs = wantedEvents J A chain e (unat from) (unat to)"
proof -
  obtain pages where p: "buildPages from to (emMaxPage e) = Some pages" "chained (unat from) (unat to) pages"
    using buildPages_chained [OF _ assms(4)] assms(7) unfolding pageFits_def by blast
  have le: "unat from \<le> Suc (unat to)" using assms(4) by (simp add: word_le_nat_alt)
  note complete = pages_complete [OF _ assms(2) assms(3) p(2) le assms(5,6)]
  show ?thesis
    using assms(1) p(1)
    by (auto simp: GetEventsInRange_def res_simps wantedEvents_def dest!: complete split: option.splits)
qed

text \<open>Whatever ranges the node refuses, an answer of GetEventsInRange is complete and in order: the events of all
  logs of the contract in the range, then those of the deposit action. Nothing is lost or repeated
  at the seams of pages and halves.\<close>

theorem events_in_range_complete:
  assumes "GetEventsInRange J A rpc e from to = Ok evs"
    and "honestNode chain rpc head" "\<forall>addr. blockOrdered (chain addr)"
    and "from \<le> to" "to \<le> head" "unat to < 2 ^ 63" "pageFits e to"
  shows "evs = wantedEvents J A chain e (unat from) (unat to)"
  using assms(3) by (intro range_complete [OF assms(1,2) _ assms(4-7)]) blast

definition oneLog :: "u64 \<Rightarrow> ethLog" where
  "oneLog n = \<lparr>lgTopics = [[1]], lgData = [2, 5], lgTxHash = [3], lgBlock = n\<rparr>"

text \<open>A node that refuses any range of more than 200 blocks.\<close>

definition smallRangeNode :: "ethLog list \<Rightarrow> u64 \<Rightarrow> rpcClient" where
  "smallRangeNode logs head = \<lparr>rpcBlockNumber = Ok head,
     rpcFilterLogs = (\<lambda>addr from to. if to - from > 200 then Err (ErrMsg ''range too large'')
       else Ok (if addr = ''0xc'' then filter (inBlocks (unat from) (unat to)) logs else []))\<rparr>"

definition oneContract :: "ethLog list \<Rightarrow> string \<Rightarrow> ethLog list" where
  "oneContract logs addr = (if addr = ''0xc'' then logs else [])"

definition toyEmitter :: "'s emitter" where
  "toyEmitter = NewEmitter idBase ''0xc'' 0 False NoListener None None"

lemma smallRangeNode_honest: "honestNode (oneContract logs) (smallRangeNode logs head) head"
  by (auto simp: honestNode_def smallRangeNode_def oneContract_def split: if_splits)

lemma small_range_split:
  "GetEventsInRange J A (smallRangeNode [oneLog 20, oneLog 230] 300) toyEmitter 1 300 =
     Ok (okList (map (NewFromLog J A) [oneLog 20, oneLog 230]))"
proof -
  let ?n = "smallRangeNode [oneLog 20, oneLog 230] 300"
  have "getEventsForSingleContract J A ?n ''0xc'' 1 150 (Suc 0) = Ok (okList (map (NewFromLog J A) [oneLog 20]))"
    by (subst getEventsForSingleContract.simps) (simp add: smallRangeNode_def inBlocks_def oneLog_def)
  moreover have "getEventsForSingleContract J A ?n ''0xc'' 151 300 (Suc 0) = Ok (okList (map (NewFromLog J A) [oneLog 230]))"
    by (subst getEventsForSingleContract.simps) (simp add: smallRangeNode_def inBlocks_def oneLog_def)
  moreover have "rpcFilterLogs ?n ''0xc'' 1 300 = Err (ErrMsg ''range too large'')" by (simp add: smallRangeNode_def)
  ultimately have "getEventsForSingleContract J A ?n ''0xc'' 1 300 0 = Ok (okList (map (NewFromLog J A) [oneLog 20, oneLog 230]))"
    by (subst getEventsForSingleContract.simps)
      (simp add: maxRetries_def retryMinPageSize_def Let_def flip: okList_append map_append)
  then show ?thesis
    by (simp add: GetEventsInRange_def buildPages_def toyEmitter_def NewEmitter_def)
qed

lemma events_in_range_complete_witness:
  "wantedEvents toyLogJson toyAbi (oneContract [oneLog 20, oneLog 230]) toyEmitter (unat (1 :: u64)) (unat (300 :: u64)) =
     okList (map (NewFromLog toyLogJson toyAbi) [oneLog 20, oneLog 230])"
proof (rule events_in_range_complete [symmetric])
  show "GetEventsInRange toyLogJson toyAbi (smallRangeNode [oneLog 20, oneLog 230] 300) toyEmitter 1 300 =
      Ok (okList (map (NewFromLog toyLogJson toyAbi) [oneLog 20, oneLog 230]))"
    by (rule small_range_split)
  show "honestNode (oneContract [oneLog 20, oneLog 230]) (smallRangeNode [oneLog 20, oneLog 230] 300) 300"
    by (rule smallRangeNode_honest)
  show "\<forall>addr. blockOrdered (oneContract [oneLog 20, oneLog 230] addr)"
    by (simp add: oneContract_def blockOrdered_def oneLog_def)
qed (simp_all add: pageFits_def toyEmitter_def NewEmitter_def)

subsection \<open>The head of the chain\<close>

lemma u64_bound: "unat (n :: u64) < 2 ^ 64"
  using unsigned_less [of n, where 'a = nat] by simp

lemma reorg_depth_pos: "GetReorgDepth chain = Ok d \<Longrightarrow> 0 < unat d"
proof -
  assume "GetReorgDepth chain = Ok d"
  then have "map_of BlockReorgDepths chain = Some d" by (simp add: GetReorgDepth_def split: option.splits)
  then have "d \<in> snd ` set BlockReorgDepths" by (metis map_of_SomeD image_eqI snd_conv)
  moreover have "\<forall>x \<in> snd ` set BlockReorgDepths. 0 < unat x" by (simp add: BlockReorgDepths_def)
  ultimately show ?thesis by blast
qed

text \<open>A server asks only for blocks that are as deep as its chain's reorganisations, or that it already had: the
  block is the larger of the latest one and \<open>head - depth + 1\<close>, provided the chain is that long.\<close>

theorem safe_head:
  assumes "emIsServer e" "rpcBlockNumber rpc = Ok head" "GetReorgDepth (emChainID e) = Ok depth"
    and "unat depth \<le> unat head + 1"
  shows "\<exists>last. GetLastBlockNumberForEventRequest rpc e = Ok last \<and>
     unat last = max (unat (LatestBlockNumber e)) (unat head + 1 - unat depth)"
proof -
  let ?safe = "head - depth + 1"
  have d: "0 < unat depth" using assms(3) by (rule reorg_depth_pos)
  have eq: "?safe = head - (depth - 1)" by simp
  have p: "unat (depth - 1) = unat depth - 1" using d by (simp add: unat_sub word_le_nat_alt)
  then have "depth - 1 \<le> head" using assms(4) by (simp add: word_le_nat_alt)
  then have "unat (head - (depth - 1)) = unat head - (unat depth - 1)" using p by (simp add: unat_sub)
  then have safe: "unat ?safe = unat head + 1 - unat depth" unfolding eq using assms(4) d by linarith
  then show ?thesis
    using assms(1-3) by (auto simp: GetLastBlockNumberForEventRequest_def Let_def word_less_nat_alt max_def)
qed

lemma safe_head_witness:
  "\<exists>last. GetLastBlockNumberForEventRequest (smallRangeNode [] 5000) (toyEmitter\<lparr>emIsServer := True\<rparr> :: unit emitter) = Ok last \<and>
     unat last = max (unat (LatestBlockNumber (toyEmitter\<lparr>emIsServer := True\<rparr> :: unit emitter)))
       (unat (5000 :: u64) + 1 - unat (1000 :: u64))"
proof (rule safe_head)
  have "GetReorgDepth idBase = Ok 1000" by code_simp
  then show "GetReorgDepth (emChainID (toyEmitter\<lparr>emIsServer := True\<rparr> :: unit emitter)) = Ok 1000"
    by (simp add: toyEmitter_def NewEmitter_def)
qed (simp_all add: smallRangeNode_def)

text \<open>On a chain shorter than its depth the subtraction wraps around, and a server asks for blocks beyond the
  head.\<close>

theorem safe_head_underflow:
  assumes "emIsServer e" "rpcBlockNumber rpc = Ok head" "GetReorgDepth (emChainID e) = Ok depth"
    and "unat head + 1 < unat depth"
  shows "\<exists>last. GetLastBlockNumberForEventRequest rpc e = Ok last \<and> head < last"
proof -
  let ?safe = "head - depth + 1"
  have d64: "unat depth < 2 ^ 64" by (rule u64_bound)
  have h: "unat (head + 1) = unat head + 1"
    using unat_plus_small [of head 1] assms(4) d64 by simp
  have eq: "?safe = (head + 1) - depth" by simp
  have "unat ((head + 1) - depth) = 2 ^ 64 + (unat head + 1) - unat depth"
    using h assms(4) unat_sub_if_size [of "head + 1" depth] by (simp add: word_size)
  then have "head < ?safe" unfolding eq using d64 assms(4) by (simp add: word_less_nat_alt)
  then show ?thesis
    using assms(1-3) by (auto simp: GetLastBlockNumberForEventRequest_def Let_def)
qed

lemma safe_head_underflow_witness:
  "\<exists>last. GetLastBlockNumberForEventRequest (smallRangeNode [] 500) (toyEmitter\<lparr>emIsServer := True\<rparr> :: unit emitter) = Ok last \<and>
     500 < last"
proof (rule safe_head_underflow)
  have "GetReorgDepth idBase = Ok 1000" by code_simp
  then show "GetReorgDepth (emChainID (toyEmitter\<lparr>emIsServer := True\<rparr> :: unit emitter)) = Ok 1000"
    by (simp add: toyEmitter_def NewEmitter_def)
qed (simp_all add: smallRangeNode_def)

subsection \<open>Delivery\<close>

text \<open>A call either leaves the latest block where it was, or moves it after every processor took the events.\<close>

definition delivered :: "'s emitter \<Rightarrow> blockchainEvent list \<Rightarrow> u64 \<Rightarrow> 's \<Rightarrow> 's \<Rightarrow> bool" where
  "delivered e evs upTo s s' \<longleftrightarrow>
     (\<exists>n t. runProcessors (emProcs e) (emChainID e) (LatestBlockNumber e) evs upTo 0 s = (Ok n, t) \<and>
        s' = (case emOnProcessed e of None \<Rightarrow> t | Some f \<Rightarrow> f n t))"

lemma processEvents_Ok: "processEvents e evs upTo s = (Ok u, s') \<longleftrightarrow> delivered e evs upTo s s'"
  by (auto simp: processEvents_def delivered_def bindA_def split: prod.splits res.splits)

lemma LatestBlockNumber_inProgress [simp]: "LatestBlockNumber (e\<lparr>emInProgress := b\<rparr>) = LatestBlockNumber e"
  "LatestBlockNumber (e\<lparr>emIsReady := b\<rparr>) = LatestBlockNumber e"
  "LatestBlockNumber (e\<lparr>emDelegate := d\<rparr>) = LatestBlockNumber e"
  by (simp_all add: LatestBlockNumber_def split: option.split)

lemma GetEventsInRange_inProgress [simp]:
  "GetEventsInRange J A rpc (e\<lparr>emInProgress := b\<rparr>) from to = GetEventsInRange J A rpc e from to"
  "GetEventsInRange J A rpc (e\<lparr>emIsReady := b\<rparr>) from to = GetEventsInRange J A rpc e from to"
  by (simp_all add: GetEventsInRange_def cong: option.case_cong)

lemma GetLast_inProgress [simp]:
  "GetLastBlockNumberForEventRequest rpc (e\<lparr>emInProgress := b\<rparr>) = GetLastBlockNumberForEventRequest rpc e"
  "GetLastBlockNumberForEventRequest rpc (e\<lparr>emIsReady := b\<rparr>) = GetLastBlockNumberForEventRequest rpc e"
  by (simp_all add: GetLastBlockNumberForEventRequest_def cong: if_cong)

lemma delivered_inProgress [simp]: "delivered (e\<lparr>emInProgress := b\<rparr>) evs upTo s s' = delivered e evs upTo s s'"
  "delivered (e\<lparr>emIsReady := b\<rparr>) evs upTo s s' = delivered e evs upTo s s'"
  by (simp_all add: delivered_def)

lemma retrieve_cases:
  assumes "RetrieveEvents J A rpc from force (e, s) = (r, e', s')"
  shows "(r = Ok () \<and> emInProgress e \<and> \<not> force \<and> e' = e \<and> s' = s) \<or>
     (\<not> (emInProgress e \<and> \<not> force) \<and> e' = e\<lparr>emInProgress := False\<rparr> \<and>
        (s' = s \<or> r \<noteq> Ok () \<and> (\<exists>last evs. processEvents (e\<lparr>emInProgress := True\<rparr>) evs last s = (r, s')))) \<or>
     (\<exists>last evs. GetLastBlockNumberForEventRequest rpc e = Ok last \<and> from \<le> last \<and>
        GetEventsInRange J A rpc e from last = Ok evs \<and> delivered e evs last s s' \<and> r = Ok () \<and>
        e' = e\<lparr>emInProgress := False, emLatest := Some last\<rparr>)"
proof (cases "emInProgress e \<and> \<not> force")
  case True
  then show ?thesis using assms by (simp add: RetrieveEvents_def)
next
  case busy: False
  show ?thesis
  proof (cases "GetLastBlockNumberForEventRequest rpc e")
    case (Ok last)
    show ?thesis
    proof (cases "last < from")
      case True
      then show ?thesis using assms busy Ok by (auto simp: RetrieveEvents_def Let_def)
    next
      case False
      show ?thesis
      proof (cases "GetEventsInRange J A rpc e from last")
        case evs: (Ok evs)
        obtain q t where pe: "processEvents (e\<lparr>emInProgress := True\<rparr>) evs last s = (q, t)" by fastforce
        show ?thesis
        proof (cases q)
          case (Ok u)
          then have "delivered e evs last s t" using pe processEvents_Ok [of "e\<lparr>emInProgress := True\<rparr>"] by simp
          moreover have "r = Ok () \<and> e' = e\<lparr>emInProgress := False, emLatest := Some last\<rparr> \<and> s' = t"
            using assms busy \<open>GetLastBlockNumberForEventRequest rpc e = Ok last\<close> False evs pe \<open>q = Ok u\<close>
            by (simp add: RetrieveEvents_def Let_def)
          ultimately show ?thesis
            using \<open>GetLastBlockNumberForEventRequest rpc e = Ok last\<close> False evs
            by (intro disjI2 exI [of _ last] exI [of _ evs]) simp
        next
          case (Err x)
          then have "r = q \<and> e' = e\<lparr>emInProgress := False\<rparr> \<and> s' = t"
            using assms busy \<open>GetLastBlockNumberForEventRequest rpc e = Ok last\<close> False evs pe
            by (simp add: RetrieveEvents_def Let_def)
          then show ?thesis using pe Err busy by (intro disjI2 disjI1) auto
        next
          case (Panic x)
          then have "r = q \<and> e' = e\<lparr>emInProgress := False\<rparr> \<and> s' = t"
            using assms busy \<open>GetLastBlockNumberForEventRequest rpc e = Ok last\<close> False evs pe
            by (simp add: RetrieveEvents_def Let_def)
          then show ?thesis using pe Panic busy by (intro disjI2 disjI1) auto
        qed
      qed (use assms busy Ok False in \<open>simp_all add: RetrieveEvents_def Let_def\<close>)
    qed
  qed (use assms busy in \<open>simp_all add: RetrieveEvents_def Let_def\<close>)
qed

text \<open>The recorder: a processor that keeps what it is given.\<close>

definition recorder :: "blockchainEvent list processor" where
  "recorder chain latest evs scanned s = (Ok (length evs), s @ evs)"

text \<open>
  Histories of an emitter with one recorder: it starts from some block; every call may meet another node, with
  another head; calls may fail; a listener may tick at any time; a snapshot may send it back.
\<close>

definition usableNode :: "(string \<Rightarrow> ethLog list) \<Rightarrow> rpcClient \<Rightarrow> 's emitter \<Rightarrow> bool" where
  "usableNode chain rpc e \<longleftrightarrow>
     (\<forall>head. rpcBlockNumber rpc = Ok head \<longrightarrow> honestNode chain rpc head \<and> unat head < 2 ^ 62 \<and>
        (emIsServer e \<longrightarrow> (\<forall>depth. GetReorgDepth (emChainID e) = Ok depth \<longrightarrow> unat depth \<le> unat head + 1)))"

inductive emitterRun ::
  "jsonLib \<Rightarrow> abiLib \<Rightarrow> (string \<Rightarrow> ethLog list) \<Rightarrow> u64 \<Rightarrow> blockchainEvent list emitter \<Rightarrow> blockchainEvent list \<Rightarrow> bool"
  for J A chain base where
  start: "LatestBlockNumber e = base \<Longrightarrow> emProcs e = [recorder] \<Longrightarrow> emOnProcessed e = None \<Longrightarrow>
     (case emMaxPage e of None \<Rightarrow> True | Some m \<Rightarrow> unat m < 2 ^ 62) \<Longrightarrow> emitterRun J A chain base e []"
| init: "emitterRun J A chain base e s \<Longrightarrow> usableNode chain rpc e \<Longrightarrow>
     InitEmitter J A rpc (e, s) = (r, e', s') \<Longrightarrow> emitterRun J A chain base e' s'"
| poll: "emitterRun J A chain base e s \<Longrightarrow> usableNode chain rpc e \<Longrightarrow>
     pollTick J A rpc (e, s) = (e', s') \<Longrightarrow> emitterRun J A chain base e' s'"
| sync: "emitterRun J A chain base e s \<Longrightarrow> emLatest e \<noteq> None \<Longrightarrow>
     emitterRun J A chain base (SyncFromAtMost n e) s"

inductive_cases emitterRun_start: "emitterRun J A chain base e []"

definition covered ::
  "jsonLib \<Rightarrow> abiLib \<Rightarrow> (string \<Rightarrow> ethLog list) \<Rightarrow> u64 \<Rightarrow> 's emitter \<Rightarrow> blockchainEvent list \<Rightarrow> bool" where
  "covered J A chain base e s \<longleftrightarrow>
     set (wantedEvents J A chain e (Suc (unat base)) (unat (LatestBlockNumber e))) \<subseteq> set s"

definition recording :: "blockchainEvent list emitter \<Rightarrow> bool" where
  "recording e \<longleftrightarrow> emProcs e = [recorder] \<and> emOnProcessed e = None \<and>
     (case emMaxPage e of None \<Rightarrow> True | Some m \<Rightarrow> unat m < 2 ^ 62)"

lemma eventsIn_member:
  "ev \<in> set (eventsIn J A logs from to) \<longleftrightarrow> (\<exists>l. l \<in> set logs \<and> inBlocks from to l \<and> NewFromLog J A l = Ok ev)"
  unfolding eventsIn_def okList_member set_map set_filter image_iff by (metis (mono_tags) mem_Collect_eq)

definition watched :: "(string \<Rightarrow> ethLog list) \<Rightarrow> 's emitter \<Rightarrow> ethLog \<Rightarrow> bool" where
  "watched chain e l \<longleftrightarrow> l \<in> set (chain (emAddr e)) \<or> (\<exists>dep. emDepositAddr e = Some dep \<and> l \<in> set (chain dep))"

lemma wanted_member:
  "ev \<in> set (wantedEvents J A chain e from to) \<longleftrightarrow>
     (\<exists>l. watched chain e l \<and> inBlocks from to l \<and> NewFromLog J A l = Ok ev)"
proof (cases "emDepositAddr e")
  case None
  then show ?thesis by (simp add: wantedEvents_def eventsIn_member watched_def)
next
  case (Some dep)
  then show ?thesis unfolding wantedEvents_def watched_def by (simp add: eventsIn_member) blast
qed

lemma delivered_recorder: "recording e \<Longrightarrow> delivered e evs upTo s s' \<Longrightarrow> s' = s @ evs"
  by (auto simp: recording_def delivered_def recorder_def bindA_def liftA_def)

lemma wanted_split:
  "from \<le> Suc mid \<Longrightarrow> set (wantedEvents J A chain e a to) \<subseteq>
     set (wantedEvents J A chain e a mid) \<union> set (wantedEvents J A chain e from to)"
proof
  fix ev assume le: "from \<le> Suc mid" and "ev \<in> set (wantedEvents J A chain e a to)"
  then obtain l where l: "watched chain e l" "inBlocks a to l" "NewFromLog J A l = Ok ev"
    unfolding wanted_member by blast
  from le l(2) have "inBlocks a mid l \<or> inBlocks from to l" unfolding inBlocks_def by linarith
  then show "ev \<in> set (wantedEvents J A chain e a mid) \<union> set (wantedEvents J A chain e from to)"
  proof
    assume "inBlocks a mid l"
    then have "ev \<in> set (wantedEvents J A chain e a mid)" using l(1,3) unfolding wanted_member by (intro exI conjI)
    then show ?thesis by simp
  next
    assume "inBlocks from to l"
    then have "ev \<in> set (wantedEvents J A chain e from to)" using l(1,3) unfolding wanted_member by (intro exI conjI)
    then show ?thesis by simp
  qed
qed

lemma last_within_head:
  assumes "usableNode chain rpc e" "GetLastBlockNumberForEventRequest rpc e = Ok upTo"
  shows "(\<exists>head. rpcBlockNumber rpc = Ok head \<and> honestNode chain rpc head \<and> unat head < 2 ^ 62 \<and> upTo \<le> head) \<or>
    upTo = LatestBlockNumber e"
proof -
  from assms(2) obtain head where h: "rpcBlockNumber rpc = Ok head"
    by (auto simp: GetLastBlockNumberForEventRequest_def res_simps)
  note u = assms(1) [unfolded usableNode_def, rule_format, OF h]
  show ?thesis
  proof (cases "emIsServer e")
    case False
    then have "upTo = head" using assms(2) h by (simp add: GetLastBlockNumberForEventRequest_def)
    then show ?thesis using h u by auto
  next
    case True
    then obtain depth where d: "GetReorgDepth (emChainID e) = Ok depth"
      using assms(2) h by (auto simp: GetLastBlockNumberForEventRequest_def res_simps)
    with True u have le: "unat depth \<le> unat head + 1" by blast
    have d0: "0 < unat depth" using d by (rule reorg_depth_pos)
    have "unat (depth - 1) = unat depth - 1" using d0 by (simp add: unat_sub word_le_nat_alt)
    then have "depth - 1 \<le> head" using le by (simp add: word_le_nat_alt)
    then have "head - (depth - 1) \<le> head" by (rule word_sub_le)
    moreover have "head - (depth - 1) = head - depth + 1" by simp
    ultimately have safe: "head - depth + 1 \<le> head" by (simp only:)
    show ?thesis
    proof (cases "LatestBlockNumber e > head - depth + 1")
      case True
      then show ?thesis using assms(2) h d \<open>emIsServer e\<close>
        by (simp add: GetLastBlockNumberForEventRequest_def Let_def)
    next
      case False
      then have "upTo = head - depth + 1" using assms(2) h d \<open>emIsServer e\<close>
        by (simp add: GetLastBlockNumberForEventRequest_def Let_def)
      then show ?thesis using h u safe by auto
    qed
  qed
qed

lemma retrieve_covers:
  assumes "RetrieveEvents J A rpc from force (e, s) = (r, e', s')"
    and "usableNode chain rpc e" "recording e" "covered J A chain base e s"
    and "\<And>addr. blockOrdered (chain addr)" "unat from \<le> Suc (unat (LatestBlockNumber e))"
  shows "recording e' \<and> covered J A chain base e' s'"
  using retrieve_cases [OF assms(1)]
proof (elim disjE)
  assume "r = Ok () \<and> emInProgress e \<and> \<not> force \<and> e' = e \<and> s' = s"
  then show ?thesis using assms by simp
next
  assume "\<not> (emInProgress e \<and> \<not> force) \<and> e' = e\<lparr>emInProgress := False\<rparr> \<and>
      (s' = s \<or> r \<noteq> Ok () \<and> (\<exists>last evs. processEvents (e\<lparr>emInProgress := True\<rparr>) evs last s = (r, s')))"
  then have e': "e' = e\<lparr>emInProgress := False\<rparr>" and "s' = s"
    using assms(3) by (auto simp: processEvents_def recording_def recorder_def bindA_def liftA_def)
  then show ?thesis using assms(3,4) by (simp add: recording_def covered_def wantedEvents_def)
next
  assume "\<exists>last evs. GetLastBlockNumberForEventRequest rpc e = Ok last \<and> from \<le> last \<and>
        GetEventsInRange J A rpc e from last = Ok evs \<and> delivered e evs last s s' \<and> r = Ok () \<and>
        e' = e\<lparr>emInProgress := False, emLatest := Some last\<rparr>"
  then obtain upTo evs where last: "GetLastBlockNumberForEventRequest rpc e = Ok upTo" "from \<le> upTo"
    "GetEventsInRange J A rpc e from upTo = Ok evs" "delivered e evs upTo s s'"
    and e': "e' = e\<lparr>emInProgress := False, emLatest := Some upTo\<rparr>" by blast
  have s': "s' = s @ evs" using delivered_recorder [OF assms(3) last(4)] .
  have e'L: "LatestBlockNumber e' = upTo" "wantedEvents J A chain e' = wantedEvents J A chain e"
    by (simp_all add: e' LatestBlockNumber_def wantedEvents_def fun_eq_iff)
  have "recording e'" using assms(3) by (simp add: e' recording_def)
  moreover have "covered J A chain base e' s'"
    using last_within_head [OF assms(2) last(1)]
  proof (elim disjE exE conjE)
    fix head assume h: "rpcBlockNumber rpc = Ok head" "honestNode chain rpc head" "unat head < 2 ^ 62" "upTo \<le> head"
    have small: "unat upTo < 2 ^ 62" using h(3,4) by (simp add: word_le_nat_alt)
    then have "pageFits e upTo" using assms(3) by (auto simp: pageFits_def recording_def split: option.splits)
    with range_complete [OF last(3) h(2) assms(5) last(2) h(4)] small
    have "evs = wantedEvents J A chain e (unat from) (unat upTo)" by simp
    then show ?thesis
      using wanted_split [OF assms(6), of J A chain e "Suc (unat base)" "unat upTo"] assms(4)
      by (auto simp: covered_def e'L s')
  next
    assume "upTo = LatestBlockNumber e"
    then show ?thesis using assms(4) by (auto simp: covered_def e'L s')
  qed
  ultimately show ?thesis by simp
qed

lemma small_successor: "unat (n + 1 :: u64) \<le> Suc (unat n)"
  by (simp add: unat_word_ariths mod_less_eq_dividend)

lemma run_covers:
  "emitterRun J A chain base e s \<Longrightarrow> (\<And>addr. blockOrdered (chain addr)) \<Longrightarrow>
   recording e \<and> covered J A chain base e s"
proof (induction rule: emitterRun.induct)
  case (start e)
  then show ?case by (auto simp: recording_def covered_def wanted_member inBlocks_def subset_iff)
next
  case (init e s rpc r e' s')
  show ?case
  proof (cases "emIsReady e")
    case True
    then show ?thesis using init by (simp add: InitEmitter_def)
  next
    case False
    let ?e = "e\<lparr>emIsReady := True\<rparr>"
    obtain q e1 s1 where ret: "RetrieveEvents J A rpc (LatestBlockNumber e + 1) False (?e, s) = (q, e1, s1)"
      by (metis prod_cases3)
    have "usableNode chain rpc ?e" "recording ?e" "covered J A chain base ?e s"
      using init by (simp_all add: usableNode_def recording_def covered_def wantedEvents_def)
    from retrieve_covers [OF ret this init.prems] have c: "recording e1 \<and> covered J A chain base e1 s1"
      by (simp add: small_successor)
    have "(e' = e1 \<or> e' = e1\<lparr>emDelegate := StartUpdateListener (emDelegate e1) (LatestBlockNumber e1)\<rparr>) \<and> s' = s1"
      using init.hyps(3) False ret by (cases q) (auto simp: InitEmitter_def)
    moreover have "recording (e1\<lparr>emDelegate := d\<rparr>) = recording e1"
      "covered J A chain base (e1\<lparr>emDelegate := d\<rparr>) s1 = covered J A chain base e1 s1" for d
      by (simp_all add: recording_def covered_def wantedEvents_def)
    ultimately show ?thesis using c by auto
  qed
next
  case (poll e s rpc e' s')
  obtain r where ret: "RetrieveEvents J A rpc (LatestBlockNumber e) False (e, s) = (r, e', s')"
    using poll.hyps(3) unfolding pollTick_def by (metis fst_conv prod.collapse)
  show ?case
    using poll.IH [OF poll.prems] by (intro retrieve_covers [OF ret poll.hyps(2) _ _ poll.prems]) simp_all
next
  case (sync e s n)
  then have "LatestBlockNumber (SyncFromAtMost n e) \<le> LatestBlockNumber e"
    by (auto simp: SyncFromAtMost_def LatestBlockNumber_def)
  then have "unat (LatestBlockNumber (SyncFromAtMost n e)) \<le> unat (LatestBlockNumber e)" by (simp add: word_le_nat_alt)
  moreover have "wantedEvents J A chain (SyncFromAtMost n e) = wantedEvents J A chain e"
    by (simp add: SyncFromAtMost_def wantedEvents_def fun_eq_iff)
  ultimately show ?case
    using sync by (auto simp: recording_def covered_def SyncFromAtMost_def wanted_member inBlocks_def subset_iff)
      (meson order_trans)+
qed

text \<open>C15: No history loses an event. After any sequence of initialisations, timer ticks and resets to a snapshot, with
  calls that fail in any way and nodes that differ from call to call, the processor has received the event of
  every log of the chain between the block the emitter started from and its latest block.\<close>

theorem no_event_lost:
  assumes "emitterRun J A chain base e s" "\<forall>addr. blockOrdered (chain addr)"
  shows "set (wantedEvents J A chain e (Suc (unat base)) (unat (LatestBlockNumber e))) \<subseteq> set s"
  using run_covers [OF assms(1)] assms(2) by (simp add: covered_def)

lemma recorder_one: "processEvents e evs n s = (Ok (), s @ evs)" if "emProcs e = [recorder]" "emOnProcessed e = None"
  using that by (simp add: processEvents_def recorder_def bindA_def liftA_def)

definition recordingEmitter :: "blockchainEvent list emitter" where
  "recordingEmitter = toyEmitter\<lparr>emProcs := [recorder]\<rparr>"

lemma recording_init:
  "\<exists>e. emitterRun J A (oneContract [oneLog 20, oneLog 230]) 0 e (okList (map (NewFromLog J A) [oneLog 20, oneLog 230])) \<and>
     LatestBlockNumber e = 300 \<and> emAddr e = ''0xc'' \<and> emDepositAddr e = None"
proof -
  let ?n = "smallRangeNode [oneLog 20, oneLog 230] 300" and ?chain = "oneContract [oneLog 20, oneLog 230]"
  let ?evs = "okList (map (NewFromLog J A) [oneLog 20, oneLog 230])"
  have latest: "LatestBlockNumber recordingEmitter = 0"
    by (simp add: recordingEmitter_def toyEmitter_def NewEmitter_def LatestBlockNumber_def)
  have st: "emitterRun J A ?chain 0 recordingEmitter []"
    using latest by (intro emitterRun.start) (simp_all add: recordingEmitter_def toyEmitter_def NewEmitter_def)
  have u: "usableNode ?chain ?n recordingEmitter"
    using smallRangeNode_honest [of "[oneLog 20, oneLog 230]" 300]
    by (simp add: usableNode_def recordingEmitter_def toyEmitter_def NewEmitter_def) (simp add: smallRangeNode_def)
  have last: "GetLastBlockNumberForEventRequest ?n e = Ok 300" if "\<not> emIsServer e" for e :: "blockchainEvent list emitter"
    using that by (simp add: GetLastBlockNumberForEventRequest_def smallRangeNode_def)
  have range: "GetEventsInRange J A ?n e 1 300 = Ok ?evs"
    if "emAddr e = ''0xc''" "emDepositAddr e = None" "emMaxPage e = None" for e :: "blockchainEvent list emitter"
    using small_range_split [of J A] that by (simp add: GetEventsInRange_def toyEmitter_def NewEmitter_def buildPages_def)
  let ?e = "recordingEmitter\<lparr>emIsReady := True, emInProgress := False, emLatest := Some 300\<rparr>"
  have ret: "RetrieveEvents J A ?n 1 False (recordingEmitter\<lparr>emIsReady := True\<rparr>, []) = (Ok (), ?e, ?evs)"
    by (simp add: RetrieveEvents_def Let_def last range recorder_one recordingEmitter_def toyEmitter_def NewEmitter_def)
  have "InitEmitter J A ?n (recordingEmitter, []) =
      (Ok (), ?e\<lparr>emDelegate := StartUpdateListener (emDelegate ?e) (LatestBlockNumber ?e)\<rparr>, ?evs)"
    using ret latest by (simp add: InitEmitter_def) (simp add: recordingEmitter_def toyEmitter_def NewEmitter_def)
  from emitterRun.init [OF st u this] show ?thesis
    by (intro exI conjI) (assumption, simp_all add: LatestBlockNumber_def recordingEmitter_def toyEmitter_def NewEmitter_def)
qed

lemma no_event_lost_witness:
  "\<exists>e :: blockchainEvent list emitter. LatestBlockNumber e = 300 \<and>
     set (wantedEvents toyLogJson toyAbi (oneContract [oneLog 20, oneLog 230]) e (Suc (unat (0 :: u64))) (unat (LatestBlockNumber e))) \<subseteq>
       set (okList (map (NewFromLog toyLogJson toyAbi) [oneLog 20, oneLog 230]))"
proof -
  obtain e where e: "emitterRun toyLogJson toyAbi (oneContract [oneLog 20, oneLog 230]) 0 e
      (okList (map (NewFromLog toyLogJson toyAbi) [oneLog 20, oneLog 230]))" "LatestBlockNumber e = 300"
    using recording_init by blast
  have "\<forall>addr. blockOrdered (oneContract [oneLog 20, oneLog 230] addr)"
    by (simp add: oneContract_def blockOrdered_def oneLog_def)
  from no_event_lost [OF e(1) this] e(2) show ?thesis by (intro exI conjI)
qed

text \<open>RetrieveEvents moves the latest block only after every processor took all events of the range; on any
  error it stays, so the range is asked for again. The state is otherwise untouched, and the
  in-progress mark is always cleared.\<close>

theorem retrieve_all_or_nothing:
  assumes "RetrieveEvents J A rpc from force (e, s) = (r, e', s')" "\<not> emInProgress e"
  shows "\<not> emInProgress e' \<and>
     (emLatest e' = emLatest e \<or>
      (\<exists>upTo evs. r = Ok () \<and> GetLastBlockNumberForEventRequest rpc e = Ok upTo \<and> from \<le> upTo \<and>
         GetEventsInRange J A rpc e from upTo = Ok evs \<and> delivered e evs upTo s s' \<and> emLatest e' = Some upTo)) \<and>
     e'\<lparr>emLatest := None\<rparr> = e\<lparr>emLatest := None\<rparr>"
proof -
  have same: "e\<lparr>emInProgress := False\<rparr> = e" using assms(2) by (cases e) simp
  show ?thesis
    using retrieve_cases [OF assms(1)]
  proof (elim disjE)
    assume "\<exists>last evs. GetLastBlockNumberForEventRequest rpc e = Ok last \<and> from \<le> last \<and>
        GetEventsInRange J A rpc e from last = Ok evs \<and> delivered e evs last s s' \<and> r = Ok () \<and>
        e' = e\<lparr>emInProgress := False, emLatest := Some last\<rparr>"
    then obtain upTo evs where u: "GetLastBlockNumberForEventRequest rpc e = Ok upTo" "from \<le> upTo"
        "GetEventsInRange J A rpc e from upTo = Ok evs" "delivered e evs upTo s s'" "r = Ok ()"
        "e' = e\<lparr>emLatest := Some upTo\<rparr>" unfolding same by blast
    then have "emLatest e' = Some upTo" "\<not> emInProgress e'" "e'\<lparr>emLatest := None\<rparr> = e\<lparr>emLatest := None\<rparr>"
      using assms(2) by simp_all
    then show ?thesis using u(1-5) by blast
  qed (use assms(2) same in auto)
qed

lemma retrieve_all_or_nothing_witness:
  "emLatest (fst (snd (RetrieveEvents toyLogJson toyAbi
      \<lparr>rpcBlockNumber = Err (ErrMsg ''down''), rpcFilterLogs = (\<lambda>_ _ _. Ok [])\<rparr> 1 False (recordingEmitter, [])))) = None"
proof -
  let ?n = "\<lparr>rpcBlockNumber = Err (ErrMsg ''down''), rpcFilterLogs = (\<lambda>_ _ _. Ok [])\<rparr>"
  obtain r e' s' where ret: "RetrieveEvents toyLogJson toyAbi ?n 1 False (recordingEmitter, []) = (r, e', s')"
    by (metis prod_cases3)
  have "\<not> emInProgress recordingEmitter" "emLatest recordingEmitter = None"
    by (simp_all add: recordingEmitter_def toyEmitter_def NewEmitter_def)
  moreover have "GetLastBlockNumberForEventRequest ?n recordingEmitter \<noteq> Ok u" for u
    by (simp add: GetLastBlockNumberForEventRequest_def)
  ultimately show ?thesis using retrieve_all_or_nothing [OF ret] unfolding ret by auto
qed

text \<open>A client's tick moves its cursor only past blocks whose events were processed; an answer that fails in
  any way leaves cursor and latest block in place, and an older answer does not move the cursor back.\<close>

theorem client_tick_cursor:
  assumes "clientTick J server (fetchFrom, e, s) = (fetchFrom', e', s')"
  shows "(fetchFrom' = fetchFrom \<or>
      (\<exists>resp. server fetchFrom = Ok resp \<and> fetchFrom \<le> respLatest resp \<and> fetchFrom' = respLatest resp + 1 \<and>
         LatestBlockNumber e' \<ge> respLatest resp \<and>
         (respEvents resp = [] \<and> s' = s \<or>
          delivered e (okList (map (NewFromSerialized J) (respEvents resp))) (respLatest resp) s s'))) \<and>
    (emLatest e' = emLatest e \<or> LatestBlockNumber e' \<ge> LatestBlockNumber e \<or> emLatest e = None)"
proof (cases "server fetchFrom")
  case (Ok resp)
  let ?evs = "okList (map (NewFromSerialized J) (respEvents resp))" and ?n = "respLatest resp"
  have adv: "LatestBlockNumber (AdvanceLatestBlockNumber n x) \<ge> n"
    "emLatest x = None \<or> LatestBlockNumber (AdvanceLatestBlockNumber n x) \<ge> LatestBlockNumber x"
    "emLatest x = None \<longrightarrow> emLatest (AdvanceLatestBlockNumber n x) = Some n"
    "AdvanceLatestBlockNumber n (AdvanceLatestBlockNumber n x) = AdvanceLatestBlockNumber n x" for n and x :: "'a emitter"
    by (auto simp: AdvanceLatestBlockNumber_def LatestBlockNumber_def split: option.splits)
  show ?thesis
  proof (cases "respEvents resp = []")
    case True
    then show ?thesis
      using assms Ok adv(1) [of ?n e] adv(2) [of e ?n]
      by (auto simp: clientTick_def Let_def split: if_splits)
  next
    case False
    obtain q t where pe: "processEvents e ?evs ?n s = (q, t)" by fastforce
    show ?thesis
    proof (cases q)
      case okq: (Ok u)
      then have d: "delivered e ?evs ?n s t" using pe processEvents_Ok [of e ?evs ?n s u t] by simp
      have "e' = AdvanceLatestBlockNumber ?n e \<and> s' = t \<and> (fetchFrom' = fetchFrom \<or> fetchFrom \<le> ?n \<and> fetchFrom' = ?n + 1)"
        using assms Ok False pe okq adv(4) [of ?n e]
        by (auto simp: clientTick_def ProcessExternalEvents_def Let_def split: if_splits)
      then show ?thesis using Ok d adv(1) [of ?n e] adv(2) [of e ?n] by (elim conjE) auto
    qed (use assms Ok False pe in \<open>auto simp: clientTick_def ProcessExternalEvents_def Let_def\<close>)
  qed
qed (use assms in \<open>simp_all add: clientTick_def\<close>)

lemma client_tick_cursor_witness:
  "LatestBlockNumber (fst (snd (clientTick toyJson (\<lambda>_. Ok \<lparr>respEvents = [], respLatest = 9\<rparr>) (5, recordingEmitter, [])))) \<ge> 9"
proof -
  let ?server = "\<lambda>_ :: u64. Ok \<lparr>respEvents = [], respLatest = 9\<rparr>"
  obtain f e' s' where t: "clientTick toyJson ?server (5, recordingEmitter, []) = (f, e', s')" by (metis prod_cases3)
  have f: "f = 10" using t by (auto simp: clientTick_def Let_def)
  from client_tick_cursor [OF t] f have "LatestBlockNumber e' \<ge> 9" by auto
  then show ?thesis unfolding t by simp
qed

text \<open>When Init fails after marking the emitter ready, every later Init reports that it is already initialised, and
  no listener is ever started: the emitter stays deaf until IntervalClear drops its processors.\<close>

theorem failed_init_sticks:
  assumes "InitEmitter J A rpc (e, s) = (Err err, e', s')" "\<not> emIsReady e" "\<not> emInProgress e"
  shows "InitEmitter J' A' rpc' (e', s'') = (Err (ErrMsg ''already initialized''), e', s'') \<and>
     emDelegate e' = emDelegate e"
proof -
  obtain r e1 s1 where ret: "RetrieveEvents J A rpc (LatestBlockNumber e + 1) False (e\<lparr>emIsReady := True\<rparr>, s) = (r, e1, s1)"
    by (metis prod_cases3)
  have e': "e' = e1" using assms(1,2) ret by (cases r) (auto simp: InitEmitter_def)
  have "emIsReady e1 \<and> emDelegate e1 = emDelegate e" using retrieve_cases [OF ret] by auto
  then show ?thesis by (simp add: e' InitEmitter_def)
qed

lemma failed_init_sticks_witness:
  "\<exists>e' :: unit emitter. InitEmitter toyJson toyAbi (smallRangeNode [] 300) (e', ()) =
     (Err (ErrMsg ''already initialized''), e', ()) \<and> emDelegate e' = NoListener"
proof -
  let ?n = "\<lparr>rpcBlockNumber = Err (ErrMsg ''down''), rpcFilterLogs = (\<lambda>_ _ _. Ok [])\<rparr>"
  let ?e = "toyEmitter :: unit emitter"
  have "GetLastBlockNumberForEventRequest ?n e = Err (ErrMsg ''down'')" for e :: "unit emitter"
    by (simp add: GetLastBlockNumberForEventRequest_def)
  then have "InitEmitter toyJson toyAbi ?n (?e, ()) =
      (Err (ErrWrap ''get last block'' (ErrMsg ''down'')), ?e\<lparr>emIsReady := True, emInProgress := False\<rparr>, ())"
    by (simp add: InitEmitter_def RetrieveEvents_def Let_def toyEmitter_def NewEmitter_def)
  from failed_init_sticks [OF this, of toyJson toyAbi "smallRangeNode [] 300" "()"]
  have "InitEmitter toyJson toyAbi (smallRangeNode [] 300) (?e\<lparr>emIsReady := True, emInProgress := False\<rparr>, ()) =
      (Err (ErrMsg ''already initialized''), ?e\<lparr>emIsReady := True, emInProgress := False\<rparr>, ())"
    by (simp add: toyEmitter_def NewEmitter_def)
  moreover have "emDelegate (?e\<lparr>emIsReady := True, emInProgress := False\<rparr>) = NoListener"
    by (simp add: toyEmitter_def NewEmitter_def)
  ultimately show ?thesis by blast
qed

text \<open>Snapshot services that share an emitter send it back to the oldest of their snapshots, in whichever order
  they load: from a new emitter, the latest block is the minimum of the snapshots' blocks.\<close>

theorem oldest_snapshot_wins:
  assumes "emLatest e = None" "blocks \<noteq> []"
  shows "LatestBlockNumber (fold SyncFromAtMost blocks e) = Min (set blocks)"
proof -
  have "fold SyncFromAtMost ns e' = e'\<lparr>emLatest := Some (Min (insert n (set ns)))\<rparr>" if "emLatest e' = Some n" for ns n and e' :: "'a emitter"
    using that
  proof (induction ns arbitrary: n e')
    case Nil
    then show ?case by (cases e') simp
  next
    case (Cons k ns)
    let ?e = "SyncFromAtMost k e'"
    have e: "?e = e'\<lparr>emLatest := Some (min k n)\<rparr>"
      using Cons.prems by (cases e') (auto simp: SyncFromAtMost_def min_def)
    have "Min (insert (min k n) (set ns)) = Min (insert n (insert k (set ns)))"
      by (cases "set ns = {}") (simp_all add: min.assoc min.commute min.left_commute)
    then show ?case using Cons.IH [of ?e "min k n"] e by simp
  qed
  moreover obtain b bs where "blocks = b # bs" using assms(2) by (cases blocks) auto
  ultimately show ?thesis using assms(1) by (simp add: SyncFromAtMost_def LatestBlockNumber_def)
qed

lemma oldest_snapshot_wins_witness:
  "LatestBlockNumber (fold SyncFromAtMost [90, 70, 80] (toyEmitter :: unit emitter)) = 70"
  using oldest_snapshot_wins [of "toyEmitter :: unit emitter" "[90, 70, 80]"]
  by (simp add: toyEmitter_def NewEmitter_def)

end
