(* ===== verification/EmitterLiveness.thy ===== *)
theory EmitterLiveness
  imports EmitterProps
begin

text \<open>
  The polling emitter catches up: whatever went wrong before, a tick that meets a node which answers short queries moves the
  latest block to that node's head, and so every event is delivered after finitely many ticks if such nodes keep
  turning up.
\<close>

text \<open>A node that may refuse long ranges but answers those of at most \<open>retryMinPageSize\<close> blocks.\<close>

definition answering :: "rpcClient \<Rightarrow> u64 \<Rightarrow> bool" where
  "answering rpc head \<longleftrightarrow> rpcBlockNumber rpc = Ok head \<and>
     (\<forall>addr from to. (\<forall>p. rpcFilterLogs rpc addr from to \<noteq> Panic p) \<and>
        (from \<le> to \<and> to \<le> head \<and> unat to - unat from \<le> unat retryMinPageSize \<longrightarrow> isOk (rpcFilterLogs rpc addr from to)))"

lemma single_contract_answers:
  assumes "answering rpc head" "from \<le> to" "to \<le> head" "unat head < 2 ^ 62" "retry \<le> maxRetries"
    and "unat to - unat from \<le> unat retryMinPageSize * 2 ^ (maxRetries - retry)"
  shows "isOk (getEventsForSingleContract J A rpc addr from to retry)"
  using assms
proof (induction "maxRetries - retry" arbitrary: "from" to retry)
  case 0
  then have "isOk (rpcFilterLogs rpc addr from to)" by (auto simp: answering_def)
  then show ?case by (subst getEventsForSingleContract.simps) (auto simp: isOk_iff)
next
  case (Suc k)
  show ?case
  proof (cases "rpcFilterLogs rpc addr from to")
    case (Ok logs)
    then show ?thesis by (subst getEventsForSingleContract.simps) simp
  next
    case (Panic p)
    then show ?thesis using Suc.prems(1) by (auto simp: answering_def)
  next
    case (Err e)
    let ?mid = "(from + to) div 2"
    have le: "unat from \<le> unat to" "unat to \<le> unat head" using Suc.prems(2,3) by (simp_all add: word_le_nat_alt)
    have long: "unat retryMinPageSize < unat to - unat from"
      using Suc.prems(1-3) Err unfolding answering_def by (metis isOk.simps(2) not_le)
    have diff: "unat (to - from) = unat to - unat from" using Suc.prems(2) by (rule unat_sub)
    have sum: "unat (from + to) = unat from + unat to"
      using le Suc.prems(4) by (intro unat_plus_small) simp
    have mid: "unat ?mid = (unat from + unat to) div 2" by (simp add: unat_div sum)
    have mid1: "unat (?mid + 1) = unat ?mid + 1"
      using mid le Suc.prems(4) unat_plus_small [of ?mid 1] by simp
    have k: "k = maxRetries - (retry + 1)" "retry + 1 \<le> maxRetries" using Suc.hyps(2) by simp_all
    have pow: "unat to - unat from \<le> 2 * (unat retryMinPageSize * 2 ^ (maxRetries - (retry + 1)))"
      using Suc.prems(6) Suc.hyps(2) k(1) by (metis mult.left_commute power_Suc)
    have "isOk (getEventsForSingleContract J A rpc addr from ?mid (retry + 1))"
      using Suc.prems(1,4) le long mid pow k
      by (intro Suc.hyps(1)) (auto simp: word_le_nat_alt)
    moreover have "isOk (getEventsForSingleContract J A rpc addr (?mid + 1) to (retry + 1))"
      using Suc.prems(1,4) le long mid mid1 pow k
      by (intro Suc.hyps(1)) (auto simp: word_le_nat_alt)
    ultimately show ?thesis
      using Err long diff k(2)
      by (subst getEventsForSingleContract.simps) (auto simp: isOk_iff Let_def word_less_nat_alt)
  qed
qed

definition splitReach :: nat where
  "splitReach = unat retryMinPageSize * 2 ^ maxRetries"

definition steadyPoller :: "blockchainEvent list emitter \<Rightarrow> bool" where
  "steadyPoller e \<longleftrightarrow> recording e \<and> \<not> emInProgress e \<and> \<not> emIsServer e \<and> emMaxPage e = None"

lemma events_answered:
  assumes "answering rpc head" "from \<le> head" "unat head < 2 ^ 62" "unat head - unat from \<le> splitReach" "emMaxPage e = None"
  shows "isOk (GetEventsInRange J A rpc e from head)"
proof -
  have one: "isOk (eventsOfPages J A rpc addr [(from, head)])" for addr
    using single_contract_answers [OF assms(1,2) order_refl assms(3), of 0 J A addr] assms(4)
    by (auto simp: splitReach_def isOk_iff)
  show ?thesis
    using one [of "emAddr e"] one [of "the (emDepositAddr e)"] assms(5)
    by (auto simp: GetEventsInRange_def buildPages_def isOk_iff split: option.split)
qed

lemma tick_reaches_head:
  assumes e: "steadyPoller e" and n: "answering rpc head" "LatestBlockNumber e \<le> head" "unat head < 2 ^ 62"
    "unat head - unat (LatestBlockNumber e) \<le> splitReach"
  shows "\<exists>s'. pollTick J A rpc (e, s) = (e\<lparr>emLatest := Some head\<rparr>, s')"
proof -
  have last: "GetLastBlockNumberForEventRequest rpc (e\<lparr>emInProgress := True\<rparr>) = Ok head"
    using e n(1) by (simp add: GetLastBlockNumberForEventRequest_def steadyPoller_def answering_def)
  obtain evs where evs: "GetEventsInRange J A rpc (e\<lparr>emInProgress := True\<rparr>) (LatestBlockNumber e) head = Ok evs"
    using events_answered [OF n(1,2,3,4), of e J A] e by (auto simp: steadyPoller_def isOk_iff)
  have rec: "processEvents (e\<lparr>emInProgress := True\<rparr>) evs head s = (Ok (), s @ evs)"
    using e by (intro recorder_one) (simp_all add: steadyPoller_def recording_def)
  have same: "e\<lparr>emInProgress := False, emLatest := Some head\<rparr> = e\<lparr>emLatest := Some head\<rparr>"
    using e by (cases e) (simp add: steadyPoller_def)
  show ?thesis
    using e last evs rec n(2) same
    by (simp add: pollTick_def RetrieveEvents_def Let_def steadyPoller_def not_less)
qed

text \<open>No tick moves the latest block back or changes the configuration.\<close>

lemma tick_keeps:
  assumes e: "steadyPoller e" and t: "pollTick J A rpc (e, s) = (e', s')"
  shows "steadyPoller e' \<and> LatestBlockNumber e \<le> LatestBlockNumber e' \<and> emAddr e' = emAddr e \<and> emDepositAddr e' = emDepositAddr e"
proof -
  obtain r where ret: "RetrieveEvents J A rpc (LatestBlockNumber e) False (e, s) = (r, e', s')"
    using t unfolding pollTick_def by (metis fst_conv prod.collapse)
  have idle: "\<not> emInProgress e" using e by (simp add: steadyPoller_def)
  have "e'\<lparr>emLatest := None\<rparr> = e\<lparr>emLatest := None\<rparr> \<and>
      (emLatest e' = emLatest e \<or> (\<exists>upTo. LatestBlockNumber e \<le> upTo \<and> emLatest e' = Some upTo))"
    using retrieve_cases [OF ret] idle by (cases e; cases e') auto
  then have same: "e'\<lparr>emLatest := None\<rparr> = e\<lparr>emLatest := None\<rparr>" and
    mono: "emLatest e' = emLatest e \<or> (\<exists>upTo. LatestBlockNumber e \<le> upTo \<and> emLatest e' = Some upTo)" by blast+
  have f: "g (e'\<lparr>emLatest := None\<rparr>) = g (e\<lparr>emLatest := None\<rparr>)" for g :: "blockchainEvent list emitter \<Rightarrow> 'x"
    using same by simp
  have "LatestBlockNumber e \<le> LatestBlockNumber e'"
    using mono f [of emInitial] by (auto simp: LatestBlockNumber_def split: option.split)
  then show ?thesis
    using e f [of emProcs] f [of emOnProcessed] f [of emMaxPage] f [of emInProgress] f [of emIsServer] f [of emAddr] f [of emDepositAddr]
    by (simp add: steadyPoller_def recording_def)
qed

text \<open>C16: A polling emitter catches up. Ticks may meet any nodes, failing or refusing in any way; if again and again one answers
  short queries and knows a block \<open>b\<close>, then from some tick on the emitter is at \<open>b\<close> or beyond and every event up to \<open>b\<close>
  has been delivered.\<close>

theorem poller_catches_up:
  fixes run :: "nat \<Rightarrow> blockchainEvent list emitter \<times> blockchainEvent list"
  assumes ticks: "\<And>i. run (Suc i) = pollTick J A (nodes i) (run i)"
    and init: "run 0 = (e0, [])" "steadyPoller e0"
    and usable: "\<And>i. usableNode chain (nodes i) (fst (run i))"
    and often: "\<And>i. \<exists>j\<ge>i. \<exists>head. answering (nodes j) head \<and> b \<le> head \<and> unat head < 2 ^ 62 \<and>
       unat head - unat (LatestBlockNumber e0) \<le> splitReach"
    and ordered: "\<And>addr. blockOrdered (chain addr)"
  shows "\<exists>n. \<forall>m\<ge>n. b \<le> LatestBlockNumber (fst (run m)) \<and>
    set (wantedEvents J A chain e0 (Suc (unat (LatestBlockNumber e0))) (unat b)) \<subseteq> set (snd (run m))"
proof -
  let ?e = "\<lambda>i. fst (run i)" and ?L = "\<lambda>i. LatestBlockNumber (fst (run i))"
  have tick: "pollTick J A (nodes i) (?e i, snd (run i)) = (?e (Suc i), snd (run (Suc i)))" for i
    using ticks [of i] by simp
  have inv: "steadyPoller (?e i) \<and> emAddr (?e i) = emAddr e0 \<and> emDepositAddr (?e i) = emDepositAddr e0 \<and>
      covered J A chain (LatestBlockNumber e0) (?e i) (snd (run i))" for i
  proof (induction i)
    case 0
    then show ?case using init by (auto simp: covered_def wanted_member inBlocks_def subset_iff)
  next
    case (Suc i)
    obtain r where ret: "RetrieveEvents J A (nodes i) (?L i) False (?e i, snd (run i)) = (r, ?e (Suc i), snd (run (Suc i)))"
      using tick [of i] unfolding pollTick_def by (metis fst_conv prod.collapse)
    have "covered J A chain (LatestBlockNumber e0) (?e (Suc i)) (snd (run (Suc i)))"
      using Suc retrieve_covers [OF ret usable _ _ ordered] by (simp add: steadyPoller_def)
    then show ?case using Suc tick_keeps [OF _ tick [of i]] by simp
  qed
  have mono: "i \<le> j \<Longrightarrow> ?L i \<le> ?L j" for i j
    by (induction j) (use inv tick_keeps [OF _ tick] in \<open>auto simp: le_Suc_eq intro: order_trans\<close>)
  obtain j head where j: "answering (nodes j) head" "b \<le> head" "unat head < 2 ^ 62"
    "unat head - unat (LatestBlockNumber e0) \<le> splitReach" using often [of 0] by blast
  have "b \<le> ?L (Suc j)"
  proof (cases "?L j \<le> head")
    case True
    have "unat (LatestBlockNumber e0) \<le> unat (?L j)" using mono [of 0 j] init by (simp add: word_le_nat_alt)
    then have "unat head - unat (?L j) \<le> splitReach" using j(4) by simp
    from tick_reaches_head [OF _ j(1) True j(3) this, of J A "snd (run j)"] inv [of j]
    show ?thesis using tick [of j] j(2) by (auto simp: LatestBlockNumber_def)
  next
    case False
    then show ?thesis using j(2) mono [of j "Suc j"] by simp
  qed
  then have reach: "b \<le> ?L m" if "Suc j \<le> m" for m using mono [OF that] by simp
  have "set (wantedEvents J A chain e0 (Suc (unat (LatestBlockNumber e0))) (unat b)) \<subseteq> set (snd (run m))" if "Suc j \<le> m" for m
  proof
    fix ev assume "ev \<in> set (wantedEvents J A chain e0 (Suc (unat (LatestBlockNumber e0))) (unat b))"
    then obtain l where l: "watched chain e0 l" "inBlocks (Suc (unat (LatestBlockNumber e0))) (unat b) l" "NewFromLog J A l = Ok ev"
      unfolding wanted_member by blast
    have "watched chain (?e m) l" using l(1) inv [of m] by (simp add: watched_def)
    moreover have "inBlocks (Suc (unat (LatestBlockNumber e0))) (unat (?L m)) l"
      using l(2) reach [OF that] by (auto simp: inBlocks_def word_le_nat_alt)
    ultimately show "ev \<in> set (snd (run m))"
      using inv [of m] l(3) wanted_member [of ev J A chain "?e m"] unfolding covered_def by blast
  qed
  with reach show ?thesis by blast
qed

lemma poller_catches_up_witness:
  "\<exists>n. \<forall>m\<ge>n. 250 \<le> LatestBlockNumber (fst ((pollTick toyLogJson toyAbi (smallRangeNode [oneLog 20, oneLog 230] 300) ^^ m) (recordingEmitter, [])))"
proof -
  let ?n = "smallRangeNode [oneLog 20, oneLog 230] 300" and ?chain = "oneContract [oneLog 20, oneLog 230]"
  let ?run = "\<lambda>m. (pollTick toyLogJson toyAbi ?n ^^ m) (recordingEmitter, [])"
  have start: "steadyPoller recordingEmitter" "LatestBlockNumber recordingEmitter = 0"
    by (simp_all add: steadyPoller_def recording_def recordingEmitter_def toyEmitter_def NewEmitter_def LatestBlockNumber_def)
  have poller: "steadyPoller (fst (?run i))" for i
  proof (induction i)
    case (Suc i)
    obtain e s where "?run i = (e, s)" by fastforce
    moreover obtain e' s' where "pollTick toyLogJson toyAbi ?n (e, s) = (e', s')" by fastforce
    ultimately show ?case using Suc tick_keeps [of e toyLogJson toyAbi ?n s e' s'] by simp
  qed (use start in simp)
  have usable: "usableNode ?chain ?n (fst (?run i))" for i
    using smallRangeNode_honest [of "[oneLog 20, oneLog 230]" 300] poller [of i]
    by (auto simp: usableNode_def steadyPoller_def) (simp_all add: smallRangeNode_def)
  have answers: "answering ?n 300"
    by (auto simp: answering_def smallRangeNode_def retryMinPageSize_def word_le_nat_alt unat_sub word_less_nat_alt)
  have "\<exists>n. \<forall>m\<ge>n. 250 \<le> LatestBlockNumber (fst (?run m)) \<and>
    set (wantedEvents toyLogJson toyAbi ?chain recordingEmitter (Suc (unat (LatestBlockNumber recordingEmitter))) (unat (250 :: u64))) \<subseteq> set (snd (?run m))"
  proof (rule poller_catches_up)
    show "\<exists>j\<ge>i. \<exists>head. answering ?n head \<and> 250 \<le> head \<and> unat head < 2 ^ 62 \<and>
        unat head - unat (LatestBlockNumber recordingEmitter) \<le> splitReach" for i :: nat
      using answers start(2) by (intro exI [of _ i] conjI exI [of _ "300 :: u64"] order_refl)
        (simp_all add: splitReach_def retryMinPageSize_def maxRetries_def)
    show "blockOrdered (?chain addr)" for addr by (simp add: oneContract_def blockOrdered_def oneLog_def)
  qed (use start usable in simp_all)
  then show ?thesis by blast
qed

end
