(* ===== verification/SnapshotService.thy ===== *)
theory SnapshotService
  imports Emitter
begin

text \<open>
  The generic snapshot service (\<open>internal/data-structures/eventservice/snapshot.go\<close>): it filters the events of a
  page, feeds them to its delegate, and saves the delegate's payload when something changed or enough
  blocks have passed. The Go interface \<open>SnapshotDelegate\<close> is a record of its methods; the contract they
  share is the locale \<open>snapshot_delegate\<close>, and what is proved once from it holds for every delegate.
\<close>

record 'p snapshot =
  snLatest :: u64
  snPayload :: 'p

record ('d, 'e, 'p, 'z) snapshotDelegate =
  dlAcceptEvent :: "'e \<Rightarrow> u64 \<Rightarrow> string \<Rightarrow> bool \<Rightarrow> ('d, bool) action"
  dlMapEvent :: "blockchainEvent \<Rightarrow> 'e res"
  dlPayload :: "'d \<Rightarrow> 'p"
  dlPopulate :: "'p snapshot \<Rightarrow> 'd \<Rightarrow> 'd"
  dlSerialize :: "'p snapshot \<Rightarrow> 'z res"
  dlDeserialize :: "'d \<Rightarrow> 'z \<Rightarrow> 'p snapshot res"
  dlFetch :: "'z res"
  dlPersist :: "'z \<Rightarrow> unit res"

text \<open>\<open>svPersisted\<close> lists the snapshots that were handed to \<open>PersistSnapshot\<close>, newest first.\<close>

record ('d, 'z) snapshotService =
  svEventName :: string
  svSaved :: u64
  svDelegate :: 'd
  svPersisted :: "'z list"

subsection \<open>Operations\<close>

definition SaveSnapshot ::
  "('d, 'e, 'p, 'z) snapshotDelegate \<Rightarrow> u64 \<Rightarrow> (('d, 'z) snapshotService, unit) action" where
  "SaveSnapshot D latest sv =
     (let sv1 = sv\<lparr>svSaved := latest\<rparr>;
          snap = \<lparr>snLatest = latest, snPayload = dlPayload D (svDelegate sv)\<rparr>
      in case wrapErr ''serialize snapshot'' (dlSerialize D snap) of
           Ok serialized \<Rightarrow> (dlPersist D serialized, sv1\<lparr>svPersisted := serialized # svPersisted sv1\<rparr>)
         | Err e \<Rightarrow> (Err e, sv1)
         | Panic p \<Rightarrow> (Panic p, sv1))"

definition afterEventsAccepted ::
  "('d, 'e, 'p, 'z) snapshotDelegate \<Rightarrow> int \<Rightarrow> u64 \<Rightarrow> nat \<Rightarrow> (('d, 'z) snapshotService, unit) action" where
  "afterEventsAccepted D chainID latest count sv =
     (case GetSaveDepth chainID of
        Err e \<Rightarrow> (Err e, sv)
      | Panic p \<Rightarrow> (Panic p, sv)
      | Ok depth \<Rightarrow>
          if count > 0 \<or> svSaved sv + depth < latest then SaveSnapshot D latest sv else (Ok (), sv))"

definition blockedTxHashes :: "blockchainEvent list \<Rightarrow> string set" where
  "blockedTxHashes events = evTxHash ` set (filter (\<lambda>ev. evName ev = ''BlockedUtxosCreated'') events)"

fun acceptLoop ::
  "('d, 'e, 'p, 'z) snapshotDelegate \<Rightarrow> string \<Rightarrow> string set \<Rightarrow> blockchainEvent list \<Rightarrow> nat \<Rightarrow> ('d, nat) action" where
  "acceptLoop D name blocked [] accepted = liftA (Ok accepted)"
| "acceptLoop D name blocked (ev # evs) accepted =
     (if evName ev \<noteq> name then acceptLoop D name blocked evs accepted
      else
        (case dlMapEvent D ev of
           Err e \<Rightarrow> acceptLoop D name blocked evs accepted
         | Panic p \<Rightarrow> liftA (Panic p)
         | Ok mapped \<Rightarrow>
             bindA (dlAcceptEvent D mapped (evBlock ev) (evTxHash ev) (evTxHash ev \<in> blocked)) (\<lambda>new.
               acceptLoop D name blocked evs (if new then accepted + 1 else accepted))))"

definition processEventsPage :: "('d, 'e, 'p, 'z) snapshotDelegate \<Rightarrow> (('d, 'z) snapshotService) processor" where
  "processEventsPage D chainID latest events scannedTo sv =
     (case acceptLoop D (svEventName sv) (blockedTxHashes events) events 0 (svDelegate sv) of
        (Ok accepted, d) \<Rightarrow>
          (case afterEventsAccepted D chainID latest accepted (sv\<lparr>svDelegate := d\<rparr>) of
             (Ok _, sv') \<Rightarrow> (Ok accepted, sv')
           | (Err e, sv') \<Rightarrow> (Err e, sv')
           | (Panic p, sv') \<Rightarrow> (Panic p, sv'))
      | (Err e, d) \<Rightarrow> (Err e, sv\<lparr>svDelegate := d\<rparr>)
      | (Panic p, d) \<Rightarrow> (Panic p, sv\<lparr>svDelegate := d\<rparr>))"

definition NewSnapshotService ::
  "('d, 'e, 'p, 'z) snapshotDelegate \<Rightarrow> (('d, 'z) snapshotService) emitter \<Rightarrow> string \<Rightarrow> 'd \<Rightarrow>
   (('d, 'z) snapshotService emitter \<times> ('d, 'z) snapshotService) res" where
  "NewSnapshotService D e name d =
     andThen (AddEventProcessorFunction (processEventsPage D) e) (\<lambda>e'.
       Ok (e', \<lparr>svEventName = name, svSaved = 0, svDelegate = d, svPersisted = []\<rparr>))"

definition loadSnapshot ::
  "('d, 'e, 'p, 'z) snapshotDelegate \<Rightarrow>
   (('d, 'z) snapshotService emitter \<times> ('d, 'z) snapshotService, unit) action" where
  "loadSnapshot D es =
     (case es of (e, sv) \<Rightarrow>
        (case andThen (wrapErr ''fetch snapshot'' (dlFetch D))
                (\<lambda>z. wrapErr ''deserialize snapshot'' (dlDeserialize D (svDelegate sv) z)) of
           Err err \<Rightarrow> (Err err, e, sv)
         | Panic p \<Rightarrow> (Panic p, e, sv)
         | Ok snap \<Rightarrow>
             (Ok (), SyncFromAtMost (snLatest snap) e,
              sv\<lparr>svDelegate := dlPopulate D snap (svDelegate sv), svSaved := snLatest snap\<rparr>)))"

definition RetrieveEventsFromLatestBlock ::
  "jsonLib \<Rightarrow> abiLib \<Rightarrow> rpcClient \<Rightarrow> (('d, 'z) snapshotService emitter \<times> ('d, 'z) snapshotService, unit) action" where
  "RetrieveEventsFromLatestBlock J A rpc es = RetrieveEvents J A rpc (LatestBlockNumber (fst es)) False es"

subsection \<open>The contract of a delegate\<close>

text \<open>
  \<open>seen d e\<close>: the delegate's state already reflects the event. Accepting a seen event changes
  nothing; accepting a new one records it, and only an event in \<open>conflict\<close> with it (one that overwrites it)
  makes it unseen again.
\<close>

locale snapshot_delegate =
  fixes D :: "('d, 'e, 'p, 'z) snapshotDelegate"
    and inv :: "'d \<Rightarrow> bool"
    and seen :: "'d \<Rightarrow> 'e \<Rightarrow> bool"
    and conflict :: "'e \<Rightarrow> 'e \<Rightarrow> bool"
  assumes accept_seen: "inv d \<Longrightarrow> seen d e \<Longrightarrow> dlAcceptEvent D e n t b d = (Ok False, d)"
    and accept_new: "inv d \<Longrightarrow> \<not> seen d e \<Longrightarrow> dlAcceptEvent D e n t b d = (Ok c, d') \<Longrightarrow> c \<and> inv d' \<and> seen d' e"
    and accept_keeps: "inv d \<Longrightarrow> seen d f \<Longrightarrow> \<not> conflict e f \<Longrightarrow> dlAcceptEvent D e n t b d = (Ok c, d') \<Longrightarrow> seen d' f"
begin

definition mappedEvents :: "string \<Rightarrow> blockchainEvent list \<Rightarrow> 'e list" where
  "mappedEvents name evs = okList (map (dlMapEvent D) (filter (\<lambda>ev. evName ev = name) evs))"

lemma mappedEvents_simps [simp]:
  "mappedEvents name [] = []"
  "mappedEvents name (ev # evs) =
     (if evName ev = name then okList [dlMapEvent D ev] @ mappedEvents name evs else mappedEvents name evs)"
  by (cases "dlMapEvent D ev"; simp add: mappedEvents_def)+

definition undisturbed :: "'e list \<Rightarrow> bool" where
  "undisturbed es \<longleftrightarrow> sorted_wrt (\<lambda>e f. \<not> conflict f e) es"

lemma accept_step:
  assumes "inv d" "dlAcceptEvent D e n t b d = (Ok c, d')"
  shows "inv d' \<and> seen d' e \<and> (c \<longleftrightarrow> \<not> seen d e) \<and> (\<not> c \<longrightarrow> d' = d)"
  using assms accept_seen [OF assms(1), of e n t b] accept_new [OF assms(1) _ assms(2)] by (cases "seen d e") auto

lemma page_keeps:
  "inv d \<Longrightarrow> seen d f \<Longrightarrow> \<forall>e \<in> set (mappedEvents name evs). \<not> conflict e f \<Longrightarrow>
   acceptLoop D name blocked evs k d = (Ok m, d') \<Longrightarrow> seen d' f"
proof (induction evs arbitrary: d k)
  case (Cons ev evs)
  show ?case
  proof (cases "evName ev = name")
    case True
    show ?thesis
    proof (cases "dlMapEvent D ev")
      case (Ok e)
      with Cons.prems(4) True obtain c d1 where
        c: "dlAcceptEvent D e (evBlock ev) (evTxHash ev) (evTxHash ev \<in> blocked) d = (Ok c, d1)"
          "acceptLoop D name blocked evs (if c then k + 1 else k) d1 = (Ok m, d')"
        by (auto simp: res_simps)
      have "seen d1 f" using accept_keeps [OF Cons.prems(1,2) _ c(1)] Cons.prems(3) True Ok by simp
      then show ?thesis
        using Cons.IH [OF _ _ _ c(2)] accept_step [OF Cons.prems(1) c(1)] Cons.prems(3) True by simp
    qed (use Cons True in \<open>simp_all add: res_simps\<close>)
  qed (use Cons in simp)
qed (simp add: res_simps)

lemma page_seen:
  "inv d \<Longrightarrow> undisturbed (mappedEvents name evs) \<Longrightarrow> acceptLoop D name blocked evs k d = (Ok m, d') \<Longrightarrow>
   inv d' \<and> (\<forall>e \<in> set (mappedEvents name evs). seen d' e)"
proof (induction evs arbitrary: d k)
  case (Cons ev evs)
  show ?case
  proof (cases "evName ev = name")
    case True
    show ?thesis
    proof (cases "dlMapEvent D ev")
      case (Ok e)
      with Cons.prems(3) True obtain c d1 where
        c: "dlAcceptEvent D e (evBlock ev) (evTxHash ev) (evTxHash ev \<in> blocked) d = (Ok c, d1)"
          "acceptLoop D name blocked evs (if c then k + 1 else k) d1 = (Ok m, d')"
        by (auto simp: res_simps)
      have d1: "inv d1" "seen d1 e" using accept_step [OF Cons.prems(1) c(1)] by simp_all
      have u: "undisturbed (mappedEvents name evs)" "\<forall>f \<in> set (mappedEvents name evs). \<not> conflict f e"
        using Cons.prems(2) True Ok by (simp_all add: undisturbed_def)
      show ?thesis
        using Cons.IH [OF d1(1) u(1) c(2)] page_keeps [OF d1 u(2) c(2)] True Ok by simp
    qed (use Cons True in \<open>simp_all add: res_simps undisturbed_def\<close>)
  qed (use Cons in simp)
qed (simp add: res_simps)

lemma page_replay:
  "inv d \<Longrightarrow> \<forall>e \<in> set (mappedEvents name evs). seen d e \<Longrightarrow>
   (\<And>ev p. ev \<in> set evs \<Longrightarrow> evName ev = name \<Longrightarrow> dlMapEvent D ev \<noteq> Panic p) \<Longrightarrow>
   acceptLoop D name blocked evs k d = (Ok k, d)"
proof (induction evs arbitrary: k)
  case (Cons ev evs)
  then have rest: "acceptLoop D name blocked evs k' d = (Ok k', d)" for k' by auto
  show ?case
  proof (cases "dlMapEvent D ev")
    case (Ok e)
    show ?thesis
    proof (cases "evName ev = name")
      case True
      then have "seen d e" using Cons.prems(2) Ok by simp
      then show ?thesis using accept_seen [OF Cons.prems(1)] Ok True rest by (simp add: bindA_def)
    qed (use rest in simp)
  next
    case (Panic p)
    then show ?thesis using Cons.prems(3) [of ev p] rest by auto
  qed (use Cons rest in simp_all)
qed (simp add: liftA_def)

lemma page_no_panic:
  "acceptLoop D name blocked evs k d = (Ok m, d') \<Longrightarrow> ev \<in> set evs \<Longrightarrow> evName ev = name \<Longrightarrow> dlMapEvent D ev \<noteq> Panic p"
  by (induction evs arbitrary: d k) (auto simp: res_simps split: if_splits res.splits)

text \<open>Delivering a page twice is delivering it once.\<close>

lemma page_twice:
  assumes "inv d" "undisturbed (mappedEvents name evs)" "acceptLoop D name blocked evs 0 d = (Ok m, d')"
  shows "acceptLoop D name blocked' evs 0 d' = (Ok 0, d')"
  using page_seen [OF assms(1-3)] page_no_panic [OF assms(3)] by (intro page_replay) auto

lemma page_count:
  "inv d \<Longrightarrow> acceptLoop D name blocked evs k d = (Ok m, d') \<Longrightarrow> inv d' \<and> k \<le> m \<and> (m = k \<longrightarrow> d' = d)"
proof (induction evs arbitrary: d k)
  case (Cons ev evs)
  show ?case
  proof (cases "evName ev = name")
    case True
    show ?thesis
    proof (cases "dlMapEvent D ev")
      case (Ok e)
      with Cons.prems(2) True obtain c d1 where
        c: "dlAcceptEvent D e (evBlock ev) (evTxHash ev) (evTxHash ev \<in> blocked) d = (Ok c, d1)"
          "acceptLoop D name blocked evs (if c then k + 1 else k) d1 = (Ok m, d')"
        by (auto simp: res_simps)
      have d1: "inv d1" "\<not> c \<longrightarrow> d1 = d" using accept_step [OF Cons.prems(1) c(1)] by simp_all
      show ?thesis using Cons.IH [OF d1(1) c(2)] d1(2) by (cases c) auto
    next
      case (Err err)
      then show ?thesis using Cons.IH [OF Cons.prems(1), of k] Cons.prems(2) True by simp
    next
      case (Panic p)
      then show ?thesis using Cons.prems(2) True by (simp add: res_simps)
    qed
  qed (use Cons.IH [of d k] Cons.prems in simp)
qed (simp add: res_simps)

end

text \<open>
  A delegate whose payload can be written and read back: saving and loading restores its state. \<open>good\<close> is
  what a payload needs for that.
\<close>

locale snapshot_codec =
  fixes D :: "('d, 'e, 'p, 'z) snapshotDelegate"
    and good :: "u64 \<Rightarrow> 'd \<Rightarrow> bool"
    and same :: "'d \<Rightarrow> 'd \<Rightarrow> bool"
  assumes decode_encode: "good n d \<Longrightarrow> same d fresh \<Longrightarrow>
      \<exists>z. dlSerialize D \<lparr>snLatest = n, snPayload = dlPayload D d\<rparr> = Ok z \<and>
          dlDeserialize D fresh z = Ok \<lparr>snLatest = n, snPayload = dlPayload D d\<rparr>"
    and populate_payload: "same d fresh \<Longrightarrow> dlPopulate D \<lparr>snLatest = n, snPayload = dlPayload D d\<rparr> fresh = d"
begin

lemma save_then_load:
  assumes "good latest (svDelegate sv)" "same (svDelegate sv) (svDelegate sv0)"
    and "SaveSnapshot D latest sv = (Ok u, sv1)" "svPersisted sv1 \<noteq> []" "dlFetch D = Ok (hd (svPersisted sv1))"
  shows "loadSnapshot D (e, sv0) =
     (Ok (), SyncFromAtMost latest e, sv0\<lparr>svDelegate := svDelegate sv, svSaved := latest\<rparr>)"
proof -
  obtain z where z: "dlSerialize D \<lparr>snLatest = latest, snPayload = dlPayload D (svDelegate sv)\<rparr> = Ok z"
    "dlDeserialize D (svDelegate sv0) z = Ok \<lparr>snLatest = latest, snPayload = dlPayload D (svDelegate sv)\<rparr>"
    using decode_encode [OF assms(1,2)] by blast
  have "hd (svPersisted sv1) = z" using assms(3) z(1) by (auto simp: SaveSnapshot_def Let_def)
  then show ?thesis
    using z(2) assms(5) populate_payload [OF assms(2)] by (simp add: loadSnapshot_def)
qed

end

end
