(* ===== verification/Snapshots.thy ===== *)
theory Snapshots
  imports SnapshotService MerklePaths Addresses
begin

text \<open>
  The snapshot services of \<open>internal/data-structures/snapshot\<close>: commitments and nullifiers, on EVM chains and on
  Solana, and the fetcher that supplies the first snapshot. A Go map is a function to \<open>option\<close> and a Go
  set is a set; where the code ranges over one, the order of the iteration is an argument (\<open>iter\<close>).
\<close>

subsection \<open>types\<close>

record commitmentEvent =
  ceCommitment :: int
  ceIndex :: int
  ceEncryptedOutput :: string

record nullifierEvent =
  neNullifier :: string

record encryptedOutputWithSign =
  eoValue :: string
  eoIsPositive :: bool
  eoIsBlocked :: bool

record serializedOutput =
  soValue :: string
  soIsPositive :: string
  soIsBlocked :: bool

record commitmentsSerialized =
  csLatest :: "u64 option"
  csMerkleTree :: "merkleTreeJSON option"
  csEncryptedOutputs :: "serializedOutput list"
  csByCommitment :: "(string \<times> string) list"

record nullifierSerialized =
  nsLatest :: "u64 option"
  nsNullifiers :: "string list"

subsection \<open>strconv\<close>

definition formatBool :: "bool \<Rightarrow> string" where
  "formatBool b = (if b then ''true'' else ''false'')"

definition parseBool :: "string \<Rightarrow> bool res" where
  "parseBool s =
     (if s \<in> {''1'', ''t'', ''T'', ''TRUE'', ''true'', ''True''} then Ok True
      else if s \<in> {''0'', ''f'', ''F'', ''FALSE'', ''false'', ''False''} then Ok False
      else Err (ErrMsg ''strconv.ParseBool: invalid syntax''))"

subsection \<open>commitments.go\<close>

record commitmentsPayload =
  cpTree :: "merkleTree option"
  cpOutputs :: "encryptedOutputWithSign list"
  cpByCommitment :: "string \<rightharpoonup> string"

record commitmentsState =
  cmTree :: "merkleTree option"
  cmOutputs :: "encryptedOutputWithSign list"
  cmByCommitment :: "string \<rightharpoonup> string"
  cmHashFn :: "int \<Rightarrow> int \<Rightarrow> int"

definition newCommitmentsState :: "(int \<Rightarrow> int \<Rightarrow> int) \<Rightarrow> commitmentsState" where
  "newCommitmentsState h = \<lparr>cmTree = None, cmOutputs = [], cmByCommitment = Map.empty, cmHashFn = h\<rparr>"

definition GetSnapshotPayload :: "commitmentsState \<Rightarrow> commitmentsPayload" where
  "GetSnapshotPayload s = \<lparr>cpTree = cmTree s, cpOutputs = cmOutputs s, cpByCommitment = cmByCommitment s\<rparr>"

definition PopulateSnapshot :: "commitmentsPayload snapshot \<Rightarrow> commitmentsState \<Rightarrow> commitmentsState" where
  "PopulateSnapshot snap s =
     s\<lparr>cmTree := cpTree (snPayload snap), cmOutputs := cpOutputs (snPayload snap),
       cmByCommitment := cpByCommitment (snPayload snap)\<rparr>"

definition serializeOutput :: "encryptedOutputWithSign \<Rightarrow> serializedOutput" where
  "serializeOutput out =
     \<lparr>soValue = eoValue out, soIsPositive = formatBool (eoIsPositive out), soIsBlocked = eoIsBlocked out\<rparr>"

definition SerializeSnapshot ::
  "((string \<rightharpoonup> string) \<Rightarrow> (string \<times> string) list) \<Rightarrow> commitmentsPayload snapshot \<Rightarrow> commitmentsSerialized res" where
  "SerializeSnapshot iter snap =
     andThen (deref (cpTree (snPayload snap))) (\<lambda>t.
       Ok \<lparr>csLatest = Some (snLatest snap), csMerkleTree = Some (ToJSON t),
           csEncryptedOutputs = map serializeOutput (cpOutputs (snPayload snap)),
           csByCommitment = iter (cpByCommitment (snPayload snap))\<rparr>)"

definition deserializeOutput :: "serializedOutput \<Rightarrow> encryptedOutputWithSign res" where
  "deserializeOutput out =
     andThen (wrapErr ''parse IsPositive'' (parseBool (soIsPositive out))) (\<lambda>isPositive.
       Ok \<lparr>eoValue = soValue out, eoIsPositive = isPositive, eoIsBlocked = soIsBlocked out\<rparr>)"

definition putEntry :: "(string \<rightharpoonup> string) \<Rightarrow> string \<times> string \<Rightarrow> (string \<rightharpoonup> string)" where
  "putEntry m entry = m(fst entry \<mapsto> snd entry)"

definition DeserializeSnapshot ::
  "(int \<Rightarrow> int \<Rightarrow> int) \<Rightarrow> commitmentsSerialized \<Rightarrow> commitmentsPayload snapshot res" where
  "DeserializeSnapshot h serialized =
     andThen (case (csLatest serialized, csMerkleTree serialized) of
                (Some n, Some j) \<Rightarrow>
                  if n > 0 then wrapErr ''deserialize merkle tree'' (FromJSON j h 0) else Ok (NewTree h 0 0)
              | _ \<Rightarrow> Ok (NewTree h 0 0)) (\<lambda>t.
     andThen (mapRes deserializeOutput (csEncryptedOutputs serialized)) (\<lambda>encOutputs.
       Ok \<lparr>snLatest = (case csLatest serialized of None \<Rightarrow> 0 | Some n \<Rightarrow> n),
           snPayload = \<lparr>cpTree = Some t, cpOutputs = encOutputs,
             cpByCommitment = foldl putEntry Map.empty (csByCommitment serialized)\<rparr>\<rparr>))"

definition MapCommitmentEvent :: "jsonLib \<Rightarrow> blockchainEvent \<Rightarrow> commitmentEvent res" where
  "MapCommitmentEvent J ev =
     andThen (GetArg J ev ''commitment'') (\<lambda>commitmentStr.
     andThen (GetArg J ev ''index'') (\<lambda>indexStr.
     andThen (GetArg J ev ''encryptedOutput'') (\<lambda>encryptedOutput.
     andThen (wrapErr ''parse commitment'' (ParseBigInt commitmentStr)) (\<lambda>commitment.
     andThen (wrapErr ''parse index'' (ParseBigInt indexStr)) (\<lambda>index.
       Ok \<lparr>ceCommitment = commitment, ceIndex = index, ceEncryptedOutput = encryptedOutput\<rparr>)))))"

text \<open>The first output with the value is cut out.\<close>

fun removeOutput :: "string \<Rightarrow> encryptedOutputWithSign list \<Rightarrow> encryptedOutputWithSign list" where
  "removeOutput v [] = []"
| "removeOutput v (out # outs) = (if eoValue out = v then outs else out # removeOutput v outs)"

text \<open>
  \<open>AcceptEvent\<close> of both commitment services; they differ in the sign they store. \<open>existing\<close> is what the
  leaf held before.
\<close>

definition dropReplaced :: "int option \<Rightarrow> commitmentsState \<Rightarrow> commitmentsState" where
  "dropReplaced existing s =
     (case existing of
        None \<Rightarrow> s
      | Some old \<Rightarrow>
          (case cmByCommitment s (bigString old) of
             None \<Rightarrow> s
           | Some oldEncOut \<Rightarrow>
               s\<lparr>cmOutputs := removeOutput oldEncOut (cmOutputs s),
                 cmByCommitment := (cmByCommitment s)(bigString old := None)\<rparr>))"

definition addOutput :: "commitmentEvent \<Rightarrow> bool \<Rightarrow> bool \<Rightarrow> commitmentsState \<Rightarrow> commitmentsState" where
  "addOutput event isPositive isBlocked s0 =
     (let s = s0\<lparr>cmByCommitment := (cmByCommitment s0)(bigString (ceCommitment event) \<mapsto> ceEncryptedOutput event)\<rparr>
      in if \<exists>out \<in> set (cmOutputs s). eoValue out = ceEncryptedOutput event then s
         else s\<lparr>cmOutputs := cmOutputs s @ [\<lparr>eoValue = ceEncryptedOutput event, eoIsPositive = isPositive,
                  eoIsBlocked = isBlocked\<rparr>]\<rparr>)"

definition acceptCommitment ::
  "(commitmentEvent \<Rightarrow> bool) \<Rightarrow> commitmentEvent \<Rightarrow> bool \<Rightarrow> (commitmentsState, bool) action" where
  "acceptCommitment positive event isBlocked s =
     (case cmTree s of
        None \<Rightarrow> (Panic ''nil pointer dereference'', s)
      | Some t \<Rightarrow>
          (let nodeIndex = \<bar>ceIndex event\<bar>; existing = GetValue t nodeIndex in
           if existing = Some (ceCommitment event) then (Ok False, s)
           else
             (case InsertLeaf (ceCommitment event) nodeIndex t of
                Err e \<Rightarrow> (Err e, s)
              | Panic p \<Rightarrow> (Panic p, s)
              | Ok t' \<Rightarrow> (Ok True, addOutput event (positive event) isBlocked (dropReplaced existing (s\<lparr>cmTree := Some t'\<rparr>))))))"

definition AcceptCommitmentEvent ::
  "commitmentEvent \<Rightarrow> u64 \<Rightarrow> string \<Rightarrow> bool \<Rightarrow> (commitmentsState, bool) action" where
  "AcceptCommitmentEvent event n tx isBlocked = acceptCommitment (\<lambda>e. ceIndex e \<ge> 0) event isBlocked"

definition commitmentsDelegate ::
  "jsonLib \<Rightarrow> ((string \<rightharpoonup> string) \<Rightarrow> (string \<times> string) list) \<Rightarrow> commitmentsSerialized res \<Rightarrow>
   (commitmentsSerialized \<Rightarrow> unit res) \<Rightarrow>
   (commitmentsState, commitmentEvent, commitmentsPayload, commitmentsSerialized) snapshotDelegate" where
  "commitmentsDelegate J iter fetchFn persistFn =
     \<lparr>dlAcceptEvent = AcceptCommitmentEvent, dlMapEvent = MapCommitmentEvent J, dlPayload = GetSnapshotPayload,
      dlPopulate = PopulateSnapshot, dlSerialize = SerializeSnapshot iter,
      dlDeserialize = (\<lambda>s. DeserializeSnapshot (cmHashFn s)), dlFetch = fetchFn, dlPersist = persistFn\<rparr>"

definition NewCommitmentsSnapshotService where
  "NewCommitmentsSnapshotService J iter fetchFn persistFn e h =
     NewSnapshotService (commitmentsDelegate J iter fetchFn persistFn) e ''NewCommitment'' (newCommitmentsState h)"

subsection \<open>solana_commitments.go\<close>

text \<open>\<open>json.Unmarshal\<close> into \<open>[]int\<close> and \<open>[][]int\<close>: \<open>null\<close> is the empty slice, a \<open>null\<close> element is 0.\<close>

definition jsonInt :: "json \<Rightarrow> int option" where
  "jsonInt v = (case v of
     JNum t \<Rightarrow> (case setString 10 t of
                 Some n \<Rightarrow> if hasPrefix t ''+'' \<or> n < - (2 ^ 63) \<or> n \<ge> 2 ^ 63 then None else Some n
               | None \<Rightarrow> None)
   | JNull \<Rightarrow> Some 0
   | _ \<Rightarrow> None)"

fun mapOption :: "('a \<Rightarrow> 'b option) \<Rightarrow> 'a list \<Rightarrow> 'b list option" where
  "mapOption f [] = Some []"
| "mapOption f (x # xs) = (case f x of None \<Rightarrow> None | Some y \<Rightarrow> map_option (Cons y) (mapOption f xs))"

definition jsonInts :: "json \<Rightarrow> int list option" where
  "jsonInts v = (case v of JArr vs \<Rightarrow> mapOption jsonInt vs | JNull \<Rightarrow> Some [] | _ \<Rightarrow> None)"

definition jsonRows :: "json \<Rightarrow> int list list option" where
  "jsonRows v = (case v of JArr vs \<Rightarrow> mapOption jsonInts vs | JNull \<Rightarrow> Some [] | _ \<Rightarrow> None)"

definition unmarshalInts :: "jsonLib \<Rightarrow> string \<Rightarrow> int list option" where
  "unmarshalInts J s = Option.bind (jParse J s) jsonInts"

definition unmarshalRows :: "jsonLib \<Rightarrow> string \<Rightarrow> int list list option" where
  "unmarshalRows J s = Option.bind (jParse J s) jsonRows"

definition MapSolanaCommitmentEvent :: "jsonLib \<Rightarrow> blockchainEvent \<Rightarrow> commitmentEvent res" where
  "MapSolanaCommitmentEvent J ev =
     andThen (GetArg J ev ''commitment'') (\<lambda>commitmentArg.
     andThen (GetArg J ev ''index'') (\<lambda>indexArg.
     andThen (GetArg J ev ''encrypted_output'') (\<lambda>encOutArg.
     andThen (wrapErr ''parse commitment'' (AdvancedToBigInt (unmarshalInts J) commitmentArg)) (\<lambda>commitment.
     andThen (wrapErr ''parse index'' (AdvancedToBigInt (unmarshalInts J) indexArg)) (\<lambda>index.
     andThen (wrapErr ''parse encrypted_output'' (ParseByteArray (unmarshalInts J) encOutArg)) (\<lambda>encBytes.
     andThen (if encBytes = []
              then andThen (GetArg J ev ''on_chain_data'') (\<lambda>onChainArg.
                   andThen (wrapErr ''parse on_chain_data'' (ParseByteMatrix (unmarshalRows J) onChainArg))
                     EncodeSolanaOnChainUtxo)
              else Ok (''0x'' @ hexEncode encBytes)) (\<lambda>encryptedOutput.
       Ok \<lparr>ceCommitment = commitment, ceIndex = index, ceEncryptedOutput = encryptedOutput\<rparr>)))))))"

definition AcceptSolanaCommitmentEvent ::
  "commitmentEvent \<Rightarrow> u64 \<Rightarrow> string \<Rightarrow> bool \<Rightarrow> (commitmentsState, bool) action" where
  "AcceptSolanaCommitmentEvent event n tx isBlocked =
     acceptCommitment (\<lambda>e. \<not> IsSolanaOnChainUtxo (ceEncryptedOutput e)) event isBlocked"

definition solanaCommitmentsDelegate ::
  "jsonLib \<Rightarrow> ((string \<rightharpoonup> string) \<Rightarrow> (string \<times> string) list) \<Rightarrow> commitmentsSerialized res \<Rightarrow>
   (commitmentsSerialized \<Rightarrow> unit res) \<Rightarrow>
   (commitmentsState, commitmentEvent, commitmentsPayload, commitmentsSerialized) snapshotDelegate" where
  "solanaCommitmentsDelegate J iter fetchFn persistFn =
     \<lparr>dlAcceptEvent = AcceptSolanaCommitmentEvent, dlMapEvent = MapSolanaCommitmentEvent J, dlPayload = GetSnapshotPayload,
      dlPopulate = PopulateSnapshot, dlSerialize = SerializeSnapshot iter,
      dlDeserialize = (\<lambda>s. DeserializeSnapshot (cmHashFn s)), dlFetch = fetchFn, dlPersist = persistFn\<rparr>"

definition NewSolanaCommitmentsSnapshotService where
  "NewSolanaCommitmentsSnapshotService J iter fetchFn persistFn e h =
     NewSnapshotService (solanaCommitmentsDelegate J iter fetchFn persistFn) e ''NewCommitment'' (newCommitmentsState h)"

subsection \<open>nullifiers.go, solana_nullifiers.go\<close>

record nullifiersState =
  nlNullifiers :: "string set"

definition MapNullifierEvent :: "jsonLib \<Rightarrow> blockchainEvent \<Rightarrow> nullifierEvent res" where
  "MapNullifierEvent J ev =
     andThen (GetArg J ev ''nullifier'') (\<lambda>nullifierStr.
     andThen (wrapErr ''parse nullifier'' (ParseBigInt nullifierStr)) (\<lambda>n.
       Ok \<lparr>neNullifier = ToBeHex (Some n)\<rparr>))"

definition MapSolanaNullifierEvent :: "jsonLib \<Rightarrow> blockchainEvent \<Rightarrow> nullifierEvent res" where
  "MapSolanaNullifierEvent J ev =
     andThen (GetArg J ev ''nullifier'') (\<lambda>arg.
     andThen (wrapErr ''parse nullifier'' (AdvancedToBigInt (unmarshalInts J) arg)) (\<lambda>n.
       Ok \<lparr>neNullifier = ToBeHex (Some n)\<rparr>))"

definition AcceptNullifierEvent :: "nullifierEvent \<Rightarrow> u64 \<Rightarrow> string \<Rightarrow> bool \<Rightarrow> (nullifiersState, bool) action" where
  "AcceptNullifierEvent event n tx isBlocked s =
     (if neNullifier event \<in> nlNullifiers s then (Ok False, s)
      else (Ok True, s\<lparr>nlNullifiers := insert (neNullifier event) (nlNullifiers s)\<rparr>))"

definition NullifiersPayload :: "nullifiersState \<Rightarrow> string set" where
  "NullifiersPayload s = nlNullifiers s"

definition PopulateNullifiers :: "string set snapshot \<Rightarrow> nullifiersState \<Rightarrow> nullifiersState" where
  "PopulateNullifiers snap s = s\<lparr>nlNullifiers := snPayload snap\<rparr>"

definition SerializeNullifiers :: "(string set \<Rightarrow> string list) \<Rightarrow> string set snapshot \<Rightarrow> nullifierSerialized res" where
  "SerializeNullifiers iter snap =
     Ok \<lparr>nsLatest = Some (snLatest snap), nsNullifiers = iter (snPayload snap)\<rparr>"

definition DeserializeNullifiers :: "nullifierSerialized \<Rightarrow> string set snapshot res" where
  "DeserializeNullifiers serialized =
     Ok \<lparr>snLatest = (case nsLatest serialized of None \<Rightarrow> 0 | Some n \<Rightarrow> n), snPayload = set (nsNullifiers serialized)\<rparr>"

definition nullifierDelegate ::
  "(blockchainEvent \<Rightarrow> nullifierEvent res) \<Rightarrow> (string set \<Rightarrow> string list) \<Rightarrow> nullifierSerialized res \<Rightarrow>
   (nullifierSerialized \<Rightarrow> unit res) \<Rightarrow>
   (nullifiersState, nullifierEvent, string set, nullifierSerialized) snapshotDelegate" where
  "nullifierDelegate mapEvent iter fetchFn persistFn =
     \<lparr>dlAcceptEvent = AcceptNullifierEvent, dlMapEvent = mapEvent, dlPayload = NullifiersPayload,
      dlPopulate = PopulateNullifiers, dlSerialize = SerializeNullifiers iter,
      dlDeserialize = (\<lambda>_. DeserializeNullifiers), dlFetch = fetchFn, dlPersist = persistFn\<rparr>"

definition NewNullifierSnapshotService where
  "NewNullifierSnapshotService J iter fetchFn persistFn e =
     NewSnapshotService (nullifierDelegate (MapNullifierEvent J) iter fetchFn persistFn) e ''Nullified'' \<lparr>nlNullifiers = {}\<rparr>"

definition NewSolanaNullifierSnapshotService where
  "NewSolanaNullifierSnapshotService J iter fetchFn persistFn e =
     NewSnapshotService (nullifierDelegate (MapSolanaNullifierEvent J) iter fetchFn persistFn) e ''Nullified'' \<lparr>nlNullifiers = {}\<rparr>"

subsection \<open>fetcher.go\<close>

record commitmentsTreeSnapshot =
  ctMerkleTree :: merkleTreeJSON
  ctLatest :: u64
  ctOutputs :: "serializedOutput list"
  ctHinkalAddress :: string
  ctChainID :: int
  ctByCommitment :: "(string \<times> string) list"

record snapshotsResponse =
  srCommitments :: commitmentsTreeSnapshot
  srNullifiers :: "string list"
  srNullifiersLatest :: u64

record snapshotFetcher =
  sfChainID :: int
  sfContract :: string
  sfDuration :: int
  sfCached :: "snapshotsResponse option"
  sfFetchedAt :: int

definition NewSnapshotFetcherService :: "int \<Rightarrow> string \<Rightarrow> int list \<Rightarrow> snapshotFetcher" where
  "NewSnapshotFetcherService chainID contractAddress cacheDuration =
     \<lparr>sfChainID = chainID, sfContract = contractAddress,
      sfDuration = (case cacheDuration of [] \<Rightarrow> 5 * 60 * 1000000000 | d # _ \<Rightarrow> d), sfCached = None, sfFetchedAt = 0\<rparr>"

text \<open>\<open>since\<close> is the time at the check, \<open>after\<close> the time when the answer has come, in nanoseconds.\<close>

definition ensureSnapshots ::
  "(int \<Rightarrow> snapshotsResponse res) \<Rightarrow> int \<Rightarrow> int \<Rightarrow> bool \<Rightarrow> (snapshotFetcher, snapshotsResponse) action" where
  "ensureSnapshots fetchSnapshots since after force s =
     (if force \<or> sfCached s = None \<or> since - sfFetchedAt s > sfDuration s then
        (case wrapErr ''fetch snapshots'' (fetchSnapshots (sfChainID s)) of
           Err e \<Rightarrow> (Err e, s)
         | Panic p \<Rightarrow> (Panic p, s)
         | Ok snapshots \<Rightarrow>
             if \<not> equalFold (ctHinkalAddress (srCommitments snapshots)) (sfContract s) \<or>
                ctChainID (srCommitments snapshots) \<noteq> sfChainID s
             then (Err (ErrMsg ''snapshots: incorrect contract address or chain ID''), s)
             else (Ok snapshots, s\<lparr>sfCached := Some snapshots, sfFetchedAt := after\<rparr>))
      else (deref (sfCached s), s))"

definition GetCommitments ::
  "(int \<Rightarrow> snapshotsResponse res) \<Rightarrow> int \<Rightarrow> int \<Rightarrow> bool list \<Rightarrow> (snapshotFetcher, commitmentsSerialized) action" where
  "GetCommitments fetchSnapshots since after forceRefresh =
     bindA (ensureSnapshots fetchSnapshots since after (case forceRefresh of [] \<Rightarrow> False | b # _ \<Rightarrow> b)) (\<lambda>a.
       liftA (Ok \<lparr>csLatest = Some (ctLatest (srCommitments a)), csMerkleTree = Some (ctMerkleTree (srCommitments a)),
                 csEncryptedOutputs = ctOutputs (srCommitments a), csByCommitment = ctByCommitment (srCommitments a)\<rparr>))"

definition GetNullifiers ::
  "(int \<Rightarrow> snapshotsResponse res) \<Rightarrow> int \<Rightarrow> int \<Rightarrow> bool list \<Rightarrow> (snapshotFetcher, nullifierSerialized) action" where
  "GetNullifiers fetchSnapshots since after forceRefresh =
     bindA (ensureSnapshots fetchSnapshots since after (case forceRefresh of [] \<Rightarrow> False | b # _ \<Rightarrow> b)) (\<lambda>a.
       liftA (Ok \<lparr>nsLatest = Some (srNullifiersLatest a), nsNullifiers = srNullifiers a\<rparr>))"

end
