(* ===== verification/SnapshotProps.thy ===== *)
theory SnapshotProps
  imports Snapshots
begin

text \<open>
  The commitment and nullifier services meet the delegate contract, so pages may be delivered twice; a saved
  snapshot is loaded back; the tree built from the events has the Merkle root of the commitments; and the
  fetcher never serves the snapshot of another contract.
\<close>

subsection \<open>Leaves of the tree under the service\<close>

lemma insert_lookup:
  assumes "InsertLeaf v j t = Ok t'"
  shows "GetValue t' j = Some v"
    and "(\<And>s. i \<noteq> j div 2 ^ s) \<Longrightarrow> GetValue t' i = GetValue t i"
    and "levels t' = levels t" "hashFn t' = hashFn t" "defaultValue t' = defaultValue t"
proof -
  let ?k = "logarithm2 (mtIndex (countAndIndex j t) - GetStartIndex t)"
  have eq: "GetStartIndex t \<le> j" "t' = rehashUp ?k j (leafWritten v j t)" using InsertLeaf_eq [OF assms] by simp_all
  have j: "1 \<le> j" using eq(1) GetStartIndex_pos [of t] by linarith
  have "node t' j = node (leafWritten v j t) j"
    unfolding eq(2) by (rule rehashUp_off_path) (metis div_power_less [OF j] less_irrefl)
  then show "GetValue t' j = Some v" by (simp add: GetValue_def node_def [symmetric])
  show "levels t' = levels t" "hashFn t' = hashFn t" "defaultValue t' = defaultValue t"
    unfolding eq(2) by simp_all
  assume i: "\<And>s. i \<noteq> j div 2 ^ s"
  have "node t' i = node (leafWritten v j t) i" unfolding eq(2) by (rule rehashUp_off_path) (simp add: i)
  moreover have "i \<noteq> j" using i [of 0] by simp
  ultimately show "GetValue t' i = GetValue t i" by (simp add: GetValue_def node_def [symmetric])
qed

subsection \<open>The delegates\<close>

definition commitmentSeen :: "commitmentsState \<Rightarrow> commitmentEvent \<Rightarrow> bool" where
  "commitmentSeen s e \<longleftrightarrow> (case cmTree s of None \<Rightarrow> False | Some t \<Rightarrow> GetValue t \<bar>ceIndex e\<bar> = Some (ceCommitment e))"

text \<open>
  An event overwrites another one when its leaf is the other's leaf, or lies below it (which happens only for an
  index beyond the leaves), and it is not the same commitment at the same place.
\<close>

definition overwrites :: "commitmentEvent \<Rightarrow> commitmentEvent \<Rightarrow> bool" where
  "overwrites e f \<longleftrightarrow> (\<exists>s. \<bar>ceIndex f\<bar> = \<bar>ceIndex e\<bar> div 2 ^ s) \<and>
     \<not> (\<bar>ceIndex e\<bar> = \<bar>ceIndex f\<bar> \<and> ceCommitment e = ceCommitment f)"

definition treeLoaded :: "commitmentsState \<Rightarrow> bool" where
  "treeLoaded s \<longleftrightarrow> cmTree s \<noteq> None"

lemma addOutput_tree [simp]:
  "cmTree (addOutput e p b s) = cmTree s" "cmTree (dropReplaced x s) = cmTree s"
  "cmHashFn (addOutput e p b s) = cmHashFn s" "cmHashFn (dropReplaced x s) = cmHashFn s"
  by (simp_all add: addOutput_def dropReplaced_def Let_def split: option.split)

lemma acceptCommitment_Ok:
  "acceptCommitment pos e b s = (Ok c, s') \<longleftrightarrow>
     (\<exists>t. cmTree s = Some t \<and>
        (if GetValue t \<bar>ceIndex e\<bar> = Some (ceCommitment e) then \<not> c \<and> s' = s
         else c \<and> (\<exists>t'. InsertLeaf (ceCommitment e) \<bar>ceIndex e\<bar> t = Ok t' \<and>
           s' = addOutput e (pos e) b (dropReplaced (GetValue t \<bar>ceIndex e\<bar>) (s\<lparr>cmTree := Some t'\<rparr>)))))"
  by (auto simp: acceptCommitment_def Let_def split: option.splits res.splits if_splits)

lemma accept_commitment_laws:
  "treeLoaded s \<Longrightarrow> commitmentSeen s e \<Longrightarrow> acceptCommitment pos e b s = (Ok False, s)"
  "treeLoaded s \<Longrightarrow> \<not> commitmentSeen s e \<Longrightarrow> acceptCommitment pos e b s = (Ok c, s') \<Longrightarrow>
     c \<and> treeLoaded s' \<and> commitmentSeen s' e"
  "treeLoaded s \<Longrightarrow> commitmentSeen s f \<Longrightarrow> \<not> overwrites e f \<Longrightarrow> acceptCommitment pos e b s = (Ok c, s') \<Longrightarrow>
     commitmentSeen s' f"
proof -
  show "treeLoaded s \<Longrightarrow> commitmentSeen s e \<Longrightarrow> acceptCommitment pos e b s = (Ok False, s)"
    by (auto simp: acceptCommitment_Ok commitmentSeen_def split: option.splits)
  show "treeLoaded s \<Longrightarrow> \<not> commitmentSeen s e \<Longrightarrow> acceptCommitment pos e b s = (Ok c, s') \<Longrightarrow>
     c \<and> treeLoaded s' \<and> commitmentSeen s' e"
    by (auto simp: acceptCommitment_Ok commitmentSeen_def treeLoaded_def insert_lookup(1) split: if_splits)
  assume s: "treeLoaded s" "commitmentSeen s f" "\<not> overwrites e f" "acceptCommitment pos e b s = (Ok c, s')"
  then obtain t where t: "cmTree s = Some t" "GetValue t \<bar>ceIndex f\<bar> = Some (ceCommitment f)"
    by (auto simp: commitmentSeen_def split: option.splits)
  show "commitmentSeen s' f"
  proof (cases "GetValue t \<bar>ceIndex e\<bar> = Some (ceCommitment e)")
    case True
    then show ?thesis using s t by (auto simp: acceptCommitment_Ok)
  next
    case False
    then obtain t' where t': "InsertLeaf (ceCommitment e) \<bar>ceIndex e\<bar> t = Ok t'"
      "s' = addOutput e (pos e) b (dropReplaced (GetValue t \<bar>ceIndex e\<bar>) (s\<lparr>cmTree := Some t'\<rparr>))"
      using s(4) t(1) by (auto simp: acceptCommitment_Ok)
    show ?thesis
    proof (cases "\<bar>ceIndex e\<bar> = \<bar>ceIndex f\<bar> \<and> ceCommitment e = ceCommitment f")
      case True
      then show ?thesis using insert_lookup(1) [OF t'(1)] by (simp add: commitmentSeen_def t'(2))
    next
      case other: False
      then have "\<bar>ceIndex f\<bar> \<noteq> \<bar>ceIndex e\<bar> div 2 ^ k" for k using s(3) by (auto simp: overwrites_def)
      then show ?thesis using insert_lookup(2) [OF t'(1)] t by (simp add: commitmentSeen_def t'(2))
    qed
  qed
qed

lemma evm_accept:
  "dlAcceptEvent (commitmentsDelegate J iter fetchFn persistFn) e n t b = acceptCommitment (\<lambda>e. ceIndex e \<ge> 0) e b"
  by (simp add: commitmentsDelegate_def AcceptCommitmentEvent_def)

lemma solana_accept:
  "dlAcceptEvent (solanaCommitmentsDelegate J iter fetchFn persistFn) e n t b =
     acceptCommitment (\<lambda>e. \<not> IsSolanaOnChainUtxo (ceEncryptedOutput e)) e b"
  by (simp add: solanaCommitmentsDelegate_def AcceptSolanaCommitmentEvent_def)

interpretation evmCommitments: snapshot_delegate "commitmentsDelegate J iter fetchFn persistFn"
  treeLoaded commitmentSeen overwrites for J iter fetchFn persistFn
  by (unfold_locales; unfold evm_accept; rule accept_commitment_laws; assumption)

interpretation solanaCommitments: snapshot_delegate "solanaCommitmentsDelegate J iter fetchFn persistFn"
  treeLoaded commitmentSeen overwrites for J iter fetchFn persistFn
  by (unfold_locales; unfold solana_accept; rule accept_commitment_laws; assumption)

definition nullifierSeen :: "nullifiersState \<Rightarrow> nullifierEvent \<Rightarrow> bool" where
  "nullifierSeen s e \<longleftrightarrow> neNullifier e \<in> nlNullifiers s"

interpretation nullifiers: snapshot_delegate "nullifierDelegate mapEvent iter fetchFn persistFn"
  "\<lambda>_. True" nullifierSeen "\<lambda>_ _. False" for mapEvent iter fetchFn persistFn
  by unfold_locales (auto simp: nullifierDelegate_def AcceptNullifierEvent_def nullifierSeen_def split: if_splits)

subsection \<open>Saving and loading\<close>

lemma parse_format_bool [simp]: "parseBool (formatBool b) = Ok b"
  by (simp add: parseBool_def formatBool_def)

lemma deserialize_outputs: "mapRes deserializeOutput (map serializeOutput outs) = Ok outs"
  by (induction outs) (simp_all add: deserializeOutput_def serializeOutput_def)

lemma foldl_putEntry: "distinct (map fst kvs) \<Longrightarrow> foldl putEntry m kvs = m ++ map_of kvs"
proof (induction kvs arbitrary: m)
  case (Cons kv kvs)
  obtain k v where kv: "kv = (k, v)" by (cases kv)
  have "k \<notin> dom (map_of kvs)" using Cons.prems kv by (simp add: dom_map_of_conv_image_fst)
  then have "putEntry m kv ++ map_of kvs = m ++ map_of (kv # kvs)"
    unfolding kv by (auto simp: putEntry_def map_add_def fun_eq_iff split: option.splits)
  moreover have "foldl putEntry (putEntry m kv) kvs = putEntry m kv ++ map_of kvs" using Cons by simp
  ultimately show ?case by (simp only: foldl.simps)
qed simp

definition goodCommitments ::
  "((string \<rightharpoonup> string) \<Rightarrow> (string \<times> string) list) \<Rightarrow> u64 \<Rightarrow> commitmentsState \<Rightarrow> bool" where
  "goodCommitments iter n s \<longleftrightarrow> 0 < n \<and>
     (\<exists>t. cmTree s = Some t \<and> levels t = MerkleLevels \<and> defaultValue t = 0 \<and> hashFn t = cmHashFn s) \<and>
     map_of (iter (cmByCommitment s)) = cmByCommitment s \<and> distinct (map fst (iter (cmByCommitment s)))"

lemma commitments_decode_encode:
  assumes "goodCommitments iter n s" "cmHashFn s = h"
  shows "\<exists>z. SerializeSnapshot iter \<lparr>snLatest = n, snPayload = GetSnapshotPayload s\<rparr> = Ok z \<and>
    DeserializeSnapshot h z = Ok \<lparr>snLatest = n, snPayload = GetSnapshotPayload s\<rparr>"
proof -
  from assms(1) obtain t where t: "cmTree s = Some t" "levels t = MerkleLevels" "defaultValue t = 0" "hashFn t = cmHashFn s"
    "0 < n" "map_of (iter (cmByCommitment s)) = cmByCommitment s" "distinct (map fst (iter (cmByCommitment s)))"
    unfolding goodCommitments_def by blast
  have "FromJSON (ToJSON t) h 0 = Ok t" using FromJSON_ToJSON(1) [OF t(2)] t(3,4) assms(2) by simp
  then show ?thesis
    using t by (simp add: SerializeSnapshot_def DeserializeSnapshot_def GetSnapshotPayload_def deserialize_outputs foldl_putEntry)
qed

lemma populate_payload: "cmHashFn s = cmHashFn s' \<Longrightarrow>
    PopulateSnapshot \<lparr>snLatest = n, snPayload = GetSnapshotPayload s\<rparr> s' = s"
  by (cases s, cases s') (simp add: PopulateSnapshot_def GetSnapshotPayload_def)

interpretation evmCodec: snapshot_codec "commitmentsDelegate J iter fetchFn persistFn" "goodCommitments iter"
  "\<lambda>s s'. cmHashFn s = cmHashFn s'" for J iter fetchFn persistFn
  by unfold_locales (simp_all add: commitmentsDelegate_def commitments_decode_encode populate_payload)

interpretation solanaCodec: snapshot_codec "solanaCommitmentsDelegate J iter fetchFn persistFn" "goodCommitments iter"
  "\<lambda>s s'. cmHashFn s = cmHashFn s'" for J iter fetchFn persistFn
  by unfold_locales (simp_all add: solanaCommitmentsDelegate_def commitments_decode_encode populate_payload)

interpretation nullifierCodec: snapshot_codec "nullifierDelegate mapEvent iter fetchFn persistFn"
  "\<lambda>n s. set (iter (nlNullifiers s)) = nlNullifiers s" "\<lambda>_ _. True" for mapEvent iter fetchFn persistFn
  by unfold_locales (simp_all add: nullifierDelegate_def SerializeNullifiers_def DeserializeNullifiers_def
    NullifiersPayload_def PopulateNullifiers_def)

subsection \<open>Properties\<close>

text \<open>The commitments of a page are in the tree afterwards, each at its index, when no event of the page
  overwrites an earlier one; and delivering the page again, whole, accepts nothing and changes nothing. So a
  retried or overlapping range is harmless.\<close>

theorem commitments_page_idempotent:
  assumes "treeLoaded s" "acceptLoop (commitmentsDelegate J iter fetchFn persistFn) name blocked evs 0 s = (Ok n, s')"
    and "sorted_wrt (\<lambda>e f. \<not> overwrites f e)
      (okList (map (MapCommitmentEvent J) (filter (\<lambda>ev. evName ev = name) evs)))"
  shows "(\<forall>ev \<in> set evs. \<forall>e. evName ev = name \<longrightarrow> MapCommitmentEvent J ev = Ok e \<longrightarrow> commitmentSeen s' e) \<and>
    acceptLoop (commitmentsDelegate J iter fetchFn persistFn) name blocked' evs 0 s' = (Ok 0, s')"
proof -
  have m: "dlMapEvent (commitmentsDelegate J iter fetchFn persistFn) = MapCommitmentEvent J"
    by (simp add: commitmentsDelegate_def)
  have u: "evmCommitments.undisturbed (evmCommitments.mappedEvents J iter fetchFn persistFn name evs)"
    using assms(3) by (simp add: evmCommitments.undisturbed_def evmCommitments.mappedEvents_def m)
  have all: "\<forall>e \<in> set (evmCommitments.mappedEvents J iter fetchFn persistFn name evs). commitmentSeen s' e"
    using evmCommitments.page_seen [OF assms(1) u assms(2)] by simp
  have "commitmentSeen s' e" if "ev \<in> set evs" "evName ev = name" "MapCommitmentEvent J ev = Ok e" for ev e
  proof -
    have "Ok e \<in> MapCommitmentEvent J ` set (filter (\<lambda>ev. evName ev = name) evs)"
      using that by (intro image_eqI [of _ _ ev]) simp_all
    then have "e \<in> set (evmCommitments.mappedEvents J iter fetchFn persistFn name evs)"
      by (simp add: evmCommitments.mappedEvents_def m okList_member)
    then show ?thesis using all by blast
  qed
  then have "\<forall>ev \<in> set evs. \<forall>e. evName ev = name \<longrightarrow> MapCommitmentEvent J ev = Ok e \<longrightarrow> commitmentSeen s' e"
    by blast
  moreover have "acceptLoop (commitmentsDelegate J iter fetchFn persistFn) name blocked' evs 0 s' = (Ok 0, s')"
    by (rule evmCommitments.page_twice [OF assms(1) u assms(2)])
  ultimately show ?thesis ..
qed

text \<open>After a page of nullifier events the set is the old one and the nullifiers of all readable events, whatever
  their order and multiplicity, and the page counts exactly the new ones.\<close>

theorem nullifiers_page:
  assumes "acceptLoop (nullifierDelegate mapEvent iter fetchFn persistFn) name blocked evs 0 s = (Ok n, s')"
    and "finite (nlNullifiers s)"
  shows "nlNullifiers s' = nlNullifiers s \<union>
       neNullifier ` set (okList (map mapEvent (filter (\<lambda>ev. evName ev = name) evs))) \<and>
     n = card (nlNullifiers s') - card (nlNullifiers s)"
proof -
  let ?D = "nullifierDelegate mapEvent iter fetchFn persistFn"
  have "acceptLoop ?D name blocked evs k s = (Ok n, s') \<Longrightarrow> finite (nlNullifiers s) \<Longrightarrow>
      nlNullifiers s' = nlNullifiers s \<union> neNullifier ` set (okList (map mapEvent (filter (\<lambda>ev. evName ev = name) evs))) \<and>
      n + card (nlNullifiers s) = k + card (nlNullifiers s')" for k
  proof (induction evs arbitrary: s k)
    case (Cons ev evs)
    show ?case
    proof (cases "evName ev = name")
      case True
      show ?thesis
      proof (cases "mapEvent ev")
        case (Ok e)
        show ?thesis
        proof (cases "neNullifier e \<in> nlNullifiers s")
          case seen: True
          then have "acceptLoop ?D name blocked evs k s = (Ok n, s')"
            using Cons.prems(1) True Ok by (simp add: nullifierDelegate_def AcceptNullifierEvent_def bindA_def)
          then show ?thesis using Cons.IH [OF _ Cons.prems(2)] True Ok seen by auto
        next
          case new: False
          let ?s = "s\<lparr>nlNullifiers := insert (neNullifier e) (nlNullifiers s)\<rparr>"
          have "acceptLoop ?D name blocked evs (k + 1) ?s = (Ok n, s')"
            using Cons.prems(1) True Ok new by (simp add: nullifierDelegate_def AcceptNullifierEvent_def bindA_def)
          from Cons.IH [OF this] Cons.prems(2) show ?thesis using True Ok new by auto
        qed
      next
        case (Err err)
        then have "acceptLoop ?D name blocked evs k s = (Ok n, s')"
          using Cons.prems(1) True by (simp add: nullifierDelegate_def)
        from Cons.IH [OF this Cons.prems(2)] show ?thesis using Err True by simp
      next
        case (Panic p)
        then show ?thesis using Cons.prems(1) True by (simp add: nullifierDelegate_def liftA_def)
      qed
    next
      case False
      then have "acceptLoop ?D name blocked evs k s = (Ok n, s')" using Cons.prems(1) by simp
      from Cons.IH [OF this Cons.prems(2)] show ?thesis using False by simp
    qed
  qed (simp add: liftA_def)
  note spec = this [OF assms]
  then have "n = card (nlNullifiers s') - card (nlNullifiers s)" by linarith
  with spec show ?thesis by blast
qed

text \<open>A snapshot of the commitments that was saved at a block above 0 is loaded back as it was: tree, outputs,
  signs, blocked marks and the map by commitment, in whatever order the map was written.\<close>

theorem commitments_save_load:
  assumes "goodCommitments iter latest (svDelegate sv)" "cmHashFn (svDelegate sv) = cmHashFn (svDelegate sv0)"
    and "SaveSnapshot (commitmentsDelegate J iter f persistFn) latest sv = (Ok u, sv1)"
    and "fetchFn = Ok (hd (svPersisted sv1))"
  shows "loadSnapshot (commitmentsDelegate J iter fetchFn persistFn) (e, sv0) =
     (Ok (), SyncFromAtMost latest e, sv0\<lparr>svDelegate := svDelegate sv, svSaved := latest\<rparr>)"
proof -
  have save: "SaveSnapshot (commitmentsDelegate J iter fetchFn persistFn) latest sv = (Ok u, sv1)"
    using assms(3) by (simp add: SaveSnapshot_def commitmentsDelegate_def Let_def split: res.splits)
  have "svPersisted sv1 \<noteq> []"
    using assms(3) by (auto simp: SaveSnapshot_def Let_def split: res.splits)
  then show ?thesis
    using evmCodec.save_then_load [OF assms(1,2) save] assms(4) by (simp add: commitmentsDelegate_def)
qed

definition emptyMap :: "(string \<rightharpoonup> string) \<Rightarrow> (string \<times> string) list" where
  "emptyMap m = []"

definition loadedState :: "(int \<Rightarrow> int \<Rightarrow> int) \<Rightarrow> nat \<Rightarrow> commitmentsState" where
  "loadedState h lvls = (newCommitmentsState h)\<lparr>cmTree := Some (NewTree h 0 lvls)\<rparr>"

definition noSnapshot :: "commitmentsSerialized res" where
  "noSnapshot = Err (ErrMsg ''none'')"

definition toyService :: "(commitmentsState, commitmentsSerialized) snapshotService" where
  "toyService = \<lparr>svEventName = ''NewCommitment'', svSaved = 0, svDelegate = loadedState exampleHash 0, svPersisted = []\<rparr>"

definition startEmitter :: "(commitmentsState, commitmentsSerialized) snapshotService emitter" where
  "startEmitter = NewEmitter 1 ''0xc'' 0 False NoListener None None"

lemma commitments_save_load_witness:
  "\<exists>z. loadSnapshot (commitmentsDelegate toyJson emptyMap (Ok z) (\<lambda>_. Ok ())) (startEmitter, toyService) =
     (Ok (), SyncFromAtMost 70 startEmitter, toyService\<lparr>svSaved := 70\<rparr>)"
proof -
  let ?D = "commitmentsDelegate toyJson emptyMap noSnapshot (\<lambda>_. Ok ())"
  let ?t = "NewTree exampleHash 0 0"
  let ?z = "\<lparr>csLatest = Some 70, csMerkleTree = Some (ToJSON ?t), csEncryptedOutputs = [], csByCommitment = []\<rparr>"
  have good: "goodCommitments emptyMap 70 (svDelegate toyService)"
    by (simp add: goodCommitments_def toyService_def loadedState_def newCommitmentsState_def emptyMap_def NewTree_def Let_def)
  have save: "SaveSnapshot ?D 70 toyService = (Ok (), toyService\<lparr>svSaved := 70, svPersisted := [?z]\<rparr>)"
    by (simp add: SaveSnapshot_def commitmentsDelegate_def toyService_def loadedState_def newCommitmentsState_def
      GetSnapshotPayload_def SerializeSnapshot_def emptyMap_def Let_def)
  have "loadSnapshot (commitmentsDelegate toyJson emptyMap (Ok ?z) (\<lambda>_. Ok ())) (startEmitter, toyService) =
     (Ok (), SyncFromAtMost 70 startEmitter, toyService\<lparr>svDelegate := svDelegate toyService, svSaved := 70\<rparr>)"
    by (rule commitments_save_load [OF good _ save]) simp_all
  then show ?thesis by (intro exI [of _ ?z]) simp
qed

definition nullifierPage :: "blockchainEvent list" where
  "nullifierPage = [\<lparr>evName = ''Nullified'', evTxHash = ''0x1'', evBlock = 5, evArgs = ''a''\<rparr>,
     \<lparr>evName = ''Other'', evTxHash = ''0x1'', evBlock = 5, evArgs = ''b''\<rparr>,
     \<lparr>evName = ''Nullified'', evTxHash = ''0x2'', evBlock = 6, evArgs = ''a''\<rparr>]"

definition rawNullifier :: "blockchainEvent \<Rightarrow> nullifierEvent res" where
  "rawNullifier ev = Ok \<lparr>neNullifier = evArgs ev\<rparr>"

lemma nullifiers_page_witness:
  "nlNullifiers (snd (acceptLoop (nullifierDelegate rawNullifier (\<lambda>_. []) (Err (ErrMsg ''none'')) (\<lambda>_. Ok ())) ''Nullified'' {}
     nullifierPage 0 \<lparr>nlNullifiers = {''z''}\<rparr>)) = {''a'', ''z''}"
proof -
  let ?D = "nullifierDelegate rawNullifier (\<lambda>_. []) (Err (ErrMsg ''none'')) (\<lambda>_. Ok ())"
  have "fst (acceptLoop ?D ''Nullified'' {} nullifierPage 0 \<lparr>nlNullifiers = {''z''}\<rparr>) = Ok 1"
    by (simp add: nullifierPage_def rawNullifier_def nullifierDelegate_def AcceptNullifierEvent_def bindA_def liftA_def)
  then obtain s' where s': "acceptLoop ?D ''Nullified'' {} nullifierPage 0 \<lparr>nlNullifiers = {''z''}\<rparr> = (Ok 1, s')"
    by (metis prod.collapse)
  from nullifiers_page [OF s'] show ?thesis
    unfolding s' by (simp add: nullifierPage_def rawNullifier_def insert_commute)
qed

text \<open>A page is saved exactly when it brought something new or the last save is older than the chain's save depth;
  what is handed to storage carries the block the emitter had reached before the page, so a crash
  between page and save makes the range come again, never skips it.\<close>

theorem page_persistence:
  assumes "processEventsPage D chainID latest evs scannedTo sv = (Ok n, sv')" "GetSaveDepth chainID = Ok depth"
  shows "if n > 0 \<or> svSaved sv + depth < latest
     then svSaved sv' = latest \<and> (\<exists>z. dlSerialize D \<lparr>snLatest = latest, snPayload = dlPayload D (svDelegate sv')\<rparr> = Ok z \<and>
            svPersisted sv' = z # svPersisted sv)
     else svSaved sv' = svSaved sv \<and> svPersisted sv' = svPersisted sv"
proof -
  from assms(1) obtain d where d:
    "acceptLoop D (svEventName sv) (blockedTxHashes evs) evs 0 (svDelegate sv) = (Ok n, d)"
    "afterEventsAccepted D chainID latest n (sv\<lparr>svDelegate := d\<rparr>) = (Ok (), sv')"
    by (auto simp: processEventsPage_def split: prod.splits res.splits)
  show ?thesis
  proof (cases "n > 0 \<or> svSaved sv + depth < latest")
    case True
    then have "SaveSnapshot D latest (sv\<lparr>svDelegate := d\<rparr>) = (Ok (), sv')"
      using d(2) assms(2) by (auto simp: afterEventsAccepted_def)
    then show ?thesis unfolding if_P [OF True]
      by (cases "dlSerialize D \<lparr>snLatest = latest, snPayload = dlPayload D d\<rparr>") (auto simp: SaveSnapshot_def Let_def)
  next
    case False
    then show ?thesis using d(2) assms(2) by (auto simp: afterEventsAccepted_def)
  qed
qed

lemma page_persistence_witness:
  "svSaved (snd (processEventsPage (commitmentsDelegate toyJson emptyMap noSnapshot (\<lambda>_. Ok ())) idBase 9000 [] 9100 toyService)) =
     (if svSaved toyService + the (map_of SaveDepths idBase) < 9000 then 9000 else 0)"
proof -
  let ?D = "commitmentsDelegate toyJson emptyMap noSnapshot (\<lambda>_. Ok ())"
  have "map_of SaveDepths idBase \<noteq> None" by (simp add: SaveDepths_def idBase_def idEthMainnet_def idBNBMainnet_def idPolygon_def idArbMainnet_def idOptimism_def)
  then obtain depth where depth: "map_of SaveDepths idBase = Some depth" by blast
  then have g: "GetSaveDepth idBase = Ok depth" by (simp add: GetSaveDepth_def)
  have "fst (processEventsPage ?D idBase 9000 [] 9100 toyService) = Ok 0"
    using g by (simp add: processEventsPage_def afterEventsAccepted_def SaveSnapshot_def liftA_def toyService_def
      commitmentsDelegate_def GetSnapshotPayload_def SerializeSnapshot_def loadedState_def Let_def)
  then obtain sv' where sv': "processEventsPage ?D idBase 9000 [] 9100 toyService = (Ok 0, sv')" by (metis prod.collapse)
  from page_persistence [OF sv' g] show ?thesis unfolding sv' using depth by (simp add: toyService_def split: if_splits)
qed

definition rightContract :: "snapshotFetcher \<Rightarrow> snapshotsResponse \<Rightarrow> bool" where
  "rightContract s r \<longleftrightarrow> equalFold (ctHinkalAddress (srCommitments r)) (sfContract s) \<and>
     ctChainID (srCommitments r) = sfChainID s"

definition fetcherOk :: "snapshotFetcher \<Rightarrow> bool" where
  "fetcherOk s \<longleftrightarrow> (case sfCached s of None \<Rightarrow> True | Some r \<Rightarrow> rightContract s r)"

lemma NewSnapshotFetcherService_ok: "fetcherOk (NewSnapshotFetcherService chainID contract dur)"
  by (simp add: fetcherOk_def NewSnapshotFetcherService_def)

text \<open>The fetcher caches and returns only snapshots of its own contract and chain, whatever the server answers;
  an answer for another contract is an error and leaves the cache as it was; and within the cache
  duration the server is not asked.\<close>

theorem fetcher_right_contract:
  assumes "fetcherOk s" "ensureSnapshots fetch since after force s = (r, s')"
  shows "fetcherOk s' \<and> sfChainID s' = sfChainID s \<and> sfContract s' = sfContract s \<and>
     (\<forall>c. r = Ok c \<longrightarrow> rightContract s c \<and> sfCached s' = Some c) \<and> (\<not> isOk r \<longrightarrow> s' = s) \<and>
     (\<not> force \<and> sfCached s \<noteq> None \<and> since - sfFetchedAt s \<le> sfDuration s \<longrightarrow> r = deref (sfCached s))"
proof (cases "force \<or> sfCached s = None \<or> since - sfFetchedAt s > sfDuration s")
  case True
  have "\<not> (\<not> force \<and> sfCached s \<noteq> None \<and> since - sfFetchedAt s \<le> sfDuration s)" using True by auto
  moreover have "fetcherOk s' \<and> sfChainID s' = sfChainID s \<and> sfContract s' = sfContract s \<and>
     (\<forall>c. r = Ok c \<longrightarrow> rightContract s c \<and> sfCached s' = Some c) \<and> (\<not> isOk r \<longrightarrow> s' = s)"
  proof (cases "fetch (sfChainID s)")
    case (Ok c)
    show ?thesis
    proof (cases "rightContract s c")
      case right: True
      then have "r = Ok c" "s' = s\<lparr>sfCached := Some c, sfFetchedAt := after\<rparr>"
        using assms(2) True Ok by (auto simp: ensureSnapshots_def rightContract_def)
      then show ?thesis using right by (simp add: fetcherOk_def rightContract_def)
    next
      case False
      then have "\<not> isOk r" "s' = s" using assms(2) True Ok by (auto simp: ensureSnapshots_def rightContract_def)
      then show ?thesis using assms(1) by (auto simp: isOk_iff)
    qed
  qed (use assms True in \<open>auto simp: ensureSnapshots_def\<close>)
  ultimately show ?thesis by blast
next
  case False
  then have "r = deref (sfCached s)" "s' = s" using assms(2) by (auto simp: ensureSnapshots_def)
  then show ?thesis using assms(1) False by (auto simp: fetcherOk_def split: option.splits)
qed

definition foreignSnapshot :: snapshotsResponse where
  "foreignSnapshot = \<lparr>srCommitments = \<lparr>ctMerkleTree = ToJSON (NewTree exampleHash 0 0), ctLatest = 9, ctOutputs = [],
     ctHinkalAddress = ''0xother'', ctChainID = 1, ctByCommitment = []\<rparr>, srNullifiers = [], srNullifiersLatest = 9\<rparr>"

lemma fetcher_right_contract_witness:
  "sfCached (snd (ensureSnapshots (\<lambda>_. Ok foreignSnapshot) 0 5 True (NewSnapshotFetcherService 1 ''0xmine'' []))) = None"
proof -
  let ?s = "NewSnapshotFetcherService 1 ''0xmine'' []"
  obtain r s' where rs: "ensureSnapshots (\<lambda>_. Ok foreignSnapshot) 0 5 True ?s = (r, s')" by fastforce
  have "\<not> equalFold ''0xother'' ''0xmine''" by code_simp
  then have "\<not> rightContract ?s foreignSnapshot"
    by (simp add: rightContract_def foreignSnapshot_def NewSnapshotFetcherService_def)
  moreover have "\<not> isOk r \<or> r = Ok foreignSnapshot"
    using rs by (auto simp: ensureSnapshots_def split: if_splits)
  ultimately have "s' = ?s"
    using fetcher_right_contract [OF NewSnapshotFetcherService_ok rs] by blast
  then show ?thesis unfolding rs by (simp add: NewSnapshotFetcherService_def)
qed

subsection \<open>The tree of the events\<close>

lemma free_leaf: "merkleInv t \<Longrightarrow> GetValue t (mtIndex t) = None"
proof (rule ccontr)
  assume inv: "merkleInv t" and "GetValue t (mtIndex t) \<noteq> None"
  then have "mtIndex t \<in> leafSet t" by (simp add: leafSet_def GetValue_def node_def merkleInv_def)
  then show False using inv by (auto simp: merkleInv_def)
qed

lemma page_appends:
  assumes D: "D = commitmentsDelegate J iter fetchFn persistFn"
  shows "acceptLoop D name blocked evs k s = (Ok n, s') \<Longrightarrow> cmTree s = Some t \<Longrightarrow> merkleReach h d lvls t \<Longrightarrow>
    complete t \<Longrightarrow> okList (map (MapCommitmentEvent J) (filter (\<lambda>ev. evName ev = name) evs)) = es \<Longrightarrow>
    map (\<lambda>e. \<bar>ceIndex e\<bar>) es = map (\<lambda>i. mtIndex t + int i) [0..<length es] \<Longrightarrow>
    mtIndex t + int (length es) \<le> 2 * GetStartIndex t \<Longrightarrow>
    n = k + length es \<and> (\<exists>t'. cmTree s' = Some t' \<and> appendAll (map ceCommitment es) t = Ok t')"
proof (induction evs arbitrary: k s t es)
  case Nil
  then show ?case by (auto simp: liftA_def)
next
  case (Cons ev evs)
  have acc: "dlAcceptEvent D e m tx b = acceptCommitment (\<lambda>e. ceIndex e \<ge> 0) e b" for e m tx b
    unfolding D by (rule evm_accept)
  have mapE: "dlMapEvent D = MapCommitmentEvent J" by (simp add: D commitmentsDelegate_def)
  show ?case
  proof (cases "evName ev = name \<and> (\<exists>e. MapCommitmentEvent J ev = Ok e)")
    case True
    then obtain e where e: "evName ev = name" "MapCommitmentEvent J ev = Ok e" by blast
    obtain es' where es: "es = e # es'" "okList (map (MapCommitmentEvent J) (filter (\<lambda>ev. evName ev = name) evs)) = es'"
    proof -
      have "es = e # okList (map (MapCommitmentEvent J) (filter (\<lambda>ev. evName ev = name) evs))"
        using Cons.prems(5) e by simp
      then show ?thesis using that by blast
    qed
    have ix: "\<bar>ceIndex e\<bar> = mtIndex t" "map (\<lambda>e. \<bar>ceIndex e\<bar>) es' = map (\<lambda>i. mtIndex t + 1 + int i) [0..<length es']"
      using Cons.prems(6) unfolding es(1)
      by (simp_all add: map_upt_Suc add.assoc del: upt_Suc)
    have inv: "merkleInv t" using reach_invariant [OF Cons.prems(3)] by simp
    from Cons.prems(1) e obtain c s1 where c: "acceptCommitment (\<lambda>e. ceIndex e \<ge> 0) e (evTxHash ev \<in> blocked) s = (Ok c, s1)"
      "acceptLoop D name blocked evs (if c then k + 1 else k) s1 = (Ok n, s')"
      by (auto simp: res_simps acc mapE)
    then obtain t1 where t1: "c" "InsertLeaf (ceCommitment e) (mtIndex t) t = Ok t1" "cmTree s1 = Some t1"
      using free_leaf [OF inv] Cons.prems(2) ix(1) by (auto simp: acceptCommitment_Ok)
    have c2: "acceptLoop D name blocked evs (k + 1) s1 = (Ok n, s')" using c(2) t1(1) by simp
    have st: "insertStep t (ceCommitment e) (mtIndex t) t1"
      using inv t1(2) Cons.prems(7) es(1) by (simp add: insertStep_def)
    have r: "merkleReach h d lvls t1"
      using Cons.prems(7) es(1) by (intro merkle_insert [OF Cons.prems(3) _ t1(2)]) simp
    have f: "mtIndex t1 = mtIndex t + 1" "GetStartIndex t1 = GetStartIndex t" using step_fields [OF st] by simp_all
    have "n = k + 1 + length es' \<and> (\<exists>t'. cmTree s' = Some t' \<and> appendAll (map ceCommitment es') t1 = Ok t')"
      using Cons.IH [OF c2 t1(3) r complete_append(1) [OF st Cons.prems(4)] es(2)] ix(2) f Cons.prems(7) es(1)
      by simp
    then show ?thesis using t1(2) es(1) by simp
  next
    case False
    then have skip: "acceptLoop D name blocked evs k s = (Ok n, s')"
      "okList (map (MapCommitmentEvent J) (filter (\<lambda>ev. evName ev = name) evs)) = es"
      using Cons.prems(1,5) by (auto simp: mapE liftA_def split: if_splits res.splits)
    show ?thesis by (rule Cons.IH [OF skip(1) Cons.prems(2-4) skip(2) Cons.prems(6,7)])
  qed
qed

text \<open>C17: From the empty tree, a page of commitment events whose indexes (without their signs) are consecutive leaves
  makes a tree with exactly those commitments as leaves, and its root hash is their Merkle hash: the root a
  proof is built on is the one of the events on the chain.\<close>

theorem commitments_root:
  assumes "acceptLoop (commitmentsDelegate J iter fetchFn persistFn) name blocked evs 0 s = (Ok n, s')"
    and "cmTree s = Some (NewTree h 0 lvls)" "0 < lvls"
    and "okList (map (MapCommitmentEvent J) (filter (\<lambda>ev. evName ev = name) evs)) = es" "es \<noteq> []"
    and "map (\<lambda>e. \<bar>ceIndex e\<bar>) es = map (\<lambda>i. 2 ^ (lvls - 1) + int i) [0..<length es]"
    and "int (length es) \<le> 2 ^ (lvls - 1)"
    and "merkleSpec h 0 (logarithm2 (int (length es))) (map ceCommitment es) \<noteq> 0"
  shows "n = length es \<and> (\<exists>t. cmTree s' = Some t \<and> leaves t = map ceCommitment es \<and>
     GetRootHash t = Ok (merkleSpec h 0 (logarithm2 (int (length es))) (map ceCommitment es)))"
proof -
  have t0: "mtIndex (NewTree h 0 lvls) = 2 ^ (lvls - 1)" "GetStartIndex (NewTree h 0 lvls) = 2 ^ (lvls - 1)"
    using assms(3) by (simp_all add: NewTree_def GetStartIndex_def startIdx_def Let_def)
  have fits: "mtIndex (NewTree h 0 lvls) + int (length es) \<le> 2 * GetStartIndex (NewTree h 0 lvls)"
    using assms(7) t0 by simp
  obtain t' where t': "n = length es" "cmTree s' = Some t'" "appendAll (map ceCommitment es) (NewTree h 0 lvls) = Ok t'"
    using page_appends [OF refl assms(1,2) merkle_new complete_NewTree(1) assms(4) _ fits] assms(6) t0(1) by auto
  from appended_root_core [of "map ceCommitment es" lvls h 0] assms(3,5,7,8) t'(3)
  have "leaves t' = map ceCommitment es \<and>
      GetRootHash t' = Ok (merkleSpec h 0 (logarithm2 (int (length es))) (map ceCommitment es))" by simp
  then show ?thesis using t'(1,2) by blast
qed

definition eventJson :: jsonLib where
  "eventJson = \<lparr>jParse = (\<lambda>t. Some (JObj [(''commitment'', JStr t), (''index'', JStr t), (''encryptedOutput'', JStr t)])),
     jText = (\<lambda>v. Err (ErrMsg ''not here'')), jFloat = Some\<rparr>"

definition commitmentAt :: "int \<Rightarrow> blockchainEvent" where
  "commitmentAt i = \<lparr>evName = ''NewCommitment'', evTxHash = ''0x1'', evBlock = 5, evArgs = bigString i\<rparr>"

lemma map_commitmentAt:
  "MapCommitmentEvent eventJson (commitmentAt i) = Ok \<lparr>ceCommitment = i, ceIndex = i, ceEncryptedOutput = bigString i\<rparr>"
proof -
  have "asAny eventJson (JObj [(''commitment'', JStr t), (''index'', JStr t), (''encryptedOutput'', JStr t)]) =
      Ok (JObj [(''commitment'', JStr t), (''index'', JStr t), (''encryptedOutput'', JStr t)])" for t
    by (rule asAny_strings) auto
  then have "GetArg eventJson (commitmentAt i) k = Ok (bigString i)"
    if "k \<in> {''commitment'', ''index'', ''encryptedOutput''}" for k
    using that by (auto simp: GetArg_def eventJson_def commitmentAt_def simp del: asAny.simps)
  then show ?thesis by (simp add: MapCommitmentEvent_def)
qed

lemma two_commitments:
  "\<exists>s'. acceptLoop (commitmentsDelegate eventJson emptyMap noSnapshot (\<lambda>_. Ok ())) ''NewCommitment'' {}
     [commitmentAt 8, commitmentAt 9] 0 (loadedState exampleHash 4) = (Ok 2, s')"
proof -
  let ?D = "commitmentsDelegate eventJson emptyMap noSnapshot (\<lambda>_. Ok ())"
  let ?t0 = "NewTree exampleHash 0 4" and ?pos = "\<lambda>e. ceIndex e \<ge> 0"
  let ?e = "\<lambda>i. \<lparr>ceCommitment = i, ceIndex = i, ceEncryptedOutput = bigString i\<rparr>"
  have s0: "cmTree (loadedState exampleHash 4) = Some ?t0" by (simp add: loadedState_def newCommitmentsState_def)
  have g: "GetStartIndex ?t0 = 8" by (simp add: NewTree_def GetStartIndex_def startIdx_def)
  have empty: "GetValue ?t0 i = None" for i by (simp add: NewTree_def GetValue_def Let_def)
  obtain t1 where t1: "InsertLeaf 8 8 ?t0 = Ok t1" using InsertLeaf_Ok_iff [of 8 8 ?t0] g by auto
  obtain s1 where s1: "acceptCommitment ?pos (?e 8) False (loadedState exampleHash 4) = (Ok True, s1)" "cmTree s1 = Some t1"
    using s0 empty t1 by (auto simp: acceptCommitment_def Let_def)
  have "(9 :: int) \<noteq> 8 div 2 ^ s" for s
  proof -
    have "(8 :: int) div 2 ^ s \<le> 8" using zdiv_mono2 [of 8 1 "2 ^ s"] by simp
    then show ?thesis by linarith
  qed
  then have n9: "GetValue t1 9 = None" using insert_lookup(2) [OF t1] empty by metis
  have g1: "GetStartIndex t1 = 8" using g insert_lookup(3) [OF t1] by (simp add: GetStartIndex_def)
  obtain t2 where t2: "InsertLeaf 9 9 t1 = Ok t2" using InsertLeaf_Ok_iff [of 9 9 t1] g1 by auto
  obtain s2 where s2: "acceptCommitment ?pos (?e 9) False s1 = (Ok True, s2)"
    using s1(2) n9 t2 by (auto simp: acceptCommitment_def Let_def)
  have m: "dlMapEvent ?D = MapCommitmentEvent eventJson" by (simp add: commitmentsDelegate_def)
  have "evName (commitmentAt i) = ''NewCommitment''" for i by (simp add: commitmentAt_def)
  then show ?thesis using s1(1) s2 by (simp add: m evm_accept map_commitmentAt bindA_def liftA_def)
qed

lemma commitments_root_witness:
  "\<exists>s' t. acceptLoop (commitmentsDelegate eventJson emptyMap noSnapshot (\<lambda>_. Ok ())) ''NewCommitment'' {}
       [commitmentAt 8, commitmentAt 9] 0 (loadedState exampleHash 4) = (Ok 2, s') \<and>
     cmTree s' = Some t \<and> leaves t = [8, 9] \<and> GetRootHash t = Ok (merkleSpec exampleHash 0 1 [8, 9])"
proof -
  let ?es = "map (\<lambda>i. \<lparr>ceCommitment = i, ceIndex = i, ceEncryptedOutput = bigString i\<rparr>) [8, 9]"
  obtain s' where s': "acceptLoop (commitmentsDelegate eventJson emptyMap noSnapshot (\<lambda>_. Ok ())) ''NewCommitment'' {}
       [commitmentAt 8, commitmentAt 9] 0 (loadedState exampleHash 4) = (Ok 2, s')" using two_commitments by blast
  have log: "logarithm2 (int (length ?es)) = 1" by code_simp
  have spec: "merkleSpec exampleHash 0 1 [8, 9] \<noteq> 0" by code_simp
  have "2 = length ?es \<and> (\<exists>t. cmTree s' = Some t \<and> leaves t = map ceCommitment ?es \<and>
     GetRootHash t = Ok (merkleSpec exampleHash 0 (logarithm2 (int (length ?es))) (map ceCommitment ?es)))"
  proof (rule commitments_root [OF s', where lvls = 4])
    show "okList (map (MapCommitmentEvent eventJson) (filter (\<lambda>ev. evName ev = ''NewCommitment'')
        [commitmentAt 8, commitmentAt 9])) = ?es"
      by (simp add: map_commitmentAt) (simp add: commitmentAt_def)
    show "merkleSpec exampleHash 0 (logarithm2 (int (length ?es))) (map ceCommitment ?es) \<noteq> 0"
      unfolding log using spec by simp
    show "map (\<lambda>e. \<bar>ceIndex e\<bar>) ?es = map (\<lambda>i. 2 ^ (4 - 1) + int i) [0..<length ?es]" by (simp add: upt_rec)
  qed (simp_all add: loadedState_def newCommitmentsState_def)
  then show ?thesis using s' unfolding log by auto
qed

lemma commitments_page_idempotent_witness:
  "\<exists>s'. acceptLoop (commitmentsDelegate eventJson emptyMap noSnapshot (\<lambda>_. Ok ())) ''NewCommitment'' {''0x1''}
     [commitmentAt 8, commitmentAt 9] 0 s' = (Ok 0, s') \<and>
     commitmentSeen s' \<lparr>ceCommitment = 9, ceIndex = 9, ceEncryptedOutput = bigString 9\<rparr>"
proof -
  let ?e = "\<lambda>i. \<lparr>ceCommitment = i, ceIndex = i, ceEncryptedOutput = bigString i\<rparr>"
  obtain s' where s': "acceptLoop (commitmentsDelegate eventJson emptyMap noSnapshot (\<lambda>_. Ok ())) ''NewCommitment'' {}
       [commitmentAt 8, commitmentAt 9] 0 (loadedState exampleHash 4) = (Ok 2, s')" using two_commitments by blast
  have n: "evName (commitmentAt i) = ''NewCommitment''" for i by (simp add: commitmentAt_def)
  have "(8 :: int) \<noteq> 9 div 2 ^ k" for k
  proof (cases k)
    case (Suc m)
    have "(9 :: int) div 2 ^ Suc m = 4 div 2 ^ m" by (simp add: div_power_Suc del: power_Suc)
    moreover have "(4 :: int) div 2 ^ m \<le> 4" using zdiv_mono2 [of 4 1 "2 ^ m"] by simp
    ultimately have "(8 :: int) \<noteq> 9 div 2 ^ Suc m" by linarith
    then show ?thesis using Suc by simp
  qed simp
  then have ok: "\<not> overwrites (?e 9) (?e 8)" by (simp add: overwrites_def)
  have "treeLoaded (loadedState exampleHash 4)" by (simp add: treeLoaded_def loadedState_def)
  from commitments_page_idempotent [OF this s', of "{''0x1''}"] ok show ?thesis
    by (intro exI [of _ s']) (simp add: n map_commitmentAt)
qed

subsection \<open>Outputs\<close>

definition outputValues :: "commitmentsState \<Rightarrow> string list" where
  "outputValues s = map eoValue (cmOutputs s)"

lemma removeOutput_values:
  "distinct (map eoValue outs) \<Longrightarrow> map eoValue (removeOutput v outs) = filter (\<lambda>x. x \<noteq> v) (map eoValue outs)"
proof (induction outs)
  case (Cons out outs)
  show ?case
  proof (cases "eoValue out = v")
    case True
    have "filter (\<lambda>x. x \<noteq> v) (map eoValue outs) = map eoValue outs"
      using Cons.prems True by (intro filter_True) (auto intro: rev_image_eqI)
    then show ?thesis using True by simp
  qed (use Cons in simp)
qed simp

text \<open>The ciphertext a leaf's old commitment stands for.\<close>

definition replacedOutput :: "commitmentsState \<Rightarrow> commitmentEvent \<Rightarrow> string option" where
  "replacedOutput s e = (case cmTree s of None \<Rightarrow> None
     | Some t \<Rightarrow> Option.bind (GetValue t \<bar>ceIndex e\<bar>) (\<lambda>old. cmByCommitment s (bigString old)))"

lemma dropReplaced_values:
  assumes "distinct (outputValues s)" "cmTree s = Some t"
  shows "outputValues (dropReplaced (GetValue t \<bar>ceIndex e\<bar>) (s\<lparr>cmTree := t'\<rparr>)) =
    filter (\<lambda>x. replacedOutput s e \<noteq> Some x) (outputValues s)"
proof (cases "replacedOutput s e")
  case None
  then have "dropReplaced (GetValue t \<bar>ceIndex e\<bar>) (s\<lparr>cmTree := t'\<rparr>) = s\<lparr>cmTree := t'\<rparr>"
    using assms(2) by (auto simp: replacedOutput_def dropReplaced_def split: option.splits)
  then show ?thesis using None by (simp add: outputValues_def)
next
  case (Some v)
  then obtain old where old: "GetValue t \<bar>ceIndex e\<bar> = Some old" "cmByCommitment s (bigString old) = Some v"
    using assms(2) by (auto simp: replacedOutput_def Option.bind_eq_Some_conv)
  have "(\<lambda>x. replacedOutput s e \<noteq> Some x) = (\<lambda>x. x \<noteq> v)" using Some by auto
  then show ?thesis
    using old removeOutput_values [of "cmOutputs s" v] assms(1) by (simp add: dropReplaced_def outputValues_def)
qed

text \<open>The encrypted outputs never hold a ciphertext twice, and follow the leaves: accepting an event at a taken leaf takes
  out the ciphertext of the commitment it replaces, adds its own when it is not there, and leaves every other one
  in place and order.\<close>

theorem outputs_follow_leaves:
  assumes "distinct (outputValues s)" "acceptCommitment pos e b s = (Ok c, s')"
  shows "distinct (outputValues s') \<and>
     outputValues s' =
       (if \<not> c then outputValues s
        else (let kept = filter (\<lambda>x. replacedOutput s e \<noteq> Some x) (outputValues s)
              in if ceEncryptedOutput e \<in> set kept then kept else kept @ [ceEncryptedOutput e]))"
proof -
  obtain t where t: "cmTree s = Some t" using assms(2) by (auto simp: acceptCommitment_Ok)
  show ?thesis
  proof (cases "GetValue t \<bar>ceIndex e\<bar> = Some (ceCommitment e)")
    case True
    then show ?thesis using assms t by (auto simp: acceptCommitment_Ok)
  next
    case False
    let ?kept = "filter (\<lambda>x. replacedOutput s e \<noteq> Some x) (outputValues s)"
    from False obtain t' where s': "c" "s' = addOutput e (pos e) b (dropReplaced (GetValue t \<bar>ceIndex e\<bar>) (s\<lparr>cmTree := Some t'\<rparr>))"
      using assms(2) t by (auto simp: acceptCommitment_Ok)
    define d where "d = dropReplaced (GetValue t \<bar>ceIndex e\<bar>) (s\<lparr>cmTree := Some t'\<rparr>)"
    have d: "outputValues d = ?kept" unfolding d_def by (rule dropReplaced_values [OF assms(1) t])
    have "outputValues s' = (if ceEncryptedOutput e \<in> set (outputValues d) then outputValues d
        else outputValues d @ [ceEncryptedOutput e])"
      by (auto simp: s'(2) d_def [symmetric] addOutput_def outputValues_def Let_def intro: rev_image_eqI)
    then show ?thesis using assms(1) s'(1) by (simp add: d Let_def)
  qed
qed

lemma outputs_follow_leaves_witness:
  "outputValues (snd (acceptCommitment (\<lambda>_. True) \<lparr>ceCommitment = 8, ceIndex = - 8, ceEncryptedOutput = ''0xaa''\<rparr> False
     (loadedState exampleHash 4))) = [''0xaa'']"
proof -
  let ?e = "\<lparr>ceCommitment = 8, ceIndex = - 8, ceEncryptedOutput = ''0xaa''\<rparr>" and ?s = "loadedState exampleHash 4"
  have g: "GetStartIndex (NewTree exampleHash 0 4) = 8" by (simp add: NewTree_def GetStartIndex_def startIdx_def)
  have empty: "GetValue (NewTree exampleHash 0 4) i = None" for i by (simp add: NewTree_def GetValue_def Let_def)
  obtain t1 where "InsertLeaf 8 8 (NewTree exampleHash 0 4) = Ok t1"
    using InsertLeaf_Ok_iff [of 8 8 "NewTree exampleHash 0 4"] g by auto
  then obtain s' where s': "acceptCommitment (\<lambda>_. True) ?e False ?s = (Ok True, s')"
    using empty by (simp add: acceptCommitment_def loadedState_def newCommitmentsState_def)
  have "outputValues ?s = []" by (simp add: outputValues_def loadedState_def newCommitmentsState_def)
  with outputs_follow_leaves [OF _ s'] show ?thesis unfolding s' by simp
qed

subsection \<open>Solana events\<close>

definition jsonBytes :: "bytes \<Rightarrow> json" where
  "jsonBytes bs = JArr (map (\<lambda>b. JNum (natText 10 (unat b))) bs)"

lemma jsonInt_byte: "jsonInt (JNum (natText 10 (unat (b :: 8 word)))) = Some (uint b)"
proof -
  have "setString 10 (natText 10 (unat b)) = Some (uint b)" by (simp add: setString_natText)
  moreover have "\<not> hasPrefix (natText 10 (unat b)) ''+''"
  proof -
    have "CHR ''+'' \<notin> set (natText 10 (unat b))" using natText_no_special [of 10 "unat b"] by auto
    then show ?thesis by (cases "natText 10 (unat b)") (auto simp: hasPrefix_def)
  qed
  moreover have "uint b < 2 ^ 63" "- (2 ^ 63) \<le> uint b"
  proof -
    have "0 \<le> uint b" "uint b < 256" using uint_bounded [of b] by simp_all
    then show "uint b < 2 ^ 63" by simp
    from \<open>0 \<le> uint b\<close> show "- (2 ^ 63) \<le> uint b" by (rule order_trans [rotated]) simp
  qed
  ultimately show ?thesis by (simp add: jsonInt_def not_le)
qed

lemma jsonInts_bytes: "jsonInts (jsonBytes bs) = Some (map uint bs)"
  unfolding jsonInts_def jsonBytes_def by (induction bs) (simp_all add: jsonInt_byte)

lemma jsonRows_bytes: "jsonRows (JArr (map jsonBytes rows)) = Some (map (map uint) rows)"
  unfolding jsonRows_def by (induction rows) (simp_all add: jsonInts_bytes)

lemma words_back: "map word_of_int (map uint (bs :: bytes)) = bs" "map (map word_of_int) (map (map uint) (rows :: bytes list)) = rows"
  by (simp_all add: comp_def)

text \<open>A Solana commitment event whose arguments are the byte arrays the program wrote becomes the event with those
  numbers: a ciphertext is kept as hexadecimal text, and an event without one is encoded from its eight
  on-chain fields, which marks it for the sign the service stores.\<close>

theorem solana_commitment_mapped:
  assumes "GetArg J ev ''commitment'' = Ok ct" "jParse J ct = Some (jsonBytes c)" "length c = 32"
    and "GetArg J ev ''index'' = Ok it" "jParse J it = Some (jsonBytes ix)" "length ix = 32"
    and "GetArg J ev ''encrypted_output'' = Ok et" "jParse J et = Some (jsonBytes enc)"
    and "GetArg J ev ''on_chain_data'' = Ok ot" "jParse J ot = Some (JArr (map jsonBytes rows))"
  shows "MapSolanaCommitmentEvent J ev =
     andThen (if enc = [] then EncodeSolanaOnChainUtxo rows else Ok (''0x'' @ hexEncode enc))
       (\<lambda>s. Ok \<lparr>ceCommitment = setBytes c, ceIndex = setBytes ix, ceEncryptedOutput = s\<rparr>)"
proof -
  have ints: "unmarshalInts J ct = Some (map uint c)" "unmarshalInts J it = Some (map uint ix)"
    "unmarshalInts J et = Some (map uint enc)" "unmarshalRows J ot = Some (map (map uint) rows)"
    by (simp_all add: unmarshalInts_def unmarshalRows_def assms jsonInts_bytes jsonRows_bytes)
  have "AdvancedToBigInt (unmarshalInts J) ct = Ok (setBytes c)" "AdvancedToBigInt (unmarshalInts J) it = Ok (setBytes ix)"
    "ParseByteArray (unmarshalInts J) et = Ok enc" "ParseByteMatrix (unmarshalRows J) ot = Ok rows"
    using assms(3,6) by (simp_all add: AdvancedToBigInt_def ParseByteArray_def ParseByteMatrix_def tryParseByteArray_def ints
      words_back del: map_map)
  then show ?thesis using assms(1,4,7,9) by (simp add: MapSolanaCommitmentEvent_def)
qed

text \<open>An event whose argument texts stand for fixed bytes.\<close>

definition solanaJson :: jsonLib where
  "solanaJson = \<lparr>jParse = (\<lambda>t. if t = ''c'' then Some (jsonBytes (replicate 32 1)) else if t = ''i'' then Some (jsonBytes (replicate 32 2))
       else if t = ''e'' then Some (jsonBytes [7, 9]) else if t = ''o'' then Some (JArr (map jsonBytes []))
       else Some (JObj [(''commitment'', JStr ''c''), (''index'', JStr ''i''), (''encrypted_output'', JStr ''e''),
         (''on_chain_data'', JStr ''o'')])),
     jText = (\<lambda>v. Err (ErrMsg ''not here'')), jFloat = Some\<rparr>"

lemma solana_commitment_mapped_witness:
  "MapSolanaCommitmentEvent solanaJson (commitmentAt 0) =
     Ok \<lparr>ceCommitment = setBytes (replicate 32 1), ceIndex = setBytes (replicate 32 2), ceEncryptedOutput = ''0x0709''\<rparr>"
proof -
  let ?args = "[(''commitment'', JStr ''c''), (''index'', JStr ''i''), (''encrypted_output'', JStr ''e''), (''on_chain_data'', JStr ''o'')]"
  have any: "asAny solanaJson (JObj ?args) = Ok (JObj ?args)" by (rule asAny_strings) auto
  have "bigString 0 = ''0''" by code_simp
  then have parse: "jParse solanaJson (evArgs (commitmentAt 0)) = Some (JObj ?args)"
    by (simp add: solanaJson_def commitmentAt_def)
  have args: "GetArg solanaJson (commitmentAt 0) ''commitment'' = Ok ''c''" "GetArg solanaJson (commitmentAt 0) ''index'' = Ok ''i''"
    "GetArg solanaJson (commitmentAt 0) ''encrypted_output'' = Ok ''e''" "GetArg solanaJson (commitmentAt 0) ''on_chain_data'' = Ok ''o''"
    by (simp_all add: GetArg_def parse any del: asAny.simps)
  have "MapSolanaCommitmentEvent solanaJson (commitmentAt 0) =
     andThen (if [7, 9 :: 8 word] = [] then EncodeSolanaOnChainUtxo [] else Ok (''0x'' @ hexEncode [7, 9]))
       (\<lambda>s. Ok \<lparr>ceCommitment = setBytes (replicate 32 1), ceIndex = setBytes (replicate 32 2), ceEncryptedOutput = s\<rparr>)"
    by (rule solana_commitment_mapped [OF args(1) _ _ args(2) _ _ args(3) _ args(4)]) (simp_all add: solanaJson_def)
  moreover have "hexEncode [7, 9] = ''0709''" by (simp add: digitChar_def)
  ultimately show ?thesis by simp
qed

end
