(* ===== verification/Utxo.thy ===== *)
theory Utxo
  imports CryptoKeys Chains CryptoKeysProps
begin

text \<open>
  Unspent outputs: \<open>internal/utxo/utxo.go\<close> and \<open>types/utxo_types.go\<close>. The commitment, the nullifier
  and the stealth address of a \<open>Utxo\<close> are cached in it on first use, so their getters return the new
  object beside their outcome. \<open>now\<close> is the current time as text and \<open>rand\<close> the source of random bytes.
\<close>

record utxoParams =
  upAmount :: "int option"
  upErc20 :: string
  upMint :: string
  upTimeStamp :: string
  upNullifyingKey :: string
  upSpendingKey :: "int list option"
  upRandomization :: "int option"
  upH0 :: "jubPoint option"
  upStealth :: string
  upEncryptionKey :: string
  upCommitment :: string
  upNullifier :: string
  upIsBlocked :: bool
  upIsNewStyle :: bool

record utxo =
  uxAmount :: "int option"
  uxErc20 :: string
  uxMint :: string
  uxTimeStamp :: string
  uxNullifyingKey :: string
  uxSpendingKey :: "int list option"
  uxRandomization :: "int option"
  uxH0 :: "jubPoint option"
  uxStealth :: string
  uxEncryptionKey :: string
  uxIsBlocked :: bool
  uxIsNewStyle :: bool
  uxCommitment :: string
  uxNullifier :: string

subsection \<open>types/utxo_types.go\<close>

record utxoWithSender =
  wsParams :: utxoParams
  wsSenderAddress :: string
  wsClaimableSignature :: string
  wsShieldedPrivateKey :: string

definition ResolvedUtxoParams :: "utxoWithSender \<Rightarrow> utxoParams" where
  "ResolvedUtxoParams p =
     (if upNullifyingKey (wsParams p) = [] \<and> wsShieldedPrivateKey p \<noteq> []
      then (wsParams p)\<lparr>upNullifyingKey := wsShieldedPrivateKey p\<rparr> else wsParams p)"

text \<open>The struct that is written to and read from JSON: absent fields are empty.\<close>

record utxoWire =
  wAmount :: string
  wErc20 :: string
  wMint :: string
  wTimeStamp :: string
  wNullifyingKey :: string
  wSpendingKey :: "string list"
  wRandomization :: string
  wH0 :: "string list"
  wStealth :: string
  wEncryptionKey :: string
  wCommitment :: string
  wNullifier :: string
  wIsBlocked :: bool
  wIsNewStyle :: bool

definition marshalUtxoParams :: "utxoParams \<Rightarrow> utxoWire" where
  "marshalUtxoParams p =
     \<lparr>wAmount = (case upAmount p of None \<Rightarrow> ''0'' | Some a \<Rightarrow> bigString a),
      wErc20 = upErc20 p, wMint = upMint p, wTimeStamp = upTimeStamp p, wNullifyingKey = upNullifyingKey p,
      wSpendingKey = (case upSpendingKey p of None \<Rightarrow> [] | Some vs \<Rightarrow> map bigString vs),
      wRandomization = (case upRandomization p of None \<Rightarrow> [] | Some r \<Rightarrow> bigString r),
      wH0 = (case upH0 p of None \<Rightarrow> [] | Some (x, y) \<Rightarrow> [bigString x, bigString y]),
      wStealth = upStealth p, wEncryptionKey = upEncryptionKey p, wCommitment = upCommitment p,
      wNullifier = upNullifier p, wIsBlocked = upIsBlocked p, wIsNewStyle = upIsNewStyle p\<rparr>"

definition optionalBigInt :: "string \<Rightarrow> int option res" where
  "optionalBigInt s = (if s = [] then Ok None else andThen (ParseBigInt s) (\<lambda>n. Ok (Some n)))"

definition bigIntSlice :: "string list \<Rightarrow> int list option res" where
  "bigIntSlice values =
     (if values = [] then Ok None else andThen (mapRes ParseBigInt values) (\<lambda>out. Ok (Some out)))"

definition jubPointFromStrings :: "string list \<Rightarrow> jubPoint option res" where
  "jubPointFromStrings values =
     (if length values \<noteq> 2 then Ok None
      else andThen (ParseBigInt (values ! 0)) (\<lambda>x.
           andThen (ParseBigInt (values ! 1)) (\<lambda>y. Ok (Some (x, y)))))"

definition unmarshalUtxoParams :: "utxoWire \<Rightarrow> utxoParams res" where
  "unmarshalUtxoParams w =
     andThen (optionalBigInt (wAmount w)) (\<lambda>amount.
     andThen (optionalBigInt (wRandomization w)) (\<lambda>randomization.
     andThen (bigIntSlice (wSpendingKey w)) (\<lambda>spendingPublicKey.
     andThen (jubPointFromStrings (wH0 w)) (\<lambda>h0.
     Ok \<lparr>upAmount = amount, upErc20 = wErc20 w, upMint = wMint w, upTimeStamp = wTimeStamp w,
         upNullifyingKey = wNullifyingKey w, upSpendingKey = spendingPublicKey,
         upRandomization = randomization, upH0 = h0, upStealth = wStealth w,
         upEncryptionKey = wEncryptionKey w, upCommitment = wCommitment w, upNullifier = wNullifier w,
         upIsBlocked = wIsBlocked w, upIsNewStyle = wIsNewStyle w\<rparr>))))"

subsection \<open>utxo.go: construction\<close>

definition NewUtxo :: "cryptoLib \<Rightarrow> string \<Rightarrow> (nat \<Rightarrow> bytes res) \<Rightarrow> utxoParams \<Rightarrow> utxo res" where
  "NewUtxo C now rand params =
     (let timeStamp = (if upTimeStamp params = [] then now else upTimeStamp params) in
      andThen (if upRandomization params = None \<and> upNullifyingKey params \<noteq> []
               then andThen (RandomBigInt rand 31) (\<lambda>seed.
                    andThen (FindCorrectRandomization C seed (upNullifyingKey params)) (\<lambda>r. Ok (Some r)))
               else Ok (upRandomization params)) (\<lambda>randomization.
      andThen (case (upH0 params, randomization) of
                 (None, Some r) \<Rightarrow> if upIsNewStyle params then FindH0 C r (upNullifyingKey params) else Ok None
               | (h, _) \<Rightarrow> Ok h) (\<lambda>h0.
      Ok \<lparr>uxAmount = upAmount params, uxErc20 = upErc20 params, uxMint = upMint params,
          uxTimeStamp = timeStamp, uxNullifyingKey = upNullifyingKey params,
          uxSpendingKey = upSpendingKey params, uxRandomization = randomization, uxH0 = h0,
          uxStealth = upStealth params, uxEncryptionKey = upEncryptionKey params,
          uxIsBlocked = upIsBlocked params, uxIsNewStyle = upIsNewStyle params,
          uxCommitment = upCommitment params, uxNullifier = upNullifier params\<rparr>)))"

definition GetConstructableParams :: "utxo \<Rightarrow> utxoParams" where
  "GetConstructableParams u =
     \<lparr>upAmount = uxAmount u, upErc20 = uxErc20 u, upMint = uxMint u, upTimeStamp = uxTimeStamp u,
      upNullifyingKey = uxNullifyingKey u, upSpendingKey = uxSpendingKey u,
      upRandomization = uxRandomization u, upH0 = uxH0 u, upStealth = uxStealth u,
      upEncryptionKey = uxEncryptionKey u, upCommitment = uxCommitment u, upNullifier = uxNullifier u,
      upIsBlocked = uxIsBlocked u, upIsNewStyle = uxIsNewStyle u\<rparr>"

definition GetBasicUtxoParams :: "utxo \<Rightarrow> utxoParams" where
  "GetBasicUtxoParams u =
     \<lparr>upAmount = uxAmount u, upErc20 = uxErc20 u, upMint = uxMint u, upTimeStamp = uxTimeStamp u,
      upNullifyingKey = [], upSpendingKey = None,
      upRandomization = uxRandomization u, upH0 = uxH0 u, upStealth = uxStealth u,
      upEncryptionKey = [], upCommitment = uxCommitment u, upNullifier = uxNullifier u,
      upIsBlocked = uxIsBlocked u, upIsNewStyle = uxIsNewStyle u\<rparr>"

text \<open>A field of the patch is taken when it is not the zero value of its type.\<close>

definition patchText :: "string \<Rightarrow> string \<Rightarrow> string" where
  "patchText dst patch = (if patch \<noteq> [] then patch else dst)"

definition patchOpt :: "'a option \<Rightarrow> 'a option \<Rightarrow> 'a option" where
  "patchOpt dst patch = (if patch \<noteq> None then patch else dst)"

definition applyPatch :: "utxoParams \<Rightarrow> utxoParams \<Rightarrow> utxoParams" where
  "applyPatch dst patch = dst
     \<lparr>upAmount := patchOpt (upAmount dst) (upAmount patch),
      upErc20 := patchText (upErc20 dst) (upErc20 patch),
      upMint := patchText (upMint dst) (upMint patch),
      upTimeStamp := patchText (upTimeStamp dst) (upTimeStamp patch),
      upNullifyingKey := patchText (upNullifyingKey dst) (upNullifyingKey patch),
      upSpendingKey := patchOpt (upSpendingKey dst) (upSpendingKey patch),
      upRandomization := patchOpt (upRandomization dst) (upRandomization patch),
      upH0 := patchOpt (upH0 dst) (upH0 patch),
      upStealth := patchText (upStealth dst) (upStealth patch),
      upEncryptionKey := patchText (upEncryptionKey dst) (upEncryptionKey patch),
      upCommitment := patchText (upCommitment dst) (upCommitment patch),
      upNullifier := patchText (upNullifier dst) (upNullifier patch)\<rparr>"

definition CreateFrom :: "cryptoLib \<Rightarrow> string \<Rightarrow> (nat \<Rightarrow> bytes res) \<Rightarrow> utxo \<Rightarrow> utxoParams \<Rightarrow> utxo res" where
  "CreateFrom C now rand src patch =
     NewUtxo C now rand
       (applyPatch ((GetConstructableParams src)\<lparr>upCommitment := [], upNullifier := []\<rparr>) patch)"

subsection \<open>utxo.go: hashes\<close>

definition GetStealthAddressUtxo :: "cryptoLib \<Rightarrow> (utxo, string) action" where
  "GetStealthAddressUtxo C u =
     (if uxStealth u \<noteq> [] then (Ok (uxStealth u), u)
      else if uxNullifyingKey u = []
      then (Err (ErrMsg ''no stealth address in UTXO if private key is not provided''), u)
      else
        (case (if uxIsNewStyle u then
                 (case uxH0 u of
                    None \<Rightarrow> Err (ErrMsg ''no H0 point provided'')
                  | Some h0 \<Rightarrow> GetStealthAddressNewStyle C h0 (uxNullifyingKey u)
                                 (case uxSpendingKey u of None \<Rightarrow> [] | Some ks \<Rightarrow> ks))
               else
                 (case uxRandomization u of
                    None \<Rightarrow> Err (ErrMsg ''no randomization provided'')
                  | Some r \<Rightarrow> GetStealthAddress C r (uxNullifyingKey u))) of
           Ok addr \<Rightarrow> (Ok addr, u\<lparr>uxStealth := addr\<rparr>)
         | Err e \<Rightarrow> (Err e, u)
         | Panic p \<Rightarrow> (Panic p, u)))"

definition GetCommitment :: "cryptoLib \<Rightarrow> (utxo, string) action" where
  "GetCommitment C u =
     (if uxCommitment u \<noteq> [] then (Ok (uxCommitment u), u)
      else
        bindA (GetStealthAddressUtxo C) (\<lambda>stealth.
        bindA (liftA (ParseBigInt (uxErc20 u))) (\<lambda>token.
        bindA (liftA (ParseBigInt stealth)) (\<lambda>stealthBig.
        bindA (liftA (ParseBigInt (uxTimeStamp u))) (\<lambda>ts.
        bindA (liftA (PoseidonBig C [uxAmount u, Some token, Some stealthBig, Some ts])) (\<lambda>h u'.
          (Ok (ToBeHex (Some h)), u'\<lparr>uxCommitment := ToBeHex (Some h)\<rparr>)))))) u)"

definition GetNullifier :: "cryptoLib \<Rightarrow> (utxo, string) action" where
  "GetNullifier C u =
     (if uxNullifier u \<noteq> [] then (Ok (uxNullifier u), u)
      else if uxNullifyingKey u = []
      then (Err (ErrMsg ''no nullifiers if private key is not provided''), u)
      else
        bindA (GetCommitment C) (\<lambda>commitment.
        bindA (liftA (ParseBigInt commitment)) (\<lambda>commitmentBig.
        bindA (liftA (ParseBigInt (uxNullifyingKey u))) (\<lambda>nk.
        bindA (liftA (PoseidonBig C [Some nk, Some commitmentBig])) (\<lambda>signature.
        bindA (liftA (PoseidonBig C [Some commitmentBig, Some signature])) (\<lambda>nul u'.
          (Ok (ToBeHex (Some nul)), u'\<lparr>uxNullifier := ToBeHex (Some nul)\<rparr>)))))) u)"

definition GetTokenAddress :: "int \<Rightarrow> utxo \<Rightarrow> string res" where
  "GetTokenAddress chainID u =
     (let tokenAddress = (if IsSolanaLike chainID then uxMint u else uxErc20 u)
      in if tokenAddress = [] then Err (ErrMsg ''no token address provided'') else Ok tokenAddress)"

definition GetEncryptionKey :: "cryptoLib \<Rightarrow> utxo \<Rightarrow> string res" where
  "GetEncryptionKey C u =
     (if uxNullifyingKey u = [] then
        (if uxEncryptionKey u = [] then Err (ErrMsg ''no encryption key provided in UTXO'')
         else Ok (uxEncryptionKey u))
      else andThen (GetEncryptionKeyPair C (uxNullifyingKey u)) (\<lambda>(priv, pub). Ok pub))"

section \<open>Properties\<close>

text \<open>
  Properties of unspent outputs: the order in which the cached hashes are asked for does not matter,
  and parameters survive the JSON wire format.
\<close>

subsection \<open>Cached hashes\<close>

lemma stealth_result:
  assumes "GetStealthAddressUtxo C u = (Ok s, u1)"
  shows "uxStealth u1 = s \<or> uxStealth u = s \<and> u1 = u"
  using assms by (auto simp: GetStealthAddressUtxo_def split: if_splits option.splits res.splits)

lemma stealth_frame:
  assumes "GetStealthAddressUtxo C u = (r, u1)"
  shows "u1 = u\<lparr>uxStealth := uxStealth u1\<rparr>"
  using assms by (auto simp: GetStealthAddressUtxo_def split: if_splits option.splits res.splits)

lemma GetStealthAddressNewStyle_nonempty:
  "GetStealthAddressNewStyle C h0 k ks = Ok s \<Longrightarrow> s \<noteq> []"
  by (auto simp: GetStealthAddressNewStyle_def res_simps Let_def ToBeHex_def split: if_splits)

lemma GetStealthAddress_nonempty: "GetStealthAddress C r k = Ok s \<Longrightarrow> s \<noteq> []"
  by (auto simp: GetStealthAddress_def res_simps Let_def ToBeHex_def split: prod.splits)

lemma stealth_cached:
  assumes "GetStealthAddressUtxo C u = (Ok s, u1)"
  shows "s \<noteq> []" and "uxStealth u1 = s"
  using assms GetStealthAddressNewStyle_nonempty GetStealthAddress_nonempty
  by (auto simp: GetStealthAddressUtxo_def split: if_splits option.splits res.splits)

lemma stealth_again:
  "GetStealthAddressUtxo C u = (Ok s, u1) \<Longrightarrow> GetStealthAddressUtxo C u1 = (Ok s, u1)"
  using stealth_cached [of C u s u1] by (simp add: GetStealthAddressUtxo_def)

lemma stealth_then_commitment:
  assumes s: "GetStealthAddressUtxo C u = (Ok s, u1)"
  shows "fst (GetCommitment C u1) = fst (GetCommitment C u) \<and>
    (uxCommitment u = [] \<longrightarrow> GetCommitment C u1 = GetCommitment C u)"
proof -
  obtain x where x: "u1 = u\<lparr>uxStealth := x\<rparr>" using stealth_frame [OF s] by metis
  show ?thesis
  proof (cases "uxCommitment u = []")
    case True
    have "bindA (GetStealthAddressUtxo C) f u1 = bindA (GetStealthAddressUtxo C) f u" for f :: "string \<Rightarrow> (utxo, string) action"
      using s stealth_again [OF s] by (simp add: bindA_def)
    then show ?thesis using True by (simp add: GetCommitment_def x)
  next
    case False
    then show ?thesis by (simp add: GetCommitment_def x)
  qed
qed

lemma commitment_frame:
  assumes "GetCommitment C u = (Ok c, u1)"
  shows "c \<noteq> []" "uxCommitment u1 = c" "uxNullifier u1 = uxNullifier u" "uxNullifyingKey u1 = uxNullifyingKey u"
proof -
  have "c \<noteq> [] \<and> uxCommitment u1 = c \<and> uxNullifier u1 = uxNullifier u \<and> uxNullifyingKey u1 = uxNullifyingKey u"
  proof (cases "uxCommitment u = []")
    case True
    then obtain s u2 h where st: "GetStealthAddressUtxo C u = (Ok s, u2)"
      "c = ToBeHex (Some h)" "u1 = u2\<lparr>uxCommitment := c\<rparr>"
      using assms by (auto simp: GetCommitment_def res_simps)
    moreover have "c \<noteq> []" using st(2) by simp
    moreover obtain x where "u2 = u\<lparr>uxStealth := x\<rparr>" using stealth_frame [OF st(1)] by metis
    ultimately show ?thesis by simp
  next
    case False
    then show ?thesis using assms by (auto simp: GetCommitment_def)
  qed
  then show "c \<noteq> []" "uxCommitment u1 = c" "uxNullifier u1 = uxNullifier u" "uxNullifyingKey u1 = uxNullifyingKey u"
    by simp_all
qed

lemma commitment_again: "GetCommitment C u = (Ok c, u1) \<Longrightarrow> GetCommitment C u1 = (Ok c, u1)"
  using commitment_frame [of C u c u1] by (simp add: GetCommitment_def [of C u1])

lemma commitment_then_nullifier:
  assumes c: "GetCommitment C u = (Ok c, u1)"
  shows "fst (GetNullifier C u1) = fst (GetNullifier C u)"
proof -
  note fr = commitment_frame [OF c]
  have "bindA (GetCommitment C) f u1 = bindA (GetCommitment C) f u" for f :: "string \<Rightarrow> (utxo, string) action"
    using c commitment_again [OF c] by (simp add: bindA_def)
  then show ?thesis using fr(3,4) by (simp add: GetNullifier_def)
qed

lemma nullifier_again:
  assumes "GetNullifier C u = (Ok n, u1)"
  shows "GetNullifier C u1 = (Ok n, u1)"
proof (cases "uxNullifier u = []")
  case True
  then obtain v h where "u1 = v\<lparr>uxNullifier := n\<rparr>" "n = ToBeHex (Some h)"
    using assms by (auto simp: GetNullifier_def res_simps split: if_splits)
  moreover have "n \<noteq> []" using calculation(2) by simp
  ultimately show ?thesis by (simp add: GetNullifier_def)
next
  case False
  then show ?thesis using assms by (auto simp: GetNullifier_def)
qed

text \<open>The hashes of an output do not depend on which of them was asked for first: once the stealth
  address or the commitment has been computed, every later getter returns what it would have returned
  on the fresh object, and asking again changes nothing.\<close>

theorem utxo_hash_cache:
  shows "(\<forall>s u1. GetStealthAddressUtxo C u = (Ok s, u1) \<longrightarrow>
       GetStealthAddressUtxo C u1 = (Ok s, u1) \<and> fst (GetCommitment C u1) = fst (GetCommitment C u)) \<and>
     (\<forall>c u1. GetCommitment C u = (Ok c, u1) \<longrightarrow>
       GetCommitment C u1 = (Ok c, u1) \<and> fst (GetNullifier C u1) = fst (GetNullifier C u)) \<and>
     (\<forall>n u1. GetNullifier C u = (Ok n, u1) \<longrightarrow> GetNullifier C u1 = (Ok n, u1))"
  using stealth_again stealth_then_commitment commitment_again commitment_then_nullifier nullifier_again
  by blast

definition toyUtxo :: utxo where
  "toyUtxo = \<lparr>uxAmount = Some 25, uxErc20 = ToBeHex (Some 66), uxMint = [], uxTimeStamp = bigString 1700,
     uxNullifyingKey = ToBeHex (Some 11), uxSpendingKey = None, uxRandomization = Some 5, uxH0 = None,
     uxStealth = ToBeHex (Some 12), uxEncryptionKey = [], uxIsBlocked = False, uxIsNewStyle = False,
     uxCommitment = [], uxNullifier = []\<rparr>"

lemma toyUtxo_commitment:
  "GetCommitment toyCrypto toyUtxo = (Ok (ToBeHex (Some 95)), toyUtxo\<lparr>uxCommitment := ToBeHex (Some 95)\<rparr>)"
proof -
  show ?thesis
    by (simp add: GetCommitment_def toyUtxo_def GetStealthAddressUtxo_def bindA_def liftA_def PoseidonBig_def toyCrypto_def)
qed

lemma utxo_hash_cache_witness:
  "fst (GetNullifier toyCrypto (toyUtxo\<lparr>uxCommitment := ToBeHex (Some 95)\<rparr>)) = fst (GetNullifier toyCrypto toyUtxo)"
  using utxo_hash_cache [of toyCrypto toyUtxo] toyUtxo_commitment by blast

subsection \<open>The wire format\<close>

lemma mapRes_ParseBigInt: "mapRes ParseBigInt (map bigString vs) = Ok vs"
  by (induction vs) simp_all

text \<open>Parameters written to JSON are read back unchanged, except that a missing amount comes back
  as zero and an empty spending key as none.\<close>

theorem utxo_params_roundtrip:
  "unmarshalUtxoParams (marshalUtxoParams p) =
     Ok (p\<lparr>upAmount := Some (case upAmount p of None \<Rightarrow> 0 | Some a \<Rightarrow> a),
           upSpendingKey := (if upSpendingKey p = Some [] then None else upSpendingKey p)\<rparr>)"
proof -
  have zero: "ParseBigInt ''0'' = Ok 0"
    using ParseBigInt_bigString [of 0] by (simp add: bigText_def natText.simps digitChar_def)
  have "optionalBigInt (wAmount (marshalUtxoParams p)) = Ok (Some (case upAmount p of None \<Rightarrow> 0 | Some a \<Rightarrow> a))"
    by (auto simp: marshalUtxoParams_def optionalBigInt_def zero split: option.split)
  moreover have "optionalBigInt (wRandomization (marshalUtxoParams p)) = Ok (upRandomization p)"
    by (auto simp: marshalUtxoParams_def optionalBigInt_def split: option.split)
  moreover have "bigIntSlice (wSpendingKey (marshalUtxoParams p)) =
      Ok (if upSpendingKey p = Some [] then None else upSpendingKey p)"
    by (auto simp: marshalUtxoParams_def bigIntSlice_def mapRes_ParseBigInt split: option.split)
  moreover have "jubPointFromStrings (wH0 (marshalUtxoParams p)) = Ok (upH0 p)"
    by (auto simp: marshalUtxoParams_def jubPointFromStrings_def split: option.split)
  ultimately show ?thesis
    by (cases p) (simp add: unmarshalUtxoParams_def marshalUtxoParams_def)
qed

end
