(* ===== verification/UtxoCodec.thy ===== *)
theory UtxoCodec
  imports Utxo
begin

text \<open>
  Outputs as they travel: \<open>internal/utxo/encrypt.go\<close> (the encrypted form a sender writes) and
  \<open>internal/functions/balance/decrypt.go\<close> (what a wallet decrypts or decodes). An encrypted output is
  the text of its fields, each written as \<open>0x\<close> and hexadecimal digits, sealed for the recipient; an
  on-chain output is eight 32-byte words.
\<close>

subsection \<open>encrypt.go\<close>

definition sealedKeysVersion :: nat where
  "sealedKeysVersion = 54912"

definition sealedKeysPrefix :: bytes where
  "sealedKeysPrefix = [of_nat (sealedKeysVersion div 256), of_nat (sealedKeysVersion mod 256)]"

definition ensure0x :: "string \<Rightarrow> string" where
  "ensure0x v = (if hasPrefix v ''0x'' then v else ''0x'' @ v)"

text \<open>The text that is sealed; the mint address is the optional ninth field.\<close>

definition utxoFields :: "cryptoLib \<Rightarrow> utxo \<Rightarrow> string \<Rightarrow> int \<Rightarrow> string list res" where
  "utxoFields C u stealth ts =
     (let randomization = (case uxRandomization u of None \<Rightarrow> 0 | Some r \<Rightarrow> r);
          isNewStyle = (if uxIsNewStyle u then 1 else 0);
          (h0x, h0y) = (case uxH0 u of None \<Rightarrow> (0, 0) | Some h \<Rightarrow> h);
          parts = [ToBeHex (uxAmount u), ensure0x (uxErc20 u), ToBeHex (Some randomization),
                   ensure0x stealth, ToBeHex (Some ts), ToBeHex (Some isNewStyle),
                   ToBeHex (Some h0x), ToBeHex (Some h0y)]
      in if uxMint u \<noteq> []
         then andThen (b58Decode C (uxMint u)) (\<lambda>mintBytes. Ok (parts @ [''0x'' @ hexEncode mintBytes]))
         else Ok parts)"

definition EncryptUtxo :: "cryptoLib \<Rightarrow> (nat \<Rightarrow> nat \<Rightarrow> bytes res) \<Rightarrow> (utxo, bytes) action" where
  "EncryptUtxo C randRead =
     bindA (GetStealthAddressUtxo C) (\<lambda>stealth u.
       bindA (liftA (ParseBigInt (uxTimeStamp u))) (\<lambda>ts.
       bindA (liftA (utxoFields C u stealth ts)) (\<lambda>parts.
       bindA (liftA (GetEncryptionKey C u)) (\<lambda>encKeyHex.
         (let pkBytes = fromHex C encKeyHex in
          if length pkBytes \<noteq> 32 then liftA (Err (ErrMsg ''utxo: encryption public key is not 32 bytes''))
          else
            bindA (liftA (EncryptSealedKeys C randRead (bytesOfString (concat parts)) [pkBytes])) (\<lambda>encrypted.
            liftA (Ok (sealedKeysPrefix @ encrypted))))))) u)"

subsection \<open>decrypt.go\<close>

definition highestMask :: int where
  "highestMask = push_bit 255 1 - 1"

definition splitHexParts :: "string \<Rightarrow> string list" where
  "splitHexParts s = filter (\<lambda>p. p \<noteq> []) (splitStr s ''0x'')"

text \<open>\<open>parseHex s\<close> is \<open>ParseBigInt("0x" + s)\<close>.\<close>

definition parseHex :: "string \<Rightarrow> int res" where
  "parseHex s = ParseBigInt (''0x'' @ s)"

definition mintOfParts :: "cryptoLib \<Rightarrow> string list \<Rightarrow> nat \<Rightarrow> string" where
  "mintOfParts C parts mintIndex =
     (if mintIndex < length parts then
        (case hexDecode (parts ! mintIndex) of
           Ok mintBytes \<Rightarrow> if length mintBytes = 32 then b58Encode C mintBytes else []
         | _ \<Rightarrow> [])
      else [])"

definition parseUtxoParts :: "cryptoLib \<Rightarrow> string \<Rightarrow> string list \<Rightarrow> utxoParams res" where
  "parseUtxoParts C spk parts =
     (if length parts < 5 then Err (ErrMsg ''decrypt utxo: too few fields'')
      else
        andThen (parseHex (parts ! 0)) (\<lambda>amount.
        andThen (parseHex (parts ! 2)) (\<lambda>randomization.
        andThen (parseHex (parts ! 4)) (\<lambda>ts.
          (let isNewLayout = length parts \<ge> 8 in
           andThen (if isNewLayout then andThen (parseHex (parts ! 5)) (\<lambda>flag. Ok (flag \<noteq> 0)) else Ok False)
             (\<lambda>isNewStyle.
               (let mint = mintOfParts C parts (if isNewLayout then 8 else 6);
                    params = \<lparr>upAmount = Some amount, upErc20 = ''0x'' @ parts ! 1, upMint = mint,
                       upTimeStamp = bigString ts, upNullifyingKey = spk, upSpendingKey = None,
                       upRandomization = Some randomization, upH0 = None, upStealth = ''0x'' @ parts ! 3,
                       upEncryptionKey = [], upCommitment = [], upNullifier = [], upIsBlocked = False,
                       upIsNewStyle = isNewStyle\<rparr>
                in if isNewStyle then
                     andThen (parseHex (parts ! 6)) (\<lambda>h0x.
                     andThen (parseHex (parts ! 7)) (\<lambda>h0y. Ok (params\<lparr>upH0 := Some (h0x, h0y)\<rparr>)))
                   else Ok params)))))))"

definition hasBytesPrefix :: "bytes \<Rightarrow> bytes \<Rightarrow> bool" where
  "hasBytesPrefix bs pre = (take (length pre) bs = pre)"

definition openUtxoData :: "cryptoLib \<Rightarrow> bytes \<Rightarrow> bytes \<Rightarrow> bytes \<Rightarrow> bytes res" where
  "openUtxoData C encryptedData pk sk =
     (if hasBytesPrefix encryptedData sealedKeysPrefix
      then DecryptSealedKeys C (drop (length sealedKeysPrefix) encryptedData) pk sk 0
      else DecryptBoxSeal C encryptedData pk sk)"

definition DecryptUtxo :: "cryptoLib \<Rightarrow> string \<Rightarrow> (nat \<Rightarrow> bytes res) \<Rightarrow> bytes \<Rightarrow> (userKeys, utxo) action" where
  "DecryptUtxo C now rand encryptedData =
     bindA (GetShieldedPrivateKey C) (\<lambda>spk.
     liftA (andThen (EncryptionKeyPair C spk) (\<lambda>(sk, pk).
       andThen (openUtxoData C encryptedData pk sk) (\<lambda>plain.
       andThen (parseUtxoParts C spk (splitHexParts (stringOfBytes plain))) (NewUtxo C now rand)))))"

definition DecryptUtxoHex :: "cryptoLib \<Rightarrow> string \<Rightarrow> (nat \<Rightarrow> bytes res) \<Rightarrow> string \<Rightarrow> (userKeys, utxo) action" where
  "DecryptUtxoHex C now rand encryptedHex = DecryptUtxo C now rand (fromHex C encryptedHex)"

definition checkUtxoSignature :: "cryptoLib \<Rightarrow> int \<Rightarrow> int \<Rightarrow> int \<Rightarrow> string \<Rightarrow> bool \<Rightarrow> bool res" where
  "checkUtxoSignature C h0x h0y h1y privateKey isNewStyle =
     (if isNewStyle then VerifyStealthPair C (h0x, h0y) (0, h1y) privateKey True
      else CheckSignature C h0x h0y h1y privateKey)"

definition wordBytes :: "bytes \<Rightarrow> nat \<Rightarrow> bytes" where
  "wordBytes encodedData i = take 32 (drop (i * 32) encodedData)"

definition wordAt :: "bytes \<Rightarrow> nat \<Rightarrow> int" where
  "wordAt encodedData i = setBytes (wordBytes encodedData i)"

definition onChainParams ::
  "int \<Rightarrow> string \<Rightarrow> string \<Rightarrow> int \<Rightarrow> string \<Rightarrow> int \<Rightarrow> int \<Rightarrow> bool \<Rightarrow> int \<Rightarrow> utxoParams" where
  "onChainParams amount token mint ts spk randomization h0y isNewStyle stealth =
     \<lparr>upAmount = Some amount, upErc20 = token, upMint = mint, upTimeStamp = bigString ts,
      upNullifyingKey = spk, upSpendingKey = None,
      upRandomization = (if isNewStyle then None else Some randomization),
      upH0 = (if isNewStyle then Some (randomization, h0y) else None),
      upStealth = ToBeHex (Some stealth), upEncryptionKey = [], upCommitment = [], upNullifier = [],
      upIsBlocked = False, upIsNewStyle = isNewStyle\<rparr>"

definition DecodeEvmUtxo :: "cryptoLib \<Rightarrow> string \<Rightarrow> (nat \<Rightarrow> bytes res) \<Rightarrow> bytes \<Rightarrow> (userKeys, utxo) action" where
  "DecodeEvmUtxo C now rand encodedData =
     (if length encodedData \<noteq> 32 * 8 then liftA (Err (ErrMsg ''decode evm utxo: expected 256 bytes''))
      else
        bindA (GetShieldedPrivateKey C) (\<lambda>spk.
          (let amount = wordAt encodedData 0;
               tokenAddress = addressHex C (take 20 (drop (32 + 12) encodedData));
               rawH0x = wordAt encodedData 2;
               isNewStyle = bit rawH0x 255;
               randomization = rawH0x AND highestMask;
               h0y = wordAt encodedData 4;
               h1y = wordAt encodedData 5;
               ts = wordAt encodedData 6
           in liftA (andThen (checkUtxoSignature C randomization h0y h1y spk isNewStyle) (\<lambda>ok.
                if \<not> ok then Err (ErrMsg ''decode evm utxo: stealth pair does not belong to user'')
                else NewUtxo C now rand (onChainParams amount tokenAddress [] ts spk randomization h0y
                       isNewStyle (wordAt encodedData 3)))))))"

definition DecodeEvmUtxoHex :: "cryptoLib \<Rightarrow> string \<Rightarrow> (nat \<Rightarrow> bytes res) \<Rightarrow> string \<Rightarrow> (userKeys, utxo) action" where
  "DecodeEvmUtxoHex C now rand encodedHex = DecodeEvmUtxo C now rand (fromHex C encodedHex)"

definition DecodeSolanaOnChainUtxo ::
  "cryptoLib \<Rightarrow> string \<Rightarrow> (nat \<Rightarrow> bytes res) \<Rightarrow> string \<Rightarrow> (userKeys, utxo) action" where
  "DecodeSolanaOnChainUtxo C now rand encodedOutput =
     (if \<not> hasPrefix encodedOutput ''solana-on-chain-utxo:''
      then liftA (Err (ErrMsg ''decode solana on-chain utxo: invalid prefix''))
      else
        (let encodedData = fromHex C (trimPrefix encodedOutput ''solana-on-chain-utxo:'') in
         if length encodedData \<noteq> 32 * 8
         then liftA (Err (ErrMsg ''decode solana on-chain utxo: expected 256 bytes''))
         else
           bindA (GetShieldedPrivateKey C) (\<lambda>spk.
             (let amount = wordAt encodedData 0;
                  mintPart1 = wordAt encodedData 1;
                  mintPart2 = wordAt encodedData 2;
                  rawH0x = wordAt encodedData 3;
                  isNewStyle = bit rawH0x 255;
                  randomization = rawH0x AND highestMask;
                  h0y = wordAt encodedData 5;
                  h1y = wordAt encodedData 6;
                  ts = wordAt encodedData 7;
                  mintBytes = drop 16 (wordBytes encodedData 1) @ drop 16 (wordBytes encodedData 2)
              in liftA (andThen (checkUtxoSignature C randomization h0y h1y spk isNewStyle) (\<lambda>ok.
                   if \<not> ok then Err (ErrMsg ''decode solana on-chain utxo: stealth pair does not belong to user'')
                   else andThen (PoseidonBig C [Some mintPart1, Some mintPart2]) (\<lambda>tokenHash.
                        NewUtxo C now rand (onChainParams amount (ToBeHex (Some tokenHash)) (b58Encode C mintBytes)
                          ts spk randomization h0y isNewStyle (wordAt encodedData 4)))))))))"

definition DecodeUtxo :: "cryptoLib \<Rightarrow> string \<Rightarrow> (nat \<Rightarrow> bytes res) \<Rightarrow> string \<Rightarrow> int \<Rightarrow> (userKeys, utxo) action" where
  "DecodeUtxo C now rand encodedOutput chainID =
     (if IsSolanaLike chainID then DecodeSolanaOnChainUtxo C now rand encodedOutput
      else DecodeEvmUtxoHex C now rand encodedOutput)"

end
