(* ===== verification/Cache.thy ===== *)
theory Cache
  imports Snapshots
begin

text \<open>
  The output cache: the memory, file and no-op devices (\<open>internal/cache/cache.go\<close>, \<open>file_cache.go\<close>) and the wallet's
  cache on top of them. A device is the state behind its mutex; the file of the file device is part of its
  state, and \<open>None\<close> is a file that can not be read. \<open>mapText\<close> and \<open>mapParse\<close> are \<open>json.Marshal\<close> and
  \<open>json.Unmarshal\<close> of a map of strings, \<open>cacheText\<close> and \<open>cacheParse\<close> those of the wallet's cache.
\<close>

subsection \<open>Devices\<close>

record memoryCache =
  mcStore :: "string \<rightharpoonup> string"

definition NewMemoryCacheDevice :: memoryCache where
  "NewMemoryCacheDevice = \<lparr>mcStore = Map.empty\<rparr>"

definition NewMemoryCacheDeviceWithSerialized :: "(string \<times> string) list \<Rightarrow> memoryCache" where
  "NewMemoryCacheDeviceWithSerialized serialized =
     foldl (\<lambda>d entry. d\<lparr>mcStore := putEntry (mcStore d) entry\<rparr>) NewMemoryCacheDevice serialized"

definition memoryGet :: "memoryCache \<Rightarrow> string \<Rightarrow> string option" where
  "memoryGet d key = mcStore d key"

definition memorySet :: "string \<Rightarrow> string \<Rightarrow> memoryCache \<Rightarrow> memoryCache res" where
  "memorySet key v d = Ok (d\<lparr>mcStore := (mcStore d)(key \<mapsto> v)\<rparr>)"

definition noopGet :: "unit \<Rightarrow> string \<Rightarrow> string option" where
  "noopGet d key = None"

definition noopSet :: "string \<Rightarrow> string \<Rightarrow> unit \<Rightarrow> unit res" where
  "noopSet key v d = Ok ()"

text \<open>The file device: its map may be nil, after a file that holds \<open>null\<close>.\<close>

record fileSystem =
  fsContent :: "string option"
  fsCanMkdir :: bool
  fsCanWrite :: bool
  fsCanRename :: bool

record fileCache =
  fcPath :: string
  fcDirNamed :: bool
  fcStore :: "(string \<rightharpoonup> string) option"
  fcFile :: fileSystem

record mapJson =
  mapText :: "(string \<rightharpoonup> string) option \<Rightarrow> string res"
  mapParse :: "string \<Rightarrow> (string \<rightharpoonup> string) option option"

definition readFileLocked :: "mapJson \<Rightarrow> fileCache \<Rightarrow> fileCache" where
  "readFileLocked M d =
     (if fcPath d = [] then d
      else
        (case fsContent (fcFile d) of
           None \<Rightarrow> d
         | Some raw \<Rightarrow>
             if raw = [] then d
             else (case mapParse M raw of None \<Rightarrow> d | Some parsed \<Rightarrow> d\<lparr>fcStore := parsed\<rparr>)))"

definition writeFileLocked :: "mapJson \<Rightarrow> fileCache \<Rightarrow> fileCache" where
  "writeFileLocked M d =
     (if fcPath d = [] then d
      else
        (case mapText M (fcStore d) of
           Ok raw \<Rightarrow>
             if fcDirNamed d \<and> \<not> fsCanMkdir (fcFile d) then d
             else if \<not> fsCanWrite (fcFile d) then d
             else if fsCanRename (fcFile d) then d\<lparr>fcFile := (fcFile d)\<lparr>fsContent := Some raw\<rparr>\<rparr>
             else d
         | _ \<Rightarrow> d))"

definition NewFileCacheDevice :: "mapJson \<Rightarrow> string option \<Rightarrow> string \<Rightarrow> bool \<Rightarrow> fileSystem \<Rightarrow> fileCache" where
  "NewFileCacheDevice M cwdPath filePath dirNamed fs =
     (let path = (if filePath = []
                  then (case cwdPath of Some p \<Rightarrow> p | None \<Rightarrow> ''hinkalCache.json'') else filePath)
      in readFileLocked M \<lparr>fcPath = path, fcDirNamed = dirNamed, fcStore = Some Map.empty, fcFile = fs\<rparr>)"

definition fileGet :: "fileCache \<Rightarrow> string \<Rightarrow> string option" where
  "fileGet d key = (case fcStore d of None \<Rightarrow> None | Some m \<Rightarrow> m key)"

definition fileSet :: "mapJson \<Rightarrow> string \<Rightarrow> string \<Rightarrow> fileCache \<Rightarrow> fileCache res" where
  "fileSet M key v d =
     (let d1 = readFileLocked M d in
      case fcStore d1 of
        None \<Rightarrow> Panic ''assignment to entry in nil map''
      | Some m \<Rightarrow> Ok (writeFileLocked M (d1\<lparr>fcStore := Some (m(key \<mapsto> v))\<rparr>)))"

subsection \<open>The wallet's cache\<close>

record hinkalCache =
  hcOutputs :: "encryptedOutputWithSign list"
  hcLastOutput :: string

record cacheJson =
  cacheText :: "hinkalCache \<Rightarrow> string res"
  cacheParse :: "string \<Rightarrow> hinkalCache option"

record 'd cacheDevice =
  cdGet :: "'d \<Rightarrow> string \<Rightarrow> string option"
  cdSet :: "string \<Rightarrow> string \<Rightarrow> 'd \<Rightarrow> 'd res"

definition memoryDevice :: "memoryCache cacheDevice" where
  "memoryDevice = \<lparr>cdGet = memoryGet, cdSet = memorySet\<rparr>"

definition fileDevice :: "mapJson \<Rightarrow> fileCache cacheDevice" where
  "fileDevice M = \<lparr>cdGet = fileGet, cdSet = fileSet M\<rparr>"

definition noopDevice :: "unit cacheDevice" where
  "noopDevice = \<lparr>cdGet = noopGet, cdSet = noopSet\<rparr>"

definition emptyHinkalCache :: hinkalCache where
  "emptyHinkalCache = \<lparr>hcOutputs = [], hcLastOutput = []\<rparr>"

definition substring :: "string \<Rightarrow> nat \<Rightarrow> string" where
  "substring s n = (if length s < n then s else take n s)"

definition shortStrings :: "string \<Rightarrow> string \<Rightarrow> string \<times> string" where
  "shortStrings shieldedPublicKey hinkalAddress = (substring shieldedPublicKey 25, substring hinkalAddress 25)"

definition GetFilePath :: "int \<Rightarrow> string \<Rightarrow> string \<Rightarrow> string" where
  "GetFilePath chainID shortPublicKey shortHinkalAddress =
     ''hinkalCache-'' @ bigString chainID @ ''-'' @ shortPublicKey @ ''-'' @ shortHinkalAddress"

definition GetHinkalCache ::
  "cacheJson \<Rightarrow> 'd cacheDevice \<Rightarrow> (int \<Rightarrow> string) \<Rightarrow> int \<Rightarrow> string \<Rightarrow> 'd \<Rightarrow> hinkalCache res" where
  "GetHinkalCache K dev hinkalAddressOf chainID shieldedPublicKey d =
     (let hinkalAddress = hinkalAddressOf chainID in
      if chainID = 0 \<or> shieldedPublicKey = [] \<or> hinkalAddress = []
      then Err (ErrMsg ''GetHinkalCache: incorrect arguments'')
      else
        (let (shortPublicKey, shortHinkalAddress) = shortStrings shieldedPublicKey hinkalAddress in
         case cdGet dev d (GetFilePath chainID shortPublicKey shortHinkalAddress) of
           None \<Rightarrow> Ok emptyHinkalCache
         | Some raw \<Rightarrow> Ok (case cacheParse K raw of None \<Rightarrow> emptyHinkalCache | Some c \<Rightarrow> c)))"

definition SetHinkalCache ::
  "cacheJson \<Rightarrow> 'd cacheDevice \<Rightarrow> (int \<Rightarrow> string) \<Rightarrow> int \<Rightarrow> string \<Rightarrow> hinkalCache \<Rightarrow> ('d, unit) action" where
  "SetHinkalCache K dev hinkalAddressOf chainID shieldedPublicKey hinkalCache d =
     (let hinkalAddress = hinkalAddressOf chainID in
      if chainID = 0 \<or> shieldedPublicKey = [] \<or> hinkalAddress = []
      then (Err (ErrMsg ''SetHinkalCache: incorrect arguments''), d)
      else
        (let (shortPublicKey, shortHinkalAddress) = shortStrings shieldedPublicKey hinkalAddress in
         case cacheText K hinkalCache of
           Err e \<Rightarrow> (Err e, d)
         | Panic p \<Rightarrow> (Panic p, d)
         | Ok raw \<Rightarrow>
             (case cdSet dev (GetFilePath chainID shortPublicKey shortHinkalAddress) raw d of
                Ok d' \<Rightarrow> (Ok (), d')
              | Err e \<Rightarrow> (Err e, d)
              | Panic p \<Rightarrow> (Panic p, d))))"

definition ResetCache ::
  "cacheJson \<Rightarrow> 'd cacheDevice \<Rightarrow> (int \<Rightarrow> string) \<Rightarrow> int \<Rightarrow> string \<Rightarrow> ('d, unit) action" where
  "ResetCache K dev hinkalAddressOf chainID shieldedPublicKey =
     SetHinkalCache K dev hinkalAddressOf chainID shieldedPublicKey emptyHinkalCache"

subsection \<open>What the wallet relies on of a device\<close>

locale cache_device =
  fixes dev :: "'d cacheDevice"
  assumes get_after_set: "cdSet dev k v d = Ok d' \<Longrightarrow> cdGet dev d' k = Some v"
begin

lemma cache_after_set:
  assumes "SetHinkalCache K dev addr chainID key c d = (Ok u, d')" "\<And>t. cacheText K c = Ok t \<Longrightarrow> cacheParse K t = Some c"
  shows "GetHinkalCache K dev addr chainID key d' = Ok c"
  using assms get_after_set
  by (auto simp: SetHinkalCache_def GetHinkalCache_def Let_def split: if_splits res.splits prod.splits)

lemma cache_after_reset:
  assumes "ResetCache K dev addr chainID key d = (Ok u, d')"
    and "\<And>t. cacheText K emptyHinkalCache = Ok t \<Longrightarrow> cacheParse K t = Some emptyHinkalCache"
  shows "GetHinkalCache K dev addr chainID key d' = Ok emptyHinkalCache"
  using assms unfolding ResetCache_def by (rule cache_after_set)

end

interpretation memoryCacheDevice: cache_device memoryDevice
  by unfold_locales (auto simp: memoryDevice_def memorySet_def memoryGet_def)

interpretation fileCacheDevice: cache_device "fileDevice M" for M
proof unfold_locales
  fix k v d d' assume "cdSet (fileDevice M) k v d = Ok d'"
  then obtain m where m: "d' = writeFileLocked M ((readFileLocked M d)\<lparr>fcStore := Some (m(k \<mapsto> v))\<rparr>)"
    by (auto simp: fileDevice_def fileSet_def Let_def split: option.splits)
  have "fcStore (writeFileLocked M x) = fcStore x" for x
    by (simp add: writeFileLocked_def split: res.split)
  then show "cdGet (fileDevice M) d' k = Some v" by (simp add: m fileDevice_def fileGet_def)
qed

text \<open>What the wallet stores for a chain and key is what it reads back, through the memory and the file device
  alike, whatever the file held and whether or not it could be written.\<close>

theorem cache_set_get:
  assumes "\<And>t. cacheText K c = Ok t \<Longrightarrow> cacheParse K t = Some c"
  shows "(SetHinkalCache K memoryDevice addr chainID key c m = (Ok (), m') \<longrightarrow>
       GetHinkalCache K memoryDevice addr chainID key m' = Ok c) \<and>
     (SetHinkalCache K (fileDevice M) addr chainID key c f = (Ok (), f') \<longrightarrow>
       GetHinkalCache K (fileDevice M) addr chainID key f' = Ok c)"
  using memoryCacheDevice.cache_after_set [OF _ assms] fileCacheDevice.cache_after_set [OF _ assms] by blast

definition toyCacheJson :: cacheJson where
  "toyCacheJson = \<lparr>cacheText = (\<lambda>c. Ok (hcLastOutput c)), cacheParse = (\<lambda>t. Some \<lparr>hcOutputs = [], hcLastOutput = t\<rparr>)\<rparr>"

definition toyMapJson :: mapJson where
  "toyMapJson = \<lparr>mapText = (\<lambda>_. Ok ''{}''), mapParse = (\<lambda>_. Some (Some Map.empty))\<rparr>"

lemma cache_set_get_witness:
  "\<exists>f'. GetHinkalCache toyCacheJson (fileDevice toyMapJson) (\<lambda>_. ''0xhinkal'') 1 ''0xkey'' f' = Ok \<lparr>hcOutputs = [], hcLastOutput = ''0xff''\<rparr>"
proof -
  let ?f = "NewFileCacheDevice toyMapJson None ''c.json'' False \<lparr>fsContent = None, fsCanMkdir = True, fsCanWrite = True, fsCanRename = True\<rparr>"
  let ?c = "\<lparr>hcOutputs = [], hcLastOutput = ''0xff''\<rparr>"
  have "\<exists>d'. fileSet toyMapJson k v ?f = Ok d'" for k v
    by (simp add: fileSet_def NewFileCacheDevice_def readFileLocked_def)
  then obtain f' where f': "fileSet toyMapJson (GetFilePath 1 ''0xkey'' ''0xhinkal'') ''0xff'' ?f = Ok f'" by blast
  have "shortStrings ''0xkey'' ''0xhinkal'' = (''0xkey'', ''0xhinkal'')" by (simp add: shortStrings_def substring_def)
  with f' have "SetHinkalCache toyCacheJson (fileDevice toyMapJson) (\<lambda>_. ''0xhinkal'') 1 ''0xkey'' ?c ?f = (Ok (), f')"
    by (simp add: SetHinkalCache_def toyCacheJson_def fileDevice_def Let_def)
  moreover have "cacheText toyCacheJson ?c = Ok t \<Longrightarrow> cacheParse toyCacheJson t = Some ?c" for t
    by (simp add: toyCacheJson_def)
  ultimately have "GetHinkalCache toyCacheJson (fileDevice toyMapJson) (\<lambda>_. ''0xhinkal'') 1 ''0xkey'' f' = Ok ?c"
    using cache_set_get [where K = toyCacheJson and c = ?c] by blast
  then show ?thesis by blast
qed

text \<open>A cache file that holds \<open>null\<close> leaves the file device without a map, and the next write panics.\<close>

theorem null_cache_file_panics:
  assumes "fcPath d \<noteq> []" "fsContent (fcFile d) = Some raw" "raw \<noteq> []" "mapParse M raw = Some None"
  shows "fileSet M k v d = Panic ''assignment to entry in nil map''"
  using assms by (simp add: fileSet_def readFileLocked_def)

lemma null_cache_file_panics_witness:
  "fileSet \<lparr>mapText = (\<lambda>_. Ok ''{}''), mapParse = (\<lambda>t. if t = ''null'' then Some None else None)\<rparr> ''k'' ''v''
     \<lparr>fcPath = ''c.json'', fcDirNamed = False, fcStore = Some Map.empty,
      fcFile = \<lparr>fsContent = Some ''null'', fsCanMkdir = True, fsCanWrite = True, fsCanRename = True\<rparr>\<rparr> =
   Panic ''assignment to entry in nil map''"
  by (rule null_cache_file_panics) simp_all

end
