(* ===== verification/Balance.thy ===== *)
theory Balance
  imports UtxoCodec Cache SolanaData Addresses
begin

text \<open>
  The wallet's balance (\<open>internal/functions/balance\<close>): which encrypted outputs it owns, the incremental scan and its
  cache, the unspent utxos per token, and the padding of inputs. The wallet is the part of \<open>HinkalInternal\<close> the
  functions use. What surrounds it is the argument \<open>env\<close>: the primitives, the clock, the random source
  (one for decoding, and one per padding utxo), the number of processors, the order in which the
  goroutines of the parallel scan get to run, and the servers.
\<close>

record 'd wallet =
  wlKeys :: userKeys
  wlOutputs :: "int \<Rightarrow> encryptedOutputWithSign list"
  wlNullifiers :: "int \<Rightarrow> string set"
  wlAddress :: "int \<Rightarrow> string"
  wlUpdatesDisabled :: bool
  wlProofRemotely :: bool
  wlEthAddress :: "int \<Rightarrow> string res"
  wlCache :: 'd

record 'd walletEnv =
  weCrypto :: cryptoLib
  weNow :: string
  weRand :: "nat \<Rightarrow> bytes res"
  wePadRand :: "nat \<Rightarrow> nat \<Rightarrow> bytes res"
  weJson :: cacheJson
  weDevice :: "'d cacheDevice"
  weCPUs :: nat
  weSchedule :: "nat list list \<Rightarrow> nat list"
  weRemote :: "int \<Rightarrow> userKeys \<Rightarrow> (utxo list \<times> encryptedOutputWithSign list \<times> string) res"
  weScheduled :: "string \<Rightarrow> string list \<Rightarrow> int list res"
  weFloatText :: "string \<Rightarrow> string res"

definition onKeys :: "(userKeys, 'a) action \<Rightarrow> ('d wallet, 'a) action" where
  "onKeys f w = (case f (wlKeys w) of (r, k) \<Rightarrow> (r, w\<lparr>wlKeys := k\<rparr>))"

definition onCache :: "('d, 'a) action \<Rightarrow> ('d wallet, 'a) action" where
  "onCache f w = (case f (wlCache w) of (r, c) \<Rightarrow> (r, w\<lparr>wlCache := c\<rparr>))"

subsection \<open>balance.go\<close>

definition decodeOutput :: "'d walletEnv \<Rightarrow> int \<Rightarrow> encryptedOutputWithSign \<Rightarrow> (userKeys, utxo) action" where
  "decodeOutput E chainID out =
     (if eoIsPositive out then DecryptUtxoHex (weCrypto E) (weNow E) (weRand E) (eoValue out)
      else DecodeUtxo (weCrypto E) (weNow E) (weRand E) (eoValue out) chainID)"

definition balanceTokenKey :: "cryptoLib \<Rightarrow> int \<Rightarrow> utxo \<Rightarrow> string res" where
  "balanceTokenKey C chainID u =
     (if IsSolanaLike chainID \<or> IsTronLike chainID then GetTokenAddress chainID u
      else Ok (hexToAddress C (uxErc20 u)))"

record balanceResult =
  brBalances :: "string \<rightharpoonup> int"
  brUtxos :: "utxo list"

definition addBalance :: "string \<Rightarrow> int \<Rightarrow> (string \<rightharpoonup> int) \<Rightarrow> (string \<rightharpoonup> int)" where
  "addBalance token amount m = m(token \<mapsto> (case m token of None \<Rightarrow> 0 | Some b \<Rightarrow> b) + amount)"

fun computeLoop ::
  "'d walletEnv \<Rightarrow> string set \<Rightarrow> int \<Rightarrow> encryptedOutputWithSign list \<Rightarrow> balanceResult \<Rightarrow> (userKeys, balanceResult) action" where
  "computeLoop E nullifiers chainID [] acc uk = (Ok acc, uk)"
| "computeLoop E nullifiers chainID (out # outs) acc uk =
     (case decodeOutput E chainID out uk of
        (Panic p, uk') \<Rightarrow> (Panic p, uk')
      | (Err e, uk') \<Rightarrow> computeLoop E nullifiers chainID outs acc uk'
      | (Ok u0, uk') \<Rightarrow>
          (let u1 = u0\<lparr>uxIsBlocked := eoIsBlocked out\<rparr> in
           case GetNullifier (weCrypto E) u1 of
             (Panic p, u) \<Rightarrow> (Panic p, uk')
           | (Err e, u) \<Rightarrow> computeLoop E nullifiers chainID outs acc uk'
           | (Ok nul, u) \<Rightarrow>
               if nul \<in> nullifiers \<or> uxIsBlocked u then computeLoop E nullifiers chainID outs acc uk'
               else
                 (case balanceTokenKey (weCrypto E) chainID u of
                    Panic p \<Rightarrow> (Panic p, uk')
                  | Err e \<Rightarrow> computeLoop E nullifiers chainID outs acc uk'
                  | Ok token \<Rightarrow>
                      (case uxAmount u of
                         None \<Rightarrow> (Panic ''nil pointer dereference'', uk')
                       | Some amount \<Rightarrow>
                           computeLoop E nullifiers chainID outs
                             (acc\<lparr>brBalances := addBalance token amount (brBalances acc), brUtxos := brUtxos acc @ [u]\<rparr>) uk'))))"

definition Compute ::
  "'d walletEnv \<Rightarrow> encryptedOutputWithSign list \<Rightarrow> string set \<Rightarrow> int \<Rightarrow> (userKeys, balanceResult) action" where
  "Compute E encryptedOutputs nullifiers chainID =
     computeLoop E nullifiers chainID encryptedOutputs \<lparr>brBalances = Map.empty, brUtxos = []\<rparr>"

subsection \<open>input_utxos.go\<close>

record inputUtxoParams =
  ipChainID :: int
  ipPassedKey :: string
  ipEthAddress :: string
  ipResetCacheBefore :: bool
  ipAllowRemote :: bool
  ipUseBlocked :: bool

fun DecodeOutputs :: "'d walletEnv \<Rightarrow> int \<Rightarrow> encryptedOutputWithSign list \<Rightarrow> (userKeys, utxo list) action" where
  "DecodeOutputs E chainID [] uk = (Ok [], uk)"
| "DecodeOutputs E chainID (out # outs) uk =
     (case decodeOutput E chainID out uk of
        (Panic p, uk') \<Rightarrow> (Panic p, uk')
      | (Err e, uk') \<Rightarrow> DecodeOutputs E chainID outs uk'
      | (Ok u, uk') \<Rightarrow>
          bindA (DecodeOutputs E chainID outs) (\<lambda>us. liftA (Ok (u\<lparr>uxIsBlocked := eoIsBlocked out\<rparr> # us))) uk')"

definition parallelDecryptThreshold :: nat where
  "parallelDecryptThreshold = 256"

text \<open>The indexes each worker goes through, and a run of all of them in the order the scheduler chose.\<close>

definition workerTasks :: "nat \<Rightarrow> nat \<Rightarrow> nat list list" where
  "workerTasks cpus n =
     (let workers = min cpus n; chunk = (n + workers - 1) div workers
      in map (\<lambda>w. [w * chunk..<min (w * chunk + chunk) n]) (takeWhile (\<lambda>w. w * chunk < n) [0..<workers]))"

fun flagOutputs ::
  "'d walletEnv \<Rightarrow> int \<Rightarrow> encryptedOutputWithSign list \<Rightarrow> nat list \<Rightarrow> bool list \<Rightarrow> (userKeys, bool list) action" where
  "flagOutputs E chainID outputs [] flags uk = (Ok flags, uk)"
| "flagOutputs E chainID outputs (i # is) flags uk =
     (case decodeOutput E chainID (outputs ! i) uk of
        (Panic p, uk') \<Rightarrow> (Panic p, uk')
      | (Err e, uk') \<Rightarrow> flagOutputs E chainID outputs is flags uk'
      | (Ok u, uk') \<Rightarrow> flagOutputs E chainID outputs is (flags[i := True]) uk')"

definition filterOwnedOutputs ::
  "'d walletEnv \<Rightarrow> int \<Rightarrow> encryptedOutputWithSign list \<Rightarrow> (userKeys, encryptedOutputWithSign list) action" where
  "filterOwnedOutputs E chainID outputs =
     bindA (GetShieldedPrivateKey (weCrypto E)) (\<lambda>_.
     bindA (flagOutputs E chainID outputs
              (if length outputs < parallelDecryptThreshold then [0..<length outputs]
               else weSchedule E (workerTasks (weCPUs E) (length outputs)))
              (replicate (length outputs) False)) (\<lambda>flags.
       liftA (Ok (map fst (filter snd (zip outputs flags))))))"

fun filterSpentUtxos :: "cryptoLib \<Rightarrow> string set \<Rightarrow> utxo list \<Rightarrow> utxo list res" where
  "filterSpentUtxos C nullifiers [] = Ok []"
| "filterSpentUtxos C nullifiers (u # us) =
     (case GetNullifier C u of
        (Panic p, u') \<Rightarrow> Panic p
      | (Err e, u') \<Rightarrow> filterSpentUtxos C nullifiers us
      | (Ok nul, u') \<Rightarrow>
          if nul \<in> nullifiers then filterSpentUtxos C nullifiers us
          else andThen (filterSpentUtxos C nullifiers us) (\<lambda>rest. Ok (u' # rest)))"

fun indexFrom :: "nat \<Rightarrow> encryptedOutputWithSign list \<Rightarrow> string \<Rightarrow> int" where
  "indexFrom i [] v = - 1"
| "indexFrom i (out # outs) v = (if eoValue out = v then int i else indexFrom (i + 1) outs v)"

definition indexOfOutput :: "encryptedOutputWithSign list \<Rightarrow> string \<Rightarrow> int" where
  "indexOfOutput outputs v = indexFrom 0 outputs v"

definition setCache :: "'d walletEnv \<Rightarrow> int \<Rightarrow> string \<Rightarrow> hinkalCache \<Rightarrow> ('d wallet, unit) action" where
  "setCache E chainID key c w = onCache (SetHinkalCache (weJson E) (weDevice E) (wlAddress w) chainID key c) w"

definition getInputUtxosLocally ::
  "'d walletEnv \<Rightarrow> int \<Rightarrow> string \<Rightarrow> encryptedOutputWithSign list \<Rightarrow> encryptedOutputWithSign list \<Rightarrow> string \<Rightarrow> int \<Rightarrow>
   ('d wallet, utxo list) action" where
  "getInputUtxosLocally E chainID key hinkalOutputs cachedOutputs lastOutput lastOutputIndex0 =
     (let lastOutputIndex = lastOutputIndex0 + 1;
          outputsSlice = (if lastOutputIndex < int (length hinkalOutputs) then drop (nat lastOutputIndex) hinkalOutputs else [])
      in bindA (onKeys (filterOwnedOutputs E chainID outputsSlice)) (\<lambda>additional.
           (let lastOutputNew = (if hinkalOutputs \<noteq> [] then eoValue (last hinkalOutputs) else lastOutput);
                newOutputs = cachedOutputs @ additional
            in bindA (setCache E chainID key \<lparr>hcOutputs = newOutputs, hcLastOutput = lastOutputNew\<rparr>) (\<lambda>_.
                 onKeys (DecodeOutputs E chainID newOutputs)))))"

definition getInputUtxosRemotely :: "'d walletEnv \<Rightarrow> int \<Rightarrow> string \<Rightarrow> ('d wallet, utxo list) action" where
  "getInputUtxosRemotely E chainID key w =
     bindA (liftA (weRemote E chainID (wlKeys w))) (\<lambda>(resolved, newOutputs, lastOutput).
     bindA (setCache E chainID key \<lparr>hcOutputs = newOutputs, hcLastOutput = lastOutput\<rparr>) (\<lambda>_.
       liftA (Ok resolved))) w"

definition attemptGetInputUtxosRemotely ::
  "'d walletEnv \<Rightarrow> int \<Rightarrow> string \<Rightarrow> encryptedOutputWithSign list \<Rightarrow> encryptedOutputWithSign list \<Rightarrow> string \<Rightarrow> int \<Rightarrow>
   ('d wallet, utxo list) action" where
  "attemptGetInputUtxosRemotely E chainID key hinkalOutputs cachedOutputs lastOutput lastOutputIndex w =
     (case getInputUtxosRemotely E chainID key w of
        (Err e, w') \<Rightarrow> getInputUtxosLocally E chainID key hinkalOutputs cachedOutputs lastOutput lastOutputIndex w'
      | r \<Rightarrow> r)"

definition GetInputUtxoAndBalance :: "'d walletEnv \<Rightarrow> inputUtxoParams \<Rightarrow> ('d wallet, utxo list) action" where
  "GetInputUtxoAndBalance E p =
     (let chainID = ipChainID p in
      bindA (if ipPassedKey p = [] then onKeys (GetShieldedPublicKey (weCrypto E)) else liftA (Ok (ipPassedKey p))) (\<lambda>key.
      bindA (if ipResetCacheBefore p
             then (\<lambda>w. onCache (ResetCache (weJson E) (weDevice E) (wlAddress w) chainID key) w) else liftA (Ok ())) (\<lambda>_.
      bindA (\<lambda>w. (GetHinkalCache (weJson E) (weDevice E) (wlAddress w) chainID key (wlCache w), w)) (\<lambda>cached w.
        (let hinkalOutputs = wlOutputs w chainID;
             lastOutput = hcLastOutput cached;
             lastOutputIndex = indexOfOutput hinkalOutputs lastOutput;
             case1 = lastOutputIndex > - 1;
             case2 = (lastOutput = [] \<and> lastOutputIndex = - 1);
             forceReadFromCache = wlUpdatesDisabled w;
             decryptLocally = (\<not> forceReadFromCache \<and> (case1 \<or> (\<not> ipAllowRemote p \<and> case2)));
             decryptRemotely = (\<not> forceReadFromCache \<and> ipAllowRemote p \<and> case2)
         in bindA (if decryptLocally
                   then getInputUtxosLocally E chainID key hinkalOutputs (hcOutputs cached) lastOutput lastOutputIndex
                   else if decryptRemotely
                   then attemptGetInputUtxosRemotely E chainID key hinkalOutputs (hcOutputs cached) lastOutput lastOutputIndex
                   else onKeys (DecodeOutputs E chainID (hcOutputs cached))) (\<lambda>allUtxos w'.
              bindA (liftA (filterSpentUtxos (weCrypto E) (wlNullifiers w' chainID) allUtxos)) (\<lambda>inputUtxos.
                liftA (Ok (filter (\<lambda>u. uxIsBlocked u = ipUseBlocked p) inputUtxos))) w') w)))))"

subsection \<open>stuck_utxos.go\<close>

definition GetInputUtxoAndBalanceOfStuckUtxos ::
  "'d walletEnv \<Rightarrow> (string \<Rightarrow> string res) \<Rightarrow> inputUtxoParams \<Rightarrow> ('d wallet, utxo list) action" where
  "GetInputUtxoAndBalanceOfStuckUtxos E toHexFormat p =
     bindA (liftA (if IsTronLike (ipChainID p) then toHexFormat (ipEthAddress p) else Ok (ipEthAddress p))) (\<lambda>addressForHashing.
     bindA (GetInputUtxoAndBalance E (p\<lparr>ipUseBlocked := True\<rparr>)) (\<lambda>inputUtxos.
       if inputUtxos = [] then liftA (Ok [])
       else
         bindA (liftA (mapRes (\<lambda>u. fst (GetNullifier (weCrypto E) u)) inputUtxos)) (\<lambda>nullifiers.
         bindA (liftA (weScheduled E (HashEthereumAddress (keccak256 (weCrypto E)) addressForHashing) nullifiers)) (\<lambda>indexes.
           liftA (Ok (map (\<lambda>i. inputUtxos ! nat i) (filter (\<lambda>i. 0 \<le> i \<and> i < int (length inputUtxos)) indexes)))))))"

subsection \<open>get_shielded_balance.go\<close>

record tokenBalance =
  tbToken :: erc20Token
  tbBalance :: int
  tbTimestamp :: string

fun sumToken :: "int \<Rightarrow> string \<Rightarrow> utxo list \<Rightarrow> int \<Rightarrow> string \<Rightarrow> (int \<times> string) res" where
  "sumToken chainID token [] balance timestamp = Ok (balance, timestamp)"
| "sumToken chainID token (u # us) balance timestamp =
     (case GetTokenAddress chainID u of
        Ok tokenAddress \<Rightarrow>
          if \<not> equalFold token tokenAddress then sumToken chainID token us balance timestamp
          else
            (case uxAmount u of
               None \<Rightarrow> Panic ''nil pointer dereference''
             | Some a \<Rightarrow> sumToken chainID token us (balance + a) (if timestamp = [] then uxTimeStamp u else timestamp))
      | _ \<Rightarrow> sumToken chainID token us balance timestamp)"

fun balancesLoop :: "int \<Rightarrow> utxo list \<Rightarrow> erc20Token list \<Rightarrow> (string \<rightharpoonup> tokenBalance) \<Rightarrow> (string \<rightharpoonup> tokenBalance) res" where
  "balancesLoop chainID us [] m = Ok m"
| "balancesLoop chainID us (token # tokens) m =
     andThen (sumToken chainID (tkAddress token) us 0 []) (\<lambda>(balance, timestamp).
       balancesLoop chainID us tokens
         (m(toLower (tkAddress token) \<mapsto> \<lparr>tbToken = token, tbBalance = balance, tbTimestamp = timestamp\<rparr>)))"

text \<open>The chain's mutex makes a call one step; \<open>registry\<close> is the chain's token table.\<close>

definition GetShieldedBalance ::
  "'d walletEnv \<Rightarrow> (string \<Rightarrow> string res) \<Rightarrow> erc20Token list \<Rightarrow> inputUtxoParams \<Rightarrow> bool \<Rightarrow>
   ('d wallet, string \<rightharpoonup> tokenBalance) action" where
  "GetShieldedBalance E toHexFormat registry p useBlocked =
     (let params = p\<lparr>ipUseBlocked := False\<rparr> in
      bindA (if useBlocked then GetInputUtxoAndBalanceOfStuckUtxos E toHexFormat params else GetInputUtxoAndBalance E params) (\<lambda>inputUtxos.
        liftA (balancesLoop (ipChainID p) inputUtxos registry Map.empty)))"

end
