(* ===== verification/BalanceTokens.thy ===== *)
theory BalanceTokens
  imports Balance Amounts Chains
begin

text \<open>
  The inputs of a transaction (\<open>input_utxos_per_token.go\<close>, \<open>add_padding_to_utxos.go\<close>): the unspent utxos grouped by
  token, largest first, padded with empty utxos. The map of the source and its \<open>keyOrder\<close> are one association
  list in key order. The \<open>n\<close>-th padding utxo of a call draws its randomness from \<open>wePadRand E n\<close>.
\<close>

subsection \<open>input_utxos_per_token.go\<close>

record tokenWithID =
  twAddress :: string
  twID :: int

type_synonym utxoTable = "(string \<times> utxo list) list"

definition encodeTokenWithID :: "int \<Rightarrow> string \<Rightarrow> string" where
  "encodeTokenWithID chainID erc20TokenAddress =
     (let key = erc20TokenAddress @ ''-0''
      in if IsSolanaLike chainID then key else toLower key)"

definition tableGet :: "utxoTable \<Rightarrow> string \<Rightarrow> utxo list" where
  "tableGet m key = (case map_of m key of None \<Rightarrow> [] | Some us \<Rightarrow> us)"

definition addKey :: "string \<Rightarrow> utxoTable \<Rightarrow> utxoTable" where
  "addKey key m = (if map_of m key = None then m @ [(key, [])] else m)"

definition addUtxo :: "string \<Rightarrow> utxo \<Rightarrow> utxoTable \<Rightarrow> utxoTable" where
  "addUtxo key u m = AList.update key (tableGet (addKey key m) key @ [u]) (addKey key m)"

fun anyTokenAddressMatches :: "tokenWithID list \<Rightarrow> string \<Rightarrow> bool" where
  "anyTokenAddressMatches [] tokenAddress = False"
| "anyTokenAddressMatches (t # ts) tokenAddress =
     (if equalFold (twAddress t) tokenAddress then True else anyTokenAddressMatches ts tokenAddress)"

fun groupUtxos :: "int \<Rightarrow> tokenWithID list option \<Rightarrow> utxo list \<Rightarrow> utxoTable \<Rightarrow> utxoTable" where
  "groupUtxos chainID tokens [] m = m"
| "groupUtxos chainID tokens (u # us) m =
     groupUtxos chainID tokens us
       (case GetTokenAddress chainID u of
          Ok tokenAddress \<Rightarrow>
            (case tokens of
               Some ts \<Rightarrow> if \<not> anyTokenAddressMatches ts tokenAddress then m
                          else addUtxo (encodeTokenWithID chainID tokenAddress) u m
             | None \<Rightarrow> addUtxo (encodeTokenWithID chainID tokenAddress) u m)
        | _ \<Rightarrow> m)"

fun ensureKeys :: "int \<Rightarrow> tokenWithID list \<Rightarrow> utxoTable \<Rightarrow> utxoTable" where
  "ensureKeys chainID [] m = m"
| "ensureKeys chainID (t # ts) m = ensureKeys chainID ts (addKey (encodeTokenWithID chainID (twAddress t)) m)"

text \<open>The keys and addresses a padding utxo is made of.\<close>

record padSource =
  psPrivate :: string
  psSpending :: "int list"
  psErc20 :: string
  psMint :: string

definition padParams :: "padSource \<Rightarrow> utxoParams" where
  "padParams s = \<lparr>upAmount = Some 0, upErc20 = psErc20 s, upMint = psMint s, upTimeStamp = [],
      upNullifyingKey = psPrivate s, upSpendingKey = Some (psSpending s), upRandomization = None, upH0 = None,
      upStealth = [], upEncryptionKey = [], upCommitment = [], upNullifier = [], upIsBlocked = False,
      upIsNewStyle = True\<rparr>"

definition padUtxo :: "'d walletEnv \<Rightarrow> padSource \<Rightarrow> nat \<Rightarrow> utxo res" where
  "padUtxo E s n = NewUtxo (weCrypto E) (weNow E) (wePadRand E n) (padParams s)"

definition amountOf :: "utxo \<Rightarrow> int" where
  "amountOf u = (case uxAmount u of None \<Rightarrow> 0 | Some a \<Rightarrow> a)"

text \<open>
  The stable sort by falling amount. \<open>Cmp\<close> panics on one nil operand and finds two of them equal, and a sort
  has to compare a nil amount with a number when both occur.
\<close>

definition sortUtxos :: "utxo list \<Rightarrow> utxo list res" where
  "sortUtxos us =
     (if (\<exists>u\<in>set us. uxAmount u = None) \<and> (\<exists>u\<in>set us. uxAmount u \<noteq> None)
      then Panic ''nil pointer dereference''
      else Ok (sort_key (\<lambda>u. - amountOf u) us))"

text \<open>The padding loop; it yields the next unused random index beside the utxos.\<close>

partial_function (option) padLoop ::
  "(nat \<Rightarrow> utxo res) \<Rightarrow> int \<Rightarrow> bool \<Rightarrow> nat \<Rightarrow> utxo list \<Rightarrow> (utxo list \<times> nat) res option" where
  "padLoop pad minInput sliceIfMore6 n us =
     (if int (length us) < minInput \<or> (minInput < int (length us) \<and> length us < 6) then
        (case pad n of
           Ok u \<Rightarrow> padLoop pad minInput sliceIfMore6 (n + 1)
                     (if sliceIfMore6 then take 6 (us @ [u]) else us @ [u])
         | Err e \<Rightarrow> Some (Err e)
         | Panic p \<Rightarrow> Some (Panic p))
      else Some (Ok (us, n)))"

declare padLoop.simps [code]

definition sortAndPadUtxos ::
  "(nat \<Rightarrow> utxo res) \<Rightarrow> int \<Rightarrow> bool \<Rightarrow> nat \<Rightarrow> utxo list \<Rightarrow> (utxo list \<times> nat) res" where
  "sortAndPadUtxos pad minInput sliceIfMore6 n us =
     andThen (sortUtxos us) (\<lambda>sorted. returned (padLoop pad minInput sliceIfMore6 n sorted))"

definition sourceOfKey :: "cryptoLib \<Rightarrow> int \<Rightarrow> string \<Rightarrow> int list \<Rightarrow> string \<Rightarrow> padSource res" where
  "sourceOfKey C chainID spk spending key =
     (let erc20TokenAddress = hd (splitStr key ''-'') in
      if IsSolanaLike chainID
      then andThen (FormatMintAddress C erc20TokenAddress) (\<lambda>formatted.
             Ok \<lparr>psPrivate = spk, psSpending = spending, psErc20 = toLower (fmCompressed formatted), psMint = erc20TokenAddress\<rparr>)
      else Ok \<lparr>psPrivate = spk, psSpending = spending, psErc20 = toLower erc20TokenAddress, psMint = []\<rparr>)"

fun padTable ::
  "'d walletEnv \<Rightarrow> int \<Rightarrow> string \<Rightarrow> int list \<Rightarrow> int \<Rightarrow> bool \<Rightarrow> nat \<Rightarrow> utxoTable \<Rightarrow> (utxoTable \<times> nat) res" where
  "padTable E chainID spk spending minInput sliceIfMore6 n [] = Ok ([], n)"
| "padTable E chainID spk spending minInput sliceIfMore6 n ((key, us) # rest) =
     andThen (sourceOfKey (weCrypto E) chainID spk spending key) (\<lambda>src.
     andThen (sortAndPadUtxos (padUtxo E src) minInput sliceIfMore6 n us) (\<lambda>(padded, n').
     andThen (padTable E chainID spk spending minInput sliceIfMore6 n' rest) (\<lambda>(others, n'').
       Ok ((key, padded) # others, n''))))"

definition GetInputUtxoAndBalancePerToken ::
  "'d walletEnv \<Rightarrow> (string \<Rightarrow> string res) \<Rightarrow> inputUtxoParams \<Rightarrow> int \<Rightarrow> bool \<Rightarrow> tokenWithID list option \<Rightarrow>
   tokenWithID list \<Rightarrow> ('d wallet, utxoTable \<times> nat) action" where
  "GetInputUtxoAndBalancePerToken E toHexFormat p minInput sliceIfMore6 tokens ensured =
     bindA (onKeys (GetShieldedPrivateKey (weCrypto E))) (\<lambda>spk.
     bindA (onKeys (GetSpendingKeyPair (weCrypto E))) (\<lambda>(privSpending, pub).
     bindA (if ipUseBlocked p then GetInputUtxoAndBalanceOfStuckUtxos E toHexFormat p else GetInputUtxoAndBalance E p) (\<lambda>inputUtxos.
       liftA (padTable E (ipChainID p) spk [fst pub, snd pub] minInput sliceIfMore6 0
                (ensureKeys (ipChainID p) ensured (groupUtxos (ipChainID p) tokens inputUtxos []))))))"

subsection \<open>add_padding_to_utxos.go\<close>

definition overLimitError :: "'d walletEnv \<Rightarrow> (string \<Rightarrow> erc20Token option) \<Rightarrow> int \<Rightarrow> string \<Rightarrow> unit res" where
  "overLimitError E getToken firstSixAmount erc20Address =
     (case getToken erc20Address of
        None \<Rightarrow> Err (ErrWithAmount ''0'' ''Your transaction exceeds the UTXO limit'')
      | Some token \<Rightarrow>
          andThen (GetAmountWithPrecision (Some firstSixAmount) (tkDecimals token) (if tkDecimals token = 18 then 6 else 2)) (\<lambda>amountStr.
          andThen (weFloatText E amountStr) (\<lambda>amountInToken.
            Err (ErrWithAmount amountInToken
              (''Your transaction exceeds the UTXO limit'' @ ''. Please try again with '' @ amountInToken @ '' '' @
               tkSymbol token @ '', including gas fees.'')))))"

definition rowSource :: "cryptoLib \<Rightarrow> int \<Rightarrow> string \<Rightarrow> int list \<Rightarrow> string \<Rightarrow> padSource res" where
  "rowSource C chainID spk spending erc20Address =
     (if IsSolanaLike chainID
      then andThen (FormatMintAddress C erc20Address) (\<lambda>formatted.
             Ok \<lparr>psPrivate = spk, psSpending = spending, psErc20 = fmCompressed formatted, psMint = erc20Address\<rparr>)
      else Ok \<lparr>psPrivate = spk, psSpending = spending, psErc20 = erc20Address, psMint = []\<rparr>)"

fun padRow :: "'d walletEnv \<Rightarrow> padSource res \<Rightarrow> nat \<Rightarrow> nat \<Rightarrow> utxo list \<Rightarrow> (utxo list \<times> nat) res" where
  "padRow E src 0 n us = Ok (us, n)"
| "padRow E src (Suc d) n us =
     andThen src (\<lambda>s. andThen (padUtxo E s n) (\<lambda>u. padRow E src d (n + 1) (us @ [u])))"

fun sumAmounts :: "utxo list \<Rightarrow> int res" where
  "sumAmounts [] = Ok 0"
| "sumAmounts (u # us) = andThen (deref (uxAmount u)) (\<lambda>a. andThen (sumAmounts us) (\<lambda>s. Ok (a + s)))"

definition cutRow ::
  "'d walletEnv \<Rightarrow> (string \<Rightarrow> erc20Token option) \<Rightarrow> string \<Rightarrow> int list \<Rightarrow> nat \<Rightarrow> int \<Rightarrow> utxo list \<Rightarrow> utxo list res" where
  "cutRow E getToken erc20Address amountChanges i maxInput us =
     (if maxInput < 0 then Panic ''slice bounds out of range''
      else
        (let firstSix = take (nat maxInput) us in
         andThen (sumAmounts firstSix) (\<lambda>firstSixAmount.
           if length amountChanges \<le> i then Panic ''index out of range''
           else if amountChanges ! i < 0 \<and> firstSixAmount < - (amountChanges ! i)
           then andThen (overLimitError E getToken firstSixAmount erc20Address) (\<lambda>_. Ok firstSix)
           else Ok firstSix)))"

fun padRows ::
  "'d walletEnv \<Rightarrow> (string \<Rightarrow> erc20Token option) \<Rightarrow> int \<Rightarrow> string \<Rightarrow> int list \<Rightarrow> string list \<Rightarrow> int list \<Rightarrow> int \<Rightarrow>
   nat \<Rightarrow> nat \<Rightarrow> utxo list list \<Rightarrow> utxo list list res" where
  "padRows E getToken chainID spk spending addresses amountChanges maxInput i n [] = Ok []"
| "padRows E getToken chainID spk spending addresses amountChanges maxInput i n (us # rows) =
     (if maxInput < int (length us)
      then andThen (cutRow E getToken (addresses ! i) amountChanges i maxInput us) (\<lambda>row.
             andThen (padRows E getToken chainID spk spending addresses amountChanges maxInput (i + 1) n rows) (\<lambda>rest. Ok (row # rest)))
      else andThen (padRow E (rowSource (weCrypto E) chainID spk spending (addresses ! i)) (nat (maxInput - int (length us))) n us) (\<lambda>(row, n').
             andThen (padRows E getToken chainID spk spending addresses amountChanges maxInput (i + 1) n' rows) (\<lambda>rest. Ok (row # rest))))"

definition maxLength :: "utxo list list \<Rightarrow> nat" where
  "maxLength rows = fold (\<lambda>us m. if m < length us then length us else m) rows 0"

definition paddedRows ::
  "'d walletEnv \<Rightarrow> (string \<Rightarrow> erc20Token option) \<Rightarrow> int \<Rightarrow> string \<Rightarrow> int list \<Rightarrow> string list \<Rightarrow> int list \<Rightarrow> int \<Rightarrow>
   bool \<Rightarrow> utxoTable \<Rightarrow> nat \<Rightarrow> utxo list list res" where
  "paddedRows E getToken chainID spk spending erc20Addresses amountChanges maxInput forceEmptyUtxos m n =
     (let rows = map (\<lambda>a. if forceEmptyUtxos then [] else tableGet m (encodeTokenWithID chainID a)) erc20Addresses in
      if maxLength rows = 2 then Ok rows
      else padRows E getToken chainID spk spending erc20Addresses amountChanges maxInput 0 n rows)"

definition AddPaddingToUtxos ::
  "'d walletEnv \<Rightarrow> (string \<Rightarrow> string res) \<Rightarrow> (string \<Rightarrow> erc20Token option) \<Rightarrow> int \<Rightarrow> string list \<Rightarrow> int list \<Rightarrow> int \<Rightarrow>
   int list option \<Rightarrow> bool \<Rightarrow> bool \<Rightarrow> ('d wallet, utxo list list) action" where
  "AddPaddingToUtxos E toHexFormat getToken chainID erc20Addresses amountChanges maxInput tokenIDs forceEmptyUtxos useBlockedUtxos =
     (let ids = (case tokenIDs of None \<Rightarrow> replicate (length erc20Addresses) 0 | Some is \<Rightarrow> is) in
      bindA (onKeys (GetSpendingKeyPair (weCrypto E))) (\<lambda>(privSpending, pub).
      bindA (onKeys (GetShieldedPrivateKey (weCrypto E))) (\<lambda>spk.
        if erc20Addresses = [] then liftA (Ok [])
        else
          bindA (\<lambda>w. liftA (if useBlockedUtxos then wlEthAddress w chainID else Ok []) w) (\<lambda>ethAddress.
            if length ids < length erc20Addresses then liftA (Panic ''index out of range'')
            else
              bindA (\<lambda>w. GetInputUtxoAndBalancePerToken E toHexFormat
                      \<lparr>ipChainID = chainID, ipPassedKey = [], ipEthAddress = ethAddress, ipResetCacheBefore = False,
                       ipAllowRemote = wlProofRemotely w, ipUseBlocked = useBlockedUtxos\<rparr>
                      2 False None (map2 (\<lambda>a i. \<lparr>twAddress = a, twID = i\<rparr>) erc20Addresses ids) w) (\<lambda>(m, n).
                liftA (paddedRows E getToken chainID spk [fst pub, snd pub] erc20Addresses amountChanges
                         (if maxInput = 0 then 6 else maxInput) forceEmptyUtxos m n))))))"

end
