(* ===== verification/UtxoCodecProps.thy ===== *)
theory UtxoCodecProps
  imports UtxoCodec Utxo
begin

text \<open>
  What is encrypted for a recipient is what the recipient decrypts: the fields of an output survive
  \<open>EncryptUtxo\<close> and \<open>DecryptUtxo\<close>, and the commitment computed on either side is the same. An on-chain
  output is accepted only by the owner of its stealth pair.
\<close>

subsection \<open>Splitting the sealed text\<close>

definition hexField :: "string \<Rightarrow> string \<Rightarrow> bool" where
  "hexField p t \<longleftrightarrow> p = ''0x'' @ t \<and> t \<noteq> [] \<and> CHR ''x'' \<notin> set t"

lemma splitFrom_field:
  "CHR ''x'' \<notin> set t \<Longrightarrow> splitFrom ''0x'' cur (t @ ''0x'' @ rest) = (rev cur @ t) # splitFrom ''0x'' [] rest"
proof (induction t arbitrary: cur)
  case (Cons c t)
  have "\<not> hasPrefix ((c # t) @ ''0x'' @ rest) ''0x''"
    using Cons.prems by (cases t) (auto simp: hasPrefix_def)
  then show ?case using Cons by simp
qed (simp add: hasPrefix_def)

lemma splitFrom_last: "CHR ''x'' \<notin> set t \<Longrightarrow> splitFrom ''0x'' cur t = [rev cur @ t]"
proof (induction t arbitrary: cur)
  case (Cons c t)
  have "\<not> hasPrefix (c # t) ''0x''" using Cons.prems by (cases t) (auto simp: hasPrefix_def)
  then show ?case using Cons by simp
qed simp

lemma splitFrom_fields:
  "(\<forall>t \<in> set ts. CHR ''x'' \<notin> set t) \<Longrightarrow> CHR ''x'' \<notin> set h \<Longrightarrow>
     splitFrom ''0x'' [] (h @ concat (map (\<lambda>t. ''0x'' @ t) ts)) = h # ts"
proof (induction ts arbitrary: h)
  case Nil
  then show ?case by (simp add: splitFrom_last)
next
  case (Cons t ts)
  have "h @ concat (map (\<lambda>t. ''0x'' @ t) (t # ts)) = h @ ''0x'' @ (t @ concat (map (\<lambda>t. ''0x'' @ t) ts))"
    by simp
  then show ?case using Cons splitFrom_field [of h "[]"] by (simp only:) simp
qed

lemma splitHexParts_fields:
  assumes "list_all2 hexField ps ts"
  shows "splitHexParts (concat ps) = ts"
proof -
  have "concat ps = [] @ concat (map (\<lambda>t. ''0x'' @ t) ts)"
    using assms by (induction rule: list_all2_induct) (auto simp: hexField_def)
  moreover have "\<forall>t \<in> set ts. CHR ''x'' \<notin> set t \<and> t \<noteq> []"
    using assms by (induction rule: list_all2_induct) (auto simp: hexField_def)
  ultimately show ?thesis
    using splitFrom_fields [of ts "[]"] by (simp add: splitHexParts_def splitStr_def filter_id_conv)
qed

lemma ToBeHex_field:
  assumes "0 \<le> n"
  obtains t where "hexField (ToBeHex (Some n)) t" "parseHex t = Ok n"
proof -
  obtain k where k: "ToBeHex (Some n) = ''0x'' @ replicate k CHR ''0'' @ natText 16 (nat n)"
    using ToBeHex_shape [OF assms] by blast
  have "CHR ''x'' \<notin> set (natText 16 (nat n))" using natText_no_special [of 16 "nat n"] by auto
  then have "hexField (ToBeHex (Some n)) (replicate k CHR ''0'' @ natText 16 (nat n))"
    by (auto simp: hexField_def k)
  moreover have "parseHex (replicate k CHR ''0'' @ natText 16 (nat n)) = Ok n"
    using ParseBigInt_ToBeHex [OF assms] unfolding k by (simp add: parseHex_def)
  ultimately show ?thesis by (rule that)
qed

lemma ensure0x_field: "hexField p t \<Longrightarrow> hexField (ensure0x p) t"
  by (auto simp: hexField_def ensure0x_def hasPrefix_def)

subsection \<open>The sealed fields\<close>

text \<open>An output that can be sent: its numbers are not negative, its addresses are hexadecimal text, and
  a new-style output carries its point.\<close>

definition sendable :: "cryptoLib \<Rightarrow> utxo \<Rightarrow> string \<Rightarrow> int \<Rightarrow> bool" where
  "sendable C u stealth ts \<longleftrightarrow> (\<exists>a. uxAmount u = Some a \<and> 0 \<le> a) \<and> (\<exists>t. hexField (uxErc20 u) t) \<and>
     (\<exists>t. hexField stealth t) \<and> ParseBigInt (uxTimeStamp u) = Ok ts \<and> 0 \<le> ts \<and>
     (\<forall>r. uxRandomization u = Some r \<longrightarrow> 0 \<le> r) \<and>
     (\<forall>x y. uxH0 u = Some (x, y) \<longrightarrow> 0 \<le> x \<and> 0 \<le> y) \<and> (uxIsNewStyle u \<longrightarrow> uxH0 u \<noteq> None) \<and>
     (uxMint u \<noteq> [] \<longrightarrow> (\<exists>bs. b58Decode C (uxMint u) = Ok bs \<and> length bs = 32 \<and> b58Encode C bs = uxMint u))"

definition receivedParams :: "utxo \<Rightarrow> string \<Rightarrow> int \<Rightarrow> string \<Rightarrow> utxoParams" where
  "receivedParams u stealth ts spk =
     \<lparr>upAmount = uxAmount u, upErc20 = uxErc20 u, upMint = uxMint u, upTimeStamp = bigString ts,
      upNullifyingKey = spk, upSpendingKey = None,
      upRandomization = Some (case uxRandomization u of None \<Rightarrow> 0 | Some r \<Rightarrow> r),
      upH0 = (if uxIsNewStyle u then uxH0 u else None), upStealth = stealth, upEncryptionKey = [],
      upCommitment = [], upNullifier = [], upIsBlocked = False, upIsNewStyle = uxIsNewStyle u\<rparr>"

lemma mint_field:
  assumes "b58Decode C m = Ok bs" "length bs = 32"
  shows "hexField (''0x'' @ hexEncode bs) (hexEncode bs)"
proof -
  have "hexEncode bs \<noteq> []" using assms(2) by (metis length_0_conv length_hexEncode mult_eq_0_iff zero_neq_numeral)
  then show ?thesis using hexEncode_no_x by (simp add: hexField_def)
qed

lemma fields_parsed:
  assumes s: "sendable C u stealth ts" and f: "utxoFields C u stealth ts = Ok parts"
  shows "parseUtxoParts C spk (splitHexParts (concat parts)) = Ok (receivedParams u stealth ts spk)"
proof -
  obtain a where a: "uxAmount u = Some a" "0 \<le> a" using s by (auto simp: sendable_def)
  define r where "r = (case uxRandomization u of None \<Rightarrow> 0 | Some r \<Rightarrow> r)"
  define hx where "hx = (case uxH0 u of None \<Rightarrow> 0 | Some h \<Rightarrow> fst h)"
  define hy where "hy = (case uxH0 u of None \<Rightarrow> 0 | Some h \<Rightarrow> snd h)"
  define st where "st = (if uxIsNewStyle u then 1 else 0 :: int)"
  have nn: "0 \<le> r" "0 \<le> hx" "0 \<le> hy" "0 \<le> st" "0 \<le> ts"
    using s by (auto simp: sendable_def r_def hx_def hy_def st_def split: option.split)
  obtain te where te: "hexField (uxErc20 u) te" using s by (auto simp: sendable_def)
  obtain tt where tt: "hexField stealth tt" using s by (auto simp: sendable_def)
  obtain ta where ta: "hexField (ToBeHex (Some a)) ta" "parseHex ta = Ok a" using ToBeHex_field a(2) by blast
  obtain tr where tr: "hexField (ToBeHex (Some r)) tr" "parseHex tr = Ok r" using ToBeHex_field nn(1) by blast
  obtain tx where tx: "hexField (ToBeHex (Some hx)) tx" "parseHex tx = Ok hx" using ToBeHex_field nn(2) by blast
  obtain ty where ty: "hexField (ToBeHex (Some hy)) ty" "parseHex ty = Ok hy" using ToBeHex_field nn(3) by blast
  obtain tn where tn: "hexField (ToBeHex (Some st)) tn" "parseHex tn = Ok st" using ToBeHex_field nn(4) by blast
  obtain tm where tm: "hexField (ToBeHex (Some ts)) tm" "parseHex tm = Ok ts" using ToBeHex_field nn(5) by blast
  let ?ts = "[ta, te, tr, tt, tm, tn, tx, ty]"
  let ?ps = "[ToBeHex (Some a), ensure0x (uxErc20 u), ToBeHex (Some r), ensure0x stealth, ToBeHex (Some ts),
     ToBeHex (Some st), ToBeHex (Some hx), ToBeHex (Some hy)]"
  have eight: "list_all2 hexField ?ps ?ts"
    using ta tr tx ty tn tm ensure0x_field te tt by simp
  have tok: "''0x'' @ te = uxErc20 u" "''0x'' @ tt = stealth" using te tt by (auto simp: hexField_def)
  have shape: "utxoFields C u stealth ts =
      (if uxMint u \<noteq> [] then andThen (b58Decode C (uxMint u)) (\<lambda>bs. Ok (?ps @ [''0x'' @ hexEncode bs])) else Ok ?ps)"
    by (simp add: utxoFields_def Let_def a(1) r_def hx_def hy_def st_def split: option.split)
  have h0: "(if st \<noteq> 0 then Some (hx, hy) else None) = (if uxIsNewStyle u then uxH0 u else None)"
    using s by (auto simp: sendable_def st_def hx_def hy_def)
  show ?thesis
  proof (cases "uxMint u = []")
    case True
    then have "splitHexParts (concat parts) = ?ts" using f shape splitHexParts_fields [OF eight] by simp
    moreover have "mintOfParts C ?ts 8 = uxMint u" using True by (simp add: mintOfParts_def)
    ultimately show ?thesis
      using h0 by (simp add: parseUtxoParts_def receivedParams_def ta tr tx ty tn tm tok [simplified] a r_def [symmetric] Let_def st_def split: if_splits)
  next
    case False
    then obtain bs where bs: "b58Decode C (uxMint u) = Ok bs" "length bs = 32" "b58Encode C bs = uxMint u"
      using s by (auto simp: sendable_def)
    have "list_all2 hexField (?ps @ [''0x'' @ hexEncode bs]) (?ts @ [hexEncode bs])"
      using eight mint_field [OF bs(1,2)] by (intro list_all2_appendI) simp_all
    moreover have "parts = ?ps @ [''0x'' @ hexEncode bs]" using f shape False bs(1) by simp
    ultimately have "splitHexParts (concat parts) = ?ts @ [hexEncode bs]"
      by (simp only: splitHexParts_fields)
    moreover have "mintOfParts C (?ts @ [hexEncode bs]) 8 = uxMint u" using bs by (simp add: mintOfParts_def)
    ultimately show ?thesis
      using h0 by (simp add: parseUtxoParts_def receivedParams_def ta tr tx ty tn tm tok [simplified] a r_def [symmetric] Let_def st_def split: if_splits)
  qed
qed

subsection \<open>Encrypting for the owner\<close>

lemma NewUtxo_received:
  assumes "sendable C u stealth ts"
  shows "\<exists>v. NewUtxo C now rand (receivedParams u stealth ts spk) = Ok v \<and>
    GetConstructableParams v = receivedParams u stealth ts spk"
proof -
  have "bigString ts \<noteq> []" by simp
  then show ?thesis
    using assms by (auto simp: NewUtxo_def receivedParams_def sendable_def GetConstructableParams_def Let_def split: option.split)
qed

lemma received_commitment:
  assumes "GetConstructableParams v = receivedParams u stealth ts spk"
    and "GetStealthAddressUtxo C u = (Ok stealth, u1)" "uxCommitment u = []" "ParseBigInt (uxTimeStamp u) = Ok ts"
  shows "fst (GetCommitment C v) = fst (GetCommitment C u)"
proof -
  have v: "uxCommitment v = []" "uxErc20 v = uxErc20 u" "uxTimeStamp v = bigString ts" "uxAmount v = uxAmount u"
    "uxStealth v = stealth"
    using arg_cong [OF assms(1), of upCommitment] arg_cong [OF assms(1), of upErc20]
      arg_cong [OF assms(1), of upTimeStamp] arg_cong [OF assms(1), of upAmount] arg_cong [OF assms(1), of upStealth]
    by (simp_all add: GetConstructableParams_def receivedParams_def)
  have st: "GetStealthAddressUtxo C v = (Ok stealth, v)"
    using stealth_cached(1) [OF assms(2)] v(5) by (simp add: GetStealthAddressUtxo_def)
  show ?thesis
    using v assms(3,4) by (simp add: GetCommitment_def bindA_Ok [where m = "GetStealthAddressUtxo C", OF st] bindA_Ok [where m = "GetStealthAddressUtxo C", OF assms(2)])
      (auto simp: bindA_def liftA_def split: res.split)
qed

lemma encrypted_shape:
  assumes "GetStealthAddressUtxo C u = (Ok stealth, u1)" "ParseBigInt (uxTimeStamp u) = Ok ts"
    and "EncryptUtxo C randRead u = (Ok data, u2)" "GetEncryptionKey C u = Ok k"
  obtains parts packed where "utxoFields C u stealth ts = Ok parts"
    "EncryptSealedKeys C randRead (bytesOfString (concat parts)) [fromHex C k] = Ok packed"
    "data = sealedKeysPrefix @ packed"
proof -
  obtain x where x: "u1 = u\<lparr>uxStealth := x\<rparr>" using stealth_frame [OF assms(1)] by metis
  have same: "uxTimeStamp u1 = uxTimeStamp u" "utxoFields C u1 stealth ts = utxoFields C u stealth ts"
    "GetEncryptionKey C u1 = GetEncryptionKey C u"
    by (simp_all add: x GetEncryptionKey_def) (simp add: utxoFields_def Let_def split: option.split prod.split)
  have E: "EncryptUtxo C randRead u =
      bindA (liftA (utxoFields C u stealth ts)) (\<lambda>parts.
       (if length (fromHex C k) \<noteq> 32 then liftA (Err (ErrMsg ''utxo: encryption public key is not 32 bytes''))
        else bindA (liftA (EncryptSealedKeys C randRead (bytesOfString (concat parts)) [fromHex C k])) (\<lambda>encrypted.
            liftA (Ok (sealedKeysPrefix @ encrypted))))) u1"
    unfolding EncryptUtxo_def bindA_Ok [where m = "GetStealthAddressUtxo C", OF assms(1)] same assms(2) assms(4) bindA_liftA_Ok Let_def ..
  have "\<exists>parts packed. utxoFields C u stealth ts = Ok parts \<and>
      EncryptSealedKeys C randRead (bytesOfString (concat parts)) [fromHex C k] = Ok packed \<and>
      data = sealedKeysPrefix @ packed"
    using assms(3) [unfolded E] by (auto simp: res_simps split: if_splits)
  then show ?thesis using that by blast
qed

text \<open>C14: An output encrypted for a wallet is decrypted by it: amount, token, mint address, time stamp,
  stealth address, randomization, style and point come back, the wallet's key is attached, and both
  sides compute the same commitment.\<close>

theorem encrypted_utxo_roundtrip:
  assumes "boxLaws C" "randLaw randRead" "boxPair C pk sk"
    and "GetShieldedPrivateKey C w = (Ok spk, w')" "EncryptionKeyPair C spk = Ok (sk, pk)"
    and "GetStealthAddressUtxo C u = (Ok stealth, u1)" "sendable C u stealth ts"
    and "GetEncryptionKey C u = Ok k" "fromHex C k = pk"
    and "EncryptUtxo C randRead u = (Ok data, u2)"
  shows "\<exists>v. DecryptUtxo C now rand data w = (Ok v, w') \<and>
    GetConstructableParams v = receivedParams u stealth ts spk \<and>
    (uxCommitment u = [] \<longrightarrow> fst (GetCommitment C v) = fst (GetCommitment C u))"
proof -
  have ts: "ParseBigInt (uxTimeStamp u) = Ok ts" using assms(7) by (simp add: sendable_def)
  obtain parts packed where d: "utxoFields C u stealth ts = Ok parts"
    "EncryptSealedKeys C randRead (bytesOfString (concat parts)) [pk] = Ok packed"
    "data = sealedKeysPrefix @ packed"
    using encrypted_shape [OF assms(6) ts assms(10,8)] assms(9) by metis
  have "DecryptSealedKeys C packed ([pk] ! 0) sk (int 0) = Ok (bytesOfString (concat parts))"
    by (rule sealed_keys_open [THEN conjunct1, OF assms(1,2) _ _ _ d(2)]) (simp_all add: assms(3))
  then have opened: "openUtxoData C data pk sk = Ok (bytesOfString (concat parts))"
    by (simp add: openUtxoData_def hasBytesPrefix_def d(3))
  obtain v where v: "NewUtxo C now rand (receivedParams u stealth ts spk) = Ok v"
    "GetConstructableParams v = receivedParams u stealth ts spk"
    using NewUtxo_received [OF assms(7)] by blast
  have "DecryptUtxo C now rand data w = (Ok v, w')"
    unfolding DecryptUtxo_def bindA_Ok [where m = "GetShieldedPrivateKey C", OF assms(4)]
    by (simp add: liftA_def assms(5) opened fields_parsed [OF assms(7) d(1)] v(1))
  then show ?thesis using v(2) received_commitment [OF v(2) assms(6) _ ts] by blast
qed

definition toySender :: utxo where
  "toySender = toyUtxo\<lparr>uxNullifyingKey := [], uxEncryptionKey := ''0x'' @ hexEncode (replicate 32 9)\<rparr>"

lemma toyCrypto_fromHex: "fromHex toyCrypto (''0x'' @ hexEncode bs) = bs"
  by (simp add: toyCrypto_def trimPrefix_def hasPrefix_def)

lemma encrypted_utxo_roundtrip_witness:
  "\<exists>data v. fst (EncryptUtxo toyCrypto (\<lambda>i n. Ok (replicate n 1)) toySender) = Ok data \<and>
     DecryptUtxo toyCrypto ''0'' (\<lambda>n. Ok (replicate n 1)) data (NewUserKeysFromNullifyingKey ''0x0b'') =
       (Ok v, NewUserKeysFromNullifyingKey ''0x0b'') \<and> uxAmount v = Some 25"
proof -
  let ?C = toyCrypto and ?w = "NewUserKeysFromNullifyingKey ''0x0b''" and ?st = "ToBeHex (Some 12)"
  have laws: "boxLaws ?C" "randLaw (\<lambda>i n. Ok (replicate n 1))" "boxPair ?C (replicate 32 9) (replicate 32 9)"
    by (simp_all add: boxLaws_def randLaw_def boxPair_def toyCrypto_def sealBytes_def)
  have keys: "GetShieldedPrivateKey ?C ?w = (Ok ''0x0b'', ?w)"
    "EncryptionKeyPair ?C ''0x0b'' = Ok (replicate 32 9, replicate 32 9)"
    by (simp_all add: GetShieldedPrivateKey_def NewUserKeysFromNullifyingKey_def EncryptionKeyPair_def toyCrypto_def Let_def)
  have u: "GetStealthAddressUtxo ?C toySender = (Ok ?st, toySender)"
    "GetEncryptionKey ?C toySender = Ok (''0x'' @ hexEncode (replicate 32 9))"
    by (simp_all add: GetStealthAddressUtxo_def GetEncryptionKey_def toySender_def toyUtxo_def)
  obtain t1 t2 where "hexField (ToBeHex (Some 66)) t1" "hexField ?st t2"
    using ToBeHex_field [of 66] ToBeHex_field [of 12] by (metis zero_le_numeral)
  then have s: "sendable ?C toySender ?st 1700"
    by (auto simp: sendable_def toySender_def toyUtxo_def)
  have "\<exists>data. EncryptUtxo ?C (\<lambda>i n. Ok (replicate n 1)) toySender = (Ok data, toySender)"
    unfolding EncryptUtxo_def bindA_Ok [where m = "GetStealthAddressUtxo toyCrypto", OF u(1)] u(2) bindA_liftA_Ok Let_def toyCrypto_fromHex
    by (simp add: toySender_def toyUtxo_def utxoFields_def bindA_def liftA_def EncryptSealedKeys_def toyCrypto_def)
  then obtain data where d: "EncryptUtxo ?C (\<lambda>i n. Ok (replicate n 1)) toySender = (Ok data, toySender)" by blast
  obtain v where v: "DecryptUtxo ?C ''0'' (\<lambda>n. Ok (replicate n 1)) data ?w = (Ok v, ?w)"
    "GetConstructableParams v = receivedParams toySender ?st 1700 ''0x0b''"
    using encrypted_utxo_roundtrip [OF laws keys u(1) s u(2) toyCrypto_fromHex d] by blast
  have "uxAmount v = Some 25"
    using arg_cong [OF v(2), of upAmount]
    by (simp add: GetConstructableParams_def receivedParams_def toySender_def toyUtxo_def)
  then show ?thesis using d v(1) by auto
qed

text \<open>An on-chain output is only accepted when it is 256 bytes long and its stealth pair belongs to
  the wallet's key; what is accepted has the amount, stealth address and time stamp of its words.\<close>

theorem evm_utxo_owned:
  assumes "DecodeEvmUtxo C now rand data w = (Ok v, w')"
  shows "length data = 256 \<and> uxAmount v = Some (wordAt data 0) \<and> uxStealth v = ToBeHex (Some (wordAt data 3)) \<and>
    uxTimeStamp v = bigString (wordAt data 6) \<and> uxIsNewStyle v = bit (wordAt data 2) 255 \<and>
    GetShieldedPrivateKey C w = (Ok (uxNullifyingKey v), w') \<and>
    checkUtxoSignature C (wordAt data 2 AND highestMask) (wordAt data 4) (wordAt data 5)
      (uxNullifyingKey v) (uxIsNewStyle v) = Ok True"
  using assms
  by (auto simp: DecodeEvmUtxo_def res_simps Let_def NewUtxo_def onChainParams_def split: if_splits)

lemma wordBytes_concat:
  "(\<forall>f \<in> set fs. length f = 32) \<Longrightarrow> i < length fs \<Longrightarrow> wordBytes (concat fs) i = fs ! i"
proof (induction fs arbitrary: i)
  case (Cons f fs)
  then show ?case by (cases i) (simp_all add: wordBytes_def)
qed simp

definition toyWords :: bytes where
  "toyWords = concat (map (natToBE 32) [25, 66, 1, 12, 3, 33, 1700, 0])"

lemma toyWords_at: "i < 8 \<Longrightarrow> wordAt toyWords i = int ([25, 66, 1, 12, 3, 33, 1700, 0] ! i)"
proof -
  assume i: "i < 8"
  let ?ns = "[25, 66, 1, 12, 3, 33, 1700, 0] :: nat list"
  have "wordBytes toyWords i = map (natToBE 32) ?ns ! i"
    unfolding toyWords_def using i by (intro wordBytes_concat) auto
  also have "\<dots> = natToBE 32 (?ns ! i)" using i by (intro nth_map) simp
  finally have "wordAt toyWords i = setBytes (natToBE 32 (?ns ! i))" by (simp only: wordAt_def)
  moreover have "?ns ! i \<in> set ?ns" using i by (intro nth_mem) simp
  then have "?ns ! i \<le> 1700" by auto
  then have "?ns ! i < 256 ^ 32" by (rule le_less_trans) simp
  ultimately show ?thesis by (simp only: setBytes_natToBE)
qed

lemma toy_evm_utxo:
  "\<exists>v. DecodeEvmUtxo toyCrypto now rand toyWords (NewUserKeysFromNullifyingKey (ToBeHex (Some 11))) =
       (Ok v, NewUserKeysFromNullifyingKey (ToBeHex (Some 11)))"
proof -
  let ?C = toyCrypto and ?w = "NewUserKeysFromNullifyingKey (ToBeHex (Some 11))"
  have w: "wordAt toyWords 0 = 25" "wordAt toyWords 2 = 1" "wordAt toyWords 3 = 12" "wordAt toyWords 4 = 3"
    "wordAt toyWords 5 = 33" "wordAt toyWords 6 = 1700" by (simp_all add: toyWords_at)
  have len: "length toyWords = 256" by (simp add: toyWords_def)
  have len256: "\<not> (256::nat) \<noteq> 32 * 8" by simp
  have key: "GetShieldedPrivateKey ?C ?w = (Ok (ToBeHex (Some 11)), ?w)"
    by (simp add: GetShieldedPrivateKey_def NewUserKeysFromNullifyingKey_def)
  have style: "\<not> bit (1::int) 255" "(1::int) AND highestMask = 1" by (simp_all add: highestMask_def)
  have sig: "checkUtxoSignature ?C 1 3 33 (ToBeHex (Some 11)) False = Ok True"
    by (simp add: checkUtxoSignature_def CheckSignature_def GetStealthAddressCompressedPoints_def
        GetRandomizedStealthPairOld_def adjustedPrivateKey_def circomP_def getCircomSign_def
        isCircomNegative_def circomPHalf_def toyCrypto_def)
  show ?thesis
    unfolding DecodeEvmUtxo_def Let_def w style len bindA_Ok [where m = "GetShieldedPrivateKey ?C", OF key]
      if_not_P [OF len256] liftA_def by (simp add: sig style NewUtxo_def onChainParams_def)
qed

lemma evm_utxo_owned_witness:
  "\<exists>v. DecodeEvmUtxo toyCrypto ''0'' (\<lambda>n. Ok []) toyWords (NewUserKeysFromNullifyingKey (ToBeHex (Some 11))) =
       (Ok v, NewUserKeysFromNullifyingKey (ToBeHex (Some 11))) \<and> uxAmount v = Some 25"
proof -
  obtain v where v: "DecodeEvmUtxo toyCrypto ''0'' (\<lambda>n. Ok []) toyWords (NewUserKeysFromNullifyingKey (ToBeHex (Some 11))) =
      (Ok v, NewUserKeysFromNullifyingKey (ToBeHex (Some 11)))" using toy_evm_utxo by blast
  have "uxAmount v = Some 25" using evm_utxo_owned [OF v] by (simp add: toyWords_at)
  then show ?thesis using v by blast
qed

end
