(* ===== verification/UtxoTyping.thy ===== *)
theory UtxoTyping
  imports BalanceTokens UtxoCodecProps
begin

text \<open>
  The shape every utxo of the wallet has. Decoding, padding and copying produce utxos of this shape, and a
  utxo of this shape has a nullifier: none of the errors for missing fields and no nil pointer can come up.
\<close>

definition wellFormed :: "utxo \<Rightarrow> bool" where
  "wellFormed u \<longleftrightarrow> uxAmount u \<noteq> None \<and> uxNullifyingKey u \<noteq> [] \<and> uxCommitment u = [] \<and> uxNullifier u = [] \<and>
     isOk (ParseBigInt (uxTimeStamp u)) \<and>
     (uxStealth u \<noteq> [] \<or>
      (if uxIsNewStyle u then uxH0 u \<noteq> None \<and> (\<exists>x y. uxSpendingKey u = Some [x, y]) else uxRandomization u \<noteq> None))"

lemma isOk_bigString [simp]: "isOk (ParseBigInt (bigString n))"
  by (simp add: isOk_iff)

lemma private_key_nonempty: "GetShieldedPrivateKey C uk = (Ok k, uk') \<Longrightarrow> k \<noteq> []"
  by (cases rule: GetShieldedPrivateKey_cases [of C uk]) auto

lemma NewUtxo_copies:
  assumes "NewUtxo C now rand p = Ok u"
  shows "uxAmount u = upAmount p" "uxNullifyingKey u = upNullifyingKey p" "uxCommitment u = upCommitment p"
    "uxNullifier u = upNullifier p" "uxStealth u = upStealth p" "uxSpendingKey u = upSpendingKey p"
    "uxIsNewStyle u = upIsNewStyle p" "uxErc20 u = upErc20 p" "uxMint u = upMint p"
    "uxTimeStamp u = (if upTimeStamp p = [] then now else upTimeStamp p)"
    "upRandomization p \<noteq> None \<Longrightarrow> uxRandomization u = upRandomization p"
    "upH0 p \<noteq> None \<Longrightarrow> uxH0 u = upH0 p"
  using assms by (auto simp: NewUtxo_def Let_def res_simps split: if_splits option.splits)

text \<open>With a nullifying key the missing random fields are filled in.\<close>

lemma NewUtxo_fills:
  assumes "NewUtxo C now rand p = Ok u" "upNullifyingKey p \<noteq> []"
  shows "uxRandomization u \<noteq> None" "upIsNewStyle p \<Longrightarrow> uxH0 u \<noteq> None"
  using assms by (auto simp: NewUtxo_def FindH0_def Let_def res_simps split: if_splits option.splits)

lemma NewUtxo_wellFormed:
  assumes u: "NewUtxo C now rand p = Ok u"
    and p: "upAmount p \<noteq> None" "upNullifyingKey p \<noteq> []" "upCommitment p = []" "upNullifier p = []"
      "isOk (ParseBigInt (if upTimeStamp p = [] then now else upTimeStamp p))"
      "upStealth p \<noteq> [] \<or> \<not> upIsNewStyle p \<or> (\<exists>x y. upSpendingKey p = Some [x, y])"
  shows "wellFormed u"
  using NewUtxo_copies(1-7,10) [OF u] NewUtxo_fills [OF u p(2)] p by (auto simp: wellFormed_def)

lemma parsed_shape:
  "parseUtxoParts C spk parts = Ok p \<Longrightarrow> upAmount p \<noteq> None \<and> upNullifyingKey p = spk \<and> upCommitment p = [] \<and>
     upNullifier p = [] \<and> (\<exists>ts. upTimeStamp p = bigString ts) \<and> upStealth p \<noteq> []"
  by (auto simp: parseUtxoParts_def Let_def res_simps split: if_splits)

lemma bigString_nonempty [simp]: "bigString n \<noteq> []"
  using ParseBigInt_bigString [of n] by (auto simp: ParseBigInt_def trimSpace_def hasPrefix_def Let_def)

lemma nonempty_bigString [simp]: "[] \<noteq> bigString n"
  using bigString_nonempty [of n] by metis

lemma on_chain_wellFormed:
  "NewUtxo C now rand (onChainParams amount token mint ts spk r h0y style stealth) = Ok u \<Longrightarrow> spk \<noteq> [] \<Longrightarrow> wellFormed u"
  by (rule NewUtxo_wellFormed) (auto simp: onChainParams_def)

lemma decrypted_wellFormed:
  assumes "DecryptUtxo C now rand d uk = (Ok u, uk')"
  shows "wellFormed u"
proof -
  obtain spk parts p where "GetShieldedPrivateKey C uk = (Ok spk, uk')" "parseUtxoParts C spk parts = Ok p"
    "NewUtxo C now rand p = Ok u"
    using assms by (auto simp: DecryptUtxo_def res_simps split: prod.splits)
  then show ?thesis using private_key_nonempty [of C uk spk uk'] parsed_shape [of C spk parts p]
    by (intro NewUtxo_wellFormed [of C now rand p u]) auto
qed

lemma evm_wellFormed:
  assumes "DecodeEvmUtxo C now rand d uk = (Ok u, uk')"
  shows "wellFormed u"
proof -
  obtain spk am token ts r h0y style st where "GetShieldedPrivateKey C uk = (Ok spk, uk')"
    "NewUtxo C now rand (onChainParams am token [] ts spk r h0y style st) = Ok u"
    using assms unfolding DecodeEvmUtxo_def Let_def by (auto simp: res_simps split: if_splits)
  then show ?thesis using private_key_nonempty by (blast intro: on_chain_wellFormed)
qed

lemma solana_wellFormed:
  assumes "DecodeSolanaOnChainUtxo C now rand d uk = (Ok u, uk')"
  shows "wellFormed u"
proof -
  obtain spk am token mint ts r h0y style st where "GetShieldedPrivateKey C uk = (Ok spk, uk')"
    "NewUtxo C now rand (onChainParams am token mint ts spk r h0y style st) = Ok u"
    using assms unfolding DecodeSolanaOnChainUtxo_def Let_def by (auto simp: res_simps split: if_splits)
  then show ?thesis using private_key_nonempty by (blast intro: on_chain_wellFormed)
qed

lemma decoded_wellFormed:
  assumes "decodeOutput E ch out uk = (Ok u, uk')"
  shows "wellFormed u"
  using assms
  by (auto simp: decodeOutput_def DecryptUtxoHex_def DecodeUtxo_def DecodeEvmUtxoHex_def split: if_splits
      intro: decrypted_wellFormed evm_wellFormed solana_wellFormed)

lemma pad_wellFormed:
  assumes "padUtxo E s n = Ok u" "psPrivate s \<noteq> []" "psSpending s = [x, y]" "isOk (ParseBigInt (weNow E))"
  shows "wellFormed u"
  using assms by (intro NewUtxo_wellFormed) (auto simp: padUtxo_def padParams_def)

lemma copy_wellFormed:
  assumes u: "wellFormed u" and v: "CreateFrom C now rand u patch = Ok v"
    and p: "upSpendingKey patch = None" "upCommitment patch = []" "upNullifier patch = []"
      "upTimeStamp patch = [] \<or> isOk (ParseBigInt (upTimeStamp patch))" "isOk (ParseBigInt now)"
  shows "wellFormed v"
  using v unfolding CreateFrom_def
  by (rule NewUtxo_wellFormed)
     (use u p in \<open>auto simp: wellFormed_def applyPatch_def patchText_def patchOpt_def GetConstructableParams_def split: if_splits\<close>)

text \<open>C38: Every utxo the wallet handles is well formed: those decoded from the chain or decrypted, the padding utxos, and
  copies of well-formed ones with changed amounts, tokens, keys or time stamps.\<close>

theorem utxos_well_formed:
  assumes "isOk (ParseBigInt (weNow E))"
  shows "(decodeOutput E ch out uk = (Ok u, uk') \<longrightarrow> wellFormed u) \<and>
    (padUtxo E s n = Ok u \<and> psPrivate s \<noteq> [] \<and> psSpending s = [x, y] \<longrightarrow> wellFormed u) \<and>
    (wellFormed v \<and> CreateFrom C (weNow E) rand v patch = Ok u \<and> upSpendingKey patch = None \<and> upCommitment patch = [] \<and>
       upNullifier patch = [] \<and> (upTimeStamp patch = [] \<or> isOk (ParseBigInt (upTimeStamp patch))) \<longrightarrow> wellFormed u)"
  using assms decoded_wellFormed pad_wellFormed copy_wellFormed by blast

text \<open>A small environment for concrete runs; its cache text stands for one cache only.\<close>

definition toyEnv :: "hinkalCache \<Rightarrow> memoryCache walletEnv" where
  "toyEnv c = \<lparr>weCrypto = toyCrypto, weNow = bigString 7, weRand = (\<lambda>n. Ok (replicate n 1)), wePadRand = (\<lambda>_ n. Ok (replicate n 1)),
     weJson = \<lparr>cacheText = (\<lambda>_. Ok ''c''), cacheParse = (\<lambda>_. Some c)\<rparr>, weDevice = memoryDevice, weCPUs = 4,
     weSchedule = concat, weRemote = (\<lambda>_ _. Err (ErrMsg ''offline'')), weScheduled = (\<lambda>_ _. Ok [0]), weFloatText = Ok\<rparr>"

lemma toyEnv_fields [simp]:
  "weCrypto (toyEnv c) = toyCrypto" "weNow (toyEnv c) = bigString 7" "weRand (toyEnv c) = (\<lambda>n. Ok (replicate n 1))"
  "wePadRand (toyEnv c) = (\<lambda>_ n. Ok (replicate n 1))" "weDevice (toyEnv c) = memoryDevice" "weCPUs (toyEnv c) = 4"
  "weSchedule (toyEnv c) = concat" "weRemote (toyEnv c) = (\<lambda>_ _. Err (ErrMsg ''offline''))"
  "weJson (toyEnv c) = \<lparr>cacheText = (\<lambda>_. Ok ''c''), cacheParse = (\<lambda>_. Some c)\<rparr>"
  by (simp_all add: toyEnv_def)

lemma utxos_well_formed_witness:
  "\<exists>u. CreateFrom toyCrypto (bigString 7) (\<lambda>n. Ok []) toyUtxo ((GetBasicUtxoParams toyUtxo)\<lparr>upAmount := Some 3\<rparr>) = Ok u \<and>
     uxAmount u = Some 3 \<and> wellFormed u"
proof -
  have now: "isOk (ParseBigInt (weNow (toyEnv emptyHinkalCache)))"
    using isOk_bigString [of 7] by simp
  have toy: "wellFormed toyUtxo" by (simp add: wellFormed_def toyUtxo_def)
  obtain u where u: "CreateFrom toyCrypto (bigString 7) (\<lambda>n. Ok []) toyUtxo ((GetBasicUtxoParams toyUtxo)\<lparr>upAmount := Some 3\<rparr>) = Ok u"
    "uxAmount u = Some 3"
    by (simp add: CreateFrom_def NewUtxo_def GetBasicUtxoParams_def applyPatch_def patchOpt_def patchText_def
        GetConstructableParams_def toyUtxo_def)
  then have "wellFormed u"
    using utxos_well_formed [OF now, of _ _ _ u _ _ _ _ _ toyUtxo toyCrypto "\<lambda>n. Ok []" "(GetBasicUtxoParams toyUtxo)\<lparr>upAmount := Some 3\<rparr>"] toy
    by (simp add: GetBasicUtxoParams_def toyUtxo_def)
  then show ?thesis using u by blast
qed

subsection \<open>Well-formed utxos have nullifiers\<close>

text \<open>Poseidon gives a field element for every input.\<close>

definition hashesOk :: "cryptoLib \<Rightarrow> bool" where
  "hashesOk C \<longleftrightarrow> (\<forall>xs. \<exists>h\<ge>0. poseidonHash C xs = Ok h)"

lemma poseidon_ok:
  assumes "hashesOk C"
  obtains hf where "\<And>os. list_all (\<lambda>v. v \<noteq> None) os \<Longrightarrow> PoseidonBig C os = Ok (hf os)" "\<And>os. 0 \<le> (hf os :: int)"
proof -
  obtain g where g: "poseidonHash C xs = Ok (g xs)" "0 \<le> g xs" for xs
    using assms unfolding hashesOk_def by metis
  have "list_all (\<lambda>v. v \<noteq> None) os \<Longrightarrow>
      mapRes (\<lambda>i. andThen (deref i) (\<lambda>n. Ok (n mod fieldP C))) os = Ok (map (\<lambda>v. the v mod fieldP C) os)" for os
    by (induction os) auto
  then show ?thesis using g by (intro that [of "\<lambda>os. g (map (\<lambda>v. the v mod fieldP C) os)"]) (simp_all add: PoseidonBig_def)
qed

lemma stealth_ok:
  assumes u: "wellFormed u" and C: "hashesOk C" and nk: "ParseBigInt (uxNullifyingKey u) = Ok k"
    and st: "uxStealth u \<noteq> [] \<Longrightarrow> isOk (ParseBigInt (uxStealth u))"
  shows "\<exists>s n u'. GetStealthAddressUtxo C u = (Ok s, u') \<and> ParseBigInt s = Ok n"
proof -
  obtain hf where hf: "\<And>os. list_all (\<lambda>v. v \<noteq> None) os \<Longrightarrow> PoseidonBig C os = Ok (hf os)" "\<And>os. 0 \<le> hf os"
    using poseidon_ok [OF C] by blast
  consider (cached) "uxStealth u \<noteq> []"
    | (new) h0 x y where "uxStealth u = []" "uxIsNewStyle u" "uxH0 u = Some h0" "uxSpendingKey u = Some [x, y]"
    | (old) r where "uxStealth u = []" "\<not> uxIsNewStyle u" "uxRandomization u = Some r"
    using u by (auto simp: wellFormed_def split: if_splits)
  then show ?thesis
  proof cases
    case cached
    then show ?thesis using st by (auto simp: GetStealthAddressUtxo_def isOk_iff)
  next
    case new
    have "\<exists>h\<ge>0. GetStealthAddressNewStyle C h0 (uxNullifyingKey u) [x, y] = Ok (ToBeHex (Some h))"
      using nk hf by (auto simp: GetStealthAddressNewStyle_def GetH1FromH0_def adjustedPrivateKey_def Let_def)
    then show ?thesis using new u by (auto simp: GetStealthAddressUtxo_def wellFormed_def)
  next
    case old
    have "\<exists>h\<ge>0. GetStealthAddress C r (uxNullifyingKey u) = Ok (ToBeHex (Some h))"
      using nk hf by (auto simp: GetStealthAddress_def GetRandomizedStealthPairOld_def adjustedPrivateKey_def Let_def)
    then show ?thesis using old u by (auto simp: GetStealthAddressUtxo_def wellFormed_def)
  qed
qed

lemma ParseBigInt_no_panic [simp]: "ParseBigInt s \<noteq> Panic p"
  by (simp add: ParseBigInt_def Let_def split: option.split)

lemma stealth_no_panic:
  assumes u: "wellFormed u" and C: "hashesOk C"
  shows "fst (GetStealthAddressUtxo C u) \<noteq> Panic p"
proof (cases "\<exists>k. ParseBigInt (uxNullifyingKey u) = Ok k")
  case True
  then obtain k where k: "ParseBigInt (uxNullifyingKey u) = Ok k" by blast
  show ?thesis
  proof (cases "uxStealth u = []")
    case True
    then show ?thesis using stealth_ok [OF u C k] by auto
  qed (simp add: GetStealthAddressUtxo_def)
next
  case False
  then obtain e where "ParseBigInt (uxNullifyingKey u) = Err e" by (cases "ParseBigInt (uxNullifyingKey u)") auto
  then show ?thesis
    by (simp add: GetStealthAddressUtxo_def GetStealthAddressNewStyle_def GetH1FromH0_def adjustedPrivateKey_def
        GetStealthAddress_def GetRandomizedStealthPairOld_def split: option.split)
qed

lemma nullifier_no_panic:
  assumes u: "wellFormed u" and C: "hashesOk C"
  shows "returns (GetNullifier C) u"
proof -
  obtain hf where "\<And>os. list_all (\<lambda>v. v \<noteq> None) os \<Longrightarrow> PoseidonBig C os = Ok (hf os)"
    using poseidon_ok [OF C] by blast
  then have hash [simp]: "list_all (\<lambda>v. v \<noteq> None) os \<Longrightarrow> PoseidonBig C os \<noteq> Panic p" for os p by simp
  obtain a where a: "uxAmount u = Some a" using u by (auto simp: wellFormed_def)
  have "returns (GetStealthAddressUtxo C) u" using stealth_no_panic [OF u C] by (simp add: returns_def)
  then have "returns (bindA (GetStealthAddressUtxo C) (\<lambda>stealth.
        bindA (liftA (ParseBigInt (uxErc20 u))) (\<lambda>token.
        bindA (liftA (ParseBigInt stealth)) (\<lambda>stealthBig.
        bindA (liftA (ParseBigInt (uxTimeStamp u))) (\<lambda>ts.
        bindA (liftA (PoseidonBig C [uxAmount u, Some token, Some stealthBig, Some ts])) (\<lambda>h u'.
          (Ok (ToBeHex (Some h)), u'\<lparr>uxCommitment := ToBeHex (Some h)\<rparr>))))))) u"
    by (intro returns_intros) (auto simp: a returns_def)
  then have commit: "returns (GetCommitment C) u"
    using u by (simp add: returns_def GetCommitment_def wellFormed_def)
  then have "returns (bindA (GetCommitment C) (\<lambda>commitment.
        bindA (liftA (ParseBigInt commitment)) (\<lambda>commitmentBig.
        bindA (liftA (ParseBigInt (uxNullifyingKey u))) (\<lambda>nk.
        bindA (liftA (PoseidonBig C [Some nk, Some commitmentBig])) (\<lambda>signature.
        bindA (liftA (PoseidonBig C [Some commitmentBig, Some signature])) (\<lambda>nul u'.
          (Ok (ToBeHex (Some nul)), u'\<lparr>uxNullifier := ToBeHex (Some nul)\<rparr>))))))) u"
    by (intro returns_intros) (auto simp: returns_def)
  then show ?thesis using u by (simp add: returns_def GetNullifier_def wellFormed_def)
qed

lemma nullifier_exists:
  assumes u: "wellFormed u" and C: "hashesOk C"
    and nk: "isOk (ParseBigInt (uxNullifyingKey u))" and tok: "isOk (ParseBigInt (uxErc20 u))"
    and st: "uxStealth u \<noteq> [] \<Longrightarrow> isOk (ParseBigInt (uxStealth u))"
  shows "\<exists>c u1 n u2. GetCommitment C u = (Ok c, u1) \<and> GetNullifier C u = (Ok n, u2) \<and> GetNullifier C u2 = (Ok n, u2)"
proof -
  obtain hf where hf: "\<And>os. list_all (\<lambda>v. v \<noteq> None) os \<Longrightarrow> PoseidonBig C os = Ok (hf os)" "\<And>os. 0 \<le> hf os"
    using poseidon_ok [OF C] by blast
  obtain k t where k: "ParseBigInt (uxNullifyingKey u) = Ok k" "ParseBigInt (uxErc20 u) = Ok t"
    using nk tok by (auto simp: isOk_iff)
  obtain ts a where ts: "ParseBigInt (uxTimeStamp u) = Ok ts" "uxAmount u = Some a"
    using u by (auto simp: wellFormed_def isOk_iff)
  obtain s n u' where s: "GetStealthAddressUtxo C u = (Ok s, u')" "ParseBigInt s = Ok n"
    using stealth_ok [OF u C k(1) st] by blast
  have parse: "ParseBigInt (ToBeHex (Some (hf os))) = Ok (hf os)" for os using hf(2) by simp
  let ?h = "hf [Some a, Some t, Some n, Some ts]"
  let ?u1 = "u'\<lparr>uxCommitment := ToBeHex (Some ?h)\<rparr>"
  have c: "GetCommitment C u = (Ok (ToBeHex (Some ?h)), ?u1)"
    using u s k ts hf by (simp add: GetCommitment_def bindA_def liftA_def wellFormed_def)
  let ?n = "hf [Some ?h, Some (hf [Some k, Some ?h])]"
  have n: "GetNullifier C u = (Ok (ToBeHex (Some ?n)), ?u1\<lparr>uxNullifier := ToBeHex (Some ?n)\<rparr>)"
    using u k hf c parse by (simp add: GetNullifier_def bindA_def liftA_def wellFormed_def)
  show ?thesis using c n nullifier_again [OF n] by blast
qed

text \<open>A well-formed utxo whose token and keys are numbers has a commitment and a nullifier, and keeps its
  shape while they are computed.\<close>

theorem well_formed_progress:
  assumes u: "wellFormed u" and C: "hashesOk C"
    and nk: "isOk (ParseBigInt (uxNullifyingKey u))" and tok: "isOk (ParseBigInt (uxErc20 u))"
    and st: "uxStealth u \<noteq> [] \<Longrightarrow> isOk (ParseBigInt (uxStealth u))"
  shows "\<exists>c u1 n u2. GetCommitment C u = (Ok c, u1) \<and> GetNullifier C u = (Ok n, u2) \<and> GetNullifier C u2 = (Ok n, u2)"
  using assms by (rule nullifier_exists)

lemma toy_hashes: "hashesOk toyCrypto"
proof -
  have "0 \<le> fold (\<lambda>x a. (5 * a + x + 1) mod 97) xs (0::int)" for xs
    by (induction xs rule: rev_induct) simp_all
  then show ?thesis by (simp add: hashesOk_def toyCrypto_def)
qed

lemma toyUtxo_wellFormed: "wellFormed toyUtxo"
  by (simp add: wellFormed_def toyUtxo_def)

lemma well_formed_progress_witness:
  "\<exists>c u1 n u2. GetCommitment toyCrypto toyUtxo = (Ok c, u1) \<and> GetNullifier toyCrypto toyUtxo = (Ok n, u2) \<and>
     GetNullifier toyCrypto u2 = (Ok n, u2)"
  by (rule well_formed_progress [OF toyUtxo_wellFormed toy_hashes]) (simp_all add: toyUtxo_def)

end
