(* ===== verification/BalanceProps.thy ===== *)
theory BalanceProps
  imports UtxoTyping "HOL-Library.Multiset"
begin

text \<open>
  Properties of the balance: a scan by workers finds what a scan in sequence finds, the incremental scan with
  its cache returns what a scan of everything returns, only unspent utxos are returned, and decoded utxos are well
  formed.
\<close>

subsection \<open>Decoding with known keys\<close>

definition keysOf :: "'d walletEnv \<Rightarrow> userKeys \<Rightarrow> userKeys" where
  "keysOf E = warmKeys (weCrypto E)"

lemma keysOf_stable: "keysOf E (keysOf E uk) = keysOf E uk"
  by (simp add: keysOf_def warmKeys_def GetShieldedPrivateKey_warm [unfolded warmKeys_def])

lemma bind_key_stable:
  assumes "\<And>k. \<exists>r. f k = liftA r"
  shows "snd (bindA (GetShieldedPrivateKey C) f uk) = warmKeys C uk"
proof (cases rule: GetShieldedPrivateKey_cases [of C uk])
  case (cached k)
  obtain r where "f k = liftA r" using assms by blast
  with cached show ?thesis by (simp add: bindA_def liftA_def)
next
  case (none e)
  then show ?thesis by (simp add: bindA_def)
qed

lemma bind_key_lift: "snd (bindA (GetShieldedPrivateKey C) (\<lambda>k. liftA (g k)) uk) = warmKeys C uk"
  by (rule bind_key_stable) blast

lemma DecryptUtxo_keys: "snd (DecryptUtxo C now rand d uk) = warmKeys C uk"
  unfolding DecryptUtxo_def by (rule bind_key_lift)

lemma DecodeEvmUtxo_keys: "snd (DecodeEvmUtxo C now rand d uk) \<in> {uk, warmKeys C uk}"
  by (simp add: DecodeEvmUtxo_def Let_def bind_key_lift) (simp add: liftA_def)

lemma DecodeSolana_keys: "snd (DecodeSolanaOnChainUtxo C now rand d uk) \<in> {uk, warmKeys C uk}"
  by (simp add: DecodeSolanaOnChainUtxo_def Let_def bind_key_lift) (simp add: liftA_def)

lemma decode_keys: "snd (decodeOutput E ch out uk) \<in> {uk, keysOf E uk}"
  using DecodeEvmUtxo_keys DecodeSolana_keys
  by (auto simp: decodeOutput_def DecryptUtxoHex_def DecryptUtxo_keys keysOf_def DecodeUtxo_def DecodeEvmUtxoHex_def)

lemma decode_warm: "snd (decodeOutput E ch out (keysOf E uk)) = keysOf E uk"
  using decode_keys [of E ch out "keysOf E uk"] by (simp add: keysOf_stable)

definition outcome :: "'d walletEnv \<Rightarrow> int \<Rightarrow> userKeys \<Rightarrow> encryptedOutputWithSign \<Rightarrow> utxo res" where
  "outcome E ch uk out = fst (decodeOutput E ch out (keysOf E uk))"

lemma decode_outcome: "decodeOutput E ch out (keysOf E uk) = (outcome E ch uk out, keysOf E uk)"
  by (metis outcome_def decode_warm prod.collapse)

definition owned :: "'d walletEnv \<Rightarrow> int \<Rightarrow> userKeys \<Rightarrow> encryptedOutputWithSign \<Rightarrow> bool" where
  "owned E ch uk out = isOk (outcome E ch uk out)"

text \<open>No decoding panics.\<close>

definition quiet :: "'d walletEnv \<Rightarrow> int \<Rightarrow> userKeys \<Rightarrow> encryptedOutputWithSign list \<Rightarrow> bool" where
  "quiet E ch uk outs \<longleftrightarrow> (\<forall>out\<in>set outs. \<forall>p. outcome E ch uk out \<noteq> Panic p)"

lemma quietD: "quiet E ch uk outs \<Longrightarrow> out \<in> set outs \<Longrightarrow> outcome E ch uk out \<noteq> Panic p"
  by (simp add: quiet_def)

subsection \<open>The parallel scan\<close>

lemma flagOutputs_result:
  assumes "quiet E ch uk outs" "set is \<subseteq> {..<length outs}"
  shows "flagOutputs E ch outs is flags (keysOf E uk) =
    (Ok (map (\<lambda>j. flags ! j \<or> (j \<in> set is \<and> owned E ch uk (outs ! j))) [0..<length flags]), keysOf E uk)"
  using assms(2)
proof (induction "is" arbitrary: flags)
  case Nil
  then show ?case by (simp add: map_nth)
next
  case (Cons i rest)
  from Cons.prems have i: "i < length outs" and rest: "set rest \<subseteq> {..<length outs}" by auto
  from i assms(1) have np: "outcome E ch uk (outs ! i) \<noteq> Panic p" for p by (simp add: quiet_def)
  show ?case
  proof (cases "outcome E ch uk (outs ! i)")
    case (Ok u)
    then have "owned E ch uk (outs ! i)" by (simp add: owned_def)
    moreover have "x < length flags \<Longrightarrow> flags[i := True] ! x \<longleftrightarrow> x = i \<or> flags ! x" for x
      by (cases "x = i") simp_all
    ultimately show ?thesis using Ok Cons.IH [OF rest] by (auto simp: decode_outcome)
  next
    case (Err e)
    then have "\<not> owned E ch uk (outs ! i)" by (simp add: owned_def)
    then show ?thesis using Err Cons.IH [OF rest] by (auto simp: decode_outcome)
  qed (use np in blast)
qed

lemma takeWhile_upt:
  assumes "\<And>i j. i \<le> j \<Longrightarrow> P j \<Longrightarrow> P i"
  shows "takeWhile P [0..<m] = filter P [0..<m]"
proof (induction m)
  case (Suc m)
  show ?case
  proof (cases "\<forall>k\<in>set [0..<m]. P k")
    case True
    then have "takeWhile P ([0..<m] @ [m]) = [0..<m] @ takeWhile P [m]" by (intro takeWhile_append2) auto
    moreover from True have "filter P [0..<m] = [0..<m]" by (intro filter_True) simp
    ultimately show ?thesis by simp
  next
    case False
    then obtain k where k: "k < m" "\<not> P k" by auto
    with assms have "\<not> P m" by (metis less_imp_le)
    moreover have "takeWhile P ([0..<m] @ [m]) = takeWhile P [0..<m]"
      using k by (intro takeWhile_append1) auto
    ultimately show ?thesis using Suc.IH by simp
  qed
qed simp

lemma chunk_cover:
  fixes c :: nat
  assumes "0 < c" "n \<le> w * c"
  shows "(\<Union>k\<in>{k. k < w \<and> k * c < n}. {k * c..<min (k * c + c) n}) = {..<n}"
proof (intro equalityI subsetI)
  fix j assume "j \<in> {..<n}"
  then have j: "j < n" by simp
  have "j div c < w" using j assms(2) by (intro less_mult_imp_div_less) (rule less_le_trans)
  moreover have "j div c * c < n" by (rule le_less_trans [OF div_times_less_eq_dividend j])
  moreover have "j < j div c * c + c" using dividend_less_div_times [OF assms(1), of j] by (simp only: add.commute)
  ultimately show "j \<in> (\<Union>k\<in>{k. k < w \<and> k * c < n}. {k * c..<min (k * c + c) n})"
    using j by (intro UN_I [of "j div c"]) auto
qed auto

lemma worker_indexes:
  assumes "0 < cpus"
  shows "set (concat (workerTasks cpus n)) = {..<n}"
proof (cases "n = 0")
  case True
  then show ?thesis by (simp add: workerTasks_def Let_def)
next
  case False
  define w where "w = min cpus n"
  define c where "c = (n + w - 1) div w"
  have w: "0 < w" "w \<le> n" using assms False by (simp_all add: w_def)
  then have c: "0 < c" by (simp add: c_def div_greater_zero_iff)
  have "n + w - 1 < w + c * w" using dividend_less_div_times [OF w(1), of "n + w - 1"] by (simp add: c_def)
  then have cover: "n \<le> w * c" using w(1) by (simp add: mult.commute)
  have "takeWhile (\<lambda>k. k * c < n) [0..<w] = filter (\<lambda>k. k * c < n) [0..<w]"
    by (rule takeWhile_upt) (meson le_less_trans mult_le_mono1)
  moreover have tasks: "workerTasks cpus n = map (\<lambda>k. [k * c..<min (k * c + c) n]) (takeWhile (\<lambda>k. k * c < n) [0..<w])"
    unfolding workerTasks_def Let_def w_def c_def ..
  ultimately have "set (concat (workerTasks cpus n)) =
      (\<Union>k\<in>{k. k < w \<and> k * c < n}. {k * c..<min (k * c + c) n})"
    by (auto simp: tasks)
  then show ?thesis by (simp only: chunk_cover [OF c cover])
qed

lemma zip_filter_owned: "map fst (filter snd (zip outs (map P outs))) = filter P outs"
  by (induction outs) auto

lemma scan_core:
  assumes key: "GetShieldedPrivateKey (weCrypto E) uk = (Ok nk, uk')"
    and calm: "quiet E ch uk outs"
    and cpus: "0 < weCPUs E"
    and fair: "\<And>tasks. mset (weSchedule E tasks) = mset (concat tasks)"
  shows "filterOwnedOutputs E ch outs uk = (Ok (filter (owned E ch uk) outs), uk')"
proof -
  have uk': "uk' = keysOf E uk" using key by (simp add: keysOf_def warmKeys_def)
  let ?is = "if length outs < parallelDecryptThreshold then [0..<length outs]
             else weSchedule E (workerTasks (weCPUs E) (length outs))"
  have ind: "set ?is = {..<length outs}"
    using worker_indexes [OF cpus] fair [THEN mset_eq_setD] by auto
  let ?fs = "map (\<lambda>j. replicate (length outs) False ! j \<or> (j \<in> set ?is \<and> owned E ch uk (outs ! j))) [0..<length (replicate (length outs) False)]"
  have "flagOutputs E ch outs ?is (replicate (length outs) False) uk' = (Ok ?fs, uk')"
    unfolding uk' using ind by (intro flagOutputs_result [OF calm]) simp
  moreover have "?fs = map (owned E ch uk) outs" using ind by (intro nth_equalityI) auto
  then have "map fst (filter snd (zip outs ?fs)) = filter (owned E ch uk) outs" by (simp add: zip_filter_owned)
  ultimately show ?thesis using key by (simp add: filterOwnedOutputs_def bindA_def liftA_def)
qed

text \<open>However the workers of a scan are scheduled, the outputs found are those the wallet can decode, in the
  order of the list, and the keys end in the same state.\<close>

theorem scan_any_schedule:
  assumes "GetShieldedPrivateKey (weCrypto E) uk = (Ok nk, uk')" "quiet E ch uk outs" "0 < weCPUs E"
    and "\<And>tasks. mset (weSchedule E tasks) = mset (concat tasks)"
  shows "filterOwnedOutputs E ch outs uk = (Ok (filter (owned E ch uk) outs), uk')"
  using assms by (rule scan_core)

subsection \<open>The incremental scan\<close>

definition flagged :: "'d walletEnv \<Rightarrow> int \<Rightarrow> userKeys \<Rightarrow> encryptedOutputWithSign \<Rightarrow> utxo res" where
  "flagged E ch uk out = andThen (outcome E ch uk out) (\<lambda>u. Ok (u\<lparr>uxIsBlocked := eoIsBlocked out\<rparr>))"

definition ownUtxos :: "'d walletEnv \<Rightarrow> int \<Rightarrow> userKeys \<Rightarrow> encryptedOutputWithSign list \<Rightarrow> utxo list" where
  "ownUtxos E ch uk outs = okList (map (flagged E ch uk) outs)"

lemma ownUtxos_owned: "ownUtxos E ch uk (filter (owned E ch uk) outs) = ownUtxos E ch uk outs"
proof (induction outs)
  case (Cons out outs)
  then show ?case by (cases "outcome E ch uk out") (simp_all add: ownUtxos_def owned_def flagged_def)
qed simp

lemma DecodeOutputs_all:
  "quiet E ch uk outs \<Longrightarrow> DecodeOutputs E ch outs (keysOf E uk) = (Ok (ownUtxos E ch uk outs), keysOf E uk)"
proof (induction outs)
  case (Cons out outs)
  then have rest: "DecodeOutputs E ch outs (keysOf E uk) = (Ok (ownUtxos E ch uk outs), keysOf E uk)"
    and np: "outcome E ch uk out \<noteq> Panic p" for p by (auto simp: quiet_def)
  show ?case
  proof (cases "outcome E ch uk out")
    case (Ok u)
    then show ?thesis using rest
      by (simp add: decode_outcome bindA_def liftA_def ownUtxos_def flagged_def)
  next
    case (Err e)
    then show ?thesis using rest by (simp add: decode_outcome ownUtxos_def flagged_def)
  qed (use np in blast)
qed (simp add: ownUtxos_def)

text \<open>The utxos that can still be spent, each with the nullifier it has computed.\<close>

definition unspent :: "cryptoLib \<Rightarrow> string set \<Rightarrow> utxo \<Rightarrow> bool" where
  "unspent C nullifiers u \<longleftrightarrow> (case fst (GetNullifier C u) of Ok nul \<Rightarrow> nul \<notin> nullifiers | _ \<Rightarrow> False)"

definition spendable :: "cryptoLib \<Rightarrow> string set \<Rightarrow> utxo list \<Rightarrow> utxo list" where
  "spendable C nullifiers us = map (\<lambda>u. snd (GetNullifier C u)) (filter (unspent C nullifiers) us)"

definition hashable :: "cryptoLib \<Rightarrow> utxo list \<Rightarrow> bool" where
  "hashable C us \<longleftrightarrow> (\<forall>u\<in>set us. \<forall>p. fst (GetNullifier C u) \<noteq> Panic p)"

lemma filterSpent_result: "hashable C us \<Longrightarrow> filterSpentUtxos C nullifiers us = Ok (spendable C nullifiers us)"
proof (induction us)
  case (Cons u us)
  then have rest: "filterSpentUtxos C nullifiers us = Ok (spendable C nullifiers us)" by (simp add: hashable_def)
  obtain r u' where g: "GetNullifier C u = (r, u')" by fastforce
  have "r \<noteq> Panic p" for p using Cons.prems g by (auto simp: hashable_def)
  then show ?case using rest g
    by (cases r) (auto simp: spendable_def unspent_def split: prod.splits)
qed (simp add: spendable_def)

text \<open>What the cache of a wallet holds: the own outputs of a prefix, and the last output of that prefix.\<close>

definition scanned :: "'d walletEnv \<Rightarrow> int \<Rightarrow> userKeys \<Rightarrow> encryptedOutputWithSign list \<Rightarrow> nat \<Rightarrow> hinkalCache \<Rightarrow> bool" where
  "scanned E ch uk outs k c \<longleftrightarrow> k \<le> length outs \<and> hcOutputs c = filter (owned E ch uk) (take k outs) \<and>
     hcLastOutput c = (if k = 0 then [] else eoValue (outs ! (k - 1)))"

lemma indexFrom_first:
  "distinct (map eoValue outs) \<Longrightarrow> j < length outs \<Longrightarrow> indexFrom i outs (eoValue (outs ! j)) = int (i + j)"
proof (induction outs arbitrary: i j)
  case (Cons out outs)
  show ?case
  proof (cases j)
    case (Suc j')
    with Cons.prems have "eoValue out \<noteq> eoValue (outs ! j')" by (metis distinct.simps(2) length_Cons length_map list.simps(9) nth_map nth_mem Suc_less_eq)
    then show ?thesis using Suc Cons by simp
  qed simp
qed simp

lemma indexFrom_none: "v \<notin> eoValue ` set outs \<Longrightarrow> indexFrom i outs v = - 1"
  by (induction outs arbitrary: i) auto

lemma cursor_index:
  assumes "scanned E ch uk outs k c" "distinct (map eoValue outs)" "[] \<notin> eoValue ` set outs"
  shows "indexOfOutput outs (hcLastOutput c) = int k - 1"
proof (cases k)
  case 0
  then show ?thesis using assms by (simp add: scanned_def indexOfOutput_def indexFrom_none)
next
  case (Suc j)
  then show ?thesis using assms indexFrom_first [of outs j 0] by (simp add: scanned_def indexOfOutput_def)
qed

text \<open>The wallet's keys can be read, its processors and its scheduler behave, and nothing it decodes panics.\<close>

definition steady :: "'d walletEnv \<Rightarrow> int \<Rightarrow> userKeys \<Rightarrow> encryptedOutputWithSign list \<Rightarrow> bool" where
  "steady E ch uk outs \<longleftrightarrow> isOk (fst (GetShieldedPublicKey (weCrypto E) uk)) \<and> quiet E ch uk outs \<and> 0 < weCPUs E \<and>
     (\<forall>tasks. mset (weSchedule E tasks) = mset (concat tasks))"

lemma quiet_subset: "quiet E ch uk outs \<Longrightarrow> set os \<subseteq> set outs \<Longrightarrow> quiet E ch uk os"
  by (auto simp: quiet_def)

lemma public_key_keys: "snd (GetShieldedPublicKey C uk) = warmKeys C uk"
proof -
  have "\<exists>r. bindA (liftA (ParseBigInt spk)) (\<lambda>n. bindA (liftA (PoseidonBig C [Some n])) (\<lambda>h. liftA (Ok (ToBeHex (Some h))))) =
      (liftA r :: (userKeys, string) action)" for spk
    by (rule exI [of _ "andThen (ParseBigInt spk) (\<lambda>n. andThen (PoseidonBig C [Some n]) (\<lambda>h. Ok (ToBeHex (Some h))))"])
      (auto simp: bindA_def liftA_def fun_eq_iff split: res.split prod.split)
  then show ?thesis unfolding GetShieldedPublicKey_def by (intro bind_key_stable) blast
qed

lemma public_key_private:
  assumes "GetShieldedPublicKey C uk = (Ok key, uk')"
  obtains nk where "GetShieldedPrivateKey C (warmKeys C uk) = (Ok nk, warmKeys C uk)" "uk' = warmKeys C uk"
proof (cases rule: GetShieldedPrivateKey_cases [of C uk])
  case (cached k)
  moreover have "uk' = warmKeys C uk" using public_key_keys [of C uk] assms by simp
  ultimately show ?thesis using that GetShieldedPrivateKey_warm [of C uk] by simp
next
  case (none e)
  then show ?thesis using assms by (simp add: GetShieldedPublicKey_def bindA_def)
qed

text \<open>One local scan: the cache moves on to the end of the list, and the utxos of all own outputs come out.\<close>

lemma local_scan:
  assumes key: "GetShieldedPrivateKey (weCrypto E) (keysOf E uk) = (Ok nk, keysOf E uk)"
    and calm: "quiet E ch uk outs" "0 < weCPUs E" "\<And>tasks. mset (weSchedule E tasks) = mset (concat tasks)"
    and c: "scanned E ch uk outs k c"
    and k: "wlKeys w = keysOf E uk"
    and store: "\<And>c'. scanned E ch uk outs (length outs) c' \<Longrightarrow> \<exists>d'. SetHinkalCache (weJson E) (weDevice E) (wlAddress w) ch sk c' (wlCache w) = (Ok (), d')"
  shows "\<exists>c' d'. scanned E ch uk outs (length outs) c' \<and>
     SetHinkalCache (weJson E) (weDevice E) (wlAddress w) ch sk c' (wlCache w) = (Ok (), d') \<and>
     getInputUtxosLocally E ch sk outs (hcOutputs c) (hcLastOutput c) (int k - 1) w =
       (Ok (ownUtxos E ch uk outs), w\<lparr>wlCache := d'\<rparr>)"
proof -
  have kle: "k \<le> length outs" using c by (simp add: scanned_def)
  have rest: "(if k < length outs then drop k outs else []) = drop k outs" by simp
  have owned_keys: "owned E ch (keysOf E uk) = owned E ch uk"
    by (simp add: owned_def outcome_def keysOf_stable fun_eq_iff)
  have quiet_keys: "quiet E ch (keysOf E uk) = quiet E ch uk"
    by (simp add: quiet_def outcome_def keysOf_stable fun_eq_iff)
  have "quiet E ch (keysOf E uk) (drop k outs)"
    unfolding quiet_keys using calm(1) by (rule quiet_subset) (rule set_drop_subset)
  from scan_core [OF key this calm(2,3)]
  have scan: "filterOwnedOutputs E ch (drop k outs) (keysOf E uk) = (Ok (filter (owned E ch uk) (drop k outs)), keysOf E uk)"
    by (simp add: owned_keys)
  define l where "l = (if outs \<noteq> [] then eoValue (last outs) else hcLastOutput c)"
  let ?c' = "\<lparr>hcOutputs = hcOutputs c @ filter (owned E ch uk) (drop k outs), hcLastOutput = l\<rparr>"
  have new: "hcOutputs c @ filter (owned E ch uk) (drop k outs) = filter (owned E ch uk) outs"
    using c by (simp add: scanned_def flip: filter_append)
  have sc: "scanned E ch uk outs (length outs) ?c'"
    using c new by (auto simp: scanned_def last_conv_nth l_def)
  obtain d' where d': "SetHinkalCache (weJson E) (weDevice E) (wlAddress w) ch sk ?c' (wlCache w) = (Ok (), d')"
    using store [OF sc] by blast
  have "quiet E ch uk (filter (owned E ch uk) outs)" using calm(1) by (rule quiet_subset) auto
  from DecodeOutputs_all [OF this]
  have dec: "DecodeOutputs E ch (filter (owned E ch uk) outs) (keysOf E uk) = (Ok (ownUtxos E ch uk outs), keysOf E uk)"
    by (simp add: ownUtxos_owned)
  have "getInputUtxosLocally E ch sk outs (hcOutputs c) (hcLastOutput c) (int k - 1) =
      bindA (onKeys (filterOwnedOutputs E ch (drop k outs))) (\<lambda>more.
      bindA (setCache E ch sk \<lparr>hcOutputs = hcOutputs c @ more, hcLastOutput = l\<rparr>) (\<lambda>_.
        onKeys (DecodeOutputs E ch (hcOutputs c @ more))))"
    by (simp add: getInputUtxosLocally_def Let_def l_def rest)
  then have "getInputUtxosLocally E ch sk outs (hcOutputs c) (hcLastOutput c) (int k - 1) w =
       (Ok (ownUtxos E ch uk outs), w\<lparr>wlCache := d'\<rparr>)"
    using scan d' dec k by (simp add: bindA_def onKeys_def onCache_def setCache_def new)
  then show ?thesis using sc d' by blast
qed

lemma cache_stores:
  assumes "GetHinkalCache K dev addr ch sk d0 = Ok c0" "cacheText K c = Ok t"
  shows "\<exists>d'. SetHinkalCache K memoryDevice addr ch sk c d = (Ok (), d')"
  using assms
  by (auto simp: GetHinkalCache_def SetHinkalCache_def Let_def memoryDevice_def memorySet_def split: if_splits prod.splits)

text \<open>C4: A wallet whose cache holds the own outputs of a prefix of the chain's outputs gets, from the next call, exactly
  the utxos that a scan of all outputs with no cache gives, without the spent ones and with the asked blocked flag;
  afterwards the cache holds the own outputs of the whole list. Remote decryption that fails changes nothing in
  this.\<close>

theorem incremental_scan:
  fixes w :: "memoryCache wallet" and p :: inputUtxoParams
  defines "outs \<equiv> wlOutputs w (ipChainID p)"
  assumes calm: "steady E (ipChainID p) (wlKeys w) outs" "hashable (weCrypto E) (ownUtxos E (ipChainID p) (wlKeys w) outs)"
    and vals: "distinct (map eoValue outs)" "[] \<notin> eoValue ` set outs"
    and call: "ipPassedKey p = []" "\<not> ipResetCacheBefore p" "\<not> wlUpdatesDisabled w"
      "ipAllowRemote p \<Longrightarrow> \<exists>e. \<forall>uk. weRemote E (ipChainID p) uk = Err e"
    and json: "weDevice E = memoryDevice" "\<And>c. scanned E (ipChainID p) (wlKeys w) outs (length outs) c \<Longrightarrow>
        \<exists>t. cacheText (weJson E) c = Ok t \<and> cacheParse (weJson E) t = Some c"
    and key: "fst (GetShieldedPublicKey (weCrypto E) (wlKeys w)) = Ok sk"
    and cache: "GetHinkalCache (weJson E) memoryDevice (wlAddress w) (ipChainID p) sk (wlCache w) = Ok c"
      "scanned E (ipChainID p) (wlKeys w) outs k c"
  shows "\<exists>w' c'. GetInputUtxoAndBalance E p w =
      (Ok (filter (\<lambda>u. uxIsBlocked u = ipUseBlocked p)
         (spendable (weCrypto E) (wlNullifiers w (ipChainID p)) (ownUtxos E (ipChainID p) (wlKeys w) outs))), w') \<and>
    GetHinkalCache (weJson E) memoryDevice (wlAddress w) (ipChainID p) sk (wlCache w') = Ok c' \<and>
    scanned E (ipChainID p) (wlKeys w) outs (length outs) c' \<and> wlKeys w' = keysOf E (wlKeys w)"
proof -
  let ?ch = "ipChainID p" and ?C = "weCrypto E" and ?uk = "wlKeys w" and ?outs = "wlOutputs w (ipChainID p)"
  let ?w = "w\<lparr>wlKeys := keysOf E ?uk\<rparr>"
  have pub: "GetShieldedPublicKey ?C ?uk = (Ok sk, keysOf E ?uk)"
    using key public_key_keys [of ?C ?uk] by (metis keysOf_def prod.collapse)
  then obtain nk where nk: "GetShieldedPrivateKey ?C (keysOf E ?uk) = (Ok nk, keysOf E ?uk)"
    unfolding keysOf_def by (rule public_key_private)
  have index: "indexOfOutput ?outs (hcLastOutput c) = int k - 1"
    using cursor_index [OF cache(2) vals] by (simp add: outs_def)
  have store: "\<exists>d'. SetHinkalCache (weJson E) (weDevice E) (wlAddress ?w) ?ch sk c' (wlCache ?w) = (Ok (), d')"
    if sc: "scanned E ?ch ?uk ?outs (length ?outs) c'" for c'
  proof -
    obtain t where "cacheText (weJson E) c' = Ok t" using json(2) [of c'] sc by (auto simp: outs_def)
    from cache_stores [OF cache(1) this] show ?thesis by (simp add: json(1))
  qed
  obtain c' d' where scan: "scanned E ?ch ?uk ?outs (length ?outs) c'"
      "SetHinkalCache (weJson E) memoryDevice (wlAddress w) ?ch sk c' (wlCache w) = (Ok (), d')"
      "getInputUtxosLocally E ?ch sk ?outs (hcOutputs c) (hcLastOutput c) (int k - 1) ?w =
       (Ok (ownUtxos E ?ch ?uk ?outs), ?w\<lparr>wlCache := d'\<rparr>)"
    using local_scan [OF nk, of ?ch ?outs k c ?w sk] calm cache(2) store json(1) by (auto simp: steady_def outs_def)
  have parse: "cacheText (weJson E) c' = Ok t \<Longrightarrow> cacheParse (weJson E) t = Some c'" for t
    using json(2) [of c'] scan(1) by (auto simp: outs_def)
  have remote: "attemptGetInputUtxosRemotely E ?ch sk ?outs (hcOutputs c) (hcLastOutput c) (int k - 1) ?w =
       (Ok (ownUtxos E ?ch ?uk ?outs), ?w\<lparr>wlCache := d'\<rparr>)" if r: "ipAllowRemote p"
  proof -
    obtain e where "\<forall>uk. weRemote E ?ch uk = Err e" using call(4) r by blast
    then show ?thesis using scan(3) by (simp add: attemptGetInputUtxosRemotely_def getInputUtxosRemotely_def bindA_def liftA_def)
  qed
  have cursor: "(- 1 < int k - 1) = (0 < k)" "(hcLastOutput c = []) = (k = 0)"
  proof -
    have "eoValue (outs ! (k - 1)) \<noteq> []" if "0 < k"
      using that vals(2) cache(2) nth_mem [of "k - 1" outs] by (fastforce simp: scanned_def image_iff)
    then show "(hcLastOutput c = []) = (k = 0)" using cache(2) by (simp add: scanned_def)
  qed auto
  have spent: "filterSpentUtxos ?C N (ownUtxos E ?ch ?uk ?outs) = Ok (spendable ?C N (ownUtxos E ?ch ?uk ?outs))" for N
    using calm(2) by (intro filterSpent_result) (simp add: outs_def)
  let ?w' = "?w\<lparr>wlCache := d'\<rparr>"
  have "GetInputUtxoAndBalance E p w =
      (Ok (filter (\<lambda>u. uxIsBlocked u = ipUseBlocked p) (spendable ?C (wlNullifiers w ?ch) (ownUtxos E ?ch ?uk ?outs))), ?w')"
    using pub cache(1) call(1-3) scan(3) remote spent
    by (cases "k = 0") (auto simp: GetInputUtxoAndBalance_def Let_def bindA_def onKeys_def liftA_def json(1) index cursor)
  moreover have "GetHinkalCache (weJson E) memoryDevice (wlAddress w) ?ch sk (wlCache ?w') = Ok c'"
    using memoryCacheDevice.cache_after_set [OF scan(2) parse] by simp
  ultimately show ?thesis using scan(1) by (intro exI [of _ ?w'] exI [of _ c']) (simp add: outs_def)
qed

text \<open>A toy wallet that owns the first of two outputs and has scanned neither.\<close>

definition toyOwned :: encryptedOutputWithSign where
  "toyOwned = \<lparr>eoValue = ''0x'' @ hexEncode toyWords, eoIsPositive = False, eoIsBlocked = False\<rparr>"

definition toyForeign :: encryptedOutputWithSign where
  "toyForeign = \<lparr>eoValue = ''0x'', eoIsPositive = False, eoIsBlocked = False\<rparr>"

definition toyKeys :: userKeys where
  "toyKeys = NewUserKeysFromNullifyingKey (ToBeHex (Some 11))"

definition toyEnd :: hinkalCache where
  "toyEnd = \<lparr>hcOutputs = [toyOwned], hcLastOutput = ''0x''\<rparr>"

definition toyWallet :: "memoryCache wallet" where
  "toyWallet = \<lparr>wlKeys = toyKeys, wlOutputs = (\<lambda>_. [toyOwned, toyForeign]), wlNullifiers = (\<lambda>_. {}), wlAddress = (\<lambda>_. ''0xhinkal''),
     wlUpdatesDisabled = False, wlProofRemotely = False, wlEthAddress = (\<lambda>_. Ok []), wlCache = NewMemoryCacheDevice\<rparr>"

lemma toyKeys_private: "GetShieldedPrivateKey toyCrypto toyKeys = (Ok (ToBeHex (Some 11)), toyKeys)"
  by (simp add: GetShieldedPrivateKey_def toyKeys_def NewUserKeysFromNullifyingKey_def)

lemma toy_keysOf [simp]: "keysOf (toyEnv c) toyKeys = toyKeys"
  by (simp add: keysOf_def warmKeys_def toyKeys_private)

lemma toy_outcomes:
  "\<exists>u. outcome (toyEnv c) 1 toyKeys toyOwned = Ok u" "\<exists>e. outcome (toyEnv c) 1 toyKeys toyForeign = Err e"
proof -
  have chain: "\<not> IsSolanaLike 1" by code_simp
  obtain v where "DecodeEvmUtxo toyCrypto (bigString 7) (\<lambda>n. Ok (replicate n 1)) toyWords toyKeys = (Ok v, toyKeys)"
    unfolding toyKeys_def using toy_evm_utxo by blast
  then show "\<exists>u. outcome (toyEnv c) 1 toyKeys toyOwned = Ok u"
    by (simp add: outcome_def decodeOutput_def toyOwned_def DecodeUtxo_def chain DecodeEvmUtxoHex_def toyCrypto_fromHex [simplified])
  show "\<exists>e. outcome (toyEnv c) 1 toyKeys toyForeign = Err e"
    by (simp add: outcome_def decodeOutput_def toyForeign_def DecodeUtxo_def chain DecodeEvmUtxoHex_def
        DecodeEvmUtxo_def toyCrypto_def liftA_def trimPrefix_def hasPrefix_def)
qed

lemma toy_quiet: "quiet (toyEnv c) 1 toyKeys [toyOwned, toyForeign]"
  using toy_outcomes [of c] by (auto simp: quiet_def)

lemma toy_owned: "filter (owned (toyEnv c) 1 toyKeys) [toyOwned, toyForeign] = [toyOwned]"
  using toy_outcomes [of c] by (auto simp: owned_def)

lemma scan_any_schedule_witness:
  "filterOwnedOutputs (toyEnv toyEnd) 1 [toyOwned, toyForeign] toyKeys = (Ok [toyOwned], toyKeys)"
  using scan_any_schedule [of "toyEnv toyEnd" toyKeys _ toyKeys 1 "[toyOwned, toyForeign]"] toyKeys_private toy_quiet toy_owned
  by simp

definition toyParams :: inputUtxoParams where
  "toyParams = \<lparr>ipChainID = 1, ipPassedKey = [], ipEthAddress = [], ipResetCacheBefore = False, ipAllowRemote = True,
     ipUseBlocked = False\<rparr>"

lemma toy_fields [simp]:
  "wlKeys toyWallet = toyKeys" "wlOutputs toyWallet n = [toyOwned, toyForeign]" "wlNullifiers toyWallet n = {}"
  "wlAddress toyWallet = (\<lambda>_. ''0xhinkal'')" "\<not> wlUpdatesDisabled toyWallet" "wlCache toyWallet = NewMemoryCacheDevice"
  "ipChainID toyParams = 1" "ipPassedKey toyParams = []" "\<not> ipResetCacheBefore toyParams" "ipAllowRemote toyParams"
  "\<not> ipUseBlocked toyParams"
  by (simp_all add: toyWallet_def toyParams_def)

lemma length_toyWords: "length toyWords = 256"
  by (simp add: toyWords_def)

lemma toy_values: "distinct (map eoValue [toyOwned, toyForeign])" "[] \<notin> eoValue ` set [toyOwned, toyForeign]"
proof -
  have "hexEncode [] \<noteq> hexEncode toyWords"
    by (metis hexDecode_hexEncode length_0_conv length_toyWords res.inject(1) zero_neq_numeral)
  then have "hexEncode toyWords \<noteq> []" by (simp add: hexEncode_def)
  then show "distinct (map eoValue [toyOwned, toyForeign])" by (simp add: toyOwned_def toyForeign_def)
qed (simp add: toyOwned_def toyForeign_def)

lemma toy_public: "GetShieldedPublicKey toyCrypto toyKeys = (Ok (ToBeHex (Some 12)), toyKeys)"
proof -
  have "PoseidonBig toyCrypto [Some 11] = Ok 12" by (simp add: PoseidonBig_def toyCrypto_def)
  then show ?thesis by (simp add: GetShieldedPublicKey_def bindA_def liftA_def toyKeys_private)
qed

lemma incremental_scan_witness:
  "\<exists>w' us. GetInputUtxoAndBalance (toyEnv toyEnd) toyParams toyWallet = (Ok us, w') \<and>
     us = filter (\<lambda>u. \<not> uxIsBlocked u) (spendable toyCrypto {} (ownUtxos (toyEnv toyEnd) 1 toyKeys [toyOwned, toyForeign]))"
proof -
  let ?E = "toyEnv toyEnd" and ?os = "[toyOwned, toyForeign]"
  let ?sk = "ToBeHex (Some 12)"
  note pub = toy_public
  have steady: "steady ?E 1 toyKeys ?os"
    using toy_quiet by (simp add: steady_def pub)
  have wf: "wellFormed u" if mem: "u \<in> set (ownUtxos ?E 1 toyKeys ?os)" for u
  proof -
    obtain out v where v: "outcome ?E 1 toyKeys out = Ok v" "u = v\<lparr>uxIsBlocked := eoIsBlocked out\<rparr>"
      using mem by (auto simp: ownUtxos_def okList_member flagged_def res_simps eq_commute [of "Ok u"])
    then have "wellFormed v" using decoded_wellFormed decode_outcome by metis
    then show ?thesis by (simp add: v(2) wellFormed_def)
  qed
  have hash: "hashable toyCrypto (ownUtxos ?E 1 toyKeys ?os)"
    using nullifier_no_panic [OF _ toy_hashes] wf by (auto simp: hashable_def returns_def)
  have empty: "GetHinkalCache (weJson ?E) memoryDevice (\<lambda>_. ''0xhinkal'') 1 ?sk NewMemoryCacheDevice = Ok emptyHinkalCache"
    by (simp add: GetHinkalCache_def Let_def shortStrings_def memoryDevice_def memoryGet_def NewMemoryCacheDevice_def)
  have start: "scanned ?E 1 toyKeys ?os 0 emptyHinkalCache"
    by (simp add: scanned_def emptyHinkalCache_def)
  have final: "scanned ?E 1 toyKeys ?os (length ?os) c \<Longrightarrow> c = toyEnd" for c
    using toy_owned by (auto simp: scanned_def toyEnd_def toyForeign_def)
  have "steady ?E (ipChainID toyParams) (wlKeys toyWallet) (wlOutputs toyWallet (ipChainID toyParams))"
    "hashable (weCrypto ?E) (ownUtxos ?E (ipChainID toyParams) (wlKeys toyWallet) (wlOutputs toyWallet (ipChainID toyParams)))"
    using steady hash by simp_all
  note scan = incremental_scan [OF this]
  show ?thesis
    using scan [of ?sk emptyHinkalCache 0] toy_values start final pub empty by auto
qed

end
