(* ===== verification/SpendProps.thy ===== *)
theory SpendProps
  imports BalanceProps
begin

text \<open>
  What a balance call can return: only unspent utxos with the asked flag, sums that are the sums of those utxos, and
  nothing new once the last scanned output has left the chain's list.
\<close>

subsection \<open>Only unspent utxos\<close>

lemma filterSpent_member:
  "filterSpentUtxos C nullifiers us = Ok vs \<Longrightarrow> v \<in> set vs \<Longrightarrow>
   \<exists>n. GetNullifier C v = (Ok n, v) \<and> n \<notin> nullifiers"
proof (induction us arbitrary: vs)
  case (Cons u us)
  obtain r u' where g: "GetNullifier C u = (r, u')" by fastforce
  show ?case
  proof (cases r)
    case (Ok n)
    then have again: "GetNullifier C u' = (Ok n, u')" using g nullifier_again by blast
    show ?thesis
    proof (cases "n \<in> nullifiers")
      case True
      then show ?thesis using Cons.prems Cons.IH g Ok by simp
    next
      case False
      then obtain rest where "filterSpentUtxos C nullifiers us = Ok rest" "vs = u' # rest"
        using Cons.prems(1) g Ok by (auto simp: res_simps)
      then show ?thesis using Cons.prems(2) Cons.IH again False by auto
    qed
  qed (use Cons g in simp_all)
qed simp

text \<open>Steps that leave the chain's data alone.\<close>

definition keepsChain :: "('d wallet, 'a) action \<Rightarrow> bool" where
  "keepsChain m \<longleftrightarrow> (\<forall>w. wlNullifiers (snd (m w)) = wlNullifiers w \<and> wlOutputs (snd (m w)) = wlOutputs w)"

lemma keeps_bind: "keepsChain m \<Longrightarrow> (\<And>x. keepsChain (f x)) \<Longrightarrow> keepsChain (bindA m f)"
  unfolding keepsChain_def bindA_def by (auto split: res.splits prod.splits) (metis snd_conv)+

lemma keeps_onKeys: "keepsChain (onKeys f)"
  by (auto simp: keepsChain_def onKeys_def split: prod.splits)

lemma keeps_onCache: "keepsChain (onCache f)"
  by (auto simp: keepsChain_def onCache_def split: prod.splits)

lemma keeps_lift: "keepsChain (liftA r)"
  by (simp add: keepsChain_def liftA_def)

lemma keeps_setCache: "keepsChain (setCache E ch key c)"
  by (auto simp: keepsChain_def setCache_def onCache_def split: prod.splits)

lemma keeps_locally: "keepsChain (getInputUtxosLocally E ch key outs cached l i)"
  by (simp add: getInputUtxosLocally_def Let_def keeps_bind keeps_onKeys keeps_setCache)

lemma keeps_remotely: "keepsChain (getInputUtxosRemotely E ch key)"
proof -
  have "keepsChain (\<lambda>w. bindA (liftA (weRemote E ch (wlKeys w))) (\<lambda>(resolved, newOutputs, lastOutput).
     bindA (setCache E ch key \<lparr>hcOutputs = newOutputs, hcLastOutput = lastOutput\<rparr>) (\<lambda>_. liftA (Ok resolved))) w)"
    unfolding keepsChain_def bindA_def liftA_def setCache_def onCache_def by (auto split: res.splits prod.splits)
  then show ?thesis by (simp add: getInputUtxosRemotely_def [abs_def])
qed

lemma keeps_attempt: "keepsChain (attemptGetInputUtxosRemotely E ch key outs cached l i)"
  using keeps_remotely [of E ch key] keeps_locally [of E ch key outs cached l i]
  unfolding keepsChain_def attemptGetInputUtxosRemotely_def by (auto split: prod.splits res.splits) (metis snd_conv)+

lemma keepsD: "keepsChain m \<Longrightarrow> m w = (r, w') \<Longrightarrow> wlNullifiers w' = wlNullifiers w \<and> wlOutputs w' = wlOutputs w"
  by (metis keepsChain_def snd_conv)

text \<open>A successful call takes its utxos from one of the three sources and then drops the spent and the wrong ones.\<close>

lemma call_steps:
  assumes "GetInputUtxoAndBalance E p w = (Ok us, w')"
  obtains found kept where "filterSpentUtxos (weCrypto E) (wlNullifiers w (ipChainID p)) found = Ok kept"
    "us = filter (\<lambda>u. uxIsBlocked u = ipUseBlocked p) kept"
proof -
  let ?first = "if ipPassedKey p = [] then onKeys (GetShieldedPublicKey (weCrypto E)) else liftA (Ok (ipPassedKey p))"
  let ?reset = "\<lambda>key. if ipResetCacheBefore p
      then (\<lambda>w. onCache (ResetCache (weJson E) (weDevice E) (wlAddress w) (ipChainID p) key) w) else liftA (Ok ())"
  from assms obtain key w1 y w2 cached found w3 kept where
    st: "?first w = (Ok key, w1)" "?reset key w1 = (Ok y, w2)"
      "GetHinkalCache (weJson E) (weDevice E) (wlAddress w2) (ipChainID p) key (wlCache w2) = Ok cached"
      "(if \<not> wlUpdatesDisabled w2 \<and> (indexOfOutput (wlOutputs w2 (ipChainID p)) (hcLastOutput cached) > - 1 \<or>
            \<not> ipAllowRemote p \<and> hcLastOutput cached = [] \<and> indexOfOutput (wlOutputs w2 (ipChainID p)) (hcLastOutput cached) = - 1)
        then getInputUtxosLocally E (ipChainID p) key (wlOutputs w2 (ipChainID p)) (hcOutputs cached) (hcLastOutput cached)
           (indexOfOutput (wlOutputs w2 (ipChainID p)) (hcLastOutput cached))
        else if \<not> wlUpdatesDisabled w2 \<and> ipAllowRemote p \<and> hcLastOutput cached = [] \<and>
            indexOfOutput (wlOutputs w2 (ipChainID p)) (hcLastOutput cached) = - 1
        then attemptGetInputUtxosRemotely E (ipChainID p) key (wlOutputs w2 (ipChainID p)) (hcOutputs cached) (hcLastOutput cached)
           (indexOfOutput (wlOutputs w2 (ipChainID p)) (hcLastOutput cached))
        else onKeys (DecodeOutputs E (ipChainID p) (hcOutputs cached))) w2 = (Ok found, w3)"
      "filterSpentUtxos (weCrypto E) (wlNullifiers w3 (ipChainID p)) found = Ok kept"
      "us = filter (\<lambda>u. uxIsBlocked u = ipUseBlocked p) kept"
    unfolding GetInputUtxoAndBalance_def Let_def bindA_eq_Ok liftA_eq by (auto simp: bindA_eq_Ok liftA_eq)
  have "keepsChain ?first" by (simp add: keeps_onKeys keeps_lift)
  moreover have "keepsChain (?reset key)"
    unfolding keepsChain_def onCache_def liftA_def by (auto split: prod.splits)
  ultimately have w2: "wlNullifiers w2 = wlNullifiers w"
    using keepsD [of ?first, OF _ st(1)] keepsD [of "?reset key", OF _ st(2)] by auto
  have "wlNullifiers w3 = wlNullifiers w2"
    using st(4) by (rule keepsD [THEN conjunct1, rotated]) (simp add: keeps_locally keeps_attempt keeps_onKeys)
  with st(5,6) w2 show thesis by (intro that) simp_all
qed

text \<open>C12: A balance call returns only utxos with the asked blocked flag whose nullifier is known and not among the
  chain's nullifiers, wherever they came from: the scan, the cache or the enclave.\<close>

theorem returned_unspent:
  assumes "GetInputUtxoAndBalance E p w = (Ok us, w')" "u \<in> set us"
  shows "uxIsBlocked u = ipUseBlocked p \<and>
    (\<exists>n. GetNullifier (weCrypto E) u = (Ok n, u) \<and> n \<notin> wlNullifiers w (ipChainID p))"
proof -
  obtain found kept where "filterSpentUtxos (weCrypto E) (wlNullifiers w (ipChainID p)) found = Ok kept"
    "us = filter (\<lambda>u. uxIsBlocked u = ipUseBlocked p) kept"
    using call_steps [OF assms(1)] .
  then show ?thesis using filterSpent_member [of "weCrypto E" _ found kept u] assms(2) by auto
qed

text \<open>A wallet with nothing scanned whose enclave knows one utxo.\<close>

definition remoteEnv :: "memoryCache walletEnv" where
  "remoteEnv = (toyEnv emptyHinkalCache)\<lparr>weRemote := \<lambda>_ _. Ok ([toyUtxo], [], [])\<rparr>"

lemma remoteEnv_fields [simp]:
  "weCrypto remoteEnv = toyCrypto" "weDevice remoteEnv = memoryDevice" "weRemote remoteEnv = (\<lambda>_ _. Ok ([toyUtxo], [], []))"
  "weJson remoteEnv = \<lparr>cacheText = (\<lambda>_. Ok ''c''), cacheParse = (\<lambda>_. Some emptyHinkalCache)\<rparr>"
  by (simp_all add: remoteEnv_def)

definition freshWallet :: "memoryCache wallet" where
  "freshWallet = toyWallet\<lparr>wlOutputs := \<lambda>_. []\<rparr>"

lemma freshWallet_fields [simp]:
  "wlKeys freshWallet = toyKeys" "wlOutputs freshWallet n = []" "wlNullifiers freshWallet n = {}"
  "wlAddress freshWallet = (\<lambda>_. ''0xhinkal'')" "\<not> wlUpdatesDisabled freshWallet" "wlCache freshWallet = NewMemoryCacheDevice"
  by (simp_all add: freshWallet_def)

lemma nullifier_keeps:
  assumes "GetNullifier C u = (Ok n, u1)"
  shows "uxIsBlocked u1 = uxIsBlocked u" "uxAmount u1 = uxAmount u" "uxErc20 u1 = uxErc20 u" "uxMint u1 = uxMint u"
proof -
  have st: "uxIsBlocked v1 = uxIsBlocked v \<and> uxAmount v1 = uxAmount v \<and> uxErc20 v1 = uxErc20 v \<and> uxMint v1 = uxMint v"
    if "GetStealthAddressUtxo C v = (r, v1)" for r v v1
  proof -
    have "v1 = v\<lparr>uxStealth := uxStealth v1\<rparr>" using that by (rule stealth_frame)
    then show ?thesis by (metis utxo.ext_inject utxo.surjective utxo.update_convs(9))
  qed
  have co: "uxIsBlocked v1 = uxIsBlocked v \<and> uxAmount v1 = uxAmount v \<and> uxErc20 v1 = uxErc20 v \<and> uxMint v1 = uxMint v"
    if "GetCommitment C v = (Ok r, v1)" for r v v1
    using that by (auto simp: GetCommitment_def res_simps dest!: st split: if_splits)
  have "uxIsBlocked u1 = uxIsBlocked u \<and> uxAmount u1 = uxAmount u \<and> uxErc20 u1 = uxErc20 u \<and> uxMint u1 = uxMint u"
    using assms by (auto simp: GetNullifier_def res_simps dest!: co split: if_splits)
  then show "uxIsBlocked u1 = uxIsBlocked u" "uxAmount u1 = uxAmount u" "uxErc20 u1 = uxErc20 u" "uxMint u1 = uxMint u"
    by simp_all
qed

lemma returned_unspent_witness:
  "\<exists>us w' u n. GetInputUtxoAndBalance remoteEnv toyParams freshWallet = (Ok us, w') \<and> u \<in> set us \<and>
     uxAmount u = Some 25 \<and> GetNullifier toyCrypto u = (Ok n, u)"
proof -
  obtain n u where n: "GetNullifier toyCrypto toyUtxo = (Ok n, u)"
    using nullifier_exists [OF toyUtxo_wellFormed toy_hashes] by (auto simp: toyUtxo_def)
  note keep = nullifier_keeps [OF n]
  have "\<exists>w'. GetInputUtxoAndBalance remoteEnv toyParams freshWallet = (Ok [u], w')"
    using toy_public n keep(1)
    by (simp add: GetInputUtxoAndBalance_def Let_def bindA_def onKeys_def liftA_def GetHinkalCache_def memoryDevice_def
      memoryGet_def NewMemoryCacheDevice_def indexOfOutput_def emptyHinkalCache_def shortStrings_def attemptGetInputUtxosRemotely_def
      getInputUtxosRemotely_def setCache_def onCache_def SetHinkalCache_def memorySet_def toyUtxo_def)
  then obtain w' where call: "GetInputUtxoAndBalance remoteEnv toyParams freshWallet = (Ok [u], w')" by blast
  have mem: "u \<in> set [u]" by simp
  show ?thesis using returned_unspent [OF call mem] call keep(2) by (auto simp: toyUtxo_def)
qed

subsection \<open>A lost cursor\<close>

text \<open>When the last scanned output is no longer in the chain's list, no later call decodes a new output: neither
  branch applies, and the call is answered from the cache alone until the cache is reset.
\<close>

theorem lost_cursor_reads_cache:
  assumes key: "GetShieldedPublicKey (weCrypto E) (wlKeys w) = (Ok sk, uk')"
    and call: "ipPassedKey p = []" "\<not> ipResetCacheBefore p"
    and cache: "GetHinkalCache (weJson E) (weDevice E) (wlAddress w) (ipChainID p) sk (wlCache w) = Ok c" "hcLastOutput c \<noteq> []"
    and lost: "hcLastOutput c \<notin> eoValue ` set (wlOutputs w (ipChainID p))"
  shows "GetInputUtxoAndBalance E p w =
     bindA (onKeys (DecodeOutputs E (ipChainID p) (hcOutputs c))) (\<lambda>us w'.
     bindA (liftA (filterSpentUtxos (weCrypto E) (wlNullifiers w' (ipChainID p)) us)) (\<lambda>kept.
       liftA (Ok (filter (\<lambda>u. uxIsBlocked u = ipUseBlocked p) kept))) w') (w\<lparr>wlKeys := uk'\<rparr>)"
  using assms
  by (simp add: GetInputUtxoAndBalance_def Let_def bindA_def onKeys_def liftA_def indexOfOutput_def indexFrom_none)

lemma lost_cursor_reads_cache_witness:
  "\<exists>w :: memoryCache wallet. wlOutputs w 1 = [toyOwned, toyForeign] \<and>
     fst (GetInputUtxoAndBalance (toyEnv \<lparr>hcOutputs = [], hcLastOutput = ''0xgone''\<rparr>) toyParams w) = Ok []"
proof -
  let ?c = "\<lparr>hcOutputs = [], hcLastOutput = ''0xgone''\<rparr>"
  let ?w = "toyWallet\<lparr>wlCache := \<lparr>mcStore = \<lambda>_. Some ''c''\<rparr>\<rparr>"
  have cache: "GetHinkalCache (weJson (toyEnv ?c)) (weDevice (toyEnv ?c)) (wlAddress ?w) (ipChainID toyParams) (ToBeHex (Some 12)) (wlCache ?w) = Ok ?c"
    by (simp add: GetHinkalCache_def Let_def shortStrings_def memoryDevice_def memoryGet_def)
  have "length (eoValue toyOwned) \<noteq> length ''0xgone''" by (simp add: toyOwned_def length_toyWords)
  then have "''0xgone'' \<noteq> eoValue toyOwned" by metis
  then have lost: "hcLastOutput ?c \<notin> eoValue ` set (wlOutputs ?w (ipChainID toyParams))"
    by (simp add: toyForeign_def)
  have "fst (GetInputUtxoAndBalance (toyEnv ?c) toyParams ?w) = Ok []"
    using lost_cursor_reads_cache [of "toyEnv ?c" ?w "ToBeHex (Some 12)" toyKeys toyParams ?c] toy_public cache lost
    by (simp add: bindA_def onKeys_def liftA_def)
  then show ?thesis by (intro exI [of _ ?w]) simp
qed

subsection \<open>Balances\<close>

text \<open>The totals are those of the utxos listed with them.\<close>

definition balanced :: "cryptoLib \<Rightarrow> int \<Rightarrow> balanceResult \<Rightarrow> bool" where
  "balanced C ch r \<longleftrightarrow> (\<forall>t. brBalances r t =
     (let us = filter (\<lambda>u. balanceTokenKey C ch u = Ok t) (brUtxos r)
      in if us = [] then None else Some (sum_list (map amountOf us))))"

lemma balanced_add:
  assumes "balanced C ch r" "balanceTokenKey C ch u = Ok t" "uxAmount u = Some a"
  shows "balanced C ch (r\<lparr>brBalances := addBalance t a (brBalances r), brUtxos := brUtxos r @ [u]\<rparr>)"
  using assms by (auto simp: balanced_def addBalance_def Let_def amountOf_def)

definition listable :: "cryptoLib \<Rightarrow> int \<Rightarrow> string set \<Rightarrow> utxo \<Rightarrow> bool" where
  "listable C ch nullifiers u \<longleftrightarrow> \<not> uxIsBlocked u \<and> isOk (balanceTokenKey C ch u) \<and>
     (\<exists>n. GetNullifier C u = (Ok n, u) \<and> n \<notin> nullifiers)"

lemma computeLoop_result:
  assumes "computeLoop E nullifiers ch outs acc uk = (Ok r, uk')" "balanced (weCrypto E) ch acc"
    "\<forall>u\<in>set (brUtxos acc). listable (weCrypto E) ch nullifiers u"
  shows "balanced (weCrypto E) ch r \<and> (\<forall>u\<in>set (brUtxos r). listable (weCrypto E) ch nullifiers u)"
  using assms
proof (induction outs arbitrary: acc uk)
  case (Cons out outs)
  obtain d uk1 where d: "decodeOutput E ch out uk = (d, uk1)" by fastforce
  show ?case
  proof (cases d)
    case (Ok u0)
    obtain g u where g: "GetNullifier (weCrypto E) (u0\<lparr>uxIsBlocked := eoIsBlocked out\<rparr>) = (g, u)" by fastforce
    show ?thesis
    proof (cases g)
      case gOk: (Ok nul)
      then have again: "GetNullifier (weCrypto E) u = (Ok nul, u)" using g nullifier_again by blast
      show ?thesis
      proof (cases "nul \<in> nullifiers \<or> uxIsBlocked u")
        case True
        then show ?thesis using Cons d Ok g gOk by simp
      next
        case False
        show ?thesis
        proof (cases "balanceTokenKey (weCrypto E) ch u")
          case kOk: (Ok t)
          then obtain a where a: "uxAmount u = Some a"
            using Cons.prems(1) d Ok g gOk False by (cases "uxAmount u") simp_all
          let ?acc = "acc\<lparr>brBalances := addBalance t a (brBalances acc), brUtxos := brUtxos acc @ [u]\<rparr>"
          have "listable (weCrypto E) ch nullifiers u" using False kOk again by (simp add: listable_def)
          then show ?thesis
            using Cons.prems d Ok g gOk False kOk a balanced_add [OF Cons.prems(2) kOk a]
            by (intro Cons.IH [of ?acc uk1]) auto
        qed (use Cons d Ok g gOk False in simp_all)
      qed
    qed (use Cons d Ok g in simp_all)
  qed (use Cons d in simp_all)
qed simp

text \<open>The balances are the sums of the listed utxos per token, and the listed utxos are unspent, not blocked and
  have a token.\<close>

theorem balances_are_sums:
  assumes "Compute E outs nullifiers ch uk = (Ok r, uk')"
  shows "(\<forall>t. brBalances r t =
       (let us = filter (\<lambda>u. balanceTokenKey (weCrypto E) ch u = Ok t) (brUtxos r)
        in if us = [] then None else Some (sum_list (map amountOf us)))) \<and>
     (\<forall>u\<in>set (brUtxos r). \<not> uxIsBlocked u \<and> isOk (balanceTokenKey (weCrypto E) ch u) \<and>
       (\<exists>n. GetNullifier (weCrypto E) u = (Ok n, u) \<and> n \<notin> nullifiers))"
proof -
  let ?r = "\<lparr>brBalances = Map.empty, brUtxos = []\<rparr>"
  have bal: "balanced (weCrypto E) ch ?r" by (simp add: balanced_def)
  have run: "computeLoop E nullifiers ch outs ?r uk = (Ok r, uk')" using assms by (simp only: Compute_def)
  have none: "\<forall>u\<in>set (brUtxos ?r). listable (weCrypto E) ch nullifiers u" by simp
  have "balanced (weCrypto E) ch r \<and> (\<forall>u\<in>set (brUtxos r). listable (weCrypto E) ch nullifiers u)"
    using run bal none by (rule computeLoop_result)
  then show ?thesis unfolding balanced_def listable_def .
qed

lemma toy_decodes: "\<exists>u. decodeOutput (toyEnv c) 1 toyOwned toyKeys = (Ok u, toyKeys)"
  "\<exists>e. decodeOutput (toyEnv c) 1 toyForeign toyKeys = (Err e, toyKeys)"
  using toy_outcomes [of c] decode_outcome [of "toyEnv c" 1 _ toyKeys] by simp_all

lemma balances_are_sums_witness:
  "\<exists>r. Compute (toyEnv toyEnd) [toyOwned, toyForeign] {} 1 toyKeys = (Ok r, toyKeys) \<and>
     (\<forall>u\<in>set (brUtxos r). \<not> uxIsBlocked u)"
proof -
  obtain u e where d: "decodeOutput (toyEnv toyEnd) 1 toyOwned toyKeys = (Ok u, toyKeys)"
    "decodeOutput (toyEnv toyEnd) 1 toyForeign toyKeys = (Err e, toyKeys)" using toy_decodes by blast
  let ?u = "u\<lparr>uxIsBlocked := False\<rparr>"
  have wf: "wellFormed ?u" using decoded_wellFormed [OF d(1)] by (simp add: wellFormed_def)
  have chain: "\<not> IsSolanaLike 1" "\<not> IsTronLike 1" by code_simp+
  obtain g v where g: "GetNullifier toyCrypto ?u = (g, v)" by fastforce
  have "\<exists>r. Compute (toyEnv toyEnd) [toyOwned, toyForeign] {} 1 toyKeys = (Ok r, toyKeys)"
  proof (cases g)
    case (Ok n)
    have "uxAmount v \<noteq> None" "\<not> uxIsBlocked v"
      using wf nullifier_keeps [OF g [unfolded Ok]] by (auto simp: wellFormed_def)
    then show ?thesis using g Ok by (auto simp: Compute_def d toyOwned_def [THEN arg_cong, of eoIsBlocked] balanceTokenKey_def chain)
  next
    case (Err e)
    then show ?thesis using g by (simp add: Compute_def d toyOwned_def [THEN arg_cong, of eoIsBlocked])
  next
    case (Panic p)
    then show ?thesis using g nullifier_no_panic [OF wf toy_hashes] by (simp add: returns_def)
  qed
  then show ?thesis using balances_are_sums by blast
qed

end
