(* ===== verification/PaddingProps.thy ===== *)
theory PaddingProps
  imports SpendProps
begin

text \<open>
  The padding of transaction inputs: the loop ends exactly when the bound can be reached, sorting keeps the
  utxos, all rows of a transaction come out with one length, and they hold only utxos that were found and padding.
\<close>

subsection \<open>The padding loop\<close>

text \<open>How many utxos the loop adds to \<open>len\<close> of them, when nothing is sliced off.\<close>

definition padGoal :: "int \<Rightarrow> nat \<Rightarrow> nat" where
  "padGoal minInput len =
     (if int len = minInput then len
      else if int len < minInput then nat minInput
      else max len 6)"

lemma padLoop_stop:
  "\<not> (int (length us) < minInput \<or> (minInput < int (length us) \<and> length us < 6)) \<Longrightarrow>
   padLoop pad minInput sl n us = Some (Ok (us, n))"
  by (subst padLoop.simps) auto

lemma padLoop_step:
  "int (length us) < minInput \<or> (minInput < int (length us) \<and> length us < 6) \<Longrightarrow> pad n = Ok u \<Longrightarrow>
   padLoop pad minInput sl n us = padLoop pad minInput sl (n + 1) (if sl then take 6 (us @ [u]) else us @ [u])"
  by (subst padLoop.simps) simp

definition padWith :: "(nat \<Rightarrow> utxo res) \<Rightarrow> nat \<Rightarrow> nat \<Rightarrow> utxo list" where
  "padWith pad n k = map (\<lambda>i. case pad i of Ok u \<Rightarrow> u) [n..<n + k]"

lemma padLoop_ends:
  assumes pads: "\<And>i. isOk (pad i)" and sl: "sl \<Longrightarrow> minInput \<le> 6"
  shows "padLoop pad minInput sl n us =
    Some (Ok (us @ padWith pad n (padGoal minInput (length us) - length us), n + (padGoal minInput (length us) - length us)))"
proof (induction "padGoal minInput (length us) - length us" arbitrary: n us)
  case 0
  then have "\<not> (int (length us) < minInput \<or> (minInput < int (length us) \<and> length us < 6))"
    by (auto simp: padGoal_def split: if_splits)
  then show ?case using 0 by (simp add: padLoop_stop padWith_def)
next
  case (Suc k)
  obtain u where u: "pad n = Ok u" using pads isOk_iff by metis
  from Suc(2) have go: "int (length us) < minInput \<or> (minInput < int (length us) \<and> length us < 6)"
    by (auto simp: padGoal_def split: if_splits)
  have short: "take 6 (us @ [u]) = us @ [u]" if sl using sl [OF that] go by auto
  have goal: "padGoal minInput (length (us @ [u])) = padGoal minInput (length us)"
    using go Suc(2) by (auto simp: padGoal_def split: if_splits)
  then have k: "k = padGoal minInput (length (us @ [u])) - length (us @ [u])" using Suc(2) by simp
  have "padLoop pad minInput sl n us = padLoop pad minInput sl (n + 1) (us @ [u])"
    using padLoop_step [of us minInput pad n u sl, OF go u] short by simp
  also have "\<dots> = Some (Ok ((us @ [u]) @ padWith pad (n + 1) k, n + 1 + k))"
    using Suc(1) [OF k] k by simp
  also have "(us @ [u]) @ padWith pad (n + 1) k = us @ padWith pad n (Suc k)"
    by (simp add: padWith_def u upt_conv_Cons del: upt_Suc)
  finally show ?case using Suc(2) by simp
qed

text \<open>Slicing with a bound above six never reaches the bound.\<close>

lemma padLoop_endless:
  assumes pads: "\<And>i. isOk (pad i)" and "6 < minInput" "int (length us) < minInput"
  shows "padLoop pad minInput True n us = None"
proof -
  let ?P = "\<lambda>pad minInput sl n us r. sl \<and> (\<forall>i. isOk (pad i)) \<and> 6 < minInput \<longrightarrow> \<not> int (length us) < minInput"
  have "?P pad minInput True n us r" if "padLoop pad minInput True n us = Some r" for r
  proof (rule padLoop.raw_induct [of ?P, OF _ that])
    fix loop pad minInput sl n us r
    assume ih: "\<And>pad minInput sl n us r. loop pad minInput sl n us = Some r \<Longrightarrow> ?P pad minInput sl n us r"
      and step: "(if int (length us) < minInput \<or> minInput < int (length us) \<and> length us < 6
        then case pad n of Ok u \<Rightarrow> loop pad minInput sl (n + 1) (if sl then take 6 (us @ [u]) else us @ [u])
           | Err e \<Rightarrow> Some (Err e) | Panic p \<Rightarrow> Some (Panic p)
        else Some (Ok (us, n))) = Some r"
    show "?P pad minInput sl n us r"
    proof (intro impI notI)
      assume a: "sl \<and> (\<forall>i. isOk (pad i)) \<and> 6 < minInput" "int (length us) < minInput"
      then obtain u where "pad n = Ok u" using isOk_iff by metis
      then have "loop pad minInput sl (n + 1) (take 6 (us @ [u])) = Some r" using step a by simp
      then have "\<not> int (length (take 6 (us @ [u]))) < minInput" using ih a by blast
      moreover have "length (take 6 (us @ [u])) \<le> 6" by simp
      ultimately show False using a(1) by linarith
    qed
  qed
  then show ?thesis using assms by (cases "padLoop pad minInput True n us") auto
qed

text \<open>C40: Padding ends if the bound is at most six or nothing is sliced, with the utxos it was given first; with
  slicing and a bound above six it runs forever.\<close>

theorem padding_ends:
  assumes "\<And>i. isOk (pad i)"
  shows "(\<not> sl \<or> minInput \<le> 6 \<longrightarrow>
       (\<exists>ps n'. padLoop pad minInput sl n us = Some (Ok (us @ ps, n')) \<and> length (us @ ps) = padGoal minInput (length us))) \<and>
     (sl \<and> 6 < minInput \<and> int (length us) < minInput \<longrightarrow> padLoop pad minInput sl n us = None)"
proof (intro conjI impI)
  assume "\<not> sl \<or> minInput \<le> 6"
  then have "padLoop pad minInput sl n us =
      Some (Ok (us @ padWith pad n (padGoal minInput (length us) - length us), n + (padGoal minInput (length us) - length us)))"
    using assms by (intro padLoop_ends) auto
  moreover have "length us \<le> padGoal minInput (length us)" by (simp add: padGoal_def nat_le_iff) linarith
  ultimately show "\<exists>ps n'. padLoop pad minInput sl n us = Some (Ok (us @ ps, n')) \<and> length (us @ ps) = padGoal minInput (length us)"
    by (auto simp: padWith_def)
next
  assume "sl \<and> 6 < minInput \<and> int (length us) < minInput"
  then show "padLoop pad minInput sl n us = None" using assms padLoop_endless [of pad minInput us n] by auto
qed

lemma padding_ends_witness:
  "padLoop (\<lambda>i. Ok toyUtxo) 7 True 0 [] = None \<and>
   (\<exists>ps n'. padLoop (\<lambda>i. Ok toyUtxo) 2 False 0 [toyUtxo, toyUtxo, toyUtxo] = Some (Ok ([toyUtxo, toyUtxo, toyUtxo] @ ps, n')) \<and> length ps = 3)"
  using padding_ends [of "\<lambda>i. Ok toyUtxo" True 7 0 "[]"] padding_ends [of "\<lambda>i. Ok toyUtxo" False 2 0 "[toyUtxo, toyUtxo, toyUtxo]"]
  by (auto simp: padGoal_def)

subsection \<open>Sorting\<close>

lemma sortUtxos_result:
  assumes "sortUtxos us = Ok vs"
  shows "vs = sort_key (\<lambda>u. - amountOf u) us"
  using assms by (auto simp: sortUtxos_def split: if_splits)

text \<open>Inputs of one token come out as a permutation of the given utxos by falling amount, equal amounts in their
  old order, followed by empty utxos.\<close>

theorem inputs_sorted_padded:
  assumes pads: "\<And>i. isOk (pad i)" "\<And>i u. pad i = Ok u \<Longrightarrow> uxAmount u = Some 0"
    and call: "sortAndPadUtxos pad minInput sl n us = Ok (vs, n')" "\<not> sl \<or> minInput \<le> 6"
  shows "\<exists>ss ps. vs = ss @ ps \<and> mset ss = mset us \<and> sorted (map (\<lambda>u. - amountOf u) ss) \<and>
    (\<forall>a. filter (\<lambda>u. amountOf u = a) ss = filter (\<lambda>u. amountOf u = a) us) \<and>
    (\<forall>u\<in>set ps. uxAmount u = Some 0) \<and> length vs = padGoal minInput (length us)"
proof -
  obtain ss where ss: "sortUtxos us = Ok ss" "returned (padLoop pad minInput sl n ss) = Ok (vs, n')"
    using call(1) by (auto simp: sortAndPadUtxos_def res_simps)
  note sort = sortUtxos_result [OF ss(1)]
  let ?k = "padGoal minInput (length ss) - length ss"
  have run: "padLoop pad minInput sl n ss = Some (Ok (ss @ padWith pad n ?k, n + ?k))"
    using pads(1) call(2) by (intro padLoop_ends) auto
  then have vs: "vs = ss @ padWith pad n ?k" using ss(2) by simp
  have zero: "uxAmount u = Some 0" if mem: "u \<in> set (padWith pad n ?k)" for u
  proof -
    obtain i where i: "u = (case pad i of Ok u \<Rightarrow> u)" using mem by (auto simp: padWith_def)
    obtain v where "pad i = Ok v" using pads(1) [of i] by (auto simp: isOk_iff)
    then show ?thesis using i pads(2) by simp
  qed
  have len: "length ss = length us" by (simp add: sort)
  have "length ss \<le> padGoal minInput (length ss)" by (simp add: padGoal_def nat_le_iff) linarith
  then have "length vs = padGoal minInput (length us)" by (simp add: vs padWith_def len)
  moreover have "filter (\<lambda>u. amountOf u = a) ss = filter (\<lambda>u. amountOf u = a) us" for a
    unfolding sort using sort_key_stable [of "\<lambda>u. - amountOf u" "- a" us] by simp
  moreover have "mset ss = mset us" "sorted (map (\<lambda>u. - amountOf u) ss)" by (simp_all add: sort)
  ultimately show ?thesis using vs zero by blast
qed

text \<open>The padding utxos of the wallet are empty ones.\<close>

lemma padUtxo_zero: "padUtxo E s n = Ok u \<Longrightarrow> uxAmount u = Some 0"
  unfolding padUtxo_def by (drule NewUtxo_copies(1)) (simp add: padParams_def)

lemma inputs_sorted_padded_witness:
  "\<exists>vs n' ss ps. sortAndPadUtxos (\<lambda>i. Ok (toyUtxo\<lparr>uxAmount := Some 0\<rparr>)) 2 False 0
       [toyUtxo, toyUtxo\<lparr>uxAmount := Some 90\<rparr>, toyUtxo] = Ok (vs, n') \<and> length vs = 6 \<and> vs = ss @ ps \<and>
     sorted (map (\<lambda>u. - amountOf u) ss)"
proof -
  let ?pad = "\<lambda>i. Ok (toyUtxo\<lparr>uxAmount := Some 0\<rparr>)" and ?us = "[toyUtxo, toyUtxo\<lparr>uxAmount := Some 90\<rparr>, toyUtxo]"
  have sort: "sortUtxos ?us = Ok (sort_key (\<lambda>u. - amountOf u) ?us)" by (simp add: sortUtxos_def toyUtxo_def)
  obtain vs n' where run: "sortAndPadUtxos ?pad 2 False 0 ?us = Ok (vs, n')"
    using padLoop_ends [of ?pad False 2 0 "sort_key (\<lambda>u. - amountOf u) ?us"] unfolding sortAndPadUtxos_def sort by simp
  have "\<exists>ss ps. vs = ss @ ps \<and> sorted (map (\<lambda>u. - amountOf u) ss) \<and> length vs = padGoal 2 (length ?us)"
    using inputs_sorted_padded [OF _ _ run] by auto
  then show ?thesis using run by (auto simp: padGoal_def)
qed

subsection \<open>Rows of one length\<close>

lemma padRow_length:
  "padRow E src d n us = Ok (row, n') \<Longrightarrow> length row = length us + d \<and> take (length us) row = us"
proof (induction d arbitrary: n us)
  case (Suc d)
  then obtain s u where "padRow E src d (n + 1) (us @ [u]) = Ok (row, n')" by (auto simp: res_simps)
  then have "length row = length (us @ [u]) + d \<and> take (length (us @ [u])) row = us @ [u]" by (rule Suc.IH)
  then have l: "length row = length us + Suc d" and t: "take (length us + 1) row = us @ [u]" by simp_all
  have "take (length us) (take (length us + 1) row) = us" unfolding t by simp
  then show ?case using l by (simp add: min_def)
qed simp

lemma padRows_length:
  "padRows E g ch spk sp as cs maxInput i n rows = Ok out \<Longrightarrow> 0 \<le> maxInput \<Longrightarrow>
   length out = length rows \<and> (\<forall>row\<in>set out. int (length row) = maxInput)"
proof (induction rows arbitrary: i n out)
  case (Cons us rows)
  show ?case
  proof (cases "maxInput < int (length us)")
    case True
    then obtain row rest where row: "cutRow E g (as ! i) cs i maxInput us = Ok row"
      and rest: "padRows E g ch spk sp as cs maxInput (i + 1) n rows = Ok rest" and out: "out = row # rest"
      using Cons.prems(1) by (auto simp: res_simps)
    have "row = take (nat maxInput) us" using row Cons.prems(2) by (auto simp: cutRow_def Let_def res_simps split: if_splits)
    then have "int (length row) = maxInput" using True Cons.prems(2) by simp
    then show ?thesis using Cons.IH [OF rest Cons.prems(2)] out by simp
  next
    case False
    then obtain row n' rest where row: "padRow E (rowSource (weCrypto E) ch spk sp (as ! i)) (nat (maxInput - int (length us))) n us = Ok (row, n')"
      and rest: "padRows E g ch spk sp as cs maxInput (i + 1) n' rows = Ok rest" and out: "out = row # rest"
      using Cons.prems(1) by (auto simp: res_simps split: prod.splits)
    have "int (length row) = maxInput" using padRow_length [OF row] False by simp
    then show ?thesis using Cons.IH [OF rest Cons.prems(2)] out by simp
  qed
qed simp

lemma maxLength_fold: "fold (\<lambda>us m. if m < length us then length us else m) rows k = fold max (map length rows) k"
  by (induction rows arbitrary: k) (auto simp: max_def)

lemma maxLength_ge: "us \<in> set rows \<Longrightarrow> length us \<le> maxLength rows"
  unfolding maxLength_def maxLength_fold
  by (metis List.finite_set Max.set_eq_fold Max_ge list.set_intros(2) list.set_map image_eqI list.simps(15) insertCI)

lemma padLoop_exit:
  assumes "padLoop pad minInput sl n us = Some (Ok (vs, n'))"
  shows "minInput \<le> int (length vs)"
proof -
  let ?P = "\<lambda>pad minInput sl n us r. \<forall>vs n'. r = Ok (vs, n') \<longrightarrow> minInput \<le> int (length vs)"
  have "?P pad minInput sl n us (Ok (vs, n'))"
  proof (rule padLoop.raw_induct [of ?P, OF _ assms])
    fix loop pad minInput sl n us r
    assume ih: "\<And>pad minInput sl n us r. loop pad minInput sl n us = Some r \<Longrightarrow> ?P pad minInput sl n us r"
      and step: "(if int (length us) < minInput \<or> minInput < int (length us) \<and> length us < 6
        then case pad n of Ok u \<Rightarrow> loop pad minInput sl (n + 1) (if sl then take 6 (us @ [u]) else us @ [u])
           | Err e \<Rightarrow> Some (Err e) | Panic p \<Rightarrow> Some (Panic p)
        else Some (Ok (us, n))) = Some r"
    show "?P pad minInput sl n us r"
    proof (cases "int (length us) < minInput \<or> minInput < int (length us) \<and> length us < 6")
      case True
      then show ?thesis using step ih by (cases "pad n") auto
    qed (use step in auto)
  qed
  then show ?thesis by blast
qed

lemma padTable_rows:
  "padTable E ch spk sp 2 sl n m = Ok (m', n') \<Longrightarrow>
   map fst m' = map fst m \<and> (\<forall>(k, vs)\<in>set m'. 2 \<le> length vs)"
proof (induction m arbitrary: n m' n')
  case (Cons e m)
  obtain key us where e: "e = (key, us)" by fastforce
  obtain src vs n1 rest where pad: "sortAndPadUtxos (padUtxo E src) 2 sl n us = Ok (vs, n1)"
    and rest: "padTable E ch spk sp 2 sl n1 m = Ok (rest, n')" and m': "m' = (key, vs) # rest"
    using Cons.prems by (auto simp: e res_simps split: prod.splits)
  obtain ss where "returned (padLoop (padUtxo E src) 2 sl n ss) = Ok (vs, n1)"
    using pad by (auto simp: sortAndPadUtxos_def res_simps)
  then have "padLoop (padUtxo E src) 2 sl n ss = Some (Ok (vs, n1))"
    by (cases "padLoop (padUtxo E src) 2 sl n ss") simp_all
  then have "2 \<le> length vs" using padLoop_exit by fastforce
  then show ?case using Cons.IH [OF rest] m' e by auto
qed simp

lemma ensureKeys_keeps: "k \<in> fst ` set m \<Longrightarrow> k \<in> fst ` set (ensureKeys ch ts m)"
  by (induction ts arbitrary: m) (auto simp: addKey_def)

lemma ensureKeys_has: "t \<in> set ts \<Longrightarrow> encodeTokenWithID ch (twAddress t) \<in> fst ` set (ensureKeys ch ts m)"
proof (induction ts arbitrary: m)
  case (Cons t' ts)
  have "encodeTokenWithID ch (twAddress t') \<in> fst ` set (addKey (encodeTokenWithID ch (twAddress t')) m)"
    by (auto simp: addKey_def map_of_eq_None_iff)
  then have "encodeTokenWithID ch (twAddress t') \<in> fst ` set (ensureKeys ch (t' # ts) m)"
    by (simp add: ensureKeys_keeps)
  then show ?case using Cons by auto
qed simp

lemma map2_member: "j < length xs \<Longrightarrow> j < length ys \<Longrightarrow> f (xs ! j) (ys ! j) \<in> set (map2 f xs ys)"
  by (force simp: set_zip)

lemma rows_at_least_two:
  assumes "GetInputUtxoAndBalancePerToken E hexf p 2 sl toks ensured w = (Ok (m, n), w')" "t \<in> set ensured"
  shows "2 \<le> length (tableGet m (encodeTokenWithID (ipChainID p) (twAddress t)))"
proof -
  obtain spk sp m0 where m: "padTable E (ipChainID p) spk sp 2 sl 0 (ensureKeys (ipChainID p) ensured m0) = Ok (m, n)"
    using assms(1) by (auto simp: GetInputUtxoAndBalancePerToken_def res_simps split: prod.splits)
  have "encodeTokenWithID (ipChainID p) (twAddress t) \<in> set (map fst m)"
    using padTable_rows [OF m] ensureKeys_has [OF assms(2)] by (simp only: set_map)
  then obtain vs where "map_of m (encodeTokenWithID (ipChainID p) (twAddress t)) = Some vs"
    by (metis map_of_eq_None_iff not_None_eq set_map)
  then show ?thesis using padTable_rows [OF m] by (auto simp: tableGet_def dest!: map_of_SomeD)
qed

text \<open>All rows of a transaction's inputs have one length: two when no token has more than two utxos to spend, and
  otherwise the requested number, which is six by default. So a circuit of that size fits every token.\<close>

theorem padded_rows_rectangular:
  assumes "AddPaddingToUtxos E hexf g ch addresses amountChanges maxInput ids forceEmpty blocked w = (Ok rows, w')" "0 \<le> maxInput"
  shows "length rows = length addresses \<and>
    ((\<forall>row\<in>set rows. length row = 2) \<or> (\<forall>row\<in>set rows. int (length row) = (if maxInput = 0 then 6 else maxInput)))"
proof (cases "addresses = []")
  case True
  then show ?thesis using assms(1) by (auto simp: AddPaddingToUtxos_def Let_def res_simps split: prod.splits)
next
  case False
  let ?ids = "case ids of None \<Rightarrow> replicate (length addresses) 0 | Some is \<Rightarrow> is"
  let ?max = "if maxInput = 0 then 6 else maxInput"
  obtain spk sp eth w1 m n w2 where enough: "\<not> length ?ids < length addresses"
    and per: "GetInputUtxoAndBalancePerToken E hexf
        \<lparr>ipChainID = ch, ipPassedKey = [], ipEthAddress = eth, ipResetCacheBefore = False,
         ipAllowRemote = wlProofRemotely w1, ipUseBlocked = blocked\<rparr> 2 False None
        (map2 (\<lambda>a i. \<lparr>twAddress = a, twID = i\<rparr>) addresses ?ids) w1 = (Ok (m, n), w2)"
    and rows: "paddedRows E g ch spk sp addresses amountChanges ?max forceEmpty m n = Ok rows"
  proof -
    define ids' where "ids' = ?ids"
    have run: "bindA (onKeys (GetSpendingKeyPair (weCrypto E))) (\<lambda>(privSpending, pub).
      bindA (onKeys (GetShieldedPrivateKey (weCrypto E))) (\<lambda>spk.
      bindA (\<lambda>w. liftA (if blocked then wlEthAddress w ch else Ok []) w) (\<lambda>eth.
        if length ids' < length addresses then liftA (Panic ''index out of range'')
        else bindA (\<lambda>w. GetInputUtxoAndBalancePerToken E hexf
                \<lparr>ipChainID = ch, ipPassedKey = [], ipEthAddress = eth, ipResetCacheBefore = False,
                 ipAllowRemote = wlProofRemotely w, ipUseBlocked = blocked\<rparr>
                2 False None (map2 (\<lambda>a i. \<lparr>twAddress = a, twID = i\<rparr>) addresses ids') w) (\<lambda>(m, n).
          liftA (paddedRows E g ch spk [fst pub, snd pub] addresses amountChanges ?max forceEmpty m n))))) w = (Ok rows, w')"
      using assms(1) False by (simp only: AddPaddingToUtxos_def Let_def ids'_def if_False)
    show thesis
    proof (cases "length ids' < length addresses")
      case True
      then show ?thesis using run by (auto simp: res_simps split: prod.splits)
    next
      case False
      then show ?thesis using run by (auto simp: res_simps ids'_def intro: that split: prod.splits)
    qed
  qed
  let ?rows0 = "map (\<lambda>a. if forceEmpty then [] else tableGet m (encodeTokenWithID ch a)) addresses"
  show ?thesis
  proof (cases "maxLength ?rows0 = 2")
    case True
    have two: "2 \<le> length (tableGet m (encodeTokenWithID ch a))" if mem: "a \<in> set addresses" for a
    proof -
      obtain j where j: "j < length addresses" "a = addresses ! j" using mem by (metis in_set_conv_nth)
      let ?t = "\<lparr>twAddress = a, twID = ?ids ! j\<rparr>"
      have "?t \<in> set (map2 (\<lambda>a i. \<lparr>twAddress = a, twID = i\<rparr>) addresses ?ids)"
        unfolding j(2) by (rule map2_member [where f = "\<lambda>a i. \<lparr>twAddress = a, twID = i\<rparr>"]) (use j(1) enough in linarith)+
      from rows_at_least_two [OF per this] show ?thesis by simp
    qed
    have rows: "rows = ?rows0" using rows True by (simp add: paddedRows_def Let_def)
    obtain a where a: "a \<in> set addresses" using False by (cases addresses) auto
    have "\<not> forceEmpty"
    proof
      assume forceEmpty
      then have "fold max (map length ?rows0) 0 = (0::nat)" by (induction addresses) simp_all
      then show False using True by (simp add: maxLength_def maxLength_fold)
    qed
    then have "\<forall>row\<in>set rows. length row = 2"
      using two maxLength_ge [of _ rows] True unfolding rows by (auto intro!: le_antisym)
    then show ?thesis by (simp add: rows)
  next
    case False
    then have "padRows E g ch spk sp addresses amountChanges ?max 0 n ?rows0 = Ok rows" using rows by (simp add: paddedRows_def Let_def)
    then show ?thesis using padRows_length [of E g ch spk sp addresses amountChanges ?max 0 n ?rows0 rows] assms(2) by simp
  qed
qed

subsection \<open>What the rows hold\<close>

text \<open>What holds of the utxos that were found and of the padding holds of all rows.\<close>

definition tableAll :: "(utxo \<Rightarrow> bool) \<Rightarrow> utxoTable \<Rightarrow> bool" where
  "tableAll P m \<longleftrightarrow> (\<forall>(k, us)\<in>set m. \<forall>u\<in>set us. P u)"

lemma padLoop_all:
  assumes run: "padLoop pad minInput sl n us = Some (Ok (vs, n'))" and us: "\<forall>u\<in>set us. P u" and pads: "\<forall>i u. pad i = Ok u \<longrightarrow> P u"
  shows "\<forall>u\<in>set vs. P u"
proof -
  let ?Q = "\<lambda>pad minInput sl n us r. (\<forall>i u. pad i = Ok u \<longrightarrow> P u) \<longrightarrow> (\<forall>u\<in>set us. P u) \<longrightarrow> (\<forall>vs n'. r = Ok (vs, n') \<longrightarrow> (\<forall>u\<in>set vs. P u))"
  have "?Q pad minInput sl n us (Ok (vs, n'))"
  proof (rule padLoop.raw_induct [of ?Q, OF _ run])
    fix loop pad minInput sl n us r
    assume ih: "\<And>pad minInput sl n us r. loop pad minInput sl n us = Some r \<Longrightarrow> ?Q pad minInput sl n us r"
      and step: "(if int (length us) < minInput \<or> minInput < int (length us) \<and> length us < 6
        then case pad n of Ok u \<Rightarrow> loop pad minInput sl (n + 1) (if sl then take 6 (us @ [u]) else us @ [u])
           | Err e \<Rightarrow> Some (Err e) | Panic p \<Rightarrow> Some (Panic p)
        else Some (Ok (us, n))) = Some r"
    show "?Q pad minInput sl n us r"
    proof (cases "int (length us) < minInput \<or> minInput < int (length us) \<and> length us < 6")
      case True
      show ?thesis
      proof (cases "pad n")
        case (Ok u)
        then have "loop pad minInput sl (n + 1) (if sl then take 6 (us @ [u]) else us @ [u]) = Some r" using step True by simp
        note later = ih [OF this]
        show ?thesis
        proof (intro impI)
          assume pads: "\<forall>i u. pad i = Ok u \<longrightarrow> P u" and us: "\<forall>u\<in>set us. P u"
          have new: "\<forall>v\<in>set (if sl then take 6 (us @ [u]) else us @ [u]). P v"
            using pads us Ok by (auto dest!: in_set_takeD)
          show "\<forall>vs n'. r = Ok (vs, n') \<longrightarrow> (\<forall>u\<in>set vs. P u)" by (rule mp [OF mp [OF later pads] new])
        qed
      qed (use step True in auto)
    qed (use step in auto)
  qed
  then have "\<forall>ws m. (Ok (vs, n') :: (utxo list \<times> nat) res) = Ok (ws, m) \<longrightarrow> (\<forall>u\<in>set ws. P u)"
    by (rule mp [OF mp [OF _ pads] us])
  then show ?thesis by simp
qed

lemma sortAndPad_all:
  assumes "sortAndPadUtxos pad minInput sl n us = Ok (vs, n')" and "\<forall>u\<in>set us. P u" and "\<forall>i u. pad i = Ok u \<longrightarrow> P u"
  shows "\<forall>u\<in>set vs. P u"
proof -
  obtain ss where ss: "sortUtxos us = Ok ss" "returned (padLoop pad minInput sl n ss) = Ok (vs, n')"
    using assms(1) by (auto simp: sortAndPadUtxos_def res_simps)
  have "\<forall>u\<in>set ss. P u" using assms(2) by (simp add: sortUtxos_result [OF ss(1)])
  moreover have "padLoop pad minInput sl n ss = Some (Ok (vs, n'))"
    using ss(2) by (cases "padLoop pad minInput sl n ss") simp_all
  ultimately show ?thesis using padLoop_all [where P = P and pad = pad] assms(3) by blast
qed

lemma padTable_all:
  assumes pads: "\<forall>s i u. padUtxo E s i = Ok u \<longrightarrow> P u"
  shows "padTable E ch spk sp minInput sl n m = Ok (m', n') \<Longrightarrow> tableAll P m \<Longrightarrow> tableAll P m'"
proof (induction m arbitrary: n m' n')
  case (Cons e m)
  obtain key us where e: "e = (key, us)" by fastforce
  obtain src vs n1 rest where pad: "sortAndPadUtxos (padUtxo E src) minInput sl n us = Ok (vs, n1)"
    and rest: "padTable E ch spk sp minInput sl n1 m = Ok (rest, n')" and m': "m' = (key, vs) # rest"
    using Cons.prems(1) by (auto simp: e res_simps split: prod.splits)
  have "\<forall>u\<in>set vs. P u" by (rule sortAndPad_all [OF pad]) (use Cons.prems(2) pads e in \<open>auto simp: tableAll_def\<close>)
  then show ?case using Cons.IH [OF rest] Cons.prems(2) m' by (simp add: tableAll_def)
qed simp

lemma set_AList_update: "set (AList.update k v m) \<subseteq> insert (k, v) (set m)"
  by (induction m) auto

lemma tableGet_all: "tableAll P m \<Longrightarrow> u \<in> set (tableGet m k) \<Longrightarrow> P u"
  by (cases "map_of m k") (auto simp: tableAll_def tableGet_def dest!: map_of_SomeD)

lemma addKey_all: "tableAll P m \<Longrightarrow> tableAll P (addKey k m)"
  by (auto simp: tableAll_def addKey_def)

lemma addUtxo_all:
  assumes "tableAll P m" "P u"
  shows "tableAll P (addUtxo k u m)"
proof -
  have "\<forall>v\<in>set (tableGet (addKey k m) k @ [u]). P v" using assms tableGet_all [OF addKey_all [OF assms(1)]] by auto
  then show ?thesis
    using set_AList_update [of k "tableGet (addKey k m) k @ [u]" "addKey k m"] addKey_all [OF assms(1), of k]
    unfolding tableAll_def addUtxo_def by fastforce
qed

lemma groupUtxos_all: "tableAll P m \<Longrightarrow> \<forall>u\<in>set us. P u \<Longrightarrow> tableAll P (groupUtxos ch ts us m)"
  by (induction us arbitrary: m) (auto intro: addUtxo_all split: res.splits option.splits)

lemma ensureKeys_all: "tableAll P m \<Longrightarrow> tableAll P (ensureKeys ch ts m)"
  by (induction ts arbitrary: m) (auto intro: addKey_all)

lemma perToken_all:
  assumes run: "GetInputUtxoAndBalancePerToken E hexf p minInput sl toks ensured w = (Ok (m, n), w')"
    and pads: "\<forall>s i u. padUtxo E s i = Ok u \<longrightarrow> P u"
    and found: "\<And>w1 us w2. wlNullifiers w1 = wlNullifiers w \<Longrightarrow>
      (if ipUseBlocked p then GetInputUtxoAndBalanceOfStuckUtxos E hexf p else GetInputUtxoAndBalance E p) w1 = (Ok us, w2) \<Longrightarrow>
      \<forall>u\<in>set us. P u"
  shows "tableAll P m"
proof -
  obtain spk w1 pair w2 us w3 where steps: "onKeys (GetShieldedPrivateKey (weCrypto E)) w = (Ok spk, w1)"
      "onKeys (GetSpendingKeyPair (weCrypto E)) w1 = (Ok pair, w2)"
      "(if ipUseBlocked p then GetInputUtxoAndBalanceOfStuckUtxos E hexf p else GetInputUtxoAndBalance E p) w2 = (Ok us, w3)"
      "padTable E (ipChainID p) spk [fst (snd pair), snd (snd pair)] minInput sl 0
         (ensureKeys (ipChainID p) ensured (groupUtxos (ipChainID p) toks us [])) = Ok (m, n)"
    using run unfolding GetInputUtxoAndBalancePerToken_def by (auto simp: bindA_eq_Ok liftA_eq split: prod.splits)
  have "wlNullifiers w2 = wlNullifiers w"
    using keepsD [OF keeps_onKeys steps(1)] keepsD [OF keeps_onKeys steps(2)] by simp
  then have "tableAll P (groupUtxos (ipChainID p) toks us [])"
    using found [OF _ steps(3)] by (intro groupUtxos_all) (simp_all add: tableAll_def)
  then have "tableAll P (ensureKeys (ipChainID p) ensured (groupUtxos (ipChainID p) toks us []))" by (rule ensureKeys_all)
  then show ?thesis by (rule padTable_all [OF pads steps(4)])
qed

lemma padRow_all:
  "padRow E src d n us = Ok (row, n') \<Longrightarrow> \<forall>u\<in>set us. P u \<Longrightarrow> \<forall>s i u. padUtxo E s i = Ok u \<longrightarrow> P u \<Longrightarrow> \<forall>u\<in>set row. P u"
proof (induction d arbitrary: n us)
  case (Suc d)
  then obtain s u where u: "padUtxo E s n = Ok u" "padRow E src d (n + 1) (us @ [u]) = Ok (row, n')" by (auto simp: res_simps)
  show ?case by (rule Suc.IH [OF u(2)]) (use Suc.prems(2,3) u(1) in auto)
qed simp

lemma padRows_all:
  assumes pads: "\<forall>s i u. padUtxo E s i = Ok u \<longrightarrow> P u"
  shows "padRows E g ch spk sp as cs maxInput i n rows = Ok out \<Longrightarrow> \<forall>row\<in>set rows. \<forall>u\<in>set row. P u \<Longrightarrow>
    \<forall>row\<in>set out. \<forall>u\<in>set row. P u"
proof (induction rows arbitrary: i n out)
  case (Cons us rows)
  show ?case
  proof (cases "maxInput < int (length us)")
    case True
    then obtain row rest where row: "cutRow E g (as ! i) cs i maxInput us = Ok row"
      and rest: "padRows E g ch spk sp as cs maxInput (i + 1) n rows = Ok rest" and out: "out = row # rest"
      using Cons.prems(1) by (auto simp: res_simps)
    have "row = take (nat maxInput) us" using row by (auto simp: cutRow_def Let_def res_simps split: if_splits)
    then show ?thesis using Cons.IH [OF rest] Cons.prems(2) out by (auto dest!: in_set_takeD)
  next
    case False
    then obtain row n' rest where row: "padRow E (rowSource (weCrypto E) ch spk sp (as ! i)) (nat (maxInput - int (length us))) n us = Ok (row, n')"
      and rest: "padRows E g ch spk sp as cs maxInput (i + 1) n' rows = Ok rest" and out: "out = row # rest"
      using Cons.prems(1) by (auto simp: res_simps split: prod.splits)
    have "\<forall>u\<in>set row. P u" by (rule padRow_all [OF row _ pads]) (use Cons.prems(2) in auto)
    then show ?thesis using Cons.IH [OF rest] Cons.prems(2) out by simp
  qed
qed simp

lemma padded_rows_hold:
  assumes run: "AddPaddingToUtxos E hexf g ch addresses changes maxInput ids forceEmpty blocked w = (Ok rows, w')"
    and pads: "\<forall>s i u. padUtxo E s i = Ok u \<longrightarrow> P u"
    and found: "\<And>p w1 us w2. wlNullifiers w1 = wlNullifiers w \<Longrightarrow> ipChainID p = ch \<Longrightarrow> ipUseBlocked p = blocked \<Longrightarrow>
      (if blocked then GetInputUtxoAndBalanceOfStuckUtxos E hexf p else GetInputUtxoAndBalance E p) w1 = (Ok us, w2) \<Longrightarrow>
      \<forall>u\<in>set us. P u"
  shows "\<forall>row\<in>set rows. \<forall>u\<in>set row. P u"
proof (cases "addresses = []")
  case True
  then show ?thesis using run by (auto simp: AddPaddingToUtxos_def Let_def bindA_eq_Ok liftA_eq split: prod.splits)
next
  case False
  obtain pair w1 spk w2 p m n w3 maxI where steps: "onKeys (GetSpendingKeyPair (weCrypto E)) w = (Ok pair, w1)"
      "onKeys (GetShieldedPrivateKey (weCrypto E)) w1 = (Ok spk, w2)" and p: "ipChainID p = ch" "ipUseBlocked p = blocked"
      and per: "\<exists>toks ensured. GetInputUtxoAndBalancePerToken E hexf p 2 False toks ensured w2 = (Ok (m, n), w3)"
      and rows: "paddedRows E g ch spk [fst (snd pair), snd (snd pair)] addresses changes maxI forceEmpty m n = Ok rows"
  proof -
    define ids' where "ids' = (case ids of None \<Rightarrow> replicate (length addresses) 0 | Some is \<Rightarrow> is)"
    define P2 where "P2 eth w2 = \<lparr>ipChainID = ch, ipPassedKey = [], ipEthAddress = eth, ipResetCacheBefore = False,
      ipAllowRemote = wlProofRemotely w2, ipUseBlocked = blocked\<rparr>" for eth and w2 :: "'a wallet"
    have "ipChainID (P2 eth w2) = ch" "ipUseBlocked (P2 eth w2) = blocked" for eth w2 by (simp_all add: P2_def)
    note P2 = this
    let ?max = "if maxInput = 0 then 6 else maxInput"
    have run': "bindA (onKeys (GetSpendingKeyPair (weCrypto E))) (\<lambda>(privSpending, pub).
      bindA (onKeys (GetShieldedPrivateKey (weCrypto E))) (\<lambda>spk.
      bindA (\<lambda>w. liftA (if blocked then wlEthAddress w ch else Ok []) w) (\<lambda>eth.
        if length ids' < length addresses then liftA (Panic ''index out of range'')
        else bindA (\<lambda>w. GetInputUtxoAndBalancePerToken E hexf (P2 eth w)
                2 False None (map2 (\<lambda>a i. \<lparr>twAddress = a, twID = i\<rparr>) addresses ids') w) (\<lambda>(m, n).
          liftA (paddedRows E g ch spk [fst pub, snd pub] addresses changes ?max forceEmpty m n))))) w = (Ok rows, w')"
      using run False by (simp only: AddPaddingToUtxos_def Let_def ids'_def P2_def if_False)
    show thesis
    proof (cases "length ids' < length addresses")
      case True
      then show ?thesis using run' by (auto simp: bindA_eq_Ok liftA_eq split: prod.splits)
    next
      case False
      obtain pr w1 where 1: "onKeys (GetSpendingKeyPair (weCrypto E)) w = (Ok pr, w1)" using run' by (auto simp: bindA_eq_Ok)
      obtain spk w2 where 2: "onKeys (GetShieldedPrivateKey (weCrypto E)) w1 = (Ok spk, w2)"
        using run' 1 by (auto simp: bindA_eq_Ok split: prod.splits)
      obtain eth m n w3 where 3: "GetInputUtxoAndBalancePerToken E hexf (P2 eth w2)
                2 False None (map2 (\<lambda>a i. \<lparr>twAddress = a, twID = i\<rparr>) addresses ids') w2 = (Ok (m, n), w3)"
        "paddedRows E g ch spk [fst (snd pr), snd (snd pr)] addresses changes ?max forceEmpty m n = Ok rows"
        using run' 1 2 False by (auto simp: bindA_eq_Ok liftA_eq split: prod.splits)
      show ?thesis by (rule that [OF 1 2 P2 _ 3(2)]) (use 3(1) in blast)
    qed
  qed
  have "wlNullifiers w2 = wlNullifiers w"
    using keepsD [OF keeps_onKeys steps(1)] keepsD [OF keeps_onKeys steps(2)] by simp
  note same = this
  have table: "tableAll P m"
  proof -
    obtain toks ensured where run: "GetInputUtxoAndBalancePerToken E hexf p 2 False toks ensured w2 = (Ok (m, n), w3)" using per by blast
    show ?thesis by (rule perToken_all [OF run pads]) (rule found [OF _ p], use same p in auto)
  qed
  then have grouped: "\<forall>row\<in>set (map (\<lambda>a. if forceEmpty then [] else tableGet m (encodeTokenWithID ch a)) addresses). \<forall>u\<in>set row. P u"
    using tableGet_all by auto
  show ?thesis
    using rows padRows_all [OF pads _ grouped] grouped unfolding paddedRows_def Let_def by (auto split: if_splits)
qed

text \<open>A wallet with nothing to spend asks for the inputs of two tokens.\<close>

definition signerKeys :: userKeys where
  "signerKeys = \<lparr>ukSignature = ToBeHex (Some 5), ukNullifyingKey = ToBeHex (Some 11)\<rparr>"

definition padEnv :: "memoryCache walletEnv" where
  "padEnv = (toyEnv emptyHinkalCache)\<lparr>wePadRand := \<lambda>_ _. Ok [50]\<rparr>"

lemma padEnv_fields [simp]:
  "weCrypto padEnv = toyCrypto" "weNow padEnv = bigString 7" "wePadRand padEnv = (\<lambda>_ _. Ok [50])" "weDevice padEnv = memoryDevice"
  "weJson padEnv = \<lparr>cacheText = (\<lambda>_. Ok ''c''), cacheParse = (\<lambda>_. Some emptyHinkalCache)\<rparr>"
  by (simp_all add: padEnv_def)

lemma toy_randomization: "FindCorrectRandomization toyCrypto 50 (ToBeHex (Some 11)) = Ok 50"
  unfolding FindCorrectRandomization_def
  by (subst randomizationLoop.simps) (simp add: adjustedPrivateKey_def circomP_def toyCrypto_def two253_def Let_def)

lemma toy_pad: "psPrivate src = ToBeHex (Some 11) \<Longrightarrow> isOk (padUtxo padEnv src n)"
proof -
  assume src: "psPrivate src = ToBeHex (Some 11)"
  have seed: "RandomBigInt (\<lambda>_. Ok [50]) 31 = Ok 50" by (simp add: RandomBigInt_def setBytes_def)
  have "isOk (FindH0 toyCrypto 50 (ToBeHex (Some 11)))"
    by (simp add: FindH0_def GetRandomizedStealthPair_def adjustedPrivateKey_def Let_def split: prod.split)
  then obtain h where "FindH0 toyCrypto 50 (ToBeHex (Some 11)) = Ok h" by (auto simp: isOk_iff)
  then show ?thesis by (simp add: padUtxo_def NewUtxo_def padParams_def src seed toy_randomization Let_def)
qed

lemma signer_private: "GetShieldedPrivateKey toyCrypto signerKeys = (Ok (ToBeHex (Some 11)), signerKeys)"
  by (simp add: GetShieldedPrivateKey_def signerKeys_def)

lemma signer_public: "GetShieldedPublicKey toyCrypto signerKeys = (Ok (ToBeHex (Some 12)), signerKeys)"
proof -
  have "PoseidonBig toyCrypto [Some 11] = Ok 12" by (simp add: PoseidonBig_def toyCrypto_def)
  then show ?thesis by (simp add: GetShieldedPublicKey_def bindA_def liftA_def signer_private)
qed

lemma signer_pair: "\<exists>a b. GetSpendingKeyPair toyCrypto signerKeys = (Ok (a, b), signerKeys)"
proof -
  have n: "setString 10 prefixForSpendingPair = Some 1" by code_simp
  obtain h where h: "PoseidonBig toyCrypto [Some 1, Some 5] = Ok h" by (simp add: PoseidonBig_def toyCrypto_def)
  show ?thesis
    by (simp add: GetSpendingKeyPair_def GetSignature_def requireSignature_def bindA_def liftA_def signerKeys_def n h Let_def)
qed

definition signerWallet :: "memoryCache wallet" where
  "signerWallet = freshWallet\<lparr>wlKeys := signerKeys\<rparr>"

lemma signerWallet_fields [simp]:
  "wlKeys signerWallet = signerKeys" "wlOutputs signerWallet n = []" "wlNullifiers signerWallet n = {}"
  "wlAddress signerWallet = (\<lambda>_. ''0xhinkal'')" "\<not> wlUpdatesDisabled signerWallet" "wlCache signerWallet = NewMemoryCacheDevice"
  "\<not> wlProofRemotely signerWallet" "signerWallet\<lparr>wlKeys := signerKeys\<rparr> = signerWallet"
  by (simp_all add: signerWallet_def freshWallet_def toyWallet_def)

lemma signer_inputs:
  "\<exists>w'. GetInputUtxoAndBalance padEnv \<lparr>ipChainID = 1, ipPassedKey = [], ipEthAddress = [], ipResetCacheBefore = False,
     ipAllowRemote = False, ipUseBlocked = False\<rparr> signerWallet = (Ok [], w')"
  using signer_public signer_private
  by (simp add: GetInputUtxoAndBalance_def Let_def bindA_def onKeys_def liftA_def GetHinkalCache_def memoryDevice_def
      memoryGet_def NewMemoryCacheDevice_def indexOfOutput_def emptyHinkalCache_def shortStrings_def getInputUtxosLocally_def
      filterOwnedOutputs_def parallelDecryptThreshold_def setCache_def onCache_def SetHinkalCache_def memorySet_def)

lemma padded_rows_rectangular_witness:
  "\<exists>row w'. AddPaddingToUtxos padEnv Ok (\<lambda>_. None) 1 [''0xaa''] [0] 0 None False False signerWallet = (Ok [row], w') \<and>
     (length row = 2 \<or> length row = 6)"
proof -
  have chain: "\<not> IsSolanaLike 1" by code_simp
  obtain a b where pair: "GetSpendingKeyPair toyCrypto signerKeys = (Ok (a, b), signerKeys)" using signer_pair by blast
  obtain w' where inputs: "GetInputUtxoAndBalance padEnv \<lparr>ipChainID = 1, ipPassedKey = [], ipEthAddress = [],
      ipResetCacheBefore = False, ipAllowRemote = False, ipUseBlocked = False\<rparr> signerWallet = (Ok [], w')"
    using signer_inputs by blast
  let ?k = "encodeTokenWithID 1 ''0xaa''"
  let ?src = "\<lparr>psPrivate = ToBeHex (Some 11), psSpending = [fst b, snd b], psErc20 = toLower (hd (splitStr ?k ''-'')), psMint = []\<rparr>"
  let ?row = "padWith (padUtxo padEnv ?src) 0 2"
  have "padLoop (padUtxo padEnv ?src) 2 False 0 [] = Some (Ok (?row, 2))"
    using padLoop_ends [of "padUtxo padEnv ?src" False 2 0 "[]"] toy_pad [of ?src] by (simp add: padGoal_def)
  then have table: "padTable padEnv 1 (ToBeHex (Some 11)) [fst b, snd b] 2 False 0 [(?k, [])] = Ok ([(?k, ?row)], 2)"
    by (simp add: sourceOfKey_def chain sortAndPadUtxos_def sortUtxos_def)
  have len: "maxLength [?row] = 2" by (simp add: maxLength_def padWith_def)
  have "AddPaddingToUtxos padEnv Ok (\<lambda>_. None) 1 [''0xaa''] [0] 0 None False False signerWallet = (Ok [?row], w')"
    using pair signer_private inputs table len
    by (simp add: AddPaddingToUtxos_def Let_def bindA_def onKeys_def liftA_def GetInputUtxoAndBalancePerToken_def addKey_def
        paddedRows_def tableGet_def)
  then show ?thesis using padded_rows_rectangular [of padEnv] by fastforce
qed

end
