(* ===== verification/Fees.thy ===== *)
theory Fees
  imports Utxo
begin

text \<open>
  Fees: \<open>internal/functions/fees/fees.go\<close> and the fee half of \<open>internal/functions/pre-transaction\<close>
  (\<open>get_fee_structure.go\<close>, \<open>process_gas_estimates.go\<close>, \<open>merge_with_fee_structure.go\<close>), over \<open>types.FeeStructure\<close>.
  The IEEE arithmetic of the cross-token price is the argument \<open>F\<close>; the token prices and the
  gas estimates of the servers are arguments too.
\<close>

subsection \<open>types/hinkal_types.go\<close>

record feeStructure =
  fsFeeToken :: string
  fsFlatFee :: int
  fsVariableRate :: int

definition ZeroFeeStructure :: feeStructure where
  "ZeroFeeStructure = \<lparr>fsFeeToken = ZeroAddress, fsFlatFee = 0, fsVariableRate = 0\<rparr>"

subsection \<open>fees.go\<close>

record 'f floats =
  flParse :: "string \<Rightarrow> 'f res"                 \<comment> \<open>strconv.ParseFloat\<close>
  flMul :: "'f \<Rightarrow> 'f \<Rightarrow> 'f"
  flDiv :: "'f \<Rightarrow> 'f \<Rightarrow> 'f"
  flOfInt :: "int \<Rightarrow> 'f"                        \<comment> \<open>float64 of an int64\<close>
  flIsZero :: "'f \<Rightarrow> bool"
  flFormat :: "'f \<Rightarrow> int \<Rightarrow> string"              \<comment> \<open>strconv.FormatFloat with format f and that precision\<close>
  flText :: "'f \<Rightarrow> string"                       \<comment> \<open>the shortest text\<close>

text \<open>The token of an address: the outcome of \<open>GetERC20Token\<close> with nothing cached.\<close>

definition lookupToken :: "(string \<Rightarrow> erc20Token list option) \<Rightarrow> string \<Rightarrow> int \<Rightarrow> erc20Token option" where
  "lookupToken readTokens address chainID = fst (GetERC20Token readTokens address chainID Map.empty)"

fun containsString :: "string list \<Rightarrow> string \<Rightarrow> bool" where
  "containsString [] target = False"
| "containsString (v # vs) target = (v = target \<or> containsString vs target)"

definition ExtendedNonNativeGasCostTokenSymbolOptions :: "string list" where
  "ExtendedNonNativeGasCostTokenSymbolOptions = [''USDC'', ''USDT'', ''DAI'']"

definition GetGasTokenSymbols :: "(string \<Rightarrow> erc20Token list option) \<Rightarrow> int \<Rightarrow> string list" where
  "GetGasTokenSymbols readTokens chainID =
     (if chainID = 0 then ExtendedNonNativeGasCostTokenSymbolOptions
      else
        (let nativeTokenAddress = (if IsSolanaLike chainID then SolanaNativeAddress else ZeroAddress);
             nativeTokenSymbol = (case lookupToken readTokens nativeTokenAddress chainID of
                                    None \<Rightarrow> [] | Some t \<Rightarrow> tkSymbol t)
         in if IsSolanaLike chainID \<and> nativeTokenSymbol \<noteq> [] then [nativeTokenSymbol]
            else
              (let options = NonNativeGasCostTokenSymbolOptions chainID in
               if nativeTokenSymbol \<noteq> [] \<and> \<not> containsString options nativeTokenSymbol
               then nativeTokenSymbol # options else options)))"

definition CalculateTotalFee :: "int \<Rightarrow> feeStructure \<Rightarrow> int" where
  "CalculateTotalFee amount fs = fsFlatFee fs + quo (amount * fsVariableRate fs) BPSDenominator"

definition int64 :: "int \<Rightarrow> int" where
  "int64 n = sint (word_of_int n :: 64 word)"

definition crossTokenVariableFee ::
  "'f floats \<Rightarrow> (int \<Rightarrow> string list \<Rightarrow> 'f list res) \<Rightarrow> int \<Rightarrow> erc20Token \<Rightarrow> int \<Rightarrow> feeStructure \<Rightarrow> erc20Token \<Rightarrow> int res" where
  "crossTokenVariableFee F getPrices chainID amountToken amount fs feeToken =
     andThen (getPrices chainID [tkAddress amountToken, tkAddress feeToken]) (\<lambda>prices.
       if length prices < 2 \<or> flIsZero F (prices ! 0) \<or> flIsZero F (prices ! 1)
       then Err (ErrMsg ''failed to get token prices'')
       else
         andThen (GetAmountInToken (tkDecimals amountToken) (Some amount)) (\<lambda>text.
         andThen (flParse F text) (\<lambda>amountInToken.
           (let amountValueUsd = flMul F amountInToken (prices ! 0);
                variableFeeUsd = flDiv F (flMul F amountValueUsd (flOfInt F (int64 (fsVariableRate fs))))
                                         (flOfInt F BPSDenominator)
            in GetAmountInWei (tkDecimals feeToken)
                 (flFormat F (flDiv F variableFeeUsd (prices ! 1)) (tkDecimals feeToken))))))"

definition CalculateModifiedFeeStructure ::
  "'f floats \<Rightarrow> (string \<Rightarrow> erc20Token list option) \<Rightarrow> (int \<Rightarrow> string list \<Rightarrow> 'f list res) \<Rightarrow> int \<Rightarrow> erc20Token \<Rightarrow> int \<Rightarrow>
   feeStructure \<Rightarrow> feeStructure res" where
  "CalculateModifiedFeeStructure F readTokens getPrices chainID amountToken amount fs =
     andThen
       (case lookupToken readTokens (fsFeeToken fs) chainID of
          None \<Rightarrow> Ok (CalculateTotalFee amount fs)
        | Some feeToken \<Rightarrow>
            if equalFold (fsFeeToken fs) (tkAddress amountToken) \<or> fsVariableRate fs = 0
            then Ok (CalculateTotalFee amount fs)
            else
              (case crossTokenVariableFee F getPrices chainID amountToken amount fs feeToken of
                 Ok vf \<Rightarrow> Ok (fsFlatFee fs + vf)
               | Err e \<Rightarrow> Ok (fsFlatFee fs + 0)
               | Panic p \<Rightarrow> Panic p))
       (\<lambda>totalFee. Ok \<lparr>fsFeeToken = fsFeeToken fs, fsFlatFee = totalFee, fsVariableRate = 0\<rparr>)"

text \<open>\<open>Quo\<close> by a zero denominator panics; the rate is never checked here.\<close>

definition CalculateWithdrawalAmount :: "int \<Rightarrow> feeStructure \<Rightarrow> int res" where
  "CalculateWithdrawalAmount amountWithFee fs =
     (let positiveAmountWithFee = - amountWithFee in
      if fsVariableRate fs = 0 then Ok (positiveAmountWithFee - fsFlatFee fs)
      else
        (let numerator = (positiveAmountWithFee - fsFlatFee fs) * BPSDenominator;
             denominator = BPSDenominator + fsVariableRate fs
         in if denominator = 0 then Panic ''division by zero'' else Ok (quo numerator denominator)))"

subsection \<open>process_gas_estimates.go\<close>

record callInfo =
  ciFrom :: string
  ciTo :: string
  ciCalldata :: string
  ciValue :: "int option"

record gasEstimateCall =
  gcFrom :: string
  gcTo :: string
  gcCalldata :: string
  gcValue :: string

record 'f gasEstimates =
  geInUSD :: "'f option"
  geInToken :: "'f option"

definition gasCall :: "callInfo \<Rightarrow> gasEstimateCall" where
  "gasCall c = \<lparr>gcFrom = ciFrom c, gcTo = ciTo c, gcCalldata = ciCalldata c,
     gcValue = (case ciValue c of None \<Rightarrow> ''0'' | Some v \<Rightarrow> bigString v)\<rparr>"

text \<open>
  \<open>estimate\<close> is \<open>api.GetGasEstimates\<close>: the fee token, the action, the number of inputs, the calls, the gas
  amount and the Solana parameters. Its failure is logged and leaves both prices nil.
\<close>

definition ProcessGasEstimates ::
  "'f floats \<Rightarrow> (int \<Rightarrow> string \<Rightarrow> string \<Rightarrow> nat \<Rightarrow> gasEstimateCall list \<Rightarrow> int option \<Rightarrow> 'p \<Rightarrow> 'f gasEstimates res) \<Rightarrow>
   int \<Rightarrow> erc20Token \<Rightarrow> string \<Rightarrow> nat \<Rightarrow> int option \<Rightarrow> callInfo list \<Rightarrow> 'p \<Rightarrow> ('f option \<times> int option) res" where
  "ProcessGasEstimates F estimate chainID gasToken externalActionID addressLength gasAmount calls solanaParams =
     (case estimate chainID (tkAddress gasToken) externalActionID addressLength (map gasCall calls) gasAmount solanaParams of
        Panic p \<Rightarrow> Panic p
      | Err e \<Rightarrow> Ok (None, None)
      | Ok resp \<Rightarrow>
          (case geInToken resp of
             None \<Rightarrow> Ok (geInUSD resp, None)
           | Some price \<Rightarrow>
               if flIsZero F price then Ok (geInUSD resp, None)
               else
                 andThen (GetValueFirstNDigit (flText F) price (tkDecimals gasToken)) (\<lambda>weiInput.
                 andThen (GetAmountInWei (tkDecimals gasToken) weiInput) (\<lambda>wei.
                   Ok (geInUSD resp, Some wei)))))"

subsection \<open>get_fee_structure.go\<close>

fun anyEqualFold :: "string list \<Rightarrow> string \<Rightarrow> bool" where
  "anyEqualFold [] address = False"
| "anyEqualFold (a # as) address = (equalFold a address \<or> anyEqualFold as address)"

definition GetFeeStructure ::
  "'f floats \<Rightarrow> (string \<Rightarrow> erc20Token list option) \<Rightarrow>
   (int \<Rightarrow> string \<Rightarrow> string \<Rightarrow> nat \<Rightarrow> gasEstimateCall list \<Rightarrow> int option \<Rightarrow> 'p \<Rightarrow> 'f gasEstimates res) \<Rightarrow>
   int \<Rightarrow> string \<Rightarrow> string list \<Rightarrow> string \<Rightarrow> callInfo list \<Rightarrow> int option \<Rightarrow> 'p \<Rightarrow> feeStructure res" where
  "GetFeeStructure F readTokens estimate chainID feeTokenAddress erc20Addresses externalActionID calls variableRate solanaParams =
     (let lookupAddress = (if feeTokenAddress = [] then ZeroAddress else feeTokenAddress) in
      case lookupToken readTokens lookupAddress chainID of
        None \<Rightarrow> Err (ErrMsg ''failed to find feeToken'')
      | Some feeToken \<Rightarrow>
          (let numberOfInputs = (if anyEqualFold erc20Addresses feeTokenAddress
                                 then length erc20Addresses + 1 else length erc20Addresses)
           in andThen (ProcessGasEstimates F estimate chainID feeToken externalActionID numberOfInputs None calls solanaParams)
                (\<lambda>(usd, priceInToken).
                   case priceInToken of
                     None \<Rightarrow> Err (ErrMsg ''failed to process gas estimates'')
                   | Some price \<Rightarrow>
                       Ok \<lparr>fsFeeToken = tkAddress feeToken, fsFlatFee = price,
                           fsVariableRate = (case variableRate of None \<Rightarrow> 0 | Some r \<Rightarrow> r)\<rparr>)))"

subsection \<open>merge_with_fee_structure.go\<close>

fun indexEqualFold :: "string \<Rightarrow> string list \<Rightarrow> nat option" where
  "indexEqualFold address [] = None"
| "indexEqualFold address (a # as) =
     (if equalFold a address then Some 0 else map_option Suc (indexEqualFold address as))"

text \<open>
  The two slices are updated through their pointers, so the outcome is their new values. The error
  carries the fee and the symbol of the fee token, empty when the registry does not know it.
\<close>

definition MergeWithFeeStructure ::
  "(string \<Rightarrow> erc20Token list option) \<Rightarrow> int \<Rightarrow> string list \<Rightarrow> int list \<Rightarrow> feeStructure \<Rightarrow> (string list \<times> int list) res" where
  "MergeWithFeeStructure readTokens chainID erc20Addresses amountChanges fs =
     (case indexEqualFold (fsFeeToken fs) erc20Addresses of
        None \<Rightarrow> Ok (erc20Addresses @ [fsFeeToken fs], amountChanges @ [- fsFlatFee fs])
      | Some i \<Rightarrow>
          if length amountChanges \<le> i then Panic ''index out of range''
          else if 0 < amountChanges ! i \<and> amountChanges ! i < fsFlatFee fs
          then Err (ErrFeesOver (fsFlatFee fs)
                 (case lookupToken readTokens (fsFeeToken fs) chainID of None \<Rightarrow> [] | Some t \<Rightarrow> tkSymbol t))
          else Ok (erc20Addresses, amountChanges[i := amountChanges ! i - fsFlatFee fs]))"

section \<open>Properties\<close>

text \<open>
  What the fee arithmetic promises: a withdrawal and the fee charged on it fit the amount they come
  from, and adding a fee structure to a transaction charges the flat fee exactly once.
\<close>

subsection \<open>Withdrawals\<close>

lemma floor_of_rate:
  fixes p r d :: int
  assumes "0 < d" "0 \<le> r" "0 \<le> p"
  defines "w \<equiv> p * d div (d + r)"
  shows "w + w * r div d \<le> p" and "p * d < (w + 1) * (d + r)"
proof -
  have pos: "0 < d + r" using assms by simp
  have le: "w * (d + r) \<le> p * d"
    unfolding w_def using pos by (metis div_mult_mod_eq le_add_same_cancel1 pos_mod_sign)
  have "w + w * r div d = (w * (d + r)) div d"
    using \<open>0 < d\<close> by (simp add: algebra_simps)
  also have "\<dots> \<le> p * d div d"
    using le \<open>0 < d\<close> by (rule zdiv_mono1)
  finally show "w + w * r div d \<le> p"
    using \<open>0 < d\<close> by simp
  have "p * d = w * (d + r) + p * d mod (d + r)"
    unfolding w_def by (rule div_mult_mod_eq [symmetric])
  moreover have "p * d mod (d + r) < d + r"
    using pos by simp
  ultimately show "p * d < (w + 1) * (d + r)"
    by (simp add: algebra_simps)
qed

lemma rate_dust:
  fixes p r d w :: int
  assumes "0 < d" "0 \<le> r" "r \<le> d" "p * d < (w + 1) * (d + r)"
  shows "p < w + w * r div d + 3"
proof -
  have "w * (d + r) = (w + w * r div d) * d + w * r mod d"
    using div_mult_mod_eq [of "w * r" d] by (simp add: distrib_left distrib_right)
  moreover have "w * r mod d < d" using \<open>0 < d\<close> by simp
  ultimately have "p * d < (w + w * r div d) * d + d + (d + r)"
    using assms(4) unfolding distrib_right [of w 1] by simp
  also have "\<dots> \<le> (w + w * r div d + 3) * d"
    using \<open>r \<le> d\<close> by (simp add: algebra_simps)
  finally show ?thesis
    using \<open>0 < d\<close> by (simp only: mult_less_cancel_right_disj) auto
qed

text \<open>A withdrawal of an amount that covers the flat fee returns an amount that, with the fee charged
  on it, fits the amount spent; at most two units are left over for rates up to 100 per cent.
\<close>

theorem withdrawal_fits:
  assumes "0 \<le> fsVariableRate fs" "fsVariableRate fs \<le> BPSDenominator"
    and "fsFlatFee fs \<le> - amountWithFee"
  shows "\<exists>w. CalculateWithdrawalAmount amountWithFee fs = Ok w \<and> 0 \<le> w \<and>
    w + CalculateTotalFee w fs \<le> - amountWithFee \<and> - amountWithFee < w + CalculateTotalFee w fs + 3"
proof (cases "fsVariableRate fs = 0")
  case True
  then show ?thesis
    using assms by (simp add: CalculateWithdrawalAmount_def CalculateTotalFee_def quo_def BPSDenominator_def)
next
  case False
  define r where "r = fsVariableRate fs"
  define p where "p = - amountWithFee - fsFlatFee fs"
  define w where "w = p * 10000 div (10000 + r)"
  have r: "0 \<le> r" "r \<le> 10000" "r \<noteq> 0" and p: "0 \<le> p"
    using assms False by (simp_all add: r_def p_def BPSDenominator_def)
  have w: "0 \<le> w" using p r by (simp add: w_def pos_imp_zdiv_nonneg_iff)
  have calc: "CalculateWithdrawalAmount amountWithFee fs = Ok w"
    using False p r quo_nonneg [of "p * 10000" "10000 + r"]
    unfolding CalculateWithdrawalAmount_def BPSDenominator_def Let_def r_def p_def w_def
    by (simp del: left_diff_distrib_numeral)
  have fee: "CalculateTotalFee w fs = fsFlatFee fs + w * r div 10000"
    using w r by (simp add: CalculateTotalFee_def BPSDenominator_def quo_nonneg r_def)
  note fits = floor_of_rate [of 10000 r p, folded w_def]
  have "p < w + w * r div 10000 + 3"
    using rate_dust [of 10000 r p w] fits(2) p r by simp
  then show ?thesis
    using calc fee w fits(1) p r by (auto simp: p_def)
qed

theorem withdrawal_fits_witness:
  "\<exists>w. CalculateWithdrawalAmount (- 1000) \<lparr>fsFeeToken = ''t'', fsFlatFee = 10, fsVariableRate = 35\<rparr> = Ok w \<and> 0 \<le> w \<and>
    w + CalculateTotalFee w \<lparr>fsFeeToken = ''t'', fsFlatFee = 10, fsVariableRate = 35\<rparr> \<le> 1000 \<and>
    1000 < w + CalculateTotalFee w \<lparr>fsFeeToken = ''t'', fsFlatFee = 10, fsVariableRate = 35\<rparr> + 3"
  using withdrawal_fits [of "\<lparr>fsFeeToken = ''t'', fsFlatFee = 10, fsVariableRate = 35\<rparr>" "- 1000"]
  by (simp add: BPSDenominator_def)

subsection \<open>Charging the flat fee\<close>

lemma indexEqualFold_Some:
  "indexEqualFold a as = Some i \<Longrightarrow> i < length as \<and> equalFold (as ! i) a \<and> (\<forall>j<i. \<not> equalFold (as ! j) a)"
proof (induction as arbitrary: i)
  case (Cons b as)
  then show ?case
    by (auto split: if_splits simp: less_Suc_eq_0_disj)
qed simp

lemma indexEqualFold_None: "indexEqualFold a as = None \<longleftrightarrow> (\<forall>b\<in>set as. \<not> equalFold b a)"
  by (induction as) auto

lemma sum_list_update_int:
  "i < length xs \<Longrightarrow> sum_list (xs[i := v]) = sum_list xs + v - (xs ! i :: int)"
proof (induction xs arbitrary: i)
  case (Cons x xs)
  then show ?case by (cases i) auto
qed simp

lemma merge_new:
  assumes "MergeWithFeeStructure readTokens chainID as cs fs = Ok (as', cs')"
    and "indexEqualFold (fsFeeToken fs) as = None"
  shows "as' = as @ [fsFeeToken fs]" "cs' = cs @ [- fsFlatFee fs]"
  using assms by (auto simp: MergeWithFeeStructure_def)

lemma merge_old:
  assumes "MergeWithFeeStructure readTokens chainID as cs fs = Ok (as', cs')"
    and "indexEqualFold (fsFeeToken fs) as = Some i"
  shows "as' = as" "i < length cs" "cs' = cs[i := cs ! i - fsFlatFee fs]"
    "\<not> (0 < cs ! i \<and> cs ! i < fsFlatFee fs)"
  using assms by (auto simp: MergeWithFeeStructure_def split: if_splits)

text \<open>Merging a fee structure into a transaction keeps tokens and changes of equal length, charges
  the flat fee exactly once, at the fee token, leaves every other change alone, and turns no amount
  received into an amount paid.
\<close>

theorem merge_charges_once:
  assumes "MergeWithFeeStructure readTokens chainID as cs fs = Ok (as', cs')" and "length as = length cs"
  shows "length as' = length cs' \<and> sum_list cs' = sum_list cs - fsFlatFee fs \<and>
    (\<exists>i<length cs'. equalFold (as' ! i) (fsFeeToken fs) \<and>
       cs' ! i = (if i < length cs then cs ! i else 0) - fsFlatFee fs \<and>
       (\<forall>j<length cs. j \<noteq> i \<longrightarrow> as' ! j = as ! j \<and> cs' ! j = cs ! j)) \<and>
    (\<forall>j<length cs. 0 < cs ! j \<longrightarrow> 0 \<le> cs' ! j)"
proof (cases "indexEqualFold (fsFeeToken fs) as")
  case None
  note new = merge_new [OF assms(1) None]
  show ?thesis
    unfolding new using assms(2)
    by (auto simp: nth_append equalFold_def intro!: exI [of _ "length cs"])
next
  case (Some i)
  note old = merge_old [OF assms(1) Some] and ix = indexEqualFold_Some [OF Some]
  have "0 < cs ! j \<longrightarrow> 0 \<le> cs' ! j" if j: "j < length cs" for j
    using old(4) j by (cases "j = i") (auto simp: old(3))
  then show ?thesis
    using old(2) ix assms(2) unfolding old(1,3)
    by (auto simp: sum_list_update_int intro!: exI [of _ i])
qed

definition twoTokens :: feeStructure where
  "twoTokens = \<lparr>fsFeeToken = ''0xAB'', fsFlatFee = 3, fsVariableRate = 0\<rparr>"

theorem merge_charges_once_witness:
  "\<exists>as' cs'. MergeWithFeeStructure (\<lambda>_. None) 1 [''0xcd'', ''0xab''] [5, 7] twoTokens = Ok (as', cs') \<and>
     length as' = length cs' \<and> sum_list cs' = 9"
proof -
  have m: "MergeWithFeeStructure (\<lambda>_. None) 1 [''0xcd'', ''0xab''] [5, 7] twoTokens = Ok ([''0xcd'', ''0xab''], [5, 4])"
    by code_simp
  have "length [''0xcd'', ''0xab''] = length [5::int, 4] \<and> sum_list [5, 4] = sum_list [5, 7] - fsFlatFee twoTokens"
    using merge_charges_once [OF m] by simp
  then show ?thesis
    using m by (auto simp: twoTokens_def)
qed

end
