(* ===== verification/PreTransaction.thy ===== *)
theory PreTransaction
  imports Fees BalanceTokens
begin

text \<open>
  What a transaction is prepared from: \<open>internal/functions/pre-transaction\<close> (\<open>recipient.go\<close>,
  \<open>output_utxo_processing.go\<close>, \<open>token_check.go\<close>, \<open>get_external_swap_address.go\<close>,
  \<open>get_volatile_transfer_amount.go\<close>) and \<open>internal/data-structures/token-checker\<close>.
\<close>

subsection \<open>recipient.go\<close>

record stealthAddressStructure =
  saExtraRandomization :: int
  saStealthAddress :: int
  saH0 :: int
  saH1 :: int

definition DefaultStealthAddressStructure :: stealthAddressStructure where
  "DefaultStealthAddressStructure =
     \<lparr>saExtraRandomization = 1, saStealthAddress = 0, saH0 = 0, saH1 = 0\<rparr>"

definition newStyleBit :: int where
  "newStyleBit = push_bit 255 1"

definition rejectURLs :: "string list" where
  "rejectURLs = [''http://'', ''https://'', ''/payment/'', ''.app/'', ''.com/'', ''.netlify.'']"

definition IsValidPrivateAddress :: "string \<Rightarrow> bool" where
  "IsValidPrivateAddress address =
     (if list_ex (containsStr address) rejectURLs then False
      else
        (let parts = splitStr address '','' in
         if length parts < 5 then False
         else
           (let stealthAddress = parts ! 0; h00 = parts ! 1; h01 = parts ! 2; h11 = parts ! 3;
                encryptionKey = parts ! 4
            in if stealthAddress = [] \<or> encryptionKey = [] \<or> h00 = [] \<or> h01 = [] \<or> h11 = [] then False
               else if \<not> hasPrefix stealthAddress ''0x'' \<or> \<not> hasPrefix encryptionKey ''0x'' then False
               else if length encryptionKey \<noteq> 66 \<or> length stealthAddress > 66 \<or> length stealthAddress < 64 then False
               else if containsStr address [CHR 0x22] then False
               else True)))"

definition ConstructStealthAddressStructure :: "string \<Rightarrow> stealthAddressStructure res" where
  "ConstructStealthAddressStructure recipientInfo =
     (let parts = splitStr recipientInfo '','' in
      if length parts < 4 then Err (ErrMsg ''constructStealthAddressStructure: malformed recipient info'')
      else
        andThen (ParseBigInt (parts ! 0)) (\<lambda>stealthAddress.
        andThen (ParseBigInt (parts ! 1)) (\<lambda>h00.
        andThen (ParseBigInt (parts ! 2)) (\<lambda>h01.
        andThen (ParseBigInt (parts ! 3)) (\<lambda>h11.
          Ok \<lparr>saExtraRandomization = or h00 newStyleBit, saStealthAddress = stealthAddress,
              saH0 = h01, saH1 = h11\<rparr>)))))"

text \<open>The parameters of the utxo the recipient information is taken from.\<close>

definition recipientParams :: "string \<Rightarrow> jubPoint \<Rightarrow> utxoParams" where
  "recipientParams nullifyingKey pub =
     \<lparr>upAmount = Some 0, upErc20 = ZeroAddress, upMint = [], upTimeStamp = [],
      upNullifyingKey = nullifyingKey, upSpendingKey = Some [fst pub, snd pub], upRandomization = None,
      upH0 = None, upStealth = [], upEncryptionKey = [], upCommitment = [], upNullifier = [],
      upIsBlocked = False, upIsNewStyle = True\<rparr>"

definition recipientText :: "string \<Rightarrow> int \<Rightarrow> int \<Rightarrow> int \<Rightarrow> string \<Rightarrow> string" where
  "recipientText stealthAddress h00 h01 h11 encryptionKey =
     joinStr [stealthAddress, bigString h00, bigString h01, bigString h11, encryptionKey] '',''"

definition GetRecipientInfoFromUserKeys :: "cryptoLib \<Rightarrow> string \<Rightarrow> (nat \<Rightarrow> bytes res) \<Rightarrow> (userKeys, string) action" where
  "GetRecipientInfoFromUserKeys C now rand =
     bindA (GetShieldedPrivateKey C) (\<lambda>nullifyingKey.
     bindA (liftA (GetEncryptionKeyPair C nullifyingKey)) (\<lambda>encPair.
     bindA (GetSpendingKeyPair C) (\<lambda>(privSpending, pub).
     bindA (liftA (NewUtxo C now rand (recipientParams nullifyingKey pub))) (\<lambda>u.
       liftA (case uxH0 u of
                None \<Rightarrow> Err (ErrMsg ''getRecipientInfoFromUserKeys: H0 is not set'')
              | Some h0 \<Rightarrow>
                  andThen (fst (GetStealthAddressUtxo C u)) (\<lambda>stealthAddress.
                  andThen (GetH1FromH0 C h0 nullifyingKey) (\<lambda>h1.
                    Ok (recipientText stealthAddress (fst h0) (snd h0) (snd h1) (snd encPair)))))))))"

definition GetStealthAddressStructureFromUserKeys ::
  "cryptoLib \<Rightarrow> string \<Rightarrow> (nat \<Rightarrow> bytes res) \<Rightarrow> (userKeys, stealthAddressStructure) action" where
  "GetStealthAddressStructureFromUserKeys C now rand =
     bindA (GetRecipientInfoFromUserKeys C now rand) (\<lambda>recipientInfo.
       liftA (ConstructStealthAddressStructure recipientInfo))"

subsection \<open>output_utxo_processing.go\<close>

text \<open>
  \<open>clock\<close> and \<open>rand\<close> give the time and the random bytes of each utxo that is made: the change first,
  the recipient's second. A sum over a utxo without an amount, and an empty list of inputs, panic.
\<close>

definition changeParams :: "utxo \<Rightarrow> int option \<Rightarrow> string \<Rightarrow> string \<Rightarrow> jubPoint \<Rightarrow> utxoParams" where
  "changeParams u amount timeStamp nullifyingKey pub =
     \<lparr>upAmount = amount, upErc20 = uxErc20 u, upMint = uxMint u, upTimeStamp = timeStamp,
      upNullifyingKey = nullifyingKey, upSpendingKey = Some [fst pub, snd pub], upRandomization = None,
      upH0 = None, upStealth = [], upEncryptionKey = [], upCommitment = [], upNullifier = [],
      upIsBlocked = False, upIsNewStyle = True\<rparr>"

definition receiverParams :: "utxo \<Rightarrow> int \<Rightarrow> jubPoint \<Rightarrow> string \<Rightarrow> string \<Rightarrow> string \<Rightarrow> utxoParams" where
  "receiverParams u amount h0 stealthAddress encryptionKey timeStamp =
     \<lparr>upAmount = Some amount, upErc20 = uxErc20 u, upMint = uxMint u, upTimeStamp = timeStamp,
      upNullifyingKey = [], upSpendingKey = None, upRandomization = None, upH0 = Some h0,
      upStealth = stealthAddress, upEncryptionKey = encryptionKey, upCommitment = [], upNullifier = [],
      upIsBlocked = False, upIsNewStyle = True\<rparr>"

definition recipientUtxo ::
  "cryptoLib \<Rightarrow> string \<Rightarrow> (nat \<Rightarrow> bytes res) \<Rightarrow> utxo \<Rightarrow> string \<Rightarrow> string \<Rightarrow> int \<Rightarrow> utxo res" where
  "recipientUtxo C now rand u timeStamp recipientAddress amount =
     (let parts = splitStr recipientAddress '','' in
      if length parts < 5 then Err (ErrMsg ''outputUtxoProcessing: malformed recipient address'')
      else
        andThen (ParseBigInt (parts ! 1)) (\<lambda>h00.
        andThen (ParseBigInt (parts ! 2)) (\<lambda>h01.
          NewUtxo C now rand (receiverParams u amount (h00, h01) (parts ! 0) (parts ! 4) timeStamp))))"

definition OutputUtxoProcessing ::
  "cryptoLib \<Rightarrow> (nat \<Rightarrow> string) \<Rightarrow> (nat \<Rightarrow> nat \<Rightarrow> bytes res) \<Rightarrow> utxo list \<Rightarrow> int \<Rightarrow> string \<Rightarrow> bool \<Rightarrow> string \<Rightarrow>
   int option \<Rightarrow> (userKeys, utxo list) action" where
  "OutputUtxoProcessing C clock rand inputUtxos amountChange timeStamp revertIfNegative recipientAddress recipientAmountChange =
     bindA (liftA (sumAmounts inputUtxos)) (\<lambda>totalAmount.
       if inputUtxos = [] then liftA (Panic ''index out of range'')
       else if revertIfNegative \<and> amountChange < 0 \<and> totalAmount + amountChange < 0
       then liftA (Err (ErrMsg ''not enough funds to transact''))
       else
         bindA (GetShieldedPrivateKey C) (\<lambda>shieldedPrivateKey.
         bindA (GetSpendingKeyPair C) (\<lambda>(privSpending, pub).
         liftA (
           andThen (BigintMax [Some (totalAmount + amountChange), Some 0]) (\<lambda>amount.
           andThen (NewUtxo C (clock 0) (rand 0)
                      (changeParams (hd inputUtxos) amount timeStamp shieldedPrivateKey pub)) (\<lambda>changeUtxo.
             case recipientAmountChange of
               None \<Rightarrow> Ok [changeUtxo]
             | Some recipientAmount \<Rightarrow>
                 if recipientAddress = [] then Ok [changeUtxo]
                 else
                   andThen (recipientUtxo C (clock 1) (rand 1) (hd inputUtxos) timeStamp recipientAddress recipientAmount)
                     (\<lambda>received. Ok [changeUtxo, received])))))))"

subsection \<open>token_check.go, token_checker.go\<close>

definition ValidateAndGetChainID :: "erc20Token list \<Rightarrow> int res" where
  "ValidateAndGetChainID tokens =
     (case tokens of
        [] \<Rightarrow> Err (ErrMsg ''token array cannot be empty'')
      | t # ts \<Rightarrow>
          if list_ex (\<lambda>u. tkChainID u \<noteq> tkChainID t) tokens
          then Err (ErrMsg ''tokens belong to different chains. All tokens must belong to the same chain'')
          else Ok (tkChainID t))"

definition IsBeefyStakeToken :: "erc20Token \<Rightarrow> bool" where
  "IsBeefyStakeToken t = (containsStr (tkName t) ''-Boost'' \<and> containsStr (tkSymbol t) ''-Boost'')"

definition IsStakeToken :: "erc20Token \<Rightarrow> bool" where
  "IsStakeToken t = IsBeefyStakeToken t"

definition IsAaveToken :: "erc20Token \<Rightarrow> bool" where
  "IsAaveToken t = tkIsAave t"

definition IsKinzaToken :: "erc20Token \<Rightarrow> bool" where
  "IsKinzaToken t = hasPrefix (tkName t) ''Kinza''"

definition IsPotentiallyVolatile :: "erc20Token \<Rightarrow> bool" where
  "IsPotentiallyVolatile t =
     (if tkAddress t = ZeroAddress then False
      else tkIsVolatile t \<or>
        (\<not> IsSolanaLike (tkChainID t) \<and> \<not> IsTronLike (tkChainID t) \<and>
         (tkBalanceOffset t = None \<or> tkAllowanceOffset t = None)))"

subsection \<open>get_volatile_transfer_amount.go\<close>

record volatileChange =
  vcTokenAddress :: string
  vcAmount :: string
  vcTargetAddress :: string
  vcOriginalIndex :: nat

record volatileResult =
  vrSuccess :: bool
  vrBalanceDifference :: string

fun volatileSpends :: "nat \<Rightarrow> int list \<Rightarrow> string \<Rightarrow> erc20Token list \<Rightarrow> volatileChange list res" where
  "volatileSpends index amountChanges target [] = Ok []"
| "volatileSpends index amountChanges target (t # ts) =
     (if \<not> IsPotentiallyVolatile t then volatileSpends (index + 1) amountChanges target ts
      else if length amountChanges \<le> index then Panic ''index out of range''
      else
        andThen (volatileSpends (index + 1) amountChanges target ts) (\<lambda>rest.
          Ok (\<lparr>vcTokenAddress = tkAddress t, vcAmount = bigString (amountChanges ! index),
               vcTargetAddress = target, vcOriginalIndex = index\<rparr> # rest)))"

fun spendIndex :: "nat \<Rightarrow> nat \<Rightarrow> volatileChange list \<Rightarrow> nat option" where
  "spendIndex index j [] = None"
| "spendIndex index j (s # ss) = (if vcOriginalIndex s = index then Some j else spendIndex index (j + 1) ss)"

definition simulatedAmount :: "volatileChange list \<Rightarrow> volatileResult list \<Rightarrow> nat \<Rightarrow> int \<Rightarrow> int" where
  "simulatedAmount spends results index amount =
     (case spendIndex index 0 spends of
        None \<Rightarrow> amount
      | Some j \<Rightarrow>
          if j < length results \<and> vrSuccess (results ! j) \<and> vrBalanceDifference (results ! j) \<noteq> []
          then (case ParseBigInt (vrBalanceDifference (results ! j)) of
                  Ok parsed \<Rightarrow> (if parsed \<noteq> 0 then parsed else amount)
                | _ \<Rightarrow> amount)
          else amount)"

definition ModifyVolatileTokenAmountChanges ::
  "(int \<Rightarrow> volatileChange list \<Rightarrow> volatileResult list res) \<Rightarrow> int \<Rightarrow> erc20Token list \<Rightarrow> int list \<Rightarrow> string \<Rightarrow> int list res" where
  "ModifyVolatileTokenAmountChanges simulate chainID tokens amountChanges targetAddress =
     andThen (volatileSpends 0 amountChanges targetAddress tokens) (\<lambda>spends.
       if spends = [] then Ok amountChanges
       else
         (case simulate chainID spends of
            Panic p \<Rightarrow> Panic p
          | Err e \<Rightarrow> Ok amountChanges
          | Ok results \<Rightarrow>
              Ok (map (\<lambda>i. simulatedAmount spends results i (amountChanges ! i)) [0..<length amountChanges])))"

subsection \<open>get_external_swap_address.go\<close>

definition GetExternalSwapAddress :: "deployFiles \<Rightarrow> int \<Rightarrow> string \<Rightarrow> (deployCache, string) action" where
  "GetExternalSwapAddress fs chainID externalActionID =
     bindA (GetContractData fs chainID) (\<lambda>d.
       (let externalAddress =
              (if externalActionID = ''Uniswap'' then ddUniswapExternalActionAddress d
               else if externalActionID = ''Odos'' then ddOdosExternalActionInstanceAddress d
               else if externalActionID = ''OneInch'' then ddOneInchExternalActionInstanceAddress d
               else if externalActionID = ''Lifi'' then ddHinkalAddress d
               else ddUniswapExternalActionAddress d)
        in liftA (if externalAddress = []
                  then Err (ErrMsg ''pretransaction: no external address set during swap'')
                  else Ok externalAddress)))"

end
