(* ===== verification/SolanaAccounts.thy ===== *)
theory SolanaAccounts
  imports PreTransaction
begin

text \<open>
  The Solana half of \<open>internal/functions/pre-transaction\<close>: the accounts of the program
  (\<open>solana_accounts.go\<close>), the conversion of a quoted swap into instructions of the program
  (\<open>convert_okx_instructions.go\<close>, \<open>okx_quote.go\<close>), and the number of nullifier accounts a
  transaction opens (\<open>calculate_solana_nullifier_count.go\<close>). \<open>solana-go\<close> is the argument \<open>L\<close>.
\<close>

record solanaLib =
  slKeyOf :: "string \<Rightarrow> bytes res"                              \<comment> \<open>PublicKeyFromBase58\<close>
  slKeyText :: "bytes \<Rightarrow> string"                               \<comment> \<open>PublicKey.String\<close>
  slFindPDA :: "bytes list \<Rightarrow> bytes \<Rightarrow> (bytes \<times> 8 word) res"      \<comment> \<open>FindProgramAddress\<close>

subsection \<open>solana_accounts.go\<close>

record anchorStealthAddress =
  asExtraRandomization :: bytes
  asStealthAddress :: bytes
  asH0 :: bytes
  asH1 :: bytes

definition BuildAnchorStealthAddressStructure :: "stealthAddressStructure \<Rightarrow> anchorStealthAddress res" where
  "BuildAnchorStealthAddressStructure s =
     andThen (EncodeToByte32Array (Some (saExtraRandomization s))) (\<lambda>extra.
     andThen (EncodeToByte32Array (Some (saStealthAddress s))) (\<lambda>stealth.
     andThen (EncodeToByte32Array (Some (saH0 s))) (\<lambda>h0.
     andThen (EncodeToByte32Array (Some (saH1 s))) (\<lambda>h1.
       Ok \<lparr>asExtraRandomization = extra, asStealthAddress = stealth, asH0 = h0, asH1 = h1\<rparr>))))"

definition mustFindPDA :: "solanaLib \<Rightarrow> bytes list \<Rightarrow> bytes \<Rightarrow> bytes res" where
  "mustFindPDA L seeds programID = andThen (slFindPDA L seeds programID) (\<lambda>(addr, bump). Ok addr)"

definition GetNullifierAccount :: "solanaLib \<Rightarrow> int \<Rightarrow> bytes \<Rightarrow> bytes \<Rightarrow> bytes res" where
  "GetNullifierAccount L nullifier originalDeployer programID =
     andThen (EncodeToByte32Array (Some nullifier)) (\<lambda>nullifierBytes.
       mustFindPDA L [bytesOfString ''hinkal_nullifier'', originalDeployer, nullifierBytes] programID)"

definition GetStorageAccountPublicKey :: "solanaLib \<Rightarrow> bytes \<Rightarrow> bytes \<Rightarrow> bytes res" where
  "GetStorageAccountPublicKey L programID originalDeployer =
     mustFindPDA L [bytesOfString ''hinkal'', originalDeployer] programID"

definition GetMerkleAccount :: "solanaLib \<Rightarrow> bytes \<Rightarrow> bytes \<Rightarrow> bytes res" where
  "GetMerkleAccount L programID originalDeployer =
     mustFindPDA L [bytesOfString ''hinkal_merkle'', originalDeployer] programID"

definition GetStorageVaultPublicKey :: "solanaLib \<Rightarrow> bytes \<Rightarrow> bytes \<Rightarrow> bytes res" where
  "GetStorageVaultPublicKey L programID originalDeployer =
     mustFindPDA L [bytesOfString ''hinkal_vault'', originalDeployer] programID"

definition GetSwapperAccountPublicKey :: "solanaLib \<Rightarrow> bytes \<Rightarrow> bytes \<Rightarrow> int option \<Rightarrow> bytes res" where
  "GetSwapperAccountPublicKey L programID originalDeployer additionalSeed =
     andThen (bigToBE additionalSeed 32) (\<lambda>seed.
       mustFindPDA L [bytesOfString ''hinkal_swapper'', originalDeployer, seed] programID)"

definition GetSwapperAccountPublicKeyFromSalt :: "cryptoLib \<Rightarrow> solanaLib \<Rightarrow> bytes \<Rightarrow> bytes \<Rightarrow> int option \<Rightarrow> bytes res" where
  "GetSwapperAccountPublicKeyFromSalt C L programID originalDeployer salt =
     andThen (PoseidonBig C [salt]) (\<lambda>additionalSeed.
       GetSwapperAccountPublicKey L programID originalDeployer (Some additionalSeed))"

definition GetProofAccountPart1PublicKey :: "solanaLib \<Rightarrow> bytes \<Rightarrow> bytes \<Rightarrow> bytes \<Rightarrow> int option \<Rightarrow> bytes res" where
  "GetProofAccountPart1PublicKey L programID originalDeployer signer i =
     andThen (bigToBE i 4) (\<lambda>num.
       mustFindPDA L [bytesOfString ''hinkal_proof_part1'', originalDeployer, signer, num] programID)"

definition GetProofAccountPart2PublicKey :: "solanaLib \<Rightarrow> bytes \<Rightarrow> bytes \<Rightarrow> bytes \<Rightarrow> int option \<Rightarrow> bytes res" where
  "GetProofAccountPart2PublicKey L programID originalDeployer signer i =
     andThen (bigToBE i 4) (\<lambda>num.
       mustFindPDA L [bytesOfString ''hinkal_proof_part2'', originalDeployer, signer, num] programID)"

definition GetEncryptedOutputsAccountPublicKey :: "solanaLib \<Rightarrow> bytes \<Rightarrow> bytes \<Rightarrow> bytes \<Rightarrow> int option \<Rightarrow> bytes res" where
  "GetEncryptedOutputsAccountPublicKey L programID originalDeployer signer i =
     andThen (bigToBE i 4) (\<lambda>num.
       mustFindPDA L [bytesOfString ''hinkal_encrypted_outputs'', originalDeployer, signer, num] programID)"

definition GetInstructionsAccountPublicKey :: "solanaLib \<Rightarrow> bytes \<Rightarrow> bytes \<Rightarrow> bytes \<Rightarrow> int option \<Rightarrow> bytes res" where
  "GetInstructionsAccountPublicKey L programID originalDeployer signer i =
     andThen (bigToBE i 4) (\<lambda>num.
       mustFindPDA L [bytesOfString ''hinkal_instructions'', originalDeployer, signer, num] programID)"

subsection \<open>convert_okx_instructions.go\<close>

record okxAccount =
  oaPubkey :: string
  oaIsWritable :: bool

record okxInstruction =
  oiData :: string
  oiAccounts :: "okxAccount list"
  oiProgramID :: string

type_synonym accountMeta = "bytes \<times> bool"  \<comment> \<open>the key and whether it is writable; never a signer\<close>

definition hinkalInstructionUseCPISigner :: "8 word" where
  "hinkalInstructionUseCPISigner = 255"

fun findAccount :: "solanaLib \<Rightarrow> string \<Rightarrow> accountMeta list \<Rightarrow> nat option" where
  "findAccount L pubkey [] = None"
| "findAccount L pubkey ((key, writable) # accs) =
     (if slKeyText L key = pubkey then Some 0 else map_option Suc (findAccount L pubkey accs))"

definition indexAccount :: "solanaLib \<Rightarrow> string \<Rightarrow> okxAccount \<Rightarrow> accountMeta list \<Rightarrow> (8 word \<times> accountMeta list) res" where
  "indexAccount L signer account accs =
     (if oaPubkey account = signer then Ok (hinkalInstructionUseCPISigner, accs)
      else
        (case findAccount L (oaPubkey account) accs of
           Some found \<Rightarrow>
             Ok (of_nat found,
                 if snd (accs ! found) \<noteq> oaIsWritable account then accs[found := (fst (accs ! found), True)] else accs)
         | None \<Rightarrow>
             andThen (slKeyOf L (oaPubkey account)) (\<lambda>key.
               Ok (of_nat (length accs), accs @ [(key, oaIsWritable account)]))))"

fun indexAccounts :: "solanaLib \<Rightarrow> string \<Rightarrow> okxAccount list \<Rightarrow> accountMeta list \<Rightarrow> (bytes \<times> accountMeta list) res" where
  "indexAccounts L signer [] accs = Ok ([], accs)"
| "indexAccounts L signer (a # as) accs =
     andThen (indexAccount L signer a accs) (\<lambda>(b, accs1).
     andThen (indexAccounts L signer as accs1) (\<lambda>(bs, accs2). Ok (b # bs, accs2)))"

definition programAccount :: "solanaLib \<Rightarrow> string \<Rightarrow> accountMeta list \<Rightarrow> (nat \<times> accountMeta list) res" where
  "programAccount L programID accs =
     (case findAccount L programID accs of
        Some j \<Rightarrow> Ok (j, accs)
      | None \<Rightarrow> andThen (slKeyOf L programID) (\<lambda>key. Ok (length accs, accs @ [(key, False)])))"

text \<open>\<open>base64\<close> is \<open>base64.StdEncoding.DecodeString\<close>.\<close>

fun convertLoop ::
  "solanaLib \<Rightarrow> (string \<Rightarrow> bytes res) \<Rightarrow> string \<Rightarrow> okxInstruction list \<Rightarrow> accountMeta list \<Rightarrow>
   (hinkalInstruction list \<times> accountMeta list) res" where
  "convertLoop L base64 signer [] accs = Ok ([], accs)"
| "convertLoop L base64 signer (i # is) accs =
     andThen (indexAccounts L signer (oiAccounts i) accs) (\<lambda>(indexes, accs1).
     andThen (base64 (oiData i)) (\<lambda>data.
     andThen (programAccount L (oiProgramID i) accs1) (\<lambda>(programIndex, accs2).
     andThen (convertLoop L base64 signer is accs2) (\<lambda>(rest, accs3).
       Ok (\<lparr>hiAccountIndexes = indexes, hiData = data, hiProgramIndex = int programIndex\<rparr> # rest, accs3)))))"

definition ConvertOKXToHinkalInstructions ::
  "solanaLib \<Rightarrow> (string \<Rightarrow> bytes res) \<Rightarrow> okxInstruction list \<Rightarrow> bytes \<Rightarrow> (hinkalInstruction list \<times> accountMeta list) res" where
  "ConvertOKXToHinkalInstructions L base64 okxInstructions cpiSigner =
     convertLoop L base64 (slKeyText L cpiSigner) okxInstructions []"

subsection \<open>okx_quote.go\<close>

record okxQuote =
  oqAmount :: string
  oqChainIndex :: string
  oqFrom :: string
  oqTo :: string
  oqUser :: string
  oqSlippage :: string
  oqDirectRoute :: bool

record okxResponse =
  orCode :: string
  orMsg :: string
  orToTokenAmount :: string
  orInstructions :: "okxInstruction list"

record okxPrice =
  opOutSwapAmount :: int
  opData :: string

text \<open>
  \<open>callOkx\<close> is \<open>api.CallOkxAPI\<close> (the answer and its status), \<open>slippageText\<close> the text of the slippage, \<open>okxJson\<close> the
  JSON of the answer with the salt added; \<open>addresses\<close> are the program and its deployer.
\<close>

definition GetOKXPrice ::
  "cryptoLib \<Rightarrow> solanaLib \<Rightarrow> (nat \<Rightarrow> bytes res) \<Rightarrow> string res \<Rightarrow> string res \<Rightarrow> (okxQuote \<Rightarrow> (okxResponse \<times> string) res) \<Rightarrow>
   (okxResponse \<Rightarrow> string \<Rightarrow> string res) \<Rightarrow> int \<Rightarrow> erc20Token \<Rightarrow> erc20Token \<Rightarrow> string \<Rightarrow> string \<Rightarrow> okxPrice res" where
  "GetOKXPrice C L rand hinkalAddress originalDeployer callOkx okxJson chainID inToken outToken inSwapAmount slippageText =
     (if \<not> IsSolanaLike chainID then Err (ErrMsg ''pretransaction: OKX is only supported on Solana'')
      else
        andThen (RandomBigInt rand 31) (\<lambda>salt.
        andThen (GetAmountInWei (tkDecimals inToken) inSwapAmount) (\<lambda>wei.
        andThen hinkalAddress (\<lambda>programText.
        andThen (slKeyOf L programText) (\<lambda>program.
        andThen originalDeployer (\<lambda>deployerText.
        andThen (slKeyOf L deployerText) (\<lambda>deployer.
        andThen (GetSwapperAccountPublicKeyFromSalt C L program deployer (Some salt)) (\<lambda>swapper.
        andThen (callOkx \<lparr>oqAmount = bigString wei, oqChainIndex = ''501'', oqFrom = tkAddress inToken,
                   oqTo = tkAddress outToken, oqUser = slKeyText L swapper, oqSlippage = slippageText,
                   oqDirectRoute = True\<rparr>) (\<lambda>(resp, status).
          if status \<noteq> ''success'' then Err (ErrMsg ''pretransaction: OKX API fetch error'')
          else if orCode resp \<noteq> ''0'' then Err (ErrMsg (''pretransaction: OKX API error: '' @ orMsg resp))
          else
            (case setString 10 (orToTokenAmount resp) of
               None \<Rightarrow> Err (ErrMsg ''pretransaction: OKX API fetch error'')
             | Some out \<Rightarrow>
                 andThen (okxJson resp (bigString salt)) (\<lambda>data.
                   Ok \<lparr>opOutSwapAmount = out, opData = data\<rparr>)))))))))))"

subsection \<open>calculate_solana_nullifier_count.go\<close>

text \<open>The text of an error; the caller looks for the message of the utxo limit in it.\<close>

fun errText :: "go_error \<Rightarrow> string" where
  "errText (ErrMsg m) = m"
| "errText (ErrWrap m e) = m @ '': '' @ errText e"
| "errText (ErrJoin e f) = errText e @ [CHR 0x0A] @ errText f"
| "errText (ErrStealthMismatch i j) =
     ''snarkjs: commitment validation stealth mismatch at tokenIdx='' @ natText 10 i @ '', utxoIdx='' @ natText 10 j"
| "errText (ErrWithAmount a m) = m"
| "errText (ErrFeesOver a u) = ''Fees are over transaction value. Please, increase the amount''"
| "errText (ErrRelayer m t) = m"

definition nonZeroUtxos :: "utxo list list \<Rightarrow> utxo list" where
  "nonZeroUtxos groups = filter (\<lambda>u. case uxAmount u of None \<Rightarrow> False | Some a \<Rightarrow> a \<noteq> 0) (concat groups)"

definition nullifierPda :: "cryptoLib \<Rightarrow> solanaLib \<Rightarrow> bytes \<Rightarrow> bytes \<Rightarrow> utxo \<Rightarrow> bytes res" where
  "nullifierPda C L originalDeployer programID u =
     andThen (fst (GetNullifier C u)) (\<lambda>nullifierStr.
     andThen (ParseBigInt nullifierStr) (\<lambda>nullifier.
       GetNullifierAccount L nullifier originalDeployer programID))"

text \<open>
  \<open>getAccounts\<close> is the connection: \<open>True\<close> for an account that exists. It also carries the error of
  getting the connection.
\<close>

definition solanaNullifierCount ::
  "'d walletEnv \<Rightarrow> solanaLib \<Rightarrow> (string \<Rightarrow> string res) \<Rightarrow> (string \<Rightarrow> erc20Token option) \<Rightarrow> string res \<Rightarrow>
   (bytes list \<Rightarrow> bool list res) \<Rightarrow> int \<Rightarrow> string list \<Rightarrow> int list \<Rightarrow> ('d wallet, nat) action" where
  "solanaNullifierCount E L toHexFormat getToken originalDeployer getAccounts chainID mintAddresses amountChanges =
     bindA (AddPaddingToUtxos E toHexFormat getToken chainID mintAddresses amountChanges 6 None False False) (\<lambda>groups.
       (let us = nonZeroUtxos groups in
        if us = [] then liftA (Ok 0)
        else
          (\<lambda>w. liftA (andThen (slKeyOf L (wlAddress w chainID)) (\<lambda>programID.
             andThen originalDeployer (\<lambda>deployerText.
             andThen (slKeyOf L deployerText) (\<lambda>deployer.
             andThen (mapRes (nullifierPda (weCrypto E) L deployer programID) us) (\<lambda>pdas.
             andThen (getAccounts pdas) (\<lambda>exists.
               Ok (length (filter (\<lambda>a. \<not> a) exists)))))))) w)))"

definition CalculateSolanaNullifierCount ::
  "'d walletEnv \<Rightarrow> solanaLib \<Rightarrow> (string \<Rightarrow> string res) \<Rightarrow> (string \<Rightarrow> erc20Token option) \<Rightarrow> string res \<Rightarrow>
   (bytes list \<Rightarrow> bool list res) \<Rightarrow> int \<Rightarrow> string list \<Rightarrow> int list \<Rightarrow> ('d wallet, nat) action" where
  "CalculateSolanaNullifierCount E L toHexFormat getToken originalDeployer getAccounts chainID mintAddresses amountChanges w =
     (if \<not> IsSolanaLike chainID \<or> mintAddresses = [] \<or> amountChanges = [] then (Ok 0, w)
      else
        (case solanaNullifierCount E L toHexFormat getToken originalDeployer getAccounts chainID mintAddresses amountChanges w of
           (Err e, w') \<Rightarrow>
             (Ok (if containsStr (errText e) ''Your transaction exceeds the UTXO limit'' then 6 else 0), w')
         | (r, w') \<Rightarrow> (r, w')))"

end
