(* ===== verification/PreTransactionProps.thy ===== *)
theory PreTransactionProps
  imports PreTransaction PaddingProps Fees
begin

text \<open>
  What preparing a transaction promises: the text a user hands out to be paid can be read back, and
  the outputs of a transaction add up to its inputs and its changes.
\<close>

subsection \<open>The recipient's text\<close>

lemma splitStr_joinStr:
  "ss \<noteq> [] \<Longrightarrow> (\<And>s. s \<in> set ss \<Longrightarrow> c \<notin> set s) \<Longrightarrow> splitStr (joinStr ss [c]) [c] = ss"
proof (induction ss rule: induct_list012)
  case (2 s)
  then show ?case by (simp add: splitStr_none)
next
  case (3 s t ss)
  then show ?case by (simp add: splitStr_def splitFrom_one)
qed simp

lemma containsStr_set: "containsStr s sub \<Longrightarrow> set sub \<subseteq> set s"
proof (induction s sub rule: containsStr.induct)
  case (2 c cs sub)
  then show ?case using set_take_subset [of "length sub" "c # cs"] by (auto simp: hasPrefix_def)
qed simp

definition plainSet :: "char set" where
  "plainSet = set ''0123456789abcdef-x''"

lemma plain_digits: "CHR ''/'' \<notin> plainSet" "CHR ''.'' \<notin> plainSet" "CHR '','' \<notin> plainSet" "CHR 0x22 \<notin> plainSet"
  by (simp_all add: plainSet_def)

lemma digits_plain: "digitChar ` {..<16} \<subseteq> plainSet"
proof
  fix c assume "c \<in> digitChar ` {..<16}"
  then obtain d where "d < 16" "c = digitChar d" by blast
  then have "c \<in> set ''0123456789abcdef''" unfolding digitChar_def by (simp only:, intro nth_mem) simp
  then show "c \<in> plainSet" by (auto simp: plainSet_def)
qed

lemma natText_plain: "set (natText 16 n) \<subseteq> plainSet" "set (natText 10 n) \<subseteq> plainSet"
proof -
  show "set (natText 16 n) \<subseteq> plainSet"
    using natText_digits [of 16 n] digits_plain by simp
  have "digitChar ` {..<10} \<subseteq> digitChar ` {..<16}" by (rule image_mono) simp
  then show "set (natText 10 n) \<subseteq> plainSet"
    using natText_digits [of 10 n] digits_plain by simp
qed

lemma char_plain: "CHR ''0'' \<in> plainSet" "CHR ''-'' \<in> plainSet" "CHR ''x'' \<in> plainSet"
  by (simp_all add: plainSet_def)

lemma bigText_plain: "set (bigText 16 n) \<subseteq> plainSet" "set (bigString n) \<subseteq> plainSet"
  by (simp_all add: bigText_def natText_plain char_plain)

lemma ToBeHex_plain: "set (ToBeHex n) \<subseteq> plainSet"
  by (simp add: ToBeHex_def Let_def bigText_plain char_plain)

lemma hexEncode_plain: "set (''0x'' @ hexEncode bs) \<subseteq> plainSet"
  using hexEncode_digits [of bs] digits_plain by (simp add: char_plain)

lemma length_natText: "2 \<le> b \<Longrightarrow> 0 < k \<Longrightarrow> length (natText b n) \<le> k \<longleftrightarrow> n < b ^ k"
proof (induction b n arbitrary: k rule: natText.induct)
  case (1 b n)
  show ?case
  proof (cases "n < b")
    case True
    have "b ^ 1 \<le> b ^ k" using 1(2,3) by (intro power_increasing) auto
    then show ?thesis using True 1(3) by (subst natText.simps) auto
  next
    case False
    then have eq: "natText b n = natText b (n div b) @ [digitChar (n mod b)]"
      using 1(2) by (subst natText.simps) simp
    show ?thesis
    proof (cases "k = 1")
      case True
      then show ?thesis using False natText_nonempty [of b "n div b"] by (simp add: eq)
    next
      case False': False
      then obtain j where j: "k = Suc j" "0 < j" using 1(3) by (cases k) auto
      have "length (natText b (n div b)) \<le> j \<longleftrightarrow> n div b < b ^ j"
        using 1(1) [of j] False 1(2) j by simp
      moreover have "n div b < b ^ j \<longleftrightarrow> n < b ^ k"
        using 1(2) j by (simp add: div_less_iff_less_mult mult.commute)
      ultimately show ?thesis by (simp add: eq j)
    qed
  qed
qed

text \<open>The hex text of a number has an even number of digits, two for each byte.\<close>

lemma length_ToBeHex:
  assumes "0 \<le> n" "0 < k"
  shows "length (ToBeHex (Some n)) \<le> 2 * k + 2 \<longleftrightarrow> n < 256 ^ k"
proof -
  let ?l = "length (natText 16 (nat n))"
  have len: "length (ToBeHex (Some n)) = 2 + (if odd ?l then ?l + 1 else ?l)"
    using assms by (auto simp: ToBeHex_def bigText_def Let_def odd_iff_mod_2_eq_one)
  have "(if odd ?l then ?l + 1 else ?l) \<le> 2 * k \<longleftrightarrow> ?l \<le> 2 * k"
    by presburger
  also have "\<dots> \<longleftrightarrow> nat n < 16 ^ (2 * k)"
    using assms by (intro length_natText) auto
  also have "\<dots> \<longleftrightarrow> n < 16 ^ (2 * k)"
    using assms by (metis nat_less_iff of_nat_numeral of_nat_power)
  finally show ?thesis by (simp add: len power_mult)
qed

lemma even_length_ToBeHex: "0 \<le> n \<Longrightarrow> even (length (ToBeHex (Some n)))"
  by (auto simp: ToBeHex_def bigText_def Let_def odd_iff_mod_2_eq_one)

lemma no_commas:
  "CHR '','' \<notin> set (ToBeHex n)" "CHR '','' \<notin> set (bigString m)" "CHR '','' \<notin> set (''0x'' @ hexEncode bs)"
  using ToBeHex_plain bigText_plain(2) hexEncode_plain plain_digits(3) by blast+

lemma recipientText_parts:
  "splitStr (recipientText (ToBeHex n) x y z (''0x'' @ hexEncode bs)) '','' =
   [ToBeHex n, bigString x, bigString y, bigString z, ''0x'' @ hexEncode bs]"
  unfolding recipientText_def by (rule splitStr_joinStr) (use no_commas in auto)

lemma recipientText_clean:
  assumes "set sub \<inter> {CHR ''/'', CHR ''.'', CHR 0x22} \<noteq> {}"
  shows "\<not> containsStr (recipientText (ToBeHex n) x y z (''0x'' @ hexEncode bs)) sub"
proof
  assume "containsStr (recipientText (ToBeHex n) x y z (''0x'' @ hexEncode bs)) sub"
  then have "set sub \<subseteq> insert CHR '','' plainSet"
    using containsStr_set ToBeHex_plain [of n] bigText_plain(2) hexEncode_plain [of bs]
    unfolding recipientText_def by fastforce
  then show False using assms plain_digits by auto
qed

lemma hasPrefix_ToBeHex: "hasPrefix (ToBeHex n) ''0x''"
  by (simp add: ToBeHex_def Let_def hasPrefix_def)

lemma recipientText_valid:
  assumes "0 \<le> n" "length bs = 32"
  shows "IsValidPrivateAddress (recipientText (ToBeHex (Some n)) x y z (''0x'' @ hexEncode bs)) \<longleftrightarrow>
    256 ^ 30 \<le> n \<and> n < 256 ^ 32"
proof -
  have "\<not> list_ex (containsStr (recipientText (ToBeHex (Some n)) x y z (''0x'' @ hexEncode bs))) rejectURLs"
    unfolding rejectURLs_def list_ex_Cons_iff list_ex_Nil_iff de_Morgan_disj
    by (intro conjI recipientText_clean) simp_all
  moreover have "\<not> containsStr (recipientText (ToBeHex (Some n)) x y z (''0x'' @ hexEncode bs)) [CHR 0x22]"
    by (rule recipientText_clean) simp
  ultimately have "IsValidPrivateAddress (recipientText (ToBeHex (Some n)) x y z (''0x'' @ hexEncode bs)) \<longleftrightarrow>
      length (ToBeHex (Some n)) \<le> 66 \<and> 64 \<le> length (ToBeHex (Some n))"
    unfolding IsValidPrivateAddress_def recipientText_parts Let_def
    using hasPrefix_ToBeHex [of "Some n"] assms(2) by (auto simp: hasPrefix_def)
  moreover have "length (ToBeHex (Some n)) \<le> 66 \<longleftrightarrow> n < 256 ^ 32"
    using length_ToBeHex [of n 32] assms(1) by simp
  moreover have "64 \<le> length (ToBeHex (Some n)) \<longleftrightarrow> \<not> length (ToBeHex (Some n)) \<le> 62"
    using even_length_ToBeHex [OF assms(1)] by presburger
  moreover have "length (ToBeHex (Some n)) \<le> 62 \<longleftrightarrow> n < 256 ^ 30"
    using length_ToBeHex [of n 30] assms(1) by simp
  ultimately show ?thesis by linarith
qed

lemma recipientText_read:
  "0 \<le> n \<Longrightarrow> ConstructStealthAddressStructure (recipientText (ToBeHex (Some n)) x y z (''0x'' @ hexEncode bs)) =
   Ok \<lparr>saExtraRandomization = or x newStyleBit, saStealthAddress = n, saH0 = y, saH1 = z\<rparr>"
  unfolding ConstructStealthAddressStructure_def recipientText_parts Let_def by simp

lemma stealth_hex:
  assumes C: "hashesOk C" and s: "GetStealthAddressUtxo C u = (Ok s, u')" and u: "uxStealth u = []"
  shows "\<exists>n\<ge>0. s = ToBeHex (Some n)"
proof -
  obtain hf where "\<And>os. list_all (\<lambda>v. v \<noteq> None) os \<Longrightarrow> PoseidonBig C os = Ok (hf os)" "\<And>os. 0 \<le> hf os"
    using poseidon_ok [OF C] by blast
  then show ?thesis using s u
    by (auto simp: GetStealthAddressUtxo_def GetStealthAddressNewStyle_def GetStealthAddress_def res_simps Let_def
        split: if_splits option.splits res.splits)
qed

lemma recipientInfo_shape:
  assumes C: "hashesOk C" and sha: "\<And>m. length (sha512sum C m) = 64" and info: "GetRecipientInfoFromUserKeys C now rand uk = (Ok info, uk')"
  obtains n x y z seed pk where "length seed = 32" "0 \<le> n" "info = recipientText (ToBeHex (Some n)) x y z (''0x'' @ hexEncode pk)"
    "x25519Base C seed = Ok pk"
proof -
  obtain nk sk pk pub u h0 s u' h1 where
      "EncryptionKeyPair C nk = Ok (sk, pk)"
      and new: "NewUtxo C now rand (recipientParams nk pub) = Ok u"
      and s: "GetStealthAddressUtxo C u = (Ok s, u')"
      and out: "info = recipientText s (fst h0) (snd h0) (snd h1) (''0x'' @ hexEncode pk)"
    using info unfolding GetRecipientInfoFromUserKeys_def GetEncryptionKeyPair_def
    by (auto simp: res_simps split: option.splits prod.splits) (metis prod.collapse)
  moreover have "uxStealth u = []" using NewUtxo_copies(5) [OF new] by (simp add: recipientParams_def)
  ultimately obtain n where "0 \<le> n" "s = ToBeHex (Some n)" using stealth_hex [OF C s] by blast
  moreover have "x25519Base C (take 32 (sha512sum C (fromHex C nk))) = Ok pk"
    using \<open>EncryptionKeyPair C nk = Ok (sk, pk)\<close> by (auto simp: EncryptionKeyPair_def res_simps Let_def)
  ultimately show ?thesis using out sha by (intro that) auto
qed

text \<open>The text a user hands out to be paid always reads back as a stealth address of the new style, but
  \<open>IsValidPrivateAddress\<close> accepts it only when the stealth address has 31 or 32 bytes.
\<close>

theorem recipient_info_reads_back:
  assumes "hashesOk C" and "\<And>m. length (sha512sum C m) = 64"
    and "\<And>seed pk. length seed = 32 \<Longrightarrow> x25519Base C seed = Ok pk \<Longrightarrow> length pk = 32"
    and "GetRecipientInfoFromUserKeys C now rand uk = (Ok info, uk')"
  shows "\<exists>st. ConstructStealthAddressStructure info = Ok st \<and> bit (saExtraRandomization st) 255 \<and>
    0 \<le> saStealthAddress st \<and>
    (IsValidPrivateAddress info \<longleftrightarrow> 256 ^ 30 \<le> saStealthAddress st \<and> saStealthAddress st < 256 ^ 32)"
proof -
  obtain n x y z seed pk where seed: "length seed = 32" and n: "0 \<le> n" and info: "info = recipientText (ToBeHex (Some n)) x y z (''0x'' @ hexEncode pk)"
    and pk: "x25519Base C seed = Ok pk"
    using recipientInfo_shape [OF assms(1,2,4)] by metis
  have "bit (or x newStyleBit) 255" by (simp add: newStyleBit_def bit_or_iff bit_push_bit_iff)
  then show ?thesis
    using recipientText_read [OF n] recipientText_valid [OF n assms(3) [OF seed pk]] n by (simp add: info)
qed

lemma toy_change: "upNullifyingKey p = ToBeHex (Some 11) \<Longrightarrow> upRandomization p = None \<Longrightarrow> upIsNewStyle p \<Longrightarrow>
    \<exists>u. NewUtxo toyCrypto now (\<lambda>_. Ok [50]) p = Ok u"
proof -
  assume p: "upNullifyingKey p = ToBeHex (Some 11)" "upRandomization p = None" "upIsNewStyle p"
  have seed: "RandomBigInt (\<lambda>_. Ok [50]) 31 = Ok 50" by (simp add: RandomBigInt_def setBytes_def)
  have "isOk (FindH0 toyCrypto 50 (ToBeHex (Some 11)))"
    by (simp add: FindH0_def GetRandomizedStealthPair_def adjustedPrivateKey_def Let_def split: prod.split)
  then obtain h where "FindH0 toyCrypto 50 (ToBeHex (Some 11)) = Ok h" by (auto simp: isOk_iff)
  then show ?thesis by (auto simp: NewUtxo_def p seed toy_randomization Let_def split: option.split)
qed

lemma toy_recipient: "\<exists>info. GetRecipientInfoFromUserKeys toyCrypto (bigString 7) (\<lambda>_. Ok [50]) signerKeys = (Ok info, signerKeys)"
proof -
  obtain a b where pair: "GetSpendingKeyPair toyCrypto signerKeys = (Ok (a, b), signerKeys)" using signer_pair by blast
  let ?p = "recipientParams (ToBeHex (Some 11)) b"
  obtain u where u: "NewUtxo toyCrypto (bigString 7) (\<lambda>_. Ok [50]) ?p = Ok u"
    using toy_change [of ?p] by (auto simp: recipientParams_def)
  have wf: "wellFormed u"
    by (rule NewUtxo_wellFormed [OF u]) (simp_all add: recipientParams_def)
  have nk: "ParseBigInt (uxNullifyingKey u) = Ok 11" and st: "uxStealth u = []"
    using NewUtxo_copies(2,5) [OF u] by (simp_all add: recipientParams_def)
  obtain h0 where h0: "uxH0 u = Some h0"
    using NewUtxo_fills(2) [OF u] by (auto simp: recipientParams_def)
  obtain s u' where s: "GetStealthAddressUtxo toyCrypto u = (Ok s, u')"
    using stealth_ok [OF wf toy_hashes nk] st by auto
  have h1: "\<exists>h1. GetH1FromH0 toyCrypto h0 (ToBeHex (Some 11)) = Ok h1"
    by (simp add: GetH1FromH0_def adjustedPrivateKey_def)
  have "\<exists>k. GetEncryptionKeyPair toyCrypto (ToBeHex (Some 11)) = Ok k"
    by (simp add: GetEncryptionKeyPair_def EncryptionKeyPair_def Let_def toyCrypto_def)
  then show ?thesis
    using h1 by (auto simp: GetRecipientInfoFromUserKeys_def bindA_def liftA_def signer_private pair u h0 s)
qed

theorem recipient_info_reads_back_witness:
  "\<exists>info st. GetRecipientInfoFromUserKeys toyCrypto (bigString 7) (\<lambda>_. Ok [50]) signerKeys = (Ok info, signerKeys) \<and>
     ConstructStealthAddressStructure info = Ok st \<and> bit (saExtraRandomization st) 255"
proof -
  obtain info where info: "GetRecipientInfoFromUserKeys toyCrypto (bigString 7) (\<lambda>_. Ok [50]) signerKeys = (Ok info, signerKeys)"
    using toy_recipient by blast
  have "length (sha512sum toyCrypto m) = 64" "x25519Base toyCrypto sk = Ok sk" for m sk
    by (simp_all add: toyCrypto_def)
  then have "\<exists>st. ConstructStealthAddressStructure info = Ok st \<and> bit (saExtraRandomization st) 255 \<and>
      0 \<le> saStealthAddress st \<and>
      (IsValidPrivateAddress info \<longleftrightarrow> 256 ^ 30 \<le> saStealthAddress st \<and> saStealthAddress st < 256 ^ 32)"
    by (intro recipient_info_reads_back [OF toy_hashes _ _ info]) auto
  then show ?thesis using info by blast
qed

subsection \<open>Outputs\<close>

lemma sumAmounts_total: "sumAmounts us = Ok t \<Longrightarrow> t = sum_list (map amountOf us)"
  by (induction us arbitrary: t) (auto simp: res_simps amountOf_def)

lemma NewUtxo_amountOf: "NewUtxo C now rand p = Ok u \<Longrightarrow> upAmount p = Some a \<Longrightarrow> amountOf u = a"
  by (drule NewUtxo_copies(1)) (simp add: amountOf_def)

lemma recipientUtxo_amount: "recipientUtxo C now rand u ts addr a = Ok v \<Longrightarrow> amountOf v = a \<and> uxErc20 v = uxErc20 u"
  unfolding recipientUtxo_def Let_def
  by (auto simp: res_simps receiverParams_def amountOf_def dest: NewUtxo_copies(1,8) split: if_splits)

lemma maxZero: "BigintMax [Some a, Some 0] = Ok (Some (max a 0))"
  by (simp add: max_def)

lemma outputs_conserved:
  assumes "OutputUtxoProcessing C clock rand ins amountChange ts True recipient received k = (Ok outs, k')"
  shows "(\<forall>u\<in>set outs. uxErc20 u = uxErc20 (hd ins)) \<and> outs \<noteq> [] \<and>
    amountOf (hd outs) = max 0 (sum_list (map amountOf ins) + amountChange) \<and>
    (amountChange < 0 \<longrightarrow> amountOf (hd outs) = sum_list (map amountOf ins) + amountChange) \<and>
    sum_list (map amountOf (tl outs)) =
      (case received of None \<Rightarrow> 0 | Some a \<Rightarrow> if recipient = [] then 0 else a)"
proof -
  obtain t where t: "sumAmounts ins = Ok t" using assms by (auto simp: OutputUtxoProcessing_def res_simps)
  note total = sumAmounts_total [OF t]
  obtain nk pub u where ok: "\<not> (amountChange < 0 \<and> t + amountChange < 0)"
      and u: "NewUtxo C (clock 0) (rand 0) (changeParams (hd ins) (Some (max (t + amountChange) 0)) ts nk pub) = Ok u"
      and outs: "(received = None \<or> recipient = []) \<and> outs = [u] \<or>
        (\<exists>a v. received = Some a \<and> recipient \<noteq> [] \<and> outs = [u, v] \<and>
          recipientUtxo C (clock 1) (rand 1) (hd ins) ts recipient a = Ok v)"
    using assms t unfolding OutputUtxoProcessing_def maxZero
    by (auto simp: res_simps split: if_splits option.splits prod.splits)
  have "amountOf u = max (t + amountChange) 0" "uxErc20 u = uxErc20 (hd ins)"
    using NewUtxo_copies(1,8) [OF u] by (simp_all add: changeParams_def amountOf_def)
  then show ?thesis using outs ok recipientUtxo_amount by (auto simp: total split: option.split)
qed

text \<open>C13: the outputs of a transaction are the change and, when there is one, the recipient's utxo. They
  carry the token of the inputs; with \<open>revertIfNegative\<close> the change is exactly what is left of the
  inputs, and never negative.
\<close>

theorem outputs_conserve:
  assumes "OutputUtxoProcessing C clock rand ins amountChange ts True recipient received k = (Ok outs, k')"
  shows "(\<forall>u\<in>set outs. uxErc20 u = uxErc20 (hd ins)) \<and> outs \<noteq> [] \<and>
    amountOf (hd outs) = max 0 (sum_list (map amountOf ins) + amountChange) \<and>
    (amountChange < 0 \<longrightarrow> amountOf (hd outs) = sum_list (map amountOf ins) + amountChange) \<and>
    sum_list (map amountOf (tl outs)) =
      (case received of None \<Rightarrow> 0 | Some a \<Rightarrow> if recipient = [] then 0 else a)"
  by (rule outputs_conserved [OF assms])

theorem outputs_conserve_witness:
  "\<exists>outs. OutputUtxoProcessing toyCrypto (\<lambda>_. bigString 7) (\<lambda>_ _. Ok [50]) [toyUtxo] (- 5) (bigString 8) True [] None signerKeys =
     (Ok outs, signerKeys) \<and> amountOf (hd outs) = 20"
proof -
  obtain a b where pair: "GetSpendingKeyPair toyCrypto signerKeys = (Ok (a, b), signerKeys)" using signer_pair by blast
  have ins: "uxAmount toyUtxo = Some 25" "amountOf toyUtxo = 25" by (simp_all add: toyUtxo_def amountOf_def)
  obtain u where u: "NewUtxo toyCrypto (bigString 7) (\<lambda>_. Ok [50])
      (changeParams toyUtxo (Some 20) (bigString 8) (ToBeHex (Some 11)) b) = Ok u"
    using toy_change by (fastforce simp: changeParams_def)
  have run: "OutputUtxoProcessing toyCrypto (\<lambda>_. bigString 7) (\<lambda>_ _. Ok [50]) [toyUtxo] (- 5) (bigString 8) True [] None signerKeys =
      (Ok [u], signerKeys)"
    by (simp add: OutputUtxoProcessing_def ins bindA_def liftA_def signer_private pair u)
  show ?thesis using outputs_conserve [OF run] run by (simp add: ins)
qed

end
