(* ===== verification/SolanaAccountsProps.thy ===== *)
theory SolanaAccountsProps
  imports SolanaAccounts PreTransactionProps
begin

text \<open>
  What the Solana accounts promise: a quoted swap keeps its accounts under the one-byte indexes of the
  program, and the account of a nullifier belongs to that nullifier only.
\<close>

subsection \<open>Converted instructions\<close>

definition keyLaw :: "solanaLib \<Rightarrow> bool" where
  "keyLaw L \<longleftrightarrow> (\<forall>s k. slKeyOf L s = Ok k \<longrightarrow> slKeyText L k = s)"

text \<open>An account list grows at its end only, and a writable account stays writable.\<close>

definition grows :: "accountMeta list \<Rightarrow> accountMeta list \<Rightarrow> bool" where
  "grows accs accs' \<longleftrightarrow> length accs \<le> length accs' \<and>
     (\<forall>j<length accs. fst (accs' ! j) = fst (accs ! j) \<and> (snd (accs ! j) \<longrightarrow> snd (accs' ! j)))"

definition resolves :: "solanaLib \<Rightarrow> accountMeta list \<Rightarrow> string \<Rightarrow> bool \<Rightarrow> nat \<Rightarrow> bool" where
  "resolves L accs pubkey writable k \<longleftrightarrow> k < length accs \<and> slKeyText L (fst (accs ! k)) = pubkey \<and> (writable \<longrightarrow> snd (accs ! k))"

definition accountTexts :: "solanaLib \<Rightarrow> accountMeta list \<Rightarrow> string list" where
  "accountTexts L accs = map (\<lambda>a. slKeyText L (fst a)) accs"

lemma grows_refl [intro, simp]: "grows accs accs"
  by (simp add: grows_def)

lemma grows_trans: "grows a b \<Longrightarrow> grows b c \<Longrightarrow> grows a c"
  by (force simp: grows_def)

lemma grows_append [intro, simp]: "grows accs (accs @ new)"
  by (simp add: grows_def nth_append)

lemma resolves_grows: "resolves L accs p w k \<Longrightarrow> grows accs accs' \<Longrightarrow> resolves L accs' p w k"
  by (auto simp: resolves_def grows_def)

lemma findAccount_Some: "findAccount L p accs = Some k \<Longrightarrow> k < length accs \<and> slKeyText L (fst (accs ! k)) = p"
  by (induction accs arbitrary: k) (auto split: if_splits)

lemma findAccount_None: "findAccount L p accs = None \<longleftrightarrow> p \<notin> set (accountTexts L accs)"
proof (induction accs)
  case (Cons a accs)
  then show ?case by (cases a) (auto simp: accountTexts_def)
qed (simp add: accountTexts_def)

definition indexed :: "solanaLib \<Rightarrow> string \<Rightarrow> accountMeta list \<Rightarrow> okxAccount \<Rightarrow> 8 word \<Rightarrow> bool" where
  "indexed L signer accs a b \<longleftrightarrow>
     (if oaPubkey a = signer then b = 255 else \<exists>k. b = of_nat k \<and> resolves L accs (oaPubkey a) (oaIsWritable a) k)"

lemma indexed_grows: "indexed L signer accs a b \<Longrightarrow> grows accs accs' \<Longrightarrow> indexed L signer accs' a b"
  by (auto simp: indexed_def split: if_splits intro: resolves_grows)

lemma indexAccount_step:
  assumes law: "keyLaw L" and run: "indexAccount L signer a accs = Ok (b, accs')" and d: "distinct (accountTexts L accs)"
  shows "grows accs accs'" "indexed L signer accs' a b" "distinct (accountTexts L accs')"
proof -
  consider (signer) "oaPubkey a = signer" "b = 255" "accs' = accs"
    | (known) k where "oaPubkey a \<noteq> signer" "findAccount L (oaPubkey a) accs = Some k" "b = of_nat k"
        "accs' = (if snd (accs ! k) \<noteq> oaIsWritable a then accs[k := (fst (accs ! k), True)] else accs)"
    | (new) key where "oaPubkey a \<noteq> signer" "findAccount L (oaPubkey a) accs = None" "slKeyOf L (oaPubkey a) = Ok key"
        "b = of_nat (length accs)" "accs' = accs @ [(key, oaIsWritable a)]"
    using run by (auto simp: indexAccount_def hinkalInstructionUseCPISigner_def res_simps split: if_splits option.splits)
  then have "grows accs accs' \<and> indexed L signer accs' a b \<and> distinct (accountTexts L accs')"
  proof cases
    case signer
    then show ?thesis using d by (simp add: indexed_def)
  next
    case known
    note k = findAccount_Some [OF known(2)]
    have "accountTexts L (accs[k := (fst (accs ! k), True)]) = accountTexts L accs"
      using k by (intro nth_equalityI) (auto simp: accountTexts_def nth_list_update)
    then show ?thesis
      using k d known by (auto simp: indexed_def resolves_def grows_def nth_list_update)
  next
    case new
    have "slKeyText L key = oaPubkey a" using law new(3) by (simp add: keyLaw_def)
    then show ?thesis
      using d new findAccount_None [of L "oaPubkey a" accs]
      by (auto simp: indexed_def resolves_def accountTexts_def nth_append intro!: exI [of _ "length accs"])
  qed
  then show "grows accs accs'" "indexed L signer accs' a b" "distinct (accountTexts L accs')" by blast+
qed

lemma indexAccounts_all:
  assumes law: "keyLaw L"
  shows "indexAccounts L signer as accs = Ok (bs, accs') \<Longrightarrow> distinct (accountTexts L accs) \<Longrightarrow>
    grows accs accs' \<and> list_all2 (indexed L signer accs') as bs \<and> distinct (accountTexts L accs')"
proof (induction as arbitrary: accs bs)
  case (Cons a as)
  obtain b accs1 bs1 where step: "indexAccount L signer a accs = Ok (b, accs1)"
      and rest: "indexAccounts L signer as accs1 = Ok (bs1, accs')" and bs: "bs = b # bs1"
    using Cons.prems(1) by (auto simp: res_simps split: prod.splits)
  note s = indexAccount_step [OF law step Cons.prems(2)]
  note ih = Cons.IH [OF rest s(3)]
  show ?case using ih s grows_trans [OF s(1)] indexed_grows [OF s(2)] by (simp add: bs)
qed simp

lemma programAccount_step:
  assumes law: "keyLaw L" and run: "programAccount L p accs = Ok (j, accs')" and d: "distinct (accountTexts L accs)"
  shows "grows accs accs'" "resolves L accs' p False j" "distinct (accountTexts L accs')"
proof -
  consider (known) "findAccount L p accs = Some j" "accs' = accs"
    | (new) key where "findAccount L p accs = None" "slKeyOf L p = Ok key" "j = length accs" "accs' = accs @ [(key, False)]"
    using run by (auto simp: programAccount_def res_simps split: option.splits)
  then have "grows accs accs' \<and> resolves L accs' p False j \<and> distinct (accountTexts L accs')"
  proof cases
    case known
    then show ?thesis using d findAccount_Some by (auto simp: resolves_def)
  next
    case new
    have "slKeyText L key = p" using law new(2) by (simp add: keyLaw_def)
    then show ?thesis using d new findAccount_None [of L p accs] by (auto simp: resolves_def accountTexts_def nth_append)
  qed
  then show "grows accs accs'" "resolves L accs' p False j" "distinct (accountTexts L accs')" by blast+
qed

definition converted :: "solanaLib \<Rightarrow> string \<Rightarrow> accountMeta list \<Rightarrow> okxInstruction \<Rightarrow> hinkalInstruction \<Rightarrow> bool" where
  "converted L signer accs i h \<longleftrightarrow> list_all2 (indexed L signer accs) (oiAccounts i) (hiAccountIndexes h) \<and>
     (\<exists>j. hiProgramIndex h = int j \<and> resolves L accs (oiProgramID i) False j)"

lemma converted_grows: "converted L signer accs i h \<Longrightarrow> grows accs accs' \<Longrightarrow> converted L signer accs' i h"
  by (auto simp: converted_def intro: indexed_grows resolves_grows list_all2_mono)

lemma convertLoop_all:
  assumes law: "keyLaw L"
  shows "convertLoop L base64 signer is accs = Ok (hs, accs') \<Longrightarrow> distinct (accountTexts L accs) \<Longrightarrow>
    grows accs accs' \<and> list_all2 (converted L signer accs') is hs \<and> distinct (accountTexts L accs')"
proof (induction "is" arbitrary: accs hs)
  case (Cons i "is")
  obtain bs accs1 data j accs2 hs1 where ix: "indexAccounts L signer (oiAccounts i) accs = Ok (bs, accs1)"
      and p: "programAccount L (oiProgramID i) accs1 = Ok (j, accs2)"
      and rest: "convertLoop L base64 signer is accs2 = Ok (hs1, accs')"
      and hs: "hs = \<lparr>hiAccountIndexes = bs, hiData = data, hiProgramIndex = int j\<rparr> # hs1"
    using Cons.prems(1) by (auto simp: res_simps split: prod.splits)
  have a: "grows accs accs1" "list_all2 (indexed L signer accs1) (oiAccounts i) bs" "distinct (accountTexts L accs1)"
    using indexAccounts_all [OF law ix Cons.prems(2)] by auto
  note b = programAccount_step [OF law p a(3)]
  have c: "grows accs2 accs'" "list_all2 (converted L signer accs') is hs1" "distinct (accountTexts L accs')"
    using Cons.IH [OF rest b(3)] by auto
  have "converted L signer accs2 i (hd hs)"
    using a(2) b(1,2) by (auto simp: hs converted_def intro: list_all2_mono indexed_grows)
  then show ?case
    using converted_grows [OF _ c(1)] c grows_trans [OF a(1) grows_trans [OF b(1) c(1)]] by (simp add: hs)
qed simp

lemma indexed_index:
  assumes "indexed L signer accs a b" "length accs \<le> 255"
  shows "if oaPubkey a = signer then b = 255 else unat b < 255 \<and> resolves L accs (oaPubkey a) (oaIsWritable a) (unat b)"
proof (cases "oaPubkey a = signer")
  case False
  then obtain k where k: "b = of_nat k" "resolves L accs (oaPubkey a) (oaIsWritable a) k"
    using assms(1) by (auto simp: indexed_def)
  then have "k < 255" using assms(2) by (simp add: resolves_def)
  then have "unat b = k" by (simp add: k unat_of_nat)
  then show ?thesis using False k \<open>k < 255\<close> by simp
qed (use assms in \<open>simp add: indexed_def\<close>)

text \<open>C32: in a converted swap the accounts are distinct, and as long as there are at most 255 of them
  every index leads back to the account it was made from: 255 stands for the signer of the swap only,
  an account that is writable in one place is writable, and the program of each instruction is found.
\<close>

theorem okx_indexes_resolve:
  assumes law: "keyLaw L" and run: "ConvertOKXToHinkalInstructions L base64 ins cpi = Ok (hs, accs)" and few: "length accs \<le> 255"
  shows "distinct (accountTexts L accs) \<and> length hs = length ins \<and>
    (\<forall>n<length ins. length (hiAccountIndexes (hs ! n)) = length (oiAccounts (ins ! n)) \<and>
       resolves L accs (oiProgramID (ins ! n)) False (nat (hiProgramIndex (hs ! n))) \<and>
       (\<forall>m<length (oiAccounts (ins ! n)).
          let a = oiAccounts (ins ! n) ! m; b = hiAccountIndexes (hs ! n) ! m
          in if oaPubkey a = slKeyText L cpi then b = 255
             else unat b < 255 \<and> resolves L accs (oaPubkey a) (oaIsWritable a) (unat b)))"
proof -
  have all: "list_all2 (converted L (slKeyText L cpi) accs) ins hs" "distinct (accountTexts L accs)"
    using convertLoop_all [OF law run [unfolded ConvertOKXToHinkalInstructions_def]] by (simp_all add: accountTexts_def)
  have one: "converted L (slKeyText L cpi) accs (ins ! n) (hs ! n)" if "n < length ins" for n
    using list_all2_nthD [OF all(1) that] .
  show ?thesis
  proof (intro conjI allI impI)
    show "length hs = length ins" using list_all2_lengthD [OF all(1)] by simp
    fix n assume n: "n < length ins"
    show "length (hiAccountIndexes (hs ! n)) = length (oiAccounts (ins ! n))"
      using one [OF n] by (auto simp: converted_def dest: list_all2_lengthD)
    show "resolves L accs (oiProgramID (ins ! n)) False (nat (hiProgramIndex (hs ! n)))"
      using one [OF n] by (auto simp: converted_def)
    fix m assume m: "m < length (oiAccounts (ins ! n))"
    have "indexed L (slKeyText L cpi) accs (oiAccounts (ins ! n) ! m) (hiAccountIndexes (hs ! n) ! m)"
      using one [OF n] m by (auto simp: converted_def dest: list_all2_nthD)
    then show "let a = oiAccounts (ins ! n) ! m; b = hiAccountIndexes (hs ! n) ! m
          in if oaPubkey a = slKeyText L cpi then b = 255
             else unat b < 255 \<and> resolves L accs (oaPubkey a) (oaIsWritable a) (unat b)"
      unfolding Let_def by (rule indexed_index [OF _ few])
  qed (rule all(2))
qed

definition toySolana :: solanaLib where
  "toySolana = \<lparr>slKeyOf = (\<lambda>s. Ok (bytesOfString s)), slKeyText = stringOfBytes, slFindPDA = (\<lambda>seeds p. Ok (concat seeds, 0))\<rparr>"

definition toySwap :: "okxInstruction list" where
  "toySwap = [\<lparr>oiData = ''d'', oiAccounts = [\<lparr>oaPubkey = ''A'', oaIsWritable = False\<rparr>, \<lparr>oaPubkey = ''S'', oaIsWritable = True\<rparr>], oiProgramID = ''P''\<rparr>,
              \<lparr>oiData = ''e'', oiAccounts = [\<lparr>oaPubkey = ''A'', oaIsWritable = True\<rparr>], oiProgramID = ''P''\<rparr>]"

theorem okx_indexes_resolve_witness:
  "\<exists>hs accs. ConvertOKXToHinkalInstructions toySolana (\<lambda>s. Ok (bytesOfString s)) toySwap [83] = Ok (hs, accs) \<and>
     length hs = 2 \<and> resolves toySolana accs ''A'' True (unat (hiAccountIndexes (hs ! 1) ! 0)) \<and> hiAccountIndexes (hs ! 0) ! 1 = 255"
proof -
  have law: "keyLaw toySolana" by (auto simp: keyLaw_def toySolana_def)
  let ?hs = "[\<lparr>hiAccountIndexes = [0, 255], hiData = [100], hiProgramIndex = 1\<rparr>,
              \<lparr>hiAccountIndexes = [0], hiData = [101], hiProgramIndex = 1\<rparr>]"
  have run: "ConvertOKXToHinkalInstructions toySolana (\<lambda>s. Ok (bytesOfString s)) toySwap [83] =
      Ok (?hs, [([65], True), ([80], False)])"
    by code_simp
  have texts: "oaPubkey (oiAccounts (toySwap ! 1) ! 0) = ''A''" "oaIsWritable (oiAccounts (toySwap ! 1) ! 0)"
      "length (oiAccounts (toySwap ! 1)) = 1" "length toySwap = 2" "slKeyText toySolana [83] = ''S''"
    by code_simp+
  have few: "length [([65::8 word], True), ([80], False)] \<le> 255" by simp
  have "1 < length toySwap" "0 < length (oiAccounts (toySwap ! 1))" using texts by simp_all
  then have "let a = oiAccounts (toySwap ! 1) ! 0; b = hiAccountIndexes (?hs ! 1) ! 0
      in if oaPubkey a = slKeyText toySolana [83] then b = 255
         else unat b < 255 \<and> resolves toySolana [([65], True), ([80], False)] (oaPubkey a) (oaIsWritable a) (unat b)"
    using okx_indexes_resolve [OF law run few] by blast
  then have "resolves toySolana [([65], True), ([80], False)] ''A'' True (unat (hiAccountIndexes (?hs ! 1) ! 0))"
    unfolding Let_def texts by (simp add: texts(2) [simplified])
  then show ?thesis using run by simp
qed

subsection \<open>Accounts of the program\<close>

text \<open>
  Program addresses are hashes of their seeds, end to end: no two different texts of seeds share one.
\<close>

definition pdaLaw :: "solanaLib \<Rightarrow> bool" where
  "pdaLaw L \<longleftrightarrow> (\<forall>s s' p a b b'. slFindPDA L s p = Ok (a, b) \<longrightarrow> slFindPDA L s' p = Ok (a, b') \<longrightarrow> concat s = concat s')"

lemma mustFindPDA_seeds:
  "pdaLaw L \<Longrightarrow> mustFindPDA L s p = Ok a \<Longrightarrow> mustFindPDA L s' p = Ok a \<Longrightarrow> concat s = concat s'"
  unfolding mustFindPDA_def pdaLaw_def andThen_eq_Ok by (elim exE conjE, clarsimp, blast)

lemma pda_lengths:
  "pdaLaw L \<Longrightarrow> mustFindPDA L s p = Ok a \<Longrightarrow> length (concat s) \<noteq> length (concat s') \<Longrightarrow> mustFindPDA L s' p \<noteq> Ok a"
  by (auto dest: mustFindPDA_seeds)

lemma nullifierAccount_cases:
  assumes "GetNullifierAccount L n d p = Ok a" "length d = 32"
  obtains bs where "mustFindPDA L [bytesOfString ''hinkal_nullifier'', d, bs] p = Ok a"
    "length bs = 32" "setBytes bs = \<bar>n\<bar>"
  using assms by (auto simp: GetNullifierAccount_def EncodeToByte32Array_def res_simps dest: fillBytes_Ok_length setBytes_fillBytes)

lemma bigToBE_length: "bigToBE v k = Ok bs \<Longrightarrow> length bs = k"
  by (auto simp: bigToBE_def dest: fillBytes_Ok_length split: option.splits)

text \<open>The account that marks a nullifier as spent belongs to that nullifier only: another nullifier has
  another account, and so have the swapper, the vault, the tree and the proof accounts.
\<close>

theorem nullifier_account_unique:
  assumes law: "pdaLaw L" and d: "length d = 32" and sg: "length signer = 32"
    and a: "GetNullifierAccount L n d p = Ok a"
  shows "(GetNullifierAccount L n' d p = Ok a \<longrightarrow> \<bar>n'\<bar> = \<bar>n\<bar>) \<and>
    GetStorageAccountPublicKey L p d \<noteq> Ok a \<and> GetMerkleAccount L p d \<noteq> Ok a \<and> GetStorageVaultPublicKey L p d \<noteq> Ok a \<and>
    GetSwapperAccountPublicKey L p d seed \<noteq> Ok a \<and>
    GetProofAccountPart1PublicKey L p d signer i \<noteq> Ok a \<and> GetProofAccountPart2PublicKey L p d signer i \<noteq> Ok a \<and>
    GetEncryptedOutputsAccountPublicKey L p d signer i \<noteq> Ok a \<and> GetInstructionsAccountPublicKey L p d signer i \<noteq> Ok a"
proof -
  obtain bs where pda: "mustFindPDA L [bytesOfString ''hinkal_nullifier'', d, bs] p = Ok a"
    and bs: "length bs = 32" "setBytes bs = \<bar>n\<bar>"
    using nullifierAccount_cases [OF a d] by blast
  have other: "mustFindPDA L s p \<noteq> Ok a" if "length (concat s) \<noteq> 80" for s
    using pda_lengths [OF law pda, of s] that d bs by simp
  have "\<bar>n'\<bar> = \<bar>n\<bar>" if n': "GetNullifierAccount L n' d p = Ok a"
  proof -
    obtain bs' where "mustFindPDA L [bytesOfString ''hinkal_nullifier'', d, bs'] p = Ok a" "setBytes bs' = \<bar>n'\<bar>"
      using nullifierAccount_cases [OF n' d] by blast
    then show ?thesis using mustFindPDA_seeds [OF law pda] bs by fastforce
  qed
  then show ?thesis
    using d sg
    by (auto simp: GetStorageAccountPublicKey_def GetMerkleAccount_def GetStorageVaultPublicKey_def GetSwapperAccountPublicKey_def
        GetProofAccountPart1PublicKey_def GetProofAccountPart2PublicKey_def GetEncryptedOutputsAccountPublicKey_def
        GetInstructionsAccountPublicKey_def other res_simps dest!: bigToBE_length)
qed

theorem nullifier_account_unique_witness:
  "\<exists>a. GetNullifierAccount toySolana 5 (replicate 32 1) [7] = Ok a \<and> GetNullifierAccount toySolana 6 (replicate 32 1) [7] \<noteq> Ok a"
proof -
  have law: "pdaLaw toySolana" by (auto simp: pdaLaw_def toySolana_def)
  have "\<exists>a. GetNullifierAccount toySolana 5 (replicate 32 1) [7] = Ok a"
    by (simp add: GetNullifierAccount_def EncodeToByte32Array_def mustFindPDA_def toySolana_def fillBytes_def)
  then obtain a where a: "GetNullifierAccount toySolana 5 (replicate 32 1) [7] = Ok a" by blast
  have "GetNullifierAccount toySolana 6 (replicate 32 1) [7] \<noteq> Ok a"
    using nullifier_account_unique [OF law _ _ a, of "replicate 32 2" 6] by auto
  then show ?thesis using a by blast
qed

end
