(* ===== verification/CircuitData.thy ===== *)
theory CircuitData
  imports Fees PreTransaction MerkleTree UtxoCodec
begin

text \<open>
  What the circuits of a private transaction are fed with: \<open>internal/functions/snarkjs\<close> (\<open>common.go\<close>,
  \<open>calldata_hash.go\<close>, \<open>signed_message_hash.go\<close>, \<open>generate_circom_data.go\<close>) and \<open>types/circom_data_types.go\<close>. Utxos come as
  one list per token. The getters of a utxo cache what they compute; since a second call gives the
  same outcome (\<open>Utxo.utxo_hash_cache\<close>), the definitions here use the outcome only.
  ABI packing is the argument \<open>K\<close>.
\<close>

subsection \<open>common.go\<close>

definition GetExternalActionIDHash :: "cryptoLib \<Rightarrow> string \<Rightarrow> int" where
  "GetExternalActionIDHash C externalActionID =
     (if externalActionID = [] then 0
      else setBytes (keccak256 C (bytesOfString externalActionID)) mod fieldP C)"

definition GetOriginalSender :: "string \<Rightarrow> string \<Rightarrow> string" where
  "GetOriginalSender externalAddress relay =
     (if relay = ZeroAddress then (if externalAddress = [] then ZeroAddress else externalAddress)
      else ZeroAddress)"

definition GetUtxoCircuitH0Coords :: "cryptoLib \<Rightarrow> utxo \<Rightarrow> jubPoint res" where
  "GetUtxoCircuitH0Coords C u =
     (case uxH0 u of
        Some h \<Rightarrow> Ok h
      | None \<Rightarrow>
          (case uxRandomization u of
             Some r \<Rightarrow> Ok (GetH0FromRandomization C r)
           | None \<Rightarrow> Err (ErrMsg ''snarkjs: UTXO missing H0 coordinates for proof input'')))"

definition GetUtxoCircuitInRandomization :: "utxo \<Rightarrow> string res" where
  "GetUtxoCircuitInRandomization u =
     (if uxIsNewStyle u then Ok ''0''
      else
        (case uxRandomization u of
           Some r \<Rightarrow> Ok (bigString r)
         | None \<Rightarrow> Err (ErrMsg ''snarkjs: UTXO missing randomization for old-style proof input'')))"

definition BuildInNullifiers :: "cryptoLib \<Rightarrow> utxo list list \<Rightarrow> bool list \<Rightarrow> string list list res" where
  "BuildInNullifiers C inputUtxos onChainCreation =
     mapRes (\<lambda>(i, us). mapRes (\<lambda>u.
         if length onChainCreation \<le> i then Panic ''index out of range''
         else if onChainCreation ! i then Ok ''0'' else fst (GetNullifier C u)) us)
       (enumerate 0 inputUtxos)"

text \<open>The scan stops at the first amount that is not zero; an amount that is nil panics.\<close>

fun allZeroAmounts :: "utxo list \<Rightarrow> bool res" where
  "allZeroAmounts [] = Ok True"
| "allZeroAmounts (u # us) = andThen (deref (uxAmount u)) (\<lambda>a. if a \<noteq> 0 then Ok False else allZeroAmounts us)"

definition hasOnlyZeroAmounts :: "utxo list list \<Rightarrow> bool res" where
  "hasOnlyZeroAmounts inputUtxos = (if inputUtxos = [] then Ok False else allZeroAmounts (concat inputUtxos))"

definition zeroOr :: "utxo \<Rightarrow> string res \<Rightarrow> string res" where
  "zeroOr u r = andThen (deref (uxAmount u)) (\<lambda>a. if a = 0 then Ok ''0'' else r)"

definition BuildOutCommitments :: "cryptoLib \<Rightarrow> utxo list list \<Rightarrow> string list list res" where
  "BuildOutCommitments C outputUtxos = mapRes (mapRes (\<lambda>u. zeroOr u (fst (GetCommitment C u)))) outputUtxos"

definition amountChange :: "cryptoLib \<Rightarrow> bool \<Rightarrow> int \<Rightarrow> int \<Rightarrow> int" where
  "amountChange C forCircomData inTotal outTotal =
     (let diff = outTotal - inTotal in if diff < 0 \<and> \<not> forCircomData then fieldP C + diff else diff)"

definition CalcAmountChanges :: "cryptoLib \<Rightarrow> utxo list list \<Rightarrow> utxo list list \<Rightarrow> bool \<Rightarrow> int list res" where
  "CalcAmountChanges C inputUtxos outputUtxos forCircomData =
     mapRes (\<lambda>(i, us).
         andThen (sumAmounts us) (\<lambda>inTotal.
         andThen (if i < length outputUtxos then sumAmounts (outputUtxos ! i) else Ok 0) (\<lambda>outTotal.
           Ok (amountChange C forCircomData inTotal outTotal))))
       (enumerate 0 inputUtxos)"

definition GetSlippageValues :: "int list \<Rightarrow> int list" where
  "GetSlippageValues amountChanges = map (\<lambda>am. if am \<ge> 0 then 0 else am) amountChanges"

text \<open>\<open>rand i j\<close> is the source of random bytes for the utxo \<open>j\<close> of the token \<open>i\<close>.\<close>

definition CalcEncryptedOutputs ::
  "cryptoLib \<Rightarrow> (nat \<Rightarrow> nat \<Rightarrow> nat \<Rightarrow> nat \<Rightarrow> bytes res) \<Rightarrow> utxo list list \<Rightarrow> string list list res" where
  "CalcEncryptedOutputs C rand outputUtxos =
     mapRes (\<lambda>(i, us). mapRes (\<lambda>(j, u).
         andThen (fst (EncryptUtxo C (rand i j) u)) (\<lambda>enc. Ok (''0x'' @ hexEncode enc)))
       (enumerate 0 us)) (enumerate 0 outputUtxos)"

definition siblingsOf :: "cryptoLib \<Rightarrow> merkleTree \<Rightarrow> utxo \<Rightarrow> (string list \<times> string list) res" where
  "siblingsOf C m u =
     andThen (fst (GetCommitment C u)) (\<lambda>commitment.
     andThen (ParseBigInt commitment) (\<lambda>commitmentBig.
     andThen (returned (GetSiblingHashesForVerification m commitmentBig)) (\<lambda>siblings.
     andThen (returned (GetSiblingSides m commitmentBig)) (\<lambda>sides.
       Ok (map bigString siblings, map bigString sides)))))"

definition CalcCommitmentsSiblingAndSides ::
  "cryptoLib \<Rightarrow> utxo list list \<Rightarrow> merkleTree \<Rightarrow> (string list list list \<times> string list list list) res" where
  "CalcCommitmentsSiblingAndSides C inputUtxos m =
     andThen (mapRes (mapRes (siblingsOf C m)) inputUtxos) (\<lambda>pairs.
       Ok (map (map fst) pairs, map (map snd) pairs))"

definition CalcStealthAddressStructure :: "cryptoLib \<Rightarrow> int \<Rightarrow> string \<Rightarrow> int list \<Rightarrow> stealthAddressStructure res" where
  "CalcStealthAddressStructure C extraRandomization nullifyingPrivateKey spendingPublicKey =
     andThen (GetRandomizedStealthPair C extraRandomization nullifyingPrivateKey) (\<lambda>(h0, other).
     andThen (GetH1FromH0 C h0 nullifyingPrivateKey) (\<lambda>h1.
     andThen (GetStealthAddressNewStyle C h0 nullifyingPrivateKey spendingPublicKey) (\<lambda>stealthStr.
     andThen (ParseBigInt stealthStr) (\<lambda>stealthAddress.
       Ok \<lparr>saExtraRandomization = AddHighestBitToNumber (fst h0), saStealthAddress = stealthAddress,
           saH0 = snd h0, saH1 = snd h1\<rparr>))))"

definition flatLen :: "string list list \<Rightarrow> nat" where
  "flatLen values = sum_list (map length values)"

definition CalcPublicSignalCount :: "string \<Rightarrow> string list \<Rightarrow> int list \<Rightarrow> string list list \<Rightarrow> string list list \<Rightarrow> nat" where
  "CalcPublicSignalCount verifierName erc20TokenAddresses amountChanges inNullifiers outCommitments =
     (if hasPrefix verifierName ''mainEVMCircuitMin0'' then 3
      else 1 + 1 + length erc20TokenAddresses + length amountChanges + 1 + flatLen inNullifiers +
        flatLen outCommitments + 1 + 1 + 1 + 1 + 1 + 1)"

definition natString :: "nat \<Rightarrow> string" where
  "natString n = bigString (int n)"

definition GetZkProofVerifierName :: "utxo list list \<Rightarrow> utxo list list \<Rightarrow> string res" where
  "GetZkProofVerifierName inputUtxos outputUtxos =
     (if outputUtxos = [] then Ok ''mainEVMCircuitMin0''
      else if inputUtxos = [] then Panic ''index out of range''
      else Ok (''mainEVMCircuit'' @ natString (length inputUtxos) @ ''x'' @ natString (length (hd inputUtxos)) @ ''x'' @
               natString (length (hd outputUtxos))))"

subsection \<open>types/circom_data_types.go, types/crypto_types.go\<close>

record hookData =
  hdHookContract :: string
  hdPreHookContract :: string
  hdPreHookMetadata :: string
  hdPostHookMetadata :: string

definition DefaultHookData :: hookData where
  "DefaultHookData = \<lparr>hdHookContract = ZeroAddress, hdPreHookContract = ZeroAddress,
     hdPreHookMetadata = ''0x00'', hdPostHookMetadata = ''0x00''\<rparr>"

record signatureData =
  sdR :: string
  sdS :: string
  sdV :: string
  sdAccessKey :: string
  sdNonce :: int
  sdEthereumAddress :: string

definition zeroIn32Bytes :: string where
  "zeroIn32Bytes = ''0x0000000000000000000000000000000000000000000000000000000000000000''"

definition DefaultSignatureData :: signatureData where
  "DefaultSignatureData = \<lparr>sdR = zeroIn32Bytes, sdS = zeroIn32Bytes, sdV = zeroIn32Bytes,
     sdAccessKey = zeroIn32Bytes, sdNonce = 0, sdEthereumAddress = ZeroAddress\<rparr>"

record dimData =
  dmTokenNumber :: nat
  dmNullifierAmount :: nat
  dmOutputAmount :: nat

subsection \<open>types/hinkal_types.go: logic arguments\<close>

datatype hinkalLogicAction = LogicActionNone | LogicActionApprove | LogicActionReleaseBuffer | LogicActionExecute

record useApprovalUTXOData =
  uaApprovalChanges :: "int list"
  uaExternalApprovalAddresses :: "string list"
  uaConversionInHinkalAddress :: "int list"

record hinkalLogicArgs =
  laAction :: hinkalLogicAction
  laExecuteApprovalChanges :: "int list"
  laDoPreTxApproval :: bool
  laInHinkalAddress :: "int option"
  laUseApprovalUtxoData :: "useApprovalUTXOData list"
  laInteractionAddress :: string

definition DefaultHinkalLogicArgs :: "nat \<Rightarrow> hinkalLogicArgs" where
  "DefaultHinkalLogicArgs count =
     \<lparr>laAction = LogicActionNone, laExecuteApprovalChanges = replicate count 0, laDoPreTxApproval = False,
      laInHinkalAddress = Some 0,
      laUseApprovalUtxoData = replicate count \<lparr>uaApprovalChanges = [0], uaExternalApprovalAddresses = [ZeroAddress],
        uaConversionInHinkalAddress = [0]\<rparr>,
      laInteractionAddress = []\<rparr>"

subsection \<open>calldata_hash.go\<close>

record hookTuple =
  htP0 :: string
  htP1 :: string
  htP2 :: bytes
  htP3 :: bytes

record feeTuple =
  ftP0 :: string
  ftP1 :: int
  ftP2 :: int

record sigTuple =
  stV :: "8 word"
  stR :: bytes
  stS :: bytes
  stAccessKey :: int
  stNonce :: int
  stEthereumAddress :: string

record evmMessage =
  mgRootHashHinkal :: int
  mgTokens :: "int list"
  mgAmountChanges :: "int list"
  mgOutTimeStamp :: int
  mgNullifiers :: "int list"
  mgCommitments :: "int list"
  mgCalldataHash :: int
  mgMessage :: int
  mgOutH1Ay :: int
  mgH0Ax :: int
  mgH0Ay :: int

record packLib =
  pkCall1 :: "16 word \<Rightarrow> string \<Rightarrow> string \<Rightarrow> int \<Rightarrow> bytes \<Rightarrow> bytes res"
  pkCall2 :: "hookTuple \<Rightarrow> bytes list list \<Rightarrow> feeTuple \<Rightarrow> int list \<Rightarrow> bool list \<Rightarrow> sigTuple \<Rightarrow> string \<Rightarrow> bytes res"
  pkPair :: "int \<Rightarrow> int \<Rightarrow> bytes res"
  pkMessage :: "evmMessage \<Rightarrow> bytes res"

text \<open>Without hook data the two contracts of the default are taken in the other order.\<close>

definition hookDataValues :: "cryptoLib \<Rightarrow> hookData option \<Rightarrow> hookTuple" where
  "hookDataValues C hook =
     (case hook of
        None \<Rightarrow>
          \<lparr>htP0 = hexToAddress C (hdPreHookContract DefaultHookData), htP1 = hexToAddress C (hdHookContract DefaultHookData),
           htP2 = fromHex C (hdPreHookMetadata DefaultHookData), htP3 = fromHex C (hdPostHookMetadata DefaultHookData)\<rparr>
      | Some h \<Rightarrow>
          \<lparr>htP0 = hexToAddress C (hdHookContract h), htP1 = hexToAddress C (hdPreHookContract h),
           htP2 = fromHex C (hdPreHookMetadata h), htP3 = fromHex C (hdPostHookMetadata h)\<rparr>)"

definition toBytes32 :: "cryptoLib \<Rightarrow> string \<Rightarrow> bytes" where
  "toBytes32 C v =
     (let b0 = fromHex C v; b = (if length b0 > 32 then drop (length b0 - 32) b0 else b0)
      in replicate (32 - length b) 0 @ b)"

definition signatureDataToTuple :: "cryptoLib \<Rightarrow> signatureData \<Rightarrow> sigTuple res" where
  "signatureDataToTuple C s =
     andThen (wrapErr ''signatureData.v'' (ParseBigInt (sdV s))) (\<lambda>v.
     andThen (wrapErr ''signatureData.accessKey'' (ParseBigInt (sdAccessKey s))) (\<lambda>accessKey.
       Ok \<lparr>stV = word_of_int \<bar>v\<bar>, stR = toBytes32 C (sdR s), stS = toBytes32 C (sdS s),
           stAccessKey = accessKey, stNonce = sdNonce s, stEthereumAddress = hexToAddress C (sdEthereumAddress s)\<rparr>))"

definition encryptedOutputsToBytes :: "cryptoLib \<Rightarrow> string list list \<Rightarrow> bytes list list" where
  "encryptedOutputsToBytes C encryptedOutputs = map (map (fromHex C)) encryptedOutputs"

definition feeTupleOf :: "cryptoLib \<Rightarrow> feeStructure \<Rightarrow> feeTuple" where
  "feeTupleOf C fs = \<lparr>ftP0 = hexToAddress C (fsFeeToken fs), ftP1 = fsFlatFee fs, ftP2 = fsVariableRate fs\<rparr>"

definition orZeroAddress :: "string \<Rightarrow> string" where
  "orZeroAddress a = (if a = [] then ZeroAddress else a)"

definition CreateCallDataHash ::
  "cryptoLib \<Rightarrow> packLib \<Rightarrow> nat \<Rightarrow> string \<Rightarrow> string \<Rightarrow> string \<Rightarrow> string \<Rightarrow> string list list \<Rightarrow> hookData option \<Rightarrow> int list \<Rightarrow>
   bool list \<Rightarrow> feeStructure \<Rightarrow> signatureData \<Rightarrow> string \<Rightarrow> int res" where
  "CreateCallDataHash C K publicSignalCount relay externalAddress externalActionID externalActionMetadata encryptedOutputs
     hook slippageValues onChainCreation fs signature originalSender0 =
     (let originalSender = (if originalSender0 = [] then GetOriginalSender externalAddress relay else originalSender0)
      in andThen (wrapErr ''calldata encode 1''
           (pkCall1 K (of_nat publicSignalCount) (hexToAddress C relay) (hexToAddress C (orZeroAddress externalAddress))
              (GetExternalActionIDHash C externalActionID) (fromHex C externalActionMetadata))) (\<lambda>encoded1.
         andThen (signatureDataToTuple C signature) (\<lambda>sig.
         andThen (wrapErr ''calldata encode 2''
           (pkCall2 K (hookDataValues C hook) (encryptedOutputsToBytes C encryptedOutputs) (feeTupleOf C fs)
              slippageValues onChainCreation sig (hexToAddress C originalSender))) (\<lambda>encoded2.
         andThen (wrapErr ''calldata encode final''
           (pkPair K (setBytes (keccak256 C encoded1)) (setBytes (keccak256 C encoded2)))) (\<lambda>encoded.
           Ok (setBytes (keccak256 C encoded) mod fieldP C))))))"

subsection \<open>signed_message_hash.go\<close>

definition addressesToBigInts :: "string list \<Rightarrow> int list res" where
  "addressesToBigInts addresses = mapRes ParseBigInt addresses"

definition flatToBigInts :: "string list list \<Rightarrow> int list res" where
  "flatToBigInts values = mapRes ParseBigInt (concat values)"

record evmMessageParams =
  epRootHashHinkal :: int
  epErc20TokenAddresses :: "string list"
  epAmountChanges :: "int list"
  epOutTimeStamp :: int
  epInNullifiers :: "string list list"
  epOutCommitments :: "string list list"
  epCalldataHash :: int
  epMessage :: int
  epOutH1Ay :: int
  epH0Ax :: int
  epH0Ay :: int

definition ComputeSignedMessageHashEvm :: "cryptoLib \<Rightarrow> packLib \<Rightarrow> evmMessageParams \<Rightarrow> int res" where
  "ComputeSignedMessageHashEvm C K p =
     andThen (addressesToBigInts (epErc20TokenAddresses p)) (\<lambda>tokens.
     andThen (flatToBigInts (epInNullifiers p)) (\<lambda>nullifiers.
     andThen (flatToBigInts (epOutCommitments p)) (\<lambda>commitments.
     andThen (wrapErr ''signed message hash encode'' (pkMessage K
         \<lparr>mgRootHashHinkal = epRootHashHinkal p, mgTokens = tokens, mgAmountChanges = epAmountChanges p,
          mgOutTimeStamp = epOutTimeStamp p, mgNullifiers = nullifiers, mgCommitments = commitments,
          mgCalldataHash = epCalldataHash p, mgMessage = epMessage p, mgOutH1Ay = epOutH1Ay p,
          mgH0Ax = epH0Ax p, mgH0Ay = epH0Ay p\<rparr>)) (\<lambda>packed.
       Ok (setBytes (keccak256 C packed) mod fieldP C)))))"

record solanaMessageParams =
  smRootHashHinkal :: "int option"
  smMintAccountPart1 :: "int option list"
  smMintAccountPart2 :: "int option list"
  smAmountChanges :: "int option list"
  smOutTimeStamp :: "int option"
  smInNullifiers :: "string list list"
  smOutCommitments :: "string list list"
  smCalldataHash :: "int option"
  smMessage :: "int option"
  smSwapperSeed :: "int option"
  smOutH1Ay :: "int option"
  smH0Ax :: "int option"
  smH0Ay :: "int option"

definition appendBytes32 :: "int option \<Rightarrow> bytes \<Rightarrow> bytes res" where
  "appendBytes32 v dst =
     andThen (case v of None \<Rightarrow> Ok (replicate 32 0) | Some n \<Rightarrow> fillBytes n 32) (\<lambda>out. Ok (dst @ out))"

fun appendWords :: "int option list \<Rightarrow> bytes \<Rightarrow> bytes res" where
  "appendWords [] dst = Ok dst"
| "appendWords (v # vs) dst = andThen (appendBytes32 v dst) (appendWords vs)"

definition appendLengthPrefixedBytes32Array :: "int option list \<Rightarrow> bytes \<Rightarrow> bytes res" where
  "appendLengthPrefixedBytes32Array vs dst =
     andThen (fillBytes (int (length vs)) 8) (\<lambda>len. appendWords vs (dst @ len))"

definition solanaMessageBytes :: "solanaMessageParams \<Rightarrow> int list \<Rightarrow> int list \<Rightarrow> bytes res" where
  "solanaMessageBytes p nullifiers commitments =
     andThen (appendBytes32 (smRootHashHinkal p) []) (\<lambda>b.
     andThen (appendLengthPrefixedBytes32Array (smMintAccountPart1 p) b) (\<lambda>b.
     andThen (appendLengthPrefixedBytes32Array (smMintAccountPart2 p) b) (\<lambda>b.
     andThen (appendLengthPrefixedBytes32Array (smAmountChanges p) b) (\<lambda>b.
     andThen (appendBytes32 (smOutTimeStamp p) b) (\<lambda>b.
     andThen (appendLengthPrefixedBytes32Array (map Some nullifiers) b) (\<lambda>b.
     andThen (appendLengthPrefixedBytes32Array (map Some commitments) b) (\<lambda>b.
     andThen (appendBytes32 (smCalldataHash p) b) (\<lambda>b.
     andThen (appendBytes32 (smMessage p) b) (\<lambda>b.
     andThen (appendBytes32 (smSwapperSeed p) b) (\<lambda>b.
     andThen (appendBytes32 (smOutH1Ay p) b) (\<lambda>b.
     andThen (appendBytes32 (smH0Ax p) b) (appendBytes32 (smH0Ay p)))))))))))))"

definition ComputeSignedMessageHashSolana :: "cryptoLib \<Rightarrow> solanaMessageParams \<Rightarrow> int res" where
  "ComputeSignedMessageHashSolana C p =
     andThen (flatToBigInts (smInNullifiers p)) (\<lambda>nullifiers.
     andThen (flatToBigInts (smOutCommitments p)) (\<lambda>commitments.
     andThen (solanaMessageBytes p nullifiers commitments) (\<lambda>bs.
       Ok (setBytes (sha256sum C bs) mod fieldP C))))"

subsection \<open>generate_circom_data.go\<close>

record circomData =
  cdRootHashHinkal :: "int option"
  cdErc20TokenAddresses :: "string list"
  cdTokenIDs :: "string list"
  cdAmountChanges :: "int list"
  cdInputNullifiers :: "string list list"
  cdOutCommitments :: "string list list"
  cdEncryptedOutputs :: "string list list"
  cdTimeStamp :: string
  cdStealth :: stealthAddressStructure
  cdRootHashAccessToken :: "int option"
  cdRelay :: string
  cdExternalAddress :: string
  cdExternalActionMetadata :: string
  cdExternalActionID :: int
  cdHookData :: hookData
  cdCalldataHash :: int
  cdPublicSignalCount :: nat
  cdOnChainCreation :: "bool list"
  cdSlippageValues :: "int list"
  cdLogicArgs :: hinkalLogicArgs
  cdFeeStructure :: feeStructure
  cdSignatureData :: signatureData
  cdOriginalSender :: string

definition circomTimeStamp :: "utxo list list \<Rightarrow> string option \<Rightarrow> string res" where
  "circomTimeStamp outputUtxos fallback =
     (case outputUtxos of
        [] \<Rightarrow> Ok (case fallback of None \<Rightarrow> [] | Some t \<Rightarrow> t)
      | us # rest \<Rightarrow> (case us of [] \<Rightarrow> Panic ''index out of range'' | u # us' \<Rightarrow> Ok (uxTimeStamp u)))"

definition GenerateCircomData ::
  "cryptoLib \<Rightarrow> string list list \<Rightarrow> string list list \<Rightarrow> int option \<Rightarrow> int list \<Rightarrow> string list \<Rightarrow> utxo list list \<Rightarrow>
   string list list \<Rightarrow> nat \<Rightarrow> string \<Rightarrow> string \<Rightarrow> string \<Rightarrow> string \<Rightarrow> int \<Rightarrow> stealthAddressStructure \<Rightarrow> bool list \<Rightarrow>
   hookData option \<Rightarrow> string option \<Rightarrow> int list \<Rightarrow> feeStructure \<Rightarrow> signatureData \<Rightarrow> string \<Rightarrow> circomData res" where
  "GenerateCircomData C outCommitments inputNullifiers rootHashHinkal amountChanges erc20TokenAddresses outputUtxos
     encryptedOutputs publicSignalCount externalActionID externalAddress externalActionMetadata relay calldataHash
     stealth onChainCreation hook timeStampFallback slippageValues fs signature originalSender =
     andThen (circomTimeStamp outputUtxos timeStampFallback) (\<lambda>timeStamp.
       (let externalAddressOrZero = orZeroAddress externalAddress
        in Ok \<lparr>cdRootHashHinkal = rootHashHinkal, cdErc20TokenAddresses = erc20TokenAddresses,
            cdTokenIDs = replicate (length erc20TokenAddresses) ''0'', cdAmountChanges = amountChanges,
            cdInputNullifiers = inputNullifiers, cdOutCommitments = outCommitments,
            cdEncryptedOutputs = encryptedOutputs, cdTimeStamp = timeStamp, cdStealth = stealth,
            cdRootHashAccessToken = Some 0, cdRelay = relay, cdExternalAddress = externalAddressOrZero,
            cdExternalActionMetadata = externalActionMetadata,
            cdExternalActionID = GetExternalActionIDHash C externalActionID,
            cdHookData = (case hook of None \<Rightarrow> DefaultHookData | Some h \<Rightarrow> h), cdCalldataHash = calldataHash,
            cdPublicSignalCount = publicSignalCount, cdOnChainCreation = onChainCreation,
            cdSlippageValues = slippageValues, cdLogicArgs = DefaultHinkalLogicArgs (length erc20TokenAddresses), cdFeeStructure = fs,
            cdSignatureData = signature,
            cdOriginalSender = (if originalSender = [] then GetOriginalSender externalAddressOrZero relay
                                else originalSender)\<rparr>))"

section \<open>Properties\<close>

text \<open>
  What the message signed for a Solana transaction fixes: the bytes hashed by
  \<open>ComputeSignedMessageHashSolana\<close> (\<open>internal/functions/snarkjs/signed_message_hash.go\<close>) can be read back.
\<close>

text \<open>A number is written as its absolute value, and an absent one as zero.\<close>

definition magnitude :: "int option \<Rightarrow> int" where
  "magnitude v = (case v of None \<Rightarrow> 0 | Some n \<Rightarrow> \<bar>n\<bar>)"

definition wordOf :: "int option \<Rightarrow> bytes \<Rightarrow> bool" where
  "wordOf v e \<longleftrightarrow> length e = 32 \<and> setBytes e = magnitude v"

definition wordsOf :: "int option list \<Rightarrow> bytes \<Rightarrow> bool" where
  "wordsOf vs e \<longleftrightarrow> (\<exists>len es. fillBytes (int (length vs)) 8 = Ok len \<and> e = len @ concat es \<and> list_all2 wordOf vs es)"

lemma setBytes_zeros: "setBytes (replicate n 0) = 0"
  by (induction n) (simp_all add: setBytes_def)

lemma appendBytes32_word: "appendBytes32 v dst = Ok bs \<Longrightarrow> \<exists>e. bs = dst @ e \<and> wordOf v e"
  by (auto simp: appendBytes32_def res_simps wordOf_def magnitude_def setBytes_zeros fillBytes_Ok_length setBytes_fillBytes
      split: option.splits)

lemma appendWords_words: "appendWords vs dst = Ok bs \<Longrightarrow> \<exists>es. bs = dst @ concat es \<and> list_all2 wordOf vs es"
proof (induction vs arbitrary: dst)
  case (Cons v vs)
  then obtain d where d: "appendBytes32 v dst = Ok d" "appendWords vs d = Ok bs" by (auto simp: res_simps)
  obtain e where e: "d = dst @ e" "wordOf v e" using appendBytes32_word [OF d(1)] by blast
  obtain es where "bs = d @ concat es" "list_all2 wordOf vs es" using Cons.IH [OF d(2)] by blast
  then show ?case using e by (intro exI [of _ "e # es"]) simp
qed simp

lemma appendArray_words: "appendLengthPrefixedBytes32Array vs dst = Ok bs \<Longrightarrow> \<exists>e. bs = dst @ e \<and> wordsOf vs e"
  unfolding appendLengthPrefixedBytes32Array_def wordsOf_def by (force simp: res_simps dest: appendWords_words)

lemma word_inject: "wordOf v e \<Longrightarrow> wordOf w f \<Longrightarrow> e @ r = f @ q \<Longrightarrow> magnitude v = magnitude w \<and> r = q"
  by (auto simp: wordOf_def)

lemma concat_inject:
  "list_all2 wordOf vs es \<Longrightarrow> list_all2 wordOf ws fs \<Longrightarrow> length vs = length ws \<Longrightarrow> concat es @ r = concat fs @ q \<Longrightarrow>
    map magnitude vs = map magnitude ws \<and> r = q"
proof (induction vs es arbitrary: ws fs rule: list_all2_induct)
  case (Cons v vs e es)
  then obtain w ws' f fs' where w: "ws = w # ws'" "fs = f # fs'" "wordOf w f" "list_all2 wordOf ws' fs'"
    by (cases ws; cases fs) auto
  have "magnitude v = magnitude w \<and> concat es @ r = concat fs' @ q"
    using word_inject [OF Cons.hyps(1) w(3), of "concat es @ r" "concat fs' @ q"] Cons.prems(3) w by simp
  then show ?case using Cons.IH [OF w(4)] Cons.prems(2) w by simp
qed simp

lemma words_inject:
  assumes "wordsOf vs e" "wordsOf ws f" "e @ r = f @ q"
  shows "map magnitude vs = map magnitude ws \<and> r = q"
proof -
  obtain len es len' fs where v: "fillBytes (int (length vs)) 8 = Ok len" "e = len @ concat es" "list_all2 wordOf vs es"
      and w: "fillBytes (int (length ws)) 8 = Ok len'" "f = len' @ concat fs" "list_all2 wordOf ws fs"
    using assms by (auto simp: wordsOf_def)
  have "len = len' \<and> concat es @ r = concat fs @ q"
    using assms(3) v(1,2) w(1,2) by (auto dest!: fillBytes_Ok_length)
  moreover from this have "length vs = length ws" using setBytes_fillBytes [OF v(1)] setBytes_fillBytes [OF w(1)] by simp
  ultimately show ?thesis using concat_inject [OF v(3) w(3)] by blast
qed

text \<open>Everything the message says, as numbers.\<close>

definition messageNumbers :: "solanaMessageParams \<Rightarrow> int list \<Rightarrow> int list \<Rightarrow> int list \<times> int list list" where
  "messageNumbers p nullifiers commitments =
     (map magnitude [smRootHashHinkal p, smOutTimeStamp p, smCalldataHash p, smMessage p, smSwapperSeed p, smOutH1Ay p, smH0Ax p, smH0Ay p],
      map (map magnitude) [smMintAccountPart1 p, smMintAccountPart2 p, smAmountChanges p, map Some nullifiers, map Some commitments])"

lemma solanaMessageBytes_parts:
  assumes "solanaMessageBytes p ns cs = Ok bs"
  obtains e1 e2 e3 e4 e5 e6 e7 e8 e9 e10 e11 e12 e13 where
    "bs = e1 @ e2 @ e3 @ e4 @ e5 @ e6 @ e7 @ e8 @ e9 @ e10 @ e11 @ e12 @ e13"
    "wordOf (smRootHashHinkal p) e1" "wordsOf (smMintAccountPart1 p) e2" "wordsOf (smMintAccountPart2 p) e3"
    "wordsOf (smAmountChanges p) e4" "wordOf (smOutTimeStamp p) e5" "wordsOf (map Some ns) e6" "wordsOf (map Some cs) e7"
    "wordOf (smCalldataHash p) e8" "wordOf (smMessage p) e9" "wordOf (smSwapperSeed p) e10" "wordOf (smOutH1Ay p) e11"
    "wordOf (smH0Ax p) e12" "wordOf (smH0Ay p) e13"
proof -
  obtain b1 b2 b3 b4 b5 b6 b7 b8 b9 b10 b11 b12 where b:
    "appendBytes32 (smRootHashHinkal p) [] = Ok b1" "appendLengthPrefixedBytes32Array (smMintAccountPart1 p) b1 = Ok b2"
    "appendLengthPrefixedBytes32Array (smMintAccountPart2 p) b2 = Ok b3" "appendLengthPrefixedBytes32Array (smAmountChanges p) b3 = Ok b4"
    "appendBytes32 (smOutTimeStamp p) b4 = Ok b5" "appendLengthPrefixedBytes32Array (map Some ns) b5 = Ok b6"
    "appendLengthPrefixedBytes32Array (map Some cs) b6 = Ok b7" "appendBytes32 (smCalldataHash p) b7 = Ok b8"
    "appendBytes32 (smMessage p) b8 = Ok b9" "appendBytes32 (smSwapperSeed p) b9 = Ok b10" "appendBytes32 (smOutH1Ay p) b10 = Ok b11"
    "appendBytes32 (smH0Ax p) b11 = Ok b12" "appendBytes32 (smH0Ay p) b12 = Ok bs"
    using assms unfolding solanaMessageBytes_def by (auto simp: res_simps)
  note w = b(1,5,8-13) [THEN appendBytes32_word] b(2-4,6,7) [THEN appendArray_words]
  show thesis using w by (elim exE conjE) (rule that, simp_all)
qed

text \<open>C30: the bytes that are hashed and signed for a Solana transaction determine the root hash, the
  mints, the amount changes, the time, the nullifiers, the commitments, the calldata hash, the message
  and the stealth numbers, up to the sign of a number.
\<close>

theorem solana_message_binding:
  assumes a: "solanaMessageBytes p ns cs = Ok bs" and b: "solanaMessageBytes p' ns' cs' = Ok bs"
  shows "messageNumbers p ns cs = messageNumbers p' ns' cs'"
proof (rule solanaMessageBytes_parts [OF a], rule solanaMessageBytes_parts [OF b])
  fix e1 e2 e3 e4 e5 e6 e7 e8 e9 e10 e11 e12 e13 f1 f2 f3 f4 f5 f6 f7 f8 f9 f10 f11 f12 f13
  assume e: "bs = e1 @ e2 @ e3 @ e4 @ e5 @ e6 @ e7 @ e8 @ e9 @ e10 @ e11 @ e12 @ e13"
    "wordOf (smRootHashHinkal p) e1" "wordsOf (smMintAccountPart1 p) e2" "wordsOf (smMintAccountPart2 p) e3"
    "wordsOf (smAmountChanges p) e4" "wordOf (smOutTimeStamp p) e5" "wordsOf (map Some ns) e6" "wordsOf (map Some cs) e7"
    "wordOf (smCalldataHash p) e8" "wordOf (smMessage p) e9" "wordOf (smSwapperSeed p) e10" "wordOf (smOutH1Ay p) e11"
    "wordOf (smH0Ax p) e12" "wordOf (smH0Ay p) e13"
  assume f: "bs = f1 @ f2 @ f3 @ f4 @ f5 @ f6 @ f7 @ f8 @ f9 @ f10 @ f11 @ f12 @ f13"
    "wordOf (smRootHashHinkal p') f1" "wordsOf (smMintAccountPart1 p') f2" "wordsOf (smMintAccountPart2 p') f3"
    "wordsOf (smAmountChanges p') f4" "wordOf (smOutTimeStamp p') f5" "wordsOf (map Some ns') f6" "wordsOf (map Some cs') f7"
    "wordOf (smCalldataHash p') f8" "wordOf (smMessage p') f9" "wordOf (smSwapperSeed p') f10" "wordOf (smOutH1Ay p') f11"
    "wordOf (smH0Ax p') f12" "wordOf (smH0Ay p') f13"
  note r1 = word_inject [OF e(2) f(2) trans [OF e(1) [symmetric] f(1)]]
  note r2 = words_inject [OF e(3) f(3) r1 [THEN conjunct2]]
  note r3 = words_inject [OF e(4) f(4) r2 [THEN conjunct2]]
  note r4 = words_inject [OF e(5) f(5) r3 [THEN conjunct2]]
  note r5 = word_inject [OF e(6) f(6) r4 [THEN conjunct2]]
  note r6 = words_inject [OF e(7) f(7) r5 [THEN conjunct2]]
  note r7 = words_inject [OF e(8) f(8) r6 [THEN conjunct2]]
  note r8 = word_inject [OF e(9) f(9) r7 [THEN conjunct2]]
  note r9 = word_inject [OF e(10) f(10) r8 [THEN conjunct2]]
  note r10 = word_inject [OF e(11) f(11) r9 [THEN conjunct2]]
  note r11 = word_inject [OF e(12) f(12) r10 [THEN conjunct2]]
  note r12 = word_inject [OF e(13) f(13) r11 [THEN conjunct2]]
  have r13: "magnitude (smH0Ay p) = magnitude (smH0Ay p')" using word_inject [OF e(14) f(14), of "[]" "[]"] r12 by simp
  show ?thesis using r1 r2 r3 r4 r5 r6 r7 r8 r9 r10 r11 r12 r13 by (simp add: messageNumbers_def)
qed

definition toyMessage :: "int \<Rightarrow> solanaMessageParams" where
  "toyMessage root = \<lparr>smRootHashHinkal = Some root, smMintAccountPart1 = [Some 1], smMintAccountPart2 = [Some 2],
     smAmountChanges = [Some (- 5)], smOutTimeStamp = Some 1700, smInNullifiers = [], smOutCommitments = [], smCalldataHash = Some 4,
     smMessage = Some 5, smSwapperSeed = None, smOutH1Ay = Some 6, smH0Ax = Some 7, smH0Ay = Some 8\<rparr>"

lemma toy_message: "\<bar>root\<bar> < 256 \<Longrightarrow> \<exists>bs. solanaMessageBytes (toyMessage root) [9] [] = Ok bs"
proof -
  assume "\<bar>root\<bar> < 256"
  then have "nat \<bar>root\<bar> < 256 ^ 32" by (simp add: nat_less_iff)
  then show ?thesis
    by (simp add: solanaMessageBytes_def toyMessage_def appendLengthPrefixedBytes32Array_def appendBytes32_def fillBytes_def)
qed

theorem solana_message_binding_witness:
  "solanaMessageBytes (toyMessage 3) [9] [] \<noteq> solanaMessageBytes (toyMessage 4) [9] []"
proof
  assume eq: "solanaMessageBytes (toyMessage 3) [9] [] = solanaMessageBytes (toyMessage 4) [9] []"
  obtain bs where bs: "solanaMessageBytes (toyMessage 3) [9] [] = Ok bs" using toy_message [of 3] by auto
  then have "solanaMessageBytes (toyMessage 4) [9] [] = Ok bs" using eq by simp
  from solana_message_binding [OF bs this] show False by (simp add: messageNumbers_def magnitude_def toyMessage_def)
qed

end
