(* ===== verification/Emporium.thy ===== *)
theory Emporium
  imports PreTransaction
begin

text \<open>
  Calls made through the Emporium contract: \<open>internal/functions/private-wallet/emporium_ops.go\<close> (an operation is the
  address of a contract, a flag, a 16-byte value and the call data, end to end) and \<open>emporium.go\<close> (the
  metadata that carries the operations, signed for a temporary wallet). go-ethereum's keys,
  signatures, typed-data hashes and ABI packing are the argument \<open>V\<close>.
\<close>

record emporiumMetadata =
  emV :: "8 word"
  emR :: bytes
  emS :: bytes
  emMessage :: int
  emSigner :: string
  emOps :: "bytes list"

record 'k evmLib =
  evKey :: "string \<Rightarrow> 'k res"                                \<comment> \<open>HexToECDSA\<close>
  evAddress :: "'k \<Rightarrow> string"                               \<comment> \<open>PubkeyToAddress, then Hex\<close>
  evSign :: "bytes \<Rightarrow> 'k \<Rightarrow> bytes res"                        \<comment> \<open>Sign: 65 bytes\<close>
  evHashDomain :: "int \<Rightarrow> string \<Rightarrow> bytes res"                \<comment> \<open>HashStruct of the domain of a chain and a contract\<close>
  evHashMessage :: "string \<Rightarrow> bytes list \<Rightarrow> bytes res"         \<comment> \<open>HashStruct of the message and the operations\<close>
  evPackMetadata :: "emporiumMetadata \<Rightarrow> bytes res"           \<comment> \<open>abi.Pack of the metadata tuple\<close>
  evPackCall :: "string \<Rightarrow> string \<Rightarrow> int \<Rightarrow> bytes res"          \<comment> \<open>abi.Pack of a call with an address and an amount\<close>

subsection \<open>emporium.go\<close>

definition emporiumDigest :: "cryptoLib \<Rightarrow> 'k evmLib \<Rightarrow> int \<Rightarrow> string \<Rightarrow> bytes list \<Rightarrow> int \<Rightarrow> bytes res" where
  "emporiumDigest C V chainID emporiumAddress ops message =
     andThen (evHashDomain V chainID emporiumAddress) (\<lambda>domainSeparator.
     andThen (evHashMessage V (bigString message) ops) (\<lambda>structHash.
       Ok (keccak256 C ([0x19, 0x01] @ domainSeparator @ structHash))))"

definition signEmporium ::
  "cryptoLib \<Rightarrow> 'k evmLib \<Rightarrow> int \<Rightarrow> string \<Rightarrow> string \<Rightarrow> string list \<Rightarrow> int \<Rightarrow> (8 word \<times> bytes \<times> bytes) res" where
  "signEmporium C V chainID emporiumAddress privateKey ops message =
     (if IsSolanaLike chainID then Err (ErrMsg ''privatewallet: solana does not support typed data'')
      else
        andThen (wrapErr ''emporium signer key'' (evKey V (trimPrefix privateKey ''0x''))) (\<lambda>key.
        andThen (emporiumDigest C V chainID emporiumAddress (map (fromHex C) ops) message) (\<lambda>digest.
        andThen (evSign V digest key) (\<lambda>sig.
          if length sig < 65 then Panic ''slice bounds out of range''
          else Ok (sig ! 64 + 27, take 32 sig, take 32 (drop 32 sig))))))"

definition EncodeEmporiumMetadata ::
  "cryptoLib \<Rightarrow> 'k evmLib \<Rightarrow> int \<Rightarrow> string \<Rightarrow> string \<Rightarrow> string list \<Rightarrow> int option \<Rightarrow> string \<Rightarrow> string res" where
  "EncodeEmporiumMetadata C V chainID emporiumAddress privateKey ops message0 signerAddress0 =
     (let message = (case message0 of None \<Rightarrow> 0 | Some m \<Rightarrow> m);
          signerAddress = (if signerAddress0 = [] then ZeroAddress else signerAddress0)
      in andThen (if privateKey = [] then Ok (0, replicate 32 0, replicate 32 0)
                  else signEmporium C V chainID emporiumAddress privateKey ops message) (\<lambda>(v, r, s).
         andThen (wrapErr ''emporium metadata pack'' (evPackMetadata V
             \<lparr>emV = v, emR = r, emS = s, emMessage = message, emSigner = hexToAddress C signerAddress,
              emOps = map (fromHex C) ops\<rparr>)) (\<lambda>packed.
           Ok (''0x'' @ hexEncode packed))))"

definition SignerAddressFromPrivateKey :: "'k evmLib \<Rightarrow> int \<Rightarrow> string \<Rightarrow> string res" where
  "SignerAddressFromPrivateKey V chainID privateKey =
     (if IsSolanaLike chainID
      then Err (ErrMsg ''privatewallet: solana signer address derivation not implemented'')
      else andThen (wrapErr ''signer key'' (evKey V (trimPrefix privateKey ''0x''))) (\<lambda>key. Ok (evAddress V key)))"

subsection \<open>emporium_ops.go\<close>

definition EmporiumOp :: "cryptoLib \<Rightarrow> string \<Rightarrow> string \<Rightarrow> bool \<Rightarrow> int option \<Rightarrow> string res" where
  "EmporiumOp C contract callDataString invokeWallet value0 =
     (let endpoint = fromHex C contract;
          value = (case value0 of None \<Rightarrow> 0 | Some v \<Rightarrow> v)
      in if length endpoint \<noteq> 20 then Err (ErrMsg (''privatewallet: invalid emporium endpoint '' @ contract))
         else if value < 0 \<or> 128 < bitLen value
         then Err (ErrMsg ''privatewallet: emporium op value must fit uint128'')
         else
           andThen (fillBytes value 16) (\<lambda>valueBytes.
             Ok (''0x'' @ hexEncode (endpoint @ [if invokeWallet then 1 else 0] @ valueBytes @ fromHex C callDataString))))"

definition CreateTransferToEmporiumOp :: "cryptoLib \<Rightarrow> 'k evmLib \<Rightarrow> string \<Rightarrow> string \<Rightarrow> int \<Rightarrow> bool \<Rightarrow> string res" where
  "CreateTransferToEmporiumOp C V tokenAddress to amount invokeWallet =
     (if equalFold tokenAddress ZeroAddress then EmporiumOp C to [] invokeWallet (Some amount)
      else andThen (evPackCall V ''transfer'' (hexToAddress C to) amount) (\<lambda>data.
             EmporiumOp C tokenAddress (''0x'' @ hexEncode data) invokeWallet None))"

definition CreateApproveEmporiumOp :: "cryptoLib \<Rightarrow> 'k evmLib \<Rightarrow> string \<Rightarrow> string \<Rightarrow> int \<Rightarrow> bool \<Rightarrow> string res" where
  "CreateApproveEmporiumOp C V tokenAddress to amount invokeWallet =
     andThen (evPackCall V ''approve'' (hexToAddress C to) amount) (\<lambda>data.
       EmporiumOp C tokenAddress (''0x'' @ hexEncode data) invokeWallet None)"

fun fundOps :: "cryptoLib \<Rightarrow> 'k evmLib \<Rightarrow> string \<Rightarrow> (string \<times> int) list \<Rightarrow> string list res" where
  "fundOps C V walletAddress [] = Ok []"
| "fundOps C V walletAddress ((token, amount) # rest) =
     andThen (CreateTransferToEmporiumOp C V token walletAddress amount False) (\<lambda>op.
     andThen (fundOps C V walletAddress rest) (\<lambda>ops. Ok (op # ops)))"

fun approveOps :: "cryptoLib \<Rightarrow> 'k evmLib \<Rightarrow> string \<Rightarrow> (string \<times> int) list \<Rightarrow> string list res" where
  "approveOps C V spenderAddress [] = Ok []"
| "approveOps C V spenderAddress ((token, amount) # rest) =
     (if equalFold token ZeroAddress then approveOps C V spenderAddress rest
      else
        andThen (CreateApproveEmporiumOp C V token spenderAddress amount True) (\<lambda>op.
        andThen (approveOps C V spenderAddress rest) (\<lambda>ops. Ok (op # ops))))"

definition GenerateFundAndApproveOps ::
  "cryptoLib \<Rightarrow> 'k evmLib \<Rightarrow> string list \<Rightarrow> int list \<Rightarrow> string list \<Rightarrow> int list \<Rightarrow> string \<Rightarrow> string \<Rightarrow> string list res" where
  "GenerateFundAndApproveOps C V fundTokens fundAmounts approveTokens approveAmounts walletAddress spenderAddress =
     (if length fundTokens \<noteq> length fundAmounts
      then Err (ErrMsg ''privatewallet: fund tokens and amounts length mismatch'')
      else if length approveTokens \<noteq> length approveAmounts
      then Err (ErrMsg ''privatewallet: approve tokens and amounts length mismatch'')
      else
        andThen (fundOps C V walletAddress (zip fundTokens fundAmounts)) (\<lambda>funds.
          if spenderAddress = [] then Ok funds
          else andThen (approveOps C V spenderAddress (zip approveTokens approveAmounts)) (\<lambda>approvals.
                 Ok (funds @ approvals))))"

record bridgeQuote =
  bqCalldata :: string
  bqNativeFee :: "int option"

definition CreateLifiBridgeOps ::
  "cryptoLib \<Rightarrow> 'k evmLib \<Rightarrow> string \<Rightarrow> string \<Rightarrow> string \<Rightarrow> int \<Rightarrow> int \<Rightarrow> bridgeQuote \<Rightarrow> string list res" where
  "CreateLifiBridgeOps C V fromAddress lifiRouterAddress tokenAddress fundAmount bridgeAmount quote =
     (let nativeFee = (case bqNativeFee quote of None \<Rightarrow> 0 | Some n \<Rightarrow> n);
          isNative = equalFold tokenAddress ZeroAddress;
          withFee = 0 < nativeFee \<and> \<not> isNative
      in andThen (GenerateFundAndApproveOps C V
                    (if withFee then [tokenAddress, ZeroAddress] else [tokenAddress])
                    (if withFee then [fundAmount, nativeFee] else [fundAmount])
                    [tokenAddress] [bridgeAmount] fromAddress lifiRouterAddress) (\<lambda>ops.
           (let nativeValue = (if isNative then nativeFee + bridgeAmount else nativeFee)
            in andThen (EmporiumOp C lifiRouterAddress (bqCalldata quote) True
                          (if nativeValue = 0 then None else Some nativeValue)) (\<lambda>bridgeOp.
                 Ok (ops @ [bridgeOp])))))"

definition ConvertEmporiumOpToCallInfo :: "cryptoLib \<Rightarrow> deployFiles \<Rightarrow> string \<Rightarrow> string \<Rightarrow> int \<Rightarrow> (deployCache, callInfo) action" where
  "ConvertEmporiumOpToCallInfo C fs op walletAddress chainID =
     (let opBytes = fromHex C op in
      if length opBytes < 37 then liftA (Err (ErrMsg ''privatewallet: invalid emporium op''))
      else
        bindA (GetContractData fs chainID) (\<lambda>contractData.
          liftA (Ok \<lparr>ciFrom = (if opBytes ! 20 > 0 then walletAddress else ddHinkalAddress contractData),
                     ciTo = addressHex C (take 20 opBytes),
                     ciCalldata = ''0x'' @ hexEncode (drop 37 opBytes),
                     ciValue = Some (setBytes (take 16 (drop 21 opBytes)))\<rparr>)))"

record authorizationData =
  auV :: string
  auR :: string
  auS :: string
  auNonce :: string
  auAddress :: string
  auChainID :: string

text \<open>
  A temporary wallet delegates its code to the Hinkal wallet (EIP-7702). The node gives the code and the
  nonce of an address; \<open>signSetCode\<close> gives the parts of the signed authorization.
\<close>

definition eip7702Magic :: string where
  "eip7702Magic = ''ef0100''"

definition GetAuthorizationDataIfNeeded ::
  "cryptoLib \<Rightarrow> 'k evmLib \<Rightarrow> deployFiles \<Rightarrow> (string \<Rightarrow> bytes) \<Rightarrow> (string \<Rightarrow> bytes res) \<Rightarrow> (string \<Rightarrow> nat res) \<Rightarrow>
   ('k \<Rightarrow> int \<Rightarrow> string \<Rightarrow> nat \<Rightarrow> (int \<times> int \<times> int) res) \<Rightarrow> int \<Rightarrow> string \<Rightarrow> (deployCache, authorizationData option) action" where
  "GetAuthorizationDataIfNeeded C V fs addressBytes codeAt nonceAt signSetCode chainID privateKey =
     (if chainID = idLocalhost \<or> privateKey = [] then liftA (Ok None)
      else
        bindA (liftA (wrapErr ''privatewallet: authorization key'' (evKey V (trimPrefix privateKey ''0x'')))) (\<lambda>key.
        bindA (GetContractData fs chainID) (\<lambda>contractData.
          (let walletText = ddHinkalWalletAddress contractData; eoaAddress = evAddress V key in
           if walletText = [] \<or> equalFold walletText ZeroAddress
           then liftA (Err (ErrMsg ''privatewallet: Hinkal wallet address is not set''))
           else
             (let implementation = hexToAddress C walletText in
              bindA (liftA (wrapErr ''privatewallet: get temporary wallet code'' (codeAt eoaAddress))) (\<lambda>code.
                if 0 < length code \<and> (length code \<noteq> 23 \<or> take 3 code \<noteq> fromHex C eip7702Magic)
                then liftA (Err (ErrMsg ''privatewallet: temporary wallet address already has non-EIP-7702 code''))
                else if 0 < length code \<and> drop 3 code = addressBytes implementation then liftA (Ok None)
                else
                  bindA (liftA (wrapErr ''privatewallet: get temporary wallet nonce'' (nonceAt eoaAddress))) (\<lambda>nonce.
                  bindA (liftA (wrapErr ''privatewallet: sign authorization'' (signSetCode key chainID implementation nonce))) (\<lambda>(v, r, s).
                  bindA (liftA (fillBytes r 32)) (\<lambda>rBytes.
                  bindA (liftA (fillBytes s 32)) (\<lambda>sBytes.
                    liftA (Ok (Some
                      \<lparr>auV = bigString ((v + 27) mod 256), auR = ''0x'' @ hexEncode rBytes, auS = ''0x'' @ hexEncode sBytes,
                       auNonce = bigString (int nonce), auAddress = implementation, auChainID = bigString chainID\<rparr>))))))))))))"

end
