(* ===== verification/ZkFiles.thy ===== *)
theory ZkFiles
  imports Chains Amounts
begin

text \<open>
  The artifacts of the circuits (\<open>internal/functions/snarkjs/zk_files.go\<close>) and the names they are asked for under at
  the enclave (\<open>retrieveVerifierFilename\<close> of \<open>generate_zk_proof_enclave.go\<close>). The two tables are Go maps with
  distinct keys; a key that is missing reads as the empty text.
\<close>

subsection \<open>zk_files.go\<close>

definition ProverVersion :: string where
  "ProverVersion = ''v1x1''"

definition localVerifiers :: "(string \<times> string) list" where
  "localVerifiers = [
     (''mainEVMCircuit1x2x1v1x1Wasm'', ''mainEVMCircuit1x2x1-1.1.wasm''),
     (''mainEVMCircuit1x2x1v1x1Zkey'', ''mainEVMCircuit1x2x1_final-1.1.zkey''),
     (''mainEVMCircuit1x6x1v1x1Wasm'', ''mainEVMCircuit1x6x1-1.1.wasm''),
     (''mainEVMCircuit1x6x1v1x1Zkey'', ''mainEVMCircuit1x6x1_final-1.1.zkey''),
     (''mainEVMCircuit2x2x1v1x1Wasm'', ''mainEVMCircuit2x2x1-1.1.wasm''),
     (''mainEVMCircuit2x2x1v1x1Zkey'', ''mainEVMCircuit2x2x1_final-1.1.zkey''),
     (''mainEVMCircuit2x6x1v1x1Wasm'', ''mainEVMCircuit2x6x1-1.1.wasm''),
     (''mainEVMCircuit2x6x1v1x1Zkey'', ''mainEVMCircuit2x6x1_final-1.1.zkey''),
     (''mainEVMCircuit3x2x1v1x1Wasm'', ''mainEVMCircuit3x2x1-1.1.wasm''),
     (''mainEVMCircuit3x2x1v1x1Zkey'', ''mainEVMCircuit3x2x1_final-1.1.zkey''),
     (''mainEVMCircuit3x6x1v1x1Wasm'', ''mainEVMCircuit3x6x1-1.1.wasm''),
     (''mainEVMCircuit3x6x1v1x1Zkey'', ''mainEVMCircuit3x6x1_final-1.1.zkey''),
     (''mainEVMCircuit4x2x1v1x1Wasm'', ''mainEVMCircuit4x2x1-1.1.wasm''),
     (''mainEVMCircuit4x2x1v1x1Zkey'', ''mainEVMCircuit4x2x1_final-1.1.zkey''),
     (''mainEVMCircuit4x6x1v1x1Wasm'', ''mainEVMCircuit4x6x1-1.1.wasm''),
     (''mainEVMCircuit4x6x1v1x1Zkey'', ''mainEVMCircuit4x6x1_final-1.1.zkey''),
     (''mainEVMCircuit5x2x1v1x1Wasm'', ''mainEVMCircuit5x2x1-1.1.wasm''),
     (''mainEVMCircuit5x2x1v1x1Zkey'', ''mainEVMCircuit5x2x1_final-1.1.zkey''),
     (''mainEVMCircuit5x6x1v1x1Wasm'', ''mainEVMCircuit5x6x1-1.1.wasm''),
     (''mainEVMCircuit5x6x1v1x1Zkey'', ''mainEVMCircuit5x6x1_final-1.1.zkey''),
     (''mainEVMCircuit1x2x2v1x1Wasm'', ''mainEVMCircuit1x2x2-1.1.wasm''),
     (''mainEVMCircuit1x2x2v1x1Zkey'', ''mainEVMCircuit1x2x2_final-1.1.zkey''),
     (''mainEVMCircuit1x6x2v1x1Wasm'', ''mainEVMCircuit1x6x2-1.1.wasm''),
     (''mainEVMCircuit1x6x2v1x1Zkey'', ''mainEVMCircuit1x6x2_final-1.1.zkey''),
     (''mainEVMCircuit2x2x2v1x1Wasm'', ''mainEVMCircuit2x2x2-1.1.wasm''),
     (''mainEVMCircuit2x2x2v1x1Zkey'', ''mainEVMCircuit2x2x2_final-1.1.zkey''),
     (''mainEVMCircuit2x6x2v1x1Wasm'', ''mainEVMCircuit2x6x2-1.1.wasm''),
     (''mainEVMCircuit2x6x2v1x1Zkey'', ''mainEVMCircuit2x6x2_final-1.1.zkey''),
     (''mainEVMCircuitMin0v1x1Wasm'', ''mainEVMCircuitMin0-1.1.wasm''),
     (''mainEVMCircuitMin0v1x1Zkey'', ''mainEVMCircuitMin0_final-1.1.zkey''),
     (''mainSolanaCircuit1x2x1v1x1Zkey'', ''mainSolanaCircuit1x2x1_final-1.1.zkey''),
     (''mainSolanaCircuit1x2x1v1x1Wasm'', ''mainSolanaCircuit1x2x1-1.1.wasm''),
     (''mainSolanaCircuit1x2x2v1x1Zkey'', ''mainSolanaCircuit1x2x2_final-1.1.zkey''),
     (''mainSolanaCircuit1x2x2v1x1Wasm'', ''mainSolanaCircuit1x2x2-1.1.wasm''),
     (''mainSolanaCircuit1x6x1v1x1Zkey'', ''mainSolanaCircuit1x6x1_final-1.1.zkey''),
     (''mainSolanaCircuit1x6x1v1x1Wasm'', ''mainSolanaCircuit1x6x1-1.1.wasm''),
     (''mainSolanaCircuit1x6x2v1x1Zkey'', ''mainSolanaCircuit1x6x2_final-1.1.zkey''),
     (''mainSolanaCircuit1x6x2v1x1Wasm'', ''mainSolanaCircuit1x6x2-1.1.wasm''),
     (''mainSolanaCircuit2x2x1v1x1Zkey'', ''mainSolanaCircuit2x2x1_final-1.1.zkey''),
     (''mainSolanaCircuit2x2x1v1x1Wasm'', ''mainSolanaCircuit2x2x1-1.1.wasm''),
     (''mainSolanaCircuit2x6x1v1x1Zkey'', ''mainSolanaCircuit2x6x1_final-1.1.zkey''),
     (''mainSolanaCircuit2x6x1v1x1Wasm'', ''mainSolanaCircuit2x6x1-1.1.wasm''),
     (''commitmentCalculator1x2v1x1Wasm'', ''commitmentCalculator1x2-1.1.wasm''),
     (''commitmentCalculator1x2v1x1Zkey'', ''commitmentCalculator1x2_final-1.1.zkey''),
     (''commitmentCalculator1x2v1x1VK'', ''commitmentCalculator1x2_final-1.1_verification_key.json''),
     (''commitmentCalculator1x6v1x1Wasm'', ''commitmentCalculator1x6-1.1.wasm''),
     (''commitmentCalculator1x6v1x1Zkey'', ''commitmentCalculator1x6_final-1.1.zkey''),
     (''commitmentCalculator1x6v1x1VK'', ''commitmentCalculator1x6_final-1.1_verification_key.json''),
     (''commitmentCalculator2x2v1x1Wasm'', ''commitmentCalculator2x2-1.1.wasm''),
     (''commitmentCalculator2x2v1x1Zkey'', ''commitmentCalculator2x2_final-1.1.zkey''),
     (''commitmentCalculator2x2v1x1VK'', ''commitmentCalculator2x2_final-1.1_verification_key.json''),
     (''commitmentCalculator2x6v1x1Wasm'', ''commitmentCalculator2x6-1.1.wasm''),
     (''commitmentCalculator2x6v1x1Zkey'', ''commitmentCalculator2x6_final-1.1.zkey''),
     (''commitmentCalculator2x6v1x1VK'', ''commitmentCalculator2x6_final-1.1_verification_key.json''),
     (''commitmentCalculator3x2v1x1Wasm'', ''commitmentCalculator3x2-1.1.wasm''),
     (''commitmentCalculator3x2v1x1Zkey'', ''commitmentCalculator3x2_final-1.1.zkey''),
     (''commitmentCalculator3x2v1x1VK'', ''commitmentCalculator3x2_final-1.1_verification_key.json''),
     (''commitmentCalculator3x6v1x1Wasm'', ''commitmentCalculator3x6-1.1.wasm''),
     (''commitmentCalculator3x6v1x1Zkey'', ''commitmentCalculator3x6_final-1.1.zkey''),
     (''commitmentCalculator3x6v1x1VK'', ''commitmentCalculator3x6_final-1.1_verification_key.json''),
     (''commitmentCalculator4x2v1x1Wasm'', ''commitmentCalculator4x2-1.1.wasm''),
     (''commitmentCalculator4x2v1x1Zkey'', ''commitmentCalculator4x2_final-1.1.zkey''),
     (''commitmentCalculator4x2v1x1VK'', ''commitmentCalculator4x2_final-1.1_verification_key.json''),
     (''commitmentCalculator4x6v1x1Wasm'', ''commitmentCalculator4x6-1.1.wasm''),
     (''commitmentCalculator4x6v1x1Zkey'', ''commitmentCalculator4x6_final-1.1.zkey''),
     (''commitmentCalculator4x6v1x1VK'', ''commitmentCalculator4x6_final-1.1_verification_key.json''),
     (''commitmentCalculator5x2v1x1Wasm'', ''commitmentCalculator5x2-1.1.wasm''),
     (''commitmentCalculator5x2v1x1Zkey'', ''commitmentCalculator5x2_final-1.1.zkey''),
     (''commitmentCalculator5x2v1x1VK'', ''commitmentCalculator5x2_final-1.1_verification_key.json''),
     (''commitmentCalculator5x6v1x1Wasm'', ''commitmentCalculator5x6-1.1.wasm''),
     (''commitmentCalculator5x6v1x1Zkey'', ''commitmentCalculator5x6_final-1.1.zkey''),
     (''commitmentCalculator5x6v1x1VK'', ''commitmentCalculator5x6_final-1.1_verification_key.json'')]"

definition prodArtifactNames :: "(string \<times> string) list" where
  "prodArtifactNames = [
     (''mainEVMCircuit1x2x1v1x1Wasm'', ''mainEVMCircuit1x2x1-1.1.wasm''),
     (''mainEVMCircuit1x2x1v1x1Zkey'', ''mainEVMCircuit1x2x1_final-1.1.zkey''),
     (''mainEVMCircuit1x6x1v1x1Wasm'', ''mainEVMCircuit1x6x1-1.1.wasm''),
     (''mainEVMCircuit1x6x1v1x1Zkey'', ''mainEVMCircuit1x6x1_final-1.1.zkey''),
     (''mainEVMCircuit2x2x1v1x1Wasm'', ''mainEVMCircuit2x2x1-1.1.wasm''),
     (''mainEVMCircuit2x2x1v1x1Zkey'', ''mainEVMCircuit2x2x1_final-1.1.zkey''),
     (''mainEVMCircuit2x6x1v1x1Wasm'', ''mainEVMCircuit2x6x1-1.1.wasm''),
     (''mainEVMCircuit2x6x1v1x1Zkey'', ''mainEVMCircuit2x6x1_final-1.1.zkey''),
     (''mainEVMCircuit3x2x1v1x1Wasm'', ''mainEVMCircuit3x2x1-1.1.wasm''),
     (''mainEVMCircuit3x2x1v1x1Zkey'', ''mainEVMCircuit3x2x1_final-1.1.zkey''),
     (''mainEVMCircuit3x6x1v1x1Wasm'', ''mainEVMCircuit3x6x1-1.1.wasm''),
     (''mainEVMCircuit3x6x1v1x1Zkey'', ''mainEVMCircuit3x6x1_final-1.1.zkey''),
     (''mainEVMCircuit4x2x1v1x1Wasm'', ''mainEVMCircuit4x2x1-1.1.wasm''),
     (''mainEVMCircuit4x2x1v1x1Zkey'', ''mainEVMCircuit4x2x1_final-1.1.zkey''),
     (''mainEVMCircuit4x6x1v1x1Wasm'', ''mainEVMCircuit4x6x1-1.1.wasm''),
     (''mainEVMCircuit4x6x1v1x1Zkey'', ''mainEVMCircuit4x6x1_final-1.1.zkey''),
     (''mainEVMCircuit5x2x1v1x1Wasm'', ''mainEVMCircuit5x2x1-1.1.wasm''),
     (''mainEVMCircuit5x2x1v1x1Zkey'', ''mainEVMCircuit5x2x1_final-1.1.zkey''),
     (''mainEVMCircuit5x6x1v1x1Wasm'', ''mainEVMCircuit5x6x1-1.1.wasm''),
     (''mainEVMCircuit5x6x1v1x1Zkey'', ''mainEVMCircuit5x6x1_final-1.1.zkey''),
     (''mainEVMCircuit1x2x2v1x1Wasm'', ''mainEVMCircuit1x2x2-1.1.wasm''),
     (''mainEVMCircuit1x2x2v1x1Zkey'', ''mainEVMCircuit1x2x2_final-1.1.zkey''),
     (''mainEVMCircuit1x6x2v1x1Wasm'', ''mainEVMCircuit1x6x2-1.1.wasm''),
     (''mainEVMCircuit1x6x2v1x1Zkey'', ''mainEVMCircuit1x6x2_final-1.1.zkey''),
     (''mainEVMCircuit2x2x2v1x1Wasm'', ''mainEVMCircuit2x2x2-1.1.wasm''),
     (''mainEVMCircuit2x2x2v1x1Zkey'', ''mainEVMCircuit2x2x2_final-1.1.zkey''),
     (''mainEVMCircuit2x6x2v1x1Wasm'', ''mainEVMCircuit2x6x2-1.1.wasm''),
     (''mainEVMCircuit2x6x2v1x1Zkey'', ''mainEVMCircuit2x6x2_final-1.1.zkey''),
     (''mainEVMCircuitMin0v1x1Wasm'', ''mainEVMCircuitMin0-1.1.wasm''),
     (''mainEVMCircuitMin0v1x1Zkey'', ''mainEVMCircuitMin0_final-1.1.zkey''),
     (''mainSolanaCircuit1x2x1v1x1Zkey'', ''mainSolanaCircuit1x2x1_final-1.1.zkey''),
     (''mainSolanaCircuit1x2x1v1x1Wasm'', ''mainSolanaCircuit1x2x1-1.1.wasm''),
     (''mainSolanaCircuit1x2x2v1x1Zkey'', ''mainSolanaCircuit1x2x2_final-1.1.zkey''),
     (''mainSolanaCircuit1x2x2v1x1Wasm'', ''mainSolanaCircuit1x2x2-1.1.wasm''),
     (''mainSolanaCircuit1x6x1v1x1Zkey'', ''mainSolanaCircuit1x6x1_final-1.1.zkey''),
     (''mainSolanaCircuit1x6x1v1x1Wasm'', ''mainSolanaCircuit1x6x1-1.1.wasm''),
     (''mainSolanaCircuit1x6x2v1x1Zkey'', ''mainSolanaCircuit1x6x2_final-1.1.zkey''),
     (''mainSolanaCircuit1x6x2v1x1Wasm'', ''mainSolanaCircuit1x6x2-1.1.wasm''),
     (''mainSolanaCircuit2x2x1v1x1Zkey'', ''mainSolanaCircuit2x2x1_final-1.1.zkey''),
     (''mainSolanaCircuit2x2x1v1x1Wasm'', ''mainSolanaCircuit2x2x1-1.1.wasm''),
     (''mainSolanaCircuit2x6x1v1x1Zkey'', ''mainSolanaCircuit2x6x1_final-1.1.zkey''),
     (''mainSolanaCircuit2x6x1v1x1Wasm'', ''mainSolanaCircuit2x6x1-1.1.wasm''),
     (''commitmentCalculator1x2v1x1Wasm'', ''commitmentCalculator1x2-1.1.wasm''),
     (''commitmentCalculator1x2v1x1Zkey'', ''commitmentCalculator1x2_final-1.1.zkey''),
     (''commitmentCalculator1x2v1x1VK'', ''commitmentCalculator1x2_final-1.1_verification_key.json''),
     (''commitmentCalculator1x6v1x1Wasm'', ''commitmentCalculator1x6-1.1.wasm''),
     (''commitmentCalculator1x6v1x1Zkey'', ''commitmentCalculator1x6_final-1.1.zkey''),
     (''commitmentCalculator1x6v1x1VK'', ''commitmentCalculator1x6_final-1.1_verification_key.json''),
     (''commitmentCalculator2x2v1x1Wasm'', ''commitmentCalculator2x2-1.1.wasm''),
     (''commitmentCalculator2x2v1x1Zkey'', ''commitmentCalculator2x2_final-1.1.zkey''),
     (''commitmentCalculator2x2v1x1VK'', ''commitmentCalculator2x2_final-1.1_verification_key.json''),
     (''commitmentCalculator2x6v1x1Wasm'', ''commitmentCalculator2x6-1.1.wasm''),
     (''commitmentCalculator2x6v1x1Zkey'', ''commitmentCalculator2x6_final-1.1.zkey''),
     (''commitmentCalculator2x6v1x1VK'', ''commitmentCalculator2x6_final-1.1_verification_key.json''),
     (''commitmentCalculator3x2v1x1Wasm'', ''commitmentCalculator3x2-1.1.wasm''),
     (''commitmentCalculator3x2v1x1Zkey'', ''commitmentCalculator3x2_final-1.1.zkey''),
     (''commitmentCalculator3x2v1x1VK'', ''commitmentCalculator3x2_final-1.1_verification_key.json''),
     (''commitmentCalculator3x6v1x1Wasm'', ''commitmentCalculator3x6-1.1.wasm''),
     (''commitmentCalculator3x6v1x1Zkey'', ''commitmentCalculator3x6_final-1.1.zkey''),
     (''commitmentCalculator3x6v1x1VK'', ''commitmentCalculator3x6_final-1.1_verification_key.json''),
     (''commitmentCalculator4x2v1x1Wasm'', ''commitmentCalculator4x2-1.1.wasm''),
     (''commitmentCalculator4x2v1x1Zkey'', ''commitmentCalculator4x2_final-1.1.zkey''),
     (''commitmentCalculator4x2v1x1VK'', ''commitmentCalculator4x2_final-1.1_verification_key.json''),
     (''commitmentCalculator4x6v1x1Wasm'', ''commitmentCalculator4x6-1.1.wasm''),
     (''commitmentCalculator4x6v1x1Zkey'', ''commitmentCalculator4x6_final-1.1.zkey''),
     (''commitmentCalculator4x6v1x1VK'', ''commitmentCalculator4x6_final-1.1_verification_key.json''),
     (''commitmentCalculator5x2v1x1Wasm'', ''commitmentCalculator5x2-1.1.wasm''),
     (''commitmentCalculator5x2v1x1Zkey'', ''commitmentCalculator5x2_final-1.1.zkey''),
     (''commitmentCalculator5x2v1x1VK'', ''commitmentCalculator5x2_final-1.1_verification_key.json''),
     (''commitmentCalculator5x6v1x1Wasm'', ''commitmentCalculator5x6-1.1.wasm''),
     (''commitmentCalculator5x6v1x1Zkey'', ''commitmentCalculator5x6_final-1.1.zkey''),
     (''commitmentCalculator5x6v1x1VK'', ''commitmentCalculator5x6_final-1.1_verification_key.json'')]"

definition GetBackEndURL :: "deploymentMode \<Rightarrow> string" where
  "GetBackEndURL m = baseURL m"

definition getProdVerifiers :: "deploymentMode \<Rightarrow> (string \<times> string) list" where
  "getProdVerifiers m = map (\<lambda>(key, name). (key, GetBackEndURL m @ ''/verifiers-v2/'' @ name)) prodArtifactNames"

definition isLocalProverChain :: "int \<Rightarrow> bool" where
  "isLocalProverChain chainID = (chainID = idLocalhost \<or> chainID = idSolanaLocalnet \<or> chainID = idTronLocalnet)"

definition artifact :: "deploymentMode \<Rightarrow> string \<Rightarrow> int \<Rightarrow> string" where
  "artifact m key chainID =
     (case map_of (if isLocalProverChain chainID then localVerifiers else getProdVerifiers m) key of
        None \<Rightarrow> [] | Some file \<Rightarrow> file)"

definition GetWASMFile :: "deploymentMode \<Rightarrow> string \<Rightarrow> int \<Rightarrow> string" where
  "GetWASMFile m filename chainID = artifact m (filename @ ProverVersion @ ''Wasm'') chainID"

definition GetZKeyFile :: "deploymentMode \<Rightarrow> string \<Rightarrow> int \<Rightarrow> string" where
  "GetZKeyFile m filename chainID = artifact m (filename @ ProverVersion @ ''Zkey'') chainID"

definition GetVKFile :: "deploymentMode \<Rightarrow> string \<Rightarrow> int \<Rightarrow> string" where
  "GetVKFile m filename chainID = artifact m (filename @ ProverVersion @ ''VK'') chainID"

subsection \<open>generate_zk_proof_enclave.go: file names\<close>

definition retrieveVerifierFilename :: "string \<Rightarrow> string res" where
  "retrieveVerifierFilename verifierName =
     (if hasPrefix verifierName ''http'' then
        (let l = List.last (splitStr verifierName ''/'')
         in if l = [] then Err (ErrMsg ''snarkjs: invalid verifierName'') else Ok l)
      else Ok verifierName)"

subsection \<open>Names of artifacts\<close>

lemma splitFrom_nonempty [simp]: "splitFrom sep cur s \<noteq> []"
  by (induction sep cur s rule: splitFrom.induct) auto

lemma last_splitFrom: "c \<notin> set t \<Longrightarrow> List.last (splitFrom [c] cur (s @ c # t)) = t"
proof (induction s arbitrary: cur)
  case Nil
  then show ?case by (simp add: hasPrefix_def splitFrom_none)
next
  case (Cons x s)
  then show ?case by (cases "x = c") (simp_all add: hasPrefix_def)
qed

lemma last_part: "c \<notin> set t \<Longrightarrow> List.last (splitStr (s @ c # t) [c]) = t"
  by (simp add: splitStr_def last_splitFrom)

text \<open>A name of an artifact is neither a URL nor part of a path.\<close>

definition plainName :: "string \<Rightarrow> bool" where
  "plainName name \<longleftrightarrow> name \<noteq> [] \<and> CHR ''/'' \<notin> set name \<and> \<not> hasPrefix name ''http''"

lemma names_plain: "list_all (\<lambda>(key, name). plainName name) prodArtifactNames"
  by code_simp

lemma tables_equal: "localVerifiers = prodArtifactNames"
  by (simp add: localVerifiers_def prodArtifactNames_def)

lemma plain_of_table: "map_of prodArtifactNames key = Some name \<Longrightarrow> plainName name"
  using names_plain by (fastforce simp: list_all_iff dest: map_of_SomeD)

lemma prod_lookup:
  "map_of (getProdVerifiers m) key = map_option (\<lambda>name. GetBackEndURL m @ ''/verifiers-v2/'' @ name) (map_of prodArtifactNames key)"
proof -
  have "map_of (map (\<lambda>(key, name). (key, f name)) xs) key = map_option f (map_of xs key)"
    for f :: "string \<Rightarrow> string" and xs :: "(string \<times> string) list"
    by (induction xs) auto
  then show ?thesis by (simp add: getProdVerifiers_def)
qed

lemma path_name:
  "plainName name \<Longrightarrow> hasPrefix (p @ CHR ''/'' # name) ''http'' \<Longrightarrow> retrieveVerifierFilename (p @ CHR ''/'' # name) = Ok name"
  by (simp add: retrieveVerifierFilename_def last_part plainName_def)

lemma url_name:
  assumes "plainName name"
  shows "retrieveVerifierFilename (GetBackEndURL m @ ''/verifiers-v2/'' @ name) = Ok name"
proof -
  have "GetBackEndURL m @ ''/verifiers-v2/'' @ name = (GetBackEndURL m @ ''/verifiers-v2'') @ CHR ''/'' # name" by simp
  moreover have "hasPrefix ((GetBackEndURL m @ ''/verifiers-v2'') @ CHR ''/'' # name) ''http''"
    by (simp add: GetBackEndURL_def baseURL_def hasPrefix_def)
  ultimately show ?thesis using path_name [OF assms] by metis
qed

lemma local_name: "plainName name \<Longrightarrow> retrieveVerifierFilename name = Ok name"
  by (simp add: retrieveVerifierFilename_def plainName_def)

lemma artifact_name:
  "retrieveVerifierFilename (artifact m key chainID) =
   Ok (case map_of prodArtifactNames key of None \<Rightarrow> [] | Some name \<Rightarrow> name)"
proof (cases "map_of prodArtifactNames key")
  case None
  then show ?thesis by (simp add: artifact_def tables_equal prod_lookup retrieveVerifierFilename_def hasPrefix_def)
next
  case (Some name)
  note n = plain_of_table [OF Some]
  show ?thesis
    using local_name [OF n] url_name [OF n, of m] Some by (simp add: artifact_def tables_equal prod_lookup)
qed

text \<open>The enclave is asked for the same artifacts on every chain: the names taken out of the URLs of
  the production chains are the names of the local chains, for every circuit, and the lookup never fails.
\<close>

theorem artifact_names_agree:
  "\<exists>wasm zkey. retrieveVerifierFilename (GetWASMFile m f chainID) = Ok wasm \<and>
     retrieveVerifierFilename (GetWASMFile m' f chainID') = Ok wasm \<and>
     retrieveVerifierFilename (GetZKeyFile m f chainID) = Ok zkey \<and>
     retrieveVerifierFilename (GetZKeyFile m' f chainID') = Ok zkey"
  by (simp add: GetWASMFile_def GetZKeyFile_def artifact_name)

end
