(* ===== verification/ZkProof.thy ===== *)
theory ZkProof
  imports CircuitData Emporium ZkFiles MerkleProofs
begin

text \<open>
  The proof of a private transaction on an EVM chain: \<open>internal/functions/snarkjs\<close> (\<open>get_data_from_workers.go\<close>,
  \<open>fetch_merkle_tree_siblings.go\<close>, \<open>build_commitment_validation_data.go\<close>, \<open>generate_zk_proof.go\<close>,
  \<open>generate_zk_proof_enclave.go\<close>, \<open>generate_main_and_commitment_zk_proof.go\<close>, \<open>construct_general_zk_proof.go\<close>). The
  contract's root hash, the snapshot server, the enclave and the JSON text of the inputs are arguments.
\<close>

subsection \<open>get_data_from_workers.go\<close>

record siblingsResponse =
  srSiblings :: "string list list list"
  srSides :: "string list list list"
  srRootHash :: string

record merkleData =
  mdSiblings :: "string list list list"
  mdSides :: "string list list list"
  mdRootHash :: int
  mdNullifiers :: "string list list"

definition buildInNullifiersByAmount :: "cryptoLib \<Rightarrow> utxo list list \<Rightarrow> string list list res" where
  "buildInNullifiersByAmount C inputUtxos = mapRes (mapRes (\<lambda>u. zeroOr u (fst (GetNullifier C u)))) inputUtxos"

type_synonym siblingData = "string list list list \<times> string list list list \<times> int"

definition handleLocalMerkleTrees :: "cryptoLib \<Rightarrow> merkleTree option \<Rightarrow> utxo list list \<Rightarrow> siblingData res" where
  "handleLocalMerkleTrees C localTree inputUtxos =
     (case localTree of
        None \<Rightarrow> Err (ErrMsg ''root hash not available from hinkal merkle tree'')
      | Some m \<Rightarrow>
          andThen (GetRootHash m) (\<lambda>rootHash.
          andThen (CalcCommitmentsSiblingAndSides C inputUtxos m) (\<lambda>(siblings, sides).
            Ok (siblings, sides, rootHash))))"

definition FetchMerkleTreeSiblings ::
  "(int \<Rightarrow> utxoParams list list \<Rightarrow> siblingsResponse res) \<Rightarrow> int \<Rightarrow> utxo list list \<Rightarrow> siblingsResponse res" where
  "FetchMerkleTreeSiblings fetch chainID inputUtxos = fetch chainID (map (map GetConstructableParams) inputUtxos)"

definition handleRemoteMerkleTrees ::
  "(int \<Rightarrow> utxoParams list list \<Rightarrow> siblingsResponse res) \<Rightarrow> int \<Rightarrow> utxo list list \<Rightarrow> siblingData res" where
  "handleRemoteMerkleTrees fetch chainID inputUtxos =
     andThen (FetchMerkleTreeSiblings fetch chainID inputUtxos) (\<lambda>resp.
     andThen (ParseBigInt (srRootHash resp)) (\<lambda>rootHash.
       Ok (srSiblings resp, srSides resp, rootHash)))"

definition areLocalTreesUpToDate :: "(int \<Rightarrow> int res) \<Rightarrow> int \<Rightarrow> merkleTree option \<Rightarrow> bool res" where
  "areLocalTreesUpToDate onChainRoot chainID localTree =
     (case localTree of
        None \<Rightarrow> Ok False
      | Some m \<Rightarrow>
          (case GetRootHash m of
             Ok localRoot \<Rightarrow>
               (case onChainRoot chainID of
                  Ok root \<Rightarrow> Ok (localRoot = root)
                | Err e \<Rightarrow> Ok False
                | Panic p \<Rightarrow> Panic p)
           | Err e \<Rightarrow> Ok False
           | Panic p \<Rightarrow> Panic p))"

definition GetMerkleTreeSiblingsAndRootHashes ::
  "cryptoLib \<Rightarrow> (int \<Rightarrow> int res) \<Rightarrow> (int \<Rightarrow> utxoParams list list \<Rightarrow> siblingsResponse res) \<Rightarrow> int \<Rightarrow> merkleTree option \<Rightarrow>
   utxo list list \<Rightarrow> siblingData res" where
  "GetMerkleTreeSiblingsAndRootHashes C onChainRoot fetch chainID localTree inputUtxos =
     andThen (areLocalTreesUpToDate onChainRoot chainID localTree) (\<lambda>upToDate.
       if upToDate \<or> IsLocalNetwork chainID then handleLocalMerkleTrees C localTree inputUtxos
       else handleRemoteMerkleTrees fetch chainID inputUtxos)"

definition GetDataFromWorkers ::
  "cryptoLib \<Rightarrow> (int \<Rightarrow> int res) \<Rightarrow> (int \<Rightarrow> utxoParams list list \<Rightarrow> siblingsResponse res) \<Rightarrow> int \<Rightarrow> merkleTree option \<Rightarrow>
   utxo list list \<Rightarrow> merkleData res" where
  "GetDataFromWorkers C onChainRoot fetch chainID localTree inputUtxos =
     andThen (GetMerkleTreeSiblingsAndRootHashes C onChainRoot fetch chainID localTree inputUtxos) (\<lambda>(siblings, sides, root).
     andThen (buildInNullifiersByAmount C inputUtxos) (\<lambda>nullifiers.
       Ok \<lparr>mdSiblings = siblings, mdSides = sides, mdRootHash = root, mdNullifiers = nullifiers\<rparr>))"

subsection \<open>Inputs of circuits\<close>

datatype circuitValue = VBig int | VText string | VBool bool | VList "circuitValue list"

type_synonym circuitInput = "(string \<times> circuitValue) list"

definition VTexts :: "string list \<Rightarrow> circuitValue" where
  "VTexts ss = VList (map VText ss)"

definition VGrid :: "string list list \<Rightarrow> circuitValue" where
  "VGrid sss = VList (map VTexts sss)"

definition VBigs :: "int list \<Rightarrow> circuitValue" where
  "VBigs ns = VList (map VBig ns)"

text \<open>Big integers are written as decimal text.\<close>

fun toJSONSafe :: "circuitValue \<Rightarrow> circuitValue" where
  "toJSONSafe (VBig n) = VText (bigString n)"
| "toJSONSafe (VText s) = VText s"
| "toJSONSafe (VBool b) = VBool b"
| "toJSONSafe (VList vs) = VList (map toJSONSafe vs)"

definition jsonSafeInput :: "circuitInput \<Rightarrow> circuitInput" where
  "jsonSafeInput inp = map (\<lambda>(k, v). (k, toJSONSafe v)) inp"

subsection \<open>build_commitment_validation_data.go\<close>

record commitmentBuild =
  cbTokenAddresses :: "string list"
  cbInAmounts :: "string list list"
  cbInTimeStamps :: "string list list"
  cbInRandomizations :: "string list list"
  cbInCommitments :: "string list list"
  cbInNullifiers :: "string list list"
  cbVerifierName :: string
  cbInput :: circuitInput

record utxoInput =
  uiAmount :: string
  uiTimeStamp :: string
  uiRandomization :: string
  uiH0 :: jubPoint
  uiIsNewStyle :: bool
  uiCommitment :: string

definition amountText :: "utxo \<Rightarrow> string" where
  "amountText u = (case uxAmount u of None \<Rightarrow> ''<nil>'' | Some a \<Rightarrow> bigString a)"

definition validateUtxoStealth :: "cryptoLib \<Rightarrow> utxo \<Rightarrow> string \<Rightarrow> int list \<Rightarrow> nat \<Rightarrow> nat \<Rightarrow> unit res" where
  "validateUtxoStealth C u nullifyingPrivateKey defaultSpending tokenIdx utxoIdx =
     andThen (fst (GetStealthAddressUtxo C u)) (\<lambda>utxoStealth.
       (let spending = (case uxSpendingKey u of None \<Rightarrow> defaultSpending | Some ks \<Rightarrow> ks) in
        andThen (case uxH0 u of
                   Some h0 \<Rightarrow>
                     if uxIsNewStyle u then GetStealthAddressNewStyle C h0 nullifyingPrivateKey spending
                     else andThen (adjustedPrivateKey C nullifyingPrivateKey) (\<lambda>_.
                            andThen (deref (uxRandomization u)) (\<lambda>r. GetStealthAddress C r nullifyingPrivateKey))
                 | None \<Rightarrow> andThen (adjustedPrivateKey C nullifyingPrivateKey) (\<lambda>_.
                            andThen (deref (uxRandomization u)) (\<lambda>r. GetStealthAddress C r nullifyingPrivateKey)))
          (\<lambda>derived.
        andThen (ParseBigInt utxoStealth) (\<lambda>utxoStealthBig.
        andThen (ParseBigInt derived) (\<lambda>derivedBig.
          if utxoStealthBig \<noteq> derivedBig then Err (ErrStealthMismatch tokenIdx utxoIdx) else Ok ())))))"

definition utxoInputOf :: "cryptoLib \<Rightarrow> string \<Rightarrow> int list \<Rightarrow> nat \<Rightarrow> nat \<Rightarrow> utxo \<Rightarrow> utxoInput res" where
  "utxoInputOf C nullifyingPrivateKey defaultSpending i j u =
     andThen (GetUtxoCircuitInRandomization u) (\<lambda>randomization.
     andThen (GetUtxoCircuitH0Coords C u) (\<lambda>h0.
     andThen (zeroOr u (andThen (fst (GetCommitment C u)) (\<lambda>c. andThen (ParseBigInt c) (\<lambda>n. Ok (bigString n))))) (\<lambda>commitment.
     andThen (validateUtxoStealth C u nullifyingPrivateKey defaultSpending i j) (\<lambda>_.
       Ok \<lparr>uiAmount = amountText u, uiTimeStamp = uxTimeStamp u, uiRandomization = randomization, uiH0 = h0,
           uiIsNewStyle = uxIsNewStyle u, uiCommitment = commitment\<rparr>))))"

definition utxoInputs :: "cryptoLib \<Rightarrow> string \<Rightarrow> int list \<Rightarrow> utxo list list \<Rightarrow> utxoInput list list res" where
  "utxoInputs C nullifyingPrivateKey defaultSpending inputUtxos =
     mapRes (\<lambda>(i, us). mapRes (\<lambda>(j, u). utxoInputOf C nullifyingPrivateKey defaultSpending i j u) (enumerate 0 us))
       (enumerate 0 inputUtxos)"

definition circuitToken :: "cryptoLib \<Rightarrow> int \<Rightarrow> string \<Rightarrow> string res" where
  "circuitToken C chainID addr =
     andThen (if IsSolanaLike chainID
              then andThen (FormatMintAddress C addr) (\<lambda>formatted. ParseBigInt (fmCompressed formatted))
              else ParseBigInt addr) (\<lambda>n. Ok (bigString n))"

definition commitmentBuildOf ::
  "string \<Rightarrow> int list \<Rightarrow> string list \<Rightarrow> utxo list list \<Rightarrow> utxoInput list list \<Rightarrow> string list list \<Rightarrow> commitmentBuild" where
  "commitmentBuildOf nullifyingPrivateKey spending tokens inputUtxos ins inNullifiers =
     (let field = (\<lambda>f. map (map f) ins);
          inCommitments = field uiCommitment
      in \<lparr>cbTokenAddresses = tokens, cbInAmounts = field uiAmount, cbInTimeStamps = field uiTimeStamp,
          cbInRandomizations = field uiRandomization, cbInCommitments = inCommitments, cbInNullifiers = inNullifiers,
          cbVerifierName = ''commitmentCalculator'' @ natString (length tokens) @ ''x'' @ natString (length (hd inputUtxos)),
          cbInput = [(''nullifyingPrivateKey'', VText nullifyingPrivateKey), (''spendingPublicKey'', VBigs spending),
            (''erc20TokenAddresses'', VTexts tokens), (''inAmounts'', VGrid (field uiAmount)),
            (''inRandomizations'', VGrid (field uiRandomization)),
            (''inH0Ax'', VGrid (field (\<lambda>u. bigString (fst (uiH0 u))))), (''inH0Ay'', VGrid (field (\<lambda>u. bigString (snd (uiH0 u))))),
            (''isNewStyle'', VList (map (\<lambda>us. VList (map (\<lambda>u. VBool (uiIsNewStyle u)) us)) ins)),
            (''inTimeStamps'', VGrid (field uiTimeStamp)), (''inCommitments'', VGrid inCommitments),
            (''inNullifiers'', VGrid inNullifiers)]\<rparr>)"

definition BuildCommitmentValidationData ::
  "cryptoLib \<Rightarrow> int \<Rightarrow> string list \<Rightarrow> utxo list list \<Rightarrow> (userKeys, commitmentBuild option) action" where
  "BuildCommitmentValidationData C chainID erc20Addresses inputUtxos =
     bindA (liftA (hasOnlyZeroAmounts inputUtxos)) (\<lambda>onlyZero.
       if onlyZero \<or> erc20Addresses = [] \<or> inputUtxos = [] \<or> hd inputUtxos = [] then liftA (Ok None)
       else
         bindA (GetShieldedPrivateKey C) (\<lambda>nullifyingPrivateKey.
         bindA (GetSpendingKeyPair C) (\<lambda>(privSpending, pub).
           (let spending = [fst pub, snd pub] in
            liftA (
              andThen (mapRes (circuitToken C chainID) erc20Addresses) (\<lambda>tokens.
              andThen (utxoInputs C nullifyingPrivateKey spending inputUtxos) (\<lambda>ins.
              andThen (buildInNullifiersByAmount C inputUtxos) (\<lambda>inNullifiers.
                Ok (Some (commitmentBuildOf nullifyingPrivateKey spending tokens inputUtxos ins inNullifiers))))))))))"

record zkCallData =
  zcA :: "string \<times> string"
  zcB :: "(string \<times> string) \<times> (string \<times> string)"
  zcC :: "string \<times> string"
  zcPublicSignals :: "string list"

record zkProofResult =
  zpCallData :: zkCallData
  zpPublicSignals :: "string list"

record commitmentValidation =
  cvTokenAddresses :: "string list"
  cvInAmounts :: "string list list"
  cvInTimeStamps :: "string list list"
  cvInRandomizations :: "string list list"
  cvInCommitments :: "string list list"
  cvInNullifiers :: "string list list"
  cvA :: "string \<times> string"
  cvB :: "(string \<times> string) \<times> (string \<times> string)"
  cvC :: "string \<times> string"

definition BuildCommitmentValidationDataFromProof ::
  "commitmentBuild option \<Rightarrow> zkProofResult option \<Rightarrow> commitmentValidation option" where
  "BuildCommitmentValidationDataFromProof build proof =
     (case (build, proof) of
        (Some b, Some p) \<Rightarrow>
          Some \<lparr>cvTokenAddresses = cbTokenAddresses b, cvInAmounts = cbInAmounts b, cvInTimeStamps = cbInTimeStamps b,
            cvInRandomizations = cbInRandomizations b, cvInCommitments = cbInCommitments b,
            cvInNullifiers = cbInNullifiers b, cvA = zcA (zpCallData p), cvB = zcB (zpCallData p), cvC = zcC (zpCallData p)\<rparr>
      | _ \<Rightarrow> None)"

end
