(* ===== verification/ConstructProof.thy ===== *)
theory ConstructProof
  imports ZkProof
begin

text \<open>
  Proving, and the whole of \<open>ConstructZkProof\<close>: \<open>internal/functions/snarkjs/generate_zk_proof.go\<close>,
  \<open>generate_zk_proof_self.go\<close>, \<open>generate_zk_proof_enclave.go\<close>, \<open>generate_main_and_commitment_zk_proof.go\<close> and
  \<open>construct_general_zk_proof.go\<close>. What surrounds a proof is the record \<open>zkEnv\<close>: the primitives, the mode the
  SDK runs in, the clock, the random sources, the contract, the servers, and the enclave.
\<close>

record 'k zkEnv =
  zeCrypto :: cryptoLib
  zePack :: packLib
  zeEvm :: "'k evmLib"
  zeMode :: deploymentMode
  zeSeconds :: int
  zeRand :: "nat \<Rightarrow> nat \<Rightarrow> bytes res"                        \<comment> \<open>draws of 31 bytes: randomization, message\<close>
  zeSealRand :: "nat \<Rightarrow> nat \<Rightarrow> nat \<Rightarrow> nat \<Rightarrow> bytes res"      \<comment> \<open>the sealing of each output\<close>
  zeOnChainRoot :: "int \<Rightarrow> int res"                             \<comment> \<open>FetchOnChainRootHashes\<close>
  zeFetchSiblings :: "int \<Rightarrow> utxoParams list list \<Rightarrow> siblingsResponse res"
  zeJson :: "circuitInput list \<Rightarrow> bytes res"                    \<comment> \<open>json.Marshal\<close>
  zeHandshake :: "bytes \<Rightarrow> (string \<times> string) res"              \<comment> \<open>MakeHandshakeAndEncrypt\<close>
  zeProve :: "string list \<Rightarrow> string list \<Rightarrow> string \<Rightarrow> string \<Rightarrow> zkProofResult list res" \<comment> \<open>GenerateProofsEnclaveCall\<close>

subsection \<open>generate_zk_proof.go\<close>

definition GenerateZkProofEnclave :: "'k zkEnv \<Rightarrow> int \<Rightarrow> string list \<Rightarrow> circuitInput list \<Rightarrow> zkProofResult list res" where
  "GenerateZkProofEnclave E chainID verifierNames inputs =
     andThen (mapRes (\<lambda>name.
         andThen (retrieveVerifierFilename (GetWASMFile (zeMode E) name chainID)) (\<lambda>wasm.
         andThen (retrieveVerifierFilename (GetZKeyFile (zeMode E) name chainID)) (\<lambda>zkey. Ok (wasm, zkey))))
       verifierNames) (\<lambda>files.
     andThen (wrapErr ''snarkjs: marshal enclave inputs'' (zeJson E (map jsonSafeInput inputs))) (\<lambda>inputBytes.
     andThen (zeHandshake E inputBytes) (\<lambda>(keyCiphertext, inputCiphertext).
       zeProve E (map fst files) (map snd files) inputCiphertext keyCiphertext)))"

text \<open>Proving in the process itself is not implemented: every call fails, and an empty batch gives no proofs.\<close>

definition GenerateZkProofSelf :: "int \<Rightarrow> string \<Rightarrow> circuitInput \<Rightarrow> zkProofResult res" where
  "GenerateZkProofSelf chainID name inp =
     Err (ErrMsg ''snarkjs: local (self) proving not implemented; use the remote/enclave path'')"

fun generateZkProofSelfBatch :: "int \<Rightarrow> string list \<Rightarrow> circuitInput list \<Rightarrow> zkProofResult list res" where
  "generateZkProofSelfBatch chainID [] inputs = Ok []"
| "generateZkProofSelfBatch chainID (name # names) [] = Panic ''index out of range''"
| "generateZkProofSelfBatch chainID (name # names) (inp # inputs) =
     andThen (GenerateZkProofSelf chainID name inp) (\<lambda>r.
     andThen (generateZkProofSelfBatch chainID names inputs) (\<lambda>rs. Ok (r # rs)))"

definition GenerateZkProof :: "'k zkEnv \<Rightarrow> int \<Rightarrow> string list \<Rightarrow> circuitInput list \<Rightarrow> bool \<Rightarrow> zkProofResult list res" where
  "GenerateZkProof E chainID verifierNames inputs remotely =
     (if remotely then
        (case GenerateZkProofEnclave E chainID verifierNames inputs of
           Err e \<Rightarrow>
             (case generateZkProofSelfBatch chainID verifierNames inputs of
                Err selfErr \<Rightarrow> Err (ErrJoin e selfErr)
              | r \<Rightarrow> r)
         | r \<Rightarrow> r)
      else generateZkProofSelfBatch chainID verifierNames inputs)"

subsection \<open>generate_main_and_commitment_zk_proof.go\<close>

record mainAndCommitment =
  mcCallData :: zkCallData
  mcPublicSignals :: "string list"
  mcCommitment :: "commitmentValidation option"

definition mainAndCommitmentOf :: "commitmentBuild option \<Rightarrow> zkProofResult list \<Rightarrow> mainAndCommitment res" where
  "mainAndCommitmentOf build proofs =
     (case proofs of
        [] \<Rightarrow> Panic ''index out of range''
      | main # rest \<Rightarrow>
          Ok \<lparr>mcCallData = zpCallData main, mcPublicSignals = zpPublicSignals main,
              mcCommitment = BuildCommitmentValidationDataFromProof build
                (if build \<noteq> None \<and> rest \<noteq> [] then Some (hd rest) else None)\<rparr>)"

definition GenerateMainAndCommitmentZkProof ::
  "'k zkEnv \<Rightarrow> int \<Rightarrow> string list \<Rightarrow> utxo list list \<Rightarrow> string \<Rightarrow> circuitInput \<Rightarrow> bool \<Rightarrow> (userKeys, mainAndCommitment) action" where
  "GenerateMainAndCommitmentZkProof E chainID tokenAddresses inputUtxos mainVerifierName mainInput remotely =
     bindA (BuildCommitmentValidationData (zeCrypto E) chainID tokenAddresses inputUtxos) (\<lambda>build.
       (let names = mainVerifierName # (case build of None \<Rightarrow> [] | Some b \<Rightarrow> [cbVerifierName b]);
            inputs = mainInput # (case build of None \<Rightarrow> [] | Some b \<Rightarrow> [cbInput b])
        in liftA (andThen (GenerateZkProof E chainID names inputs remotely) (mainAndCommitmentOf build))))"

subsection \<open>construct_general_zk_proof.go\<close>

record zkParams =
  zkMerkleTree :: "merkleTree option"
  zkInputUtxos :: "utxo list list"
  zkOutputUtxos :: "utxo list list"
  zkExternalActionID :: string
  zkExternalAddress :: string
  zkExternalActionMetadata :: "string list"
  zkGenerateProofRemotely :: bool
  zkFeeStructure :: feeStructure
  zkRelay :: string
  zkChainID :: int
  zkOnChainCreation :: "bool list option"
  zkHookData :: "hookData option"
  zkOriginalSender :: string
  zkSubAccountPrivateKey :: string

record zkResult =
  zrCallData :: zkCallData
  zrCircomData :: circomData
  zrDimData :: dimData
  zrEncryptedOutputs :: "string list list"
  zrCommitment :: "commitmentValidation option"

definition zkChain :: "zkParams \<Rightarrow> int" where
  "zkChain p = (if zkChainID p = 0 then idLocalhost else zkChainID p)"

definition zkRelayOrZero :: "zkParams \<Rightarrow> string" where
  "zkRelayOrZero p = orZeroAddress (zkRelay p)"

definition zkCreation :: "zkParams \<Rightarrow> bool list" where
  "zkCreation p = (case zkOnChainCreation p of None \<Rightarrow> replicate (length (zkInputUtxos p)) False | Some bs \<Rightarrow> bs)"

definition firstTokens :: "utxo list list \<Rightarrow> string list res" where
  "firstTokens inputUtxos =
     mapRes (\<lambda>us. case us of [] \<Rightarrow> Panic ''index out of range'' | u # _ \<Rightarrow> Ok (uxErc20 u)) inputUtxos"

definition mapUtxoStrings :: "(utxo \<Rightarrow> string res) \<Rightarrow> utxo list list \<Rightarrow> string list list res" where
  "mapUtxoStrings f utxos = mapRes (mapRes f) utxos"

definition mapUtxoBools :: "(utxo \<Rightarrow> bool) \<Rightarrow> utxo list list \<Rightarrow> bool list list" where
  "mapUtxoBools f utxos = map (map f) utxos"

definition outTimeStampOf :: "int \<Rightarrow> utxo list list \<Rightarrow> int res" where
  "outTimeStampOf now outputUtxos =
     (case outputUtxos of
        [] \<Rightarrow> Ok now
      | us # _ \<Rightarrow> (case us of [] \<Rightarrow> Panic ''index out of range'' | u # _ \<Rightarrow> ParseBigInt (uxTimeStamp u)))"

text \<open>The grids of texts the circuit takes from the utxos, in the order they are computed.\<close>

record utxoGrids =
  ugInAmounts :: "string list list"
  ugInRandomizations :: "string list list"
  ugInH0Ax :: "string list list"
  ugInH0Ay :: "string list list"
  ugInTimeStamps :: "string list list"
  ugOutAmounts :: "string list list"
  ugOutPublicKeys :: "string list list"

definition utxoGridsOf :: "cryptoLib \<Rightarrow> utxo list list \<Rightarrow> utxo list list \<Rightarrow> utxoGrids res" where
  "utxoGridsOf C ins outs =
     andThen (mapUtxoStrings (\<lambda>u. Ok (amountText u)) ins) (\<lambda>inAmounts.
     andThen (mapUtxoStrings GetUtxoCircuitInRandomization ins) (\<lambda>inRandomizations.
     andThen (mapUtxoStrings (\<lambda>u. andThen (GetUtxoCircuitH0Coords C u) (\<lambda>h0. Ok (bigString (fst h0)))) ins) (\<lambda>inH0Ax.
     andThen (mapUtxoStrings (\<lambda>u. andThen (GetUtxoCircuitH0Coords C u) (\<lambda>h0. Ok (bigString (snd h0)))) ins) (\<lambda>inH0Ay.
     andThen (mapUtxoStrings (\<lambda>u. Ok (uxTimeStamp u)) ins) (\<lambda>inTimeStamps.
     andThen (mapUtxoStrings (\<lambda>u. Ok (amountText u)) outs) (\<lambda>outAmounts.
     andThen (mapUtxoStrings (\<lambda>u. fst (GetStealthAddressUtxo C u)) outs) (\<lambda>outPublicKeys.
       Ok \<lparr>ugInAmounts = inAmounts, ugInRandomizations = inRandomizations, ugInH0Ax = inH0Ax, ugInH0Ay = inH0Ay,
           ugInTimeStamps = inTimeStamps, ugOutAmounts = outAmounts, ugOutPublicKeys = outPublicKeys\<rparr>)))))))"

text \<open>The metadata of the external action: signed operations for the Emporium, plain operations otherwise.\<close>

definition actionMetadata :: "'k zkEnv \<Rightarrow> zkParams \<Rightarrow> int \<Rightarrow> string res" where
  "actionMetadata E p message =
     (if zkExternalActionID p = ''Emporium''
      then
        andThen (if zkSubAccountPrivateKey p = [] then Ok []
                 else SignerAddressFromPrivateKey (zeEvm E) (zkChain p) (zkSubAccountPrivateKey p)) (\<lambda>signer.
          EncodeEmporiumMetadata (zeCrypto E) (zeEvm E) (zkChain p) (orZeroAddress (zkExternalAddress p))
            (zkSubAccountPrivateKey p) (zkExternalActionMetadata p) (Some message) signer)
      else
        EncodeEmporiumMetadata (zeCrypto E) (zeEvm E) (zkChain p) ZeroAddress []
          (if zkExternalActionID p = [] then [] else zkExternalActionMetadata p) (Some message) ZeroAddress)"

record zkSession =
  zsTokens :: "string list"
  zsAmountChanges :: "int list"
  zsEncryptedOutputs :: "string list list"
  zsStealth :: stealthAddressStructure
  zsData :: merkleData
  zsOutCommitments :: "string list list"
  zsMessageSeed :: int
  zsMessage :: int
  zsOutTimeStamp :: int
  zsGrids :: utxoGrids

definition sessionSignalCount :: "string \<Rightarrow> zkSession \<Rightarrow> nat" where
  "sessionSignalCount verifierName s =
     CalcPublicSignalCount verifierName (zsTokens s) (zsAmountChanges s) (mdNullifiers (zsData s)) (zsOutCommitments s)"

definition sessionH0Ax :: "zkSession \<Rightarrow> int" where
  "sessionH0Ax s = TakeOffHighestBit (saExtraRandomization (zsStealth s))"

definition sessionMessage :: "zkSession \<Rightarrow> int \<Rightarrow> evmMessageParams" where
  "sessionMessage s calldataHash =
     \<lparr>epRootHashHinkal = mdRootHash (zsData s), epErc20TokenAddresses = zsTokens s, epAmountChanges = zsAmountChanges s,
      epOutTimeStamp = zsOutTimeStamp s, epInNullifiers = mdNullifiers (zsData s), epOutCommitments = zsOutCommitments s,
      epCalldataHash = calldataHash, epMessage = zsMessage s, epOutH1Ay = saH1 (zsStealth s),
      epH0Ax = sessionH0Ax s, epH0Ay = saH0 (zsStealth s)\<rparr>"

definition cubeValue :: "string list list list \<Rightarrow> circuitValue" where
  "cubeValue c = VList (map VGrid c)"

definition mainInputOf ::
  "zkParams \<Rightarrow> string \<Rightarrow> int list \<Rightarrow> zkSession \<Rightarrow> int \<Rightarrow> int \<Rightarrow> jubPoint \<times> int \<Rightarrow> circuitInput" where
  "mainInputOf p nullifyingPrivateKey spending s calldataHash signedMessageHash sig =
     (let g = zsGrids s in
      [(''rootHashHinkal'', VBig (mdRootHash (zsData s))), (''spendingPublicKey'', VBigs spending),
       (''nullifyingPrivateKey'', VText nullifyingPrivateKey), (''erc20TokenAddresses'', VTexts (zsTokens s)),
       (''amountChanges'', VBigs (zsAmountChanges s)), (''inAmounts'', VGrid (ugInAmounts g)),
       (''inRandomizations'', VGrid (ugInRandomizations g)), (''inH0Ax'', VGrid (ugInH0Ax g)), (''inH0Ay'', VGrid (ugInH0Ay g)),
       (''isNewStyle'', VList (map (\<lambda>bs. VList (map VBool bs)) (mapUtxoBools uxIsNewStyle (zkInputUtxos p)))),
       (''inTimeStamps'', VGrid (ugInTimeStamps g)), (''inNullifiers'', VGrid (mdNullifiers (zsData s))),
       (''inCommitmentSiblings'', cubeValue (mdSiblings (zsData s))),
       (''inCommitmentSiblingSides'', cubeValue (mdSides (zsData s))), (''outAmounts'', VGrid (ugOutAmounts g)),
       (''outTimeStamp'', VBig (zsOutTimeStamp s)), (''outPublicKeys'', VGrid (ugOutPublicKeys g)),
       (''outCommitments'', VGrid (zsOutCommitments s)), (''messageSeed'', VBig (zsMessageSeed s)),
       (''H0Ax'', VBig (sessionH0Ax s)), (''H0Ay'', VBig (saH0 (zsStealth s))), (''calldataHash'', VBig calldataHash),
       (''eddsaSignature'', VBigs [fst (fst sig), snd (fst sig), snd sig]), (''signedMessageHash'', VBig signedMessageHash)])"

definition min0InputOf :: "zkSession \<Rightarrow> int \<Rightarrow> circuitInput" where
  "min0InputOf s calldataHash =
     [(''outTimeStamp'', VBig (zsOutTimeStamp s)), (''calldataHash'', VBig calldataHash), (''messageSeed'', VBig (zsMessageSeed s))]"

text \<open>What is prepared before the keys are used, and what after.\<close>

definition zkSessionOf ::
  "'k zkEnv \<Rightarrow> zkParams \<Rightarrow> int list \<Rightarrow> string list \<Rightarrow> string list list \<Rightarrow> string \<Rightarrow> int list \<Rightarrow> zkSession res" where
  "zkSessionOf E p amountChanges tokens encryptedOutputs nullifyingPrivateKey spending =
     (let C = zeCrypto E; ins = zkInputUtxos p; outs = zkOutputUtxos p in
      andThen (RandomBigInt (zeRand E 0) 31) (\<lambda>randSeed.
      andThen (FindCorrectRandomization C randSeed nullifyingPrivateKey) (\<lambda>extraRandomization.
      andThen (CalcStealthAddressStructure C extraRandomization nullifyingPrivateKey spending) (\<lambda>stealth.
      andThen (GetDataFromWorkers C (zeOnChainRoot E) (zeFetchSiblings E) (zkChain p) (zkMerkleTree p) ins) (\<lambda>data.
      andThen (BuildOutCommitments C outs) (\<lambda>outCommitments.
      andThen (RandomBigInt (zeRand E 1) 31) (\<lambda>messageSeed.
      andThen (PoseidonBig C [Some messageSeed]) (\<lambda>message.
      andThen (outTimeStampOf (zeSeconds E) outs) (\<lambda>outTimeStamp.
      andThen (utxoGridsOf C ins outs) (\<lambda>grids.
        Ok \<lparr>zsTokens = tokens, zsAmountChanges = amountChanges, zsEncryptedOutputs = encryptedOutputs,
            zsStealth = stealth, zsData = data, zsOutCommitments = outCommitments, zsMessageSeed = messageSeed,
            zsMessage = message, zsOutTimeStamp = outTimeStamp, zsGrids = grids\<rparr>))))))))))"

definition sessionHashes :: "'k zkEnv \<Rightarrow> zkParams \<Rightarrow> string \<Rightarrow> zkSession \<Rightarrow> (int list \<times> string \<times> int \<times> int) res" where
  "sessionHashes E p verifierName s =
     (let C = zeCrypto E in
      andThen (CalcAmountChanges C (zkInputUtxos p) (zkOutputUtxos p) True) (\<lambda>amountChangesBased.
      andThen (actionMetadata E p (zsMessage s)) (\<lambda>metadata.
      andThen (CreateCallDataHash C (zePack E) (sessionSignalCount verifierName s) (zkRelayOrZero p) (zkExternalAddress p)
                 (zkExternalActionID p) metadata (zsEncryptedOutputs s) (zkHookData p) (GetSlippageValues amountChangesBased)
                 (zkCreation p) (zkFeeStructure p) DefaultSignatureData (zkOriginalSender p)) (\<lambda>calldataHash.
      andThen (ComputeSignedMessageHashEvm C (zePack E) (sessionMessage s calldataHash)) (\<lambda>signedMessageHash.
        Ok (amountChangesBased, metadata, calldataHash, signedMessageHash))))))"

definition sessionResult ::
  "'k zkEnv \<Rightarrow> zkParams \<Rightarrow> string \<Rightarrow> zkSession \<Rightarrow> int list \<Rightarrow> string \<Rightarrow> int \<Rightarrow> mainAndCommitment \<Rightarrow> zkResult res" where
  "sessionResult E p verifierName s amountChangesBased metadata calldataHash main =
     (let ins = zkInputUtxos p; outs = zkOutputUtxos p in
      andThen (GenerateCircomData (zeCrypto E) (zsOutCommitments s) (mdNullifiers (zsData s)) (Some (mdRootHash (zsData s)))
                 amountChangesBased (zsTokens s) outs (zsEncryptedOutputs s) (sessionSignalCount verifierName s)
                 (zkExternalActionID p) (zkExternalAddress p) metadata (zkRelayOrZero p) calldataHash (zsStealth s)
                 (zkCreation p) (zkHookData p)
                 (if hasPrefix verifierName ''mainEVMCircuitMin0'' then Some (bigString (zsOutTimeStamp s)) else None)
                 (GetSlippageValues amountChangesBased) (zkFeeStructure p) DefaultSignatureData (zkOriginalSender p)) (\<lambda>circomData.
        Ok \<lparr>zrCallData = mcCallData main, zrCircomData = circomData,
            zrDimData = \<lparr>dmTokenNumber = length ins, dmNullifierAmount = (case ins of [] \<Rightarrow> 0 | us # _ \<Rightarrow> length us),
              dmOutputAmount = (case outs of [] \<Rightarrow> 0 | us # _ \<Rightarrow> length us)\<rparr>,
            zrEncryptedOutputs = zsEncryptedOutputs s, zrCommitment = mcCommitment main\<rparr>))"

definition ConstructZkProof :: "'k zkEnv \<Rightarrow> zkParams \<Rightarrow> (userKeys, zkResult) action" where
  "ConstructZkProof E p =
     (let C = zeCrypto E; ins = zkInputUtxos p; outs = zkOutputUtxos p in
      bindA (liftA (GetZkProofVerifierName ins outs)) (\<lambda>verifierName.
      bindA (liftA (CalcAmountChanges C ins outs False)) (\<lambda>amountChanges.
      bindA (liftA (firstTokens ins)) (\<lambda>tokens.
      bindA (liftA (CalcEncryptedOutputs C (zeSealRand E) outs)) (\<lambda>encryptedOutputs.
      bindA (GetShieldedPrivateKey C) (\<lambda>nullifyingPrivateKey.
      bindA (GetSpendingKeyPair C) (\<lambda>(privSpending, pub).
      (let spending = [fst pub, snd pub] in
      bindA (liftA (zkSessionOf E p amountChanges tokens encryptedOutputs nullifyingPrivateKey spending)) (\<lambda>s.
      bindA (liftA (sessionHashes E p verifierName s)) (\<lambda>(amountChangesBased, metadata, calldataHash, signedMessageHash).
      bindA (SignEddsa C signedMessageHash) (\<lambda>sig.
      bindA (GenerateMainAndCommitmentZkProof E (zkChain p) tokens ins verifierName
               (if hasPrefix verifierName ''mainEVMCircuitMin0'' then min0InputOf s calldataHash
                else mainInputOf p nullifyingPrivateKey spending s calldataHash signedMessageHash sig)
               (zkGenerateProofRemotely p)) (\<lambda>main.
        liftA (sessionResult E p verifierName s amountChangesBased metadata calldataHash main)))))))))))))"

end
