(* ===== verification/EmporiumProps.thy ===== *)
theory EmporiumProps
  imports Emporium PreTransactionProps
begin

text \<open>
  What the Emporium operations promise: the text of an operation reads back as the call it stands for,
  and the operations of a bridge give the router exactly the native value it is called with.
\<close>

subsection \<open>An operation and its call\<close>

text \<open>\<open>common.FromHex\<close> reads hex with a \<open>0x\<close> in front.\<close>

definition hexLaw :: "cryptoLib \<Rightarrow> bool" where
  "hexLaw C \<longleftrightarrow> (\<forall>bs. fromHex C (''0x'' @ hexEncode bs) = bs)"

definition opValue :: "int option \<Rightarrow> int" where
  "opValue v = (case v of None \<Rightarrow> 0 | Some n \<Rightarrow> n)"

lemma EmporiumOp_Ok:
  assumes "EmporiumOp C contract callData invoke v = Ok op"
  obtains vb where "length (fromHex C contract) = 20" "0 \<le> opValue v" "length vb = 16" "setBytes vb = opValue v"
    "op = ''0x'' @ hexEncode (fromHex C contract @ [if invoke then 1 else 0] @ vb @ fromHex C callData)"
proof -
  have len: "length (fromHex C contract) = 20" and range: "\<not> (opValue v < 0 \<or> 128 < bitLen (opValue v))"
    using assms by (auto simp: EmporiumOp_def Let_def opValue_def split: if_splits)
  have "andThen (fillBytes (opValue v) 16) (\<lambda>vb.
      Ok (''0x'' @ hexEncode (fromHex C contract @ [if invoke then 1 else 0] @ vb @ fromHex C callData))) = Ok op"
    using assms unfolding EmporiumOp_def Let_def opValue_def [symmetric] if_not_P [OF range] by (simp only: len simp_thms if_False)
  then obtain vb where vb: "fillBytes (opValue v) 16 = Ok vb"
      and op: "op = ''0x'' @ hexEncode (fromHex C contract @ [if invoke then 1 else 0] @ vb @ fromHex C callData)"
    unfolding andThen_eq_Ok by blast
  show ?thesis
    using that [OF len _ fillBytes_Ok_length [OF vb] _ op] setBytes_fillBytes [OF vb] range by simp
qed

definition callOf :: "cryptoLib \<Rightarrow> string \<Rightarrow> string \<Rightarrow> string \<Rightarrow> string \<Rightarrow> bool \<Rightarrow> int option \<Rightarrow> callInfo" where
  "callOf C hinkal wallet contract callData invoke v =
     \<lparr>ciFrom = (if invoke then wallet else hinkal), ciTo = addressHex C (fromHex C contract),
      ciCalldata = ''0x'' @ hexEncode (fromHex C callData), ciValue = Some (opValue v)\<rparr>"

lemma emporium_op_core:
  assumes law: "hexLaw C" and op: "EmporiumOp C contract callData invoke v = Ok op"
    and data: "GetContractData fs chainID cache = (Ok d, cache')"
  shows "ConvertEmporiumOpToCallInfo C fs op wallet chainID cache =
    (Ok (callOf C (ddHinkalAddress d) wallet contract callData invoke v), cache')"
proof -
  obtain vb where vb: "length (fromHex C contract) = 20" "length vb = 16" "setBytes vb = opValue v"
      "op = ''0x'' @ hexEncode (fromHex C contract @ [if invoke then 1 else 0] @ vb @ fromHex C callData)"
    using EmporiumOp_Ok [OF op] by metis
  have bytes: "fromHex C op = fromHex C contract @ [if invoke then 1 else 0] @ vb @ fromHex C callData"
    using law unfolding vb(4) hexLaw_def by blast
  show ?thesis
    using data vb(1-3) by (simp add: ConvertEmporiumOpToCallInfo_def bytes bindA_def liftA_def callOf_def nth_append)
qed

text \<open>C31: an Emporium operation reads back as the call it was made for: the contract, the call data, the
  value, and as caller the wallet when the operation runs in it and the Hinkal contract otherwise.
\<close>

theorem emporium_op_roundtrip:
  assumes "hexLaw C" and "EmporiumOp C contract callData invoke v = Ok op"
    and "GetContractData fs chainID cache = (Ok d, cache')"
  shows "ConvertEmporiumOpToCallInfo C fs op wallet chainID cache =
    (Ok \<lparr>ciFrom = (if invoke then wallet else ddHinkalAddress d), ciTo = addressHex C (fromHex C contract),
         ciCalldata = ''0x'' @ hexEncode (fromHex C callData),
         ciValue = Some (case v of None \<Rightarrow> 0 | Some n \<Rightarrow> n)\<rparr>, cache')"
  using emporium_op_core [OF assms] by (simp add: callOf_def opValue_def)

lemma toy_hexLaw: "hexLaw toyCrypto"
  by (simp add: hexLaw_def toyCrypto_def trimPrefix_def hasPrefix_def)

definition toyDeploy :: deployData where
  "toyDeploy = \<lparr>ddHinkalAddress = ''0xh'', ddHinkalHelperAddress = [], ddEmporiumAddress = [], ddHinkalWalletAddress = [],
     ddHinkalWrapperAddress = [], ddUniswapExternalActionAddress = [], ddOdosExternalActionInstanceAddress = [],
     ddOneInchExternalActionInstanceAddress = [], ddDepositOnChainUtxosExternalActionAddress = [],
     ddOriginalDeployer = [], ddHinkalABI = ''abi''\<rparr>"

definition toyFiles :: deployFiles where
  "toyFiles = \<lparr>readDeploy = Ok, decodeDeploy = (\<lambda>_. Ok toyDeploy)\<rparr>"

lemma toy_contract: "\<exists>c. GetContractData toyFiles 1 Map.empty = (Ok (toyDeploy\<lparr>ddHinkalABI := []\<rparr>), c)"
  by (simp add: GetContractData_def loadDeployData_def bindA_def liftA_def toyFiles_def toyDeploy_def
      deployDataFileByChain_def idEthMainnet_def)

definition toyTarget :: string where
  "toyTarget = ''0x'' @ hexEncode (replicate 20 7)"

lemma toy_op: "0 \<le> opValue v \<Longrightarrow> opValue v < 2 ^ 128 \<Longrightarrow> \<exists>op. EmporiumOp toyCrypto toyTarget callData invoke v = Ok op"
proof -
  assume v: "0 \<le> opValue v" "opValue v < 2 ^ 128"
  have "fromHex toyCrypto toyTarget = replicate 20 7"
    using toy_hexLaw by (simp add: toyTarget_def hexLaw_def)
  moreover have "nat (opValue v) < 2 ^ 128" using v by (simp add: nat_less_iff)
  then have "bitLen (opValue v) \<le> 128" and "fillBytes (opValue v) 16 = Ok (natToBE 16 (nat (opValue v)))"
    using v by (simp_all add: bitLen_def natBitLen_le_iff fillBytes_def)
  ultimately show ?thesis using v by (simp add: EmporiumOp_def Let_def opValue_def [symmetric])
qed

theorem emporium_op_roundtrip_witness:
  "\<exists>op c. EmporiumOp toyCrypto toyTarget (''0x'' @ hexEncode [1, 2]) True (Some 258) = Ok op \<and>
     ConvertEmporiumOpToCallInfo toyCrypto toyFiles op ''0xw'' 1 Map.empty =
       (Ok \<lparr>ciFrom = ''0xw'', ciTo = addressHex toyCrypto (replicate 20 7), ciCalldata = ''0x0102'', ciValue = Some 258\<rparr>, c)"
proof -
  obtain op where op: "EmporiumOp toyCrypto toyTarget (''0x'' @ hexEncode [1, 2]) True (Some 258) = Ok op"
    using toy_op [of "Some 258"] by (auto simp: opValue_def)
  obtain c where c: "GetContractData toyFiles 1 Map.empty = (Ok (toyDeploy\<lparr>ddHinkalABI := []\<rparr>), c)"
    using toy_contract by blast
  have "fromHex toyCrypto toyTarget = replicate 20 7" "fromHex toyCrypto (''0x'' @ hexEncode [1, 2]) = [1, 2]"
    using toy_hexLaw unfolding toyTarget_def hexLaw_def by blast+
  moreover have "''0x'' @ hexEncode [1, 2] = ''0x0102''" by code_simp
  ultimately show ?thesis
    using emporium_op_roundtrip [OF toy_hexLaw op c, of "''0xw''"] op by auto
qed

subsection \<open>Operations of a bridge\<close>

lemma transfer_native:
  "equalFold token ZeroAddress \<Longrightarrow> CreateTransferToEmporiumOp C V token to amount invoke = EmporiumOp C to [] invoke (Some amount)"
  by (simp add: CreateTransferToEmporiumOp_def)

text \<open>The operations of a bridge end with the call of the router from the wallet. Its native value is the
  native fee, plus the bridged amount for a native token; for another token with a fee, the wallet
  is funded with exactly that fee before.
\<close>

theorem bridge_ops_fund_the_call:
  assumes law: "hexLaw C" and data: "GetContractData fs chainID cache = (Ok d, cache')"
    and ops: "CreateLifiBridgeOps C V wallet router token fundAmount bridgeAmount quote = Ok ops"
  defines "fee \<equiv> (case bqNativeFee quote of None \<Rightarrow> 0 | Some n \<Rightarrow> n)"
  shows "ops \<noteq> [] \<and>
    ConvertEmporiumOpToCallInfo C fs (last ops) wallet chainID cache =
      (Ok \<lparr>ciFrom = wallet, ciTo = addressHex C (fromHex C router), ciCalldata = ''0x'' @ hexEncode (fromHex C (bqCalldata quote)),
           ciValue = Some (if equalFold token ZeroAddress then fee + bridgeAmount else fee)\<rparr>, cache') \<and>
    (0 < fee \<and> \<not> equalFold token ZeroAddress \<longrightarrow>
      (\<exists>op\<in>set (butlast ops). ConvertEmporiumOpToCallInfo C fs op wallet chainID cache =
        (Ok \<lparr>ciFrom = ddHinkalAddress d, ciTo = addressHex C (fromHex C wallet), ciCalldata = ''0x'' @ hexEncode (fromHex C []),
             ciValue = Some fee\<rparr>, cache')))"
proof -
  let ?native = "if equalFold token ZeroAddress then fee + bridgeAmount else fee"
  let ?with = "0 < fee \<and> \<not> equalFold token ZeroAddress"
  obtain funds bridge where funds: "GenerateFundAndApproveOps C V (if ?with then [token, ZeroAddress] else [token])
        (if ?with then [fundAmount, fee] else [fundAmount]) [token] [bridgeAmount] wallet router = Ok funds"
      and bridge: "EmporiumOp C router (bqCalldata quote) True (if ?native = 0 then None else Some ?native) = Ok bridge"
      and all: "ops = funds @ [bridge]"
    using ops unfolding CreateLifiBridgeOps_def Let_def fee_def by (auto simp: res_simps)
  have opv: "opValue (if ?native = 0 then None else Some ?native) = ?native" by (simp add: opValue_def)
  note call = emporium_op_core [OF law bridge data, of wallet, unfolded callOf_def opv]
  have "\<exists>op\<in>set funds. ConvertEmporiumOpToCallInfo C fs op wallet chainID cache =
        (Ok \<lparr>ciFrom = ddHinkalAddress d, ciTo = addressHex C (fromHex C wallet), ciCalldata = ''0x'' @ hexEncode (fromHex C []),
             ciValue = Some fee\<rparr>, cache')" if fee: "?with"
  proof -
    obtain op where "EmporiumOp C wallet [] False (Some fee) = Ok op" "op \<in> set funds"
      using funds fee
      by (auto simp: GenerateFundAndApproveOps_def res_simps transfer_native split: if_splits)
    then show ?thesis
      using emporium_op_core [OF law _ data, of wallet "[]" False "Some fee" op wallet] by (auto simp: callOf_def opValue_def)
  qed
  then show ?thesis using call by (simp add: all)
qed

definition toyEvm :: "string evmLib" where
  "toyEvm = \<lparr>evKey = Ok, evAddress = (\<lambda>k. k), evSign = (\<lambda>d k. Ok (replicate 65 1)), evHashDomain = (\<lambda>n a. Ok [1]),
     evHashMessage = (\<lambda>m ops. Ok [2]), evPackMetadata = (\<lambda>m. Ok (concat (emOps m))), evPackCall = (\<lambda>f a n. Ok [3])\<rparr>"

theorem bridge_ops_fund_the_call_witness:
  "\<exists>ops c. CreateLifiBridgeOps toyCrypto toyEvm toyTarget toyTarget ZeroAddress 5 3 \<lparr>bqCalldata = [], bqNativeFee = Some 4\<rparr> = Ok ops \<and>
     ciValue (case ConvertEmporiumOpToCallInfo toyCrypto toyFiles (last ops) toyTarget 1 Map.empty of (Ok ci, c') \<Rightarrow> ci) = Some 7"
proof -
  obtain op1 op2 where op1: "EmporiumOp toyCrypto toyTarget [] False (Some 5) = Ok op1"
      and op2: "EmporiumOp toyCrypto toyTarget [] True (Some 7) = Ok op2"
    using toy_op [of "Some 5" "[]" False] toy_op [of "Some 7" "[]" True] by (auto simp: opValue_def)
  have "toyTarget \<noteq> []" by (simp add: toyTarget_def)
  then have ops: "CreateLifiBridgeOps toyCrypto toyEvm toyTarget toyTarget ZeroAddress 5 3 \<lparr>bqCalldata = [], bqNativeFee = Some 4\<rparr> = Ok [op1, op2]"
    by (simp add: CreateLifiBridgeOps_def GenerateFundAndApproveOps_def transfer_native op1 op2)
  obtain c where c: "GetContractData toyFiles 1 Map.empty = (Ok (toyDeploy\<lparr>ddHinkalABI := []\<rparr>), c)"
    using toy_contract by blast
  show ?thesis using bridge_ops_fund_the_call [OF toy_hexLaw c ops] ops by auto
qed

end
