(* ===== verification/ZkProofProps.thy ===== *)
theory ZkProofProps
  imports ConstructProof EmporiumProps MerklePaths PaddingProps SolanaDataProps
begin

text \<open>
  What the inputs of a proof promise: they describe the transaction they are made from, the paths of the
  inputs lead to the root hash, the message that is signed fixes every public value, and a validated
  input belongs to the wallet.
\<close>

subsection \<open>Indexed loops\<close>

lemma mapRes_enumerate:
  "mapRes f (enumerate n xs) = Ok ys \<longleftrightarrow> length ys = length xs \<and> (\<forall>i<length xs. f (n + i, xs ! i) = Ok (ys ! i))"
  by (auto simp: mapRes_Ok_iff list_all2_conv_all_nth nth_enumerate_eq)

lemma mapRes_nth: "mapRes f xs = Ok ys \<longleftrightarrow> length ys = length xs \<and> (\<forall>i<length xs. f (xs ! i) = Ok (ys ! i))"
  by (auto simp: mapRes_Ok_iff list_all2_conv_all_nth)

text \<open>A grid of texts made utxo by utxo.\<close>

definition gridOf :: "('a \<Rightarrow> 'b \<Rightarrow> bool) \<Rightarrow> 'a list list \<Rightarrow> 'b list list \<Rightarrow> bool" where
  "gridOf P = list_all2 (list_all2 P)"

lemma grid_mapRes: "mapRes (mapRes f) xss = Ok yss \<longleftrightarrow> gridOf (\<lambda>x y. f x = Ok y) xss yss"
  by (simp add: gridOf_def mapRes_Ok_iff)

lemma gridOf_mono: "gridOf P xss yss \<Longrightarrow> (\<And>x y. P x y \<Longrightarrow> Q x y) \<Longrightarrow> gridOf Q xss yss"
  unfolding gridOf_def by (erule list_all2_mono) (erule list_all2_mono, blast)

lemma gridOf_nth:
  "gridOf P xss yss \<Longrightarrow> i < length xss \<Longrightarrow> j < length (xss ! i) \<Longrightarrow>
    length yss = length xss \<and> length (yss ! i) = length (xss ! i) \<and> P (xss ! i ! j) (yss ! i ! j)"
  by (auto simp: gridOf_def list_all2_conv_all_nth)

subsection \<open>Amounts\<close>

definition totalOf :: "utxo list \<Rightarrow> int" where
  "totalOf us = sum_list (map amountOf us)"

definition changeAt :: "utxo list list \<Rightarrow> utxo list list \<Rightarrow> nat \<Rightarrow> int" where
  "changeAt ins outs i = (if i < length outs then totalOf (outs ! i) else 0) - totalOf (ins ! i)"

lemma sumAmounts_totalOf: "sumAmounts us = Ok t \<Longrightarrow> t = totalOf us"
  using sumAmounts_total by (simp add: totalOf_def)

lemma CalcAmountChanges_nth:
  assumes "CalcAmountChanges C ins outs forData = Ok cs"
  shows "length cs = length ins \<and> (\<forall>i<length ins. cs ! i =
    (if changeAt ins outs i < 0 \<and> \<not> forData then fieldP C + changeAt ins outs i else changeAt ins outs i))"
proof -
  have len: "length cs = length ins" and run: "\<And>i. i < length ins \<Longrightarrow>
      andThen (sumAmounts (ins ! i)) (\<lambda>inTotal.
      andThen (if i < length outs then sumAmounts (outs ! i) else Ok 0) (\<lambda>outTotal.
        Ok (amountChange C forData inTotal outTotal))) = Ok (cs ! i)"
    using assms unfolding CalcAmountChanges_def mapRes_enumerate by auto
  have "cs ! i = (if changeAt ins outs i < 0 \<and> \<not> forData then fieldP C + changeAt ins outs i else changeAt ins outs i)"
    if "i < length ins" for i
    using run [OF that]
    by (auto simp: res_simps amountChange_def changeAt_def Let_def dest!: sumAmounts_totalOf split: if_splits)
  then show ?thesis using len by blast
qed

text \<open>C29: the amount changes of a proof are the outputs less the inputs of each token, as numbers in the
  data of the transaction and modulo the field in the circuit; a change between minus the field and
  the field is a field element there, and the slippage values are the changes that are paid.
\<close>

theorem amount_changes_of_totals:
  assumes "CalcAmountChanges C ins outs False = Ok cs" and "CalcAmountChanges C ins outs True = Ok ds" and "0 < fieldP C"
  shows "length cs = length ins \<and> length ds = length ins \<and> (\<forall>i<length ins.
    ds ! i = changeAt ins outs i \<and> cs ! i mod fieldP C = ds ! i mod fieldP C \<and>
    (\<bar>ds ! i\<bar> < fieldP C \<longrightarrow> 0 \<le> cs ! i \<and> cs ! i < fieldP C) \<and>
    GetSlippageValues ds ! i = min 0 (ds ! i))"
  using CalcAmountChanges_nth [OF assms(1)] CalcAmountChanges_nth [OF assms(2)]
  by (auto simp: GetSlippageValues_def)

definition toyOut :: utxo where
  "toyOut = toyUtxo\<lparr>uxAmount := Some 20\<rparr>"

lemma toy_amounts: "uxAmount toyUtxo = Some 25" "uxAmount toyOut = Some 20" "amountOf toyUtxo = 25" "amountOf toyOut = 20"
  by (simp_all add: toyUtxo_def toyOut_def amountOf_def)

theorem amount_changes_of_totals_witness:
  "CalcAmountChanges toyCrypto [[toyUtxo]] [[toyOut]] False = Ok [92] \<and> (92::int) mod 97 = (- 5) mod 97 \<and>
   GetSlippageValues [- 5] ! 0 = min 0 (- 5)"
proof -
  have P: "fieldP toyCrypto = 97" by (simp add: toyCrypto_def)
  have runs: "CalcAmountChanges toyCrypto [[toyUtxo]] [[toyOut]] False = Ok [92]"
      "CalcAmountChanges toyCrypto [[toyUtxo]] [[toyOut]] True = Ok [- 5]"
    by (simp_all add: CalcAmountChanges_def toy_amounts amountChange_def P)
  show ?thesis using amount_changes_of_totals [OF runs] runs P by simp
qed

subsection \<open>Paths of inputs\<close>

lemma siblingsOf_Ok:
  assumes "siblingsOf C m u = Ok (hs, ss)"
  obtains c v hsn ssn where "fst (GetCommitment C u) = Ok c" "ParseBigInt c = Ok v"
    "GetSiblingHashesForVerification m v = Some (Ok hsn)" "GetSiblingSides m v = Some (Ok ssn)"
    "hs = map bigString hsn" "ss = map bigString ssn"
proof -
  have ret: "returned r = Ok x \<longleftrightarrow> r = Some (Ok x)" for r :: "int list res option" and x by (cases r) auto
  show ?thesis using assms that unfolding siblingsOf_def by (auto simp: res_simps ret)
qed

lemma siblings_grid:
  "CalcCommitmentsSiblingAndSides C ins m = Ok (S, T) \<Longrightarrow>
   \<exists>pairs. gridOf (\<lambda>u q. siblingsOf C m u = Ok q) ins pairs \<and> S = map (map fst) pairs \<and> T = map (map snd) pairs"
  by (auto simp: CalcCommitmentsSiblingAndSides_def res_simps grid_mapRes)

text \<open>C6: when the proof is built on the local tree, the siblings and sides sent for an input whose
  commitment is in the tree are the texts of a path that hashes its commitment up to the root hash
  that is sent beside them.
\<close>

theorem input_paths_reach_root:
  assumes tree: "merkleReach h d lvls m" "mtCount m = mtIndex m - GetStartIndex m" "0 < mtCount m"
      "treeDepth m \<le> CircomMerkleLength" "merkleSpec h d (treeDepth m) (leaves m) \<noteq> 0"
    and data: "handleLocalMerkleTrees C (Some m) ins = Ok (S, T, root)"
    and i: "i < length ins" and j: "j < length (ins ! i)"
    and c: "fst (GetCommitment C (ins ! i ! j)) = Ok c" "ParseBigInt c = Ok v"
    and leaf: "leafMap m ix = Some v" "map_of (reverseTree m) (bigString v) = Some ix"
  shows "\<exists>hs ss. S ! i ! j = map bigString hs \<and> T ! i ! j = map bigString ss \<and>
    pathFold h v (take (treeDepth m) (zip hs ss)) = root"
proof -
  have root: "root = merkleSpec h d (treeDepth m) (leaves m)" and calc: "CalcCommitmentsSiblingAndSides C ins m = Ok (S, T)"
    using data merkle_root_core [OF tree(1-3,5)] by (auto simp: handleLocalMerkleTrees_def res_simps)
  obtain pairs where g: "gridOf (\<lambda>u q. siblingsOf C m u = Ok q) ins pairs" and S: "S = map (map fst) pairs" and T: "T = map (map snd) pairs"
    using siblings_grid [OF calc] by blast
  have n: "length pairs = length ins" "length (pairs ! i) = length (ins ! i)" "siblingsOf C m (ins ! i ! j) = Ok (pairs ! i ! j)"
    using gridOf_nth [OF g i j] by auto
  obtain hs ss where p: "siblingsOf C m (ins ! i ! j) = Ok (hs, ss)" "pairs ! i ! j = (hs, ss)"
    using n(3) by (cases "pairs ! i ! j") auto
  obtain hsn ssn where r: "GetSiblingHashesForVerification m v = Some (Ok hsn)" "GetSiblingSides m v = Some (Ok ssn)"
      "hs = map bigString hsn" "ss = map bigString ssn"
    using siblingsOf_Ok [OF p(1)] c by (metis res.inject(1))
  have "S ! i ! j = hs" "T ! i ! j = ss" using n i j p(2) by (simp_all add: S T)
  moreover have "pathFold h v (take (treeDepth m) (zip hsn ssn)) = root"
    using sibling_path_core [OF tree(1,2,4) leaf] r by (simp add: root)
  ultimately show ?thesis using r(3,4) by blast
qed

text \<open>An input whose commitment was cached as the number of a leaf.\<close>

definition leafUtxo :: utxo where
  "leafUtxo = toyUtxo\<lparr>uxCommitment := bigString 7\<rparr>"

theorem input_paths_reach_root_witness:
  "\<exists>S T root hs ss. handleLocalMerkleTrees toyCrypto (Some exampleTree) [[leafUtxo]] = Ok (S, T, root) \<and>
     S ! 0 ! 0 = map bigString hs \<and> T ! 0 ! 0 = map bigString ss \<and> pathFold exampleHash 7 (take 1 (zip hs ss)) = root"
proof -
  have v: "treeDepth exampleTree = 1" "leaves exampleTree = [5, 7]"
    "mtCount exampleTree = mtIndex exampleTree - GetStartIndex exampleTree" "0 < mtCount exampleTree"
    "leafMap exampleTree 9 = Some 7" "map_of (reverseTree exampleTree) (bigString 7) = Some 9"
    by code_simp+
  have nz: "merkleSpec exampleHash 0 (treeDepth exampleTree) (leaves exampleTree) \<noteq> 0" unfolding v by code_simp
  have len: "treeDepth exampleTree \<le> CircomMerkleLength" by (simp add: v CircomMerkleLength_def)
  have c: "fst (GetCommitment toyCrypto ([[leafUtxo]] ! 0 ! 0)) = Ok (bigString 7)" "ParseBigInt (bigString 7) = Ok 7"
    by (simp_all add: GetCommitment_def leafUtxo_def)
  obtain hs ss where p: "GetSiblingHashesForVerification exampleTree 7 = Some (Ok hs)" "GetSiblingSides exampleTree 7 = Some (Ok ss)"
    using sibling_path_core [OF exampleTree_reach v(3) len v(5,6)] by blast
  have "siblingsOf toyCrypto exampleTree leafUtxo = Ok (map bigString hs, map bigString ss)"
    using c p by (simp add: siblingsOf_def)
  then obtain S T root where data: "handleLocalMerkleTrees toyCrypto (Some exampleTree) [[leafUtxo]] = Ok (S, T, root)"
    using merkle_root_core [OF exampleTree_reach v(3,4) nz]
    by (simp add: handleLocalMerkleTrees_def CalcCommitmentsSiblingAndSides_def)
  show ?thesis
    using input_paths_reach_root [OF exampleTree_reach v(3,4) len nz data _ _ c v(5,6)] data v(1) by auto
qed

subsection \<open>The data of a transaction\<close>

lemma zeroOr_Ok: "zeroOr u r = Ok s \<longleftrightarrow> (\<exists>a. uxAmount u = Some a \<and> (if a = 0 then s = ''0'' else r = Ok s))"
  by (cases "uxAmount u") (auto simp: zeroOr_def)

lemma ConstructZkProof_Ok:
  assumes "ConstructZkProof E p k = (Ok r, k')"
  obtains verifierName cs tokens encs nk pub s ds metadata h signed main where
    "GetZkProofVerifierName (zkInputUtxos p) (zkOutputUtxos p) = Ok verifierName"
    "firstTokens (zkInputUtxos p) = Ok tokens"
    "CalcEncryptedOutputs (zeCrypto E) (zeSealRand E) (zkOutputUtxos p) = Ok encs"
    "zkSessionOf E p cs tokens encs nk pub = Ok s"
    "sessionHashes E p verifierName s = Ok (ds, metadata, h, signed)"
    "sessionResult E p verifierName s ds metadata h main = Ok r"
  using assms unfolding ConstructZkProof_def Let_def
  by (auto simp: res_simps split: prod.splits)

lemma session_data:
  assumes "zkSessionOf E p cs tokens encs nk spending = Ok s"
  shows "zsTokens s = tokens \<and> zsEncryptedOutputs s = encs \<and>
    BuildOutCommitments (zeCrypto E) (zkOutputUtxos p) = Ok (zsOutCommitments s) \<and>
    buildInNullifiersByAmount (zeCrypto E) (zkInputUtxos p) = Ok (mdNullifiers (zsData s))"
  using assms unfolding zkSessionOf_def Let_def
  by (auto simp: res_simps GetDataFromWorkers_def)

lemma firstTokens_Ok: "firstTokens ins = Ok tokens \<Longrightarrow> tokens = map (\<lambda>us. uxErc20 (hd us)) ins"
  by (induction ins arbitrary: tokens) (auto simp: firstTokens_def res_simps split: list.splits)

lemma described_utxos:
  assumes run: "ConstructZkProof E p k = (Ok r, k')"
  defines "ins \<equiv> zkInputUtxos p" and "outs \<equiv> zkOutputUtxos p" and "cd \<equiv> zrCircomData r"
  shows "cdErc20TokenAddresses cd = map (\<lambda>us. uxErc20 (hd us)) ins \<and>
    cdAmountChanges cd = map (changeAt ins outs) [0..<length ins] \<and>
    cdSlippageValues cd = map (\<lambda>i. min 0 (changeAt ins outs i)) [0..<length ins] \<and>
    gridOf (\<lambda>u n. if uxAmount u = Some 0 then n = ''0'' else fst (GetNullifier (zeCrypto E) u) = Ok n) ins (cdInputNullifiers cd) \<and>
    gridOf (\<lambda>u c. if uxAmount u = Some 0 then c = ''0'' else fst (GetCommitment (zeCrypto E) u) = Ok c) outs (cdOutCommitments cd) \<and>
    cdEncryptedOutputs cd = zrEncryptedOutputs r \<and>
    zrDimData r = \<lparr>dmTokenNumber = length ins, dmNullifierAmount = (if ins = [] then 0 else length (hd ins)),
      dmOutputAmount = (if outs = [] then 0 else length (hd outs))\<rparr> \<and>
    cdFeeStructure cd = zkFeeStructure p \<and> cdRelay cd = zkRelayOrZero p \<and> cdExternalAddress cd = orZeroAddress (zkExternalAddress p)"
proof -
  obtain verifierName cs tokens encs nk spending s ds metadata h signed main where
      tokens: "firstTokens ins = Ok tokens"
      and s: "zkSessionOf E p cs tokens encs nk spending = Ok s"
      and hashes: "sessionHashes E p verifierName s = Ok (ds, metadata, h, signed)"
      and result: "sessionResult E p verifierName s ds metadata h main = Ok r"
    using ConstructZkProof_Ok [OF run] unfolding ins_def by metis
  note sd = session_data [OF s]
  have "CalcAmountChanges (zeCrypto E) ins outs True = Ok ds"
    using hashes unfolding sessionHashes_def Let_def ins_def outs_def by (auto simp: res_simps)
  then have ds: "ds = map (changeAt ins outs) [0..<length ins]"
    using CalcAmountChanges_nth [of "zeCrypto E" ins outs True ds] by (auto intro!: nth_equalityI)
  have cd: "cdErc20TokenAddresses cd = zsTokens s" "cdAmountChanges cd = ds" "cdSlippageValues cd = GetSlippageValues ds"
      "cdInputNullifiers cd = mdNullifiers (zsData s)" "cdOutCommitments cd = zsOutCommitments s"
      "cdEncryptedOutputs cd = zrEncryptedOutputs r"
      "cdFeeStructure cd = zkFeeStructure p" "cdRelay cd = zkRelayOrZero p" "cdExternalAddress cd = orZeroAddress (zkExternalAddress p)"
    using result unfolding sessionResult_def Let_def cd_def ins_def by (auto simp: res_simps GenerateCircomData_def Let_def)
  have dims: "zrDimData r = \<lparr>dmTokenNumber = length ins, dmNullifierAmount = (if ins = [] then 0 else length (hd ins)),
      dmOutputAmount = (if outs = [] then 0 else length (hd outs))\<rparr>"
    using result unfolding sessionResult_def Let_def ins_def outs_def by (auto simp: res_simps split: list.splits)
  have "gridOf (\<lambda>u n. if uxAmount u = Some 0 then n = ''0'' else fst (GetNullifier (zeCrypto E) u) = Ok n) ins (mdNullifiers (zsData s))"
    using sd unfolding buildInNullifiersByAmount_def grid_mapRes ins_def
    by (auto elim!: gridOf_mono simp: zeroOr_Ok split: if_splits)
  moreover have "gridOf (\<lambda>u c. if uxAmount u = Some 0 then c = ''0'' else fst (GetCommitment (zeCrypto E) u) = Ok c) outs (zsOutCommitments s)"
    using sd unfolding BuildOutCommitments_def grid_mapRes outs_def
    by (auto elim!: gridOf_mono simp: zeroOr_Ok split: if_splits)
  moreover have "GetSlippageValues ds = map (\<lambda>i. min 0 (changeAt ins outs i)) [0..<length ins]"
    by (auto simp: GetSlippageValues_def ds)
  ultimately show ?thesis
    using sd firstTokens_Ok [OF tokens] by (simp add: cd ds dims)
qed

text \<open>C3: the data of a transaction describes its utxos: the tokens of its inputs, the changes of their
  totals and the amounts paid as slippage, a nullifier for each input and a commitment for each
  output, \<open>0\<close> where the amount is zero, and the dimensions of the circuit, which are the number of
  tokens, of inputs per token and of outputs per token (those of the first token).
\<close>

theorem circom_data_describes_utxos:
  assumes run: "ConstructZkProof E p k = (Ok r, k')"
  defines "ins \<equiv> zkInputUtxos p" and "outs \<equiv> zkOutputUtxos p" and "cd \<equiv> zrCircomData r"
  shows "cdErc20TokenAddresses cd = map (\<lambda>us. uxErc20 (hd us)) ins \<and>
    cdAmountChanges cd = map (changeAt ins outs) [0..<length ins] \<and>
    cdSlippageValues cd = map (\<lambda>i. min 0 (changeAt ins outs i)) [0..<length ins] \<and>
    gridOf (\<lambda>u n. if uxAmount u = Some 0 then n = ''0'' else fst (GetNullifier (zeCrypto E) u) = Ok n) ins (cdInputNullifiers cd) \<and>
    gridOf (\<lambda>u c. if uxAmount u = Some 0 then c = ''0'' else fst (GetCommitment (zeCrypto E) u) = Ok c) outs (cdOutCommitments cd) \<and>
    cdEncryptedOutputs cd = zrEncryptedOutputs r \<and>
    zrDimData r = \<lparr>dmTokenNumber = length ins, dmNullifierAmount = (if ins = [] then 0 else length (hd ins)),
      dmOutputAmount = (if outs = [] then 0 else length (hd outs))\<rparr>"
  using described_utxos [OF run] unfolding ins_def outs_def cd_def by blast

subsection \<open>A run of \<open>ConstructZkProof\<close>\<close>

text \<open>Two inputs and one output on a chain whose tree is not kept here, proved by the enclave.\<close>

definition toyPack :: packLib where
  "toyPack = \<lparr>pkCall1 = (\<lambda>n r a x m. Ok m), pkCall2 = (\<lambda>h e f s c g a. Ok [1]),
     pkPair = (\<lambda>a b. Ok [3]), pkMessage = (\<lambda>m. Ok [2])\<rparr>"

definition toyProof :: zkProofResult where
  "toyProof = \<lparr>zpCallData = \<lparr>zcA = (''1'', ''2''), zcB = ((''3'', ''4''), (''5'', ''6'')), zcC = (''7'', ''8''),
     zcPublicSignals = [''9'']\<rparr>, zpPublicSignals = [''9'']\<rparr>"

text \<open>An input of the wallet of \<open>signerKeys\<close>.\<close>

definition ownUtxo :: utxo where
  "ownUtxo = toyUtxo\<lparr>uxStealth := []\<rparr>"

text \<open>The output, encrypted to a recipient.\<close>

definition toyPay :: utxo where
  "toyPay = toySender\<lparr>uxAmount := Some 20\<rparr>"

definition toyZk :: "string zkEnv" where
  "toyZk = \<lparr>zeCrypto = toyCrypto, zePack = toyPack, zeEvm = toyEvm, zeMode = Production, zeSeconds = 1700,
     zeRand = (\<lambda>i n. Ok [50]), zeSealRand = (\<lambda>i j k n. Ok (replicate n 0)), zeOnChainRoot = (\<lambda>c. Ok 5),
     zeFetchSiblings = (\<lambda>c ps. Ok \<lparr>srSiblings = [], srSides = [], srRootHash = bigString 17\<rparr>),
     zeJson = (\<lambda>inputs. Ok []), zeHandshake = (\<lambda>b. Ok (''a'', ''b'')),
     zeProve = (\<lambda>ws zs i k. Ok (replicate (length ws) toyProof))\<rparr>"

definition toyZkParams :: zkParams where
  "toyZkParams = \<lparr>zkMerkleTree = None, zkInputUtxos = [[ownUtxo, ownUtxo]], zkOutputUtxos = [[toyPay]],
     zkExternalActionID = [], zkExternalAddress = [], zkExternalActionMetadata = [], zkGenerateProofRemotely = True,
     zkFeeStructure = ZeroFeeStructure, zkRelay = [], zkChainID = 1, zkOnChainCreation = None, zkHookData = None,
     zkOriginalSender = [], zkSubAccountPrivateKey = []\<rparr>"


lemma toyZk_fields [simp]:
  "zeCrypto toyZk = toyCrypto" "zePack toyZk = toyPack" "zeEvm toyZk = toyEvm" "zeMode toyZk = Production" "zeSeconds toyZk = 1700"
  "zeRand toyZk i = (\<lambda>n. Ok [50])" "zeOnChainRoot toyZk = (\<lambda>c. Ok 5)"
  "zeFetchSiblings toyZk = (\<lambda>c ps. Ok \<lparr>srSiblings = [], srSides = [], srRootHash = bigString 17\<rparr>)"
  "zeJson toyZk inputs = Ok []" "zeHandshake toyZk b = Ok (''a'', ''b'')"
  "zeProve toyZk ws zs inp key = Ok (replicate (length ws) toyProof)"
  "zeSealRand toyZk = (\<lambda>i j k n. Ok (replicate n 0))"
  by (simp_all add: toyZk_def)

lemma toyZkParams_fields [simp]:
  "zkMerkleTree toyZkParams = None" "zkInputUtxos toyZkParams = [[ownUtxo, ownUtxo]]" "zkOutputUtxos toyZkParams = [[toyPay]]"
  "zkExternalActionID toyZkParams = []" "zkExternalAddress toyZkParams = []" "zkExternalActionMetadata toyZkParams = []"
  "zkGenerateProofRemotely toyZkParams" "zkFeeStructure toyZkParams = ZeroFeeStructure" "zkRelay toyZkParams = []"
  "zkChain toyZkParams = 1" "zkOnChainCreation toyZkParams = None" "zkHookData toyZkParams = None"
  "zkOriginalSender toyZkParams = []" "zkSubAccountPrivateKey toyZkParams = []"
  by (simp_all add: toyZkParams_def zkChain_def)

lemma ownUtxo_fields [simp]:
  "uxAmount ownUtxo = Some 25" "uxErc20 ownUtxo = ToBeHex (Some 66)" "uxTimeStamp ownUtxo = bigString 1700"
  "uxNullifyingKey ownUtxo = ToBeHex (Some 11)" "uxSpendingKey ownUtxo = None" "uxRandomization ownUtxo = Some 5"
  "uxH0 ownUtxo = None" "uxStealth ownUtxo = []" "\<not> uxIsNewStyle ownUtxo" "uxCommitment ownUtxo = []" "uxNullifier ownUtxo = []"
  by (simp_all add: ownUtxo_def toyUtxo_def)

lemma toyPay_fields [simp]:
  "uxAmount toyPay = Some 20" "uxErc20 toyPay = ToBeHex (Some 66)" "uxTimeStamp toyPay = bigString 1700"
  "uxStealth toyPay = ToBeHex (Some 12)" "uxCommitment toyPay = []" "uxNullifyingKey toyPay = []" "uxMint toyPay = []" "uxH0 toyPay = None" "\<not> uxIsNewStyle toyPay" "uxRandomization toyPay = Some 5"
  "uxEncryptionKey toyPay = ''0x'' @ hexEncode (replicate 32 9)"
  by (simp_all add: toyPay_def toySender_def toyUtxo_def)

lemma toy_poseidon: "\<exists>h\<ge>0. PoseidonBig toyCrypto (map Some xs) = Ok h"
proof -
  obtain hf where hf: "\<And>os. list_all (\<lambda>v. v \<noteq> None) os \<Longrightarrow> PoseidonBig toyCrypto os = Ok (hf os)" "\<And>os. 0 \<le> (hf os :: int)"
    using poseidon_ok [OF toy_hashes] by blast
  have "list_all (\<lambda>v. v \<noteq> None) (map Some xs)" by (simp add: list_all_iff)
  then show ?thesis using hf by blast
qed

lemma toy_adjusted: "adjustedPrivateKey toyCrypto (ToBeHex (Some 11)) = Ok 11"
  by (simp add: adjustedPrivateKey_def circomP_def toyCrypto_def)

lemma own_stealth: "\<exists>n\<ge>0. GetStealthAddress toyCrypto 5 (ToBeHex (Some 11)) = Ok (ToBeHex (Some n))"
proof -
  obtain h0 h1 where pair: "GetRandomizedStealthPairOld toyCrypto 5 (ToBeHex (Some 11)) = Ok (h0, h1)"
    by (simp add: GetRandomizedStealthPairOld_def toy_adjusted Let_def)
  obtain n where "0 \<le> n" "PoseidonBig toyCrypto [Some (2 * getCircomSign toyCrypto (fst h0) + getCircomSign toyCrypto (fst h1)), Some (snd h0), Some (snd h1)] = Ok n"
    using toy_poseidon [of "[2 * getCircomSign toyCrypto (fst h0) + getCircomSign toyCrypto (fst h1), snd h0, snd h1]"] by auto
  then show ?thesis by (auto simp: GetStealthAddress_def pair Let_def)
qed

lemma own_hashes:
  "\<exists>c n st. 0 \<le> c \<and> 0 \<le> n \<and> 0 \<le> st \<and> fst (GetCommitment toyCrypto ownUtxo) = Ok (ToBeHex (Some c)) \<and>
     fst (GetNullifier toyCrypto ownUtxo) = Ok (ToBeHex (Some n)) \<and> fst (GetStealthAddressUtxo toyCrypto ownUtxo) = Ok (ToBeHex (Some st)) \<and>
     GetStealthAddress toyCrypto 5 (ToBeHex (Some 11)) = Ok (ToBeHex (Some st))"
proof -
  obtain st where st: "0 \<le> st" "GetStealthAddress toyCrypto 5 (ToBeHex (Some 11)) = Ok (ToBeHex (Some st))" using own_stealth by blast
  obtain c where c: "0 \<le> c" "PoseidonBig toyCrypto [Some 25, Some 66, Some st, Some 1700] = Ok c"
    using toy_poseidon [of "[25, 66, st, 1700]"] by auto
  obtain g where g: "PoseidonBig toyCrypto [Some 11, Some c] = Ok g" using toy_poseidon [of "[11, c]"] by auto
  obtain n where n: "0 \<le> n" "PoseidonBig toyCrypto [Some c, Some g] = Ok n" using toy_poseidon [of "[c, g]"] by auto
  show ?thesis
    using st c n by (auto simp: GetNullifier_def GetCommitment_def GetStealthAddressUtxo_def bindA_def liftA_def g)
qed

lemma pay_stealth: "GetStealthAddressUtxo toyCrypto toyPay = (Ok (ToBeHex (Some 12)), toyPay)"
  by (simp add: GetStealthAddressUtxo_def)

lemma pay_commitment: "\<exists>c\<ge>0. fst (GetCommitment toyCrypto toyPay) = Ok (ToBeHex (Some c))"
proof -
  obtain c where c: "0 \<le> c" "PoseidonBig toyCrypto [Some 20, Some 66, Some 12, Some 1700] = Ok c"
    using toy_poseidon [of "[20, 66, 12, 1700]"] by auto
  then show ?thesis by (auto simp: GetCommitment_def bindA_def liftA_def pay_stealth)
qed

lemma pay_encrypted: "\<exists>e. CalcEncryptedOutputs toyCrypto (\<lambda>i j k n. Ok (replicate n 0)) [[toyPay]] = Ok [[e]]"
proof -
  have key: "GetEncryptionKey toyCrypto toyPay = Ok (''0x'' @ hexEncode (replicate 32 9))"
    by (simp add: GetEncryptionKey_def)
  have "\<exists>data. EncryptUtxo toyCrypto (\<lambda>k n. Ok (replicate n 0)) toyPay = (Ok data, toyPay)"
    unfolding EncryptUtxo_def bindA_Ok [where m = "GetStealthAddressUtxo toyCrypto", OF pay_stealth] key bindA_liftA_Ok Let_def toyCrypto_fromHex
    by (simp add: utxoFields_def bindA_def liftA_def EncryptSealedKeys_def toyCrypto_def)
  then show ?thesis by (auto simp: CalcEncryptedOutputs_def)
qed

lemma toy_stealth: "\<exists>s. CalcStealthAddressStructure toyCrypto 50 (ToBeHex (Some 11)) [a, b] = Ok s"
proof -
  obtain h0 other where pair: "GetRandomizedStealthPair toyCrypto 50 (ToBeHex (Some 11)) = Ok (h0, other)"
    by (simp add: GetRandomizedStealthPair_def toy_adjusted Let_def)
  obtain h1 where h1: "GetH1FromH0 toyCrypto h0 (ToBeHex (Some 11)) = Ok h1" by (simp add: GetH1FromH0_def toy_adjusted)
  obtain n where "0 \<le> n" "PoseidonBig toyCrypto [Some (2 * getCircomSign toyCrypto (fst h0) + getCircomSign toyCrypto (fst h1)), Some (snd h0), Some (snd h1), Some a, Some b, Some 11] = Ok n"
    using toy_poseidon [of "[2 * getCircomSign toyCrypto (fst h0) + getCircomSign toyCrypto (fst h1), snd h0, snd h1, a, b, 11]"] by auto
  then show ?thesis
    by (simp add: CalcStealthAddressStructure_def pair h1 GetStealthAddressNewStyle_def Let_def)
qed

lemma toy_seed: "RandomBigInt (\<lambda>n. Ok [50]) 31 = Ok 50"
  by (simp add: RandomBigInt_def setBytes_def)

lemma toy_session:
  "\<exists>s. zkSessionOf toyZk toyZkParams cs [ToBeHex (Some 66)] encs (ToBeHex (Some 11)) [a, b] = Ok s"
proof -
  obtain st where st: "CalcStealthAddressStructure toyCrypto 50 (ToBeHex (Some 11)) [a, b] = Ok st" using toy_stealth by blast
  obtain n where n: "fst (GetNullifier toyCrypto ownUtxo) = Ok n" using own_hashes by blast
  obtain c where c: "fst (GetCommitment toyCrypto toyPay) = Ok c" using pay_commitment by blast
  obtain m where m: "PoseidonBig toyCrypto [Some 50] = Ok m" using toy_poseidon [of "[50]"] by auto
  have chain: "\<not> IsLocalNetwork 1" by code_simp
  have data: "isOk (GetDataFromWorkers toyCrypto (\<lambda>c. Ok 5) (\<lambda>c ps. Ok \<lparr>srSiblings = [], srSides = [], srRootHash = bigString 17\<rparr>) 1 None [[ownUtxo, ownUtxo]])"
    by (simp add: GetDataFromWorkers_def GetMerkleTreeSiblingsAndRootHashes_def areLocalTreesUpToDate_def chain
        handleRemoteMerkleTrees_def FetchMerkleTreeSiblings_def buildInNullifiersByAmount_def zeroOr_def n)
  have grids: "isOk (utxoGridsOf toyCrypto [[ownUtxo, ownUtxo]] [[toyPay]])"
    by (simp add: utxoGridsOf_def mapUtxoStrings_def GetUtxoCircuitInRandomization_def GetUtxoCircuitH0Coords_def pay_stealth)
  show ?thesis
    using data grids unfolding isOk_iff
    by (auto simp: zkSessionOf_def toy_seed toy_randomization st m BuildOutCommitments_def outTimeStampOf_def zeroOr_def c)
qed

lemma toy_hash:
  assumes "zkSessionOf toyZk toyZkParams cs [ToBeHex (Some 66)] encs (ToBeHex (Some 11)) [a, b] = Ok s"
  shows "\<exists>m h g. sessionHashes toyZk toyZkParams v s = Ok ([- 30], m, h, g)"
proof -
  obtain n where nul: "0 \<le> n" "fst (GetNullifier toyCrypto ownUtxo) = Ok (ToBeHex (Some n))" using own_hashes by blast
  obtain c where com: "0 \<le> c" "fst (GetCommitment toyCrypto toyPay) = Ok (ToBeHex (Some c))" using pay_commitment by blast
  have n: "zsTokens s = [ToBeHex (Some 66)]" "mdNullifiers (zsData s) = [[ToBeHex (Some n), ToBeHex (Some n)]]"
      "zsOutCommitments s = [[ToBeHex (Some c)]]"
    using session_data [OF assms] nul com by (simp_all add: buildInNullifiersByAmount_def zeroOr_def BuildOutCommitments_def)
  have "isOk (ParseBigInt zeroIn32Bytes)" by code_simp
  then have sig: "isOk (signatureDataToTuple toyCrypto DefaultSignatureData)"
    unfolding isOk_iff by (auto simp: signatureDataToTuple_def DefaultSignatureData_def)
  then obtain t where t: "signatureDataToTuple toyCrypto DefaultSignatureData = Ok t" unfolding isOk_iff by blast
  show ?thesis
    by (simp add: sessionHashes_def Let_def CalcAmountChanges_def amountChange_def actionMetadata_def EncodeEmporiumMetadata_def
       toyEvm_def toyPack_def CreateCallDataHash_def t ComputeSignedMessageHashEvm_def addressesToBigInts_def flatToBigInts_def n
       nul(1) com(1) sessionMessage_def)
qed
lemma toy_eddsa: "\<exists>sig. SignEddsa toyCrypto h signerKeys = (Ok sig, signerKeys)"
proof -
  obtain a b where p: "GetSpendingKeyPair toyCrypto signerKeys = (Ok (a, b), signerKeys)" using signer_pair by blast
  have "\<exists>sig. EddsaSignPoseidon toyCrypto k m = Ok sig" for k m
  proof -
    have "\<exists>x. PoseidonBig toyCrypto [Some a, Some b, Some c, Some d, Some e] = Ok x" for a b c d e
      using toy_poseidon [of "[a, b, c, d, e]"] by auto
    then show ?thesis unfolding EddsaSignPoseidon_def Let_def by (metis andThen.simps(1))
  qed
  then obtain sig where sig: "EddsaSignPoseidon toyCrypto (fromHex toyCrypto a) (h mod fieldP toyCrypto) = Ok sig" by blast
  have "requireSignature signerKeys = (Ok (), signerKeys)" by (simp add: requireSignature_def signerKeys_def)
  then show ?thesis by (simp add: SignEddsa_def bindA_def liftA_def p sig)
qed
lemma toy_build:
  "\<exists>b. BuildCommitmentValidationData toyCrypto 1 [ToBeHex (Some 66)] [[ownUtxo, ownUtxo]] signerKeys = (Ok (Some b), signerKeys) \<and>
     cbVerifierName b = ''commitmentCalculator1x2''"
proof -
  obtain priv a b where pair: "GetSpendingKeyPair toyCrypto signerKeys = (Ok (priv, a, b), signerKeys)" using signer_pair by (metis surj_pair)
  have chain: "\<not> IsSolanaLike 1" by code_simp
  have one: "bigString 1 = ''1''" "bigString 2 = ''2''" by code_simp+
  have inputs: "isOk (utxoInputs toyCrypto (ToBeHex (Some 11)) [a, b] [[ownUtxo, ownUtxo]])"
    using own_hashes
    by (auto simp: utxoInputs_def utxoInputOf_def GetUtxoCircuitInRandomization_def GetUtxoCircuitH0Coords_def zeroOr_def
        validateUtxoStealth_def toy_adjusted)
  have nulls: "isOk (buildInNullifiersByAmount toyCrypto [[ownUtxo, ownUtxo]])"
    using own_hashes by (auto simp: buildInNullifiersByAmount_def zeroOr_def)
  obtain x y where "utxoInputs toyCrypto (ToBeHex (Some 11)) [a, b] [[ownUtxo, ownUtxo]] = Ok x" "buildInNullifiersByAmount toyCrypto [[ownUtxo, ownUtxo]] = Ok y"
    using inputs nulls unfolding isOk_iff by blast
  then show ?thesis
    by (simp add: BuildCommitmentValidationData_def bindA_def liftA_def signer_private pair hasOnlyZeroAmounts_def
          circuitToken_def chain commitmentBuildOf_def natString_def one Let_def)
qed

lemma toy_main: "\<exists>m. GenerateMainAndCommitmentZkProof toyZk 1 [ToBeHex (Some 66)] [[ownUtxo, ownUtxo]] ''mainEVMCircuit1x2x1'' inp True signerKeys = (Ok m, signerKeys)"
proof -
  have names: "isOk (retrieveVerifierFilename (GetWASMFile Production n 1))" "isOk (retrieveVerifierFilename (GetZKeyFile Production n 1))"
    if "n = ''mainEVMCircuit1x2x1'' \<or> n = ''commitmentCalculator1x2''" for n
    using that by (safe; code_simp)+
  obtain build where build: "BuildCommitmentValidationData toyCrypto 1 [ToBeHex (Some 66)] [[ownUtxo, ownUtxo]] signerKeys = (Ok (Some build), signerKeys)"
      "cbVerifierName build = ''commitmentCalculator1x2''"
    using toy_build by blast
  obtain w0 z0 w1 z1 where files: "retrieveVerifierFilename (GetWASMFile Production ''mainEVMCircuit1x2x1'' 1) = Ok w0"
      "retrieveVerifierFilename (GetZKeyFile Production ''mainEVMCircuit1x2x1'' 1) = Ok z0"
      "retrieveVerifierFilename (GetWASMFile Production ''commitmentCalculator1x2'' 1) = Ok w1"
      "retrieveVerifierFilename (GetZKeyFile Production ''commitmentCalculator1x2'' 1) = Ok z1"
    using names [of "''mainEVMCircuit1x2x1''"] names [of "''commitmentCalculator1x2''"] unfolding isOk_iff by auto
  show ?thesis
    by (simp add: GenerateMainAndCommitmentZkProof_def bindA_def liftA_def build GenerateZkProof_def GenerateZkProofEnclave_def
        files Let_def mainAndCommitmentOf_def)
qed

lemma toy_result: "\<exists>r. sessionResult toyZk toyZkParams v s [- 30] m h main = Ok r"
  by (simp add: sessionResult_def GenerateCircomData_def circomTimeStamp_def Let_def)

lemma toy_run: "\<exists>r. ConstructZkProof toyZk toyZkParams signerKeys = (Ok r, signerKeys)"
proof -
  obtain priv a b where pair: "GetSpendingKeyPair toyCrypto signerKeys = (Ok (priv, a, b), signerKeys)" using signer_pair by (metis surj_pair)
  obtain cs where cs: "CalcAmountChanges toyCrypto [[ownUtxo, ownUtxo]] [[toyPay]] False = Ok cs" by (simp add: CalcAmountChanges_def)
  obtain e where e: "CalcEncryptedOutputs toyCrypto (\<lambda>i j k n. Ok (replicate n 0)) [[toyPay]] = Ok [[e]]" using pay_encrypted by blast
  obtain s where s: "zkSessionOf toyZk toyZkParams cs [ToBeHex (Some 66)] [[e]] (ToBeHex (Some 11)) [a, b] = Ok s" using toy_session by blast
  obtain m h g where hash: "sessionHashes toyZk toyZkParams ''mainEVMCircuit1x2x1'' s = Ok ([- 30], m, h, g)" using toy_hash [OF s] by blast
  obtain sig where sig: "SignEddsa toyCrypto g signerKeys = (Ok sig, signerKeys)" using toy_eddsa by blast
  obtain main where main: "GenerateMainAndCommitmentZkProof toyZk 1 [ToBeHex (Some 66)] [[ownUtxo, ownUtxo]] ''mainEVMCircuit1x2x1''
      (mainInputOf toyZkParams (ToBeHex (Some 11)) [a, b] s h g sig) True signerKeys = (Ok main, signerKeys)"
    using toy_main by blast
  obtain r where r: "sessionResult toyZk toyZkParams ''mainEVMCircuit1x2x1'' s [- 30] m h main = Ok r" using toy_result by blast
  have name: "GetZkProofVerifierName [[ownUtxo, ownUtxo]] [[toyPay]] = Ok ''mainEVMCircuit1x2x1''"
  proof -
    have "bigString 1 = ''1''" "bigString 2 = ''2''" by code_simp+
    then show ?thesis by (simp add: GetZkProofVerifierName_def natString_def)
  qed
  have "\<not> hasPrefix ''mainEVMCircuit1x2x1'' ''mainEVMCircuitMin0''" by code_simp
  then show ?thesis
    by (simp add: ConstructZkProof_def bindA_def liftA_def name cs firstTokens_def e signer_private pair s hash sig main r)
qed

theorem circom_data_describes_utxos_witness:
  "\<exists>r. ConstructZkProof toyZk toyZkParams signerKeys = (Ok r, signerKeys) \<and>
     cdAmountChanges (zrCircomData r) = [- 30] \<and> cdSlippageValues (zrCircomData r) = [- 30] \<and>
     zrDimData r = \<lparr>dmTokenNumber = 1, dmNullifierAmount = 2, dmOutputAmount = 1\<rparr>"
proof -
  obtain r where r: "ConstructZkProof toyZk toyZkParams signerKeys = (Ok r, signerKeys)" using toy_run by blast
  show ?thesis using r circom_data_describes_utxos [OF r] by (simp add: changeAt_def totalOf_def amountOf_def)
qed

subsection \<open>Inputs that belong to the wallet\<close>

text \<open>The stealth address that the keys of the wallet derive for a utxo.\<close>

definition derivedStealth :: "cryptoLib \<Rightarrow> string \<Rightarrow> int list \<Rightarrow> utxo \<Rightarrow> string res" where
  "derivedStealth C key spending u =
     (case uxH0 u of
        Some h0 \<Rightarrow>
          if uxIsNewStyle u then GetStealthAddressNewStyle C h0 key (case uxSpendingKey u of None \<Rightarrow> spending | Some ks \<Rightarrow> ks)
          else andThen (deref (uxRandomization u)) (\<lambda>r. GetStealthAddress C r key)
      | None \<Rightarrow> andThen (deref (uxRandomization u)) (\<lambda>r. GetStealthAddress C r key))"

definition ownInput :: "cryptoLib \<Rightarrow> string \<Rightarrow> int list \<Rightarrow> utxo \<Rightarrow> bool" where
  "ownInput C key spending u \<longleftrightarrow> (\<exists>addr d n. fst (GetStealthAddressUtxo C u) = Ok addr \<and>
     derivedStealth C key spending u = Ok d \<and> ParseBigInt addr = Ok n \<and> ParseBigInt d = Ok n)"

lemma validated_own: "validateUtxoStealth C u key spending i j = Ok () \<Longrightarrow> ownInput C key spending u"
  by (auto simp: validateUtxoStealth_def ownInput_def derivedStealth_def Let_def res_simps split: option.splits if_splits)

lemma utxoInputOf_Ok:
  assumes "utxoInputOf C key spending i j u = Ok x"
  shows "ownInput C key spending u \<and> uiAmount x = amountText u \<and> uiTimeStamp x = uxTimeStamp u \<and>
    (if uxAmount u = Some 0 then uiCommitment x = ''0''
     else \<exists>c n. fst (GetCommitment C u) = Ok c \<and> ParseBigInt c = Ok n \<and> uiCommitment x = bigString n)"
  using assms validated_own [of C u key spending i j]
  by (auto simp: utxoInputOf_def res_simps zeroOr_Ok split: if_splits)

lemma utxoInputs_grid:
  assumes "utxoInputs C key spending ins = Ok xs"
  shows "gridOf (\<lambda>u x. \<exists>i j. utxoInputOf C key spending i j u = Ok x) ins xs"
  using assms by (auto simp: utxoInputs_def mapRes_enumerate gridOf_def list_all2_conv_all_nth)

lemma gridOf_map: "gridOf P xss yss \<Longrightarrow> (\<And>x y. P x y \<Longrightarrow> Q x (f y)) \<Longrightarrow> gridOf Q xss (map (map f) yss)"
  unfolding gridOf_def by (auto simp: list_all2_map2 elim!: list_all2_mono)

text \<open>C5: when the data of the commitment circuit is built, each input utxo has a stealth address that the
  wallet's own key derives, and the circuit is given, row by row, the amounts, the time stamps, the
  commitments (\<open>0\<close> for an empty utxo) and the nullifiers of these utxos.
\<close>

theorem validated_inputs:
  assumes run: "BuildCommitmentValidationData C chainID tokens ins k = (Ok (Some b), k')"
  shows "\<exists>key k1 priv pub k2. GetShieldedPrivateKey C k = (Ok key, k1) \<and> GetSpendingKeyPair C k1 = (Ok (priv, pub), k2) \<and>
    (\<forall>us\<in>set ins. \<forall>u\<in>set us. ownInput C key [fst pub, snd pub] u) \<and>
    cbInAmounts b = map (map amountText) ins \<and> cbInTimeStamps b = map (map uxTimeStamp) ins \<and>
    gridOf (\<lambda>u c. if uxAmount u = Some 0 then c = ''0'' else
      \<exists>t n. fst (GetCommitment C u) = Ok t \<and> ParseBigInt t = Ok n \<and> c = bigString n) ins (cbInCommitments b) \<and>
    gridOf (\<lambda>u n. if uxAmount u = Some 0 then n = ''0'' else fst (GetNullifier C u) = Ok n) ins (cbInNullifiers b)"
proof -
  obtain key k1 priv pub k2 ts xs ns where keys: "GetShieldedPrivateKey C k = (Ok key, k1)" "GetSpendingKeyPair C k1 = (Ok (priv, pub), k2)"
      and xs: "utxoInputs C key [fst pub, snd pub] ins = Ok xs" and ns: "buildInNullifiersByAmount C ins = Ok ns"
      and b: "b = commitmentBuildOf key [fst pub, snd pub] ts ins xs ns"
    using run unfolding BuildCommitmentValidationData_def Let_def by (auto simp: res_simps split: prod.splits if_splits)
  have g: "gridOf (\<lambda>u x. ownInput C key [fst pub, snd pub] u \<and> uiAmount x = amountText u \<and> uiTimeStamp x = uxTimeStamp u \<and>
    (if uxAmount u = Some 0 then uiCommitment x = ''0''
     else \<exists>c n. fst (GetCommitment C u) = Ok c \<and> ParseBigInt c = Ok n \<and> uiCommitment x = bigString n)) ins xs" (is "gridOf ?P _ _")
    by (rule gridOf_mono [OF utxoInputs_grid [OF xs]]) (blast dest: utxoInputOf_Ok)
  have own: "\<forall>us\<in>set ins. \<forall>u\<in>set us. ownInput C key [fst pub, snd pub] u"
    using g unfolding gridOf_def by (fastforce simp: list_all2_conv_all_nth in_set_conv_nth)
  have "map (map amountText) ins = map (map uiAmount) xs" "map (map uxTimeStamp) ins = map (map uiTimeStamp) xs"
    using g by (auto simp: gridOf_def list_all2_conv_all_nth intro!: nth_equalityI)
  moreover have "gridOf (\<lambda>u c. if uxAmount u = Some 0 then c = ''0'' else
      \<exists>t n. fst (GetCommitment C u) = Ok t \<and> ParseBigInt t = Ok n \<and> c = bigString n) ins (map (map uiCommitment) xs)"
    by (rule gridOf_map [OF g]) (simp split: if_splits)
  moreover have "gridOf (\<lambda>u n. if uxAmount u = Some 0 then n = ''0'' else fst (GetNullifier C u) = Ok n) ins ns"
    using ns unfolding buildInNullifiersByAmount_def grid_mapRes by (auto elim!: gridOf_mono simp: zeroOr_Ok split: if_splits)
  ultimately show ?thesis
    using keys own by (intro exI [of _ key] exI [of _ k1] exI [of _ priv] exI [of _ pub] exI [of _ k2]) (simp add: b commitmentBuildOf_def Let_def)
qed

theorem validated_inputs_witness:
  "\<exists>b. BuildCommitmentValidationData toyCrypto 1 [ToBeHex (Some 66)] [[ownUtxo, ownUtxo]] signerKeys = (Ok (Some b), signerKeys) \<and>
     cbInAmounts b = [[bigString 25, bigString 25]] \<and> (\<exists>pub. ownInput toyCrypto (ToBeHex (Some 11)) pub ownUtxo)"
proof -
  obtain b where b: "BuildCommitmentValidationData toyCrypto 1 [ToBeHex (Some 66)] [[ownUtxo, ownUtxo]] signerKeys = (Ok (Some b), signerKeys)"
    using toy_build by blast
  show ?thesis using validated_inputs [OF b] b by (auto simp: signer_private amountText_def)
qed

end
