(* ===== verification/Enclave.thy ===== *)
theory Enclave
  imports UtxoCodec SolanaData Snapshots
begin

text \<open>
  Talking to the enclave: \<open>internal/functions/enclave\<close> (\<open>encrypt.go\<close>, \<open>decrypt_utxos.go\<close>, \<open>utxo_storage.go\<close>,
  \<open>signature_storage.go\<close>). What is sent is sealed under a fresh key, and that key under the RSA key of the enclave.
  RSA, base64, JSON texts, randomness and the enclave itself are the fields of \<open>enclaveLib\<close>; the RSA key has type
  \<open>'k\<close>.
\<close>

record decryptResponse =
  drUtxos :: "utxoParams list"
  drEncryptedOutputs :: "encryptedOutputWithSign list"
  drLastOutput :: string

record enclavePayload =
  epWire :: utxoWire
  epSender :: string
  epClaimable :: "string option"     \<comment> \<open>the field is left out when it is empty\<close>

record storedMeta =
  smSender :: string
  smClaimable :: string
  smShieldedKey :: string

record 'k enclaveLib =
  elHandshake :: "string res"                       \<comment> \<open>the public key of the handshake's answer\<close>
  elB64 :: "bytes \<Rightarrow> string"
  elUnB64 :: "string \<Rightarrow> bytes res"
  elParseKey :: "bytes \<Rightarrow> 'k option res"            \<comment> \<open>ParsePKIXPublicKey, \<open>None\<close> when it is not an RSA key\<close>
  elOaep :: "'k \<Rightarrow> bytes \<Rightarrow> bytes res"               \<comment> \<open>EncryptOAEP\<close>
  elRand :: "nat \<Rightarrow> nat \<Rightarrow> bytes res"                \<comment> \<open>the draws: the key, then the nonce\<close>
  elDecryptUtxos :: "int \<Rightarrow> string \<Rightarrow> string \<Rightarrow> decryptResponse res"
  elStoreUtxo :: "string \<Rightarrow> string \<Rightarrow> string \<Rightarrow> int \<Rightarrow> unit res"
  elGetUtxos :: "string \<Rightarrow> string \<Rightarrow> string \<Rightarrow> int \<Rightarrow> bool \<Rightarrow> string \<Rightarrow> bytes list res"
  elSignature :: "string \<Rightarrow> string \<Rightarrow> string \<Rightarrow> bool \<Rightarrow> string \<Rightarrow> string res"
  elPayload :: "enclavePayload \<Rightarrow> bytes res"
  elReadWire :: "bytes \<Rightarrow> utxoWire res"
  elReadMeta :: "bytes \<Rightarrow> storedMeta res"

subsection \<open>encrypt.go\<close>

definition makeHandshakeForPublicKey :: "'k enclaveLib \<Rightarrow> string res" where
  "makeHandshakeForPublicKey L =
     andThen (wrapErr ''enclave handshake'' (elHandshake L)) (\<lambda>publicKey.
       if publicKey = [] then Err (ErrMsg ''enclave handshake: empty public key'') else Ok publicKey)"

definition asymmetricEncrypt :: "'k enclaveLib \<Rightarrow> string \<Rightarrow> bytes \<Rightarrow> string res" where
  "asymmetricEncrypt L publicKeyB64 content =
     andThen (wrapErr ''decode enclave public key'' (elUnB64 L publicKeyB64)) (\<lambda>der.
     andThen (wrapErr ''parse enclave public key'' (elParseKey L der)) (\<lambda>parsed.
       case parsed of
         None \<Rightarrow> Err (ErrMsg ''enclave public key is not RSA'')
       | Some rsaPub \<Rightarrow>
           andThen (wrapErr ''rsa-oaep encrypt'' (elOaep L rsaPub content)) (\<lambda>ciphertext. Ok (elB64 L ciphertext))))"

definition symmetricEncrypt :: "cryptoLib \<Rightarrow> 'k enclaveLib \<Rightarrow> bytes \<Rightarrow> bytes \<Rightarrow> string res" where
  "symmetricEncrypt C L key message =
     andThen (elRand L 1 secretNonceBytes) (\<lambda>nonce. Ok (elB64 L (nonce @ secretSeal C message nonce key)))"

definition encryptUint8ArrayForEnclave :: "cryptoLib \<Rightarrow> 'k enclaveLib \<Rightarrow> bytes \<Rightarrow> string \<Rightarrow> (string \<times> string) res" where
  "encryptUint8ArrayForEnclave C L input publicKeyB64 =
     andThen (elRand L 0 secretKeyBytes) (\<lambda>key.
     andThen (asymmetricEncrypt L publicKeyB64 key) (\<lambda>keyCiphertext.
     andThen (symmetricEncrypt C L key input) (\<lambda>inputCiphertext. Ok (keyCiphertext, inputCiphertext))))"

definition MakeHandshakeAndEncrypt :: "cryptoLib \<Rightarrow> 'k enclaveLib \<Rightarrow> bytes \<Rightarrow> (string \<times> string) res" where
  "MakeHandshakeAndEncrypt C L input =
     andThen (makeHandshakeForPublicKey L) (encryptUint8ArrayForEnclave C L input)"

subsection \<open>decrypt_utxos.go\<close>

definition packEnclaveKeys :: "bytes \<Rightarrow> bytes \<Rightarrow> string \<Rightarrow> bytes res" where
  "packEnclaveKeys pk sk shieldedPrivateKey =
     andThen (ParseBigInt shieldedPrivateKey) (\<lambda>shieldedBig.
     andThen (fillBytes shieldedBig 32) (\<lambda>key. Ok (pk @ sk @ key)))"

definition normalizeSolanaMint :: "cryptoLib \<Rightarrow> string \<Rightarrow> (string \<times> string) res" where
  "normalizeSolanaMint C mintHex =
     (let clean = fromHex C mintHex
      in if length clean \<noteq> 32
         then Err (ErrMsg (''invalid mint address: expected 32 bytes, got '' @ natText 10 (length clean)))
         else
           (let mintBig = setBytes clean
            in andThen (PoseidonBig C [Some (drop_bit 128 mintBig), Some (mintBig mod push_bit 128 1)]) (\<lambda>compressed.
                 Ok (ToBeHex (Some compressed), b58Encode C clean))))"

definition deserializeEnclaveUtxo ::
  "cryptoLib \<Rightarrow> string \<Rightarrow> (nat \<Rightarrow> bytes res) \<Rightarrow> utxoParams \<Rightarrow> string \<Rightarrow> int list \<Rightarrow> int \<Rightarrow> utxo res" where
  "deserializeEnclaveUtxo C now rand item0 shieldedPrivateKey spendingPublicKey chainID =
     (let item = item0\<lparr>upNullifyingKey := shieldedPrivateKey, upSpendingKey := Some spendingPublicKey\<rparr>
      in if IsSolanaLike chainID
         then andThen (normalizeSolanaMint C (upMint item)) (\<lambda>(compressed, base58Mint).
                NewUtxo C now rand (item\<lparr>upErc20 := compressed, upMint := base58Mint\<rparr>))
         else NewUtxo C now rand item)"

text \<open>\<open>clock i\<close> and \<open>rand i\<close> are the time and the randomness at the utxo \<open>i\<close>.\<close>

definition GetInputUtxosEnclave ::
  "cryptoLib \<Rightarrow> 'k enclaveLib \<Rightarrow> (nat \<Rightarrow> string) \<Rightarrow> (nat \<Rightarrow> nat \<Rightarrow> bytes res) \<Rightarrow> int \<Rightarrow>
   (userKeys, utxo list \<times> encryptedOutputWithSign list \<times> string) action" where
  "GetInputUtxosEnclave C L clock rand chainID =
     bindA (GetShieldedPrivateKey C) (\<lambda>shieldedPrivateKey.
     bindA (liftA (EncryptionKeyPair C shieldedPrivateKey)) (\<lambda>(sk, pk).
     bindA (GetSpendingKeyPair C) (\<lambda>(privSpending, pub).
     liftA (
       andThen (packEnclaveKeys pk sk shieldedPrivateKey) (\<lambda>payload.
       andThen (MakeHandshakeAndEncrypt C L payload) (\<lambda>(keyCiphertext, inputCiphertext).
       andThen (elDecryptUtxos L chainID keyCiphertext inputCiphertext) (\<lambda>resp.
       andThen (mapRes (\<lambda>(i, item). deserializeEnclaveUtxo C (clock i) (rand i) item shieldedPrivateKey [fst pub, snd pub] chainID)
                 (enumerate 0 (drUtxos resp))) (\<lambda>utxos.
         Ok (utxos, drEncryptedOutputs resp, drLastOutput resp)))))))))"

subsection \<open>utxo_storage.go\<close>

definition enclaveUtxoPayload :: "'k enclaveLib \<Rightarrow> utxoParams \<Rightarrow> string \<Rightarrow> string \<Rightarrow> bytes res" where
  "enclaveUtxoPayload L params senderAddress claimableSignature =
     elPayload L \<lparr>epWire = marshalUtxoParams params, epSender = senderAddress,
       epClaimable = (if claimableSignature = [] then None else Some claimableSignature)\<rparr>"

definition StoreUtxoInEnclave ::
  "cryptoLib \<Rightarrow> 'k enclaveLib \<Rightarrow> string \<Rightarrow> string \<Rightarrow> utxo \<Rightarrow> int \<Rightarrow> string \<Rightarrow> unit res" where
  "StoreUtxoInEnclave C L senderAddress recipientEthAddress u chainID claimableSignature =
     andThen (enclaveUtxoPayload L (GetConstructableParams u) senderAddress claimableSignature) (\<lambda>payload.
     andThen (MakeHandshakeAndEncrypt C L payload) (\<lambda>(keyCiphertext, inputCiphertext).
       elStoreUtxo L recipientEthAddress inputCiphertext keyCiphertext chainID))"

definition parseEnclaveUtxoResponse :: "'k enclaveLib \<Rightarrow> bytes \<Rightarrow> utxoWithSender res" where
  "parseEnclaveUtxoResponse L raw =
     andThen (andThen (elReadWire L raw) unmarshalUtxoParams) (\<lambda>params.
     andThen (elReadMeta L raw) (\<lambda>m.
       Ok \<lparr>wsParams = params, wsSenderAddress = smSender m, wsClaimableSignature = smClaimable m,
           wsShieldedPrivateKey = smShieldedKey m\<rparr>))"

fun dedupLoop ::
  "cryptoLib \<Rightarrow> (nat \<Rightarrow> string) \<Rightarrow> (nat \<Rightarrow> nat \<Rightarrow> bytes res) \<Rightarrow> nat \<Rightarrow> string set \<Rightarrow> utxoWithSender list \<Rightarrow> utxoWithSender list res" where
  "dedupLoop C clock rand i seen [] = Ok []"
| "dedupLoop C clock rand i seen (item # items) =
     andThen (NewUtxo C (clock i) (rand i) (wsParams item)) (\<lambda>u.
     andThen (fst (GetCommitment C u)) (\<lambda>commitment.
       if commitment \<in> seen then dedupLoop C clock rand (i + 1) seen items
       else andThen (dedupLoop C clock rand (i + 1) (insert commitment seen) items) (\<lambda>unique. Ok (item # unique))))"

definition deduplicateUtxosByCommitment ::
  "cryptoLib \<Rightarrow> (nat \<Rightarrow> string) \<Rightarrow> (nat \<Rightarrow> nat \<Rightarrow> bytes res) \<Rightarrow> utxoWithSender list \<Rightarrow> utxoWithSender list res" where
  "deduplicateUtxosByCommitment C clock rand items = dedupLoop C clock rand 0 {} items"

definition GetUtxosFromEnclave ::
  "cryptoLib \<Rightarrow> 'k enclaveLib \<Rightarrow> (nat \<Rightarrow> string) \<Rightarrow> (nat \<Rightarrow> nat \<Rightarrow> bytes res) \<Rightarrow> string \<Rightarrow> string \<Rightarrow> int \<Rightarrow> bool \<Rightarrow> string \<Rightarrow>
   utxoWithSender list res" where
  "GetUtxosFromEnclave C L clock rand ethAddress signature chainID isSolanaLedger txMessageForSolanaLedger =
     andThen (MakeHandshakeAndEncrypt C L (bytesOfString signature)) (\<lambda>(keyCiphertext, inputCiphertext).
     andThen (elGetUtxos L ethAddress inputCiphertext keyCiphertext chainID isSolanaLedger txMessageForSolanaLedger) (\<lambda>raws.
     andThen (mapRes (\<lambda>(i, raw). wrapErr (''parse enclave UTXO '' @ natText 10 i) (parseEnclaveUtxoResponse L raw))
               (enumerate 0 raws)) (deduplicateUtxosByCommitment C clock rand)))"

subsection \<open>signature_storage.go\<close>

definition StoreAndGetSignatureFromEnclave ::
  "cryptoLib \<Rightarrow> 'k enclaveLib \<Rightarrow> string \<Rightarrow> string \<Rightarrow> bool \<Rightarrow> string \<Rightarrow> string res" where
  "StoreAndGetSignatureFromEnclave C L ethAddress authSignature isSolanaLedger txMessageForSolanaLedger =
     andThen (MakeHandshakeAndEncrypt C L (bytesOfString authSignature)) (\<lambda>(keyCiphertext, inputCiphertext).
       elSignature L ethAddress inputCiphertext keyCiphertext isSolanaLedger txMessageForSolanaLedger)"

end
