(* ===== verification/TransactCodec.thy ===== *)
theory TransactCodec
  imports ConstructProof
begin

text \<open>
  The two forms in which a private transaction leaves the SDK: the JSON body of the relayer
  (\<open>internal/functions/snarkjs/serialize.go\<close> and the JSON structs of \<open>types\<close>) and the arguments of the contract call
  (\<open>internal/contractabi/transact.go\<close>, \<open>proofless_deposit.go\<close>). ABI packing itself is the argument \<open>contractLib\<close>.
\<close>

subsection \<open>serialize.go\<close>

record stealthJson =
  sjExtraRandomization :: string
  sjStealthAddress :: string
  sjH0 :: string
  sjH1 :: string

record feeStructureJson =
  fjFeeToken :: string
  fjFlatFee :: string
  fjVariableRate :: string

record useApprovalJson =
  ujApprovalChanges :: "string list"
  ujExternalApprovalAddresses :: "string list"
  ujConversionInHinkalAddress :: "string list"

record logicArgsJson =
  ljAction :: hinkalLogicAction
  ljExecuteApprovalChanges :: "string list"
  ljDoPreTxApproval :: bool
  ljInHinkalAddress :: string
  ljUseApprovalUtxoData :: "useApprovalJson list"
  ljInteractionAddress :: string

record circomDataJson =
  cjRootHashHinkal :: "string option"
  cjErc20TokenAddresses :: "string list"
  cjTokenIDs :: "string list"
  cjAmountChanges :: "string list"
  cjInputNullifiers :: "string list list"
  cjOutCommitments :: "string list list"
  cjEncryptedOutputs :: "string list list"
  cjStealth :: stealthJson
  cjTimeStamp :: string
  cjRootHashAccessToken :: "string option"
  cjRelay :: string
  cjExternalAddress :: string
  cjExternalActionMetadata :: string
  cjExternalActionID :: string
  cjHookData :: hookData
  cjCalldataHash :: string
  cjPublicSignalCount :: nat
  cjOnChainCreation :: "bool list"
  cjSlippageValues :: "string list"
  cjLogicArgs :: logicArgsJson
  cjFeeStructure :: feeStructureJson
  cjSignatureData :: signatureData
  cjOriginalSender :: string

definition bigIntPtrString :: "int option \<Rightarrow> string option" where
  "bigIntPtrString n = map_option bigString n"

definition bigIntSliceStrings :: "int list \<Rightarrow> string list" where
  "bigIntSliceStrings ns = map bigString ns"

text \<open>\<open>String\<close> of a nil number.\<close>

definition nilString :: "int option \<Rightarrow> string" where
  "nilString n = (case n of None \<Rightarrow> ''<nil>'' | Some v \<Rightarrow> bigString v)"

definition useApprovalJsonOf :: "useApprovalUTXOData \<Rightarrow> useApprovalJson" where
  "useApprovalJsonOf u = \<lparr>ujApprovalChanges = bigIntSliceStrings (uaApprovalChanges u),
     ujExternalApprovalAddresses = uaExternalApprovalAddresses u,
     ujConversionInHinkalAddress = bigIntSliceStrings (uaConversionInHinkalAddress u)\<rparr>"

definition serializeHinkalLogicArgs :: "hinkalLogicArgs \<Rightarrow> logicArgsJson" where
  "serializeHinkalLogicArgs h =
     \<lparr>ljAction = laAction h, ljExecuteApprovalChanges = bigIntSliceStrings (laExecuteApprovalChanges h),
      ljDoPreTxApproval = laDoPreTxApproval h, ljInHinkalAddress = nilString (laInHinkalAddress h),
      ljUseApprovalUtxoData = map useApprovalJsonOf (laUseApprovalUtxoData h),
      ljInteractionAddress = laInteractionAddress h\<rparr>"

definition SerializeCircomData :: "circomData \<Rightarrow> circomDataJson" where
  "SerializeCircomData c =
     \<lparr>cjRootHashHinkal = bigIntPtrString (cdRootHashHinkal c), cjErc20TokenAddresses = cdErc20TokenAddresses c,
      cjTokenIDs = cdTokenIDs c, cjAmountChanges = bigIntSliceStrings (cdAmountChanges c),
      cjInputNullifiers = cdInputNullifiers c, cjOutCommitments = cdOutCommitments c,
      cjEncryptedOutputs = cdEncryptedOutputs c,
      cjStealth = \<lparr>sjExtraRandomization = bigString (saExtraRandomization (cdStealth c)),
        sjStealthAddress = bigString (saStealthAddress (cdStealth c)), sjH0 = bigString (saH0 (cdStealth c)),
        sjH1 = bigString (saH1 (cdStealth c))\<rparr>,
      cjTimeStamp = cdTimeStamp c, cjRootHashAccessToken = bigIntPtrString (cdRootHashAccessToken c),
      cjRelay = cdRelay c, cjExternalAddress = cdExternalAddress c, cjExternalActionMetadata = cdExternalActionMetadata c,
      cjExternalActionID = bigString (cdExternalActionID c), cjHookData = cdHookData c,
      cjCalldataHash = bigString (cdCalldataHash c), cjPublicSignalCount = cdPublicSignalCount c,
      cjOnChainCreation = cdOnChainCreation c, cjSlippageValues = bigIntSliceStrings (cdSlippageValues c),
      cjLogicArgs = serializeHinkalLogicArgs (cdLogicArgs c),
      cjFeeStructure = \<lparr>fjFeeToken = fsFeeToken (cdFeeStructure c), fjFlatFee = bigString (fsFlatFee (cdFeeStructure c)),
        fjVariableRate = bigString (fsVariableRate (cdFeeStructure c))\<rparr>,
      cjSignatureData = cdSignatureData c, cjOriginalSender = cdOriginalSender c\<rparr>"

subsection \<open>contractabi/transact.go\<close>

record abiDimensions =
  adTokenNumber :: "16 word"
  adNullifierAmount :: "16 word"
  adOutputAmount :: "16 word"

record abiStealth =
  asExtraRandomization :: int
  asStealthAddress :: int
  asH0 :: int
  asH1 :: int

record abiUseApproval =
  auApprovalChanges :: "int list"
  auExternalApprovalAddresses :: "string list"
  auConversionInHinkalAddress :: "int list"

record abiLogicArgs =
  alAction :: int
  alInHinkalAddress :: int
  alExecuteApprovalChanges :: "int list"
  alDoPreTxApproval :: bool
  alUseApprovalUtxoData :: "abiUseApproval list"

record abiHookData =
  ahPreHookContract :: string
  ahHookContract :: string
  ahPreHookMetadata :: bytes
  ahPostHookMetadata :: bytes

record abiCircomData =
  acRootHashHinkal :: int
  acErc20TokenAddresses :: "string list"
  acTokenIDs :: "int list"
  acAmountChanges :: "int list"
  acOnChainCreation :: "bool list"
  acSlippageValues :: "int list"
  acInputNullifiers :: "int list list"
  acOutCommitments :: "int list list"
  acEncryptedOutputs :: "bytes list list"
  acFeeStructure :: feeTuple
  acTimeStamp :: int
  acStealth :: abiStealth
  acRootHashAccessToken :: int
  acCalldataHash :: int
  acPublicSignalCount :: "16 word"
  acRelay :: string
  acExternalAddress :: string
  acExternalActionID :: int
  acExternalActionMetadata :: bytes
  acLogicArgs :: abiLogicArgs
  acHookData :: abiHookData
  acSignatureData :: sigTuple
  acOriginalSender :: string

definition zeroIfNil :: "int option \<Rightarrow> int" where
  "zeroIfNil n = (case n of None \<Rightarrow> 0 | Some v \<Rightarrow> v)"

definition parseBigSlice :: "string list \<Rightarrow> int list res" where
  "parseBigSlice ss = mapRes ParseBigInt ss"

definition parseBigMatrix :: "string list list \<Rightarrow> int list list res" where
  "parseBigMatrix sss = mapRes parseBigSlice sss"

definition hexBytesMatrix :: "cryptoLib \<Rightarrow> string list list \<Rightarrow> bytes list list" where
  "hexBytesMatrix C sss = map (map (fromHex C)) sss"

definition toAddresses :: "cryptoLib \<Rightarrow> string list \<Rightarrow> string list" where
  "toAddresses C ss = map (hexToAddress C) ss"

definition BytesToBytes32 :: "cryptoLib \<Rightarrow> string \<Rightarrow> bytes" where
  "BytesToBytes32 C v =
     (let b0 = fromHex C v; b = (if length b0 > 32 then drop (length b0 - 32) b0 else b0)
      in replicate (32 - length b) 0 @ b)"

definition signatureDataToABI :: "cryptoLib \<Rightarrow> signatureData \<Rightarrow> sigTuple res" where
  "signatureDataToABI C s =
     andThen (wrapErr ''signatureData.v'' (ParseBigInt (sdV s))) (\<lambda>v.
     andThen (wrapErr ''signatureData.accessKey'' (ParseBigInt (sdAccessKey s))) (\<lambda>accessKey.
       Ok \<lparr>stV = word_of_int \<bar>v\<bar>, stR = BytesToBytes32 C (sdR s), stS = BytesToBytes32 C (sdS s),
           stAccessKey = accessKey, stNonce = sdNonce s, stEthereumAddress = hexToAddress C (sdEthereumAddress s)\<rparr>))"

definition useApprovalToABI :: "cryptoLib \<Rightarrow> useApprovalUTXOData \<Rightarrow> abiUseApproval" where
  "useApprovalToABI C u = \<lparr>auApprovalChanges = uaApprovalChanges u,
     auExternalApprovalAddresses = toAddresses C (uaExternalApprovalAddresses u),
     auConversionInHinkalAddress = uaConversionInHinkalAddress u\<rparr>"

text \<open>The number of the action, in the order of its constants.\<close>

fun logicActionNumber :: "hinkalLogicAction \<Rightarrow> int" where
  "logicActionNumber LogicActionNone = 0"
| "logicActionNumber LogicActionApprove = 1"
| "logicActionNumber LogicActionReleaseBuffer = 2"
| "logicActionNumber LogicActionExecute = 3"

definition circomDataToABI :: "cryptoLib \<Rightarrow> circomData \<Rightarrow> abiCircomData res" where
  "circomDataToABI C c =
     andThen (parseBigSlice (cdTokenIDs c)) (\<lambda>tokenIDs.
     andThen (parseBigMatrix (cdInputNullifiers c)) (\<lambda>inputNullifiers.
     andThen (parseBigMatrix (cdOutCommitments c)) (\<lambda>outCommitments.
     andThen (if cdTimeStamp c = [] then Ok 0 else ParseBigInt (cdTimeStamp c)) (\<lambda>timeStamp.
     andThen (signatureDataToABI C (cdSignatureData c)) (\<lambda>signature.
       (let h = cdLogicArgs c; s = cdStealth c; fs = cdFeeStructure c; k = cdHookData c in
        Ok \<lparr>acRootHashHinkal = zeroIfNil (cdRootHashHinkal c),
            acErc20TokenAddresses = toAddresses C (cdErc20TokenAddresses c), acTokenIDs = tokenIDs,
            acAmountChanges = cdAmountChanges c, acOnChainCreation = cdOnChainCreation c,
            acSlippageValues = cdSlippageValues c, acInputNullifiers = inputNullifiers,
            acOutCommitments = outCommitments, acEncryptedOutputs = hexBytesMatrix C (cdEncryptedOutputs c),
            acFeeStructure = \<lparr>ftP0 = hexToAddress C (fsFeeToken fs), ftP1 = fsFlatFee fs, ftP2 = fsVariableRate fs\<rparr>,
            acTimeStamp = timeStamp,
            acStealth = \<lparr>asExtraRandomization = saExtraRandomization s, asStealthAddress = saStealthAddress s,
              asH0 = saH0 s, asH1 = saH1 s\<rparr>,
            acRootHashAccessToken = zeroIfNil (cdRootHashAccessToken c), acCalldataHash = cdCalldataHash c,
            acPublicSignalCount = of_nat (cdPublicSignalCount c), acRelay = hexToAddress C (cdRelay c),
            acExternalAddress = hexToAddress C (cdExternalAddress c), acExternalActionID = cdExternalActionID c,
            acExternalActionMetadata = fromHex C (cdExternalActionMetadata c),
            acLogicArgs = \<lparr>alAction = logicActionNumber (laAction h), alInHinkalAddress = zeroIfNil (laInHinkalAddress h),
              alExecuteApprovalChanges = laExecuteApprovalChanges h, alDoPreTxApproval = laDoPreTxApproval h,
              alUseApprovalUtxoData = map (useApprovalToABI C) (laUseApprovalUtxoData h)\<rparr>,
            acHookData = \<lparr>ahPreHookContract = hexToAddress C (hdPreHookContract k),
              ahHookContract = hexToAddress C (hdHookContract k), ahPreHookMetadata = fromHex C (hdPreHookMetadata k),
              ahPostHookMetadata = fromHex C (hdPostHookMetadata k)\<rparr>,
            acSignatureData = signature, acOriginalSender = hexToAddress C (cdOriginalSender c)\<rparr>))))))"

type_synonym proofPoints = "(int \<times> int) \<times> ((int \<times> int) \<times> (int \<times> int)) \<times> (int \<times> int)"

text \<open>The order in which the eight numbers are read decides which error is reported.\<close>

definition zkCallDataToABI :: "zkCallData \<Rightarrow> proofPoints res" where
  "zkCallDataToABI z =
     andThen (ParseBigInt (fst (zcA z))) (\<lambda>a0.
     andThen (ParseBigInt (fst (zcC z))) (\<lambda>c0.
     andThen (ParseBigInt (fst (fst (zcB z)))) (\<lambda>b00.
     andThen (ParseBigInt (snd (fst (zcB z)))) (\<lambda>b01.
     andThen (ParseBigInt (snd (zcA z))) (\<lambda>a1.
     andThen (ParseBigInt (snd (zcC z))) (\<lambda>c1.
     andThen (ParseBigInt (fst (snd (zcB z)))) (\<lambda>b10.
     andThen (ParseBigInt (snd (snd (zcB z)))) (\<lambda>b11.
       Ok ((a0, a1), ((b00, b01), (b10, b11)), (c0, c1))))))))))"

definition toABIDimensions :: "dimData \<Rightarrow> abiDimensions" where
  "toABIDimensions d = \<lparr>adTokenNumber = of_nat (dmTokenNumber d), adNullifierAmount = of_nat (dmNullifierAmount d),
     adOutputAmount = of_nat (dmOutputAmount d)\<rparr>"

record proofSignature =
  psV :: "8 word"
  psR :: bytes
  psS :: bytes

text \<open>The ABI of the contract of a chain, and packing with it.\<close>

record 'a contractLib =
  clHinkal :: "int \<Rightarrow> 'a res"
  clTransact :: "'a \<Rightarrow> proofPoints \<Rightarrow> abiDimensions \<Rightarrow> abiCircomData \<Rightarrow> bytes res"
  clTronTransact :: "'a \<Rightarrow> proofSignature \<Rightarrow> proofPoints \<Rightarrow> abiDimensions \<Rightarrow> abiCircomData \<Rightarrow> bytes res"
  clDeposit :: "'a \<Rightarrow> string list \<Rightarrow> int list \<Rightarrow> int list \<Rightarrow> abiStealth list \<Rightarrow> bytes res"
  clDepositWithFee :: "string \<Rightarrow> string \<Rightarrow> int \<Rightarrow> string list \<Rightarrow> int list \<Rightarrow> int list \<Rightarrow> abiStealth list \<Rightarrow> bytes res"

definition PackTransact :: "cryptoLib \<Rightarrow> 'a contractLib \<Rightarrow> int \<Rightarrow> zkCallData \<Rightarrow> dimData \<Rightarrow> circomData \<Rightarrow> bytes res" where
  "PackTransact C L chainID zk dim c =
     andThen (clHinkal L chainID) (\<lambda>hinkalABI.
     andThen (zkCallDataToABI zk) (\<lambda>points.
     andThen (circomDataToABI C c) (\<lambda>circom. clTransact L hinkalABI points (toABIDimensions dim) circom)))"

definition PackTronTransact ::
  "cryptoLib \<Rightarrow> 'a contractLib \<Rightarrow> int \<Rightarrow> 8 word \<Rightarrow> bytes \<Rightarrow> bytes \<Rightarrow> zkCallData \<Rightarrow> dimData \<Rightarrow> circomData \<Rightarrow> bytes res" where
  "PackTronTransact C L chainID proofV proofR proofS zk dim c =
     andThen (clHinkal L chainID) (\<lambda>hinkalABI.
     andThen (zkCallDataToABI zk) (\<lambda>points.
     andThen (circomDataToABI C c) (\<lambda>circom.
       clTronTransact L hinkalABI \<lparr>psV = proofV, psR = proofR, psS = proofS\<rparr> points (toABIDimensions dim) circom)))"

subsection \<open>contractabi/proofless_deposit.go\<close>

definition toABIStealthAddressStructures :: "stealthAddressStructure list \<Rightarrow> abiStealth list" where
  "toABIStealthAddressStructures structures =
     map (\<lambda>s. \<lparr>asExtraRandomization = saExtraRandomization s, asStealthAddress = saStealthAddress s,
       asH0 = saH0 s, asH1 = saH1 s\<rparr>) structures"

definition PackProoflessDeposit ::
  "cryptoLib \<Rightarrow> 'a contractLib \<Rightarrow> int \<Rightarrow> string list \<Rightarrow> int list \<Rightarrow> int list \<Rightarrow> stealthAddressStructure list \<Rightarrow> bytes res" where
  "PackProoflessDeposit C L chainID erc20Addresses amounts tokenIDs structures =
     andThen (clHinkal L chainID) (\<lambda>hinkalABI.
       clDeposit L hinkalABI (toAddresses C erc20Addresses) amounts tokenIDs (toABIStealthAddressStructures structures))"

definition PackProoflessDepositWithPublicFee ::
  "cryptoLib \<Rightarrow> 'a contractLib \<Rightarrow> string \<Rightarrow> string \<Rightarrow> int option \<Rightarrow> string list \<Rightarrow> int list \<Rightarrow> int list \<Rightarrow>
   stealthAddressStructure list \<Rightarrow> bytes res" where
  "PackProoflessDepositWithPublicFee C L feeRecipient feeToken feeAmount erc20Addresses amounts tokenIDs structures =
     clDepositWithFee L (hexToAddress C feeRecipient) (hexToAddress C feeToken) (zeroIfNil feeAmount)
       (toAddresses C erc20Addresses) amounts tokenIDs (toABIStealthAddressStructures structures)"

end
