(* ===== verification/EvmSend.thy ===== *)
theory EvmSend
  imports TransactCodec
begin

text \<open>
  Sending on an EVM chain: \<open>internal/functions/web3\<close> (\<open>erc20.go\<close>, \<open>approvals.go\<close>, \<open>transact_call_direct.go\<close>,
  \<open>transact_call_relayer.go\<close>). The chain is the state \<open>'w\<close> behind the fields of \<open>adapter\<close>: sending and waiting change it,
  reading does not, and \<open>paTick\<close> is what happens while the code sleeps. An address is the text of \<open>common.Address\<close>.
\<close>

record txRequest =
  trTo :: string
  trData :: bytes
  trValue :: "int option"
  trGasLimit :: u64

record 'w adapter =
  paFetchClient :: "int \<Rightarrow> unit res"
  paAddress :: "string res"
  paAllowance :: "string \<Rightarrow> string \<Rightarrow> string \<Rightarrow> 'w \<Rightarrow> int res"   \<comment> \<open>token, owner, spender\<close>
  paApproveData :: "string \<Rightarrow> int \<Rightarrow> bytes res"
  paSend :: "txRequest \<Rightarrow> ('w, string) action"
  paWait :: "int \<Rightarrow> string \<Rightarrow> nat \<Rightarrow> ('w, unit) action"
  paEstimate :: "string \<Rightarrow> txRequest \<Rightarrow> 'w \<Rightarrow> u64 res"
  paTick :: "'w \<Rightarrow> 'w"

definition readA :: "('w \<Rightarrow> 'a res) \<Rightarrow> ('w, 'a) action" where
  "readA f w = (f w, w)"

definition plainTx :: "string \<Rightarrow> bytes \<Rightarrow> txRequest" where
  "plainTx to payload = \<lparr>trTo = to, trData = payload, trValue = None, trGasLimit = 0\<rparr>"

subsection \<open>erc20.go\<close>

definition Erc20Allowance :: "'w adapter \<Rightarrow> string \<Rightarrow> string \<Rightarrow> string \<Rightarrow> ('w, int) action" where
  "Erc20Allowance A token owner spender = readA (paAllowance A token owner spender)"

definition Erc20ApproveCalldata :: "'w adapter \<Rightarrow> string \<Rightarrow> int \<Rightarrow> bytes res" where
  "Erc20ApproveCalldata A spender amount = paApproveData A spender amount"

definition minimalToken :: "int \<Rightarrow> string \<Rightarrow> erc20Token" where
  "minimalToken chainID address =
     \<lparr>tkChainID = chainID, tkAddress = address, tkWrapped = [], tkName = [], tkSymbol = [], tkDecimals = 0, tkIsVolatile = False,
      tkIsAave = False, tkAllowanceOffset = None, tkBalanceOffset = None, tkIs2022Program = False\<rparr>"

definition ResolveERC20Tokens :: "(string \<Rightarrow> erc20Token list option) \<Rightarrow> int \<Rightarrow> string list \<Rightarrow> erc20Token list" where
  "ResolveERC20Tokens readTokens chainID erc20Addresses =
     map (\<lambda>a. case lookupToken readTokens a chainID of
                None \<Rightarrow> minimalToken chainID a | Some t \<Rightarrow> t\<lparr>tkChainID := chainID\<rparr>) erc20Addresses"

text \<open>\<open>tokensInfo\<close> is \<open>api.GetTokensInfo\<close>, one entry or nothing for each address.\<close>

definition ResolveERC20TokensStrict ::
  "(int \<Rightarrow> string list \<Rightarrow> erc20Token option list res) \<Rightarrow> int \<Rightarrow> string list \<Rightarrow> erc20Token list res" where
  "ResolveERC20TokensStrict tokensInfo chainID erc20Addresses =
     (if erc20Addresses = [] then Ok []
      else
        andThen (tokensInfo chainID erc20Addresses) (\<lambda>apiTokens.
          if length apiTokens \<noteq> length erc20Addresses
          then Err (ErrMsg (''web3: expected '' @ natText 10 (length erc20Addresses) @ '' token records, got '' @
                 natText 10 (length apiTokens)))
          else
            mapRes (\<lambda>(a, t). case t of
                None \<Rightarrow> Err (ErrMsg (''web3: token not found: '' @ a @ '' on chain '' @ bigString chainID))
              | Some token \<Rightarrow> Ok (token\<lparr>tkChainID := chainID\<rparr>)) (zip erc20Addresses apiTokens)))"

definition ResolveERC20TokenStrict ::
  "(int \<Rightarrow> string list \<Rightarrow> erc20Token option list res) \<Rightarrow> int \<Rightarrow> string \<Rightarrow> erc20Token res" where
  "ResolveERC20TokenStrict tokensInfo chainID erc20Address =
     andThen (ResolveERC20TokensStrict tokensInfo chainID [erc20Address]) (\<lambda>tokens.
       case tokens of [] \<Rightarrow> Panic ''index out of range'' | t # _ \<Rightarrow> Ok t)"

subsection \<open>approvals.go\<close>

record approvalRequirement =
  arToken :: string
  arAmount :: int

definition sendAndWait :: "'w adapter \<Rightarrow> int \<Rightarrow> txRequest \<Rightarrow> nat \<Rightarrow> ('w, unit) action" where
  "sendAndWait A chainID tx confirmations = bindA (paSend A tx) (\<lambda>h. paWait A chainID h confirmations)"

definition needsReset :: "int \<Rightarrow> erc20Token \<Rightarrow> int \<Rightarrow> bool" where
  "needsReset chainID token allowance \<longleftrightarrow>
     GetNonLocalhostChainID chainID = idEthMainnet \<and> equalFold (tkSymbol token) ''usdt'' \<and> 0 < allowance"

definition approveTokenToHinkal ::
  "cryptoLib \<Rightarrow> 'w adapter \<Rightarrow> int \<Rightarrow> string \<Rightarrow> int \<Rightarrow> erc20Token \<Rightarrow> ('w, unit) action" where
  "approveTokenToHinkal C A chainID spender amount token =
     bindA (liftA (paFetchClient A chainID)) (\<lambda>_.
     bindA (liftA (paAddress A)) (\<lambda>ownerStr.
     (let owner = hexToAddress C ownerStr; tokenAddr = hexToAddress C (tkAddress token) in
      bindA (Erc20Allowance A tokenAddr owner spender) (\<lambda>allowance.
        if amount \<le> allowance then liftA (Ok ())
        else
          bindA (if needsReset chainID token allowance
                 then bindA (liftA (Erc20ApproveCalldata A spender 0)) (\<lambda>resetData.
                        sendAndWait A chainID (plainTx tokenAddr resetData) 1)
                 else liftA (Ok ())) (\<lambda>_.
          bindA (liftA (Erc20ApproveCalldata A spender amount)) (\<lambda>approveData.
            sendAndWait A chainID (plainTx tokenAddr approveData) (if chainID = idBase then 2 else 1)))))))"

fun approveLoop :: "cryptoLib \<Rightarrow> 'w adapter \<Rightarrow> int \<Rightarrow> string \<Rightarrow> erc20Token list \<Rightarrow> int list \<Rightarrow> ('w, unit) action" where
  "approveLoop C A chainID spender tokens [] = liftA (Ok ())"
| "approveLoop C A chainID spender [] (amount # amounts) = liftA (Panic ''index out of range'')"
| "approveLoop C A chainID spender (token # tokens) (amount # amounts) =
     bindA (if 0 < amount \<and> tkAddress token \<noteq> ZeroAddress
            then approveTokenToHinkal C A chainID spender amount token else liftA (Ok ()))
       (\<lambda>_. approveLoop C A chainID spender tokens amounts)"

definition ApproveTokensToHinkal ::
  "cryptoLib \<Rightarrow> 'w adapter \<Rightarrow> int \<Rightarrow> string \<Rightarrow> erc20Token list \<Rightarrow> int list \<Rightarrow> ('w, unit) action" where
  "ApproveTokensToHinkal C A chainID spender tokensToApprove amounts =
     approveLoop C A chainID spender tokensToApprove amounts"

fun allApproved :: "cryptoLib \<Rightarrow> 'w adapter \<Rightarrow> string \<Rightarrow> string \<Rightarrow> approvalRequirement list \<Rightarrow> ('w, bool) action" where
  "allApproved C A owner spender [] = liftA (Ok True)"
| "allApproved C A owner spender (r # rs) =
     bindA (Erc20Allowance A (hexToAddress C (arToken r)) owner spender) (\<lambda>allowance.
       if allowance < arAmount r then liftA (Ok False) else allApproved C A owner spender rs)"

text \<open>When the attempts run out the wait ends without an error.\<close>

fun waitLoop :: "cryptoLib \<Rightarrow> 'w adapter \<Rightarrow> string \<Rightarrow> string \<Rightarrow> approvalRequirement list \<Rightarrow> nat \<Rightarrow> ('w, unit) action" where
  "waitLoop C A owner spender valid 0 = liftA (Ok ())"
| "waitLoop C A owner spender valid (Suc attempts) =
     bindA (allApproved C A owner spender valid) (\<lambda>done.
       if done then liftA (Ok ())
       else (\<lambda>w. waitLoop C A owner spender valid attempts (paTick A w)))"

definition WaitForErc20Approvals ::
  "cryptoLib \<Rightarrow> 'w adapter \<Rightarrow> int \<Rightarrow> string \<Rightarrow> string \<Rightarrow> approvalRequirement list \<Rightarrow> nat \<Rightarrow> ('w, unit) action" where
  "WaitForErc20Approvals C A chainID owner spender requirements maxAttempts =
     (let valid = filter (\<lambda>r. 0 < arAmount r \<and> \<not> equalFold (arToken r) ZeroAddress) requirements
      in if valid = [] then liftA (Ok ())
         else bindA (liftA (paFetchClient A chainID)) (\<lambda>_. waitLoop C A owner spender valid maxAttempts))"

subsection \<open>transact_call_direct.go\<close>

record directParams =
  dpAmounts :: "int list"
  dpTokens :: "erc20Token list"
  dpZkCallData :: zkCallData
  dpCircomData :: circomData
  dpDimData :: dimData
  dpContractApproval :: string
  dpContractTransact :: string
  dpPreEstimateGas :: bool
  dpReturnTxData :: bool

text \<open>The amount of the last native token counts.\<close>

definition ethAmountOf :: "erc20Token list \<Rightarrow> int list \<Rightarrow> int" where
  "ethAmountOf tokens amounts =
     fold (\<lambda>(t, a) acc. if tkAddress t = ZeroAddress then a else acc) (zip tokens amounts) 0"

definition paddedGas :: "u64 \<Rightarrow> u64" where
  "paddedGas gas = (gas * 12 + 9) div 10"

definition sendDirect :: "cryptoLib \<Rightarrow> 'w adapter \<Rightarrow> int \<Rightarrow> directParams \<Rightarrow> string \<Rightarrow> txRequest \<Rightarrow> ('w, txRequest \<times> string) action" where
  "sendDirect C A chainID p ethAddr tx =
     (\<lambda>w. let tx' = (if dpPreEstimateGas p \<and> isOk (paFetchClient A chainID)
                      then (case paEstimate A (hexToAddress C ethAddr) tx w of
                              Ok gas \<Rightarrow> tx\<lparr>trGasLimit := paddedGas gas\<rparr> | _ \<Rightarrow> tx)
                      else tx)
          in bindA (paSend A tx') (\<lambda>h. liftA (Ok (tx', h))) w)"

definition TransactCallDirect ::
  "cryptoLib \<Rightarrow> 'a contractLib \<Rightarrow> string res \<Rightarrow> 'w adapter \<Rightarrow> int \<Rightarrow> directParams \<Rightarrow> ('w, txRequest \<times> string) action" where
  "TransactCallDirect C L hinkalAddress A chainID p =
     (if length (dpAmounts p) \<noteq> length (dpTokens p) then liftA (Err (ErrMsg ''web3: token and amount length mismatch''))
      else
        bindA (liftA hinkalAddress) (\<lambda>hinkalAddr.
        (let forApproval = (if dpContractApproval p = [] then hinkalAddr else dpContractApproval p);
             forTransaction = (if dpContractTransact p = [] then hinkalAddr else dpContractTransact p);
             ethAmount = ethAmountOf (dpTokens p) (dpAmounts p);
             needsApproval = (\<exists>t\<in>set (dpTokens p). tkAddress t \<noteq> ZeroAddress)
         in bindA (liftA (paAddress A)) (\<lambda>ethAddr.
            bindA (if dpReturnTxData p then liftA (Ok ())
                   else
                     bindA (ApproveTokensToHinkal C A chainID (hexToAddress C forApproval) (dpTokens p) (dpAmounts p)) (\<lambda>_.
                       if needsApproval
                       then WaitForErc20Approvals C A chainID (hexToAddress C ethAddr) (hexToAddress C forApproval)
                              (map2 (\<lambda>t a. \<lparr>arToken = tkAddress t, arAmount = a\<rparr>) (dpTokens p) (dpAmounts p)) 30
                       else liftA (Ok ()))) (\<lambda>_.
            bindA (liftA (PackTransact C L chainID (dpZkCallData p) (dpDimData p) (dpCircomData p))) (\<lambda>payload.
              (let tx = \<lparr>trTo = forTransaction, trData = payload,
                         trValue = (if 0 < ethAmount then Some ethAmount else None), trGasLimit = 0\<rparr>
               in if dpReturnTxData p then liftA (Ok (tx, []))
                  else sendDirect C A chainID p ethAddr tx)))))))"

subsection \<open>transact_call_relayer.go\<close>

record tronProofSignature =
  tsV :: int
  tsR :: string
  tsS :: string

record relayerBody =
  rbChainID :: int
  rbA :: "string \<times> string"
  rbB :: "(string \<times> string) \<times> (string \<times> string)"
  rbC :: "string \<times> string"
  rbDimData :: dimData
  rbCircomData :: circomDataJson
  rbCommitment :: "commitmentValidation option"
  rbUniswapWorkAround :: bool
  rbAuthorization :: "authorizationData option"
  rbRecipient :: string
  rbTronSignature :: "tronProofSignature option"

record relayerResponse =
  rrStatus :: string
  rrMessage :: string
  rrError :: string

record relayerBatchResponse =
  rsStatus :: string
  rsScheduleID :: "string option"
  rsError :: string

record relayerBatchBody =
  bbChainID :: int
  bbTransactions :: "relayerBody list"
  bbHashedEthereumAddress :: string
  bbTxCompletionTime :: "int option"
  bbRef :: string
  bbHashedDashboardAccountID :: string

definition extractTxResponse :: "relayerResponse \<Rightarrow> string res" where
  "extractTxResponse r =
     (if rrStatus r = ''success'' then Ok (rrMessage r)
      else if rrMessage r \<noteq> [] \<and> rrError r \<noteq> [] then Err (ErrRelayer (rrError r) (rrMessage r))
      else Err (ErrMsg (rrError r)))"

definition extractBatchTxResponse :: "relayerBatchResponse \<Rightarrow> string res" where
  "extractBatchTxResponse r =
     (if rsStatus r = ''success''
      then (case rsScheduleID r of
              None \<Rightarrow> Err (ErrMsg ''relayer batch response missing scheduleId'')
            | Some i \<Rightarrow> if i = [] then Err (ErrMsg ''relayer batch response missing scheduleId'') else Ok i)
      else if rsError r \<noteq> [] then Err (ErrMsg (rsError r)) else Err (ErrMsg ''batch transaction failed''))"

text \<open>\<open>call\<close> posts the body to the relayer, which may act on the chain.\<close>

definition TransactCallRelayer ::
  "(relayerBody \<Rightarrow> ('w, relayerResponse) action) \<Rightarrow> int \<Rightarrow> zkCallData \<Rightarrow> dimData \<Rightarrow> circomData \<Rightarrow> commitmentValidation option \<Rightarrow>
   bool \<Rightarrow> tronProofSignature option \<Rightarrow> ('w, string) action" where
  "TransactCallRelayer call chainID zk dim c commitment uniswap tronSignature =
     bindA (call \<lparr>rbChainID = chainID, rbA = zcA zk, rbB = zcB zk, rbC = zcC zk, rbDimData = dim,
       rbCircomData = SerializeCircomData c, rbCommitment = commitment, rbUniswapWorkAround = uniswap,
       rbAuthorization = None, rbRecipient = [], rbTronSignature = tronSignature\<rparr>)
       (\<lambda>r. liftA (extractTxResponse r))"

record relayerBatchItem =
  biZkCallData :: zkCallData
  biDimData :: dimData
  biCircomData :: circomData
  biCommitment :: "commitmentValidation option"
  biUniswapWorkAround :: bool
  biAuthorization :: "authorizationData option"
  biRecipient :: string
  biTronSignature :: "tronProofSignature option"

definition batchBody :: "int \<Rightarrow> relayerBatchItem \<Rightarrow> relayerBody" where
  "batchBody chainID i = \<lparr>rbChainID = chainID, rbA = zcA (biZkCallData i), rbB = zcB (biZkCallData i),
     rbC = zcC (biZkCallData i), rbDimData = biDimData i, rbCircomData = SerializeCircomData (biCircomData i),
     rbCommitment = biCommitment i, rbUniswapWorkAround = biUniswapWorkAround i, rbAuthorization = biAuthorization i,
     rbRecipient = biRecipient i, rbTronSignature = biTronSignature i\<rparr>"

definition TransactCallRelayerBatch ::
  "(relayerBatchBody \<Rightarrow> ('w, relayerBatchResponse) action) \<Rightarrow> int \<Rightarrow> relayerBatchItem list \<Rightarrow> string \<Rightarrow> int option \<Rightarrow> string \<Rightarrow>
   string \<Rightarrow> ('w, string) action" where
  "TransactCallRelayerBatch call chainID transactions hashedEthereumAddress txCompletionTime ref hashedDashboardAccountID =
     (if transactions = [] then liftA (Err (ErrMsg ''web3: batch transactions must not be empty''))
      else
        bindA (call \<lparr>bbChainID = chainID, bbTransactions = map (batchBody chainID) transactions,
          bbHashedEthereumAddress = hashedEthereumAddress, bbTxCompletionTime = txCompletionTime, bbRef = ref,
          bbHashedDashboardAccountID = hashedDashboardAccountID\<rparr>)
          (\<lambda>r. liftA (extractBatchTxResponse r)))"

end
