(* ===== verification/EvmSendProps.thy ===== *)
theory EvmSendProps
  imports EvmSend PreTransactionProps
begin

text \<open>
  What sending on an EVM chain promises: the body sent to a relayer carries the whole transaction, and a direct
  transaction is sent exactly once, after approvals for no more than its amounts, and from a state in which the allowance
  its sender gave covers every amount.
\<close>

subsection \<open>The relayed form\<close>

text \<open>How a relayer reads the JSON form back.\<close>

definition readOptional :: "string option \<Rightarrow> int option res" where
  "readOptional s = (case s of None \<Rightarrow> Ok None | Some t \<Rightarrow> andThen (ParseBigInt t) (\<lambda>n. Ok (Some n)))"

definition readNullable :: "string \<Rightarrow> int option res" where
  "readNullable s = (if s = ''<nil>'' then Ok None else andThen (ParseBigInt s) (\<lambda>n. Ok (Some n)))"

definition readStealth :: "stealthJson \<Rightarrow> stealthAddressStructure res" where
  "readStealth s =
     andThen (ParseBigInt (sjExtraRandomization s)) (\<lambda>r. andThen (ParseBigInt (sjStealthAddress s)) (\<lambda>a.
     andThen (ParseBigInt (sjH0 s)) (\<lambda>h0. andThen (ParseBigInt (sjH1 s)) (\<lambda>h1.
       Ok \<lparr>saExtraRandomization = r, saStealthAddress = a, saH0 = h0, saH1 = h1\<rparr>))))"

definition readFees :: "feeStructureJson \<Rightarrow> feeStructure res" where
  "readFees f =
     andThen (ParseBigInt (fjFlatFee f)) (\<lambda>flat. andThen (ParseBigInt (fjVariableRate f)) (\<lambda>rate.
       Ok \<lparr>fsFeeToken = fjFeeToken f, fsFlatFee = flat, fsVariableRate = rate\<rparr>))"

definition readApproval :: "useApprovalJson \<Rightarrow> useApprovalUTXOData res" where
  "readApproval u =
     andThen (mapRes ParseBigInt (ujApprovalChanges u)) (\<lambda>c. andThen (mapRes ParseBigInt (ujConversionInHinkalAddress u)) (\<lambda>v.
       Ok \<lparr>uaApprovalChanges = c, uaExternalApprovalAddresses = ujExternalApprovalAddresses u, uaConversionInHinkalAddress = v\<rparr>))"

definition readLogic :: "logicArgsJson \<Rightarrow> hinkalLogicArgs res" where
  "readLogic l =
     andThen (mapRes ParseBigInt (ljExecuteApprovalChanges l)) (\<lambda>c. andThen (readNullable (ljInHinkalAddress l)) (\<lambda>a.
     andThen (mapRes readApproval (ljUseApprovalUtxoData l)) (\<lambda>us.
       Ok \<lparr>laAction = ljAction l, laExecuteApprovalChanges = c, laDoPreTxApproval = ljDoPreTxApproval l,
           laInHinkalAddress = a, laUseApprovalUtxoData = us, laInteractionAddress = ljInteractionAddress l\<rparr>)))"

definition readCircom :: "circomDataJson \<Rightarrow> circomData res" where
  "readCircom j =
     andThen (readOptional (cjRootHashHinkal j)) (\<lambda>root. andThen (mapRes ParseBigInt (cjAmountChanges j)) (\<lambda>changes.
     andThen (readStealth (cjStealth j)) (\<lambda>stealth. andThen (readOptional (cjRootHashAccessToken j)) (\<lambda>access.
     andThen (ParseBigInt (cjExternalActionID j)) (\<lambda>act. andThen (ParseBigInt (cjCalldataHash j)) (\<lambda>h.
     andThen (mapRes ParseBigInt (cjSlippageValues j)) (\<lambda>slippage. andThen (readLogic (cjLogicArgs j)) (\<lambda>logic.
     andThen (readFees (cjFeeStructure j)) (\<lambda>fees.
       Ok \<lparr>cdRootHashHinkal = root, cdErc20TokenAddresses = cjErc20TokenAddresses j, cdTokenIDs = cjTokenIDs j,
           cdAmountChanges = changes, cdInputNullifiers = cjInputNullifiers j, cdOutCommitments = cjOutCommitments j,
           cdEncryptedOutputs = cjEncryptedOutputs j, cdTimeStamp = cjTimeStamp j, cdStealth = stealth,
           cdRootHashAccessToken = access, cdRelay = cjRelay j, cdExternalAddress = cjExternalAddress j,
           cdExternalActionMetadata = cjExternalActionMetadata j, cdExternalActionID = act, cdHookData = cjHookData j,
           cdCalldataHash = h, cdPublicSignalCount = cjPublicSignalCount j, cdOnChainCreation = cjOnChainCreation j,
           cdSlippageValues = slippage, cdLogicArgs = logic, cdFeeStructure = fees,
           cdSignatureData = cjSignatureData j, cdOriginalSender = cjOriginalSender j\<rparr>)))))))))"

lemma bigString_not_nil [simp]: "bigString n \<noteq> ''<nil>''"
  using bigText_plain(2) [of n] by (auto simp: plainSet_def)

lemma readOptional_inverse [simp]: "readOptional (bigIntPtrString n) = Ok n"
  by (cases n) (simp_all add: readOptional_def bigIntPtrString_def)

lemma readNullable_inverse [simp]: "readNullable (nilString n) = Ok n"
  by (cases n) (simp_all add: readNullable_def nilString_def)

lemma readSlice_inverse [simp]: "mapRes ParseBigInt (bigIntSliceStrings ns) = Ok ns"
  by (simp add: bigIntSliceStrings_def mapRes_ParseBigInt)

lemma readApprovals_inverse [simp]: "mapRes readApproval (map useApprovalJsonOf us) = Ok us"
  by (induction us) (simp_all add: readApproval_def useApprovalJsonOf_def)

lemma readLogic_inverse [simp]: "readLogic (serializeHinkalLogicArgs h) = Ok h"
  by (simp add: readLogic_def serializeHinkalLogicArgs_def)

text \<open>The JSON form of a transaction sent to a relayer reads back to the transaction: no number, list or missing
  pointer of it is lost on the way.
\<close>

theorem relayed_form_reads_back: "readCircom (SerializeCircomData c) = Ok c"
  by (simp add: readCircom_def SerializeCircomData_def readStealth_def readFees_def)

subsection \<open>Allowances\<close>

text \<open>
  What the code relies on: an allowance that is read, of whatever owner, is the one of the chain, and an approval
  that was sent and waited for sets the allowance of its token for the owner who sends, and no other allowance of
  that owner. Nothing is said of other owners, and nothing of what happens while the code sleeps.
\<close>

definition approvalLaws :: "'w adapter \<Rightarrow> string \<Rightarrow> string \<Rightarrow> ('w \<Rightarrow> string \<Rightarrow> string \<Rightarrow> int) \<Rightarrow> bool" where
  "approvalLaws A owner spender al \<longleftrightarrow>
     (\<forall>token other w n. paAllowance A token other spender w = Ok n \<longrightarrow> n = al w other token) \<and>
     (\<forall>n payload token w h w1 chainID k w2. paApproveData A spender n = Ok payload \<longrightarrow>
        paSend A (plainTx token payload) w = (Ok h, w1) \<longrightarrow> paWait A chainID h k w1 = (Ok (), w2) \<longrightarrow>
        al w2 owner = (al w owner)(token := n))"

text \<open>The record of what was done to the chain: the transactions that were sent and the sleeps, in order.\<close>

datatype chainEvent = Sent txRequest | Slept

definition recordsEvents :: "'w adapter \<Rightarrow> ('w \<Rightarrow> chainEvent list) \<Rightarrow> bool" where
  "recordsEvents A trace \<longleftrightarrow>
     (\<forall>tx w h w1. paSend A tx w = (Ok h, w1) \<longrightarrow> trace w1 = trace w @ [Sent tx]) \<and>
     (\<forall>chainID h k w w1. paWait A chainID h k w = (Ok (), w1) \<longrightarrow> trace w1 = trace w) \<and>
     (\<forall>w. trace (paTick A w) = trace w @ [Slept])"

text \<open>An approval of one of the tokens: of its amount, or of nothing to reset it.\<close>

definition approvalOf :: "cryptoLib \<Rightarrow> 'w adapter \<Rightarrow> string \<Rightarrow> erc20Token \<Rightarrow> int \<Rightarrow> txRequest \<Rightarrow> bool" where
  "approvalOf C A spender token amount tx \<longleftrightarrow> 0 < amount \<and> tkAddress token \<noteq> ZeroAddress \<and>
     (\<exists>n payload. (n = amount \<or> n = 0) \<and> paApproveData A spender n = Ok payload \<and>
        tx = plainTx (hexToAddress C (tkAddress token)) payload)"

definition approvalsOf :: "cryptoLib \<Rightarrow> 'w adapter \<Rightarrow> string \<Rightarrow> erc20Token list \<Rightarrow> int list \<Rightarrow> txRequest list \<Rightarrow> bool" where
  "approvalsOf C A spender tokens amounts txs \<longleftrightarrow>
     (\<forall>tx\<in>set txs. \<exists>(token, amount)\<in>set (zip tokens amounts). approvalOf C A spender token amount tx)"

lemma bind_unit_eq_Ok:
  "bindA (m :: ('s, unit) action) f s = (Ok y, s2) \<longleftrightarrow> (\<exists>s1. m s = (Ok (), s1) \<and> f () s1 = (Ok y, s2))"
  by (simp add: bindA_eq_Ok)

lemma read_allowance:
  "approvalLaws A owner spender al \<Longrightarrow> Erc20Allowance A token other spender w = (Ok n, w') \<Longrightarrow> n = al w other token \<and> w' = w"
  by (auto simp: approvalLaws_def Erc20Allowance_def readA_def)

lemma sent_approval:
  "approvalLaws A owner spender al \<Longrightarrow> recordsEvents A trace \<Longrightarrow> Erc20ApproveCalldata A spender n = Ok payload \<Longrightarrow>
    sendAndWait A chainID (plainTx token payload) k w = (Ok (), w') \<Longrightarrow>
    al w' owner = (al w owner)(token := n) \<and> trace w' = trace w @ [Sent (plainTx token payload)]"
  unfolding approvalLaws_def recordsEvents_def Erc20ApproveCalldata_def sendAndWait_def bindA_eq_Ok by metis

text \<open>What approving may do: it sends approvals only, and raises the owner's allowances.\<close>

definition approving :: "('w \<Rightarrow> string \<Rightarrow> string \<Rightarrow> int) \<Rightarrow> ('w \<Rightarrow> chainEvent list) \<Rightarrow> string \<Rightarrow> (txRequest \<Rightarrow> bool) \<Rightarrow> 'w \<Rightarrow> 'w \<Rightarrow> bool" where
  "approving al trace owner P w w' \<longleftrightarrow> al w owner \<le> al w' owner \<and>
     (\<exists>txs. trace w' = trace w @ map Sent txs \<and> (\<forall>tx\<in>set txs. P tx))"

lemma approving_refl: "approving al trace owner P w w"
  by (simp add: approving_def)

lemma approving_trans:
  assumes "approving al trace owner P w w1" "approving al trace owner P w1 w2"
  shows "approving al trace owner P w w2"
proof -
  obtain xs ys where "trace w1 = trace w @ map Sent xs" "\<forall>tx\<in>set xs. P tx"
      "trace w2 = trace w1 @ map Sent ys" "\<forall>tx\<in>set ys. P tx"
    using assms unfolding approving_def by blast
  then have "trace w2 = trace w @ map Sent (xs @ ys)" "\<forall>tx\<in>set (xs @ ys). P tx" by auto
  then show ?thesis using assms unfolding approving_def by (meson order_trans)
qed

lemma approving_mono: "approving al trace owner P w w' \<Longrightarrow> (\<And>tx. P tx \<Longrightarrow> Q tx) \<Longrightarrow> approving al trace owner Q w w'"
  unfolding approving_def by blast

lemma approved_token:
  assumes laws: "approvalLaws A owner spender al" "recordsEvents A trace"
    and owner: "paAddress A = Ok addr" "owner = hexToAddress C addr"
    and use: "0 < amount" "tkAddress token \<noteq> ZeroAddress"
    and run: "approveTokenToHinkal C A chainID spender amount token w = (Ok (), w')"
  shows "amount \<le> al w' owner (hexToAddress C (tkAddress token)) \<and>
    approving al trace owner (approvalOf C A spender token amount) w w'"
proof -
  let ?t = "hexToAddress C (tkAddress token)"
  obtain allowance s1 where first: "Erc20Allowance A ?t owner spender w = (Ok allowance, s1)"
      and rest: "(if amount \<le> allowance then liftA (Ok ()) else
          bindA (if needsReset chainID token allowance
                 then bindA (liftA (Erc20ApproveCalldata A spender 0)) (\<lambda>resetData.
                        sendAndWait A chainID (plainTx ?t resetData) 1)
                 else liftA (Ok ())) (\<lambda>_.
          bindA (liftA (Erc20ApproveCalldata A spender amount)) (\<lambda>approveData.
            sendAndWait A chainID (plainTx ?t approveData) (if chainID = idBase then 2 else 1)))) s1 = (Ok (), w')"
    using run unfolding approveTokenToHinkal_def Let_def owner
    by (subst (asm) bindA_eq_Ok, subst (asm) bindA_eq_Ok, subst (asm) bindA_eq_Ok)
      (auto simp: liftA_eq owner(1))
  have now: "al w owner ?t = allowance" "s1 = w" using read_allowance [OF laws(1) first] by simp_all
  note rest = rest [unfolded now(2)]
  show ?thesis
  proof (cases "amount \<le> allowance")
    case True
    then show ?thesis using rest now by (simp add: liftA_eq approving_refl)
  next
    case False
    then obtain w1 payload where reset: "(if needsReset chainID token allowance
          then bindA (liftA (Erc20ApproveCalldata A spender 0)) (\<lambda>resetData. sendAndWait A chainID (plainTx ?t resetData) 1)
          else liftA (Ok ())) w = (Ok (), w1)"
        and approve: "Erc20ApproveCalldata A spender amount = Ok payload"
          "sendAndWait A chainID (plainTx ?t payload) (if chainID = idBase then 2 else 1) w1 = (Ok (), w')"
      using rest unfolding if_not_P [OF False] bind_unit_eq_Ok bindA_eq_Ok liftA_eq by blast
    have "(al w1 owner = al w owner \<or> al w1 owner = (al w owner)(?t := 0)) \<and>
        (\<exists>txs. trace w1 = trace w @ map Sent txs \<and> (\<forall>tx\<in>set txs. approvalOf C A spender token amount tx))"
    proof (cases "needsReset chainID token allowance")
      case True
      then obtain resetData where "Erc20ApproveCalldata A spender 0 = Ok resetData"
          "sendAndWait A chainID (plainTx ?t resetData) 1 w = (Ok (), w1)"
        using reset by (auto simp: bindA_eq_Ok liftA_eq)
      moreover from this have "approvalOf C A spender token amount (plainTx ?t resetData)"
        using use by (auto simp: approvalOf_def Erc20ApproveCalldata_def)
      ultimately show ?thesis
        using sent_approval [OF laws] by (intro conjI exI [of _ "[plainTx ?t resetData]"]) auto
    next
      case False
      then show ?thesis using reset by (auto simp: liftA_eq intro: exI [of _ "[]"])
    qed
    moreover have "approvalOf C A spender token amount (plainTx ?t payload)"
      using use approve(1) by (auto simp: approvalOf_def Erc20ApproveCalldata_def)
    moreover have "al w' owner = (al w1 owner)(?t := amount)" "trace w' = trace w1 @ [Sent (plainTx ?t payload)]"
      using sent_approval [OF laws approve] by auto
    ultimately obtain txs where new: "al w' owner = (al w owner)(?t := amount)" and t: "trace w' = trace w @ map Sent (txs @ [plainTx ?t payload])"
        and approvals: "\<forall>tx\<in>set (txs @ [plainTx ?t payload]). approvalOf C A spender token amount tx"
      by auto
    have "approving al trace owner (approvalOf C A spender token amount) w w'"
      unfolding approving_def using new False now(1) t approvals by (intro conjI exI [of _ "txs @ [plainTx ?t payload]"]) (auto simp: le_fun_def)
    then show ?thesis using new by simp
  qed
qed

definition covered_by :: "cryptoLib \<Rightarrow> (string \<Rightarrow> int) \<Rightarrow> erc20Token list \<Rightarrow> int list \<Rightarrow> bool" where
  "covered_by C allowed tokens amounts \<longleftrightarrow>
     (\<forall>i<length amounts. 0 < amounts ! i \<and> tkAddress (tokens ! i) \<noteq> ZeroAddress \<longrightarrow>
        amounts ! i \<le> allowed (hexToAddress C (tkAddress (tokens ! i))))"

lemma covered_by_mono: "covered_by C f tokens amounts \<Longrightarrow> f \<le> g \<Longrightarrow> covered_by C g tokens amounts"
  unfolding covered_by_def le_fun_def by (meson order_trans)

lemma approveLoop_covers:
  "approvalLaws A owner spender al \<Longrightarrow> recordsEvents A trace \<Longrightarrow> paAddress A = Ok addr \<Longrightarrow> owner = hexToAddress C addr \<Longrightarrow>
   approveLoop C A chainID spender tokens amounts w = (Ok (), w') \<Longrightarrow>
    covered_by C (al w' owner) tokens amounts \<and>
    approving al trace owner (\<lambda>tx. \<exists>(token, amount)\<in>set (zip tokens amounts). approvalOf C A spender token amount tx) w w'"
proof (induction C A chainID spender tokens amounts arbitrary: w rule: approveLoop.induct)
  case (3 C A chainID spender token tokens amount amounts)
  let ?P = "\<lambda>tokens amounts tx. \<exists>(token, amount)\<in>set (zip tokens amounts). approvalOf C A spender token amount tx"
  obtain w1 where first: "(if 0 < amount \<and> tkAddress token \<noteq> ZeroAddress
      then approveTokenToHinkal C A chainID spender amount token else liftA (Ok ())) w = (Ok (), w1)"
      and rest: "approveLoop C A chainID spender tokens amounts w1 = (Ok (), w')"
    using "3.prems"(5) by (auto simp: bindA_eq_Ok)
  have IH: "covered_by C (al w' owner) tokens amounts" "approving al trace owner (?P tokens amounts) w1 w'"
    using "3.IH" [OF "3.prems"(1-4) rest] by auto
  have hd: "approving al trace owner (approvalOf C A spender token amount) w w1"
      "0 < amount \<and> tkAddress token \<noteq> ZeroAddress \<Longrightarrow> amount \<le> al w1 owner (hexToAddress C (tkAddress token))"
    using first approved_token [OF "3.prems"(1-4)] by (auto simp: liftA_eq approving_refl split: if_splits)
  have "al w1 owner \<le> al w' owner" using IH(2) by (simp add: approving_def)
  then have "covered_by C (al w' owner) (token # tokens) (amount # amounts)"
    using IH(1) hd(2) unfolding covered_by_def le_fun_def by (auto simp: less_Suc_eq_0_disj intro: order_trans)
  moreover have "approving al trace owner (?P (token # tokens) (amount # amounts)) w w1"
      "approving al trace owner (?P (token # tokens) (amount # amounts)) w1 w'"
    using approving_mono [OF hd(1)] approving_mono [OF IH(2)] by auto
  ultimately show ?case by (blast intro: approving_trans)
qed (simp_all add: liftA_eq covered_by_def approving_refl)

text \<open>The wait reads the allowances of the account that sent the approvals, so it ends at its first look.\<close>

lemma allApproved_now:
  assumes laws: "approvalLaws A owner spender al"
    and enough: "\<forall>r\<in>set rs. arAmount r \<le> al w owner (hexToAddress C (arToken r))"
  shows "allApproved C A owner spender rs w = (Ok b, w') \<Longrightarrow> b \<and> w' = w"
  using enough
proof (induction rs)
  case (Cons r rs)
  then show ?case by (auto simp: bindA_eq_Ok liftA_eq split: if_splits dest!: read_allowance [OF laws])
qed (simp add: liftA_eq)

lemma wait_now:
  assumes laws: "approvalLaws A owner spender al"
    and enough: "\<forall>r\<in>set rs. 0 < arAmount r \<longrightarrow> arToken r \<noteq> ZeroAddress \<longrightarrow> arAmount r \<le> al w owner (hexToAddress C (arToken r))"
    and run: "WaitForErc20Approvals C A chainID owner spender rs (Suc n) w = (Ok (), w')"
  shows "w' = w"
proof -
  let ?valid = "filter (\<lambda>r. 0 < arAmount r \<and> \<not> equalFold (arToken r) ZeroAddress) rs"
  have "\<forall>r\<in>set ?valid. arAmount r \<le> al w owner (hexToAddress C (arToken r))"
    using enough by (auto simp: equalFold_def)
  note now = allApproved_now [OF laws this]
  show ?thesis
  proof (cases "?valid = []")
    case True
    then show ?thesis using run by (simp add: WaitForErc20Approvals_def liftA_eq)
  next
    case False
    then have "waitLoop C A owner spender ?valid (Suc n) w = (Ok (), w')"
      using run unfolding WaitForErc20Approvals_def Let_def if_not_P [OF False] by (simp only: bindA_eq_Ok liftA_eq) auto
    then obtain b w1 where b: "allApproved C A owner spender ?valid w = (Ok b, w1)"
        and "(if b then liftA (Ok ()) else (\<lambda>w. waitLoop C A owner spender ?valid n (paTick A w))) w1 = (Ok (), w')"
      by (auto simp: bindA_eq_Ok)
    then show ?thesis using now [OF b] by (simp add: liftA_eq)
  qed
qed

lemma approved_and_waited:
  assumes laws: "approvalLaws A owner spender al" "recordsEvents A trace"
    and owner: "paAddress A = Ok addr" "owner = hexToAddress C addr"
    and run: "bindA (ApproveTokensToHinkal C A chainID spender tokens amounts) (\<lambda>_.
           if b then WaitForErc20Approvals C A chainID owner spender
             (map2 (\<lambda>t a. \<lparr>arToken = tkAddress t, arAmount = a\<rparr>) tokens amounts) (Suc n) else liftA (Ok ())) w = (Ok (), w')"
  shows "covered_by C (al w' owner) tokens amounts \<and>
    (\<exists>txs. trace w' = trace w @ map Sent txs \<and> approvalsOf C A spender tokens amounts txs)"
proof -
  let ?rs = "map2 (\<lambda>t a. \<lparr>arToken = tkAddress t, arAmount = a\<rparr>) tokens amounts"
  obtain w1 where w1: "approveLoop C A chainID spender tokens amounts w = (Ok (), w1)" and rest:
      "(if b then WaitForErc20Approvals C A chainID owner spender ?rs (Suc n) else liftA (Ok ())) w1 = (Ok (), w')"
    using run unfolding ApproveTokensToHinkal_def bind_unit_eq_Ok by blast
  note c = approveLoop_covers [OF laws owner w1]
  have enough: "\<forall>r\<in>set ?rs. 0 < arAmount r \<longrightarrow> arToken r \<noteq> ZeroAddress \<longrightarrow> arAmount r \<le> al w1 owner (hexToAddress C (arToken r))"
    using c unfolding covered_by_def by (auto simp: set_zip)
  have "w' = w1"
  proof (cases b)
    case True
    then show ?thesis using rest by (intro wait_now [OF laws(1) enough]) (simp only: if_True)
  next
    case False
    then show ?thesis using rest by (simp add: liftA_eq)
  qed
  then show ?thesis using c unfolding approving_def approvalsOf_def by blast
qed

definition sentTransaction :: "cryptoLib \<Rightarrow> 'a contractLib \<Rightarrow> string \<Rightarrow> int \<Rightarrow> directParams \<Rightarrow> txRequest \<Rightarrow> bool" where
  "sentTransaction C L hinkal chainID p tx \<longleftrightarrow>
     PackTransact C L chainID (dpZkCallData p) (dpDimData p) (dpCircomData p) = Ok (trData tx) \<and>
     trTo tx = (if dpContractTransact p = [] then hinkal else dpContractTransact p) \<and>
     trValue tx = (if 0 < ethAmountOf (dpTokens p) (dpAmounts p) then Some (ethAmountOf (dpTokens p) (dpAmounts p)) else None)"

lemma sendDirect_sends:
  "sendDirect C A chainID p ethAddr tx w = (Ok (tx', h), w') \<Longrightarrow> paSend A tx' w = (Ok h, w') \<and> (\<exists>g. tx' = tx\<lparr>trGasLimit := g\<rparr>)"
  by (auto simp: sendDirect_def Let_def bindA_eq_Ok liftA_eq split: if_splits res.splits intro: exI [of _ "trGasLimit tx"])

text \<open>C8: a direct call sends approvals of its tokens, for no more than their amounts, and then exactly one
  transaction, to the contract asked for, with the packed call as its data and the native amount as its value, from
  a state of the chain in which the sender's allowance of every token covers its amount; it never sleeps, because it
  waits for the allowances of the account that approved. Asked for the transaction only, it returns the same
  transaction and sends nothing.
\<close>

theorem direct_call_sent_when_covered:
  assumes laws: "approvalLaws A owner (hexToAddress C (if dpContractApproval p = [] then hinkal else dpContractApproval p)) al"
      "recordsEvents A trace"
    and owner: "paAddress A = Ok addr" "owner = hexToAddress C addr"
    and run: "TransactCallDirect C L (Ok hinkal) A chainID p w = (Ok (tx, h), w')"
  shows "sentTransaction C L hinkal chainID p tx \<and>
    (if dpReturnTxData p then w' = w \<and> h = []
     else (\<exists>approvals w1. trace w' = trace w @ map Sent approvals @ [Sent tx] \<and>
       approvalsOf C A (hexToAddress C (if dpContractApproval p = [] then hinkal else dpContractApproval p))
         (dpTokens p) (dpAmounts p) approvals \<and>
       paSend A tx w1 = (Ok h, w') \<and> covered_by C (al w1 owner) (dpTokens p) (dpAmounts p)))"
proof -
  let ?spender = "hexToAddress C (if dpContractApproval p = [] then hinkal else dpContractApproval p)"
  let ?native = "ethAmountOf (dpTokens p) (dpAmounts p)"
  define tx0 where "tx0 payload = \<lparr>trTo = if dpContractTransact p = [] then hinkal else dpContractTransact p, trData = payload,
    trValue = (if 0 < ?native then Some ?native else None), trGasLimit = 0\<rparr>" for payload
  have long: "(30 :: nat) = Suc 29" by simp
  have len: "\<not> length (dpAmounts p) \<noteq> length (dpTokens p)"
    using run unfolding TransactCallDirect_def by (auto simp: liftA_eq split: if_splits)
  obtain ethAddr w1 payload where ethAddr: "paAddress A = Ok ethAddr" and approve: "(if dpReturnTxData p then liftA (Ok ())
        else bindA (ApproveTokensToHinkal C A chainID ?spender (dpTokens p) (dpAmounts p)) (\<lambda>_.
          if \<exists>t\<in>set (dpTokens p). tkAddress t \<noteq> ZeroAddress
          then WaitForErc20Approvals C A chainID (hexToAddress C ethAddr) ?spender
                 (map2 (\<lambda>t a. \<lparr>arToken = tkAddress t, arAmount = a\<rparr>) (dpTokens p) (dpAmounts p)) 30
          else liftA (Ok ()))) w = (Ok (), w1)"
      and packed: "PackTransact C L chainID (dpZkCallData p) (dpDimData p) (dpCircomData p) = Ok payload"
      and sent: "(if dpReturnTxData p then liftA (Ok (tx0 payload, [])) else sendDirect C A chainID p ethAddr (tx0 payload)) w1
        = (Ok (tx, h), w')"
    using run unfolding TransactCallDirect_def Let_def tx0_def if_distribR if_not_P [OF len]
    by (simp add: bind_unit_eq_Ok bindA_eq_Ok [where m = "liftA r" for r] liftA_eq) blast
  have addr: "ethAddr = addr" "hexToAddress C addr = owner" using owner ethAddr by simp_all
  note approve = approve [unfolded addr] and sent = sent [unfolded addr]
  have shape: "sentTransaction C L hinkal chainID p (tx0 payload\<lparr>trGasLimit := g\<rparr>)" for g
    using packed by (simp add: sentTransaction_def tx0_def)
  show ?thesis
  proof (cases "dpReturnTxData p")
    case True
    then show ?thesis using approve sent shape [of 0] by (auto simp: tx0_def liftA_eq)
  next
    case False
    obtain g where g: "paSend A tx w1 = (Ok h, w')" "tx = tx0 payload\<lparr>trGasLimit := g\<rparr>"
      using sent sendDirect_sends [of C A chainID p addr "tx0 payload" w1] unfolding if_not_P [OF False] by blast
    then have "trace w' = trace w1 @ [Sent tx]" using laws(2) unfolding recordsEvents_def by blast
    moreover obtain txs where "covered_by C (al w1 owner) (dpTokens p) (dpAmounts p)"
        "trace w1 = trace w @ map Sent txs" "approvalsOf C A ?spender (dpTokens p) (dpAmounts p) txs"
      using approve approved_and_waited [OF laws owner] unfolding long by (simp only: False if_False) blast
    ultimately show ?thesis using g False shape by auto
  qed
qed

subsection \<open>A concrete chain\<close>

text \<open>The allowances of each owner and the events are the state; an approval's data is the amount itself, and the
  sender is the account \<open>0x77\<close>.\<close>

type_synonym toyChain = "(string \<Rightarrow> string \<Rightarrow> int) \<times> chainEvent list"

definition toyApprove :: "txRequest \<Rightarrow> (string \<Rightarrow> string \<Rightarrow> int) \<Rightarrow> string \<Rightarrow> string \<Rightarrow> int" where
  "toyApprove tx allowed =
     (if length (trData tx) = 1 then allowed(''0x77'' := (allowed ''0x77'')(trTo tx := uint (hd (trData tx)))) else allowed)"

definition toyAdapter :: "toyChain adapter" where
  "toyAdapter = \<lparr>paFetchClient = (\<lambda>_. Ok ()), paAddress = Ok ''0x77'', paAllowance = (\<lambda>token owner _ w. Ok (fst w owner token)),
     paApproveData = (\<lambda>_ n. if 0 \<le> n \<and> n < 256 then Ok [of_int n] else Err (ErrMsg ''too large'')),
     paSend = (\<lambda>tx w. (Ok ''0x99'', (toyApprove tx (fst w), snd w @ [Sent tx]))),
     paWait = (\<lambda>_ _ _ w. (Ok (), w)), paEstimate = (\<lambda>_ _ _. Ok 100), paTick = (\<lambda>w. (fst w, snd w @ [Slept]))\<rparr>"

definition toyLib :: "unit contractLib" where
  "toyLib = \<lparr>clHinkal = (\<lambda>_. Ok ()), clTransact = (\<lambda>_ _ _ _. Ok [1, 2]), clTronTransact = (\<lambda>_ _ _ _ _. Ok [1, 2]),
     clDeposit = (\<lambda>_ _ _ _ _. Ok [1, 2]), clDepositWithFee = (\<lambda>_ _ _ _ _ _ _. Ok [1, 2])\<rparr>"

definition toyCircom :: circomData where
  "toyCircom = \<lparr>cdRootHashHinkal = Some 5, cdErc20TokenAddresses = [''0xaa''], cdTokenIDs = [], cdAmountChanges = [3],
     cdInputNullifiers = [], cdOutCommitments = [], cdEncryptedOutputs = [], cdTimeStamp = [],
     cdStealth = \<lparr>saExtraRandomization = 1, saStealthAddress = 2, saH0 = 3, saH1 = 4\<rparr>, cdRootHashAccessToken = None,
     cdRelay = ZeroAddress, cdExternalAddress = ZeroAddress, cdExternalActionMetadata = [], cdExternalActionID = 0,
     cdHookData = DefaultHookData, cdCalldataHash = 9, cdPublicSignalCount = 6, cdOnChainCreation = [], cdSlippageValues = [0],
     cdLogicArgs = DefaultHinkalLogicArgs 0, cdFeeStructure = \<lparr>fsFeeToken = ZeroAddress, fsFlatFee = 0, fsVariableRate = 0\<rparr>,
     cdSignatureData = DefaultSignatureData\<lparr>sdV := bigString 27, sdAccessKey := bigString 0\<rparr>, cdOriginalSender = ZeroAddress\<rparr>"

definition toyZkCall :: zkCallData where
  "toyZkCall = \<lparr>zcA = (bigString 1, bigString 2), zcB = ((bigString 3, bigString 4), (bigString 5, bigString 6)),
     zcC = (bigString 7, bigString 8), zcPublicSignals = []\<rparr>"

definition toyDirect :: directParams where
  "toyDirect = \<lparr>dpAmounts = [5, 3], dpTokens = [minimalToken 10 ''0xaa'', minimalToken 10 ZeroAddress], dpZkCallData = toyZkCall,
     dpCircomData = toyCircom, dpDimData = \<lparr>dmTokenNumber = 1, dmNullifierAmount = 0, dmOutputAmount = 1\<rparr>,
     dpContractApproval = [], dpContractTransact = [], dpPreEstimateGas = True, dpReturnTxData = False\<rparr>"

lemma uint_of_small: "0 \<le> n \<Longrightarrow> n < 256 \<Longrightarrow> uint (word_of_int n :: 8 word) = n"
  by (simp add: uint_word_of_int)

lemma toy_laws: "approvalLaws toyAdapter ''0x77'' spender fst"
  by (auto simp: approvalLaws_def toyAdapter_def toyApprove_def plainTx_def fun_eq_iff uint_of_small split: if_splits)

lemma toy_events: "recordsEvents toyAdapter snd"
  by (auto simp: recordsEvents_def toyAdapter_def)

lemma toy_packed [simp]: "PackTransact toyCrypto toyLib 10 toyZkCall dim toyCircom = Ok [1, 2]"
  by (simp add: PackTransact_def toyLib_def toyZkCall_def zkCallDataToABI_def circomDataToABI_def toyCircom_def
      parseBigSlice_def parseBigMatrix_def signatureDataToABI_def Let_def)

lemma toy_lower: "toLower ''0x77'' = ''0x77''"
  by code_simp

lemma toy_owner: "''0x77'' = hexToAddress toyCrypto ''0x77''"
  by (simp add: toyCrypto_def toy_lower)

lemma notLocal_10: "\<not> IsLocalNetwork 10"
  by code_simp

lemma toy_approval:
  "n < 256 \<Longrightarrow> 0 < n \<Longrightarrow> fst w ''0x77'' (toLower (tkAddress t)) < n \<Longrightarrow>
    approveTokenToHinkal toyCrypto toyAdapter 10 spender n t w =
      (Ok (), ((fst w)(''0x77'' := (fst w ''0x77'')(toLower (tkAddress t) := n)),
               snd w @ [Sent (plainTx (toLower (tkAddress t)) [of_int n])]))"
  by (simp add: approveTokenToHinkal_def toyAdapter_def toyCrypto_def Let_def Erc20Allowance_def readA_def bindA_def liftA_def
      needsReset_def GetNonLocalhostChainID_def idEthMainnet_def idBase_def Erc20ApproveCalldata_def sendAndWait_def plainTx_def
      toyApprove_def uint_word_of_int toy_lower notLocal_10)

definition toyStart :: toyChain where
  "toyStart = ((\<lambda>_ _. 0), [])"

definition toyAllowed :: "string \<Rightarrow> string \<Rightarrow> int" where
  "toyAllowed = (\<lambda>_ _. 0)(''0x77'' := (\<lambda>_. 0)(toLower ''0xaa'' := 5))"

definition toySent :: txRequest where
  "toySent = \<lparr>trTo = ''0xbb'', trData = [1, 2], trValue = Some 3, trGasLimit = 120\<rparr>"

definition toyApproval :: txRequest where
  "toyApproval = plainTx (toLower ''0xaa'') [5]"

lemma toy_direct_run:
  "TransactCallDirect toyCrypto toyLib (Ok ''0xbb'') toyAdapter 10 toyDirect toyStart =
     (Ok (toySent, ''0x99''), (toyAllowed, [Sent toyApproval, Sent toySent]))"
proof -
  let ?p = toyDirect and ?w = "(toyAllowed, [Sent toyApproval])"
  have "ApproveTokensToHinkal toyCrypto toyAdapter 10 spender (dpTokens ?p) (dpAmounts ?p) toyStart = (Ok (), ?w)" for spender
    by (simp add: ApproveTokensToHinkal_def toyDirect_def minimalToken_def ZeroAddress_def toy_approval bindA_Ok liftA_def
        toyStart_def toyAllowed_def toyApproval_def)
  moreover have "WaitForErc20Approvals toyCrypto toyAdapter 10 (hexToAddress toyCrypto ''0x77'') spender
      (map2 (\<lambda>t a. \<lparr>arToken = tkAddress t, arAmount = a\<rparr>) (dpTokens ?p) (dpAmounts ?p)) 30 ?w = (Ok (), ?w)" for spender
  proof -
    have long: "(30 :: nat) = Suc 29" by simp
    have "\<not> equalFold ''0xaa'' ZeroAddress" by (auto simp: equalFold_def toLower_def ZeroAddress_def)
    then show ?thesis
      unfolding WaitForErc20Approvals_def long waitLoop.simps
      by (simp add: toyDirect_def minimalToken_def toyAdapter_def toyCrypto_def Erc20Allowance_def readA_def bindA_def liftA_def
          toyAllowed_def toy_lower)
  qed
  moreover have "ethAmountOf (dpTokens ?p) (dpAmounts ?p) = 3"
    by (simp add: ethAmountOf_def toyDirect_def minimalToken_def ZeroAddress_def)
  moreover have "sendDirect toyCrypto toyAdapter 10 ?p a \<lparr>trTo = ''0xbb'', trData = [1, 2], trValue = Some 3, trGasLimit = 0\<rparr> w =
      (Ok (toySent, ''0x99''), (fst w, snd w @ [Sent toySent]))" for a w
    by (simp add: sendDirect_def toyDirect_def toyAdapter_def toyApprove_def toySent_def paddedGas_def bindA_def liftA_def Let_def)
  moreover have "\<exists>t\<in>set (dpTokens ?p). tkAddress t \<noteq> ZeroAddress" by (simp add: toyDirect_def minimalToken_def ZeroAddress_def)
  moreover have "dpZkCallData ?p = toyZkCall" "dpCircomData ?p = toyCircom" "dpContractApproval ?p = []" "dpContractTransact ?p = []"
      "\<not> dpReturnTxData ?p" "length (dpAmounts ?p) = length (dpTokens ?p)" "paAddress toyAdapter = Ok ''0x77''"
    by (simp_all add: toyDirect_def toyAdapter_def)
  ultimately show ?thesis
    by (simp add: TransactCallDirect_def bindA_Ok Let_def)
qed

lemma direct_call_sent_when_covered_witness:
  "sentTransaction toyCrypto toyLib ''0xbb'' 10 toyDirect toySent \<and>
   approvalsOf toyCrypto toyAdapter (hexToAddress toyCrypto ''0xbb'') (dpTokens toyDirect) [5, 3] [toyApproval] \<and>
   (\<exists>w1. paSend toyAdapter toySent w1 = (Ok ''0x99'', (toyAllowed, [Sent toyApproval, Sent toySent])) \<and>
      covered_by toyCrypto (fst w1 ''0x77'') (dpTokens toyDirect) [5, 3])"
proof -
  have "paAddress toyAdapter = Ok ''0x77''" by (simp add: toyAdapter_def)
  note run = direct_call_sent_when_covered [OF toy_laws toy_events this toy_owner toy_direct_run]
  have p: "dpContractApproval toyDirect = []" "dpReturnTxData toyDirect = False" "dpAmounts toyDirect = [5, 3]"
    "snd toyStart = []" "snd (toyAllowed, [Sent toyApproval, Sent toySent]) = [Sent toyApproval, Sent toySent]"
    by (simp_all add: toyDirect_def toyStart_def)
  have one: "[Sent toyApproval, Sent toySent] = [] @ map Sent approvals @ [Sent toySent] \<Longrightarrow> approvals = [toyApproval]" for approvals
    by (cases approvals) auto
  show ?thesis using run unfolding p simp_thms(6) if_True if_False by (blast dest: one)
qed

end
