(* ===== verification/TronSend.thy ===== *)
theory TronSend
  imports EvmSend
begin

text \<open>
  Sending on Tron: \<open>internal/functions/tron\<close> (\<open>proof_signature.go\<close>, \<open>approvals.go\<close>, \<open>deposit_helpers.go\<close>, \<open>fees.go\<close>,
  \<open>simulation.go\<close>, \<open>transact_call_direct.go\<close>). The chain is the state \<open>'w\<close> behind \<open>tronChain\<close>; a transaction that is built and
  not yet broadcast is a list of bytes.
\<close>

record tronResources =
  rsEnergyLimit :: int
  rsEnergyUsed :: int
  rsFreeNetLimit :: int
  rsFreeNetUsed :: int
  rsNetLimit :: int
  rsNetUsed :: int

record ethCallObject =
  coFrom :: string
  coTo :: string
  coData :: string
  coValue :: "string option"

record ethCallResponse =
  ecResult :: string
  ecErrorMessage :: "string option"

record signProofRequest =
  sqA :: "string list"
  sqB :: "string list list"
  sqC :: "string list"
  sqInputs :: "string list"
  sqVerifierID :: string

record 'w tronChain =
  tcAddress :: string
  tcRpcURL :: "int \<Rightarrow> string res"
  tcPost :: "string \<Rightarrow> ethCallObject \<Rightarrow> 'w \<Rightarrow> ethCallResponse res"
  tcAllowanceData :: "string \<Rightarrow> string \<Rightarrow> bytes res"
  tcApproveData :: "string \<Rightarrow> int \<Rightarrow> bytes res"
  tcBuild :: "string \<Rightarrow> string \<Rightarrow> bytes \<Rightarrow> int \<Rightarrow> int \<Rightarrow> 'w \<Rightarrow> bytes res"       \<comment> \<open>TriggerContractWithData\<close>
  tcBroadcast :: "bytes \<Rightarrow> ('w, string) action"
  tcTick :: "'w \<Rightarrow> 'w"
  tcBalance :: "string \<Rightarrow> 'w \<Rightarrow> int res"
  tcConstantCall :: "string \<Rightarrow> string \<Rightarrow> bytes \<Rightarrow> int \<Rightarrow> 'w \<Rightarrow> (int \<times> bytes res) res"  \<comment> \<open>the energy used and the raw data\<close>
  tcEnergyRequired :: "string \<Rightarrow> string \<Rightarrow> bytes \<Rightarrow> int \<Rightarrow> 'w \<Rightarrow> int res"
  tcChainParameters :: "'w \<Rightarrow> (string \<times> int) list res"
  tcResources :: "string \<Rightarrow> 'w \<Rightarrow> tronResources res"
  tcPackVerifier :: "16 word \<Rightarrow> 16 word \<Rightarrow> 16 word \<Rightarrow> int \<Rightarrow> bytes res"
  tcSignProof :: "signProofRequest \<Rightarrow> string res"

subsection \<open>proof_signature.go\<close>

definition parseTwo :: "string \<times> string \<Rightarrow> (int \<times> int) res" where
  "parseTwo p = andThen (ParseBigInt (fst p)) (\<lambda>x. andThen (ParseBigInt (snd p)) (\<lambda>y. Ok (x, y)))"

definition ParseZkCalldata :: "zkCallData \<Rightarrow> ((int \<times> int) \<times> ((int \<times> int) \<times> (int \<times> int)) \<times> (int \<times> int) \<times> int list) res" where
  "ParseZkCalldata zk =
     andThen (parseTwo (zcA zk)) (\<lambda>a.
     andThen (parseTwo (fst (zcB zk))) (\<lambda>b0.
     andThen (parseTwo (snd (zcB zk))) (\<lambda>b1.
     andThen (parseTwo (zcC zk)) (\<lambda>c.
     andThen (mapRes ParseBigInt (zcPublicSignals zk)) (\<lambda>signals.
       Ok (a, ((snd b0, fst b0), (snd b1, fst b1)), c, signals))))))"

definition GetVerifierID :: "cryptoLib \<Rightarrow> 'w tronChain \<Rightarrow> dimData \<Rightarrow> int \<Rightarrow> int res" where
  "GetVerifierID C T dim externalActionID =
     andThen (wrapErr ''tron: verifier id encode''
       (tcPackVerifier T (of_nat (dmTokenNumber dim)) (of_nat (dmNullifierAmount dim)) (of_nat (dmOutputAmount dim)) externalActionID))
       (\<lambda>packed. Ok (setBytes (keccak256 C packed)))"

definition pairDecimal :: "int \<times> int \<Rightarrow> string list" where
  "pairDecimal p = [bigString (fst p), bigString (snd p)]"

definition splitSignature :: "cryptoLib \<Rightarrow> string \<Rightarrow> tronProofSignature res" where
  "splitSignature C signatureHex =
     (let sig = fromHex C (trimSpace signatureHex)
      in if length sig \<noteq> 65 then Err (ErrMsg (''tron: unexpected signature length '' @ natText 10 (length sig)))
         else
           (let v = uint (sig ! 64)
            in Ok \<lparr>tsV = (if v < 27 then v + 27 else v), tsR = ''0x'' @ hexEncode (take 32 sig),
                   tsS = ''0x'' @ hexEncode (take 32 (drop 32 sig))\<rparr>))"

definition GenerateProofSignatureRemotely ::
  "cryptoLib \<Rightarrow> 'w tronChain \<Rightarrow> int \<times> int \<Rightarrow> (int \<times> int) \<times> (int \<times> int) \<Rightarrow> int \<times> int \<Rightarrow> int list \<Rightarrow> dimData \<Rightarrow> int \<Rightarrow>
   tronProofSignature res" where
  "GenerateProofSignatureRemotely C T a b c inputs dim externalActionID =
     andThen (GetVerifierID C T dim externalActionID) (\<lambda>verifierID.
     andThen (tcSignProof T \<lparr>sqA = pairDecimal a, sqB = [pairDecimal (fst b), pairDecimal (snd b)], sqC = pairDecimal c,
         sqInputs = map bigString inputs, sqVerifierID = bigString verifierID\<rparr>) (splitSignature C))"

definition swapB :: "zkCallData \<Rightarrow> zkCallData" where
  "swapB zk = zk\<lparr>zcB := ((snd (fst (zcB zk)), fst (fst (zcB zk))), (snd (snd (zcB zk)), fst (snd (zcB zk))))\<rparr>"

text \<open>The call data is changed in place: the state of the action.\<close>

definition ReorderZkCallData ::
  "cryptoLib \<Rightarrow> 'w tronChain \<Rightarrow> dimData \<Rightarrow> circomData \<Rightarrow> bool \<Rightarrow> (zkCallData, tronProofSignature) action" where
  "ReorderZkCallData C T dim circom modify zk =
     (case andThen (ParseZkCalldata zk) (\<lambda>(a, b, c, signals).
             GenerateProofSignatureRemotely C T a b c signals dim (cdExternalActionID circom)) of
        Ok sig \<Rightarrow> (Ok sig, if modify then swapB zk else zk)
      | Err e \<Rightarrow> (Err e, zk)
      | Panic p \<Rightarrow> (Panic p, zk))"

subsection \<open>simulation.go\<close>

definition ethCall :: "'w tronChain \<Rightarrow> int \<Rightarrow> string \<Rightarrow> string \<Rightarrow> bytes \<Rightarrow> int option \<Rightarrow> 'w \<Rightarrow> string res" where
  "ethCall T chainID from to payload v w =
     andThen (tcRpcURL T chainID) (\<lambda>rpcURL.
     andThen (tcPost T rpcURL \<lparr>coFrom = from, coTo = to, coData = ''0x'' @ hexEncode payload,
         coValue = (case v of None \<Rightarrow> None | Some n \<Rightarrow> if 0 < n then Some (''0x'' @ bigText 16 n) else None)\<rparr> w) (\<lambda>resp.
       case ecErrorMessage resp of
         None \<Rightarrow> Ok (ecResult resp)
       | Some m \<Rightarrow> Err (ErrMsg (''tron eth_call reverted: '' @ (if m = [] then ''Unknown revert'' else m)))))"

definition tronHex :: "cryptoLib \<Rightarrow> string \<Rightarrow> string res" where
  "tronHex C a = AddressToHexFormat (sha256sum C) (b58Decode C) a"

definition tronBase58 :: "cryptoLib \<Rightarrow> string \<Rightarrow> string res" where
  "tronBase58 C a = EVMHexToTronBase58Address (sha256sum C) (b58Encode C) a"

definition SimulateTronTransaction ::
  "cryptoLib \<Rightarrow> 'w tronChain \<Rightarrow> int \<Rightarrow> string \<Rightarrow> string \<Rightarrow> bytes \<Rightarrow> int option \<Rightarrow> ('w, unit) action" where
  "SimulateTronTransaction C T chainID contractAddress from callData v =
     bindA (liftA (tronHex C contractAddress)) (\<lambda>contractHex.
     bindA (liftA (tronHex C from)) (\<lambda>fromHexText.
     bindA (readA (\<lambda>w. wrapErr ''tron transaction simulation reverted'' (ethCall T chainID fromHexText contractHex callData v w)))
       (\<lambda>_. liftA (Ok ()))))"

subsection \<open>approvals.go\<close>

definition TronErc20ApproveCalldata :: "'w tronChain \<Rightarrow> string \<Rightarrow> int \<Rightarrow> bytes res" where
  "TronErc20ApproveCalldata T spenderHex amount = tcApproveData T spenderHex amount"

definition tronAllowance :: "cryptoLib \<Rightarrow> 'w tronChain \<Rightarrow> int \<Rightarrow> string \<Rightarrow> string \<Rightarrow> string \<Rightarrow> ('w, int) action" where
  "tronAllowance C T chainID tokenHex ownerHex spenderHex =
     bindA (liftA (tcAllowanceData T (hexToAddress C ownerHex) (hexToAddress C spenderHex))) (\<lambda>payload.
     bindA (readA (ethCall T chainID ownerHex tokenHex payload None)) (\<lambda>r.
       liftA (Ok (setBytes (fromHex C r)))))"

fun tronAllApproved :: "cryptoLib \<Rightarrow> 'w tronChain \<Rightarrow> int \<Rightarrow> string \<Rightarrow> string \<Rightarrow> approvalRequirement list \<Rightarrow> ('w, bool) action" where
  "tronAllApproved C T chainID ownerHex spenderHex [] = liftA (Ok True)"
| "tronAllApproved C T chainID ownerHex spenderHex (r # rs) =
     bindA (liftA (tronHex C (arToken r))) (\<lambda>tokenHex.
     bindA (tronAllowance C T chainID tokenHex ownerHex spenderHex) (\<lambda>allowance.
       if allowance < arAmount r then liftA (Ok False) else tronAllApproved C T chainID ownerHex spenderHex rs))"

fun tronWaitLoop :: "cryptoLib \<Rightarrow> 'w tronChain \<Rightarrow> int \<Rightarrow> string \<Rightarrow> string \<Rightarrow> approvalRequirement list \<Rightarrow> nat \<Rightarrow> ('w, unit) action" where
  "tronWaitLoop C T chainID ownerHex spenderHex valid 0 = liftA (Ok ())"
| "tronWaitLoop C T chainID ownerHex spenderHex valid (Suc attempts) =
     bindA (tronAllApproved C T chainID ownerHex spenderHex valid) (\<lambda>done.
       if done then liftA (Ok ())
       else (\<lambda>w. tronWaitLoop C T chainID ownerHex spenderHex valid attempts (tcTick T w)))"

definition WaitForTronErc20Approvals ::
  "cryptoLib \<Rightarrow> 'w tronChain \<Rightarrow> int \<Rightarrow> string \<Rightarrow> string \<Rightarrow> approvalRequirement list \<Rightarrow> nat \<Rightarrow> ('w, unit) action" where
  "WaitForTronErc20Approvals C T chainID owner spender requirements maxAttempts =
     bindA (liftA (tronHex C owner)) (\<lambda>ownerHex.
     bindA (liftA (tronHex C spender)) (\<lambda>spenderHex.
     (let valid = filter (\<lambda>r. 0 < arAmount r \<and> \<not> equalFold (arToken r) ZeroAddress \<and> arToken r \<noteq> []) requirements
      in if valid = [] then liftA (Ok ())
         else tronWaitLoop C T chainID ownerHex spenderHex valid maxAttempts)))"

subsection \<open>deposit_helpers.go\<close>

record tokenApproval =
  taBase58 :: string
  taHex :: string
  taAmount :: int

definition positiveAmount :: "int option \<Rightarrow> int" where
  "positiveAmount amount = (case amount of None \<Rightarrow> 0 | Some a \<Rightarrow> if 0 < a then a else 0)"

fun approvalIndex :: "string \<Rightarrow> tokenApproval list \<Rightarrow> nat option" where
  "approvalIndex key [] = None"
| "approvalIndex key (t # ts) =
     (if toLower (taHex t) = key then Some 0 else map_option Suc (approvalIndex key ts))"

text \<open>
  The map from lower-case tokens to positions always says where the token stands in the list, so it is
  read off the list.
\<close>

definition addApproval :: "cryptoLib \<Rightarrow> string \<Rightarrow> int \<Rightarrow> tokenApproval list \<Rightarrow> tokenApproval list res" where
  "addApproval C tokenHex amount approvals =
     (case approvalIndex (toLower tokenHex) approvals of
        Some i \<Rightarrow> Ok (approvals[i := (approvals ! i)\<lparr>taAmount := taAmount (approvals ! i) + amount\<rparr>])
      | None \<Rightarrow>
          andThen (tronBase58 C tokenHex) (\<lambda>base58.
            Ok (approvals @ [\<lparr>taBase58 = base58, taHex = tokenHex, taAmount = 0 + amount\<rparr>])))"

fun splitLoop :: "cryptoLib \<Rightarrow> (erc20Token \<times> int) list \<Rightarrow> int \<Rightarrow> tokenApproval list \<Rightarrow> (int \<times> tokenApproval list) res" where
  "splitLoop C [] trxSum approvals = Ok (trxSum, approvals)"
| "splitLoop C ((token, amount) # rest) trxSum approvals =
     (if equalFold (tkAddress token) ZeroAddress then splitLoop C rest (trxSum + amount) approvals
      else
        andThen (tronHex C (tkAddress token)) (\<lambda>tokenHex.
        andThen (addApproval C tokenHex amount approvals) (splitLoop C rest trxSum)))"

definition SplitTokensByNative :: "cryptoLib \<Rightarrow> erc20Token list \<Rightarrow> int list \<Rightarrow> (int \<times> tokenApproval list) res" where
  "SplitTokensByNative C tokens amounts =
     (if length tokens \<noteq> length amounts then Err (ErrMsg ''tron: token and amount length mismatch'')
      else
        andThen (splitLoop C (zip tokens amounts) 0 []) (\<lambda>(trxSum, approvals).
          Ok (positiveAmount (Some trxSum), approvals)))"

definition TronDefaultFeeLimitSun :: int where
  "TronDefaultFeeLimitSun = 1000000000"

definition approveTronToken ::
  "cryptoLib \<Rightarrow> 'w tronChain \<Rightarrow> int \<Rightarrow> string \<Rightarrow> string \<Rightarrow> string \<Rightarrow> tokenApproval \<Rightarrow> ('w, approvalRequirement list) action" where
  "approveTronToken C T chainID ownerBase58 ownerHex spenderHex t =
     (if taAmount t \<le> 0 then liftA (Ok [])
      else
        bindA (tronAllowance C T chainID (taHex t) ownerHex spenderHex) (\<lambda>allowance.
          if taAmount t \<le> allowance then liftA (Ok [])
          else
            bindA (liftA (TronErc20ApproveCalldata T (hexToAddress C spenderHex) (taAmount t))) (\<lambda>approveData.
            bindA (readA (\<lambda>w. wrapErr ''tron build approve''
                     (tcBuild T ownerBase58 (taBase58 t) approveData TronDefaultFeeLimitSun 0 w))) (\<lambda>tx.
            bindA (\<lambda>w. case tcBroadcast T tx w of (r, w') \<Rightarrow> (wrapErr ''tron token approval failed'' r, w')) (\<lambda>_.
              liftA (Ok [\<lparr>arToken = taBase58 t, arAmount = taAmount t\<rparr>]))))))"

fun approveTronLoop ::
  "cryptoLib \<Rightarrow> 'w tronChain \<Rightarrow> int \<Rightarrow> string \<Rightarrow> string \<Rightarrow> string \<Rightarrow> tokenApproval list \<Rightarrow> ('w, approvalRequirement list) action" where
  "approveTronLoop C T chainID ownerBase58 ownerHex spenderHex [] = liftA (Ok [])"
| "approveTronLoop C T chainID ownerBase58 ownerHex spenderHex (t # ts) =
     bindA (approveTronToken C T chainID ownerBase58 ownerHex spenderHex t) (\<lambda>rs.
     bindA (approveTronLoop C T chainID ownerBase58 ownerHex spenderHex ts) (\<lambda>rest. liftA (Ok (rs @ rest))))"

definition ApproveTokens ::
  "cryptoLib \<Rightarrow> 'w tronChain \<Rightarrow> int \<Rightarrow> string \<Rightarrow> string \<Rightarrow> string \<Rightarrow> tokenApproval list \<Rightarrow> ('w, unit) action" where
  "ApproveTokens C T chainID ownerBase58 ownerHex spenderBase58 approvals =
     (if approvals = [] then liftA (Ok ())
      else
        bindA (liftA (tronHex C spenderBase58)) (\<lambda>spenderHex.
        bindA (approveTronLoop C T chainID ownerBase58 ownerHex spenderHex approvals) (\<lambda>requirements.
          if requirements = [] then liftA (Ok ())
          else WaitForTronErc20Approvals C T chainID ownerBase58 spenderBase58 requirements 30)))"

definition NormalizedTokenAddresses :: "cryptoLib \<Rightarrow> erc20Token list \<Rightarrow> string list res" where
  "NormalizedTokenAddresses C tokens =
     mapRes (\<lambda>t. if equalFold (tkAddress t) ZeroAddress then Ok ZeroAddress else tronHex C (tkAddress t)) tokens"

subsection \<open>fees.go\<close>

definition availableResource :: "int \<Rightarrow> int \<Rightarrow> int" where
  "availableResource limit used = (if used < limit then int64 (limit - used) else 0)"

definition getChainParameterValue :: "(string \<times> int) list \<Rightarrow> string \<Rightarrow> int res" where
  "getChainParameterValue params key =
     (case map_of params key of
        None \<Rightarrow> Err (ErrMsg (''missing Tron chain parameter: '' @ key))
      | Some v \<Rightarrow> Ok v)"

definition payable :: "int \<Rightarrow> int \<Rightarrow> int" where
  "payable need available = (if need - available < 0 then 0 else need - available)"

definition tronFee :: "int \<Rightarrow> tronResources \<Rightarrow> nat \<Rightarrow> int \<Rightarrow> int \<Rightarrow> int" where
  "tronFee usedEnergy r txSize energyPrice bandwidthPrice =
     (let energySun = payable usedEnergy (availableResource (rsEnergyLimit r) (rsEnergyUsed r)) * energyPrice;
          bandwidth = availableResource (rsFreeNetLimit r) (rsFreeNetUsed r) + availableResource (rsNetLimit r) (rsNetUsed r);
          bandwidthSun = payable (int txSize) bandwidth * bandwidthPrice;
          estimated = energySun + bandwidthSun;
          padded = estimated + estimated * TronFeePaddingBps div 10000
      in if TronDefaultFeeLimitSun < padded then TronDefaultFeeLimitSun else padded)"

definition EstimateTronFeeSunWithPadding ::
  "'w tronChain \<Rightarrow> string \<Rightarrow> string \<Rightarrow> bytes \<Rightarrow> int option \<Rightarrow> 'w \<Rightarrow> int res" where
  "EstimateTronFeeSunWithPadding T ownerBase58 contractBase58 callData callValueSun w =
     (let callValue = (case callValueSun of None \<Rightarrow> 0 | Some v \<Rightarrow> if 0 < v then int64 v else 0)
      in andThen (wrapErr ''tron constant contract call'' (tcConstantCall T ownerBase58 contractBase58 callData callValue w))
           (\<lambda>(energyUsed, rawData0).
         (let usedEnergy = (case tcEnergyRequired T ownerBase58 contractBase58 callData callValue w of
                              Ok required \<Rightarrow> if 0 < required then required else energyUsed
                            | _ \<Rightarrow> energyUsed)
          in andThen (wrapErr ''tron chain parameters'' (tcChainParameters T w)) (\<lambda>params.
             andThen (getChainParameterValue params ''getEnergyFee'') (\<lambda>energyPrice.
             andThen (getChainParameterValue params ''getTransactionFee'') (\<lambda>bandwidthPrice.
             andThen (wrapErr ''tron account resources'' (tcResources T ownerBase58 w)) (\<lambda>resources.
             andThen (wrapErr ''tron marshal raw data'' rawData0) (\<lambda>rawData.
               Ok (tronFee usedEnergy resources (length rawData) energyPrice bandwidthPrice))))))))) "

subsection \<open>transact_call_direct.go\<close>

record tronDirectParams =
  tpAmounts :: "int list"
  tpTokens :: "erc20Token list"
  tpZkCallData :: zkCallData
  tpCircomData :: circomData
  tpDimData :: dimData
  tpContractApproval :: string
  tpContractTransact :: string
  tpPreEstimateGas :: bool

definition hexTo32 :: "cryptoLib \<Rightarrow> string \<Rightarrow> bytes res" where
  "hexTo32 C s =
     (let b = fromHex C s
      in if length b \<noteq> 32 then Err (ErrMsg (''tron: expected 32-byte value, got '' @ natText 10 (length b))) else Ok b)"

definition tronContract :: "cryptoLib \<Rightarrow> string \<Rightarrow> string \<Rightarrow> string res" where
  "tronContract C dflt given =
     (if given = [] then Ok dflt else ToTronBase58IfHex (sha256sum C) (b58Encode C) given)"

text \<open>The balance must cover the value and the estimated fee, or the fee limit where no estimate is made.\<close>

definition checkTronBalance ::
  "cryptoLib \<Rightarrow> 'w tronChain \<Rightarrow> int \<Rightarrow> string \<Rightarrow> string \<Rightarrow> bytes \<Rightarrow> int \<Rightarrow> ('w, unit) action" where
  "checkTronBalance C T chainID contract ownerBase58 callData callValueSun =
     bindA (SimulateTronTransaction C T chainID contract ownerBase58 callData (Some callValueSun)) (\<lambda>_.
     bindA (readA (\<lambda>w. wrapErr ''tron get account'' (tcBalance T ownerBase58 w))) (\<lambda>balance.
     bindA (readA (\<lambda>w. Ok (case EstimateTronFeeSunWithPadding T ownerBase58 contract callData (Some callValueSun) w of
                             Ok fee \<Rightarrow> fee | _ \<Rightarrow> TronDefaultFeeLimitSun))) (\<lambda>estimatedFeeSun.
       if balance < callValueSun + estimatedFeeSun then liftA (Err (ErrMsg ''INSUFFICIENT_TRON_BALANCE_FOR_FEE''))
       else liftA (Ok ()))))"

definition TransactCallDirectTron ::
  "cryptoLib \<Rightarrow> 'a contractLib \<Rightarrow> string res \<Rightarrow> 'w tronChain \<Rightarrow> int \<Rightarrow> tronDirectParams \<Rightarrow> ('w, string) action" where
  "TransactCallDirectTron C L hinkalAddress T chainID p =
     (if length (tpAmounts p) \<noteq> length (tpTokens p) then liftA (Err (ErrMsg ''tron: token and amount length mismatch''))
      else
        (let ownerBase58 = tcAddress T in
         bindA (liftA (tronHex C ownerBase58)) (\<lambda>ownerHex.
         bindA (liftA hinkalAddress) (\<lambda>hinkalHex.
         bindA (liftA (tronBase58 C hinkalHex)) (\<lambda>hinkalBase58.
         bindA (liftA (tronContract C hinkalBase58 (tpContractApproval p))) (\<lambda>forApproval.
         bindA (liftA (tronContract C hinkalBase58 (tpContractTransact p))) (\<lambda>forTransaction.
         bindA (liftA (SplitTokensByNative C (tpTokens p) (tpAmounts p))) (\<lambda>(callValueSun, approvals).
         bindA (ApproveTokens C T chainID ownerBase58 ownerHex forApproval approvals) (\<lambda>_.
         (case ReorderZkCallData C T (tpDimData p) (tpCircomData p) True (tpZkCallData p) of (r, zk) \<Rightarrow>
         bindA (liftA r) (\<lambda>proofSig.
         bindA (liftA (hexTo32 C (tsR proofSig))) (\<lambda>proofR.
         bindA (liftA (hexTo32 C (tsS proofSig))) (\<lambda>proofS.
         bindA (liftA (PackTronTransact C L chainID (word_of_int (tsV proofSig)) proofR proofS zk (tpDimData p) (tpCircomData p)))
           (\<lambda>callData.
         bindA (if tpPreEstimateGas p then checkTronBalance C T chainID forTransaction ownerBase58 callData callValueSun
                else liftA (Ok ())) (\<lambda>_.
         bindA (readA (\<lambda>w. wrapErr ''tron build transact''
                  (tcBuild T ownerBase58 forTransaction callData TronDefaultFeeLimitSun (int64 callValueSun) w))) (\<lambda>tx.
           tcBroadcast T tx))))))))))))))))"

end
