(* ===== verification/TronSendProps.thy ===== *)
theory TronSendProps
  imports TronSend EvmSendProps
begin

text \<open>
  What sending on Tron promises: the amounts of a transaction are gathered per token without loss, and a
  transaction that is checked before it is sent is covered, with the fee estimated for it, by the balance of the sender.
\<close>

subsection \<open>Amounts per token\<close>

definition nativeToken :: "erc20Token \<Rightarrow> bool" where
  "nativeToken t \<longleftrightarrow> equalFold (tkAddress t) ZeroAddress"

text \<open>The amount of a native or of a given token in a list of tokens with amounts, and in a list of approvals.\<close>

definition nativeSum :: "(erc20Token \<times> int) list \<Rightarrow> int" where
  "nativeSum ps = sum_list (map (\<lambda>(t, a). if nativeToken t then a else 0) ps)"

definition tokenSum :: "cryptoLib \<Rightarrow> string \<Rightarrow> (erc20Token \<times> int) list \<Rightarrow> int" where
  "tokenSum C key ps = sum_list (map (\<lambda>(t, a).
     if \<not> nativeToken t \<and> (\<exists>h. tronHex C (tkAddress t) = Ok h \<and> toLower h = key) then a else 0) ps)"

definition approvedSum :: "string \<Rightarrow> tokenApproval list \<Rightarrow> int" where
  "approvedSum key as = sum_list (map (\<lambda>a. if toLower (taHex a) = key then taAmount a else 0) as)"

definition goodApprovals :: "cryptoLib \<Rightarrow> tokenApproval list \<Rightarrow> bool" where
  "goodApprovals C as \<longleftrightarrow> distinct (map (toLower \<circ> taHex) as) \<and> (\<forall>a\<in>set as. tronBase58 C (taHex a) = Ok (taBase58 a))"

lemma approvalIndex_Some: "approvalIndex key as = Some i \<Longrightarrow> i < length as \<and> toLower (taHex (as ! i)) = key"
  by (induction as arbitrary: i) (auto split: if_splits)

lemma approvalIndex_None: "approvalIndex key as = None \<longleftrightarrow> key \<notin> set (map (toLower \<circ> taHex) as)"
  by (induction as) auto

lemma sum_list_set: "i < length xs \<Longrightarrow> sum_list (xs[i := x]) = sum_list xs + (x :: int) - xs ! i"
  by (induction xs arbitrary: i) (auto split: nat.splits)

lemma addApproval_adds:
  assumes "goodApprovals C as" "addApproval C h n as = Ok bs"
  shows "goodApprovals C bs \<and> (\<forall>key. approvedSum key bs = approvedSum key as + (if toLower h = key then n else 0))"
proof (cases "approvalIndex (toLower h) as")
  case None
  then show ?thesis
    using assms approvalIndex_None [of "toLower h" as]
    by (auto simp: addApproval_def andThen_eq_Ok goodApprovals_def approvedSum_def)
next
  case (Some i)
  let ?b = "(as ! i)\<lparr>taAmount := taAmount (as ! i) + n\<rparr>"
  have i: "i < length as" "toLower (taHex (as ! i)) = toLower h" and bs: "bs = as[i := ?b]"
    using approvalIndex_Some [OF Some] Some assms(2) by (auto simp: addApproval_def)
  have "map (toLower \<circ> taHex) bs = map (toLower \<circ> taHex) as" "map taHex bs = map taHex as" "map taBase58 bs = map taBase58 as"
    using i(1) by (simp_all add: bs map_update list_update_same_conv)
  moreover have "\<forall>a\<in>set bs. tronBase58 C (taHex a) = Ok (taBase58 a)"
  proof
    fix a assume "a \<in> set bs"
    then have "a = ?b \<or> a \<in> set as" unfolding bs by (blast dest: set_update_subset_insert [THEN subsetD])
    then show "tronBase58 C (taHex a) = Ok (taBase58 a)"
      using assms(1) i(1) by (auto simp: goodApprovals_def)
  qed
  moreover have "approvedSum key bs = approvedSum key as + (if toLower h = key then n else 0)" for key
    using i by (simp add: approvedSum_def bs map_update sum_list_set)
  ultimately show ?thesis using assms(1) by (simp add: goodApprovals_def)
qed

lemma splitLoop_sums:
  "goodApprovals C as \<Longrightarrow> splitLoop C ps n as = Ok (m, bs) \<Longrightarrow>
    m = n + nativeSum ps \<and> goodApprovals C bs \<and> (\<forall>key. approvedSum key bs = approvedSum key as + tokenSum C key ps)"
proof (induction C ps n as rule: splitLoop.induct)
  case (1 C n as)
  then show ?case by (simp add: nativeSum_def tokenSum_def)
next
  case (2 C token amount ps n as)
  show ?case
  proof (cases "equalFold (tkAddress token) ZeroAddress")
    case True
    then show ?thesis using 2 by (simp add: nativeSum_def tokenSum_def nativeToken_def)
  next
    case False
    obtain h cs where h: "tronHex C (tkAddress token) = Ok h" "addApproval C h amount as = Ok cs" "splitLoop C ps n cs = Ok (m, bs)"
      using "2.prems"(2) False by (auto simp: andThen_eq_Ok)
    note cs = addApproval_adds [OF "2.prems"(1) h(2)]
    then have "m = n + nativeSum ps \<and> goodApprovals C bs \<and> (\<forall>key. approvedSum key bs = approvedSum key cs + tokenSum C key ps)"
      using "2.IH"(2) [OF False _ h(3)] by blast
    then show ?thesis using cs h(1) False by (simp add: nativeSum_def tokenSum_def nativeToken_def)
  qed
qed

lemma split_sums:
  assumes "SplitTokensByNative C tokens amounts = Ok (v, approvals)"
  shows "v = max 0 (nativeSum (zip tokens amounts)) \<and> goodApprovals C approvals \<and>
    (\<forall>key. approvedSum key approvals = tokenSum C key (zip tokens amounts))"
proof -
  obtain n where n: "splitLoop C (zip tokens amounts) 0 [] = Ok (n, approvals)" "v = positiveAmount (Some n)"
    using assms by (auto simp: SplitTokensByNative_def andThen_eq_Ok split: if_splits)
  have "goodApprovals C []" by (simp add: goodApprovals_def)
  from splitLoop_sums [OF this n(1)] show ?thesis
    using n(2) by (auto simp: positiveAmount_def approvedSum_def)
qed

text \<open>The split of the amounts of a Tron transaction loses nothing: the value sent with the call is the sum of the
  native amounts (nothing when it is negative), there is one approval for each token whatever the case in which its
  address is written, and its amount is the sum of the amounts of that token.
\<close>

theorem split_gathers_amounts:
  assumes "SplitTokensByNative C tokens amounts = Ok (v, approvals)"
  shows "v = max 0 (nativeSum (zip tokens amounts)) \<and> distinct (map (toLower \<circ> taHex) approvals) \<and>
    (\<forall>a\<in>set approvals. taAmount a = tokenSum C (toLower (taHex a)) (zip tokens amounts) \<and> tronBase58 C (taHex a) = Ok (taBase58 a)) \<and>
    (\<forall>key. key \<notin> (toLower \<circ> taHex) ` set approvals \<longrightarrow> tokenSum C key (zip tokens amounts) = 0)"
proof -
  note S = split_sums [OF assms]
  have one: "approvedSum (toLower (taHex a)) as = taAmount a" if "a \<in> set as" "distinct (map (toLower \<circ> taHex) as)" for a as
  proof -
    note mem = that(1)
    obtain xs ys where as: "as = xs @ a # ys" using split_list [OF mem] by blast
    have "approvedSum (toLower (taHex a)) zs = 0" if "toLower (taHex a) \<notin> (toLower \<circ> taHex) ` set zs" for zs
      using that by (induction zs) (auto simp: approvedSum_def)
    then show ?thesis using that(2) unfolding as by (auto simp: approvedSum_def)
  qed
  have none: "approvedSum key as = 0" if "key \<notin> (toLower \<circ> taHex) ` set as" for key as
    using that by (induction as) (auto simp: approvedSum_def)
  show ?thesis using S one [of _ approvals] none [of _ approvals] unfolding goodApprovals_def by metis
qed

subsection \<open>Balance and fee\<close>

text \<open>Balances are 64-bit numbers and the prices of a Tron chain are not negative.\<close>

definition tronLaws :: "'w tronChain \<Rightarrow> bool" where
  "tronLaws T \<longleftrightarrow> (\<forall>a w b. tcBalance T a w = Ok b \<longrightarrow> b < 2 ^ 63) \<and>
     (\<forall>w params. tcChainParameters T w = Ok params \<longrightarrow> (\<forall>x\<in>set params. 0 \<le> snd x))"

lemma readA_eq: "readA f w = (r, w') \<longleftrightarrow> f w = r \<and> w' = w"
  by (auto simp: readA_def)

lemma tronFee_bounds:
  assumes "0 \<le> energyPrice" "0 \<le> bandwidthPrice"
  shows "0 \<le> tronFee used r n energyPrice bandwidthPrice \<and> tronFee used r n energyPrice bandwidthPrice \<le> TronDefaultFeeLimitSun"
proof -
  have "0 \<le> payable a b" for a b by (simp add: payable_def)
  then have "0 \<le> payable a b * energyPrice + payable c d * bandwidthPrice" for a b c d using assms by simp
  moreover have "0 \<le> e * TronFeePaddingBps div 10000" if "0 \<le> e" for e using that by (simp add: TronFeePaddingBps_def)
  ultimately show ?thesis by (simp add: tronFee_def Let_def TronDefaultFeeLimitSun_def)
qed

text \<open>The fee the check reckons with: the padded estimate for this very call, or the limit where there is none.\<close>

definition feeOrLimit :: "'w tronChain \<Rightarrow> string \<Rightarrow> string \<Rightarrow> bytes \<Rightarrow> int \<Rightarrow> 'w \<Rightarrow> int" where
  "feeOrLimit T from contract payload v w =
     (case EstimateTronFeeSunWithPadding T from contract payload (Some v) w of Ok fee \<Rightarrow> fee | _ \<Rightarrow> TronDefaultFeeLimitSun)"

lemma fee_bounds:
  assumes "tronLaws T"
  shows "0 \<le> feeOrLimit T from contract payload v w \<and> feeOrLimit T from contract payload v w \<le> TronDefaultFeeLimitSun"
proof (cases "EstimateTronFeeSunWithPadding T from contract payload (Some v) w")
  case (Ok fee)
  have price: "0 \<le> n" if "tcChainParameters T w = Ok params" "getChainParameterValue params key = Ok n" for params key n
    using that assms map_of_SomeD [of params key n] unfolding tronLaws_def getChainParameterValue_def
    by (fastforce split: option.splits)
  show ?thesis
    using Ok price tronFee_bounds unfolding EstimateTronFeeSunWithPadding_def Let_def feeOrLimit_def
    by (auto simp: andThen_eq_Ok wrapErr_eq_Ok)
qed (simp_all add: feeOrLimit_def TronDefaultFeeLimitSun_def)

lemma checked_balance:
  "checkTronBalance C T chainID contract from payload v w = (Ok (), w') \<Longrightarrow>
    w' = w \<and> SimulateTronTransaction C T chainID contract from payload (Some v) w = (Ok (), w) \<and>
    (\<exists>balance. tcBalance T from w = Ok balance \<and> v + feeOrLimit T from contract payload v w \<le> balance)"
  unfolding checkTronBalance_def SimulateTronTransaction_def feeOrLimit_def
  by (auto simp: bindA_eq_Ok liftA_eq readA_eq wrapErr_eq_Ok split: if_splits)

lemma reordered:
  "ReorderZkCallData C T dim circom True zk = (Ok sig, zk') \<Longrightarrow> zk' = swapB zk"
  by (auto simp: ReorderZkCallData_def split: res.splits)

text \<open>What is broadcast: the packed call with the sides of the proof swapped, signed for the verifier.\<close>

definition tronCall :: "cryptoLib \<Rightarrow> 'a contractLib \<Rightarrow> int \<Rightarrow> tronDirectParams \<Rightarrow> bytes \<Rightarrow> bool" where
  "tronCall C L chainID p payload \<longleftrightarrow> (\<exists>v r s. length r = 32 \<and> length s = 32 \<and>
     PackTronTransact C L chainID v r s (swapB (tpZkCallData p)) (tpDimData p) (tpCircomData p) = Ok payload)"

text \<open>C23: a Tron transaction that is checked before it is sent goes to the contract asked for (the Hinkal contract of the
  chain when none is), carries the sum of the native amounts as its value and the packed call as its data, and is only
  broadcast from a state in which its simulation succeeds and the balance of the sender covers that value and, on top,
  the fee estimated there for this very call, or the whole fee limit where no estimate can be made.
\<close>

theorem tron_broadcast_funded:
  assumes laws: "tronLaws T" and checked: "tpPreEstimateGas p"
    and run: "TransactCallDirectTron C L hinkalAddress T chainID p w = (Ok h, w')"
  shows "\<exists>w1 hinkalHex hinkalBase58 contract payload tx balance.
    let v = max 0 (nativeSum (zip (tpTokens p) (tpAmounts p))); fee = feeOrLimit T (tcAddress T) contract payload v w1 in
    hinkalAddress = Ok hinkalHex \<and> tronBase58 C hinkalHex = Ok hinkalBase58 \<and>
    tronContract C hinkalBase58 (tpContractTransact p) = Ok contract \<and> tronCall C L chainID p payload \<and>
    SimulateTronTransaction C T chainID contract (tcAddress T) payload (Some v) w1 = (Ok (), w1) \<and>
    tcBalance T (tcAddress T) w1 = Ok balance \<and> v + fee \<le> balance \<and> 0 \<le> fee \<and> fee \<le> TronDefaultFeeLimitSun \<and>
    tcBuild T (tcAddress T) contract payload TronDefaultFeeLimitSun v w1 = Ok tx \<and> tcBroadcast T tx w1 = (Ok h, w')"
proof -
  obtain outcome zk where zk: "ReorderZkCallData C T (tpDimData p) (tpCircomData p) True (tpZkCallData p) = (outcome, zk)"
    by fastforce
  obtain hinkalHex hinkalBase58 v approvals sig r s payload w1 w2 contract tx where
      to: "hinkalAddress = Ok hinkalHex" "tronBase58 C hinkalHex = Ok hinkalBase58"
        "tronContract C hinkalBase58 (tpContractTransact p) = Ok contract" and split: "SplitTokensByNative C (tpTokens p) (tpAmounts p) = Ok (v, approvals)" and sig: "outcome = Ok sig"
      and rs: "hexTo32 C (tsR sig) = Ok r" "hexTo32 C (tsS sig) = Ok s"
      and packed: "PackTronTransact C L chainID (word_of_int (tsV sig)) r s zk (tpDimData p) (tpCircomData p) = Ok payload"
      and bal: "checkTronBalance C T chainID contract (tcAddress T) payload v w1 = (Ok (), w2)"
      and built: "tcBuild T (tcAddress T) contract payload TronDefaultFeeLimitSun (int64 v) w2 = Ok tx"
      and cast: "tcBroadcast T tx w2 = (Ok h, w')"
    using run checked unfolding TransactCallDirectTron_def Let_def zk prod.case
    by (auto simp: bindA_eq_Ok liftA_eq readA_eq wrapErr_eq_Ok split: if_splits)
  obtain balance where b: "w2 = w1" "tcBalance T (tcAddress T) w1 = Ok balance"
      "SimulateTronTransaction C T chainID contract (tcAddress T) payload (Some v) w1 = (Ok (), w1)"
      "v + feeOrLimit T (tcAddress T) contract payload v w1 \<le> balance"
    using checked_balance [OF bal] by blast
  note fee = fee_bounds [OF laws, of "tcAddress T" contract payload v w1]
  have v: "v = max 0 (nativeSum (zip (tpTokens p) (tpAmounts p)))" using split_sums [OF split] by simp
  have "balance < 2 ^ 63" using laws b(2) by (auto simp: tronLaws_def)
  then have "0 \<le> v" "v < 2 ^ 63" using v b(4) fee by auto
  then have "int64 v = v" by (simp add: int64_def sint_sbintrunc' signed_take_bit_int_eq_self)
  moreover have "tronCall C L chainID p payload"
    using rs packed reordered [OF zk [unfolded sig]] unfolding tronCall_def by (auto simp: hexTo32_def Let_def split: if_splits)
  ultimately show ?thesis using to b built cast fee v unfolding Let_def by metis
qed

definition toyTron :: "int tronChain" where
  "toyTron = \<lparr>tcAddress = ''0x77'', tcRpcURL = (\<lambda>_. Ok []), tcPost = (\<lambda>_ _ _. Ok \<lparr>ecResult = [], ecErrorMessage = None\<rparr>),
     tcAllowanceData = (\<lambda>_ _. Ok []), tcApproveData = (\<lambda>_ _. Ok []), tcBuild = (\<lambda>_ _ _ _ v _. Ok [of_int v]),
     tcBroadcast = (\<lambda>tx w. (Ok ''0x55'', w - uint (hd tx))), tcTick = id, tcBalance = (\<lambda>_ w. Ok (w mod 2 ^ 40)),
     tcConstantCall = (\<lambda>_ _ _ _ _. Ok (100, Ok [1, 2, 3])), tcEnergyRequired = (\<lambda>_ _ _ _ _. Ok 200),
     tcChainParameters = (\<lambda>_. Ok [(''getEnergyFee'', 420), (''getTransactionFee'', 1000)]),
     tcResources = (\<lambda>_ _. Ok \<lparr>rsEnergyLimit = 50, rsEnergyUsed = 0, rsFreeNetLimit = 600, rsFreeNetUsed = 0, rsNetLimit = 0, rsNetUsed = 0\<rparr>),
     tcPackVerifier = (\<lambda>_ _ _ _. Ok [1]), tcSignProof = (\<lambda>_. Ok (''0x'' @ hexEncode (replicate 65 27)))\<rparr>"

lemma toy_hex: "fromHex toyCrypto (''0x'' @ hexEncode bs) = bs" "fromHex toyCrypto (CHR ''0'' # CHR ''x'' # hexEncode bs) = bs"
  using toyCrypto_fromHex [of bs] by simp_all

lemma trimSpace_hex: "trimSpace (''0x'' @ hexEncode bs) = ''0x'' @ hexEncode bs"
proof (rule trimSpace_id)
  fix c assume "c \<in> set (''0x'' @ hexEncode bs)"
  then have "c = CHR ''0'' \<or> c = CHR ''x'' \<or> (\<exists>d<16. c = digitChar d)"
    using hexEncode_digits [of bs] by auto
  then show "\<not> isSpace c" using zero_not_space digitChar_not_space by auto
qed

lemma toy_signature: "splitSignature toyCrypto (''0x'' @ hexEncode (replicate 65 27)) =
    Ok \<lparr>tsV = 27, tsR = ''0x'' @ hexEncode (replicate 32 27), tsS = ''0x'' @ hexEncode (replicate 32 27)\<rparr>"
  unfolding splitSignature_def trimSpace_hex toy_hex by simp

lemma toy_32: "hexTo32 toyCrypto (''0x'' @ hexEncode (replicate 32 27)) = Ok (replicate 32 27)"
    "hexTo32 toyCrypto (CHR ''0'' # CHR ''x'' # hexEncode (replicate 32 27)) = Ok (replicate 32 27)"
  unfolding hexTo32_def toy_hex by simp_all

definition toyTronDirect :: tronDirectParams where
  "toyTronDirect = \<lparr>tpAmounts = [5, 3], tpTokens = [minimalToken 728126428 ZeroAddress, minimalToken 728126428 ZeroAddress],
     tpZkCallData = toyZkCall, tpCircomData = toyCircom,
     tpDimData = \<lparr>dmTokenNumber = 1, dmNullifierAmount = 0, dmOutputAmount = 1\<rparr>, tpContractApproval = [],
     tpContractTransact = hexEncode (0x41 # replicate 20 1), tpPreEstimateGas = True\<rparr>"

lemma toy_tron_laws: "tronLaws toyTron"
proof -
  have "(w :: int) mod 1099511627776 < 9223372036854775808" for w
    using pos_mod_bound [of 1099511627776 w] by linarith
  then show ?thesis by (auto simp: tronLaws_def toyTron_def)
qed

lemma toy_tron_contract:
  "tronHex toyCrypto (hexEncode (0x41 # replicate 20 1)) = Ok (''0x'' @ hexEncode (replicate 20 1))"
  "tronContract toyCrypto d (hexEncode (0x41 # replicate 20 1)) = Ok (hexEncode (0x41 # replicate 20 1))"
  using hexDecode_hexEncode [of "0x41 # replicate 20 1"]
  by (simp_all add: tronHex_def AddressToHexFormat_def hasPrefix_def tronPayloadFromPrefixedHex_def tronAddressPrefix_def
      tronContract_def ToTronBase58IfHex_def digitChar_def del: hexDecode_hexEncode)

lemma toy_reordered:
  "ReorderZkCallData toyCrypto toyTron dim circom True toyZkCall =
     (Ok \<lparr>tsV = 27, tsR = ''0x'' @ hexEncode (replicate 32 27), tsS = ''0x'' @ hexEncode (replicate 32 27)\<rparr>, swapB toyZkCall)"
proof -
  have sign: "tcSignProof toyTron r = Ok (''0x'' @ hexEncode (replicate 65 27))" for r by (simp add: toyTron_def)
  have "isOk (GetVerifierID toyCrypto toyTron dim i)" for i by (simp add: GetVerifierID_def toyTron_def)
  then obtain v where v: "GetVerifierID toyCrypto toyTron dim (cdExternalActionID circom) = Ok v" by (auto simp: isOk_iff)
  have "GenerateProofSignatureRemotely toyCrypto toyTron a b c inputs dim (cdExternalActionID circom) =
      Ok \<lparr>tsV = 27, tsR = ''0x'' @ hexEncode (replicate 32 27), tsS = ''0x'' @ hexEncode (replicate 32 27)\<rparr>" for a b c inputs
    unfolding GenerateProofSignatureRemotely_def v sign andThen.simps toy_signature ..
  then show ?thesis
    by (simp add: ReorderZkCallData_def ParseZkCalldata_def toyZkCall_def parseTwo_def del: hexEncode_simps replicate_Suc)
qed

lemma toy_estimate: "EstimateTronFeeSunWithPadding toyTron ''0x77'' c [1, 2] (Some 8) w = Ok 75600"
  by (simp add: EstimateTronFeeSunWithPadding_def toyTron_def int64_def getChainParameterValue_def tronFee_def payable_def
      availableResource_def TronFeePaddingBps_def TronDefaultFeeLimitSun_def)

lemma toy_checked:
  "checkTronBalance toyCrypto toyTron chainID (hexEncode (0x41 # replicate 20 1)) ''0x77'' [1, 2] 8 5000000000 = (Ok (), 5000000000)"
proof -
  have "tronHex toyCrypto ''0x77'' = Ok ''0x77''" by (simp add: tronHex_def AddressToHexFormat_def hasPrefix_def)
  then have "SimulateTronTransaction toyCrypto toyTron chainID (hexEncode (0x41 # replicate 20 1)) ''0x77'' [1, 2] (Some 8) w = (Ok (), w)" for w
    unfolding SimulateTronTransaction_def toy_tron_contract bindA_liftA_Ok
    by (simp add: ethCall_def toyTron_def readA_def bindA_def liftA_def)
  moreover have "tcBalance toyTron ''0x77'' 5000000000 = Ok 5000000000" by (simp add: toyTron_def)
  ultimately show ?thesis
    by (simp add: checkTronBalance_def bindA_Ok readA_def liftA_def bindA_def toy_estimate)
qed

lemma toy_tron_run:
  "TransactCallDirectTron toyCrypto toyLib (Ok ''Tab'') toyTron 728126428 toyTronDirect 5000000000 = (Ok ''0x55'', 4999999992)"
proof -
  let ?p = toyTronDirect
  have "tronHex toyCrypto (tcAddress toyTron) = Ok ''0x77''" by (simp add: tronHex_def AddressToHexFormat_def hasPrefix_def toyTron_def)
  moreover have "tronBase58 toyCrypto ''Tab'' = Ok ''Tab''" by (simp add: tronBase58_def EVMHexToTronBase58Address_def hasPrefix_def)
  moreover have "SplitTokensByNative toyCrypto (tpTokens ?p) (tpAmounts ?p) = Ok (8, [])"
    by (simp add: SplitTokensByNative_def toyTronDirect_def minimalToken_def equalFold_def positiveAmount_def)
  moreover have "PackTronTransact toyCrypto toyLib 728126428 v r s (swapB (tpZkCallData ?p)) (tpDimData ?p) (tpCircomData ?p) = Ok [1, 2]"
    for v r s
    by (simp add: PackTronTransact_def toyLib_def toyTronDirect_def swapB_def toyZkCall_def zkCallDataToABI_def circomDataToABI_def
        toyCircom_def parseBigSlice_def parseBigMatrix_def signatureDataToABI_def Let_def)
  moreover have "tpPreEstimateGas ?p" "tpContractApproval ?p = []" "tpZkCallData ?p = toyZkCall" "tcAddress toyTron = ''0x77''"
      "tpContractTransact ?p = hexEncode (0x41 # replicate 20 1)" "length (tpAmounts ?p) = length (tpTokens ?p)"
    by (simp_all add: toyTronDirect_def toyTron_def del: hexEncode_simps replicate_Suc)
  moreover have "tcBuild toyTron a c d l (int64 8) w = Ok [8]" "tcBroadcast toyTron [8] 5000000000 = (Ok ''0x55'', 4999999992)" for a c d l w
    by (simp_all add: toyTron_def int64_def)
  moreover have "ApproveTokens toyCrypto toyTron chainID a b c [] w = (Ok (), w)" for chainID a b c w
    by (simp add: ApproveTokens_def liftA_def)
  ultimately show ?thesis
    by (simp add: TransactCallDirectTron_def bindA_Ok toy_tron_contract toy_reordered toy_32 toy_checked readA_def Let_def
        tronContract_def [of _ _ "[]"] del: hexEncode_simps replicate_Suc)
qed

lemma toy_payload: "tronCall toyCrypto toyLib 728126428 toyTronDirect payload \<Longrightarrow> payload = [1, 2]"
  by (auto simp: tronCall_def PackTronTransact_def toyLib_def andThen_eq_Ok)

lemma tron_broadcast_funded_witness:
  "\<exists>w1 tx balance. tcBalance toyTron ''0x77'' w1 = Ok balance \<and> 8 + 75600 \<le> balance \<and>
     tcBuild toyTron ''0x77'' (hexEncode (0x41 # replicate 20 1)) [1, 2] TronDefaultFeeLimitSun 8 w1 = Ok tx \<and>
     tcBroadcast toyTron tx w1 = (Ok ''0x55'', 4999999992)"
proof -
  have v: "max 0 (nativeSum (zip (tpTokens toyTronDirect) (tpAmounts toyTronDirect))) = 8" "tcAddress toyTron = ''0x77''"
      "tpPreEstimateGas toyTronDirect"
    by (simp_all add: toyTronDirect_def nativeSum_def nativeToken_def minimalToken_def equalFold_def toyTron_def)
  have to: "tronContract toyCrypto b (tpContractTransact toyTronDirect) = Ok c \<Longrightarrow> c = hexEncode (0x41 # replicate 20 1)" for b c
    using toy_tron_contract(2) [of b] by (simp add: toyTronDirect_def del: hexEncode_simps replicate_Suc)
  have fee: "feeOrLimit toyTron ''0x77'' c [1, 2] 8 w = 75600" for c w by (simp add: feeOrLimit_def toy_estimate)
  obtain w1 b contract payload tx balance where
      r: "tronContract toyCrypto b (tpContractTransact toyTronDirect) = Ok contract" "tronCall toyCrypto toyLib 728126428 toyTronDirect payload"
      "tcBalance toyTron ''0x77'' w1 = Ok balance" "8 + feeOrLimit toyTron ''0x77'' contract payload 8 w1 \<le> balance"
      "tcBuild toyTron ''0x77'' contract payload TronDefaultFeeLimitSun 8 w1 = Ok tx" "tcBroadcast toyTron tx w1 = (Ok ''0x55'', 4999999992)"
    using tron_broadcast_funded [OF toy_tron_laws v(3) toy_tron_run] unfolding Let_def v by blast
  show ?thesis using r(3-6) fee unfolding toy_payload [OF r(2)] to [OF r(1)] by auto
qed

lemma split_gathers_amounts_witness:
  "\<exists>approvals. SplitTokensByNative toyCrypto [minimalToken 1 (''0x'' @ hexEncode (replicate 20 1)), minimalToken 1 ZeroAddress,
        minimalToken 1 (''0X'' @ hexEncode (replicate 20 1))] [5, 3, 4] = Ok (3, approvals) \<and> map taAmount approvals = [9] \<and>
     (\<forall>a\<in>set approvals. taAmount a = tokenSum toyCrypto (toLower (taHex a)) (zip [minimalToken 1 (''0x'' @ hexEncode (replicate 20 1)),
        minimalToken 1 ZeroAddress, minimalToken 1 (''0X'' @ hexEncode (replicate 20 1))] [5, 3, 4]))"
proof -
  let ?h = "hexEncode (replicate 20 1)"
  let ?x = "''0x'' @ ?h" let ?X = "''0X'' @ ?h"
  have "lowerChar CHR ''X'' = lowerChar CHR ''x''" by code_simp
  then have same: "toLower ?X = toLower ?x" by (simp add: toLower_def)
  have n: "equalFold ZeroAddress ZeroAddress" "\<not> equalFold ?x ZeroAddress" "\<not> equalFold ?X ZeroAddress"
    by code_simp+
  have h: "tronHex toyCrypto ?x = Ok ?x" "tronHex toyCrypto ?X = Ok ?X"
    by (simp_all add: tronHex_def AddressToHexFormat_def hasPrefix_def)
  obtain b where b: "tronBase58 toyCrypto ?x = Ok b"
    using tron_address_roundtrip [OF toyBase58_codec, of "sha256sum toyCrypto" "replicate 20 1"]
    by (auto simp: tronBase58_def toyCrypto_def)
  let ?as = "[\<lparr>taBase58 = b, taHex = ?x, taAmount = 9\<rparr>]"
  have "SplitTokensByNative toyCrypto [minimalToken 1 ?x, minimalToken 1 ZeroAddress, minimalToken 1 ?X] [5, 3, 4] = Ok (3, ?as)"
    using n h b same
    by (simp add: SplitTokensByNative_def minimalToken_def addApproval_def positiveAmount_def del: hexEncode_simps append_Cons)
  from this split_gathers_amounts [OF this] show ?thesis by auto
qed

end
