(* ===== verification/PrivateTx.thy ===== *)
theory PrivateTx
  imports TronSend Emporium
begin

text \<open>
  The private transactions of a wallet on EVM and Tron chains: \<open>internal/functions/transactions\<close> (\<open>transfer.go\<close>,
  \<open>withdraw.go\<close>, \<open>deposit.go\<close>, \<open>swap.go\<close>, \<open>deposit_for_other.go\<close>). The state is the wallet, its Merkle trees, the
  cache of the deployment files and the chain \<open>'w\<close>; what the code asks of services is in \<open>txEnv\<close>.
\<close>

subsection \<open>The wallet and its services\<close>

record ('d, 'w) txState =
  tsWallet :: "'d wallet"
  tsTrees :: "int \<Rightarrow> merkleTree option"
  tsDeploy :: deployCache
  tsWorld :: 'w

record solanaGasParams =
  sgMintTo :: string
  sgMintFrom :: string
  sgRecipient :: string
  sgNullifierCount :: int

text \<open>Fees given by the caller; the two numbers are pointers that may be nil.\<close>

record feeOverride =
  foFeeToken :: string
  foFlatFee :: "int option"
  foVariableRate :: "int option"

record ('d, 'k, 'f, 'a, 'w) txEnv =
  teWallet :: "'d walletEnv"
  teZk :: "'k zkEnv"
  teFloats :: "'f floats"
  teTokens :: "string \<Rightarrow> erc20Token list option"
  teEstimate :: "int \<Rightarrow> string \<Rightarrow> string \<Rightarrow> nat \<Rightarrow> gasEstimateCall list \<Rightarrow> int option \<Rightarrow> solanaGasParams option \<Rightarrow> 'f gasEstimates res"
  tePrices :: "int \<Rightarrow> string list \<Rightarrow> 'f list res"
  teSimulate :: "int \<Rightarrow> volatileChange list \<Rightarrow> volatileResult list res"
  teContracts :: "'a contractLib"
  teDeployFiles :: deployFiles
  teAdapter :: "int \<Rightarrow> 'w adapter res"                       \<comment> \<open>GetProviderAdapter\<close>
  teTron :: "'w tronChain"
  teTronReady :: "unit res"                                   \<comment> \<open>GetTronWeb\<close>
  teRelay :: "int \<Rightarrow> bool \<Rightarrow> ('w, string) action"             \<comment> \<open>GetRandomRelay\<close>
  teCallRelayer :: "relayerBody \<Rightarrow> ('w, relayerResponse) action"
  teOutClock :: "nat \<Rightarrow> nat \<Rightarrow> string"                        \<comment> \<open>the time of output j of token i\<close>
  teOutRand :: "nat \<Rightarrow> nat \<Rightarrow> nat \<Rightarrow> bytes res"

definition onWallet :: "('d wallet, 'a) action \<Rightarrow> (('d, 'w) txState, 'a) action" where
  "onWallet f s = (case f (tsWallet s) of (r, w) \<Rightarrow> (r, s\<lparr>tsWallet := w\<rparr>))"

definition onWorld :: "('w, 'a) action \<Rightarrow> (('d, 'w) txState, 'a) action" where
  "onWorld f s = (case f (tsWorld s) of (r, w) \<Rightarrow> (r, s\<lparr>tsWorld := w\<rparr>))"

definition onDeploy :: "(deployCache, 'a) action \<Rightarrow> (('d, 'w) txState, 'a) action" where
  "onDeploy f s = (case f (tsDeploy s) of (r, d) \<Rightarrow> (r, s\<lparr>tsDeploy := d\<rparr>))"

definition teCrypto :: "('d, 'k, 'f, 'a, 'w) txEnv \<Rightarrow> cryptoLib" where
  "teCrypto E = weCrypto (teWallet E)"

definition ethereumAddressOf :: "int \<Rightarrow> (('d, 'w) txState, string) action" where
  "ethereumAddressOf chainID s = liftA (wlEthAddress (tsWallet s) chainID) s"

definition timeStampText :: "('d, 'k, 'f, 'a, 'w) txEnv \<Rightarrow> string" where
  "timeStampText E = bigString (zeSeconds (teZk E))"

definition paddedInputs ::
  "('d, 'k, 'f, 'a, 'w) txEnv \<Rightarrow> int \<Rightarrow> string list \<Rightarrow> int list \<Rightarrow> int \<Rightarrow> bool \<Rightarrow> bool \<Rightarrow> (('d, 'w) txState, utxo list list) action" where
  "paddedInputs E chainID addresses changes maxInput forceEmpty blocked =
     onWallet (AddPaddingToUtxos (teWallet E) (tronHex (teCrypto E)) (\<lambda>a. lookupToken (teTokens E) a chainID) chainID addresses
       changes maxInput None forceEmpty blocked)"

definition estimatedFees ::
  "('d, 'k, 'f, 'a, 'w) txEnv \<Rightarrow> int \<Rightarrow> string \<Rightarrow> string list \<Rightarrow> string \<Rightarrow> int option \<Rightarrow> solanaGasParams option \<Rightarrow> feeStructure res" where
  "estimatedFees E chainID feeToken addresses action variableRate solanaParams =
     GetFeeStructure (teFloats E) (teTokens E) (teEstimate E) chainID feeToken addresses action [] variableRate solanaParams"

definition modifiedFees :: "('d, 'k, 'f, 'a, 'w) txEnv \<Rightarrow> int \<Rightarrow> erc20Token \<Rightarrow> int \<Rightarrow> feeStructure \<Rightarrow> feeStructure res" where
  "modifiedFees E chainID token amount fs =
     CalculateModifiedFeeStructure (teFloats E) (teTokens E) (tePrices E) chainID token amount fs"

text \<open>Reading a nil number of the caller's fees panics.\<close>

definition definiteFees :: "feeOverride \<Rightarrow> feeStructure res" where
  "definiteFees f =
     andThen (deref (foFlatFee f)) (\<lambda>flat. andThen (deref (foVariableRate f)) (\<lambda>rate.
       Ok \<lparr>fsFeeToken = foFeeToken f, fsFlatFee = flat, fsVariableRate = rate\<rparr>))"

definition givenFees :: "feeStructure \<Rightarrow> feeOverride" where
  "givenFees f = \<lparr>foFeeToken = fsFeeToken f, foFlatFee = Some (fsFlatFee f), foVariableRate = Some (fsVariableRate f)\<rparr>"

subsection \<open>The proof of a transaction\<close>

text \<open>The parameters every transaction fills in alike; \<open>ExternalActionID\<close> zero is the empty text.\<close>

definition plainZkParams ::
  "int \<Rightarrow> ('d, 'w) txState \<Rightarrow> utxo list list \<Rightarrow> utxo list list \<Rightarrow> string \<Rightarrow> feeStructure \<Rightarrow> string \<Rightarrow> string \<Rightarrow> zkParams" where
  "plainZkParams chainID s ins outs externalAddress fs relay originalSender =
     \<lparr>zkMerkleTree = tsTrees s chainID, zkInputUtxos = ins, zkOutputUtxos = outs, zkExternalActionID = [],
      zkExternalAddress = externalAddress, zkExternalActionMetadata = [], zkGenerateProofRemotely = wlProofRemotely (tsWallet s),
      zkFeeStructure = fs, zkRelay = relay, zkChainID = chainID, zkOnChainCreation = None, zkHookData = None,
      zkOriginalSender = originalSender, zkSubAccountPrivateKey = []\<rparr>"

definition proveAs :: "('d, 'k, 'f, 'a, 'w) txEnv \<Rightarrow> zkParams \<Rightarrow> (('d, 'w) txState, zkResult) action" where
  "proveAs E p = onWallet (onKeys (ConstructZkProof (teZk E) p))"

text \<open>The signature a Tron relayer needs; the sides of the proof are swapped in place.\<close>

definition tronSigned ::
  "('d, 'k, 'f, 'a, 'w) txEnv \<Rightarrow> int \<Rightarrow> zkResult \<Rightarrow> (tronProofSignature option \<times> zkCallData) res" where
  "tronSigned E chainID proof =
     (if IsTronLike chainID
      then (case ReorderZkCallData (teCrypto E) (teTron E) (zrDimData proof) (zrCircomData proof) True (zrCallData proof) of
              (r, zk) \<Rightarrow> andThen r (\<lambda>signature. Ok (Some signature, zk)))
      else Ok (None, zrCallData proof))"

definition relayProof :: "('d, 'k, 'f, 'a, 'w) txEnv \<Rightarrow> int \<Rightarrow> zkResult \<Rightarrow> (('d, 'w) txState, string) action" where
  "relayProof E chainID proof =
     bindA (liftA (tronSigned E chainID proof)) (\<lambda>(signature, zk).
       onWorld (TransactCallRelayer (teCallRelayer E) chainID zk (zrDimData proof) (zrCircomData proof) (zrCommitment proof)
         False signature))"

definition deployedHinkal :: "('d, 'k, 'f, 'a, 'w) txEnv \<Rightarrow> int \<Rightarrow> ('d, 'w) txState \<Rightarrow> string res" where
  "deployedHinkal E chainID s = fst (HinkalAddress (teDeployFiles E) chainID (tsDeploy s))"

text \<open>A transaction the wallet sends itself; \<open>approval\<close> and \<open>target\<close> are empty for the Hinkal contract.\<close>

definition directTron ::
  "('d, 'k, 'f, 'a, 'w) txEnv \<Rightarrow> int \<Rightarrow> int list \<Rightarrow> erc20Token list \<Rightarrow> zkResult \<Rightarrow> string \<Rightarrow> string \<Rightarrow> bool \<Rightarrow> (('d, 'w) txState, string) action" where
  "directTron E chainID amounts tokens proof approval target preEstimate =
     bindA (liftA (teTronReady E)) (\<lambda>_ s.
       onWorld (TransactCallDirectTron (teCrypto E) (teContracts E) (deployedHinkal E chainID s) (teTron E) chainID
         \<lparr>tpAmounts = amounts, tpTokens = tokens, tpZkCallData = zrCallData proof, tpCircomData = zrCircomData proof,
          tpDimData = zrDimData proof, tpContractApproval = approval, tpContractTransact = target,
          tpPreEstimateGas = preEstimate\<rparr>) s)"

definition directEvm ::
  "('d, 'k, 'f, 'a, 'w) txEnv \<Rightarrow> int \<Rightarrow> int list \<Rightarrow> erc20Token list \<Rightarrow> zkResult \<Rightarrow> string \<Rightarrow> string \<Rightarrow> bool \<Rightarrow> bool \<Rightarrow>
   (('d, 'w) txState, txRequest \<times> string) action" where
  "directEvm E chainID amounts tokens proof approval target preEstimate returnTxData =
     bindA (liftA (teAdapter E chainID)) (\<lambda>A s.
       onWorld (TransactCallDirect (teCrypto E) (teContracts E) (deployedHinkal E chainID s) A chainID
         \<lparr>dpAmounts = amounts, dpTokens = tokens, dpZkCallData = zrCallData proof, dpCircomData = zrCircomData proof,
          dpDimData = zrDimData proof, dpContractApproval = approval, dpContractTransact = target,
          dpPreEstimateGas = preEstimate, dpReturnTxData = returnTxData\<rparr>) s)"

definition emptyRequest :: txRequest where
  "emptyRequest = \<lparr>trTo = [], trData = [], trValue = None, trGasLimit = 0\<rparr>"

subsection \<open>withdraw.go: shared steps\<close>

definition copyBigInts :: "int list \<Rightarrow> int list" where
  "copyBigInts values = values"

definition tokenAddresses :: "erc20Token list \<Rightarrow> string list" where
  "tokenAddresses tokens = map tkAddress tokens"

definition relayerAddress :: "('d, 'k, 'f, 'a, 'w) txEnv \<Rightarrow> int \<Rightarrow> (('d, 'w) txState, string) action" where
  "relayerAddress E chainID =
     bindA (onWorld (teRelay E chainID True)) (\<lambda>relay.
       liftA (if relay = [] then Err (ErrMsg ''RELAYER_NOT_AVAILABLE'') else Ok relay))"

definition resolveWithdrawFeeStructure ::
  "('d, 'k, 'f, 'a, 'w) txEnv \<Rightarrow> int \<Rightarrow> string \<Rightarrow> string list \<Rightarrow> erc20Token \<Rightarrow> int \<Rightarrow> feeOverride option \<Rightarrow> solanaGasParams option \<Rightarrow>
   feeStructure res" where
  "resolveWithdrawFeeStructure E chainID feeToken addresses token amount override solanaParams =
     andThen (case override of Some f \<Rightarrow> definiteFees f
              | None \<Rightarrow> estimatedFees E chainID feeToken addresses ''Transact'' None solanaParams)
       (modifiedFees E chainID token (- amount))"

subsection \<open>deposit.go\<close>

definition getTransactionParameters :: "('d, 'k, 'f, 'a, 'w) txEnv \<Rightarrow> int \<Rightarrow> (('d, 'w) txState, string) action" where
  "getTransactionParameters E chainID =
     bindA (ethereumAddressOf chainID) (\<lambda>address.
       liftA (if IsTronLike chainID then tronHex (teCrypto E) address else Ok address))"

text \<open>
  The outputs of each token: the change, and for the first token the recipient's utxo when an amount is given. The
  loop panics when it runs past the inputs or the changes.
\<close>

fun outputRows ::
  "cryptoLib \<Rightarrow> (nat \<Rightarrow> nat \<Rightarrow> string) \<Rightarrow> (nat \<Rightarrow> nat \<Rightarrow> nat \<Rightarrow> bytes res) \<Rightarrow> string \<Rightarrow> string \<Rightarrow> int option \<Rightarrow> nat \<Rightarrow> string list \<Rightarrow>
   utxo list list \<Rightarrow> int list \<Rightarrow> (userKeys, utxo list list) action" where
  "outputRows C clock rand timeStamp recipient received i [] rows changes = liftA (Ok [])"
| "outputRows C clock rand timeStamp recipient received i (a # addresses) (row # rows) (change # changes) =
     bindA (OutputUtxoProcessing C (clock i) (rand i) row change timeStamp True recipient received) (\<lambda>outs.
     bindA (outputRows C clock rand timeStamp recipient None (i + 1) addresses rows changes) (\<lambda>rest. liftA (Ok (outs # rest))))"
| "outputRows C clock rand timeStamp recipient received i (a # addresses) rows changes = liftA (Panic ''index out of range'')"

definition getInputAndOutputUtxos ::
  "('d, 'k, 'f, 'a, 'w) txEnv \<Rightarrow> int \<Rightarrow> string list \<Rightarrow> int list \<Rightarrow> (('d, 'w) txState, utxo list list \<times> utxo list list) action" where
  "getInputAndOutputUtxos E chainID addresses changes =
     bindA (paddedInputs E chainID addresses changes 0 False False) (\<lambda>ins.
     bindA (onWallet (onKeys (outputRows (teCrypto E) (teOutClock E) (teOutRand E) (timeStampText E) [] None 0 addresses ins changes))) (\<lambda>outs. liftA (Ok (ins, outs))))"

definition HinkalDeposit ::
  "('d, 'k, 'f, 'a, 'w) txEnv \<Rightarrow> erc20Token list \<Rightarrow> int list \<Rightarrow> bool \<Rightarrow> bool \<Rightarrow> (('d, 'w) txState, txRequest \<times> string) action" where
  "HinkalDeposit E tokens changes preEstimateGas returnTxData =
     bindA (liftA (ValidateAndGetChainID tokens)) (\<lambda>chainID.
       if IsSolanaLike chainID then liftA (Err (ErrMsg ''transactions: deposit is not implemented for Solana chains''))
       else
         bindA (getTransactionParameters E chainID) (\<lambda>externalAddress.
         bindA (getInputAndOutputUtxos E chainID (tokenAddresses tokens) changes) (\<lambda>(ins, outs).
         bindA (\<lambda>s. proveAs E (plainZkParams chainID s ins outs externalAddress ZeroFeeStructure [] []) s) (\<lambda>proof.
           if IsTronLike chainID
           then if returnTxData then liftA (Err (ErrMsg ''transactions: Tron returnTxData is not implemented''))
                else bindA (directTron E chainID changes tokens proof [] [] preEstimateGas) (\<lambda>txid. liftA (Ok (emptyRequest, txid)))
           else directEvm E chainID changes tokens proof [] [] preEstimateGas returnTxData))))"

subsection \<open>transfer.go\<close>

definition privateSendFeeStructure :: "feeOverride \<Rightarrow> feeStructure" where
  "privateSendFeeStructure f =
     \<lparr>fsFeeToken = (if foFeeToken f = [] then ZeroAddress else foFeeToken f), fsFlatFee = zeroIfNil (foFlatFee f),
      fsVariableRate = (if zeroIfNil (foVariableRate f) = 0 then HinkalPrivateSendVariableRate else zeroIfNil (foVariableRate f))\<rparr>"

definition resolveTransferFeeStructure ::
  "('d, 'k, 'f, 'a, 'w) txEnv \<Rightarrow> int \<Rightarrow> string \<Rightarrow> string list \<Rightarrow> erc20Token \<Rightarrow> int \<Rightarrow> feeOverride option \<Rightarrow> solanaGasParams option \<Rightarrow>
   feeStructure res" where
  "resolveTransferFeeStructure E chainID feeToken addresses sentToken recipientAmount override solanaParams =
     andThen (case override of Some f \<Rightarrow> Ok f
              | None \<Rightarrow> andThen (estimatedFees E chainID feeToken addresses ''Transact'' (Some HinkalPrivateSendVariableRate) solanaParams)
                          (\<lambda>f. Ok (givenFees f)))
       (\<lambda>raw. modifiedFees E chainID sentToken recipientAmount (privateSendFeeStructure raw))"

definition getTransferInputAndOutputUtxos ::
  "('d, 'k, 'f, 'a, 'w) txEnv \<Rightarrow> int \<Rightarrow> string list \<Rightarrow> int list \<Rightarrow> string \<Rightarrow> int \<Rightarrow>
   (('d, 'w) txState, utxo list list \<times> utxo list list) action" where
  "getTransferInputAndOutputUtxos E chainID addresses changes recipient recipientAmount =
     bindA (paddedInputs E chainID addresses changes 0 False False) (\<lambda>ins.
     bindA (onWallet (onKeys (outputRows (teCrypto E) (teOutClock E) (teOutRand E) (timeStampText E) recipient (Some recipientAmount) 0 addresses ins changes)))
       (\<lambda>outs. liftA (Ok (ins, outs))))"

definition buildTransferProof ::
  "('d, 'k, 'f, 'a, 'w) txEnv \<Rightarrow> int \<Rightarrow> string list \<Rightarrow> int list \<Rightarrow> string \<Rightarrow> int \<Rightarrow> feeStructure \<Rightarrow> string \<Rightarrow> (('d, 'w) txState, zkResult) action" where
  "buildTransferProof E chainID addresses changes recipient recipientAmount fs relay =
     bindA (getTransferInputAndOutputUtxos E chainID addresses changes recipient recipientAmount) (\<lambda>(ins, outs) s.
       proveAs E (plainZkParams chainID s ins outs relay fs relay []) s)"

definition HinkalTransfer ::
  "('d, 'k, 'f, 'a, 'w) txEnv \<Rightarrow> erc20Token list \<Rightarrow> int list \<Rightarrow> string \<Rightarrow> string \<Rightarrow> feeOverride option \<Rightarrow> (('d, 'w) txState, string) action" where
  "HinkalTransfer E tokens changesBase recipient feeToken override =
     bindA (liftA (ValidateAndGetChainID tokens)) (\<lambda>chainID.
       if length tokens \<noteq> length changesBase
       then liftA (Err (ErrMsg ''transactions: erc20 tokens and amountChanges length mismatch''))
       else if tokens = [] then liftA (Err (ErrMsg ''transactions: transfer action: no token found''))
       else if \<not> IsValidPrivateAddress recipient then liftA (Err (ErrMsg ''recipient information format is incorrect''))
       else
         bindA (liftA (ModifyVolatileTokenAmountChanges (teSimulate E) chainID tokens (copyBigInts changesBase) [])) (\<lambda>changes0.
         (let recipientAmount = - (changes0 ! 0) in
          bindA (liftA (resolveTransferFeeStructure E chainID feeToken (tokenAddresses tokens) (hd tokens) recipientAmount override None)) (\<lambda>fs.
          bindA (liftA (MergeWithFeeStructure (teTokens E) chainID (tokenAddresses tokens) changes0 fs)) (\<lambda>(addresses, changes).
          bindA (relayerAddress E chainID) (\<lambda>relay.
          bindA (buildTransferProof E chainID addresses changes recipient recipientAmount fs relay) (\<lambda>proof.
            relayProof E chainID proof)))))))"

subsection \<open>withdraw.go\<close>

definition buildWithdrawProof ::
  "('d, 'k, 'f, 'a, 'w) txEnv \<Rightarrow> int \<Rightarrow> string list \<Rightarrow> int list \<Rightarrow> string \<Rightarrow> feeStructure \<Rightarrow> string \<Rightarrow> string \<Rightarrow>
   (('d, 'w) txState, zkResult) action" where
  "buildWithdrawProof E chainID addresses changes recipient fs relay originalSender =
     bindA (liftA (tronHex (teCrypto E) recipient)) (\<lambda>externalAddress.
     bindA (getInputAndOutputUtxos E chainID addresses changes) (\<lambda>(ins, outs) s.
       proveAs E (plainZkParams chainID s ins outs externalAddress fs relay originalSender) s))"

text \<open>The tokens, changes and fees of a withdrawal; without a relayer there are no fees.\<close>

definition withdrawTerms ::
  "('d, 'k, 'f, 'a, 'w) txEnv \<Rightarrow> int \<Rightarrow> erc20Token list \<Rightarrow> int list \<Rightarrow> bool \<Rightarrow> string \<Rightarrow> feeOverride option \<Rightarrow>
   (string list \<times> int list \<times> feeStructure) res" where
  "withdrawTerms E chainID tokens changes isRelayerOff feeToken override =
     (if isRelayerOff then Ok (tokenAddresses tokens, changes, ZeroFeeStructure)
      else
        andThen (resolveWithdrawFeeStructure E chainID feeToken (tokenAddresses tokens) (hd tokens) (changes ! 0) override None) (\<lambda>fs.
        andThen (MergeWithFeeStructure (teTokens E) chainID (tokenAddresses tokens) changes fs) (\<lambda>(addresses, merged).
          Ok (addresses, merged, fs))))"

definition HinkalWithdraw ::
  "('d, 'k, 'f, 'a, 'w) txEnv \<Rightarrow> erc20Token list \<Rightarrow> int list \<Rightarrow> string \<Rightarrow> bool \<Rightarrow> string \<Rightarrow> feeOverride option \<Rightarrow>
   (('d, 'w) txState, txRequest \<times> string) action" where
  "HinkalWithdraw E tokens changesBase recipient isRelayerOff feeToken override =
     bindA (liftA (ValidateAndGetChainID tokens)) (\<lambda>chainID.
       if length tokens \<noteq> length changesBase
       then liftA (Err (ErrMsg ''transactions: erc20 tokens and amountChanges length mismatch''))
       else if tokens = [] then liftA (Err (ErrMsg ''transactions: withdraw action: no token found''))
       else
         bindA (liftA (ModifyVolatileTokenAmountChanges (teSimulate E) chainID tokens (copyBigInts changesBase) [])) (\<lambda>changes0.
         bindA (liftA (withdrawTerms E chainID tokens changes0 isRelayerOff feeToken override)) (\<lambda>(addresses, changes, fs).
         bindA (ethereumAddressOf chainID) (\<lambda>ethereumAddress.
         bindA (liftA (if isRelayerOff
                       then if IsTronLike chainID then tronHex (teCrypto E) ethereumAddress else Ok ethereumAddress
                       else Ok [])) (\<lambda>originalSender.
         bindA (if isRelayerOff then liftA (Ok ZeroAddress) else relayerAddress E chainID) (\<lambda>relay.
         bindA (buildWithdrawProof E chainID addresses changes recipient fs relay originalSender) (\<lambda>proof.
           if isRelayerOff
           then if IsTronLike chainID
                then bindA (directTron E chainID [changes ! 0] [hd tokens] proof [] [] True) (\<lambda>txid. liftA (Ok (emptyRequest, txid)))
                else directEvm E chainID [changes ! 0] [hd tokens] proof [] [] True False
           else bindA (relayProof E chainID proof) (\<lambda>txHash. liftA (Ok (emptyRequest, txHash))))))))))"

subsection \<open>swap.go\<close>

definition swapOnChainCreation :: "nat \<Rightarrow> bool list" where
  "swapOnChainCreation n = take n [False, True, False]"

definition HinkalSwap ::
  "('d, 'k, 'f, 'a, 'w) txEnv \<Rightarrow> erc20Token list \<Rightarrow> int list \<Rightarrow> string \<Rightarrow> string \<Rightarrow> string \<Rightarrow> feeOverride option \<Rightarrow>
   (('d, 'w) txState, string) action" where
  "HinkalSwap E tokens deltasBase externalActionID payload feeToken override =
     bindA (liftA (ValidateAndGetChainID tokens)) (\<lambda>chainID.
     bindA (liftA (case override of Some f \<Rightarrow> definiteFees f
                   | None \<Rightarrow> estimatedFees E chainID feeToken (tokenAddresses tokens) externalActionID (Some HinkalSwapVariableRate) None)) (\<lambda>fs.
     bindA (liftA (MergeWithFeeStructure (teTokens E) chainID (tokenAddresses tokens) (copyBigInts deltasBase) fs)) (\<lambda>(addresses, deltas).
     bindA (onDeploy (GetExternalSwapAddress (teDeployFiles E) chainID externalActionID)) (\<lambda>externalAddress.
     bindA (relayerAddress E chainID) (\<lambda>relay.
     bindA (getInputAndOutputUtxos E chainID addresses deltas) (\<lambda>(ins, outs).
     bindA (\<lambda>s. proveAs E ((plainZkParams chainID s ins outs externalAddress fs relay [])\<lparr>zkExternalActionID := externalActionID,
              zkExternalActionMetadata := [payload], zkOnChainCreation := Some (swapOnChainCreation (length deltas))\<rparr>) s) (\<lambda>proof.
       onWorld (TransactCallRelayer (teCallRelayer E) chainID (zrCallData proof) (zrDimData proof) (zrCircomData proof)
         (zrCommitment proof) False None))))))))"

subsection \<open>deposit_for_other.go\<close>

definition emptyInput :: "string \<Rightarrow> string \<Rightarrow> int list \<Rightarrow> utxoParams" where
  "emptyInput token nullifyingKey spending =
     \<lparr>upAmount = Some 0, upErc20 = token, upMint = [], upTimeStamp = [], upNullifyingKey = nullifyingKey,
      upSpendingKey = Some spending, upRandomization = None, upH0 = None, upStealth = [], upEncryptionKey = [],
      upCommitment = [], upNullifier = [], upIsBlocked = False, upIsNewStyle = True\<rparr>"

definition otherOutput :: "string \<Rightarrow> int \<Rightarrow> jubPoint \<Rightarrow> string \<Rightarrow> string \<Rightarrow> utxoParams" where
  "otherOutput token amount h0 stealthAddress encryptionKey =
     \<lparr>upAmount = Some amount, upErc20 = token, upMint = [], upTimeStamp = [], upNullifyingKey = [], upSpendingKey = None,
      upRandomization = None, upH0 = Some h0, upStealth = stealthAddress, upEncryptionKey = encryptionKey,
      upCommitment = [], upNullifier = [], upIsBlocked = False, upIsNewStyle = True\<rparr>"

text \<open>Two empty inputs and the recipient's output for each token; the third draw of a token is the output's.\<close>

fun otherRows ::
  "('d, 'k, 'f, 'a, 'w) txEnv \<Rightarrow> string \<Rightarrow> int list \<Rightarrow> jubPoint \<Rightarrow> string \<Rightarrow> string \<Rightarrow> nat \<Rightarrow> string list \<Rightarrow> int list \<Rightarrow>
   (utxo list list \<times> utxo list list) res" where
  "otherRows E key spending h0 stealthAddress encryptionKey i [] changes = Ok ([], [])"
| "otherRows E key spending h0 stealthAddress encryptionKey i (a # addresses) changes =
     (let new = (\<lambda>j p. NewUtxo (teCrypto E) (teOutClock E i j) (teOutRand E i j) p) in
      andThen (new 0 (emptyInput a key spending)) (\<lambda>in0.
      andThen (new 1 (emptyInput a key spending)) (\<lambda>in1.
        case changes of [] \<Rightarrow> Panic ''index out of range''
        | change # rest \<Rightarrow>
            andThen (new 2 (otherOutput a change h0 stealthAddress encryptionKey)) (\<lambda>out.
            andThen (otherRows E key spending h0 stealthAddress encryptionKey (i + 1) addresses rest) (\<lambda>(ins, outs).
              Ok ([in0, in1] # ins, [out] # outs))))))"

definition recipientInputOutputUtxos ::
  "('d, 'k, 'f, 'a, 'w) txEnv \<Rightarrow> string list \<Rightarrow> int list \<Rightarrow> string \<Rightarrow> (userKeys, utxo list list \<times> utxo list list) action" where
  "recipientInputOutputUtxos E addresses changes recipientInfo =
     (let parts = splitStr recipientInfo '','' in
      if length parts < 5 then liftA (Panic ''index out of range'')
      else
        bindA (liftA (ParseBigInt (parts ! 1))) (\<lambda>h00.
        bindA (liftA (ParseBigInt (parts ! 2))) (\<lambda>h01.
        bindA (GetShieldedPrivateKey (teCrypto E)) (\<lambda>key.
        bindA (GetSpendingKeyPair (teCrypto E)) (\<lambda>(privSpending, pub).
          liftA (otherRows E key [fst pub, snd pub] (h00, h01) (parts ! 0) (parts ! 4) 0 addresses changes))))))"

definition HinkalDepositForOther ::
  "('d, 'k, 'f, 'a, 'w) txEnv \<Rightarrow> erc20Token list \<Rightarrow> int list \<Rightarrow> string \<Rightarrow> bool \<Rightarrow> bool \<Rightarrow> (('d, 'w) txState, txRequest \<times> string) action" where
  "HinkalDepositForOther E tokens changes recipientInfo preEstimateGas returnTxData =
     bindA (liftA (ValidateAndGetChainID tokens)) (\<lambda>chainID.
       if IsSolanaLike chainID then liftA (Err (ErrMsg ''transactions: deposit is not implemented for Solana chains''))
       else if \<not> IsValidPrivateAddress recipientInfo then liftA (Err (ErrMsg ''recipient information format is incorrect''))
       else
         bindA (onWallet (onKeys (recipientInputOutputUtxos E (tokenAddresses tokens) changes recipientInfo))) (\<lambda>(ins, outs).
         bindA (getTransactionParameters E chainID) (\<lambda>externalAddress.
         bindA (\<lambda>s. proveAs E (plainZkParams chainID s ins outs externalAddress ZeroFeeStructure [] []) s) (\<lambda>proof.
           if IsTronLike chainID
           then if returnTxData then liftA (Err (ErrMsg ''transactions: Tron returnTxData is not implemented''))
                else bindA (directTron E chainID changes tokens proof [] [] preEstimateGas) (\<lambda>txid. liftA (Ok (emptyRequest, txid)))
           else directEvm E chainID changes tokens proof [] [] preEstimateGas returnTxData))))"

end
