(* ===== verification/PrivateTxProps.thy ===== *)
theory PrivateTxProps
  imports PrivateTx Fees ZkProofProps
begin

text \<open>
  What private transactions promise: the outputs of a transfer move only the fee out of the pool, calls that can not
  be right are refused before anything happens, and calls made without a relayer never reach one.
\<close>

subsection \<open>What a transaction moves\<close>

lemma outputRows_amounts:
  "outputRows C clock rand ts recipient received n addresses ins changes k = (Ok outs, k') \<Longrightarrow>
    length outs = length addresses \<and> length addresses \<le> length ins \<and> length addresses \<le> length changes \<and>
    (\<forall>i<length addresses. changes ! i < 0 \<or> 0 \<le> totalOf (ins ! i) + changes ! i \<longrightarrow>
       changeAt ins outs i = changes ! i + (if i = 0 \<and> recipient \<noteq> [] then zeroIfNil received else 0))"
proof (induction C clock rand ts recipient received n addresses ins changes arbitrary: k outs rule: outputRows.induct)
  case (2 C clock rand ts recipient received n a addresses row rows change changes)
  obtain first k1 rest where first: "OutputUtxoProcessing C (clock n) (rand n) row change ts True recipient received k = (Ok first, k1)"
      and rest: "outputRows C clock rand ts recipient None (n + 1) addresses rows changes k1 = (Ok rest, k')" and outs: "outs = first # rest"
    using "2.prems" by (auto simp: bindA_eq_Ok liftA_eq)
  note F = outputs_conserved [OF first]
  have total: "totalOf first = amountOf (hd first) + sum_list (map amountOf (tl first))"
    using F by (cases first) (auto simp: totalOf_def)
  have head: "change < 0 \<or> 0 \<le> totalOf row + change \<Longrightarrow>
      totalOf first - totalOf row = change + (if recipient \<noteq> [] then zeroIfNil received else 0)"
    using F unfolding total by (cases received) (auto simp: totalOf_def zeroIfNil_def)
  note R = "2.IH" [OF rest]
  have tail: "changeAt (row # rows) outs (Suc i) = changeAt rows rest i" for i
    by (simp add: changeAt_def outs)
  have "changeAt (row # rows) outs 0 = totalOf first - totalOf row" by (simp add: changeAt_def outs)
  then show ?case
    using head R tail outs by (auto simp: less_Suc_eq_0_disj zeroIfNil_def)
qed (simp_all add: liftA_eq)

text \<open>C7: the outputs of a transfer hand the recipient what the sender gives up: of each token whose change is covered by
  the inputs, what leaves the pool is the change asked for less what the recipient is given of the first token, and
  the flat fee of the fee token; so a transfer of the first token alone moves the fee and nothing else.
\<close>

theorem transfer_moves_only_the_fee:
  assumes merged: "MergeWithFeeStructure readTokens chainID (tokenAddresses tokens) changes fs = Ok (addresses, merged)"
    and len: "length tokens = length changes" "tokens \<noteq> []" "recipient \<noteq> []"
    and run: "outputRows C clock rand ts recipient (Some (- (changes ! 0))) 0 addresses ins merged k = (Ok outs, k')"
  shows "\<exists>f<length addresses. equalFold (addresses ! f) (fsFeeToken fs) \<and> (\<forall>i<length addresses.
    merged ! i < 0 \<or> 0 \<le> totalOf (ins ! i) + merged ! i \<longrightarrow>
    changeAt ins outs i = (if 0 < i \<and> i < length tokens then changes ! i else 0) - (if i = f then fsFlatFee fs else 0))"
proof (cases "indexEqualFold (fsFeeToken fs) (tokenAddresses tokens)")
  case None
  note new = merge_new [OF merged None]
  have "0 < length changes" using len by auto
  then show ?thesis
    using outputRows_amounts [OF run] len(1,3) unfolding new
    by (intro exI [of _ "length tokens"])
       (auto simp: tokenAddresses_def equalFold_def nth_append zeroIfNil_def split: if_splits)
next
  case (Some f)
  note old = merge_old [OF merged Some] and ix = indexEqualFold_Some [OF Some]
  have "0 < length changes" using len by auto
  then show ?thesis
    using outputRows_amounts [OF run] len(1,3) ix old(2) unfolding old(1,3)
    by (intro exI [of _ f]) (auto simp: tokenAddresses_def nth_list_update zeroIfNil_def)
qed

lemma transfer_moves_only_the_fee_witness:
  "\<exists>outs. outputRows toyCrypto (\<lambda>_ _. bigString 7) (\<lambda>_ _ _. Ok [50]) (bigString 8) ''5,1,2,3,7'' (Some 5) 0 [''0xaa''] [[toyUtxo]] [- 8]
      signerKeys = (Ok outs, signerKeys) \<and> changeAt [[toyUtxo]] outs 0 = - 3"
proof -
  let ?tokens = "[minimalToken 1 ''0xaa'']" let ?fs = "\<lparr>fsFeeToken = ''0xaa'', fsFlatFee = 3, fsVariableRate = 0\<rparr>"
  have merged: "MergeWithFeeStructure (\<lambda>_. None) 1 (tokenAddresses ?tokens) [- 5] ?fs = Ok ([''0xaa''], [- 8])"
    by (simp add: MergeWithFeeStructure_def tokenAddresses_def minimalToken_def equalFold_def)
  obtain a b where pair: "GetSpendingKeyPair toyCrypto signerKeys = (Ok (a, b), signerKeys)" using signer_pair by blast
  have ins: "uxAmount toyUtxo = Some 25" by (simp add: toyUtxo_def)
  obtain u where u: "NewUtxo toyCrypto (bigString 7) (\<lambda>_. Ok [50])
      (changeParams toyUtxo (Some 17) (bigString 8) (ToBeHex (Some 11)) b) = Ok u"
    using toy_change by (fastforce simp: changeParams_def)
  have parts: "splitStr ''5,1,2,3,7'' '','' = [''5'', ''1'', ''2'', ''3'', ''7'']" "ParseBigInt ''1'' = Ok 1" "ParseBigInt ''2'' = Ok 2"
    by code_simp+
  obtain v where v: "recipientUtxo toyCrypto (bigString 7) (\<lambda>_. Ok [50]) toyUtxo (bigString 8) ''5,1,2,3,7'' 5 = Ok v"
    by (simp add: recipientUtxo_def parts NewUtxo_def receiverParams_def)
  have run: "outputRows toyCrypto (\<lambda>_ _. bigString 7) (\<lambda>_ _ _. Ok [50]) (bigString 8) ''5,1,2,3,7'' (Some 5) 0 [''0xaa''] [[toyUtxo]] [- 8]
      signerKeys = (Ok [[u, v]], signerKeys)"
    by (simp add: OutputUtxoProcessing_def ins bindA_def liftA_def signer_private pair u v)
  have "\<exists>f<length [''0xaa'']. equalFold ([''0xaa''] ! f) (fsFeeToken ?fs) \<and> (\<forall>i<length [''0xaa''].
    [- 8] ! i < (0 :: int) \<or> 0 \<le> totalOf ([[toyUtxo]] ! i) + [- 8] ! i \<longrightarrow>
    changeAt [[toyUtxo]] [[u, v]] i = (if 0 < i \<and> i < length ?tokens then [- 5] ! i else 0) - (if i = f then fsFlatFee ?fs else 0))"
    by (rule transfer_moves_only_the_fee [OF merged]) (use run in simp_all)
  then show ?thesis using run by auto
qed

subsection \<open>Refused calls\<close>

text \<open>A transfer or a deposit for someone else whose tokens are missing or of several chains, whose numbers of tokens
  and amounts differ (for a transfer), or whose recipient is malformed is refused, and leaves wallet, caches and
  chain as they were.
\<close>

theorem bad_calls_refused:
  assumes "\<not> isOk (ValidateAndGetChainID tokens) \<or> \<not> IsValidPrivateAddress recipient \<or> length tokens \<noteq> length changes"
  shows "(\<exists>e. HinkalTransfer E tokens changes recipient feeToken override s = (Err e, s)) \<and>
    (length tokens = length changes \<longrightarrow>
      (\<exists>e. HinkalDepositForOther E tokens changes recipient estimate returnData s = (Err e, s)))"
proof -
  have "ValidateAndGetChainID tokens \<noteq> Panic p" for p
    by (cases tokens) (auto simp: ValidateAndGetChainID_def)
  then show ?thesis
    using assms by (cases "ValidateAndGetChainID tokens")
      (auto simp: HinkalTransfer_def HinkalDepositForOther_def bindA_def liftA_def)
qed

lemma bad_calls_refused_witness:
  "\<forall>(E :: (memoryCache, unit, nat, unit, int) txEnv) s. (\<exists>e. HinkalTransfer E [minimalToken 1 ''0xaa''] [- 5] ''bob'' [] None s = (Err e, s)) \<and>
     (\<exists>e. HinkalDepositForOther E [minimalToken 1 ''0xaa''] [5] ''bob'' True False s = (Err e, s))"
proof (intro allI)
  fix E :: "(memoryCache, unit, nat, unit, int) txEnv" and s
  have bad: "\<not> isOk (ValidateAndGetChainID [minimalToken 1 ''0xaa'']) \<or> \<not> IsValidPrivateAddress ''bob'' \<or>
      length [minimalToken 1 ''0xaa''] \<noteq> length [- 5 :: int]"
    by code_simp
  show "(\<exists>e. HinkalTransfer E [minimalToken 1 ''0xaa''] [- 5] ''bob'' [] None s = (Err e, s)) \<and>
     (\<exists>e. HinkalDepositForOther E [minimalToken 1 ''0xaa''] [5] ''bob'' True False s = (Err e, s))"
    using bad_calls_refused [OF bad, of E "[]" None s] bad_calls_refused [of "[minimalToken 1 ''0xaa'']" "''bob''" "[5]" E "[]" None s] bad
    by simp
qed

subsection \<open>Without a relayer\<close>

text \<open>The services a wallet loses with its relayer and its price server.\<close>

definition withoutServers :: "('d, 'k, 'f, 'a, 'w) txEnv \<Rightarrow> ('d, 'k, 'f, 'a, 'w) txEnv" where
  "withoutServers E = E\<lparr>teRelay := \<lambda>_ _. liftA (Err (ErrMsg ''no relay'')), teCallRelayer := \<lambda>_. liftA (Err (ErrMsg ''no relayer'')),
     teEstimate := \<lambda>_ _ _ _ _ _ _. Err (ErrMsg ''no estimate''), tePrices := \<lambda>_ _. Err (ErrMsg ''no prices'')\<rparr>"

lemma withoutServers_simps [simp]:
  "teWallet (withoutServers E) = teWallet E" "teZk (withoutServers E) = teZk E" "teCrypto (withoutServers E) = teCrypto E"
  "teTokens (withoutServers E) = teTokens E" "teSimulate (withoutServers E) = teSimulate E"
  "teContracts (withoutServers E) = teContracts E" "teDeployFiles (withoutServers E) = teDeployFiles E"
  "teAdapter (withoutServers E) = teAdapter E" "teTron (withoutServers E) = teTron E" "teTronReady (withoutServers E) = teTronReady E"
  "teOutClock (withoutServers E) = teOutClock E" "teOutRand (withoutServers E) = teOutRand E"
  by (simp_all add: withoutServers_def teCrypto_def)

lemma steps_withoutServers [simp]:
  "paddedInputs (withoutServers E) = paddedInputs E" "proveAs (withoutServers E) = proveAs E"
  "timeStampText (withoutServers E) = timeStampText E" "directTron (withoutServers E) = directTron E"
  "directEvm (withoutServers E) = directEvm E" "getTransactionParameters (withoutServers E) = getTransactionParameters E"
  "getInputAndOutputUtxos (withoutServers E) = getInputAndOutputUtxos E" "buildWithdrawProof (withoutServers E) = buildWithdrawProof E"
  by (simp_all add: fun_eq_iff paddedInputs_def proveAs_def timeStampText_def directTron_def directEvm_def deployedHinkal_def
      getTransactionParameters_def getInputAndOutputUtxos_def buildWithdrawProof_def cong: if_cong)

text \<open>C26: deposits, and withdrawals made without a relayer, do not depend on the relayer, on the gas estimates or on the
  token prices: they have the same outcome and the same effects when those servers are gone.
\<close>

theorem direct_calls_need_no_servers:
  "HinkalWithdraw (withoutServers E) tokens changes recipient True feeToken override = HinkalWithdraw E tokens changes recipient True feeToken override \<and>
   HinkalDeposit (withoutServers E) tokens changes estimate returnData = HinkalDeposit E tokens changes estimate returnData"
  by (simp add: fun_eq_iff HinkalWithdraw_def HinkalDeposit_def withdrawTerms_def cong: if_cong)

end
