(* ===== verification/OnChainUtxos.thy ===== *)
theory OnChainUtxos
  imports UtxoCodec SolanaData ChainEvents
begin

text \<open>
  The utxos a deposit creates on chain, read back from its receipt: \<open>internal/functions/onchainutxos/decode.go\<close> with the
  helpers of \<open>internal/functions/solana/transactions.go\<close>. The address of a log is the text of \<open>common.Address\<close>; a log
  of a receipt may be nil.
\<close>

text \<open>An error that makes the loop go on; a panic still ends it.\<close>

fun skipErr :: "'a res \<Rightarrow> 'a option res" where
  "skipErr (Ok x) = Ok (Some x)"
| "skipErr (Err e) = Ok None"
| "skipErr (Panic p) = Panic p"

lemma skipErr_Some [res_simps]: "skipErr m = Ok (Some x) \<longleftrightarrow> m = Ok x"
  by (cases m) auto

definition skipA :: "('s, 'a) action \<Rightarrow> ('s, 'a option) action" where
  "skipA f s = (case f s of (r, s') \<Rightarrow> (skipErr r, s'))"

lemma skipA_Some [res_simps]: "skipA f s = (Ok (Some x), s') \<longleftrightarrow> f s = (Ok x, s')"
  by (auto simp: skipA_def res_simps split: prod.splits)

text \<open>The utxo with its commitment, which the call leaves in the utxo.\<close>

definition withCommitment :: "cryptoLib \<Rightarrow> utxo \<Rightarrow> (string \<times> utxo) res" where
  "withCommitment C u = (case GetCommitment C u of (r, u') \<Rightarrow> andThen r (\<lambda>c. Ok (c, u')))"

subsection \<open>DecodeFromReceipt\<close>

text \<open>The on-chain output of a log: a commitment event of the contract with a negative index.\<close>

definition onChainOutput :: "jsonLib \<Rightarrow> abiLib \<Rightarrow> string \<Rightarrow> string \<times> ethLog \<Rightarrow> string res" where
  "onChainOutput J A hinkalAddress l =
     (if \<not> equalFold (fst l) hinkalAddress then Err (ErrMsg ''other contract'')
      else
        andThen (NewFromLog J A (snd l)) (\<lambda>event.
          if evName event \<noteq> ''NewCommitment'' then Err (ErrMsg ''other event'')
          else
            andThen (GetArg J event ''index'') (\<lambda>indexArg.
            andThen (ParseBigInt indexArg) (\<lambda>index.
              if 0 \<le> index then Err (ErrMsg ''not on chain'') else GetArg J event ''encryptedOutput''))))"

definition logUtxo ::
  "cryptoLib \<Rightarrow> jsonLib \<Rightarrow> abiLib \<Rightarrow> string \<Rightarrow> (nat \<Rightarrow> bytes res) \<Rightarrow> int \<Rightarrow> string \<Rightarrow> string \<Rightarrow> string \<times> ethLog \<Rightarrow>
   (userKeys, string \<times> utxo) action" where
  "logUtxo C J A now rand chainID hinkalAddress tokenAddress l =
     bindA (liftA (onChainOutput J A hinkalAddress l)) (\<lambda>encryptedOutput.
     bindA (DecodeUtxo C now rand encryptedOutput chainID) (\<lambda>decoded.
       liftA (if \<not> equalFold (uxErc20 decoded) tokenAddress then Err (ErrMsg ''other token'') else withCommitment C decoded)))"

fun receiptLoop ::
  "(nat \<Rightarrow> string \<times> ethLog \<Rightarrow> (userKeys, string \<times> utxo) action) \<Rightarrow> nat \<Rightarrow> string set \<Rightarrow> (string \<times> ethLog) option list \<Rightarrow>
   (userKeys, utxo list) action" where
  "receiptLoop decode n seen [] = liftA (Ok [])"
| "receiptLoop decode n seen (None # logs) = receiptLoop decode (n + 1) seen logs"
| "receiptLoop decode n seen (Some l # logs) =
     bindA (skipA (decode n l)) (\<lambda>r.
       case r of
         None \<Rightarrow> receiptLoop decode (n + 1) seen logs
       | Some (c, u) \<Rightarrow>
           if c \<in> seen then receiptLoop decode (n + 1) seen logs
           else bindA (receiptLoop decode (n + 1) (insert c seen) logs) (\<lambda>us. liftA (Ok (u # us))))"

text \<open>\<open>hinkalABI\<close> and \<open>hinkalAddress\<close> are those of the chain; \<open>clock\<close> and \<open>rand\<close> serve the utxo of each log.\<close>

definition DecodeFromReceipt ::
  "cryptoLib \<Rightarrow> jsonLib \<Rightarrow> (nat \<Rightarrow> string) \<Rightarrow> (nat \<Rightarrow> nat \<Rightarrow> bytes res) \<Rightarrow> abiLib res \<Rightarrow> string res \<Rightarrow> (string \<times> ethLog) option list \<Rightarrow>
   int \<Rightarrow> string \<Rightarrow> (userKeys, utxo list) action" where
  "DecodeFromReceipt C J clock rand hinkalABI hinkalAddress logs chainID tokenAddress =
     bindA (liftA hinkalABI) (\<lambda>A.
     bindA (liftA hinkalAddress) (\<lambda>address.
       receiptLoop (\<lambda>n. logUtxo C J A (clock n) (rand n) chainID address tokenAddress) 0 {} logs))"

subsection \<open>DecodeSolanaFromTransaction\<close>

definition TransactionEvents ::
  "(string \<Rightarrow> bytes option) \<Rightarrow> (string \<Rightarrow> bytes res) \<Rightarrow> string list \<Rightarrow> string list list \<Rightarrow> decodedEvent list" where
  "TransactionEvents base64 base58 logMessages innerInstructions =
     ParseLogsForEvents base64 logMessages @ ParseCpiForEvents base58 (concat (map (filter (\<lambda>d. d \<noteq> [])) innerInstructions))"

text \<open>The arguments of an event are decoded as integers already; a missing one is no integer list.\<close>

fun IntSliceArg :: "eventArg option \<Rightarrow> int list option" where
  "IntSliceArg (Some (ArgInts ns)) = Some ns"
| "IntSliceArg _ = None"

fun IntMatrixArg :: "eventArg option \<Rightarrow> int list list option" where
  "IntMatrixArg (Some (ArgRows rows)) = Some rows"
| "IntMatrixArg _ = None"

definition solanaEventUtxo ::
  "cryptoLib \<Rightarrow> string \<Rightarrow> (nat \<Rightarrow> bytes res) \<Rightarrow> string \<Rightarrow> decodedEvent \<Rightarrow> (userKeys, string \<times> utxo) action" where
  "solanaEventUtxo C now rand compressedMintAddress ev =
     (if deName ev \<noteq> ''NewCommitment'' then liftA (Err (ErrMsg ''other event''))
      else
        (case (IntSliceArg (map_of (deArgs ev) ''encrypted_output''), IntMatrixArg (map_of (deArgs ev) ''on_chain_data'')) of
           (Some [], Some rows) \<Rightarrow>
             bindA (liftA (EncodeSolanaOnChainUtxo (IntMatrixToByteMatrix rows))) (\<lambda>encodedOutput.
             bindA (DecodeSolanaOnChainUtxo C now rand encodedOutput) (\<lambda>decoded.
               liftA (if \<not> equalFold (uxErc20 decoded) compressedMintAddress then Err (ErrMsg ''other token'')
                      else withCommitment C decoded)))
         | _ \<Rightarrow> liftA (Err (ErrMsg ''not on chain''))))"

fun eventsLoop ::
  "(nat \<Rightarrow> decodedEvent \<Rightarrow> (userKeys, string \<times> utxo) action) \<Rightarrow> nat \<Rightarrow> string set \<Rightarrow> decodedEvent list \<Rightarrow> (userKeys, utxo list) action" where
  "eventsLoop decode n seen [] = liftA (Ok [])"
| "eventsLoop decode n seen (ev # evs) =
     bindA (skipA (decode n ev)) (\<lambda>r.
       case r of
         None \<Rightarrow> eventsLoop decode (n + 1) seen evs
       | Some (c, u) \<Rightarrow>
           if c \<in> seen then eventsLoop decode (n + 1) seen evs
           else bindA (eventsLoop decode (n + 1) (insert c seen) evs) (\<lambda>us. liftA (Ok (u # us))))"

text \<open>A transaction is its log messages and inner instructions, or nothing when it or its meta data is nil.\<close>

definition DecodeSolanaFromTransaction ::
  "cryptoLib \<Rightarrow> (string \<Rightarrow> bytes option) \<Rightarrow> (nat \<Rightarrow> string) \<Rightarrow> (nat \<Rightarrow> nat \<Rightarrow> bytes res) \<Rightarrow> (string list \<times> string list list) option \<Rightarrow>
   string \<Rightarrow> (userKeys, utxo list) action" where
  "DecodeSolanaFromTransaction C base64 clock rand tx compressedMintAddress =
     (case tx of
        None \<Rightarrow> liftA (Ok [])
      | Some (logMessages, innerInstructions) \<Rightarrow>
          eventsLoop (\<lambda>n. solanaEventUtxo C (clock n) (rand n) compressedMintAddress) 0 {}
            (TransactionEvents base64 (b58Decode C) logMessages innerInstructions))"

subsection \<open>What a receipt gives\<close>

lemma withCommitment_Ok: "withCommitment C u = Ok (c, v) \<Longrightarrow> uxCommitment v = c \<and> uxErc20 v = uxErc20 u \<and> uxAmount v = uxAmount u"
  unfolding withCommitment_def GetCommitment_def GetStealthAddressUtxo_def
  by (auto simp: bindA_def liftA_def res_simps split: if_splits res.splits prod.splits option.splits)

text \<open>
  The outcomes \<open>rs\<close> of all logs, each in the key state that the logs before it left: what is returned is what they
  give, one utxo for each commitment.
\<close>

definition logOutcomes ::
  "(nat \<Rightarrow> string \<times> ethLog \<Rightarrow> (userKeys, string \<times> utxo) action) \<Rightarrow> nat \<Rightarrow> (string \<times> ethLog) option list \<Rightarrow>
   (nat \<Rightarrow> userKeys) \<Rightarrow> (string \<times> utxo) option list \<Rightarrow> bool" where
  "logOutcomes decode n logs ks rs \<longleftrightarrow> length rs = length logs \<and>
     (\<forall>i<length logs. case logs ! i of
        None \<Rightarrow> rs ! i = None \<and> ks (Suc i) = ks i
      | Some l \<Rightarrow> skipA (decode (n + i) l) (ks i) = (Ok (rs ! i), ks (Suc i)))"

lemma logOutcomes_Cons:
  assumes "case l of None \<Rightarrow> r = None \<and> ks 0 = k | Some x \<Rightarrow> skipA (decode n x) k = (Ok r, ks 0)"
    and "logOutcomes decode (n + 1) logs ks rs"
  shows "logOutcomes decode n (l # logs) (case_nat k ks) (r # rs)"
  unfolding logOutcomes_def
proof (intro conjI allI impI)
  fix i assume i: "i < length (l # logs)"
  show "case (l # logs) ! i of None \<Rightarrow> (r # rs) ! i = None \<and> case_nat k ks (Suc i) = case_nat k ks i
      | Some x \<Rightarrow> skipA (decode (n + i) x) (case_nat k ks i) = (Ok ((r # rs) ! i), case_nat k ks (Suc i))"
  proof (cases i)
    case 0
    then show ?thesis using assms(1) by (cases l) simp_all
  next
    case (Suc j)
    then have "case logs ! j of None \<Rightarrow> rs ! j = None \<and> ks (Suc j) = ks j
        | Some x \<Rightarrow> skipA (decode (Suc n + j) x) (ks j) = (Ok (rs ! j), ks (Suc j))"
      using assms(2) i unfolding logOutcomes_def Suc add_Suc_shift [symmetric] Suc_eq_plus1 [symmetric] by fastforce
    then show ?thesis unfolding Suc by (cases "logs ! j") simp_all
  qed
qed (use assms(2) in \<open>simp add: logOutcomes_def\<close>)

lemma receiptLoop_outcomes:
  assumes each: "\<And>n l k c u k'. decode n l k = (Ok (c, u), k') \<Longrightarrow> uxCommitment u = c"
  shows "receiptLoop decode n seen logs k = (Ok us, k') \<Longrightarrow>
    distinct (map uxCommitment us) \<and> uxCommitment ` set us \<inter> seen = {} \<and>
    (\<exists>rs ks. ks 0 = k \<and> logOutcomes decode n logs ks rs \<and> (\<forall>u\<in>set us. Some (uxCommitment u, u) \<in> set rs) \<and>
       (\<forall>c u. Some (c, u) \<in> set rs \<longrightarrow> c \<in> seen \<or> c \<in> uxCommitment ` set us))"
proof (induction logs arbitrary: n seen k us)
  case Nil
  have "logOutcomes decode n [] (\<lambda>_. k) []" by (simp add: logOutcomes_def)
  moreover have "us = []" using Nil by (simp add: liftA_eq)
  ultimately show ?case by (intro conjI exI [of _ "[]"] exI [of _ "\<lambda>_. k"]) simp_all
next
  case (Cons l logs)
  obtain r k1 where now: "case l of None \<Rightarrow> r = None \<and> k1 = k | Some x \<Rightarrow> skipA (decode n x) k = (Ok r, k1)"
      and rest: "(case r of
         None \<Rightarrow> receiptLoop decode (n + 1) seen logs
       | Some (c, u) \<Rightarrow>
           if c \<in> seen then receiptLoop decode (n + 1) seen logs
           else bindA (receiptLoop decode (n + 1) (insert c seen) logs) (\<lambda>us. liftA (Ok (u # us)))) k1 = (Ok us, k')"
  proof (cases l)
    case None
    then show thesis using that [of None k] Cons.prems by simp
  next
    case (Some x)
    then show thesis using that Cons.prems unfolding Some receiptLoop.simps bindA_eq_Ok by auto
  qed
  have step: "logOutcomes decode n (l # logs) (case_nat k ks) (r # rs)"
    if "logOutcomes decode (n + 1) logs ks rs" "ks 0 = k1" for ks rs
    using now unfolding that(2) [symmetric] by (intro logOutcomes_Cons that(1))
  show ?case
  proof (cases "\<exists>c u. r = Some (c, u) \<and> c \<notin> seen")
    case True
    then obtain c u vs where cu: "r = Some (c, u)" "c \<notin> seen" "receiptLoop decode (n + 1) (insert c seen) logs k1 = (Ok vs, k')" "us = u # vs"
      using rest by (auto simp: bindA_eq_Ok liftA_eq)
    have u: "uxCommitment u = c" using now each unfolding cu(1) by (auto simp: skipA_Some split: option.splits)
    obtain rs ks where IH: "distinct (map uxCommitment vs)" "uxCommitment ` set vs \<inter> insert c seen = {}" "ks 0 = k1"
        "logOutcomes decode (n + 1) logs ks rs" "\<forall>u\<in>set vs. Some (uxCommitment u, u) \<in> set rs"
        "\<forall>d u. Some (d, u) \<in> set rs \<longrightarrow> d \<in> insert c seen \<or> d \<in> uxCommitment ` set vs"
      using Cons.IH [OF cu(3)] by blast
    have "logOutcomes decode n (l # logs) (case_nat k ks) (r # rs)" by (rule step [OF IH(4,3)])
    moreover have "\<forall>d u. Some (d, u) \<in> set (r # rs) \<longrightarrow> d \<in> seen \<or> d \<in> uxCommitment ` set us"
      using IH(6) u cu(1,4) by auto
    moreover have "\<forall>u\<in>set us. Some (uxCommitment u, u) \<in> set (r # rs)" using IH(5) u cu(1,4) by auto
    moreover have "distinct (map uxCommitment us) \<and> uxCommitment ` set us \<inter> seen = {}"
      using IH(1,2) u cu(2,4) by auto
    ultimately show ?thesis by (intro conjI exI [of _ "r # rs"] exI [of _ "case_nat k ks"]) auto
  next
    case False
    then have "receiptLoop decode (n + 1) seen logs k1 = (Ok us, k')" using rest by (auto split: option.splits if_splits)
    then obtain rs ks where IH: "distinct (map uxCommitment us)" "uxCommitment ` set us \<inter> seen = {}" "ks 0 = k1"
        "logOutcomes decode (n + 1) logs ks rs" "\<forall>u\<in>set us. Some (uxCommitment u, u) \<in> set rs"
        "\<forall>d u. Some (d, u) \<in> set rs \<longrightarrow> d \<in> seen \<or> d \<in> uxCommitment ` set us"
      using Cons.IH by blast
    have "logOutcomes decode n (l # logs) (case_nat k ks) (r # rs)" by (rule step [OF IH(4,3)])
    moreover have "\<forall>d u. Some (d, u) \<in> set (r # rs) \<longrightarrow> d \<in> seen \<or> d \<in> uxCommitment ` set us"
      using IH(6) False by auto
    moreover have "\<forall>u\<in>set us. Some (uxCommitment u, u) \<in> set (r # rs)" using IH(5) by auto
    ultimately show ?thesis using IH(1,2) by (intro conjI exI [of _ "r # rs"] exI [of _ "case_nat k ks"]) auto
  qed
qed

end
