(* ===== verification/DepositTx.thy ===== *)
theory DepositTx
  imports PrivateTx OnChainUtxos SolanaAccounts
begin

text \<open>
  Paying others from a deposit: \<open>internal/functions/transactions\<close> (\<open>deposit_on_chain_utxos.go\<close>, \<open>deposit_and_withdraw.go\<close>,
  \<open>claim_utxo.go\<close>). The deposit makes one utxo on chain for each recipient; a batch of withdrawals then pays them out.
\<close>

record statusBody =
  ubID :: string
  ubHashedEthereumAddress :: string
  ubChainID :: int
  ubPhase :: string
  ubDepositTxHash :: string
  ubScheduleID :: string

text \<open>A log of a receipt is its address and the rest of the log; a nil log is \<open>None\<close>.\<close>

record ('d, 'w) depositEnv =
  dpJson :: jsonLib
  dpHinkalABI :: "int \<Rightarrow> abiLib res"
  dpEncode :: "int list \<Rightarrow> bytes res"                                     \<comment> \<open>ABI packing of uint256[]\<close>
  dpStatus :: "statusBody \<Rightarrow> ('w, string) action"                         \<comment> \<open>UpdateDepositAndWithdrawStatus\<close>
  dpWaitTx :: "int \<Rightarrow> string \<Rightarrow> nat \<Rightarrow> ('w, bool) action"
  dpFetchClient :: "int \<Rightarrow> unit res"
  dpReceipt :: "string \<Rightarrow> 'w \<Rightarrow> (string \<times> ethLog) option list res"
  dpIsNotFound :: "go_error \<Rightarrow> bool"                                      \<comment> \<open>errors.Is\<close>
  dpTick :: "'w \<Rightarrow> 'w"
  dpResetMerkle :: "int \<Rightarrow> (('d, 'w) txState, unit) action"
  dpCallBatch :: "relayerBatchBody \<Rightarrow> ('w, relayerBatchResponse) action"
  dpLogClock :: "nat \<Rightarrow> string"
  dpLogRand :: "nat \<Rightarrow> nat \<Rightarrow> bytes res"

subsection \<open>web3: abi_encoding.go, transaction_receipt.go\<close>

definition EncodeUint256Array :: "('d, 'w) depositEnv \<Rightarrow> int list \<Rightarrow> string res" where
  "EncodeUint256Array D ns = andThen (dpEncode D ns) (\<lambda>packed. Ok (''0x'' @ hexEncode packed))"

definition TxHashToHash :: "string \<Rightarrow> string" where
  "TxHashToHash txHash =
     (if hasPrefix txHash ''0x'' \<or> hasPrefix txHash ''0X'' then txHash else ''0x'' @ txHash)"

fun receiptAttempts :: "('d, 'w) depositEnv \<Rightarrow> string \<Rightarrow> nat \<Rightarrow> ('w, (string \<times> ethLog) option list) action" where
  "receiptAttempts D txHash 0 = liftA (Err (ErrMsg (''web3: receipt not found for '' @ txHash)))"
| "receiptAttempts D txHash (Suc n) =
     (\<lambda>w. case dpReceipt D (TxHashToHash txHash) w of
            Ok logs \<Rightarrow> (Ok logs, w)
          | Err e \<Rightarrow> if \<not> dpIsNotFound D e \<and> \<not> containsStr (toLower (errText e)) ''not found'' then (Err e, w)
                     else receiptAttempts D txHash n (dpTick D w)
          | Panic p \<Rightarrow> (Panic p, w))"

definition FetchTransactionReceiptWithRetry :: "('d, 'w) depositEnv \<Rightarrow> string \<Rightarrow> ('w, (string \<times> ethLog) option list) action" where
  "FetchTransactionReceiptWithRetry D txHash = receiptAttempts D txHash 30"

subsection \<open>api/deposit_and_withdraw_status.go\<close>

text \<open>The safe update drops every error.\<close>

definition SafeUpdateDepositAndWithdrawStatus :: "('d, 'w) depositEnv \<Rightarrow> statusBody \<Rightarrow> ('w, unit) action" where
  "SafeUpdateDepositAndWithdrawStatus D body =
     (if ubID body = [] then liftA (Ok ())
      else bindA (skipA (dpStatus D body)) (\<lambda>_. liftA (Ok ())))"

subsection \<open>deposit_on_chain_utxos.go\<close>

record depositedUtxo =
  duRecipient :: string
  duUtxo :: utxo

record depositProof =
  drProof :: zkResult
  drAmounts :: "int list"
  drTotal :: int
  drWrapper :: string
  drExternalAction :: string

definition depositAndWithdrawUtxoAmounts :: "int list \<Rightarrow> feeStructure \<Rightarrow> int list \<times> int" where
  "depositAndWithdrawUtxoAmounts recipientAmounts fs =
     (let amounts = map (\<lambda>a. a + CalculateTotalFee a fs) recipientAmounts in (amounts, sum_list amounts))"

definition prepareDepositOnChainUtxosZkProof ::
  "('d, 'k, 'f, 'a, 'w) txEnv \<Rightarrow> ('d, 'w) depositEnv \<Rightarrow> int \<Rightarrow> erc20Token \<Rightarrow> int list \<Rightarrow> feeStructure \<Rightarrow>
   (('d, 'w) txState, depositProof) action" where
  "prepareDepositOnChainUtxosZkProof E D chainID token recipientAmounts fs =
     (let (amounts, total_amount) = depositAndWithdrawUtxoAmounts recipientAmounts fs in
      bindA (liftA (EncodeUint256Array D amounts)) (\<lambda>metadata.
      bindA (onDeploy (GetContractData (teDeployFiles E) chainID)) (\<lambda>d.
        if ddHinkalWrapperAddress d = [] \<or> ddDepositOnChainUtxosExternalActionAddress d = []
        then liftA (Err (ErrMsg ''transactions: deposit-on-chain contract data not set''))
        else
          bindA (paddedInputs E chainID [tkAddress token] [0] 2 True False) (\<lambda>ins.
          bindA (onWallet (onKeys (outputRows (teCrypto E) (teOutClock E) (teOutRand E) (timeStampText E) [] None 0
                   (map (\<lambda>_. tkAddress token) ins) ins [0]))) (\<lambda>outs.
          bindA (\<lambda>s. proveAs E ((plainZkParams chainID s ins outs (ddDepositOnChainUtxosExternalActionAddress d) ZeroFeeStructure
                   ZeroAddress (ddHinkalWrapperAddress d))\<lparr>zkExternalActionID := ''DepositOnChainUtxos'',
                   zkExternalActionMetadata := [metadata], zkOnChainCreation := Some [True]\<rparr>) s) (\<lambda>proof.
            liftA (Ok \<lparr>drProof = proof, drAmounts = amounts, drTotal = total_amount, drWrapper = ddHinkalWrapperAddress d,
              drExternalAction = ddDepositOnChainUtxosExternalActionAddress d\<rparr>)))))))"

fun takeAmount :: "int \<Rightarrow> utxo list \<Rightarrow> (utxo \<times> utxo list) option res" where
  "takeAmount a [] = Ok None"
| "takeAmount a (u # us) =
     andThen (deref (uxAmount u)) (\<lambda>n.
       if n = a then Ok (Some (u, us))
       else andThen (takeAmount a us) (\<lambda>r. Ok (map_option (\<lambda>(v, vs). (v, u # vs)) r)))"

fun matchRecipientUtxos :: "string list \<Rightarrow> int list \<Rightarrow> utxo list \<Rightarrow> depositedUtxo list res" where
  "matchRecipientUtxos [] amounts available = Ok []"
| "matchRecipientUtxos (r # rs) [] available = Panic ''index out of range''"
| "matchRecipientUtxos (r # rs) (a # amounts) available =
     andThen (takeAmount a available) (\<lambda>found.
       case found of
         None \<Rightarrow> Err (ErrMsg (''transactions: could not find newly created UTXO with amount '' @ bigString a @ '' for recipient '' @ r))
       | Some (u, rest) \<Rightarrow>
           andThen (matchRecipientUtxos rs amounts rest) (\<lambda>out. Ok (\<lparr>duRecipient = r, duUtxo = u\<rparr> # out)))"

definition phaseBody :: "string \<Rightarrow> string \<Rightarrow> int \<Rightarrow> string \<Rightarrow> string \<Rightarrow> string \<Rightarrow> statusBody" where
  "phaseBody statusID hashedEthereumAddress chainID phase depositTxHash scheduleID =
     \<lparr>ubID = statusID, ubHashedEthereumAddress = hashedEthereumAddress, ubChainID = chainID, ubPhase = phase,
      ubDepositTxHash = depositTxHash, ubScheduleID = scheduleID\<rparr>"

text \<open>
  The call assigns its error to the variable of the inner block, which the check after the block does not see: a failed
  call goes on with an empty hash.
\<close>

definition hashOrEmpty :: "('s, string) action \<Rightarrow> ('s, string) action" where
  "hashOrEmpty send = bindA (skipA send) (\<lambda>r. liftA (Ok (case r of None \<Rightarrow> [] | Some h \<Rightarrow> h)))"

definition HinkalDepositOnChainUtxos ::
  "('d, 'k, 'f, 'a, 'w) txEnv \<Rightarrow> ('d, 'w) depositEnv \<Rightarrow> int \<Rightarrow> erc20Token \<Rightarrow> int list \<Rightarrow> string list \<Rightarrow> feeStructure \<Rightarrow> string \<Rightarrow>
   bool \<Rightarrow> (('d, 'w) txState, depositedUtxo list \<times> string \<times> string) action" where
  "HinkalDepositOnChainUtxos E D chainID token recipientAmounts recipients fs hashedEthereumAddress preEstimateGas =
     bindA (prepareDepositOnChainUtxosZkProof E D chainID token recipientAmounts fs) (\<lambda>prepared.
     bindA (onWorld (dpStatus D (phaseBody [] hashedEthereumAddress chainID ''before_deposit'' [] []))) (\<lambda>statusID.
     bindA (if IsTronLike chainID
            then bindA (liftA (teTronReady E)) (\<lambda>_. hashOrEmpty
                   (directTron E chainID [drTotal prepared] [token] (drProof prepared) (drExternalAction prepared) (drWrapper prepared)
                      preEstimateGas))
            else bindA (liftA (teAdapter E chainID)) (\<lambda>_. hashOrEmpty
                   (bindA (directEvm E chainID [drTotal prepared] [token] (drProof prepared) (drExternalAction prepared)
                      (drWrapper prepared) preEstimateGas False) (\<lambda>(tx, h). liftA (Ok h))))) (\<lambda>depositTxHash.
       if depositTxHash = [] then liftA (Err (ErrMsg ''transactions: deposit transaction hash not found''))
       else
         bindA (onWorld (dpWaitTx D chainID depositTxHash 1)) (\<lambda>_.
         bindA (liftA (dpFetchClient D chainID)) (\<lambda>_.
         bindA (onWorld (FetchTransactionReceiptWithRetry D depositTxHash)) (\<lambda>logs.
         bindA (onWorld (SafeUpdateDepositAndWithdrawStatus D (phaseBody statusID hashedEthereumAddress chainID ''after_deposit''
                  depositTxHash []))) (\<lambda>_.
         bindA (\<lambda>s. onWallet (onKeys (DecodeFromReceipt (teCrypto E) (dpJson D) (dpLogClock D) (dpLogRand D) (dpHinkalABI D chainID)
                  (deployedHinkal E chainID s) logs chainID (tkAddress token))) s) (\<lambda>deposited.
           if deposited = [] then liftA (Err (ErrMsg ''transactions: no on-chain UTXOs found in deposit transaction''))
           else bindA (liftA (matchRecipientUtxos recipients (drAmounts prepared) deposited)) (\<lambda>out.
                  liftA (Ok (out, statusID, depositTxHash)))))))))))"

subsection \<open>deposit_and_withdraw.go\<close>

definition paySendFeeStructure :: "feeOverride \<Rightarrow> feeStructure" where
  "paySendFeeStructure f =
     \<lparr>fsFeeToken = (if foFeeToken f = [] then ZeroAddress else foFeeToken f), fsFlatFee = zeroIfNil (foFlatFee f),
      fsVariableRate = (if zeroIfNil (foVariableRate f) = 0 then PaySendVariableRate else zeroIfNil (foVariableRate f))\<rparr>"

definition resolveDepositAndWithdrawFeeStructure ::
  "('d, 'k, 'f, 'a, 'w) txEnv \<Rightarrow> int \<Rightarrow> string \<Rightarrow> feeOverride option \<Rightarrow> feeStructure res" where
  "resolveDepositAndWithdrawFeeStructure E chainID tokenAddress override =
     (case override of
        Some f \<Rightarrow> Ok (paySendFeeStructure f)
      | None \<Rightarrow>
          andThen (estimatedFees E chainID tokenAddress [tokenAddress] ''Transact'' (Some PaySendVariableRate) None) (\<lambda>fs.
            Ok (paySendFeeStructure (givenFees fs))))"

definition validateDepositAndWithdrawArgs :: "erc20Token list \<Rightarrow> int option list \<Rightarrow> string list \<Rightarrow> unit res" where
  "validateDepositAndWithdrawArgs tokens amounts recipients =
     (if tokens = [] then Err (ErrMsg ''transactions: depositAndWithdraw action: no token found'')
      else if 1 < length tokens then Err (ErrMsg ''transactions: depositAndWithdraw supports one token'')
      else if amounts = [] then Err (ErrMsg ''transactions: amounts must not be empty'')
      else if length amounts \<noteq> length recipients
      then Err (ErrMsg ''transactions: recipientAmounts and recipientAddresses length mismatch'')
      else if \<exists>a\<in>set amounts. case a of None \<Rightarrow> True | Some n \<Rightarrow> n \<le> 0
      then Err (ErrMsg ''transactions: all amounts must be positive'')
      else Ok ())"

fun allInLeaves :: "cryptoLib \<Rightarrow> string set \<Rightarrow> depositedUtxo list \<Rightarrow> bool res" where
  "allInLeaves C known [] = Ok True"
| "allInLeaves C known (d # ds) =
     andThen (fst (GetCommitment C (duUtxo d))) (\<lambda>commitment.
     andThen (ParseBigInt commitment) (\<lambda>n.
       if bigString n \<notin> known then Ok False else allInLeaves C known ds))"

definition areAllDepositedUtxosInLastLeaves :: "cryptoLib \<Rightarrow> depositedUtxo list \<Rightarrow> int list \<Rightarrow> bool res" where
  "areAllDepositedUtxosInLastLeaves C deposited lastLeaves =
     (if deposited = [] then Ok True else allInLeaves C (set (map bigString lastLeaves)) deposited)"

fun merkleAttempts ::
  "cryptoLib \<Rightarrow> ('d, 'w) depositEnv \<Rightarrow> int \<Rightarrow> depositedUtxo list \<Rightarrow> nat \<Rightarrow> (('d, 'w) txState, unit) action" where
  "merkleAttempts C D chainID deposited 0 =
     liftA (Err (ErrMsg ''transactions: timeout while waiting for deposited UTXOs to appear in Merkle tree''))"
| "merkleAttempts C D chainID deposited (Suc n) =
     bindA (dpResetMerkle D chainID) (\<lambda>_.
     bindA (\<lambda>s. liftA (case tsTrees s chainID of None \<Rightarrow> Ok [] | Some m \<Rightarrow> LastLeaves m 20) s) (\<lambda>lastLeaves.
     bindA (liftA (areAllDepositedUtxosInLastLeaves C deposited lastLeaves)) (\<lambda>found.
       if found then liftA (Ok ())
       else (\<lambda>s. merkleAttempts C D chainID deposited n (s\<lparr>tsWorld := dpTick D (tsWorld s)\<rparr>)))))"

definition waitForDepositedUtxosInMerkleTree ::
  "cryptoLib \<Rightarrow> ('d, 'w) depositEnv \<Rightarrow> int \<Rightarrow> depositedUtxo list \<Rightarrow> (('d, 'w) txState, unit) action" where
  "waitForDepositedUtxosInMerkleTree C D chainID deposited =
     (if deposited = [] then liftA (Ok ()) else merkleAttempts C D chainID deposited 60)"

definition zeroUtxoParams :: "string \<Rightarrow> string \<Rightarrow> string \<Rightarrow> bool \<Rightarrow> int list option \<Rightarrow> utxoParams" where
  "zeroUtxoParams tokenAddress key timeStamp newStyle spending =
     \<lparr>upAmount = Some 0, upErc20 = tokenAddress, upMint = [], upTimeStamp = timeStamp, upNullifyingKey = key,
      upSpendingKey = spending, upRandomization = None, upH0 = None, upStealth = [], upEncryptionKey = [],
      upCommitment = [], upNullifier = [], upIsBlocked = False, upIsNewStyle = newStyle\<rparr>"

definition buildDepositAndWithdrawZeroUtxo ::
  "cryptoLib \<Rightarrow> string \<Rightarrow> (nat \<Rightarrow> bytes res) \<Rightarrow> string \<Rightarrow> utxo \<Rightarrow> string \<Rightarrow> (userKeys, utxo) action" where
  "buildDepositAndWithdrawZeroUtxo C now rand tokenAddress source timeStamp =
     bindA (GetShieldedPrivateKey C) (\<lambda>key.
     bindA (if uxIsNewStyle source
            then bindA (GetSpendingKeyPair C) (\<lambda>(priv, pub). liftA (Ok (Some [fst pub, snd pub])))
            else liftA (Ok None)) (\<lambda>spending.
       liftA (NewUtxo C now rand (zeroUtxoParams tokenAddress key timeStamp (uxIsNewStyle source) spending))))"

definition emptyPatch :: utxoParams where
  "emptyPatch = \<lparr>upAmount = None, upErc20 = [], upMint = [], upTimeStamp = [], upNullifyingKey = [], upSpendingKey = None,
     upRandomization = None, upH0 = None, upStealth = [], upEncryptionKey = [], upCommitment = [], upNullifier = [],
     upIsBlocked = False, upIsNewStyle = False\<rparr>"

text \<open>The proof that pays one deposited utxo out; its draws are those of row \<open>i\<close>.\<close>

definition withdrawItem ::
  "('d, 'k, 'f, 'a, 'w) txEnv \<Rightarrow> int \<Rightarrow> erc20Token \<Rightarrow> feeStructure \<Rightarrow> string \<Rightarrow> nat \<Rightarrow> depositedUtxo \<Rightarrow> int \<Rightarrow>
   (('d, 'w) txState, relayerBatchItem) action" where
  "withdrawItem E chainID token fs relay i item amount =
     bindA (liftA (tronHex (teCrypto E) (duRecipient item))) (\<lambda>recipientHex.
     bindA (onWallet (onKeys (buildDepositAndWithdrawZeroUtxo (teCrypto E) (teOutClock E i 0) (teOutRand E i 0) (tkAddress token)
              (duUtxo item) (timeStampText E)))) (\<lambda>zeroUtxo.
     bindA (liftA (if equalFold (uxErc20 (duUtxo item)) (tkAddress token) then Ok (duUtxo item)
                   else CreateFrom (teCrypto E) (teOutClock E i 1) (teOutRand E i 1) (duUtxo item)
                          (emptyPatch\<lparr>upErc20 := tkAddress token\<rparr>))) (\<lambda>utxoToWithdraw.
     bindA (liftA (modifiedFees E chainID token amount fs)) (\<lambda>withdrawFees.
     bindA (\<lambda>s. proveAs E (plainZkParams chainID s [[utxoToWithdraw, zeroUtxo]] [[zeroUtxo]] recipientHex withdrawFees relay []) s) (\<lambda>proof.
     bindA (liftA (tronSigned E chainID proof)) (\<lambda>(signature, zk).
       liftA (Ok \<lparr>biZkCallData = zk, biDimData = zrDimData proof, biCircomData = zrCircomData proof, biCommitment = zrCommitment proof,
         biUniswapWorkAround = False, biAuthorization = None, biRecipient = duRecipient item, biTronSignature = signature\<rparr>)))))))"

fun withdrawItems ::
  "('d, 'k, 'f, 'a, 'w) txEnv \<Rightarrow> int \<Rightarrow> erc20Token \<Rightarrow> feeStructure \<Rightarrow> string \<Rightarrow> nat \<Rightarrow> depositedUtxo list \<Rightarrow> int list \<Rightarrow>
   (('d, 'w) txState, relayerBatchItem list) action" where
  "withdrawItems E chainID token fs relay i [] amounts = liftA (Ok [])"
| "withdrawItems E chainID token fs relay i (d # ds) (a # amounts) =
     bindA (withdrawItem E chainID token fs relay i d a) (\<lambda>item.
     bindA (withdrawItems E chainID token fs relay (i + 1) ds amounts) (\<lambda>items. liftA (Ok (item # items))))"
| "withdrawItems E chainID token fs relay i (d # ds) [] = liftA (Panic ''index out of range'')"

definition scheduleBatch ::
  "('d, 'w) depositEnv \<Rightarrow> int \<Rightarrow> relayerBatchItem list \<Rightarrow> string \<Rightarrow> string \<Rightarrow> int option \<Rightarrow> ('w, string) action" where
  "scheduleBatch D chainID items hashedEthereumAddress statusID txCompletionTime =
     bindA (SafeUpdateDepositAndWithdrawStatus D (phaseBody statusID hashedEthereumAddress chainID ''before_schedule_withdraw'' [] [])) (\<lambda>_.
     bindA (TransactCallRelayerBatch (dpCallBatch D) chainID items hashedEthereumAddress txCompletionTime [] []) (\<lambda>scheduleID.
     bindA (SafeUpdateDepositAndWithdrawStatus D (phaseBody statusID hashedEthereumAddress chainID ''after_schedule_withdraw'' [] scheduleID))
       (\<lambda>_. liftA (Ok scheduleID))))"

definition hinkalWithdrawBatch ::
  "('d, 'k, 'f, 'a, 'w) txEnv \<Rightarrow> ('d, 'w) depositEnv \<Rightarrow> int \<Rightarrow> erc20Token \<Rightarrow> depositedUtxo list \<Rightarrow> int list \<Rightarrow> feeStructure \<Rightarrow>
   string \<Rightarrow> string \<Rightarrow> int option \<Rightarrow> (('d, 'w) txState, string) action" where
  "hinkalWithdrawBatch E D chainID token deposited amounts fs hashedEthereumAddress statusID txCompletionTime =
     (if deposited = [] then liftA (Err (ErrMsg ''transactions: no on-chain UTXOs found in deposit transaction''))
      else
        bindA (relayerAddress E chainID) (\<lambda>relay.
        bindA (withdrawItems E chainID token fs relay 0 deposited amounts) (\<lambda>items.
          onWorld (scheduleBatch D chainID items hashedEthereumAddress statusID txCompletionTime))))"

text \<open>The result is the hash of the deposit and the identifier of the schedule.\<close>

definition HinkalDepositAndWithdraw ::
  "('d, 'k, 'f, 'a, 'w) txEnv \<Rightarrow> ('d, 'w) depositEnv \<Rightarrow> erc20Token list \<Rightarrow> int option list \<Rightarrow> string list \<Rightarrow> int option \<Rightarrow>
   feeOverride option \<Rightarrow> bool \<Rightarrow> (('d, 'w) txState, string \<times> string) action" where
  "HinkalDepositAndWithdraw E D tokens recipientAmounts recipients txCompletionTime override preEstimateGas =
     bindA (liftA (ValidateAndGetChainID tokens)) (\<lambda>chainID.
       if IsSolanaLike chainID then liftA (Err (ErrMsg ''transactions: use HinkalSolanaDepositAndWithdraw for Solana chains''))
       else
         bindA (liftA (validateDepositAndWithdrawArgs tokens recipientAmounts recipients)) (\<lambda>_.
         (let token = hd tokens; amounts = map zeroIfNil recipientAmounts in
          bindA (ethereumAddressOf chainID) (\<lambda>rawAddress.
          bindA (liftA (tronHex (teCrypto E) rawAddress)) (\<lambda>address.
          (let hashed = HashEthereumAddress (keccak256 (teCrypto E)) address in
           bindA (liftA (resolveDepositAndWithdrawFeeStructure E chainID (tkAddress token) override)) (\<lambda>fs.
           bindA (HinkalDepositOnChainUtxos E D chainID token amounts recipients fs hashed preEstimateGas) (\<lambda>(deposited, statusID, depositTxHash).
           bindA (waitForDepositedUtxosInMerkleTree (teCrypto E) D chainID deposited) (\<lambda>_.
           bindA (hinkalWithdrawBatch E D chainID token deposited amounts fs hashed statusID txCompletionTime) (\<lambda>scheduleID.
             liftA (Ok (depositTxHash, scheduleID))))))))))))"

end
