(* ===== verification/DepositTxProps.thy ===== *)
theory DepositTxProps
  imports DepositTx PrivateTxProps
begin

text \<open>
  What paying others from a deposit promises: the utxos of a deposit are told apart and each is the one a log of the
  contract gives, each
  recipient is matched with a utxo of its own, what it holds pays the recipient exactly, and nothing is scheduled
  before the tree has all of them.
\<close>

subsection \<open>Reading the deposit back\<close>

text \<open>A log of the contract that creates a commitment with a negative index, and its encrypted output.\<close>

definition createsOnChain :: "jsonLib \<Rightarrow> abiLib \<Rightarrow> string \<Rightarrow> string \<times> ethLog \<Rightarrow> string \<Rightarrow> bool" where
  "createsOnChain J A address l out \<longleftrightarrow> equalFold (fst l) address \<and> (\<exists>event index. NewFromLog J A (snd l) = Ok event \<and>
     evName event = ''NewCommitment'' \<and> andThen (GetArg J event ''index'') ParseBigInt = Ok index \<and> index < 0 \<and>
     GetArg J event ''encryptedOutput'' = Ok out)"

text \<open>The utxo a log gives the wallet: its output, decoded with the wallet's keys, with its commitment.\<close>

definition logGives ::
  "cryptoLib \<Rightarrow> jsonLib \<Rightarrow> abiLib \<Rightarrow> string \<Rightarrow> int \<Rightarrow> string \<Rightarrow> string \<Rightarrow> (nat \<Rightarrow> bytes res) \<Rightarrow> string \<times> ethLog \<Rightarrow> userKeys \<Rightarrow>
   string \<Rightarrow> utxo \<Rightarrow> bool" where
  "logGives C J A address chainID token now rand l k c u \<longleftrightarrow> (\<exists>out d k'. createsOnChain J A address l out \<and>
     DecodeUtxo C now rand out chainID k = (Ok d, k') \<and> equalFold (uxErc20 d) token \<and> withCommitment C d = Ok (c, u))"

lemma onChainOutput_iff: "onChainOutput J A address l = Ok out \<longleftrightarrow> createsOnChain J A address l out"
  unfolding onChainOutput_def createsOnChain_def andThen_eq_Ok
  by (cases "equalFold (fst l) address") (auto simp: andThen_eq_Ok not_le split: if_splits)

lemma logUtxo_iff:
  "(\<exists>k'. logUtxo C J A now rand chainID address token l k = (Ok (c, u), k')) \<longleftrightarrow>
    logGives C J A address chainID token now rand l k c u"
  unfolding logUtxo_def logGives_def onChainOutput_iff [symmetric] by (auto simp: bindA_eq_Ok liftA_eq split: if_splits)

lemma logGives_fields:
  "logGives C J A address chainID token now rand l k c u \<Longrightarrow> uxCommitment u = c \<and> equalFold (uxErc20 u) token"
  unfolding logGives_def by (auto dest!: withCommitment_Ok)

lemma outcome_iff:
  "skipA (logUtxo C J A now rand chainID address token l) k = (Ok r, k') \<Longrightarrow>
    r = Some (c, u) \<longleftrightarrow> logGives C J A address chainID token now rand l k c u"
  unfolding logUtxo_iff [symmetric] by (cases r) (auto simp: skipA_def skipErr_Some split: prod.splits)

text \<open>C19: reading the receipt of a deposit back goes through its logs in order, and a log gives a utxo exactly if it is a
  log of the contract of the chain that creates a commitment with a negative index, its own encrypted output
  decodes with the keys of the wallet, and the decoded utxo is of the token asked for. Every utxo returned is the one such
  a log gives, no commitment is returned twice, and no commitment that a log gives is left out.
\<close>

theorem deposited_utxos_from_contract:
  assumes "DecodeFromReceipt C J clock rand (Ok A) (Ok address) logs chainID token k = (Ok us, k')"
  shows "distinct (map uxCommitment us) \<and> (\<exists>rs ks. ks 0 = k \<and> length rs = length logs \<and>
    (\<forall>i<length logs. (\<forall>c u. rs ! i = Some (c, u) \<longleftrightarrow>
        (\<exists>l. logs ! i = Some l \<and> logGives C J A address chainID token (clock i) (rand i) l (ks i) c u)) \<and>
      ks (Suc i) = (case logs ! i of None \<Rightarrow> ks i
        | Some l \<Rightarrow> snd (logUtxo C J A (clock i) (rand i) chainID address token l (ks i)))) \<and>
    (\<forall>u\<in>set us. equalFold (uxErc20 u) token \<and> (\<exists>i<length logs. rs ! i = Some (uxCommitment u, u))) \<and>
    (\<forall>i<length logs. \<forall>c u. rs ! i = Some (c, u) \<longrightarrow> c \<in> uxCommitment ` set us))"
proof -
  let ?decode = "\<lambda>n. logUtxo C J A (clock n) (rand n) chainID address token"
  have run: "receiptLoop ?decode 0 {} logs k = (Ok us, k')"
    using assms by (simp add: DecodeFromReceipt_def)
  have each: "uxCommitment u = c" if "?decode n l k = (Ok (c, u), k')" for n l k c u k'
    using logUtxo_iff [THEN iffD1, OF exI, OF that] logGives_fields by blast
  have "distinct (map uxCommitment us) \<and> uxCommitment ` set us \<inter> {} = {} \<and>
    (\<exists>rs ks. ks 0 = k \<and> logOutcomes ?decode 0 logs ks rs \<and> (\<forall>u\<in>set us. Some (uxCommitment u, u) \<in> set rs) \<and>
       (\<forall>c u. Some (c, u) \<in> set rs \<longrightarrow> c \<in> {} \<or> c \<in> uxCommitment ` set us))"
    by (rule receiptLoop_outcomes [OF _ run]) (rule each)
  then obtain rs ks where d: "distinct (map uxCommitment us)" and k: "ks 0 = k" and out: "logOutcomes ?decode 0 logs ks rs"
      and src: "\<forall>u\<in>set us. Some (uxCommitment u, u) \<in> set rs" and all: "\<forall>c u. Some (c, u) \<in> set rs \<longrightarrow> c \<in> uxCommitment ` set us"
    by blast
  have len: "length rs = length logs" using out by (simp add: logOutcomes_def)
  have step: "(\<forall>c u. rs ! i = Some (c, u) \<longleftrightarrow> (\<exists>l. logs ! i = Some l \<and> logGives C J A address chainID token (clock i) (rand i) l (ks i) c u)) \<and>
      ks (Suc i) = (case logs ! i of None \<Rightarrow> ks i | Some l \<Rightarrow> snd (?decode i l (ks i)))" if "i < length logs" for i
  proof (cases "logs ! i")
    case None
    then show ?thesis using out that by (auto simp: logOutcomes_def)
  next
    case (Some l)
    then have s: "skipA (?decode i l) (ks i) = (Ok (rs ! i), ks (Suc i))" using out that by (auto simp: logOutcomes_def)
    then show ?thesis using Some outcome_iff [OF s] by (auto simp: skipA_def split: prod.splits)
  qed
  have got: "\<exists>i<length logs. rs ! i = Some (uxCommitment u, u)" if "u \<in> set us" for u
    using src that len by (auto simp: in_set_conv_nth)
  then have "equalFold (uxErc20 u) token" if "u \<in> set us" for u using that step logGives_fields by metis
  moreover have "c \<in> uxCommitment ` set us" if "i < length logs" "rs ! i = Some (c, u)" for i c u
    using all that len nth_mem [of i rs] by metis
  ultimately show ?thesis using d k len step got by blast
qed

text \<open>A receipt with a commitment event of the contract whose output is the toy wallet's, and one of another contract.\<close>

definition logJson :: jsonLib where
  "logJson = \<lparr>jParse = (\<lambda>_. Some (JObj [(''index'', JStr ''-3''), (''encryptedOutput'', JStr (''0x'' @ hexEncode toyWords))])),
     jText = (\<lambda>_. Ok ''e''), jFloat = Some\<rparr>"

definition logAbi :: abiLib where
  "logAbi = \<lparr>eventByID = (\<lambda>_. Ok \<lparr>aeName = ''NewCommitment'', aeInputs = []\<rparr>), unpackArgs = (\<lambda>_ _. Ok []), parseTopics = (\<lambda>_ _. Ok []),
     hashHex = (\<lambda>_. ''0x01''), addrHex = (\<lambda>_. ''0x02'')\<rparr>"

definition toyReceipt :: "(string \<times> ethLog) option list" where
  "toyReceipt = [None, Some (''0xBB'', \<lparr>lgTopics = [[1]], lgData = [], lgTxHash = [2], lgBlock = 5\<rparr>),
     Some (''0xCC'', \<lparr>lgTopics = [[1]], lgData = [], lgTxHash = [2], lgBlock = 5\<rparr>)]"

lemma toy_decoded_commitment:
  assumes v: "DecodeEvmUtxo toyCrypto now rand toyWords toyKeys = (Ok v, k)"
  shows "\<exists>c v'. withCommitment toyCrypto v = Ok (c, v')"
proof -
  have token: "take 20 (drop 44 toyWords) = replicate 19 0 @ [66]" by code_simp
  have num: "isOk (ParseBigInt (''0x'' @ hexEncode (replicate 19 0 @ [66])))" by code_simp
  have hex: "addressHex toyCrypto b = ''0x'' @ hexEncode b" for b by (simp add: toyCrypto_def)
  have "uxErc20 v = addressHex toyCrypto (replicate 19 0 @ [66])" "uxNullifyingKey v = ToBeHex (Some 11)"
      "uxStealth v = ToBeHex (Some (wordAt toyWords 3))"
    using v token
    by (auto simp: DecodeEvmUtxo_def bindA_eq_Ok liftA_eq Let_def NewUtxo_def onChainParams_def andThen_eq_Ok toyKeys_private
        split: if_splits)
  moreover have "wellFormed v" using v by (rule evm_wellFormed)
  ultimately have "isOk (ParseBigInt (uxErc20 v))" "isOk (ParseBigInt (uxNullifyingKey v))" "isOk (ParseBigInt (uxStealth v))" "wellFormed v"
    using num by (simp_all only: hex) (simp_all add: toyWords_at)
  then have "\<exists>c u1 n u2. GetCommitment toyCrypto v = (Ok c, u1) \<and> GetNullifier toyCrypto v = (Ok n, u2) \<and> GetNullifier toyCrypto u2 = (Ok n, u2)"
    by (intro nullifier_exists [OF _ toy_hashes]) auto
  then show ?thesis by (auto simp: withCommitment_def)
qed

lemma toy_receipt_run:
  "\<exists>token u. DecodeFromReceipt toyCrypto logJson (\<lambda>_. bigString 7) (\<lambda>_ n. Ok (replicate n 1)) (Ok logAbi) (Ok ''0xbb'') toyReceipt 1 token toyKeys =
     (Ok [u], toyKeys)"
proof -
  have chain: "\<not> IsSolanaLike 1" by code_simp
  obtain v where v: "DecodeEvmUtxo toyCrypto (bigString 7) (\<lambda>n. Ok (replicate n 1)) toyWords toyKeys = (Ok v, toyKeys)"
    unfolding toyKeys_def using toy_evm_utxo by blast
  have "ParseBigInt ''-3'' = Ok (- 3)" by code_simp
  moreover have "equalFold ''0xBB'' ''0xbb''" by code_simp
  ultimately have out: "onChainOutput logJson logAbi ''0xbb'' (''0xBB'', \<lparr>lgTopics = [[1]], lgData = [], lgTxHash = [2], lgBlock = 5\<rparr>) =
      Ok (''0x'' @ hexEncode toyWords)"
    by (simp add: onChainOutput_def NewFromLog_def logAbi_def logArgs_def logJson_def GetArg_def)
  have "DecodeUtxo toyCrypto (bigString 7) (\<lambda>n. Ok (replicate n 1)) (''0x'' @ hexEncode toyWords) 1 toyKeys = (Ok v, toyKeys)"
    using v by (simp add: DecodeUtxo_def chain DecodeEvmUtxoHex_def toyCrypto_fromHex [simplified])
  moreover obtain c v' where "withCommitment toyCrypto v = Ok (c, v')" using toy_decoded_commitment [OF v] by blast
  ultimately have "logUtxo toyCrypto logJson logAbi (bigString 7) (\<lambda>n. Ok (replicate n 1)) 1 ''0xbb'' (uxErc20 v)
      (''0xBB'', \<lparr>lgTopics = [[1]], lgData = [], lgTxHash = [2], lgBlock = 5\<rparr>) toyKeys = (Ok (c, v'), toyKeys)"
    by (simp add: logUtxo_def out bindA_def liftA_def equalFold_def)
  moreover have "\<not> equalFold ''0xCC'' ''0xbb''" by code_simp
  then have "logUtxo toyCrypto logJson logAbi (bigString 7) (\<lambda>n. Ok (replicate n 1)) 1 ''0xbb'' (uxErc20 v)
      (''0xCC'', \<lparr>lgTopics = [[1]], lgData = [], lgTxHash = [2], lgBlock = 5\<rparr>) toyKeys = (Err (ErrMsg ''other contract''), toyKeys)"
    by (simp add: logUtxo_def onChainOutput_def bindA_def liftA_def)
  ultimately have "DecodeFromReceipt toyCrypto logJson (\<lambda>_. bigString 7) (\<lambda>_ n. Ok (replicate n 1)) (Ok logAbi) (Ok ''0xbb'') toyReceipt 1
      (uxErc20 v) toyKeys = (Ok [v'], toyKeys)"
    by (simp add: DecodeFromReceipt_def toyReceipt_def bindA_def liftA_def skipA_def)
  then show ?thesis by blast
qed

lemma deposited_utxos_from_contract_witness:
  "\<exists>token u k l. DecodeFromReceipt toyCrypto logJson (\<lambda>_. bigString 7) (\<lambda>_ n. Ok (replicate n 1)) (Ok logAbi) (Ok ''0xbb'') toyReceipt 1
       token toyKeys = (Ok [u], toyKeys) \<and> Some l \<in> set toyReceipt \<and>
     logGives toyCrypto logJson logAbi ''0xbb'' 1 token (bigString 7) (\<lambda>n. Ok (replicate n 1)) l k (uxCommitment u) u"
proof -
  obtain token u where run: "DecodeFromReceipt toyCrypto logJson (\<lambda>_. bigString 7) (\<lambda>_ n. Ok (replicate n 1)) (Ok logAbi) (Ok ''0xbb'')
      toyReceipt 1 token toyKeys = (Ok [u], toyKeys)"
    using toy_receipt_run by blast
  obtain i l k where "i < length toyReceipt" "toyReceipt ! i = Some l"
      "logGives toyCrypto logJson logAbi ''0xbb'' 1 token (bigString 7) (\<lambda>n. Ok (replicate n 1)) l k (uxCommitment u) u"
    using deposited_utxos_from_contract [OF run] by (metis list.set_intros(1))
  then have "Some l \<in> set toyReceipt" by (metis nth_mem)
  then show ?thesis using run \<open>logGives toyCrypto logJson logAbi ''0xbb'' 1 token (bigString 7) (\<lambda>n. Ok (replicate n 1)) l k (uxCommitment u) u\<close> by blast
qed

subsection \<open>One utxo for each recipient\<close>

lemma takeAmount_Some:
  "takeAmount a us = Ok (Some (u, rest)) \<Longrightarrow> uxAmount u = Some a \<and> mset us = add_mset u (mset rest)"
  by (induction us arbitrary: rest) (auto simp: andThen_eq_Ok deref_eq_Ok split: if_splits)

lemma takeAmount_None: "takeAmount a us = Ok None \<Longrightarrow> a \<notin> set (map amountOf us)"
  by (induction us) (auto simp: andThen_eq_Ok deref_eq_Ok amountOf_def split: if_splits)

lemma takeAmount_total: "\<forall>u\<in>set us. uxAmount u \<noteq> None \<Longrightarrow> \<exists>r. takeAmount a us = Ok r"
  by (induction us) auto

lemma matched:
  "matchRecipientUtxos recipients amounts us = Ok out \<Longrightarrow> length recipients = length amounts \<Longrightarrow>
    map duRecipient out = recipients \<and> map (uxAmount \<circ> duUtxo) out = map Some amounts \<and> mset (map duUtxo out) \<subseteq># mset us"
proof (induction recipients amounts us arbitrary: out rule: matchRecipientUtxos.induct)
  case (3 r rs a amounts us)
  obtain u rest out' where t: "takeAmount a us = Ok (Some (u, rest))" "matchRecipientUtxos rs amounts rest = Ok out'"
      "out = \<lparr>duRecipient = r, duUtxo = u\<rparr> # out'"
    using "3.prems"(1) by (auto simp: andThen_eq_Ok split: option.splits)
  show ?case using "3.IH" [OF t(2)] takeAmount_Some [OF t(1)] t(3) "3.prems"(2) by auto
qed auto

lemma match_succeeds:
  "mset amounts \<subseteq># image_mset amountOf (mset us) \<Longrightarrow> \<forall>u\<in>set us. uxAmount u \<noteq> None \<Longrightarrow> length recipients = length amounts \<Longrightarrow>
    isOk (matchRecipientUtxos recipients amounts us)"
proof (induction recipients amounts us rule: matchRecipientUtxos.induct)
  case (3 r rs a amounts us)
  obtain found where found: "takeAmount a us = Ok found" using takeAmount_total "3.prems"(2) by blast
  have "a \<in> set (map amountOf us)" using "3.prems"(1) by (auto dest!: mset_subset_eq_insertD simp: in_image_mset)
  then obtain u rest where t: "found = Some (u, rest)" using found takeAmount_None [of a us] by (cases found) auto
  note T = takeAmount_Some [OF found [unfolded t]]
  then have "amountOf u = a" by (simp add: amountOf_def)
  then have "mset amounts \<subseteq># image_mset amountOf (mset rest)" using "3.prems"(1) T by simp
  moreover have "\<forall>u\<in>set rest. uxAmount u \<noteq> None" using "3.prems"(2) T by (metis set_mset_mset insert_iff set_mset_add_mset_insert)
  ultimately show ?case using "3.IH" [of rest] "3.prems"(3) found t by (auto simp: isOk_iff andThen_eq_Ok)
qed auto

text \<open>C18: matching recipients with deposited utxos gives every recipient, in order, a utxo of exactly its amount and no
  utxo to two recipients; and it succeeds whenever the deposit holds the amounts, each as often as it is needed.
\<close>

theorem recipients_matched:
  assumes "length recipients = length amounts" and "\<forall>u\<in>set us. uxAmount u \<noteq> None"
    and "mset amounts \<subseteq># image_mset amountOf (mset us)"
  shows "\<exists>out. matchRecipientUtxos recipients amounts us = Ok out \<and> map duRecipient out = recipients \<and>
    map (uxAmount \<circ> duUtxo) out = map Some amounts \<and> mset (map duUtxo out) \<subseteq># mset us"
proof -
  obtain out where run: "matchRecipientUtxos recipients amounts us = Ok out"
    using match_succeeds [OF assms(3) assms(2) assms(1)] unfolding isOk_iff by (elim exE)
  show ?thesis by (rule exI, rule conjI [OF run]) (rule matched [OF run assms(1)])
qed

lemma recipients_matched_witness:
  "\<exists>out. matchRecipientUtxos [''bob'', ''eve''] [20, 25] [toyUtxo, toyOut] = Ok out \<and> map duRecipient out = [''bob'', ''eve'']"
proof -
  have lengths: "length [''bob'', ''eve''] = length [20 :: int, 25]" by simp
  have known: "\<forall>u\<in>set [toyUtxo, toyOut]. uxAmount u \<noteq> None" by (simp only: list.set ball_simps toy_amounts) simp
  have covered: "mset [20, 25] \<subseteq># image_mset amountOf (mset [toyUtxo, toyOut])" by (simp add: toy_amounts add_mset_commute)
  obtain out where "matchRecipientUtxos [''bob'', ''eve''] [20, 25] [toyUtxo, toyOut] = Ok out" "map duRecipient out = [''bob'', ''eve'']"
    using recipients_matched [OF lengths known covered] by (elim exE conjE)
  then show ?thesis by (intro exI conjI)
qed

subsection \<open>Paying exactly\<close>

lemma modified_same_token:
  "equalFold (fsFeeToken fs) (tkAddress token) \<Longrightarrow>
    modifiedFees E chainID token a fs = Ok \<lparr>fsFeeToken = fsFeeToken fs, fsFlatFee = CalculateTotalFee a fs, fsVariableRate = 0\<rparr>"
  by (simp add: modifiedFees_def CalculateModifiedFeeStructure_def split: option.splits)

text \<open>C20: what a deposit puts aside for a recipient is exactly what its withdrawal takes: when the fee is paid in the
  token itself, the utxo less the fee charged with the withdrawal is the amount the recipient was promised, nothing is
  charged twice, and the amounts put aside add up to the amount that is deposited.
\<close>

theorem deposit_pays_recipients:
  assumes "equalFold (fsFeeToken fs) (tkAddress token)"
  shows "case depositAndWithdrawUtxoAmounts promised fs of (amounts, deposited) \<Rightarrow>
    length amounts = length promised \<and> deposited = sum_list amounts \<and> (\<forall>i<length promised. \<exists>w.
      modifiedFees E chainID token (promised ! i) fs = Ok w \<and> amounts ! i - fsFlatFee w = promised ! i \<and> fsVariableRate w = 0)"
  unfolding depositAndWithdrawUtxoAmounts_def Let_def prod.case
proof (intro conjI allI impI)
  fix i assume "i < length promised"
  then show "\<exists>w. modifiedFees E chainID token (promised ! i) fs = Ok w \<and>
      map (\<lambda>a. a + CalculateTotalFee a fs) promised ! i - fsFlatFee w = promised ! i \<and> fsVariableRate w = 0"
    by (simp add: modified_same_token [OF assms])
qed simp_all

lemma deposit_pays_recipients_witness:
  "\<forall>E :: (memoryCache, unit, nat, unit, int) txEnv. depositAndWithdrawUtxoAmounts [1000, 20000] \<lparr>fsFeeToken = ''0xAA'', fsFlatFee = 3, fsVariableRate = 10\<rparr> =
     ([1004, 20023], 21027) \<and>
     (\<exists>w. modifiedFees E 1 (minimalToken 1 ''0xaa'') 20000 \<lparr>fsFeeToken = ''0xAA'', fsFlatFee = 3, fsVariableRate = 10\<rparr> = Ok w \<and>
        20023 - fsFlatFee w = 20000)"
proof
  fix E :: "(memoryCache, unit, nat, unit, int) txEnv"
  let ?fs = "\<lparr>fsFeeToken = ''0xAA'', fsFlatFee = 3, fsVariableRate = 10\<rparr>"
  have same: "equalFold (fsFeeToken ?fs) (tkAddress (minimalToken 1 ''0xaa''))" by code_simp
  have amounts: "depositAndWithdrawUtxoAmounts [1000, 20000] ?fs = ([1004, 20023], 21027)"
    by (simp add: depositAndWithdrawUtxoAmounts_def CalculateTotalFee_def quo_def BPSDenominator_def)
  show "depositAndWithdrawUtxoAmounts [1000, 20000] ?fs = ([1004, 20023], 21027) \<and>
     (\<exists>w. modifiedFees E 1 (minimalToken 1 ''0xaa'') 20000 ?fs = Ok w \<and> 20023 - fsFlatFee w = 20000)"
    using deposit_pays_recipients [OF same, of "[1000, 20000]" E 1] amounts by (auto simp: less_Suc_eq_0_disj)
qed

subsection \<open>Waiting for the tree\<close>

lemma allInLeaves_Ok: "allInLeaves C known ds = Ok True \<Longrightarrow> d \<in> set ds \<Longrightarrow>
    \<exists>c n. fst (GetCommitment C (duUtxo d)) = Ok c \<and> ParseBigInt c = Ok n \<and> bigString n \<in> known"
  by (induction ds) (auto simp: andThen_eq_Ok split: if_splits)

declare bigString_inj [simp]

definition inTree :: "cryptoLib \<Rightarrow> merkleTree \<Rightarrow> depositedUtxo \<Rightarrow> bool" where
  "inTree C m d \<longleftrightarrow> (\<exists>ls c n. LastLeaves m 20 = Ok ls \<and> fst (GetCommitment C (duUtxo d)) = Ok c \<and> ParseBigInt c = Ok n \<and> n \<in> set ls)"

lemma merkleAttempts_found:
  "merkleAttempts C D chainID ds n s = (Ok (), s') \<Longrightarrow> ds \<noteq> [] \<Longrightarrow>
    \<exists>m. tsTrees s' chainID = Some m \<and> (\<forall>d\<in>set ds. inTree C m d)"
proof (induction n arbitrary: s)
  case (Suc n)
  obtain s1 ls found s2 where ls: "(case tsTrees s1 chainID of None \<Rightarrow> Ok [] | Some m \<Rightarrow> LastLeaves m 20) = Ok ls"
      and found: "areAllDepositedUtxosInLastLeaves C ds ls = Ok found"
      and rest: "(if found then liftA (Ok ()) else (\<lambda>s. merkleAttempts C D chainID ds n (s\<lparr>tsWorld := dpTick D (tsWorld s)\<rparr>))) s1 = (Ok (), s')"
    using Suc.prems(1) by (auto simp: bindA_eq_Ok liftA_eq)
  show ?case
  proof (cases found)
    case True
    have all: "allInLeaves C (set (map bigString ls)) ds = Ok True"
      using found True Suc.prems(2) by (simp add: areAllDepositedUtxosInLastLeaves_def)
    have "hd ds \<in> set ds" using Suc.prems(2) by simp
    from allInLeaves_Ok [OF all this] have "ls \<noteq> []" by auto
    then obtain m where "tsTrees s1 chainID = Some m" "LastLeaves m 20 = Ok ls" using ls by (auto split: option.splits)
    moreover have "s' = s1" using rest True by (simp add: liftA_eq)
    moreover have "\<exists>c n. fst (GetCommitment C (duUtxo d)) = Ok c \<and> ParseBigInt c = Ok n \<and> n \<in> set ls" if "d \<in> set ds" for d
      using allInLeaves_Ok [OF all that] by (auto simp: image_iff)
    ultimately show ?thesis unfolding inTree_def by blast
  next
    case False
    then show ?thesis using rest Suc by simp
  qed
qed (simp add: liftA_eq)

text \<open>C21: the wait that precedes a batch of withdrawals only succeeds once the commitment of every deposited utxo stands
  among the last leaves of the wallet's own tree of the chain.
\<close>

theorem withdrawals_wait_for_tree:
  assumes "waitForDepositedUtxosInMerkleTree C D chainID deposited s = (Ok (), s')" and "deposited \<noteq> []"
  shows "\<exists>m. tsTrees s' chainID = Some m \<and> (\<forall>d\<in>set deposited. inTree C m d)"
  using assms merkleAttempts_found by (simp add: waitForDepositedUtxosInMerkleTree_def)

lemma withdrawals_wait_for_tree_witness:
  "\<forall>(D :: (memoryCache, int) depositEnv) (s :: (memoryCache, int) txState). waitForDepositedUtxosInMerkleTree toyCrypto (D\<lparr>dpResetMerkle := \<lambda>_. liftA (Ok ())\<rparr>) 1
       [\<lparr>duRecipient = ''bob'', duUtxo = leafUtxo\<rparr>] (s\<lparr>tsTrees := \<lambda>_. Some exampleTree\<rparr>) = (Ok (), s\<lparr>tsTrees := \<lambda>_. Some exampleTree\<rparr>) \<and>
     inTree toyCrypto exampleTree \<lparr>duRecipient = ''bob'', duUtxo = leafUtxo\<rparr>"
proof (intro allI)
  fix D :: "(memoryCache, int) depositEnv" and s :: "(memoryCache, int) txState"
  let ?s = "s\<lparr>tsTrees := \<lambda>_. Some exampleTree\<rparr>" and ?d = "\<lparr>duRecipient = ''bob'', duUtxo = leafUtxo\<rparr>"
  have ls: "LastLeaves exampleTree 20 = Ok [7, 5]" by code_simp
  have c: "fst (GetCommitment toyCrypto leafUtxo) = Ok (bigString 7)" by (simp add: GetCommitment_def leafUtxo_def)
  have long: "(60 :: nat) = Suc 59" by simp
  have run: "waitForDepositedUtxosInMerkleTree toyCrypto (D\<lparr>dpResetMerkle := \<lambda>_. liftA (Ok ())\<rparr>) 1 [?d] ?s = (Ok (), ?s)"
    unfolding waitForDepositedUtxosInMerkleTree_def long merkleAttempts.simps
    by (simp add: ls c areAllDepositedUtxosInLastLeaves_def bindA_def liftA_def)
  then show "waitForDepositedUtxosInMerkleTree toyCrypto (D\<lparr>dpResetMerkle := \<lambda>_. liftA (Ok ())\<rparr>) 1 [?d] ?s = (Ok (), ?s) \<and>
      inTree toyCrypto exampleTree ?d"
    using withdrawals_wait_for_tree [OF run] by simp
qed

subsection \<open>A failed deposit call\<close>

text \<open>The error of a failed call is lost: the caller only hears that there is no transaction hash.\<close>

lemma failed_deposit_call_hidden:
  assumes "prepareDepositOnChainUtxosZkProof E D chainID token recipientAmounts fs s = (Ok prepared, s1)"
    and "onWorld (dpStatus D (phaseBody [] hashed chainID ''before_deposit'' [] [])) s1 = (Ok statusID, s2)"
    and "\<not> IsTronLike chainID" "teAdapter E chainID = Ok A"
    and "directEvm E chainID [drTotal prepared] [token] (drProof prepared) (drExternalAction prepared) (drWrapper prepared)
      preEstimateGas False s2 = (Err e, s3)"
  shows "HinkalDepositOnChainUtxos E D chainID token recipientAmounts recipients fs hashed preEstimateGas s =
    (Err (ErrMsg ''transactions: deposit transaction hash not found''), s3)"
  using assms by (simp add: HinkalDepositOnChainUtxos_def hashOrEmpty_def skipA_def bindA_def liftA_def)

end
