(* ===== verification/SolanaProof.thy ===== *)
theory SolanaProof
  imports TransactCodec SolanaAccounts
begin

text \<open>
  The proof of a Solana transaction: \<open>internal/functions/snarkjs/construct_solana_zk_proof.go\<close>. It shares the servers, the
  enclave and the circuit values with the general proof; the draw of the message seed is the argument \<open>draw\<close>.
\<close>

record solanaProofParams =
  spRemotely :: bool
  spMerkleTree :: "merkleTree option"
  spMints :: "string list"
  spInputUtxos :: "utxo list list"
  spOutputUtxos :: "utxo list list"
  spExtraRandomization :: int
  spRelayerFee :: "int option"
  spVariableRate :: "int option"
  spRecipient :: string
  spSigner :: string
  spDimensions :: dimData
  spEncryptedOutputs :: "bytes list"
  spChainID :: int
  spInstructions :: "hinkalInstruction list"
  spRemaining :: "accountMeta list"
  spSalt :: "int option"

record solanaProofResult =
  srProofA :: "int list"
  srProofB :: "int list"
  srProofC :: "int list"
  srPublicInputs :: "int list list"
  srCommitment :: "commitmentValidation option"

subsection \<open>Proof values as bytes\<close>

definition byte32Ints :: "int \<Rightarrow> int list res" where
  "byte32Ints v = andThen (EncodeToByte32Array (Some v)) (\<lambda>bs. Ok (map uint bs))"

definition parseProofValues :: "string list \<Rightarrow> int list res" where
  "parseProofValues values = mapRes ParseBigInt values"

definition flattenProofB :: "(string \<times> string) \<times> (string \<times> string) \<Rightarrow> string list" where
  "flattenProofB b = [fst (fst b), snd (fst b), fst (snd b), snd (snd b)]"

definition proofByteArray :: "string list \<Rightarrow> int list res" where
  "proofByteArray values =
     andThen (parseProofValues values) (\<lambda>parsed. andThen (mapRes byte32Ints parsed) (\<lambda>rows. Ok (concat rows)))"

definition publicInputsByteArrays :: "string list \<Rightarrow> int list list res" where
  "publicInputsByteArrays values = andThen (parseProofValues values) (mapRes byte32Ints)"

subsection \<open>EnsureAmountChanges\<close>

definition EnsureAmountChanges :: "cryptoLib \<Rightarrow> utxo list list \<Rightarrow> utxo list list \<Rightarrow> int list \<Rightarrow> unit res" where
  "EnsureAmountChanges C ins outs changes =
     andThen (CalcAmountChanges C ins outs False) (\<lambda>diffs.
       if length diffs = length changes \<and> list_all2 (\<lambda>d a. d = (if a < 0 then fieldP C + a else a)) diffs changes then Ok ()
       else Err (ErrMsg ''amount changes are not equal''))"

subsection \<open>ConstructSolanaZkProof\<close>

definition solanaVerifierName :: "dimData \<Rightarrow> string" where
  "solanaVerifierName d =
     ''mainSolanaCircuit'' @ natString (dmTokenNumber d) @ ''x'' @ natString (dmNullifierAmount d) @ ''x'' @ natString (dmOutputAmount d)"

definition solanaOutTimeStamp :: "utxo list list \<Rightarrow> int res" where
  "solanaOutTimeStamp outs =
     (case outs of (u # us) # rest \<Rightarrow> ParseBigInt (uxTimeStamp u) | _ \<Rightarrow> Panic ''index out of range'')"

text \<open>What is computed before the message is signed.\<close>

record solanaSession =
  ssStealth :: stealthAddressStructure
  ssMessageSeed :: int
  ssSalt :: int
  ssParts1 :: "int list"
  ssParts2 :: "int list"
  ssCalldataHash :: int
  ssAmountChanges :: "int list"
  ssData :: merkleData
  ssOutCommitments :: "string list list"
  ssOutTimeStamp :: int
  ssSignedMessageHash :: int

definition solanaMessageOf ::
  "int list \<Rightarrow> int list \<Rightarrow> int list \<Rightarrow> merkleData \<Rightarrow> string list list \<Rightarrow> int \<Rightarrow> int \<Rightarrow> int \<Rightarrow> int \<Rightarrow> stealthAddressStructure \<Rightarrow>
   solanaMessageParams" where
  "solanaMessageOf parts1 parts2 changes data outCommitments outTimeStamp calldataHash message swapperSeed stealth =
     \<lparr>smRootHashHinkal = Some (mdRootHash data), smMintAccountPart1 = map Some parts1, smMintAccountPart2 = map Some parts2,
      smAmountChanges = map Some changes, smOutTimeStamp = Some outTimeStamp, smInNullifiers = mdNullifiers data,
      smOutCommitments = outCommitments, smCalldataHash = Some calldataHash, smMessage = Some message,
      smSwapperSeed = Some swapperSeed, smOutH1Ay = Some (saH1 stealth),
      smH0Ax = Some (TakeOffHighestBit (saExtraRandomization stealth)), smH0Ay = Some (saH0 stealth)\<rparr>"

definition solanaSessionOf ::
  "'k zkEnv \<Rightarrow> (nat \<Rightarrow> bytes res) \<Rightarrow> solanaProofParams \<Rightarrow> bytes \<Rightarrow> bytes \<Rightarrow> string \<Rightarrow> int list \<Rightarrow> solanaSession res" where
  "solanaSessionOf E draw p recipient signer nullifyingPrivateKey spending =
     (let C = zeCrypto E; ins = spInputUtxos p; outs = spOutputUtxos p; d = spDimensions p; salt = zeroIfNil (spSalt p) in
      andThen (CalcStealthAddressStructure C (spExtraRandomization p) nullifyingPrivateKey spending) (\<lambda>stealth.
      andThen (RandomBigInt draw 31) (\<lambda>messageSeed.
      andThen (PoseidonBig C [Some messageSeed]) (\<lambda>message.
      andThen (PoseidonBig C [Some salt]) (\<lambda>swapperSeed.
      andThen (mapRes (FormatMintAddress C) (spMints p)) (\<lambda>mints.
      andThen (GetSolanaCalldataHash C (dmTokenNumber d, dmNullifierAmount d, dmOutputAmount d) recipient signer (spEncryptedOutputs p)
                 (Some (zeroIfNil (spRelayerFee p))) (Some (zeroIfNil (spVariableRate p))) (spInstructions p)
                 (map (\<lambda>(key, writable). (writable, key)) (spRemaining p))) (\<lambda>calldataHash.
      andThen (CalcAmountChanges C ins outs False) (\<lambda>changes.
      andThen (GetDataFromWorkers C (zeOnChainRoot E) (zeFetchSiblings E) (spChainID p) (spMerkleTree p) ins) (\<lambda>data.
      andThen (BuildOutCommitments C outs) (\<lambda>outCommitments.
      andThen (solanaOutTimeStamp outs) (\<lambda>outTimeStamp.
      andThen (ComputeSignedMessageHashSolana C (solanaMessageOf (map fmPart1 mints) (map fmPart2 mints) changes data outCommitments
                 outTimeStamp calldataHash message swapperSeed stealth)) (\<lambda>hash.
        Ok \<lparr>ssStealth = stealth, ssMessageSeed = messageSeed, ssSalt = salt, ssParts1 = map fmPart1 mints, ssParts2 = map fmPart2 mints,
            ssCalldataHash = calldataHash, ssAmountChanges = changes, ssData = data, ssOutCommitments = outCommitments,
            ssOutTimeStamp = outTimeStamp, ssSignedMessageHash = hash\<rparr>))))))))))))"

definition solanaInputOf ::
  "solanaProofParams \<Rightarrow> string \<Rightarrow> int list \<Rightarrow> solanaSession \<Rightarrow> utxoGrids \<Rightarrow> jubPoint \<times> int \<Rightarrow> circuitInput" where
  "solanaInputOf p nullifyingPrivateKey spending s g sig =
     [(''rootHashHinkal'', VBig (mdRootHash (ssData s))), (''spendingPublicKey'', VBigs spending),
      (''eddsaSignature'', VBigs [fst (fst sig), snd (fst sig), snd sig]), (''signedMessageHash'', VBig (ssSignedMessageHash s)),
      (''nullifyingPrivateKey'', VText nullifyingPrivateKey), (''mintAccountPart1'', VBigs (ssParts1 s)),
      (''mintAccountPart2'', VBigs (ssParts2 s)), (''amountChanges'', VBigs (ssAmountChanges s)),
      (''inAmounts'', VGrid (ugInAmounts g)), (''inRandomizations'', VGrid (ugInRandomizations g)), (''inH0Ax'', VGrid (ugInH0Ax g)),
      (''inH0Ay'', VGrid (ugInH0Ay g)),
      (''isNewStyle'', VList (map (\<lambda>bs. VList (map VBool bs)) (mapUtxoBools uxIsNewStyle (spInputUtxos p)))),
      (''inTimeStamps'', VGrid (ugInTimeStamps g)), (''inNullifiers'', VGrid (mdNullifiers (ssData s))),
      (''inCommitmentSiblings'', cubeValue (mdSiblings (ssData s))),
      (''inCommitmentSiblingSides'', cubeValue (mdSides (ssData s))), (''outAmounts'', VGrid (ugOutAmounts g)),
      (''outTimeStamp'', VBig (ssOutTimeStamp s)), (''outPublicKeys'', VGrid (ugOutPublicKeys g)),
      (''outCommitments'', VGrid (ssOutCommitments s)), (''calldataHash'', VBig (ssCalldataHash s)),
      (''messageSeed'', VBig (ssMessageSeed s)), (''swapperAccountSalt'', VBig (ssSalt s)),
      (''H0Ax'', VBig (TakeOffHighestBit (saExtraRandomization (ssStealth s)))), (''H0Ay'', VBig (saH0 (ssStealth s)))]"

definition solanaResultOf :: "mainAndCommitment \<Rightarrow> solanaProofResult res" where
  "solanaResultOf main =
     (let zk = mcCallData main in
      andThen (proofByteArray [fst (zcA zk), snd (zcA zk)]) (\<lambda>a.
      andThen (proofByteArray (flattenProofB (zcB zk))) (\<lambda>b.
      andThen (proofByteArray [fst (zcC zk), snd (zcC zk)]) (\<lambda>c.
      andThen (publicInputsByteArrays (mcPublicSignals main)) (\<lambda>signals.
        Ok \<lparr>srProofA = a, srProofB = b, srProofC = c, srPublicInputs = signals, srCommitment = mcCommitment main\<rparr>)))))"

definition ConstructSolanaZkProof ::
  "'k zkEnv \<Rightarrow> solanaLib \<Rightarrow> (nat \<Rightarrow> bytes res) \<Rightarrow> solanaProofParams \<Rightarrow> (userKeys, solanaProofResult) action" where
  "ConstructSolanaZkProof E L draw p =
     (let C = zeCrypto E; ins = spInputUtxos p; outs = spOutputUtxos p in
      bindA (liftA (slKeyOf L (spRecipient p))) (\<lambda>recipient.
      bindA (liftA (slKeyOf L (spSigner p))) (\<lambda>signer.
      bindA (GetShieldedPrivateKey C) (\<lambda>nullifyingPrivateKey.
      bindA (GetSpendingKeyPair C) (\<lambda>(privSpending, pub).
      (let spending = [fst pub, snd pub] in
      bindA (liftA (solanaSessionOf E draw p recipient signer nullifyingPrivateKey spending)) (\<lambda>s.
      bindA (SignEddsa C (ssSignedMessageHash s)) (\<lambda>sig.
      bindA (liftA (utxoGridsOf C ins outs)) (\<lambda>g.
      bindA (GenerateMainAndCommitmentZkProof E (spChainID p) (spMints p) ins (solanaVerifierName (spDimensions p))
               (solanaInputOf p nullifyingPrivateKey spending s g sig) (spRemotely p)) (\<lambda>main.
        liftA (solanaResultOf main)))))))))))"

end
