(* ===== verification/SolanaDeposit.thy ===== *)
theory SolanaDeposit
  imports PrivateTx SolanaProof
begin

text \<open>
  Depositing on Solana: \<open>internal/functions/transactions/solana_deposit.go\<close>, with the checks on stealth addresses of
  \<open>proofless_deposit.go\<close> it shares. The connection, the wallet that signs, the Borsh encoder and \<open>solana-go\<close> are the fields
  of \<open>solanaChain\<close>; an instruction of a library program is a constructor with the arguments it is built from.
\<close>

record multiPaymentArgs =
  mpAmounts :: "u64 list"
  mpStructures :: "anchorStealthAddress list"
  mpCreateBlockedUtxos :: bool

text \<open>An account of an instruction: its key, whether it is written to, and whether it signs.\<close>

type_synonym instructionAccount = "bytes \<times> bool \<times> bool"

datatype solanaInstruction =
    ProgramCall bytes "instructionAccount list" bytes
  | SystemTransfer u64 bytes bytes
  | CreateIdempotentAccount bytes bytes bytes bytes
  | TokenTransfer u64 bytes bytes bytes
  | TransferChecked2022 u64 "8 word" bytes bytes bytes bytes

record 'w solanaChain =
  scLib :: solanaLib
  scATA :: "bytes \<Rightarrow> bytes \<Rightarrow> bytes res"                         \<comment> \<open>FindAssociatedTokenAddress\<close>
  scATAWith :: "bytes \<Rightarrow> bytes \<Rightarrow> bytes \<Rightarrow> bytes res"             \<comment> \<open>FindAssociatedTokenAddressWithProgram\<close>
  scTokenProgram :: bytes
  scToken2022 :: bytes
  scAtaProgram :: bytes
  scSystemProgram :: bytes
  scBorsh :: "multiPaymentArgs \<Rightarrow> bytes res"
  scSigner :: "bytes res"                                    \<comment> \<open>GetSolanaPublicKey\<close>
  scConnection :: "unit res"
  scProgram :: "bytes \<Rightarrow> unit res"                            \<comment> \<open>GetSolanaProgram\<close>
  scBlockhash :: "'w \<Rightarrow> bytes res"
  scBuild :: "solanaInstruction list \<Rightarrow> bytes \<Rightarrow> bytes \<Rightarrow> bytes res"   \<comment> \<open>NewTransaction\<close>
  scSignAndSend :: "bytes \<Rightarrow> ('w, string) action"
  scMarshalTx :: "bytes \<Rightarrow> bytes res"
  scB64 :: "bytes \<Rightarrow> string"

subsection \<open>proofless_deposit.go: stealth addresses\<close>

fun noDuplicates :: "string set \<Rightarrow> stealthAddressStructure list \<Rightarrow> unit res" where
  "noDuplicates seen [] = Ok ()"
| "noDuplicates seen (s # ss) =
     (let key = bigString (saExtraRandomization s) @ '':'' @ bigString (saStealthAddress s) in
      if key \<in> seen
      then Err (ErrMsg ''transactions: duplicate randomization and stealth address pair detected in stealthAddressStructures'')
      else noDuplicates (insert key seen) ss)"

definition assertNoDuplicateStealthAddressStructures :: "stealthAddressStructure list \<Rightarrow> unit res" where
  "assertNoDuplicateStealthAddressStructures structures = noDuplicates {} structures"

fun freshStructures :: "('d, 'k, 'f, 'a, 'w) txEnv \<Rightarrow> nat list \<Rightarrow> (userKeys, stealthAddressStructure list) action" where
  "freshStructures E [] = liftA (Ok [])"
| "freshStructures E (i # is) =
     bindA (GetStealthAddressStructureFromUserKeys (teCrypto E) (teOutClock E i 0) (teOutRand E i 0)) (\<lambda>s.
     bindA (freshStructures E is) (\<lambda>ss. liftA (Ok (s # ss))))"

definition getProoflessStealthAddressStructures ::
  "('d, 'k, 'f, 'a, 'w) txEnv \<Rightarrow> nat \<Rightarrow> stealthAddressStructure list option \<Rightarrow> (userKeys, stealthAddressStructure list) action" where
  "getProoflessStealthAddressStructures E count overrides =
     (case overrides of
        Some structures \<Rightarrow>
          liftA (if length structures \<noteq> count then Err (ErrMsg ''transactions: stealth address structures length mismatch'')
                 else Ok structures)
      | None \<Rightarrow> freshStructures E [0..<count])"

subsection \<open>The deposit instruction\<close>

definition validateSolanaDepositArgs :: "int list \<Rightarrow> stealthAddressStructure list \<Rightarrow> unit res" where
  "validateSolanaDepositArgs amounts structures =
     (if amounts = [] then Err (ErrMsg ''transactions: amounts must not be empty'')
      else if length amounts \<noteq> length structures
      then Err (ErrMsg ''transactions: amounts and stealthAddressStructures length mismatch'')
      else if \<exists>a\<in>set amounts. a \<le> 0 then Err (ErrMsg ''transactions: all amounts must be positive'')
      else assertNoDuplicateStealthAddressStructures structures)"

definition multiPaymentDepositDiscrim :: bytes where
  "multiPaymentDepositDiscrim = [70, 64, 60, 132, 3, 67, 69, 74]"

text \<open>\<open>big.Int.Uint64\<close> takes the low 64 bits.\<close>

definition encodeMultiPaymentDepositData ::
  "'w solanaChain \<Rightarrow> int list \<Rightarrow> stealthAddressStructure list \<Rightarrow> bool \<Rightarrow> bytes res" where
  "encodeMultiPaymentDepositData S amounts structures createBlockedUtxos =
     andThen (mapRes BuildAnchorStealthAddressStructure structures) (\<lambda>anchors.
     andThen (scBorsh S \<lparr>mpAmounts = map of_int amounts, mpStructures = anchors, mpCreateBlockedUtxos = createBlockedUtxos\<rparr>)
       (\<lambda>body. Ok (multiPaymentDepositDiscrim @ body)))"

text \<open>The mint, the signer's and the vault's token account; the program itself stands for them when the token is native.\<close>

definition mintAccounts :: "'w solanaChain \<Rightarrow> bytes \<Rightarrow> bytes \<Rightarrow> bytes \<Rightarrow> string \<Rightarrow> instructionAccount list res" where
  "mintAccounts S programID signer storageVault mintAddress =
     (if mintAddress = SolanaNativeAddress then Ok (replicate 3 (programID, False, False))
      else
        andThen (slKeyOf (scLib S) mintAddress) (\<lambda>mint.
        andThen (scATA S signer mint) (\<lambda>signerAta.
        andThen (scATA S storageVault mint) (\<lambda>vaultAta.
          Ok [(mint, False, False), (signerAta, True, False), (vaultAta, True, False)]))))"

definition buildMultiPaymentDepositInstruction ::
  "'w solanaChain \<Rightarrow> bytes \<Rightarrow> bytes \<Rightarrow> bytes \<Rightarrow> string \<Rightarrow> int list \<Rightarrow> stealthAddressStructure list \<Rightarrow> bool \<Rightarrow> solanaInstruction res" where
  "buildMultiPaymentDepositInstruction S programID signer originalDeployer mintAddress amounts structures createBlockedUtxos =
     andThen (GetStorageAccountPublicKey (scLib S) programID originalDeployer) (\<lambda>storageAccount.
     andThen (GetStorageVaultPublicKey (scLib S) programID originalDeployer) (\<lambda>storageVault.
     andThen (GetMerkleAccount (scLib S) programID originalDeployer) (\<lambda>merkleAccount.
     andThen (mintAccounts S programID signer storageVault mintAddress) (\<lambda>mintMetas.
     andThen (encodeMultiPaymentDepositData S amounts structures createBlockedUtxos) (\<lambda>payload.
       Ok (ProgramCall programID
             ([(signer, True, True), (originalDeployer, False, False), (storageAccount, True, False), (storageVault, True, False)] @
              mintMetas @
              [(merkleAccount, True, False), (scTokenProgram S, False, False), (scAtaProgram S, False, False),
               (scSystemProgram S, False, False)]) payload))))))"

subsection \<open>The fee transfer\<close>

definition solanaAmountUint64 :: "int option \<Rightarrow> u64 res" where
  "solanaAmountUint64 amount =
     (case amount of
        None \<Rightarrow> Err (ErrMsg ''transactions: all amounts must be positive'')
      | Some a \<Rightarrow>
          if a < 0 then Err (ErrMsg ''transactions: all amounts must be positive'')
          else if 2 ^ 64 \<le> a then Err (ErrMsg ''transactions: Solana amount does not fit in uint64'')
          else Ok (of_int a))"

definition buildSolanaTransferInstructions ::
  "'w solanaChain \<Rightarrow> bytes \<Rightarrow> bytes \<Rightarrow> erc20Token \<Rightarrow> int option \<Rightarrow> solanaInstruction list res" where
  "buildSolanaTransferInstructions S from to token amount =
     andThen (solanaAmountUint64 amount) (\<lambda>v.
       if v = 0 then Ok []
       else if tkAddress token = SolanaNativeAddress then Ok [SystemTransfer v from to]
       else
         andThen (slKeyOf (scLib S) (tkAddress token)) (\<lambda>mint.
         (let tokenProgramID = (if tkIs2022Program token then scToken2022 S else scTokenProgram S) in
          andThen (scATAWith S from mint tokenProgramID) (\<lambda>fromATA.
          andThen (scATAWith S to mint tokenProgramID) (\<lambda>toATA.
            if tkIs2022Program token
            then if tkDecimals token < 0 \<or> 255 < tkDecimals token
                 then Err (ErrMsg (''transactions: invalid Solana token decimals '' @ bigString (tkDecimals token)))
                 else Ok [CreateIdempotentAccount from to mint tokenProgramID,
                          TransferChecked2022 v (of_int (tkDecimals token)) fromATA mint toATA from]
            else Ok [CreateIdempotentAccount from to mint tokenProgramID, TokenTransfer v fromATA toATA from])))))"

subsection \<open>Sending\<close>

definition buildSolanaDepositTransaction :: "'w solanaChain \<Rightarrow> bytes \<Rightarrow> solanaInstruction list \<Rightarrow> 'w \<Rightarrow> bytes res" where
  "buildSolanaDepositTransaction S signer instructions w =
     andThen (scBlockhash S w) (\<lambda>blockhash. scBuild S instructions blockhash signer)"

definition shouldRetrySolanaSendError :: "go_error \<Rightarrow> bool" where
  "shouldRetrySolanaSendError e =
     (let msg = toLower (errText e) in
      containsStr msg ''blockhash not found'' \<or> containsStr msg ''blockhashnotfound'' \<or>
      containsStr msg ''transactionexpiredblockheightexceedederror'' \<or> containsStr msg ''block height exceeded'')"

definition solanaBlockheightExpiredRetryCount :: nat where
  "solanaBlockheightExpiredRetryCount = 10"

fun sendAttempts :: "'w solanaChain \<Rightarrow> bytes \<Rightarrow> solanaInstruction list \<Rightarrow> nat \<Rightarrow> ('w, string) action" where
  "sendAttempts S signer instructions 0 = liftA (Err (ErrMsg ''transactions: Solana deposit failed''))"
| "sendAttempts S signer instructions (Suc n) =
     bindA (readA (buildSolanaDepositTransaction S signer instructions)) (\<lambda>tx w.
       case scSignAndSend S tx w of
         (Err e, w') \<Rightarrow> if n = 0 \<or> \<not> shouldRetrySolanaSendError e then (Err e, w') else sendAttempts S signer instructions n w'
       | (r, w') \<Rightarrow> (r, w'))"

definition signAndSendSolanaInstructions ::
  "'w solanaChain \<Rightarrow> bytes \<Rightarrow> bytes \<Rightarrow> solanaInstruction list \<Rightarrow> ('w, string) action" where
  "signAndSendSolanaInstructions S programID signer instructions =
     bindA (liftA (scProgram S programID)) (\<lambda>_. sendAttempts S signer instructions solanaBlockheightExpiredRetryCount)"

subsection \<open>Deposits\<close>

text \<open>The program, its deployer and the signer, read in this order by every deposit.\<close>

definition solanaParties ::
  "('d, 'k, 'f, 'a, 'w) txEnv \<Rightarrow> 'w solanaChain \<Rightarrow> int \<Rightarrow> (('d, 'w) txState, bytes \<times> bytes \<times> bytes) action" where
  "solanaParties E S chainID =
     bindA (\<lambda>s. liftA (slKeyOf (scLib S) (wlAddress (tsWallet s) chainID)) s) (\<lambda>programID.
     bindA (onDeploy (OriginalDeployer (teDeployFiles E) chainID)) (\<lambda>deployerText.
     bindA (liftA (slKeyOf (scLib S) deployerText)) (\<lambda>originalDeployer.
     bindA (liftA (scSigner S)) (\<lambda>signer.
     bindA (liftA (scConnection S)) (\<lambda>_. liftA (Ok (programID, originalDeployer, signer)))))))"

definition solanaDepositChain :: "erc20Token \<Rightarrow> int list \<Rightarrow> stealthAddressStructure list \<Rightarrow> int res" where
  "solanaDepositChain token amounts structures =
     andThen (validateSolanaDepositArgs amounts structures) (\<lambda>_.
     andThen (ValidateAndGetChainID [token]) (\<lambda>chainID.
       if \<not> IsSolanaLike chainID then Err (ErrMsg ''transactions: Solana deposit requires a Solana chain'') else Ok chainID))"

definition SubmitSolanaProoflessDeposit ::
  "('d, 'k, 'f, 'a, 'w) txEnv \<Rightarrow> 'w solanaChain \<Rightarrow> erc20Token \<Rightarrow> int list \<Rightarrow> stealthAddressStructure list \<Rightarrow> bool \<Rightarrow>
   (('d, 'w) txState, string) action" where
  "SubmitSolanaProoflessDeposit E S token amounts structures returnTxData =
     bindA (liftA (solanaDepositChain token amounts structures)) (\<lambda>chainID.
     bindA (solanaParties E S chainID) (\<lambda>(programID, originalDeployer, signer).
     bindA (liftA (buildMultiPaymentDepositInstruction S programID signer originalDeployer (tkAddress token) amounts structures False))
       (\<lambda>instruction.
         if returnTxData
         then bindA (onWorld (readA (buildSolanaDepositTransaction S signer [instruction]))) (\<lambda>tx.
              bindA (liftA (scMarshalTx S tx)) (\<lambda>raw. liftA (Ok (scB64 S raw))))
         else onWorld (signAndSendSolanaInstructions S programID signer [instruction]))))"

definition HinkalSolanaProoflessDepositWithPublicFee ::
  "('d, 'k, 'f, 'a, 'w) txEnv \<Rightarrow> 'w solanaChain \<Rightarrow> erc20Token \<Rightarrow> int list \<Rightarrow> stealthAddressStructure list \<Rightarrow> int option \<Rightarrow>
   (('d, 'w) txState, string) action" where
  "HinkalSolanaProoflessDepositWithPublicFee E S token amounts structures feeAmount =
     bindA (liftA (solanaDepositChain token amounts structures)) (\<lambda>chainID.
     bindA (solanaParties E S chainID) (\<lambda>(programID, originalDeployer, signer).
     bindA (onWorld (teRelay E chainID False)) (\<lambda>feeRecipientText.
       if feeRecipientText = [] then liftA (Err (ErrMsg (''transactions: no relay available for chain '' @ bigString chainID)))
       else
         bindA (liftA (slKeyOf (scLib S) feeRecipientText)) (\<lambda>feeRecipient.
         bindA (liftA (buildSolanaTransferInstructions S signer feeRecipient token feeAmount)) (\<lambda>feeInstructions.
         bindA (liftA (buildMultiPaymentDepositInstruction S programID signer originalDeployer (tkAddress token) amounts structures False))
           (\<lambda>depositInstruction.
             onWorld (signAndSendSolanaInstructions S programID signer (feeInstructions @ [depositInstruction]))))))))"

definition HinkalSolanaProoflessDeposit ::
  "('d, 'k, 'f, 'a, 'w) txEnv \<Rightarrow> 'w solanaChain \<Rightarrow> erc20Token list \<Rightarrow> int list \<Rightarrow> stealthAddressStructure list option \<Rightarrow> bool \<Rightarrow>
   (('d, 'w) txState, string) action" where
  "HinkalSolanaProoflessDeposit E S tokens amounts overrides returnTxData =
     bindA (liftA (ValidateAndGetChainID tokens)) (\<lambda>chainID.
       if \<not> IsSolanaLike chainID then liftA (Err (ErrMsg ''transactions: Solana deposit requires a Solana chain''))
       else if length tokens \<noteq> length amounts
       then liftA (Err (ErrMsg ''transactions: erc20 tokens and amountChanges length mismatch''))
       else if \<exists>t\<in>set tokens. tkAddress t \<noteq> tkAddress (hd tokens)
       then liftA (Err (ErrMsg ''transactions: Solana prooflessDeposit supports one mint per transaction''))
       else
         bindA (onWallet (onKeys (getProoflessStealthAddressStructures E (length amounts) overrides))) (\<lambda>structures.
           SubmitSolanaProoflessDeposit E S (hd tokens) amounts structures returnTxData))"

definition HinkalSolanaDeposit ::
  "('d, 'k, 'f, 'a, 'w) txEnv \<Rightarrow> 'w solanaChain \<Rightarrow> int \<Rightarrow> erc20Token \<Rightarrow> bool \<Rightarrow> (('d, 'w) txState, string) action" where
  "HinkalSolanaDeposit E S amount token returnTxData =
     (let C = teCrypto E in
      bindA (onWallet (onKeys (GetShieldedPrivateKey C))) (\<lambda>key.
      bindA (liftA (RandomBigInt (teOutRand E 0 0) 31)) (\<lambda>randSeed.
      bindA (liftA (FindCorrectRandomization C randSeed key)) (\<lambda>extraRandomization.
      bindA (onWallet (onKeys (GetSpendingKeyPair C))) (\<lambda>(privSpending, pub).
      bindA (liftA (CalcStealthAddressStructure C extraRandomization key [fst pub, snd pub])) (\<lambda>structure.
        SubmitSolanaProoflessDeposit E S token [amount] [structure] returnTxData))))))"

definition HinkalSolanaDepositForOther ::
  "('d, 'k, 'f, 'a, 'w) txEnv \<Rightarrow> 'w solanaChain \<Rightarrow> int \<Rightarrow> erc20Token \<Rightarrow> string \<Rightarrow> bool \<Rightarrow> (('d, 'w) txState, string) action" where
  "HinkalSolanaDepositForOther E S amount token recipientInfo returnTxData =
     (if \<not> IsValidPrivateAddress recipientInfo then liftA (Err (ErrMsg ''recipient information format is incorrect''))
      else
        bindA (liftA (ConstructStealthAddressStructure recipientInfo)) (\<lambda>structure.
          SubmitSolanaProoflessDeposit E S token [amount] [structure] returnTxData))"

end
