(* ===== verification/ProoflessTx.thy ===== *)
theory ProoflessTx
  imports SolanaDeposit
begin

text \<open>
  Deposits without a proof, to stealth addresses: \<open>internal/functions/transactions/proofless_deposit.go\<close>, straight to
  the Hinkal contract or through its wrapper, which also pays a public fee.
\<close>

record tokenWithBalance =
  twToken :: erc20Token
  twBalance :: int

subsection \<open>Approvals\<close>

text \<open>An amount is added to the first entry of the same chain and token, whatever the case of the address.\<close>

fun addToBalance :: "erc20Token \<Rightarrow> int \<Rightarrow> tokenWithBalance list \<Rightarrow> tokenWithBalance list" where
  "addToBalance token amount [] = [\<lparr>twToken = token, twBalance = amount\<rparr>]"
| "addToBalance token amount (b # bs) =
     (if tkChainID (twToken b) = tkChainID token \<and> equalFold (tkAddress (twToken b)) (tkAddress token)
      then b\<lparr>twBalance := twBalance b + amount\<rparr> # bs
      else b # addToBalance token amount bs)"

fun aggregateLoop :: "tokenWithBalance list \<Rightarrow> erc20Token list \<Rightarrow> int list \<Rightarrow> tokenWithBalance list res" where
  "aggregateLoop out [] amounts = Ok out"
| "aggregateLoop out (t # ts) [] = Panic ''index out of range''"
| "aggregateLoop out (t # ts) (a # as) = aggregateLoop (addToBalance t a out) ts as"

definition aggregateAmountsForApproval :: "erc20Token list \<Rightarrow> int list \<Rightarrow> tokenWithBalance list res" where
  "aggregateAmountsForApproval tokens amounts = aggregateLoop [] tokens amounts"

definition assertWrapperArgLengths :: "string \<Rightarrow> erc20Token list \<Rightarrow> int list \<Rightarrow> stealthAddressStructure list \<Rightarrow> unit res" where
  "assertWrapperArgLengths fnName tokens amounts structures =
     (if length tokens \<noteq> length amounts \<or> length amounts \<noteq> length structures
      then Err (ErrMsg (fnName @ '': array length mismatch'')) else Ok ())"

definition isNativeToken :: "erc20Token \<Rightarrow> bool" where
  "isNativeToken t \<longleftrightarrow> equalFold (tkAddress t) ZeroAddress"

text \<open>A token's deposit with the fee, when the fee is paid in it.\<close>

definition withFee :: "string \<Rightarrow> int \<Rightarrow> tokenWithBalance \<Rightarrow> tokenWithBalance" where
  "withFee feeToken fee b =
     b\<lparr>twBalance := positiveAmount (Some (twBalance b)) +
        (if \<not> equalFold feeToken ZeroAddress \<and> equalFold (tkAddress (twToken b)) feeToken then fee else 0)\<rparr>"

definition buildWrapperApprovalInputs ::
  "string \<Rightarrow> int option \<Rightarrow> erc20Token list \<Rightarrow> int list \<Rightarrow> (tokenWithBalance list \<times> int) res" where
  "buildWrapperApprovalInputs feeToken feeAmount tokens amounts =
     andThen (aggregateAmountsForApproval tokens amounts) (\<lambda>depositByToken.
       (let fee = positiveAmount feeAmount;
            isFeeNative = equalFold feeToken ZeroAddress;
            ethValue = sum_list (map (\<lambda>(t, a). if isNativeToken t then positiveAmount (Some a) else 0) (zip tokens amounts)) +
              (if isFeeNative then fee else 0);
            others = filter (\<lambda>b. \<not> isNativeToken (twToken b)) depositByToken;
            forApproval = filter (\<lambda>b. 0 < twBalance b) (map (withFee feeToken fee) others);
            feeTokenInDeposit = (\<not> isFeeNative \<and> (\<exists>b\<in>set others. equalFold (tkAddress (twToken b)) feeToken));
            chainID = (case tokens of [] \<Rightarrow> 0 | t # ts \<Rightarrow> tkChainID t)
        in Ok (forApproval @
                 (if \<not> isFeeNative \<and> 0 < fee \<and> \<not> feeTokenInDeposit
                  then [\<lparr>twToken = minimalToken chainID feeToken, twBalance = fee\<rparr>] else []),
               ethValue)))"

definition needsApproving :: "tokenWithBalance \<Rightarrow> bool" where
  "needsApproving b \<longleftrightarrow> \<not> isNativeToken (twToken b) \<and> 0 < twBalance b"

definition tronApprovalsFromTokenBalances :: "cryptoLib \<Rightarrow> tokenWithBalance list \<Rightarrow> tokenApproval list res" where
  "tronApprovalsFromTokenBalances C balances =
     mapRes (\<lambda>b.
       andThen (tronHex C (tkAddress (twToken b))) (\<lambda>tokenHex.
       andThen (tronBase58 C tokenHex) (\<lambda>base58.
         Ok \<lparr>taBase58 = base58, taHex = tokenHex, taAmount = twBalance b\<rparr>))) (filter needsApproving balances)"

text \<open>Approving on an EVM chain, and waiting until the approvals are visible; nothing is done without tokens to approve.\<close>

definition approveBalances ::
  "('d, 'k, 'f, 'a, 'w) txEnv \<Rightarrow> 'w adapter \<Rightarrow> int \<Rightarrow> string \<Rightarrow> tokenWithBalance list \<Rightarrow> (('d, 'w) txState, unit) action" where
  "approveBalances E A chainID spenderText balances =
     (let C = teCrypto E; approving = filter needsApproving balances; spender = hexToAddress C spenderText in
      if approving = [] then liftA (Ok ())
      else
        bindA (onWorld (ApproveTokensToHinkal C A chainID spender (map twToken approving) (map twBalance approving))) (\<lambda>_.
        bindA (ethereumAddressOf chainID) (\<lambda>ownerText.
          onWorld (WaitForErc20Approvals C A chainID (hexToAddress C ownerText) spender
            (map (\<lambda>b. \<lparr>arToken = tkAddress (twToken b), arAmount = twBalance b\<rparr>) approving) 30))))"

subsection \<open>Tron\<close>

text \<open>The end of both Tron deposits: check the balance, build and broadcast the call.\<close>

definition sendTronDeposit ::
  "cryptoLib \<Rightarrow> 'w tronChain \<Rightarrow> int \<Rightarrow> string \<Rightarrow> bytes \<Rightarrow> int \<Rightarrow> string \<Rightarrow> ('w, string) action" where
  "sendTronDeposit C T chainID contract callData callValueSun failure =
     bindA (checkTronBalance C T chainID contract (tcAddress T) callData callValueSun) (\<lambda>_.
     bindA (readA (\<lambda>w. wrapErr failure (tcBuild T (tcAddress T) contract callData TronDefaultFeeLimitSun (int64 callValueSun) w)))
       (\<lambda>tx. tcBroadcast T tx))"

definition hinkalTronProoflessDeposit ::
  "cryptoLib \<Rightarrow> 'a contractLib \<Rightarrow> string res \<Rightarrow> 'w tronChain \<Rightarrow> int \<Rightarrow> erc20Token list \<Rightarrow> int list \<Rightarrow> stealthAddressStructure list \<Rightarrow>
   ('w, string) action" where
  "hinkalTronProoflessDeposit C L hinkalAddress T chainID tokens amounts structures =
     bindA (liftA (tronHex C (tcAddress T))) (\<lambda>ownerHex.
     bindA (liftA hinkalAddress) (\<lambda>hinkalHex.
     bindA (liftA (tronBase58 C hinkalHex)) (\<lambda>hinkalBase58.
     bindA (liftA (NormalizedTokenAddresses C tokens)) (\<lambda>addresses.
     bindA (liftA (PackProoflessDeposit C L chainID addresses amounts (replicate (length tokens) 0) structures)) (\<lambda>callData.
     bindA (liftA (SplitTokensByNative C tokens amounts)) (\<lambda>(callValueSun, approvals).
     bindA (ApproveTokens C T chainID (tcAddress T) ownerHex hinkalBase58 approvals) (\<lambda>_.
       sendTronDeposit C T chainID hinkalBase58 callData callValueSun ''tron build prooflessDeposit'')))))))"

definition hinkalTronProoflessDepositWithPublicFee ::
  "cryptoLib \<Rightarrow> 'a contractLib \<Rightarrow> 'w tronChain \<Rightarrow> int \<Rightarrow> string \<Rightarrow> string \<Rightarrow> string \<Rightarrow> int option \<Rightarrow> erc20Token list \<Rightarrow> int list \<Rightarrow>
   stealthAddressStructure list \<Rightarrow> ('w, string) action" where
  "hinkalTronProoflessDepositWithPublicFee C L T chainID wrapperAddress feeRecipient feeToken feeAmount tokens amounts structures =
     bindA (liftA (tronHex C (tcAddress T))) (\<lambda>ownerHex.
     bindA (liftA (tronHex C wrapperAddress)) (\<lambda>wrapperHex.
     bindA (liftA (tronBase58 C wrapperHex)) (\<lambda>wrapperBase58.
     bindA (liftA (tronHex C feeRecipient)) (\<lambda>feeRecipientHex.
     bindA (liftA (if equalFold feeToken ZeroAddress then Ok ZeroAddress else tronHex C feeToken)) (\<lambda>feeTokenHex.
     bindA (liftA (NormalizedTokenAddresses C tokens)) (\<lambda>addresses.
     bindA (liftA (PackProoflessDepositWithPublicFee C L feeRecipientHex feeTokenHex feeAmount addresses amounts
              (replicate (length tokens) 0) structures)) (\<lambda>callData.
     bindA (liftA (buildWrapperApprovalInputs feeTokenHex feeAmount tokens amounts)) (\<lambda>(tokensForApproval, callValueSun).
     bindA (liftA (tronApprovalsFromTokenBalances C tokensForApproval)) (\<lambda>approvals.
     bindA (ApproveTokens C T chainID (tcAddress T) ownerHex wrapperBase58 approvals) (\<lambda>_.
       sendTronDeposit C T chainID wrapperBase58 callData callValueSun ''tron build prooflessDeposit wrapper''))))))))))"

subsection \<open>Deposits\<close>

definition nativeValueOf :: "erc20Token list \<Rightarrow> int list \<Rightarrow> int" where
  "nativeValueOf tokens amounts = sum_list (map snd (filter (isNativeToken \<circ> fst) (zip tokens amounts)))"

definition HinkalProoflessDeposit ::
  "('d, 'k, 'f, 'a, 'w) txEnv \<Rightarrow> erc20Token list \<Rightarrow> int list \<Rightarrow> stealthAddressStructure list option \<Rightarrow> bool \<Rightarrow>
   (('d, 'w) txState, txRequest \<times> string) action" where
  "HinkalProoflessDeposit E tokens amounts overrides returnTxData =
     (let C = teCrypto E in
      bindA (liftA (ValidateAndGetChainID tokens)) (\<lambda>chainID.
        if IsSolanaLike chainID then liftA (Err (ErrMsg ''transactions: prooflessDeposit is not implemented for this chain''))
        else if length tokens \<noteq> length amounts
        then liftA (Err (ErrMsg ''transactions: erc20 tokens and amountChanges length mismatch''))
        else
          bindA (onWallet (onKeys (getProoflessStealthAddressStructures E (length tokens) overrides))) (\<lambda>structures.
          bindA (liftA (assertNoDuplicateStealthAddressStructures structures)) (\<lambda>_.
            if IsTronLike chainID
            then if returnTxData then liftA (Err (ErrMsg ''transactions: Tron returnTxData is not implemented''))
                 else
                   bindA (liftA (teTronReady E)) (\<lambda>_.
                   bindA (\<lambda>s. onWorld (hinkalTronProoflessDeposit C (teContracts E) (deployedHinkal E chainID s) (teTron E) chainID
                                tokens amounts structures) s) (\<lambda>txid. liftA (Ok (emptyRequest, txid))))
            else
              bindA (\<lambda>s. liftA (deployedHinkal E chainID s) s) (\<lambda>hinkal.
              bindA (liftA (PackProoflessDeposit C (teContracts E) chainID (tokenAddresses tokens) amounts (replicate (length tokens) 0)
                       structures)) (\<lambda>payload.
              (let native = nativeValueOf tokens amounts;
                   tx = \<lparr>trTo = hinkal, trData = payload, trValue = (if 0 < native then Some native else None), trGasLimit = 0\<rparr>
               in if returnTxData then liftA (Ok (tx, []))
                  else
                    bindA (liftA (teAdapter E chainID)) (\<lambda>A.
                    bindA (liftA (aggregateAmountsForApproval tokens amounts)) (\<lambda>balances.
                    bindA (approveBalances E A chainID hinkal balances) (\<lambda>_.
                    bindA (onWorld (paSend A tx)) (\<lambda>h. liftA (Ok (tx, h))))))))))))) "

definition HinkalProoflessDepositWithPublicFee ::
  "('d, 'k, 'f, 'a, 'w) txEnv \<Rightarrow> 'w solanaChain \<Rightarrow> int \<Rightarrow> erc20Token \<Rightarrow> int list \<Rightarrow> stealthAddressStructure list \<Rightarrow> int option \<Rightarrow>
   (('d, 'w) txState, string) action" where
  "HinkalProoflessDepositWithPublicFee E S chainID token amounts structures feeAmount =
     (let C = teCrypto E; tokens = replicate (length amounts) token; feeToken = tkAddress token in
      if IsSolanaLike chainID then HinkalSolanaProoflessDepositWithPublicFee E S token amounts structures feeAmount
      else
        bindA (liftA (assertWrapperArgLengths ''HinkalProoflessDepositWithPublicFee'' tokens amounts structures)) (\<lambda>_.
        bindA (liftA (assertNoDuplicateStealthAddressStructures structures)) (\<lambda>_.
        bindA (onDeploy (GetContractData (teDeployFiles E) chainID)) (\<lambda>contracts.
        (let wrapper = ddHinkalWrapperAddress contracts in
         if wrapper = []
         then if IsTronLike chainID
              then liftA (Err (ErrMsg (''transactions: no HinkalWrapper configured for chain '' @ bigString chainID)))
              else bindA (HinkalProoflessDeposit E tokens amounts (Some structures) False) (\<lambda>(tx, h). liftA (Ok h))
         else
           bindA (onWorld (teRelay E chainID False)) (\<lambda>feeRecipient.
             if feeRecipient = [] then liftA (Err (ErrMsg (''transactions: no relay available for chain '' @ bigString chainID)))
             else if IsTronLike chainID
             then
               bindA (liftA (teTronReady E)) (\<lambda>_.
                 onWorld (hinkalTronProoflessDepositWithPublicFee C (teContracts E) (teTron E) chainID wrapper feeRecipient feeToken
                   feeAmount tokens amounts structures))
             else
               bindA (liftA (buildWrapperApprovalInputs feeToken feeAmount tokens amounts)) (\<lambda>(tokensForApproval, ethValue).
               bindA (liftA (PackProoflessDepositWithPublicFee C (teContracts E) feeRecipient feeToken feeAmount (tokenAddresses tokens)
                        amounts (replicate (length tokens) 0) structures)) (\<lambda>payload.
               (let tx = \<lparr>trTo = wrapper, trData = payload, trValue = (if 0 < ethValue then Some ethValue else None), trGasLimit = 0\<rparr>
                in bindA (liftA (teAdapter E chainID)) (\<lambda>A.
                   bindA (approveBalances E A chainID wrapper tokensForApproval) (\<lambda>_.
                     onWorld (paSend A tx))))))))))))"

section \<open>Properties\<close>

text \<open>
  What a deposit through the wrapper approves and sends: for every token exactly what the wrapper takes, the deposits and
  the fee, and the native coins with the call.
\<close>

definition keyOf :: "tokenWithBalance \<Rightarrow> string" where
  "keyOf b = toLower (tkAddress (twToken b))"

text \<open>What is approved, and what is deposited, of the token with the folded address \<open>a\<close>.\<close>

definition approvedFor :: "string \<Rightarrow> tokenWithBalance list \<Rightarrow> int" where
  "approvedFor a bs = sum_list (map twBalance (filter (\<lambda>b. keyOf b = a) bs))"

definition depositedFor :: "string \<Rightarrow> erc20Token list \<Rightarrow> int list \<Rightarrow> int" where
  "depositedFor a tokens amounts = sum_list (map snd (filter (\<lambda>(t, n). toLower (tkAddress t) = a) (zip tokens amounts)))"

text \<open>A list of balances of one chain, one per token, none negative.\<close>

definition goodBalances :: "int \<Rightarrow> tokenWithBalance list \<Rightarrow> bool" where
  "goodBalances c bs \<longleftrightarrow> distinct (map keyOf bs) \<and> (\<forall>b\<in>set bs. tkChainID (twToken b) = c \<and> 0 \<le> twBalance b)"

lemma addToBalance_keys: "keyOf ` set (addToBalance t n bs) \<subseteq> insert (toLower (tkAddress t)) (keyOf ` set bs)"
  by (induction bs) (auto simp: keyOf_def equalFold_def)

lemma addToBalance_good:
  "goodBalances c bs \<Longrightarrow> tkChainID t = c \<Longrightarrow> 0 \<le> n \<Longrightarrow> goodBalances c (addToBalance t n bs)"
proof (induction bs)
  case (Cons b bs)
  have tail: "goodBalances c bs" "keyOf b \<notin> keyOf ` set bs" "tkChainID (twToken b) = c" "0 \<le> twBalance b"
    using Cons.prems(1) by (simp_all add: goodBalances_def)
  show ?case
  proof (cases "toLower (tkAddress (twToken b)) = toLower (tkAddress t)")
    case True
    then show ?thesis
      using tail Cons.prems by (simp add: goodBalances_def equalFold_def keyOf_def)
  next
    case False
    have "keyOf b \<notin> keyOf ` set (addToBalance t n bs)"
    proof -
      have "keyOf b \<noteq> toLower (tkAddress t)" using False by (simp add: keyOf_def)
      then show ?thesis using addToBalance_keys [of t n bs] tail(2) by blast
    qed
    then show ?thesis
      using Cons.IH [OF tail(1) Cons.prems(2,3)] tail(3,4) False by (simp add: goodBalances_def equalFold_def)
  qed
qed (simp add: goodBalances_def)

lemma addToBalance_amount:
  "goodBalances c bs \<Longrightarrow> tkChainID t = c \<Longrightarrow>
   approvedFor a (addToBalance t n bs) = approvedFor a bs + (if toLower (tkAddress t) = a then n else 0)"
  by (induction bs) (auto simp: approvedFor_def goodBalances_def keyOf_def equalFold_def)

lemma aggregateLoop_amounts:
  "aggregateLoop out tokens amounts = Ok bs \<Longrightarrow> goodBalances c out \<Longrightarrow> \<forall>t\<in>set tokens. tkChainID t = c \<Longrightarrow>
   \<forall>n\<in>set amounts. 0 \<le> n \<Longrightarrow>
   goodBalances c bs \<and> approvedFor a bs = approvedFor a out + depositedFor a tokens amounts"
proof (induction out tokens amounts rule: aggregateLoop.induct)
  case (3 out t ts n as)
  have good: "goodBalances c (addToBalance t n out)" using addToBalance_good "3.prems"(2,3,4) by simp
  note IH = "3.IH" [OF _ good]
  show ?case
    using IH "3.prems" addToBalance_amount [OF "3.prems"(2), of t a n] by (auto simp: depositedFor_def)
qed (simp_all add: depositedFor_def)

lemma sum_fee: "distinct (map f xs) \<Longrightarrow> sum_list (map (\<lambda>x. if f x = k then fee else 0) xs) = (if k \<in> f ` set xs then fee else (0 :: int))"
  by (induction xs) auto

lemma sum_positive: "\<forall>b\<in>set bs. 0 \<le> twBalance b \<Longrightarrow>
   sum_list (map twBalance (filter (\<lambda>b. keyOf b = a) (filter (\<lambda>b. 0 < twBalance b) bs))) = approvedFor a bs"
  by (induction bs) (auto simp: approvedFor_def)

lemma approvedFor_withFee:
  assumes "goodBalances c bs"
  shows "approvedFor a (map (withFee feeToken fee) bs) = approvedFor a bs +
    (if \<not> equalFold feeToken ZeroAddress \<and> a = toLower feeToken \<and> a \<in> keyOf ` set bs then fee else 0)"
  using assms
proof (induction bs)
  case (Cons b bs)
  have "goodBalances c bs" "0 \<le> twBalance b" "keyOf b \<notin> keyOf ` set bs" using Cons.prems by (auto simp: goodBalances_def)
  then show ?case
    using Cons.IH by (auto simp: approvedFor_def withFee_def keyOf_def equalFold_def positiveAmount_def)
qed (simp add: approvedFor_def)

text \<open>C39: A deposit through the wrapper approves, of each token but the native one, what the wrapper takes of it: the
  deposits of the token and the fee when it is paid in it; no token is approved twice or for nothing. With the call goes
  the sum of the native deposits and of a native fee.
\<close>

theorem wrapper_approves_what_it_takes:
  assumes built: "buildWrapperApprovalInputs feeToken feeAmount tokens amounts = Ok (approvals, ethValue)"
    and chain: "\<forall>t\<in>set tokens. tkChainID t = c" and nonneg: "\<forall>n\<in>set amounts. 0 \<le> n"
  shows "(\<forall>a. a \<noteq> toLower ZeroAddress \<longrightarrow> approvedFor a approvals =
      depositedFor a tokens amounts + (if a = toLower feeToken then positiveAmount feeAmount else 0)) \<and>
    distinct (map keyOf approvals) \<and> (\<forall>b\<in>set approvals. 0 < twBalance b) \<and>
    ethValue = nativeValueOf tokens amounts + (if equalFold feeToken ZeroAddress then positiveAmount feeAmount else 0)"
proof -
  let ?fee = "positiveAmount feeAmount" let ?native = "equalFold feeToken ZeroAddress"
  obtain bs where bs: "aggregateLoop [] tokens amounts = Ok bs"
    using built by (auto simp: buildWrapperApprovalInputs_def aggregateAmountsForApproval_def res_simps)
  have agg: "goodBalances c bs \<and> approvedFor a bs = depositedFor a tokens amounts" for a
    using aggregateLoop_amounts [OF bs _ chain nonneg, of a] by (simp add: goodBalances_def approvedFor_def)
  let ?others = "filter (\<lambda>b. \<not> isNativeToken (twToken b)) bs"
  let ?paid = "map (withFee feeToken ?fee) ?others"
  let ?extra = "\<not> ?native \<and> 0 < ?fee \<and> toLower feeToken \<notin> keyOf ` set ?others"
  have good: "goodBalances c ?others" using agg by (auto simp: goodBalances_def distinct_map_filter)
  have others: "approvedFor a ?others = approvedFor a bs" if "a \<noteq> toLower ZeroAddress" for a
    using that unfolding approvedFor_def filter_filter
    by (auto intro!: arg_cong [of _ _ "\<lambda>xs. sum_list (map twBalance xs)"] filter_cong simp: isNativeToken_def keyOf_def equalFold_def)
  have "0 \<le> twBalance b" if "b \<in> set bs" for b using agg that by (auto simp: goodBalances_def)
  then have paid: "\<forall>b\<in>set ?paid. 0 \<le> twBalance b" by (auto simp: withFee_def positiveAmount_def split: option.splits)
  have keys: "map keyOf ?paid = map keyOf ?others" by (simp add: withFee_def keyOf_def)
  have inDeposit: "(\<exists>b\<in>set ?others. equalFold (tkAddress (twToken b)) feeToken) \<longleftrightarrow> toLower feeToken \<in> keyOf ` set ?others"
    by (auto simp: keyOf_def equalFold_def image_def)
  let ?chainID = "case tokens of [] \<Rightarrow> 0 | t # ts \<Rightarrow> tkChainID t"
  have "approvals = filter (\<lambda>b. 0 < twBalance b) ?paid @
      (if \<not> ?native \<and> 0 < ?fee \<and> \<not> (\<not> ?native \<and> (\<exists>b\<in>set ?others. equalFold (tkAddress (twToken b)) feeToken))
       then [\<lparr>twToken = minimalToken ?chainID feeToken, twBalance = ?fee\<rparr>] else [])"
    using built bs unfolding buildWrapperApprovalInputs_def aggregateAmountsForApproval_def by (simp add: Let_def del: set_filter)
  then have approvals: "approvals = filter (\<lambda>b. 0 < twBalance b) ?paid @
      (if ?extra then [\<lparr>twToken = minimalToken ?chainID feeToken, twBalance = ?fee\<rparr>] else [])"
    unfolding inDeposit by (cases "?native") simp_all
  have eth: "ethValue = sum_list (map (\<lambda>(t, n). if isNativeToken t then positiveAmount (Some n) else 0) (zip tokens amounts)) +
      (if ?native then ?fee else 0)"
    using built bs unfolding buildWrapperApprovalInputs_def aggregateAmountsForApproval_def by (simp add: Let_def del: set_filter)
  have one: "approvedFor a [\<lparr>twToken = minimalToken ?chainID feeToken, twBalance = ?fee\<rparr>] = (if a = toLower feeToken then ?fee else 0)" for a
    by (auto simp: approvedFor_def keyOf_def minimalToken_def)
  have app: "approvedFor a (xs @ ys) = approvedFor a xs + approvedFor a ys" for a xs ys by (simp add: approvedFor_def)
  have pos: "approvedFor a (filter (\<lambda>b. 0 < twBalance b) ?paid) = approvedFor a ?paid" for a
    using sum_positive [OF paid] by (simp add: approvedFor_def)
  have "approvedFor a approvals = depositedFor a tokens amounts + (if a = toLower feeToken then ?fee else 0)"
    if a: "a \<noteq> toLower ZeroAddress" for a
    using a agg [of a] others [OF a] approvedFor_withFee [OF good, of a feeToken ?fee] one [of a]
    unfolding approvals app pos
    by (auto simp: equalFold_def approvedFor_def positiveAmount_def split: option.splits if_splits simp del: set_filter)
  moreover have "distinct (map keyOf approvals)"
  proof -
    have "distinct (map keyOf ?paid)" using good unfolding keys goodBalances_def by simp
    then have paidDistinct: "distinct (map keyOf (filter (\<lambda>b. 0 < twBalance b) ?paid))" by (rule distinct_map_filter)
    have "keyOf ` set ?paid = keyOf ` set ?others" using arg_cong [OF keys, of set] by (simp only: set_map)
    then have "keyOf ` set (filter (\<lambda>b. 0 < twBalance b) ?paid) \<subseteq> keyOf ` set ?others" by (metis filter_is_subset image_mono)
    moreover have "keyOf \<lparr>twToken = minimalToken n feeToken, twBalance = ?fee\<rparr> = toLower feeToken" for n
      by (simp add: keyOf_def minimalToken_def)
    ultimately have "?extra \<Longrightarrow> keyOf \<lparr>twToken = minimalToken n feeToken, twBalance = ?fee\<rparr> \<notin>
        set (map keyOf (filter (\<lambda>b. 0 < twBalance b) ?paid))" for n
      by (metis (no_types, lifting) set_map subsetD)
    then show ?thesis using paidDistinct unfolding approvals by (simp del: set_filter set_map)
  qed
  moreover have "\<forall>b\<in>set approvals. 0 < twBalance b" unfolding approvals by (auto split: if_splits)
  moreover have "ethValue = nativeValueOf tokens amounts + (if ?native then ?fee else 0)"
  proof -
    have "sum_list (map (\<lambda>(t, n). if isNativeToken t then positiveAmount (Some n) else 0) zs) =
        sum_list (map snd (filter (isNativeToken \<circ> fst) zs))" if "\<forall>z\<in>set zs. 0 \<le> snd z" for zs :: "(erc20Token \<times> int) list"
      using that by (induction zs) (auto simp: positiveAmount_def)
    moreover have "\<forall>z\<in>set (zip tokens amounts). 0 \<le> snd z" using nonneg by (auto dest: set_zip_rightD)
    ultimately have "sum_list (map (\<lambda>(t, n). if isNativeToken t then positiveAmount (Some n) else 0) (zip tokens amounts)) =
        sum_list (map snd (filter (isNativeToken \<circ> fst) (zip tokens amounts)))" .
    then show ?thesis unfolding eth nativeValueOf_def by (simp only:)
  qed
  ultimately show ?thesis by blast
qed

lemma wrapper_approves_what_it_takes_witness:
  "\<exists>approvals ethValue. buildWrapperApprovalInputs ''0xAA'' (Some 3) [minimalToken 1 ''0xaa'', minimalToken 1 ZeroAddress, minimalToken 1 ''0xAa'']
      [5, 7, 2] = Ok (approvals, ethValue) \<and> approvedFor ''0xaa'' approvals = 10 \<and> ethValue = 7"
proof -
  let ?tokens = "[minimalToken 1 ''0xaa'', minimalToken 1 ZeroAddress, minimalToken 1 ''0xAa'']"
  have "isOk (buildWrapperApprovalInputs ''0xAA'' (Some 3) ?tokens [5, 7, 2])" by code_simp
  then obtain approvals ethValue where built: "buildWrapperApprovalInputs ''0xAA'' (Some 3) ?tokens [5, 7, 2] = Ok (approvals, ethValue)"
    by (metis isOk_iff surj_pair)
  have texts: "''0xaa'' \<noteq> toLower ZeroAddress" "toLower ''0xAA'' = ''0xaa''" "depositedFor ''0xaa'' ?tokens [5, 7, 2] = 7"
      "nativeValueOf ?tokens [5, 7, 2] = 7" "\<not> equalFold ''0xAA'' ZeroAddress"
    by code_simp+
  show ?thesis
    using wrapper_approves_what_it_takes [OF built, of 1] built texts
    by (simp add: minimalToken_def positiveAmount_def)
qed

end
