(* ===== verification/ClaimTx.thy ===== *)
theory ClaimTx
  imports DepositTx PrivateTxProps
begin

text \<open>
  Claiming a utxo sent to the wallet's claim key: \<open>internal/functions/transactions/claim_utxo.go\<close>. The keys of the claim are
  not the wallet's: they are passed along beside the state. Row 0 of the clock and the draws serves the outputs, row 1 the
  copied utxo, row 2 the padding and row 3 the recipient information.
\<close>

definition withKeys :: "(userKeys, 'a) action \<Rightarrow> userKeys \<Rightarrow> ('s, 'a \<times> userKeys) action" where
  "withKeys f k s = (case f k of (r, k') \<Rightarrow> (andThen r (\<lambda>x. Ok (x, k')), s))"

definition claimUtxoUserKeys :: "cryptoLib \<Rightarrow> utxo \<Rightarrow> string \<Rightarrow> (userKeys \<times> string) res" where
  "claimUtxoUserKeys C source claimableSignature =
     (if claimableSignature \<noteq> []
      then (case GetShieldedPrivateKey C (NewUserKeys claimableSignature) of (r, keys) \<Rightarrow> andThen r (\<lambda>resolved. Ok (keys, resolved)))
      else if uxNullifyingKey source = [] then Err (ErrMsg ''Claimable UTXO nullifyingKey is missing'')
      else if uxIsNewStyle source then Err (ErrMsg ''Claimable new-style UTXO requires claimableSignature'')
      else Ok (NewUserKeysWithSignatureAndNullifyingKey (uxNullifyingKey source) (uxNullifyingKey source), uxNullifyingKey source))"

text \<open>The fees of a claim, all of them flat, and what is left for the recipient.\<close>

definition claimFeeParts :: "int \<Rightarrow> feeOverride \<Rightarrow> (feeStructure \<times> int) res" where
  "claimFeeParts sourceAmount f =
     (let flatFee = zeroIfNil (foFlatFee f);
          variableRate = (if zeroIfNil (foVariableRate f) \<le> 0 then HinkalPrivateSendVariableRate else zeroIfNil (foVariableRate f));
          transferableAmount = sourceAmount - flatFee;
          variableFee = transferableAmount * variableRate div 10000;
          recipientAmount = transferableAmount - variableFee
      in if sourceAmount \<le> flatFee then Err (ErrMsg ''not enough funds to transact'')
         else if recipientAmount \<le> 0 then Err (ErrMsg ''recipient amount is invalid'')
         else Ok (\<lparr>fsFeeToken = foFeeToken f, fsFlatFee = flatFee + variableFee, fsVariableRate = 0\<rparr>, recipientAmount))"

definition claimPaddingParams :: "utxo \<Rightarrow> string \<Rightarrow> int list option \<Rightarrow> utxoParams" where
  "claimPaddingParams source key spending =
     \<lparr>upAmount = Some 0, upErc20 = uxErc20 source, upMint = uxMint source, upTimeStamp = [], upNullifyingKey = key,
      upSpendingKey = spending, upRandomization = None, upH0 = None, upStealth = [], upEncryptionKey = [],
      upCommitment = [], upNullifier = [], upIsBlocked = False, upIsNewStyle = uxIsNewStyle source\<rparr>"

definition claimPaddingUtxo ::
  "cryptoLib \<Rightarrow> string \<Rightarrow> (nat \<Rightarrow> bytes res) \<Rightarrow> utxo \<Rightarrow> string \<Rightarrow> (userKeys, utxo) action" where
  "claimPaddingUtxo C now rand source resolvedNullifyingKey =
     bindA (if uxIsNewStyle source
            then bindA (GetSpendingKeyPair C) (\<lambda>(priv, pub). liftA (Ok (Some [fst pub, snd pub])))
            else liftA (Ok None)) (\<lambda>spending.
       liftA (NewUtxo C now rand (claimPaddingParams source resolvedNullifyingKey spending)))"

text \<open>The fees given by the caller, or those of the relayer.\<close>

definition claimFees ::
  "('d, 'k, 'f, 'a, 'w) txEnv \<Rightarrow> int \<Rightarrow> string \<Rightarrow> feeOverride option \<Rightarrow> solanaGasParams option \<Rightarrow> feeOverride res" where
  "claimFees E chainID tokenAddress override solanaParams =
     (case override of Some f \<Rightarrow> Ok f
      | None \<Rightarrow> andThen (estimatedFees E chainID tokenAddress [tokenAddress] ''Transact'' None solanaParams) (\<lambda>f. Ok (givenFees f)))"

definition recipientOfWallet :: "('d, 'k, 'f, 'a, 'w) txEnv \<Rightarrow> (('d, 'w) txState, string) action" where
  "recipientOfWallet E = onWallet (onKeys (GetRecipientInfoFromUserKeys (teCrypto E) (teOutClock E 3 0) (teOutRand E 3 0)))"

text \<open>The copy of the utxo that is spent, and the empty utxo beside it.\<close>

definition claimInputs ::
  "('d, 'k, 'f, 'a, 'w) txEnv \<Rightarrow> utxo \<Rightarrow> string \<Rightarrow> userKeys \<Rightarrow> (('d, 'w) txState, (utxo \<times> utxo) \<times> userKeys) action" where
  "claimInputs E claimable key =
     withKeys
       (bindA (liftA (CreateFrom (teCrypto E) (teOutClock E 1 0) (teOutRand E 1 0) claimable (emptyPatch\<lparr>upNullifyingKey := key\<rparr>)))
          (\<lambda>source. bindA (claimPaddingUtxo (teCrypto E) (teOutClock E 2 0) (teOutRand E 2 0) source key)
             (\<lambda>padding. liftA (Ok (source, padding)))))"

text \<open>Everything of the claimed utxo leaves it: the recipient's part goes to the wallet, the rest is the fee.\<close>

definition claimOutputs ::
  "('d, 'k, 'f, 'a, 'w) txEnv \<Rightarrow> utxo list \<Rightarrow> int \<Rightarrow> string \<Rightarrow> int \<Rightarrow> userKeys \<Rightarrow> (('d, 'w) txState, utxo list \<times> userKeys) action" where
  "claimOutputs E ins sourceAmount recipientInfo recipientAmount =
     withKeys (OutputUtxoProcessing (teCrypto E) (teOutClock E 0) (teOutRand E 0) ins (- sourceAmount) (timeStampText E) True
       recipientInfo (Some recipientAmount))"

definition HinkalClaimUtxo ::
  "('d, 'k, 'f, 'a, 'w) txEnv \<Rightarrow> erc20Token list \<Rightarrow> utxo option \<Rightarrow> feeOverride option \<Rightarrow> string \<Rightarrow> (('d, 'w) txState, string) action" where
  "HinkalClaimUtxo E tokens claimableUtxo override claimableSignature =
     bindA (liftA (ValidateAndGetChainID tokens)) (\<lambda>chainID.
       if IsSolanaLike chainID then liftA (Err (ErrMsg ''transactions: prooflessDeposit is not implemented for this chain''))
       else if tokens = [] then liftA (Err (ErrMsg ''transactions: claimUtxo action: no token found''))
       else if 1 < length tokens then liftA (Err (ErrMsg ''transactions: claimUtxo supports one token''))
       else
         (case claimableUtxo of
            None \<Rightarrow> liftA (Err (ErrMsg ''Claimable UTXO nullifyingKey is missing''))
          | Some claimable \<Rightarrow>
              (let tokenAddress = tkAddress (hd tokens) in
               if uxAmount claimable = None then liftA (Err (ErrMsg ''Claimable UTXO nullifyingKey is missing''))
               else if \<not> equalFold tokenAddress (uxErc20 claimable) then liftA (Err (ErrMsg ''Off-chain UTXO token mismatch''))
               else
                 bindA (liftA (claimUtxoUserKeys (teCrypto E) claimable claimableSignature)) (\<lambda>(keys0, key).
                   if uxNullifyingKey claimable \<noteq> [] \<and> \<not> equalFold (uxNullifyingKey claimable) key
                   then liftA (Err (ErrMsg ''Claimable UTXO key mismatch''))
                   else
                     bindA (claimInputs E claimable key keys0) (\<lambda>((source, padding), keys1).
                     bindA (liftA (claimFees E chainID tokenAddress override None)) (\<lambda>given.
                       if \<not> equalFold (foFeeToken given) tokenAddress
                       then liftA (Err (ErrMsg ''Claim fee token mismatch: fee must be paid from claimed UTXO token''))
                       else
                         bindA (liftA (deref (uxAmount source))) (\<lambda>sourceAmount.
                         bindA (liftA (claimFeeParts sourceAmount given)) (\<lambda>(fs, recipientAmount).
                         bindA (relayerAddress E chainID) (\<lambda>relay.
                         bindA (recipientOfWallet E) (\<lambda>recipientInfo.
                         bindA (claimOutputs E [source, padding] sourceAmount recipientInfo recipientAmount keys1) (\<lambda>(outs, keys2).
                         bindA (\<lambda>s. withKeys (ConstructZkProof (teZk E) (plainZkParams chainID s [[source, padding]] [outs] relay fs
                                  relay [])) keys2 s) (\<lambda>(proof, keys3).
                           relayProof E chainID proof)))))))))))) "

section \<open>Properties\<close>

text \<open>
  A claim spends the whole of the claimed utxo: what the wallet gets and the fee make up its amount, and nothing else goes in
  or out.
\<close>

lemma claimFeeParts_split:
  assumes "claimFeeParts n given = Ok (fs, r)"
  shows "0 < r \<and> fsFlatFee fs + r = n \<and> fsVariableRate fs = 0 \<and> fsFeeToken fs = foFeeToken given"
  using assms by (auto simp: claimFeeParts_def Let_def split: if_splits)

lemma claimInputs_copies:
  assumes "claimInputs E claimable key keys0 s = (Ok ((source, padding), keys1), s1)"
  shows "s1 = s \<and> uxAmount source = uxAmount claimable \<and> uxErc20 source = uxErc20 claimable \<and>
         uxAmount padding = Some 0 \<and> uxErc20 padding = uxErc20 claimable"
proof -
  obtain src: "CreateFrom (teCrypto E) (teOutClock E 1 0) (teOutRand E 1 0) claimable (emptyPatch\<lparr>upNullifyingKey := key\<rparr>) = Ok source"
    and "s1 = s"
    and "fst (claimPaddingUtxo (teCrypto E) (teOutClock E 2 0) (teOutRand E 2 0) source key keys0) = Ok padding"
    using assms by (auto simp: claimInputs_def withKeys_def bindA_def liftA_def res_simps split: res.splits prod.splits)
  then have pad: "\<exists>p. NewUtxo (teCrypto E) (teOutClock E 2 0) (teOutRand E 2 0) (claimPaddingParams source key p) = Ok padding"
    by (auto simp: claimPaddingUtxo_def bindA_def liftA_def split: res.splits prod.splits if_splits)
  then show ?thesis
    using NewUtxo_copies(1,8)[OF src[unfolded CreateFrom_def]] NewUtxo_copies(1,8) \<open>s1 = s\<close>
    by (auto simp: applyPatch_def emptyPatch_def GetConstructableParams_def patchOpt_def patchText_def claimPaddingParams_def)
qed

text \<open>C24: when a claim has chosen its inputs, fees and outputs, the claimed amount is what the wallet receives plus the flat fee: the
  wallet receives something, there is no other fee, no change is left over, and every utxo is of the claimed token.\<close>

theorem claim_spends_the_whole_utxo:
  assumes ins: "claimInputs E claimable key keys0 s = (Ok ((source, padding), keys1), s1)"
    and amount: "uxAmount source = Some n" and fees: "claimFeeParts n given = Ok (fs, r)"
    and outs: "claimOutputs E [source, padding] n info r keys1 s1 = (Ok (outs, keys2), s2)" and info: "info \<noteq> []"
  shows "uxAmount claimable = Some n \<and> 0 < r \<and> fsVariableRate fs = 0 \<and>
    amountOf source + amountOf padding = sum_list (map amountOf outs) + fsFlatFee fs \<and>
    amountOf (hd outs) = 0 \<and> sum_list (map amountOf (tl outs)) = r \<and>
    (\<forall>u \<in> set (source # padding # outs). uxErc20 u = uxErc20 claimable) \<and> s2 = s"
proof -
  note copies = claimInputs_copies[OF ins] and parts = claimFeeParts_split[OF fees]
  obtain k' where run: "OutputUtxoProcessing (teCrypto E) (teOutClock E 0) (teOutRand E 0) [source, padding] (- n) (timeStampText E) True
      info (Some r) keys1 = (Ok outs, k')" and s2: "s2 = s1"
    using outs by (auto simp: claimOutputs_def withKeys_def res_simps split: prod.splits)
  have "amountOf source = n" using amount by (simp add: amountOf_def)
  moreover have "amountOf padding = 0" using copies by (simp add: amountOf_def)
  ultimately have amounts: "amountOf source = n" "amountOf padding = 0" .
  note conserved = outputs_conserved[OF run]
  have heads: "sum_list (map amountOf outs) = amountOf (hd outs) + sum_list (map amountOf (tl outs))"
    using conserved by (cases outs) auto
  show ?thesis
    using conserved copies parts amounts amount info s2 heads by auto
qed

definition claimEnv :: "(memoryCache, unit, nat, unit, int) txEnv" where
  "claimEnv =
     \<lparr>teWallet = padEnv, teZk = undefined, teFloats = undefined, teTokens = (\<lambda>_. None), teEstimate = (\<lambda>_ _ _ _ _ _ _. Err (ErrMsg ''offline'')),
      tePrices = (\<lambda>_ _. Err (ErrMsg ''offline'')), teSimulate = (\<lambda>_ _. Ok []), teContracts = undefined, teDeployFiles = undefined,
      teAdapter = (\<lambda>_. Err (ErrMsg ''offline'')), teTron = undefined, teTronReady = Ok (), teRelay = (\<lambda>_ _. liftA (Ok ''r'')),
      teCallRelayer = (\<lambda>_. liftA (Err (ErrMsg ''offline''))), teOutClock = (\<lambda>_ _. bigString 7), teOutRand = (\<lambda>_ _ _. Ok [50])\<rparr>"

lemma claimEnv_fields [simp]:
  "teCrypto claimEnv = toyCrypto" "teOutClock claimEnv = (\<lambda>_ _. bigString 7)" "teOutRand claimEnv = (\<lambda>_ _ _. Ok [50])"
  by (simp_all add: claimEnv_def teCrypto_def padEnv_def)

theorem claim_spends_the_whole_utxo_witness:
  "\<forall>s. \<exists>source padding outs.
     claimInputs claimEnv toyUtxo (ToBeHex (Some 11)) signerKeys s = (Ok ((source, padding), signerKeys), s) \<and>
     claimOutputs claimEnv [source, padding] 25 ''5,1,2,3,7'' 23 signerKeys s = (Ok (outs, signerKeys), s) \<and>
     sum_list (map amountOf (tl outs)) = 23"
proof
  fix s :: "(memoryCache, int) txState"
  let ?given = "\<lparr>foFeeToken = [], foFlatFee = Some 2, foVariableRate = Some 5\<rparr>"
  have seed: "RandomBigInt (\<lambda>_. Ok [50]) 31 = Ok 50" by (simp add: RandomBigInt_def setBytes_def)
  obtain source where source: "CreateFrom toyCrypto (bigString 7) (\<lambda>_. Ok [50]) toyUtxo
      (emptyPatch\<lparr>upNullifyingKey := ToBeHex (Some 11)\<rparr>) = Ok source"
    by (auto simp: CreateFrom_def NewUtxo_def applyPatch_def emptyPatch_def GetConstructableParams_def patchOpt_def patchText_def toyUtxo_def)
  have old: "\<not> uxIsNewStyle source"
    using NewUtxo_copies(7)[OF source[unfolded CreateFrom_def]]
    by (simp add: applyPatch_def emptyPatch_def GetConstructableParams_def toyUtxo_def)
  obtain padding where padding: "NewUtxo toyCrypto (bigString 7) (\<lambda>_. Ok [50]) (claimPaddingParams source (ToBeHex (Some 11)) None) = Ok padding"
    using old by (auto simp: NewUtxo_def claimPaddingParams_def seed toy_randomization)
  have ins: "claimInputs claimEnv toyUtxo (ToBeHex (Some 11)) signerKeys s = (Ok ((source, padding), signerKeys), s)" for s
    by (simp add: claimInputs_def withKeys_def bindA_def liftA_def source claimPaddingUtxo_def old padding)
  have amounts: "uxAmount source = Some 25" "uxAmount padding = Some 0"
    using claimInputs_copies[OF ins] by (simp_all add: toyUtxo_def)
  have fees: "claimFeeParts 25 ?given = Ok (\<lparr>fsFeeToken = [], fsFlatFee = 2, fsVariableRate = 0\<rparr>, 23)"
    by (simp add: claimFeeParts_def zeroIfNil_def)
  obtain a b where pair: "GetSpendingKeyPair toyCrypto signerKeys = (Ok (a, b), signerKeys)" using signer_pair by blast
  let ?ts = "timeStampText claimEnv"
  obtain u where u: "NewUtxo toyCrypto (bigString 7) (\<lambda>_. Ok [50]) (changeParams source (Some 0) ?ts (ToBeHex (Some 11)) b) = Ok u"
    using toy_change by (fastforce simp: changeParams_def)
  have parts: "splitStr ''5,1,2,3,7'' '','' = [''5'', ''1'', ''2'', ''3'', ''7'']" "ParseBigInt ''1'' = Ok 1" "ParseBigInt ''2'' = Ok 2"
    by code_simp+
  obtain v where v: "recipientUtxo toyCrypto (bigString 7) (\<lambda>_. Ok [50]) source ?ts ''5,1,2,3,7'' 23 = Ok v"
    by (simp add: recipientUtxo_def parts NewUtxo_def receiverParams_def)
  have outs: "claimOutputs claimEnv [source, padding] 25 ''5,1,2,3,7'' 23 signerKeys s = (Ok ([u, v], signerKeys), s)"
    by (simp add: claimOutputs_def withKeys_def OutputUtxoProcessing_def amounts bindA_def liftA_def signer_private pair u v)
  show "\<exists>source padding outs.
     claimInputs claimEnv toyUtxo (ToBeHex (Some 11)) signerKeys s = (Ok ((source, padding), signerKeys), s) \<and>
     claimOutputs claimEnv [source, padding] 25 ''5,1,2,3,7'' 23 signerKeys s = (Ok (outs, signerKeys), s) \<and>
     sum_list (map amountOf (tl outs)) = 23"
    using claim_spends_the_whole_utxo[OF ins amounts(1) fees outs] ins outs by blast
qed

end
