(* ===== verification/SolanaTx.thy ===== *)
theory SolanaTx
  imports ClaimTx SolanaDeposit
begin

text \<open>
  Private transactions on Solana: \<open>internal/functions/transactions\<close> (\<open>solana_transfer.go\<close>, \<open>solana_withdraw.go\<close>,
  \<open>solana_claim_utxo.go\<close>, \<open>solana_swap.go\<close>) and their calls of the relayer (\<open>web3/transact_call_relayer.go\<close>,
  \<open>api/solana.go\<close>). The relayer, the accounts of the node and the draws are the fields of \<open>solanaServices\<close>.
\<close>

subsection \<open>api/solana.go\<close>

record solanaArgs =
  soProofA :: "int list"
  soProofB :: "int list"
  soProofC :: "int list"
  soPublicInputs :: "int list list"
  soEncryptedOutputs :: "int list list"
  soRelayerFee :: string
  soVariableRate :: "string option"
  soDimensions :: dimData

record solanaHinkalInstruction =
  siAccountIndexes :: "int list"
  siData :: "int list"
  siProgramIndex :: int

record solanaTransactAccounts =
  staRecipient :: string
  staMint :: string

record okxAccountJson =
  ojIsSigner :: bool
  ojIsWritable :: bool
  ojPubkey :: string

record solanaSwapAccounts =
  swRecipient :: string
  swStorageAccount :: string
  swStorageVault :: string
  swSwapperAccount :: string
  swMintFrom :: "string option"
  swMintTo :: "string option"
  swRemainingAccounts :: "okxAccountJson list"
  swAddressLookupTables :: "string list"

text \<open>The arguments and accounts of a body are those of a plain call or of a swap.\<close>

datatype solanaCall =
    PlainCall solanaArgs solanaTransactAccounts
  | SwapCall solanaArgs "solanaHinkalInstruction list" solanaSwapAccounts

record solanaBody =
  sbChainID :: int
  sbRelayAddress :: string
  sbFunctionName :: string
  sbCall :: solanaCall
  sbCommitment :: "commitmentValidation option"
  sbRecipientAmount :: string
  sbDisplayRecipient :: string

record solanaBatchBody =
  zbChainID :: int
  zbTransactions :: "solanaBody list"
  zbHashedEthereumAddress :: string
  zbTxCompletionTime :: "int option"
  zbRef :: string
  zbHashedDashboardAccountID :: string

record 'w solanaServices =
  slsChain :: "'w solanaChain"
  slsAccounts :: "bytes list \<Rightarrow> bool list res"                    \<comment> \<open>which accounts exist\<close>
  slsUnB64 :: "string \<Rightarrow> bytes res"
  slsSeed :: "nat \<Rightarrow> nat \<Rightarrow> bytes res"                            \<comment> \<open>the draw of the randomisation of transaction i\<close>
  slsMessageSeed :: "nat \<Rightarrow> nat \<Rightarrow> bytes res"                     \<comment> \<open>the draw of the message of transaction i\<close>
  slsSealRand :: "nat \<Rightarrow> nat \<Rightarrow> nat \<Rightarrow> nat \<Rightarrow> nat \<Rightarrow> bytes res"
  slsCall :: "solanaBody \<Rightarrow> ('w, relayerResponse) action"
  slsCallBatch :: "solanaBatchBody \<Rightarrow> ('w, relayerBatchResponse) action"

definition SolanaTransactCallRelayer :: "(solanaBody \<Rightarrow> ('w, relayerResponse) action) \<Rightarrow> solanaBody \<Rightarrow> ('w, string) action" where
  "SolanaTransactCallRelayer call body = bindA (call body) (\<lambda>r. liftA (extractTxResponse r))"

definition SolanaTransactCallRelayerBatch ::
  "(solanaBatchBody \<Rightarrow> ('w, relayerBatchResponse) action) \<Rightarrow> int \<Rightarrow> solanaBody list \<Rightarrow> string \<Rightarrow> int option \<Rightarrow> string \<Rightarrow> string \<Rightarrow>
   ('w, string) action" where
  "SolanaTransactCallRelayerBatch call chainID transactions hashedEthereumAddress txCompletionTime ref hashedDashboardAccountID =
     bindA (call \<lparr>zbChainID = chainID, zbTransactions = transactions, zbHashedEthereumAddress = hashedEthereumAddress,
       zbTxCompletionTime = txCompletionTime, zbRef = ref, zbHashedDashboardAccountID = hashedDashboardAccountID\<rparr>)
       (\<lambda>r. liftA (extractBatchTxResponse r))"

subsection \<open>Shared steps\<close>

definition nonNativeMintString :: "string \<Rightarrow> string" where
  "nonNativeMintString mintAddress = (if mintAddress = SolanaNativeAddress then [] else mintAddress)"

text \<open>An encrypted output as the bytes that are hashed and the numbers that are sent.\<close>

definition outputInts :: "bytes \<Rightarrow> int list" where
  "outputInts row = map uint row"

definition encryptedRow ::
  "('d, 'k, 'f, 'a, 'w) txEnv \<Rightarrow> 'w solanaServices \<Rightarrow> nat \<Rightarrow> utxo list list \<Rightarrow> string list list res" where
  "encryptedRow E S i outs = CalcEncryptedOutputs (teCrypto E) (slsSealRand S i) outs"

definition solanaTransferEncryptedOutputs ::
  "('d, 'k, 'f, 'a, 'w) txEnv \<Rightarrow> 'w solanaServices \<Rightarrow> utxo list \<Rightarrow> (bytes list \<times> int list list) res" where
  "solanaTransferEncryptedOutputs E S outs =
     andThen (encryptedRow E S 0 [outs]) (\<lambda>encrypted.
       case encrypted of
         [] \<Rightarrow> Err (ErrMsg ''transactions: Solana transfer missing output UTXO'')
       | row # rows \<Rightarrow>
           if length row \<noteq> length outs then Err (ErrMsg ''transactions: Solana transfer missing output UTXO'')
           else (let bs = map (fromHex (teCrypto E)) row in Ok (bs, map outputInts bs)))"

text \<open>Only the first output, the change, is sent.\<close>

definition solanaEncryptedOutputBytes ::
  "('d, 'k, 'f, 'a, 'w) txEnv \<Rightarrow> 'w solanaServices \<Rightarrow> nat \<Rightarrow> utxo list \<Rightarrow> (bytes list \<times> int list list) res" where
  "solanaEncryptedOutputBytes E S i outs =
     andThen (encryptedRow E S i [outs]) (\<lambda>encrypted.
       case encrypted of
         (first # rest) # rows \<Rightarrow> (let b = fromHex (teCrypto E) first in Ok ([b], [outputInts b]))
       | _ \<Rightarrow> Err (ErrMsg ''transactions: Solana withdraw missing output UTXO''))"

definition solanaSwapEncryptedOutputs ::
  "('d, 'k, 'f, 'a, 'w) txEnv \<Rightarrow> 'w solanaServices \<Rightarrow> utxo list list \<Rightarrow> (bytes list \<times> int list list) res" where
  "solanaSwapEncryptedOutputs E S outs =
     andThen (encryptedRow E S 0 outs) (\<lambda>encrypted.
     andThen (mapRes (\<lambda>row. case row of [] \<Rightarrow> Err (ErrMsg ''transactions: Solana withdraw missing output UTXO'')
                        | first # rest \<Rightarrow> Ok (fromHex (teCrypto E) first)) encrypted) (\<lambda>bs.
       Ok (bs, map outputInts bs)))"

definition nullifierCountOf ::
  "('d, 'k, 'f, 'a, 'w) txEnv \<Rightarrow> 'w solanaServices \<Rightarrow> int \<Rightarrow> string list \<Rightarrow> int list \<Rightarrow> (('d, 'w) txState, nat) action" where
  "nullifierCountOf E S chainID mints changes s =
     onWallet (CalculateSolanaNullifierCount (teWallet E) (scLib (slsChain S)) (tronHex (teCrypto E))
       (\<lambda>a. lookupToken (teTokens E) a chainID) (fst (OriginalDeployer (teDeployFiles E) chainID (tsDeploy s)))
       (slsAccounts S) chainID mints changes) s"

text \<open>A randomisation for the transaction \<open>i\<close>, given the key it is made for.\<close>

definition randomizationFor :: "('d, 'k, 'f, 'a, 'w) txEnv \<Rightarrow> 'w solanaServices \<Rightarrow> nat \<Rightarrow> string \<Rightarrow> int res" where
  "randomizationFor E S i key =
     andThen (RandomBigInt (slsSeed S i) 31) (\<lambda>randSeed. FindCorrectRandomization (teCrypto E) randSeed key)"

definition walletRandomization ::
  "('d, 'k, 'f, 'a, 'w) txEnv \<Rightarrow> 'w solanaServices \<Rightarrow> (('d, 'w) txState, int) action" where
  "walletRandomization E S =
     bindA (onWallet (onKeys (GetShieldedPrivateKey (teCrypto E)))) (\<lambda>key. liftA (randomizationFor E S 0 key))"

text \<open>The parameters the proofs fill in alike; the instructions of a swap are added by the caller.\<close>

definition plainSolanaParams ::
  "int \<Rightarrow> ('d, 'w) txState \<Rightarrow> string list \<Rightarrow> utxo list list \<Rightarrow> utxo list list \<Rightarrow> int \<Rightarrow> int \<Rightarrow> int \<Rightarrow> string \<Rightarrow> string \<Rightarrow> dimData \<Rightarrow>
   bytes list \<Rightarrow> solanaProofParams" where
  "plainSolanaParams chainID s mints ins outs extraRandomization relayerFee variableRate recipient signer dimensions encryptedOutputs =
     \<lparr>spRemotely = wlProofRemotely (tsWallet s), spMerkleTree = tsTrees s chainID, spMints = mints, spInputUtxos = ins,
      spOutputUtxos = outs, spExtraRandomization = extraRandomization, spRelayerFee = Some relayerFee,
      spVariableRate = Some variableRate, spRecipient = recipient, spSigner = signer, spDimensions = dimensions,
      spEncryptedOutputs = encryptedOutputs, spChainID = chainID, spInstructions = [], spRemaining = [], spSalt = None\<rparr>"

definition proveSolana ::
  "('d, 'k, 'f, 'a, 'w) txEnv \<Rightarrow> 'w solanaServices \<Rightarrow> nat \<Rightarrow> solanaProofParams \<Rightarrow> (('d, 'w) txState, solanaProofResult) action" where
  "proveSolana E S i p = onWallet (onKeys (ConstructSolanaZkProof (teZk E) (scLib (slsChain S)) (slsMessageSeed S i) p))"

definition solanaArgsOf :: "solanaProofResult \<Rightarrow> int list list \<Rightarrow> int \<Rightarrow> string option \<Rightarrow> dimData \<Rightarrow> solanaArgs" where
  "solanaArgsOf proof encryptedOutputs relayerFee variableRate dimensions =
     \<lparr>soProofA = srProofA proof, soProofB = srProofB proof, soProofC = srProofC proof, soPublicInputs = srPublicInputs proof,
      soEncryptedOutputs = encryptedOutputs, soRelayerFee = bigString relayerFee, soVariableRate = variableRate,
      soDimensions = dimensions\<rparr>"

definition solanaBodyOf :: "int \<Rightarrow> string \<Rightarrow> string \<Rightarrow> solanaCall \<Rightarrow> solanaProofResult \<Rightarrow> solanaBody" where
  "solanaBodyOf chainID relay functionName call proof =
     \<lparr>sbChainID = chainID, sbRelayAddress = relay, sbFunctionName = functionName, sbCall = call,
      sbCommitment = srCommitment proof, sbRecipientAmount = [], sbDisplayRecipient = []\<rparr>"

definition callSolanaRelayer :: "'w solanaServices \<Rightarrow> solanaBody \<Rightarrow> (('d, 'w) txState, string) action" where
  "callSolanaRelayer S body = onWorld (SolanaTransactCallRelayer (slsCall S) body)"

definition firstRow :: "'a list \<Rightarrow> 'a res" where
  "firstRow rows = (case rows of [] \<Rightarrow> Panic ''index out of range'' | row # rest \<Rightarrow> Ok row)"

definition dimensionsOf :: "string list \<Rightarrow> utxo list \<Rightarrow> utxo list \<Rightarrow> dimData" where
  "dimensionsOf mints ins outs =
     \<lparr>dmTokenNumber = length mints, dmNullifierAmount = length ins, dmOutputAmount = length outs\<rparr>"

subsection \<open>solana_transfer.go\<close>

definition getSolanaTransferInputAndOutputUtxos ::
  "('d, 'k, 'f, 'a, 'w) txEnv \<Rightarrow> int \<Rightarrow> string list \<Rightarrow> int list \<Rightarrow> string \<Rightarrow> int \<Rightarrow> (('d, 'w) txState, utxo list \<times> utxo list) action" where
  "getSolanaTransferInputAndOutputUtxos E chainID mints changes recipient recipientAmount =
     bindA (paddedInputs E chainID mints changes 6 False False) (\<lambda>rows.
     bindA (liftA (firstRow rows)) (\<lambda>ins.
     bindA (liftA (firstRow changes)) (\<lambda>change.
     bindA (onWallet (onKeys (OutputUtxoProcessing (teCrypto E) (teOutClock E 0) (teOutRand E 0) ins change (timeStampText E) True
              recipient (Some recipientAmount)))) (\<lambda>outs.
       liftA (if length outs < 2 then Err (ErrMsg ''transactions: Solana transfer missing output UTXO'') else Ok (ins, outs))))))"

definition resolveSolanaTransferFeeStructure ::
  "('d, 'k, 'f, 'a, 'w) txEnv \<Rightarrow> int \<Rightarrow> string \<Rightarrow> string list \<Rightarrow> feeOverride option \<Rightarrow> solanaGasParams option \<Rightarrow> feeStructure res" where
  "resolveSolanaTransferFeeStructure E chainID feeToken mints override solanaParams =
     (case override of
        Some f \<Rightarrow> Ok (privateSendFeeStructure f)
      | None \<Rightarrow>
          andThen (estimatedFees E chainID feeToken mints ''Transact'' (Some HinkalPrivateSendVariableRate) solanaParams) (\<lambda>f.
            Ok (privateSendFeeStructure (givenFees f))))"

text \<open>The proof and the relayer's call of a transfer, to the wallet's own outputs or a recipient's.\<close>

definition transferBody ::
  "int \<Rightarrow> string \<Rightarrow> string \<Rightarrow> solanaProofResult \<Rightarrow> int list list \<Rightarrow> int \<Rightarrow> dimData \<Rightarrow> solanaBody" where
  "transferBody chainID relay mint proof encryptedOutputs totalFee dimensions =
     solanaBodyOf chainID relay ''transfer'' (PlainCall (solanaArgsOf proof encryptedOutputs totalFee None dimensions)
       \<lparr>staRecipient = relay, staMint = nonNativeMintString mint\<rparr>) proof"

definition solanaTransferChecks :: "erc20Token list \<Rightarrow> int list \<Rightarrow> string \<Rightarrow> int res" where
  "solanaTransferChecks tokens changesBase recipient =
     andThen (ValidateAndGetChainID tokens) (\<lambda>chainID.
       if \<not> IsSolanaLike chainID then Err (ErrMsg ''transactions: Solana deposit requires a Solana chain'')
       else if length tokens \<noteq> length changesBase
       then Err (ErrMsg ''transactions: erc20 tokens and amountChanges length mismatch'')
       else if tokens = [] then Err (ErrMsg ''transactions: transfer action: no token found'')
       else if 1 < length tokens then Err (ErrMsg ''transactions: Solana transfer supports one mint per transaction'')
       else if \<not> IsValidPrivateAddress recipient then Err (ErrMsg ''recipient information format is incorrect'')
       else Ok chainID)"

definition HinkalSolanaTransfer ::
  "('d, 'k, 'f, 'a, 'w) txEnv \<Rightarrow> 'w solanaServices \<Rightarrow> erc20Token list \<Rightarrow> int list \<Rightarrow> string \<Rightarrow> string \<Rightarrow> feeOverride option \<Rightarrow>
   (('d, 'w) txState, string) action" where
  "HinkalSolanaTransfer E S tokens changesBase recipient feeTokenGiven override =
     bindA (liftA (solanaTransferChecks tokens changesBase recipient)) (\<lambda>chainID.
     (let base = copyBigInts changesBase; mints = tokenAddresses tokens;
          feeToken = (if feeTokenGiven = [] then hd mints else feeTokenGiven) in
      bindA (nullifierCountOf E S chainID mints base) (\<lambda>count.
      bindA (liftA (resolveSolanaTransferFeeStructure E chainID feeToken mints override
               (Some \<lparr>sgMintTo = feeToken, sgMintFrom = [], sgRecipient = [], sgNullifierCount = int count\<rparr>))) (\<lambda>fs.
      (let recipientAmount = - (base ! 0); totalFee = CalculateTotalFee recipientAmount fs; changes = base[0 := base ! 0 - totalFee] in
       bindA (relayerAddress E chainID) (\<lambda>relay.
       bindA (getSolanaTransferInputAndOutputUtxos E chainID mints changes recipient recipientAmount) (\<lambda>(ins, outs).
       bindA (walletRandomization E S) (\<lambda>extraRandomization.
       bindA (liftA (solanaTransferEncryptedOutputs E S outs)) (\<lambda>(encryptedBytes, encryptedInts).
       bindA (liftA (EnsureAmountChanges (teCrypto E) [ins] [[outs ! 0]] changes)) (\<lambda>_.
       bindA (\<lambda>s. proveSolana E S 0 (plainSolanaParams chainID s mints [ins] [outs] extraRandomization totalFee 0
                SolanaNativeAddress relay (dimensionsOf mints ins outs) encryptedBytes) s) (\<lambda>proof.
         callSolanaRelayer S (transferBody chainID relay (hd mints) proof encryptedInts totalFee (dimensionsOf mints ins outs)))))))))))))"

subsection \<open>solana_withdraw.go\<close>

definition getSolanaWithdrawInputAndOutputUtxos ::
  "('d, 'k, 'f, 'a, 'w) txEnv \<Rightarrow> int \<Rightarrow> string list \<Rightarrow> int list \<Rightarrow> (('d, 'w) txState, utxo list \<times> utxo list) action" where
  "getSolanaWithdrawInputAndOutputUtxos E chainID mints changes =
     bindA (paddedInputs E chainID mints changes 6 False False) (\<lambda>rows.
     bindA (liftA (firstRow rows)) (\<lambda>ins.
     bindA (liftA (firstRow changes)) (\<lambda>change.
     bindA (onWallet (onKeys (OutputUtxoProcessing (teCrypto E) (teOutClock E 0) (teOutRand E 0) ins change (timeStampText E) True
              [] None))) (\<lambda>outs. liftA (Ok (ins, outs))))))"

definition solanaWithdrawChecks :: "erc20Token list \<Rightarrow> int list \<Rightarrow> int res" where
  "solanaWithdrawChecks tokens changesBase =
     andThen (ValidateAndGetChainID tokens) (\<lambda>chainID.
       if \<not> IsSolanaLike chainID then Err (ErrMsg ''transactions: Solana deposit requires a Solana chain'')
       else if length tokens \<noteq> length changesBase
       then Err (ErrMsg ''transactions: erc20 tokens and amountChanges length mismatch'')
       else if tokens = [] then Err (ErrMsg ''transactions: withdraw action: no token found'')
       else if 1 < length tokens then Err (ErrMsg ''transactions: Solana withdraw supports one mint per transaction'')
       else Ok chainID)"

definition withdrawAccounts :: "string \<Rightarrow> string \<Rightarrow> solanaTransactAccounts" where
  "withdrawAccounts mint recipient =
     \<lparr>staRecipient = recipient, staMint = (if equalFold mint SolanaNativeAddress then [] else mint)\<rparr>"

definition HinkalSolanaWithdraw ::
  "('d, 'k, 'f, 'a, 'w) txEnv \<Rightarrow> 'w solanaServices \<Rightarrow> erc20Token list \<Rightarrow> int list \<Rightarrow> string \<Rightarrow> string \<Rightarrow> feeOverride option \<Rightarrow>
   (('d, 'w) txState, string) action" where
  "HinkalSolanaWithdraw E S tokens changesBase recipient feeTokenGiven override =
     bindA (liftA (solanaWithdrawChecks tokens changesBase)) (\<lambda>chainID.
     (let base = copyBigInts changesBase; mints = tokenAddresses tokens;
          feeToken = (if feeTokenGiven = [] then hd mints else feeTokenGiven) in
      bindA (nullifierCountOf E S chainID mints base) (\<lambda>count.
      bindA (liftA (resolveWithdrawFeeStructure E chainID feeToken mints (hd tokens) (base ! 0) override
               (Some \<lparr>sgMintTo = hd mints, sgMintFrom = [], sgRecipient = recipient, sgNullifierCount = int count\<rparr>))) (\<lambda>fs.
      (let changes = base[0 := base ! 0 - fsFlatFee fs] in
       bindA (relayerAddress E chainID) (\<lambda>relay.
       bindA (getSolanaWithdrawInputAndOutputUtxos E chainID mints changes) (\<lambda>(ins, outs).
       bindA (walletRandomization E S) (\<lambda>extraRandomization.
       bindA (liftA (solanaEncryptedOutputBytes E S 0 outs)) (\<lambda>(encryptedBytes, encryptedInts).
       bindA (liftA (EnsureAmountChanges (teCrypto E) [ins] [outs] changes)) (\<lambda>_.
       bindA (\<lambda>s. proveSolana E S 0 (plainSolanaParams chainID s mints [ins] [outs] extraRandomization (fsFlatFee fs)
                (fsVariableRate fs) recipient relay (dimensionsOf mints ins outs) encryptedBytes) s) (\<lambda>proof.
         callSolanaRelayer S (solanaBodyOf chainID relay ''transact''
           (PlainCall (solanaArgsOf proof encryptedInts (fsFlatFee fs) None (dimensionsOf mints ins outs))
              (withdrawAccounts (hd mints) recipient)) proof))))))))))))"

subsection \<open>solana_claim_utxo.go\<close>

definition HinkalSolanaClaimUtxo ::
  "('d, 'k, 'f, 'a, 'w) txEnv \<Rightarrow> 'w solanaServices \<Rightarrow> erc20Token list \<Rightarrow> utxo option \<Rightarrow> feeOverride option \<Rightarrow> string \<Rightarrow>
   (('d, 'w) txState, string) action" where
  "HinkalSolanaClaimUtxo E S tokens claimableUtxo override claimableSignature =
     bindA (liftA (ValidateAndGetChainID tokens)) (\<lambda>chainID.
       if \<not> IsSolanaLike chainID then liftA (Err (ErrMsg ''transactions: Solana deposit requires a Solana chain''))
       else if tokens = [] then liftA (Err (ErrMsg ''transactions: claimUtxo action: no token found''))
       else if 1 < length tokens then liftA (Err (ErrMsg ''transactions: claimUtxo supports one token''))
       else
         (case claimableUtxo of
            None \<Rightarrow> liftA (Err (ErrMsg ''Claimable UTXO nullifyingKey is missing''))
          | Some claimable \<Rightarrow>
              (let tokenAddress = tkAddress (hd tokens) in
               if uxAmount claimable = None then liftA (Err (ErrMsg ''Claimable UTXO nullifyingKey is missing''))
               else
                 bindA (liftA (GetTokenAddress chainID claimable)) (\<lambda>utxoTokenAddress.
                   if utxoTokenAddress \<noteq> tokenAddress then liftA (Err (ErrMsg ''Off-chain UTXO token mismatch''))
                   else
                     bindA (liftA (claimUtxoUserKeys (teCrypto E) claimable claimableSignature)) (\<lambda>(keys0, key).
                       if uxNullifyingKey claimable \<noteq> [] \<and> uxNullifyingKey claimable \<noteq> key
                       then liftA (Err (ErrMsg ''Claimable UTXO key mismatch''))
                       else
                         bindA (claimInputs E claimable key keys0) (\<lambda>((source, padding), keys1).
                         bindA (liftA (claimFees E chainID tokenAddress override
                                  (Some \<lparr>sgMintTo = tokenAddress, sgMintFrom = [], sgRecipient = [], sgNullifierCount = 1\<rparr>))) (\<lambda>given.
                           if foFeeToken given \<noteq> tokenAddress
                           then liftA (Err (ErrMsg ''Claim fee token mismatch: fee must be paid from claimed UTXO token''))
                           else
                             bindA (liftA (deref (uxAmount source))) (\<lambda>sourceAmount.
                             bindA (liftA (claimFeeParts sourceAmount given)) (\<lambda>(fs, recipientAmount).
                             bindA (recipientOfWallet E) (\<lambda>recipientInfo.
                             bindA (claimOutputs E [source, padding] sourceAmount recipientInfo recipientAmount keys1) (\<lambda>(outs, keys2).
                               if length outs < 2 then liftA (Err (ErrMsg ''transactions: Solana transfer missing output UTXO''))
                               else
                                 bindA (relayerAddress E chainID) (\<lambda>relay.
                                 bindA (liftA (randomizationFor E S 0 key)) (\<lambda>extraRandomization.
                                 bindA (liftA (solanaTransferEncryptedOutputs E S outs)) (\<lambda>(encryptedBytes, encryptedInts).
                                 (let dimensions = dimensionsOf [tokenAddress] [source, padding] outs in
                                  bindA (\<lambda>s. withKeys (ConstructSolanaZkProof (teZk E) (scLib (slsChain S)) (slsMessageSeed S 0)
                                           (plainSolanaParams chainID s [tokenAddress] [[source, padding]] [outs] extraRandomization
                                              (fsFlatFee fs) 0 SolanaNativeAddress relay dimensions encryptedBytes)) keys2 s)
                                    (\<lambda>(proof, keys3).
                                      callSolanaRelayer S (transferBody chainID relay tokenAddress proof encryptedInts (fsFlatFee fs)
                                        dimensions)))))))))))))))))"

end
