(* ===== verification/StuckTx.thy ===== *)
theory StuckTx
  imports SolanaTx PaddingProps ClaimTx
begin

text \<open>
  Withdrawing stuck utxos, those of scheduled withdrawals that failed: \<open>internal/functions/transactions/withdraw_stuck_utxos.go\<close>.
  The loop runs until no stuck utxo is left; \<open>E n\<close> and \<open>S n\<close> are the services of its round \<open>n\<close>.
\<close>

text \<open>The result of a call is \<open>Inl\<close> a boolean or \<open>Inr\<close> the name of another type.\<close>

record ('a, 'd, 'w) stuckEnv =
  skPack :: "'a \<Rightarrow> int \<Rightarrow> bytes res"                                 \<comment> \<open>packing of a call of nullifiers\<close>
  skUnpack :: "'a \<Rightarrow> bytes \<Rightarrow> (bool + string) list res"
  skFetchClient :: "int \<Rightarrow> unit res"
  skCall :: "string \<Rightarrow> bytes \<Rightarrow> 'w \<Rightarrow> bytes res"                       \<comment> \<open>CallContract\<close>
  skKnown :: "int \<Rightarrow> bool"                                           \<comment> \<open>the chain has a map of nullifiers\<close>
  skReset :: "int \<Rightarrow> (('d, 'w) txState, unit) action"               \<comment> \<open>ResetMerkleTreesIfNecessary\<close>
  skWaitTx :: "int \<Rightarrow> string \<Rightarrow> nat \<Rightarrow> ('w, bool) action"

subsection \<open>Which utxos\<close>

definition countStuckUtxoAmount :: "utxo list \<Rightarrow> int" where
  "countStuckUtxoAmount us = sum_list (map amountOf us)"

definition hasTokenAddress :: "int \<Rightarrow> string \<Rightarrow> utxo \<Rightarrow> bool" where
  "hasTokenAddress chainID tokenAddress u =
     (case GetTokenAddress chainID u of Ok a \<Rightarrow> equalFold a tokenAddress | _ \<Rightarrow> False)"

definition positiveUtxosForToken :: "utxo list \<Rightarrow> int \<Rightarrow> string \<Rightarrow> utxo list" where
  "positiveUtxosForToken us chainID tokenAddress =
     filter (\<lambda>u. 0 < amountOf u \<and> hasTokenAddress chainID tokenAddress u) us"

definition sortAndCapStuckUtxos :: "utxo list \<Rightarrow> utxo list" where
  "sortAndCapStuckUtxos filtered = take 6 (sort_key (\<lambda>u. - amountOf u) filtered)"

definition topPositiveUtxosForToken :: "utxo list \<Rightarrow> int \<Rightarrow> string \<Rightarrow> utxo list" where
  "topPositiveUtxosForToken us chainID tokenAddress = sortAndCapStuckUtxos (positiveUtxosForToken us chainID tokenAddress)"

text \<open>Asks the contract whether a nullifier is spent, and remembers that it is.\<close>

definition rememberNullifier :: "('a, 'd, 'w) stuckEnv \<Rightarrow> int \<Rightarrow> int \<Rightarrow> ('d, 'w) txState \<Rightarrow> ('d, 'w) txState" where
  "rememberNullifier K chainID nullifier s =
     (if skKnown K chainID
      then s\<lparr>tsWallet := (tsWallet s)\<lparr>wlNullifiers := (wlNullifiers (tsWallet s))(chainID :=
             insert (ToBeHex (Some nullifier)) (wlNullifiers (tsWallet s) chainID))\<rparr>\<rparr>
      else s)"

definition nullifierOf :: "cryptoLib \<Rightarrow> utxo \<Rightarrow> (int \<times> utxo) res" where
  "nullifierOf C u = (case GetNullifier C u of (r, u') \<Rightarrow> andThen r (\<lambda>n. andThen (ParseBigInt n) (\<lambda>v. Ok (v, u'))))"

definition nullifierSpent ::
  "('a, 'd, 'w) stuckEnv \<Rightarrow> 'a \<Rightarrow> string \<Rightarrow> int \<Rightarrow> 'w \<Rightarrow> bool res" where
  "nullifierSpent K hinkalABI contract nullifier w =
     andThen (skPack K hinkalABI nullifier) (\<lambda>data.
     andThen (skCall K contract data w) (\<lambda>out.
     andThen (skUnpack K hinkalABI out) (\<lambda>values.
       case values of
         [] \<Rightarrow> Err (ErrMsg ''transactions: empty nullifiers result'')
       | Inl spent # rest \<Rightarrow> Ok spent
       | Inr type # rest \<Rightarrow> Err (ErrMsg (''transactions: unexpected nullifiers result type '' @ type)))))"

fun unspentLoop ::
  "cryptoLib \<Rightarrow> ('a, 'd, 'w) stuckEnv \<Rightarrow> 'a \<Rightarrow> string \<Rightarrow> int \<Rightarrow> utxo list \<Rightarrow> (('d, 'w) txState, utxo list) action" where
  "unspentLoop C K hinkalABI contract chainID [] = liftA (Ok [])"
| "unspentLoop C K hinkalABI contract chainID (u # us) =
     bindA (liftA (nullifierOf C u)) (\<lambda>(nullifier, u').
     bindA (\<lambda>s. liftA (nullifierSpent K hinkalABI contract nullifier (tsWorld s)) s) (\<lambda>spent.
       if spent
       then (\<lambda>s. unspentLoop C K hinkalABI contract chainID us (rememberNullifier K chainID nullifier s))
       else bindA (unspentLoop C K hinkalABI contract chainID us) (\<lambda>rest. liftA (Ok (u' # rest)))))"

definition filterOnChainUnspentUtxos ::
  "('d, 'k, 'f, 'a, 'w) txEnv \<Rightarrow> ('a, 'd, 'w) stuckEnv \<Rightarrow> int \<Rightarrow> utxo list \<Rightarrow> (('d, 'w) txState, utxo list) action" where
  "filterOnChainUnspentUtxos E K chainID us =
     (if IsSolanaLike chainID \<or> us = [] then liftA (Ok us)
      else
        bindA (liftA (clHinkal (teContracts E) chainID)) (\<lambda>hinkalABI.
        bindA (liftA (skFetchClient K chainID)) (\<lambda>_.
        bindA (\<lambda>s. (if wlAddress (tsWallet s) chainID = [] then liftA (deployedHinkal E chainID s)
                    else liftA (Ok (wlAddress (tsWallet s) chainID))) s) (\<lambda>address.
          unspentLoop (teCrypto E) K hinkalABI (hexToAddress (teCrypto E) address) chainID us))))"

definition stuckParams :: "int \<Rightarrow> string \<Rightarrow> bool \<Rightarrow> inputUtxoParams" where
  "stuckParams chainID ethAddress remotely =
     \<lparr>ipChainID = chainID, ipPassedKey = [], ipEthAddress = ethAddress, ipResetCacheBefore = False, ipAllowRemote = remotely,
      ipUseBlocked = False\<rparr>"

definition positiveStuckUtxosForToken ::
  "('d, 'k, 'f, 'a, 'w) txEnv \<Rightarrow> ('a, 'd, 'w) stuckEnv \<Rightarrow> int \<Rightarrow> string \<Rightarrow> string \<Rightarrow> (('d, 'w) txState, utxo list) action" where
  "positiveStuckUtxosForToken E K chainID tokenAddress ethAddress =
     bindA (\<lambda>s. onWallet (GetInputUtxoAndBalanceOfStuckUtxos (teWallet E) (tronHex (teCrypto E))
              (stuckParams chainID ethAddress (wlProofRemotely (tsWallet s)))) s) (\<lambda>us.
     bindA (filterOnChainUnspentUtxos E K chainID (positiveUtxosForToken us chainID tokenAddress)) (\<lambda>unspent.
       liftA (Ok (sortAndCapStuckUtxos unspent))))"

subsection \<open>One withdrawal\<close>

definition getStuckInputAndOutputUtxos ::
  "('d, 'k, 'f, 'a, 'w) txEnv \<Rightarrow> int \<Rightarrow> string list \<Rightarrow> int list \<Rightarrow> (('d, 'w) txState, utxo list list \<times> utxo list list) action" where
  "getStuckInputAndOutputUtxos E chainID addresses changes =
     bindA (paddedInputs E chainID addresses changes 0 False True) (\<lambda>ins.
     bindA (onWallet (onKeys (outputRows (teCrypto E) (teOutClock E) (teOutRand E) (timeStampText E) [] None 0 addresses ins changes)))
       (\<lambda>outs. liftA (Ok (ins, outs))))"

definition getSolanaStuckInputAndOutputUtxos ::
  "('d, 'k, 'f, 'a, 'w) txEnv \<Rightarrow> int \<Rightarrow> string list \<Rightarrow> int list \<Rightarrow> (('d, 'w) txState, utxo list \<times> utxo list) action" where
  "getSolanaStuckInputAndOutputUtxos E chainID mints changes =
     bindA (paddedInputs E chainID mints changes 6 False True) (\<lambda>rows.
     bindA (liftA (firstRow rows)) (\<lambda>ins.
     bindA (liftA (firstRow changes)) (\<lambda>change.
     bindA (onWallet (onKeys (OutputUtxoProcessing (teCrypto E) (teOutClock E 0) (teOutRand E 0) ins change (timeStampText E) True
              [] None))) (\<lambda>outs. liftA (Ok (ins, outs))))))"

text \<open>What the recipient gets: everything but the fee.\<close>

definition stuckAmount :: "int \<Rightarrow> feeStructure \<Rightarrow> int res" where
  "stuckAmount totalAmount fs =
     (if totalAmount - fsFlatFee fs \<le> 0
      then Err (ErrMsg (''insufficient balance to cover fee. Balance: '' @ bigString totalAmount @ '', Fee: '' @ bigString (fsFlatFee fs)))
      else Ok (totalAmount - fsFlatFee fs))"

definition withdrawSingleStuckToken ::
  "('d, 'k, 'f, 'a, 'w) txEnv \<Rightarrow> int \<Rightarrow> erc20Token \<Rightarrow> int \<Rightarrow> string \<Rightarrow> (('d, 'w) txState, string \<times> int) action" where
  "withdrawSingleStuckToken E chainID token totalAmount recipientRaw =
     (let tokenAddress = tkAddress token in
      bindA (liftA (estimatedFees E chainID tokenAddress [tokenAddress] ''Transact'' None None)) (\<lambda>fs.
      bindA (relayerAddress E chainID) (\<lambda>relay.
      bindA (liftA (tronHex (teCrypto E) recipientRaw)) (\<lambda>recipient.
      bindA (liftA (stuckAmount totalAmount fs)) (\<lambda>amount.
      bindA (liftA (MergeWithFeeStructure (teTokens E) chainID [tokenAddress] [- amount] fs)) (\<lambda>(addresses, changes).
      bindA (getStuckInputAndOutputUtxos E chainID addresses changes) (\<lambda>(ins, outs).
      bindA (\<lambda>s. proveAs E (plainZkParams chainID s ins outs recipient fs relay []) s) (\<lambda>proof.
      bindA (relayProof E chainID proof) (\<lambda>txHash. liftA (Ok (txHash, amount)))))))))))"

definition withdrawSingleStuckTokenSolana ::
  "('d, 'k, 'f, 'a, 'w) txEnv \<Rightarrow> 'w solanaServices \<Rightarrow> int \<Rightarrow> erc20Token \<Rightarrow> int \<Rightarrow> string \<Rightarrow> nat \<Rightarrow>
   (('d, 'w) txState, string \<times> int) action" where
  "withdrawSingleStuckTokenSolana E S chainID token totalAmount recipient nullifierCount =
     (let mint = tkAddress token; mints = [mint] in
      bindA (liftA (estimatedFees E chainID mint mints ''Transact'' None
               (Some \<lparr>sgMintTo = mint, sgMintFrom = [], sgRecipient = recipient, sgNullifierCount = int nullifierCount\<rparr>))) (\<lambda>fs.
      bindA (relayerAddress E chainID) (\<lambda>relay.
      bindA (liftA (stuckAmount totalAmount fs)) (\<lambda>amount.
      (let changes = [- amount - fsFlatFee fs] in
       bindA (getSolanaStuckInputAndOutputUtxos E chainID mints changes) (\<lambda>(ins, outs).
       bindA (walletRandomization E S) (\<lambda>extraRandomization.
       bindA (liftA (solanaEncryptedOutputBytes E S 0 outs)) (\<lambda>(encryptedBytes, encryptedInts).
       bindA (liftA (EnsureAmountChanges (teCrypto E) [ins] [outs] changes)) (\<lambda>_.
       bindA (\<lambda>s. proveSolana E S 0 (plainSolanaParams chainID s mints [ins] [outs] extraRandomization (fsFlatFee fs)
                (fsVariableRate fs) recipient relay (dimensionsOf mints ins outs) encryptedBytes) s) (\<lambda>proof.
       bindA (callSolanaRelayer S (solanaBodyOf chainID relay ''transact''
                (PlainCall (solanaArgsOf proof encryptedInts (fsFlatFee fs) None (dimensionsOf mints ins outs))
                   (withdrawAccounts mint recipient)) proof)) (\<lambda>txHash.
         liftA (Ok (txHash, amount)))))))))))))"

definition withdrawStuckTokenByChainID ::
  "('d, 'k, 'f, 'a, 'w) txEnv \<Rightarrow> 'w solanaServices \<Rightarrow> int \<Rightarrow> erc20Token \<Rightarrow> int \<Rightarrow> string \<Rightarrow> nat \<Rightarrow>
   (('d, 'w) txState, string \<times> int) action" where
  "withdrawStuckTokenByChainID E S chainID token totalAmount recipient nullifierCount =
     (if totalAmount = 0 then liftA (Err (ErrMsg ''transactions: withdrawStuckUtxos no stuck UTXOs found''))
      else if IsSolanaLike chainID
      then withdrawSingleStuckTokenSolana E S chainID token totalAmount recipient nullifierCount
      else withdrawSingleStuckToken E chainID token totalAmount recipient)"

subsection \<open>The loop\<close>

text \<open>A round: \<open>None\<close> when nothing is stuck any more, else the hash of its withdrawal.\<close>

definition stuckRound ::
  "('d, 'k, 'f, 'a, 'w) txEnv \<Rightarrow> 'w solanaServices \<Rightarrow> ('a, 'd, 'w) stuckEnv \<Rightarrow> int \<Rightarrow> erc20Token \<Rightarrow> string \<Rightarrow> string \<Rightarrow>
   (('d, 'w) txState, string option) action" where
  "stuckRound E S K chainID token ethAddress recipient =
     bindA (skReset K chainID) (\<lambda>_.
     bindA (positiveStuckUtxosForToken E K chainID (tkAddress token) ethAddress) (\<lambda>stuckUtxos.
       if countStuckUtxoAmount stuckUtxos = 0 then liftA (Ok None)
       else
         bindA (withdrawStuckTokenByChainID E S chainID token (countStuckUtxoAmount stuckUtxos) recipient (length stuckUtxos))
           (\<lambda>(txHash, amount).
         bindA (onWorld (skWaitTx K chainID txHash 1)) (\<lambda>_. liftA (Ok (Some txHash))))))"

text \<open>The hashes of the rounds are returned with the error that ends the loop.\<close>

partial_function (option) stuckLoop ::
  "(nat \<Rightarrow> ('s, string option) action) \<Rightarrow> nat \<Rightarrow> string list \<Rightarrow> 's \<Rightarrow> ((string list \<times> go_error option) res \<times> 's) option" where
  "stuckLoop round n results s =
     (case round n s of
        (Ok None, s') \<Rightarrow> Some (Ok (results, None), s')
      | (Ok (Some txHash), s') \<Rightarrow> stuckLoop round (n + 1) (results @ [txHash]) s'
      | (Err e, s') \<Rightarrow> Some (Ok (results, Some e), s')
      | (Panic p, s') \<Rightarrow> Some (Panic p, s'))"

definition stuckTarget :: "erc20Token list \<Rightarrow> (('d, 'w) txState, int \<times> string) action" where
  "stuckTarget tokens =
     bindA (liftA (ValidateAndGetChainID tokens)) (\<lambda>chainID.
       if tokens = [] then liftA (Err (ErrMsg ''transactions: withdrawStuckUtxos action: no token found''))
       else if 1 < length tokens then liftA (Err (ErrMsg ''transactions: withdrawStuckUtxos supports one token''))
       else bindA (ethereumAddressOf chainID) (\<lambda>ethAddress. liftA (Ok (chainID, ethAddress))))"

definition HinkalWithdrawStuckUtxos ::
  "(nat \<Rightarrow> ('d, 'k, 'f, 'a, 'w) txEnv) \<Rightarrow> (nat \<Rightarrow> 'w solanaServices) \<Rightarrow> ('a, 'd, 'w) stuckEnv \<Rightarrow> erc20Token list \<Rightarrow> string \<Rightarrow>
   ('d, 'w) txState \<Rightarrow> ((string list \<times> go_error option) res \<times> ('d, 'w) txState) option" where
  "HinkalWithdrawStuckUtxos E S K tokens recipient s =
     (case stuckTarget tokens s of
        (Ok (chainID, ethAddress), s') \<Rightarrow>
          stuckLoop (\<lambda>n. stuckRound (E n) (S n) K chainID (hd tokens) ethAddress recipient) 0 [] s'
      | (Err e, s') \<Rightarrow> Some (Ok ([], Some e), s')
      | (Panic p, s') \<Rightarrow> Some (Panic p, s'))"

section \<open>Properties\<close>

text \<open>
  Before stuck utxos are withdrawn again, on EVM and Tron chains, the contract is asked about each of them; what it calls
  spent is left out of the amount and remembered in the wallet's nullifiers. The withdrawal selects its inputs anew, and it
  is these nullifiers, by their text, that keep the spent ones out of its rows.
\<close>

text \<open>What the contract said of the nullifier of a utxo.\<close>

definition answered ::
  "cryptoLib \<Rightarrow> ('a, 'd, 'w) stuckEnv \<Rightarrow> 'a \<Rightarrow> string \<Rightarrow> 'w \<Rightarrow> utxo \<Rightarrow> int \<times> utxo \<times> bool \<Rightarrow> bool" where
  "answered C K hinkalABI contract w u a =
     (case a of (n, u', spent) \<Rightarrow> nullifierOf C u = Ok (n, u') \<and> nullifierSpent K hinkalABI contract n w = Ok spent)"

lemma answered_simp [simp]:
  "answered C K hinkalABI contract w u (n, u', spent) \<longleftrightarrow>
     nullifierOf C u = Ok (n, u') \<and> nullifierSpent K hinkalABI contract n w = Ok spent"
  by (simp add: answered_def)

lemma rememberNullifier_world [simp]: "tsWorld (rememberNullifier K chainID n s) = tsWorld s"
  by (simp add: rememberNullifier_def)

lemma rememberNullifier_adds:
  "skKnown K chainID \<Longrightarrow> wlNullifiers (tsWallet (rememberNullifier K chainID n s)) chainID =
     insert (ToBeHex (Some n)) (wlNullifiers (tsWallet s) chainID)"
  by (simp add: rememberNullifier_def)

lemma unspentLoop_answers:
  assumes "unspentLoop C K hinkalABI contract chainID us s = (Ok out, s')"
  shows "\<exists>answers. list_all2 (answered C K hinkalABI contract (tsWorld s)) us answers \<and>
    out = map (fst \<circ> snd) (filter (\<lambda>a. \<not> snd (snd a)) answers) \<and> tsWorld s' = tsWorld s \<and>
    (skKnown K chainID \<longrightarrow> wlNullifiers (tsWallet s') chainID =
       wlNullifiers (tsWallet s) chainID \<union> (\<lambda>a. ToBeHex (Some (fst a))) ` set (filter (\<lambda>a. snd (snd a)) answers))"
  using assms
proof (induction us arbitrary: s out)
  case Nil
  then show ?case by (simp add: liftA_def)
next
  case (Cons u us)
  obtain n u' spent where u: "nullifierOf C u = Ok (n, u')" "nullifierSpent K hinkalABI contract n (tsWorld s) = Ok spent"
    using Cons.prems by (auto simp: bindA_def liftA_def split: res.splits prod.splits)
  show ?case
  proof (cases spent)
    case True
    let ?s = "rememberNullifier K chainID n s"
    have "unspentLoop C K hinkalABI contract chainID us ?s = (Ok out, s')"
      using Cons.prems u True by (simp add: bindA_def liftA_def)
    from Cons.IH[OF this] obtain answers where IH:
      "list_all2 (answered C K hinkalABI contract (tsWorld s)) us answers"
      "out = map (fst \<circ> snd) (filter (\<lambda>a. \<not> snd (snd a)) answers)" "tsWorld s' = tsWorld s"
      "skKnown K chainID \<longrightarrow> wlNullifiers (tsWallet s') chainID =
         wlNullifiers (tsWallet ?s) chainID \<union> (\<lambda>a. ToBeHex (Some (fst a))) ` set (filter (\<lambda>a. snd (snd a)) answers)"
      by auto
    show ?thesis
      by (rule exI[of _ "(n, u', True) # answers"]) (use IH u True rememberNullifier_adds[of K chainID n s] in auto)
  next
    case False
    obtain rest where rest: "unspentLoop C K hinkalABI contract chainID us s = (Ok rest, s')" "out = u' # rest"
      using Cons.prems u False by (auto simp: bindA_def liftA_def split: res.splits prod.splits)
    from Cons.IH[OF rest(1)] obtain answers where IH:
      "list_all2 (answered C K hinkalABI contract (tsWorld s)) us answers"
      "rest = map (fst \<circ> snd) (filter (\<lambda>a. \<not> snd (snd a)) answers)" "tsWorld s' = tsWorld s"
      "skKnown K chainID \<longrightarrow> wlNullifiers (tsWallet s') chainID =
         wlNullifiers (tsWallet s) chainID \<union> (\<lambda>a. ToBeHex (Some (fst a))) ` set (filter (\<lambda>a. snd (snd a)) answers)"
      by auto
    show ?thesis
      by (rule exI[of _ "(n, u', False) # answers"]) (use IH u False rest(2) in auto)
  qed
qed

subsection \<open>What is withdrawn again\<close>

text \<open>A utxo that adds nothing to a transaction or whose nullifier, as text, is not among those given.\<close>

definition notKnownSpent :: "cryptoLib \<Rightarrow> string set \<Rightarrow> utxo \<Rightarrow> bool" where
  "notKnownSpent C nullifiers u \<longleftrightarrow> uxAmount u = Some 0 \<or> (\<exists>n. GetNullifier C u = (Ok n, u) \<and> n \<notin> nullifiers)"

lemma padUtxo_adds_nothing: "padUtxo E src i = Ok u \<Longrightarrow> uxAmount u = Some 0"
  unfolding padUtxo_def by (drule NewUtxo_copies(1)) (simp add: padParams_def)

lemma stuck_found_unspent:
  assumes "GetInputUtxoAndBalanceOfStuckUtxos E hexf p w = (Ok us, w')" and "u \<in> set us"
  shows "\<exists>n. GetNullifier (weCrypto E) u = (Ok n, u) \<and> n \<notin> wlNullifiers w (ipChainID p)"
proof -
  obtain found w1 where found: "GetInputUtxoAndBalance E (p\<lparr>ipUseBlocked := True\<rparr>) w = (Ok found, w1)"
    using assms(1) by (auto simp: GetInputUtxoAndBalanceOfStuckUtxos_def bindA_eq_Ok liftA_eq)
  have "u \<in> set found"
    using assms found
    by (auto simp: GetInputUtxoAndBalanceOfStuckUtxos_def bindA_eq_Ok liftA_eq split: if_splits intro!: nth_mem)
  obtain src kept where kept: "filterSpentUtxos (weCrypto E) (wlNullifiers w (ipChainID (p\<lparr>ipUseBlocked := True\<rparr>))) src = Ok kept"
    "found = filter (\<lambda>u. uxIsBlocked u = ipUseBlocked (p\<lparr>ipUseBlocked := True\<rparr>)) kept"
    using call_steps [OF found] .
  have "u \<in> set kept" using \<open>u \<in> set found\<close> kept(2) by simp
  then show ?thesis using filterSpent_member [OF kept(1)] by simp
qed

lemma padded_stuck_rows:
  assumes "paddedInputs E chainID addresses changes maxInput False True t = (Ok rows, t')" and "row \<in> set rows" and "u \<in> set row"
  shows "notKnownSpent (teCrypto E) (wlNullifiers (tsWallet t) chainID) u"
proof -
  let ?P = "notKnownSpent (teCrypto E) (wlNullifiers (tsWallet t) chainID)"
  obtain w' where run: "AddPaddingToUtxos (teWallet E) (tronHex (teCrypto E)) (\<lambda>a. lookupToken (teTokens E) a chainID) chainID addresses
      changes maxInput None False True (tsWallet t) = (Ok rows, w')"
    using assms(1) by (auto simp: paddedInputs_def onWallet_def split: prod.splits)
  have pads: "\<forall>s i u. padUtxo (teWallet E) s i = Ok u \<longrightarrow> ?P u"
    by (simp add: notKnownSpent_def padUtxo_adds_nothing)
  have "\<forall>row\<in>set rows. \<forall>u\<in>set row. ?P u"
  proof (rule padded_rows_hold [OF run pads])
    fix p and w1 :: "'a wallet" and us w2
    assume same: "wlNullifiers w1 = wlNullifiers (tsWallet t)" and p: "ipChainID p = chainID"
      and found: "(if True then GetInputUtxoAndBalanceOfStuckUtxos (teWallet E) (tronHex (teCrypto E)) p
        else GetInputUtxoAndBalance (teWallet E) p) w1 = (Ok us, w2)"
    show "\<forall>u\<in>set us. ?P u"
      using stuck_found_unspent [of "teWallet E" _ p w1 us w2] found same p by (auto simp: notKnownSpent_def teCrypto_def)
  qed
  then show ?thesis using assms(2,3) by blast
qed

text \<open>The address of the contract that is asked: the one the wallet has, else the deployed one.\<close>

definition askedContract :: "('d, 'k, 'f, 'a, 'w) txEnv \<Rightarrow> int \<Rightarrow> ('d, 'w) txState \<Rightarrow> string res" where
  "askedContract E chainID s =
     (if wlAddress (tsWallet s) chainID = [] then deployedHinkal E chainID s else Ok (wlAddress (tsWallet s) chainID))"

lemma filterOnChain_runs:
  assumes "filterOnChainUnspentUtxos E K chainID us s = (Ok out, s')" and "\<not> IsSolanaLike chainID" and "us \<noteq> []"
  obtains hinkalABI address where "clHinkal (teContracts E) chainID = Ok hinkalABI" "askedContract E chainID s = Ok address"
    "unspentLoop (teCrypto E) K hinkalABI (hexToAddress (teCrypto E) address) chainID us s = (Ok out, s')"
  using assms by (auto simp: filterOnChainUnspentUtxos_def askedContract_def bindA_eq_Ok liftA_eq split: if_splits)

text \<open>The run of a withdrawal: its inputs are selected, proved and relayed from a state with the wallet it was given.\<close>

lemma withdrawSingle_runs:
  assumes "withdrawSingleStuckToken E chainID token amt recipient s1 = (Ok (txHash, paid), s2)"
  obtains t addresses changes ins outs t1 to fs relay zk t2 where "tsWallet t = tsWallet s1"
    "getStuckInputAndOutputUtxos E chainID addresses changes t = (Ok (ins, outs), t1)"
    "proveAs E (plainZkParams chainID t1 ins outs to fs relay []) t1 = (Ok zk, t2)"
    "relayProof E chainID zk t2 = (Ok txHash, s2)"
proof -
  obtain fs relay t to amount addresses changes ins outs t1 zk t2 where
    "relayerAddress E chainID s1 = (Ok relay, t)"
    and rest: "getStuckInputAndOutputUtxos E chainID addresses changes t = (Ok (ins, outs), t1)"
    "proveAs E (plainZkParams chainID t1 ins outs to fs relay []) t1 = (Ok zk, t2)"
    "relayProof E chainID zk t2 = (Ok txHash, s2)"
    using assms unfolding withdrawSingleStuckToken_def Let_def
    by (auto simp: bindA_eq_Ok liftA_eq split: prod.splits)
  moreover from this(1) have "tsWallet t = tsWallet s1"
    by (auto simp: relayerAddress_def onWorld_def bindA_eq_Ok liftA_eq split: prod.splits)
  ultimately show thesis by (intro that)
qed

lemma stuckInputs_rows:
  assumes "getStuckInputAndOutputUtxos E chainID addresses changes t = (Ok (ins, outs), t1)"
  obtains t' where "paddedInputs E chainID addresses changes 0 False True t = (Ok ins, t')"
  using assms by (auto simp: getStuckInputAndOutputUtxos_def bindA_eq_Ok liftA_eq split: prod.splits)

text \<open>C28: On an EVM or Tron chain whose nullifiers the wallet keeps, the stuck utxos that are counted for a withdrawal are the
  wallet's positive ones of the token whose nullifier the contract calls unspent, the six largest of them, largest first, and
  every nullifier found spent is among the wallet's nullifiers from then on. The withdrawal selects its inputs anew, and none
  of those it selects, proves and relays has the text of such a nullifier, except utxos of amount zero. Solana chains are
  not asked, so this says nothing of them.\<close>

theorem stuck_inputs_unspent:
  assumes chain: "\<not> IsSolanaLike chainID" and known: "skKnown K chainID"
    and selected: "positiveStuckUtxosForToken E K chainID (tkAddress token) ethAddress s = (Ok us, s1)"
  shows "\<exists>found t answers.
    onWallet (GetInputUtxoAndBalanceOfStuckUtxos (teWallet E) (tronHex (teCrypto E))
      (stuckParams chainID ethAddress (wlProofRemotely (tsWallet s)))) s = (Ok found, t) \<and>
    (positiveUtxosForToken found chainID (tkAddress token) = [] \<and> answers = [] \<or>
      (\<exists>hinkalABI address. clHinkal (teContracts E) chainID = Ok hinkalABI \<and> askedContract E chainID t = Ok address \<and>
        list_all2 (answered (teCrypto E) K hinkalABI (hexToAddress (teCrypto E) address) (tsWorld s))
          (positiveUtxosForToken found chainID (tkAddress token)) answers)) \<and>
    us = take 6 (sort_key (\<lambda>u. - amountOf u) (map (fst \<circ> snd) (filter (\<lambda>a. \<not> snd (snd a)) answers))) \<and>
    (\<forall>n u. (n, u, True) \<in> set answers \<longrightarrow> ToBeHex (Some n) \<in> wlNullifiers (tsWallet s1) chainID) \<and>
    (\<forall>t1 addresses changes ins outs t2.
      tsWallet t1 = tsWallet s1 \<and> getStuckInputAndOutputUtxos E chainID addresses changes t1 = (Ok (ins, outs), t2) \<longrightarrow>
      (\<forall>row\<in>set ins. \<forall>u\<in>set row. notKnownSpent (teCrypto E) (wlNullifiers (tsWallet s1) chainID) u)) \<and>
    (\<forall>recipient txHash paid s2.
      withdrawSingleStuckToken E chainID token (countStuckUtxoAmount us) recipient s1 = (Ok (txHash, paid), s2) \<longrightarrow>
      (\<exists>t2 ins outs to fs relay zk t3.
        (\<forall>row\<in>set ins. \<forall>u\<in>set row. notKnownSpent (teCrypto E) (wlNullifiers (tsWallet s1) chainID) u) \<and>
        proveAs E (plainZkParams chainID t2 ins outs to fs relay []) t2 = (Ok zk, t3) \<and>
        relayProof E chainID zk t3 = (Ok txHash, s2)))"
proof -
  let ?token = "tkAddress token" let ?nulls = "wlNullifiers (tsWallet s1) chainID"
  obtain found t unspent where found: "onWallet (GetInputUtxoAndBalanceOfStuckUtxos (teWallet E) (tronHex (teCrypto E))
      (stuckParams chainID ethAddress (wlProofRemotely (tsWallet s)))) s = (Ok found, t)"
    and kept: "filterOnChainUnspentUtxos E K chainID (positiveUtxosForToken found chainID ?token) t = (Ok unspent, s1)"
    and us: "us = sortAndCapStuckUtxos unspent"
    using selected by (auto simp: positiveStuckUtxosForToken_def bindA_eq_Ok liftA_eq)
  have world: "tsWorld t = tsWorld s" using found by (auto simp: onWallet_def split: prod.splits)
  have rows: "notKnownSpent (teCrypto E) ?nulls u"
    if same: "tsWallet t1 = tsWallet s1" and run: "getStuckInputAndOutputUtxos E chainID addresses changes t1 = (Ok (ins, outs), t2)"
      and mem: "row \<in> set ins" "u \<in> set row" for t1 addresses changes ins outs t2 row u
  proof -
    obtain t' where "paddedInputs E chainID addresses changes 0 False True t1 = (Ok ins, t')" using stuckInputs_rows [OF run] .
    from padded_stuck_rows [OF this mem] show ?thesis by (simp add: same)
  qed
  have relayed: "\<exists>t2 ins outs to fs relay zk t3.
        (\<forall>row\<in>set ins. \<forall>u\<in>set row. notKnownSpent (teCrypto E) ?nulls u) \<and>
        proveAs E (plainZkParams chainID t2 ins outs to fs relay []) t2 = (Ok zk, t3) \<and>
        relayProof E chainID zk t3 = (Ok txHash, s2)"
    if run: "withdrawSingleStuckToken E chainID token (countStuckUtxoAmount us) recipient s1 = (Ok (txHash, paid), s2)"
    for recipient txHash paid s2
    by (rule withdrawSingle_runs [OF run]) (blast intro: rows)
  obtain answers where answers: "positiveUtxosForToken found chainID ?token = [] \<and> answers = [] \<or>
      (\<exists>hinkalABI address. clHinkal (teContracts E) chainID = Ok hinkalABI \<and> askedContract E chainID t = Ok address \<and>
        list_all2 (answered (teCrypto E) K hinkalABI (hexToAddress (teCrypto E) address) (tsWorld s))
          (positiveUtxosForToken found chainID ?token) answers)"
    and out: "unspent = map (fst \<circ> snd) (filter (\<lambda>a. \<not> snd (snd a)) answers)"
    and spent: "\<forall>n u. (n, u, True) \<in> set answers \<longrightarrow> ToBeHex (Some n) \<in> ?nulls"
  proof (cases "positiveUtxosForToken found chainID ?token = []")
    case True
    then have "unspent = []" using kept by (simp add: filterOnChainUnspentUtxos_def liftA_eq)
    then show thesis using True by (intro that [of "[]"]) simp_all
  next
    case False
    obtain hinkalABI address where asked: "clHinkal (teContracts E) chainID = Ok hinkalABI" "askedContract E chainID t = Ok address"
      and loop: "unspentLoop (teCrypto E) K hinkalABI (hexToAddress (teCrypto E) address) chainID
        (positiveUtxosForToken found chainID ?token) t = (Ok unspent, s1)"
      using filterOnChain_runs [OF kept chain False] .
    from unspentLoop_answers [OF loop] known obtain answers where
      "list_all2 (answered (teCrypto E) K hinkalABI (hexToAddress (teCrypto E) address) (tsWorld t))
          (positiveUtxosForToken found chainID ?token) answers"
      "unspent = map (fst \<circ> snd) (filter (\<lambda>a. \<not> snd (snd a)) answers)"
      "?nulls = wlNullifiers (tsWallet t) chainID \<union> (\<lambda>a. ToBeHex (Some (fst a))) ` set (filter (\<lambda>a. snd (snd a)) answers)"
      by blast
    then show thesis using asked world by (intro that [of answers]) force+
  qed
  show ?thesis
  proof (intro exI [of _ found] exI [of _ t] exI [of _ answers] conjI)
    show "us = take 6 (sort_key (\<lambda>u. - amountOf u) (map (fst \<circ> snd) (filter (\<lambda>a. \<not> snd (snd a)) answers)))"
      by (simp only: us out sortAndCapStuckUtxos_def)
    show "\<forall>t1 addresses changes ins outs t2.
      tsWallet t1 = tsWallet s1 \<and> getStuckInputAndOutputUtxos E chainID addresses changes t1 = (Ok (ins, outs), t2) \<longrightarrow>
      (\<forall>row\<in>set ins. \<forall>u\<in>set row. notKnownSpent (teCrypto E) ?nulls u)"
      by (intro allI impI ballI) (erule conjE, rule rows)
  qed (rule found, rule answers, rule spent, intro allI impI, rule relayed)
qed

subsection \<open>Two stuck utxos, one of them spent\<close>

definition stuckUtxo :: "int \<Rightarrow> utxo" where
  "stuckUtxo n = toyUtxo\<lparr>uxNullifier := ToBeHex (Some n), uxIsBlocked := True\<rparr>"

definition stuckWalletEnv :: "memoryCache walletEnv" where
  "stuckWalletEnv = padEnv\<lparr>weRemote := \<lambda>_ _. Ok ([stuckUtxo 77, stuckUtxo 78], [], []), weScheduled := \<lambda>_ _. Ok [0, 1]\<rparr>"

definition stuckEnvironment :: "(memoryCache, unit, nat, unit, int) txEnv" where
  "stuckEnvironment = claimEnv\<lparr>teWallet := stuckWalletEnv,
     teContracts := (undefined :: unit contractLib)\<lparr>clHinkal := \<lambda>_. Ok ()\<rparr>\<rparr>"

definition stuckWallet :: "memoryCache wallet" where
  "stuckWallet = signerWallet\<lparr>wlProofRemotely := True\<rparr>"

definition stuckState :: "(memoryCache, int) txState" where
  "stuckState = \<lparr>tsWallet = stuckWallet, tsTrees = (\<lambda>_. None), tsDeploy = undefined, tsWorld = 0\<rparr>"

text \<open>A contract for which nullifier 77 is spent.\<close>

definition toyStuck :: "(unit, memoryCache, int) stuckEnv" where
  "toyStuck =
     \<lparr>skPack = (\<lambda>_ n. Ok [if n = 77 then 1 else 0]), skUnpack = (\<lambda>_ out. Ok [Inl (out = [1])]), skFetchClient = (\<lambda>_. Ok ()),
      skCall = (\<lambda>_ data w. Ok data), skKnown = (\<lambda>_. True), skReset = (\<lambda>_. liftA (Ok ())), skWaitTx = (\<lambda>_ _ _. liftA (Ok True))\<rparr>"

lemma stuckUtxo_fields [simp]:
  "uxNullifier (stuckUtxo n) = ToBeHex (Some n)" "uxIsBlocked (stuckUtxo n)" "uxAmount (stuckUtxo n) = Some 25"
  "amountOf (stuckUtxo n) = 25" "uxErc20 (stuckUtxo n) = ToBeHex (Some 66)" "uxNullifyingKey (stuckUtxo n) = ToBeHex (Some 11)"
  by (simp_all add: stuckUtxo_def toyUtxo_def amountOf_def)

lemma stuckUtxo_nullifier [simp]: "GetNullifier C (stuckUtxo n) = (Ok (ToBeHex (Some n)), stuckUtxo n)"
proof -
  have "ToBeHex (Some n) \<noteq> []" by (simp add: ToBeHex_def Let_def)
  then show ?thesis by (simp add: GetNullifier_def)
qed

lemma stuckWalletEnv_fields [simp]:
  "weCrypto stuckWalletEnv = toyCrypto" "weDevice stuckWalletEnv = memoryDevice"
  "weRemote stuckWalletEnv = (\<lambda>_ _. Ok ([stuckUtxo 77, stuckUtxo 78], [], []))" "weScheduled stuckWalletEnv = (\<lambda>_ _. Ok [0, 1])"
  "weJson stuckWalletEnv = \<lparr>cacheText = (\<lambda>_. Ok ''c''), cacheParse = (\<lambda>_. Some emptyHinkalCache)\<rparr>"
  "padUtxo stuckWalletEnv = padUtxo padEnv"
  by (simp_all add: stuckWalletEnv_def fun_eq_iff padUtxo_def)

lemma stuckEnvironment_fields [simp]:
  "teWallet stuckEnvironment = stuckWalletEnv" "teCrypto stuckEnvironment = toyCrypto" "clHinkal (teContracts stuckEnvironment) n = Ok ()"
  "teOutClock stuckEnvironment = (\<lambda>_ _. bigString 7)" "teOutRand stuckEnvironment = (\<lambda>_ _ _. Ok [50])"
  by (simp_all add: stuckEnvironment_def teCrypto_def)

lemma toy_nullifiers_differ: "ToBeHex (Some 77) \<noteq> ToBeHex (Some 78)"
  by code_simp

lemma toyStuck_spent [simp]: "nullifierSpent toyStuck a contract n w = Ok (n = 77)"
  by (simp add: nullifierSpent_def toyStuck_def)

lemma stuck_call:
  assumes "wlKeys w = signerKeys" "wlOutputs w 1 = []" "\<not> wlUpdatesDisabled w" "wlAddress w 1 \<noteq> []" "ToBeHex (Some 78) \<notin> wlNullifiers w 1"
  shows "\<exists>c. GetInputUtxoAndBalanceOfStuckUtxos stuckWalletEnv hexf \<lparr>ipChainID = 1, ipPassedKey = [], ipEthAddress = eth,
      ipResetCacheBefore = False, ipAllowRemote = True, ipUseBlocked = b\<rparr> w =
    (Ok (if ToBeHex (Some 77) \<in> wlNullifiers w 1 then [stuckUtxo 78] else [stuckUtxo 77, stuckUtxo 78]), w\<lparr>wlCache := c\<rparr>)"
proof -
  have chain: "\<not> IsTronLike 1" by code_simp
  have w: "w\<lparr>wlKeys := signerKeys\<rparr> = w" using assms(1) by simp
  have cached: "GetHinkalCache (weJson stuckWalletEnv) (weDevice stuckWalletEnv) (wlAddress w) 1 (ToBeHex (Some 12)) (wlCache w) = Ok emptyHinkalCache"
    using assms(4) by (simp add: GetHinkalCache_def memoryDevice_def memoryGet_def Let_def emptyHinkalCache_def shortStrings_def split: option.split)
  have set: "\<exists>c. setCache stuckWalletEnv 1 (ToBeHex (Some 12)) \<lparr>hcOutputs = [], hcLastOutput = []\<rparr> w = (Ok (), w\<lparr>wlCache := c\<rparr>)"
    using assms(4) by (simp add: setCache_def onCache_def SetHinkalCache_def memoryDevice_def memorySet_def shortStrings_def Let_def) blast
  then obtain c where c: "setCache stuckWalletEnv 1 (ToBeHex (Some 12)) \<lparr>hcOutputs = [], hcLastOutput = []\<rparr> w = (Ok (), w\<lparr>wlCache := c\<rparr>)"
    by blast
  have "GetInputUtxoAndBalanceOfStuckUtxos stuckWalletEnv hexf \<lparr>ipChainID = 1, ipPassedKey = [], ipEthAddress = eth,
      ipResetCacheBefore = False, ipAllowRemote = True, ipUseBlocked = b\<rparr> w =
    (Ok (if ToBeHex (Some 77) \<in> wlNullifiers w 1 then [stuckUtxo 78] else [stuckUtxo 77, stuckUtxo 78]), w\<lparr>wlCache := c\<rparr>)"
    using assms signer_public chain cached
    by (simp add: w c GetInputUtxoAndBalanceOfStuckUtxos_def GetInputUtxoAndBalance_def Let_def bindA_def onKeys_def liftA_def
        indexOfOutput_def emptyHinkalCache_def attemptGetInputUtxosRemotely_def getInputUtxosRemotely_def)
  then show ?thesis by blast
qed

abbreviation stuckToken :: string where
  "stuckToken \<equiv> ToBeHex (Some 66)"

lemma stuck_selected:
  "\<exists>c. positiveStuckUtxosForToken stuckEnvironment toyStuck 1 stuckToken [] stuckState =
     (Ok [stuckUtxo 78], rememberNullifier toyStuck 1 77 (stuckState\<lparr>tsWallet := stuckWallet\<lparr>wlCache := c\<rparr>\<rparr>))"
proof -
  have chain: "\<not> IsSolanaLike 1" by code_simp
  have token: "stuckToken \<noteq> []" by (simp add: ToBeHex_def Let_def)
  have mine: "hasTokenAddress 1 stuckToken (stuckUtxo n)" for n
    using chain token by (simp add: hasTokenAddress_def GetTokenAddress_def equalFold_def)
  obtain c where call: "GetInputUtxoAndBalanceOfStuckUtxos stuckWalletEnv (tronHex toyCrypto) (stuckParams 1 [] True) stuckWallet =
      (Ok [stuckUtxo 77, stuckUtxo 78], stuckWallet\<lparr>wlCache := c\<rparr>)"
    using stuck_call [of stuckWallet "tronHex toyCrypto" "[]" False]
    by (auto simp: stuckWallet_def stuckParams_def)
  have asked: "nullifierOf toyCrypto (stuckUtxo 77) = Ok (77, stuckUtxo 77)" "nullifierOf toyCrypto (stuckUtxo 78) = Ok (78, stuckUtxo 78)"
    by (simp_all add: nullifierOf_def)
  have "wlAddress stuckWallet 1 \<noteq> []" "wlProofRemotely stuckWallet" by (simp_all add: stuckWallet_def)
  then show ?thesis
    using call chain asked mine
    by (intro exI [of _ c])
       (simp add: positiveStuckUtxosForToken_def filterOnChainUnspentUtxos_def positiveUtxosForToken_def bindA_def liftA_def
         onWallet_def stuckState_def sortAndCapStuckUtxos_def toyStuck_def [THEN arg_cong, of skFetchClient])
qed

lemma stuck_rows:
  assumes "wlKeys w = signerKeys" "wlOutputs w 1 = []" "\<not> wlUpdatesDisabled w" "wlAddress w 1 \<noteq> []"
    "ToBeHex (Some 78) \<notin> wlNullifiers w 1" "ToBeHex (Some 77) \<in> wlNullifiers w 1" "wlEthAddress w 1 = Ok []" "wlProofRemotely w"
  shows "\<exists>pad w'. uxAmount pad = Some 0 \<and> wlKeys w' = signerKeys \<and>
    AddPaddingToUtxos stuckWalletEnv hexf g 1 [stuckToken] [- 25] 0 None False True w = (Ok [[stuckUtxo 78, pad]], w')"
proof -
  have chain: "\<not> IsSolanaLike 1" by code_simp
  have token: "stuckToken \<noteq> []" by (simp add: ToBeHex_def Let_def)
  obtain a b where pair: "GetSpendingKeyPair toyCrypto signerKeys = (Ok (a, b), signerKeys)" using signer_pair by blast
  obtain c where call: "GetInputUtxoAndBalanceOfStuckUtxos stuckWalletEnv hexf \<lparr>ipChainID = 1, ipPassedKey = [], ipEthAddress = [],
      ipResetCacheBefore = False, ipAllowRemote = True, ipUseBlocked = True\<rparr> w = (Ok [stuckUtxo 78], w\<lparr>wlCache := c\<rparr>)"
    using stuck_call [OF assms(1-5), of hexf "[]" True] assms(6) by auto
  let ?k = "encodeTokenWithID 1 stuckToken"
  let ?src = "\<lparr>psPrivate = ToBeHex (Some 11), psSpending = [fst b, snd b], psErc20 = toLower (hd (splitStr ?k ''-'')), psMint = []\<rparr>"
  obtain pad where pad: "padUtxo padEnv ?src 0 = Ok pad" using toy_pad [of ?src 0] by (auto simp: isOk_iff)
  have "padLoop (padUtxo padEnv ?src) 2 False 0 [stuckUtxo 78] = Some (Ok ([stuckUtxo 78, pad], 1))"
    by (subst padLoop.simps) (simp add: pad padLoop.simps)
  then have table: "padTable stuckWalletEnv 1 (ToBeHex (Some 11)) [fst b, snd b] 2 False 0 [(?k, [stuckUtxo 78])] = Ok ([(?k, [stuckUtxo 78, pad])], 1)"
    by (simp add: sourceOfKey_def chain sortAndPadUtxos_def sortUtxos_def)
  have grouped: "ensureKeys 1 [\<lparr>twAddress = stuckToken, twID = 0\<rparr>] (groupUtxos 1 None [stuckUtxo 78] []) = [(?k, [stuckUtxo 78])]"
    using chain token by (simp add: GetTokenAddress_def addUtxo_def addKey_def tableGet_def)
  have w: "w\<lparr>wlKeys := signerKeys\<rparr> = w" using assms(1) by simp
  have "AddPaddingToUtxos stuckWalletEnv hexf g 1 [stuckToken] [- 25] 0 None False True w = (Ok [[stuckUtxo 78, pad]], w\<lparr>wlCache := c\<rparr>)"
    using assms(1,7,8) pair signer_private call table grouped
    by (simp add: w AddPaddingToUtxos_def Let_def bindA_def onKeys_def liftA_def GetInputUtxoAndBalancePerToken_def
        paddedRows_def tableGet_def maxLength_def)
  then show ?thesis using padUtxo_adds_nothing [OF pad] assms(1) by (intro exI [of _ pad]) auto
qed

lemma stuck_outputs:
  assumes "uxAmount pad = Some 0" "wlKeys (tsWallet t) = signerKeys"
  shows "\<exists>outs t'. onWallet (onKeys (outputRows toyCrypto (\<lambda>_ _. bigString 7) (\<lambda>_ _ _. Ok [50]) ts [] None 0 [stuckToken]
    [[stuckUtxo 78, pad]] [- 25])) t = (Ok outs, t')"
proof -
  obtain a b where pair: "GetSpendingKeyPair toyCrypto signerKeys = (Ok (a, b), signerKeys)" using signer_pair by blast
  obtain u where u: "NewUtxo toyCrypto (bigString 7) (\<lambda>_. Ok [50])
      (changeParams (stuckUtxo 78) (Some 0) ts (ToBeHex (Some 11)) b) = Ok u"
    using toy_change by (fastforce simp: changeParams_def)
  show ?thesis
    by (simp add: onWallet_def onKeys_def assms OutputUtxoProcessing_def bindA_def liftA_def signer_private pair u)
qed

theorem stuck_inputs_unspent_witness:
  "\<exists>s1 ins outs t. positiveStuckUtxosForToken stuckEnvironment toyStuck 1 stuckToken [] stuckState = (Ok [stuckUtxo 78], s1) \<and>
     ToBeHex (Some 77) \<in> wlNullifiers (tsWallet s1) 1 \<and>
     getStuckInputAndOutputUtxos stuckEnvironment 1 [stuckToken] [- 25] s1 = (Ok (ins, outs), t) \<and>
     stuckUtxo 78 \<in> set (hd ins) \<and>
     (\<forall>row\<in>set ins. \<forall>u\<in>set row. notKnownSpent toyCrypto (wlNullifiers (tsWallet s1) 1) u)"
proof -
  have chain: "\<not> IsSolanaLike 1" by code_simp
  have known: "skKnown toyStuck 1" by (simp add: toyStuck_def)
  obtain c where sel: "positiveStuckUtxosForToken stuckEnvironment toyStuck 1 stuckToken [] stuckState =
      (Ok [stuckUtxo 78], rememberNullifier toyStuck 1 77 (stuckState\<lparr>tsWallet := stuckWallet\<lparr>wlCache := c\<rparr>\<rparr>))"
    using stuck_selected by blast
  let ?s1 = "rememberNullifier toyStuck 1 77 (stuckState\<lparr>tsWallet := stuckWallet\<lparr>wlCache := c\<rparr>\<rparr>)"
  have w: "tsWallet ?s1 = stuckWallet\<lparr>wlCache := c, wlNullifiers := (\<lambda>_. {})(1 := {ToBeHex (Some 77)})\<rparr>"
    using known by (simp add: rememberNullifier_def stuckWallet_def signerWallet_def freshWallet_def toyWallet_def)
  have spent: "ToBeHex (Some 77) \<in> wlNullifiers (tsWallet ?s1) 1" by (simp add: w)
  have "\<exists>pad w'. uxAmount pad = Some 0 \<and> wlKeys w' = signerKeys \<and> AddPaddingToUtxos stuckWalletEnv (tronHex toyCrypto)
      (\<lambda>a. lookupToken (teTokens stuckEnvironment) a 1) 1 [stuckToken] [- 25] 0 None False True (tsWallet ?s1) = (Ok [[stuckUtxo 78, pad]], w')"
    by (rule stuck_rows)
       (unfold w, use toy_nullifiers_differ in \<open>simp_all add: stuckWallet_def signerWallet_def freshWallet_def toyWallet_def\<close>)
  then obtain pad w' where pad: "uxAmount pad = Some 0" "wlKeys w' = signerKeys"
    and rows: "AddPaddingToUtxos stuckWalletEnv (tronHex toyCrypto) (\<lambda>a. lookupToken (teTokens stuckEnvironment) a 1) 1
      [stuckToken] [- 25] 0 None False True (tsWallet ?s1) = (Ok [[stuckUtxo 78, pad]], w')" by blast
  obtain outs t where outs: "onWallet (onKeys (outputRows toyCrypto (\<lambda>_ _. bigString 7) (\<lambda>_ _ _. Ok [50]) (timeStampText stuckEnvironment)
      [] None 0 [stuckToken] [[stuckUtxo 78, pad]] [- 25])) (?s1\<lparr>tsWallet := w'\<rparr>) = (Ok outs, t)"
    using stuck_outputs [OF pad(1), of "?s1\<lparr>tsWallet := w'\<rparr>" "timeStampText stuckEnvironment"] pad(2)
    by (auto simp del: outputRows.simps)
  have run: "getStuckInputAndOutputUtxos stuckEnvironment 1 [stuckToken] [- 25] ?s1 = (Ok ([[stuckUtxo 78, pad]], outs), t)"
    using rows outs by (simp add: getStuckInputAndOutputUtxos_def paddedInputs_def onWallet_def [of "AddPaddingToUtxos _ _ _ _ _ _ _ _ _ _"]
        bindA_def liftA_def)
  have "positiveStuckUtxosForToken stuckEnvironment toyStuck 1 (tkAddress (minimalToken 1 stuckToken)) [] stuckState = (Ok [stuckUtxo 78], ?s1)"
    using sel by (simp add: minimalToken_def)
  from stuck_inputs_unspent [OF chain known this] run
  have "\<forall>row\<in>set [[stuckUtxo 78, pad]]. \<forall>u\<in>set row. notKnownSpent (teCrypto stuckEnvironment) (wlNullifiers (tsWallet ?s1) 1) u"
    by blast
  then show ?thesis using sel spent run by (intro exI [of _ ?s1] exI [of _ "[[stuckUtxo 78, pad]]"] exI [of _ outs] exI [of _ t]) simp
qed

end
