(* ===== verification/JsonDecode.thy ===== *)
theory JsonDecode
  imports ChainEvents "HOL-Library.AList"
begin

text \<open>
  How \<open>encoding/json\<close> decodes a value into Go data, for the answers of servers and nodes. A decoder takes what the variable
  holds and the value and gives what it holds then: keys match without regard to case, a missing or \<open>null\<close> field keeps what it
  had, and a value of another type is an error. \<open>readFields\<close> decodes an object into a struct whose fields are given as a table.
\<close>

subsection \<open>Decoding into structs\<close>

fun foldField :: "string \<Rightarrow> ('a \<Rightarrow> json \<Rightarrow> 'a res) \<Rightarrow> 'a \<Rightarrow> (string \<times> json) list \<Rightarrow> 'a res" where
  "foldField name f cur [] = Ok cur"
| "foldField name f cur ((k, v) # kvs) =
     (if equalFold k name then andThen (f cur v) (\<lambda>new. foldField name f new kvs) else foldField name f cur kvs)"

definition cannotUnmarshal :: "'a res" where
  "cannotUnmarshal = Err (ErrMsg ''json: cannot unmarshal value'')"

definition ontoString :: "string \<Rightarrow> json \<Rightarrow> string res" where
  "ontoString cur v = (case v of JStr s \<Rightarrow> Ok s | JNull \<Rightarrow> Ok cur | _ \<Rightarrow> cannotUnmarshal)"

definition ontoInt :: "int \<Rightarrow> json \<Rightarrow> int res" where
  "ontoInt cur v =
     (case v of
        JNum t \<Rightarrow> (case setString 10 t of
                    None \<Rightarrow> cannotUnmarshal
                  | Some n \<Rightarrow> if hasPrefix t ''+'' \<or> n < - (2 ^ 63) \<or> 2 ^ 63 \<le> n then cannotUnmarshal else Ok n)
      | JNull \<Rightarrow> Ok cur
      | _ \<Rightarrow> cannotUnmarshal)"

definition ontoUint64 :: "u64 \<Rightarrow> json \<Rightarrow> u64 res" where
  "ontoUint64 cur v =
     (case v of
        JNum t \<Rightarrow> (case uint64OfText t of None \<Rightarrow> cannotUnmarshal | Some n \<Rightarrow> Ok n)
      | JNull \<Rightarrow> Ok cur
      | _ \<Rightarrow> cannotUnmarshal)"

definition ontoList :: "(json \<Rightarrow> 'a res) \<Rightarrow> 'a list \<Rightarrow> json \<Rightarrow> 'a list res" where
  "ontoList f cur v = (case v of JArr vs \<Rightarrow> mapRes f vs | JNull \<Rightarrow> Ok [] | _ \<Rightarrow> cannotUnmarshal)"

definition ontoStruct :: "('a \<Rightarrow> (string \<times> json) list \<Rightarrow> 'a res) \<Rightarrow> 'a \<Rightarrow> json \<Rightarrow> 'a res" where
  "ontoStruct f cur v = (case v of JObj kvs \<Rightarrow> f cur kvs | JNull \<Rightarrow> Ok cur | _ \<Rightarrow> cannotUnmarshal)"

text \<open>A pointer to a struct: \<open>null\<close> makes it nil, an object fills the struct it points to, or a new one.\<close>

definition ontoPointer :: "('a \<Rightarrow> (string \<times> json) list \<Rightarrow> 'a res) \<Rightarrow> 'a \<Rightarrow> 'a option \<Rightarrow> json \<Rightarrow> 'a option res" where
  "ontoPointer f zero cur v =
     (case v of
        JNull \<Rightarrow> Ok None
      | JObj kvs \<Rightarrow> andThen (f (case cur of None \<Rightarrow> zero | Some c \<Rightarrow> c) kvs) (\<lambda>x. Ok (Some x))
      | _ \<Rightarrow> cannotUnmarshal)"

definition ontoBool :: "bool \<Rightarrow> json \<Rightarrow> bool res" where
  "ontoBool cur v = (case v of JBool b \<Rightarrow> Ok b | JNull \<Rightarrow> Ok cur | _ \<Rightarrow> cannotUnmarshal)"

text \<open>A pointer to a plain value: \<open>null\<close> makes it nil, anything else is decoded into a new value or the one it points to.\<close>

definition ontoRef :: "('a \<Rightarrow> json \<Rightarrow> 'a res) \<Rightarrow> 'a \<Rightarrow> 'a option \<Rightarrow> json \<Rightarrow> 'a option res" where
  "ontoRef dec zero cur v =
     (case v of
        JNull \<Rightarrow> Ok None
      | _ \<Rightarrow> andThen (dec (case cur of None \<Rightarrow> zero | Some c \<Rightarrow> c) v) (\<lambda>x. Ok (Some x)))"

text \<open>A fixed array of two: missing entries are zero, further ones are dropped, \<open>null\<close> changes nothing.\<close>

definition ontoTwo :: "('a \<Rightarrow> json \<Rightarrow> 'a res) \<Rightarrow> 'a \<Rightarrow> 'a \<times> 'a \<Rightarrow> json \<Rightarrow> ('a \<times> 'a) res" where
  "ontoTwo dec zero cur v =
     (case v of
        JArr vs \<Rightarrow>
          andThen (case vs of x # _ \<Rightarrow> dec (fst cur) x | [] \<Rightarrow> Ok zero) (\<lambda>a.
          andThen (case vs of _ # y # _ \<Rightarrow> dec (snd cur) y | _ \<Rightarrow> Ok zero) (\<lambda>b. Ok (a, b)))
      | JNull \<Rightarrow> Ok cur
      | _ \<Rightarrow> cannotUnmarshal)"

text \<open>\<open>map[string]string\<close>: an entry replaces an earlier one, a value \<open>null\<close> is the empty text.\<close>

definition ontoStringMap :: "(string \<times> string) list option \<Rightarrow> json \<Rightarrow> (string \<times> string) list option res" where
  "ontoStringMap cur v =
     (case v of
        JObj kvs \<Rightarrow>
          andThen (mapRes (\<lambda>(k, x). andThen (ontoString [] x) (\<lambda>t. Ok (k, t))) kvs) (\<lambda>entries.
            Ok (Some (fold (\<lambda>(k, t). AList.update k t) entries (case cur of None \<Rightarrow> [] | Some m \<Rightarrow> m))))
      | JNull \<Rightarrow> Ok None
      | _ \<Rightarrow> cannotUnmarshal)"

text \<open>The table of a struct: the name of a field and what a value does to the struct; the exact name is preferred.\<close>

definition field :: "string \<Rightarrow> ('a \<Rightarrow> json \<Rightarrow> 'a res) \<Rightarrow> ('r \<Rightarrow> 'a) \<Rightarrow> (('a \<Rightarrow> 'a) \<Rightarrow> 'r \<Rightarrow> 'r) \<Rightarrow>
    string \<times> ('r \<Rightarrow> json \<Rightarrow> 'r res)" where
  "field name dec get upd = (name, \<lambda>r v. andThen (dec (get r) v) (\<lambda>a. Ok (upd (\<lambda>_. a) r)))"

definition fieldNamed :: "(string \<times> 'f) list \<Rightarrow> string \<Rightarrow> 'f option" where
  "fieldNamed fs k =
     (case map_of fs k of
        Some f \<Rightarrow> Some f
      | None \<Rightarrow> (case filter (\<lambda>(n, _). equalFold k n) fs of [] \<Rightarrow> None | (_, f) # _ \<Rightarrow> Some f))"

fun readFields :: "(string \<times> ('r \<Rightarrow> json \<Rightarrow> 'r res)) list \<Rightarrow> 'r \<Rightarrow> (string \<times> json) list \<Rightarrow> 'r res" where
  "readFields fs cur [] = Ok cur"
| "readFields fs cur ((k, v) # kvs) =
     (case fieldNamed fs k of
        None \<Rightarrow> readFields fs cur kvs
      | Some f \<Rightarrow> andThen (f cur v) (\<lambda>new. readFields fs new kvs))"

definition ontoRecord :: "(string \<times> ('r \<Rightarrow> json \<Rightarrow> 'r res)) list \<Rightarrow> 'r \<Rightarrow> json \<Rightarrow> 'r res" where
  "ontoRecord fs cur v = ontoStruct (readFields fs) cur v"

definition ontoRecords :: "(string \<times> ('r \<Rightarrow> json \<Rightarrow> 'r res)) list \<Rightarrow> 'r \<Rightarrow> 'r list \<Rightarrow> json \<Rightarrow> 'r list res" where
  "ontoRecords fs zero cur v = ontoList (ontoRecord fs zero) cur v"

definition ontoStrings :: "string list \<Rightarrow> json \<Rightarrow> string list res" where
  "ontoStrings = ontoList (ontoString [])"

text \<open>A deferred close of a body: its error is joined to the outcome.\<close>

definition closeJoined :: "'a res \<Rightarrow> unit res \<Rightarrow> 'a res" where
  "closeJoined outcome closed =
     (case (outcome, closed) of
        (Panic p, _) \<Rightarrow> Panic p
      | (_, Panic p) \<Rightarrow> Panic p
      | (r, Ok _) \<Rightarrow> r
      | (Err e, Err e') \<Rightarrow> Err (ErrJoin e e')
      | (Ok x, Err e') \<Rightarrow> Err e')"

lemma closeJoined_simps [simp]:
  "closeJoined r (Ok u) = r"
  "closeJoined (Ok x) (Err e) = Err e"
  "closeJoined (Err d) (Err e) = Err (ErrJoin d e)"
  "closeJoined (Panic p) c = Panic p"
  by (cases r; simp add: closeJoined_def; fail | (cases c; simp add: closeJoined_def))+

lemma closeJoined_ok_iff [simp]: "closeJoined r c = Ok x \<longleftrightarrow> r = Ok x \<and> (\<exists>u. c = Ok u)"
  by (cases r; cases c) (simp_all add: closeJoined_def)

text \<open>A field that is absent from an object leaves the struct as it is, whatever else is in the object.\<close>

lemma readFields_unknown:
  assumes "\<And>k v. (k, v) \<in> set kvs \<Longrightarrow> fieldNamed fs k = None"
  shows "readFields fs cur kvs = Ok cur"
  using assms by (induction kvs) (auto, metis option.simps(4))

end
