(* ===== verification/SolanaRpc.thy ===== *)
theory SolanaRpc
  imports JsonDecode
begin

text \<open>
  The JSON-RPC client of Solana: \<open>internal/data-structures/solana/rpc.go\<close>. A request is a text that \<open>post\<close> sends to the
  node of the client's URL: it gives the text of the answer and what closing its body gave. The answers are decoded field by
  field as \<open>encoding/json\<close> decodes into the Go structs: keys match without regard to case, a missing or \<open>null\<close> field keeps
  what it had, and a value of another type is an error.
\<close>

subsection \<open>Client and call\<close>

record rpcLib =
  rlJson :: jsonLib
  rlPost :: "string \<Rightarrow> string \<Rightarrow> (string \<times> unit res) res"       \<comment> \<open>URL and body; the answer and the outcome of closing it\<close>
  rlBase64 :: "string \<Rightarrow> bytes res"

record solanaRpcClient =
  scURL :: string

definition NewClient :: "string \<Rightarrow> solanaRpcClient" where
  "NewClient url = \<lparr>scURL = url\<rparr>"

definition rpcRequest :: "string \<Rightarrow> json list \<Rightarrow> json" where
  "rpcRequest method params =
     JObj [(''jsonrpc'', JStr ''2.0''), (''id'', JNum ''1''), (''method'', JStr method), (''params'', JArr params)]"

text \<open>The two fields of an answer: the raw result, nothing when it is missing, and the code and message of an error.\<close>

record rpcResponse =
  rrResult :: "json option"
  rrError :: "(int \<times> string) option"

definition rpcErrorFields :: "int \<times> string \<Rightarrow> (string \<times> json) list \<Rightarrow> (int \<times> string) res" where
  "rpcErrorFields cur kvs =
     andThen (foldField ''code'' ontoInt (fst cur) kvs) (\<lambda>code.
     andThen (foldField ''message'' ontoString (snd cur) kvs) (\<lambda>message. Ok (code, message)))"

definition decodeRpcResponse :: "json \<Rightarrow> rpcResponse res" where
  "decodeRpcResponse v =
     ontoStruct (\<lambda>cur kvs.
       andThen (foldField ''result'' (\<lambda>_ raw. Ok (Some raw)) (rrResult cur) kvs) (\<lambda>result.
       andThen (foldField ''error'' (ontoPointer rpcErrorFields (0, [])) (rrError cur) kvs) (\<lambda>err.
         Ok \<lparr>rrResult = result, rrError = err\<rparr>))) \<lparr>rrResult = None, rrError = None\<rparr> v"

text \<open>
  \<open>out\<close> decodes the result. The deferred function joins the error of closing the body to the outcome, so a call whose body
  does not close fails.
\<close>

definition rpcCall :: "rpcLib \<Rightarrow> solanaRpcClient \<Rightarrow> string \<Rightarrow> json list \<Rightarrow> (json \<Rightarrow> 'a res) \<Rightarrow> 'a res" where
  "rpcCall L c method params out =
     andThen (jText (rlJson L) (rpcRequest method params)) (\<lambda>body.
     andThen (rlPost L (scURL c) body) (\<lambda>(answer, closed).
       let outcome =
         (case jParse (rlJson L) answer of
            None \<Rightarrow> Err (ErrMsg ''invalid JSON'')
          | Some v \<Rightarrow>
              andThen (decodeRpcResponse v) (\<lambda>r.
                case rrError r of
                  Some (code, message) \<Rightarrow>
                    Err (ErrMsg (''rpc '' @ method @ '': '' @ bigString code @ '' '' @ message))
                | None \<Rightarrow>
                    (case rrResult r of
                       None \<Rightarrow> Err (ErrMsg ''unexpected end of JSON input'') | Some result \<Rightarrow> out result)))
       in closeJoined outcome closed))"

definition confirmed :: "string \<times> json" where
  "confirmed = (''commitment'', JStr ''confirmed'')"

subsection \<open>The methods\<close>

definition GetSlot :: "rpcLib \<Rightarrow> solanaRpcClient \<Rightarrow> u64 res" where
  "GetSlot L c = rpcCall L c ''getSlot'' [JObj [confirmed]] (ontoUint64 0)"

definition accountDataFields :: "string list \<Rightarrow> (string \<times> json) list \<Rightarrow> string list res" where
  "accountDataFields cur kvs = foldField ''data'' (ontoList (ontoString [])) cur kvs"

definition GetAccountInfo :: "rpcLib \<Rightarrow> solanaRpcClient \<Rightarrow> string \<Rightarrow> bytes res" where
  "GetAccountInfo L c address =
     andThen (rpcCall L c ''getAccountInfo'' [JStr address, JObj [confirmed, (''encoding'', JStr ''base64'')]]
       (ontoStruct (\<lambda>cur kvs. foldField ''value'' (ontoPointer accountDataFields []) cur kvs) None)) (\<lambda>found.
     case found of
       None \<Rightarrow> Err (ErrMsg (''getAccountInfo: account '' @ address @ '' not found''))
     | Some [] \<Rightarrow> Err (ErrMsg (''getAccountInfo: account '' @ address @ '' has no data''))
     | Some (d # ds) \<Rightarrow> rlBase64 L d)"

text \<open>Of \<open>Err any\<close> the code only asks whether it is nil.\<close>

record signatureInfo =
  siSignature :: string
  siSlot :: u64
  siErr :: bool

definition zeroSignatureInfo :: signatureInfo where
  "zeroSignatureInfo = \<lparr>siSignature = [], siSlot = 0, siErr = False\<rparr>"

definition ontoAny :: "jsonLib \<Rightarrow> bool \<Rightarrow> json \<Rightarrow> bool res" where
  "ontoAny J cur v = andThen (asAny J v) (\<lambda>w. Ok (w \<noteq> JNull))"

definition signatureInfoFields :: "jsonLib \<Rightarrow> signatureInfo \<Rightarrow> (string \<times> json) list \<Rightarrow> signatureInfo res" where
  "signatureInfoFields J cur kvs =
     andThen (foldField ''signature'' ontoString (siSignature cur) kvs) (\<lambda>signature.
     andThen (foldField ''slot'' ontoUint64 (siSlot cur) kvs) (\<lambda>slot.
     andThen (foldField ''err'' (ontoAny J) (siErr cur) kvs) (\<lambda>failed.
       Ok \<lparr>siSignature = signature, siSlot = slot, siErr = failed\<rparr>)))"

definition GetSignaturesForAddress :: "rpcLib \<Rightarrow> solanaRpcClient \<Rightarrow> string \<Rightarrow> nat \<Rightarrow> string \<Rightarrow> signatureInfo list res" where
  "GetSignaturesForAddress L c address limit before =
     rpcCall L c ''getSignaturesForAddress''
       [JStr address, JObj ([(''limit'', JNum (natText 10 limit)), confirmed] @
                            (if before \<noteq> [] then [(''before'', JStr before)] else []))]
       (ontoList (ontoStruct (signatureInfoFields (rlJson L)) zeroSignatureInfo) [])"

text \<open>The error of a transaction is kept as its text; the data of an inner instruction as a string.\<close>

record solanaTxMeta =
  stErr :: "string option"
  stLogMessages :: "string list"
  stInner :: "string list list"

definition zeroTxMeta :: solanaTxMeta where
  "zeroTxMeta = \<lparr>stErr = None, stLogMessages = [], stInner = []\<rparr>"

definition ontoErrText :: "jsonLib \<Rightarrow> string option \<Rightarrow> json \<Rightarrow> string option res" where
  "ontoErrText J cur v =
     andThen (asAny J v) (\<lambda>w. if w = JNull then Ok None else andThen (jText J w) (\<lambda>t. Ok (Some t)))"

definition innerInstruction :: "json \<Rightarrow> string list res" where
  "innerInstruction =
     ontoStruct (\<lambda>cur kvs. foldField ''instructions''
       (ontoList (ontoStruct (\<lambda>data kvs'. foldField ''data'' ontoString data kvs') [])) cur kvs) []"

definition txMetaFields :: "jsonLib \<Rightarrow> solanaTxMeta \<Rightarrow> (string \<times> json) list \<Rightarrow> solanaTxMeta res" where
  "txMetaFields J cur kvs =
     andThen (foldField ''err'' (ontoErrText J) (stErr cur) kvs) (\<lambda>err.
     andThen (foldField ''logMessages'' (ontoList (ontoString [])) (stLogMessages cur) kvs) (\<lambda>logs.
     andThen (foldField ''innerInstructions'' (ontoList innerInstruction) (stInner cur) kvs) (\<lambda>inner.
       Ok \<lparr>stErr = err, stLogMessages = logs, stInner = inner\<rparr>)))"

record solanaTransaction =
  sxSlot :: u64
  sxBlockTime :: "int option"
  sxMeta :: "solanaTxMeta option"

definition solanaTransactionFields :: "jsonLib \<Rightarrow> solanaTransaction \<Rightarrow> (string \<times> json) list \<Rightarrow> solanaTransaction res" where
  "solanaTransactionFields J cur kvs =
     andThen (foldField ''slot'' ontoUint64 (sxSlot cur) kvs) (\<lambda>slot.
     andThen (foldField ''blockTime'' (\<lambda>time v. if v = JNull then Ok None
                else andThen (ontoInt (case time of None \<Rightarrow> 0 | Some t \<Rightarrow> t) v) (\<lambda>t. Ok (Some t))) (sxBlockTime cur) kvs) (\<lambda>blockTime.
     andThen (foldField ''meta'' (ontoPointer (txMetaFields J) zeroTxMeta) (sxMeta cur) kvs) (\<lambda>meta.
       Ok \<lparr>sxSlot = slot, sxBlockTime = blockTime, sxMeta = meta\<rparr>)))"

definition GetTransaction :: "rpcLib \<Rightarrow> solanaRpcClient \<Rightarrow> string \<Rightarrow> solanaTransaction option res" where
  "GetTransaction L c signature =
     rpcCall L c ''getTransaction''
       [JStr signature, JObj [confirmed, (''maxSupportedTransactionVersion'', JNum ''0''), (''encoding'', JStr ''json'')]]
       (ontoPointer (solanaTransactionFields (rlJson L)) \<lparr>sxSlot = 0, sxBlockTime = None, sxMeta = None\<rparr> None)"

end
