(* ===== verification/SolanaEmitter.thy ===== *)
theory SolanaEmitter
  imports SolanaRpc SolanaData Emitter
begin

text \<open>
  The event emitter of a Solana program: \<open>internal/data-structures/eventservice/solana_emitter.go\<close>. As in \<open>Emitter\<close> a
  method is one step, the state behind the processors is \<open>'s\<close>, and a processor reads the chain and the latest slot of the
  emitter. The node is the argument \<open>rpc\<close>, the methods of \<open>SolanaRpc\<close>.
\<close>

record 's solanaEmitter =
  seChainID :: int
  seProgramID :: string
  seInitialSlot :: u64
  seLatestSlot :: "u64 option"
  seMaxPageSize :: "u64 option"
  seIsServer :: bool
  seIsReady :: bool
  seInProgress :: bool
  seProcs :: "'s processor list"
  seOnProcessed :: "(nat \<Rightarrow> 's \<Rightarrow> 's) option"
  seCancel :: bool

record solanaNode =
  ndSlot :: "u64 res"
  ndSignatures :: "nat \<Rightarrow> string \<Rightarrow> signatureInfo list res"
  ndTransaction :: "string \<Rightarrow> solanaTransaction option res"

definition solanaNodeOf :: "rpcLib \<Rightarrow> solanaRpcClient \<Rightarrow> string \<Rightarrow> solanaNode" where
  "solanaNodeOf L c programID =
     \<lparr>ndSlot = GetSlot L c, ndSignatures = GetSignaturesForAddress L c programID, ndTransaction = GetTransaction L c\<rparr>"

text \<open>The decoders of the program's data and the JSON of \<open>encoding/json\<close>.\<close>

record solanaEventLib =
  elJson :: jsonLib
  elBase64 :: "string \<Rightarrow> bytes option"
  elBase58 :: "string \<Rightarrow> bytes res"

definition solanaReorgDepth :: u64 where "solanaReorgDepth = 32"

definition solanaBatchLimitMax :: nat where "solanaBatchLimitMax = 1000"

definition solanaBatchLimitMin :: nat where "solanaBatchLimitMin = 20"

definition NewSolanaBlockchainEventEmitter :: "int \<Rightarrow> string \<Rightarrow> u64 \<Rightarrow> bool \<Rightarrow> u64 option \<Rightarrow> 's solanaEmitter" where
  "NewSolanaBlockchainEventEmitter chainID programID initialSlot isServer maxPageSize =
     \<lparr>seChainID = chainID, seProgramID = programID, seInitialSlot = initialSlot, seLatestSlot = None,
      seMaxPageSize = maxPageSize, seIsServer = isServer, seIsReady = False, seInProgress = False, seProcs = [],
      seOnProcessed = None, seCancel = False\<rparr>"

definition solanaLatestSlot :: "'s solanaEmitter \<Rightarrow> u64" where
  "solanaLatestSlot e = (case seLatestSlot e of None \<Rightarrow> seInitialSlot e | Some n \<Rightarrow> n)"

definition solanaSyncFromAtMost :: "u64 \<Rightarrow> 's solanaEmitter \<Rightarrow> 's solanaEmitter" where
  "solanaSyncFromAtMost slot e =
     (if (case seLatestSlot e of None \<Rightarrow> True | Some l \<Rightarrow> slot < l) then e\<lparr>seLatestSlot := Some slot\<rparr> else e)"

definition solanaAdvance :: "u64 \<Rightarrow> 's solanaEmitter \<Rightarrow> 's solanaEmitter" where
  "solanaAdvance slot e =
     (if (case seLatestSlot e of None \<Rightarrow> True | Some l \<Rightarrow> slot > l) then e\<lparr>seLatestSlot := Some slot\<rparr> else e)"

definition solanaAddProcessor :: "'s processor \<Rightarrow> 's solanaEmitter \<Rightarrow> 's solanaEmitter res" where
  "solanaAddProcessor fn e =
     (if seIsReady e then Panic ''cannot add processor after Init'' else Ok (e\<lparr>seProcs := seProcs e @ [fn]\<rparr>))"

definition solanaIntervalClear :: "'s solanaEmitter \<Rightarrow> 's solanaEmitter" where
  "solanaIntervalClear e = e\<lparr>seCancel := False, seIsReady := False, seProcs := []\<rparr>"

text \<open>A chain shorter than the depth wraps around.\<close>

definition getLastSlot :: "solanaNode \<Rightarrow> 's solanaEmitter \<Rightarrow> u64 res" where
  "getLastSlot rpc e =
     andThen (ndSlot rpc) (\<lambda>slot.
       if \<not> seIsServer e then Ok slot
       else
         (let safe = slot - solanaReorgDepth + 1; cur = solanaLatestSlot e in
          Ok (if cur > safe then cur else safe)))"

subsection \<open>The events of a range of slots\<close>

text \<open>Pages of signatures, newest first, until a page is short or reaches below the range.\<close>

partial_function (option) signaturePages ::
  "solanaNode \<Rightarrow> nat \<Rightarrow> u64 \<Rightarrow> signatureInfo list \<Rightarrow> nat \<Rightarrow> signatureInfo list res option" where
  "signaturePages rpc limit fromSlot sigs batchLen =
     (if limit \<le> batchLen \<and> fromSlot \<le> siSlot (last sigs) then
        (case ndSignatures rpc limit (siSignature (last sigs)) of
           Err e \<Rightarrow> Some (Err e)
         | Panic p \<Rightarrow> Some (Panic p)
         | Ok next \<Rightarrow> if next = [] then Some (Ok sigs) else signaturePages rpc limit fromSlot (sigs @ next) (length next))
      else Some (Ok sigs))"

definition programSignatures :: "solanaNode \<Rightarrow> nat \<Rightarrow> u64 \<Rightarrow> signatureInfo list res" where
  "programSignatures rpc limit fromSlot =
     andThen (ndSignatures rpc limit []) (\<lambda>sigs. returned (signaturePages rpc limit fromSlot sigs (length sigs)))"

definition argJson :: "eventArg \<Rightarrow> json" where
  "argJson a = (case a of
     ArgInts ns \<Rightarrow> JArr (map (\<lambda>n. JNum (bigString n)) ns)
   | ArgRows rows \<Rightarrow> JArr (map (\<lambda>ns. JArr (map (\<lambda>n. JNum (bigString n)) ns)) rows))"

definition argsJson :: "decodedEvent \<Rightarrow> json" where
  "argsJson d = JObj (map (map_prod id argJson) (deArgs d))"

definition argsText :: "jsonLib \<Rightarrow> decodedEvent \<Rightarrow> string" where
  "argsText J d = (case jText J (argsJson d) of Ok t \<Rightarrow> t | _ \<Rightarrow> [])"

definition buildSolanaEvent :: "jsonLib \<Rightarrow> decodedEvent \<Rightarrow> string \<Rightarrow> u64 \<Rightarrow> blockchainEvent res" where
  "buildSolanaEvent J d signature slot =
     andThen (jText J (JObj [(''args'', argsJson d), (''blockNumber'', JNum (natText 10 (unat slot))),
                             (''eventName'', JStr (deName d)), (''transactionHash'', JStr signature)]))
       (NewFromSerialized J)"

text \<open>
  The events of one signature. Those of a failed transaction are skipped, and so is a transaction that cannot be fetched
  just now.
\<close>

definition signatureEvents :: "solanaEventLib \<Rightarrow> solanaNode \<Rightarrow> u64 \<Rightarrow> u64 \<Rightarrow> signatureInfo \<Rightarrow> blockchainEvent list res" where
  "signatureEvents L rpc fromSlot toSlot sig =
     (if siSlot sig < fromSlot \<or> toSlot < siSlot sig \<or> siErr sig then Ok []
      else
        (case ndTransaction rpc (siSignature sig) of
           Panic p \<Rightarrow> Panic p
         | Ok (Some tx) \<Rightarrow>
             (case sxMeta tx of
                None \<Rightarrow> Ok []
              | Some meta \<Rightarrow>
                  if stErr meta \<noteq> None then Ok []
                  else Ok (okList (map (\<lambda>d. buildSolanaEvent (elJson L) d (siSignature sig) (siSlot sig))
                         (parseSolanaTransaction (elBase64 L) (elBase58 L) (argsText (elJson L)) (stLogMessages meta) (stInner meta)))))
         | _ \<Rightarrow> Ok []))"

definition getProgramEvents ::
  "solanaEventLib \<Rightarrow> solanaNode \<Rightarrow> u64 \<Rightarrow> u64 \<Rightarrow> bool \<Rightarrow> blockchainEvent list res" where
  "getProgramEvents L rpc fromSlot toSlot initialLoading =
     andThen (programSignatures rpc (if initialLoading then solanaBatchLimitMax else solanaBatchLimitMin) fromSlot) (\<lambda>sigs.
     andThen (mapRes (signatureEvents L rpc fromSlot toSlot) sigs) (\<lambda>eventss. Ok (concat eventss)))"

subsection \<open>Processing\<close>

definition solanaProcessEvents :: "'s solanaEmitter \<Rightarrow> blockchainEvent list \<Rightarrow> u64 \<Rightarrow> ('s, unit) action" where
  "solanaProcessEvents e events scannedToSlot =
     bindA (runProcessors (seProcs e) (seChainID e) (solanaLatestSlot e) events scannedToSlot 0) (\<lambda>n s.
       (Ok (), case seOnProcessed e of None \<Rightarrow> s | Some f \<Rightarrow> f n s))"

definition solanaProcessExternalEvents :: "blockchainEvent list \<Rightarrow> u64 \<Rightarrow> ('s solanaEmitter \<times> 's, unit) action" where
  "solanaProcessExternalEvents events latestSlot es =
     (case es of (e, s) \<Rightarrow>
        (case solanaProcessEvents e events latestSlot s of
           (Ok _, s') \<Rightarrow> (Ok (), solanaAdvance latestSlot e, s')
         | (r, s') \<Rightarrow> (r, e, s')))"

text \<open>The deferred reset of \<open>inProgress\<close> runs on every way out, a panic included. The sort is stable.\<close>

definition solanaRetrieve ::
  "solanaEventLib \<Rightarrow> solanaNode \<Rightarrow> u64 \<Rightarrow> bool \<Rightarrow> bool \<Rightarrow> ('s solanaEmitter \<times> 's, unit) action" where
  "solanaRetrieve L rpc fromSlot force initialLoading es =
     (case es of (e0, s) \<Rightarrow>
        if seInProgress e0 \<and> \<not> force then (Ok (), e0, s)
        else
          (let e = e0\<lparr>seInProgress := True\<rparr>; done = e0\<lparr>seInProgress := False\<rparr> in
           (case wrapErr ''get last slot'' (getLastSlot rpc e) of
              Err err \<Rightarrow> (Err err, done, s)
            | Panic p \<Rightarrow> (Panic p, done, s)
            | Ok lastSlot \<Rightarrow>
                if lastSlot < fromSlot then (Ok (), done, s)
                else
                  (case wrapErr ''get program events'' (getProgramEvents L rpc fromSlot lastSlot initialLoading) of
                     Err err \<Rightarrow> (Err err, done, s)
                   | Panic p \<Rightarrow> (Panic p, done, s)
                   | Ok events \<Rightarrow>
                       (case solanaProcessEvents e (sort_key evBlock events) lastSlot s of
                          (Ok _, s') \<Rightarrow> (Ok (), done\<lparr>seLatestSlot := Some lastSlot\<rparr>, s')
                        | (r, s') \<Rightarrow> (r, done, s'))))))"

definition solanaRetrieveEvents ::
  "solanaEventLib \<Rightarrow> solanaNode \<Rightarrow> u64 \<Rightarrow> bool \<Rightarrow> ('s solanaEmitter \<times> 's, unit) action" where
  "solanaRetrieveEvents L rpc fromSlot force = solanaRetrieve L rpc fromSlot force False"

text \<open>The listener starts with its own variable, the slot it asks for next, and sets \<open>cancel\<close>.\<close>

definition solanaStartListener :: "'s solanaEmitter \<Rightarrow> u64 \<times> 's solanaEmitter" where
  "solanaStartListener e = (solanaLatestSlot e + 1, e\<lparr>seCancel := True\<rparr>)"

definition solanaInitEmitter ::
  "solanaEventLib \<Rightarrow> solanaNode \<Rightarrow> ('s solanaEmitter \<times> 's, u64) action" where
  "solanaInitEmitter L rpc es =
     (case es of (e, s) \<Rightarrow>
        if seIsReady e then (Err (ErrMsg ''already initialized''), e, s)
        else
          (case solanaRetrieve L rpc (solanaLatestSlot e + 1) False True (e\<lparr>seIsReady := True\<rparr>, s) of
             (Ok _, e', s') \<Rightarrow> (case solanaStartListener e' of (fetchFrom, e'') \<Rightarrow> (Ok fetchFrom, e'', s'))
           | (Err err, es') \<Rightarrow> (Err err, es')
           | (Panic p, es') \<Rightarrow> (Panic p, es')))"

text \<open>One tick of the listener's timer; an answer that could not be processed leaves its variable where it was.\<close>

definition solanaListenerTick ::
  "jsonLib \<Rightarrow> (u64 \<Rightarrow> eventsResponse res) \<Rightarrow> u64 \<times> 's solanaEmitter \<times> 's \<Rightarrow> u64 \<times> 's solanaEmitter \<times> 's" where
  "solanaListenerTick J server st =
     (case st of (fetchFrom, e, s) \<Rightarrow>
        (case server fetchFrom of
           Ok resp \<Rightarrow>
             (let (r, e', s') =
                (if respEvents resp \<noteq> []
                 then solanaProcessExternalEvents (okList (map (NewFromSerialized J) (respEvents resp))) (respLatest resp) (e, s)
                 else (Ok (), e, s))
              in if isOk r \<and> respLatest resp \<ge> fetchFrom
                 then (respLatest resp + 1, solanaAdvance (respLatest resp) e', s')
                 else (fetchFrom, e', s'))
         | _ \<Rightarrow> (fetchFrom, e, s)))"

section \<open>Properties\<close>

text \<open>
  Reading the history of a Solana program page by page is reading all of it, and what a transaction that can not be fetched does
  to the emitter.
\<close>

subsection \<open>Pages of signatures\<close>

text \<open>What follows a signature in the history, which is newest first; the whole history when none is named.\<close>

definition historyAfter :: "signatureInfo list \<Rightarrow> string \<Rightarrow> signatureInfo list" where
  "historyAfter hist before =
     (if before = [] then hist else tl (dropWhile (\<lambda>i. siSignature i \<noteq> before) hist))"

text \<open>A node that serves the history: pages of the size asked for, slots that never rise, signatures that name one entry.\<close>

definition serves :: "solanaNode \<Rightarrow> signatureInfo list \<Rightarrow> bool" where
  "serves rpc hist \<longleftrightarrow>
     (\<forall>n before. ndSignatures rpc n before = Ok (take n (historyAfter hist before))) \<and>
     sorted_wrt (\<lambda>a b. siSlot b \<le> siSlot a) hist \<and> distinct (map siSignature hist) \<and> [] \<notin> siSignature ` set hist"

lemma historyAfter_last:
  assumes "distinct (map siSignature (sigs @ rest))" and "[] \<notin> siSignature ` set (sigs @ rest)" and "sigs \<noteq> []"
  shows "historyAfter (sigs @ rest) (siSignature (last sigs)) = rest"
proof -
  obtain front x where sigs: "sigs = front @ [x]" using \<open>sigs \<noteq> []\<close> by (cases sigs rule: rev_cases) auto
  have "siSignature i \<noteq> siSignature x" if "i \<in> set front" for i
    using assms(1) that unfolding sigs by (auto simp: image_iff)
  then have "dropWhile (\<lambda>i. siSignature i \<noteq> siSignature x) (front @ x # rest) = x # rest"
    by (simp add: dropWhile_append)
  moreover have "siSignature x \<noteq> []" using assms(2) unfolding sigs by (auto simp: image_iff)
  ultimately show ?thesis by (simp add: historyAfter_def sigs)
qed

lemma signaturePages_stop:
  "\<not> (limit \<le> b \<and> fromSlot \<le> siSlot (last sigs)) \<Longrightarrow> signaturePages rpc limit fromSlot sigs b = Some (Ok sigs)"
  by (simp only: signaturePages.simps[of rpc limit fromSlot sigs b] if_False)

lemma signaturePages_page:
  "limit \<le> b \<Longrightarrow> fromSlot \<le> siSlot (last sigs) \<Longrightarrow> ndSignatures rpc limit (siSignature (last sigs)) = Ok next \<Longrightarrow>
   signaturePages rpc limit fromSlot sigs b =
     (if next = [] then Some (Ok sigs) else signaturePages rpc limit fromSlot (sigs @ next) (length next))"
  by (simp add: signaturePages.simps[of rpc limit fromSlot sigs b])

text \<open>The loop ends with the entries down to the range; what is left out lies below it.\<close>

lemma signaturePages_prefix:
  assumes "serves rpc (sigs @ rest)" and "0 < limit" and "b < limit \<Longrightarrow> rest = []" and "sigs = [] \<Longrightarrow> rest = [] \<and> b < limit"
  shows "\<exists>got left. signaturePages rpc limit fromSlot sigs b = Some (Ok got) \<and> sigs @ rest = got @ left \<and>
           (\<forall>x \<in> set left. siSlot x < fromSlot)"
  using assms
proof (induction "length rest" arbitrary: sigs rest b rule: less_induct)
  case less
  note facts = less.prems(1)[unfolded serves_def]
  show ?case
  proof (cases "limit \<le> b \<and> fromSlot \<le> siSlot (last sigs)")
    case False
    have low: "siSlot x < fromSlot" if "x \<in> set rest" for x
    proof -
      have "\<not> b < limit" "sigs \<noteq> []" using less.prems(3,4) that by auto
      then have "siSlot (last sigs) < fromSlot" using False by auto
      moreover have "siSlot x \<le> siSlot (last sigs)"
        using facts that \<open>sigs \<noteq> []\<close> by (simp add: sorted_wrt_append)
      ultimately show ?thesis by simp
    qed
    show ?thesis
      by (rule exI[of _ sigs], rule exI[of _ rest]) (use signaturePages_stop[OF False] low in simp)
  next
    case True
    then have ne: "sigs \<noteq> []" using less.prems(4) by auto
    have page: "ndSignatures rpc limit (siSignature (last sigs)) = Ok (take limit rest)"
      using facts historyAfter_last[OF _ _ ne, of rest] by simp
    show ?thesis
    proof (cases "rest = []")
      case True
      then show ?thesis
        using signaturePages_page[OF _ _ page] \<open>limit \<le> b \<and> fromSlot \<le> siSlot (last sigs)\<close>
        by (intro exI[of _ sigs] exI[of _ "[]"]) simp
    next
      case False
      let ?next = "take limit rest"
      have split: "(sigs @ ?next) @ drop limit rest = sigs @ rest" by simp
      have ne_next: "?next \<noteq> []" using False \<open>0 < limit\<close> by simp
      have step: "signaturePages rpc limit fromSlot sigs b = signaturePages rpc limit fromSlot (sigs @ ?next) (length ?next)"
        using signaturePages_page[OF _ _ page] True ne_next by simp
      have shorter: "length (drop limit rest) < length rest" using False \<open>0 < limit\<close> by simp
      have "\<exists>got left. signaturePages rpc limit fromSlot (sigs @ ?next) (length ?next) = Some (Ok got) \<and>
              (sigs @ ?next) @ drop limit rest = got @ left \<and> (\<forall>x \<in> set left. siSlot x < fromSlot)"
        by (rule less.hyps[OF shorter]) (use less.prems(1) \<open>0 < limit\<close> ne in \<open>simp_all only: split, auto\<close>)
      then show ?thesis unfolding step split .
    qed
  qed
qed

lemma programSignatures_prefix:
  assumes "serves rpc hist" and "0 < limit"
  shows "\<exists>got left. programSignatures rpc limit fromSlot = Ok got \<and> hist = got @ left \<and> (\<forall>x \<in> set left. siSlot x < fromSlot)"
proof -
  have first: "ndSignatures rpc limit [] = Ok (take limit hist)"
    using assms(1) by (simp add: serves_def historyAfter_def)
  have "\<exists>got left. signaturePages rpc limit fromSlot (take limit hist) (length (take limit hist)) = Some (Ok got) \<and>
          take limit hist @ drop limit hist = got @ left \<and> (\<forall>x \<in> set left. siSlot x < fromSlot)"
    by (rule signaturePages_prefix) (use assms in auto)
  then show ?thesis using first by (auto simp: programSignatures_def returned.simps)
qed

subsection \<open>Reading by pages is reading everything\<close>

lemma mapRes_append:
  "mapRes f (xs @ ys) = andThen (mapRes f xs) (\<lambda>as. andThen (mapRes f ys) (\<lambda>bs. Ok (as @ bs)))"
proof (induction xs)
  case Nil
  show ?case by (cases "mapRes f ys") simp_all
next
  case (Cons x xs)
  show ?case
    by (cases "f x"; cases "mapRes f xs"; cases "mapRes f ys") (simp_all add: Cons.IH)
qed

lemma below_range_silent:
  assumes "\<forall>x \<in> set left. siSlot x < fromSlot"
  shows "mapRes (signatureEvents L rpc fromSlot toSlot) left = Ok (map (\<lambda>_. []) left)"
  using assms by (induction left) (auto simp: signatureEvents_def)

lemma getProgramEvents_scan:
  assumes "serves rpc hist"
  shows "getProgramEvents L rpc fromSlot toSlot initialLoading =
           andThen (mapRes (signatureEvents L rpc fromSlot toSlot) hist) (\<lambda>eventss. Ok (concat eventss))"
proof -
  let ?limit = "if initialLoading then solanaBatchLimitMax else solanaBatchLimitMin"
  have "0 < ?limit" by (simp add: solanaBatchLimitMax_def solanaBatchLimitMin_def)
  from programSignatures_prefix[OF assms this] obtain got left
    where got: "programSignatures rpc ?limit fromSlot = Ok got" "hist = got @ left" and low: "\<forall>x \<in> set left. siSlot x < fromSlot"
    by blast
  show ?thesis
    using got below_range_silent[OF low, of L rpc toSlot]
    by (cases "mapRes (signatureEvents L rpc fromSlot toSlot) got") (simp_all add: getProgramEvents_def mapRes_append)
qed

text \<open>C37: On a node that serves the history of the program, the loop over pages ends and gives exactly the events of the whole
  history that lie in the range, in the order of the history.\<close>

theorem solana_scan_complete:
  assumes "serves rpc hist"
  shows "getProgramEvents L rpc fromSlot toSlot initialLoading =
           andThen (mapRes (signatureEvents L rpc fromSlot toSlot) hist) (\<lambda>eventss. Ok (concat eventss))"
  by (rule getProgramEvents_scan [OF assms])

text \<open>A history of thirty entries, two to a slot, on a node whose transactions have no metadata.\<close>

definition toyHistory :: "signatureInfo list" where
  "toyHistory = map (\<lambda>i. \<lparr>siSignature = replicate (Suc i) CHR ''s'', siSlot = of_nat (60 - i), siErr = False\<rparr>) [0..<30]"

definition toySolanaNode :: solanaNode where
  "toySolanaNode =
     \<lparr>ndSlot = Ok 90, ndSignatures = (\<lambda>n before. Ok (take n (historyAfter toyHistory before))), ndTransaction = (\<lambda>_. Ok None)\<rparr>"

lemma toy_serves: "serves toySolanaNode toyHistory"
proof -
  have "distinct (map siSignature toyHistory)"
    by (auto simp: toyHistory_def distinct_map inj_on_def o_def)
  moreover have "sorted_wrt (\<lambda>a b. siSlot b \<le> siSlot a) toyHistory"
    by code_simp
  ultimately show ?thesis by (auto simp: serves_def toySolanaNode_def toyHistory_def)
qed

theorem solana_scan_complete_witness:
  "\<forall>L. getProgramEvents L toySolanaNode 35 90 False = Ok []"
proof
  fix L
  have "mapRes (signatureEvents L toySolanaNode 35 90) xs = Ok (map (\<lambda>_. []) xs)" for xs
    by (induction xs) (auto simp: signatureEvents_def toySolanaNode_def)
  then show "getProgramEvents L toySolanaNode 35 90 False = Ok []"
    using solana_scan_complete[OF toy_serves, of L 35 90 False] by simp
qed

subsection \<open>A transaction that can not be fetched\<close>

text \<open>The events of a signature, and processors that do not fail.\<close>

definition slotEvents :: "solanaEventLib \<Rightarrow> solanaNode \<Rightarrow> u64 \<Rightarrow> u64 \<Rightarrow> signatureInfo \<Rightarrow> blockchainEvent list" where
  "slotEvents L rpc fromSlot toSlot i = (case signatureEvents L rpc fromSlot toSlot i of Ok es \<Rightarrow> es | _ \<Rightarrow> [])"

definition neverFails :: "'s processor list \<Rightarrow> bool" where
  "neverFails procs \<longleftrightarrow> (\<forall>p\<in>set procs. \<forall>chain latest events scanned s. \<exists>n s'. p chain latest events scanned s = (Ok n, s'))"

lemma runProcessors_Ok: "neverFails procs \<Longrightarrow> \<exists>n s'. runProcessors procs chain latest events scanned acc s = (Ok n, s')"
proof (induction procs arbitrary: acc s)
  case (Cons p procs)
  then have "\<exists>n s1. p chain latest events scanned s = (Ok n, s1)" by (simp add: neverFails_def)
  then obtain n s1 where "p chain latest events scanned s = (Ok n, s1)" by blast
  then show ?case using Cons by (auto simp: bindA_def neverFails_def)
qed (simp add: liftA_def)

lemma solanaProcessEvents_Ok:
  assumes "neverFails (seProcs e)"
  shows "\<exists>s'. solanaProcessEvents e events slot s = (Ok (), s')"
proof -
  obtain n s1 where "runProcessors (seProcs e) (seChainID e) (solanaLatestSlot e) events slot 0 s = (Ok n, s1)"
    using runProcessors_Ok [OF assms] by blast
  then show ?thesis by (simp add: solanaProcessEvents_def bindA_def)
qed

lemma scan_of_fetches:
  assumes "serves rpc hist" and "\<forall>sig p. ndTransaction rpc sig \<noteq> Panic p"
  shows "getProgramEvents L rpc fromSlot toSlot b = Ok (concat (map (slotEvents L rpc fromSlot toSlot) hist))"
proof -
  have "signatureEvents L rpc fromSlot toSlot i = Ok (slotEvents L rpc fromSlot toSlot i)" for i
    using assms(2) by (auto simp: signatureEvents_def slotEvents_def split: res.splits option.splits)
  then have "mapRes (signatureEvents L rpc fromSlot toSlot) hist = Ok (map (slotEvents L rpc fromSlot toSlot) hist)"
    by (induction hist) simp_all
  then show ?thesis by (simp add: getProgramEvents_scan [OF assms(1)])
qed

text \<open>A transaction that is refused gives nothing.\<close>

lemma refused_gives_nothing:
  assumes "ndTransaction rpc (siSignature i) = Err err"
  shows "concat (map (slotEvents L rpc fromSlot toSlot) hist) =
    concat (map (slotEvents L rpc fromSlot toSlot) (filter (\<lambda>x. siSignature x \<noteq> siSignature i) hist))"
proof -
  have "slotEvents L rpc fromSlot toSlot x = []" if "siSignature x = siSignature i" for x
    using assms that by (simp add: slotEvents_def signatureEvents_def)
  then show ?thesis by (induction hist) auto
qed

definition answering :: "string \<Rightarrow> solanaTransaction option res \<Rightarrow> solanaNode \<Rightarrow> solanaNode" where
  "answering sig answer rpc = rpc\<lparr>ndTransaction := (ndTransaction rpc)(sig := answer)\<rparr>"

text \<open>A call that starts above the slot of a transaction does not ask for it.\<close>

lemma not_asked_below:
  assumes "serves rpc hist" and i: "i \<in> set hist" and low: "siSlot i < fromSlot"
  shows "getProgramEvents L (answering (siSignature i) answer rpc) fromSlot = getProgramEvents L rpc fromSlot"
proof (intro ext)
  fix toSlot b
  let ?rpc = "answering (siSignature i) answer rpc"
  have "signatureEvents L ?rpc fromSlot toSlot x = signatureEvents L rpc fromSlot toSlot x" if x: "x \<in> set hist" for x
  proof (cases "x = i")
    case True
    then show ?thesis using low by (simp add: signatureEvents_def)
  next
    case False
    then have "siSignature x \<noteq> siSignature i"
      using assms(1) i x by (auto simp: serves_def distinct_map dest: inj_onD)
    then show ?thesis by (simp add: signatureEvents_def answering_def)
  qed
  then have "mapRes (signatureEvents L ?rpc fromSlot toSlot) hist = mapRes (signatureEvents L rpc fromSlot toSlot) hist"
    by (induction hist) simp_all
  moreover have "serves ?rpc hist" using assms(1) by (simp add: serves_def answering_def)
  ultimately show "getProgramEvents L ?rpc fromSlot toSlot b = getProgramEvents L rpc fromSlot toSlot b"
    by (simp only: getProgramEvents_scan [OF assms(1)] getProgramEvents_scan)
qed

lemma retrieve_not_asked_below:
  fixes es :: "'s solanaEmitter \<times> 's"
  assumes "serves rpc hist" "i \<in> set hist" "siSlot i < fromSlot"
  shows "solanaRetrieve L (answering (siSignature i) answer rpc) fromSlot force b es = solanaRetrieve L rpc fromSlot force b es"
proof -
  have slot: "getLastSlot (answering (siSignature i) answer rpc) e = getLastSlot rpc e" for e :: "'s solanaEmitter"
    by (simp add: getLastSlot_def answering_def)
  show ?thesis unfolding solanaRetrieve_def not_asked_below [OF assms] slot by (rule refl)
qed

lemma processEvents_progress [simp]:
  "solanaProcessEvents (e\<lparr>seInProgress := b\<rparr>) events slot s = solanaProcessEvents e events slot s"
  by (cases "seLatestSlot e") (simp_all add: solanaProcessEvents_def solanaLatestSlot_def)

lemma retrieve_succeeds:
  assumes "getProgramEvents L rpc fromSlot lastSlot False = Ok events" and "seInProgress e \<longrightarrow> force"
    and "getLastSlot rpc (e\<lparr>seInProgress := True\<rparr>) = Ok lastSlot" and "\<not> lastSlot < fromSlot"
    and "solanaProcessEvents e (sort_key evBlock events) lastSlot s = (Ok (), s')"
  shows "solanaRetrieveEvents L rpc fromSlot force (e, s) = (Ok (), e\<lparr>seInProgress := False, seLatestSlot := Some lastSlot\<rparr>, s')"
  using assms(2) by (simp add: solanaRetrieveEvents_def solanaRetrieve_def Let_def assms(1,3-5)) blast

text \<open>C25: a transaction of the history that the node refuses to give (\<open>GetTransaction\<close> returns an error) is lost. The call
  that meets it succeeds, the processors see the events of the rest of the history only, and the latest slot moves past
  it; and no call that starts above that slot, on whatever node serves the history, depends on what it would answer for
  the transaction, so it is only seen again if the emitter is set back.\<close>

theorem failed_fetch_loses_events:
  assumes "serves rpc hist" and "i \<in> set hist" and "ndTransaction rpc (siSignature i) = Err err"
    and "\<forall>sig p. ndTransaction rpc sig \<noteq> Panic p" and "seInProgress e \<longrightarrow> force" and "neverFails (seProcs e)"
    and "getLastSlot rpc (e\<lparr>seInProgress := True\<rparr>) = Ok lastSlot" and "fromSlot \<le> siSlot i" and "siSlot i \<le> lastSlot"
  shows "\<exists>em s'. solanaRetrieveEvents L rpc fromSlot force (e, s) = (Ok (), em, s') \<and> seLatestSlot em = Some lastSlot \<and>
    solanaProcessEvents e (sort_key evBlock (concat (map (slotEvents L rpc fromSlot lastSlot)
      (filter (\<lambda>x. siSignature x \<noteq> siSignature i) hist)))) lastSlot s = (Ok (), s') \<and>
    (\<forall>rpc2 hist2 answer from2 force2 initial2. \<forall>es2 :: 's solanaEmitter \<times> 's.
       serves rpc2 hist2 \<and> i \<in> set hist2 \<and> lastSlot < from2 \<longrightarrow>
       solanaRetrieve L (answering (siSignature i) answer rpc2) from2 force2 initial2 es2 = solanaRetrieve L rpc2 from2 force2 initial2 es2)"
proof -
  let ?events = "concat (map (slotEvents L rpc fromSlot lastSlot) (filter (\<lambda>x. siSignature x \<noteq> siSignature i) hist))"
  obtain s' where s': "solanaProcessEvents e (sort_key evBlock ?events) lastSlot s = (Ok (), s')"
    using solanaProcessEvents_Ok [OF assms(6)] by blast
  have events: "getProgramEvents L rpc fromSlot lastSlot False = Ok ?events"
    by (rule trans [OF scan_of_fetches [OF assms(1,4)] arg_cong [where f = Ok, OF refused_gives_nothing [OF assms(3)]]])
  have "\<not> lastSlot < fromSlot" using assms(8,9) by simp
  note run = retrieve_succeeds [OF events assms(5,7) this s']
  have "solanaRetrieve L (answering (siSignature i) answer rpc2) from2 force2 initial2 es2 = solanaRetrieve L rpc2 from2 force2 initial2 es2"
    if "serves rpc2 hist2" "i \<in> set hist2" "lastSlot < from2" for rpc2 hist2 answer from2 force2 initial2 and es2 :: "'s solanaEmitter \<times> 's"
    using that assms(9) by (intro retrieve_not_asked_below) auto
  then show ?thesis using run s' by (intro exI conjI) auto
qed

text \<open>The node refuses the newest transaction of the history, of slot 60; a counting processor sees nothing of it, the emitter
  moves on to slot 90, and an answer that comes later is not asked for.\<close>

definition refusingNode :: solanaNode where
  "refusingNode = toySolanaNode\<lparr>ndTransaction := (\<lambda>sig. if sig = ''s'' then Err (ErrMsg ''busy'') else Ok None)\<rparr>"

definition countingEmitter :: "nat solanaEmitter" where
  "countingEmitter = (NewSolanaBlockchainEventEmitter 1 ''p'' 49 False None)
     \<lparr>seProcs := [\<lambda>_ _ events _ n. (Ok (length events), n + length events)]\<rparr>"

theorem failed_fetch_loses_events_witness:
  "\<forall>L answer. \<exists>em n. solanaRetrieveEvents L refusingNode 50 False (countingEmitter, 0) = (Ok (), em, n) \<and> seLatestSlot em = Some 90 \<and>
     solanaRetrieve L (answering ''s'' answer refusingNode) 91 False False (em, n) = solanaRetrieve L refusingNode 91 False False (em, n)"
proof (intro allI)
  fix L answer
  let ?i = "\<lparr>siSignature = ''s'', siSlot = 60, siErr = False\<rparr>"
  have serves: "serves refusingNode toyHistory" using toy_serves by (simp add: serves_def refusingNode_def)
  have mem: "?i \<in> set toyHistory" by (auto simp: toyHistory_def intro!: image_eqI [of _ _ 0])
  have node: "ndTransaction refusingNode (siSignature ?i) = Err (ErrMsg ''busy'')" "\<forall>sig p. ndTransaction refusingNode sig \<noteq> Panic p"
    by (simp_all add: refusingNode_def)
  have emitter: "seInProgress countingEmitter \<longrightarrow> False" "neverFails (seProcs countingEmitter)"
      "getLastSlot refusingNode (countingEmitter\<lparr>seInProgress := True\<rparr>) = Ok 90" "50 \<le> siSlot ?i" "siSlot ?i \<le> 90"
    by (simp_all add: neverFails_def countingEmitter_def getLastSlot_def refusingNode_def toySolanaNode_def NewSolanaBlockchainEventEmitter_def)
  obtain em n where lost: "solanaRetrieveEvents L refusingNode 50 False (countingEmitter, 0) = (Ok (), em, n)" "seLatestSlot em = Some 90"
      "\<forall>rpc2 hist2 answer from2 force2 initial2. \<forall>es2 :: nat solanaEmitter \<times> nat. serves rpc2 hist2 \<and> ?i \<in> set hist2 \<and> 90 < from2 \<longrightarrow>
         solanaRetrieve L (answering (siSignature ?i) answer rpc2) from2 force2 initial2 es2 = solanaRetrieve L rpc2 from2 force2 initial2 es2"
    using failed_fetch_loses_events [OF serves mem node emitter, of L 0] by blast
  then have "solanaRetrieve L (answering ''s'' answer refusingNode) 91 False False (em, n) = solanaRetrieve L refusingNode 91 False False (em, n)"
    using lost(3) [rule_format, of refusingNode toyHistory 91 answer False False "(em, n)"] serves mem by simp
  then show "\<exists>em n. solanaRetrieveEvents L refusingNode 50 False (countingEmitter, 0) = (Ok (), em, n) \<and> seLatestSlot em = Some 90 \<and>
     solanaRetrieve L (answering ''s'' answer refusingNode) 91 False False (em, n) = solanaRetrieve L refusingNode 91 False False (em, n)"
    using lost(1,2) by blast
qed

end
