(* ===== verification/SolanaSnapshots.thy ===== *)
theory SolanaSnapshots
  imports Snapshots
begin

text \<open>
  The snapshot services of Solana, \<open>solana_commitments.go\<close> and \<open>solana_nullifiers.go\<close> of \<open>internal/data-structures/snapshot\<close>,
  method by method. They repeat the EVM services but for the events they map and the sign of an output; here each method is
  translated from its own file, and the delegates made of them are the ones the other theories use.
\<close>

subsection \<open>solana_commitments.go\<close>

definition solanaCommitmentsPayload :: "commitmentsState \<Rightarrow> commitmentsPayload" where
  "solanaCommitmentsPayload s = \<lparr>cpTree = cmTree s, cpOutputs = cmOutputs s, cpByCommitment = cmByCommitment s\<rparr>"

definition solanaPopulateCommitments :: "commitmentsPayload snapshot \<Rightarrow> commitmentsState \<Rightarrow> commitmentsState" where
  "solanaPopulateCommitments snap s =
     \<lparr>cmTree = cpTree (snPayload snap), cmOutputs = cpOutputs (snPayload snap), cmByCommitment = cpByCommitment (snPayload snap),
      cmHashFn = cmHashFn s\<rparr>"

definition solanaSerializeCommitments ::
  "((string \<rightharpoonup> string) \<Rightarrow> (string \<times> string) list) \<Rightarrow> commitmentsPayload snapshot \<Rightarrow> commitmentsSerialized res" where
  "solanaSerializeCommitments iter snap =
     (let block = snLatest snap in
      andThen (deref (cpTree (snPayload snap))) (\<lambda>tree.
        let merkleJSON = ToJSON tree;
            serializedOutputs = [\<lparr>soValue = eoValue out, soIsPositive = formatBool (eoIsPositive out), soIsBlocked = eoIsBlocked out\<rparr>.
                                   out \<leftarrow> cpOutputs (snPayload snap)];
            byCommitment = [(commitment, encOut). (commitment, encOut) \<leftarrow> iter (cpByCommitment (snPayload snap))]
        in Ok \<lparr>csLatest = Some block, csMerkleTree = Some merkleJSON, csEncryptedOutputs = serializedOutputs,
               csByCommitment = byCommitment\<rparr>))"

fun solanaReadOutputs :: "serializedOutput list \<Rightarrow> encryptedOutputWithSign list res" where
  "solanaReadOutputs [] = Ok []"
| "solanaReadOutputs (out # outs) =
     (case parseBool (soIsPositive out) of
        Err parseErr \<Rightarrow> Err (ErrWrap ''parse IsPositive'' parseErr)
      | Panic p \<Rightarrow> Panic p
      | Ok isPositive \<Rightarrow>
          andThen (solanaReadOutputs outs) (\<lambda>rest.
            Ok (\<lparr>eoValue = soValue out, eoIsPositive = isPositive, eoIsBlocked = soIsBlocked out\<rparr> # rest)))"

definition solanaDeserializeCommitments ::
  "(int \<Rightarrow> int \<Rightarrow> int) \<Rightarrow> commitmentsSerialized \<Rightarrow> commitmentsPayload snapshot res" where
  "solanaDeserializeCommitments h serialized =
     andThen (if csLatest serialized \<noteq> None \<and> the (csLatest serialized) > 0 \<and> csMerkleTree serialized \<noteq> None
              then wrapErr ''deserialize merkle tree'' (FromJSON (the (csMerkleTree serialized)) h 0)
              else Ok (NewTree h 0 0)) (\<lambda>tree.
     andThen (solanaReadOutputs (csEncryptedOutputs serialized)) (\<lambda>encOutputs.
       let byCommitment = fold (\<lambda>(commitment, encOut) m. m(commitment \<mapsto> encOut)) (csByCommitment serialized) Map.empty;
           latestBlock = (if csLatest serialized \<noteq> None then the (csLatest serialized) else 0)
       in Ok \<lparr>snLatest = latestBlock,
              snPayload = \<lparr>cpTree = Some tree, cpOutputs = encOutputs, cpByCommitment = byCommitment\<rparr>\<rparr>))"

text \<open>The service with its methods, listening for new commitments.\<close>

definition solanaCommitmentsMethods ::
  "jsonLib \<Rightarrow> ((string \<rightharpoonup> string) \<Rightarrow> (string \<times> string) list) \<Rightarrow> commitmentsSerialized res \<Rightarrow>
   (commitmentsSerialized \<Rightarrow> unit res) \<Rightarrow>
   (commitmentsState, commitmentEvent, commitmentsPayload, commitmentsSerialized) snapshotDelegate" where
  "solanaCommitmentsMethods J iter fetchFn persistFn =
     \<lparr>dlAcceptEvent = AcceptSolanaCommitmentEvent, dlMapEvent = MapSolanaCommitmentEvent J, dlPayload = solanaCommitmentsPayload,
      dlPopulate = solanaPopulateCommitments, dlSerialize = solanaSerializeCommitments iter,
      dlDeserialize = (\<lambda>s. solanaDeserializeCommitments (cmHashFn s)), dlFetch = fetchFn, dlPersist = persistFn\<rparr>"

text \<open>A client's service is fed by the fetcher and saves nothing.\<close>

definition newClientSolanaCommitments ::
  "jsonLib \<Rightarrow> ((string \<rightharpoonup> string) \<Rightarrow> (string \<times> string) list) \<Rightarrow> commitmentsSerialized res \<Rightarrow>
   (commitmentsState, commitmentEvent, commitmentsPayload, commitmentsSerialized) snapshotDelegate" where
  "newClientSolanaCommitments J iter fetched = solanaCommitmentsMethods J iter fetched (\<lambda>_. Ok ())"

lemma solanaReadOutputs_eq: "solanaReadOutputs outs = mapRes deserializeOutput outs"
  by (induction outs) (simp_all add: deserializeOutput_def split: res.splits)

lemma putEntry_fold: "fold (\<lambda>(commitment, encOut) m. m(commitment \<mapsto> encOut)) entries m = foldl putEntry m entries"
  by (induction entries arbitrary: m) (auto simp: putEntry_def)

lemma solanaSerializeCommitments_eq: "solanaSerializeCommitments iter snap = SerializeSnapshot iter snap"
  by (simp add: solanaSerializeCommitments_def SerializeSnapshot_def serializeOutput_def[abs_def] Let_def)

lemma solanaDeserializeCommitments_eq: "solanaDeserializeCommitments h serialized = DeserializeSnapshot h serialized"
  by (cases "csLatest serialized"; cases "csMerkleTree serialized")
    (simp_all add: solanaDeserializeCommitments_def DeserializeSnapshot_def solanaReadOutputs_eq putEntry_fold)

lemma solanaPayload_eq: "solanaCommitmentsPayload = GetSnapshotPayload" "solanaPopulateCommitments = PopulateSnapshot"
  by (simp_all add: fun_eq_iff solanaCommitmentsPayload_def GetSnapshotPayload_def solanaPopulateCommitments_def PopulateSnapshot_def)

lemma solanaCommitmentsMethods_eq: "solanaCommitmentsMethods J iter f p = solanaCommitmentsDelegate J iter f p"
  by (simp add: solanaCommitmentsMethods_def solanaCommitmentsDelegate_def solanaPayload_eq fun_eq_iff
      solanaSerializeCommitments_eq solanaDeserializeCommitments_eq)

subsection \<open>solana_nullifiers.go\<close>

definition solanaNullifiersPayload :: "nullifiersState \<Rightarrow> string set" where
  "solanaNullifiersPayload s = nlNullifiers s"

definition solanaPopulateNullifiers :: "string set snapshot \<Rightarrow> nullifiersState \<Rightarrow> nullifiersState" where
  "solanaPopulateNullifiers snap s = \<lparr>nlNullifiers = snPayload snap\<rparr>"

definition solanaSerializeNullifiers :: "(string set \<Rightarrow> string list) \<Rightarrow> string set snapshot \<Rightarrow> nullifierSerialized res" where
  "solanaSerializeNullifiers iter snap =
     (let block = snLatest snap; nullifiers = [n. n \<leftarrow> iter (snPayload snap)] in
      Ok \<lparr>nsLatest = Some block, nsNullifiers = nullifiers\<rparr>)"

definition solanaDeserializeNullifiers :: "nullifierSerialized \<Rightarrow> string set snapshot res" where
  "solanaDeserializeNullifiers serialized =
     (let nullifiers = fold insert (nsNullifiers serialized) {};
          latestBlock = (if nsLatest serialized \<noteq> None then the (nsLatest serialized) else 0)
      in Ok \<lparr>snLatest = latestBlock, snPayload = nullifiers\<rparr>)"

definition AcceptSolanaNullifierEvent :: "nullifierEvent \<Rightarrow> u64 \<Rightarrow> string \<Rightarrow> bool \<Rightarrow> (nullifiersState, bool) action" where
  "AcceptSolanaNullifierEvent event n tx isBlocked s =
     (let exists = neNullifier event \<in> nlNullifiers s in
      if exists then (Ok False, s) else (Ok True, \<lparr>nlNullifiers = insert (neNullifier event) (nlNullifiers s)\<rparr>))"

definition solanaNullifierMethods ::
  "jsonLib \<Rightarrow> (string set \<Rightarrow> string list) \<Rightarrow> nullifierSerialized res \<Rightarrow> (nullifierSerialized \<Rightarrow> unit res) \<Rightarrow>
   (nullifiersState, nullifierEvent, string set, nullifierSerialized) snapshotDelegate" where
  "solanaNullifierMethods J iter fetchFn persistFn =
     \<lparr>dlAcceptEvent = AcceptSolanaNullifierEvent, dlMapEvent = MapSolanaNullifierEvent J, dlPayload = solanaNullifiersPayload,
      dlPopulate = solanaPopulateNullifiers, dlSerialize = solanaSerializeNullifiers iter,
      dlDeserialize = (\<lambda>_. solanaDeserializeNullifiers), dlFetch = fetchFn, dlPersist = persistFn\<rparr>"

definition newClientSolanaNullifiers ::
  "jsonLib \<Rightarrow> (string set \<Rightarrow> string list) \<Rightarrow> nullifierSerialized res \<Rightarrow>
   (nullifiersState, nullifierEvent, string set, nullifierSerialized) snapshotDelegate" where
  "newClientSolanaNullifiers J iter fetched = solanaNullifierMethods J iter fetched (\<lambda>_. Ok ())"

lemma solanaNullifier_parts_eq:
  "solanaNullifiersPayload = NullifiersPayload" "solanaPopulateNullifiers = PopulateNullifiers"
  "solanaSerializeNullifiers = SerializeNullifiers" "solanaDeserializeNullifiers = DeserializeNullifiers"
  "AcceptSolanaNullifierEvent = AcceptNullifierEvent"
  by (auto simp: fun_eq_iff solanaNullifiersPayload_def NullifiersPayload_def solanaPopulateNullifiers_def PopulateNullifiers_def
      solanaSerializeNullifiers_def SerializeNullifiers_def solanaDeserializeNullifiers_def DeserializeNullifiers_def
      AcceptSolanaNullifierEvent_def AcceptNullifierEvent_def Let_def union_set_fold[symmetric] split: option.splits)

lemma solanaNullifierMethods_eq: "solanaNullifierMethods J iter f p = nullifierDelegate (MapSolanaNullifierEvent J) iter f p"
  by (simp add: solanaNullifierMethods_def nullifierDelegate_def solanaNullifier_parts_eq)

text \<open>The services the SDK starts are those of the two files.\<close>

lemma solana_commitments_service:
  "NewSolanaCommitmentsSnapshotService J iter f p e h =
     NewSnapshotService (solanaCommitmentsMethods J iter f p) e ''NewCommitment'' (newCommitmentsState h)"
  by (simp add: NewSolanaCommitmentsSnapshotService_def solanaCommitmentsMethods_eq)

lemma solana_nullifiers_service:
  "NewSolanaNullifierSnapshotService J iter f p e =
     NewSnapshotService (solanaNullifierMethods J iter f p) e ''Nullified'' \<lparr>nlNullifiers = {}\<rparr>"
  by (simp add: NewSolanaNullifierSnapshotService_def solanaNullifierMethods_eq)

end
