(* ===== verification/HinkalState.thy ===== *)
theory HinkalState
  imports Balance SnapshotService SolanaSnapshots SolanaEmitter
begin

text \<open>
  The state of the SDK object: \<open>data-structures/hinkal/hinkal.go\<close> and \<open>reset_merkle_trees.go\<close>. A map from chains is a
  partial function; the three providers are references into \<open>hkAdapters\<close>, the adapters that exist, so that one adapter can
  be handed over twice. \<open>hkDeploy\<close> are the caches of deployment files and parsed ABIs, \<open>hkWorld\<close> is what the adapters
  talk to. Adapters have type \<open>'p\<close>, devices given by the caller type \<open>'d\<close>.
\<close>

type_synonym commitmentsService = "(commitmentsState, commitmentsSerialized) snapshotService"
type_synonym nullifierService = "(nullifiersState, nullifierSerialized) snapshotService"

subsection \<open>The cache device of a configuration\<close>

datatype 'd hinkalDevice =
    GivenDevice 'd
  | NoopDevice
  | FileDevice fileCache
  | MemoryDevice memoryCache

definition hinkalCacheDevice :: "mapJson \<Rightarrow> 'd cacheDevice \<Rightarrow> 'd hinkalDevice cacheDevice" where
  "hinkalCacheDevice M given =
     \<lparr>cdGet = (\<lambda>d key. case d of
         GivenDevice g \<Rightarrow> cdGet given g key | NoopDevice \<Rightarrow> noopGet () key
       | FileDevice f \<Rightarrow> fileGet f key | MemoryDevice m \<Rightarrow> memoryGet m key),
      cdSet = (\<lambda>key v d. case d of
         GivenDevice g \<Rightarrow> andThen (cdSet given key v g) (\<lambda>g'. Ok (GivenDevice g'))
       | NoopDevice \<Rightarrow> Ok NoopDevice
       | FileDevice f \<Rightarrow> andThen (fileSet M key v f) (\<lambda>f'. Ok (FileDevice f'))
       | MemoryDevice m \<Rightarrow> andThen (memorySet key v m) (\<lambda>m'. Ok (MemoryDevice m')))\<rparr>"

record 'd hinkalConfig =
  cfGenerateProofRemotely :: "bool option"
  cfDisableMerkleTreeUpdates :: bool
  cfCacheDevice :: "'d option"
  cfCacheFilePath :: string
  cfUseFileCache :: bool
  cfDisableCaching :: bool
  cfSerializedCache :: "(string \<times> string) list"
  cfTronChainOverride :: int

fun fileSetAll :: "mapJson \<Rightarrow> (string \<times> string) list \<Rightarrow> fileCache \<Rightarrow> fileCache res" where
  "fileSetAll M [] f = Ok f"
| "fileSetAll M ((key, v) # entries) f = andThen (fileSet M key v f) (fileSetAll M entries)"

text \<open>\<open>newFile\<close> is \<open>NewFileCacheDevice\<close> in the process's directory.\<close>

definition configuredDevice :: "mapJson \<Rightarrow> (string \<Rightarrow> fileCache) \<Rightarrow> 'd hinkalConfig option \<Rightarrow> 'd hinkalDevice res" where
  "configuredDevice M newFile config =
     (case config of
        None \<Rightarrow> Ok (MemoryDevice NewMemoryCacheDevice)
      | Some cfg \<Rightarrow>
          (case cfCacheDevice cfg of
             Some d \<Rightarrow> Ok (GivenDevice d)
           | None \<Rightarrow>
               if cfDisableCaching cfg then Ok NoopDevice
               else if cfUseFileCache cfg
               then andThen (fileSetAll M (cfSerializedCache cfg) (newFile (cfCacheFilePath cfg))) (\<lambda>f. Ok (FileDevice f))
               else if cfSerializedCache cfg \<noteq> []
               then Ok (MemoryDevice (NewMemoryCacheDeviceWithSerialized (cfSerializedCache cfg)))
               else Ok (MemoryDevice NewMemoryCacheDevice)))"

subsection \<open>The object\<close>

record ('d, 'p, 'abi, 'w) hinkal =
  hkUserKeys :: userKeys
  hkTrees :: "int \<rightharpoonup> merkleTree"
  hkNullifiers :: "int \<rightharpoonup> string set"
  hkOutputs :: "int \<rightharpoonup> encryptedOutputWithSign list"
  hkCommitmentServices :: "int \<rightharpoonup> commitmentsService"
  hkNullifierServices :: "int \<rightharpoonup> nullifierService"
  hkEthereum :: "nat option"
  hkSolana :: "nat option"
  hkTron :: "nat option"
  hkProofRemotely :: bool
  hkUpdatesDisabled :: bool
  hkCache :: "'d hinkalDevice"
  hkTronChainID :: int
  hkAdapters :: "nat \<Rightarrow> 'p"
  hkDeploy :: "deployCache \<times> (int \<rightharpoonup> 'abi)"
  hkWorld :: 'w

definition NewHinkal ::
  "mapJson \<Rightarrow> (string \<Rightarrow> fileCache) \<Rightarrow> deploymentMode \<Rightarrow> (nat \<Rightarrow> 'p) \<Rightarrow> deployCache \<times> (int \<rightharpoonup> 'abi) \<Rightarrow> 'w \<Rightarrow>
   'd hinkalConfig option \<Rightarrow> ('d, 'p, 'abi, 'w) hinkal res" where
  "NewHinkal M newFile mode adapters deploy w config =
     andThen (configuredDevice M newFile config) (\<lambda>device.
       Ok \<lparr>hkUserKeys = NewUserKeys [], hkTrees = Map.empty, hkNullifiers = Map.empty, hkOutputs = Map.empty,
           hkCommitmentServices = Map.empty, hkNullifierServices = Map.empty, hkEthereum = None, hkSolana = None, hkTron = None,
           hkProofRemotely = (case config of None \<Rightarrow> True
              | Some cfg \<Rightarrow> (case cfGenerateProofRemotely cfg of None \<Rightarrow> True | Some b \<Rightarrow> b)),
           hkUpdatesDisabled = (case config of None \<Rightarrow> False | Some cfg \<Rightarrow> cfDisableMerkleTreeUpdates cfg),
           hkCache = device,
           hkTronChainID = (case config of None \<Rightarrow> CurrentTronChainID mode
              | Some cfg \<Rightarrow> if cfTronChainOverride cfg \<noteq> 0 then cfTronChainOverride cfg else CurrentTronChainID mode),
           hkAdapters = adapters, hkDeploy = deploy, hkWorld = w\<rparr>)"

definition InitUserKeysWithSignature :: "string \<Rightarrow> ('d, 'p, 'abi, 'w) hinkal \<Rightarrow> ('d, 'p, 'abi, 'w) hinkal" where
  "InitUserKeysWithSignature signature h = h\<lparr>hkUserKeys := NewUserKeys signature\<rparr>"

definition InitUserKeysFromSeedPhrases ::
  "(bytes \<Rightarrow> bytes) \<Rightarrow> string list \<Rightarrow> ('d, 'p, 'abi, 'w) hinkal \<Rightarrow> ('d, 'p, 'abi, 'w) hinkal" where
  "InitUserKeysFromSeedPhrases keccak phrases h = h\<lparr>hkUserKeys := NewUserKeys (GenerateHashFromSeedPhrases keccak phrases)\<rparr>"

definition UpdateMerkleTreeUpdates :: "bool \<Rightarrow> ('d, 'p, 'abi, 'w) hinkal \<Rightarrow> ('d, 'p, 'abi, 'w) hinkal" where
  "UpdateMerkleTreeUpdates v h = h\<lparr>hkUpdatesDisabled := v\<rparr>"

definition GetSupportedChains :: "('d, 'p, 'abi, 'w) hinkal \<Rightarrow> int list" where
  "GetSupportedChains h =
     (if hkEthereum h \<noteq> None \<and> hkSolana h \<noteq> None then WalletSupportedChains
      else if hkEthereum h \<noteq> None then filter (\<lambda>c. \<not> IsSolanaLike c \<and> \<not> IsTronLike c) HinkalSupportedChains
      else if hkSolana h \<noteq> None then filter IsSolanaLike HinkalSupportedChains
      else if hkTron h \<noteq> None then [hkTronChainID h]
      else [])"

text \<open>Both services go in together with what they hold.\<close>

definition storeChainState ::
  "int \<Rightarrow> commitmentsService \<Rightarrow> nullifierService \<Rightarrow> ('d, 'p, 'abi, 'w) hinkal \<Rightarrow> ('d, 'p, 'abi, 'w) hinkal" where
  "storeChainState chainID commitments nullifiers h =
     h\<lparr>hkCommitmentServices := (hkCommitmentServices h)(chainID \<mapsto> commitments),
       hkNullifierServices := (hkNullifierServices h)(chainID \<mapsto> nullifiers),
       hkTrees := (hkTrees h)(chainID := cmTree (svDelegate commitments)),
       hkOutputs := (hkOutputs h)(chainID \<mapsto> cmOutputs (svDelegate commitments)),
       hkNullifiers := (hkNullifiers h)(chainID \<mapsto> nlNullifiers (svDelegate nullifiers))\<rparr>"

subsection \<open>Resetting the Merkle tree of a chain\<close>

text \<open>What a reset asks: the nodes, the snapshot server, the readers of their texts. \<open>rsTime\<close> are the times of a request.\<close>

record 'abi resetEnv =
  rsChains :: chainEnv
  rsDeployFiles :: deployFiles
  rsParseABI :: "string \<Rightarrow> 'abi res"
  rsEvents :: "'abi \<Rightarrow> abiLib"
  rsDial :: "string \<Rightarrow> unit res"
  rsNode :: "string \<Rightarrow> rpcClient"
  rsSolanaRpc :: rpcLib
  rsSolanaEvents :: solanaEventLib
  rsJson :: jsonLib
  rsSnapshots :: "int \<Rightarrow> snapshotsResponse res"
  rsTime :: "nat \<Rightarrow> int \<times> int"
  rsPoseidon :: "int \<Rightarrow> int \<Rightarrow> int"
  rsEntries :: "(string \<rightharpoonup> string) \<Rightarrow> (string \<times> string) list"
  rsMembers :: "string set \<Rightarrow> string list"

definition onFirst :: "'a processor \<Rightarrow> ('a \<times> 'b) processor" where
  "onFirst p chain latest events scanned s = (case p chain latest events scanned (fst s) of (r, a) \<Rightarrow> (r, a, snd s))"

definition onSecond :: "'b processor \<Rightarrow> ('a \<times> 'b) processor" where
  "onSecond p chain latest events scanned s = (case p chain latest events scanned (snd s) of (r, b) \<Rightarrow> (r, fst s, b))"

text \<open>\<open>Init\<close> of a service: its snapshot's block and the service that holds the snapshot.\<close>

definition loadService ::
  "('s, 'e, 'p, 'z) snapshotDelegate \<Rightarrow> ('s, 'z) snapshotService \<Rightarrow> (u64 \<times> ('s, 'z) snapshotService) res" where
  "loadService D sv =
     andThen (wrapErr ''fetch snapshot'' (dlFetch D)) (\<lambda>z.
     andThen (wrapErr ''deserialize snapshot'' (dlDeserialize D (svDelegate sv) z)) (\<lambda>snap.
       Ok (snLatest snap, sv\<lparr>svDelegate := dlPopulate D snap (svDelegate sv), svSaved := snLatest snap\<rparr>)))"

definition newService :: "string \<Rightarrow> 's \<Rightarrow> ('s, 'z) snapshotService" where
  "newService name d = \<lparr>svEventName = name, svSaved = 0, svDelegate = d, svPersisted = []\<rparr>"

text \<open>The delegates of a chain family, given what their fetch function answers. Clients persist nothing.\<close>

definition clientCommitments ::
  "'abi resetEnv \<Rightarrow> bool \<Rightarrow> commitmentsSerialized res \<Rightarrow>
   (commitmentsState, commitmentEvent, commitmentsPayload, commitmentsSerialized) snapshotDelegate" where
  "clientCommitments R solana fetched =
     (if solana then newClientSolanaCommitments (rsJson R) (rsEntries R) fetched
      else commitmentsDelegate (rsJson R) (rsEntries R) fetched (\<lambda>_. Ok ()))"

definition clientNullifiers ::
  "'abi resetEnv \<Rightarrow> bool \<Rightarrow> nullifierSerialized res \<Rightarrow>
   (nullifiersState, nullifierEvent, string set, nullifierSerialized) snapshotDelegate" where
  "clientNullifiers R solana fetched =
     (if solana then newClientSolanaNullifiers (rsJson R) (rsMembers R) fetched
      else nullifierDelegate (MapNullifierEvent (rsJson R)) (rsMembers R) fetched (\<lambda>_. Ok ()))"

text \<open>
  Both services start from one fetcher, the commitments first; with them come the blocks the emitter is sent back to and the
  processors they registered.
\<close>

definition initServices ::
  "'abi resetEnv \<Rightarrow> bool \<Rightarrow> int \<Rightarrow> string \<Rightarrow>
   (u64 list \<times> (commitmentsService \<times> nullifierService) processor list \<times> commitmentsService \<times> nullifierService) res" where
  "initServices R solana chainID address =
     (let (fetched, fetcher) = (case rsTime R 0 of (since, after) \<Rightarrow>
            GetCommitments (rsSnapshots R) since after [] (NewSnapshotFetcherService chainID address []));
          DC = clientCommitments R solana fetched in
      andThen (loadService DC (newService ''NewCommitment'' (newCommitmentsState (rsPoseidon R)))) (\<lambda>(block1, commitments).
        let fetched2 = (case rsTime R 1 of (since, after) \<Rightarrow> fst (GetNullifiers (rsSnapshots R) since after [] fetcher));
            DN = clientNullifiers R solana fetched2 in
        andThen (loadService DN (newService ''Nullified'' \<lparr>nlNullifiers = {}\<rparr>)) (\<lambda>(block2, nullifiers).
          Ok ([block1, block2], [onFirst (processEventsPage DC), onSecond (processEventsPage DN)], commitments, nullifiers))))"

definition resetSolanaChain :: "'abi resetEnv \<Rightarrow> int \<Rightarrow> string \<Rightarrow> string \<Rightarrow> (commitmentsService \<times> nullifierService) res" where
  "resetSolanaChain R chainID address rpcURL =
     andThen (initServices R True chainID address) (\<lambda>(blocks, procs, services).
       let node = solanaNodeOf (rsSolanaRpc R) (NewClient rpcURL) address;
           e = fold solanaSyncFromAtMost blocks
                 ((NewSolanaBlockchainEventEmitter chainID address 0 False None)\<lparr>seProcs := procs\<rparr>) in
       case solanaRetrieveEvents (rsSolanaEvents R) node (solanaLatestSlot e + 1) False (e, services) of
         (Ok _, e', services') \<Rightarrow> Ok services'
       | (Err err, es) \<Rightarrow> Err err
       | (Panic p, es) \<Rightarrow> Panic p)"

definition resetEvmChain ::
  "'abi resetEnv \<Rightarrow> int \<Rightarrow> string \<Rightarrow> string \<Rightarrow> (deployCache \<times> (int \<rightharpoonup> 'abi), commitmentsService \<times> nullifierService) action" where
  "resetEvmChain R chainID address rpcURL =
     bindA (NewEVMEmitter (rsDial R) (rsParseABI R) (rsDeployFiles R) chainID rpcURL address 0) (\<lambda>(abi, e0).
       liftA (andThen (initServices R False chainID address) (\<lambda>(blocks, procs, services).
         let e = fold SyncFromAtMost blocks (e0\<lparr>emProcs := procs\<rparr>) in
         case RetrieveEvents (rsJson R) (rsEvents R abi) (rsNode R rpcURL) (LatestBlockNumber e + 1) False (e, services) of
           (Ok _, e', services') \<Rightarrow> Ok services'
         | (Err err, es) \<Rightarrow> Err err
         | (Panic p, es) \<Rightarrow> Panic p)))"

definition onDeployFiles :: "(deployCache, 'a) action \<Rightarrow> (deployCache \<times> 'z, 'a) action" where
  "onDeployFiles f st = (case f (fst st) of (r, dc) \<Rightarrow> (r, dc, snd st))"

text \<open>The new services of a chain; the caches are all it changes on the way.\<close>

definition freshServices ::
  "'abi resetEnv \<Rightarrow> int \<Rightarrow> (deployCache \<times> (int \<rightharpoonup> 'abi), commitmentsService \<times> nullifierService) action" where
  "freshServices R chainID =
     bindA (onDeployFiles (HinkalAddress (rsDeployFiles R) chainID)) (\<lambda>hinkalAddress.
     bindA (liftA (FetchRPCURL (rsChains R) chainID)) (\<lambda>rpcURL.
       if IsSolanaLike chainID then liftA (resetSolanaChain R chainID hinkalAddress rpcURL)
       else resetEvmChain R chainID hinkalAddress rpcURL))"

definition resetMerkleTreeForChain :: "'abi resetEnv \<Rightarrow> int \<Rightarrow> (('d, 'p, 'abi, 'w) hinkal, unit) action" where
  "resetMerkleTreeForChain R chainID h =
     (case freshServices R chainID (hkDeploy h) of
        (Ok (commitments, nullifiers), deploy) \<Rightarrow> (Ok (), storeChainState chainID commitments nullifiers (h\<lparr>hkDeploy := deploy\<rparr>))
      | (Err e, deploy) \<Rightarrow> (Err e, h\<lparr>hkDeploy := deploy\<rparr>)
      | (Panic p, deploy) \<Rightarrow> (Panic p, h\<lparr>hkDeploy := deploy\<rparr>))"

text \<open>
  Each chain has its goroutine and its mutex; \<open>schedule\<close> is the order in which the goroutines get to their chain. A panic in one
  of them ends the process.
\<close>

fun runResets ::
  "'abi resetEnv \<Rightarrow> int list \<Rightarrow> nat list \<Rightarrow> ('d, 'p, 'abi, 'w) hinkal \<Rightarrow> (nat \<times> unit res) list \<times> ('d, 'p, 'abi, 'w) hinkal" where
  "runResets R todo [] h = ([], h)"
| "runResets R todo (i # is) h =
     (case resetMerkleTreeForChain R (todo ! i) h of (r, h1) \<Rightarrow>
      case runResets R todo is h1 of (rs, h2) \<Rightarrow> ((i, r) # rs, h2))"

fun joinErrors :: "go_error list \<Rightarrow> unit res" where
  "joinErrors [] = Ok ()"
| "joinErrors [e] = Err e"
| "joinErrors (e # es) = (case joinErrors es of Err f \<Rightarrow> Err (ErrJoin e f) | r \<Rightarrow> Err e)"

definition joinResults :: "unit res list \<Rightarrow> unit res" where
  "joinResults rs =
     (case [p. Panic p \<leftarrow> rs] of p # ps \<Rightarrow> Panic p | [] \<Rightarrow> joinErrors [e. Err e \<leftarrow> rs])"

definition resetMerkleTrees :: "'abi resetEnv \<Rightarrow> nat list \<Rightarrow> int list \<Rightarrow> (('d, 'p, 'abi, 'w) hinkal, unit) action" where
  "resetMerkleTrees R schedule chainIDs h =
     (let todo = (if chainIDs = [] then GetSupportedChains h else chainIDs);
          (rs, h') = runResets R todo schedule h in
      (joinResults (map (\<lambda>i. case map_of rs i of None \<Rightarrow> Ok () | Some r \<Rightarrow> r) [0..<length todo]), h'))"

text \<open>An unsupported chain makes the whole call a success that resets nothing.\<close>

definition ResetMerkle :: "'abi resetEnv \<Rightarrow> nat list \<Rightarrow> int list \<Rightarrow> (('d, 'p, 'abi, 'w) hinkal, unit) action" where
  "ResetMerkle R schedule chainIDs h =
     (if hkUpdatesDisabled h then (Ok (), h)
      else if \<exists>c \<in> set chainIDs. \<not> IsHinkalSupportedChain c then (Ok (), h)
      else resetMerkleTrees R schedule chainIDs h)"

subsection \<open>The root hash of the contract\<close>

record 'abi rootEnv =
  rtPack :: "'abi \<Rightarrow> bytes res"                                      \<comment> \<open>a call of getRootHash\<close>
  rtCall :: "string \<Rightarrow> string \<Rightarrow> bytes \<Rightarrow> bytes res"                 \<comment> \<open>CallContract at a node, of a contract\<close>
  rtUnpack :: "'abi \<Rightarrow> bytes \<Rightarrow> (int + string) list res"
  rtValidPoint :: "bytes \<Rightarrow> bool"
  rtCrypto :: cryptoLib

definition hinkalAddressOf :: "'abi resetEnv \<Rightarrow> int \<Rightarrow> (deployCache \<times> (int \<rightharpoonup> 'abi), string) action" where
  "hinkalAddressOf R chainID st =
     (case onDeployFiles (HinkalAddress (rsDeployFiles R) chainID) st of
        (Err e, st') \<Rightarrow> (Ok [], st') | r \<Rightarrow> r)"

definition unpackRoot :: "(int + string) list \<Rightarrow> int res" where
  "unpackRoot results =
     (case results of
        [] \<Rightarrow> Err (ErrMsg ''getHinkalTreeRootHash: empty result'')
      | Inl rootHash # rest \<Rightarrow> Ok rootHash
      | Inr type # rest \<Rightarrow> Err (ErrMsg (''getHinkalTreeRootHash: unexpected type '' @ type)))"

definition contractRootHash :: "'abi resetEnv \<Rightarrow> 'abi rootEnv \<Rightarrow> int \<Rightarrow> (deployCache \<times> (int \<rightharpoonup> 'abi), int) action" where
  "contractRootHash R T chainID =
     bindA (hinkalAddressOf R chainID) (\<lambda>hinkalAddress.
       if hinkalAddress = []
       then liftA (Err (ErrMsg (''getHinkalTreeRootHash: chain '' @ bigString chainID @ '' is not synced'')))
       else
         bindA (liftA (FetchRPCURL (rsChains R) chainID)) (\<lambda>rpcURL.
           if IsSolanaLike chainID then
             bindA (onDeployFiles (OriginalDeployer (rsDeployFiles R) chainID)) (\<lambda>originalDeployer.
               liftA (FetchMerkleTreeRootHash (rtCrypto T) (rtValidPoint T)
                 (GetAccountInfo (rsSolanaRpc R) (NewClient rpcURL)) hinkalAddress originalDeployer))
           else
             bindA (liftA (rsDial R rpcURL)) (\<lambda>_.
             bindA (Hinkal (rsParseABI R) (rsDeployFiles R) chainID) (\<lambda>parsedABI.
               liftA (andThen (rtPack T parsedABI) (\<lambda>data.
                 andThen (rtCall T rpcURL hinkalAddress data) (\<lambda>out.
                 andThen (rtUnpack T parsedABI out) unpackRoot)))))))"

definition GetHinkalTreeRootHash :: "'abi resetEnv \<Rightarrow> 'abi rootEnv \<Rightarrow> int \<Rightarrow> (('d, 'p, 'abi, 'w) hinkal, int) action" where
  "GetHinkalTreeRootHash R T chainID h =
     (case contractRootHash R T chainID (hkDeploy h) of (r, deploy) \<Rightarrow> (r, h\<lparr>hkDeploy := deploy\<rparr>))"

text \<open>The chains whose own tree is missing or has another root than the contract.\<close>

fun staleChains :: "'abi resetEnv \<Rightarrow> 'abi rootEnv \<Rightarrow> int list \<Rightarrow> (('d, 'p, 'abi, 'w) hinkal, int list) action" where
  "staleChains R T [] = liftA (Ok [])"
| "staleChains R T (chainID # cs) =
     bindA (GetHinkalTreeRootHash R T chainID) (\<lambda>hinkalRootHash.
     bindA (\<lambda>h. (case hkTrees h chainID of
                   None \<Rightarrow> Ok True
                 | Some t \<Rightarrow> andThen (GetRootHash t) (\<lambda>localRootHash. Ok (hinkalRootHash \<noteq> localRootHash)), h)) (\<lambda>stale.
     bindA (staleChains R T cs) (\<lambda>rest.
       liftA (Ok (if stale then chainID # rest else rest)))))"

definition ResetMerkleTreesIfNecessary ::
  "'abi resetEnv \<Rightarrow> 'abi rootEnv \<Rightarrow> (int list \<Rightarrow> nat list) \<Rightarrow> int list \<Rightarrow> (('d, 'p, 'abi, 'w) hinkal, unit) action" where
  "ResetMerkleTreesIfNecessary R T schedule chainIDsToCheck h =
     (if hkUpdatesDisabled h then (Ok (), h)
      else
        (let todo = (if chainIDsToCheck = [] then GetSupportedChains h else chainIDsToCheck) in
         if \<exists>c \<in> set todo. \<not> IsHinkalSupportedChain c then (Ok (), h)
         else
           bindA (staleChains R T todo) (\<lambda>chainsToReset.
             if chainsToReset \<noteq> [] then ResetMerkle R (schedule chainsToReset) chainsToReset else liftA (Ok ())) h))"

section \<open>The root hash on chain\<close>

text \<open>
  The root hash that a proof is made against, read from the contract: \<open>functions/snarkjs/fetch_on_chain_root_hashes.go\<close>. The SDK
  object reads it in another place with other errors (\<open>contractRootHash\<close>); both agree on the hash.
\<close>

definition unpackRootHash :: "(int + string) list \<Rightarrow> int res" where
  "unpackRootHash results =
     (case results of
        [] \<Rightarrow> Err (ErrMsg ''fetchOnChainRootHashes: empty result'')
      | Inl rootHash # _ \<Rightarrow> Ok rootHash
      | Inr type # _ \<Rightarrow> Err (ErrMsg (''fetchOnChainRootHashes: unexpected type '' @ type)))"

definition FetchOnChainRootHashes :: "'abi resetEnv \<Rightarrow> 'abi rootEnv \<Rightarrow> int \<Rightarrow> (deployCache \<times> (int \<rightharpoonup> 'abi), int) action" where
  "FetchOnChainRootHashes R T chainID =
     bindA (onDeployFiles (HinkalAddress (rsDeployFiles R) chainID)) (\<lambda>hinkalAddress.
     bindA (liftA (FetchRPCURL (rsChains R) chainID)) (\<lambda>rpcURL.
       if IsSolanaLike chainID then
         bindA (onDeployFiles (OriginalDeployer (rsDeployFiles R) chainID)) (\<lambda>originalDeployer.
           liftA (FetchMerkleTreeRootHash (rtCrypto T) (rtValidPoint T)
             (GetAccountInfo (rsSolanaRpc R) (NewClient rpcURL)) hinkalAddress originalDeployer))
       else
         bindA (liftA (rsDial R rpcURL)) (\<lambda>_.
         bindA (Hinkal (rsParseABI R) (rsDeployFiles R) chainID) (\<lambda>parsedABI.
           liftA (andThen (rtPack T parsedABI) (\<lambda>data.
             andThen (rtCall T rpcURL hinkalAddress data) (\<lambda>out.
             andThen (rtUnpack T parsedABI out) unpackRootHash)))))))"

lemma unpackRootHash_ok_iff: "unpackRootHash results = Ok root \<longleftrightarrow> unpackRoot results = Ok root"
  by (cases results) (auto simp: unpackRootHash_def unpackRoot_def split: sum.splits)

text \<open>
  On a chain whose contract is known the proof and the object read the same root: one succeeds exactly when the other does, with
  the same hash and the same caches.
\<close>

lemma bindA_ok_iff:
  "bindA f g s = (Ok y, s') \<longleftrightarrow> (\<exists>x s1. f s = (Ok x, s1) \<and> g x s1 = (Ok y, s'))"
  by (auto simp: bindA_def split: res.splits prod.splits)

lemma liftA_ok_iff: "liftA r s = (Ok y, s') \<longleftrightarrow> r = Ok y \<and> s' = s"
  by (auto simp: liftA_def)

lemma andThen_ok_iff': "andThen r f = Ok y \<longleftrightarrow> (\<exists>x. r = Ok x \<and> f x = Ok y)"
  by (cases r) auto

lemma hinkalAddressOf_known:
  assumes "onDeployFiles (HinkalAddress (rsDeployFiles R) chainID) st = (Ok a, st')"
  shows "hinkalAddressOf R chainID st = (Ok a, st')"
  using assms by (simp add: hinkalAddressOf_def)

lemma same_root_hash:
  assumes known: "onDeployFiles (HinkalAddress (rsDeployFiles R) chainID) st = (Ok a, st1)" and "a \<noteq> []"
  shows "FetchOnChainRootHashes R T chainID st = (Ok root, st') \<longleftrightarrow> contractRootHash R T chainID st = (Ok root, st')"
  using known hinkalAddressOf_known[OF known] \<open>a \<noteq> []\<close>
  by (auto simp: FetchOnChainRootHashes_def contractRootHash_def bindA_ok_iff liftA_ok_iff andThen_ok_iff' unpackRootHash_ok_iff)

end
