(* ===== verification/HinkalStateProps.thy ===== *)
theory HinkalStateProps
  imports HinkalState
begin

text \<open>
  Resets of different chains do not interfere: each reads and writes what belongs to its own chain. The locale
  \<open>keyed_state\<close> states what is needed of a state made of parts with keys; it is used for the caches and for the object.
\<close>

locale keyed_state =
  fixes same :: "'k \<Rightarrow> 's \<Rightarrow> 's \<Rightarrow> bool"
    and rest :: "'s \<Rightarrow> 'r"
  assumes same_refl: "same k s s"
    and same_sym: "same k s t \<Longrightarrow> same k t s"
    and same_trans: "same k s t \<Longrightarrow> same k t u \<Longrightarrow> same k s u"
    and same_ext: "(\<And>k. same k s t) \<Longrightarrow> rest s = rest t \<Longrightarrow> s = t"
begin

text \<open>A step that reads and writes the part of one key.\<close>

definition localAt :: "'k \<Rightarrow> ('s, 'a) action \<Rightarrow> bool" where
  "localAt k m \<longleftrightarrow>
     (\<forall>s t. same k s t \<longrightarrow> fst (m s) = fst (m t) \<and> same k (snd (m s)) (snd (m t))) \<and>
     (\<forall>s l. l \<noteq> k \<longrightarrow> same l (snd (m s)) s) \<and> (\<forall>s. rest (snd (m s)) = rest s)"

lemma localAt_reads: "localAt k m \<Longrightarrow> same k s t \<Longrightarrow> fst (m s) = fst (m t) \<and> same k (snd (m s)) (snd (m t))"
  by (simp add: localAt_def)

lemma localAt_frame: "localAt k m \<Longrightarrow> l \<noteq> k \<Longrightarrow> same l (snd (m s)) s"
  by (simp add: localAt_def)

lemma localAt_rest: "localAt k m \<Longrightarrow> rest (snd (m s)) = rest s"
  by (simp add: localAt_def)

lemma localAt_lift: "localAt k (liftA r)"
  by (simp add: localAt_def liftA_def same_refl)

lemma localAt_bind:
  assumes m: "localAt k m" and f: "\<And>x. localAt k (f x)"
  shows "localAt k (bindA m f)"
  unfolding localAt_def
proof (intro conjI allI impI)
  fix s t assume st: "same k s t"
  obtain r s1 where s: "m s = (r, s1)" by (cases "m s")
  obtain t1 where t: "m t = (r, t1)" and s1: "same k s1 t1" using localAt_reads [OF m st] s by (cases "m t") simp
  show "fst (bindA m f s) = fst (bindA m f t)" "same k (snd (bindA m f s)) (snd (bindA m f t))"
    using s t s1 localAt_reads [OF f s1] by (auto simp: bindA_def split: res.split)
next
  fix s l assume l: "l \<noteq> k"
  obtain r s1 where s: "m s = (r, s1)" by (cases "m s")
  have "same l s1 s" using localAt_frame [OF m l, of s] s by simp
  then show "same l (snd (bindA m f s)) s"
    using s localAt_frame [OF f l] by (auto simp: bindA_def intro: same_trans split: res.split)
next
  fix s
  obtain r s1 where s: "m s = (r, s1)" by (cases "m s")
  have "rest s1 = rest s" using localAt_rest [OF m, of s] s by simp
  then show "rest (snd (bindA m f s)) = rest s"
    using s localAt_rest [OF f] by (auto simp: bindA_def split: res.split)
qed

lemma localAt_if: "(b \<Longrightarrow> localAt k m) \<Longrightarrow> (\<not> b \<Longrightarrow> localAt k n) \<Longrightarrow> localAt k (if b then m else n)"
  by simp

end

subsection \<open>The caches\<close>

definition sameCaches :: "int \<Rightarrow> deployCache \<times> (int \<rightharpoonup> 'abi) \<Rightarrow> deployCache \<times> (int \<rightharpoonup> 'abi) \<Rightarrow> bool" where
  "sameCaches c s t \<longleftrightarrow> fst s c = fst t c \<and> snd s c = snd t c"

interpretation caches: keyed_state sameCaches "\<lambda>s. ()"
  by unfold_locales (auto simp: sameCaches_def prod_eq_iff fun_eq_iff)

definition dataOf :: "deployFiles \<Rightarrow> int \<Rightarrow> deployData option option \<Rightarrow> deployData res" where
  "dataOf fs c entry = fst (loadDeployData fs c ((\<lambda>_. None)(c := entry)))"

definition entryOf :: "deployFiles \<Rightarrow> int \<Rightarrow> deployData option option \<Rightarrow> deployData option option" where
  "entryOf fs c entry = snd (loadDeployData fs c ((\<lambda>_. None)(c := entry))) c"

text \<open>Reading a deployment file concerns the entry of its chain only.\<close>

lemma loadDeployData_local:
  "loadDeployData fs c cache = (dataOf fs c (cache c), cache(c := entryOf fs c (cache c)))"
proof (cases "cache c")
  case None
  then show ?thesis
    by (auto simp: loadDeployData_def dataOf_def entryOf_def Let_def fun_upd_idem split: option.split res.split)
next
  case (Some entry)
  then show ?thesis
    by (cases entry) (auto simp: loadDeployData_def dataOf_def entryOf_def fun_upd_idem)
qed

lemma localAt_loadDeployData: "caches.localAt c (onDeployFiles (loadDeployData fs c))"
  by (auto simp: caches.localAt_def onDeployFiles_def loadDeployData_local sameCaches_def)

lemma onDeployFiles_bind:
  "onDeployFiles (bindA m (\<lambda>x. liftA (f x))) = bindA (onDeployFiles m) (\<lambda>x. liftA (f x))"
  by (rule ext) (auto simp: onDeployFiles_def bindA_def liftA_def split: prod.split res.split)

lemma localAt_HinkalAddress: "caches.localAt c (onDeployFiles (HinkalAddress fs c))"
  unfolding HinkalAddress_def GetContractData_def
  by (simp add: onDeployFiles_bind caches.localAt_bind caches.localAt_lift localAt_loadDeployData)

lemma localAt_GetContractData: "caches.localAt c (onDeployFiles (GetContractData fs c))"
  unfolding GetContractData_def
  by (simp add: onDeployFiles_bind caches.localAt_bind caches.localAt_lift localAt_loadDeployData)

lemma localAt_ABIJSON: "caches.localAt c (onDeployFiles (HinkalABIJSON fs c))"
  unfolding HinkalABIJSON_def
  by (simp add: onDeployFiles_bind caches.localAt_bind caches.localAt_lift localAt_loadDeployData)

definition rememberABI :: "int \<Rightarrow> 'abi \<Rightarrow> (deployCache \<times> (int \<rightharpoonup> 'abi), 'abi) action" where
  "rememberABI c parsed = (\<lambda>(dc, abis). (Ok parsed, dc, abis(c \<mapsto> parsed)))"

lemma Hinkal_steps:
  "Hinkal parseABI fs c = (\<lambda>(dc, abis). case abis c of
      Some cached \<Rightarrow> (Ok cached, dc, abis)
    | None \<Rightarrow> bindA (onDeployFiles (HinkalABIJSON fs c)) (\<lambda>raw. bindA (liftA (parseABI raw)) (rememberABI c)) (dc, abis))"
  by (rule ext)
    (auto simp: Hinkal_def onDeployFiles_def bindA_def liftA_def rememberABI_def split: prod.split option.split res.split)

lemma localAt_Hinkal: "caches.localAt c (Hinkal parseABI fs c)"
proof -
  let ?load = "bindA (onDeployFiles (HinkalABIJSON fs c)) (\<lambda>raw. bindA (liftA (parseABI raw)) (rememberABI c))"
  have "caches.localAt c (rememberABI c x)" for x :: 'a
    by (auto simp: caches.localAt_def rememberABI_def sameCaches_def)
  then have load: "caches.localAt c ?load"
    by (intro caches.localAt_bind caches.localAt_lift localAt_ABIJSON)
  show ?thesis
    unfolding Hinkal_steps caches.localAt_def
  proof (intro conjI allI impI)
    fix s t :: "deployCache \<times> (int \<rightharpoonup> 'a)" assume st: "sameCaches c s t"
    then have "snd s c = snd t c" by (simp add: sameCaches_def)
    then show "fst ((\<lambda>(dc, abis). case abis c of Some cached \<Rightarrow> (Ok cached, dc, abis) | None \<Rightarrow> ?load (dc, abis)) s) =
        fst ((\<lambda>(dc, abis). case abis c of Some cached \<Rightarrow> (Ok cached, dc, abis) | None \<Rightarrow> ?load (dc, abis)) t)"
      "sameCaches c (snd ((\<lambda>(dc, abis). case abis c of Some cached \<Rightarrow> (Ok cached, dc, abis) | None \<Rightarrow> ?load (dc, abis)) s))
        (snd ((\<lambda>(dc, abis). case abis c of Some cached \<Rightarrow> (Ok cached, dc, abis) | None \<Rightarrow> ?load (dc, abis)) t))"
      using st caches.localAt_reads [OF load st] by (auto split: prod.splits option.splits)
  next
    fix s :: "deployCache \<times> (int \<rightharpoonup> 'a)" and l assume l: "l \<noteq> c"
    show "sameCaches l (snd ((\<lambda>(dc, abis). case abis c of Some cached \<Rightarrow> (Ok cached, dc, abis) | None \<Rightarrow> ?load (dc, abis)) s)) s"
      using caches.localAt_frame [OF load l, of s] by (auto simp: sameCaches_def split: prod.splits option.splits)
  qed simp
qed

lemma localAt_apfst: "caches.localAt c m \<Longrightarrow> caches.localAt c (\<lambda>st. apfst f (m st))"
  by (simp add: caches.localAt_def)

lemma localAt_NewEVMEmitter:
  fixes parseABI :: "string \<Rightarrow> 'abi res"
  shows "caches.localAt c (NewEVMEmitter dial parseABI fs c rpcURL addr n)"
proof -
  let ?load = "\<lambda>(dc, abis :: int \<rightharpoonup> 'abi). case GetContractData fs c dc of (r, dc') \<Rightarrow> (wrapErr ''load contract data'' r, dc', abis)"
  have "?load = (\<lambda>st. apfst (wrapErr ''load contract data'') (onDeployFiles (GetContractData fs c) st))"
    by (rule ext) (simp add: onDeployFiles_def split: prod.split)
  then have load: "caches.localAt c ?load" by (simp only: localAt_apfst localAt_GetContractData)
  show ?thesis
    unfolding NewEVMEmitter_def
    by (intro caches.localAt_bind caches.localAt_lift localAt_apfst localAt_Hinkal load)
qed

lemma localAt_freshServices: "caches.localAt c (freshServices R c)"
  unfolding freshServices_def resetEvmChain_def
  by (auto intro!: caches.localAt_bind caches.localAt_lift caches.localAt_if localAt_HinkalAddress localAt_NewEVMEmitter
    split: prod.split)

subsection \<open>The object\<close>

text \<open>What the object holds of a chain, and what belongs to no chain.\<close>

definition sameChain :: "int \<Rightarrow> ('d, 'p, 'abi, 'w) hinkal \<Rightarrow> ('d, 'p, 'abi, 'w) hinkal \<Rightarrow> bool" where
  "sameChain c h g \<longleftrightarrow>
     hkTrees h c = hkTrees g c \<and> hkNullifiers h c = hkNullifiers g c \<and> hkOutputs h c = hkOutputs g c \<and>
     hkCommitmentServices h c = hkCommitmentServices g c \<and> hkNullifierServices h c = hkNullifierServices g c \<and>
     sameCaches c (hkDeploy h) (hkDeploy g)"

definition chainless :: "('d, 'p, 'abi, 'w) hinkal \<Rightarrow> ('d, 'p, 'abi, 'w) hinkal" where
  "chainless h = h\<lparr>hkTrees := Map.empty, hkNullifiers := Map.empty, hkOutputs := Map.empty,
     hkCommitmentServices := Map.empty, hkNullifierServices := Map.empty, hkDeploy := (Map.empty, Map.empty)\<rparr>"

lemma sameChain_ext:
  assumes "\<And>c. sameChain c h g" "chainless h = chainless g"
  shows "h = g"
proof -
  have "hkTrees h = hkTrees g" "hkNullifiers h = hkNullifiers g" "hkOutputs h = hkOutputs g"
    "hkCommitmentServices h = hkCommitmentServices g" "hkNullifierServices h = hkNullifierServices g"
    "fst (hkDeploy h) = fst (hkDeploy g)" "snd (hkDeploy h) = snd (hkDeploy g)"
    using assms(1) by (auto simp: sameChain_def sameCaches_def)
  then show ?thesis using assms(2) by (cases h; cases g) (auto simp: chainless_def prod_eq_iff)
qed

interpretation object: keyed_state sameChain chainless
  by unfold_locales (auto simp: sameChain_def sameCaches_def intro: sameChain_ext)

lemma localAt_reset: "object.localAt c (resetMerkleTreeForChain R c)"
proof -
  let ?m = "resetMerkleTreeForChain R c :: (('a, 'b, 'c, 'd) hinkal, unit) action"
  note fresh = localAt_freshServices [of c R]
  have "fst (?m h) = fst (?m g) \<and> sameChain c (snd (?m h)) (snd (?m g))" if "sameChain c h g" for h g
  proof -
    have "sameCaches c (hkDeploy h) (hkDeploy g)" using that by (simp add: sameChain_def)
    note both = caches.localAt_reads [OF fresh this]
    obtain r d where d: "freshServices R c (hkDeploy h) = (r, d)" by (cases "freshServices R c (hkDeploy h)")
    obtain e where e: "freshServices R c (hkDeploy g) = (r, e)" and de: "sameCaches c d e"
      using both d by (cases "freshServices R c (hkDeploy g)") simp
    then show ?thesis
      using that by (cases r) (auto simp: d e resetMerkleTreeForChain_def storeChainState_def sameChain_def split: prod.split)
  qed
  moreover have "sameChain l (snd (?m h)) h" if "l \<noteq> c" for h l
    using caches.localAt_frame [OF fresh that, of "hkDeploy h"] that
    by (auto simp: resetMerkleTreeForChain_def storeChainState_def sameChain_def split: prod.split res.split)
  moreover have "chainless (snd (?m h)) = chainless h" for h
    by (auto simp: resetMerkleTreeForChain_def storeChainState_def chainless_def split: prod.split res.split)
  ultimately show ?thesis by (simp add: object.localAt_def)
qed

lemmas reset_reads = object.localAt_reads [OF localAt_reset]
lemmas reset_frame = object.localAt_frame [OF localAt_reset]
lemmas reset_rest = object.localAt_rest [OF localAt_reset]

text \<open>However many goroutines ran before it, a chain is reset as from the first state.\<close>

lemma runResets_each:
  assumes "runResets R todo js h = (rs, h')" "distinct (map ((!) todo) js)"
  shows "rs = map (\<lambda>i. (i, fst (resetMerkleTreeForChain R (todo ! i) h))) js \<and>
    (\<forall>i\<in>set js. sameChain (todo ! i) h' (snd (resetMerkleTreeForChain R (todo ! i) h))) \<and>
    (\<forall>c. c \<notin> (!) todo ` set js \<longrightarrow> sameChain c h' h) \<and> chainless h' = chainless h"
  using assms
proof (induction js arbitrary: h rs)
  case (Cons i js)
  let ?m = "\<lambda>c. resetMerkleTreeForChain R c"
  obtain rs' where r: "rs = (i, fst (?m (todo ! i) h)) # rs'"
    and run: "runResets R todo js (snd (?m (todo ! i) h)) = (rs', h')"
    using Cons.prems(1) by (auto split: prod.splits)
  let ?h = "snd (?m (todo ! i) h)"
  have fresh: "todo ! i \<notin> (!) todo ` set js" "distinct (map ((!) todo) js)" using Cons.prems(2) by auto
  note IH = Cons.IH [OF run fresh(2)]
  note IH_results = IH [THEN conjunct1] and IH_same = IH [THEN conjunct2, THEN conjunct1]
    and IH_other = IH [THEN conjunct2, THEN conjunct2, THEN conjunct1] and IH_rest = IH [THEN conjunct2, THEN conjunct2, THEN conjunct2]
  have same: "sameChain c ?h h" if "c \<noteq> todo ! i" for c using reset_frame [OF that] .
  have reads: "fst (?m (todo ! j) ?h) = fst (?m (todo ! j) h) \<and> sameChain (todo ! j) (snd (?m (todo ! j) ?h)) (snd (?m (todo ! j) h))"
    if "j \<in> set js" for j
  proof (rule reset_reads, rule same)
    show "todo ! j \<noteq> todo ! i" using fresh(1) that by (metis image_eqI)
  qed
  have "sameChain (todo ! i) h' ?h" using IH_other fresh(1) by simp
  moreover have "\<forall>j\<in>set js. sameChain (todo ! j) h' (snd (?m (todo ! j) h))"
    using IH_same reads object.same_trans by fast
  moreover have "\<forall>c. c \<notin> (!) todo ` set (i # js) \<longrightarrow> sameChain c h' h"
  proof (intro allI impI)
    fix c assume c: "c \<notin> (!) todo ` set (i # js)"
    then have "sameChain c h' ?h" using IH_other by simp
    then show "sameChain c h' h" using same [of c] c object.same_trans by simp
  qed
  moreover have "chainless h' = chainless h" using IH_rest reset_rest by simp
  moreover have "rs' = map (\<lambda>j. (j, fst (?m (todo ! j) h))) js" using IH_results reads by simp
  ultimately show ?case using r by simp
qed (simp add: object.same_refl)

lemma map_of_indexed: "i \<in> set js \<Longrightarrow> map_of (map (\<lambda>i. (i, f i)) js) i = Some (f i)"
  by (induction js) auto

lemma distinct_supported: "distinct (GetSupportedChains h)"
proof -
  have "distinct WalletSupportedChains" "distinct HinkalSupportedChains" by code_simp+
  then show ?thesis by (simp add: GetSupportedChains_def)
qed

text \<open>C33: Resetting the Merkle trees of several chains at once gives, whatever order their goroutines get to run in, for
  each chain the outcome of resetting it alone: a chain whose new services could be made holds their tree, outputs and
  nullifiers, a chain whose reset failed holds what it held, every other chain and the rest of the object are as before, and
  the error is the join of the chains' own errors.
\<close>

theorem resets_do_not_interfere:
  assumes run: "resetMerkleTrees R schedule chainIDs h = (r, h')"
    and todo: "todo = (if chainIDs = [] then GetSupportedChains h else chainIDs)"
    and chains: "distinct chainIDs" and schedule: "distinct schedule" "set schedule = {0..<length todo}"
  shows "r = joinResults (map (\<lambda>c. fst (resetMerkleTreeForChain R c h)) todo) \<and>
    (\<forall>c\<in>set todo. case fst (freshServices R c (hkDeploy h)) of
        Ok (commitments, nullifiers) \<Rightarrow>
          hkTrees h' c = cmTree (svDelegate commitments) \<and> hkOutputs h' c = Some (cmOutputs (svDelegate commitments)) \<and>
          hkNullifiers h' c = Some (nlNullifiers (svDelegate nullifiers))
      | _ \<Rightarrow> hkTrees h' c = hkTrees h c \<and> hkOutputs h' c = hkOutputs h c \<and> hkNullifiers h' c = hkNullifiers h c) \<and>
    (\<forall>c. c \<notin> set todo \<longrightarrow> sameChain c h' h) \<and> chainless h' = chainless h"
proof -
  let ?m = "\<lambda>c. resetMerkleTreeForChain R c"
  obtain rs where rs: "runResets R todo schedule h = (rs, h')"
    and r: "r = joinResults (map (\<lambda>i. case map_of rs i of None \<Rightarrow> Ok () | Some x \<Rightarrow> x) [0..<length todo])"
    using run todo by (auto simp: resetMerkleTrees_def Let_def split: prod.splits)
  have "distinct todo" using chains todo distinct_supported by auto
  then have "inj_on ((!) todo) (set schedule)" using schedule(2) by (simp add: inj_on_nth)
  then have distinct: "distinct (map ((!) todo) schedule)" using schedule(1) by (simp add: distinct_map)
  have image: "(!) todo ` set schedule = set todo" unfolding schedule(2) by (metis atLeastLessThan_upt image_set map_nth)
  note each = runResets_each [OF rs distinct]
  have "map_of rs i = Some (fst (?m (todo ! i) h))" if "i < length todo" for i
    using each that schedule(2) map_of_indexed [of i schedule "\<lambda>i. fst (?m (todo ! i) h)"] by simp
  then have "r = joinResults (map (\<lambda>i. fst (?m (todo ! i) h)) [0..<length todo])" unfolding r by (intro arg_cong [of _ _ joinResults]) simp
  moreover have "map (\<lambda>i. fst (?m (todo ! i) h)) [0..<length todo] = map (\<lambda>c. fst (?m c h)) todo"
    by (rule nth_equalityI) simp_all
  moreover have "sameChain c h' (snd (?m c h))" if "c \<in> set todo" for c
    using each that image by (metis (no_types, lifting) imageE)
  then have "\<forall>c\<in>set todo. case fst (freshServices R c (hkDeploy h)) of
        Ok (commitments, nullifiers) \<Rightarrow>
          hkTrees h' c = cmTree (svDelegate commitments) \<and> hkOutputs h' c = Some (cmOutputs (svDelegate commitments)) \<and>
          hkNullifiers h' c = Some (nlNullifiers (svDelegate nullifiers))
      | _ \<Rightarrow> hkTrees h' c = hkTrees h c \<and> hkOutputs h' c = hkOutputs h c \<and> hkNullifiers h' c = hkNullifiers h c"
    by (auto simp: sameChain_def resetMerkleTreeForChain_def storeChainState_def split: prod.splits res.splits)
  ultimately show ?thesis using each image by simp
qed

subsection \<open>A wallet with two chains, one of which has no snapshot\<close>

definition toyDeploy :: deployData where
  "toyDeploy = \<lparr>ddHinkalAddress = ''0xa'', ddHinkalHelperAddress = [], ddEmporiumAddress = [], ddHinkalWalletAddress = [],
     ddHinkalWrapperAddress = [], ddUniswapExternalActionAddress = [], ddOdosExternalActionInstanceAddress = [],
     ddOneInchExternalActionInstanceAddress = [], ddDepositOnChainUtxosExternalActionAddress = [], ddOriginalDeployer = [],
     ddHinkalABI = ''abi''\<rparr>"

definition toyTreeSnapshot :: commitmentsTreeSnapshot where
  "toyTreeSnapshot = \<lparr>ctMerkleTree = ToJSON (NewTree (\<lambda>a b. a + b) 0 0), ctLatest = 0,
     ctOutputs = [\<lparr>soValue = ''0xee'', soIsPositive = ''true'', soIsBlocked = False\<rparr>], ctHinkalAddress = ''0xA'', ctChainID = idEthMainnet,
     ctByCommitment = []\<rparr>"

definition toyReset :: "unit resetEnv" where
  "toyReset =
     \<lparr>rsChains = \<lparr>alchemyKeyVar = ''k'', heliusKeyVar = []\<rparr>,
      rsDeployFiles = \<lparr>readDeploy = Ok, decodeDeploy = (\<lambda>_. Ok toyDeploy)\<rparr>,
      rsParseABI = (\<lambda>_. Ok ()),
      rsEvents = (\<lambda>_. \<lparr>eventByID = (\<lambda>_. Err (ErrMsg [])), unpackArgs = (\<lambda>_ _. Ok []), parseTopics = (\<lambda>_ _. Ok []),
         hashHex = (\<lambda>_. []), addrHex = (\<lambda>_. [])\<rparr>),
      rsDial = (\<lambda>_. Ok ()),
      rsNode = (\<lambda>_. \<lparr>rpcBlockNumber = Ok 0, rpcFilterLogs = (\<lambda>_ _ _. Ok [])\<rparr>),
      rsSolanaRpc = \<lparr>rlJson = toyJson, rlPost = (\<lambda>_ _. Err (ErrMsg [])), rlBase64 = (\<lambda>_. Ok [])\<rparr>,
      rsSolanaEvents = \<lparr>elJson = toyJson, elBase64 = (\<lambda>_. None), elBase58 = (\<lambda>_. Ok [])\<rparr>,
      rsJson = toyJson,
      rsSnapshots = (\<lambda>c. if c = idEthMainnet then Ok \<lparr>srCommitments = toyTreeSnapshot, srNullifiers = [''0x5''], srNullifiersLatest = 0\<rparr>
         else Err (ErrMsg ''down'')),
      rsTime = (\<lambda>n. (0, 0)), rsPoseidon = (\<lambda>a b. a + b), rsEntries = (\<lambda>_. []), rsMembers = (\<lambda>_. [])\<rparr>"

definition toyHinkal :: "(unit, unit, unit, unit) hinkal" where
  "toyHinkal = \<lparr>hkUserKeys = NewUserKeys [], hkTrees = Map.empty, hkNullifiers = Map.empty, hkOutputs = Map.empty,
     hkCommitmentServices = Map.empty, hkNullifierServices = Map.empty, hkEthereum = None, hkSolana = None, hkTron = None,
     hkProofRemotely = True, hkUpdatesDisabled = False, hkCache = NoopDevice, hkTronChainID = idTronMainnet,
     hkAdapters = (\<lambda>_. ()), hkDeploy = (Map.empty, Map.empty), hkWorld = ()\<rparr>"

lemma toy_load:
  assumes "dc idEthMainnet = None \<or> dc idEthMainnet = Some (Some toyDeploy)"
  shows "loadDeployData (rsDeployFiles toyReset) idEthMainnet dc = (Ok toyDeploy, dc(idEthMainnet \<mapsto> Some toyDeploy))"
proof -
  have deployFile: "map_of deployDataFileByChain idEthMainnet = Some ''deploy-data-ethMainnet.json''" by code_simp
  have files: "readDeploy (rsDeployFiles toyReset) f = Ok f" "decodeDeploy (rsDeployFiles toyReset) raw = Ok toyDeploy" "ddHinkalABI toyDeploy = ''abi''" for f raw
    by (simp_all add: toyReset_def toyDeploy_def)
  show ?thesis
    using assms by (elim disjE) (simp_all only: loadDeployData_def deployFile files option.case res.case wrapErr.simps list.simps if_False fun_upd_idem)
qed

lemma toy_url: "isOk (FetchRPCURL (rsChains toyReset) idEthMainnet)"
  unfolding toyReset_def resetEnv.simps by code_simp

lemma toy_services:
  "\<exists>commitments nullifiers procs. initServices toyReset False idEthMainnet ''0xa'' = Ok ([0, 0], procs, commitments, nullifiers) \<and>
     cmOutputs (svDelegate commitments) = [\<lparr>eoValue = ''0xee'', eoIsPositive = True, eoIsBlocked = False\<rparr>] \<and>
     nlNullifiers (svDelegate nullifiers) = {''0x5''}"
proof -
  have texts: "equalFold ''0xA'' ''0xa''" "parseBool ''true'' = Ok True" by code_simp+
  show ?thesis
    by (simp add: initServices_def Let_def toyReset_def toyTreeSnapshot_def GetCommitments_def GetNullifiers_def ensureSnapshots_def
      NewSnapshotFetcherService_def bindA_def liftA_def clientCommitments_def commitmentsDelegate_def clientNullifiers_def
      nullifierDelegate_def loadService_def DeserializeSnapshot_def DeserializeNullifiers_def deserializeOutput_def texts
      PopulateSnapshot_def PopulateNullifiers_def newService_def newCommitmentsState_def)
qed

lemma toy_fresh:
  "\<exists>commitments nullifiers deploy. freshServices toyReset idEthMainnet (Map.empty, Map.empty) = (Ok (commitments, nullifiers), deploy) \<and>
     cmOutputs (svDelegate commitments) = [\<lparr>eoValue = ''0xee'', eoIsPositive = True, eoIsBlocked = False\<rparr>] \<and>
     nlNullifiers (svDelegate nullifiers) = {''0x5''}"
proof -
  obtain url where url: "FetchRPCURL (rsChains toyReset) idEthMainnet = Ok url" using toy_url by (auto simp: isOk_iff)
  obtain commitments nullifiers procs where services: "initServices toyReset False idEthMainnet ''0xa'' = Ok ([0, 0], procs, commitments, nullifiers)"
    and held: "cmOutputs (svDelegate commitments) = [\<lparr>eoValue = ''0xee'', eoIsPositive = True, eoIsBlocked = False\<rparr>]"
      "nlNullifiers (svDelegate nullifiers) = {''0x5''}"
    using toy_services by (elim exE conjE) (rule that)
  have env: "rsDial toyReset = (\<lambda>_. Ok ())" "rsParseABI toyReset = (\<lambda>_. Ok ())"
    "rsNode toyReset = (\<lambda>_. \<lparr>rpcBlockNumber = Ok 0, rpcFilterLogs = (\<lambda>_ _ _. Ok [])\<rparr>)" by (simp_all add: toyReset_def)
  have evm: "\<not> IsSolanaLike idEthMainnet" by code_simp
  let ?dc = "[idEthMainnet \<mapsto> Some toyDeploy] :: deployCache"
  have load: "loadDeployData (rsDeployFiles toyReset) idEthMainnet Map.empty = (Ok toyDeploy, ?dc)"
    "loadDeployData (rsDeployFiles toyReset) idEthMainnet ?dc = (Ok toyDeploy, ?dc)"
    using toy_load [of Map.empty] toy_load [of ?dc] by simp_all
  have fields: "ddHinkalAddress toyDeploy = ''0xa''" "ddHinkalABI toyDeploy = ''abi''"
    "ddDepositOnChainUtxosExternalActionAddress toyDeploy = []"
    by (simp_all add: toyDeploy_def)
  have address: "onDeployFiles (HinkalAddress (rsDeployFiles toyReset) idEthMainnet) (Map.empty, Map.empty :: int \<rightharpoonup> unit) = (Ok ''0xa'', ?dc, Map.empty)"
    by (simp add: onDeployFiles_def HinkalAddress_def GetContractData_def bindA_def liftA_def load fields)
  obtain deploy where emitter: "NewEVMEmitter (rsDial toyReset) (rsParseABI toyReset) (rsDeployFiles toyReset) idEthMainnet url ''0xa'' 0 (?dc, Map.empty) =
      (Ok ((), NewEmitter idEthMainnet ''0xa'' 0 False NoListener None None :: (commitmentsService \<times> nullifierService) emitter), deploy)"
    by (simp add: NewEVMEmitter_def bindA_def liftA_def env Hinkal_def HinkalABIJSON_def GetContractData_def load fields)
  let ?e = "fold SyncFromAtMost [0, 0] ((NewEmitter idEthMainnet ''0xa'' 0 False NoListener None None)\<lparr>emProcs := procs\<rparr>)"
  have "LatestBlockNumber ?e = 0" "\<not> emIsServer ?e" "\<not> emInProgress ?e"
    by (simp_all add: NewEmitter_def SyncFromAtMost_def LatestBlockNumber_def)
  then have "RetrieveEvents J A (rsNode toyReset url) (LatestBlockNumber ?e + 1) False (?e, x) = (Ok (), ?e\<lparr>emInProgress := False\<rparr>, x)" for J A x
    by (simp add: RetrieveEvents_def GetLastBlockNumberForEventRequest_def env)
  then have "resetEvmChain toyReset idEthMainnet ''0xa'' url (?dc, Map.empty) = (Ok (commitments, nullifiers), deploy)"
    using services emitter by (simp add: resetEvmChain_def bindA_def liftA_def Let_def)
  then have "freshServices toyReset idEthMainnet (Map.empty, Map.empty) = (Ok (commitments, nullifiers), deploy)"
    using evm url address by (simp add: freshServices_def bindA_def liftA_def)
  then show ?thesis using held by (intro exI conjI)
qed

lemma toy_fails: "\<not> isOk (fst (freshServices toyReset idBase (Map.empty, Map.empty)))"
proof -
  have snapshots: "rsSnapshots toyReset idBase = Err (ErrMsg ''down'')" and dial: "rsDial toyReset = (\<lambda>_. Ok ())"
    by (simp_all add: toyReset_def idBase_def idEthMainnet_def)
  have services: "initServices toyReset False idBase address = Err (ErrWrap ''fetch snapshot'' (ErrWrap ''fetch snapshots'' (ErrMsg ''down'')))" for address
    by (simp add: initServices_def GetCommitments_def ensureSnapshots_def NewSnapshotFetcherService_def bindA_def snapshots
      loadService_def clientCommitments_def commitmentsDelegate_def Let_def split: prod.split)
  have "\<not> IsSolanaLike idBase" by code_simp
  then show ?thesis
    by (auto simp: freshServices_def resetEvmChain_def bindA_def liftA_def services split: prod.splits res.splits)
qed

lemma resets_do_not_interfere_witness:
  "\<exists>r h'. resetMerkleTrees toyReset [1, 0] [idEthMainnet, idBase] toyHinkal = (r, h') \<and>
     hkOutputs h' idEthMainnet = Some [\<lparr>eoValue = ''0xee'', eoIsPositive = True, eoIsBlocked = False\<rparr>] \<and>
     hkNullifiers h' idEthMainnet = Some {''0x5''} \<and> hkOutputs h' idBase = None"
proof -
  obtain r h' where run: "resetMerkleTrees toyReset [1, 0] [idEthMainnet, idBase] toyHinkal = (r, h')"
    by (cases "resetMerkleTrees toyReset [1, 0] [idEthMainnet, idBase] toyHinkal")
  have deploy: "hkDeploy toyHinkal = (Map.empty, Map.empty)" "hkOutputs toyHinkal = Map.empty" by (simp_all add: toyHinkal_def)
  obtain commitments nullifiers d where fresh: "freshServices toyReset idEthMainnet (Map.empty, Map.empty) = (Ok (commitments, nullifiers), d)"
    and held: "cmOutputs (svDelegate commitments) = [\<lparr>eoValue = ''0xee'', eoIsPositive = True, eoIsBlocked = False\<rparr>]"
      "nlNullifiers (svDelegate nullifiers) = {''0x5''}"
    using toy_fresh by (elim exE conjE) (rule that)
  have "distinct [idEthMainnet, idBase]" by code_simp
  have schedule: "distinct [1 :: nat, 0]"
    "set [1 :: nat, 0] = {0..<length (if [idEthMainnet, idBase] = [] then GetSupportedChains toyHinkal else [idEthMainnet, idBase])}"
    by auto
  note spec = resets_do_not_interfere [OF run refl \<open>distinct [idEthMainnet, idBase]\<close> schedule, unfolded deploy]
  have "(\<forall>c\<in>set [idEthMainnet, idBase]. case fst (freshServices toyReset c (Map.empty, Map.empty)) of
        Ok (commitments, nullifiers) \<Rightarrow>
          hkTrees h' c = cmTree (svDelegate commitments) \<and> hkOutputs h' c = Some (cmOutputs (svDelegate commitments)) \<and>
          hkNullifiers h' c = Some (nlNullifiers (svDelegate nullifiers))
      | _ \<Rightarrow> hkTrees h' c = hkTrees toyHinkal c \<and> hkOutputs h' c = None \<and> hkNullifiers h' c = hkNullifiers toyHinkal c)"
    using spec by auto
  then have "hkOutputs h' idEthMainnet = Some (cmOutputs (svDelegate commitments)) \<and>
      hkNullifiers h' idEthMainnet = Some (nlNullifiers (svDelegate nullifiers)) \<and> hkOutputs h' idBase = None"
    using fresh toy_fails by (auto split: res.splits)
  then show ?thesis using run held by simp
qed

end
