(* ===== verification/Signers.thy ===== *)
theory Signers
  imports CircuitData Chains
begin

text \<open>
  The wallets that hold a private key: \<open>signers/private-key-evm-signer.go\<close>, \<open>private-key-solana-signer.go\<close> and
  \<open>private-key-tron-signer.go\<close>, and the interfaces \<open>Signer\<close>, \<open>SolanaSigner\<close> and \<open>TronSigner\<close> of
  \<open>types/provider_adapter.go\<close> through which the providers use them. A key has type \<open>'k\<close>, a transaction value of a
  chain's library type \<open>'x\<close>; the signatures, hashes and encodings of the libraries are the fields of \<open>keyLib\<close>. The text of
  an address stands for \<open>common.Address\<close>.
\<close>

record dynamicFeeTx =
  dtChainID :: int
  dtNonce :: u64
  dtGasTipCap :: int
  dtGasFeeCap :: int
  dtGas :: u64
  dtTo :: string
  dtValue :: int
  dtData :: bytes

record ('x, 'w) evmSigner =
  sgGetAddress :: "string res"
  sgSignMessage :: "string \<Rightarrow> bytes res"
  sgSignTypedData :: "bytes \<Rightarrow> bytes res"
  sgSignTransaction :: "dynamicFeeTx \<Rightarrow> 'x res"
  sgBroadcastTransaction :: "'x \<Rightarrow> ('w, string) action"

record 'x tronSigner =
  tsgGetAddress :: "string res"
  tsgSignMessage :: "string \<Rightarrow> bytes res"
  tsgSignTransaction :: "'x \<Rightarrow> 'x res"

record 'x solanaSigner =
  ssgGetPublicKey :: "bytes res"
  ssgSignMessage :: "bytes \<Rightarrow> bytes res"
  ssgSignTransaction :: "'x \<Rightarrow> 'x res"

record ('k, 'x, 'w) keyLib =
  klHexToECDSA :: "string \<Rightarrow> 'k res"
  klAddress :: "'k \<Rightarrow> string"
  klTronAddress :: "'k \<Rightarrow> string"
  klTextHash :: "bytes \<Rightarrow> bytes"                              \<comment> \<open>accounts.TextHash\<close>
  klKeccak :: "bytes \<Rightarrow> bytes"
  klSha256 :: "bytes \<Rightarrow> bytes"
  klSign :: "bytes \<Rightarrow> 'k \<Rightarrow> bytes res"                           \<comment> \<open>crypto.Sign\<close>
  klSignTx :: "dynamicFeeTx \<Rightarrow> 'k \<Rightarrow> 'x res"                    \<comment> \<open>ethtypes.SignTx for the chain of the transaction\<close>
  klTxChainID :: "'x \<Rightarrow> int"
  klTxHash :: "'x \<Rightarrow> string"
  klDial :: "string \<Rightarrow> unit res"
  klSendTx :: "string \<Rightarrow> 'x \<Rightarrow> ('w, unit) action"
  klSolanaKey :: "string \<Rightarrow> 'k res"
  klSolanaPublic :: "'k \<Rightarrow> bytes"
  klSolanaSign :: "'k \<Rightarrow> bytes \<Rightarrow> bytes res"
  klPartialSign :: "'x \<Rightarrow> (bytes \<Rightarrow> 'k option) \<Rightarrow> 'x res"
  klTronRaw :: "'x \<Rightarrow> bytes res"                               \<comment> \<open>proto.Marshal of the raw data\<close>
  klTronSigned :: "'x \<Rightarrow> bytes \<Rightarrow> 'x"                           \<comment> \<open>the transaction with one more signature\<close>

text \<open>\<open>crypto.Sign\<close> gives the recovery id as 0 or 1 in byte 64; personal signatures have 27 or 28 there.\<close>

definition personalSignature :: "bytes \<Rightarrow> bytes res" where
  "personalSignature sig =
     (if 64 < length sig then Ok (sig[64 := sig ! 64 + 27]) else Panic ''index out of range'')"

subsection \<open>private-key-evm-signer.go\<close>

record 'k privateKeyEVMSigner =
  peKey :: 'k
  peAddress :: string

definition NewPrivateKeyEVMSigner :: "('k, 'x, 'w) keyLib \<Rightarrow> string \<Rightarrow> 'k privateKeyEVMSigner res" where
  "NewPrivateKeyEVMSigner L privateKeyHex =
     andThen (wrapErr ''invalid private key'' (klHexToECDSA L (trimPrefix privateKeyHex ''0x''))) (\<lambda>key.
       Ok \<lparr>peKey = key, peAddress = klAddress L key\<rparr>)"

definition evmSignMessage :: "('k, 'x, 'w) keyLib \<Rightarrow> 'k privateKeyEVMSigner \<Rightarrow> string \<Rightarrow> bytes res" where
  "evmSignMessage L s message =
     andThen (wrapErr ''sign message'' (klSign L (klTextHash L (bytesOfString message)) (peKey s))) personalSignature"

definition evmSignTypedData :: "('k, 'x, 'w) keyLib \<Rightarrow> 'k privateKeyEVMSigner \<Rightarrow> bytes \<Rightarrow> bytes res" where
  "evmSignTypedData L s typedDataHash =
     andThen (wrapErr ''sign typed data'' (klSign L typedDataHash (peKey s))) personalSignature"

definition evmSignTransaction :: "('k, 'x, 'w) keyLib \<Rightarrow> 'k privateKeyEVMSigner \<Rightarrow> dynamicFeeTx \<Rightarrow> 'x res" where
  "evmSignTransaction L s tx = wrapErr ''sign transaction'' (klSignTx L tx (peKey s))"

text \<open>\<open>int(tx.ChainId().Int64())\<close> keeps the low 64 bits, read with their sign.\<close>

definition lowInt64 :: "int \<Rightarrow> int" where
  "lowInt64 n = sint (of_int n :: 64 word)"

definition evmBroadcastTransaction :: "('k, 'x, 'w) keyLib \<Rightarrow> chainEnv \<Rightarrow> 'x \<Rightarrow> ('w, string) action" where
  "evmBroadcastTransaction L env tx =
     bindA (liftA (FetchRPCURL env (lowInt64 (klTxChainID L tx)))) (\<lambda>rpcURL.
     bindA (liftA (wrapErr ''dial rpc'' (klDial L rpcURL))) (\<lambda>_.
     bindA (\<lambda>w. case klSendTx L rpcURL tx w of (r, w') \<Rightarrow> (wrapErr ''broadcast transaction'' r, w')) (\<lambda>_.
       liftA (Ok (klTxHash L tx)))))"

definition evmSignerOf :: "('k, 'x, 'w) keyLib \<Rightarrow> chainEnv \<Rightarrow> 'k privateKeyEVMSigner \<Rightarrow> ('x, 'w) evmSigner" where
  "evmSignerOf L env s =
     \<lparr>sgGetAddress = Ok (peAddress s), sgSignMessage = evmSignMessage L s, sgSignTypedData = evmSignTypedData L s,
      sgSignTransaction = evmSignTransaction L s, sgBroadcastTransaction = evmBroadcastTransaction L env\<rparr>"

subsection \<open>private-key-solana-signer.go\<close>

record 'k privateKeySolanaSigner =
  psKey :: 'k
  psPubKey :: bytes

definition NewPrivateKeySolanaSigner :: "('k, 'x, 'w) keyLib \<Rightarrow> string \<Rightarrow> 'k privateKeySolanaSigner res" where
  "NewPrivateKeySolanaSigner L privateKeyBase58 =
     andThen (wrapErr ''invalid private key'' (klSolanaKey L privateKeyBase58)) (\<lambda>key.
       Ok \<lparr>psKey = key, psPubKey = klSolanaPublic L key\<rparr>)"

definition solanaSignMessage :: "('k, 'x, 'w) keyLib \<Rightarrow> 'k privateKeySolanaSigner \<Rightarrow> bytes \<Rightarrow> bytes res" where
  "solanaSignMessage L s message = wrapErr ''sign message'' (klSolanaSign L (psKey s) message)"

definition solanaSignTransaction :: "('k, 'x, 'w) keyLib \<Rightarrow> 'k privateKeySolanaSigner \<Rightarrow> 'x \<Rightarrow> 'x res" where
  "solanaSignTransaction L s tx =
     wrapErr ''sign transaction'' (klPartialSign L tx (\<lambda>key. if key = psPubKey s then Some (psKey s) else None))"

definition solanaSignerOf :: "('k, 'x, 'w) keyLib \<Rightarrow> 'k privateKeySolanaSigner \<Rightarrow> 'x solanaSigner" where
  "solanaSignerOf L s =
     \<lparr>ssgGetPublicKey = Ok (psPubKey s), ssgSignMessage = solanaSignMessage L s, ssgSignTransaction = solanaSignTransaction L s\<rparr>"

subsection \<open>private-key-tron-signer.go\<close>

record 'k privateKeyTronSigner =
  ptKey :: 'k
  ptAddress :: string

definition NewPrivateKeyTronSigner :: "('k, 'x, 'w) keyLib \<Rightarrow> string \<Rightarrow> 'k privateKeyTronSigner res" where
  "NewPrivateKeyTronSigner L privateKeyHex =
     andThen (wrapErr ''invalid private key'' (klHexToECDSA L (trimPrefix privateKeyHex ''0x''))) (\<lambda>key.
       Ok \<lparr>ptKey = key, ptAddress = klTronAddress L key\<rparr>)"

definition tronMessageText :: "string \<Rightarrow> string" where
  "tronMessageText message =
     [CHR 0x19] @ ''TRON Signed Message:'' @ [CHR 0x0A] @ natText 10 (length message) @ message"

definition tronSignMessage :: "('k, 'x, 'w) keyLib \<Rightarrow> 'k privateKeyTronSigner \<Rightarrow> string \<Rightarrow> bytes res" where
  "tronSignMessage L s message =
     andThen (wrapErr ''sign message'' (klSign L (klKeccak L (bytesOfString (tronMessageText message))) (ptKey s)))
       personalSignature"

definition tronSignTransaction :: "('k, 'x, 'w) keyLib \<Rightarrow> 'k privateKeyTronSigner \<Rightarrow> 'x \<Rightarrow> 'x res" where
  "tronSignTransaction L s tx =
     andThen (wrapErr ''marshal tx raw data'' (klTronRaw L tx)) (\<lambda>rawData.
     andThen (wrapErr ''sign transaction'' (klSign L (klSha256 L rawData) (ptKey s))) (\<lambda>sig.
       Ok (klTronSigned L tx sig)))"

definition tronSignerOf :: "('k, 'x, 'w) keyLib \<Rightarrow> 'k privateKeyTronSigner \<Rightarrow> 'x tronSigner" where
  "tronSignerOf L s =
     \<lparr>tsgGetAddress = Ok (ptAddress s), tsgSignMessage = tronSignMessage L s, tsgSignTransaction = tronSignTransaction L s\<rparr>"

end
