(* ===== verification/Providers.thy ===== *)
theory Providers
  imports Signers SolanaAccounts EvmSend
begin

text \<open>
  The provider adapters: \<open>providers/EthersProviderAdapter.go\<close>, \<open>SolanaProviderAdapter.go\<close>, \<open>TronProviderAdapter.go\<close>,
  \<open>SolanaProgram.go\<close>, \<open>signable_tron_client.go\<close> and \<open>utils.go\<close>. Each adapter is a record of its Go fields, a method that
  assigns to them returns the new record. The nodes are clients that read and change the world \<open>'w\<close>; \<open>pvPause\<close> is the
  \<open>select\<close> of a polling loop: two seconds pass, or the context ends with an error.
\<close>

record gasCallMsg =
  gcFrom :: string
  gcTo :: string
  gcFeeCap :: int
  gcTipCap :: int
  gcValue :: int
  gcData :: bytes

record 'w ethClient =
  ecReceipt :: "string \<Rightarrow> 'w \<Rightarrow> (u64 \<times> int option) res"       \<comment> \<open>status and block number\<close>
  ecBlockNumber :: "'w \<Rightarrow> u64 res"
  ecPendingNonce :: "string \<Rightarrow> 'w \<Rightarrow> u64 res"
  ecTipCap :: "'w \<Rightarrow> int res"
  ecBaseFee :: "'w \<Rightarrow> int option res"                        \<comment> \<open>of the latest header\<close>
  ecEstimateGas :: "gasCallMsg \<Rightarrow> 'w \<Rightarrow> u64 res"
  ecNetworkID :: "'w \<Rightarrow> int res"
  ecGasPrice :: "'w \<Rightarrow> int res"
  ecClose :: "'w \<Rightarrow> 'w"

record signatureStatus =
  stFailed :: bool
  stConfirmation :: string

record ('x, 'w) solanaClient =
  slStatuses :: "bytes \<Rightarrow> 'w \<Rightarrow> signatureStatus option list res"
  slSend :: "'x \<Rightarrow> ('w, bytes) action"

record tronInfo =
  tiFailed :: bool
  tiMessage :: string
  tiBlock :: u64

record ('x, 'w) tronGrpc =
  tgStart :: "unit res"
  tgInfo :: "string \<Rightarrow> 'w \<Rightarrow> tronInfo res"
  tgNowBlock :: "'w \<Rightarrow> u64 res"
  tgBroadcast :: "'x \<Rightarrow> ('w, bool \<times> string) action"
  tgStop :: "'w \<Rightarrow> 'w"

record ('x, 'w) providerLib =
  pvChains :: chainEnv
  pvDial :: "string \<Rightarrow> 'w ethClient res"
  pvSolana :: "string \<Rightarrow> ('x, 'w) solanaClient"
  pvGrpc :: "string \<Rightarrow> ('x, 'w) tronGrpc"
  pvHexToHash :: "string \<Rightarrow> string"
  pvHexToAddress :: "string \<Rightarrow> string"
  pvNotFound :: "go_error \<Rightarrow> bool"                            \<comment> \<open>errors.Is(err, NotFound)\<close>
  pvPause :: "'w \<Rightarrow> go_error option \<times> 'w"
  pvHasDeadline :: bool
  pvWithTimeout :: "'w \<Rightarrow> go_error option \<times> 'w"               \<comment> \<open>the pause under a deadline of 90 seconds\<close>
  pvBase58 :: "bytes \<Rightarrow> string"
  pvUnBase58 :: "string \<Rightarrow> bytes res"
  pvMessage :: "'x \<Rightarrow> bytes res"
  pvAccountKeys :: "'x \<Rightarrow> bytes list"
  pvSignatures :: "'x \<Rightarrow> bytes list"
  pvTronRaw :: "'x \<Rightarrow> bytes res"
  pvSha256 :: "bytes \<Rightarrow> bytes"

subsection \<open>utils.go\<close>

definition errTransactionNotConfirmed :: go_error where
  "errTransactionNotConfirmed = ErrMsg ''the transaction was not confirmed by the network. Please, try again''"

definition errSigningFailed :: go_error where
  "errSigningFailed = ErrMsg ''the signing failed. Please, try again''"

definition hexSignature :: "bytes \<Rightarrow> string res" where
  "hexSignature sig = (if sig = [] then Err errSigningFailed else Ok (''0x'' @ hexEncode sig))"

partial_function (option) waitForTransactionReceipt ::
  "('x, 'w) providerLib \<Rightarrow> 'w ethClient \<Rightarrow> string \<Rightarrow> string \<Rightarrow> 'w \<Rightarrow> ((u64 \<times> int option) res \<times> 'w) option" where
  "waitForTransactionReceipt P client hash txHash w =
     (case ecReceipt client hash w of
        Ok receipt \<Rightarrow> Some (Ok receipt, w)
      | Panic p \<Rightarrow> Some (Panic p, w)
      | Err e \<Rightarrow>
          if \<not> pvNotFound P e then Some (Err (ErrWrap (''fetch transaction receipt '' @ txHash) e), w)
          else
            (case pvPause P w of
               (Some ended, w') \<Rightarrow> Some (Err (ErrWrap (''timeout waiting for transaction receipt '' @ txHash) ended), w')
             | (None, w') \<Rightarrow> waitForTransactionReceipt P client hash txHash w'))"

text \<open>One look at a mined transaction: whether it is deep enough. A head that cannot be read is a head that is too low.\<close>

definition confirmedNow :: "'w ethClient \<Rightarrow> string \<Rightarrow> string \<Rightarrow> u64 \<Rightarrow> 'w \<Rightarrow> bool res" where
  "confirmedNow client hash txHash confirmations w =
     andThen (wrapErr (''transaction '' @ txHash @ '' evicted from canonical chain'') (ecReceipt client hash w)) (\<lambda>(status, block).
       case ecBlockNumber client w of
         Ok head \<Rightarrow> andThen (deref block) (\<lambda>b. Ok (of_int \<bar>b\<bar> + confirmations - 1 \<le> head))
       | Err e \<Rightarrow> Ok False
       | Panic p \<Rightarrow> Panic p)"

partial_function (option) confirmationLoop ::
  "('x, 'w) providerLib \<Rightarrow> 'w ethClient \<Rightarrow> string \<Rightarrow> string \<Rightarrow> u64 \<Rightarrow> 'w \<Rightarrow> (bool res \<times> 'w) option" where
  "confirmationLoop P client hash txHash confirmations w =
     (case confirmedNow client hash txHash confirmations w of
        Err e \<Rightarrow> Some (Err e, w)
      | Panic p \<Rightarrow> Some (Panic p, w)
      | Ok deep \<Rightarrow>
          if deep then Some (Ok True, w)
          else
            (case pvPause P w of
               (Some ended, w') \<Rightarrow> Some (Err (ErrWrap (''timeout waiting for confirmations on '' @ txHash) ended), w')
             | (None, w') \<Rightarrow> confirmationLoop P client hash txHash confirmations w'))"

definition waitForTransaction ::
  "('x, 'w) providerLib \<Rightarrow> 'w ethClient \<Rightarrow> string \<Rightarrow> u64 \<Rightarrow> 'w \<Rightarrow> (bool res \<times> 'w) option" where
  "waitForTransaction P client txHash confirmations w =
     (let txHash = (if hasPrefix txHash ''0x'' then txHash else ''0x'' @ txHash); hash = pvHexToHash P txHash in
      case waitForTransactionReceipt P client hash txHash w of
        None \<Rightarrow> None
      | Some (Err e, w') \<Rightarrow> Some (Err e, w')
      | Some (Panic p, w') \<Rightarrow> Some (Panic p, w')
      | Some (Ok (status, block), w') \<Rightarrow>
          if status \<noteq> 1 then Some (Err errTransactionNotConfirmed, w')
          else if confirmations \<le> 1 then Some (Ok True, w')
          else confirmationLoop P client hash txHash confirmations w')"

subsection \<open>EthersProviderAdapter.go\<close>

definition errNoSigner :: go_error where
  "errNoSigner = ErrMsg ''IllegalState: no signer''"

definition errNoChainID :: go_error where
  "errNoChainID = ErrMsg ''IllegalState: no chain ID''"

definition errFetchClientNotInitialised :: "int \<Rightarrow> go_error" where
  "errFetchClientNotInitialised chainID = ErrMsg (''fetch client not initialized for chain '' @ bigString chainID)"

text \<open>The map of clients is an association list without repeated keys.\<close>

record ('x, 'w) ethersAdapter =
  eaSigner :: "('x, 'w) evmSigner option"
  eaChainID :: "int option"
  eaClients :: "(int \<times> 'w ethClient) list"

definition fetchClientOf :: "('x, 'w) ethersAdapter \<Rightarrow> int \<Rightarrow> 'w ethClient res" where
  "fetchClientOf a chainID =
     (case map_of (eaClients a) chainID of
        None \<Rightarrow> Err (errFetchClientNotInitialised chainID) | Some client \<Rightarrow> Ok client)"

fun dialChains :: "('x, 'w) providerLib \<Rightarrow> int list \<Rightarrow> (int \<times> 'w ethClient) list res" where
  "dialChains P [] = Ok []"
| "dialChains P (chainID # cs) =
     andThen (FetchRPCURL (pvChains P) chainID) (\<lambda>rpcURL.
     andThen (wrapErr (''dial chain '' @ bigString chainID) (pvDial P rpcURL)) (\<lambda>client.
     andThen (dialChains P cs) (\<lambda>rest. Ok ((chainID, client) # rest))))"

definition NewEthersProviderAdapter :: "('x, 'w) providerLib \<Rightarrow> ('x, 'w) ethersAdapter res" where
  "NewEthersProviderAdapter P =
     andThen (dialChains P EVMChainIDs) (\<lambda>clients. Ok \<lparr>eaSigner = None, eaChainID = None, eaClients = clients\<rparr>)"

definition InitSigner :: "('x, 'w) evmSigner option \<Rightarrow> ('x, 'w) ethersAdapter \<Rightarrow> ('x, 'w) ethersAdapter" where
  "InitSigner signer a = a\<lparr>eaSigner := signer\<rparr>"

definition ethersInit :: "int option \<Rightarrow> (('x, 'w) ethersAdapter, unit) action" where
  "ethersInit chainID a =
     (let a' = (case chainID of None \<Rightarrow> a | Some c \<Rightarrow> a\<lparr>eaChainID := Some c\<rparr>) in
      (if eaChainID a' = None then Err errNoChainID else Ok (), a'))"

definition ethersSignerOf :: "('x, 'w) ethersAdapter \<Rightarrow> ('x, 'w) evmSigner res" where
  "ethersSignerOf a = (case eaSigner a of None \<Rightarrow> Err errNoSigner | Some s \<Rightarrow> Ok s)"

definition ethersChainOf :: "('x, 'w) ethersAdapter \<Rightarrow> int res" where
  "ethersChainOf a = (case eaChainID a of None \<Rightarrow> Err errNoChainID | Some c \<Rightarrow> Ok c)"

definition ethersWaitForTransaction ::
  "('x, 'w) providerLib \<Rightarrow> ('x, 'w) ethersAdapter \<Rightarrow> int \<Rightarrow> string \<Rightarrow> u64 \<Rightarrow> 'w \<Rightarrow> (bool res \<times> 'w) option" where
  "ethersWaitForTransaction P a chainID txHash confirmations w =
     (case fetchClientOf a chainID of
        Err e \<Rightarrow> Some (Err e, w)
      | Panic p \<Rightarrow> Some (Panic p, w)
      | Ok client \<Rightarrow> waitForTransaction P client txHash confirmations w)"

definition ethersSignMessage :: "('x, 'w) ethersAdapter \<Rightarrow> string \<Rightarrow> string res" where
  "ethersSignMessage a message =
     andThen (ethersSignerOf a) (\<lambda>s. andThen (sgSignMessage s message) hexSignature)"

definition ethersSignTypedData :: "('x, 'w) ethersAdapter \<Rightarrow> bytes \<Rightarrow> string res" where
  "ethersSignTypedData a typedDataHash =
     andThen (ethersSignerOf a) (\<lambda>s. andThen (sgSignTypedData s typedDataHash) (\<lambda>sig. Ok (''0x'' @ hexEncode sig)))"

definition ethersSwitchNetwork :: "int \<Rightarrow> (('x, 'w) ethersAdapter, unit) action" where
  "ethersSwitchNetwork chainID a =
     (case map_of (eaClients a) chainID of
        None \<Rightarrow> (Err (errFetchClientNotInitialised chainID), a)
      | Some client \<Rightarrow> (Ok (), a\<lparr>eaChainID := Some chainID\<rparr>))"

definition ethersGetAddress :: "('x, 'w) ethersAdapter \<Rightarrow> string res" where
  "ethersGetAddress a =
     andThen (ethersSignerOf a) (\<lambda>s.
     andThen (sgGetAddress s) (\<lambda>addr.
       if addr = ZeroAddress then Err (ErrMsg ''IllegalState: empty address'') else Ok addr))"

definition ethersOnAccountChanged :: "(('x, 'w) ethersAdapter, unit) action" where
  "ethersOnAccountChanged = ethersInit None"

definition ethersOnChainChanged :: "int option \<Rightarrow> (('x, 'w) ethersAdapter, unit) action" where
  "ethersOnChainChanged chainID = ethersInit chainID"

text \<open>Releasing closes every client and forgets the signer; the closed clients stay in the map.\<close>

definition ethersRelease :: "('x, 'w) ethersAdapter \<times> 'w \<Rightarrow> ('x, 'w) ethersAdapter \<times> 'w" where
  "ethersRelease = (\<lambda>(a, w). (a\<lparr>eaSigner := None\<rparr>, fold (\<lambda>(c, client). ecClose client) (eaClients a) w))"

text \<open>
  \<open>bind.TransactOpts\<close> is the sender and a closure that signs with whatever signer the adapter holds when it is called.
\<close>

definition ethersGetTransactOpts :: "('x, 'w) ethersAdapter \<Rightarrow> string res" where
  "ethersGetTransactOpts a =
     andThen (ethersSignerOf a) (\<lambda>s. wrapErr ''get address for TransactOpts'' (sgGetAddress s))"

definition transactOptsSigner :: "('x, 'w) ethersAdapter \<Rightarrow> dynamicFeeTx \<Rightarrow> 'x res" where
  "transactOptsSigner a tx = andThen (deref (eaSigner a)) (\<lambda>s. sgSignTransaction s tx)"

text \<open>\<open>clientOf\<close> and \<open>optsOf\<close> are the methods of the adapter, \<open>newFn\<close> the binding of the contract.\<close>

definition GetContractWithFetcher ::
  "(int \<Rightarrow> 'w ethClient res) \<Rightarrow> int \<Rightarrow> string \<Rightarrow> (string \<Rightarrow> 'w ethClient \<Rightarrow> 'c res) \<Rightarrow> 'c res" where
  "GetContractWithFetcher clientOf chainID addr newFn = andThen (clientOf chainID) (newFn addr)"

definition GetContractWithSigner ::
  "(int \<Rightarrow> 'w ethClient res) \<Rightarrow> 'opts res \<Rightarrow> int \<Rightarrow> string \<Rightarrow> (string \<Rightarrow> 'w ethClient \<Rightarrow> 'c res) \<Rightarrow> ('c \<times> 'opts) res" where
  "GetContractWithSigner clientOf optsOf chainID addr newFn =
     andThen (clientOf chainID) (\<lambda>client.
     andThen (wrapErr (''instantiate contract on chain '' @ bigString chainID) (newFn addr client)) (\<lambda>contract.
     andThen optsOf (\<lambda>auth. Ok (contract, auth))))"

text \<open>The transaction that is signed; the chain is asked for what the request leaves open.\<close>

definition populateTransaction ::
  "('x, 'w) providerLib \<Rightarrow> 'w ethClient \<Rightarrow> int \<Rightarrow> string \<Rightarrow> txRequest \<Rightarrow> 'w \<Rightarrow> dynamicFeeTx res" where
  "populateTransaction P client chainID from req w =
     (let to = pvHexToAddress P (trTo req); amount = (case trValue req of None \<Rightarrow> 0 | Some v \<Rightarrow> v) in
      andThen (wrapErr ''get nonce'' (ecPendingNonce client from w)) (\<lambda>nonce.
      andThen (case ecTipCap client w of Err e \<Rightarrow> Ok 1000000000 | r \<Rightarrow> r) (\<lambda>tip.
      andThen (wrapErr ''get latest header'' (ecBaseFee client w)) (\<lambda>baseFee.
      andThen (deref baseFee) (\<lambda>base.
        let gasFeeCap = base * 2 + tip in
        andThen (if trGasLimit req \<noteq> 0 then Ok (trGasLimit req)
                 else wrapErr ''estimate gas'' (ecEstimateGas client
                   \<lparr>gcFrom = from, gcTo = to, gcFeeCap = gasFeeCap, gcTipCap = tip, gcValue = amount, gcData = trData req\<rparr> w)) (\<lambda>gasLimit.
          Ok \<lparr>dtChainID = chainID, dtNonce = nonce, dtGasTipCap = tip, dtGasFeeCap = gasFeeCap, dtGas = gasLimit, dtTo = to,
              dtValue = amount, dtData = trData req\<rparr>))))))"

definition ethersSendTransaction ::
  "('x, 'w) providerLib \<Rightarrow> ('x, 'w) ethersAdapter \<Rightarrow> txRequest \<Rightarrow> ('w, string) action" where
  "ethersSendTransaction P a req =
     bindA (liftA (ethersSignerOf a)) (\<lambda>s.
     bindA (liftA (ethersChainOf a)) (\<lambda>chainID.
     bindA (liftA (fetchClientOf a chainID)) (\<lambda>client.
     bindA (liftA (wrapErr ''get address'' (sgGetAddress s))) (\<lambda>from.
     bindA (\<lambda>w. liftA (populateTransaction P client chainID from req w) w) (\<lambda>tx.
     bindA (liftA (wrapErr ''sign transaction'' (sgSignTransaction s tx))) (\<lambda>signed.
       sgBroadcastTransaction s signed))))))"

definition ethersConnectAndPatchProvider :: "('x, 'w) ethersAdapter \<Rightarrow> 'w \<Rightarrow> int res" where
  "ethersConnectAndPatchProvider a w =
     andThen (ethersSignerOf a) (\<lambda>s.
     andThen (ethersChainOf a) (\<lambda>chainID.
       case map_of (eaClients a) chainID of
         None \<Rightarrow> Ok chainID
       | Some client \<Rightarrow>
           (case ecNetworkID client w of
              Ok networkID \<Rightarrow> Ok (lowInt64 networkID) | Err e \<Rightarrow> Ok chainID | Panic p \<Rightarrow> Panic p)))"

definition ethersGetGasPrice :: "('x, 'w) ethersAdapter \<Rightarrow> int \<Rightarrow> 'w \<Rightarrow> int res" where
  "ethersGetGasPrice a chainID w =
     andThen (fetchClientOf a chainID) (\<lambda>client.
       wrapErr (''get gas price for chain '' @ bigString chainID) (ecGasPrice client w))"

subsection \<open>SolanaProgram.go\<close>

record ('x, 'w) solanaProgram =
  spProgramID :: bytes
  spClient :: "('x, 'w) solanaClient"
  spSigner :: "'x solanaSigner"

definition SignAndSend :: "('x, 'w) solanaProgram \<Rightarrow> 'x \<Rightarrow> ('w, bytes) action" where
  "SignAndSend p tx =
     bindA (liftA (wrapErr ''sign transaction'' (ssgSignTransaction (spSigner p) tx))) (\<lambda>signed.
       (\<lambda>w. case slSend (spClient p) signed w of (r, w') \<Rightarrow> (wrapErr ''send transaction'' r, w')))"

definition base64Char :: "nat \<Rightarrow> char" where
  "base64Char n = ''ABCDEFGHIJKLMNOPQRSTUVWXYZabcdefghijklmnopqrstuvwxyz0123456789+/'' ! (n mod 64)"

fun base64Encode :: "bytes \<Rightarrow> string" where
  "base64Encode [] = []"
| "base64Encode [a] = [base64Char (unat a div 4), base64Char (unat a mod 4 * 16), CHR ''='', CHR ''='']"
| "base64Encode [a, b] =
     [base64Char (unat a div 4), base64Char (unat a mod 4 * 16 + unat b div 16), base64Char (unat b mod 16 * 4), CHR ''='']"
| "base64Encode (a # b # c # rest) =
     [base64Char (unat a div 4), base64Char (unat a mod 4 * 16 + unat b div 16),
      base64Char (unat b mod 16 * 4 + unat c div 64), base64Char (unat c mod 64)] @ base64Encode rest"

text \<open>The signature at the first place among the account keys where the key stands and a signature does.\<close>

fun signatureFor :: "bytes \<Rightarrow> bytes list \<Rightarrow> bytes list \<Rightarrow> bytes option" where
  "signatureFor pubKey (key # keys) (sig # sigs) = (if key = pubKey then Some sig else signatureFor pubKey keys sigs)"
| "signatureFor pubKey keys sigs = None"

definition SignOnly :: "('x, 'w) providerLib \<Rightarrow> ('x, 'w) solanaProgram \<Rightarrow> 'x \<Rightarrow> (bytes \<times> string) res" where
  "SignOnly P p tx =
     andThen (wrapErr ''sign transaction'' (ssgSignTransaction (spSigner p) tx)) (\<lambda>signed.
     andThen (wrapErr ''serialize message'' (pvMessage P signed)) (\<lambda>msg.
     andThen (wrapErr ''get public key'' (ssgGetPublicKey (spSigner p))) (\<lambda>pubKey.
       case signatureFor pubKey (pvAccountKeys P signed) (pvSignatures P signed) of
         Some sig \<Rightarrow> Ok (sig, base64Encode msg)
       | None \<Rightarrow> Err (ErrMsg (''signature not found for public key '' @ pvBase58 P pubKey)))))"

subsection \<open>SolanaProviderAdapter.go\<close>

definition errSolanaNoWallet :: go_error where
  "errSolanaNoWallet = ErrMsg ''IllegalState: no wallet, call InitConnector first''"

definition errSolanaNoChainID :: go_error where
  "errSolanaNoChainID = ErrMsg ''no Chain Id In Provider Adapter''"

definition errNotForSolana :: "'a res" where
  "errNotForSolana = Err (ErrMsg ''not implemented for SolanaProviderAdapter'')"

record ('x, 'w) solanaAdapter =
  saChainID :: "int option"
  saClient :: "('x, 'w) solanaClient"
  saWallet :: "'x solanaSigner option"
  saEthereumAddress :: string

definition NewSolanaProviderAdapter :: "('x, 'w) providerLib \<Rightarrow> int \<Rightarrow> string \<Rightarrow> ('x, 'w) solanaAdapter res" where
  "NewSolanaProviderAdapter P chainID ethereumAddress =
     andThen (FetchRPCURL (pvChains P) chainID) (\<lambda>rpcURL.
       Ok \<lparr>saChainID = Some chainID, saClient = pvSolana P rpcURL, saWallet = None, saEthereumAddress = ethereumAddress\<rparr>)"

definition solanaInitConnector :: "'x solanaSigner option \<Rightarrow> ('x, 'w) solanaAdapter \<Rightarrow> ('x, 'w) solanaAdapter" where
  "solanaInitConnector wallet a = a\<lparr>saWallet := wallet\<rparr>"

definition solanaInit :: "int option \<Rightarrow> (('x, 'w) solanaAdapter, unit) action" where
  "solanaInit chainID a = (Ok (), case chainID of None \<Rightarrow> a | Some c \<Rightarrow> a\<lparr>saChainID := Some c\<rparr>)"

definition connectedChain :: "int option \<Rightarrow> int res" where
  "connectedChain chainID = Ok (case chainID of None \<Rightarrow> 0 | Some c \<Rightarrow> c)"

definition solanaConnectToConnector :: "('x, 'w) solanaAdapter \<Rightarrow> int res" where
  "solanaConnectToConnector a = connectedChain (saChainID a)"

definition solanaConnectAndPatchProvider :: "('x, 'w) solanaAdapter \<Rightarrow> int res" where
  "solanaConnectAndPatchProvider a = (case saChainID a of None \<Rightarrow> Err errSolanaNoChainID | Some c \<Rightarrow> Ok c)"

text \<open>One look at the status of a signature: whether it is confirmed.\<close>

definition signatureConfirmed :: "('x, 'w) solanaClient \<Rightarrow> string \<Rightarrow> bytes \<Rightarrow> 'w \<Rightarrow> bool res" where
  "signatureConfirmed client txHash sig w =
     andThen (wrapErr (''get signature status '' @ txHash) (slStatuses client sig w)) (\<lambda>statuses.
       case statuses of
         Some status # rest \<Rightarrow>
           if stFailed status then Err errTransactionNotConfirmed
           else Ok (stConfirmation status = ''confirmed'' \<or> stConfirmation status = ''finalized'')
       | _ \<Rightarrow> Ok False)"

partial_function (option) signatureLoop ::
  "('w \<Rightarrow> go_error option \<times> 'w) \<Rightarrow> ('x, 'w) solanaClient \<Rightarrow> string \<Rightarrow> bytes \<Rightarrow> 'w \<Rightarrow> (bool res \<times> 'w) option" where
  "signatureLoop pause client txHash sig w =
     (case signatureConfirmed client txHash sig w of
        Err e \<Rightarrow> Some (Err e, w)
      | Panic p \<Rightarrow> Some (Panic p, w)
      | Ok confirmed \<Rightarrow>
          if confirmed then Some (Ok True, w)
          else
            (case pause w of
               (Some ended, w') \<Rightarrow> Some (Err (ErrWrap (''timeout waiting for confirmation of '' @ txHash) ended), w')
             | (None, w') \<Rightarrow> signatureLoop pause client txHash sig w'))"

definition solanaWaitForTransaction ::
  "('x, 'w) providerLib \<Rightarrow> ('x, 'w) solanaAdapter \<Rightarrow> string \<Rightarrow> 'w \<Rightarrow> (bool res \<times> 'w) option" where
  "solanaWaitForTransaction P a txHash w =
     (case pvUnBase58 P txHash of
        Err e \<Rightarrow> Some (Err (ErrWrap (''parse solana signature '' @ txHash) e), w)
      | Panic p \<Rightarrow> Some (Panic p, w)
      | Ok sig \<Rightarrow> signatureLoop (if pvHasDeadline P then pvPause P else pvWithTimeout P) (saClient a) txHash sig w)"

definition solanaWalletOf :: "('x, 'w) solanaAdapter \<Rightarrow> 'x solanaSigner res" where
  "solanaWalletOf a = (case saWallet a of None \<Rightarrow> Err errSolanaNoWallet | Some wallet \<Rightarrow> Ok wallet)"

definition solanaAdapterSignMessage :: "('x, 'w) solanaAdapter \<Rightarrow> string \<Rightarrow> string res" where
  "solanaAdapterSignMessage a message =
     andThen (solanaWalletOf a) (\<lambda>wallet. andThen (ssgSignMessage wallet (bytesOfString message)) hexSignature)"

definition solanaGetAddress :: "('x, 'w) providerLib \<Rightarrow> ('x, 'w) solanaAdapter \<Rightarrow> string res" where
  "solanaGetAddress P a =
     (if saEthereumAddress a \<noteq> [] then Ok (saEthereumAddress a)
      else
        (case saWallet a of
           None \<Rightarrow> Err (ErrMsg ''IllegalState'')
         | Some wallet \<Rightarrow> andThen (ssgGetPublicKey wallet) (\<lambda>pubKey. Ok (pvBase58 P pubKey))))"

definition solanaSwitchNetwork :: "int \<Rightarrow> (('x, 'w) solanaAdapter, unit) action" where
  "solanaSwitchNetwork chainID a = (Ok (), a\<lparr>saChainID := Some chainID\<rparr>)"

definition solanaSignTypedData :: "bytes \<Rightarrow> string res" where
  "solanaSignTypedData typedDataHash = Err (ErrMsg ''typed data signing not supported on Solana'')"

definition solanaOnChainChanged :: "int option \<Rightarrow> (('x, 'w) solanaAdapter, unit) action" where
  "solanaOnChainChanged chainID = solanaInit chainID"

definition solanaRelease :: "('x, 'w) solanaAdapter \<times> 'w \<Rightarrow> ('x, 'w) solanaAdapter \<times> 'w" where
  "solanaRelease = (\<lambda>(a, w). (a\<lparr>saWallet := None\<rparr>, w))"

definition solanaGetTransactOpts :: "('x, 'w) solanaAdapter \<Rightarrow> string res" where
  "solanaGetTransactOpts a = errNotForSolana"

definition solanaGetFetchClient :: "('x, 'w) solanaAdapter \<Rightarrow> int \<Rightarrow> 'w ethClient res" where
  "solanaGetFetchClient a chainID = errNotForSolana"

definition solanaSendTransaction :: "('x, 'w) solanaAdapter \<Rightarrow> txRequest \<Rightarrow> ('w, string) action" where
  "solanaSendTransaction a req = liftA errNotForSolana"

definition solanaGetGasPrice :: "('x, 'w) solanaAdapter \<Rightarrow> int \<Rightarrow> 'w \<Rightarrow> int res" where
  "solanaGetGasPrice a chainID w = errNotForSolana"

definition GetSolanaPublicKey :: "('x, 'w) solanaAdapter \<Rightarrow> bytes res" where
  "GetSolanaPublicKey a = andThen (solanaWalletOf a) ssgGetPublicKey"

definition GetSolanaProgram :: "('x, 'w) solanaAdapter \<Rightarrow> bytes \<Rightarrow> ('x, 'w) solanaProgram res" where
  "GetSolanaProgram a programID =
     andThen (solanaWalletOf a) (\<lambda>wallet. Ok \<lparr>spProgramID = programID, spClient = saClient a, spSigner = wallet\<rparr>)"

definition SignTransactionWithoutBroadcast ::
  "('x, 'w) providerLib \<Rightarrow> ('x, 'w) solanaAdapter \<Rightarrow> 'x \<Rightarrow> (bytes \<times> string) res" where
  "SignTransactionWithoutBroadcast P a tx = andThen (GetSolanaProgram a (replicate 32 0)) (\<lambda>program. SignOnly P program tx)"

subsection \<open>signable_tron_client.go\<close>

record ('x, 'w) signableTronClient =
  tcGrpc :: "('x, 'w) tronGrpc"
  tcSigner :: "'x tronSigner"
  tcAddress :: string

definition newSignableTronClient ::
  "('x, 'w) tronGrpc \<Rightarrow> 'x tronSigner \<Rightarrow> string \<Rightarrow> ('x, 'w) signableTronClient" where
  "newSignableTronClient grpcClient signer address = \<lparr>tcGrpc = grpcClient, tcSigner = signer, tcAddress = address\<rparr>"

definition tronSignAndBroadcast ::
  "('x, 'w) providerLib \<Rightarrow> ('x, 'w) signableTronClient \<Rightarrow> 'x \<Rightarrow> ('w, string) action" where
  "tronSignAndBroadcast P c tx =
     bindA (liftA (wrapErr ''sign tron transaction'' (tsgSignTransaction (tcSigner c) tx))) (\<lambda>signed.
     bindA (\<lambda>w. case tgBroadcast (tcGrpc c) signed w of (r, w') \<Rightarrow> (wrapErr ''broadcast tron transaction'' r, w')) (\<lambda>(accepted, message).
       if \<not> accepted then liftA (Err (ErrMsg (''broadcast rejected: '' @ message)))
       else
         bindA (liftA (wrapErr ''marshal raw data for txid'' (pvTronRaw P signed))) (\<lambda>rawBytes.
           liftA (Ok (hexEncode (pvSha256 P rawBytes))))))"

subsection \<open>TronProviderAdapter.go\<close>

definition errTronNoChainID :: go_error where
  "errTronNoChainID = ErrMsg ''TronProviderAdapter: Chain Id Not Set''"

definition errNotForTron :: "'a res" where
  "errNotForTron = Err (ErrMsg ''not implemented for TronProviderAdapter'')"

record ('x, 'w) tronAdapter =
  taChainID :: "int option"
  taEvmClient :: "'w ethClient option"
  taTronWeb :: "('x, 'w) signableTronClient option"

definition NewTronProviderAdapter :: "int \<Rightarrow> ('x, 'w) tronAdapter" where
  "NewTronProviderAdapter chainID = \<lparr>taChainID = Some chainID, taEvmClient = None, taTronWeb = None\<rparr>"

text \<open>The gRPC client is started and, when the other node cannot be dialled, stopped again.\<close>

definition tronInitConnector ::
  "('x, 'w) providerLib \<Rightarrow> 'x tronSigner \<Rightarrow> ('x, 'w) tronAdapter \<times> 'w \<Rightarrow> unit res \<times> ('x, 'w) tronAdapter \<times> 'w" where
  "tronInitConnector P connector = (\<lambda>(a, w).
     case taChainID a of
       None \<Rightarrow> (Err errTronNoChainID, a, w)
     | Some chainID \<Rightarrow>
         (case andThen (wrapErr ''get address'' (tsgGetAddress connector)) (\<lambda>address.
               andThen (TronGrpcURLFor chainID) (\<lambda>grpcURL.
               andThen (FetchRPCURL (pvChains P) chainID) (\<lambda>evmRPCURL.
               andThen (wrapErr ''start tron gRPC client'' (tgStart (pvGrpc P grpcURL))) (\<lambda>_.
                 Ok (address, grpcURL, evmRPCURL))))) of
            Err e \<Rightarrow> (Err e, a, w)
          | Panic p \<Rightarrow> (Panic p, a, w)
          | Ok (address, grpcURL, evmRPCURL) \<Rightarrow>
              (case pvDial P evmRPCURL of
                 Err e \<Rightarrow> (Err (ErrWrap ''dial tron EVM compat RPC'' e), a, tgStop (pvGrpc P grpcURL) w)
               | Panic p \<Rightarrow> (Panic p, a, w)
               | Ok evmClient \<Rightarrow>
                   (Ok (), a\<lparr>taEvmClient := Some evmClient,
                             taTronWeb := Some (newSignableTronClient (pvGrpc P grpcURL) connector address)\<rparr>, w))))"

text \<open>Unlike the other adapters, \<open>Init\<close> assigns a chain that is nil.\<close>

definition tronInit :: "int option \<Rightarrow> (('x, 'w) tronAdapter, unit) action" where
  "tronInit chainID a = (Ok (), a\<lparr>taChainID := chainID\<rparr>)"

definition tronConnectToConnector :: "('x, 'w) tronAdapter \<Rightarrow> int res" where
  "tronConnectToConnector a = connectedChain (taChainID a)"

definition tronConnectAndPatchProvider :: "('x, 'w) tronAdapter \<Rightarrow> int res" where
  "tronConnectAndPatchProvider a = (case taChainID a of None \<Rightarrow> Err errTronNoChainID | Some c \<Rightarrow> Ok c)"

partial_function (option) tronBlockLoop ::
  "('x, 'w) providerLib \<Rightarrow> ('x, 'w) tronGrpc \<Rightarrow> string \<Rightarrow> u64 \<Rightarrow> 'w \<Rightarrow> (bool res \<times> 'w) option" where
  "tronBlockLoop P grpc txHash targetBlock w =
     (case tgNowBlock grpc w of
        Panic p \<Rightarrow> Some (Panic p, w)
      | now \<Rightarrow>
          if (case now of Ok number \<Rightarrow> sint targetBlock \<le> sint number | _ \<Rightarrow> False) then Some (Ok True, w)
          else
            (case pvPause P w of
               (Some ended, w') \<Rightarrow> Some (Err (ErrWrap (''timeout waiting for Tron confirmations on '' @ txHash) ended), w')
             | (None, w') \<Rightarrow> tronBlockLoop P grpc txHash targetBlock w'))"

definition tronMined ::
  "('x, 'w) providerLib \<Rightarrow> ('x, 'w) tronGrpc \<Rightarrow> string \<Rightarrow> u64 \<Rightarrow> tronInfo \<Rightarrow> 'w \<Rightarrow> (bool res \<times> 'w) option" where
  "tronMined P grpc txHash confirmations info w =
     (if tiFailed info
      then Some (Err (ErrMsg (''tron transaction failed: '' @ (if tiMessage info = [] then ''FAILED'' else tiMessage info))), w)
      else if confirmations \<le> 1 then Some (Ok True, w)
      else tronBlockLoop P grpc txHash (tiBlock info + confirmations - 1) w)"

partial_function (option) waitForTronTransaction ::
  "('x, 'w) providerLib \<Rightarrow> ('x, 'w) tronGrpc \<Rightarrow> string \<Rightarrow> u64 \<Rightarrow> 'w \<Rightarrow> (bool res \<times> 'w) option" where
  "waitForTronTransaction P grpc txHash confirmations w =
     (case tgInfo grpc txHash w of
        Panic p \<Rightarrow> Some (Panic p, w)
      | Ok info \<Rightarrow> tronMined P grpc txHash confirmations info w
      | Err e \<Rightarrow>
          (case pvPause P w of
             (Some ended, w') \<Rightarrow> Some (Err (ErrWrap (''timeout waiting for Tron transaction '' @ txHash) ended), w')
           | (None, w') \<Rightarrow> waitForTronTransaction P grpc txHash confirmations w'))"

definition tronWaitForTransaction ::
  "('x, 'w) providerLib \<Rightarrow> ('x, 'w) tronAdapter \<Rightarrow> string \<Rightarrow> u64 \<Rightarrow> 'w \<Rightarrow> (bool res \<times> 'w) option" where
  "tronWaitForTransaction P a txHash confirmations w =
     (case taTronWeb a of
        None \<Rightarrow> Some (Err (ErrMsg ''IllegalState: tronWeb not initialized, call InitConnector first''), w)
      | Some c \<Rightarrow> waitForTronTransaction P (tcGrpc c) txHash confirmations w)"

definition tronAdapterSignMessage :: "('x, 'w) tronAdapter \<Rightarrow> string \<Rightarrow> string res" where
  "tronAdapterSignMessage a message =
     (case taTronWeb a of
        None \<Rightarrow> Err (ErrMsg ''IllegalState: no signer, call InitConnector first'')
      | Some c \<Rightarrow> andThen (tsgSignMessage (tcSigner c) message) hexSignature)"

definition tronGetAddress :: "('x, 'w) tronAdapter \<Rightarrow> string res" where
  "tronGetAddress a = (case taTronWeb a of None \<Rightarrow> Err (ErrMsg ''IllegalState'') | Some c \<Rightarrow> Ok (tcAddress c))"

definition tronSwitchNetwork :: "int \<Rightarrow> (('x, 'w) tronAdapter, unit) action" where
  "tronSwitchNetwork chainID a = (Ok (), a\<lparr>taChainID := Some chainID\<rparr>)"

definition tronSignTypedData :: "bytes \<Rightarrow> string res" where
  "tronSignTypedData typedDataHash = Err (ErrMsg ''typed data signing not supported on Tron'')"

text \<open>The EVM client is closed but kept.\<close>

definition tronRelease :: "('x, 'w) tronAdapter \<times> 'w \<Rightarrow> ('x, 'w) tronAdapter \<times> 'w" where
  "tronRelease = (\<lambda>(a, w).
     (a\<lparr>taTronWeb := None\<rparr>,
      (case taEvmClient a of None \<Rightarrow> id | Some client \<Rightarrow> ecClose client)
        ((case taTronWeb a of None \<Rightarrow> id | Some c \<Rightarrow> tgStop (tcGrpc c)) w)))"

definition tronGetTransactOpts :: "('x, 'w) tronAdapter \<Rightarrow> string res" where
  "tronGetTransactOpts a = errNotForTron"

definition tronGetFetchClient :: "('x, 'w) tronAdapter \<Rightarrow> int \<Rightarrow> 'w ethClient res" where
  "tronGetFetchClient a chainID =
     (case taEvmClient a of
        None \<Rightarrow> Err (ErrMsg ''IllegalState: evmClient not initialized, call InitConnector first'')
      | Some client \<Rightarrow> Ok client)"

definition tronSendTransaction :: "('x, 'w) tronAdapter \<Rightarrow> txRequest \<Rightarrow> ('w, string) action" where
  "tronSendTransaction a req = liftA errNotForTron"

definition tronGetGasPrice :: "('x, 'w) tronAdapter \<Rightarrow> int \<Rightarrow> 'w \<Rightarrow> int res" where
  "tronGetGasPrice a chainID w = errNotForTron"

end
