(* ===== verification/HinkalProviders.thy ===== *)
theory HinkalProviders
  imports HinkalState Providers Enclave
begin

text \<open>
  The wallets behind the SDK object: \<open>data-structures/hinkal/hinkal_providers.go\<close>. An adapter of type
  \<open>types.IProviderAdapter\<close> is one of the three kinds; its methods are those of \<open>Providers\<close>. A reference to an adapter is a
  number; assigning to a field of the adapter updates \<open>hkAdapters\<close>.
\<close>

datatype ('x, 'w) provider =
    EthersProvider "('x, 'w) ethersAdapter"
  | SolanaProvider "('x, 'w) solanaAdapter"
  | TronProvider "('x, 'w) tronAdapter"

type_synonym ('d, 'x, 'abi, 'w) sdk = "('d, ('x, 'w) provider, 'abi, 'w) hinkal"

subsection \<open>The methods of the interface\<close>

definition overAdapter :: "('a \<Rightarrow> 'p) \<Rightarrow> ('a, 'b) action \<Rightarrow> 'a \<Rightarrow> 'b res \<times> 'p" where
  "overAdapter wrap f a = apsnd wrap (f a)"

definition providerInit :: "int option \<Rightarrow> (('x, 'w) provider, unit) action" where
  "providerInit chainID p = (case p of
     EthersProvider a \<Rightarrow> overAdapter EthersProvider (ethersInit chainID) a
   | SolanaProvider a \<Rightarrow> overAdapter SolanaProvider (solanaInit chainID) a
   | TronProvider a \<Rightarrow> overAdapter TronProvider (tronInit chainID) a)"

definition providerSwitchNetwork :: "int \<Rightarrow> (('x, 'w) provider, unit) action" where
  "providerSwitchNetwork chainID p = (case p of
     EthersProvider a \<Rightarrow> overAdapter EthersProvider (ethersSwitchNetwork chainID) a
   | SolanaProvider a \<Rightarrow> overAdapter SolanaProvider (solanaSwitchNetwork chainID) a
   | TronProvider a \<Rightarrow> overAdapter TronProvider (tronSwitchNetwork chainID) a)"

definition providerRelease :: "('x, 'w) provider \<times> 'w \<Rightarrow> ('x, 'w) provider \<times> 'w" where
  "providerRelease pw = (case fst pw of
     EthersProvider a \<Rightarrow> map_prod EthersProvider id (ethersRelease (a, snd pw))
   | SolanaProvider a \<Rightarrow> map_prod SolanaProvider id (solanaRelease (a, snd pw))
   | TronProvider a \<Rightarrow> map_prod TronProvider id (tronRelease (a, snd pw)))"

definition providerConnectAndPatch :: "('x, 'w) provider \<Rightarrow> 'w \<Rightarrow> int res" where
  "providerConnectAndPatch p w = (case p of
     EthersProvider a \<Rightarrow> ethersConnectAndPatchProvider a w
   | SolanaProvider a \<Rightarrow> solanaConnectAndPatchProvider a
   | TronProvider a \<Rightarrow> tronConnectAndPatchProvider a)"

definition providerChainID :: "('x, 'w) provider \<Rightarrow> int option" where
  "providerChainID p = (case p of
     EthersProvider a \<Rightarrow> eaChainID a | SolanaProvider a \<Rightarrow> saChainID a | TronProvider a \<Rightarrow> taChainID a)"

definition providerSignMessage :: "('x, 'w) provider \<Rightarrow> string \<Rightarrow> string res" where
  "providerSignMessage p message = (case p of
     EthersProvider a \<Rightarrow> ethersSignMessage a message
   | SolanaProvider a \<Rightarrow> solanaAdapterSignMessage a message
   | TronProvider a \<Rightarrow> tronAdapterSignMessage a message)"

definition providerSignTypedData :: "('x, 'w) provider \<Rightarrow> bytes \<Rightarrow> string res" where
  "providerSignTypedData p typedDataHash = (case p of
     EthersProvider a \<Rightarrow> ethersSignTypedData a typedDataHash
   | SolanaProvider a \<Rightarrow> solanaSignTypedData typedDataHash
   | TronProvider a \<Rightarrow> tronSignTypedData typedDataHash)"

definition providerGetAddress :: "('x, 'w) providerLib \<Rightarrow> ('x, 'w) provider \<Rightarrow> string res" where
  "providerGetAddress P p = (case p of
     EthersProvider a \<Rightarrow> ethersGetAddress a | SolanaProvider a \<Rightarrow> solanaGetAddress P a | TronProvider a \<Rightarrow> tronGetAddress a)"

definition providerWait ::
  "('x, 'w) providerLib \<Rightarrow> ('x, 'w) provider \<Rightarrow> int \<Rightarrow> string \<Rightarrow> u64 \<Rightarrow> 'w \<Rightarrow> (bool res \<times> 'w) option" where
  "providerWait P p chainID txHash confirmations w = (case p of
     EthersProvider a \<Rightarrow> ethersWaitForTransaction P a chainID txHash confirmations w
   | SolanaProvider a \<Rightarrow> solanaWaitForTransaction P a txHash w
   | TronProvider a \<Rightarrow> tronWaitForTransaction P a txHash confirmations w)"

definition providerSend :: "('x, 'w) providerLib \<Rightarrow> ('x, 'w) provider \<Rightarrow> txRequest \<Rightarrow> ('w, string) action" where
  "providerSend P p req = (case p of
     EthersProvider a \<Rightarrow> ethersSendTransaction P a req
   | SolanaProvider a \<Rightarrow> solanaSendTransaction a req
   | TronProvider a \<Rightarrow> tronSendTransaction a req)"

definition providerGasPrice :: "('x, 'w) provider \<Rightarrow> int \<Rightarrow> 'w \<Rightarrow> int res" where
  "providerGasPrice p chainID w = (case p of
     EthersProvider a \<Rightarrow> ethersGetGasPrice a chainID w
   | SolanaProvider a \<Rightarrow> solanaGetGasPrice a chainID w
   | TronProvider a \<Rightarrow> tronGetGasPrice a chainID w)"

definition providerFetchClient :: "('x, 'w) provider \<Rightarrow> int \<Rightarrow> 'w ethClient res" where
  "providerFetchClient p chainID = (case p of
     EthersProvider a \<Rightarrow> fetchClientOf a chainID
   | SolanaProvider a \<Rightarrow> solanaGetFetchClient a chainID
   | TronProvider a \<Rightarrow> tronGetFetchClient a chainID)"

definition providerTransactOpts :: "('x, 'w) provider \<Rightarrow> string res" where
  "providerTransactOpts p = (case p of
     EthersProvider a \<Rightarrow> ethersGetTransactOpts a
   | SolanaProvider a \<Rightarrow> solanaGetTransactOpts a
   | TronProvider a \<Rightarrow> tronGetTransactOpts a)"

text \<open>All three adapters answer this without doing anything.\<close>

definition providerDisconnect :: "('x, 'w) provider \<Rightarrow> unit res" where
  "providerDisconnect p = Ok ()"

definition providerPermitter :: "('x, 'w) provider \<Rightarrow> bool" where
  "providerPermitter p = False"

subsection \<open>Choosing an adapter\<close>

definition CurrentSolanaChainID :: int where "CurrentSolanaChainID = idSolanaMainnet"

definition errProviderAdapterNotInitialized :: go_error where
  "errProviderAdapterNotInitialized = ErrMsg ''ProviderAdapter is not initialized''"

definition errNotSolanaProviderAdapter :: go_error where
  "errNotSolanaProviderAdapter = ErrMsg ''current provider adapter is not a Solana provider adapter''"

definition errNotTronProviderAdapter :: go_error where
  "errNotTronProviderAdapter = ErrMsg ''current provider adapter is not a Tron provider adapter''"

definition errConnectedAddressNotFound :: go_error where
  "errConnectedAddressNotFound = ErrMsg ''connected address not found''"

text \<open>The slot of a chain's family.\<close>

definition slotOf :: "int \<Rightarrow> ('d, 'p, 'abi, 'w) hinkal \<Rightarrow> nat option" where
  "slotOf chainID h =
     (if IsSolanaLike chainID then hkSolana h else if IsTronLike chainID then hkTron h else hkEthereum h)"

definition GetProviderAdapter :: "('d, 'p, 'abi, 'w) hinkal \<Rightarrow> int option \<Rightarrow> nat res" where
  "GetProviderAdapter h chainID =
     (let given = (case chainID of None \<Rightarrow> 0 | Some c \<Rightarrow> c);
          finalChainID = (if given \<noteq> 0 then given
            else if hkEthereum h \<noteq> None then idEthMainnet
            else if hkSolana h \<noteq> None then CurrentSolanaChainID
            else hkTronChainID h) in
      case slotOf finalChainID h of None \<Rightarrow> Err errProviderAdapterNotInitialized | Some i \<Rightarrow> Ok i)"

definition setAdapter :: "nat \<Rightarrow> 'p \<Rightarrow> ('d, 'p, 'abi, 'w) hinkal \<Rightarrow> ('d, 'p, 'abi, 'w) hinkal" where
  "setAdapter i p h = h\<lparr>hkAdapters := (hkAdapters h)(i := p)\<rparr>"

definition releaseAdapter :: "nat option \<Rightarrow> ('d, 'x, 'abi, 'w) sdk \<Rightarrow> ('d, 'x, 'abi, 'w) sdk" where
  "releaseAdapter slot h =
     (case slot of
        None \<Rightarrow> h
      | Some i \<Rightarrow> (case providerRelease (hkAdapters h i, hkWorld h) of (p, w) \<Rightarrow> setAdapter i p (h\<lparr>hkWorld := w\<rparr>)))"

text \<open>The adapter that was in the slot is released, even when it is the one that goes in.\<close>

definition updateProviderAdapter :: "int \<Rightarrow> nat \<Rightarrow> ('d, 'x, 'abi, 'w) sdk \<Rightarrow> ('d, 'x, 'abi, 'w) sdk" where
  "updateProviderAdapter chainID i h =
     (if IsSolanaLike chainID then (releaseAdapter (hkSolana h) h)\<lparr>hkSolana := Some i\<rparr>
      else if IsTronLike chainID then (releaseAdapter (hkTron h) h)\<lparr>hkTron := Some i\<rparr>
      else (releaseAdapter (hkEthereum h) h)\<lparr>hkEthereum := Some i\<rparr>)"

definition defaultChainOf :: "('x, 'w) provider \<Rightarrow> int \<Rightarrow> int" where
  "defaultChainOf p tronChainID =
     (case p of EthersProvider a \<Rightarrow> idEthMainnet | SolanaProvider a \<Rightarrow> CurrentSolanaChainID | TronProvider a \<Rightarrow> tronChainID)"

definition InitProviderAdapter :: "nat option \<Rightarrow> (('d, 'x, 'abi, 'w) sdk, unit) action" where
  "InitProviderAdapter adapter h =
     (case adapter of
        None \<Rightarrow> (Err errProviderAdapterNotInitialized, h)
      | Some i \<Rightarrow>
          (let h1 = updateProviderAdapter (defaultChainOf (hkAdapters h i) (hkTronChainID h)) i h in
           case providerConnectAndPatch (hkAdapters h1 i) (hkWorld h1) of
             Err e \<Rightarrow> (Err e, h1)
           | Panic p \<Rightarrow> (Panic p, h1)
           | Ok chainID \<Rightarrow>
               (case providerInit (Some chainID) (hkAdapters h1 i) of (r, p) \<Rightarrow> (r, setAdapter i p h1))))"

definition ResetProviderAdapters :: "('d, 'x, 'abi, 'w) sdk \<Rightarrow> ('d, 'x, 'abi, 'w) sdk" where
  "ResetProviderAdapters h =
     (let released = h\<lparr>hkEthereum := None, hkSolana := None, hkTron := None\<rparr> in
      releaseAdapter (hkTron h) (releaseAdapter (hkSolana h) (releaseAdapter (hkEthereum h) released)))"

definition Destroy :: "(('d, 'x, 'abi, 'w) sdk, unit) action" where
  "Destroy h = (Ok (), ResetProviderAdapters h)"

definition DisconnectFromConnector :: "('d, 'x, 'abi, 'w) sdk \<Rightarrow> unit res" where
  "DisconnectFromConnector h =
     joinErrors [e. Err e \<leftarrow> map (\<lambda>i. providerDisconnect (hkAdapters h i))
       (concat (map (\<lambda>slot. case slot of None \<Rightarrow> [] | Some i \<Rightarrow> [i]) [hkEthereum h, hkSolana h, hkTron h]))]"

subsection \<open>What the adapters are asked for\<close>

definition withAdapter :: "int option \<Rightarrow> (('x, 'w) provider \<Rightarrow> 'a res) \<Rightarrow> ('d, 'x, 'abi, 'w) sdk \<Rightarrow> 'a res" where
  "withAdapter chainID f h = andThen (GetProviderAdapter h chainID) (\<lambda>i. f (hkAdapters h i))"

definition GetSigningMessage :: "int \<Rightarrow> string" where
  "GetSigningMessage mode =
     (if mode = 1 then ''Login to Hinkal'' @ [CHR 0x27] @ ''s Private Transfer App'' else ''Login to Hinkal Protocol'')"

definition hinkalSignMessage :: "('d, 'x, 'abi, 'w) sdk \<Rightarrow> string \<Rightarrow> string res" where
  "hinkalSignMessage h message = withAdapter None (\<lambda>p. providerSignMessage p message) h"

definition SignHinkalMessage :: "('d, 'x, 'abi, 'w) sdk \<Rightarrow> int \<Rightarrow> string res" where
  "SignHinkalMessage h mode = withAdapter None (\<lambda>p. providerSignMessage p (GetSigningMessage mode)) h"

definition InitUserKeys :: "int \<Rightarrow> (('d, 'x, 'abi, 'w) sdk, unit) action" where
  "InitUserKeys mode h =
     (case SignHinkalMessage h mode of
        Ok signature \<Rightarrow> (Ok (), h\<lparr>hkUserKeys := NewUserKeys signature\<rparr>)
      | Err e \<Rightarrow> (Err e, h)
      | Panic p \<Rightarrow> (Panic p, h))"

definition hinkalSignTypedData :: "('d, 'x, 'abi, 'w) sdk \<Rightarrow> bytes \<Rightarrow> string res" where
  "hinkalSignTypedData h typedDataHash = withAdapter None (\<lambda>p. providerSignTypedData p typedDataHash) h"

definition hinkalWaitForTransaction ::
  "('x, 'w) providerLib \<Rightarrow> int \<Rightarrow> string \<Rightarrow> u64 \<Rightarrow> ('d, 'x, 'abi, 'w) sdk \<Rightarrow> (bool res \<times> ('d, 'x, 'abi, 'w) sdk) option" where
  "hinkalWaitForTransaction P chainID txHash confirmations h =
     (case GetProviderAdapter h (Some chainID) of
        Err e \<Rightarrow> Some (Err e, h)
      | Panic p \<Rightarrow> Some (Panic p, h)
      | Ok i \<Rightarrow> map_option (\<lambda>(r, w). (r, h\<lparr>hkWorld := w\<rparr>)) (providerWait P (hkAdapters h i) chainID txHash confirmations (hkWorld h)))"

text \<open>The registry's networks are used by their chain alone.\<close>

definition SwitchNetwork :: "int \<Rightarrow> (('d, 'x, 'abi, 'w) sdk, unit) action" where
  "SwitchNetwork chainID h =
     (case GetProviderAdapter h None of
        Err e \<Rightarrow> (Err e, h)
      | Panic p \<Rightarrow> (Panic p, h)
      | Ok i \<Rightarrow>
          if providerChainID (hkAdapters h i) = Some chainID then (Ok (), h)
          else (case providerSwitchNetwork chainID (hkAdapters h i) of (r, p) \<Rightarrow> (r, setAdapter i p h)))"

definition IsSelectedNetworkSupported :: "chainEnv \<Rightarrow> int \<Rightarrow> bool" where
  "IsSelectedNetworkSupported env chainID \<longleftrightarrow> map_of (EthereumNetworkRegistry env) chainID \<noteq> None"

definition SwitchNetworkByChainID :: "chainEnv \<Rightarrow> int \<Rightarrow> (('d, 'x, 'abi, 'w) sdk, unit) action" where
  "SwitchNetworkByChainID env chainID h =
     (case map_of (EthereumNetworkRegistry env) chainID of
        None \<Rightarrow> (Err (ErrMsg ''network not supported''), h)
      | Some network \<Rightarrow> SwitchNetwork (netChainID network) h)"

definition IsPermitterAvailable :: "('d, 'x, 'abi, 'w) sdk \<Rightarrow> int \<Rightarrow> bool" where
  "IsPermitterAvailable h chainID =
     (case GetProviderAdapter h (Some chainID) of Ok i \<Rightarrow> providerPermitter (hkAdapters h i) | _ \<Rightarrow> False)"

definition GetEthereumAddress :: "('x, 'w) providerLib \<Rightarrow> ('d, 'x, 'abi, 'w) sdk \<Rightarrow> string res" where
  "GetEthereumAddress P h =
     (let slot = (if hkEthereum h \<noteq> None then hkEthereum h else if hkSolana h \<noteq> None then hkSolana h else hkTron h) in
      case slot of None \<Rightarrow> Err errProviderAdapterNotInitialized | Some i \<Rightarrow> providerGetAddress P (hkAdapters h i))"

definition GetEthereumAddressByChain :: "('x, 'w) providerLib \<Rightarrow> ('d, 'x, 'abi, 'w) sdk \<Rightarrow> int \<Rightarrow> string res" where
  "GetEthereumAddressByChain P h chainID = withAdapter (Some chainID) (providerGetAddress P) h"

definition StoreAndGetInitialSignature ::
  "cryptoLib \<Rightarrow> 'k enclaveLib \<Rightarrow> ('x, 'w) providerLib \<Rightarrow> ('d, 'x, 'abi, 'w) sdk \<Rightarrow> string \<Rightarrow> bool \<Rightarrow> string \<Rightarrow> string res" where
  "StoreAndGetInitialSignature C L P h authSignature isSolanaLedger txMessageForSolanaLedger =
     andThen (GetEthereumAddress P h) (\<lambda>ethereumAddress.
       if ethereumAddress = [] then Err errConnectedAddressNotFound
       else StoreAndGetSignatureFromEnclave C L ethereumAddress authSignature isSolanaLedger txMessageForSolanaLedger)"

text \<open>\<open>monitor\<close> is \<open>api.Monitor\<close>.\<close>

definition MonitorConnectedAddress ::
  "('x, 'w) providerLib \<Rightarrow> (string \<Rightarrow> unit res) \<Rightarrow> ('d, 'x, 'abi, 'w) sdk \<Rightarrow> int \<Rightarrow> unit res" where
  "MonitorConnectedAddress P monitor h chainID = andThen (GetEthereumAddressByChain P h chainID) monitor"

definition hinkalGetGasPrice :: "('d, 'x, 'abi, 'w) sdk \<Rightarrow> int \<Rightarrow> int res" where
  "hinkalGetGasPrice h chainID = withAdapter (Some chainID) (\<lambda>p. providerGasPrice p chainID (hkWorld h)) h"

definition hinkalSendTransaction ::
  "('x, 'w) providerLib \<Rightarrow> int \<Rightarrow> txRequest \<Rightarrow> (('d, 'x, 'abi, 'w) sdk, string) action" where
  "hinkalSendTransaction P chainID req h =
     (case GetProviderAdapter h (Some chainID) of
        Err e \<Rightarrow> (Err e, h)
      | Panic p \<Rightarrow> (Panic p, h)
      | Ok i \<Rightarrow> (case providerSend P (hkAdapters h i) req (hkWorld h) of (r, w) \<Rightarrow> (r, h\<lparr>hkWorld := w\<rparr>)))"

definition hinkalGetFetchClient :: "('d, 'x, 'abi, 'w) sdk \<Rightarrow> int \<Rightarrow> 'w ethClient res" where
  "hinkalGetFetchClient h chainID = withAdapter (Some chainID) (\<lambda>p. providerFetchClient p chainID) h"

definition hinkalGetTransactOpts :: "('d, 'x, 'abi, 'w) sdk \<Rightarrow> int \<Rightarrow> string res" where
  "hinkalGetTransactOpts h chainID = withAdapter (Some chainID) providerTransactOpts h"

definition solanaAdapterOf :: "('d, 'x, 'abi, 'w) sdk \<Rightarrow> ('x, 'w) solanaAdapter res" where
  "solanaAdapterOf h =
     (case hkSolana h of
        None \<Rightarrow> Err errProviderAdapterNotInitialized
      | Some i \<Rightarrow> (case hkAdapters h i of SolanaProvider a \<Rightarrow> Ok a | _ \<Rightarrow> Err errNotSolanaProviderAdapter))"

definition hinkalGetSolanaProgram :: "('d, 'x, 'abi, 'w) sdk \<Rightarrow> bytes \<Rightarrow> ('x, 'w) solanaProgram res" where
  "hinkalGetSolanaProgram h programID = andThen (solanaAdapterOf h) (\<lambda>a. GetSolanaProgram a programID)"

definition hinkalGetSolanaPublicKey :: "('d, 'x, 'abi, 'w) sdk \<Rightarrow> bytes res" where
  "hinkalGetSolanaPublicKey h = andThen (solanaAdapterOf h) GetSolanaPublicKey"

definition GetSolanaConnection :: "('d, 'x, 'abi, 'w) sdk \<Rightarrow> ('x, 'w) solanaClient res" where
  "GetSolanaConnection h = andThen (solanaAdapterOf h) (\<lambda>a. Ok (saClient a))"

definition GetTronWeb :: "('d, 'x, 'abi, 'w) sdk \<Rightarrow> ('x, 'w) signableTronClient res" where
  "GetTronWeb h =
     (case hkTron h of
        None \<Rightarrow> Err errProviderAdapterNotInitialized
      | Some i \<Rightarrow>
          (case hkAdapters h i of
             TronProvider a \<Rightarrow> (case taTronWeb a of None \<Rightarrow> Err (ErrMsg ''TronWeb not available'') | Some c \<Rightarrow> Ok c)
           | _ \<Rightarrow> Err errNotTronProviderAdapter))"

section \<open>Properties\<close>

text \<open>
  Whatever is done to the object and by its users, each slot holds an adapter of its own kind, so a request for a chain
  reaches an adapter of that chain's family.
\<close>

datatype chainFamily = EvmFamily | SolanaFamily | TronFamily

definition familyOf :: "int \<Rightarrow> chainFamily" where
  "familyOf c = (if IsSolanaLike c then SolanaFamily else if IsTronLike c then TronFamily else EvmFamily)"

fun familyOfProvider :: "('x, 'w) provider \<Rightarrow> chainFamily" where
  "familyOfProvider (EthersProvider a) = EvmFamily"
| "familyOfProvider (SolanaProvider a) = SolanaFamily"
| "familyOfProvider (TronProvider a) = TronFamily"

definition slotsTyped :: "('d, 'x, 'abi, 'w) sdk \<Rightarrow> bool" where
  "slotsTyped h \<longleftrightarrow>
     (\<forall>i. hkEthereum h = Some i \<longrightarrow> familyOfProvider (hkAdapters h i) = EvmFamily) \<and>
     (\<forall>i. hkSolana h = Some i \<longrightarrow> familyOfProvider (hkAdapters h i) = SolanaFamily) \<and>
     (\<forall>i. hkTron h = Some i \<longrightarrow> familyOfProvider (hkAdapters h i) = TronFamily) \<and>
     IsTronLike (hkTronChainID h)"

text \<open>
  Steps: the methods of the object that assign to it, and what a user does to an adapter of theirs (\<open>InitSigner\<close>,
  \<open>InitConnector\<close>, a chain change), which leaves it of its kind.
\<close>

inductive sdkStep :: "('d, 'x, 'abi, 'w) sdk \<Rightarrow> ('d, 'x, 'abi, 'w) sdk \<Rightarrow> bool" where
  initAdapter: "InitProviderAdapter adapter h = (r, h') \<Longrightarrow> sdkStep h h'"
| resetAdapters: "sdkStep h (ResetProviderAdapters h)"
| switchNetwork: "SwitchNetwork chainID h = (r, h') \<Longrightarrow> sdkStep h h'"
| initUserKeys: "InitUserKeys mode h = (r, h') \<Longrightarrow> sdkStep h h'"
| resetTrees: "ResetMerkle R schedule chainIDs h = (r, h') \<Longrightarrow> sdkStep h h'"
| sendTransaction: "hinkalSendTransaction P chainID req h = (r, h') \<Longrightarrow> sdkStep h h'"
| useAdapter: "familyOfProvider p = familyOfProvider (hkAdapters h i) \<Longrightarrow> sdkStep h (setAdapter i p (h\<lparr>hkWorld := w\<rparr>))"

inductive sdkReachable :: "('d, 'x, 'abi, 'w) sdk \<Rightarrow> ('d, 'x, 'abi, 'w) sdk \<Rightarrow> bool" for start where
  begins: "sdkReachable start start"
| steps: "sdkReachable start h \<Longrightarrow> sdkStep h h' \<Longrightarrow> sdkReachable start h'"

inductive_cases sdkStepE: "sdkStep h h'"

subsection \<open>The methods keep the kinds\<close>

lemma family_init: "providerInit c p = (r, q) \<Longrightarrow> familyOfProvider q = familyOfProvider p"
  by (cases p) (auto simp: providerInit_def overAdapter_def apsnd_def map_prod_def split: prod.splits)

lemma family_switch: "providerSwitchNetwork c p = (r, q) \<Longrightarrow> familyOfProvider q = familyOfProvider p"
  by (cases p) (auto simp: providerSwitchNetwork_def overAdapter_def apsnd_def map_prod_def split: prod.splits)

lemma family_release: "providerRelease (p, w) = (q, v) \<Longrightarrow> familyOfProvider q = familyOfProvider p"
  by (cases p) (auto simp: providerRelease_def map_prod_def split: prod.splits)

definition sameKinds :: "('d, 'x, 'abi, 'w) sdk \<Rightarrow> ('d, 'x, 'abi, 'w) sdk \<Rightarrow> bool" where
  "sameKinds h h' \<longleftrightarrow> (\<forall>i. familyOfProvider (hkAdapters h' i) = familyOfProvider (hkAdapters h i)) \<and> hkTronChainID h' = hkTronChainID h"

lemma sameKinds_trans: "sameKinds h g \<Longrightarrow> sameKinds g k \<Longrightarrow> sameKinds h k"
  by (simp add: sameKinds_def)

lemma sameKinds_set: "familyOfProvider p = familyOfProvider (hkAdapters h i) \<Longrightarrow> sameKinds h (setAdapter i p (h\<lparr>hkWorld := w\<rparr>))"
  by (simp add: sameKinds_def setAdapter_def)

lemma releaseAdapter_keeps:
  "sameKinds h (releaseAdapter slot h) \<and> hkEthereum (releaseAdapter slot h) = hkEthereum h \<and>
   hkSolana (releaseAdapter slot h) = hkSolana h \<and> hkTron (releaseAdapter slot h) = hkTron h"
proof (cases slot)
  case (Some i)
  obtain q v where q: "providerRelease (hkAdapters h i, hkWorld h) = (q, v)" by fastforce
  then show ?thesis using Some family_release [OF q] by (simp add: releaseAdapter_def sameKinds_def setAdapter_def)
qed (simp add: releaseAdapter_def sameKinds_def)

lemma typed_keeps:
  "slotsTyped h \<Longrightarrow> sameKinds h h' \<Longrightarrow> hkEthereum h' = hkEthereum h \<Longrightarrow> hkSolana h' = hkSolana h \<Longrightarrow> hkTron h' = hkTron h \<Longrightarrow>
   slotsTyped h'"
  by (simp add: slotsTyped_def sameKinds_def)

lemma containsInt_member: "containsInt xs x \<longleftrightarrow> x \<in> set xs"
  by (induction xs) auto

lemma tron_not_solana: "IsTronLike c \<Longrightarrow> \<not> IsSolanaLike c"
proof -
  have "list_all (\<lambda>c. \<not> IsSolanaLike c) TronChainIDs" by code_simp
  then show "IsTronLike c \<Longrightarrow> \<not> IsSolanaLike c" by (simp add: IsTronLike_def containsInt_member list_all_iff)
qed

lemma default_chain_family:
  "IsTronLike tronChainID \<Longrightarrow> familyOf (defaultChainOf p tronChainID) = familyOfProvider p"
proof -
  assume tron: "IsTronLike tronChainID"
  have chains: "\<not> IsSolanaLike idEthMainnet" "\<not> IsTronLike idEthMainnet" "IsSolanaLike CurrentSolanaChainID" by code_simp+
  have "\<not> IsSolanaLike tronChainID"
    using tron tron_not_solana by simp
  then show ?thesis using tron chains by (cases p) (simp_all add: defaultChainOf_def familyOf_def)
qed

lemma update_typed:
  assumes "slotsTyped h" "familyOf c = familyOfProvider (hkAdapters h i)"
  shows "slotsTyped (updateProviderAdapter c i h) \<and> sameKinds h (updateProviderAdapter c i h)"
  using assms releaseAdapter_keeps [of h "hkEthereum h"] releaseAdapter_keeps [of h "hkSolana h"] releaseAdapter_keeps [of h "hkTron h"]
  by (auto simp: slotsTyped_def updateProviderAdapter_def sameKinds_def familyOf_def split: if_splits)

lemma init_typed:
  assumes typed: "slotsTyped h" and step: "InitProviderAdapter adapter h = (r, h')"
  shows "slotsTyped h'"
proof (cases adapter)
  case (Some i)
  let ?h = "updateProviderAdapter (defaultChainOf (hkAdapters h i) (hkTronChainID h)) i h"
  have "familyOf (defaultChainOf (hkAdapters h i) (hkTronChainID h)) = familyOfProvider (hkAdapters h i)"
    using typed by (intro default_chain_family) (simp add: slotsTyped_def)
  then have h: "slotsTyped ?h" using update_typed [OF typed] by blast
  have "slotsTyped (setAdapter i p ?h)" if "providerInit c (hkAdapters ?h i) = (x, p)" for c x p
    using h family_init [OF that] by (auto simp: slotsTyped_def setAdapter_def)
  then show ?thesis
    using step h Some by (auto simp: InitProviderAdapter_def Let_def split: res.splits prod.splits)
qed (use step typed in \<open>simp add: InitProviderAdapter_def\<close>)

lemma reset_typed: "slotsTyped h \<Longrightarrow> slotsTyped (snd (resetMerkleTreeForChain R c h))"
  by (auto simp: resetMerkleTreeForChain_def storeChainState_def slotsTyped_def split: prod.splits res.splits)

lemma runResets_typed: "slotsTyped h \<Longrightarrow> slotsTyped (snd (runResets R todo js h))"
proof (induction js arbitrary: h)
  case (Cons j js)
  then show ?case using Cons.IH [OF reset_typed [OF Cons.prems], of R "todo ! j"] by (auto split: prod.splits)
qed simp

lemma step_typed: "sdkStep h h' \<Longrightarrow> slotsTyped h \<Longrightarrow> slotsTyped h'"
proof (erule sdkStepE)
  fix adapter r assume "slotsTyped h" "InitProviderAdapter adapter h = (r, h')"
  then show ?thesis by (rule init_typed)
next
  assume typed: "slotsTyped h" and h': "h' = ResetProviderAdapters h"
  let ?h = "h\<lparr>hkEthereum := None, hkSolana := None, hkTron := None\<rparr>"
  have "slotsTyped ?h" using typed by (simp add: slotsTyped_def)
  then show ?thesis
    using typed_keeps releaseAdapter_keeps unfolding h' ResetProviderAdapters_def Let_def by metis
next
  fix chainID r assume typed: "slotsTyped h" and step: "SwitchNetwork chainID h = (r, h')"
  have "slotsTyped (setAdapter i p h)" if "providerSwitchNetwork c (hkAdapters h i) = (x, p)" for c i x p
    using typed family_switch [OF that] by (auto simp: slotsTyped_def setAdapter_def)
  then show ?thesis using step typed by (auto simp: SwitchNetwork_def split: res.splits if_splits prod.splits)
next
  fix mode r assume "slotsTyped h" "InitUserKeys mode h = (r, h')"
  then show ?thesis by (auto simp: InitUserKeys_def slotsTyped_def split: res.splits)
next
  fix R schedule chainIDs r assume typed: "slotsTyped h" and step: "ResetMerkle R schedule chainIDs h = (r, h')"
  show ?thesis
    using typed step runResets_typed [OF typed]
    by (auto simp: ResetMerkle_def resetMerkleTrees_def Let_def split: if_splits prod.splits) (metis snd_conv)+
next
  fix P chainID req r assume "slotsTyped h" "hinkalSendTransaction P chainID req h = (r, h')"
  then show ?thesis by (auto simp: hinkalSendTransaction_def slotsTyped_def split: res.splits prod.splits)
next
  fix p i w assume "slotsTyped h" "h' = setAdapter i p (h\<lparr>hkWorld := w\<rparr>)" "familyOfProvider p = familyOfProvider (hkAdapters h i)"
  then show ?thesis by (auto simp: slotsTyped_def setAdapter_def)
qed

lemma reachable_typed: "sdkReachable start h \<Longrightarrow> slotsTyped start \<Longrightarrow> slotsTyped h"
  by (induction rule: sdkReachable.induct) (auto dest: step_typed)

definition toySigner :: "(unit, unit) evmSigner" where
  "toySigner = \<lparr>sgGetAddress = Ok ''0x1'', sgSignMessage = (\<lambda>_. Ok [1]), sgSignTypedData = (\<lambda>_. Ok [1]),
     sgSignTransaction = (\<lambda>_. Ok ()), sgBroadcastTransaction = (\<lambda>_. liftA (Ok ''0x2''))\<rparr>"

definition toyEthers :: "(unit, unit) ethersAdapter" where
  "toyEthers = \<lparr>eaSigner = Some toySigner, eaChainID = Some idEthMainnet, eaClients = []\<rparr>"

definition toySolanaAdapter :: "(unit, unit) solanaAdapter" where
  "toySolanaAdapter = \<lparr>saChainID = Some idSolanaMainnet,
     saClient = \<lparr>slStatuses = (\<lambda>_ _. Ok []), slSend = (\<lambda>_. liftA (Ok []))\<rparr>, saWallet = None, saEthereumAddress = ''0xe''\<rparr>"

definition toySdk :: "(unit, unit, unit, unit) sdk" where
  "toySdk = \<lparr>hkUserKeys = NewUserKeys [], hkTrees = Map.empty, hkNullifiers = Map.empty, hkOutputs = Map.empty,
     hkCommitmentServices = Map.empty, hkNullifierServices = Map.empty, hkEthereum = None, hkSolana = None, hkTron = None,
     hkProofRemotely = True, hkUpdatesDisabled = False, hkCache = NoopDevice, hkTronChainID = idTronMainnet,
     hkAdapters = (\<lambda>i. if i = 1 then SolanaProvider toySolanaAdapter else EthersProvider toyEthers),
     hkDeploy = (Map.empty, Map.empty), hkWorld = ()\<rparr>"

text \<open>C34: From an object without adapters whose Tron chain is a Tron chain, after any sequence of initialisations, resets,
  network switches, key derivations, tree resets, transactions and whatever users do to their adapters, the adapter that is
  found for a chain is of that chain's family, and neither the Solana nor the Tron accessors meet an adapter of another kind.
\<close>

theorem adapters_match_chains:
  assumes reach: "sdkReachable start h"
    and start: "hkEthereum start = None" "hkSolana start = None" "hkTron start = None" "IsTronLike (hkTronChainID start)"
  shows "(\<forall>c i. c \<noteq> 0 \<and> GetProviderAdapter h (Some c) = Ok i \<longrightarrow> familyOfProvider (hkAdapters h i) = familyOf c) \<and>
    solanaAdapterOf h \<noteq> Err errNotSolanaProviderAdapter \<and> GetTronWeb h \<noteq> Err errNotTronProviderAdapter"
proof -
  have typed: "slotsTyped h" using reachable_typed [OF reach] start by (simp add: slotsTyped_def)
  have "familyOfProvider (hkAdapters h i) = familyOf c" if "c \<noteq> 0" "GetProviderAdapter h (Some c) = Ok i" for c i
    using typed that
    by (auto simp: GetProviderAdapter_def slotOf_def slotsTyped_def familyOf_def split: if_splits option.splits)
  moreover have "solanaAdapterOf h \<noteq> Err errNotSolanaProviderAdapter"
    using typed
    by (auto simp: solanaAdapterOf_def slotsTyped_def errNotSolanaProviderAdapter_def errProviderAdapterNotInitialized_def
      split: option.splits provider.splits)
  moreover have "GetTronWeb h \<noteq> Err errNotTronProviderAdapter"
    using typed
    by (auto simp: GetTronWeb_def slotsTyped_def errNotTronProviderAdapter_def errProviderAdapterNotInitialized_def
      split: option.splits provider.splits)
  ultimately show ?thesis by blast
qed

lemma adapters_match_chains_witness:
  "\<exists>h. sdkReachable toySdk h \<and> GetProviderAdapter h (Some idSolanaMainnet) = Ok 1 \<and> familyOfProvider (hkAdapters h 1) = familyOf idSolanaMainnet"
proof -
  obtain r h where step: "InitProviderAdapter (Some 1) toySdk = (r, h)" by (cases "InitProviderAdapter (Some 1) toySdk")
  have reach: "sdkReachable toySdk h" using steps [OF begins] initAdapter [OF step] by blast
  have chains: "IsSolanaLike CurrentSolanaChainID" "IsSolanaLike idSolanaMainnet" "idSolanaMainnet \<noteq> 0" "IsTronLike idTronMainnet" by code_simp+
  have "hkSolana h = Some 1"
    using step chains
    by (auto simp: InitProviderAdapter_def toySdk_def defaultChainOf_def updateProviderAdapter_def releaseAdapter_def setAdapter_def
      providerConnectAndPatch_def solanaConnectAndPatchProvider_def toySolanaAdapter_def Let_def split: prod.splits)
  then have found: "GetProviderAdapter h (Some idSolanaMainnet) = Ok 1"
    using chains by (simp add: GetProviderAdapter_def slotOf_def)
  have "familyOfProvider (hkAdapters h 1) = familyOf idSolanaMainnet"
    using adapters_match_chains [OF reach] found chains by (simp add: toySdk_def)
  then show ?thesis using reach found by blast
qed

text \<open>C35: Initialising the object again with the EVM adapter it already has fails: the adapter is released before it goes in
  again, so its signer is gone and stays gone.
\<close>

theorem reinitialising_loses_the_signer:
  assumes slot: "hkEthereum h = Some i" and adapter: "hkAdapters h i = EthersProvider a"
    and step: "InitProviderAdapter (Some i) h = (r, h')"
  shows "r = Err errNoSigner \<and> hkEthereum h' = Some i \<and> hinkalSignMessage h' message = Err errNoSigner"
proof -
  have chains: "\<not> IsSolanaLike idEthMainnet" "\<not> IsTronLike idEthMainnet" "idEthMainnet \<noteq> 0" by code_simp+
  obtain w where w: "ethersRelease (a, hkWorld h) = (a\<lparr>eaSigner := None\<rparr>, w)" by (simp add: ethersRelease_def)
  let ?h = "(setAdapter i (EthersProvider (a\<lparr>eaSigner := None\<rparr>)) (h\<lparr>hkWorld := w\<rparr>))\<lparr>hkEthereum := Some i\<rparr>"
  have update: "updateProviderAdapter (defaultChainOf (hkAdapters h i) (hkTronChainID h)) i h = ?h"
    using chains w by (simp add: updateProviderAdapter_def defaultChainOf_def adapter releaseAdapter_def slot providerRelease_def)
  have gone: "hkAdapters ?h i = EthersProvider (a\<lparr>eaSigner := None\<rparr>)" by (simp add: setAdapter_def)
  have "providerConnectAndPatch (hkAdapters ?h i) (hkWorld ?h) = Err errNoSigner"
    unfolding gone by (simp add: providerConnectAndPatch_def ethersConnectAndPatchProvider_def ethersSignerOf_def)
  then have result: "r = Err errNoSigner" "h' = ?h" using step update by (simp_all add: InitProviderAdapter_def Let_def)
  have "hinkalSignMessage ?h message = Err errNoSigner"
    using chains gone
    by (simp add: hinkalSignMessage_def withAdapter_def GetProviderAdapter_def slotOf_def providerSignMessage_def ethersSignMessage_def
      ethersSignerOf_def)
  then show ?thesis using result by simp
qed

lemma reinitialising_loses_the_signer_witness:
  "\<exists>h'. InitProviderAdapter (Some 0) (toySdk\<lparr>hkEthereum := Some 0\<rparr>) = (Err errNoSigner, h') \<and>
     hinkalSignMessage (toySdk\<lparr>hkEthereum := Some 0\<rparr>) ''hi'' = Ok ''0x01'' \<and> hinkalSignMessage h' ''hi'' = Err errNoSigner"
proof -
  let ?h = "toySdk\<lparr>hkEthereum := Some 0\<rparr>"
  have slot: "hkEthereum ?h = Some 0" "hkAdapters ?h 0 = EthersProvider toyEthers" by (simp_all add: toySdk_def)
  obtain r h' where step: "InitProviderAdapter (Some 0) ?h = (r, h')" by (cases "InitProviderAdapter (Some 0) ?h")
  have chains: "\<not> IsSolanaLike idEthMainnet" "\<not> IsTronLike idEthMainnet" "idEthMainnet \<noteq> 0" by code_simp+
  have "hexSignature [1] = Ok ''0x01''" by code_simp
  then have "hinkalSignMessage ?h ''hi'' = Ok ''0x01''"
    using slot chains
    by (simp add: hinkalSignMessage_def withAdapter_def GetProviderAdapter_def slotOf_def providerSignMessage_def ethersSignMessage_def
      ethersSignerOf_def toyEthers_def toySigner_def)
  then show ?thesis using reinitialising_loses_the_signer [OF slot step, of "''hi''"] step by blast
qed

end
