(* ===== verification/ApiClient.thy ===== *)
theory ApiClient
  imports JsonDecode Fees
begin

text \<open>
  The HTTP client of the servers, \<open>internal/api/client.go\<close>, and the paths they serve, \<open>constants/routes.go\<close>. A request goes
  through the world \<open>'w\<close>: \<open>alSend\<close> gives the answer to a method, URL and body, or the transport's error. Of a body the code
  sees the bytes that arrive and how reading ends. \<open>'f\<close> is \<open>float64\<close>.
\<close>

subsection \<open>client.go\<close>

record httpResponse =
  hrStatus :: int
  hrBody :: string
  hrBroken :: "go_error option"       \<comment> \<open>the error reading ends with after these bytes, if any\<close>
  hrClosed :: "unit res"

record ('f, 'w) apiLib =
  alText :: "json \<Rightarrow> string res"                                    \<comment> \<open>json.Marshal\<close>
  alFirst :: "string \<Rightarrow> go_error option \<Rightarrow> json res"               \<comment> \<open>the first value of a stream\<close>
  alRequest :: "string \<Rightarrow> string \<Rightarrow> unit res"                      \<comment> \<open>NewRequestWithContext: the URL parses\<close>
  alSend :: "string \<Rightarrow> string \<Rightarrow> string option \<Rightarrow> ('w, httpResponse) action"
  alNumber :: "'f \<Rightarrow> string"                                       \<comment> \<open>a float64 in JSON, and as \<open>%v\<close> and back\<close>
  alShow :: "'f \<Rightarrow> string"
  alFloat :: "string \<Rightarrow> 'f res"
  alIsZero :: "'f \<Rightarrow> bool"
  alEscape :: "string \<Rightarrow> string"                                   \<comment> \<open>url.QueryEscape\<close>

definition requestText :: "('f, 'w) apiLib \<Rightarrow> json option \<Rightarrow> string option res" where
  "requestText L body =
     (case body of
        None \<Rightarrow> Ok None
      | Some b \<Rightarrow> andThen (wrapErr ''marshal request body'' (alText L b)) (\<lambda>t. Ok (Some t)))"

text \<open>At most 512 bytes of the body of an error are read; when reading breaks off before that they are dropped.\<close>

definition errBody :: "httpResponse \<Rightarrow> string" where
  "errBody resp = (if length (hrBody resp) < 512 \<and> hrBroken resp \<noteq> None then [] else take 512 (hrBody resp))"

definition httpError :: "string \<Rightarrow> httpResponse \<Rightarrow> go_error" where
  "httpError url resp = ErrMsg (''HTTP '' @ bigString (hrStatus resp) @ '' from '' @ url @ '': '' @ errBody resp)"

definition apiDo ::
  "('f, 'w) apiLib \<Rightarrow> string \<Rightarrow> string \<Rightarrow> json option \<Rightarrow> (httpResponse \<Rightarrow> 'a res) \<Rightarrow> ('w, 'a) action" where
  "apiDo L method url body dest =
     bindA (liftA (requestText L body)) (\<lambda>reqBody.
     bindA (liftA (alRequest L method url)) (\<lambda>_.
     bindA (alSend L method url reqBody) (\<lambda>resp.
       liftA (closeJoined (if 400 \<le> hrStatus resp then Err (httpError url resp) else dest resp) (hrClosed resp)))))"

text \<open>The destination: a decoder of the first value of the body, or nothing at all.\<close>

definition intoDest :: "('f, 'w) apiLib \<Rightarrow> (json \<Rightarrow> 'a res) \<Rightarrow> httpResponse \<Rightarrow> 'a res" where
  "intoDest L dec resp = andThen (alFirst L (hrBody resp) (hrBroken resp)) dec"

definition noDest :: "httpResponse \<Rightarrow> unit res" where
  "noDest resp = Ok ()"

definition apiGet :: "('f, 'w) apiLib \<Rightarrow> string \<Rightarrow> (json \<Rightarrow> 'a res) \<Rightarrow> ('w, 'a) action" where
  "apiGet L url dec = apiDo L ''GET'' url None (intoDest L dec)"

definition apiPost :: "('f, 'w) apiLib \<Rightarrow> string \<Rightarrow> json \<Rightarrow> (json \<Rightarrow> 'a res) \<Rightarrow> ('w, 'a) action" where
  "apiPost L url body dec = apiDo L ''POST'' url (Some body) (intoDest L dec)"

definition apiPatch :: "('f, 'w) apiLib \<Rightarrow> string \<Rightarrow> json \<Rightarrow> (json \<Rightarrow> 'a res) \<Rightarrow> ('w, 'a) action" where
  "apiPatch L url body dec = apiDo L ''PATCH'' url (Some body) (intoDest L dec)"

subsection \<open>JSON of requests\<close>

definition jInt :: "int \<Rightarrow> json" where
  "jInt n = JNum (bigString n)"

definition jStrings :: "string list \<Rightarrow> json" where
  "jStrings xs = JArr (map JStr xs)"

text \<open>\<open>omitempty\<close>.\<close>

definition unlessEmpty :: "string \<Rightarrow> string \<Rightarrow> (string \<times> json) list" where
  "unlessEmpty k s = (if s = [] then [] else [(k, JStr s)])"

subsection \<open>routes.go: the main server\<close>

definition routeCallOdosAPI :: string where "routeCallOdosAPI = ''/OdosSwapData''"
definition routeCallOneInchAPI :: string where "routeCallOneInchAPI = ''/OneInchSwapData''"
definition routeCallLifiAPI :: string where "routeCallLifiAPI = ''/LifiBridgeData''"
definition routeCallOkxAPI :: string where "routeCallOkxAPI = ''/OkxSwapData''"
definition routeCallNearIntentsQuote :: string where "routeCallNearIntentsQuote = ''/near-intents/quote''"
definition routeCallNearIntentsTokens :: string where "routeCallNearIntentsTokens = ''/near-intents/tokens''"
definition routeMonitor :: string where "routeMonitor = ''/monitor''"
definition routeMonitorBatch :: string where "routeMonitorBatch = ''/monitor/batch''"
definition routeSimulateTransaction :: string where "routeSimulateTransaction = ''/simulate-transaction''"
definition routeSimulateBatchTx :: string where "routeSimulateBatchTx = ''/simulate-batch-tx''"
definition routeSimulateVolatileTokenTransfer :: string where
  "routeSimulateVolatileTokenTransfer = ''/simulate-volatile-token-transfer''"
definition routeAddTemporaryWalletNonce :: string where "routeAddTemporaryWalletNonce = ''/temporary-wallets/add-nonce''"
definition routeRemoveTemporaryWalletNonce :: string where "routeRemoveTemporaryWalletNonce = ''/temporary-wallets/remove-nonce''"
definition routeGetTokensInfo :: string where "routeGetTokensInfo = ''/get-tokens-info''"

definition routeGetOdosPriceForToken :: "int \<Rightarrow> string \<Rightarrow> string" where
  "routeGetOdosPriceForToken chainID tokenAddress = ''/getOdosPriceForToken/'' @ bigString chainID @ ''/'' @ tokenAddress"

definition routeCheckRisk :: "string \<Rightarrow> string" where
  "routeCheckRisk address = ''/check-risk/'' @ address"

definition routeGetTemporaryWalletNonces :: "string \<Rightarrow> int \<Rightarrow> string" where
  "routeGetTemporaryWalletNonces hashedEthereumAddress chainID =
     ''/temporary-wallets/nonces/'' @ hashedEthereumAddress @ ''/'' @ bigString chainID"

definition routeGetTokenData :: "string \<Rightarrow> string" where
  "routeGetTokenData tokenSymbol = ''/get-token-data/'' @ tokenSymbol"

definition serverRoutes :: "string list" where
  "serverRoutes =
     [routeCallOdosAPI, routeCallOneInchAPI, routeCallLifiAPI, routeCallOkxAPI, routeCallNearIntentsQuote,
      routeCallNearIntentsTokens, routeMonitor, routeMonitorBatch, routeSimulateTransaction, routeSimulateBatchTx,
      routeSimulateVolatileTokenTransfer, routeAddTemporaryWalletNonce, routeRemoveTemporaryWalletNonce, routeGetTokensInfo]"

subsection \<open>routes.go: the snapshot server, the relayer and the enclave\<close>

definition routeGetSnapshots :: "int \<Rightarrow> string" where
  "routeGetSnapshots chainID = ''/snapshots/'' @ bigString chainID"
definition routeMerkleTreeSiblings :: string where "routeMerkleTreeSiblings = ''/merkle-tree-siblings''"
definition routeEvents :: string where "routeEvents = ''/events''"

definition routeGetGasEstimate :: "string \<Rightarrow> string \<Rightarrow> nat \<Rightarrow> int option \<Rightarrow> string" where
  "routeGetGasEstimate tokenAddress externalActionID erc20TokenAddressLength gasAmount =
     ''/gas-estimation/'' @ tokenAddress @ ''/'' @ natText 10 erc20TokenAddressLength @ ''/'' @ externalActionID @ ''/'' @
     (case gasAmount of None \<Rightarrow> ''undefined'' | Some g \<Rightarrow> bigString g)"

definition routeGetTokenPrices :: string where "routeGetTokenPrices = ''/get-token-prices''"
definition routeTransact :: string where "routeTransact = ''/general-transact''"
definition routeTransactBatch :: string where "routeTransactBatch = ''/general-transact-batch''"
definition routeSolanaTransact :: string where "routeSolanaTransact = ''/solana-transact''"
definition routeSolanaTransactBatch :: string where "routeSolanaTransactBatch = ''/solana-transact-batch''"
definition routeGetIdleRelay :: string where "routeGetIdleRelay = ''/get-idle-relay''"
definition routeEmitTxPublicData :: string where "routeEmitTxPublicData = ''/emit-tx-public-data''"
definition routeEmitReferralTx :: string where "routeEmitReferralTx = ''/emit-referral-tx''"
definition routeGetScheduledTransactions :: string where "routeGetScheduledTransactions = ''/scheduled-transactions''"
definition routeGetScheduledTransactionByID :: "string \<Rightarrow> string" where
  "routeGetScheduledTransactionByID scheduleID = ''/scheduled-transactions/'' @ scheduleID"
definition routeGetScheduledTransactionsNullifierIndexes :: string where
  "routeGetScheduledTransactionsNullifierIndexes = ''/scheduled-transactions/nullifier-indexes''"
definition routeUpdateDepositAndWithdrawStatus :: string where
  "routeUpdateDepositAndWithdrawStatus = ''/update-deposit-and-withdraw-status''"
definition routeGetTokenPriceChartData :: string where "routeGetTokenPriceChartData = ''/get-token-price-chart-data''"
definition routeGetTokenPreviousDayPrices :: string where "routeGetTokenPreviousDayPrices = ''/get-token-previous-day-prices''"
definition routeGetPrivateTransactionsRatio :: "string \<Rightarrow> string" where
  "routeGetPrivateTransactionsRatio hashedOwner = ''/get-private-transactions-ratio/'' @ hashedOwner"
definition routeSavePrivacyScoreAndGetPrivacyRank :: string where
  "routeSavePrivacyScoreAndGetPrivacyRank = ''/save-privacy-score-and-get-privacy-rank''"

definition relayerRoutes :: "string list" where
  "relayerRoutes =
     [routeGetTokenPrices, routeTransact, routeTransactBatch, routeSolanaTransact, routeSolanaTransactBatch, routeGetIdleRelay,
      routeEmitTxPublicData, routeEmitReferralTx, routeGetScheduledTransactions, routeGetScheduledTransactionsNullifierIndexes,
      routeUpdateDepositAndWithdrawStatus, routeGetTokenPriceChartData, routeGetTokenPreviousDayPrices,
      routeSavePrivacyScoreAndGetPrivacyRank]"

definition routeHandshake :: string where "routeHandshake = ''/handshake''"
definition routeDecryptUtxos :: string where "routeDecryptUtxos = ''/decrypt-utxos''"
definition routeGenerateProofs :: string where "routeGenerateProofs = ''/generate-proofs''"
definition routeStoreUtxo :: string where "routeStoreUtxo = ''/store-utxo''"
definition routeGetUtxos :: string where "routeGetUtxos = ''/get-utxos''"
definition routeStoreAndGetSignature :: string where "routeStoreAndGetSignature = ''/store-and-get-signature''"
definition routeSignProof :: string where "routeSignProof = ''/sign-proof''"

definition enclaveRoutes :: "string list" where
  "enclaveRoutes =
     [routeHandshake, routeDecryptUtxos, routeGenerateProofs, routeStoreUtxo, routeGetUtxos, routeStoreAndGetSignature, routeSignProof]"

lemmas route_defs =
  routeCallOdosAPI_def routeCallOneInchAPI_def routeCallLifiAPI_def routeCallOkxAPI_def routeCallNearIntentsQuote_def
  routeCallNearIntentsTokens_def routeMonitor_def routeMonitorBatch_def routeSimulateTransaction_def routeSimulateBatchTx_def
  routeSimulateVolatileTokenTransfer_def routeAddTemporaryWalletNonce_def routeRemoveTemporaryWalletNonce_def routeGetTokensInfo_def
  routeGetTokenPrices_def routeTransact_def routeTransactBatch_def routeSolanaTransact_def routeSolanaTransactBatch_def
  routeGetIdleRelay_def routeEmitTxPublicData_def routeEmitReferralTx_def routeGetScheduledTransactions_def
  routeGetScheduledTransactionsNullifierIndexes_def routeUpdateDepositAndWithdrawStatus_def routeGetTokenPriceChartData_def
  routeGetTokenPreviousDayPrices_def routeSavePrivacyScoreAndGetPrivacyRank_def
  routeHandshake_def routeDecryptUtxos_def routeGenerateProofs_def routeStoreUtxo_def routeGetUtxos_def
  routeStoreAndGetSignature_def routeSignProof_def

text \<open>No two calls of one server share a path.\<close>

lemma routes_distinct:
  "distinct serverRoutes" "distinct relayerRoutes" "distinct enclaveRoutes"
  by (simp_all add: serverRoutes_def relayerRoutes_def enclaveRoutes_def route_defs)

subsection \<open>What a call does\<close>

text \<open>A call that succeeds was answered below 400, its body decoded and closed.\<close>

lemma apiDo_ok:
  assumes "apiDo L method url body dest w = (Ok x, w')"
  obtains t resp where "requestText L body = Ok t" and "alSend L method url t w = (Ok resp, w')"
    and "hrStatus resp < 400" and "dest resp = Ok x"
  using assms by (auto simp: apiDo_def bindA_def liftA_def split: res.splits prod.splits if_splits)

lemma apiDo_http_error:
  assumes "requestText L body = Ok t" and "alRequest L method url = Ok ()" and "alSend L method url t w = (Ok resp, w')"
    and "400 \<le> hrStatus resp" and "hrClosed resp = Ok ()"
  shows "apiDo L method url body dest w = (Err (httpError url resp), w')"
  using assms by (simp add: apiDo_def bindA_def liftA_def)

text \<open>A body that can not be marshalled fails before anything is sent.\<close>

lemma apiDo_marshal_error:
  assumes "alText L b = Err e"
  shows "apiDo L method url (Some b) dest w = (Err (ErrWrap ''marshal request body'' e), w)"
  using assms by (simp add: apiDo_def requestText_def bindA_def liftA_def)

lemma errBody_bounded: "length (errBody resp) \<le> 512"
  by (simp add: errBody_def)

end
