(* ===== verification/ApiCalls.thy ===== *)
theory ApiCalls
  imports ApiClient Snapshots Enclave ZkProof
begin

text \<open>
  The calls of \<open>internal/api\<close>, one per endpoint: the URL, the body as it goes over the wire (a struct in the order of its
  fields, a map in the order of its keys) and the decoding of the answer. \<open>m\<close> is the deployment mode that chooses the servers,
  \<open>L\<close> the HTTP client.
\<close>

subsection \<open>token.go, token_price.go, gas_estimates.go\<close>

text \<open>Fields that nothing reads are decoded, which can fail, and dropped.\<close>

definition dropField :: "string \<Rightarrow> (json \<Rightarrow> 'a res) \<Rightarrow> string \<times> ('r \<Rightarrow> json \<Rightarrow> 'r res)" where
  "dropField name dec = (name, \<lambda>r v. andThen (dec v) (\<lambda>_. Ok r))"

definition zeroToken :: erc20Token where
  "zeroToken =
     \<lparr>tkChainID = 0, tkAddress = [], tkWrapped = [], tkName = [], tkSymbol = [], tkDecimals = 0, tkIsVolatile = False,
      tkIsAave = False, tkAllowanceOffset = None, tkBalanceOffset = None, tkIs2022Program = False\<rparr>"

definition erc20TokenFields :: "(string \<times> (erc20Token \<Rightarrow> json \<Rightarrow> erc20Token res)) list" where
  "erc20TokenFields =
     [field ''chainId'' ontoInt tkChainID tkChainID_update,
      field ''erc20TokenAddress'' ontoString tkAddress tkAddress_update,
      field ''wrappedErc20TokenAddress'' ontoString tkWrapped tkWrapped_update,
      dropField ''underlyingErc20TokenAddress'' (ontoString []),
      field ''name'' ontoString tkName tkName_update,
      field ''symbol'' ontoString tkSymbol tkSymbol_update,
      field ''decimals'' ontoInt tkDecimals tkDecimals_update,
      dropField ''nftTokenType'' (ontoString []),
      dropField ''logoURI'' (ontoString []),
      dropField ''logoURIs'' (ontoStrings []),
      dropField ''whitelisted'' (ontoBool False),
      dropField ''isCustom'' (ontoBool False),
      dropField ''tokenIds'' (ontoStrings []),
      dropField ''approvalType'' (ontoRef ontoInt 0 None),
      field ''isVolatile'' ontoBool tkIsVolatile tkIsVolatile_update,
      dropField ''sharedAddress'' (ontoString []),
      dropField ''isPendleToken'' (ontoBool False),
      dropField ''isHToken'' (ontoBool False),
      dropField ''hasHToken'' (ontoBool False),
      field ''aaveToken'' ontoBool tkIsAave tkIsAave_update,
      field ''allowanceStorageOffset'' (ontoRef ontoInt 0) tkAllowanceOffset tkAllowanceOffset_update,
      field ''balanceStorageOffset'' (ontoRef ontoInt 0) tkBalanceOffset tkBalanceOffset_update,
      dropField ''isVyper'' (ontoBool False),
      dropField ''isSpam'' (ontoBool False),
      field ''is2022Program'' ontoBool tkIs2022Program tkIs2022Program_update]"

definition getTokensInfoRequest :: "int \<Rightarrow> string list \<Rightarrow> bool \<Rightarrow> json" where
  "getTokensInfoRequest chainID tokenAddresses waitForOffsetUpdate =
     JObj [(''chainId'', jInt chainID), (''tokenAddresses'', jStrings tokenAddresses),
           (''waitForOffsetUpdate'', JBool waitForOffsetUpdate)]"

definition GetTokensInfo ::
  "('f, 'w) apiLib \<Rightarrow> deploymentMode \<Rightarrow> int \<Rightarrow> string list \<Rightarrow> bool \<Rightarrow> ('w, erc20Token option list) action" where
  "GetTokensInfo L m chainID tokenAddresses waitForOffsetUpdate =
     (if tokenAddresses = [] then liftA (Ok [])
      else apiPost L (GetServerURL m @ routeGetTokensInfo) (getTokensInfoRequest chainID tokenAddresses waitForOffsetUpdate)
             (ontoList (ontoPointer (readFields erc20TokenFields) zeroToken None) []))"

definition ontoFloat :: "('f, 'w) apiLib \<Rightarrow> json \<Rightarrow> 'f option res" where
  "ontoFloat L v =
     (case v of
        JNum t \<Rightarrow> andThen (alFloat L t) (\<lambda>f. Ok (Some f))
      | JNull \<Rightarrow> Ok None
      | _ \<Rightarrow> cannotUnmarshal)"

text \<open>\<open>None\<close> among the prices is a \<open>null\<close>, the number zero.\<close>

definition GetTokenPrices ::
  "('f, 'w) apiLib \<Rightarrow> deploymentMode \<Rightarrow> int \<Rightarrow> string list \<Rightarrow> ('w, 'f option list) action" where
  "GetTokenPrices L m chainID erc20Addresses =
     apiPost L (GetRelayerURL m @ routeGetTokenPrices)
       (JObj [(''chainId'', jInt chainID), (''erc20Addresses'', jStrings erc20Addresses)])
       (ontoRecord [field ''prices'' (ontoList (ontoFloat L)) id id] [])"

definition gasEstimateCallJson :: "gasEstimateCall \<Rightarrow> json" where
  "gasEstimateCallJson c =
     JObj [(''from'', JStr (gcFrom c)), (''to'', JStr (gcTo c)), (''calldata'', JStr (gcCalldata c)), (''value'', JStr (gcValue c))]"

definition gasEstimatesFields :: "('f, 'w) apiLib \<Rightarrow> (string \<times> ('f gasEstimates \<Rightarrow> json \<Rightarrow> 'f gasEstimates res)) list" where
  "gasEstimatesFields L =
     [dropField ''status'' (ontoString []),
      field ''priceOfTransactionInUSD'' (\<lambda>_. ontoFloat L) geInUSD geInUSD_update,
      field ''priceOfTransactionInToken'' (\<lambda>_. ontoFloat L) geInToken geInToken_update]"

definition GetGasEstimates ::
  "('f, 'w) apiLib \<Rightarrow> deploymentMode \<Rightarrow> int \<Rightarrow> string \<Rightarrow> string \<Rightarrow> nat \<Rightarrow> gasEstimateCall list \<Rightarrow> int option \<Rightarrow> json \<Rightarrow>
   ('w, 'f gasEstimates) action" where
  "GetGasEstimates L m chainID tokenAddress externalActionID erc20TokenAddressLength calls gasAmount solanaTransactionParams =
     apiPost L (GetRelayerURL m @ routeGetGasEstimate tokenAddress externalActionID erc20TokenAddressLength gasAmount)
       (JObj [(''calls'', JArr (map gasEstimateCallJson calls)), (''chainId'', jInt chainID),
              (''solanaTransactionParams'', solanaTransactionParams)])
       (ontoRecord (gasEstimatesFields L) \<lparr>geInUSD = None, geInToken = None\<rparr>)"

subsection \<open>monitor.go, relay.go, temporary_wallet.go\<close>

definition Monitor :: "('f, 'w) apiLib \<Rightarrow> deploymentMode \<Rightarrow> string \<Rightarrow> ('w, unit) action" where
  "Monitor L m address =
     apiDo L ''POST'' (GetServerURL m @ routeMonitor) (Some (JObj [(''address'', JStr address)])) noDest"

record riskyAddress =
  raAddress :: string
  raBlockedReason :: string

definition riskyAddressFields :: "(string \<times> (riskyAddress \<Rightarrow> json \<Rightarrow> riskyAddress res)) list" where
  "riskyAddressFields =
     [field ''address'' ontoString raAddress raAddress_update,
      field ''blockedReason'' ontoString raBlockedReason raBlockedReason_update]"

definition MonitorBatch :: "('f, 'w) apiLib \<Rightarrow> deploymentMode \<Rightarrow> string list \<Rightarrow> ('w, riskyAddress list) action" where
  "MonitorBatch L m addresses =
     apiPost L (GetServerURL m @ routeMonitorBatch) (JObj [(''addresses'', jStrings addresses)])
       (ontoRecord [field ''riskyAddresses'' (ontoRecords riskyAddressFields \<lparr>raAddress = [], raBlockedReason = []\<rparr>) id id] [])"

definition boolText :: "bool \<Rightarrow> string" where
  "boolText b = (if b then ''true'' else ''false'')"

definition GetIdleRelay :: "('f, 'w) apiLib \<Rightarrow> deploymentMode \<Rightarrow> int \<Rightarrow> bool \<Rightarrow> ('w, string) action" where
  "GetIdleRelay L m chainID markAsPending =
     apiGet L (GetRelayerURL m @ routeGetIdleRelay @ ''?markAsPending='' @ boolText markAsPending @ ''&chainId='' @ bigString chainID)
       (ontoRecord [field ''relay'' ontoString id id] [])"

definition GetTemporaryWalletNonces :: "('f, 'w) apiLib \<Rightarrow> deploymentMode \<Rightarrow> int \<Rightarrow> string \<Rightarrow> ('w, int list) action" where
  "GetTemporaryWalletNonces L m chainID hashedEthereumAddress =
     apiGet L (GetServerURL m @ routeGetTemporaryWalletNonces hashedEthereumAddress chainID)
       (ontoRecord [field ''nonces'' (ontoList (ontoInt 0)) id id] [])"

definition addTemporaryWalletNonceRequest :: "string \<Rightarrow> int \<Rightarrow> int \<Rightarrow> json" where
  "addTemporaryWalletNonceRequest hashedEthereumAddress chainID nonce =
     JObj [(''hashedEthereumAddress'', JStr hashedEthereumAddress), (''chainId'', jInt chainID), (''nonce'', jInt nonce)]"

definition AddTemporaryWalletNonce :: "('f, 'w) apiLib \<Rightarrow> deploymentMode \<Rightarrow> int \<Rightarrow> string \<Rightarrow> int \<Rightarrow> ('w, bool) action" where
  "AddTemporaryWalletNonce L m chainID hashedEthereumAddress nonce =
     apiPost L (GetServerURL m @ routeAddTemporaryWalletNonce) (addTemporaryWalletNonceRequest hashedEthereumAddress chainID nonce)
       (ontoRecord [field ''success'' ontoBool id id] False)"

subsection \<open>scheduled_transactions.go\<close>

definition DepositAndWithdrawPhases :: "string list" where
  "DepositAndWithdrawPhases = [''before_deposit'', ''after_deposit'', ''before_schedule_withdraw'', ''after_schedule_withdraw'']"

definition ScheduledTransactionStatuses :: "string list" where
  "ScheduledTransactionStatuses =
     [''pending'', ''processing'', ''waiting_for_relayer'', ''sent_on_chain'', ''completed'', ''failed'']"

record scheduledItem =
  siStatus :: string
  siScheduledTime :: string
  siTxHash :: "string option"

record scheduledTransaction =
  stScheduleID :: string
  stChainID :: int
  stTransactions :: "scheduledItem list"

definition scheduledItemFields :: "(string \<times> (scheduledItem \<Rightarrow> json \<Rightarrow> scheduledItem res)) list" where
  "scheduledItemFields =
     [field ''status'' ontoString siStatus siStatus_update,
      field ''scheduledTime'' ontoString siScheduledTime siScheduledTime_update,
      field ''txHash'' (ontoRef ontoString []) siTxHash siTxHash_update]"

definition scheduledTransactionFields :: "(string \<times> (scheduledTransaction \<Rightarrow> json \<Rightarrow> scheduledTransaction res)) list" where
  "scheduledTransactionFields =
     [field ''scheduleId'' ontoString stScheduleID stScheduleID_update,
      field ''chainId'' ontoInt stChainID stChainID_update,
      field ''transactions'' (ontoRecords scheduledItemFields \<lparr>siStatus = [], siScheduledTime = [], siTxHash = None\<rparr>)
        stTransactions stTransactions_update]"

definition GetScheduledTransactionsNullifierIndexes ::
  "('f, 'w) apiLib \<Rightarrow> deploymentMode \<Rightarrow> string \<Rightarrow> string list \<Rightarrow> ('w, int list) action" where
  "GetScheduledTransactionsNullifierIndexes L m hashedEthereumAddress nullifiers =
     apiPost L (GetRelayerURL m @ routeGetScheduledTransactionsNullifierIndexes)
       (JObj [(''hashedEthereumAddress'', JStr hashedEthereumAddress), (''nullifiers'', jStrings nullifiers)])
       (ontoRecord [field ''indexes'' (ontoList (ontoInt 0)) id id] [])"

definition GetScheduledTransactionByID ::
  "('f, 'w) apiLib \<Rightarrow> deploymentMode \<Rightarrow> string \<Rightarrow> ('w, scheduledTransaction) action" where
  "GetScheduledTransactionByID L m scheduleID =
     apiGet L (GetRelayerURL m @ routeGetScheduledTransactionByID scheduleID)
       (ontoRecord scheduledTransactionFields \<lparr>stScheduleID = [], stChainID = 0, stTransactions = []\<rparr>)"

subsection \<open>snapshots.go\<close>

record snapshotEvents =
  seEvents :: "string list"
  seLatestBlock :: u64

definition GetSnapshotServerEvents ::
  "('f, 'w) apiLib \<Rightarrow> deploymentMode \<Rightarrow> int \<Rightarrow> string \<Rightarrow> u64 \<Rightarrow> ('w, snapshotEvents) action" where
  "GetSnapshotServerEvents L m chainID eventCategory fromBlockNumber =
     apiGet L (GetSnapshotServerURL m @ routeEvents @ ''?chainId='' @ bigString chainID @ ''&eventCategory='' @ eventCategory @
               ''&fromBlockNumber='' @ natText 10 (unat fromBlockNumber))
       (ontoRecord [field ''events'' ontoStrings seEvents seEvents_update,
                    field ''latestBlockNumber'' ontoUint64 seLatestBlock seLatestBlock_update]
          \<lparr>seEvents = [], seLatestBlock = 0\<rparr>)"

record snapshotURLs =
  suCommitmentsURL :: string
  suHinkalAddress :: string
  suChainID :: int
  suNullifiersURL :: string

text \<open>The two inner structs are fields of the record: a decoder of an inner object works on the whole record.\<close>

definition snapshotURLsFields :: "(string \<times> (snapshotURLs \<Rightarrow> json \<Rightarrow> snapshotURLs res)) list" where
  "snapshotURLsFields =
     [(''commitments'', ontoRecord
         [field ''url'' ontoString suCommitmentsURL suCommitmentsURL_update,
          field ''hinkalAddress'' ontoString suHinkalAddress suHinkalAddress_update,
          field ''chainId'' ontoInt suChainID suChainID_update]),
      (''nullifiers'', ontoRecord [field ''url'' ontoString suNullifiersURL suNullifiersURL_update])]"

definition merkleTreeFields :: "(string \<times> (merkleTreeJSON \<Rightarrow> json \<Rightarrow> merkleTreeJSON res)) list" where
  "merkleTreeFields =
     [field ''tree'' (\<lambda>cur v. andThen (ontoStringMap (Some cur) v) (\<lambda>t. Ok (case t of None \<Rightarrow> [] | Some kvs \<Rightarrow> kvs)))
        jsonTree jsonTree_update,
      field ''reverseTree'' ontoStringMap jsonReverseTree jsonReverseTree_update,
      field ''count'' ontoString jsonCount jsonCount_update,
      field ''index'' ontoString jsonIndex jsonIndex_update]"

definition serializedOutputFields :: "(string \<times> (serializedOutput \<Rightarrow> json \<Rightarrow> serializedOutput res)) list" where
  "serializedOutputFields =
     [field ''value'' ontoString soValue soValue_update,
      field ''isPositive'' ontoString soIsPositive soIsPositive_update,
      field ''isBlocked'' ontoBool soIsBlocked soIsBlocked_update]"

definition byCommitmentFields :: "(string \<times> (string \<times> string \<Rightarrow> json \<Rightarrow> (string \<times> string) res)) list" where
  "byCommitmentFields =
     [field ''Commitment'' ontoString fst apfst, field ''EncryptedOutput'' ontoString snd apsnd]"

definition zeroTreeSnapshot :: commitmentsTreeSnapshot where
  "zeroTreeSnapshot =
     \<lparr>ctMerkleTree = \<lparr>jsonTree = [], jsonReverseTree = None, jsonCount = [], jsonIndex = []\<rparr>, ctLatest = 0, ctOutputs = [],
      ctHinkalAddress = [], ctChainID = 0, ctByCommitment = []\<rparr>"

definition treeSnapshotFields :: "(string \<times> (commitmentsTreeSnapshot \<Rightarrow> json \<Rightarrow> commitmentsTreeSnapshot res)) list" where
  "treeSnapshotFields =
     [field ''merkleTree'' (ontoRecord merkleTreeFields) ctMerkleTree ctMerkleTree_update,
      field ''latestBlockNumber'' ontoUint64 ctLatest ctLatest_update,
      field ''encryptedOutputs'' (ontoRecords serializedOutputFields \<lparr>soValue = [], soIsPositive = [], soIsBlocked = False\<rparr>)
        ctOutputs ctOutputs_update,
      field ''hinkalAddress'' ontoString ctHinkalAddress ctHinkalAddress_update,
      field ''chainId'' ontoInt ctChainID ctChainID_update,
      field ''encryptedOutputsByCommitment'' (ontoRecords byCommitmentFields ([], [])) ctByCommitment ctByCommitment_update]"

text \<open>The list of nullifiers and the latest block.\<close>

definition nullifiersSnapshotFields :: "(string \<times> (string list \<times> u64 \<Rightarrow> json \<Rightarrow> (string list \<times> u64) res)) list" where
  "nullifiersSnapshotFields =
     [field ''nullifiers'' ontoStrings fst apfst, field ''latestBlockNumber'' ontoUint64 snd apsnd]"

text \<open>
  The two downloads run concurrently; \<open>commitmentsFirst\<close> is the order in which they reach the world. Both are finished before the
  errors are looked at, that of the commitments first.
\<close>

definition FetchSnapshots ::
  "('f, 'w) apiLib \<Rightarrow> deploymentMode \<Rightarrow> bool \<Rightarrow> int \<Rightarrow> ('w, snapshotsResponse) action" where
  "FetchSnapshots L m commitmentsFirst chainID =
     bindA (\<lambda>w. case apiGet L (GetSnapshotServerURL m @ routeGetSnapshots chainID)
                       (ontoRecord snapshotURLsFields
                          \<lparr>suCommitmentsURL = [], suHinkalAddress = [], suChainID = 0, suNullifiersURL = []\<rparr>) w of
                  (r, w') \<Rightarrow> (wrapErr ''get snapshot URLs'' r, w')) (\<lambda>urls w.
       let getCommitments = apiGet L (suCommitmentsURL urls) (ontoRecord treeSnapshotFields zeroTreeSnapshot);
           getNullifiers = apiGet L (suNullifiersURL urls) (ontoRecord nullifiersSnapshotFields ([], 0));
           ((commitments, nullifiers), w') =
             (if commitmentsFirst
              then (case getCommitments w of (c, w1) \<Rightarrow> case getNullifiers w1 of (n, w2) \<Rightarrow> ((c, n), w2))
              else (case getNullifiers w of (n, w1) \<Rightarrow> case getCommitments w1 of (c, w2) \<Rightarrow> ((c, n), w2)))
       in (andThen commitments (\<lambda>c. andThen nullifiers (\<lambda>n.
             Ok \<lparr>srCommitments = c\<lparr>ctHinkalAddress := suHinkalAddress urls, ctChainID := suChainID urls\<rparr>,
                 srNullifiers = fst n, srNullifiersLatest = snd n\<rparr>)), w'))"

subsection \<open>enclave.go\<close>

definition zeroWire :: utxoWire where
  "zeroWire =
     \<lparr>wAmount = [], wErc20 = [], wMint = [], wTimeStamp = [], wNullifyingKey = [], wSpendingKey = [], wRandomization = [],
      wH0 = [], wStealth = [], wEncryptionKey = [], wCommitment = [], wNullifier = [], wIsBlocked = False, wIsNewStyle = False\<rparr>"

definition utxoWireFields :: "(string \<times> (utxoWire \<Rightarrow> json \<Rightarrow> utxoWire res)) list" where
  "utxoWireFields =
     [field ''amount'' ontoString wAmount wAmount_update,
      field ''erc20TokenAddress'' ontoString wErc20 wErc20_update,
      field ''mintAddress'' ontoString wMint wMint_update,
      field ''timeStamp'' ontoString wTimeStamp wTimeStamp_update,
      field ''nullifyingKey'' ontoString wNullifyingKey wNullifyingKey_update,
      field ''spendingPublicKey'' ontoStrings wSpendingKey wSpendingKey_update,
      field ''randomization'' ontoString wRandomization wRandomization_update,
      field ''H0'' ontoStrings wH0 wH0_update,
      field ''stealthAddress'' ontoString wStealth wStealth_update,
      field ''encryptionKey'' ontoString wEncryptionKey wEncryptionKey_update,
      field ''commitment'' ontoString wCommitment wCommitment_update,
      field ''nullifier'' ontoString wNullifier wNullifier_update,
      field ''isBlocked'' ontoBool wIsBlocked wIsBlocked_update,
      field ''isNewStyle'' ontoBool wIsNewStyle wIsNewStyle_update]"

definition decodeUtxoParams :: "json \<Rightarrow> utxoParams res" where
  "decodeUtxoParams v = andThen (ontoRecord utxoWireFields zeroWire v) unmarshalUtxoParams"

definition outputWithSignFields :: "(string \<times> (encryptedOutputWithSign \<Rightarrow> json \<Rightarrow> encryptedOutputWithSign res)) list" where
  "outputWithSignFields =
     [field ''Value'' ontoString eoValue eoValue_update,
      field ''IsPositive'' ontoBool eoIsPositive eoIsPositive_update,
      field ''IsBlocked'' ontoBool eoIsBlocked eoIsBlocked_update]"

record decryptUtxoEnclaveResponse =
  deUtxos :: "utxoParams list"
  deEncryptedOutputs :: "encryptedOutputWithSign option list"
  deLastOutput :: string

definition decryptUtxoFields :: "(string \<times> (decryptUtxoEnclaveResponse \<Rightarrow> json \<Rightarrow> decryptUtxoEnclaveResponse res)) list" where
  "decryptUtxoFields =
     [field ''utxos'' (ontoList decodeUtxoParams) deUtxos deUtxos_update,
      field ''encryptedOutputs''
        (ontoList (ontoPointer (readFields outputWithSignFields) \<lparr>eoValue = [], eoIsPositive = False, eoIsBlocked = False\<rparr> None))
        deEncryptedOutputs deEncryptedOutputs_update,
      field ''lastOutput'' ontoString deLastOutput deLastOutput_update]"

definition DecryptUtxoEnclaveCall ::
  "('f, 'w) apiLib \<Rightarrow> deploymentMode \<Rightarrow> int \<Rightarrow> string \<Rightarrow> string \<Rightarrow> ('w, decryptUtxoEnclaveResponse) action" where
  "DecryptUtxoEnclaveCall L m chainID keyCiphertext inputCiphertext =
     apiPost L (GetEnclaveURL m @ routeDecryptUtxos)
       (JObj [(''chainId'', jInt chainID), (''input'', JStr inputCiphertext), (''key'', JStr keyCiphertext)])
       (ontoRecord decryptUtxoFields \<lparr>deUtxos = [], deEncryptedOutputs = [], deLastOutput = []\<rparr>)"

text \<open>The status of the answer.\<close>

definition StoreUtxoEnclaveCall ::
  "('f, 'w) apiLib \<Rightarrow> deploymentMode \<Rightarrow> string \<Rightarrow> string \<Rightarrow> string \<Rightarrow> int \<Rightarrow> ('w, string) action" where
  "StoreUtxoEnclaveCall L m recipientEthAddress encryptedUtxo key chainID =
     apiPost L (GetEnclaveURL m @ routeStoreUtxo)
       (JObj [(''chainId'', jInt chainID), (''encryptedUtxo'', JStr encryptedUtxo), (''key'', JStr key),
              (''recipientEthAddress'', JStr recipientEthAddress)])
       (ontoRecord [field ''status'' ontoString id id] [])"

text \<open>The utxos stay raw.\<close>

definition GetUtxosEnclaveCall ::
  "('f, 'w) apiLib \<Rightarrow> deploymentMode \<Rightarrow> string \<Rightarrow> string \<Rightarrow> string \<Rightarrow> int \<Rightarrow> bool \<Rightarrow> string \<Rightarrow> ('w, json list) action" where
  "GetUtxosEnclaveCall L m ethAddress encryptedSignature key chainID isSolanaLedger txMessageForSolanaLedger =
     apiPost L (GetEnclaveURL m @ routeGetUtxos)
       (JObj ([(''chainId'', jInt chainID), (''encryptedSignature'', JStr encryptedSignature), (''ethAddress'', JStr ethAddress),
               (''isSolanaLedger'', JBool isSolanaLedger), (''key'', JStr key)] @
              unlessEmpty ''txMessageForSolanaLedger'' txMessageForSolanaLedger))
       (ontoRecord [field ''utxos'' (ontoList Ok) id id] [])"

definition StoreAndGetSignatureEnclaveCall ::
  "('f, 'w) apiLib \<Rightarrow> deploymentMode \<Rightarrow> string \<Rightarrow> string \<Rightarrow> string \<Rightarrow> bool \<Rightarrow> string \<Rightarrow> ('w, string) action" where
  "StoreAndGetSignatureEnclaveCall L m ethAddress encryptedSignature key isSolanaLedger txMessageForSolanaLedger =
     apiPost L (GetEnclaveURL m @ routeStoreAndGetSignature)
       (JObj ([(''encryptedSignature'', JStr encryptedSignature), (''ethAddress'', JStr ethAddress),
               (''isSolanaLedger'', JBool isSolanaLedger), (''key'', JStr key)] @
              unlessEmpty ''txMessageForSolanaLedger'' txMessageForSolanaLedger))
       (ontoRecord [field ''signature'' ontoString id id] [])"

record signProofBody =
  sprA :: "string list"
  sprB :: "string list list"
  sprC :: "string list"
  sprInputs :: "string list"
  sprVerifierID :: string

definition signProofJson :: "signProofBody \<Rightarrow> json" where
  "signProofJson r =
     JObj [(''a'', jStrings (sprA r)), (''b'', JArr (map jStrings (sprB r))), (''c'', jStrings (sprC r)),
           (''inputs'', jStrings (sprInputs r)), (''verifier_id'', JStr (sprVerifierID r))]"

definition SignProofEnclaveCall :: "('f, 'w) apiLib \<Rightarrow> deploymentMode \<Rightarrow> signProofBody \<Rightarrow> ('w, string) action" where
  "SignProofEnclaveCall L m req =
     apiPost L (GetEnclaveURL m @ routeSignProof) (signProofJson req) (ontoRecord [field ''signature'' ontoString id id] [])"

text \<open>
  The calldata of a proof travels as the list of its four parts. A missing part is raw text of length zero, which does not parse;
  further ones are dropped.
\<close>

definition zkCallDataJson :: "zkCallData \<Rightarrow> json" where
  "zkCallDataJson d =
     JArr [jStrings [fst (zcA d), snd (zcA d)],
           JArr [jStrings [fst (fst (zcB d)), snd (fst (zcB d))], jStrings [fst (snd (zcB d)), snd (snd (zcB d))]],
           jStrings [fst (zcC d), snd (zcC d)], jStrings (zcPublicSignals d)]"

definition noInput :: "'a res" where
  "noInput = Err (ErrMsg ''unexpected end of JSON input'')"

definition ontoZkCallData :: "zkCallData \<Rightarrow> json \<Rightarrow> zkCallData res" where
  "ontoZkCallData cur v =
     (case v of
        JArr vs \<Rightarrow>
          andThen (if 0 < length vs then ontoTwo ontoString [] (zcA cur) (vs ! 0) else noInput) (\<lambda>a.
          andThen (if 1 < length vs then ontoTwo (ontoTwo ontoString []) ([], []) (zcB cur) (vs ! 1) else noInput) (\<lambda>b.
          andThen (if 2 < length vs then ontoTwo ontoString [] (zcC cur) (vs ! 2) else noInput) (\<lambda>c.
          andThen (if 3 < length vs then ontoStrings (zcPublicSignals cur) (vs ! 3) else noInput) (\<lambda>signals.
            Ok \<lparr>zcA = a, zcB = b, zcC = c, zcPublicSignals = signals\<rparr>))))
      | JNull \<Rightarrow> noInput
      | _ \<Rightarrow> wrapErr ''NewZkCallDataType'' cannotUnmarshal)"

record remoteProof =
  rpPiA :: "string list"
  rpPiB :: "string list list"
  rpPiC :: "string list"
  rpProtocol :: string

definition remoteProofFields :: "(string \<times> (remoteProof \<Rightarrow> json \<Rightarrow> remoteProof res)) list" where
  "remoteProofFields =
     [field ''pi_a'' ontoStrings rpPiA rpPiA_update,
      field ''pi_b'' (ontoList (ontoStrings [])) rpPiB rpPiB_update,
      field ''pi_c'' ontoStrings rpPiC rpPiC_update,
      field ''protocol'' ontoString rpProtocol rpProtocol_update]"

record generateProofResponse =
  gpProof :: remoteProof
  gpPublicSignals :: "string list"
  gpZkCalldata :: zkCallData

definition zeroZkCallData :: zkCallData where
  "zeroZkCallData = \<lparr>zcA = ([], []), zcB = (([], []), ([], [])), zcC = ([], []), zcPublicSignals = []\<rparr>"

definition zeroProofResponse :: generateProofResponse where
  "zeroProofResponse =
     \<lparr>gpProof = \<lparr>rpPiA = [], rpPiB = [], rpPiC = [], rpProtocol = []\<rparr>, gpPublicSignals = [], gpZkCalldata = zeroZkCallData\<rparr>"

definition generateProofFields :: "(string \<times> (generateProofResponse \<Rightarrow> json \<Rightarrow> generateProofResponse res)) list" where
  "generateProofFields =
     [field ''proof'' (ontoRecord remoteProofFields) gpProof gpProof_update,
      field ''public_signals'' ontoStrings gpPublicSignals gpPublicSignals_update,
      field ''zk_calldata'' ontoZkCallData gpZkCalldata gpZkCalldata_update]"

definition GenerateProofsEnclaveCall ::
  "('f, 'w) apiLib \<Rightarrow> deploymentMode \<Rightarrow> string list \<Rightarrow> string list \<Rightarrow> string \<Rightarrow> string \<Rightarrow> ('w, generateProofResponse list) action" where
  "GenerateProofsEnclaveCall L m wasmFilenames zkeyFilenames inputCiphertext keyCiphertext =
     apiPost L (GetEnclaveURL m @ routeGenerateProofs)
       (JObj [(''circuit_wasms'', jStrings wasmFilenames), (''circuit_zkeys'', jStrings zkeyFilenames),
              (''inputs'', JStr inputCiphertext), (''key'', JStr keyCiphertext)])
       (ontoRecords generateProofFields zeroProofResponse [])"

text \<open>The calldata reads back from the form in which it is sent.\<close>

lemma zkCallData_roundtrip: "ontoZkCallData cur (zkCallDataJson d) = Ok d"
proof -
  have strings: "ontoStrings ys (jStrings xs) = Ok xs" for xs ys
  proof -
    have "mapRes (ontoString []) (map JStr xs) = Ok xs"
      by (induction xs) (simp_all add: ontoString_def)
    then show ?thesis by (simp add: ontoStrings_def ontoList_def jStrings_def)
  qed
  have two: "ontoTwo ontoString [] c (jStrings [x, y]) = Ok (x, y)" for c x y
    by (simp add: ontoTwo_def jStrings_def ontoString_def)
  show ?thesis
    by (cases d) (simp add: ontoZkCallData_def zkCallDataJson_def two strings,
        simp add: ontoTwo_def[of "ontoTwo ontoString []"] two)
qed

end
