(* ===== verification/ApiQuotes.thy ===== *)
theory ApiQuotes
  imports ApiCalls SolanaAccounts
begin

text \<open>
  The calls that ask for a price: \<open>internal/api/lifi.go\<close>, \<open>odos.go\<close>, \<open>oneinch.go\<close> and \<open>okx.go\<close>, with the requests as they are
  sent and the answers field by field.
\<close>

subsection \<open>lifi.go\<close>

text \<open>A text or a number, kept as text.\<close>

definition ontoStringOrNumber :: "string \<Rightarrow> json \<Rightarrow> string res" where
  "ontoStringOrNumber cur v =
     (case v of
        JNull \<Rightarrow> Ok []
      | JStr s \<Rightarrow> Ok s
      | JNum t \<Rightarrow> Ok t
      | _ \<Rightarrow> Err (ErrMsg ''api: expected string or number''))"

record 'f lifiRequest =
  lrFromChain :: int
  lrToChain :: int
  lrFromToken :: string
  lrToToken :: string
  lrFromAddress :: string
  lrToAddress :: string
  lrFromAmount :: string
  lrOrder :: string
  lrSlippage :: 'f

definition lifiRequestJson :: "('f, 'w) apiLib \<Rightarrow> 'f lifiRequest \<Rightarrow> json" where
  "lifiRequestJson L r =
     JObj ([(''fromChain'', jInt (lrFromChain r)), (''toChain'', jInt (lrToChain r)), (''fromToken'', JStr (lrFromToken r)),
            (''toToken'', JStr (lrToToken r)), (''fromAddress'', JStr (lrFromAddress r))] @
           unlessEmpty ''toAddress'' (lrToAddress r) @
           [(''fromAmount'', JStr (lrFromAmount r)), (''order'', JStr (lrOrder r)), (''slippage'', JNum (alNumber L (lrSlippage r)))])"

record lifiResponse =
  liTool :: string
  liType :: string
  liData :: string
  liValue :: string
  liToAmount :: string

definition zeroLifiResponse :: lifiResponse where
  "zeroLifiResponse = \<lparr>liTool = [], liType = [], liData = [], liValue = [], liToAmount = []\<rparr>"

text \<open>The inner structs work on the record; fields nothing reads are decoded and dropped.\<close>

definition lifiTransactionFields :: "(string \<times> (lifiResponse \<Rightarrow> json \<Rightarrow> lifiResponse res)) list" where
  "lifiTransactionFields =
     [dropField ''from'' (ontoString []), dropField ''to'' (ontoString []), dropField ''chainId'' (ontoStringOrNumber []),
      field ''value'' ontoStringOrNumber liValue liValue_update, field ''data'' ontoString liData liData_update]"

definition lifiEstimateFields :: "(string \<times> (lifiResponse \<Rightarrow> json \<Rightarrow> lifiResponse res)) list" where
  "lifiEstimateFields =
     [dropField ''tool'' (ontoString []), dropField ''fromAmount'' (ontoStringOrNumber []),
      field ''toAmount'' ontoStringOrNumber liToAmount liToAmount_update, dropField ''toAmountMin'' (ontoStringOrNumber [])]"

definition lifiBridgeFields :: "(string \<times> (lifiResponse \<Rightarrow> json \<Rightarrow> lifiResponse res)) list" where
  "lifiBridgeFields =
     [dropField ''id'' (ontoString []), field ''type'' ontoString liType liType_update, field ''tool'' ontoString liTool liTool_update,
      (''transactionRequest'', ontoRecord lifiTransactionFields), (''estimate'', ontoRecord lifiEstimateFields)]"

text \<open>The quote and its status.\<close>

definition CallLifiAPI :: "('f, 'w) apiLib \<Rightarrow> deploymentMode \<Rightarrow> 'f lifiRequest \<Rightarrow> ('w, lifiResponse \<times> string) action" where
  "CallLifiAPI L m request =
     apiPost L (GetServerURL m @ routeCallLifiAPI) (lifiRequestJson L request)
       (ontoRecord [field ''status'' ontoString snd apsnd, field ''lifiResponse'' (ontoRecord lifiBridgeFields) fst apfst]
          (zeroLifiResponse, []))"

subsection \<open>odos.go\<close>

text \<open>\<open>json.Number\<close>: a number, or a text that is one.\<close>

definition digitsOf :: "string \<Rightarrow> string \<times> string" where
  "digitsOf s = (let digit = (\<lambda>c. c \<in> set ''0123456789'') in (takeWhile digit s, dropWhile digit s))"

definition afterExponent :: "string \<Rightarrow> bool" where
  "afterExponent s =
     (case s of
        [] \<Rightarrow> True
      | c # rest \<Rightarrow>
          (c = CHR ''e'' \<or> c = CHR ''E'') \<and>
          (let (ds, tl) = digitsOf (case rest of d # ds \<Rightarrow> if d = CHR ''+'' \<or> d = CHR ''-'' then ds else rest | [] \<Rightarrow> [])
           in ds \<noteq> [] \<and> tl = []))"

definition afterInteger :: "string \<Rightarrow> bool" where
  "afterInteger s =
     (case s of
        c # rest \<Rightarrow>
          if c = CHR ''.'' then (let (ds, tl) = digitsOf rest in ds \<noteq> [] \<and> afterExponent tl) else afterExponent s
      | [] \<Rightarrow> True)"

definition isValidNumber :: "string \<Rightarrow> bool" where
  "isValidNumber s =
     (case (case s of c # rest \<Rightarrow> if c = CHR ''-'' then rest else s | [] \<Rightarrow> []) of
        [] \<Rightarrow> False
      | c # rest \<Rightarrow>
          if c = CHR ''0'' then afterInteger rest
          else (let (ds, tl) = digitsOf (c # rest) in ds \<noteq> [] \<and> afterInteger tl))"

definition ontoNumber :: "string \<Rightarrow> json \<Rightarrow> string res" where
  "ontoNumber cur v =
     (case v of
        JNum t \<Rightarrow> Ok t
      | JStr s \<Rightarrow> if isValidNumber s then Ok s else Err (ErrMsg ''json: invalid number literal, trying to unmarshal into Number'')
      | JNull \<Rightarrow> Ok cur
      | _ \<Rightarrow> cannotUnmarshal)"

record 'f odosRequest =
  odChainID :: int
  odInputTokens :: "(string \<times> string) list"
  odOutputTokens :: "(string \<times> int) list"
  odUserAddr :: string
  odSlippage :: 'f
  odDisableRFQs :: bool
  odReferralCode :: string

definition odosRequestJson :: "('f, 'w) apiLib \<Rightarrow> 'f odosRequest \<Rightarrow> json" where
  "odosRequestJson L r =
     JObj ([(''chainId'', jInt (odChainID r)),
            (''inputTokens'', JArr (map (\<lambda>(t, a). JObj [(''tokenAddress'', JStr t), (''amount'', JStr a)]) (odInputTokens r))),
            (''outputTokens'', JArr (map (\<lambda>(t, p). JObj [(''tokenAddress'', JStr t), (''proportion'', jInt p)]) (odOutputTokens r))),
            (''userAddr'', JStr (odUserAddr r))] @
           (if alIsZero L (odSlippage r) then [] else [(''slippageLimitPercent'', JNum (alNumber L (odSlippage r)))]) @
           (if odDisableRFQs r then [(''disableRFQs'', JBool True)] else []) @
           unlessEmpty ''referralCode'' (odReferralCode r))"

record odosResponse =
  osOutputTokens :: "(string \<times> string) list"
  osData :: string

definition odosOutputFields :: "(string \<times> (string \<times> string \<Rightarrow> json \<Rightarrow> (string \<times> string) res)) list" where
  "odosOutputFields = [field ''tokenAddress'' ontoString fst apfst, field ''amount'' ontoNumber snd apsnd]"

definition odosResponseFields :: "(string \<times> (odosResponse \<Rightarrow> json \<Rightarrow> odosResponse res)) list" where
  "odosResponseFields =
     [field ''outputTokens'' (ontoRecords odosOutputFields ([], [])) osOutputTokens osOutputTokens_update,
      (''transaction'', ontoRecord [field ''data'' ontoString osData osData_update])]"

definition callOdosFields :: "(string \<times> (odosResponse \<times> string \<Rightarrow> json \<Rightarrow> (odosResponse \<times> string) res)) list" where
  "callOdosFields =
     [field ''odosResponse'' (ontoRecord odosResponseFields) fst apfst, field ''status'' ontoString snd apsnd,
      dropField ''message'' (ontoString [])]"

text \<open>The quote and its status. The referral code is left out on Base and on a local chain.\<close>

definition CallOdosAPI ::
  "('f, 'w) apiLib \<Rightarrow> deploymentMode \<Rightarrow> int \<Rightarrow> 'f odosRequest \<Rightarrow> ('w, odosResponse \<times> string) action" where
  "CallOdosAPI L m chainID request =
     apiPost L (GetServerURL m @ routeCallOdosAPI)
       (odosRequestJson L (if chainID \<noteq> idBase \<and> chainID \<noteq> idLocalhost then request\<lparr>odReferralCode := ''702077826''\<rparr> else request))
       (ontoRecord callOdosFields (\<lparr>osOutputTokens = [], osData = []\<rparr>, []))"

subsection \<open>oneinch.go\<close>

record 'f oneInchRequest =
  oiFromToken :: string
  oiToToken :: string
  oiAmount :: int
  oiFromAddress :: string
  oiSlippage :: 'f
  oiDestReceiver :: string
  oiDisableEstimate :: bool
  oiAllowPartialFill :: bool

text \<open>\<open>url.Values.Encode\<close>: the parameters in the order of their names, values escaped.\<close>

definition oneInchParams :: "('f, 'w) apiLib \<Rightarrow> 'f oneInchRequest \<Rightarrow> (string \<times> string) list" where
  "oneInchParams L r =
     (if oiAllowPartialFill r then [(''allowPartialFill'', ''true'')] else []) @
     [(''amount'', bigString (oiAmount r))] @
     (if oiDestReceiver r \<noteq> [] then [(''destReceiver'', oiDestReceiver r)] else []) @
     (if oiDisableEstimate r then [(''disableEstimate'', ''true'')] else []) @
     [(''fromAddress'', oiFromAddress r), (''fromTokenAddress'', oiFromToken r), (''slippage'', alShow L (oiSlippage r)),
      (''toTokenAddress'', oiToToken r)]"

definition encodeParams :: "('f, 'w) apiLib \<Rightarrow> (string \<times> string) list \<Rightarrow> string" where
  "encodeParams L ps = joinStr (map (\<lambda>(k, v). k @ ''='' @ alEscape L v) ps) ''&''"

record oneInchResponse =
  onData :: string
  onToAmount :: string

definition oneInchFields :: "(string \<times> (oneInchResponse \<Rightarrow> json \<Rightarrow> oneInchResponse res)) list" where
  "oneInchFields =
     [(''tx'', ontoRecord [field ''data'' ontoString onData onData_update]), field ''toAmount'' ontoString onToAmount onToAmount_update]"

definition CallOneInchAPI ::
  "('f, 'w) apiLib \<Rightarrow> deploymentMode \<Rightarrow> int \<Rightarrow> 'f oneInchRequest \<Rightarrow> ('w, oneInchResponse) action" where
  "CallOneInchAPI L m chainID request =
     apiPost L (GetServerURL m @ routeCallOneInchAPI)
       (JObj [(''url'', JStr (''https://api.1inch.dev/swap/v5.2/'' @ bigString chainID @ ''/swap?'' @
                 encodeParams L (oneInchParams L request)))])
       (ontoRecord [field ''oneInchResponse'' (ontoRecord oneInchFields) id id] \<lparr>onData = [], onToAmount = []\<rparr>)"

subsection \<open>okx.go\<close>

record okxSwapAccount =
  osaIsSigner :: bool
  osaIsWritable :: bool
  osaPubkey :: string

record okxSwapInstruction =
  osiData :: string
  osiAccounts :: "okxSwapAccount list"
  osiProgramID :: string

record okxSwapResponse =
  oxCode :: string
  oxLookupTables :: "string list"
  oxInstructions :: "okxSwapInstruction list"
  oxFromTokenAmount :: string
  oxToTokenAmount :: string
  oxMsg :: string

definition okxQuoteJson :: "okxQuote \<Rightarrow> json" where
  "okxQuoteJson q =
     JObj [(''amount'', JStr (oqAmount q)), (''chainIndex'', JStr (oqChainIndex q)), (''fromTokenAddress'', JStr (oqFrom q)),
           (''toTokenAddress'', JStr (oqTo q)), (''userWalletAddress'', JStr (oqUser q)), (''slippagePercent'', JStr (oqSlippage q)),
           (''directRoute'', JBool (oqDirectRoute q))]"

definition okxAccountFields :: "(string \<times> (okxSwapAccount \<Rightarrow> json \<Rightarrow> okxSwapAccount res)) list" where
  "okxAccountFields =
     [field ''isSigner'' ontoBool osaIsSigner osaIsSigner_update, field ''isWritable'' ontoBool osaIsWritable osaIsWritable_update,
      field ''pubkey'' ontoString osaPubkey osaPubkey_update]"

definition okxInstructionFields :: "(string \<times> (okxSwapInstruction \<Rightarrow> json \<Rightarrow> okxSwapInstruction res)) list" where
  "okxInstructionFields =
     [field ''data'' ontoString osiData osiData_update,
      field ''accounts'' (ontoRecords okxAccountFields \<lparr>osaIsSigner = False, osaIsWritable = False, osaPubkey = []\<rparr>)
        osiAccounts osiAccounts_update,
      field ''programId'' ontoString osiProgramID osiProgramID_update]"

definition okxDataFields :: "(string \<times> (okxSwapResponse \<Rightarrow> json \<Rightarrow> okxSwapResponse res)) list" where
  "okxDataFields =
     [field ''addressLookupTableAccount'' ontoStrings oxLookupTables oxLookupTables_update,
      field ''instructionLists'' (ontoRecords okxInstructionFields \<lparr>osiData = [], osiAccounts = [], osiProgramID = []\<rparr>)
        oxInstructions oxInstructions_update,
      (''routerResult'', ontoRecord
         [field ''fromTokenAmount'' ontoString oxFromTokenAmount oxFromTokenAmount_update,
          field ''toTokenAmount'' ontoString oxToTokenAmount oxToTokenAmount_update])]"

definition okxResponseFields :: "(string \<times> (okxSwapResponse \<Rightarrow> json \<Rightarrow> okxSwapResponse res)) list" where
  "okxResponseFields =
     [field ''code'' ontoString oxCode oxCode_update, (''data'', ontoRecord okxDataFields), field ''msg'' ontoString oxMsg oxMsg_update]"

definition zeroOkxResponse :: okxSwapResponse where
  "zeroOkxResponse =
     \<lparr>oxCode = [], oxLookupTables = [], oxInstructions = [], oxFromTokenAmount = [], oxToTokenAmount = [], oxMsg = []\<rparr>"

text \<open>The answer of OKX and the status of the server.\<close>

definition CallOkxAPI :: "('f, 'w) apiLib \<Rightarrow> deploymentMode \<Rightarrow> okxQuote \<Rightarrow> ('w, okxSwapResponse \<times> string) action" where
  "CallOkxAPI L m quote =
     apiPost L (GetServerURL m @ routeCallOkxAPI) (JObj [(''quote'', okxQuoteJson quote)])
       (ontoRecord [field ''okxResponse'' (ontoRecord okxResponseFields) fst apfst, field ''status'' ontoString snd apsnd,
                    dropField ''message'' (ontoString [])] (zeroOkxResponse, []))"

text \<open>The part of the answer that the quote reads.\<close>

definition okxResponseOf :: "okxSwapResponse \<Rightarrow> okxResponse" where
  "okxResponseOf r =
     \<lparr>orCode = oxCode r, orMsg = oxMsg r, orToTokenAmount = oxToTokenAmount r,
      orInstructions =
        map (\<lambda>i. \<lparr>oiData = osiData i,
               oiAccounts = map (\<lambda>a. \<lparr>oaPubkey = osaPubkey a, oaIsWritable = osaIsWritable a\<rparr>) (osiAccounts i),
               oiProgramID = osiProgramID i\<rparr>) (oxInstructions r)\<rparr>"

end
