(* ===== verification/Quotes.thy ===== *)
theory Quotes
  imports ApiQuotes EvmSend Emporium HinkalState
begin

text \<open>
  Prices of swaps and bridges: \<open>internal/functions/web3/uniswap_quote.go\<close>, \<open>lifi_quote.go\<close>, \<open>odos_quote.go\<close>,
  \<open>oneinch_quote.go\<close> and \<open>internal/functions/integrations/swap_api.go\<close>. The Uniswap contracts are called at a node through the
  world \<open>'w\<close>, the others are calls of \<open>ApiQuotes\<close>; the deployment files are read behind their cache.
\<close>

subsection \<open>uniswap_quote.go\<close>

record quoteParams =
  qpTokenIn :: string
  qpTokenOut :: string
  qpAmountIn :: int
  qpFee :: int
  qpSqrtPriceLimit :: int

text \<open>The values that go in and out of the three methods; \<open>UvOther\<close> is any other Go type.\<close>

datatype uniswapValue = UvAddress string | UvBig int | UvParams quoteParams | UvOther

record 'w uniswapEnv =
  uqChains :: chainEnv
  uqCrypto :: cryptoLib
  uqDial :: "string \<Rightarrow> unit res"
  uqClose :: "'w \<Rightarrow> 'w"
  uqCall :: "string \<Rightarrow> string \<Rightarrow> bytes \<Rightarrow> ('w, bytes) action"         \<comment> \<open>CallContract at a node, of a contract\<close>
  uqPack :: "string \<Rightarrow> uniswapValue list \<Rightarrow> bytes res"
  uqUnpack :: "string \<Rightarrow> bytes \<Rightarrow> uniswapValue list res"
  uqPackUint24 :: "int \<Rightarrow> bytes res"

definition errUniswapNoLiquidity :: go_error where
  "errUniswapNoLiquidity = ErrMsg ''web3: not enough Uniswap liquidity for token pair''"

definition errNoUniswapPrice :: go_error where
  "errNoUniswapPrice = ErrMsg ''web3: failed to fetch Uniswap price''"

definition uniswapPoolFees :: "int list" where
  "uniswapPoolFees = [100, 500, 3000, 10000]"

definition ethCallUnpack ::
  "'w uniswapEnv \<Rightarrow> string \<Rightarrow> string \<Rightarrow> string \<Rightarrow> uniswapValue list \<Rightarrow> ('w, uniswapValue list) action" where
  "ethCallUnpack U client contract method args =
     bindA (liftA (uqPack U method args)) (\<lambda>data.
     bindA (uqCall U client contract data) (\<lambda>out.
       liftA (uqUnpack U method out)))"

text \<open>The best fee so far and the balance of its pool; at equal balances the later fee wins.\<close>

fun poolLoop ::
  "'w uniswapEnv \<Rightarrow> string \<Rightarrow> string \<Rightarrow> string \<Rightarrow> string \<Rightarrow> int list \<Rightarrow> int \<Rightarrow> int \<Rightarrow> ('w, int \<times> int) action" where
  "poolLoop U client factory token0 token1 [] bestFee maxBalance = liftA (Ok (bestFee, maxBalance))"
| "poolLoop U client factory token0 token1 (fee # fees) bestFee maxBalance =
     bindA (ethCallUnpack U client factory ''getPool'' [UvAddress token0, UvAddress token1, UvBig fee]) (\<lambda>poolValues.
       case poolValues of
         [] \<Rightarrow> liftA (Panic ''index out of range'')
       | UvAddress pool # _ \<Rightarrow>
           if pool = ZeroAddress then poolLoop U client factory token0 token1 fees bestFee maxBalance
           else
             bindA (ethCallUnpack U client token1 ''balanceOf'' [UvAddress pool]) (\<lambda>balanceValues.
               case balanceValues of
                 [] \<Rightarrow> liftA (Panic ''index out of range'')
               | UvBig balance # _ \<Rightarrow>
                   if maxBalance \<le> balance then poolLoop U client factory token0 token1 fees fee balance
                   else poolLoop U client factory token0 token1 fees bestFee maxBalance
               | _ \<Rightarrow> poolLoop U client factory token0 token1 fees bestFee maxBalance)
       | _ \<Rightarrow> poolLoop U client factory token0 token1 fees bestFee maxBalance)"

definition searchPoolAndFee :: "'w uniswapEnv \<Rightarrow> string \<Rightarrow> string \<Rightarrow> string \<Rightarrow> string \<Rightarrow> ('w, int) action" where
  "searchPoolAndFee U client factory token0 token1 =
     bindA (poolLoop U client factory token0 token1 uniswapPoolFees 0 0) (\<lambda>(bestFee, maxBalance).
       liftA (if maxBalance = 0 then Err errUniswapNoLiquidity else Ok bestFee))"

definition getUniswapPriceHelper ::
  "'w uniswapEnv \<Rightarrow> string \<Rightarrow> string \<Rightarrow> string \<Rightarrow> string \<Rightarrow> int \<Rightarrow> int \<Rightarrow> ('w, int) action" where
  "getUniswapPriceHelper U client quoter tokenIn tokenOut fee amountIn =
     bindA (ethCallUnpack U client quoter ''quoteExactInputSingle''
              [UvParams \<lparr>qpTokenIn = tokenIn, qpTokenOut = tokenOut, qpAmountIn = amountIn, qpFee = fee, qpSqrtPriceLimit = 0\<rparr>])
       (\<lambda>values. liftA (case values of
          [] \<Rightarrow> Panic ''index out of range''
        | UvBig amountOut # _ \<Rightarrow> Ok amountOut
        | _ \<Rightarrow> Err errNoUniswapPrice))"

record uniswapPrice =
  upTokenPrice :: int
  upPoolFee :: bytes

text \<open>The client is closed on every path after it is dialled.\<close>

definition GetUniswapPrice ::
  "'w uniswapEnv \<Rightarrow> int \<Rightarrow> string \<Rightarrow> erc20Token \<Rightarrow> erc20Token \<Rightarrow> ('w, uniswapPrice) action" where
  "GetUniswapPrice U chainID inSwapAmount inSwapToken outSwapToken =
     bindA (liftA (GetUniswapV3Addresses chainID)) (\<lambda>addresses.
     bindA (liftA (FetchRPCURL (uqChains U) chainID)) (\<lambda>rpcURL.
     bindA (liftA (uqDial U rpcURL)) (\<lambda>_ w.
       let address = hexToAddress (uqCrypto U);
           tokenIn = address (tkAddress inSwapToken);
           tokenOut = address (tkAddress outSwapToken);
           (r, w') =
             bindA (searchPoolAndFee U rpcURL (address (uniswapV3FactoryAddress addresses)) tokenIn tokenOut) (\<lambda>fee.
             bindA (liftA (uqPackUint24 U fee)) (\<lambda>poolFee.
             bindA (liftA (GetAmountInWei (tkDecimals inSwapToken) inSwapAmount)) (\<lambda>inSwapAmountWei.
             bindA (getUniswapPriceHelper U rpcURL (address (quoterV2Address addresses)) tokenIn tokenOut fee inSwapAmountWei)
               (\<lambda>tokenPrice. liftA (Ok \<lparr>upTokenPrice = tokenPrice, upPoolFee = poolFee\<rparr>))))) w
       in (r, uqClose U w'))))"

subsection \<open>lifi_quote.go\<close>

text \<open>\<open>%q\<close>, without the escapes of special characters.\<close>

definition quoted :: "string \<Rightarrow> string" where
  "quoted s = CHR 0x22 # s @ [CHR 0x22]"

definition invalidLifi :: "string \<Rightarrow> string \<Rightarrow> go_error" where
  "invalidLifi name raw = ErrMsg (''web3: invalid Lifi quote '' @ name @ '' '' @ quoted raw)"

definition parseRequiredLifiBigInt :: "string \<Rightarrow> string \<Rightarrow> int res" where
  "parseRequiredLifiBigInt name text =
     (let raw = trimSpace text in
      if raw = [] then Err (ErrMsg (''web3: Lifi quote missing '' @ name))
      else (case ParseBigInt raw of Err e \<Rightarrow> Err (invalidLifi name raw) | r \<Rightarrow> r))"

definition parseOptionalLifiBigInt :: "string \<Rightarrow> string \<Rightarrow> int res" where
  "parseOptionalLifiBigInt name text =
     (let raw = trimSpace text in
      if raw = [] then Ok 0
      else (case ParseBigInt raw of Err e \<Rightarrow> Err (invalidLifi name raw) | r \<Rightarrow> r))"

record lifiQuote = bridgeQuote +
  bqExpectedAmount :: int

text \<open>Addresses on Tron are sent in base 58; an address that is not given stays so.\<close>

definition lifiAddresses :: "cryptoLib \<Rightarrow> erc20Token \<Rightarrow> string \<Rightarrow> (string \<times> string) res" where
  "lifiAddresses C outSwapToken toAddress =
     (if IsTronLike (tkChainID outSwapToken) then
        andThen (ToTronBase58IfHex (sha256sum C) (b58Encode C) (tkAddress outSwapToken)) (\<lambda>toToken.
          if toAddress = [] then Ok (toToken, toAddress)
          else andThen (ToTronBase58IfHex (sha256sum C) (b58Encode C) toAddress) (\<lambda>to. Ok (toToken, to)))
      else Ok (tkAddress outSwapToken, toAddress))"

text \<open>The fee in the native coin: what the call sends besides a native amount to swap.\<close>

definition lifiNativeFee :: "erc20Token \<Rightarrow> int \<Rightarrow> int \<Rightarrow> int" where
  "lifiNativeFee inSwapToken nativeValue inSwapAmountWei =
     (if IsSolanaLike (tkChainID inSwapToken) then 0
      else if equalFold (tkAddress inSwapToken) ZeroAddress then nativeValue - inSwapAmountWei
      else nativeValue)"

definition lifiQuoteOf :: "erc20Token \<Rightarrow> int \<Rightarrow> lifiResponse \<Rightarrow> string \<Rightarrow> lifiQuote res" where
  "lifiQuoteOf inSwapToken inSwapAmountWei resp status =
     (if liData resp = [] then
        Err (ErrMsg (''web3: Lifi quote missing transactionRequest.data (status='' @ quoted status @ '', tool='' @ quoted (liTool resp) @
               '', type='' @ quoted (liType resp) @ '')''))
      else
        andThen (parseRequiredLifiBigInt ''estimate.toAmount'' (liToAmount resp)) (\<lambda>expectedAmount.
        andThen (parseOptionalLifiBigInt ''transactionRequest.value'' (liValue resp)) (\<lambda>nativeValue.
          Ok \<lparr>bqCalldata = liData resp, bqNativeFee = Some (lifiNativeFee inSwapToken nativeValue inSwapAmountWei),
              bqExpectedAmount = expectedAmount\<rparr>)))"

definition GetLifiPrice ::
  "('f, 'w) apiLib \<Rightarrow> deploymentMode \<Rightarrow> cryptoLib \<Rightarrow> erc20Token \<Rightarrow> erc20Token \<Rightarrow> string \<Rightarrow> 'f \<Rightarrow> string \<Rightarrow> string \<Rightarrow>
   ('w, lifiQuote) action" where
  "GetLifiPrice L m C inSwapToken outSwapToken inSwapAmount bridgingSlippage fromAddress toAddress =
     bindA (liftA (GetAmountInWei (tkDecimals inSwapToken) inSwapAmount)) (\<lambda>inSwapAmountWei.
     bindA (liftA (lifiAddresses C outSwapToken toAddress)) (\<lambda>(toTokenAddress, requestToAddress).
     bindA (CallLifiAPI L m \<lparr>lrFromChain = GetLifiChainID (tkChainID inSwapToken), lrToChain = GetLifiChainID (tkChainID outSwapToken),
              lrFromToken = tkAddress inSwapToken, lrToToken = toTokenAddress, lrFromAddress = fromAddress,
              lrToAddress = requestToAddress, lrFromAmount = bigString inSwapAmountWei, lrOrder = ''FASTEST'',
              lrSlippage = bridgingSlippage\<rparr>) (\<lambda>(resp, status).
       liftA (lifiQuoteOf inSwapToken inSwapAmountWei resp status))))"

subsection \<open>odos_quote.go\<close>

definition viaWorld :: "('w, 'a) action \<Rightarrow> ('c \<times> 'w, 'a) action" where
  "viaWorld f st = (case f (snd st) of (r, w) \<Rightarrow> (r, fst st, w))"

definition errNoOdosPrice :: go_error where
  "errNoOdosPrice = ErrMsg ''web3: failed to fetch Odos price''"

definition odosTokenAddress :: "erc20Token \<Rightarrow> string" where
  "odosTokenAddress token = (if tkWrapped token \<noteq> [] then tkWrapped token else tkAddress token)"

text \<open>The contract that swaps through Odos, the zero address when it is not known.\<close>

definition odosUserAddr :: "deployFiles \<Rightarrow> int \<Rightarrow> (deployCache \<times> 'w, string) action" where
  "odosUserAddr fs chainID st =
     (case onDeployFiles (GetContractData fs chainID) st of
        (Ok d, st') \<Rightarrow>
          (Ok (if ddOdosExternalActionInstanceAddress d \<noteq> [] then ddOdosExternalActionInstanceAddress d else ZeroAddress), st')
      | (Err e, st') \<Rightarrow> (Ok ZeroAddress, st')
      | (Panic p, st') \<Rightarrow> (Panic p, st'))"

record odosPrice =
  dpOutSwapAmount :: int
  dpOdosData :: string

definition odosPriceOf :: "odosResponse \<Rightarrow> string \<Rightarrow> odosPrice res" where
  "odosPriceOf resp status =
     (case osOutputTokens resp of
        [] \<Rightarrow> Err errNoOdosPrice
      | (_, amount) # _ \<Rightarrow>
          if status \<noteq> ''success'' then Err errNoOdosPrice
          else (case setString 10 amount of
                  None \<Rightarrow> Err errNoOdosPrice
                | Some out \<Rightarrow> Ok \<lparr>dpOutSwapAmount = out, dpOdosData = osData resp\<rparr>))"

definition GetOdosPrice ::
  "('f, 'w) apiLib \<Rightarrow> deploymentMode \<Rightarrow> deployFiles \<Rightarrow> int \<Rightarrow> erc20Token \<Rightarrow> erc20Token \<Rightarrow> string \<Rightarrow> 'f \<Rightarrow>
   (deployCache \<times> 'w, odosPrice) action" where
  "GetOdosPrice L m fs chainID inSwapToken outSwapToken inSwapAmount slippagePercentage =
     bindA (liftA (GetAmountInWei (tkDecimals inSwapToken) inSwapAmount)) (\<lambda>inSwapAmountWei.
     bindA (odosUserAddr fs chainID) (\<lambda>userAddr.
     bindA (viaWorld (CallOdosAPI L m chainID
              \<lparr>odChainID = (if chainID = idLocalhost then LocalhostNetwork else chainID),
               odInputTokens = [(odosTokenAddress inSwapToken, bigString inSwapAmountWei)],
               odOutputTokens = [(odosTokenAddress outSwapToken, 1)], odUserAddr = userAddr, odSlippage = slippagePercentage,
               odDisableRFQs = True, odReferralCode = []\<rparr>)) (\<lambda>(resp, status).
       liftA (odosPriceOf resp status))))"

subsection \<open>oneinch_quote.go\<close>

definition errNoOneInchPrice :: go_error where
  "errNoOneInchPrice = ErrMsg ''web3: failed to fetch 1inch price''"

definition oneInchToken :: "string \<Rightarrow> string" where
  "oneInchToken address = (if address = ZeroAddress then OneInchZeroAddress else address)"

record oneInchPrice =
  ipOutSwapAmount :: int
  ipOneInchData :: string

definition oneInchPriceOf :: "oneInchResponse \<Rightarrow> oneInchPrice res" where
  "oneInchPriceOf resp =
     (if onData resp = [] then Err errNoOneInchPrice
      else (case setString 10 (onToAmount resp) of
              None \<Rightarrow> Err errNoOneInchPrice
            | Some out \<Rightarrow> Ok \<lparr>ipOutSwapAmount = out, ipOneInchData = onData resp\<rparr>))"

definition GetOneInchPrice ::
  "('f, 'w) apiLib \<Rightarrow> deploymentMode \<Rightarrow> deployFiles \<Rightarrow> int \<Rightarrow> erc20Token \<Rightarrow> erc20Token \<Rightarrow> string \<Rightarrow> 'f \<Rightarrow>
   (deployCache \<times> 'w, oneInchPrice) action" where
  "GetOneInchPrice L m fs chainID inSwapToken outSwapToken inSwapAmount slippagePercentage =
     bindA (liftA (GetAmountInWei (tkDecimals inSwapToken) inSwapAmount)) (\<lambda>inSwapAmountWei.
     bindA (onDeployFiles (GetContractData fs chainID)) (\<lambda>contractData.
     bindA (viaWorld (CallOneInchAPI L m chainID
              \<lparr>oiFromToken = oneInchToken (tkAddress inSwapToken), oiToToken = oneInchToken (tkAddress outSwapToken),
               oiAmount = inSwapAmountWei, oiFromAddress = ZeroAddress, oiSlippage = slippagePercentage,
               oiDestReceiver = ddOneInchExternalActionInstanceAddress contractData, oiDisableEstimate = True,
               oiAllowPartialFill = False\<rparr>)) (\<lambda>resp.
       liftA (oneInchPriceOf resp))))"

subsection \<open>swap_api.go\<close>

datatype evmQuoteResult = UniswapQuote uniswapPrice | OdosQuote odosPrice | OneInchQuote oneInchPrice | NoQuote

record evmSwapPrices =
  esUniswap :: "uniswapPrice option"
  esOdos :: "odosPrice option"
  esOneInch :: "oneInchPrice option"

text \<open>A goroutine sends its price, or an empty result when there was an error.\<close>

definition sendQuote :: "('p \<Rightarrow> evmQuoteResult) \<Rightarrow> ('s, 'p) action \<Rightarrow> ('s, evmQuoteResult) action" where
  "sendQuote f quote st =
     (case quote st of
        (Ok price, st') \<Rightarrow> (Ok (f price), st')
      | (Err e, st') \<Rightarrow> (Ok NoQuote, st')
      | (Panic p, st') \<Rightarrow> (Panic p, st'))"

definition takeQuote :: "evmQuoteResult \<Rightarrow> evmSwapPrices \<Rightarrow> evmSwapPrices" where
  "takeQuote result out =
     (case result of
        UniswapQuote p \<Rightarrow> out\<lparr>esUniswap := Some p\<rparr>
      | OdosQuote p \<Rightarrow> out\<lparr>esOdos := Some p\<rparr>
      | OneInchQuote p \<Rightarrow> out\<lparr>esOneInch := Some p\<rparr>
      | NoQuote \<Rightarrow> out)"

fun receiveQuotes :: "('s, evmQuoteResult) action list \<Rightarrow> evmSwapPrices \<Rightarrow> ('s, evmSwapPrices) action" where
  "receiveQuotes [] out = liftA (Ok out)"
| "receiveQuotes (q # qs) out = bindA q (\<lambda>result. receiveQuotes qs (takeQuote result out))"

text \<open>
  \<open>order\<close> is the order in which the three goroutines run, a permutation of 0, 1 and 2; \<open>rate\<close> is the number 0.7. \<open>T\<close> is
  \<open>api.GetTokensInfo\<close>.
\<close>

definition GetEVMSwapPrices ::
  "'w uniswapEnv \<Rightarrow> ('f, 'w) apiLib \<Rightarrow> deploymentMode \<Rightarrow> deployFiles \<Rightarrow> (int \<Rightarrow> string list \<Rightarrow> erc20Token option list res) \<Rightarrow> 'f \<Rightarrow>
   nat list \<Rightarrow> int \<Rightarrow> string \<Rightarrow> string \<Rightarrow> string \<Rightarrow> (deployCache \<times> 'w, evmSwapPrices) action" where
  "GetEVMSwapPrices U L m fs T rate order chainID inSwapAmount inSwapTokenAddress outSwapTokenAddress =
     bindA (liftA (ResolveERC20TokensStrict T chainID [inSwapTokenAddress, outSwapTokenAddress])) (\<lambda>tokens.
       case tokens of
         inSwapToken # outSwapToken # _ \<Rightarrow>
           (let tasks =
              [sendQuote UniswapQuote (viaWorld (GetUniswapPrice U chainID inSwapAmount inSwapToken outSwapToken)),
               sendQuote OdosQuote (GetOdosPrice L m fs chainID inSwapToken outSwapToken inSwapAmount rate),
               sendQuote OneInchQuote (GetOneInchPrice L m fs chainID inSwapToken outSwapToken inSwapAmount rate)]
            in receiveQuotes (map ((!) tasks) order) \<lparr>esUniswap = None, esOdos = None, esOneInch = None\<rparr>)
       | _ \<Rightarrow> liftA (Panic ''index out of range''))"

text \<open>\<open>okxPrice\<close> is \<open>GetOKXPrice\<close> of the chain for two tokens, an amount and the slippage 0.5.\<close>

definition GetSolanaSwapPrices ::
  "(int \<Rightarrow> string list \<Rightarrow> erc20Token option list res) \<Rightarrow> (int \<Rightarrow> erc20Token \<Rightarrow> erc20Token \<Rightarrow> string \<Rightarrow> string \<Rightarrow> okxPrice res) \<Rightarrow>
   int \<Rightarrow> string \<Rightarrow> string \<Rightarrow> string \<Rightarrow> okxPrice option res" where
  "GetSolanaSwapPrices T okxPrice chainID inSwapAmount inSwapTokenAddress outSwapTokenAddress =
     andThen (ResolveERC20TokensStrict T chainID [inSwapTokenAddress, outSwapTokenAddress]) (\<lambda>tokens.
       case tokens of
         inSwapToken # outSwapToken # _ \<Rightarrow>
           (case okxPrice chainID inSwapToken outSwapToken inSwapAmount ''0.5'' of
              Ok price \<Rightarrow> Ok (Some price) | Err e \<Rightarrow> Ok None | Panic p \<Rightarrow> Panic p)
       | _ \<Rightarrow> Panic ''index out of range'')"

section \<open>Properties\<close>

text \<open>
  The pool a Uniswap quote goes through: of the four fees the one whose pool holds most of the second token, and an error when
  no pool holds any. The three quotes of a swap come together in any order.
\<close>

text \<open>The node answers for the pair: per fee, no pool or a pool with a balance.\<close>

definition answersPool :: "'w uniswapEnv \<Rightarrow> string \<Rightarrow> string \<Rightarrow> string \<Rightarrow> string \<Rightarrow> 'w \<Rightarrow> int \<Rightarrow> int option \<Rightarrow> bool" where
  "answersPool U client factory token0 token1 w fee found =
     (let getPool = ethCallUnpack U client factory ''getPool'' [UvAddress token0, UvAddress token1, UvBig fee] w in
      case found of
        None \<Rightarrow> getPool = (Ok [UvAddress ZeroAddress], w)
      | Some b \<Rightarrow>
          0 \<le> b \<and>
          (\<exists>pool. pool \<noteq> ZeroAddress \<and> getPool = (Ok [UvAddress pool], w) \<and>
             ethCallUnpack U client token1 ''balanceOf'' [UvAddress pool] w = (Ok [UvBig b], w)))"

text \<open>The loop on what the pools hold.\<close>

fun bestPool :: "(int \<Rightarrow> int option) \<Rightarrow> int list \<Rightarrow> int \<times> int \<Rightarrow> int \<times> int" where
  "bestPool pools [] cur = cur"
| "bestPool pools (f # fs) cur =
     bestPool pools fs (case pools f of None \<Rightarrow> cur | Some b \<Rightarrow> if snd cur \<le> b then (f, b) else cur)"

lemma poolLoop_bestPool:
  assumes "\<And>f. f \<in> set fees \<Longrightarrow> answersPool U client factory token0 token1 w f (pools f)"
  shows "poolLoop U client factory token0 token1 fees best mx w = (Ok (bestPool pools fees (best, mx)), w)"
  using assms
proof (induction fees arbitrary: best mx)
  case Nil
  show ?case by (simp add: liftA_def)
next
  case (Cons f fees)
  note rest = Cons.IH[OF Cons.prems[OF list.set_intros(2)]]
  show ?case
    using Cons.prems[of f] rest
    by (cases "pools f") (auto simp: answersPool_def Let_def bindA_def)
qed

lemma bestPool_invariant:
  assumes "sorted_wrt (<) fs" and "bestPool pools fs (best, mx) = (best', mx')"
  shows "mx \<le> mx' \<and> (\<forall>f b. f \<in> set fs \<longrightarrow> pools f = Some b \<longrightarrow> b \<le> mx') \<and>
         ((best', mx') = (best, mx) \<or> best' \<in> set fs \<and> pools best' = Some mx') \<and>
         (\<forall>f. f \<in> set fs \<longrightarrow> pools f = Some mx' \<longrightarrow> best' \<in> set fs \<and> f \<le> best')"
  using assms
proof (induction fs arbitrary: best mx)
  case Nil
  then show ?case by simp
next
  case (Cons f fs)
  define cur where "cur = (case pools f of None \<Rightarrow> (best, mx) | Some b \<Rightarrow> if mx \<le> b then (f, b) else (best, mx))"
  have run: "bestPool pools fs (fst cur, snd cur) = (best', mx')"
    using Cons.prems(2) by (cases "pools f") (simp_all add: cur_def)
  have sorted: "sorted_wrt (<) fs" and later: "\<And>g. g \<in> set fs \<Longrightarrow> f < g"
    using Cons.prems(1) by auto
  note IH = Cons.IH[OF sorted run]
  show ?case
  proof (cases "pools f")
    case None
    then have "cur = (best, mx)" by (simp add: cur_def)
    then show ?thesis using IH None by (auto simp: less_imp_le)
  next
    case (Some b)
    show ?thesis
    proof (cases "mx \<le> b")
      case True
      then have cur: "cur = (f, b)" using Some by (simp add: cur_def)
      then have ge: "b \<le> mx'" using IH by simp
      have last: "f \<le> best' \<and> best' \<in> set (f # fs)"
        using IH cur later by (auto simp: less_imp_le)
      show ?thesis using IH cur ge True Some last by auto
    next
      case False
      then have cur: "cur = (best, mx)" using Some by (simp add: cur_def)
      then have "mx \<le> mx'" using IH by simp
      then show ?thesis using IH cur False Some by (auto simp: less_imp_le)
    qed
  qed
qed

lemma fees_increase: "sorted_wrt (<) uniswapPoolFees"
  by (simp add: uniswapPoolFees_def)

lemma searchPoolAndFee_bestPool:
  assumes "\<forall>f \<in> set uniswapPoolFees. answersPool U client factory token0 token1 w f (pools f)"
  shows "searchPoolAndFee U client factory token0 token1 w =
         (case bestPool pools uniswapPoolFees (0, 0) of
            (fee, b) \<Rightarrow> (if b = 0 then Err errUniswapNoLiquidity else Ok fee, w))"
  using assms poolLoop_bestPool[of uniswapPoolFees U client factory token0 token1 w pools 0 0]
  by (auto simp: searchPoolAndFee_def bindA_def liftA_def split: prod.splits)

text \<open>C36: A Uniswap quote uses the fee whose pool holds the most of the second token, the largest such fee when several hold as
  much, and is refused exactly when every pool is missing or empty.\<close>

theorem deepest_pool_chosen:
  assumes answers: "\<forall>f \<in> set uniswapPoolFees. answersPool U client factory token0 token1 w f (pools f)"
  shows "case searchPoolAndFee U client factory token0 token1 w of (r, w') \<Rightarrow>
           w' = w \<and>
           (if \<exists>f \<in> set uniswapPoolFees. \<exists>b. pools f = Some b \<and> 0 < b
            then \<exists>fee \<in> set uniswapPoolFees. \<exists>b. r = Ok fee \<and> pools fee = Some b \<and> 0 < b \<and>
                   (\<forall>f \<in> set uniswapPoolFees. \<forall>b'. pools f = Some b' \<longrightarrow> b' < b \<or> b' = b \<and> f \<le> fee)
            else r = Err errUniswapNoLiquidity)"
proof -
  obtain fee mx where best: "bestPool pools uniswapPoolFees (0, 0) = (fee, mx)" by fastforce
  note inv = bestPool_invariant[OF fees_increase best]
  have r: "searchPoolAndFee U client factory token0 token1 w = (if mx = 0 then Err errUniswapNoLiquidity else Ok fee, w)"
    using searchPoolAndFee_bestPool[OF answers] best by simp
  show ?thesis
  proof (cases "mx = 0")
    case True
    then have "\<not> (\<exists>f \<in> set uniswapPoolFees. \<exists>b. pools f = Some b \<and> 0 < b)" using inv by force
    then show ?thesis using r True by simp
  next
    case False
    then have found: "fee \<in> set uniswapPoolFees" "pools fee = Some mx" "0 < mx" using inv by auto
    have "\<forall>f \<in> set uniswapPoolFees. \<forall>b'. pools f = Some b' \<longrightarrow> b' < mx \<or> b' = mx \<and> f \<le> fee"
      using inv by (metis order_le_less)
    then show ?thesis using r False found by auto
  qed
qed

definition toyUniswap :: "unit uniswapEnv" where
  "toyUniswap =
     \<lparr>uqChains = undefined, uqCrypto = undefined, uqDial = (\<lambda>_. Ok ()), uqClose = id,
      uqCall = (\<lambda>client contract data w. (Ok data, w)),
      uqPack = (\<lambda>method args. Ok (case args of [_, _, UvBig f] \<Rightarrow> if f = 100 then [] else [of_int (f div 500)]
                                            | [UvAddress p] \<Rightarrow> if p = ''A'' then [40] else [50] | _ \<Rightarrow> [])),
      uqUnpack = (\<lambda>method out. Ok (if method = ''getPool''
                     then [UvAddress (if out = [1] then ''A'' else if out = [6] then ''B'' else ZeroAddress)]
                     else [UvBig (setBytes out)])),
      uqPackUint24 = (\<lambda>_. Ok [])\<rparr>"

definition toyPools :: "int \<Rightarrow> int option" where
  "toyPools f = (if f = 500 then Some 40 else if f = 3000 then Some 50 else None)"

lemma toy_answers: "\<forall>f \<in> set uniswapPoolFees. answersPool toyUniswap [] [] ''X'' ''Y'' () f (toyPools f)"
  by (simp add: uniswapPoolFees_def answersPool_def toyPools_def toyUniswap_def ethCallUnpack_def bindA_def liftA_def ZeroAddress_def
      setBytes_def)

theorem deepest_pool_chosen_witness:
  "fst (searchPoolAndFee toyUniswap [] [] ''X'' ''Y'' ()) = Ok 3000"
  using deepest_pool_chosen[OF toy_answers]
  by (auto simp: toyPools_def uniswapPoolFees_def split: prod.splits if_splits)

subsection \<open>The quotes of a swap\<close>

text \<open>Whichever comes first, each price that was quoted is in the answer, as long as no source quotes twice.\<close>

lemma takeQuote_commute:
  assumes "\<And>p q. r = UniswapQuote p \<Longrightarrow> s \<noteq> UniswapQuote q" and "\<And>p q. r = OdosQuote p \<Longrightarrow> s \<noteq> OdosQuote q"
    and "\<And>p q. r = OneInchQuote p \<Longrightarrow> s \<noteq> OneInchQuote q"
  shows "takeQuote r (takeQuote s out) = takeQuote s (takeQuote r out)"
  using assms by (cases r; cases s) (auto simp: takeQuote_def)

end
