(* ===== verification/SolanaSwap.thy ===== *)
theory SolanaSwap
  imports SolanaTx
begin

text \<open>
  Swapping on Solana: \<open>internal/functions/transactions/solana_swap.go\<close>. Row \<open>i\<close> of the clock and the draws serves the outputs
  of token \<open>i\<close>.
\<close>

definition getSolanaSwapInputAndOutputUtxos ::
  "('d, 'k, 'f, 'a, 'w) txEnv \<Rightarrow> int \<Rightarrow> string list \<Rightarrow> int list \<Rightarrow> (('d, 'w) txState, utxo list list \<times> utxo list list) action" where
  "getSolanaSwapInputAndOutputUtxos E chainID mints changes =
     bindA (paddedInputs E chainID mints changes 6 False False) (\<lambda>ins.
     bindA (onWallet (onKeys (outputRows (teCrypto E) (teOutClock E) (teOutRand E) (timeStampText E) [] None 0 mints ins changes)))
       (\<lambda>outs. liftA (Ok (ins, map (\<lambda>row. [hd row]) outs))))"

definition solanaSwapDefaultSlippagePercent :: "'f floats \<Rightarrow> 'f res" where
  "solanaSwapDefaultSlippagePercent F = flParse F ''0.7''"

text \<open>What is kept back of the output for a price that moves: a percentage, computed in floating point.\<close>

definition slippageOf :: "'f floats \<Rightarrow> erc20Token \<Rightarrow> int \<Rightarrow> int res" where
  "slippageOf F outputToken received =
     andThen (GetAmountInToken (tkDecimals outputToken) (Some received)) (\<lambda>text.
     andThen (flParse F text) (\<lambda>outputAmount.
     andThen (solanaSwapDefaultSlippagePercent F) (\<lambda>percent.
       GetAmountInWei (tkDecimals outputToken)
         (flFormat F (flDiv F (flMul F outputAmount percent) (flOfInt F 100)) (tkDecimals outputToken)))))"

text \<open>The amount received at least: less the slippage, the variable and the flat fee.\<close>

definition swapReceived :: "int \<Rightarrow> int \<Rightarrow> feeStructure \<Rightarrow> int res" where
  "swapReceived received slippage fs =
     (let amount = received - slippage - (quo (received * fsVariableRate fs) 10000 + fsFlatFee fs) in
      if amount < 0 then Err (ErrMsg ''transactions: swap output amount is below the relayer fee'') else Ok amount)"

definition nonNativeMint :: "string \<Rightarrow> string option" where
  "nonNativeMint mintAddress = (if mintAddress = SolanaNativeAddress then None else Some mintAddress)"

definition remainingAccountsToOKX :: "solanaLib \<Rightarrow> accountMeta list \<Rightarrow> okxAccountJson list" where
  "remainingAccountsToOKX L accounts =
     map (\<lambda>(key, writable). \<lparr>ojIsSigner = False, ojIsWritable = writable, ojPubkey = slKeyText L key\<rparr>) accounts"

definition hinkalInstructionsToAPI :: "hinkalInstruction list \<Rightarrow> solanaHinkalInstruction list" where
  "hinkalInstructionsToAPI instructions =
     map (\<lambda>i. \<lparr>siAccountIndexes = map uint (hiAccountIndexes i), siData = map uint (hiData i), siProgramIndex = hiProgramIndex i\<rparr>)
       instructions"

definition swapFees ::
  "('d, 'k, 'f, 'a, 'w) txEnv \<Rightarrow> 'w solanaServices \<Rightarrow> int \<Rightarrow> string list \<Rightarrow> int list \<Rightarrow> string \<Rightarrow> feeOverride option \<Rightarrow>
   (('d, 'w) txState, feeOverride) action" where
  "swapFees E S chainID mints changes feeToken override =
     (case override of
        Some f \<Rightarrow> liftA (Ok f)
      | None \<Rightarrow>
          bindA (nullifierCountOf E S chainID mints changes) (\<lambda>count.
          bindA (liftA (estimatedFees E chainID feeToken mints ''Okx'' (Some HinkalSwapVariableRate)
                   (Some \<lparr>sgMintTo = feeToken, sgMintFrom = hd mints, sgRecipient = [], sgNullifierCount = int count\<rparr>))) (\<lambda>f.
            liftA (Ok (givenFees f)))))"

text \<open>The keys a swap reads before anything else: its recipient, the program and the deployer.\<close>

definition swapParties ::
  "('d, 'k, 'f, 'a, 'w) txEnv \<Rightarrow> solanaLib \<Rightarrow> int \<Rightarrow> (('d, 'w) txState, bytes \<times> bytes \<times> bytes) action" where
  "swapParties E L chainID =
     bindA (liftA (slKeyOf L SolanaNativeAddress)) (\<lambda>recipient.
     bindA (\<lambda>s. liftA (andThen (deployedHinkal E chainID s) (slKeyOf L)) s) (\<lambda>program.
     bindA (onDeploy (OriginalDeployer (teDeployFiles E) chainID)) (\<lambda>deployerText.
     bindA (liftA (slKeyOf L deployerText)) (\<lambda>deployer. liftA (Ok (recipient, program, deployer))))))"

text \<open>The swapper's account and the instructions with the accounts they use.\<close>

definition swapInstructions ::
  "('d, 'k, 'f, 'a, 'w) txEnv \<Rightarrow> 'w solanaServices \<Rightarrow> bytes \<Rightarrow> bytes \<Rightarrow> int option \<Rightarrow> okxInstruction list \<Rightarrow>
   (bytes \<times> hinkalInstruction list \<times> accountMeta list) res" where
  "swapInstructions E S program deployer salt instructionLists =
     (let L = scLib (slsChain S) in
      andThen (GetSwapperAccountPublicKeyFromSalt (teCrypto E) L program deployer salt) (\<lambda>swapper.
      andThen (ConvertOKXToHinkalInstructions L (slsUnB64 S) instructionLists swapper) (\<lambda>(instructions, remaining).
        Ok (swapper, instructions, remaining))))"

definition swapAccountsOf ::
  "solanaLib \<Rightarrow> bytes \<Rightarrow> bytes \<Rightarrow> bytes \<Rightarrow> bytes \<Rightarrow> string list \<Rightarrow> accountMeta list \<Rightarrow> string list \<Rightarrow> solanaSwapAccounts res" where
  "swapAccountsOf L recipient program deployer swapper mints remaining lookupTables =
     andThen (GetStorageAccountPublicKey L program deployer) (\<lambda>storageAccount.
     andThen (GetStorageVaultPublicKey L program deployer) (\<lambda>storageVault.
       Ok \<lparr>swRecipient = slKeyText L recipient, swStorageAccount = slKeyText L storageAccount,
           swStorageVault = slKeyText L storageVault, swSwapperAccount = slKeyText L swapper,
           swMintFrom = nonNativeMint (mints ! 0), swMintTo = nonNativeMint (mints ! 1),
           swRemainingAccounts = remainingAccountsToOKX L remaining, swAddressLookupTables = lookupTables\<rparr>))"

definition HinkalSolanaSwap ::
  "('d, 'k, 'f, 'a, 'w) txEnv \<Rightarrow> 'w solanaServices \<Rightarrow> erc20Token list \<Rightarrow> int list \<Rightarrow> int option \<Rightarrow> okxInstruction list \<Rightarrow>
   string list \<Rightarrow> string \<Rightarrow> feeOverride option \<Rightarrow> (('d, 'w) txState, string) action" where
  "HinkalSolanaSwap E S tokens changesBase salt instructionLists lookupTables feeTokenGiven override =
     (let C = teCrypto E; L = scLib (slsChain S) in
      bindA (liftA (ValidateAndGetChainID tokens)) (\<lambda>chainID.
        if length tokens \<noteq> 2 \<or> length changesBase \<noteq> 2
        then liftA (Err (ErrMsg ''transactions: Solana swap requires exactly two tokens''))
        else
          bindA (swapParties E L chainID) (\<lambda>(recipient, program, deployer).
          (let base = copyBigInts changesBase; mints = tokenAddresses tokens;
               feeToken = (if feeTokenGiven = [] then mints ! 1 else feeTokenGiven) in
           bindA (swapFees E S chainID mints base feeToken override) (\<lambda>given.
           bindA (liftA (slippageOf (teFloats E) (tokens ! 1) (base ! 1))) (\<lambda>slippage.
           bindA (liftA (definiteFees given)) (\<lambda>fs.
           bindA (liftA (swapReceived (base ! 1) slippage fs)) (\<lambda>received.
           (let changes = base[1 := received] in
            bindA (relayerAddress E chainID) (\<lambda>relay.
            bindA (getSolanaSwapInputAndOutputUtxos E chainID mints changes) (\<lambda>(ins, outs).
            bindA (walletRandomization E S) (\<lambda>extraRandomization.
            bindA (liftA (solanaSwapEncryptedOutputs E S outs)) (\<lambda>(encryptedBytes, encryptedInts).
            bindA (liftA (swapInstructions E S program deployer salt instructionLists)) (\<lambda>(swapper, instructions, remaining).
            bindA (liftA (EnsureAmountChanges C ins outs changes)) (\<lambda>_.
            (let dimensions = \<lparr>dmTokenNumber = 2, dmNullifierAmount = length (hd ins), dmOutputAmount = 1\<rparr> in
             bindA (\<lambda>s. proveSolana E S 0 ((plainSolanaParams chainID s mints ins outs extraRandomization (fsFlatFee fs)
                      (fsVariableRate fs) (slKeyText L recipient) relay dimensions encryptedBytes)\<lparr>spInstructions := instructions,
                      spRemaining := remaining, spSalt := salt\<rparr>) s) (\<lambda>proof.
             bindA (liftA (swapAccountsOf L recipient program deployer swapper mints remaining lookupTables)) (\<lambda>accounts.
               callSolanaRelayer S (solanaBodyOf chainID relay ''swap''
                 (SwapCall (solanaArgsOf proof encryptedInts (fsFlatFee fs) (Some (bigString (fsVariableRate fs))) dimensions)
                    (hinkalInstructionsToAPI instructions) accounts) proof)))))))))))))))))))"

end
