(* ===== verification/SolanaPay.thy ===== *)
theory SolanaPay
  imports SolanaTx SolanaRpc
begin

text \<open>
  Paying others from a deposit on Solana: \<open>internal/functions/transactions/solana_deposit_and_withdraw.go\<close> and the fetch of
  \<open>internal/functions/solana/transactions.go\<close>. The deposit makes blocked utxos for the wallet, read back from its events;
  a batch of withdrawals pays them out.
\<close>

subsection \<open>FetchTransactionWithRetry\<close>

record 'w solanaFetch =
  sfRpcURL :: "int \<Rightarrow> unit res"                               \<comment> \<open>FetchRPCURL\<close>
  sfGetTransaction :: "string \<Rightarrow> 'w \<Rightarrow> solanaTxMeta option option res"
  sfTick :: "'w \<Rightarrow> 'w"
  sfUnB64 :: "string \<Rightarrow> bytes option"

definition transactionFetchRetryCount :: nat where
  "transactionFetchRetryCount = 30"

text \<open>A failed request, a missing transaction and one without meta data are asked for again.\<close>

fun fetchAttempts :: "'w solanaFetch \<Rightarrow> string \<Rightarrow> nat \<Rightarrow> ('w, solanaTxMeta) action" where
  "fetchAttempts F signature 0 = liftA (Err (ErrMsg (''solanautils: Solana transaction '' @ signature @ '' missing'')))"
| "fetchAttempts F signature (Suc n) =
     (\<lambda>w. case sfGetTransaction F signature w of
            Ok (Some (Some meta)) \<Rightarrow>
              (case stErr meta of
                 Some e \<Rightarrow> (Err (ErrMsg (''solanautils: Solana transaction failed: '' @ e)), w)
               | None \<Rightarrow> (Ok meta, w))
          | Panic p \<Rightarrow> (Panic p, w)
          | _ \<Rightarrow> fetchAttempts F signature n (sfTick F w))"

definition FetchTransactionWithRetry :: "'w solanaFetch \<Rightarrow> int \<Rightarrow> string \<Rightarrow> ('w, solanaTxMeta) action" where
  "FetchTransactionWithRetry F chainID signature =
     bindA (liftA (sfRpcURL F chainID)) (\<lambda>_. fetchAttempts F signature transactionFetchRetryCount)"

subsection \<open>The deposit\<close>

definition resolveSolanaDepositAndWithdrawFeeStructure ::
  "('d, 'k, 'f, 'a, 'w) txEnv \<Rightarrow> int \<Rightarrow> string \<Rightarrow> feeOverride option \<Rightarrow> solanaGasParams option \<Rightarrow> feeStructure res" where
  "resolveSolanaDepositAndWithdrawFeeStructure E chainID mintAddress override solanaParams =
     (case override of
        Some f \<Rightarrow> Ok (privateSendFeeStructure f)
      | None \<Rightarrow>
          andThen (estimatedFees E chainID mintAddress [mintAddress] ''Transact'' (Some HinkalPrivateSendVariableRate) solanaParams)
            (\<lambda>f. Ok (privateSendFeeStructure (givenFees f))))"

text \<open>The utxos of the deposit's own transaction that are the wallet's, with the recipients they are for.\<close>

definition recipientsOfTransaction ::
  "('d, 'k, 'f, 'a, 'w) txEnv \<Rightarrow> ('d, 'w) depositEnv \<Rightarrow> 'w solanaFetch \<Rightarrow> solanaTxMeta \<Rightarrow> string \<Rightarrow> string list \<Rightarrow> int list \<Rightarrow>
   (('d, 'w) txState, depositedUtxo list) action" where
  "recipientsOfTransaction E D F meta mintAddress recipients amounts =
     bindA (liftA (FormatMintAddress (teCrypto E) mintAddress)) (\<lambda>mint.
     bindA (onWallet (onKeys (DecodeSolanaFromTransaction (teCrypto E) (sfUnB64 F) (dpLogClock D) (dpLogRand D)
              (Some (stLogMessages meta, stInner meta)) (fmCompressed mint)))) (\<lambda>deposited.
       if deposited = [] then liftA (Err (ErrMsg ''transactions: no on-chain UTXOs found in deposit transaction''))
       else liftA (matchRecipientUtxos recipients amounts deposited)))"

definition hinkalSolanaMultiPaymentDeposit ::
  "('d, 'k, 'f, 'a, 'w) txEnv \<Rightarrow> ('d, 'w) depositEnv \<Rightarrow> 'w solanaServices \<Rightarrow> 'w solanaFetch \<Rightarrow> int \<Rightarrow> erc20Token \<Rightarrow> int list \<Rightarrow>
   string list \<Rightarrow> feeStructure \<Rightarrow> string \<Rightarrow> (('d, 'w) txState, depositedUtxo list \<times> string \<times> string) action" where
  "hinkalSolanaMultiPaymentDeposit E D S F chainID token recipientAmounts recipients fs hashedEthereumAddress =
     (let amounts = fst (depositAndWithdrawUtxoAmounts recipientAmounts fs); CH = slsChain S in
      bindA (onWallet (onKeys (getProoflessStealthAddressStructures E (length amounts) None))) (\<lambda>structures.
      bindA (liftA (validateSolanaDepositArgs amounts structures)) (\<lambda>_.
      bindA (solanaParties E CH chainID) (\<lambda>(programID, originalDeployer, signer).
      bindA (liftA (buildMultiPaymentDepositInstruction CH programID signer originalDeployer (tkAddress token) amounts structures True))
        (\<lambda>instruction.
      bindA (onWorld (dpStatus D (phaseBody [] hashedEthereumAddress chainID ''before_deposit'' [] []))) (\<lambda>statusID.
      bindA (onWorld (signAndSendSolanaInstructions CH programID signer [instruction])) (\<lambda>signature.
      bindA (onWorld (dpWaitTx D chainID signature 1)) (\<lambda>_.
      bindA (onWorld (FetchTransactionWithRetry F chainID signature)) (\<lambda>meta.
      bindA (onWorld (SafeUpdateDepositAndWithdrawStatus D (phaseBody statusID hashedEthereumAddress chainID ''after_deposit''
               signature []))) (\<lambda>_.
      bindA (recipientsOfTransaction E D F meta (tkAddress token) recipients amounts) (\<lambda>deposited.
        liftA (Ok (deposited, statusID, signature)))))))))))))"

subsection \<open>The withdrawals\<close>

definition zeroSolanaParams :: "string \<Rightarrow> string \<Rightarrow> string \<Rightarrow> string \<Rightarrow> bool \<Rightarrow> int list option \<Rightarrow> utxoParams" where
  "zeroSolanaParams mintAddress compressed key timeStamp newStyle spending =
     (zeroUtxoParams compressed key timeStamp newStyle spending)\<lparr>upMint := mintAddress\<rparr>"

text \<open>The token address of the empty utxo is that of the native mint, whatever its mint.\<close>

definition buildSolanaDepositAndWithdrawZeroUtxo ::
  "cryptoLib \<Rightarrow> string \<Rightarrow> (nat \<Rightarrow> bytes res) \<Rightarrow> string \<Rightarrow> utxo \<Rightarrow> string \<Rightarrow> (userKeys, utxo) action" where
  "buildSolanaDepositAndWithdrawZeroUtxo C now rand mintAddress source timeStamp =
     bindA (liftA (FormatMintAddress C SolanaNativeAddress)) (\<lambda>nativeMint.
     bindA (GetShieldedPrivateKey C) (\<lambda>key.
     bindA (if uxIsNewStyle source
            then bindA (GetSpendingKeyPair C) (\<lambda>(priv, pub). liftA (Ok (Some [fst pub, snd pub])))
            else liftA (Ok None)) (\<lambda>spending.
       liftA (NewUtxo C now rand (zeroSolanaParams mintAddress (fmCompressed nativeMint) key timeStamp (uxIsNewStyle source)
         spending)))))"

text \<open>The transaction that pays one deposited utxo out; its draws are those of number \<open>i\<close>.\<close>

definition solanaWithdrawItem ::
  "('d, 'k, 'f, 'a, 'w) txEnv \<Rightarrow> 'w solanaServices \<Rightarrow> int \<Rightarrow> erc20Token \<Rightarrow> feeStructure \<Rightarrow> string \<Rightarrow> string \<Rightarrow> nat \<Rightarrow> depositedUtxo \<Rightarrow>
   int \<Rightarrow> (('d, 'w) txState, solanaBody) action" where
  "solanaWithdrawItem E S chainID token fs relay key i item amount =
     (let C = teCrypto E; mint = tkAddress token in
      bindA (onWallet (onKeys (buildSolanaDepositAndWithdrawZeroUtxo C (teOutClock E i 0) (teOutRand E i 0) mint (duUtxo item)
               (timeStampText E)))) (\<lambda>zeroUtxo.
      (let ins = [duUtxo item, zeroUtxo]; outs = [zeroUtxo]; dimensions = dimensionsOf [mint] ins outs in
       bindA (liftA (randomizationFor E S i key)) (\<lambda>extraRandomization.
       bindA (liftA (solanaEncryptedOutputBytes E S i outs)) (\<lambda>(encryptedBytes, encryptedInts).
       bindA (liftA (modifiedFees E chainID token amount fs)) (\<lambda>finalFees.
       bindA (\<lambda>s. proveSolana E S i (plainSolanaParams chainID s [mint] [ins] [outs] extraRandomization (fsFlatFee finalFees)
                (fsVariableRate finalFees) (duRecipient item) relay dimensions encryptedBytes) s) (\<lambda>proof.
         liftA (Ok ((solanaBodyOf chainID relay ''transact''
           (PlainCall (solanaArgsOf proof encryptedInts (fsFlatFee finalFees) None dimensions)
              (withdrawAccounts mint (duRecipient item))) proof)\<lparr>sbRecipientAmount := bigString amount\<rparr>)))))))))"

fun solanaWithdrawItems ::
  "('d, 'k, 'f, 'a, 'w) txEnv \<Rightarrow> 'w solanaServices \<Rightarrow> int \<Rightarrow> erc20Token \<Rightarrow> feeStructure \<Rightarrow> string \<Rightarrow> string \<Rightarrow> nat \<Rightarrow>
   depositedUtxo list \<Rightarrow> int list \<Rightarrow> (('d, 'w) txState, solanaBody list) action" where
  "solanaWithdrawItems E S chainID token fs relay key i [] amounts = liftA (Ok [])"
| "solanaWithdrawItems E S chainID token fs relay key i (d # ds) (a # amounts) =
     bindA (solanaWithdrawItem E S chainID token fs relay key i d a) (\<lambda>item.
     bindA (solanaWithdrawItems E S chainID token fs relay key (i + 1) ds amounts) (\<lambda>items. liftA (Ok (item # items))))"
| "solanaWithdrawItems E S chainID token fs relay key i (d # ds) [] = liftA (Panic ''index out of range'')"

definition scheduleSolanaBatch ::
  "('d, 'w) depositEnv \<Rightarrow> 'w solanaServices \<Rightarrow> int \<Rightarrow> solanaBody list \<Rightarrow> string \<Rightarrow> string \<Rightarrow> int option \<Rightarrow> ('w, string) action" where
  "scheduleSolanaBatch D S chainID items hashedEthereumAddress statusID txCompletionTime =
     bindA (SafeUpdateDepositAndWithdrawStatus D (phaseBody statusID hashedEthereumAddress chainID ''before_schedule_withdraw'' [] [])) (\<lambda>_.
     bindA (SolanaTransactCallRelayerBatch (slsCallBatch S) chainID items hashedEthereumAddress txCompletionTime [] []) (\<lambda>scheduleID.
     bindA (SafeUpdateDepositAndWithdrawStatus D (phaseBody statusID hashedEthereumAddress chainID ''after_schedule_withdraw'' [] scheduleID))
       (\<lambda>_. liftA (Ok scheduleID))))"

definition hinkalSolanaWithdrawBatch ::
  "('d, 'k, 'f, 'a, 'w) txEnv \<Rightarrow> ('d, 'w) depositEnv \<Rightarrow> 'w solanaServices \<Rightarrow> int \<Rightarrow> erc20Token \<Rightarrow> depositedUtxo list \<Rightarrow>
   feeStructure \<Rightarrow> string \<Rightarrow> int list \<Rightarrow> string \<Rightarrow> int option \<Rightarrow> (('d, 'w) txState, string) action" where
  "hinkalSolanaWithdrawBatch E D S chainID token deposited fs hashedEthereumAddress amounts statusID txCompletionTime =
     (if deposited = [] then liftA (Err (ErrMsg ''transactions: no on-chain UTXOs found in deposit transaction''))
      else
        bindA (relayerAddress E chainID) (\<lambda>relay.
        bindA (onWallet (onKeys (GetShieldedPrivateKey (teCrypto E)))) (\<lambda>key.
        bindA (solanaWithdrawItems E S chainID token fs relay key 0 deposited amounts) (\<lambda>items.
          onWorld (scheduleSolanaBatch D S chainID items hashedEthereumAddress statusID txCompletionTime)))))"

definition HinkalSolanaDepositAndWithdraw ::
  "('d, 'k, 'f, 'a, 'w) txEnv \<Rightarrow> ('d, 'w) depositEnv \<Rightarrow> 'w solanaServices \<Rightarrow> 'w solanaFetch \<Rightarrow> erc20Token list \<Rightarrow>
   int option list \<Rightarrow> string list \<Rightarrow> int option \<Rightarrow> feeOverride option \<Rightarrow> (('d, 'w) txState, string \<times> string) action" where
  "HinkalSolanaDepositAndWithdraw E D S F tokens recipientAmounts recipients txCompletionTime override =
     bindA (liftA (ValidateAndGetChainID tokens)) (\<lambda>chainID.
       if \<not> IsSolanaLike chainID then liftA (Err (ErrMsg ''transactions: Solana deposit requires a Solana chain''))
       else
         bindA (liftA (validateDepositAndWithdrawArgs tokens recipientAmounts recipients)) (\<lambda>_.
         (let token = hd tokens; amounts = map zeroIfNil recipientAmounts in
          bindA (ethereumAddressOf chainID) (\<lambda>rawAddress.
          (let hashed = HashEthereumAddress (keccak256 (teCrypto E)) rawAddress in
           bindA (liftA (resolveSolanaDepositAndWithdrawFeeStructure E chainID (tkAddress token) override
                    (Some \<lparr>sgMintTo = tkAddress token, sgMintFrom = [], sgRecipient = [], sgNullifierCount = 1\<rparr>))) (\<lambda>fs.
           bindA (hinkalSolanaMultiPaymentDeposit E D S F chainID token amounts recipients fs hashed) (\<lambda>(deposited, statusID, depositTxHash).
           bindA (waitForDepositedUtxosInMerkleTree (teCrypto E) D chainID deposited) (\<lambda>_.
           bindA (hinkalSolanaWithdrawBatch E D S chainID token deposited fs hashed amounts statusID txCompletionTime) (\<lambda>scheduleID.
             liftA (Ok (depositTxHash, scheduleID)))))))))))"

end
