(* ===== verification/BridgeTx.thy ===== *)
theory BridgeTx
  imports DepositTx
begin

text \<open>
  Bridging from a deposit: \<open>internal/functions/transactions/deposit_and_bridge.go\<close>. A deposit makes one utxo per recipient,
  and a second one the native utxos that pay the bridge's fee; then a batch of transactions spends them through the
  temporary account of each recipient. The second deposit has services of its own, \<open>EN\<close> and \<open>DN\<close>: the same servers, other
  draws.
\<close>

record temporarySubAccount =
  wxIndex :: int
  wxEthAddress :: string
  wxPrivateKey :: string

record bridgeRecipient =
  grRecipientAddress :: string
  grBridgeAmount :: "int option"
  grQuote :: bridgeQuote
  grAccount :: temporarySubAccount

record bridgeRecipientUtxo =
  guRecipient :: bridgeRecipient
  guUtxo :: utxo
  guNativeUtxo :: "utxo option"

text \<open>The encoders and the node the operations of the temporary accounts need.\<close>

record ('e, 'w) bridgeEnv =
  beEvm :: "'e evmLib"
  beAddressBytes :: "string \<Rightarrow> bytes"
  beCodeAt :: "'w \<Rightarrow> string \<Rightarrow> bytes res"
  beNonceAt :: "'w \<Rightarrow> string \<Rightarrow> nat res"
  beSignSetCode :: "'e \<Rightarrow> int \<Rightarrow> string \<Rightarrow> nat \<Rightarrow> (int \<times> int \<times> int) res"
  beAddNonce :: "int \<Rightarrow> string \<Rightarrow> int \<Rightarrow> ('w, unit) action"     \<comment> \<open>AddTemporaryWalletNonce\<close>

definition nativeFeeValue :: "bridgeQuote \<Rightarrow> int" where
  "nativeFeeValue quote = (case bqNativeFee quote of None \<Rightarrow> 0 | Some n \<Rightarrow> n)"

fun checkBridgeRecipients :: "bridgeRecipient list \<Rightarrow> unit res" where
  "checkBridgeRecipients [] = Ok ()"
| "checkBridgeRecipients (r # rs) =
     (if (case grBridgeAmount r of None \<Rightarrow> True | Some n \<Rightarrow> n \<le> 0) then Err (ErrMsg ''transactions: all amounts must be positive'')
      else if grRecipientAddress r = [] \<or> wxEthAddress (grAccount r) = [] \<or> wxPrivateKey (grAccount r) = []
      then Err (ErrMsg ''recipient information format is incorrect'')
      else if bqCalldata (grQuote r) = [] then Err (ErrMsg ''transactions: bridge quote calldata is required'')
      else checkBridgeRecipients rs)"

definition validateDepositAndBridgeArgs :: "erc20Token list \<Rightarrow> bridgeRecipient list \<Rightarrow> unit res" where
  "validateDepositAndBridgeArgs tokens recipients =
     (if tokens = [] then Err (ErrMsg ''transactions: depositAndWithdraw action: no token found'')
      else if 1 < length tokens then Err (ErrMsg ''transactions: depositAndWithdraw supports one token'')
      else if recipients = [] then Err (ErrMsg ''transactions: depositAndBridge recipients must not be empty'')
      else checkBridgeRecipients recipients)"

subsection \<open>Fees\<close>

fun sampleCallsOf ::
  "cryptoLib \<Rightarrow> deployFiles \<Rightarrow> string \<Rightarrow> int \<Rightarrow> string list \<Rightarrow> (deployCache, callInfo list) action" where
  "sampleCallsOf C files walletAddress chainID [] = liftA (Ok [])"
| "sampleCallsOf C files walletAddress chainID (op # ops) =
     bindA (ConvertEmporiumOpToCallInfo C files op walletAddress chainID) (\<lambda>call.
     bindA (sampleCallsOf C files walletAddress chainID ops) (\<lambda>calls. liftA (Ok (call # calls))))"

definition resolveDepositAndBridgeFeeStructure ::
  "('d, 'k, 'f, 'a, 'w) txEnv \<Rightarrow> ('e, 'w) bridgeEnv \<Rightarrow> int \<Rightarrow> string \<Rightarrow> bridgeRecipient list \<Rightarrow> feeOverride option \<Rightarrow>
   (('d, 'w) txState, feeStructure) action" where
  "resolveDepositAndBridgeFeeStructure E B chainID tokenAddress recipients override =
     (case override of
        Some f \<Rightarrow> liftA (Ok (paySendFeeStructure f))
      | None \<Rightarrow>
          bindA (liftA (LifiRouterAddress chainID)) (\<lambda>router.
            (case recipients of
               [] \<Rightarrow> liftA (Panic ''index out of range'')
             | first # rest \<Rightarrow>
                 (let account = wxEthAddress (grAccount first) in
                  bindA (liftA (deref (grBridgeAmount first))) (\<lambda>amount.
                  bindA (liftA (CreateLifiBridgeOps (teCrypto E) (beEvm B) account router tokenAddress amount amount (grQuote first)))
                    (\<lambda>ops.
                  bindA (onDeploy (sampleCallsOf (teCrypto E) (teDeployFiles E) account chainID ops)) (\<lambda>calls.
                  bindA (liftA (GetFeeStructure (teFloats E) (teTokens E) (teEstimate E) chainID tokenAddress [tokenAddress]
                           ''Emporium'' calls (Some PaySendVariableRate) None)) (\<lambda>fs.
                    liftA (Ok (paySendFeeStructure (givenFees fs)))))))))))"

definition zeroNativeDepositFeeStructure :: "feeStructure \<Rightarrow> feeStructure" where
  "zeroNativeDepositFeeStructure fs =
     \<lparr>fsFeeToken = (if fsFeeToken fs = [] then ZeroAddress else fsFeeToken fs), fsFlatFee = 0, fsVariableRate = 0\<rparr>"

subsection \<open>The batch\<close>

fun depositedBridgeRecipients ::
  "bridgeRecipient list \<Rightarrow> depositedUtxo list \<Rightarrow> depositedUtxo list \<Rightarrow> bridgeRecipientUtxo list res" where
  "depositedBridgeRecipients [] mains natives = Ok []"
| "depositedBridgeRecipients (r # rs) [] natives = Panic ''index out of range''"
| "depositedBridgeRecipients (r # rs) (m # mains) natives =
     andThen (depositedBridgeRecipients rs mains (tl natives)) (\<lambda>out.
       Ok (\<lparr>guRecipient = r, guUtxo = duUtxo m,
            guNativeUtxo = (case natives of [] \<Rightarrow> None | n # ns \<Rightarrow> Some (duUtxo n))\<rparr> # out))"

definition bridgeInputUtxoForToken :: "cryptoLib \<Rightarrow> string \<Rightarrow> (nat \<Rightarrow> bytes res) \<Rightarrow> utxo \<Rightarrow> string \<Rightarrow> utxo res" where
  "bridgeInputUtxoForToken C now rand source tokenAddress =
     (if equalFold (uxErc20 source) tokenAddress then Ok source
      else CreateFrom C now rand source (emptyPatch\<lparr>upErc20 := tokenAddress\<rparr>))"

text \<open>The deposited utxo of a token as it is spent, with an empty utxo beside it; draws \<open>j\<close> and \<open>j + 1\<close> of row \<open>i\<close>.\<close>

definition bridgePair ::
  "('d, 'k, 'f, 'a, 'w) txEnv \<Rightarrow> nat \<Rightarrow> nat \<Rightarrow> utxo \<Rightarrow> string \<Rightarrow> (('d, 'w) txState, utxo \<times> utxo) action" where
  "bridgePair E i j source tokenAddress =
     bindA (liftA (bridgeInputUtxoForToken (teCrypto E) (teOutClock E i j) (teOutRand E i j) source tokenAddress)) (\<lambda>u.
     bindA (onWallet (onKeys (buildDepositAndWithdrawZeroUtxo (teCrypto E) (teOutClock E i (j + 1)) (teOutRand E i (j + 1)) tokenAddress
              u (timeStampText E)))) (\<lambda>zeroUtxo. liftA (Ok (u, zeroUtxo))))"

text \<open>The tokens a recipient's transaction spends: the bridged one and, for a fee in another token, the native one.\<close>

definition bridgePairs ::
  "('d, 'k, 'f, 'a, 'w) txEnv \<Rightarrow> nat \<Rightarrow> string \<Rightarrow> bridgeRecipientUtxo \<Rightarrow> (('d, 'w) txState, (utxo \<times> utxo) list) action" where
  "bridgePairs E i tokenAddress r =
     bindA (bridgePair E i 0 (guUtxo r) tokenAddress) (\<lambda>main.
       if 0 < nativeFeeValue (grQuote (guRecipient r)) \<and> \<not> equalFold tokenAddress ZeroAddress
       then
         (case guNativeUtxo r of
            None \<Rightarrow> liftA (Err (ErrMsg ''transactions: native fee UTXO is required for Lifi bridge''))
          | Some native \<Rightarrow> bindA (bridgePair E i 2 native ZeroAddress) (\<lambda>n. liftA (Ok [main, n])))
       else liftA (Ok [main]))"

definition authorizationFor ::
  "('d, 'k, 'f, 'a, 'w) txEnv \<Rightarrow> ('e, 'w) bridgeEnv \<Rightarrow> int \<Rightarrow> string \<Rightarrow> (('d, 'w) txState, authorizationData option) action" where
  "authorizationFor E B chainID privateKey s =
     onDeploy (GetAuthorizationDataIfNeeded (teCrypto E) (beEvm B) (teDeployFiles E) (beAddressBytes B) (beCodeAt B (tsWorld s))
       (beNonceAt B (tsWorld s)) (beSignSetCode B) chainID privateKey) s"

definition bridgeItem ::
  "('d, 'k, 'f, 'a, 'w) txEnv \<Rightarrow> ('e, 'w) bridgeEnv \<Rightarrow> int \<Rightarrow> erc20Token \<Rightarrow> feeStructure \<Rightarrow> string \<Rightarrow> string \<Rightarrow> string \<Rightarrow> string \<Rightarrow>
   nat \<Rightarrow> bridgeRecipientUtxo \<Rightarrow> (('d, 'w) txState, relayerBatchItem) action" where
  "bridgeItem E B chainID token fs hashed emporium router relay i r =
     (let recipient = guRecipient r; account = grAccount recipient; tokenAddress = tkAddress token in
      bindA (onWorld (beAddNonce B chainID hashed (wxIndex account))) (\<lambda>_.
      bindA (bridgePairs E i tokenAddress r) (\<lambda>pairs.
      bindA (liftA (deref (uxAmount (fst (hd pairs))))) (\<lambda>fundAmount.
      bindA (liftA (deref (grBridgeAmount recipient))) (\<lambda>bridgeAmount.
      bindA (liftA (CreateLifiBridgeOps (teCrypto E) (beEvm B) (wxEthAddress account) router tokenAddress fundAmount bridgeAmount
               (grQuote recipient))) (\<lambda>ops.
      bindA (liftA (modifiedFees E chainID token bridgeAmount fs)) (\<lambda>bridgeFees.
      bindA (\<lambda>s. proveAs E ((plainZkParams chainID s (map (\<lambda>(u, z). [u, z]) pairs) (map (\<lambda>(u, z). [z]) pairs) emporium bridgeFees relay
               [])\<lparr>zkExternalActionID := ''Emporium'', zkExternalActionMetadata := ops,
               zkOnChainCreation := Some (map (\<lambda>_. False) pairs), zkSubAccountPrivateKey := wxPrivateKey account\<rparr>) s) (\<lambda>proof.
      bindA (authorizationFor E B chainID (wxPrivateKey account)) (\<lambda>authorization.
        liftA (Ok \<lparr>biZkCallData = zrCallData proof, biDimData = zrDimData proof, biCircomData = zrCircomData proof,
          biCommitment = zrCommitment proof, biUniswapWorkAround = False, biAuthorization = authorization,
          biRecipient = grRecipientAddress recipient, biTronSignature = None\<rparr>))))))))))"

fun bridgeItems ::
  "('d, 'k, 'f, 'a, 'w) txEnv \<Rightarrow> ('e, 'w) bridgeEnv \<Rightarrow> int \<Rightarrow> erc20Token \<Rightarrow> feeStructure \<Rightarrow> string \<Rightarrow> string \<Rightarrow> string \<Rightarrow> string \<Rightarrow>
   nat \<Rightarrow> bridgeRecipientUtxo list \<Rightarrow> (('d, 'w) txState, relayerBatchItem list) action" where
  "bridgeItems E B chainID token fs hashed emporium router relay i [] = liftA (Ok [])"
| "bridgeItems E B chainID token fs hashed emporium router relay i (r # rs) =
     bindA (bridgeItem E B chainID token fs hashed emporium router relay i r) (\<lambda>item.
     bindA (bridgeItems E B chainID token fs hashed emporium router relay (i + 1) rs) (\<lambda>items. liftA (Ok (item # items))))"

definition hinkalBridgeBatch ::
  "('d, 'k, 'f, 'a, 'w) txEnv \<Rightarrow> ('d, 'w) depositEnv \<Rightarrow> ('e, 'w) bridgeEnv \<Rightarrow> int \<Rightarrow> erc20Token \<Rightarrow> bridgeRecipientUtxo list \<Rightarrow>
   feeStructure \<Rightarrow> string \<Rightarrow> string \<Rightarrow> int option \<Rightarrow> (('d, 'w) txState, string) action" where
  "hinkalBridgeBatch E D B chainID token recipients fs hashed statusID txCompletionTime =
     (if recipients = [] then liftA (Err (ErrMsg ''transactions: depositAndBridge recipients must not be empty''))
      else
        bindA (onDeploy (GetContractData (teDeployFiles E) chainID)) (\<lambda>contractData.
          if ddEmporiumAddress contractData = [] then liftA (Err (ErrMsg ''transactions: emporium address not set''))
          else
            bindA (liftA (LifiRouterAddress chainID)) (\<lambda>router.
            bindA (relayerAddress E chainID) (\<lambda>relay.
            bindA (liftA (dpFetchClient D chainID)) (\<lambda>_.
            bindA (bridgeItems E B chainID token fs hashed (ddEmporiumAddress contractData) router relay 0 recipients) (\<lambda>items.
              onWorld (scheduleBatch D chainID items hashed statusID txCompletionTime)))))))"

subsection \<open>HinkalDepositAndBridge\<close>

text \<open>The native utxos that pay the bridge's fees, when there are any and the token itself is not native.\<close>

definition nativeBridgeDeposits ::
  "('d, 'k, 'f, 'a, 'w) txEnv \<Rightarrow> ('d, 'w) depositEnv \<Rightarrow> int \<Rightarrow> string \<Rightarrow> bridgeRecipient list \<Rightarrow> feeStructure \<Rightarrow> string \<Rightarrow> bool \<Rightarrow>
   (('d, 'w) txState, depositedUtxo list) action" where
  "nativeBridgeDeposits EN DN chainID tokenAddress recipients fs hashed preEstimateGas =
     (let nativeFees = map (\<lambda>r. nativeFeeValue (grQuote r)) recipients in
      if 0 < sum_list nativeFees \<and> \<not> equalFold tokenAddress ZeroAddress
      then
        (case lookupToken (teTokens EN) ZeroAddress chainID of
           None \<Rightarrow> liftA (Err (ErrMsg ''transactions: native token not found''))
         | Some nativeToken \<Rightarrow>
             bindA (HinkalDepositOnChainUtxos EN DN chainID nativeToken nativeFees (map grRecipientAddress recipients)
                      (zeroNativeDepositFeeStructure fs) hashed preEstimateGas) (\<lambda>(deposited, statusID, hash).
               liftA (Ok deposited)))
      else liftA (Ok []))"

definition HinkalDepositAndBridge ::
  "('d, 'k, 'f, 'a, 'w) txEnv \<Rightarrow> ('d, 'w) depositEnv \<Rightarrow> ('d, 'k, 'f, 'a, 'w) txEnv \<Rightarrow> ('d, 'w) depositEnv \<Rightarrow> ('e, 'w) bridgeEnv \<Rightarrow>
   erc20Token list \<Rightarrow> bridgeRecipient list \<Rightarrow> int option \<Rightarrow> feeOverride option \<Rightarrow> bool \<Rightarrow> (('d, 'w) txState, string \<times> string) action" where
  "HinkalDepositAndBridge E D EN DN B tokens recipients txCompletionTime override preEstimateGas =
     bindA (liftA (ValidateAndGetChainID tokens)) (\<lambda>chainID.
       if IsSolanaLike chainID \<or> IsTronLike chainID
       then liftA (Err (ErrMsg ''transactions: depositAndBridge supports EVM source chains only''))
       else
         bindA (liftA (validateDepositAndBridgeArgs tokens recipients)) (\<lambda>_.
         (let token = hd tokens; tokenAddress = tkAddress token; amounts = map (\<lambda>r. zeroIfNil (grBridgeAmount r)) recipients in
          bindA (ethereumAddressOf chainID) (\<lambda>rawAddress.
          bindA (liftA (tronHex (teCrypto E) rawAddress)) (\<lambda>address.
          (let hashed = HashEthereumAddress (keccak256 (teCrypto E)) address in
           bindA (resolveDepositAndBridgeFeeStructure E B chainID tokenAddress recipients override) (\<lambda>fs.
           bindA (HinkalDepositOnChainUtxos E D chainID token amounts (map grRecipientAddress recipients) fs hashed preEstimateGas)
             (\<lambda>(mains, statusID, depositTxHash).
           bindA (nativeBridgeDeposits EN DN chainID tokenAddress recipients fs hashed preEstimateGas) (\<lambda>natives.
           bindA (waitForDepositedUtxosInMerkleTree (teCrypto E) D chainID (mains @ natives)) (\<lambda>_.
           bindA (liftA (depositedBridgeRecipients recipients mains natives)) (\<lambda>deposited.
           bindA (hinkalBridgeBatch E D B chainID token deposited fs hashed statusID txCompletionTime) (\<lambda>scheduleID.
             liftA (Ok (depositTxHash, scheduleID))))))))))))))"

end
