(* ===== verification/NearTx.thy ===== *)
theory NearTx
  imports SolanaPay
begin

text \<open>
  Bridging through NEAR Intents: \<open>internal/functions/transactions/near_deposit_and_bridge.go\<close>. A quote per recipient gives the
  address to pay on the source chain; the deposit then pays these addresses. The time, its text forms and the quotes are
  the fields of \<open>nearEnv\<close>.
\<close>

record nearQuoteRequest =
  nqDry :: bool
  nqSwapType :: string
  nqSlippageTolerance :: int
  nqOriginAsset :: string
  nqDepositType :: string
  nqDestinationAsset :: string
  nqAmount :: string
  nqRecipient :: string
  nqRecipientType :: string
  nqRefundTo :: string
  nqRefundType :: string
  nqDeadline :: string

record nearQuote =
  naDepositAddress :: string
  naAmountOut :: string
  naDeadline :: string
  naTimeWhenInactive :: string

record nearBridgeParams =
  npOriginAsset :: string
  npDestinationChainID :: int
  npDestinationAsset :: string
  npSlippageBps :: "int option"

record nearBridgeLeg =
  nlDestinationRecipient :: string
  nlAmount :: int
  nlDepositAddress :: string
  nlQuote :: nearQuote

record 'w nearEnv =
  neNowMs :: int                                              \<comment> \<open>time.Now in milliseconds\<close>
  neFormatMs :: "int \<Rightarrow> string"                               \<comment> \<open>UTC text of a time in milliseconds\<close>
  neParseMs :: "string \<Rightarrow> int res"                            \<comment> \<open>RFC 3339 text read as milliseconds\<close>
  neQuoted :: "string \<Rightarrow> string"                              \<comment> \<open>the verb q of fmt\<close>
  neQuote :: "nearQuoteRequest \<Rightarrow> ('w, nearQuote) action"      \<comment> \<open>GetNearIntentsQuote\<close>

definition NearBridgeQuoteDeadlineBufferMS :: int where
  "NearBridgeQuoteDeadlineBufferMS = 20 * 60 * 1000"

definition NearBridgeSlippageBPS :: int where
  "NearBridgeSlippageBPS = 100"

text \<open>Seconds become milliseconds in 64 bits.\<close>

definition nearBridgeExecutionTimeMs :: "'w nearEnv \<Rightarrow> int option \<Rightarrow> int" where
  "nearBridgeExecutionTimeMs N txCompletionTime =
     (case txCompletionTime of None \<Rightarrow> neNowMs N | Some t \<Rightarrow> int64 (t * 1000))"

definition nearBridgeDeadline :: "'w nearEnv \<Rightarrow> int \<Rightarrow> string" where
  "nearBridgeDeadline N executionTimeMs = neFormatMs N (int64 (executionTimeMs + NearBridgeQuoteDeadlineBufferMS))"

definition validateNearBridgeQuoteDeadline :: "'w nearEnv \<Rightarrow> nearQuote \<Rightarrow> int \<Rightarrow> unit res" where
  "validateNearBridgeQuoteDeadline N quote executionTimeMs =
     (if naDeadline quote = [] then Ok ()
      else
        andThen (wrapErr (''transactions: invalid NEAR Intents quote deadline '' @ neQuoted N (naDeadline quote))
                   (neParseMs N (naDeadline quote))) (\<lambda>deadline.
          if deadline < executionTimeMs
          then Err (ErrMsg ''Bridge quote expires before the scheduled execution time. Choose a sooner time.'')
          else Ok ()))"

definition buildNearBridgeFeeStructure ::
  "('d, 'k, 'f, 'a, 'w) txEnv \<Rightarrow> int \<Rightarrow> erc20Token \<Rightarrow> string \<Rightarrow> feeStructure res" where
  "buildNearBridgeFeeStructure E chainID token recipient =
     estimatedFees E chainID (tkAddress token) [tkAddress token] ''Transact'' (Some HinkalPrivateSendVariableRate)
       (Some \<lparr>sgMintTo = tkAddress token, sgMintFrom = [], sgRecipient = recipient,
         sgNullifierCount = (if equalFold (tkAddress token) SolanaNativeAddress then 0 else 1)\<rparr>)"

definition nearRequest :: "nearBridgeParams \<Rightarrow> string \<Rightarrow> string \<Rightarrow> int \<Rightarrow> string \<Rightarrow> nearQuoteRequest" where
  "nearRequest params refundTo deadline amount recipient =
     \<lparr>nqDry = False, nqSwapType = ''EXACT_INPUT'',
      nqSlippageTolerance = (case npSlippageBps params of None \<Rightarrow> NearBridgeSlippageBPS | Some b \<Rightarrow> b),
      nqOriginAsset = npOriginAsset params, nqDepositType = ''ORIGIN_CHAIN'', nqDestinationAsset = npDestinationAsset params,
      nqAmount = bigString amount, nqRecipient = recipient, nqRecipientType = ''DESTINATION_CHAIN'', nqRefundTo = refundTo,
      nqRefundType = ''INTENTS'', nqDeadline = deadline\<rparr>"

definition nearLeg ::
  "'w nearEnv \<Rightarrow> nearBridgeParams \<Rightarrow> string \<Rightarrow> int \<Rightarrow> string \<Rightarrow> int \<Rightarrow> ('w, nearBridgeLeg) action" where
  "nearLeg N params refundTo executionTimeMs recipient amount =
     bindA (neQuote N (nearRequest params refundTo (nearBridgeDeadline N executionTimeMs) amount recipient)) (\<lambda>quote.
       if naDepositAddress quote = []
       then liftA (Err (ErrMsg (''NEAR Intents quote returned no deposit address for recipient '' @ recipient)))
       else
         bindA (liftA (validateNearBridgeQuoteDeadline N quote executionTimeMs)) (\<lambda>_.
           liftA (Ok \<lparr>nlDestinationRecipient = recipient, nlAmount = amount, nlDepositAddress = naDepositAddress quote,
             nlQuote = quote\<rparr>)))"

fun nearLegs ::
  "'w nearEnv \<Rightarrow> nearBridgeParams \<Rightarrow> string \<Rightarrow> int \<Rightarrow> string list \<Rightarrow> int list \<Rightarrow> ('w, nearBridgeLeg list) action" where
  "nearLegs N params refundTo executionTimeMs [] amounts = liftA (Ok [])"
| "nearLegs N params refundTo executionTimeMs (r # rs) (a # amounts) =
     bindA (nearLeg N params refundTo executionTimeMs r a) (\<lambda>leg.
     bindA (nearLegs N params refundTo executionTimeMs rs amounts) (\<lambda>legs. liftA (Ok (leg # legs))))"
| "nearLegs N params refundTo executionTimeMs (r # rs) [] = liftA (Panic ''index out of range'')"

text \<open>The result is the hash of the deposit and the legs.\<close>

definition HinkalNearDepositAndBridge ::
  "('d, 'k, 'f, 'a, 'w) txEnv \<Rightarrow> ('d, 'w) depositEnv \<Rightarrow> 'w solanaServices \<Rightarrow> 'w solanaFetch \<Rightarrow> 'w nearEnv \<Rightarrow> erc20Token list \<Rightarrow>
   int option list \<Rightarrow> string list \<Rightarrow> nearBridgeParams \<Rightarrow> int option \<Rightarrow> feeOverride option \<Rightarrow>
   (('d, 'w) txState, string \<times> nearBridgeLeg list) action" where
  "HinkalNearDepositAndBridge E D S F N tokens recipientAmounts recipients params txCompletionTime override =
     (if length recipientAmounts \<noteq> length recipients
      then liftA (Err (ErrMsg ''transactions: recipientAmounts and recipientAddresses length mismatch''))
      else if recipientAmounts = [] then liftA (Err (ErrMsg ''No recipients to bridge''))
      else
        bindA (liftA (validateDepositAndWithdrawArgs tokens recipientAmounts recipients)) (\<lambda>_.
        bindA (liftA (ValidateAndGetChainID tokens)) (\<lambda>chainID.
        bindA (onWallet (onKeys (GetNearIntentsAccountID (teCrypto E)))) (\<lambda>refundTo.
        bindA (onWorld (nearLegs N params refundTo (nearBridgeExecutionTimeMs N txCompletionTime) recipients
                 (map zeroIfNil recipientAmounts))) (\<lambda>legs.
        bindA (liftA (case override of
                        Some f \<Rightarrow> Ok f
                      | None \<Rightarrow>
                          andThen (buildNearBridgeFeeStructure E chainID (hd tokens) (nlDepositAddress (hd legs))) (\<lambda>f.
                            Ok (givenFees f)))) (\<lambda>fs.
        (let amounts = map (\<lambda>l. Some (nlAmount l)) legs; addresses = map nlDepositAddress legs in
         bindA (if IsSolanaLike chainID
                then HinkalSolanaDepositAndWithdraw E D S F tokens amounts addresses txCompletionTime (Some fs)
                else HinkalDepositAndWithdraw E D tokens amounts addresses txCompletionTime (Some fs) True) (\<lambda>(depositTxHash, scheduleID).
           liftA (Ok (depositTxHash, legs)))))))))) "

end
