(* ===== verification/HinkalTx.thy ===== *)
theory HinkalTx
  imports HinkalProviders ProoflessTx SolanaSwap SolanaPay BridgeTx NearTx StuckTx ClaimTx
begin

text \<open>
  The entry points of the SDK: \<open>data-structures/hinkal/hinkal_transactions.go\<close> and \<open>hinkal_enclave_utxo_storage.go\<close>, and the
  balances of \<open>hinkal.go\<close>. Each resolves the token addresses on the chain it was called for and hands over to the transaction
  of that chain's family. \<open>T\<close> is \<open>api.GetTokensInfo\<close>.
\<close>

type_synonym tokensInfo = "int \<Rightarrow> string list \<Rightarrow> erc20Token option list res"

definition resolveERC20Tokens :: "tokensInfo \<Rightarrow> int \<Rightarrow> string list \<Rightarrow> erc20Token list res" where
  "resolveERC20Tokens T chainID erc20Addresses = ResolveERC20TokensStrict T chainID erc20Addresses"

definition resolveERC20Token :: "tokensInfo \<Rightarrow> int \<Rightarrow> string \<Rightarrow> erc20Token res" where
  "resolveERC20Token T chainID erc20Address = ResolveERC20TokenStrict T chainID erc20Address"

subsection \<open>The object the transactions see\<close>

text \<open>
  The accessors of \<open>HinkalInternal\<close> that read the state, as the wallet of \<open>Balance\<close>; what a transaction leaves of keys and
  cache goes back into the object.
\<close>

definition hinkalAddressText :: "'abi resetEnv \<Rightarrow> ('d, 'p, 'abi, 'w) hinkal \<Rightarrow> int \<Rightarrow> string" where
  "hinkalAddressText R h chainID =
     (case fst (hinkalAddressOf R chainID (hkDeploy h)) of Ok a \<Rightarrow> a | _ \<Rightarrow> [])"

definition walletOf :: "'abi resetEnv \<Rightarrow> ('x, 'w) providerLib \<Rightarrow> ('d, 'x, 'abi, 'w) sdk \<Rightarrow> 'd hinkalDevice wallet" where
  "walletOf R P h =
     \<lparr>wlKeys = hkUserKeys h,
      wlOutputs = (\<lambda>c. case hkOutputs h c of None \<Rightarrow> [] | Some outs \<Rightarrow> outs),
      wlNullifiers = (\<lambda>c. case hkNullifiers h c of None \<Rightarrow> {} | Some ns \<Rightarrow> ns),
      wlAddress = hinkalAddressText R h,
      wlUpdatesDisabled = hkUpdatesDisabled h,
      wlProofRemotely = hkProofRemotely h,
      wlEthAddress = GetEthereumAddressByChain P h,
      wlCache = hkCache h\<rparr>"

definition putWallet :: "'d hinkalDevice wallet \<Rightarrow> ('d, 'x, 'abi, 'w) sdk \<Rightarrow> ('d, 'x, 'abi, 'w) sdk" where
  "putWallet wl h = h\<lparr>hkUserKeys := wlKeys wl, hkCache := wlCache wl\<rparr>"

definition GetBalances ::
  "'abi resetEnv \<Rightarrow> ('x, 'w) providerLib \<Rightarrow> 'd hinkalDevice walletEnv \<Rightarrow> (string \<Rightarrow> string res) \<Rightarrow> (int \<Rightarrow> erc20Token list) \<Rightarrow>
   int \<Rightarrow> string \<Rightarrow> string \<Rightarrow> bool \<Rightarrow> bool \<Rightarrow> (('d, 'x, 'abi, 'w) sdk, string \<rightharpoonup> tokenBalance) action" where
  "GetBalances R P E toHexFormat registry chainID passedKey ethAddress resetCacheBefore useBlocked h =
     (case GetShieldedBalance E toHexFormat (registry chainID)
             \<lparr>ipChainID = chainID, ipPassedKey = passedKey, ipEthAddress = ethAddress, ipResetCacheBefore = resetCacheBefore,
              ipAllowRemote = hkProofRemotely h, ipUseBlocked = False\<rparr> useBlocked (walletOf R P h) of
        (r, wl) \<Rightarrow> (r, putWallet wl h))"

text \<open>One entry for each token of the registry, with zero for those the balances do not name.\<close>

definition totalEntry :: "(string \<rightharpoonup> tokenBalance) \<Rightarrow> erc20Token \<Rightarrow> tokenBalance" where
  "totalEntry balances token =
     (case balances (toLower (tkAddress token)) of
        None \<Rightarrow> \<lparr>tbToken = token, tbBalance = 0, tbTimestamp = ''0''\<rparr>
      | Some b \<Rightarrow> \<lparr>tbToken = token, tbBalance = tbBalance b,
                  tbTimestamp = (if tbTimestamp b = [] then ''0'' else tbTimestamp b)\<rparr>)"

text \<open>Keys given by the caller are used for their public key only; without them the object's own keys are.\<close>

definition publicKeyFor :: "cryptoLib \<Rightarrow> userKeys option \<Rightarrow> (('d, 'p, 'abi, 'w) hinkal, string) action" where
  "publicKeyFor C keys h =
     (case keys of
        Some uk \<Rightarrow> (fst (GetShieldedPublicKey C uk), h)
      | None \<Rightarrow> (case GetShieldedPublicKey C (hkUserKeys h) of (r, uk) \<Rightarrow> (r, h\<lparr>hkUserKeys := uk\<rparr>)))"

definition GetTotalBalance ::
  "'abi resetEnv \<Rightarrow> ('x, 'w) providerLib \<Rightarrow> 'd hinkalDevice walletEnv \<Rightarrow> (string \<Rightarrow> string res) \<Rightarrow> (int \<Rightarrow> erc20Token list) \<Rightarrow>
   int \<Rightarrow> userKeys option \<Rightarrow> string \<Rightarrow> bool \<Rightarrow> bool \<Rightarrow> (('d, 'x, 'abi, 'w) sdk, tokenBalance list) action" where
  "GetTotalBalance R P E toHexFormat registry chainID keys ethAddress resetCacheBefore useBlocked =
     bindA (publicKeyFor (weCrypto E) keys) (\<lambda>shieldedPublicKey.
     bindA (GetBalances R P E toHexFormat registry chainID shieldedPublicKey ethAddress resetCacheBefore useBlocked) (\<lambda>balances.
       liftA (Ok (map (totalEntry balances) (registry chainID)))))"

definition GetStuckShieldedBalances ::
  "'abi resetEnv \<Rightarrow> ('x, 'w) providerLib \<Rightarrow> 'd hinkalDevice walletEnv \<Rightarrow> (string \<Rightarrow> string res) \<Rightarrow> (int \<Rightarrow> erc20Token list) \<Rightarrow>
   int \<Rightarrow> userKeys option \<Rightarrow> string \<Rightarrow> (('d, 'x, 'abi, 'w) sdk, tokenBalance list) action" where
  "GetStuckShieldedBalances R P E toHexFormat registry chainID keys ethAddress =
     bindA (GetTotalBalance R P E toHexFormat registry chainID keys ethAddress False True) (\<lambda>balances.
       liftA (Ok (filter (\<lambda>b. 0 < tbBalance b) balances)))"

subsection \<open>Deposits\<close>

definition Deposit where
  "Deposit E T chainID erc20Addresses amountChanges preEstimateGas returnTxData =
     bindA (liftA (resolveERC20Tokens T chainID erc20Addresses)) (\<lambda>tokens.
       HinkalDeposit E tokens amountChanges preEstimateGas returnTxData)"

definition DepositForOther where
  "DepositForOther E T chainID erc20Addresses amountChanges recipientInfo preEstimateGas returnTxData =
     bindA (liftA (resolveERC20Tokens T chainID erc20Addresses)) (\<lambda>tokens.
       HinkalDepositForOther E tokens amountChanges recipientInfo preEstimateGas returnTxData)"

definition DepositSolana where
  "DepositSolana E S T chainID erc20Address amount returnTxData =
     bindA (liftA (resolveERC20Token T chainID erc20Address)) (\<lambda>token. HinkalSolanaDeposit E S amount token returnTxData)"

definition DepositSolanaForOther where
  "DepositSolanaForOther E S T chainID erc20Address amount recipientInfo returnTxData =
     bindA (liftA (resolveERC20Token T chainID erc20Address)) (\<lambda>token.
       HinkalSolanaDepositForOther E S amount token recipientInfo returnTxData)"

text \<open>On Solana the request is empty and the text is the outcome.\<close>

definition asSolana :: "('s, string) action \<Rightarrow> ('s, txRequest \<times> string) action" where
  "asSolana m = bindA m (\<lambda>t. liftA (Ok (emptyRequest, t)))"

definition ProoflessDeposit where
  "ProoflessDeposit E S T chainID erc20Addresses amountChanges structures returnTxData =
     bindA (liftA (resolveERC20Tokens T chainID erc20Addresses)) (\<lambda>tokens.
       if IsSolanaLike chainID then asSolana (HinkalSolanaProoflessDeposit E S tokens amountChanges structures returnTxData)
       else HinkalProoflessDeposit E tokens amountChanges structures returnTxData)"

definition ProoflessDepositWithPublicFee where
  "ProoflessDepositWithPublicFee E S T chainID erc20Address amounts structures feeAmount =
     bindA (liftA (resolveERC20Token T chainID erc20Address)) (\<lambda>token.
       HinkalProoflessDepositWithPublicFee E S chainID token amounts structures feeAmount)"

subsection \<open>Withdrawals, transfers, claims, swaps\<close>

definition Withdraw where
  "Withdraw E S T chainID erc20Addresses amountChanges recipientAddress isRelayerOff feeToken override =
     bindA (liftA (resolveERC20Tokens T chainID erc20Addresses)) (\<lambda>tokens.
       if IsSolanaLike chainID then asSolana (HinkalSolanaWithdraw E S tokens amountChanges recipientAddress feeToken override)
       else HinkalWithdraw E tokens amountChanges recipientAddress isRelayerOff feeToken override)"

definition Transfer where
  "Transfer E S T chainID erc20Addresses amountChanges recipientAddress feeToken override =
     bindA (liftA (resolveERC20Tokens T chainID erc20Addresses)) (\<lambda>tokens.
       if IsSolanaLike chainID then HinkalSolanaTransfer E S tokens amountChanges recipientAddress feeToken override
       else HinkalTransfer E tokens amountChanges recipientAddress feeToken override)"

definition ClaimUtxo where
  "ClaimUtxo E S T chainID erc20Address claimableUtxo override claimableSignature =
     bindA (liftA (resolveERC20Tokens T chainID [erc20Address])) (\<lambda>tokens.
       if IsSolanaLike chainID then HinkalSolanaClaimUtxo E S tokens claimableUtxo override claimableSignature
       else HinkalClaimUtxo E tokens claimableUtxo override claimableSignature)"

text \<open>\<open>parse\<close> is \<open>json.Unmarshal\<close> of the swap's data: its instructions, lookup tables and salt text.\<close>

definition SwapSolana where
  "SwapSolana E S T parse chainID erc20Addresses deltaAmounts swapData feeToken override =
     bindA (liftA (parse swapData)) (\<lambda>(instructionLists, lookupTables, saltText).
       (case setString 10 saltText of
          None \<Rightarrow> liftA (Err (ErrMsg ''hinkal: invalid swapperAccountSalt in swap data''))
        | Some salt \<Rightarrow>
            bindA (liftA (resolveERC20Tokens T chainID erc20Addresses)) (\<lambda>tokens.
              HinkalSolanaSwap E S tokens deltaAmounts (Some salt) instructionLists lookupTables feeToken override)))"

definition Swap where
  "Swap E S T parse chainID erc20Addresses deltaAmounts externalActionID swapData feeToken override =
     (if IsSolanaLike chainID then SwapSolana E S T parse chainID erc20Addresses deltaAmounts swapData feeToken override
      else
        bindA (liftA (resolveERC20Tokens T chainID erc20Addresses)) (\<lambda>tokens.
          HinkalSwap E tokens deltaAmounts externalActionID swapData feeToken override))"

subsection \<open>Paying others\<close>

definition DepositAndWithdraw where
  "DepositAndWithdraw E D S F T chainID erc20Address recipientAmounts recipients txCompletionTime override preEstimateGas =
     bindA (liftA (resolveERC20Tokens T chainID [erc20Address])) (\<lambda>tokens.
       if IsSolanaLike chainID
       then HinkalSolanaDepositAndWithdraw E D S F tokens recipientAmounts recipients txCompletionTime override
       else HinkalDepositAndWithdraw E D tokens recipientAmounts recipients txCompletionTime override preEstimateGas)"

definition DepositAndBridge where
  "DepositAndBridge E D EN DN B T chainID erc20Address recipients txCompletionTime override preEstimateGas =
     bindA (liftA (resolveERC20Tokens T chainID [erc20Address])) (\<lambda>tokens.
       HinkalDepositAndBridge E D EN DN B tokens recipients txCompletionTime override preEstimateGas)"

definition NearDepositAndBridge where
  "NearDepositAndBridge E D S F N T chainID erc20Address recipientAmounts recipients params txCompletionTime override =
     bindA (liftA (resolveERC20Tokens T chainID [erc20Address])) (\<lambda>tokens.
       HinkalNearDepositAndBridge E D S F N tokens recipientAmounts recipients params txCompletionTime override)"

text \<open>The loop over the stuck utxos may not end; then there is no outcome.\<close>

definition WithdrawStuckUtxos where
  "WithdrawStuckUtxos E S K T chainID erc20Address recipientAddress s =
     (case resolveERC20Tokens T chainID [erc20Address] of
        Ok tokens \<Rightarrow> HinkalWithdrawStuckUtxos E S K tokens recipientAddress s
      | Err e \<Rightarrow> Some (Err e, s)
      | Panic p \<Rightarrow> Some (Panic p, s))"

definition hinkalGetRecipientInfo :: "cryptoLib \<Rightarrow> string \<Rightarrow> (nat \<Rightarrow> bytes res) \<Rightarrow> (('d, 'p, 'abi, 'w) hinkal, string) action" where
  "hinkalGetRecipientInfo C now rand h =
     (case GetRecipientInfoFromUserKeys C now rand (hkUserKeys h) of (r, uk) \<Rightarrow> (r, h\<lparr>hkUserKeys := uk\<rparr>))"

end
