(* ===== verification/HinkalApi.thy ===== *)
theory HinkalApi
  imports HinkalTx ApiCalls NearTx
begin

text \<open>
  What the SDK object hands over to the servers and to its own parts: the accessors of \<open>data-structures/hinkal/hinkal.go\<close>, the
  status request of \<open>hinkal_transactions.go\<close> and the two methods of \<open>hinkal_enclave_utxo_storage.go\<close>.
\<close>

subsection \<open>hinkal.go\<close>

definition MerkleTreeOf :: "('d, 'p, 'abi, 'w) hinkal \<Rightarrow> int \<Rightarrow> merkleTree option" where
  "MerkleTreeOf h chainID = hkTrees h chainID"

definition EncryptedOutputsOf :: "('d, 'p, 'abi, 'w) hinkal \<Rightarrow> int \<Rightarrow> encryptedOutputWithSign list" where
  "EncryptedOutputsOf h chainID = (case hkOutputs h chainID of None \<Rightarrow> [] | Some outs \<Rightarrow> outs)"

definition NullifiersOf :: "('d, 'p, 'abi, 'w) hinkal \<Rightarrow> int \<Rightarrow> string set" where
  "NullifiersOf h chainID = (case hkNullifiers h chainID of None \<Rightarrow> {} | Some ns \<Rightarrow> ns)"

definition AreMerkleTreeUpdatesDisabled :: "('d, 'p, 'abi, 'w) hinkal \<Rightarrow> bool" where
  "AreMerkleTreeUpdatesDisabled h = hkUpdatesDisabled h"

definition GenerateProofRemotely :: "('d, 'p, 'abi, 'w) hinkal \<Rightarrow> bool" where
  "GenerateProofRemotely h = hkProofRemotely h"

definition GetUserKeys :: "('d, 'p, 'abi, 'w) hinkal \<Rightarrow> userKeys" where
  "GetUserKeys h = hkUserKeys h"

definition CacheDeviceOf :: "('d, 'p, 'abi, 'w) hinkal \<Rightarrow> 'd hinkalDevice" where
  "CacheDeviceOf h = hkCache h"

text \<open>Asking for the public key may fill the cache of the keys.\<close>

definition hinkalShieldedPublicKey :: "cryptoLib \<Rightarrow> (('d, 'p, 'abi, 'w) hinkal, string) action" where
  "hinkalShieldedPublicKey C h =
     (case GetShieldedPublicKey C (hkUserKeys h) of (r, uk) \<Rightarrow> (r, h\<lparr>hkUserKeys := uk\<rparr>))"

definition GetRandomRelay :: "('f, 'w) apiLib \<Rightarrow> deploymentMode \<Rightarrow> int \<Rightarrow> bool \<Rightarrow> ('w, string) action" where
  "GetRandomRelay L m chainID markAsPending = GetIdleRelay L m chainID markAsPending"

subsection \<open>hinkal_transactions.go, hinkal_enclave_utxo_storage.go\<close>

definition CheckSendTransactionStatus :: "('f, 'w) apiLib \<Rightarrow> deploymentMode \<Rightarrow> string \<Rightarrow> ('w, scheduledTransaction) action" where
  "CheckSendTransactionStatus L m scheduleID = GetScheduledTransactionByID L m scheduleID"

definition hinkalStoreUtxoInEnclave ::
  "cryptoLib \<Rightarrow> 'k enclaveLib \<Rightarrow> string \<Rightarrow> string \<Rightarrow> utxo \<Rightarrow> int \<Rightarrow> string \<Rightarrow> unit res" where
  "hinkalStoreUtxoInEnclave C L senderAddress recipientEthAddress u chainID claimableSignature =
     StoreUtxoInEnclave C L senderAddress recipientEthAddress u chainID claimableSignature"

definition hinkalGetUtxosFromEnclave ::
  "cryptoLib \<Rightarrow> 'k enclaveLib \<Rightarrow> (nat \<Rightarrow> string) \<Rightarrow> (nat \<Rightarrow> nat \<Rightarrow> bytes res) \<Rightarrow> string \<Rightarrow> string \<Rightarrow> int \<Rightarrow> bool \<Rightarrow> string \<Rightarrow>
   utxoWithSender list res" where
  "hinkalGetUtxosFromEnclave C L clock rand ethAddress signature chainID isSolanaLedger txMessageForSolanaLedger =
     GetUtxosFromEnclave C L clock rand ethAddress signature chainID isSolanaLedger txMessageForSolanaLedger"

section \<open>NEAR bridges and volatile tokens: near_intents.go, simulate.go\<close>

text \<open>
  The calls behind NEAR bridges and volatile tokens: \<open>internal/api/near_intents.go\<close> and \<open>simulate.go\<close>. They are the functions that
  \<open>NearTx\<close> and \<open>PreTransaction\<close> take as arguments.
\<close>

definition nearQuoteRequestJson :: "nearQuoteRequest \<Rightarrow> json" where
  "nearQuoteRequestJson r =
     JObj [(''dry'', JBool (nqDry r)), (''swapType'', JStr (nqSwapType r)), (''slippageTolerance'', jInt (nqSlippageTolerance r)),
           (''originAsset'', JStr (nqOriginAsset r)), (''depositType'', JStr (nqDepositType r)),
           (''destinationAsset'', JStr (nqDestinationAsset r)), (''amount'', JStr (nqAmount r)),
           (''recipient'', JStr (nqRecipient r)), (''recipientType'', JStr (nqRecipientType r)),
           (''refundTo'', JStr (nqRefundTo r)), (''refundType'', JStr (nqRefundType r)), (''deadline'', JStr (nqDeadline r))]"

definition zeroNearQuote :: nearQuote where
  "zeroNearQuote = \<lparr>naDepositAddress = [], naAmountOut = [], naDeadline = [], naTimeWhenInactive = []\<rparr>"

definition nearQuoteFields :: "(string \<times> (nearQuote \<Rightarrow> json \<Rightarrow> nearQuote res)) list" where
  "nearQuoteFields =
     [field ''depositAddress'' ontoString naDepositAddress naDepositAddress_update,
      field ''amountOut'' ontoString naAmountOut naAmountOut_update,
      field ''deadline'' ontoString naDeadline naDeadline_update,
      field ''timeWhenInactive'' ontoString naTimeWhenInactive naTimeWhenInactive_update]"

definition GetNearIntentsQuote ::
  "('f, 'w) apiLib \<Rightarrow> deploymentMode \<Rightarrow> nearQuoteRequest \<Rightarrow> ('w, nearQuote) action" where
  "GetNearIntentsQuote L m req =
     apiPost L (GetServerURL m @ routeCallNearIntentsQuote) (nearQuoteRequestJson req)
       (ontoRecord [field ''quote'' (ontoRecord nearQuoteFields) id id] zeroNearQuote)"

record nearToken =
  ntAssetID :: string
  ntDecimals :: int
  ntBlockchain :: string
  ntSymbol :: string
  ntContractAddress :: string

definition nearTokenFields :: "(string \<times> (nearToken \<Rightarrow> json \<Rightarrow> nearToken res)) list" where
  "nearTokenFields =
     [field ''assetId'' ontoString ntAssetID ntAssetID_update,
      field ''decimals'' ontoInt ntDecimals ntDecimals_update,
      field ''blockchain'' ontoString ntBlockchain ntBlockchain_update,
      field ''symbol'' ontoString ntSymbol ntSymbol_update,
      field ''contractAddress'' ontoString ntContractAddress ntContractAddress_update]"

definition GetNearIntentsTokens :: "('f, 'w) apiLib \<Rightarrow> deploymentMode \<Rightarrow> ('w, nearToken list) action" where
  "GetNearIntentsTokens L m =
     apiGet L (GetServerURL m @ routeCallNearIntentsTokens)
       (ontoRecords nearTokenFields
          \<lparr>ntAssetID = [], ntDecimals = 0, ntBlockchain = [], ntSymbol = [], ntContractAddress = []\<rparr> [])"

subsection \<open>simulate.go\<close>

definition volatileChangeJson :: "volatileChange \<Rightarrow> json" where
  "volatileChangeJson c =
     JObj ([(''tokenAddress'', JStr (vcTokenAddress c)), (''amount'', JStr (vcAmount c))]
       @ unlessEmpty ''targetAddress'' (vcTargetAddress c)
       @ [(''originalIndex'', jInt (int (vcOriginalIndex c)))])"

text \<open>The error text of a simulation is decoded and not read.\<close>

definition volatileResultFields :: "(string \<times> (volatileResult \<Rightarrow> json \<Rightarrow> volatileResult res)) list" where
  "volatileResultFields =
     [field ''success'' ontoBool vrSuccess vrSuccess_update,
      field ''balanceDifference'' ontoString vrBalanceDifference vrBalanceDifference_update,
      dropField ''error'' (ontoString [])]"

text \<open>A nil list of changes is \<open>null\<close>; the code never sends one.\<close>

definition SimulateVolatileTokenTransfer ::
  "('f, 'w) apiLib \<Rightarrow> deploymentMode \<Rightarrow> int \<Rightarrow> volatileChange list \<Rightarrow> ('w, volatileResult list) action" where
  "SimulateVolatileTokenTransfer L m chainID tokenTransfers =
     apiPost L (GetServerURL m @ routeSimulateVolatileTokenTransfer)
       (JObj [(''chainId'', jInt chainID), (''tokenTransfers'', JArr (map volatileChangeJson tokenTransfers))])
       (ontoRecords volatileResultFields \<lparr>vrSuccess = False, vrBalanceDifference = []\<rparr> [])"

text \<open>A quote without its optional times is read with empty ones, and a field that is not known changes nothing.\<close>

lemma near_quote_decoded:
  assumes "fieldNamed nearQuoteFields k = None"
  shows "ontoRecord [field ''quote'' (ontoRecord nearQuoteFields) id id] zeroNearQuote
           (JObj [(''quote'', JObj [(k, v), (''depositAddress'', JStr a), (''amountOut'', JStr n)])]) =
         Ok \<lparr>naDepositAddress = a, naAmountOut = n, naDeadline = [], naTimeWhenInactive = []\<rparr>"
  using assms
  by (simp add: ontoRecord_def ontoStruct_def fieldNamed_def nearQuoteFields_def field_def ontoString_def zeroNearQuote_def)

end
