(* ===== verification/RelayerCalls.thy ===== *)
theory RelayerCalls
  imports SolanaPay StuckTx ApiCalls EvmSendProps
begin

text \<open>
  The calls of the relayer that send transactions: \<open>internal/api/callrelayer.go\<close>, \<open>solana.go\<close> and
  \<open>deposit_and_withdraw_status.go\<close>. The bodies are the records of \<open>EvmSend\<close>, \<open>SolanaTx\<close> and \<open>DepositTx\<close>, written here as they go
  over the wire; the calls are the functions those theories take as arguments. A slice that was never made would be \<open>null\<close>
  where an empty one is \<open>[]\<close>; the model has one empty list and writes \<open>[]\<close>.
\<close>

subsection \<open>The parts of a body\<close>

definition jPair :: "string \<times> string \<Rightarrow> json" where
  "jPair p = jStrings [fst p, snd p]"

definition jRows :: "string list list \<Rightarrow> json" where
  "jRows xs = JArr (map jStrings xs)"

definition jInts :: "int list \<Rightarrow> json" where
  "jInts xs = JArr (map jInt xs)"

text \<open>\<open>omitempty\<close> on a pointer, on a slice of fields and on a boolean.\<close>

definition unlessNil :: "string \<Rightarrow> ('a \<Rightarrow> json) \<Rightarrow> 'a option \<Rightarrow> (string \<times> json) list" where
  "unlessNil k f x = (case x of None \<Rightarrow> [] | Some v \<Rightarrow> [(k, f v)])"

definition whenTrue :: "string \<Rightarrow> bool \<Rightarrow> (string \<times> json) list" where
  "whenTrue k b = (if b then [(k, JBool True)] else [])"

definition dimDataJson :: "dimData \<Rightarrow> json" where
  "dimDataJson d =
     JObj [(''tokenNumber'', jInt (int (dmTokenNumber d))), (''nullifierAmount'', jInt (int (dmNullifierAmount d))),
           (''outputAmount'', jInt (int (dmOutputAmount d)))]"

definition stealthStructureJson :: "stealthJson \<Rightarrow> json" where
  "stealthStructureJson s =
     JObj [(''extraRandomization'', JStr (sjExtraRandomization s)), (''stealthAddress'', JStr (sjStealthAddress s)),
           (''H0'', JStr (sjH0 s)), (''H1'', JStr (sjH1 s))]"

definition hookDataJson :: "hookData \<Rightarrow> json" where
  "hookDataJson h =
     JObj [(''hookContract'', JStr (hdHookContract h)), (''preHookContract'', JStr (hdPreHookContract h)),
           (''preHookMetadata'', JStr (hdPreHookMetadata h)), (''postHookMetadata'', JStr (hdPostHookMetadata h))]"

definition feeJson :: "feeStructureJson \<Rightarrow> json" where
  "feeJson f =
     JObj [(''feeToken'', JStr (fjFeeToken f)), (''flatFee'', JStr (fjFlatFee f)), (''variableRate'', JStr (fjVariableRate f))]"

definition signatureDataJson :: "signatureData \<Rightarrow> json" where
  "signatureDataJson s =
     JObj [(''r'', JStr (sdR s)), (''s'', JStr (sdS s)), (''v'', JStr (sdV s)), (''accessKey'', JStr (sdAccessKey s)),
           (''nonce'', jInt (sdNonce s)), (''ethereumAddress'', JStr (sdEthereumAddress s))]"

definition approvalDataJson :: "useApprovalJson \<Rightarrow> json" where
  "approvalDataJson u =
     JObj [(''approvalChanges'', jStrings (ujApprovalChanges u)),
           (''externalApprovalAddresses'', jStrings (ujExternalApprovalAddresses u)),
           (''conversionInHinkalAddress'', jStrings (ujConversionInHinkalAddress u))]"

definition logicArgsData :: "logicArgsJson \<Rightarrow> json" where
  "logicArgsData l =
     JObj ([(''hinkalLogicAction'', jInt (logicActionNumber (ljAction l))),
            (''executeApprovalChanges'', jStrings (ljExecuteApprovalChanges l)),
            (''doPreTxApproval'', JBool (ljDoPreTxApproval l)), (''inHinkalAddress'', JStr (ljInHinkalAddress l)),
            (''useApprovalUtxoData'', JArr (map approvalDataJson (ljUseApprovalUtxoData l)))]
       @ unlessEmpty ''interactionAddress'' (ljInteractionAddress l))"

definition circomBody :: "circomDataJson \<Rightarrow> json" where
  "circomBody c =
     JObj (unlessNil ''rootHashHinkal'' JStr (cjRootHashHinkal c)
       @ [(''erc20TokenAddresses'', jStrings (cjErc20TokenAddresses c)), (''tokenIds'', jStrings (cjTokenIDs c)),
          (''amountChanges'', jStrings (cjAmountChanges c)), (''inputNullifiers'', jRows (cjInputNullifiers c)),
          (''outCommitments'', jRows (cjOutCommitments c)), (''encryptedOutputs'', jRows (cjEncryptedOutputs c)),
          (''stealthAddressStructure'', stealthStructureJson (cjStealth c))]
       @ unlessEmpty ''timeStamp'' (cjTimeStamp c)
       @ unlessNil ''rootHashAccessToken'' JStr (cjRootHashAccessToken c)
       @ [(''relay'', JStr (cjRelay c)), (''externalAddress'', JStr (cjExternalAddress c)),
          (''externalActionMetadata'', JStr (cjExternalActionMetadata c)), (''externalActionId'', JStr (cjExternalActionID c)),
          (''hookData'', hookDataJson (cjHookData c)), (''calldataHash'', JStr (cjCalldataHash c)),
          (''publicSignalCount'', jInt (int (cjPublicSignalCount c))),
          (''onChainCreation'', JArr (map JBool (cjOnChainCreation c))), (''slippageValues'', jStrings (cjSlippageValues c)),
          (''hinkalLogicArgs'', logicArgsData (cjLogicArgs c)), (''feeStructure'', feeJson (cjFeeStructure c)),
          (''signatureData'', signatureDataJson (cjSignatureData c)), (''originalSender'', JStr (cjOriginalSender c))])"

definition commitmentJson :: "commitmentValidation \<Rightarrow> json" where
  "commitmentJson v =
     JObj [(''tokenAddresses'', jStrings (cvTokenAddresses v)), (''inAmounts'', jRows (cvInAmounts v)),
           (''inTimeStamps'', jRows (cvInTimeStamps v)), (''inRandomizations'', jRows (cvInRandomizations v)),
           (''inCommitments'', jRows (cvInCommitments v)), (''inNullifiers'', jRows (cvInNullifiers v)),
           (''proof'', JObj [(''a'', jPair (cvA v)), (''b'', JArr [jPair (fst (cvB v)), jPair (snd (cvB v))]),
                             (''c'', jPair (cvC v))])]"

definition authorizationJson :: "authorizationData \<Rightarrow> json" where
  "authorizationJson a =
     JObj [(''v'', JStr (auV a)), (''r'', JStr (auR a)), (''s'', JStr (auS a)), (''nonce'', JStr (auNonce a)),
           (''address'', JStr (auAddress a)), (''chainId'', JStr (auChainID a))]"

definition tronSignatureJson :: "tronProofSignature \<Rightarrow> json" where
  "tronSignatureJson t = JObj [(''v'', jInt (tsV t)), (''r'', JStr (tsR t)), (''s'', JStr (tsS t))]"

subsection \<open>callrelayer.go\<close>

definition relayerBodyJson :: "relayerBody \<Rightarrow> json" where
  "relayerBodyJson b =
     JObj ([(''chainId'', jInt (rbChainID b)), (''a'', jPair (rbA b)),
            (''b'', JArr [jPair (fst (rbB b)), jPair (snd (rbB b))]), (''c'', jPair (rbC b)),
            (''dimData'', dimDataJson (rbDimData b)), (''circomData'', circomBody (rbCircomData b))]
       @ unlessNil ''commitmentValidationData'' commitmentJson (rbCommitment b)
       @ whenTrue ''withUniswapWorkAround'' (rbUniswapWorkAround b)
       @ unlessNil ''authorizationData'' authorizationJson (rbAuthorization b)
       @ unlessEmpty ''recipientAddress'' (rbRecipient b)
       @ unlessNil ''tronProofSignature'' tronSignatureJson (rbTronSignature b))"

definition relayerBatchBodyJson :: "relayerBatchBody \<Rightarrow> json" where
  "relayerBatchBodyJson b =
     JObj ([(''chainId'', jInt (bbChainID b)), (''transactions'', JArr (map relayerBodyJson (bbTransactions b))),
            (''hashedEthereumAddress'', JStr (bbHashedEthereumAddress b))]
       @ unlessNil ''txCompletionTime'' jInt (bbTxCompletionTime b)
       @ unlessEmpty ''ref'' (bbRef b)
       @ unlessEmpty ''hashedDashboardAccountId'' (bbHashedDashboardAccountID b))"

definition relayerResponseFields :: "(string \<times> (relayerResponse \<Rightarrow> json \<Rightarrow> relayerResponse res)) list" where
  "relayerResponseFields =
     [field ''status'' ontoString rrStatus rrStatus_update,
      field ''message'' ontoString rrMessage rrMessage_update,
      field ''error'' ontoString relayerResponse.rrError relayerResponse.rrError_update]"

definition zeroRelayerResponse :: relayerResponse where
  "zeroRelayerResponse = \<lparr>rrStatus = [], rrMessage = [], relayerResponse.rrError = []\<rparr>"

text \<open>The message of a batch is a pointer to a struct of one field.\<close>

definition batchResponseFields :: "(string \<times> (relayerBatchResponse \<Rightarrow> json \<Rightarrow> relayerBatchResponse res)) list" where
  "batchResponseFields =
     [field ''status'' ontoString rsStatus rsStatus_update,
      field ''message'' (ontoPointer (readFields [field ''scheduleId'' ontoString id id]) []) rsScheduleID rsScheduleID_update,
      field ''error'' ontoString rsError rsError_update]"

definition zeroBatchResponse :: relayerBatchResponse where
  "zeroBatchResponse = \<lparr>rsStatus = [], rsScheduleID = None, rsError = []\<rparr>"

definition CallRelayerTransactAPI :: "('f, 'w) apiLib \<Rightarrow> deploymentMode \<Rightarrow> relayerBody \<Rightarrow> ('w, relayerResponse) action" where
  "CallRelayerTransactAPI L m body =
     apiPost L (GetRelayerURL m @ routeTransact) (relayerBodyJson body) (ontoRecord relayerResponseFields zeroRelayerResponse)"

definition CallRelayerTransactBatchAPI ::
  "('f, 'w) apiLib \<Rightarrow> deploymentMode \<Rightarrow> relayerBatchBody \<Rightarrow> ('w, relayerBatchResponse) action" where
  "CallRelayerTransactBatchAPI L m body =
     apiPost L (GetRelayerURL m @ routeTransactBatch) (relayerBatchBodyJson body)
       (ontoRecord batchResponseFields zeroBatchResponse)"

subsection \<open>solana.go\<close>

definition solanaArgsFields :: "solanaArgs \<Rightarrow> (string \<times> json) list" where
  "solanaArgsFields a =
     [(''proofAArr'', jInts (soProofA a)), (''proofBArr'', jInts (soProofB a)), (''proofCArr'', jInts (soProofC a)),
      (''publicInputsArr'', JArr (map jInts (soPublicInputs a))),
      (''encryptedOutputs'', JArr (map jInts (soEncryptedOutputs a))), (''relayerFee'', JStr (soRelayerFee a))]
     @ unlessNil ''variableRate'' JStr (soVariableRate a)
     @ [(''dimensions'', dimDataJson (soDimensions a))]"

definition solanaInstructionJson :: "solanaHinkalInstruction \<Rightarrow> json" where
  "solanaInstructionJson i =
     JObj [(''accountIndexes'', jInts (siAccountIndexes i)), (''data'', jInts (siData i)), (''programIndex'', jInt (siProgramIndex i))]"

definition solanaTransactAccountsJson :: "solanaTransactAccounts \<Rightarrow> json" where
  "solanaTransactAccountsJson a = JObj ([(''recipient'', JStr (staRecipient a))] @ unlessEmpty ''mint'' (staMint a))"

definition okxAccountData :: "okxAccountJson \<Rightarrow> json" where
  "okxAccountData a = JObj [(''isSigner'', JBool (ojIsSigner a)), (''isWritable'', JBool (ojIsWritable a)), (''pubkey'', JStr (ojPubkey a))]"

definition jStringOrNull :: "string option \<Rightarrow> json" where
  "jStringOrNull x = (case x of None \<Rightarrow> JNull | Some s \<Rightarrow> JStr s)"

definition solanaSwapAccountsJson :: "solanaSwapAccounts \<Rightarrow> json" where
  "solanaSwapAccountsJson a =
     JObj [(''recipient'', JStr (swRecipient a)), (''storageAccount'', JStr (swStorageAccount a)),
           (''storageVault'', JStr (swStorageVault a)), (''swapperAccount'', JStr (swSwapperAccount a)),
           (''mintFrom'', jStringOrNull (swMintFrom a)), (''mintTo'', jStringOrNull (swMintTo a)),
           (''remainingAccounts'', JArr (map okxAccountData (swRemainingAccounts a))),
           (''addressLookupTableAccount'', jStrings (swAddressLookupTables a))]"

text \<open>The arguments and accounts of a body; those of a swap embed the plain ones.\<close>

definition solanaCallFields :: "solanaCall \<Rightarrow> (string \<times> json) list" where
  "solanaCallFields c =
     (case c of
        PlainCall a acc \<Rightarrow> [(''args'', JObj (solanaArgsFields a)), (''accounts'', solanaTransactAccountsJson acc)]
      | SwapCall a ins acc \<Rightarrow>
          [(''args'', JObj (solanaArgsFields a @ [(''hinkalInstructions'', JArr (map solanaInstructionJson ins))])),
           (''accounts'', solanaSwapAccountsJson acc)])"

definition solanaBodyJson :: "solanaBody \<Rightarrow> json" where
  "solanaBodyJson b =
     JObj ([(''chainId'', jInt (sbChainID b)), (''relayAddress'', JStr (sbRelayAddress b)), (''functionName'', JStr (sbFunctionName b))]
       @ solanaCallFields (sbCall b)
       @ unlessNil ''commitmentValidationData'' commitmentJson (sbCommitment b)
       @ unlessEmpty ''recipientAmount'' (sbRecipientAmount b)
       @ unlessEmpty ''displayRecipient'' (sbDisplayRecipient b))"

definition solanaBatchBodyJson :: "solanaBatchBody \<Rightarrow> json" where
  "solanaBatchBodyJson b =
     JObj ([(''chainId'', jInt (zbChainID b)), (''transactions'', JArr (map solanaBodyJson (zbTransactions b))),
            (''hashedEthereumAddress'', JStr (zbHashedEthereumAddress b))]
       @ unlessNil ''txCompletionTime'' jInt (zbTxCompletionTime b)
       @ unlessEmpty ''ref'' (zbRef b)
       @ unlessEmpty ''hashedDashboardAccountId'' (zbHashedDashboardAccountID b))"

definition CallRelayerSolanaTransactAPI :: "('f, 'w) apiLib \<Rightarrow> deploymentMode \<Rightarrow> solanaBody \<Rightarrow> ('w, relayerResponse) action" where
  "CallRelayerSolanaTransactAPI L m body =
     apiPost L (GetRelayerURL m @ routeSolanaTransact) (solanaBodyJson body) (ontoRecord relayerResponseFields zeroRelayerResponse)"

definition CallRelayerSolanaTransactBatchAPI ::
  "('f, 'w) apiLib \<Rightarrow> deploymentMode \<Rightarrow> solanaBatchBody \<Rightarrow> ('w, relayerBatchResponse) action" where
  "CallRelayerSolanaTransactBatchAPI L m body =
     apiPost L (GetRelayerURL m @ routeSolanaTransactBatch) (solanaBatchBodyJson body)
       (ontoRecord batchResponseFields zeroBatchResponse)"

subsection \<open>deposit_and_withdraw_status.go\<close>

definition statusBodyJson :: "statusBody \<Rightarrow> json" where
  "statusBodyJson b =
     JObj (unlessEmpty ''id'' (ubID b)
       @ [(''hashedEthereumAddress'', JStr (ubHashedEthereumAddress b)), (''chainId'', jInt (ubChainID b)),
          (''phase'', JStr (ubPhase b))]
       @ unlessEmpty ''depositTxHash'' (ubDepositTxHash b)
       @ unlessEmpty ''scheduleId'' (ubScheduleID b))"

text \<open>Of the answer only the id is read; the other fields are decoded, which can fail.\<close>

definition statusResponseFields :: "(string \<times> (string \<Rightarrow> json \<Rightarrow> string res)) list" where
  "statusResponseFields =
     [dropField ''status'' (ontoString []), field ''id'' ontoString id id, dropField ''message'' (ontoString []),
      dropField ''phase'' (ontoString []), dropField ''depositTxHash'' (ontoString []), dropField ''scheduleId'' (ontoString []),
      dropField ''updatedAt'' (ontoString [])]"

definition UpdateDepositAndWithdrawStatus :: "('f, 'w) apiLib \<Rightarrow> deploymentMode \<Rightarrow> statusBody \<Rightarrow> ('w, string) action" where
  "UpdateDepositAndWithdrawStatus L m body =
     apiPost L (GetRelayerURL m @ routeUpdateDepositAndWithdrawStatus) (statusBodyJson body)
       (ontoRecord statusResponseFields [])"

section \<open>Properties\<close>

text \<open>
  Nothing of a transaction is lost on the wire: every writer is injective. \<open>omitempty\<close> drops only what the zero value of the
  field says.
\<close>

named_theorems wire_inj

lemma jInt_inject [wire_inj]: "jInt m = jInt n \<longleftrightarrow> m = n"
  by (simp add: jInt_def bigString_inj)

lemma map_inject: "(\<And>x y. f x = f y \<longleftrightarrow> x = y) \<Longrightarrow> map f xs = map f ys \<longleftrightarrow> xs = ys"
  by (simp add: inj_def inj_map_eq_map)

lemma jStrings_inject [wire_inj]: "jStrings xs = jStrings ys \<longleftrightarrow> xs = ys"
  by (simp add: jStrings_def map_inject)

lemma jRows_inject [wire_inj]: "jRows xs = jRows ys \<longleftrightarrow> xs = ys"
  by (simp add: jRows_def map_inject wire_inj)

lemma jInts_inject [wire_inj]: "jInts xs = jInts ys \<longleftrightarrow> xs = ys"
  by (simp add: jInts_def map_inject wire_inj)

lemma jPair_inject [wire_inj]: "jPair p = jPair q \<longleftrightarrow> p = q"
  by (cases p; cases q) (simp add: jPair_def wire_inj)

text \<open>A part that may be absent, before a part whose keys are others, is told apart from it.\<close>

lemma unlessEmpty_append [wire_inj]:
  assumes "k \<notin> fst ` set xs" "k \<notin> fst ` set ys"
  shows "unlessEmpty k s @ xs = unlessEmpty k t @ ys \<longleftrightarrow> s = t \<and> xs = ys"
  using assms by (force simp: unlessEmpty_def)

lemma unlessNil_append [wire_inj]:
  assumes "\<And>x y. f x = f y \<longleftrightarrow> x = y" "k \<notin> fst ` set xs" "k \<notin> fst ` set ys"
  shows "unlessNil k f s @ xs = unlessNil k f t @ ys \<longleftrightarrow> s = t \<and> xs = ys"
  using assms by (force simp: unlessNil_def split: option.splits)

lemma whenTrue_append [wire_inj]:
  assumes "k \<notin> fst ` set xs" "k \<notin> fst ` set ys"
  shows "whenTrue k b @ xs = whenTrue k c @ ys \<longleftrightarrow> b = c \<and> xs = ys"
  using assms by (force simp: whenTrue_def)

lemma absent_keys [simp]:
  "fst ` set (unlessEmpty k s) = (if s = [] then {} else {k})"
  "fst ` set (unlessNil k f x) = (if x = None then {} else {k})"
  "fst ` set (whenTrue k b) = (if b then {k} else {})"
  by (auto simp: unlessEmpty_def unlessNil_def whenTrue_def split: option.splits)

lemma unlessEmpty_inject [wire_inj]: "unlessEmpty k s = unlessEmpty k t \<longleftrightarrow> s = t"
  by (auto simp: unlessEmpty_def)

lemma unlessNil_inject [wire_inj]: "(\<And>x y. f x = f y \<longleftrightarrow> x = y) \<Longrightarrow> unlessNil k f s = unlessNil k f t \<longleftrightarrow> s = t"
  by (auto simp: unlessNil_def split: option.splits)

lemma dimDataJson_inject [wire_inj]: "dimDataJson d = dimDataJson e \<longleftrightarrow> d = e"
  by (cases d; cases e) (simp add: dimDataJson_def wire_inj)

lemma stealthStructureJson_inject [wire_inj]: "stealthStructureJson d = stealthStructureJson e \<longleftrightarrow> d = e"
  by (cases d; cases e) (simp add: stealthStructureJson_def)

lemma hookDataJson_inject [wire_inj]: "hookDataJson d = hookDataJson e \<longleftrightarrow> d = e"
  by (cases d; cases e) (simp add: hookDataJson_def)

lemma feeJson_inject [wire_inj]: "feeJson d = feeJson e \<longleftrightarrow> d = e"
  by (cases d; cases e) (simp add: feeJson_def)

lemma signatureDataJson_inject [wire_inj]: "signatureDataJson d = signatureDataJson e \<longleftrightarrow> d = e"
  by (cases d; cases e) (simp add: signatureDataJson_def wire_inj)

lemma approvalDataJson_inject [wire_inj]: "approvalDataJson d = approvalDataJson e \<longleftrightarrow> d = e"
  by (cases d; cases e) (simp add: approvalDataJson_def wire_inj)

lemma logicActionNumber_inject [wire_inj]: "logicActionNumber a = logicActionNumber b \<longleftrightarrow> a = b"
  by (cases a; cases b) simp_all

lemma logicArgsData_inject [wire_inj]: "logicArgsData d = logicArgsData e \<longleftrightarrow> d = e"
  by (cases d; cases e) (simp add: logicArgsData_def wire_inj map_inject)

lemma commitmentJson_inject [wire_inj]: "commitmentJson d = commitmentJson e \<longleftrightarrow> d = e"
  by (cases d; cases e) (auto simp: commitmentJson_def wire_inj prod_eq_iff)

lemma authorizationJson_inject [wire_inj]: "authorizationJson d = authorizationJson e \<longleftrightarrow> d = e"
  by (cases d; cases e) (simp add: authorizationJson_def)

lemma tronSignatureJson_inject [wire_inj]: "tronSignatureJson d = tronSignatureJson e \<longleftrightarrow> d = e"
  by (cases d; cases e) (simp add: tronSignatureJson_def wire_inj)

lemma circomBody_inject [wire_inj]: "circomBody d = circomBody e \<longleftrightarrow> d = e"
  by (cases d; cases e) (simp add: circomBody_def wire_inj map_inject image_Un)

lemma relayerBodyJson_inject [wire_inj]: "relayerBodyJson d = relayerBodyJson e \<longleftrightarrow> d = e"
  by (cases d; cases e) (auto simp: relayerBodyJson_def wire_inj image_Un prod_eq_iff)

lemma relayerBatchBodyJson_inject [wire_inj]: "relayerBatchBodyJson d = relayerBatchBodyJson e \<longleftrightarrow> d = e"
  by (cases d; cases e) (auto simp: relayerBatchBodyJson_def wire_inj map_inject image_Un)

lemma solanaArgsFields_append [wire_inj]:
  "solanaArgsFields d @ xs = solanaArgsFields e @ ys \<longleftrightarrow> d = e \<and> xs = ys"
  by (cases d; cases e) (auto simp: solanaArgsFields_def unlessNil_def wire_inj map_inject split: option.splits)

lemma solanaArgsFields_inject [wire_inj]: "solanaArgsFields d = solanaArgsFields e \<longleftrightarrow> d = e"
  using solanaArgsFields_append[of d "[]" e "[]"] by simp

lemma solanaArgsFields_neq [wire_inj]:
  "solanaArgsFields d \<noteq> solanaArgsFields e @ [x]" "solanaArgsFields e @ [x] \<noteq> solanaArgsFields d"
  using solanaArgsFields_append[of d "[]" e "[x]"] solanaArgsFields_append[of e "[x]" d "[]"] by simp_all

lemma solanaInstructionJson_inject [wire_inj]: "solanaInstructionJson d = solanaInstructionJson e \<longleftrightarrow> d = e"
  by (cases d; cases e) (simp add: solanaInstructionJson_def wire_inj)

lemma solanaTransactAccountsJson_inject [wire_inj]: "solanaTransactAccountsJson d = solanaTransactAccountsJson e \<longleftrightarrow> d = e"
  by (cases d; cases e) (simp add: solanaTransactAccountsJson_def wire_inj)

lemma okxAccountData_inject [wire_inj]: "okxAccountData d = okxAccountData e \<longleftrightarrow> d = e"
  by (cases d; cases e) (simp add: okxAccountData_def)

lemma jStringOrNull_inject [wire_inj]: "jStringOrNull d = jStringOrNull e \<longleftrightarrow> d = e"
  by (cases d; cases e) (simp_all add: jStringOrNull_def)

lemma solanaSwapAccountsJson_inject [wire_inj]: "solanaSwapAccountsJson d = solanaSwapAccountsJson e \<longleftrightarrow> d = e"
  by (cases d; cases e) (simp add: solanaSwapAccountsJson_def wire_inj map_inject)

lemma solanaCallFields_append [wire_inj]: "solanaCallFields d @ xs = solanaCallFields e @ ys \<longleftrightarrow> d = e \<and> xs = ys"
  by (cases d; cases e) (auto simp: solanaCallFields_def wire_inj map_inject)

lemma solanaBodyJson_inject [wire_inj]: "solanaBodyJson d = solanaBodyJson e \<longleftrightarrow> d = e"
  by (cases d; cases e) (auto simp: solanaBodyJson_def wire_inj image_Un)

lemma solanaBatchBodyJson_inject [wire_inj]: "solanaBatchBodyJson d = solanaBatchBodyJson e \<longleftrightarrow> d = e"
  by (cases d; cases e) (auto simp: solanaBatchBodyJson_def wire_inj map_inject image_Un)

lemma SerializeCircomData_inject [wire_inj]: "SerializeCircomData c = SerializeCircomData d \<longleftrightarrow> c = d"
  by (metis relayed_form_reads_back res.inject(1))

text \<open>C22: What the relayer is sent for a transaction determines the transaction: its chain, the three points of the proof, its
  dimensions, the whole circuit data and everything optional. Two transactions that differ in any of it have different bodies.
  Of the call data only the public signals stay behind.\<close>

theorem relayed_body_determines:
  "relayerBodyJson (batchBody chainID i) = relayerBodyJson (batchBody chainID' j) \<longleftrightarrow>
     chainID = chainID' \<and> zcA (biZkCallData i) = zcA (biZkCallData j) \<and> zcB (biZkCallData i) = zcB (biZkCallData j) \<and>
     zcC (biZkCallData i) = zcC (biZkCallData j) \<and> i\<lparr>biZkCallData := calldata\<rparr> = j\<lparr>biZkCallData := calldata\<rparr>"
  by (cases i; cases j) (auto simp: batchBody_def wire_inj)

end
