(* ===== verification/Spec2Isabelle.thy ===== *)
theory Spec2Isabelle
  imports GoPrelude MerklePaths CryptoKeysProps Chains SolanaDataProps EmitterLiveness SnapshotProps PaddingProps
    SolanaAccountsProps ZkProofProps CircuitData EnclaveProps EvmSendProps TronSendProps PrivateTxProps DepositTxProps
    ProoflessTx ClaimTx StuckTx SolanaEmitter HinkalStateProps HinkalProviders Quotes HinkalApi
    RelayerCalls
begin

text \<open>
  A model of the Hinkal Go SDK: private balances and private transactions on EVM chains, Tron and Solana.

  \<^bold>\<open>The program.\<close> A wallet holds \<open>utxos\<close>: an amount of a token bound to a stealth address. Their commitments are
  the leaves of a Merkle tree that a contract keeps; spending one publishes its nullifier. The SDK follows the
  chain with event emitters, feeds the events to snapshot services that rebuild the tree, the encrypted outputs
  and the nullifiers, decrypts the outputs that belong to the wallet's keys, and, for a transaction, chooses and
  pads the inputs, makes the outputs, computes the inputs of a circuit and its signed message, and lets an
  enclave prove it; the proof goes to the contract from the wallet itself or through a relayer. Servers, nodes and the
  enclave are reached through HTTP calls and provider adapters, and the object \<open>Hinkal\<close> holds the state and offers the
  entry points. Components call one another in that order, which is also the order of the theories.

  \<^bold>\<open>How the code is modelled.\<close> A struct is a \<open>record\<close>, an \<open>error\<close> a value of \<open>go_error\<close>, and the outcome of a function
  that can fail a \<open>res\<close>: \<open>Ok\<close>, \<open>Err\<close> or \<open>Panic\<close> (index out of range, a nil dereference, a failed \<open>Must\<close>). A method that
  changes its receiver is an \<open>action\<close>: it returns the outcome and the new state. \<open>*big.Int\<close> is \<open>int\<close>, or \<open>int option\<close>
  where nil is possible; \<open>uint64\<close> and bytes are words, so \<open>+\<close> and \<open>-\<close> wrap; Go's text is a list of bytes, \<open>string\<close>.
  A loop that need not end is a \<open>partial_function (option)\<close> and \<open>None\<close> is the run that does not end:
  \<open>siblingLoop\<close>, \<open>sideLoop\<close>, \<open>randomizationLoop\<close>, \<open>pageLoop\<close>, \<open>padLoop\<close>, \<open>signaturePages\<close>, \<open>stuckLoop\<close> and the loops that wait
  for a transaction (\<open>waitForTransactionReceipt\<close>, \<open>confirmationLoop\<close>, \<open>signatureLoop\<close>, \<open>tronBlockLoop\<close>,
  \<open>waitForTronTransaction\<close>). Where the code always leaves the loop that is a theorem (\<open>randomization_found\<close>, \<open>padding_ends\<close>,
  \<open>pages_partition\<close>, \<open>solana_scan_complete\<close>); a wait for a chain that never answers need not end. The only fuel is the
  code's own counter of retries or attempts (\<open>maxRetries = 20\<close> halvings of a range, \<open>splitReach\<close> in the proofs says how far
  they reach; the attempts of a wait or of a broadcast are the constants of the code).

  \<^bold>\<open>Parameters.\<close> What is not in the repository is an argument. \<open>cryptoLib\<close> holds the primitives (Poseidon, the field,
  Keccak, Baby Jubjub, Ed25519, X25519, NaCl boxes, base58, address checksums); \<open>rpcClient\<close>, \<open>walletEnv\<close> and \<open>zkEnv\<close> hold the
  nodes, servers, the enclave, clocks and random sources; \<open>abiLib\<close>, \<open>packLib\<close> and \<open>evmLib\<close> the ABI and EIP-712 encoders and
  ECDSA; \<open>solanaLib\<close> the PDA search; \<open>jsonLib\<close> and the cache's text codec JSON syntax; \<open>floats\<close> floating point. What a theorem
  needs of them is a named hypothesis: \<open>hashesOk\<close> (hashes exist and are natural numbers), \<open>boxLaws\<close> and \<open>boxPair\<close> (a box
  opens with its key pair), \<open>base58Codec\<close>, \<open>hexLaw\<close> (\<open>FromHex\<close> reads \<open>hexEncode\<close>), \<open>keyLaw\<close> (key texts read back), \<open>pdaLaw\<close>
  (the PDA search returns one of its candidates), \<open>usableNode\<close>, \<open>honestNode\<close> (a node answers with the events
  of the range). Each is shown to hold of a concrete instance (\<open>toyCrypto\<close>, \<open>toyEmitter\<close>, \<open>toyZk\<close> and their like).

  \<^bold>\<open>Theories.\<close>
  \<^item> \<open>GoPrelude\<close>: outcomes, actions, text, numbers as text, bytes; the collection \<open>res_simps\<close>.
  \<^item> \<open>MerkleTree\<close>, \<open>MerkleInvariant\<close>, \<open>MerkleProofs\<close>, \<open>MerklePaths\<close>: \<open>data-structures/merkletree/impl.go\<close>. A weak invariant
    holds after every history of inserts and removes within the capacity: every inner node is the hash of its children and the
    leaves are the last values written. Count and index need that only written leaves are removed; a removed absent leaf and
    an insertion past the capacity are shown to break the tree. The root is the reference hash of the leaves, insertion refines
    a map update, sibling paths lead to the root, JSON reads back.
  \<^item> \<open>Amounts\<close>, \<open>Addresses\<close>: \<open>internal/functions/utils\<close> and \<open>web3/ether.go\<close>. Conversions and their round trips.
  \<^item> \<open>CryptoKeys\<close>, \<open>CryptoKeysProps\<close>: \<open>cryptokeys\<close> and \<open>internal/crypto\<close>. Key derivation, stealth addresses, sealed boxes;
    the randomization loop ends with the first fitting value, sealed keys open for each recipient.
  \<^item> \<open>Chains\<close>: \<open>constants\<close>. Chain ids, registries, deployment data behind a cache.
  \<^item> \<open>Utxo\<close>, \<open>UtxoCodec\<close>, \<open>UtxoCodecProps\<close>, \<open>UtxoTyping\<close>: \<open>internal/utxo\<close> and \<open>balance/decrypt.go\<close>. The lazily cached
    hashes, encryption and the three decoders; well-formedness as a typing with preservation and progress.
  \<^item> \<open>SolanaData\<close>, \<open>SolanaDataProps\<close>: \<open>internal/data-structures/solana\<close> and \<open>functions/solana\<close>. Program events, the Merkle
    account, program addresses, the calldata hash and what it binds.
  \<^item> \<open>ChainEvents\<close>, \<open>Emitter\<close>, \<open>EmitterProps\<close>, \<open>EmitterLiveness\<close>: \<open>blockchainevent\<close> and \<open>eventservice\<close>. One method call or
    timer tick is one step; no history of failures loses an event, and a polling emitter that meets an answering
    node again and again delivers every event.
  \<^item> \<open>SnapshotService\<close>, \<open>Snapshots\<close>, \<open>SnapshotProps\<close>: the generic service over the record of its delegate's methods, and the
    four delegates of \<open>internal/data-structures/snapshot\<close>. Pages build the right tree, are idempotent, and survive a
    save and a load.
  \<^item> \<open>Cache\<close>, \<open>Balance\<close>, \<open>BalanceTokens\<close>, \<open>BalanceProps\<close>, \<open>SpendProps\<close>, \<open>PaddingProps\<close>: \<open>internal/cache\<close> and \<open>functions/balance\<close>.
    The incremental scan equals a full scan, only unspent outputs are returned, balances are sums, rows of inputs are
    sorted and rectangular and hold only what was found and padding.
  \<^item> \<open>Fees\<close>, \<open>PreTransaction\<close>, \<open>PreTransactionProps\<close>: \<open>functions/fees\<close> and \<open>functions/pre-transaction\<close>. A fee is charged
    once, a withdrawal fits, outputs conserve amounts, recipient texts read back.
  \<^item> \<open>SolanaAccounts\<close>, \<open>SolanaAccountsProps\<close>: the accounts of the Solana program and converted swaps.
  \<^item> \<open>Emporium\<close>, \<open>EmporiumProps\<close>: \<open>functions/private-wallet\<close>. Operations read back, bridges are funded.
  \<^item> \<open>ZkFiles\<close>, \<open>CircuitData\<close>, \<open>ZkProof\<close>, \<open>ConstructProof\<close>, \<open>ZkProofProps\<close>: \<open>functions/snarkjs\<close>, up to the whole
    of \<open>ConstructZkProof\<close>. Its data describes the utxos it is made from, the paths of the inputs lead to the root
    (by the theorems of the tree), inputs belong to the wallet, the signed message fixes the transaction.
  \<^item> \<open>Enclave\<close>, \<open>EnclaveProps\<close>: \<open>functions/enclave\<close>. The handshake, sealed requests and stored utxos; a request is
    sealed to the key of the handshake and opens, with that key, to the keys of the wallet. Secrecy is a property of the
    primitives and is not modelled.
  \<^item> \<open>TransactCodec\<close>, \<open>SolanaProof\<close>: \<open>contractabi\<close>, \<open>snarkjs/serialize.go\<close> and \<open>construct_solana_zk_proof.go\<close>. What is sent to the
    contract, to the relayer and to the Solana program.
  \<^item> \<open>EvmSend\<close>, \<open>EvmSendProps\<close>, \<open>TronSend\<close>, \<open>TronSendProps\<close>: \<open>functions/web3\<close> and \<open>functions/tron\<close>. Approvals, simulations, direct calls
    and relayed bodies; after its approvals a direct call is sent exactly once, from a state that covers it;
    the allowance laws (\<open>approvalLaws\<close>) are those of an ERC-20 token, per owner and spender.
  \<^item> \<open>PrivateTx\<close>, \<open>ProoflessTx\<close>, \<open>ClaimTx\<close>, \<open>DepositTx\<close>, \<open>BridgeTx\<close>, \<open>OnChainUtxos\<close> with \<open>PrivateTxProps\<close>,
    \<open>DepositTxProps\<close>: the transactions of \<open>functions/transactions\<close> on EVM chains and Tron. Transfers conserve
    amounts up to the fee, wrappers approve what they take, a claim spends the whole utxo, every recipient of a
    deposit is paid from a utxo of its own, which came from the contract and is in the tree.
  \<^item> \<open>SolanaDeposit\<close>, \<open>SolanaTx\<close>, \<open>SolanaSwap\<close>, \<open>SolanaPay\<close>, \<open>NearTx\<close>: the same on Solana, and bridges through NEAR Intents.
  \<^item> \<open>StuckTx\<close>: \<open>withdraw_stuck_utxos.go\<close>. On EVM and Tron only what the contract calls unspent is
    withdrawn again; on Solana nothing is asked.
  \<^item> \<open>JsonDecode\<close>, \<open>SolanaRpc\<close>: how \<open>encoding/json\<close> fills Go data, and the JSON-RPC client of Solana.
  \<^item> \<open>SolanaEmitter\<close>, \<open>SolanaSnapshots\<close>: \<open>eventservice/solana_emitter.go\<close> and the Solana delegates of
    \<open>snapshot\<close>. Reading the history page by page is reading all of it; a failed fetch loses events until the
    emitter is set back.
  \<^item> \<open>Signers\<close>, \<open>Providers\<close>: \<open>signers\<close> and \<open>providers\<close>. Keys, the three adapters and their waiting loops.
  \<^item> \<open>HinkalState\<close>, \<open>HinkalProviders\<close>, \<open>HinkalTx\<close>, \<open>HinkalApi\<close>, \<open>HinkalStateProps\<close>:
    \<open>data-structures/hinkal\<close> and \<open>snarkjs/fetch_on_chain_root_hashes.go\<close>. The SDK object, its adapters and entry points; resets of different
    chains do not interfere under any schedule, an adapter always belongs to the family of its chain.
  \<^item> \<open>ApiClient\<close>, \<open>ApiCalls\<close>, \<open>ApiQuotes\<close>, \<open>HinkalApi\<close>, \<open>RelayerCalls\<close>: \<open>internal/api\<close> and \<open>constants/routes.go\<close>. The HTTP client and
    every endpoint: its path, its body and the decoding of its answer. A body on the wire determines the transaction.
  \<^item> \<open>Quotes\<close>: the quotes of \<open>functions/web3\<close> and \<open>functions/integrations\<close>. A swap goes through the deepest pool.

  \<^bold>\<open>Interfaces.\<close> Where one component relies on another through an interface the contract is a locale, interpreted on the
  model: the delegates of a snapshot service (\<open>snapshot_delegate\<close>), what their JSON texts must keep (\<open>snapshot_codec\<close>), the
  cache devices (\<open>cache_device\<close>), and a state made of parts with keys whose steps touch only their own part (\<open>keyed_state\<close>,
  used for the caches and for the SDK object).

  \<^bold>\<open>Not modelled.\<close> The \<open>context\<close> argument (cancellation), logging, and the scheduling of goroutines: a method that holds its mutex
  throughout is one step, and where several goroutines run the theorems hold for every order of their steps. Code that is
  not in the repository, which is a parameter as said above: ABI packing and parsing (so \<open>snarkjs/abi_types.go\<close>, tables of
  types for the packer, has no counterpart), Borsh, the chain libraries, the transport of HTTP. The packages \<open>hinkal.go\<close>,
  \<open>fees\<close>, \<open>recipient\<close>, \<open>utxo\<close>, \<open>bridge\<close>, \<open>tokens\<close> and \<open>swap\<close> only give other functions a public name. Texts of errors are kept where
  the code compares or wraps them, and the text \<open>encoding/json\<close> gives an error is one fixed text.
\<close>

end
